(* ===== verification/Prelude.thy ===== *)
theory Prelude
  imports "HOL-Library.Word" "HOL-Library.Monad_Syntax"
begin

text \<open>
  Shared vocabulary of the development: the UEFI integer widths, status codes, console
  output, byte-addressed memory with little-endian reads, and the two loop shapes by
  which the tools walk variable-length structures.  The widths are those of the X64
  build, so \<open>UINTN\<close> and pointers have 64 bits.
\<close>

unbundle bit_operations_syntax

section \<open>Integers and status codes\<close>

type_synonym u8 = "8 word"
type_synonym u16 = "16 word"
type_synonym u32 = "32 word"
type_synonym u64 = "64 word"

text \<open>
  An address inside an object the code walks.  Pointer arithmetic stays inside objects
  in C, so addresses are natural numbers; values that are computed from table contents
  keep their width.
\<close>

type_synonym addr = nat

abbreviation (input) NULL :: addr where
  "NULL \<equiv> 0"

text \<open>
  The status codes the tools produce or test by name.  Any other code that firmware
  returns is an \<open>EFI_OTHER_ERROR\<close> or an \<open>EFI_WARNING\<close>, as the macro
  \<open>EFI_ERROR\<close> tells them apart.
\<close>

datatype efi_status =
    EFI_SUCCESS
  | EFI_INVALID_PARAMETER
  | EFI_UNSUPPORTED
  | EFI_BAD_BUFFER_SIZE
  | EFI_DEVICE_ERROR
  | EFI_OUT_OF_RESOURCES
  | EFI_NOT_FOUND
  | EFI_NO_MAPPING
  | EFI_ALREADY_STARTED
  | EFI_END_OF_MEDIA
  | EFI_OTHER_ERROR nat
  | EFI_WARNING nat

fun EFI_ERROR :: "efi_status \<Rightarrow> bool" where
  "EFI_ERROR EFI_SUCCESS = False"
| "EFI_ERROR (EFI_WARNING n) = False"
| "EFI_ERROR s = True"

section \<open>Console output\<close>

text \<open>
  One \<open>Print\<close> call is a format and its arguments.  Formats are kept without dot
  leaders, padding, quotation marks and line feeds, the 76-star rulers as one \<open>***\<close>, and
  without the lines of \<open>#\<close> signs around a headline.
  \<open>Ascii\<close> and \<open>Uni\<close> are strings of \<open>CHAR8\<close> and \<open>CHAR16\<close>.
\<close>

datatype arg = Hex u64 | Txt string | Sts efi_status | Ascii "u8 list" | Uni "u16 list"

datatype out = Print string "arg list"

abbreviation hx :: "'a::len word \<Rightarrow> arg" where
  "hx w \<equiv> Hex (ucast w)"

abbreviation hxn :: "nat \<Rightarrow> arg" where
  "hxn n \<equiv> Hex (of_nat n)"

section \<open>Memory\<close>

type_synonym mem = "addr \<Rightarrow> u8"

fun le_nat :: "u8 list \<Rightarrow> nat" where
  "le_nat [] = 0"
| "le_nat (b # bs) = unat b + 256 * le_nat bs"

definition bytes_at :: "mem \<Rightarrow> addr \<Rightarrow> nat \<Rightarrow> u8 list" where
  "bytes_at m p n = map (\<lambda>i. m (p + i)) [0..<n]"

definition rd :: "mem \<Rightarrow> addr \<Rightarrow> nat \<Rightarrow> nat" where
  "rd m p n = le_nat (bytes_at m p n)"

definition rd16 :: "mem \<Rightarrow> addr \<Rightarrow> u16" where
  "rd16 m p = of_nat (rd m p 2)"

definition rd32 :: "mem \<Rightarrow> addr \<Rightarrow> u32" where
  "rd32 m p = of_nat (rd m p 4)"

definition rd64 :: "mem \<Rightarrow> addr \<Rightarrow> u64" where
  "rd64 m p = of_nat (rd m p 8)"

text \<open>The inverse direction: the little-endian bytes of a number, and a memory image.\<close>

fun enc :: "nat \<Rightarrow> nat \<Rightarrow> u8 list" where
  "enc 0 v = []"
| "enc (Suc n) v = of_nat (v mod 256) # enc n (v div 256)"

definition holds :: "mem \<Rightarrow> addr \<Rightarrow> u8 list \<Rightarrow> bool" where
  "holds m p bs \<longleftrightarrow> bytes_at m p (length bs) = bs"

definition mem_of :: "addr \<Rightarrow> u8 list \<Rightarrow> mem" where
  "mem_of base bs a = (if base \<le> a \<and> a < base + length bs then bs ! (a - base) else 0)"

lemma length_bytes_at [simp]: "length (bytes_at m p n) = n"
  by (simp add: bytes_at_def)

lemma length_enc [simp]: "length (enc n v) = n"
  by (induction n arbitrary: v) auto

lemma bytes_at_add: "bytes_at m p (a + b) = bytes_at m p a @ bytes_at m (p + a) b"
proof -
  have "map (\<lambda>i. m (p + i)) [a..<a + b] = map (\<lambda>i. m (p + a + i)) [0..<b]"
    by (rule nth_equalityI) (auto simp: add.assoc)
  then show ?thesis
    by (simp add: bytes_at_def upt_add_eq_append [of 0 a b])
qed

lemma holds_append [simp]:
  "holds m p (xs @ ys) \<longleftrightarrow> holds m p xs \<and> holds m (p + length xs) ys"
  by (simp add: holds_def bytes_at_add append_eq_append_conv)

lemma holds_Nil [simp]: "holds m p []"
  by (simp add: holds_def bytes_at_def)

lemma bytes_at_Suc: "bytes_at m p (Suc n) = m p # bytes_at m (Suc p) n"
  by (rule nth_equalityI) (auto simp: bytes_at_def nth_Cons' simp del: upt_Suc)

lemma holds_Cons [simp]: "holds m p (x # xs) \<longleftrightarrow> m p = x \<and> holds m (Suc p) xs"
  by (simp add: holds_def bytes_at_Suc)

lemma bytes_at_mem_of:
  "base + off + n \<le> base + length bs \<Longrightarrow>
   bytes_at (mem_of base bs) (base + off) n = take n (drop off bs)"
  by (rule nth_equalityI) (auto simp: bytes_at_def mem_of_def)

lemma holds_mem_of: "holds (mem_of base bs) base bs"
  using bytes_at_mem_of [of base 0 "length bs" bs] by (simp add: holds_def)

lemma le_nat_enc: "le_nat (enc n v) = v mod 256 ^ n"
proof (induction n arbitrary: v)
  case 0
  then show ?case by simp
next
  case (Suc n)
  have "unat (of_nat (v mod 256) :: u8) = v mod 256"
    by (simp add: unat_of_nat)
  then show ?case
    by (simp add: Suc.IH mod_mult2_eq)
qed

lemma le_nat_less: "le_nat bs < 256 ^ length bs"
proof (induction bs)
  case Nil
  then show ?case by simp
next
  case (Cons b bs)
  have "unat b < 256"
    using unsigned_less [of b] by simp
  with Cons show ?case by simp
qed

lemma rd_holds: "holds m p (enc n v) \<Longrightarrow> rd m p n = v mod 256 ^ n"
  by (simp add: holds_def rd_def le_nat_enc)

lemma rd_less: "rd m p n < 256 ^ n"
  using le_nat_less [of "bytes_at m p n"] by (simp add: rd_def)

lemma unat_mod_width: "unat (v :: 'a::len word) mod 2 ^ LENGTH('a) = unat v"
  by (simp add: unsigned_less)

lemmas unat_mod_widths =
  unat_mod_width [where 'a = 16, simplified] unat_mod_width [where 'a = 32, simplified]
  unat_mod_width [where 'a = 64, simplified]

lemma unat_ucast: "unat (ucast (w :: 'a::len word) :: 'b::len word) = unat w mod 2 ^ LENGTH('b)"
  by (simp add: unsigned_ucast_eq take_bit_eq_mod)

lemma unat_width: "unat (w :: 'a::len word) < 2 ^ LENGTH('a)"
  by (rule unsigned_less)

lemmas unat_widths =
  unat_width [where 'a = 8, simplified] unat_width [where 'a = 16, simplified]
  unat_width [where 'a = 32, simplified] unat_width [where 'a = 64, simplified]

lemma unat_ucast_up:
  "LENGTH('a::len) \<le> LENGTH('b::len) \<Longrightarrow> unat (ucast (w :: 'a word) :: 'b word) = unat w"
  using less_le_trans [OF unat_width [of w] power_increasing [of "LENGTH('a)" "LENGTH('b)" "2::nat"]]
  by (simp add: unat_ucast)

lemma rd16_holds: "holds m p (enc 2 (unat v)) \<Longrightarrow> rd16 m p = v"
  by (simp add: rd16_def rd_holds unat_mod_widths)

lemma rd32_holds: "holds m p (enc 4 (unat v)) \<Longrightarrow> rd32 m p = v"
  by (simp add: rd32_def rd_holds unat_mod_widths)

lemma rd64_holds: "holds m p (enc 8 (unat v)) \<Longrightarrow> rd64 m p = v"
  by (simp add: rd64_def rd_holds unat_mod_widths)

end
