(* ===== verification/Walks.thy ===== *)
theory Walks
  imports Prelude
begin

text \<open>
  The loop by which the tools walk a table of variable-length structures:
  \<^verbatim>\<open>
    p = first;
    while (p < end) { body (p); p = p + p->Length; }
  \<close>
  The body may return from the enclosing function (\<open>Inl\<close>), go on (\<open>Inr\<close>), or not
  return (\<open>None\<close>).  Nothing bounds the loop when a length is zero, so \<open>walk\<close> is
  partial: \<open>None\<close> is "does not return".
\<close>

partial_function (option) walk ::
  "(addr \<Rightarrow> nat) \<Rightarrow> (addr \<Rightarrow> 's \<Rightarrow> ('e + 's) option) \<Rightarrow> addr \<Rightarrow> addr \<Rightarrow> 's \<Rightarrow> ('e + 's) option"
where
  "walk len body p e s =
     (if p < e
      then Option.bind (body p s)
             (\<lambda>r. case r of Inl x \<Rightarrow> Some (Inl x)
                  | Inr s' \<Rightarrow> walk len body (p + len p) e s')
      else Some (Inr s))"

text \<open>The same body over a given list of structures, left to right.\<close>

fun visit :: "('a \<Rightarrow> 's \<Rightarrow> ('e + 's) option) \<Rightarrow> 'a list \<Rightarrow> 's \<Rightarrow> ('e + 's) option" where
  "visit body [] s = Some (Inr s)"
| "visit body (q # qs) s =
     Option.bind (body q s)
       (\<lambda>r. case r of Inl x \<Rightarrow> Some (Inl x) | Inr s' \<Rightarrow> visit body qs s')"

text \<open>\<open>chain len e p qs\<close>: the structures met from \<open>p\<close> up to \<open>e\<close> are at \<open>qs\<close>.\<close>

fun chain :: "(addr \<Rightarrow> nat) \<Rightarrow> addr \<Rightarrow> addr \<Rightarrow> addr list \<Rightarrow> bool" where
  "chain len e p [] \<longleftrightarrow> e \<le> p"
| "chain len e p (q # qs) \<longleftrightarrow> q = p \<and> p < e \<and> chain len e (p + len p) qs"

lemma walk_stop [simp]: "e \<le> p \<Longrightarrow> walk len body p e s = Some (Inr s)"
  by (subst walk.simps) simp

lemma walk_step:
  "p < e \<Longrightarrow> walk len body p e s =
     Option.bind (body p s)
       (\<lambda>r. case r of Inl x \<Rightarrow> Some (Inl x) | Inr s' \<Rightarrow> walk len body (p + len p) e s')"
  by (subst walk.simps) simp

lemma walk_chain: "chain len e p qs \<Longrightarrow> walk len body p e s = visit body qs s"
proof (induction qs arbitrary: p s)
  case Nil
  then show ?case by simp
next
  case (Cons q qs)
  from Cons.prems have q: "q = p" "p < e" and rest: "chain len e (p + len p) qs"
    by auto
  have "walk len body (p + len p) e s' = visit body qs s'" for s'
    using rest by (rule Cons.IH)
  with q show ?case by (simp add: walk_step cong: sum.case_cong)
qed

text \<open>Positive lengths make a finite chain: the measure is the distance to the end.\<close>

lemma chain_exists:
  assumes "\<And>q. p \<le> q \<Longrightarrow> q < e \<Longrightarrow> 0 < len q"
  shows "\<exists>qs. chain len e p qs"
  using assms
proof (induction "e - p" arbitrary: p rule: less_induct)
  case less
  show ?case
  proof (cases "p < e")
    case False
    then have "chain len e p []" by simp
    then show ?thesis ..
  next
    case True
    with less.prems have "0 < len p" by simp
    with True have "e - (p + len p) < e - p" by simp
    moreover have "\<And>q. p + len p \<le> q \<Longrightarrow> q < e \<Longrightarrow> 0 < len q"
      using less.prems by simp
    ultimately obtain qs where "chain len e (p + len p) qs"
      using less.hyps by blast
    with True have "chain len e p (p # qs)" by simp
    then show ?thesis ..
  qed
qed

lemma chain_unique: "chain len e p qs \<Longrightarrow> chain len e p rs \<Longrightarrow> qs = rs"
proof (induction qs arbitrary: p rs)
  case Nil
  then show ?case by (cases rs) auto
next
  case (Cons q qs)
  then show ?case by (cases rs) auto
qed

lemma chain_bounds: "chain len e p qs \<Longrightarrow> q \<in> set qs \<Longrightarrow> p \<le> q \<and> q < e"
  by (induction qs arbitrary: p) fastforce+

text \<open>
  A structure of length zero that the body does not return from is never left:
  no number of iterations reaches the end.
\<close>

lemma walk_stuck:
  assumes zero: "len p = 0" and "p < e"
    and cont: "\<And>s r. body p s = Some r \<Longrightarrow> \<exists>s'. r = Inr s'"
  shows "walk len body p e s = None"
proof -
  have "q \<noteq> p" if ret: "walk len body q e s = Some r" for q s r
  proof -
    have "len = len \<longrightarrow> body = body \<longrightarrow> e = e \<longrightarrow> q \<noteq> p"
    proof (rule walk.raw_induct
        [where P = "\<lambda>len' body' q e' s r. len' = len \<longrightarrow> body' = body \<longrightarrow> e' = e \<longrightarrow> q \<noteq> p",
         OF _ ret])
      fix w len' body' q e' s r
      assume IH: "\<And>len' body' q e' s r. w len' body' q e' s = Some r \<Longrightarrow>
          len' = len \<longrightarrow> body' = body \<longrightarrow> e' = e \<longrightarrow> q \<noteq> p"
        and eq: "(if q < e' then Option.bind (body' q s)
             (\<lambda>r. case r of Inl x \<Rightarrow> Some (Inl x) | Inr s' \<Rightarrow> w len' body' (q + len' q) e' s')
           else Some (Inr s)) = Some r"
      show "len' = len \<longrightarrow> body' = body \<longrightarrow> e' = e \<longrightarrow> q \<noteq> p"
      proof (intro impI notI)
        assume eqs: "len' = len" "body' = body" "e' = e" "q = p"
        with eq \<open>p < e\<close> obtain r' where r': "body p s = Some r'"
          and r: "(case r' of Inl x \<Rightarrow> Some (Inl x) | Inr s' \<Rightarrow> w len body (p + len p) e s') = Some r"
          by (auto simp: bind_eq_Some_conv)
        from cont [OF r'] obtain s' where "r' = Inr s'" ..
        with r zero have "w len body p e s' = Some r" by simp
        from IH [OF this] show False by simp
      qed
    qed
    then show ?thesis by simp
  qed
  then show ?thesis by (cases "walk len body p e s") auto
qed

text \<open>Bodies that never leave the loop: the walk is a left fold.\<close>

lemma visit_fold:
  assumes "\<And>q s. q \<in> set qs \<Longrightarrow> body q s = Some (Inr (f q s))"
  shows "visit body qs s = Some (Inr (fold f qs s))"
  using assms by (induction qs arbitrary: s) auto

lemma visit_inv:
  assumes step: "\<And>q s s'. q \<in> set qs \<Longrightarrow> I s \<Longrightarrow> body q s = Some (Inr s') \<Longrightarrow> I s'"
    and err: "\<And>q s x. q \<in> set qs \<Longrightarrow> I s \<Longrightarrow> body q s = Some (Inl x) \<Longrightarrow> J x"
    and "I s" and "visit body qs s = Some r"
  shows "case r of Inl x \<Rightarrow> J x | Inr s' \<Rightarrow> I s'"
  using assms
proof (induction qs arbitrary: s)
  case Nil
  then show ?case by auto
next
  case (Cons q qs)
  from Cons.prems(4) obtain r' where r': "body q s = Some r'"
    and rest: "(case r' of Inl x \<Rightarrow> Some (Inl x) | Inr s' \<Rightarrow> visit body qs s') = Some r"
    by (auto simp: bind_eq_Some_conv)
  show ?case
  proof (cases r')
    case (Inl x)
    with r' Cons.prems(2,3) have "J x" by (metis list.set_intros(1))
    with Inl rest show ?thesis by auto
  next
    case (Inr s')
    with r' Cons.prems(1,3) have "I s'" by auto
    moreover from Inr rest have "visit body qs s' = Some r" by simp
    ultimately show ?thesis
      using Cons.prems(1,2) by (intro Cons.IH [of s']) (auto, blast+)
  qed
qed

lemma bind_returns: "x \<noteq> None \<Longrightarrow> (\<And>r. f r \<noteq> None) \<Longrightarrow> Option.bind x f \<noteq> None"
  by auto

lemma visit_append:
  "visit body (xs @ ys) s =
     Option.bind (visit body xs s)
       (\<lambda>r. case r of Inl x \<Rightarrow> Some (Inl x) | Inr s' \<Rightarrow> visit body ys s')"
proof (induction xs arbitrary: s)
  case Nil
  then show ?case by simp
next
  case (Cons q qs)
  then show ?case
    by (auto simp: bind_assoc split: sum.splits bind_split)
qed

lemma visit_total:
  "(\<And>q s. q \<in> set qs \<Longrightarrow> \<exists>r. body q s = Some r) \<Longrightarrow> \<exists>r. visit body qs s = Some r"
proof (induction qs arbitrary: s)
  case Nil
  then show ?case by simp
next
  case (Cons q qs)
  obtain r where r: "body q s = Some r"
    using Cons.prems [of q s] by auto
  show ?case
  proof (cases r)
    case (Inl x)
    with r show ?thesis by simp
  next
    case (Inr s')
    with r Cons show ?thesis by simp
  qed
qed

lemma visit_returns: "(\<And>q s. q \<in> set qs \<Longrightarrow> body q s \<noteq> None) \<Longrightarrow> visit body qs s \<noteq> None"
  using visit_total [of qs body s] by auto

lemma visit_mono:
  assumes "\<And>q s r. q \<in> set qs \<Longrightarrow> body q s = Some r \<Longrightarrow> body' q s = Some r"
    and "visit body qs s = Some r"
  shows "visit body' qs s = Some r"
  using assms
proof (induction qs arbitrary: s)
  case Nil
  then show ?case by simp
next
  case (Cons q qs)
  from Cons.prems(2) obtain r' where r': "body q s = Some r'"
    and rest: "(case r' of Inl x \<Rightarrow> Some (Inl x) | Inr s' \<Rightarrow> visit body qs s') = Some r"
    by (auto simp: bind_eq_Some_conv)
  from r' Cons.prems(1) have "body' q s = Some r'" by simp
  with rest Cons.IH Cons.prems(1) show ?case
    by (cases r') auto
qed

lemma visit_Cons_Inr:
  "visit body (q # qs) s = Some (Inr s') \<longleftrightarrow>
     (\<exists>s1. body q s = Some (Inr s1) \<and> visit body qs s1 = Some (Inr s'))"
proof (cases "body q s")
  case None
  then show ?thesis by simp
next
  case (Some r)
  then show ?thesis by (cases r) auto
qed

text \<open>What the body establishes at one element and keeps at all others holds at the end.\<close>

lemma visit_reaches:
  assumes "visit body qs s = Some (Inr s')" and "q \<in> set qs" and "I s"
    and keepI: "\<And>q s s'. I s \<Longrightarrow> body q s = Some (Inr s') \<Longrightarrow> I s'"
    and keepP: "\<And>q s s'. P s \<Longrightarrow> body q s = Some (Inr s') \<Longrightarrow> P s'"
    and est: "\<And>s s'. I s \<Longrightarrow> body q s = Some (Inr s') \<Longrightarrow> P s'"
  shows "P s'"
  using assms(1-3)
proof (induction qs arbitrary: s)
  case Nil
  then show ?case by simp
next
  case (Cons q' qs)
  from Cons.prems(1) obtain s1 where s1: "body q' s = Some (Inr s1)"
    and rest: "visit body qs s1 = Some (Inr s')"
    by (auto simp only: visit_Cons_Inr)
  show ?case
  proof (cases "q' = q")
    case True
    with s1 Cons.prems(3) have "P s1" by (auto intro: est)
    moreover have "P s2 \<Longrightarrow> visit body qs s2 = Some (Inr s') \<Longrightarrow> P s'" for s2
    proof (induction qs arbitrary: s2)
      case Nil
      then show ?case by simp
    next
      case (Cons a qs)
      then obtain s3 where "body a s2 = Some (Inr s3)" "visit body qs s3 = Some (Inr s')"
        by (auto simp only: visit_Cons_Inr)
      with Cons show ?case by (blast intro: keepP)
    qed
    ultimately show ?thesis using rest by blast
  next
    case False
    with Cons.prems(2) have "q \<in> set qs" by simp
    moreover have "I s1" using Cons.prems(3) s1 by (rule keepI)
    ultimately show ?thesis using rest Cons.IH by blast
  qed
qed

section \<open>Walks that count down\<close>

text \<open>
  The second form of the loop keeps the number of bytes that remain in a signed counter:
  \<^verbatim>\<open>
    p = first; n = size;
    while (n > 0) { body (p); n -= p->Length; p = p + p->Length; }
  \<close>
\<close>

partial_function (option) walk_rem ::
  "(addr \<Rightarrow> nat) \<Rightarrow> (addr \<Rightarrow> 's \<Rightarrow> ('e + 's) option) \<Rightarrow> addr \<Rightarrow> int \<Rightarrow> 's \<Rightarrow> ('e + 's) option"
where
  "walk_rem len body p n s =
     (if n > 0
      then Option.bind (body p s)
             (\<lambda>r. case r of Inl x \<Rightarrow> Some (Inl x)
                  | Inr s' \<Rightarrow> walk_rem len body (p + len p) (n - int (len p)) s')
      else Some (Inr s))"

lemma walk_rem_stop [simp]: "n \<le> 0 \<Longrightarrow> walk_rem len body p n s = Some (Inr s)"
  by (subst walk_rem.simps) simp

lemma walk_rem_step:
  "0 < n \<Longrightarrow> walk_rem len body p n s =
     Option.bind (body p s)
       (\<lambda>r. case r of Inl x \<Rightarrow> Some (Inl x)
            | Inr s' \<Rightarrow> walk_rem len body (p + len p) (n - int (len p)) s')"
  by (subst walk_rem.simps) simp

text \<open>Both forms meet the same structures, and fail to return on the same tables.\<close>

lemma rem_end:
  "0 < n \<Longrightarrow> (q = p + l \<Longrightarrow> walk len body q (q + nat (n - int l)) s = walk len body q (p + nat n) s)"
proof (cases "int l \<le> n")
  case True
  assume "0 < n" "q = p + l"
  with True have "q + nat (n - int l) = p + nat n" by simp
  then show ?thesis by simp
next
  case False
  assume "0 < n" "q = p + l"
  with False show ?thesis by simp
qed

lemma walk_rem_imp:
  assumes "walk_rem len body p n s = Some r"
  shows "walk len body p (p + nat n) s = Some r"
proof (rule walk_rem.raw_induct
    [where P = "\<lambda>len body p n s r. walk len body p (p + nat n) s = Some r", OF _ assms], goal_cases)
  case (1 walk_rem len body p n s r)
  show ?case
  proof (cases "0 < n")
    case False
    with 1(2) show ?thesis by simp
  next
    case True
    with 1(2) obtain r' where r': "body p s = Some r'"
      and rest: "(case r' of Inl x \<Rightarrow> Some (Inl x)
            | Inr s' \<Rightarrow> walk_rem len body (p + len p) (n - int (len p)) s') = Some r"
      by (auto simp: bind_eq_Some_conv)
    show ?thesis
    proof (cases r')
      case (Inl x)
      with r' rest True show ?thesis by (auto simp: walk_step)
    next
      case (Inr s')
      with rest have "walk_rem len body (p + len p) (n - int (len p)) s' = Some r" by simp
      from 1(1) [OF this] have "walk len body (p + len p) (p + nat n) s' = Some r"
        using rem_end [OF True refl, of len body p "len p" s'] by simp
      with r' Inr True show ?thesis by (simp add: walk_step)
    qed
  qed
qed

lemma walk_imp_rem:
  assumes "walk len body p e s = Some r"
  shows "walk_rem len body p (int e - int p) s = Some r"
proof (rule walk.raw_induct
    [where P = "\<lambda>len body p e s r. walk_rem len body p (int e - int p) s = Some r", OF _ assms], goal_cases)
  case (1 walk len body p e s r)
  show ?case
  proof (cases "p < e")
    case False
    with 1(2) show ?thesis by simp
  next
    case True
    with 1(2) obtain r' where r': "body p s = Some r'"
      and rest: "(case r' of Inl x \<Rightarrow> Some (Inl x) | Inr s' \<Rightarrow> walk len body (p + len p) e s') = Some r"
      by (auto simp: bind_eq_Some_conv)
    show ?thesis
    proof (cases r')
      case (Inl x)
      with r' rest True show ?thesis by (auto simp: walk_rem_step)
    next
      case (Inr s')
      with rest have "walk len body (p + len p) e s' = Some r" by simp
      from 1(1) [OF this] have "walk_rem len body (p + len p) (int e - int p - int (len p)) s' = Some r"
        by (simp add: algebra_simps)
      with r' Inr True show ?thesis by (simp add: walk_rem_step)
    qed
  qed
qed

lemma walk_rem_walk: "walk_rem len body p n s = walk len body p (p + nat n) s"
proof (cases "0 < n")
  case True
  then have n: "int (p + nat n) - int p = n" by simp
  show ?thesis
  proof (cases "walk len body p (p + nat n) s")
    case None
    with walk_rem_imp show ?thesis by (cases "walk_rem len body p n s") fastforce+
  next
    case (Some r)
    from walk_imp_rem [OF this] n show ?thesis by (simp add: Some)
  qed
qed simp

text \<open>A call whose error makes the caller return with the same status.\<close>

definition leave_on_error :: "efi_status \<times> 's \<Rightarrow> (efi_status \<times> 's) + 's" where
  "leave_on_error r = (if EFI_ERROR (fst r) then Inl r else Inr (snd r))"

definition returned :: "(efi_status \<times> 's) + 's \<Rightarrow> efi_status \<times> 's" where
  "returned r = (case r of Inl x \<Rightarrow> x | Inr s \<Rightarrow> (EFI_SUCCESS, s))"

section \<open>Loops over an index\<close>

text \<open>A counted loop whose body may fail to return.\<close>

fun each :: "('a \<Rightarrow> 's \<Rightarrow> 's option) \<Rightarrow> 'a list \<Rightarrow> 's \<Rightarrow> 's option" where
  "each f [] s = Some s"
| "each f (x # xs) s = Option.bind (f x s) (each f xs)"

lemma each_total: "(\<And>x s. x \<in> set xs \<Longrightarrow> f x s \<noteq> None) \<Longrightarrow> each f xs s \<noteq> None"
proof (induction xs arbitrary: s)
  case Nil
  show ?case by simp
next
  case (Cons x xs)
  then obtain t where "f x s = Some t" by force
  with Cons show ?case by simp
qed

text \<open>
  A loop that keeps a part of the state and only ever raises a flag: the flag is up at the
  end exactly when it was up before or some iteration raised it.
\<close>

lemma each_flag:
  assumes body: "\<And>x s s'. x \<in> set xs \<Longrightarrow> keep s = k \<Longrightarrow> f x s = Some s' \<Longrightarrow>
      keep s' = k \<and> (flag s' \<longleftrightarrow> flag s \<or> bad x)"
    and "keep s = k" and "each f xs s = Some s'"
  shows "keep s' = k \<and> (flag s' \<longleftrightarrow> flag s \<or> (\<exists>x \<in> set xs. bad x))"
  using assms
proof (induction xs arbitrary: s)
  case Nil
  then show ?case by simp
next
  case (Cons x xs)
  from Cons.prems(3) obtain t where t: "f x s = Some t" and rest: "each f xs t = Some s'"
    by (auto simp: bind_eq_Some_conv)
  from Cons.prems(1) [OF _ Cons.prems(2) t] have "keep t = k" "flag t \<longleftrightarrow> flag s \<or> bad x" by simp_all
  with Cons.IH [OF _ _ rest] Cons.prems(1) show ?case by auto
qed

end
