(* ===== verification/Vtd_Env.thy ===== *)
theory Vtd_Env
  imports Walks
begin

text \<open>
  The data of \<^verbatim>\<open>AppSrc/VtdDump/VtdDump.c\<close>: its structures and globals, and the record
  \<open>vtd_env\<close> of what the code takes from EDK II headers (structure layouts, constants) and
  from the platform (ACPI tables, PCI configuration space, protocols, the outcome of
  allocations).  Every operation of the tool takes a \<open>vtd_env\<close> as its first argument.
\<close>

section \<open>Data\<close>

text \<open>The device scope types that the code names; any other value is \<open>SCOPE_OTHER\<close>.\<close>

datatype dev_scope_type =
    PCI_ENDPOINT
  | PCI_BRIDGE
  | IOAPIC
  | MSI_CAPABLE_HPET
  | ACPI_NAMESPACE_DEVICE
  | SCOPE_OTHER u8

datatype dmar_type = DRHD | RMRR | ATSR | RHSA | ANDD | DMAR_OTHER u16

text \<open>The PCI configuration registers the code reads, by the names of their offsets.\<close>

datatype pci_reg =
    PCI_VENDOR_ID_OFFSET
  | PCI_DEVICE_ID_OFFSET
  | PCI_REVISION_ID_OFFSET
  | PCI_CLASSCODE_OFFSET nat
  | PCI_HEADER_TYPE_OFFSET
  | PCI_SUBSYSTEM_VENDOR_ID_OFFSET
  | PCI_SUBSYSTEM_ID_OFFSET
  | PCI_BRIDGE_SECONDARY_BUS_REGISTER_OFFSET

text \<open>\<open>VTD_SOURCE_ID\<close>: an 8-bit bus, a 5-bit device and a 3-bit function.\<close>

record source_id =
  sid_Bus :: u8
  sid_Device :: "5 word"
  sid_Function :: "3 word"

record pci_device_id =
  VendorId :: u16
  DeviceId :: u16
  RevisionId :: u8
  SubsystemVendorId :: u16
  SubsystemDeviceId :: u16

record pci_device_data =
  DeviceType :: dev_scope_type
  PciSourceId :: source_id
  PciDeviceId :: pci_device_id

text \<open>\<open>PciDeviceData\<close> is the allocated buffer; \<open>[]\<close> is the null pointer.\<close>

record pci_device_information =
  IncludeAllFlag :: bool
  PciDeviceDataNumber :: nat
  PciDeviceDataMaxNumber :: nat
  PciDeviceData :: "pci_device_data list"

record vtd_unit =
  VtdUnitBaseAddress :: u64
  Segment :: u16
  PciDeviceInfo :: pci_device_information

record exception_record =
  exc_Segment :: u16
  exc_Bus :: u8
  exc_Device :: u8
  exc_Function :: u8

record rmrr_record =
  rr_Segment :: u16
  rr_Bus :: u8
  rr_Device :: u8
  rr_Function :: u8
  rr_Address :: u64
  rr_Length :: u64

text \<open>The lists of the IOMMU driver that \<^verbatim>\<open>Vtd/Map.h\<close> mirrors; links become lists.\<close>

record map_handle_info =
  mhi_Pointer :: u64
  Handle :: u64
  IoMmuAccess :: u64

record map_info =
  map_Pointer :: u64
  Operation :: u32
  NumberOfBytes :: u64
  NumberOfPages :: u64
  HostAddress :: u64
  DeviceAddress :: u64
  HandleList :: "map_handle_info list"

text \<open>
  A node of the driver's circular list: a mapping, or a node without the signature
  of one, which is the list head.
\<close>

datatype map_node = MAP_INFO map_info | NO_SIGNATURE

text \<open>
  The globals of the tool.  A list built by \<open>InsertTailList\<close> is kept in insertion order.
  \<open>gMaps\<close> is the list behind the head that was found; \<open>None\<close> is the null pointer.
\<close>

record vtd_state =
  mAcpiDmarTable :: addr
  gMaps :: "map_info list option"
  mVtdUnitNumber :: nat
  mVtdUnitInformation :: "vtd_unit list"
  gExceptionRecord :: "exception_record list"
  gRmrrRecord :: "rmrr_record list"
  mHasError :: bool
  console :: "out list"

section \<open>The environment\<close>

datatype table_guid = gEfiAcpi20TableGuid | gEfiAcpi10TableGuid

text \<open>ACPI root structures, read by address.\<close>

record acpi_view =
  config_table :: "table_guid \<Rightarrow> addr option"
  rsdp_Revision :: "addr \<Rightarrow> u8"
  rsdp_RsdtAddress :: "addr \<Rightarrow> u32"
  rsdp_XsdtAddress :: "addr \<Rightarrow> u64"
  tbl_Signature :: "addr \<Rightarrow> u32"
  tbl_Length :: "addr \<Rightarrow> u32"
  sizeof_DESCRIPTION_HEADER :: nat
  memory :: mem

text \<open>The DMAR table and the structures in it, read by address.\<close>

record dmar_view = acpi_view +
  DMAR_SIGNATURE :: u32
  sizeof_DMAR_HEADER :: nat
  sizeof_DRHD_HEADER :: nat
  sizeof_RMRR_HEADER :: nat
  sizeof_ATSR_HEADER :: nat
  sizeof_SCOPE_HEADER :: nat
  sizeof_PCI_PATH :: nat
  INCLUDE_PCI_ALL :: u8
  ALL_PORTS :: u8
  INTR_REMAP :: u8
  X2APIC_OPT_OUT :: u8
  DMA_CTRL_PLATFORM_OPT_IN :: u8
  dmar_code :: "dmar_type \<Rightarrow> u16"
  scope_code :: "dev_scope_type \<Rightarrow> u8"
  dmar_HostAddressWidth :: "addr \<Rightarrow> u8"
  dmar_Flags :: "addr \<Rightarrow> u8"
  hdr_Type :: "addr \<Rightarrow> dmar_type"
  hdr_Length :: "addr \<Rightarrow> u16"
  drhd_Flags :: "addr \<Rightarrow> u8"
  drhd_SegmentNumber :: "addr \<Rightarrow> u16"
  drhd_RegisterBaseAddress :: "addr \<Rightarrow> u64"
  rmrr_SegmentNumber :: "addr \<Rightarrow> u16"
  rmrr_BaseAddress :: "addr \<Rightarrow> u64"
  rmrr_LimitAddress :: "addr \<Rightarrow> u64"
  atsr_Flags :: "addr \<Rightarrow> u8"
  atsr_SegmentNumber :: "addr \<Rightarrow> u16"
  rhsa_RegisterBaseAddress :: "addr \<Rightarrow> u64"
  rhsa_ProximityDomain :: "addr \<Rightarrow> u32"
  andd_AcpiDeviceNumber :: "addr \<Rightarrow> u8"
  andd_ObjectName :: "addr \<Rightarrow> string"
  scope_Type :: "addr \<Rightarrow> dev_scope_type"
  scope_Length :: "addr \<Rightarrow> u8"
  scope_EnumerationId :: "addr \<Rightarrow> u8"
  scope_StartBusNumber :: "addr \<Rightarrow> u8"
  path_Device :: "addr \<Rightarrow> u8"
  path_Function :: "addr \<Rightarrow> u8"

text \<open>
  The platform: PCI configuration space and memory for the tool's records (\<open>alloc_ok\<close> for
  a device buffer of a size, \<open>alloc_units\<close> for the units, \<open>alloc_record\<close> for the record made
  for the structure at an address).
\<close>

record platform_view = dmar_view +
  PCI_MAX_DEVICE :: nat
  PCI_MAX_FUNC :: nat
  HEADER_TYPE_MULTI_FUNCTION :: u8
  PCI_CLASS_BRIDGE :: u8
  PCI_CLASS_BRIDGE_P2P :: u8
  PciSegmentRead8 :: "u16 \<Rightarrow> u8 \<Rightarrow> u8 \<Rightarrow> u8 \<Rightarrow> pci_reg \<Rightarrow> u8"
  PciSegmentRead16 :: "u16 \<Rightarrow> u8 \<Rightarrow> u8 \<Rightarrow> u8 \<Rightarrow> pci_reg \<Rightarrow> u16"
  alloc_ok :: "nat \<Rightarrow> bool"
  alloc_units :: "nat \<Rightarrow> bool"
  alloc_record :: "addr \<Rightarrow> bool"

text \<open>What \<open>HandleProtocol\<close> and \<open>GetLocation\<close> say of a handle.\<close>

datatype pci_location =
    NOT_PCI
  | UNKNOWN_PCI
  | PCI_AT u64 u64 u64 u64

datatype exc_info_type = EXC_END | EXC_DEVICE_SCOPE | EXC_PCI_DEVICE_ID | EXC_OTHER u8

text \<open>
  Protocols and translation structures.  \<open>map_ring\<close> holds the nodes that follow the tool's
  own mapping in the driver's circular list.  The fields \<open>pt_\<close>, \<open>root_\<close>, \<open>ctx_\<close>, \<open>xroot_\<close> and
  \<open>xctx_\<close> are the bit fields of \<^verbatim>\<open>IndustryStandard/Vtd.h\<close>, as functions of the words of an
  entry (low word first); a pointer is the pair of its \<open>Lo\<close> and \<open>Hi\<close> fields.
\<close>

record vtd_env = platform_view +
  LocateIoMmu :: efi_status
  IoMmu_AllocateBuffer :: efi_status
  IoMmu_Map :: efi_status
  map_ring :: "map_node list"
  PciLocation :: "u64 \<Rightarrow> pci_location"
  PathText :: "u64 \<Rightarrow> string option"
  LocatePlatformVtd :: efi_status
  GetExceptionDeviceList :: "efi_status \<times> nat \<times> addr"
  exci_Type :: "addr \<Rightarrow> exc_info_type"
  exci_Length :: "addr \<Rightarrow> u16"
  exci_ScopeSegment :: "addr \<Rightarrow> u16"
  exci_ScopeStartBus :: "addr \<Rightarrow> u8"
  exci_PathDevice :: "addr \<Rightarrow> u8"
  exci_PathFunction :: "addr \<Rightarrow> u8"
  exci_PciDeviceId :: "addr \<Rightarrow> pci_device_id"
  alloc_exception :: "nat \<Rightarrow> nat \<Rightarrow> bool"
  VTD_ROOT_ENTRY_NUMBER :: nat
  VTD_CONTEXT_ENTRY_NUMBER :: nat
  IOMMU_ACCESS_READ :: u64
  IOMMU_ACCESS_WRITE :: u64
  R_RTADDR_REG :: u64
  MmioRead64 :: "u64 \<Rightarrow> u64"
  pt_Read :: "u64 \<Rightarrow> bool"
  pt_Write :: "u64 \<Rightarrow> bool"
  pt_PageSize :: "u64 \<Rightarrow> bool"
  pt_Address :: "u64 \<Rightarrow> u64 \<times> u64"
  root_Present :: "u64 \<times> u64 \<Rightarrow> bool"
  root_ContextTablePointer :: "u64 \<times> u64 \<Rightarrow> u64 \<times> u64"
  ctx_Present :: "u64 \<times> u64 \<Rightarrow> bool"
  ctx_SecondLevelPointer :: "u64 \<times> u64 \<Rightarrow> u64 \<times> u64"
  xroot_LowerPresent :: "u64 \<times> u64 \<Rightarrow> bool"
  xroot_LowerContextTablePointer :: "u64 \<times> u64 \<Rightarrow> u64 \<times> u64"
  xroot_UpperPresent :: "u64 \<times> u64 \<Rightarrow> bool"
  xroot_UpperContextTablePointer :: "u64 \<times> u64 \<Rightarrow> u64 \<times> u64"
  xctx_Present :: "u64 \<times> u64 \<times> u64 \<times> u64 \<Rightarrow> bool"
  xctx_SecondLevelPointer :: "u64 \<times> u64 \<times> u64 \<times> u64 \<Rightarrow> u64 \<times> u64"

definition say :: "string \<Rightarrow> arg list \<Rightarrow> vtd_state \<Rightarrow> vtd_state" where
  "say fmt args s = s\<lparr>console := console s @ [Print fmt args]\<rparr>"

lemma say_fields [simp]:
  "mVtdUnitNumber (say f a s) = mVtdUnitNumber s"
  "mVtdUnitInformation (say f a s) = mVtdUnitInformation s"
  "gExceptionRecord (say f a s) = gExceptionRecord s"
  "gRmrrRecord (say f a s) = gRmrrRecord s"
  "mHasError (say f a s) = mHasError s"
  "mAcpiDmarTable (say f a s) = mAcpiDmarTable s"
  "gMaps (say f a s) = gMaps s"
  by (simp_all add: say_def)

end
