(* ===== verification/Registries.thy ===== *)
theory Registries
  imports Prelude
begin

text \<open>
  The contract shared by the tables that register something under a key: the table of
  dump functions by ACPI signature, and the table of PCI devices of a VT-d unit.  A
  registration of a new key that the table accepts is found from then on; any other
  registration leaves every lookup as it was.
\<close>

locale keyed_registry =
  fixes lookup :: "'r \<Rightarrow> 'k \<Rightarrow> 'v option"
    and register :: "'k \<Rightarrow> 'v \<Rightarrow> 'r \<Rightarrow> efi_status \<times> 'r"
    and accepts :: "'r \<Rightarrow> 'k \<Rightarrow> bool"
    and invar :: "'r \<Rightarrow> bool"
  assumes register_new:
      "invar r \<Longrightarrow> lookup r k = None \<Longrightarrow> accepts r k \<Longrightarrow>
         fst (register k v r) = EFI_SUCCESS \<and> lookup (snd (register k v r)) = (lookup r)(k \<mapsto> v)"
    and register_old:
      "invar r \<Longrightarrow> lookup r k \<noteq> None \<or> \<not> accepts r k \<Longrightarrow>
         lookup (snd (register k v r)) = lookup r"
    and register_invar: "invar r \<Longrightarrow> invar (snd (register k v r))"
begin

text \<open>Whatever is registered later, a found key keeps its value.\<close>

lemma lookup_stable:
  assumes "invar r" and "lookup r k = Some v"
  shows "lookup (snd (register k' v' r)) k = Some v"
  using assms register_new [of r k' v'] register_old [of r k' v']
  by (cases "lookup r k' = None \<and> accepts r k'") auto

lemma lookup_runs:
  assumes "invar r" and "lookup r k = Some v"
  shows "lookup (fold (\<lambda>(k', v') r. snd (register k' v' r)) kvs r) k = Some v"
  using assms
proof (induction kvs arbitrary: r)
  case Nil
  then show ?case by simp
next
  case (Cons kv kvs)
  then show ?case
    by (cases kv) (simp add: lookup_stable register_invar)
qed

lemma invar_runs:
  "invar r \<Longrightarrow> invar (fold (\<lambda>(k', v') r. snd (register k' v' r)) kvs r)"
  by (induction kvs arbitrary: r) (auto simp: register_invar)

text \<open>
  As long as nothing is refused, a run of registrations is a map in which the first
  registration of a key wins.
\<close>

lemma runs_first_wins:
  assumes "invar r"
    and "\<And>r k. invar r \<Longrightarrow> k \<in> fst ` set kvs \<Longrightarrow> lookup r k = None \<Longrightarrow>
      dom (lookup r) \<subseteq> D \<union> fst ` set kvs \<Longrightarrow> accepts r k"
    and "dom (lookup r) \<subseteq> D"
  shows "lookup (fold (\<lambda>(k, v) r. snd (register k v r)) kvs r) = map_of kvs ++ lookup r"
  using assms
proof (induction kvs arbitrary: r D)
  case Nil
  then show ?case by simp
next
  case (Cons kv kvs)
  obtain k v where kv: "kv = (k, v)" by (cases kv)
  let ?r = "snd (register k v r)"
  have acc: "accepts r k" if "lookup r k = None"
    using Cons.prems(1,3) that by (intro Cons.prems(2)) (auto simp: kv)
  have look: "lookup ?r = (if lookup r k = None then (lookup r)(k \<mapsto> v) else lookup r)"
    using register_new [of r k v] register_old [of r k v] acc Cons.prems(1) by auto
  have inv: "invar ?r" using Cons.prems(1) by (rule register_invar)
  have "lookup (fold (\<lambda>(k, v) r. snd (register k v r)) kvs ?r) = map_of kvs ++ lookup ?r"
  proof (rule Cons.IH [OF inv, where D = "insert k D"])
    fix r' k'
    assume "invar r'" "k' \<in> fst ` set kvs" "lookup r' k' = None" "dom (lookup r') \<subseteq> insert k D \<union> fst ` set kvs"
    then show "accepts r' k'"
      by (intro Cons.prems(2)) (auto simp: kv)
  next
    show "dom (lookup ?r) \<subseteq> insert k D"
      using Cons.prems(3) by (auto simp: look split: if_splits)
  qed
  also have "\<dots> = map_of (kv # kvs) ++ lookup r"
    by (auto simp: look kv map_add_def fun_eq_iff split: option.splits)
  finally show ?case by (simp add: kv fun_upd_def)
qed

end

end
