(* ===== verification/Vtd_Pci.thy ===== *)
theory Vtd_Pci
  imports Vtd_Env Registries
begin

text \<open>
  \<^verbatim>\<open>AppSrc/VtdDump/VtdDump.c\<close>, the PCI side: the table of PCI devices of each VT-d unit
  (\<open>GetPciDataIndex\<close>, \<open>RegisterPciDevice\<close>), the recursive bus scan (\<open>ScanPciBus\<close>) and
  the resolution of DMAR device scopes (\<open>GetPciBusDeviceFunction\<close>).
\<close>

section \<open>Operations\<close>

abbreviation (input) MAX_VTD_PCI_DATA_NUMBER :: nat where
  "MAX_VTD_PCI_DATA_NUMBER \<equiv> 256"

abbreviation pci_info :: "vtd_state \<Rightarrow> nat \<Rightarrow> pci_device_information" where
  "pci_info s i \<equiv> PciDeviceInfo (mVtdUnitInformation s ! i)"

text \<open>Assignment through \<open>PciDeviceInfo = &mVtdUnitInformation[VtdIndex].PciDeviceInfo\<close>.\<close>

definition upd_info ::
  "nat \<Rightarrow> (pci_device_information \<Rightarrow> pci_device_information) \<Rightarrow> vtd_state \<Rightarrow> vtd_state" where
  "upd_info i f s = s\<lparr>mVtdUnitInformation :=
     (mVtdUnitInformation s)[i := (mVtdUnitInformation s ! i)\<lparr>PciDeviceInfo := f (pci_info s i)\<rparr>]\<rparr>"

definition zero_data :: pci_device_data where
  "zero_data = \<lparr>DeviceType = SCOPE_OTHER 0,
     PciSourceId = \<lparr>sid_Bus = 0, sid_Device = 0, sid_Function = 0\<rparr>,
     PciDeviceId = \<lparr>VendorId = 0, DeviceId = 0, RevisionId = 0,
       SubsystemVendorId = 0, SubsystemDeviceId = 0\<rparr>\<rparr>"

text \<open>\<open>None\<close> is the code's \<open>(UINTN)-1\<close>.\<close>

definition GetPciDataIndex :: "vtd_state \<Rightarrow> nat \<Rightarrow> u16 \<Rightarrow> source_id \<Rightarrow> nat option" where
  "GetPciDataIndex s VtdIndex Seg SourceId =
     (if Seg \<noteq> Segment (mVtdUnitInformation s ! VtdIndex) then None
      else find (\<lambda>Index. let PciSid = PciSourceId (PciDeviceData (pci_info s VtdIndex) ! Index) in
                   sid_Bus PciSid = sid_Bus SourceId \<and> sid_Device PciSid = sid_Device SourceId
                   \<and> sid_Function PciSid = sid_Function SourceId)
             [0..<PciDeviceDataNumber (pci_info s VtdIndex)])"

abbreviation sid_args :: "u16 \<Rightarrow> source_id \<Rightarrow> arg list" where
  "sid_args Seg SourceId \<equiv>
     [hx Seg, hx (sid_Bus SourceId), hx (sid_Device SourceId), hx (sid_Function SourceId)]"

text \<open>The growth of the buffer before a new entry is written; \<open>None\<close> when out of memory.\<close>

definition grow :: "vtd_env \<Rightarrow> pci_device_information \<Rightarrow> pci_device_information option" where
  "grow E p =
     (if PciDeviceDataMaxNumber p \<le> PciDeviceDataNumber p
      then if alloc_ok E (PciDeviceDataMaxNumber p + MAX_VTD_PCI_DATA_NUMBER)
           then Some (p\<lparr>PciDeviceDataMaxNumber := PciDeviceDataMaxNumber p + MAX_VTD_PCI_DATA_NUMBER,
                  PciDeviceData :=
                    (let new = replicate (PciDeviceDataMaxNumber p + MAX_VTD_PCI_DATA_NUMBER) zero_data
                     in if PciDeviceData p \<noteq> []
                        then take (PciDeviceDataNumber p) (PciDeviceData p)
                             @ drop (PciDeviceDataNumber p) new
                        else new)\<rparr>)
           else None
      else Some p)"

text \<open>The identification registers that are read into the new entry, by device type.\<close>

definition read_device_id ::
  "vtd_env \<Rightarrow> u16 \<Rightarrow> source_id \<Rightarrow> dev_scope_type \<Rightarrow> pci_device_id \<Rightarrow> pci_device_id" where
  "read_device_id E Seg sid ty old =
     (let r8 = PciSegmentRead8 E Seg (sid_Bus sid) (ucast (sid_Device sid)) (ucast (sid_Function sid));
          r16 = PciSegmentRead16 E Seg (sid_Bus sid) (ucast (sid_Device sid)) (ucast (sid_Function sid));
          main = old\<lparr>VendorId := r16 PCI_VENDOR_ID_OFFSET, DeviceId := r16 PCI_DEVICE_ID_OFFSET,
                    RevisionId := r8 PCI_REVISION_ID_OFFSET\<rparr>
      in if ty = PCI_ENDPOINT
         then main\<lparr>SubsystemVendorId := r16 PCI_SUBSYSTEM_VENDOR_ID_OFFSET,
                  SubsystemDeviceId := r16 PCI_SUBSYSTEM_ID_OFFSET\<rparr>
         else if ty = PCI_BRIDGE then main else old)"

definition print_device :: "u16 \<Rightarrow> source_id \<Rightarrow> dev_scope_type \<Rightarrow> pci_device_id \<Rightarrow> vtd_state \<Rightarrow> vtd_state" where
  "print_device Seg sid ty pid =
     say '''' []
     \<circ> (if ty = PCI_ENDPOINT \<or> ty = PCI_BRIDGE then id else say '' (*)'' [])
     \<circ> (if ty = PCI_ENDPOINT \<or> ty = PCI_BRIDGE then say '')'' [] else id)
     \<circ> (if ty = PCI_ENDPOINT
        then say '':%04x:%04x'' [hx (SubsystemVendorId pid), hx (SubsystemDeviceId pid)] else id)
     \<circ> (if ty = PCI_ENDPOINT \<or> ty = PCI_BRIDGE
        then say '' (%04x:%04x:%02x'' [hx (VendorId pid), hx (DeviceId pid), hx (RevisionId pid)] else id)
     \<circ> say ''  RegisterPciDevice: PCI S%04x B%02x D%02x F%02x'' (sid_args Seg sid)"

text \<open>The unit before \<open>VtdIndex\<close> that already has the device, looked for by an include-all unit.\<close>

definition other_unit :: "vtd_state \<Rightarrow> nat \<Rightarrow> u16 \<Rightarrow> source_id \<Rightarrow> nat option" where
  "other_unit s VtdIndex Seg SourceId =
     (if IncludeAllFlag (pci_info s VtdIndex)
      then find (\<lambda>Index. GetPciDataIndex s Index Seg SourceId \<noteq> None) [0..<VtdIndex]
      else None)"

text \<open>
  \<open>RegisterPciDevice\<close>.  The stored source id is assigned member by member, which is the
  whole source id.
\<close>

definition RegisterPciDevice ::
  "vtd_env \<Rightarrow> nat \<Rightarrow> u16 \<Rightarrow> source_id \<Rightarrow> dev_scope_type \<Rightarrow> bool \<Rightarrow> vtd_state \<Rightarrow> efi_status \<times> vtd_state"
where
  "RegisterPciDevice E VtdIndex Seg SourceId ty CheckExist s =
     (case other_unit s VtdIndex Seg SourceId of
        Some Index \<Rightarrow>
          (EFI_SUCCESS,
           say ''  RegisterPciDevice: PCI S%04x B%02x D%02x F%02x already registered by Other Vtd(%d)''
             (sid_args Seg SourceId @ [hxn Index]) s)
      | None \<Rightarrow>
          (case GetPciDataIndex s VtdIndex Seg SourceId of
             Some _ \<Rightarrow>
               if CheckExist
               then (EFI_ALREADY_STARTED,
                     say ''  RegisterPciDevice: PCI S%04x B%02x D%02x F%02x already registered''
                       (sid_args Seg SourceId) s)
               else (EFI_SUCCESS, s)
           | None \<Rightarrow>
               (case grow E (pci_info s VtdIndex) of
                  None \<Rightarrow> (EFI_OUT_OF_RESOURCES, s)
                | Some p \<Rightarrow>
                    let n = PciDeviceDataNumber p;
                        pid = read_device_id E Seg SourceId ty (PciDeviceId (PciDeviceData p ! n));
                        d = (PciDeviceData p ! n)\<lparr>DeviceType := ty, PciSourceId := SourceId,
                               PciDeviceId := pid\<rparr>
                    in (EFI_SUCCESS,
                        upd_info VtdIndex
                          (\<lambda>_. p\<lparr>PciDeviceData := (PciDeviceData p)[n := d],
                                PciDeviceDataNumber := n + 1\<rparr>)
                          (print_device Seg SourceId ty pid s)))))"

definition ScanBusCallbackRegisterPciDevice ::
  "vtd_env \<Rightarrow> nat \<Rightarrow> u16 \<Rightarrow> u8 \<Rightarrow> u8 \<Rightarrow> u8 \<Rightarrow> vtd_state \<Rightarrow> efi_status \<times> vtd_state" where
  "ScanBusCallbackRegisterPciDevice E VtdIndex Seg Bus Device Fn s =
     (let SourceId = \<lparr>sid_Bus = Bus, sid_Device = ucast Device, sid_Function = ucast Fn\<rparr>;
          BaseClass = PciSegmentRead8 E Seg Bus Device Fn (PCI_CLASSCODE_OFFSET 2);
          SubClass = PciSegmentRead8 E Seg Bus Device Fn (PCI_CLASSCODE_OFFSET 1);
          ty = (if BaseClass = PCI_CLASS_BRIDGE E \<and> SubClass = PCI_CLASS_BRIDGE_P2P E
                then PCI_BRIDGE else PCI_ENDPOINT)
      in RegisterPciDevice E VtdIndex Seg SourceId ty False s)"

section \<open>The bus scan\<close>

text \<open>
  \<open>ScanPciBus\<close> calls itself on the secondary bus of each PCI-PCI bridge.  The first
  argument bounds the depth of that recursion: \<open>None\<close> is "the bound was reached".  How
  large a bound is enough, and when none is, is proved below.
\<close>

type_synonym scan_callback =
  "u16 \<Rightarrow> u8 \<Rightarrow> u8 \<Rightarrow> u8 \<Rightarrow> vtd_state \<Rightarrow> efi_status \<times> vtd_state"

definition is_bridge :: "vtd_env \<Rightarrow> u16 \<Rightarrow> u8 \<Rightarrow> u8 \<Rightarrow> u8 \<Rightarrow> bool" where
  "is_bridge E Seg Bus Device Fn \<longleftrightarrow>
     PciSegmentRead8 E Seg Bus Device Fn (PCI_CLASSCODE_OFFSET 2) = PCI_CLASS_BRIDGE E
     \<and> PciSegmentRead8 E Seg Bus Device Fn (PCI_CLASSCODE_OFFSET 1) = PCI_CLASS_BRIDGE_P2P E"

abbreviation SecondaryBus :: "vtd_env \<Rightarrow> u16 \<Rightarrow> u8 \<Rightarrow> u8 \<Rightarrow> u8 \<Rightarrow> u8" where
  "SecondaryBus E Seg Bus Device Fn \<equiv>
     PciSegmentRead8 E Seg Bus Device Fn PCI_BRIDGE_SECONDARY_BUS_REGISTER_OFFSET"

definition present :: "vtd_env \<Rightarrow> u16 \<Rightarrow> u8 \<Rightarrow> u8 \<Rightarrow> u8 \<Rightarrow> bool" where
  "present E Seg Bus Device Fn \<longleftrightarrow>
     \<not> (PciSegmentRead16 E Seg Bus Device Fn PCI_VENDOR_ID_OFFSET = 0xFFFF
        \<and> PciSegmentRead16 E Seg Bus Device Fn PCI_DEVICE_ID_OFFSET = 0xFFFF)"

definition MaxFunction :: "vtd_env \<Rightarrow> u16 \<Rightarrow> u8 \<Rightarrow> u8 \<Rightarrow> nat" where
  "MaxFunction E Seg Bus Device =
     (if PciSegmentRead8 E Seg Bus Device 0 PCI_HEADER_TYPE_OFFSET AND HEADER_TYPE_MULTI_FUNCTION E = 0
      then 1 else PCI_MAX_FUNC E + 1)"

text \<open>One function of one device: the body of the inner loop.\<close>

definition scan_function ::
  "vtd_env \<Rightarrow> scan_callback \<Rightarrow> (u8 \<Rightarrow> vtd_state \<Rightarrow> (efi_status \<times> vtd_state) option)
     \<Rightarrow> u16 \<Rightarrow> u8 \<Rightarrow> u8 \<Rightarrow> nat \<Rightarrow> vtd_state \<Rightarrow> ((efi_status \<times> vtd_state) + vtd_state) option"
where
  "scan_function E Callback scan Seg Bus Device Fn_n s =
     (let Fn = of_nat Fn_n in
      if \<not> present E Seg Bus Device Fn then Some (Inr s)
      else
        (let (Status, s1) = Callback Seg Bus Device Fn s in
         if EFI_ERROR Status then Some (Inl (Status, s1))
         else if is_bridge E Seg Bus Device Fn then
           (let Sec = SecondaryBus E Seg Bus Device Fn;
                s2 = say ''  ScanPciBus: PCI bridge S%04x B%02x D%02x F%02x (SecondBus:%02x)''
                       [hx Seg, hx Bus, hx Device, hx Fn, hx Sec] s1
            in if Sec \<noteq> 0
               then Option.bind (scan Sec s2)
                      (\<lambda>(Status, s3). Some (if EFI_ERROR Status then Inl (Status, s3) else Inr s3))
               else Some (Inr s2))
         else Some (Inr s1)))"

fun ScanPciBus ::
  "nat \<Rightarrow> vtd_env \<Rightarrow> scan_callback \<Rightarrow> u16 \<Rightarrow> u8 \<Rightarrow> vtd_state \<Rightarrow> (efi_status \<times> vtd_state) option"
where
  "ScanPciBus 0 E Callback Seg Bus s = None"
| "ScanPciBus (Suc depth) E Callback Seg Bus s =
     map_option returned
       (visit (\<lambda>d. let Device = of_nat d in
                 visit (scan_function E Callback (ScanPciBus depth E Callback Seg) Seg Bus Device)
                   [0..<MaxFunction E Seg Bus Device])
          [0..<PCI_MAX_DEVICE E + 1] s)"

section \<open>Device scopes\<close>

text \<open>
  \<open>GetPciBusDeviceFunction\<close>: the path of an endpoint or a bridge is followed through the
  secondary bus of each bridge on it.
\<close>

definition GetPciBusDeviceFunction ::
  "vtd_env \<Rightarrow> u16 \<Rightarrow> addr \<Rightarrow> (u8 \<times> u8 \<times> u8) option" where
  "GetPciBusDeviceFunction E Seg Scope =
     (let Path = Scope + sizeof_SCOPE_HEADER E;
          start = (scope_StartBusNumber E Scope, path_Device E Path, path_Function E Path)
      in if scope_Type E Scope = PCI_ENDPOINT \<or> scope_Type E Scope = PCI_BRIDGE
         then Option.bind
                (walk (\<lambda>_. sizeof_PCI_PATH E)
                   (\<lambda>p (MyBus, MyDevice, MyFunction).
                      Some (Inr (SecondaryBus E Seg MyBus MyDevice MyFunction,
                                 path_Device E (p + sizeof_PCI_PATH E),
                                 path_Function E (p + sizeof_PCI_PATH E)) :: unit + u8 \<times> u8 \<times> u8))
                   Path (Scope + unat (scope_Length E Scope) - sizeof_PCI_PATH E) start)
                (\<lambda>r. case r of Inl _ \<Rightarrow> None | Inr bdf \<Rightarrow> Some bdf)
         else Some start)"

section \<open>The device table of a unit\<close>

definition unit_wf :: "vtd_unit \<Rightarrow> bool" where
  "unit_wf u \<longleftrightarrow>
     (let p = PciDeviceInfo u in
      PciDeviceDataNumber p \<le> PciDeviceDataMaxNumber p
      \<and> length (PciDeviceData p) = PciDeviceDataMaxNumber p
      \<and> distinct (map PciSourceId (take (PciDeviceDataNumber p) (PciDeviceData p))))"

definition units_wf :: "vtd_state \<Rightarrow> bool" where
  "units_wf s \<longleftrightarrow> (\<forall>u \<in> set (mVtdUnitInformation s). unit_wf u)"

text \<open>The registered devices of a unit, in registration order.\<close>

definition entries :: "pci_device_information \<Rightarrow> (source_id \<times> dev_scope_type) list" where
  "entries p = map (\<lambda>d. (PciSourceId d, DeviceType d)) (take (PciDeviceDataNumber p) (PciDeviceData p))"

definition lookup_type ::
  "nat \<Rightarrow> u16 \<Rightarrow> vtd_state \<Rightarrow> source_id \<Rightarrow> dev_scope_type option" where
  "lookup_type i Seg s sid =
     map_option (\<lambda>k. DeviceType (PciDeviceData (pci_info s i) ! k)) (GetPciDataIndex s i Seg sid)"

definition elsewhere :: "nat \<Rightarrow> u16 \<Rightarrow> vtd_state \<Rightarrow> source_id \<Rightarrow> bool" where
  "elsewhere i Seg s sid \<longleftrightarrow>
     IncludeAllFlag (pci_info s i) \<and> (\<exists>j<i. GetPciDataIndex s j Seg sid \<noteq> None)"

definition room :: "vtd_env \<Rightarrow> nat \<Rightarrow> vtd_state \<Rightarrow> bool" where
  "room E i s \<longleftrightarrow> grow E (pci_info s i) \<noteq> None"

definition unit_ok :: "nat \<Rightarrow> u16 \<Rightarrow> vtd_state \<Rightarrow> bool" where
  "unit_ok i Seg s \<longleftrightarrow>
     i < length (mVtdUnitInformation s) \<and> Segment (mVtdUnitInformation s ! i) = Seg \<and> units_wf s"

lemma sid_eq_iff:
  "sid_Bus a = sid_Bus b \<and> sid_Device a = sid_Device b \<and> sid_Function a = sid_Function b
     \<longleftrightarrow> a = (b :: source_id)"
  by (cases a, cases b) auto

lemma find_snoc: "find P (xs @ [x]) = (case find P xs of None \<Rightarrow> if P x then Some x else None | Some y \<Rightarrow> Some y)"
  by (induction xs) auto

lemma find_map_of:
  "n \<le> length xs \<Longrightarrow>
   map_option (\<lambda>i. g (xs ! i)) (find (\<lambda>i. f (xs ! i) = k) [0..<n])
     = map_of (map (\<lambda>d. (f d, g d)) (take n xs)) k"
proof (induction n)
  case 0
  then show ?case by simp
next
  case (Suc n)
  then have "take (Suc n) xs = take n xs @ [xs ! n]"
    by (simp add: take_Suc_conv_app_nth)
  with Suc show ?case
    by (auto simp: find_snoc map_add_def split: option.splits)
qed

lemma GetPciDataIndex_alt:
  "GetPciDataIndex s i Seg sid =
     (if Seg \<noteq> Segment (mVtdUnitInformation s ! i) then None
      else find (\<lambda>k. PciSourceId (PciDeviceData (pci_info s i) ! k) = sid)
             [0..<PciDeviceDataNumber (pci_info s i)])"
  by (simp add: GetPciDataIndex_def Let_def sid_eq_iff)

lemma GetPciDataIndex_Some:
  "GetPciDataIndex s i Seg sid = Some k \<Longrightarrow>
     Seg = Segment (mVtdUnitInformation s ! i) \<and> k < PciDeviceDataNumber (pci_info s i)
     \<and> PciSourceId (PciDeviceData (pci_info s i) ! k) = sid"
  by (auto simp: GetPciDataIndex_alt find_Some_iff split: if_splits)

lemma lookup_type_entries:
  assumes "unit_ok i Seg s"
  shows "lookup_type i Seg s = map_of (entries (pci_info s i))"
proof
  fix sid
  from assms have "unit_wf (mVtdUnitInformation s ! i)"
    by (auto simp: unit_ok_def units_wf_def)
  then have "PciDeviceDataNumber (pci_info s i) \<le> length (PciDeviceData (pci_info s i))"
    by (simp add: unit_wf_def Let_def)
  from find_map_of [OF this, of DeviceType PciSourceId sid] assms
  show "lookup_type i Seg s sid = map_of (entries (pci_info s i)) sid"
    by (simp add: lookup_type_def GetPciDataIndex_alt entries_def unit_ok_def)
qed

lemma lookup_type_None: "lookup_type i Seg s sid = None \<longleftrightarrow> GetPciDataIndex s i Seg sid = None"
  by (simp add: lookup_type_def)

subsection \<open>Growing the buffer\<close>

lemma grow_facts:
  assumes "grow E p = Some q" and "PciDeviceDataNumber p \<le> PciDeviceDataMaxNumber p"
    and "length (PciDeviceData p) = PciDeviceDataMaxNumber p"
  shows "PciDeviceDataNumber q = PciDeviceDataNumber p"
    and "IncludeAllFlag q = IncludeAllFlag p"
    and "length (PciDeviceData q) = PciDeviceDataMaxNumber q"
    and "PciDeviceDataNumber q < PciDeviceDataMaxNumber q"
    and "take (PciDeviceDataNumber p) (PciDeviceData q) = take (PciDeviceDataNumber p) (PciDeviceData p)"
  using assms by (auto simp: grow_def Let_def split: if_splits)

lemma pci_info_upd_same [simp]:
  "i < length (mVtdUnitInformation s) \<Longrightarrow> pci_info (upd_info i f s) i = f (pci_info s i)"
  by (simp add: upd_info_def)

lemma units_upd_other [simp]:
  "j \<noteq> i \<Longrightarrow> mVtdUnitInformation (upd_info i f s) ! j = mVtdUnitInformation s ! j"
  by (simp add: upd_info_def)

lemma Segment_upd [simp]:
  "Segment (mVtdUnitInformation (upd_info i f s) ! j) = Segment (mVtdUnitInformation s ! j)"
  by (cases "i < length (mVtdUnitInformation s)"; cases "j = i")
    (simp_all add: upd_info_def list_update_beyond)

lemma length_units_upd [simp]:
  "length (mVtdUnitInformation (upd_info i f s)) = length (mVtdUnitInformation s)"
  by (simp add: upd_info_def)

lemma units_wf_upd:
  assumes "units_wf s" and "unit_wf ((mVtdUnitInformation s ! i)\<lparr>PciDeviceInfo := f (pci_info s i)\<rparr>)"
  shows "units_wf (upd_info i f s)"
  using assms set_update_subset_insert [of "mVtdUnitInformation s"]
  by (auto simp: units_wf_def upd_info_def)

lemma print_device_units [simp]:
  "mVtdUnitInformation (print_device Seg sid ty pid s) = mVtdUnitInformation s"
  "mVtdUnitNumber (print_device Seg sid ty pid s) = mVtdUnitNumber s"
  "gExceptionRecord (print_device Seg sid ty pid s) = gExceptionRecord s"
  "gRmrrRecord (print_device Seg sid ty pid s) = gRmrrRecord s"
  "mHasError (print_device Seg sid ty pid s) = mHasError s"
  by (simp_all add: print_device_def)

text \<open>The three outcomes of \<open>RegisterPciDevice\<close>.\<close>

lemma elsewhere_find:
  "other_unit s i Seg sid = None \<longleftrightarrow> \<not> elsewhere i Seg s sid"
  by (auto simp: elsewhere_def other_unit_def find_None_iff)

lemma Register_refused:
  assumes "GetPciDataIndex s i Seg sid \<noteq> None \<or> elsewhere i Seg s sid \<or> \<not> room E i s"
  shows "mVtdUnitInformation (snd (RegisterPciDevice E i Seg sid ty chk s)) = mVtdUnitInformation s"
    and "gRmrrRecord (snd (RegisterPciDevice E i Seg sid ty chk s)) = gRmrrRecord s"
  using assms elsewhere_find [of s i Seg sid]
  by (auto simp: RegisterPciDevice_def room_def split: option.splits)

lemma Register_new:
  assumes "unit_ok i Seg s" and "GetPciDataIndex s i Seg sid = None"
    and "\<not> elsewhere i Seg s sid" and "room E i s"
  obtains p d where "fst (RegisterPciDevice E i Seg sid ty chk s) = EFI_SUCCESS"
    and "mVtdUnitInformation (snd (RegisterPciDevice E i Seg sid ty chk s))
           = mVtdUnitInformation (upd_info i (\<lambda>_. p) s)"
    and "entries p = entries (pci_info s i) @ [(sid, ty)]"
    and "IncludeAllFlag p = IncludeAllFlag (pci_info s i)"
    and "PciDeviceDataNumber p = PciDeviceDataNumber (pci_info s i) + 1"
    and "unit_wf ((mVtdUnitInformation s ! i)\<lparr>PciDeviceInfo := p\<rparr>)"
proof -
  let ?p = "pci_info s i"
  from assms(4) obtain q where q: "grow E ?p = Some q"
    by (auto simp: room_def)
  from assms(1) have "unit_wf (mVtdUnitInformation s ! i)"
    by (auto simp: unit_ok_def units_wf_def)
  then have wf: "PciDeviceDataNumber ?p \<le> PciDeviceDataMaxNumber ?p"
      "length (PciDeviceData ?p) = PciDeviceDataMaxNumber ?p"
      "distinct (map PciSourceId (take (PciDeviceDataNumber ?p) (PciDeviceData ?p)))"
    by (auto simp: unit_wf_def Let_def)
  note g = grow_facts [OF q wf(1,2)]
  let ?n = "PciDeviceDataNumber q"
  let ?pid = "read_device_id E Seg sid ty (PciDeviceId (PciDeviceData q ! ?n))"
  let ?d = "(PciDeviceData q ! ?n)\<lparr>DeviceType := ty, PciSourceId := sid, PciDeviceId := ?pid\<rparr>"
  let ?new = "q\<lparr>PciDeviceData := (PciDeviceData q)[?n := ?d], PciDeviceDataNumber := ?n + 1\<rparr>"
  have reg: "RegisterPciDevice E i Seg sid ty chk s =
      (EFI_SUCCESS, upd_info i (\<lambda>_. ?new) (print_device Seg sid ty ?pid s))"
    using assms(2,3) elsewhere_find [of s i Seg sid] q
    by (auto simp: RegisterPciDevice_def Let_def split: option.splits)
  have take: "take (?n + 1) ((PciDeviceData q)[?n := ?d])
      = take (PciDeviceDataNumber ?p) (PciDeviceData ?p) @ [?d]"
    using g by (simp add: take_Suc_conv_app_nth take_update_cancel)
  have ent: "entries ?new = entries ?p @ [(sid, ty)]"
    using take by (simp add: entries_def)
  have fresh: "sid \<notin> PciSourceId ` set (take (PciDeviceDataNumber ?p) (PciDeviceData ?p))"
  proof -
    have "map_of (entries ?p) sid = None"
      using assms(1,2) lookup_type_None lookup_type_entries by metis
    then show ?thesis
      by (force simp: entries_def map_of_eq_None_iff)
  qed
  show thesis
  proof (rule that)
    show "unit_wf ((mVtdUnitInformation s ! i)\<lparr>PciDeviceInfo := ?new\<rparr>)"
      using take wf(3) fresh g by (simp add: unit_wf_def)
  qed (use reg ent g in \<open>simp_all add: upd_info_def\<close>)
qed

end
