(* ===== verification/Vtd_Sample.thy ===== *)
theory Vtd_Sample
  imports Vtd_Pci
begin

text \<open>
  One small platform, on which the properties of \<open>VtdDump\<close> are instantiated.  Bus 0 has a
  device at 0.0 and a PCI-PCI bridge at 1.0, which leads to bus 1 with a device at 0.0.  The
  DMAR table at 0x1000 has a remapping unit with two scopes (an endpoint and the bridge), an
  include-all unit without scopes, and one reserved memory region for 0.0.
\<close>

definition sample_env :: vtd_env where
  "sample_env = \<lparr>
     config_table = (\<lambda>g. if g = gEfiAcpi20TableGuid then Some 0x100 else None),
     rsdp_Revision = (\<lambda>_. 2), rsdp_RsdtAddress = (\<lambda>_. 0), rsdp_XsdtAddress = (\<lambda>_. 0x200),
     tbl_Signature = (\<lambda>p. if p = 0x1000 then 0x52414D44 else 0),
     tbl_Length = (\<lambda>p. if p = 0x1000 then 0x80 else 52),
     sizeof_DESCRIPTION_HEADER = 36,
     memory = mem_of 0x200 (replicate 36 0 @ enc 8 0x900 @ enc 8 0x1000),
     DMAR_SIGNATURE = 0x52414D44,
     sizeof_DMAR_HEADER = 48, sizeof_DRHD_HEADER = 16, sizeof_RMRR_HEADER = 24,
     sizeof_ATSR_HEADER = 8, sizeof_SCOPE_HEADER = 6, sizeof_PCI_PATH = 2,
     INCLUDE_PCI_ALL = 1, ALL_PORTS = 1, INTR_REMAP = 1, X2APIC_OPT_OUT = 2,
     DMA_CTRL_PLATFORM_OPT_IN = 4,
     dmar_code = (\<lambda>t. case t of DRHD \<Rightarrow> 0 | RMRR \<Rightarrow> 1 | ATSR \<Rightarrow> 2 | RHSA \<Rightarrow> 3 | ANDD \<Rightarrow> 4 | DMAR_OTHER n \<Rightarrow> n),
     scope_code = (\<lambda>t. case t of PCI_ENDPOINT \<Rightarrow> 1 | PCI_BRIDGE \<Rightarrow> 2 | IOAPIC \<Rightarrow> 3
       | MSI_CAPABLE_HPET \<Rightarrow> 4 | ACPI_NAMESPACE_DEVICE \<Rightarrow> 5 | SCOPE_OTHER n \<Rightarrow> n),
     dmar_HostAddressWidth = (\<lambda>_. 38), dmar_Flags = (\<lambda>_. 1),
     hdr_Type = (\<lambda>p. if p = 0x1030 \<or> p = 0x1050 then DRHD else if p = 0x1060 then RMRR else DMAR_OTHER 9),
     hdr_Length = (\<lambda>p. if p = 0x1050 then 16 else 32),
     drhd_Flags = (\<lambda>p. if p = 0x1050 then 1 else 0),
     drhd_SegmentNumber = (\<lambda>_. 0),
     drhd_RegisterBaseAddress = (\<lambda>p. if p = 0x1030 then 0xFED90000 else 0xFED91000),
     rmrr_SegmentNumber = (\<lambda>_. 0),
     rmrr_BaseAddress = (\<lambda>_. 0x8D800000), rmrr_LimitAddress = (\<lambda>_. 0x8FFFFFFF),
     atsr_Flags = (\<lambda>_. 0), atsr_SegmentNumber = (\<lambda>_. 0),
     rhsa_RegisterBaseAddress = (\<lambda>_. 0), rhsa_ProximityDomain = (\<lambda>_. 0),
     andd_AcpiDeviceNumber = (\<lambda>_. 0), andd_ObjectName = (\<lambda>_. []),
     scope_Type = (\<lambda>p. if p = 0x1048 then PCI_BRIDGE else PCI_ENDPOINT),
     scope_Length = (\<lambda>_. 8), scope_EnumerationId = (\<lambda>_. 0), scope_StartBusNumber = (\<lambda>_. 0),
     path_Device = (\<lambda>p. if p = 0x104E then 1 else 0), path_Function = (\<lambda>_. 0),
     PCI_MAX_DEVICE = 31, PCI_MAX_FUNC = 7, HEADER_TYPE_MULTI_FUNCTION = 0x80,
     PCI_CLASS_BRIDGE = 6, PCI_CLASS_BRIDGE_P2P = 4,
     PciSegmentRead8 = (\<lambda>Seg Bus Device Fn reg.
       if Bus = 0 \<and> Device = 1 \<and> Fn = 0
       then (case reg of PCI_CLASSCODE_OFFSET k \<Rightarrow> if k = 2 then 6 else if k = 1 then 4 else 0
             | PCI_BRIDGE_SECONDARY_BUS_REGISTER_OFFSET \<Rightarrow> 1 | PCI_HEADER_TYPE_OFFSET \<Rightarrow> 1 | _ \<Rightarrow> 0)
       else 0),
     PciSegmentRead16 = (\<lambda>Seg Bus Device Fn reg.
       if Fn = 0 \<and> (Bus = 0 \<and> (Device = 0 \<or> Device = 1) \<or> Bus = 1 \<and> Device = 0)
       then 0x8086 else 0xFFFF),
     alloc_ok = (\<lambda>n. True), alloc_units = (\<lambda>n. True), alloc_record = (\<lambda>n. True),
     LocateIoMmu = EFI_SUCCESS, IoMmu_AllocateBuffer = EFI_SUCCESS, IoMmu_Map = EFI_SUCCESS,
     map_ring = [NO_SIGNATURE,
       MAP_INFO \<lparr>map_Pointer = 0x5000, Operation = 2, NumberOfBytes = 0x1000, NumberOfPages = 1,
         HostAddress = 0x7000000, DeviceAddress = 0x7000000,
         HandleList = [\<lparr>mhi_Pointer = 0x5100, Handle = 0x42, IoMmuAccess = 3\<rparr>]\<rparr>],
     PciLocation = (\<lambda>h. if h = 0x42 then PCI_AT 0 1 0 0 else NOT_PCI), PathText = (\<lambda>_. None),
     LocatePlatformVtd = EFI_NOT_FOUND, GetExceptionDeviceList = (EFI_NOT_FOUND, 0, 0),
     exci_Type = (\<lambda>_. EXC_END), exci_Length = (\<lambda>_. 0), exci_ScopeSegment = (\<lambda>_. 0),
     exci_ScopeStartBus = (\<lambda>_. 0), exci_PathDevice = (\<lambda>_. 0), exci_PathFunction = (\<lambda>_. 0),
     exci_PciDeviceId = (\<lambda>_. PciDeviceId zero_data), alloc_exception = (\<lambda>i k. True),
     VTD_ROOT_ENTRY_NUMBER = 256, VTD_CONTEXT_ENTRY_NUMBER = 256,
     IOMMU_ACCESS_READ = 1, IOMMU_ACCESS_WRITE = 2,
     R_RTADDR_REG = 0x20, MmioRead64 = (\<lambda>a. if a = 0xFED90020 then 0x10000 else 0x20000),
     pt_Read = (\<lambda>e. bit e 0), pt_Write = (\<lambda>e. bit e 1), pt_PageSize = (\<lambda>e. bit e 7),
     pt_Address = (\<lambda>e. (drop_bit 12 e AND 0xFFFFF, drop_bit 32 e AND 0xFFFFF)),
     root_Present = (\<lambda>(lo, hi). bit lo 0),
     root_ContextTablePointer = (\<lambda>(lo, hi). (drop_bit 12 lo AND 0xFFFFF, drop_bit 32 lo)),
     ctx_Present = (\<lambda>(lo, hi). bit lo 0),
     ctx_SecondLevelPointer = (\<lambda>(lo, hi). (drop_bit 12 lo AND 0xFFFFF, drop_bit 32 lo)),
     xroot_LowerPresent = (\<lambda>(lo, hi). bit lo 0),
     xroot_LowerContextTablePointer = (\<lambda>(lo, hi). (drop_bit 12 lo AND 0xFFFFF, drop_bit 32 lo)),
     xroot_UpperPresent = (\<lambda>(lo, hi). bit hi 0),
     xroot_UpperContextTablePointer = (\<lambda>(lo, hi). (drop_bit 12 hi AND 0xFFFFF, drop_bit 32 hi)),
     xctx_Present = (\<lambda>(w1, _). bit w1 0),
     xctx_SecondLevelPointer = (\<lambda>(w1, _). (drop_bit 12 w1 AND 0xFFFFF, drop_bit 32 w1))\<rparr>"

definition sample_unit :: vtd_unit where
  "sample_unit = \<lparr>VtdUnitBaseAddress = 0xFED90000, Segment = 0,
     PciDeviceInfo = \<lparr>IncludeAllFlag = True, PciDeviceDataNumber = 0, PciDeviceDataMaxNumber = 0,
       PciDeviceData = []\<rparr>\<rparr>"
definition sample_state :: vtd_state where
  "sample_state = \<lparr>mAcpiDmarTable = 0x1000, gMaps = Some [], mVtdUnitNumber = 1, mVtdUnitInformation = [sample_unit], gExceptionRecord = [],
     gRmrrRecord = [], mHasError = False, console = []\<rparr>"
definition loop_env :: vtd_env where
  "loop_env = sample_env\<lparr>
     PciSegmentRead8 := (\<lambda>Seg Bus Device Fn reg.
       case reg of PCI_CLASSCODE_OFFSET k \<Rightarrow> if k = 2 then 6 else 4
       | PCI_BRIDGE_SECONDARY_BUS_REGISTER_OFFSET \<Rightarrow> Bus | _ \<Rightarrow> 0),
     PciSegmentRead16 := (\<lambda>Seg Bus Device Fn reg. 0x8086)\<rparr>"

lemma sample_present [simp]:
  "present sample_env Seg Bus Device Fn \<longleftrightarrow>
     Fn = 0 \<and> (Bus = 0 \<and> (Device = 0 \<or> Device = 1) \<or> Bus = 1 \<and> Device = 0)"
  by (auto simp: present_def sample_env_def)

lemma sample_bridge [simp]:
  "is_bridge sample_env Seg Bus Device Fn \<longleftrightarrow> Bus = 0 \<and> Device = 1 \<and> Fn = 0"
  by (auto simp: is_bridge_def sample_env_def)

lemma sample_secondary [simp]: "SecondaryBus sample_env Seg 0 1 0 = 1"
  by (simp add: sample_env_def)

lemma sample_ok [simp]: "unit_ok 0 0 sample_state"
  by (simp add: unit_ok_def sample_state_def sample_unit_def units_wf_def unit_wf_def)

lemma sample_alloc [simp]: "alloc_ok sample_env = (\<lambda>_. True)"
  by (simp add: sample_env_def)

end
