(* ===== verification/Vtd_Acpi.thy ===== *)
theory Vtd_Acpi
  imports Vtd_Sample
begin

text \<open>
  \<^verbatim>\<open>AppSrc/VtdDump/VtdDump.c\<close>, the search for the DMAR table: \<open>ScanTableInRSDT\<close>,
  \<open>ScanTableInXSDT\<close>, \<open>FindAcpiPtr\<close>.  The entry arrays are read from memory.
\<close>

section \<open>Operations\<close>

text \<open>The number of entries, computed at 64 bits and assigned to a \<open>UINT32\<close>.\<close>

definition EntryCount :: "'a acpi_view_scheme \<Rightarrow> addr \<Rightarrow> u64 \<Rightarrow> u32" where
  "EntryCount E t entry_size =
     ucast ((ucast (tbl_Length E t) - of_nat (sizeof_DESCRIPTION_HEADER E)) div entry_size)"

text \<open>The loop over the entries: index \<open>i\<close>, with \<open>n\<close> entries left.\<close>

fun scan_entries :: "(nat \<Rightarrow> addr) \<Rightarrow> (addr \<Rightarrow> u32) \<Rightarrow> u32 \<Rightarrow> nat \<Rightarrow> nat \<Rightarrow> addr" where
  "scan_entries entry sig Signature i 0 = NULL"
| "scan_entries entry sig Signature i (Suc n) =
     (let Table = entry i in
      if Table \<noteq> NULL \<and> sig Table = Signature then Table
      else scan_entries entry sig Signature (i + 1) n)"

definition rsdt_entry :: "'a acpi_view_scheme \<Rightarrow> addr \<Rightarrow> nat \<Rightarrow> addr" where
  "rsdt_entry E Rsdt i = unat (rd32 (memory E) (Rsdt + sizeof_DESCRIPTION_HEADER E + i * 4))"

definition xsdt_entry :: "'a acpi_view_scheme \<Rightarrow> addr \<Rightarrow> nat \<Rightarrow> addr" where
  "xsdt_entry E Xsdt i = unat (rd64 (memory E) (Xsdt + sizeof_DESCRIPTION_HEADER E + i * 8))"

definition ScanTableInRSDT :: "'a acpi_view_scheme \<Rightarrow> addr \<Rightarrow> u32 \<Rightarrow> addr" where
  "ScanTableInRSDT E Rsdt Signature =
     scan_entries (rsdt_entry E Rsdt) (tbl_Signature E) Signature 0 (unat (EntryCount E Rsdt 4))"

definition ScanTableInXSDT :: "'a acpi_view_scheme \<Rightarrow> addr \<Rightarrow> u32 \<Rightarrow> addr" where
  "ScanTableInXSDT E Xsdt Signature =
     scan_entries (xsdt_entry E Xsdt) (tbl_Signature E) Signature 0 (unat (EntryCount E Xsdt 8))"

definition FindAcpiPtr :: "'a acpi_view_scheme \<Rightarrow> addr \<Rightarrow> u32 \<Rightarrow> addr" where
  "FindAcpiPtr E Rsdp Signature =
     (let Rsdt = unat (rsdp_RsdtAddress E Rsdp);
          Xsdt = (if 2 \<le> rsdp_Revision E Rsdp \<and> rsdp_XsdtAddress E Rsdp < - 1
                  then unat (rsdp_XsdtAddress E Rsdp) else NULL);
          AcpiTable = (if Xsdt \<noteq> NULL then ScanTableInXSDT E Xsdt Signature else NULL)
      in if AcpiTable = NULL \<and> Rsdt \<noteq> NULL then ScanTableInRSDT E Rsdt Signature else AcpiTable)"

section \<open>Properties\<close>

text \<open>The tables that the root pointer names, the XSDT's before the RSDT's.\<close>

definition root_tables :: "'a acpi_view_scheme \<Rightarrow> addr \<Rightarrow> addr list" where
  "root_tables E Rsdp =
     (let Rsdt = unat (rsdp_RsdtAddress E Rsdp); Xsdt = unat (rsdp_XsdtAddress E Rsdp) in
      (if 2 \<le> rsdp_Revision E Rsdp \<and> rsdp_XsdtAddress E Rsdp \<noteq> - 1 \<and> Xsdt \<noteq> NULL
       then map (xsdt_entry E Xsdt) [0..<unat (EntryCount E Xsdt 8)] else [])
      @ (if Rsdt \<noteq> NULL then map (rsdt_entry E Rsdt) [0..<unat (EntryCount E Rsdt 4)] else []))"

definition first_table :: "'a acpi_view_scheme \<Rightarrow> u32 \<Rightarrow> addr list \<Rightarrow> addr" where
  "first_table E Signature ts =
     (case find (\<lambda>t. t \<noteq> NULL \<and> tbl_Signature E t = Signature) ts of Some t \<Rightarrow> t | None \<Rightarrow> NULL)"

lemma scan_entries_first:
  "scan_entries entry (tbl_Signature E) Signature i n
     = first_table E Signature (map entry [i..<i + n])"
proof (induction n arbitrary: i)
  case 0
  show ?case by (simp add: first_table_def)
next
  case (Suc n)
  then show ?case
    by (simp add: Let_def first_table_def upt_conv_Cons del: upt_Suc)
qed

lemma first_table_append:
  "first_table E Signature (xs @ ys) =
     (if first_table E Signature xs = NULL then first_table E Signature ys
      else first_table E Signature xs)"
proof (induction xs)
  case Nil
  show ?case by (simp add: first_table_def)
next
  case (Cons x xs)
  then show ?case by (simp add: first_table_def)
qed

lemma below_max: "(x :: 'a::len word) < - 1 \<longleftrightarrow> x \<noteq> - 1"
  by (simp add: word_order.not_eq_extremum)

text \<open>
  The search returns the first non-null table with the signature among the tables that
  the root pointer names, with those of the XSDT before those of the RSDT, and the null
  pointer exactly when there is none.
\<close>

theorem FindAcpiPtr_first:
  "FindAcpiPtr E Rsdp Signature = first_table E Signature (root_tables E Rsdp)"
proof -
  have none: "first_table E Signature [] = NULL" by (simp add: first_table_def)
  show ?thesis
    by (simp add: FindAcpiPtr_def root_tables_def Let_def ScanTableInRSDT_def ScanTableInXSDT_def
        scan_entries_first first_table_append below_max none)
qed

text \<open>
  A root table that is shorter than its header does not stop the search: the entry count
  wraps around to nearly 2^32.
\<close>

theorem EntryCount_short:
  assumes "unat (tbl_Length E t) < sizeof_DESCRIPTION_HEADER E"
    and "sizeof_DESCRIPTION_HEADER E \<le> 64" and "entry_size = 4 \<or> entry_size = 8"
  shows "2 ^ 32 - 16 \<le> unat (EntryCount E t entry_size)"
proof -
  let ?L = "unat (tbl_Length E t)" and ?H = "sizeof_DESCRIPTION_HEADER E"
  let ?x = "ucast (tbl_Length E t) - of_nat ?H :: u64"
  obtain q where q: "64 - (?H - ?L) = q" by blast
  have L: "unat (ucast (tbl_Length E t) :: u64) = ?L"
    by (simp add: unat_ucast_up)
  have H: "unat (of_nat ?H :: u64) = ?H"
    using assms(2) by (simp add: unat_of_nat)
  have "unat ?x = 2 ^ 64 + ?L - ?H"
    using assms(1) L H by (simp add: unat_sub_if')
  then have x: "unat ?x = 2 ^ 64 - 64 + q" and "q < 64"
    using assms(1,2) q by auto
  have "unat ?x = 4 * (2 ^ 62 - 16) + q" "unat ?x = 8 * (2 ^ 61 - 8) + q"
    using x by simp_all
  then have "unat ?x div 4 = 2 ^ 62 - 16 + q div 4" "unat ?x div 8 = 2 ^ 61 - 8 + q div 8"
    by (simp_all only: div_mult_self4 zero_neq_numeral not_False_eq_True)
  moreover have "q div 4 < 16" "q div 8 < 8"
    using \<open>q < 64\<close> by auto
  ultimately have "unat ?x div 4 = (2 ^ 32 - 16 + q div 4) + 2 ^ 32 * (2 ^ 30 - 1)"
    "unat ?x div 8 = (2 ^ 32 - 8 + q div 8) + 2 ^ 32 * (2 ^ 29 - 1)"
    and small: "2 ^ 32 - 16 + q div 4 < 2 ^ 32" "2 ^ 32 - 8 + q div 8 < 2 ^ 32"
    by simp_all
  then have "unat ?x div 4 mod 2 ^ 32 = 2 ^ 32 - 16 + q div 4"
    "unat ?x div 8 mod 2 ^ 32 = 2 ^ 32 - 8 + q div 8"
    by (simp_all only: mod_mult_self2 mod_less small)
  moreover have "unat (EntryCount E t 4) = unat ?x div 4 mod 2 ^ 32"
    and "unat (EntryCount E t 8) = unat ?x div 8 mod 2 ^ 32"
    by (simp_all add: EntryCount_def unat_ucast unat_div)
  ultimately show ?thesis using assms(3) by auto
qed

theorem EntryCount_short_witness:
  "2 ^ 32 - 16 \<le> unat (EntryCount (sample_env\<lparr>tbl_Length := \<lambda>_. 35\<rparr>) 0x200 8)"
  by (rule EntryCount_short) (simp_all add: sample_env_def)

end
