(* ===== verification/Vtd_Pci_Props.thy ===== *)
theory Vtd_Pci_Props
  imports Vtd_Sample
begin

text \<open>
  What the PCI side of \<open>VtdDump\<close> guarantees: the device tables stay well formed and behave
  as maps in which the first registration wins; the bus scan returns on every topology in
  which a secondary bus lies above its primary bus, registers every function it meets, and
  does not return on a bridge that leads to its own bus; device scopes resolve along their
  path.
\<close>

section \<open>The device table as a registry\<close>

lemma same_units:
  assumes "mVtdUnitInformation s' = mVtdUnitInformation s"
  shows "GetPciDataIndex s' = GetPciDataIndex s" and "lookup_type i Seg s' = lookup_type i Seg s"
    and "elsewhere i Seg s' = elsewhere i Seg s" and "unit_ok i Seg s' = unit_ok i Seg s"
  using assms
  by (simp_all add: GetPciDataIndex_def lookup_type_def elsewhere_def unit_ok_def units_wf_def fun_eq_iff)

lemma Register_refused_lookup:
  assumes "GetPciDataIndex s i Seg sid \<noteq> None \<or> elsewhere i Seg s sid \<or> \<not> room E i s"
  shows "GetPciDataIndex (snd (RegisterPciDevice E i Seg sid ty chk s)) = GetPciDataIndex s"
    and "lookup_type i Seg (snd (RegisterPciDevice E i Seg sid ty chk s)) = lookup_type i Seg s"
  using same_units [OF Register_refused(1) [OF assms]] by blast+

lemma unit_ok_Register:
  assumes "unit_ok i Seg s"
  shows "unit_ok i Seg (snd (RegisterPciDevice E i Seg sid ty chk s))"
proof (cases "GetPciDataIndex s i Seg sid \<noteq> None \<or> elsewhere i Seg s sid \<or> \<not> room E i s")
  case True
  from Register_refused(1) [OF this] assms show ?thesis
    by (simp add: unit_ok_def units_wf_def)
next
  case False
  then obtain p where info: "mVtdUnitInformation (snd (RegisterPciDevice E i Seg sid ty chk s))
           = mVtdUnitInformation (upd_info i (\<lambda>_. p) s)"
    and wf: "unit_wf ((mVtdUnitInformation s ! i)\<lparr>PciDeviceInfo := p\<rparr>)"
    using Register_new [OF assms, of sid E ty chk] by metis
  from assms have "units_wf s" by (simp add: unit_ok_def)
  then have "units_wf (upd_info i (\<lambda>_. p) s)"
    using wf by (intro units_wf_upd)
  moreover have "Segment (mVtdUnitInformation (upd_info i (\<lambda>_. p) s) ! i) = Seg"
    using assms by (simp add: unit_ok_def)
  ultimately show ?thesis
    using assms info by (simp add: unit_ok_def units_wf_def)
qed

lemma Register_new_lookup:
  assumes ok: "unit_ok i Seg s" and "GetPciDataIndex s i Seg sid = None"
    and "\<not> elsewhere i Seg s sid" and "room E i s"
  shows "fst (RegisterPciDevice E i Seg sid ty chk s) = EFI_SUCCESS
    \<and> lookup_type i Seg (snd (RegisterPciDevice E i Seg sid ty chk s))
        = (lookup_type i Seg s)(sid \<mapsto> ty)"
proof -
  let ?s = "snd (RegisterPciDevice E i Seg sid ty chk s)"
  obtain p where succ: "fst (RegisterPciDevice E i Seg sid ty chk s) = EFI_SUCCESS"
    and info: "mVtdUnitInformation ?s = mVtdUnitInformation (upd_info i (\<lambda>_. p) s)"
    and ent: "entries p = entries (pci_info s i) @ [(sid, ty)]"
    using Register_new [OF assms, of ty chk] by metis
  have "i < length (mVtdUnitInformation s)" using ok by (simp add: unit_ok_def)
  then have pinfo: "pci_info ?s i = p"
    by (simp add: info)
  have none: "map_of (entries (pci_info s i)) sid = None"
    using ok assms(2) lookup_type_None lookup_type_entries by metis
  have "lookup_type i Seg ?s = map_of (entries p)"
    using lookup_type_entries [OF unit_ok_Register [OF ok]] pinfo by metis
  also have "\<dots> = (map_of (entries (pci_info s i)))(sid \<mapsto> ty)"
    using none by (auto simp: ent map_add_def fun_eq_iff split: option.splits)
  finally show ?thesis
    using succ by (simp add: lookup_type_entries [OF ok])
qed

interpretation pci: keyed_registry "lookup_type i Seg"
  "\<lambda>sid ty. RegisterPciDevice E i Seg sid ty chk"
  "\<lambda>s sid. \<not> elsewhere i Seg s sid \<and> room E i s" "unit_ok i Seg"
  for E i Seg chk
  by unfold_locales
    (auto simp: lookup_type_None Register_new_lookup Register_refused_lookup unit_ok_Register)

text \<open>
  C37: Registering a PCI device in a unit keeps every device table well formed: the count
  stays within the capacity, the capacity is the length of the buffer, and no source id is
  registered twice in a unit.
\<close>

theorem RegisterPciDevice_wf:
  assumes "i < length (mVtdUnitInformation s)" and "Segment (mVtdUnitInformation s ! i) = Seg"
    and "units_wf s"
  shows "units_wf (snd (RegisterPciDevice E i Seg sid ty chk s))"
  using unit_ok_Register [of i Seg s E sid ty chk] assms by (simp add: unit_ok_def)

definition sample_sid :: source_id where
  "sample_sid = \<lparr>sid_Bus = 0, sid_Device = 1, sid_Function = 0\<rparr>"

definition sample_known :: vtd_state where
  "sample_known = snd (RegisterPciDevice sample_env 0 0 sample_sid PCI_BRIDGE True sample_state)"

lemma sample_known_facts:
  "unit_ok 0 0 sample_known" "lookup_type 0 0 sample_known sample_sid = Some PCI_BRIDGE"
proof -
  have none: "GetPciDataIndex sample_state 0 0 sample_sid = None"
    by (simp add: GetPciDataIndex_def sample_state_def sample_unit_def)
  have "\<not> elsewhere 0 0 sample_state sample_sid" "room sample_env 0 sample_state"
    by (simp_all add: elsewhere_def room_def grow_def)
  from Register_new_lookup [OF sample_ok none this]
  show "lookup_type 0 0 sample_known sample_sid = Some PCI_BRIDGE"
    by (simp add: sample_known_def)
qed (simp add: sample_known_def unit_ok_Register)

theorem RegisterPciDevice_wf_witness:
  "units_wf (snd (RegisterPciDevice sample_env 0 0 sample_sid PCI_BRIDGE True sample_state))"
  using RegisterPciDevice_wf [of 0 sample_state 0 sample_env sample_sid PCI_BRIDGE True] sample_ok
  by (simp add: unit_ok_def)

text \<open>
  A device that a unit already knows keeps its device type through any later sequence
  of registrations in that unit, whatever these are and whether or not they succeed.
\<close>

theorem RegisterPciDevice_stable:
  assumes "unit_ok i Seg s" and "lookup_type i Seg s sid = Some ty"
  shows "lookup_type i Seg (fold (\<lambda>(k, t) s. snd (RegisterPciDevice E i Seg k t chk s)) kts s) sid
           = Some ty"
  using assms by (rule pci.lookup_runs)

theorem RegisterPciDevice_stable_witness:
  "lookup_type 0 0 (fold (\<lambda>(k, t) s. snd (RegisterPciDevice sample_env 0 0 k t False s))
     [(sample_sid, PCI_ENDPOINT), (sample_sid\<lparr>sid_Device := 2\<rparr>, PCI_ENDPOINT)] sample_known) sample_sid
   = Some PCI_BRIDGE"
  using sample_known_facts by (rule RegisterPciDevice_stable)

text \<open>
  C16: When \<open>RegisterPciDevice\<close> reports success the device is found afterwards, in this
  unit or, for an include-all unit, in a unit before it; it reports \<open>EFI_ALREADY_STARTED\<close>
  only on request and then the device was known; it reports \<open>EFI_OUT_OF_RESOURCES\<close> only when
  the buffer could not grow, and leaves the state as it was.
\<close>

theorem RegisterPciDevice_status:
  assumes "unit_ok i Seg s" and "RegisterPciDevice E i Seg sid ty chk s = (st, s')"
  shows "case st of
      EFI_SUCCESS \<Rightarrow> GetPciDataIndex s' i Seg sid \<noteq> None \<or> elsewhere i Seg s' sid
    | EFI_ALREADY_STARTED \<Rightarrow> chk \<and> GetPciDataIndex s i Seg sid \<noteq> None
    | EFI_OUT_OF_RESOURCES \<Rightarrow> \<not> room E i s \<and> s' = s
    | _ \<Rightarrow> False"
proof (cases "GetPciDataIndex s i Seg sid = None \<and> \<not> elsewhere i Seg s sid \<and> room E i s")
  case True
  then have "fst (RegisterPciDevice E i Seg sid ty chk s) = EFI_SUCCESS
    \<and> lookup_type i Seg (snd (RegisterPciDevice E i Seg sid ty chk s)) sid = Some ty"
    using Register_new_lookup [OF assms(1)] by simp
  with assms(2) have "st = EFI_SUCCESS" "lookup_type i Seg s' sid \<noteq> None" by auto
  then show ?thesis by (simp add: lookup_type_None)
next
  case False
  then have units: "mVtdUnitInformation s' = mVtdUnitInformation s"
    using Register_refused(1) [of s i Seg sid E ty chk] assms(2) by auto
  then have same: "GetPciDataIndex s' = GetPciDataIndex s" "elsewhere i Seg s' = elsewhere i Seg s"
    by (rule same_units)+
  show ?thesis
  proof (cases "elsewhere i Seg s sid")
    case True
    then have "other_unit s i Seg sid \<noteq> None" by (simp add: elsewhere_find)
    with assms(2) have "st = EFI_SUCCESS"
      by (auto simp: RegisterPciDevice_def split: option.splits)
    with True same show ?thesis by simp
  next
    case notelse: False
    then have none: "other_unit s i Seg sid = None" by (simp add: elsewhere_find)
    show ?thesis
    proof (cases "GetPciDataIndex s i Seg sid")
      case None
      with False notelse have "grow E (pci_info s i) = None" by (simp add: room_def)
      with None none assms(2) show ?thesis
        by (auto simp: RegisterPciDevice_def room_def)
    next
      case (Some k)
      with none assms(2) same show ?thesis
        by (auto simp: RegisterPciDevice_def split: if_splits)
    qed
  qed
qed

theorem RegisterPciDevice_status_witness:
  "case fst (RegisterPciDevice sample_env 0 0 sample_sid PCI_BRIDGE True sample_known) of
      EFI_SUCCESS \<Rightarrow> True
    | EFI_ALREADY_STARTED \<Rightarrow> GetPciDataIndex sample_known 0 0 sample_sid \<noteq> None
    | EFI_OUT_OF_RESOURCES \<Rightarrow> \<not> room sample_env 0 sample_known
    | _ \<Rightarrow> False"
  using RegisterPciDevice_status [OF sample_known_facts(1) prod.collapse [symmetric],
      of sample_env sample_sid PCI_BRIDGE True]
  by (auto split: efi_status.splits)

section \<open>The bus scan\<close>

definition secondary_above :: "vtd_env \<Rightarrow> u16 \<Rightarrow> bool" where
  "secondary_above E Seg \<longleftrightarrow>
     (\<forall>Bus Device Fn. is_bridge E Seg Bus Device Fn \<longrightarrow>
        SecondaryBus E Seg Bus Device Fn = 0 \<or> Bus < SecondaryBus E Seg Bus Device Fn)"

lemma scan_function_total:
  assumes "\<And>Sec s. is_bridge E Seg Bus Device (of_nat f) \<Longrightarrow>
      Sec = SecondaryBus E Seg Bus Device (of_nat f) \<Longrightarrow> Sec \<noteq> 0 \<Longrightarrow> \<exists>r. scan Sec s = Some r"
  shows "\<exists>r. scan_function E cb scan Seg Bus Device f s = Some r"
proof -
  obtain st s1 where cb: "cb Seg Bus Device (of_nat f) s = (st, s1)" by fastforce
  show ?thesis
  proof (cases "is_bridge E Seg Bus Device (of_nat f) \<and> SecondaryBus E Seg Bus Device (of_nat f) \<noteq> 0")
    case True
    then obtain r where "scan (SecondaryBus E Seg Bus Device (of_nat f))
        (say ''  ScanPciBus: PCI bridge S%04x B%02x D%02x F%02x (SecondBus:%02x)''
           [hx Seg, hx Bus, hx Device, hx (of_nat f :: u8),
            hx (SecondaryBus E Seg Bus Device (of_nat f))] s1) = Some r"
      using assms by blast
    with True cb show ?thesis by (cases r) (simp add: scan_function_def Let_def)
  next
    case False
    with cb show ?thesis by (auto simp: scan_function_def Let_def)
  qed
qed

lemma scan_total:
  assumes "secondary_above E Seg" and "256 \<le> depth + unat Bus"
  shows "\<exists>st s'. ScanPciBus depth E cb Seg Bus s = Some (st, s')"
  using assms(2)
proof (induction depth arbitrary: Bus s)
  case 0
  have "unat Bus < 256" using unsigned_less [of Bus] by simp
  with 0 show ?case by simp
next
  case (Suc depth)
  have fn: "\<exists>r. scan_function E cb (ScanPciBus depth E cb Seg) Seg Bus Device f s = Some r" for Device f s
  proof (rule scan_function_total)
    fix Sec s
    assume "is_bridge E Seg Bus Device (of_nat f)" and Sec: "Sec = SecondaryBus E Seg Bus Device (of_nat f)"
      and "Sec \<noteq> 0"
    with assms(1) have "Bus < Sec" by (auto simp: secondary_above_def)
    then have "unat Bus < unat Sec" by (simp add: word_less_nat_alt)
    with Suc.prems have "256 \<le> depth + unat Sec" by simp
    from Suc.IH [OF this] show "\<exists>r. ScanPciBus depth E cb Seg Sec s = Some r" by blast
  qed
  have "\<exists>r. visit (\<lambda>d. let Device = of_nat d in
        visit (scan_function E cb (ScanPciBus depth E cb Seg) Seg Bus Device)
          [0..<MaxFunction E Seg Bus Device]) [0..<PCI_MAX_DEVICE E + 1] s = Some r"
    unfolding Let_def by (intro visit_total fn)
  then have "\<exists>p. ScanPciBus (Suc depth) E cb Seg Bus s = Some p"
    by (auto simp del: upt_Suc)
  then show ?case by auto
qed

text \<open>
  C19: The recursive bus scan returns, whatever the callback does, on every topology in which
  each PCI-PCI bridge leads to a bus with a larger number (or to none): recursion depth
  \<open>256 - Bus\<close> is enough.
\<close>

theorem ScanPciBus_returns:
  assumes "secondary_above E Seg" and "256 \<le> depth + unat Bus"
  shows "\<exists>st s'. ScanPciBus depth E cb Seg Bus s = Some (st, s')"
  using assms by (rule scan_total)

lemma sample_secondary_above: "secondary_above sample_env Seg"
  by (auto simp: secondary_above_def)

theorem ScanPciBus_returns_witness:
  "\<exists>st s'. ScanPciBus 256 sample_env (ScanBusCallbackRegisterPciDevice sample_env 0) 0 0 sample_state
             = Some (st, s')"
  by (rule ScanPciBus_returns [OF sample_secondary_above]) simp

text \<open>
  A bridge at device 0, function 0 whose secondary bus register holds its own bus makes
  the scan recurse for ever: no depth is enough.
\<close>

theorem ScanPciBus_self_loop:
  assumes "present E Seg Bus 0 0" and "is_bridge E Seg Bus 0 0"
    and "SecondaryBus E Seg Bus 0 0 = Bus" and "Bus \<noteq> 0"
    and "\<And>s. \<not> EFI_ERROR (fst (cb Seg Bus 0 0 s))"
  shows "ScanPciBus depth E cb Seg Bus s = None"
proof (induction depth arbitrary: s)
  case 0
  show ?case by simp
next
  case (Suc depth)
  have fn: "scan_function E cb (ScanPciBus depth E cb Seg) Seg Bus 0 0 s = None"
    using assms(1-4) assms(5) [of s] Suc.IH by (simp add: scan_function_def Let_def case_prod_beta)
  have devs: "[0..<PCI_MAX_DEVICE E + 1] = 0 # [1..<PCI_MAX_DEVICE E + 1]"
    by (simp add: upt_conv_Cons)
  have fns: "[0..<MaxFunction E Seg Bus 0] = 0 # [1..<MaxFunction E Seg Bus 0]"
    by (simp add: MaxFunction_def upt_conv_Cons)
  show ?case
    unfolding ScanPciBus.simps devs by (simp add: fns fn del: upt_Suc)
qed

theorem ScanPciBus_self_loop_witness:
  "ScanPciBus 1000 loop_env (\<lambda>_ _ _ _ s. (EFI_SUCCESS, s)) 0 1 sample_state = None"
  by (rule ScanPciBus_self_loop) (simp_all add: present_def is_bridge_def loop_env_def sample_env_def)

lemma scan_function_mono:
  assumes "\<And>b s r. scan b s = Some r \<Longrightarrow> scan' b s = Some r"
    and "scan_function E cb scan Seg Bus Device f s = Some r"
  shows "scan_function E cb scan' Seg Bus Device f s = Some r"
  using assms by (auto simp: scan_function_def Let_def bind_eq_Some_conv split: if_splits prod.splits)

text \<open>
  The depth bound only cuts off: a result found with some depth is the result with
  every larger depth.
\<close>

theorem ScanPciBus_mono:
  assumes "ScanPciBus depth E cb Seg Bus s = Some r" and "depth \<le> depth'"
  shows "ScanPciBus depth' E cb Seg Bus s = Some r"
proof -
  have step: "ScanPciBus n E cb Seg Bus s = Some r \<Longrightarrow> ScanPciBus (Suc n) E cb Seg Bus s = Some r"
    for n Bus s r
  proof (induction n arbitrary: Bus s r)
    case 0
    then show ?case by simp
  next
    case (Suc n)
    from Suc.prems obtain v where v: "visit (\<lambda>d. let Device = of_nat d in
        visit (scan_function E cb (ScanPciBus n E cb Seg) Seg Bus Device)
          [0..<MaxFunction E Seg Bus Device]) [0..<PCI_MAX_DEVICE E + 1] s = Some v"
      and r: "r = returned v" by (auto simp del: upt_Suc)
    have "visit (\<lambda>d. let Device = of_nat d in
        visit (scan_function E cb (ScanPciBus (Suc n) E cb Seg) Seg Bus Device)
          [0..<MaxFunction E Seg Bus Device]) [0..<PCI_MAX_DEVICE E + 1] s = Some v"
    proof (rule visit_mono [OF _ v])
      fix d s r
      assume "(let Device = of_nat d in
        visit (scan_function E cb (ScanPciBus n E cb Seg) Seg Bus Device)
          [0..<MaxFunction E Seg Bus Device]) s = Some r"
      then show "(let Device = of_nat d in
        visit (scan_function E cb (ScanPciBus (Suc n) E cb Seg) Seg Bus Device)
          [0..<MaxFunction E Seg Bus Device]) s = Some r"
        unfolding Let_def by (elim visit_mono [rotated]) (rule scan_function_mono, rule Suc.IH)
    qed
    with r show ?case by (subst ScanPciBus.simps) (simp del: upt_Suc ScanPciBus.simps)
  qed
  from assms(2,1) show ?thesis
    by (induction depth' rule: dec_induct) (auto intro: step simp del: ScanPciBus.simps)
qed

theorem ScanPciBus_mono_witness:
  "\<exists>r. ScanPciBus 300 sample_env (ScanBusCallbackRegisterPciDevice sample_env 0) 0 0 sample_state = Some r"
proof -
  obtain r where "ScanPciBus 256 sample_env (ScanBusCallbackRegisterPciDevice sample_env 0) 0 0
      sample_state = Some r"
    using scan_total [OF sample_secondary_above, of 256 0] by force
  from ScanPciBus_mono [OF this, of 300] show ?thesis by simp
qed

text \<open>What the callback and the console output keep, the scan keeps.\<close>

lemma scan_function_inv:
  assumes cb: "\<And>b d f s. I s \<Longrightarrow> I (snd (cb Seg b d f s))" and say: "\<And>f a s. I s \<Longrightarrow> I (say f a s)"
    and scan: "\<And>b s st s'. I s \<Longrightarrow> scan b s = Some (st, s') \<Longrightarrow> I s'"
    and "I s" and "scan_function E cb scan Seg Bus Device f s = Some r"
  shows "case r of Inl (st, s') \<Rightarrow> EFI_ERROR st \<and> I s' | Inr s' \<Rightarrow> I s'"
proof (cases "present E Seg Bus Device (of_nat f)")
  case False
  with assms(4,5) show ?thesis by (auto simp: scan_function_def)
next
  case True
  obtain st s1 where c: "cb Seg Bus Device (of_nat f) s = (st, s1)" by fastforce
  with cb [OF assms(4), of Bus Device "of_nat f"] have I1: "I s1" by simp
  show ?thesis
  proof (cases "EFI_ERROR st")
    case err: True
    with True c I1 assms(5) show ?thesis by (auto simp: scan_function_def)
  next
    case noerr: False
    show ?thesis
    proof (cases "is_bridge E Seg Bus Device (of_nat f)")
      case False
      with True noerr c I1 assms(5) show ?thesis by (auto simp: scan_function_def)
    next
      case bridge: True
      note scanned = scan [OF say [OF I1]]
      from bridge True noerr c say [OF I1] assms(5) show ?thesis
        by (auto simp: scan_function_def Let_def bind_eq_Some_conv split: if_splits dest: scanned)
    qed
  qed
qed

lemma scan_device_inv:
  assumes cb: "\<And>b d f s. I s \<Longrightarrow> I (snd (cb Seg b d f s))" and say: "\<And>f a s. I s \<Longrightarrow> I (say f a s)"
    and scan: "\<And>b s st s'. I s \<Longrightarrow> scan b s = Some (st, s') \<Longrightarrow> I s'"
    and "I s" and "visit (scan_function E cb scan Seg Bus Device) fs s = Some r"
  shows "case r of Inl (st, s') \<Rightarrow> EFI_ERROR st \<and> I s' | Inr s' \<Rightarrow> I s'"
proof -
  have one: "case r of Inl (st, s') \<Rightarrow> EFI_ERROR st \<and> I s' | Inr s' \<Rightarrow> I s'"
    if "I s" and "scan_function E cb scan Seg Bus Device f s = Some r" for f s r
    using scan_function_inv [where I = I and cb = cb and Seg = Seg and scan = scan, OF cb say scan that] .
  have "case r of Inl x \<Rightarrow> (case x of (st, s') \<Rightarrow> EFI_ERROR st \<and> I s') | Inr s' \<Rightarrow> I s'"
  proof (rule visit_inv [where I = I and J = "\<lambda>(st, s'). EFI_ERROR st \<and> I s'", OF _ _ assms(4,5)])
    fix q s s' assume "I s" "scan_function E cb scan Seg Bus Device q s = Some (Inr s')"
    from one [OF this] show "I s'" by simp
  next
    fix q s x assume "I s" "scan_function E cb scan Seg Bus Device q s = Some (Inl x)"
    from one [OF this] show "case x of (st, s') \<Rightarrow> EFI_ERROR st \<and> I s'" by simp
  qed
  then show ?thesis .
qed

lemma ScanPciBus_inv:
  assumes cb: "\<And>b d f s. I s \<Longrightarrow> I (snd (cb Seg b d f s))" and say: "\<And>f a s. I s \<Longrightarrow> I (say f a s)"
    and "I s" and "ScanPciBus depth E cb Seg Bus s = Some (st, s')"
  shows "I s'"
  using assms(3,4)
proof (induction depth arbitrary: Bus s st s')
  case 0
  then show ?case by simp
next
  case (Suc n)
  from Suc.prems(2) obtain v where v: "visit (\<lambda>d. let Device = of_nat d in
        visit (scan_function E cb (ScanPciBus n E cb Seg) Seg Bus Device)
          [0..<MaxFunction E Seg Bus Device]) [0..<PCI_MAX_DEVICE E + 1] s = Some v"
    and r: "(st, s') = returned v" by (auto simp del: upt_Suc)
  have dev: "case r of Inl (st, s') \<Rightarrow> EFI_ERROR st \<and> I s' | Inr s' \<Rightarrow> I s'"
    if "I s" and "visit (scan_function E cb (ScanPciBus n E cb Seg) Seg Bus Device) fs s = Some r"
    for Device fs s r
    using scan_device_inv [where I = I and cb = cb and Seg = Seg and scan = "ScanPciBus n E cb Seg",
        OF cb say Suc.IH that] .
  have "case v of Inl x \<Rightarrow> (case x of (st, s') \<Rightarrow> EFI_ERROR st \<and> I s') | Inr s' \<Rightarrow> I s'"
  proof (rule visit_inv [where I = I and J = "\<lambda>(st, s'). EFI_ERROR st \<and> I s'",
        OF _ _ Suc.prems(1) v], unfold Let_def)
    fix q s s'
    assume "I s" "visit (scan_function E cb (ScanPciBus n E cb Seg) Seg Bus (of_nat q))
      [0..<MaxFunction E Seg Bus (of_nat q)] s = Some (Inr s')"
    from dev [OF this] show "I s'" by simp
  next
    fix q s x
    assume "I s" "visit (scan_function E cb (ScanPciBus n E cb Seg) Seg Bus (of_nat q))
      [0..<MaxFunction E Seg Bus (of_nat q)] s = Some (Inl x)"
    from dev [OF this] show "case x of (st, s') \<Rightarrow> EFI_ERROR st \<and> I s'" by simp
  qed
  with r show ?case by (auto simp: returned_def split: sum.splits)
qed

definition covered :: "nat \<Rightarrow> u16 \<Rightarrow> vtd_state \<Rightarrow> source_id \<Rightarrow> bool" where
  "covered i Seg s sid \<longleftrightarrow> GetPciDataIndex s i Seg sid \<noteq> None \<or> elsewhere i Seg s sid"

lemma covered_Register:
  assumes "unit_ok i Seg s" and "covered i Seg s k"
  shows "covered i Seg (snd (RegisterPciDevice E i Seg sid ty chk s)) k"
proof (cases "GetPciDataIndex s i Seg sid \<noteq> None \<or> elsewhere i Seg s sid \<or> \<not> room E i s")
  case True
  from same_units [OF Register_refused(1) [OF this]] assms(2) show ?thesis
    by (simp add: covered_def)
next
  case False
  let ?s = "snd (RegisterPciDevice E i Seg sid ty chk s)"
  from False obtain p where info: "mVtdUnitInformation ?s = mVtdUnitInformation (upd_info i (\<lambda>_. p) s)"
    and flag: "IncludeAllFlag p = IncludeAllFlag (pci_info s i)"
    using Register_new [OF assms(1), of sid E ty chk] by metis
  have len: "i < length (mVtdUnitInformation s)" using assms(1) by (simp add: unit_ok_def)
  have others: "GetPciDataIndex ?s j Seg k = GetPciDataIndex s j Seg k" if "j < i" for j
  proof -
    from that have "j \<noteq> i" by simp
    then show ?thesis unfolding GetPciDataIndex_def info by simp
  qed
  from assms(2) consider "lookup_type i Seg s k \<noteq> None" | "elsewhere i Seg s k"
    by (auto simp: covered_def lookup_type_None)
  then show ?thesis
  proof cases
    case 1
    then obtain t where "lookup_type i Seg s k = Some t" by auto
    then have "lookup_type i Seg ?s k = Some t"
      by (rule pci.lookup_stable [OF assms(1)])
    then have "lookup_type i Seg ?s k \<noteq> None" by simp
    then show ?thesis by (simp add: covered_def lookup_type_None)
  next
    case 2
    then show ?thesis
      using flag len others by (auto simp: covered_def elsewhere_def info)
  qed
qed

lemma Register_statuses:
  "fst (RegisterPciDevice E i Seg sid ty chk s) = EFI_SUCCESS
   \<or> EFI_ERROR (fst (RegisterPciDevice E i Seg sid ty chk s))"
  by (simp add: RegisterPciDevice_def Let_def split: option.split)

lemma Register_success_covered:
  assumes "unit_ok i Seg s" and "RegisterPciDevice E i Seg sid ty chk s = (st, s')" and "\<not> EFI_ERROR st"
  shows "covered i Seg s' sid"
proof -
  have "covered i Seg s' sid" if "st = EFI_SUCCESS"
  proof (cases "GetPciDataIndex s i Seg sid = None \<and> \<not> elsewhere i Seg s sid \<and> room E i s")
    case True
    then have "lookup_type i Seg (snd (RegisterPciDevice E i Seg sid ty chk s)) sid = Some ty"
      using Register_new_lookup [OF assms(1)] by simp
    with assms(2) have "lookup_type i Seg s' sid \<noteq> None" by simp
    then show ?thesis by (simp add: covered_def lookup_type_None)
  next
    case False
    have units: "mVtdUnitInformation s' = mVtdUnitInformation s"
      using Register_refused(1) [of s i Seg sid E ty chk] False assms(2) by auto
    have "room E i s \<or> covered i Seg s sid"
    proof (rule ccontr)
      assume "\<not> (room E i s \<or> covered i Seg s sid)"
      then have "other_unit s i Seg sid = None" "GetPciDataIndex s i Seg sid = None"
        "grow E (pci_info s i) = None"
        by (auto simp: covered_def elsewhere_find room_def)
      with assms(2) that show False by (simp add: RegisterPciDevice_def)
    qed
    with False show ?thesis
      by (auto simp: covered_def same_units [OF units])
  qed
  moreover have "st = EFI_SUCCESS"
    using assms(2,3) Register_statuses [of E i Seg sid ty chk s] by simp
  ultimately show ?thesis by simp
qed

lemma callback_register:
  "\<exists>ty. ScanBusCallbackRegisterPciDevice E i Seg b d f s =
     RegisterPciDevice E i Seg \<lparr>sid_Bus = b, sid_Device = ucast d, sid_Function = ucast f\<rparr> ty False s"
  by (auto simp: ScanBusCallbackRegisterPciDevice_def Let_def)

lemma callback_keeps:
  assumes "unit_ok i Seg s"
  shows "unit_ok i Seg (snd (ScanBusCallbackRegisterPciDevice E i Seg b d f s))"
    and "covered i Seg s k \<Longrightarrow> covered i Seg (snd (ScanBusCallbackRegisterPciDevice E i Seg b d f s)) k"
  using callback_register [of E i Seg b d f s] unit_ok_Register [OF assms] covered_Register [OF assms]
  by auto

lemma say_keeps:
  "unit_ok i Seg s \<Longrightarrow> unit_ok i Seg (say f a s)"
  "covered i Seg s k \<Longrightarrow> covered i Seg (say f a s) k"
  by (simp_all add: covered_def same_units [where s' = "say f a s" and s = s])

text \<open>
  Scanning the buses behind a unit keeps the device tables of all units well formed.
\<close>

theorem ScanPciBus_wf:
  assumes "unit_ok i Seg s"
    and "ScanPciBus depth E (ScanBusCallbackRegisterPciDevice E i) Seg Bus s = Some (st, s')"
  shows "unit_ok i Seg s'"
  using ScanPciBus_inv [where I = "unit_ok i Seg", OF callback_keeps(1) say_keeps(1) assms] .

theorem ScanPciBus_wf_witness:
  "\<exists>st s'. ScanPciBus 256 sample_env (ScanBusCallbackRegisterPciDevice sample_env 0) 0 0 sample_state
       = Some (st, s') \<and> unit_ok 0 0 s'"
proof -
  obtain st s' where "ScanPciBus 256 sample_env (ScanBusCallbackRegisterPciDevice sample_env 0) 0 0
      sample_state = Some (st, s')"
    using scan_total [OF sample_secondary_above, of 256 0] by force
  from ScanPciBus_wf [OF sample_ok this] this show ?thesis by blast
qed

lemma scan_success_Inr:
  assumes "returned v = (EFI_SUCCESS, s')" and "\<And>st s. v = Inl (st, s) \<Longrightarrow> EFI_ERROR st"
  shows "v = Inr s'"
  using assms by (cases v) (auto simp: returned_def)

lemma scan_function_registers:
  assumes ok: "unit_ok i Seg s" and "present E Seg Bus Device (of_nat f)"
    and scan: "\<And>b s st s'. unit_ok i Seg s \<Longrightarrow> covered i Seg s k \<Longrightarrow> scan b s = Some (st, s') \<Longrightarrow>
      covered i Seg s' k"
    and k: "k = \<lparr>sid_Bus = Bus, sid_Device = ucast Device, sid_Function = ucast (of_nat f :: u8)\<rparr>"
    and "scan_function E (ScanBusCallbackRegisterPciDevice E i) scan Seg Bus Device f s = Some (Inr s')"
  shows "covered i Seg s' k"
proof -
  obtain st s1 where c: "ScanBusCallbackRegisterPciDevice E i Seg Bus Device (of_nat f) s = (st, s1)"
    by fastforce
  from assms(2,5) c have st: "\<not> EFI_ERROR st"
    by (auto simp: scan_function_def)
  obtain ty where "RegisterPciDevice E i Seg k ty False s = (st, s1)"
    using callback_register [of E i Seg Bus Device "of_nat f" s] c k by auto
  from Register_success_covered [OF ok this st] have cov: "covered i Seg s1 k" .
  have ok1: "unit_ok i Seg s1"
    using callback_keeps(1) [OF ok, of E Bus Device "of_nat f"] c by simp
  note scanned = scan [OF say_keeps(1) [OF ok1] say_keeps(2) [OF cov]]
  from assms(2,5) c st cov say_keeps(2) [OF cov] show ?thesis
    by (auto simp: scan_function_def Let_def bind_eq_Some_conv split: if_splits dest: scanned)
qed

text \<open>What the registering callback and the console output keep, a scan keeps at every level.\<close>

definition kept :: "vtd_env \<Rightarrow> nat \<Rightarrow> u16 \<Rightarrow> (vtd_state \<Rightarrow> bool) \<Rightarrow> bool" where
  "kept E i Seg I \<longleftrightarrow>
     (\<forall>b d f s. I s \<longrightarrow> I (snd (ScanBusCallbackRegisterPciDevice E i Seg b d f s)))
     \<and> (\<forall>f a s. I s \<longrightarrow> I (say f a s))"

lemma kept_covered:
  "kept E i Seg (unit_ok i Seg)" "kept E i Seg (\<lambda>s. unit_ok i Seg s \<and> covered i Seg s k)"
  using callback_keeps say_keeps by (simp_all add: kept_def)

lemma kept_scan:
  assumes "kept E i Seg I" and "I s"
  shows "ScanPciBus n E (ScanBusCallbackRegisterPciDevice E i) Seg b s = Some (st, t) \<Longrightarrow> I t"
    and "scan_function E (ScanBusCallbackRegisterPciDevice E i)
           (ScanPciBus n E (ScanBusCallbackRegisterPciDevice E i) Seg) Seg Bus D f s = Some (Inr t) \<Longrightarrow> I t"
    and "visit (scan_function E (ScanBusCallbackRegisterPciDevice E i)
           (ScanPciBus n E (ScanBusCallbackRegisterPciDevice E i) Seg) Seg Bus D) fs s = Some r \<Longrightarrow>
         (case r of Inl x \<Rightarrow> EFI_ERROR (fst x) | Inr t \<Rightarrow> I t)"
proof -
  let ?cb = "ScanBusCallbackRegisterPciDevice E i"
  have cb: "I s \<Longrightarrow> I (snd (?cb Seg b d f s))" and say: "I s \<Longrightarrow> I (say g a s)" for b d f g a s
    using assms(1) by (simp_all add: kept_def)
  have scan: "I s \<Longrightarrow> ScanPciBus n E ?cb Seg b s = Some (st, t) \<Longrightarrow> I t" for b s st t
    using ScanPciBus_inv [where I = I and cb = ?cb, OF cb say] .
  then show "ScanPciBus n E ?cb Seg b s = Some (st, t) \<Longrightarrow> I t" using assms(2) .
  show "I t" if "scan_function E ?cb (ScanPciBus n E ?cb Seg) Seg Bus D f s = Some (Inr t)"
    using scan_function_inv [where I = I and cb = ?cb, OF cb say scan assms(2) that] by simp
  show "case r of Inl x \<Rightarrow> EFI_ERROR (fst x) | Inr t \<Rightarrow> I t"
    if "visit (scan_function E ?cb (ScanPciBus n E ?cb Seg) Seg Bus D) fs s = Some r"
    using scan_device_inv [where I = I and cb = ?cb, OF cb say scan assms(2) that]
    by (cases r) (auto simp: case_prod_beta)
qed

lemma scan_device_registers:
  assumes "unit_ok i Seg s" and f: "f < MaxFunction E Seg Bus D" and pres: "present E Seg Bus D (of_nat f)"
    and run: "visit (scan_function E (ScanBusCallbackRegisterPciDevice E i)
        (ScanPciBus n E (ScanBusCallbackRegisterPciDevice E i) Seg) Seg Bus D) [0..<MaxFunction E Seg Bus D] s
      = Some (Inr t)"
    and k: "k = \<lparr>sid_Bus = Bus, sid_Device = ucast D, sid_Function = ucast (of_nat f :: u8)\<rparr>"
  shows "unit_ok i Seg t \<and> covered i Seg t k"
proof (rule visit_reaches [where I = "unit_ok i Seg" and q = f, OF run _ assms(1)])
  show "f \<in> set [0..<MaxFunction E Seg Bus D]" using f by simp
next
  let ?fn = "scan_function E (ScanBusCallbackRegisterPciDevice E i)
        (ScanPciBus n E (ScanBusCallbackRegisterPciDevice E i) Seg) Seg Bus D"
  fix s t assume s: "unit_ok i Seg s" "?fn f s = Some (Inr t)"
  have "covered i Seg t k"
  proof (rule scan_function_registers [OF s(1) pres _ k s(2)])
    fix b s st s'
    assume "unit_ok i Seg s" "covered i Seg s k"
      "ScanPciBus n E (ScanBusCallbackRegisterPciDevice E i) Seg b s = Some (st, s')"
    then show "covered i Seg s' k" using kept_scan(1) [OF kept_covered(2)] by blast
  qed
  then show "unit_ok i Seg t \<and> covered i Seg t k" using kept_scan(2) [OF kept_covered(1) s] by simp
qed (use kept_scan(2) [OF kept_covered(1)] kept_scan(2) [OF kept_covered(2)] in blast)+

text \<open>
  C15: A bus scan that reports success has registered every function that answers on the bus:
  each is in the table of the unit or, for an include-all unit, of a unit before it.
\<close>

theorem ScanPciBus_registers:
  assumes ok: "unit_ok i Seg s"
    and run: "ScanPciBus depth E (ScanBusCallbackRegisterPciDevice E i) Seg Bus s = Some (EFI_SUCCESS, s')"
    and d: "d \<le> PCI_MAX_DEVICE E" and f: "f < MaxFunction E Seg Bus (of_nat d)"
    and pres: "present E Seg Bus (of_nat d) (of_nat f)"
  shows "covered i Seg s'
    \<lparr>sid_Bus = Bus, sid_Device = ucast (of_nat d :: u8), sid_Function = ucast (of_nat f :: u8)\<rparr>"
    (is "covered i Seg s' ?k")
proof -
  let ?cb = "ScanBusCallbackRegisterPciDevice E i"
  from run obtain n where n: "depth = Suc n" by (cases depth) auto
  let ?dev = "\<lambda>D. visit (scan_function E ?cb (ScanPciBus n E ?cb Seg) Seg Bus (of_nat D))
      [0..<MaxFunction E Seg Bus (of_nat D)]"
  from run n obtain v where v: "visit ?dev [0..<PCI_MAX_DEVICE E + 1] s = Some v"
    and ret: "returned v = (EFI_SUCCESS, s')" by (auto simp: Let_def simp del: upt_Suc)
  have "case v of Inl x \<Rightarrow> EFI_ERROR (fst x) | Inr s' \<Rightarrow> unit_ok i Seg s'"
    by (rule visit_inv [where I = "unit_ok i Seg", OF _ _ ok v])
      (use kept_scan(3) [OF kept_covered(1)] in fastforce)+
  then have "v = Inr s'" by (intro scan_success_Inr [OF ret]) auto
  with v have "visit ?dev [0..<PCI_MAX_DEVICE E + 1] s = Some (Inr s')" by simp
  then have "unit_ok i Seg s' \<and> covered i Seg s' ?k"
  proof (rule visit_reaches [where I = "unit_ok i Seg" and q = d, OF _ _ ok])
    show "d \<in> set [0..<PCI_MAX_DEVICE E + 1]" using d by auto
    show "unit_ok i Seg t \<and> covered i Seg t ?k" if "unit_ok i Seg s" "?dev d s = Some (Inr t)" for s t
      using scan_device_registers [OF that(1) f pres that(2) refl] .
  qed (use kept_scan(3) [OF kept_covered(1)] kept_scan(3) [OF kept_covered(2)] in fastforce)+
  then show ?thesis by simp
qed

text \<open>With memory for every growth of the buffers the scan reports success.\<close>

lemma scan_no_errors:
  assumes "\<And>n. alloc_ok E n" and "ScanPciBus depth E (ScanBusCallbackRegisterPciDevice E i) Seg Bus s = Some (st, s')"
  shows "st = EFI_SUCCESS"
proof -
  have reg: "fst (ScanBusCallbackRegisterPciDevice E i Seg b d f s) = EFI_SUCCESS" for b d f s
    using callback_register [of E i Seg b d f s] assms(1)
    by (auto simp: RegisterPciDevice_def grow_def Let_def split: option.splits if_splits)
  have fn: "\<exists>t. r = Inr t"
    if "scan_function E (ScanBusCallbackRegisterPciDevice E i) scan Seg b d f s = Some r"
      and scan: "\<And>b s st t. scan b s = Some (st, t) \<Longrightarrow> st = EFI_SUCCESS" for scan b d f s r
    using that(1) reg [of b d "of_nat f" s]
    by (cases "ScanBusCallbackRegisterPciDevice E i Seg b d (of_nat f) s")
      (auto simp: scan_function_def Let_def bind_eq_Some_conv split: if_splits dest: scan)
  show ?thesis
    using assms(2)
  proof (induction depth arbitrary: Bus s st s')
    case 0
    then show ?case by simp
  next
    case (Suc n)
    let ?fn = "scan_function E (ScanBusCallbackRegisterPciDevice E i)
      (ScanPciBus n E (ScanBusCallbackRegisterPciDevice E i) Seg) Seg Bus"
    have dev: "case r of Inl x \<Rightarrow> False | Inr t \<Rightarrow> True" if "visit (?fn d) fs s = Some r" for d fs s r
    proof (rule visit_inv [where I = "\<lambda>_. True" and J = "\<lambda>_. False", OF _ _ _ that])
      fix q s x assume "?fn d q s = Some (Inl x)"
      from fn [OF this Suc.IH] show False by auto
    qed auto
    from Suc.prems obtain v where v: "visit (\<lambda>d. let Device = of_nat d in
        visit (?fn Device) [0..<MaxFunction E Seg Bus Device]) [0..<PCI_MAX_DEVICE E + 1] s = Some v"
      and r: "(st, s') = returned v" by (auto simp del: upt_Suc)
    have "case v of Inl x \<Rightarrow> False | Inr t \<Rightarrow> True"
    proof (rule visit_inv [where I = "\<lambda>_. True" and J = "\<lambda>_. False", OF _ _ _ v])
      fix q s x assume "(let Device = of_nat q in
        visit (?fn Device) [0..<MaxFunction E Seg Bus Device]) s = Some (Inl x)"
      from dev [OF this [unfolded Let_def]] show False by simp
    qed auto
    with r show ?case by (auto simp: returned_def split: sum.splits)
  qed
qed

theorem ScanPciBus_registers_witness:
  "\<exists>s'. ScanPciBus 256 sample_env (ScanBusCallbackRegisterPciDevice sample_env 0) 0 0 sample_state
       = Some (EFI_SUCCESS, s') \<and> covered 0 0 s' sample_sid"
proof -
  obtain st s' where run: "ScanPciBus 256 sample_env (ScanBusCallbackRegisterPciDevice sample_env 0) 0 0
      sample_state = Some (st, s')"
    using scan_total [OF sample_secondary_above, of 256 0] by force
  have "st = EFI_SUCCESS"
    by (rule scan_no_errors [OF _ run]) simp
  with run have run': "ScanPciBus 256 sample_env (ScanBusCallbackRegisterPciDevice sample_env 0) 0 0
      sample_state = Some (EFI_SUCCESS, s')" by simp
  have "covered 0 0 s' sample_sid"
    using ScanPciBus_registers [OF sample_ok run', of 1 0]
    by (simp add: sample_sid_def sample_env_def MaxFunction_def present_def)
  with run' show ?thesis by blast
qed

section \<open>Device scopes\<close>

text \<open>The bus, device and function at the end of a path of device and function numbers.\<close>

fun follow :: "vtd_env \<Rightarrow> u16 \<Rightarrow> u8 \<Rightarrow> u8 \<times> u8 \<Rightarrow> (u8 \<times> u8) list \<Rightarrow> u8 \<times> u8 \<times> u8" where
  "follow E Seg Bus (d, f) [] = (Bus, d, f)"
| "follow E Seg Bus (d, f) (df # dfs) = follow E Seg (SecondaryBus E Seg Bus d f) df dfs"

definition path_at :: "vtd_env \<Rightarrow> addr \<Rightarrow> (u8 \<times> u8) list \<Rightarrow> bool" where
  "path_at E p dfs \<longleftrightarrow>
     (\<forall>k < length dfs. path_Device E (p + k * sizeof_PCI_PATH E) = fst (dfs ! k)
                     \<and> path_Function E (p + k * sizeof_PCI_PATH E) = snd (dfs ! k))"

lemma path_at_Cons:
  "path_at E p (df # dfs) \<longleftrightarrow>
     path_Device E p = fst df \<and> path_Function E p = snd df \<and> path_at E (p + sizeof_PCI_PATH E) dfs"
  by (auto simp: path_at_def less_Suc_eq_0_disj add.assoc)

lemma walk_path:
  assumes "path_at E p (df # dfs)" and "0 < sizeof_PCI_PATH E"
    and "e = p + length dfs * sizeof_PCI_PATH E"
  shows "walk (\<lambda>_. sizeof_PCI_PATH E)
     (\<lambda>p (MyBus, MyDevice, MyFunction).
        Some (Inr (SecondaryBus E Seg MyBus MyDevice MyFunction,
                   path_Device E (p + sizeof_PCI_PATH E),
                   path_Function E (p + sizeof_PCI_PATH E)) :: unit + u8 \<times> u8 \<times> u8))
     p e (b, df) = Some (Inr (follow E Seg b df dfs))"
  using assms
proof (induction dfs arbitrary: p b df)
  case Nil
  then show ?case by (cases df) simp
next
  case (Cons df' dfs)
  obtain d f where df: "df = (d, f)" by (cases df)
  let ?p = "p + sizeof_PCI_PATH E"
  from Cons.prems have at: "path_at E ?p (df' # dfs)"
    and "p < e" and e: "e = ?p + length dfs * sizeof_PCI_PATH E"
    by (auto simp: path_at_Cons)
  from at have next_df: "(path_Device E ?p, path_Function E ?p) = df'"
    by (cases df') (simp add: path_at_Cons)
  show ?case
    using Cons.IH [OF at Cons.prems(2) e, of "SecondaryBus E Seg b d f"] \<open>p < e\<close> next_df
    by (simp add: walk_step df)
qed

text \<open>
  C38: Resolving a device scope returns, and it returns the end of the scope's path: starting
  on the scope's start bus, each step but the last enters the secondary bus of the bridge at
  that device and function.
\<close>

theorem GetPciBusDeviceFunction_follows:
  assumes "scope_Type E Scope = PCI_ENDPOINT \<or> scope_Type E Scope = PCI_BRIDGE"
    and "0 < sizeof_PCI_PATH E" and "path_at E (Scope + sizeof_SCOPE_HEADER E) (df # dfs)"
    and "unat (scope_Length E Scope) = sizeof_SCOPE_HEADER E + (length dfs + 1) * sizeof_PCI_PATH E"
  shows "GetPciBusDeviceFunction E Seg Scope
           = Some (follow E Seg (scope_StartBusNumber E Scope) df dfs)"
proof -
  let ?p = "Scope + sizeof_SCOPE_HEADER E"
  have e: "Scope + unat (scope_Length E Scope) - sizeof_PCI_PATH E = ?p + length dfs * sizeof_PCI_PATH E"
    using assms(4) by simp
  have start: "(path_Device E ?p, path_Function E ?p) = df"
    using assms(3) by (cases df) (simp add: path_at_Cons)
  show ?thesis
    using walk_path [OF assms(3,2) e, of Seg "scope_StartBusNumber E Scope"] assms(1) start
    by (simp add: GetPciBusDeviceFunction_def Let_def)
qed

text \<open>The bridge scope of the sample, extended by one more step of its path.\<close>

theorem GetPciBusDeviceFunction_follows_witness:
  "GetPciBusDeviceFunction
     (sample_env\<lparr>scope_Length := \<lambda>_. 10, path_Device := \<lambda>p. if p = 0x104E then 1 else 0\<rparr>) 0 0x1048
     = Some (1, 0, 0)"
  using GetPciBusDeviceFunction_follows
    [of "sample_env\<lparr>scope_Length := \<lambda>_. 10, path_Device := \<lambda>p. if p = 0x104E then 1 else 0\<rparr>"
      "0x1048" "(1, 0)" "[(0, 0)]" 0]
  by (simp add: sample_env_def path_at_Cons path_at_def)

end
