(* ===== verification/Vtd_Dmar.thy ===== *)
theory Vtd_Dmar
  imports Vtd_Acpi Vtd_Pci_Props
begin

text \<open>
  \<^verbatim>\<open>AppSrc/VtdDump/VtdDump.c\<close>, the DMAR table: the functions that print it
  (\<open>DumpDmarDeviceScopeEntry\<close> to \<open>DumpAcpiDMAR\<close>), those that build the unit table and the
  reserved memory records from it (\<open>GetVtdEngineNumber\<close>, \<open>ProcessDhrd\<close>, \<open>ProcessRmrr\<close>,
  \<open>ParseDmarAcpiTableDrhd\<close>, \<open>ParseDmarAcpiTableRmrr\<close>), and \<open>DumpVtdAcpi\<close>, which runs them.
  \<open>None\<close> as a result is "does not return".
\<close>

section \<open>Printing the table\<close>

definition scope_kind :: "dev_scope_type \<Rightarrow> out list" where
  "scope_kind t = (case t of
       PCI_ENDPOINT \<Rightarrow> [Print ''        PCI Endpoint Device'' []]
     | PCI_BRIDGE \<Rightarrow> [Print ''        PCI Sub-hierachy'' []]
     | IOAPIC \<Rightarrow> [Print ''        IOAPIC'' []]
     | MSI_CAPABLE_HPET \<Rightarrow> [Print ''        MSI Capable HPET'' []]
     | ACPI_NAMESPACE_DEVICE \<Rightarrow> [Print ''        ACPI Namespace Device'' []]
     | SCOPE_OTHER _ \<Rightarrow> [])"

text \<open>The number of path entries is computed at 64 bits and wraps around for a short entry.\<close>

definition PciPathNumber :: "'a dmar_view_scheme \<Rightarrow> addr \<Rightarrow> nat" where
  "PciPathNumber E q =
     unat ((ucast (scope_Length E q) - of_nat (sizeof_SCOPE_HEADER E)) div
             (of_nat (sizeof_PCI_PATH E)) :: u64)"

definition DumpDmarDeviceScopeEntry :: "'a dmar_view_scheme \<Rightarrow> addr \<Rightarrow> out list" where
  "DumpDmarDeviceScopeEntry E q =
     (if q = NULL then [] else
      [Print ''***'' [],
       Print ''    *       DMA-Remapping Device Scope Entry Structure'' [],
       Print ''***'' [],
       Print ''    DMAR Device Scope Entry address 0x%016lx'' [hxn q],
       Print ''      Device Scope Entry Type 0x%02x'' [hx (scope_code E (scope_Type E q))]]
      @ scope_kind (scope_Type E q)
      @ [Print ''      Length 0x%02x'' [hx (scope_Length E q)],
         Print ''      Enumeration ID 0x%02x'' [hx (scope_EnumerationId E q)],
         Print ''      Starting Bus Number 0x%02x'' [hx (scope_StartBusNumber E q)]]
      @ (let PciPath = q + sizeof_SCOPE_HEADER E in
         concat (map (\<lambda>i. [Print ''      Device 0x%02x'' [hx (path_Device E (PciPath + i * sizeof_PCI_PATH E))],
                           Print ''      Function 0x%02x'' [hx (path_Function E (PciPath + i * sizeof_PCI_PATH E))]])
                  [0..<PciPathNumber E q]))
      @ [Print ''***'' []])"

definition print_walk :: "(addr \<Rightarrow> nat) \<Rightarrow> (addr \<Rightarrow> out list option) \<Rightarrow> addr \<Rightarrow> int \<Rightarrow> out list option" where
  "print_walk len pr p n =
     map_option (case_sum id id)
       (walk_rem len (\<lambda>q out. map_option (\<lambda>o'. Inr (out @ o')) (pr q)) p n [])"

text \<open>The device scopes of the structure at \<open>p\<close>, whose fixed part has \<open>hdr\<close> bytes.\<close>

definition dump_scopes :: "'a dmar_view_scheme \<Rightarrow> addr \<Rightarrow> nat \<Rightarrow> out list option" where
  "dump_scopes E p hdr =
     print_walk (\<lambda>q. unat (scope_Length E q)) (\<lambda>q. Some (DumpDmarDeviceScopeEntry E q))
       (p + hdr) (int (unat (hdr_Length E p)) - int hdr)"

definition DumpDmarAndd :: "'a dmar_view_scheme \<Rightarrow> addr \<Rightarrow> out list option" where
  "DumpDmarAndd E p =
     (if p = NULL then Some [] else Some
      [Print ''***'' [],
       Print ''  *       ACPI Name-space Device Declaration Structure'' [],
       Print ''***'' [],
       Print ''  ANDD address 0x%016lx'' [hxn p],
       Print ''    Type 0x%04x'' [hx (dmar_code E (hdr_Type E p))],
       Print ''    Length 0x%04x'' [hx (hdr_Length E p)],
       Print ''    ACPI Device Number 0x%02x'' [hx (andd_AcpiDeviceNumber E p)],
       Print ''    ACPI Object Name %a'' [Txt (andd_ObjectName E p)],
       Print ''***'' []])"

definition DumpDmarRhsa :: "'a dmar_view_scheme \<Rightarrow> addr \<Rightarrow> out list option" where
  "DumpDmarRhsa E p =
     (if p = NULL then Some [] else Some
      [Print ''***'' [],
       Print ''  *       Remapping Hardware Status Affinity Structure'' [],
       Print ''***'' [],
       Print ''  RHSA address 0x%016lx'' [hxn p],
       Print ''    Type 0x%04x'' [hx (dmar_code E (hdr_Type E p))],
       Print ''    Length 0x%04x'' [hx (hdr_Length E p)],
       Print ''    Register Base Address 0x%016lx'' [hx (rhsa_RegisterBaseAddress E p)],
       Print ''    Proximity Domain 0x%08x'' [hx (rhsa_ProximityDomain E p)],
       Print ''***'' []])"

definition DumpDmarAtsr :: "'a dmar_view_scheme \<Rightarrow> addr \<Rightarrow> out list option" where
  "DumpDmarAtsr E p =
     (if p = NULL then Some [] else
      map_option (\<lambda>scopes.
        [Print ''***'' [],
         Print ''  *       Root Port ATS Capability Reporting Structure'' [],
         Print ''***'' [],
         Print ''  ATSR address 0x%016lx'' [hxn p],
         Print ''    Type 0x%04x'' [hx (dmar_code E (hdr_Type E p))],
         Print ''    Length 0x%04x'' [hx (hdr_Length E p)],
         Print ''    Flags 0x%02x'' [hx (atsr_Flags E p)],
         Print ''      ALL_PORTS 0x%02x'' [hx (atsr_Flags E p AND ALL_PORTS E)],
         Print ''    Segment Number 0x%04x'' [hx (atsr_SegmentNumber E p)]]
        @ scopes @ [Print ''***'' []])
      (dump_scopes E p (sizeof_ATSR_HEADER E)))"

definition DumpDmarRmrr :: "'a dmar_view_scheme \<Rightarrow> addr \<Rightarrow> out list option" where
  "DumpDmarRmrr E p =
     (if p = NULL then Some [] else
      map_option (\<lambda>scopes.
        [Print ''***'' [],
         Print ''  *       Reserved Memory Region Reporting Structure'' [],
         Print ''***'' [],
         Print ''  RMRR address 0x%016lx'' [hxn p],
         Print ''    Type 0x%04x'' [hx (dmar_code E (hdr_Type E p))],
         Print ''    Length 0x%04x'' [hx (hdr_Length E p)],
         Print ''    Segment Number 0x%04x'' [hx (rmrr_SegmentNumber E p)],
         Print ''    Reserved Memory Region Base Address 0x%016lx'' [hx (rmrr_BaseAddress E p)],
         Print ''    Reserved Memory Region Limit Address 0x%016lx'' [hx (rmrr_LimitAddress E p)]]
        @ scopes @ [Print ''***'' []])
      (dump_scopes E p (sizeof_RMRR_HEADER E)))"

definition DumpDmarDrhd :: "'a dmar_view_scheme \<Rightarrow> addr \<Rightarrow> out list option" where
  "DumpDmarDrhd E p =
     (if p = NULL then Some [] else
      map_option (\<lambda>scopes.
        [Print ''***'' [],
         Print ''  *       DMA-Remapping Hardware Definition Structure'' [],
         Print ''***'' [],
         Print ''  DRHD address 0x%016lx'' [hxn p],
         Print ''    Type 0x%04x'' [hx (dmar_code E (hdr_Type E p))],
         Print ''    Length 0x%04x'' [hx (hdr_Length E p)],
         Print ''    Flags 0x%02x'' [hx (drhd_Flags E p)],
         Print ''      INCLUDE_PCI_ALL 0x%02x'' [hx (drhd_Flags E p AND INCLUDE_PCI_ALL E)],
         Print ''    Segment Number 0x%04x'' [hx (drhd_SegmentNumber E p)],
         Print ''    Register Base Address 0x%016lx'' [hx (drhd_RegisterBaseAddress E p)]]
        @ scopes @ [Print ''***'' []])
      (dump_scopes E p (sizeof_DRHD_HEADER E)))"

definition dump_structure :: "'a dmar_view_scheme \<Rightarrow> addr \<Rightarrow> out list option" where
  "dump_structure E p = (case hdr_Type E p of
       DRHD \<Rightarrow> DumpDmarDrhd E p
     | RMRR \<Rightarrow> DumpDmarRmrr E p
     | ATSR \<Rightarrow> DumpDmarAtsr E p
     | RHSA \<Rightarrow> DumpDmarRhsa E p
     | ANDD \<Rightarrow> DumpDmarAndd E p
     | DMAR_OTHER _ \<Rightarrow> Some [])"

definition dmar_banner :: "'a dmar_view_scheme \<Rightarrow> addr \<Rightarrow> out list" where
  "dmar_banner E p =
     [Print ''***'' [],
      Print ''*         DMAR Table'' [],
      Print ''***'' [],
      Print ''DMAR address 0x%016lx'' [hxn p],
      Print ''  Table Contents:'' [],
      Print ''    Host Address Width 0x%02x'' [hx (dmar_HostAddressWidth E p)],
      Print ''    Flags 0x%02x'' [hx (dmar_Flags E p)],
      Print ''      INTR_REMAP 0x%02x'' [hx (dmar_Flags E p AND INTR_REMAP E)],
      Print ''      X2APIC_OPT_OUT_SET 0x%02x'' [hx (dmar_Flags E p AND X2APIC_OPT_OUT E)],
      Print ''      DMA_CTRL_PLATFORM_OPT_IN_FLAG 0x%02x'' [hx (dmar_Flags E p AND DMA_CTRL_PLATFORM_OPT_IN E)]]"

definition DumpAcpiDMAR :: "'a dmar_view_scheme \<Rightarrow> addr \<Rightarrow> out list option" where
  "DumpAcpiDMAR E p =
     (if p = NULL then Some [] else
      map_option (\<lambda>structures. dmar_banner E p @ structures @ [Print ''***'' []])
        (print_walk (\<lambda>q. unat (hdr_Length E q)) (dump_structure E)
           (p + sizeof_DMAR_HEADER E) (int (unat (tbl_Length E p)) - int (sizeof_DMAR_HEADER E))))"

definition emit :: "out list \<Rightarrow> vtd_state \<Rightarrow> vtd_state" where
  "emit os s = s\<lparr>console := console s @ os\<rparr>"

text \<open>\<open>GetDmarAcpiTable\<close>, with \<open>VtdDumpDmarTable\<close> in it.\<close>

definition GetDmarAcpiTable :: "vtd_env \<Rightarrow> vtd_state \<Rightarrow> (efi_status \<times> vtd_state) option" where
  "GetDmarAcpiTable E s =
     (case (case config_table E gEfiAcpi20TableGuid of
              Some t \<Rightarrow> Some t | None \<Rightarrow> config_table E gEfiAcpi10TableGuid) of
        None \<Rightarrow> Some (EFI_NOT_FOUND, s)
      | Some AcpiTable \<Rightarrow>
          (let t = FindAcpiPtr E AcpiTable (DMAR_SIGNATURE E); s1 = s\<lparr>mAcpiDmarTable := t\<rparr> in
           if t = NULL then Some (EFI_NOT_FOUND, s1)
           else let s2 = say ''DMAR Table - 0x%08x'' [hxn t] s1
                in map_option (\<lambda>os. (EFI_SUCCESS, emit os s2)) (DumpAcpiDMAR E t)))"

section \<open>Building the unit table\<close>

text \<open>The loop over the structures of the DMAR table.\<close>

definition dmar_walk ::
  "vtd_env \<Rightarrow> addr \<Rightarrow> (addr \<Rightarrow> 's \<Rightarrow> ('e + 's) option) \<Rightarrow> 's \<Rightarrow> ('e + 's) option" where
  "dmar_walk E t body s =
     walk (\<lambda>p. unat (hdr_Length E p)) body (t + sizeof_DMAR_HEADER E) (t + unat (tbl_Length E t)) s"

definition GetVtdEngineNumber :: "vtd_env \<Rightarrow> vtd_state \<Rightarrow> nat option" where
  "GetVtdEngineNumber E s =
     map_option (case_sum id id)
       (dmar_walk E (mAcpiDmarTable s)
          (\<lambda>p VtdIndex. Some (Inr (if hdr_Type E p = DRHD then VtdIndex + 1 else VtdIndex))) 0)"

definition upd_unit :: "nat \<Rightarrow> (vtd_unit \<Rightarrow> vtd_unit) \<Rightarrow> vtd_state \<Rightarrow> vtd_state" where
  "upd_unit i f s = s\<lparr>mVtdUnitInformation :=
     (mVtdUnitInformation s)[i := f (mVtdUnitInformation s ! i)]\<rparr>"

definition scope_name :: "dev_scope_type \<Rightarrow> vtd_state \<Rightarrow> vtd_state" where
  "scope_name t = (case t of
       PCI_ENDPOINT \<Rightarrow> say ''PCI Endpoint'' []
     | PCI_BRIDGE \<Rightarrow> say ''PCI-PCI bridge'' []
     | IOAPIC \<Rightarrow> say ''IOAPIC'' []
     | MSI_CAPABLE_HPET \<Rightarrow> say ''MSI Capable HPET'' []
     | ACPI_NAMESPACE_DEVICE \<Rightarrow> say ''ACPI Namespace Device'' []
     | SCOPE_OTHER _ \<Rightarrow> id)"

text \<open>
  One device scope of a DRHD structure.  The first argument is the depth bound of
  \<open>ScanPciBus\<close>, here and in all callers.
\<close>

definition process_scope ::
  "nat \<Rightarrow> vtd_env \<Rightarrow> nat \<Rightarrow> addr \<Rightarrow> addr \<Rightarrow> vtd_state \<Rightarrow> ((efi_status \<times> vtd_state) + vtd_state) option"
where
  "process_scope depth E VtdIndex p q s =
     Option.bind (GetPciBusDeviceFunction E (drhd_SegmentNumber E p) q) (\<lambda>(Bus, Device, Fn).
       (let Seg = drhd_SegmentNumber E p; ty = scope_Type E q;
            s1 = say '' S%04x B%02x D%02x F%02x'' [hx Seg, hx Bus, hx Device, hx Fn]
                   (scope_name ty (say ''  ProcessDhrd: '' [] s));
            SourceId = \<lparr>sid_Bus = Bus, sid_Device = ucast Device, sid_Function = ucast Fn\<rparr>;
            (Status, s2) = RegisterPciDevice E VtdIndex Seg SourceId ty True s1
        in if EFI_ERROR Status \<and> (ty = PCI_ENDPOINT \<or> ty = PCI_BRIDGE) then Some (Inl (Status, s2))
           else if ty = PCI_BRIDGE
           then map_option leave_on_error
                  (ScanPciBus depth E (ScanBusCallbackRegisterPciDevice E VtdIndex) Seg
                     (SecondaryBus E Seg Bus Device Fn) s2)
           else Some (Inr s2)))"

definition ProcessDhrd ::
  "nat \<Rightarrow> vtd_env \<Rightarrow> nat \<Rightarrow> addr \<Rightarrow> vtd_state \<Rightarrow> (efi_status \<times> vtd_state) option"
where
  "ProcessDhrd depth E VtdIndex p s =
     (let s1 = upd_unit VtdIndex (\<lambda>u. u\<lparr>VtdUnitBaseAddress := drhd_RegisterBaseAddress E p\<rparr>) s;
          s2 = say ''  VTD (%d) BaseAddress -  0x%016lx'' [hxn VtdIndex, hx (drhd_RegisterBaseAddress E p)] s1;
          s3 = upd_unit VtdIndex (\<lambda>u. u\<lparr>Segment := drhd_SegmentNumber E p\<rparr>) s2;
          all = drhd_Flags E p AND INCLUDE_PCI_ALL E \<noteq> 0;
          s4 = say (if all then ''  ProcessDhrd: with INCLUDE ALL'' else ''  ProcessDhrd: without INCLUDE ALL'') []
                 (upd_info VtdIndex (\<lambda>i. i\<lparr>IncludeAllFlag := all\<rparr>) s3)
      in Option.bind
           (if all
            then map_option leave_on_error
                   (ScanPciBus depth E (ScanBusCallbackRegisterPciDevice E VtdIndex)
                      (drhd_SegmentNumber E p) 0 s4)
            else Some (Inr s4))
           (\<lambda>r. case r of
               Inl x \<Rightarrow> Some x
             | Inr s5 \<Rightarrow>
                 map_option returned
                   (walk (\<lambda>q. unat (scope_Length E q)) (process_scope depth E VtdIndex p)
                      (p + sizeof_DRHD_HEADER E) (p + unat (hdr_Length E p)) s5)))"

definition DumpPciDeviceInfo :: "nat \<Rightarrow> vtd_state \<Rightarrow> vtd_state" where
  "DumpPciDeviceInfo VtdIndex s =
     fold (\<lambda>Index. say ''  S%04x B%02x D%02x F%02x''
              (sid_args (Segment (mVtdUnitInformation s ! VtdIndex))
                 (PciSourceId (PciDeviceData (pci_info s VtdIndex) ! Index))))
       [0..<PciDeviceDataNumber (pci_info s VtdIndex)]
       (say ''PCI Device Information (Number 0x%x, IncludeAll - %d):''
          [hxn (PciDeviceDataNumber (pci_info s VtdIndex)),
           hxn (if IncludeAllFlag (pci_info s VtdIndex) then 1 else 0)] s)"

definition zero_unit :: vtd_unit where
  "zero_unit = \<lparr>VtdUnitBaseAddress = 0, Segment = 0,
     PciDeviceInfo = \<lparr>IncludeAllFlag = False, PciDeviceDataNumber = 0,
       PciDeviceDataMaxNumber = 0, PciDeviceData = []\<rparr>\<rparr>"

text \<open>One structure of the table, in the loop of \<open>ParseDmarAcpiTableDrhd\<close>.\<close>

definition drhd_body ::
  "nat \<Rightarrow> vtd_env \<Rightarrow> addr \<Rightarrow> nat \<times> vtd_state \<Rightarrow> ((efi_status \<times> vtd_state) + (nat \<times> vtd_state)) option"
where
  "drhd_body depth E p = (\<lambda>(VtdIndex, s).
     if hdr_Type E p = DRHD
     then map_option (\<lambda>(Status, s'). if EFI_ERROR Status then Inl (Status, s') else Inr (VtdIndex + 1, s'))
            (ProcessDhrd depth E VtdIndex p s)
     else Some (Inr (VtdIndex, s)))"

definition ParseDmarAcpiTableDrhd ::
  "nat \<Rightarrow> vtd_env \<Rightarrow> vtd_state \<Rightarrow> (efi_status \<times> vtd_state) option"
where
  "ParseDmarAcpiTableDrhd depth E s =
     Option.bind (GetVtdEngineNumber E s) (\<lambda>number.
       (let s1 = say ''  VtdUnitNumber - %d'' [hxn number] (s\<lparr>mVtdUnitNumber := number\<rparr>) in
        if number = 0 then Some (EFI_DEVICE_ERROR, s1)
        else if \<not> alloc_units E number
        then Some (EFI_OUT_OF_RESOURCES, s1\<lparr>mVtdUnitInformation := []\<rparr>)
        else
          map_option (\<lambda>r. case r of
              Inl x \<Rightarrow> x
            | Inr (_, s2) \<Rightarrow>
                (EFI_SUCCESS, fold DumpPciDeviceInfo [0..<mVtdUnitNumber s2] s2))
            (dmar_walk E (mAcpiDmarTable s) (drhd_body depth E)
               (0, s1\<lparr>mVtdUnitInformation := replicate number zero_unit\<rparr>))))"

section \<open>Reserved memory records\<close>

definition new_rmrr :: "vtd_env \<Rightarrow> addr \<Rightarrow> u8 \<times> u8 \<times> u8 \<Rightarrow> rmrr_record" where
  "new_rmrr E p = (\<lambda>(Bus, Device, Fn).
     \<lparr>rr_Segment = rmrr_SegmentNumber E p, rr_Bus = Bus, rr_Device = Device, rr_Function = Fn,
      rr_Address = rmrr_BaseAddress E p,
      rr_Length = rmrr_LimitAddress E p + 1 - rmrr_BaseAddress E p\<rparr>)"

definition rmrr_scope ::
  "vtd_env \<Rightarrow> addr \<Rightarrow> addr \<Rightarrow> vtd_state \<Rightarrow> ((efi_status \<times> vtd_state) + vtd_state) option" where
  "rmrr_scope E p q s =
     (if scope_Type E q \<noteq> PCI_ENDPOINT
      then Some (Inl (EFI_DEVICE_ERROR,
             say ''RMRR DevScopeEntryType is not endpoint, type[0x%x] '' [hx (scope_code E (scope_Type E q))] s))
      else Option.bind (GetPciBusDeviceFunction E (rmrr_SegmentNumber E p) q) (\<lambda>(Bus, Device, Fn).
             (let s1 = say ''RMRR S%04x B%02x D%02x F%02x''
                         [hx (rmrr_SegmentNumber E p), hx Bus, hx Device, hx Fn] s
              in Some (Inr (if alloc_record E q
                            then s1\<lparr>gRmrrRecord := gRmrrRecord s1 @ [new_rmrr E p (Bus, Device, Fn)]\<rparr>
                            else s1)))))"

definition ProcessRmrr :: "vtd_env \<Rightarrow> addr \<Rightarrow> vtd_state \<Rightarrow> (efi_status \<times> vtd_state) option" where
  "ProcessRmrr E p s =
     map_option returned
       (walk (\<lambda>q. unat (scope_Length E q)) (rmrr_scope E p)
          (p + sizeof_RMRR_HEADER E) (p + unat (hdr_Length E p))
          (say ''  RMRR (Base 0x%016lx, Limit 0x%016lx)'' [hx (rmrr_BaseAddress E p), hx (rmrr_LimitAddress E p)] s))"

definition rmrr_body ::
  "vtd_env \<Rightarrow> addr \<Rightarrow> vtd_state \<Rightarrow> ((efi_status \<times> vtd_state) + vtd_state) option" where
  "rmrr_body E p s =
     (if hdr_Type E p = RMRR then map_option leave_on_error (ProcessRmrr E p s) else Some (Inr s))"

definition ParseDmarAcpiTableRmrr :: "vtd_env \<Rightarrow> vtd_state \<Rightarrow> (efi_status \<times> vtd_state) option" where
  "ParseDmarAcpiTableRmrr E s =
     map_option returned (dmar_walk E (mAcpiDmarTable s) (rmrr_body E) s)"

text \<open>The list is printed through its back links: the last record first.\<close>

definition DumpRmrrRecord :: "vtd_state \<Rightarrow> vtd_state" where
  "DumpRmrrRecord s =
     fold (\<lambda>r. say ''  Length   - 0x%lx'' [hx (rr_Length r)]
             \<circ> say ''  Address  - 0x%lx'' [hx (rr_Address r)]
             \<circ> say ''  Function - 0x%x'' [hx (rr_Function r)]
             \<circ> say ''  Device   - 0x%x'' [hx (rr_Device r)]
             \<circ> say ''  Bus      - 0x%x'' [hx (rr_Bus r)]
             \<circ> say ''  Segment  - 0x%x'' [hx (rr_Segment r)]
             \<circ> say ''RmrrRecord'' [])
       (rev (gRmrrRecord s)) s"

definition DumpVtdAcpi :: "nat \<Rightarrow> vtd_env \<Rightarrow> vtd_state \<Rightarrow> vtd_state option" where
  "DumpVtdAcpi depth E s =
     Option.bind (GetDmarAcpiTable E s) (\<lambda>(Status, s1).
       if EFI_ERROR Status then Some (say ''DMAR table not found'' [] s1)
       else Option.bind (ParseDmarAcpiTableDrhd depth E s1) (\<lambda>(_, s2).
              map_option (\<lambda>(_, s3). DumpRmrrRecord s3) (ParseDmarAcpiTableRmrr E s2)))"

end
