(* ===== verification/Vtd_Dmar_Props.thy ===== *)
theory Vtd_Dmar_Props
  imports Vtd_Dmar
begin

text \<open>
  What the DMAR side of \<open>VtdDump\<close> guarantees.  A table is described by the addresses of its
  structures and of their device scopes; over such a table every loop of the tool meets the
  same structures, prints each once, and builds one unit per DRHD and one record per RMRR
  scope.
\<close>

section \<open>Tables\<close>

definition structs :: "'a dmar_view_scheme \<Rightarrow> addr \<Rightarrow> addr list \<Rightarrow> bool" where
  "structs E t qs \<longleftrightarrow>
     chain (\<lambda>p. unat (hdr_Length E p)) (t + unat (tbl_Length E t)) (t + sizeof_DMAR_HEADER E) qs"

definition scopes :: "'a dmar_view_scheme \<Rightarrow> nat \<Rightarrow> addr \<Rightarrow> addr list \<Rightarrow> bool" where
  "scopes E hdr p qs \<longleftrightarrow>
     chain (\<lambda>q. unat (scope_Length E q)) (p + unat (hdr_Length E p)) (p + hdr) qs"

definition fixed_part :: "'a dmar_view_scheme \<Rightarrow> dmar_type \<Rightarrow> nat" where
  "fixed_part E t = (case t of DRHD \<Rightarrow> sizeof_DRHD_HEADER E | RMRR \<Rightarrow> sizeof_RMRR_HEADER E
     | ATSR \<Rightarrow> sizeof_ATSR_HEADER E | _ \<Rightarrow> 0)"

definition scoped :: "dmar_type \<Rightarrow> bool" where
  "scoped t \<longleftrightarrow> t = DRHD \<or> t = RMRR \<or> t = ATSR"

definition table_ok :: "'a dmar_view_scheme \<Rightarrow> addr \<Rightarrow> addr list \<Rightarrow> (addr \<Rightarrow> addr list) \<Rightarrow> bool" where
  "table_ok E t qs scs \<longleftrightarrow> structs E t qs
     \<and> (\<forall>p \<in> set qs. scoped (hdr_Type E p) \<longrightarrow> scopes E (fixed_part E (hdr_Type E p)) p (scs p))"

lemma structs_walk: "structs E t qs \<Longrightarrow> dmar_walk E t body s = visit body qs s"
  by (simp add: structs_def dmar_walk_def walk_chain)

lemma scopes_walk:
  "scopes E hdr p qs \<Longrightarrow>
   walk (\<lambda>q. unat (scope_Length E q)) body (p + hdr) (p + unat (hdr_Length E p)) s = visit body qs s"
  by (simp add: scopes_def walk_chain)

section \<open>Printing\<close>

lemma walk_rem_chain:
  assumes "chain len (b + l) (b + h) qs"
  shows "walk_rem len body (b + h) (int l - int h) s = visit body qs s"
proof (cases "h \<le> l")
  case True
  then have "b + h + nat (int l - int h) = b + l" by simp
  then show ?thesis
    unfolding walk_rem_walk by (simp only: walk_chain [OF assms])
next
  case False
  with assms have "qs = []" by (cases qs) auto
  with False show ?thesis by simp
qed

lemma print_visit:
  "visit (\<lambda>q out. map_option (\<lambda>o'. Inr (out @ o')) (pr q)) qs out
     = map_option (\<lambda>oss. (Inr (out @ concat oss) :: 'e + _)) (those (map pr qs))"
proof (induction qs arbitrary: out)
  case Nil
  show ?case by simp
next
  case (Cons q qs)
  then show ?case
    by (cases "pr q") (simp_all add: option.map_comp comp_def)
qed

lemma print_walk_chain:
  assumes "chain len (b + l) (b + h) qs"
  shows "print_walk len pr (b + h) (int l - int h) = map_option concat (those (map pr qs))"
  by (simp add: print_walk_def walk_rem_chain [OF assms] print_visit option.map_comp comp_def)

lemma print_walk_word:
  assumes "chain len (b + unat w) (b + h) qs"
  shows "print_walk len pr (b + h) (uint w - int h) = map_option concat (those (map pr qs))"
  using print_walk_chain [OF assms, of pr] by (simp del: int_nat_eq)

lemma those_map_Some: "those (map (\<lambda>x. Some (f x)) xs) = Some (map f xs)"
  by (induction xs) auto

lemma those_total:
  assumes "\<forall>x \<in> set xs. g x \<noteq> None"
  shows "those (map g xs) = Some (map (\<lambda>x. the (g x)) xs)"
  using assms by (induction xs) auto

lemma dump_scopes_chain:
  "scopes E hdr p qs \<Longrightarrow> dump_scopes E p hdr = Some (concat (map (DumpDmarDeviceScopeEntry E) qs))"
  by (simp add: dump_scopes_def scopes_def print_walk_word those_map_Some)

lemma dump_structure_returns:
  assumes "scoped (hdr_Type E p) \<Longrightarrow> scopes E (fixed_part E (hdr_Type E p)) p qs"
  shows "\<exists>os. dump_structure E p = Some os"
  using assms
  by (cases "hdr_Type E p")
    (simp_all add: dump_structure_def scoped_def fixed_part_def DumpDmarDrhd_def DumpDmarRmrr_def
      DumpDmarAtsr_def DumpDmarRhsa_def DumpDmarAndd_def dump_scopes_chain)

lemma DumpAcpiDMAR_visits:
  assumes "t \<noteq> NULL" and "table_ok E t qs scs"
  shows "DumpAcpiDMAR E t
     = Some (dmar_banner E t @ concat (map (\<lambda>p. the (dump_structure E p)) qs) @ [Print ''***'' []])"
proof -
  have "\<forall>p \<in> set qs. dump_structure E p \<noteq> None"
  proof
    fix p assume "p \<in> set qs"
    with assms(2) have "scoped (hdr_Type E p) \<Longrightarrow> scopes E (fixed_part E (hdr_Type E p)) p (scs p)"
      by (simp add: table_ok_def)
    from dump_structure_returns [OF this] show "dump_structure E p \<noteq> None" by simp
  qed
  note all = those_total [OF this]
  have "chain (\<lambda>p. unat (hdr_Length E p)) (t + unat (tbl_Length E t)) (t + sizeof_DMAR_HEADER E) qs"
    using assms(2) by (simp add: table_ok_def structs_def)
  from print_walk_word [OF this, of "dump_structure E"] all assms(1) show ?thesis
    by (simp add: DumpAcpiDMAR_def)
qed

text \<open>
  Printing a DMAR table returns, and prints every structure of the table once, in table
  order; what is printed for a DRHD structure ends with each of its device scopes once, in
  order.
\<close>

theorem DumpAcpiDMAR_complete:
  assumes "t \<noteq> NULL" and "table_ok E t qs scs"
  shows "DumpAcpiDMAR E t
     = Some (dmar_banner E t @ concat (map (\<lambda>p. the (dump_structure E p)) qs) @ [Print ''***'' []])
     \<and> (\<forall>p \<in> set qs. p \<noteq> NULL \<longrightarrow> hdr_Type E p = DRHD \<longrightarrow>
       (\<exists>fixed. the (dump_structure E p)
          = fixed @ concat (map (DumpDmarDeviceScopeEntry E) (scs p)) @ [Print ''***'' []]))"
proof (rule conjI)
  show "DumpAcpiDMAR E t
     = Some (dmar_banner E t @ concat (map (\<lambda>p. the (dump_structure E p)) qs) @ [Print ''***'' []])"
    using assms by (rule DumpAcpiDMAR_visits)
  show "\<forall>p \<in> set qs. p \<noteq> NULL \<longrightarrow> hdr_Type E p = DRHD \<longrightarrow>
       (\<exists>fixed. the (dump_structure E p)
          = fixed @ concat (map (DumpDmarDeviceScopeEntry E) (scs p)) @ [Print ''***'' []])"
  proof (intro ballI impI)
    fix p assume "p \<in> set qs" and p: "p \<noteq> NULL" "hdr_Type E p = DRHD"
    with assms(2) have "scopes E (sizeof_DRHD_HEADER E) p (scs p)"
      by (auto simp: table_ok_def scoped_def fixed_part_def)
    from dump_scopes_chain [OF this] p
    have "the (dump_structure E p)
        = (take 10 (the (dump_structure E p))) @ concat (map (DumpDmarDeviceScopeEntry E) (scs p)) @ [Print ''***'' []]"
      by (simp add: dump_structure_def DumpDmarDrhd_def)
    then show "\<exists>fixed. the (dump_structure E p)
          = fixed @ concat (map (DumpDmarDeviceScopeEntry E) (scs p)) @ [Print ''***'' []]" ..
  qed
qed

definition sample_scopes :: "addr \<Rightarrow> addr list" where
  "sample_scopes p = (if p = 0x1030 then [0x1040, 0x1048] else if p = 0x1060 then [0x1078] else [])"

lemma sample_table: "table_ok sample_env 0x1000 [0x1030, 0x1050, 0x1060] sample_scopes"
  by (simp add: table_ok_def structs_def scopes_def scoped_def fixed_part_def sample_scopes_def sample_env_def)

theorem DumpAcpiDMAR_complete_witness:
  "\<exists>os fixed. DumpAcpiDMAR sample_env 0x1000 = Some os
     \<and> the (dump_structure sample_env 0x1030)
       = fixed @ DumpDmarDeviceScopeEntry sample_env 0x1040
           @ DumpDmarDeviceScopeEntry sample_env 0x1048 @ [Print ''***'' []]"
  using DumpAcpiDMAR_complete [OF _ sample_table] by (simp add: sample_scopes_def) (simp add: sample_env_def)

section \<open>Counting units, and tables on which the tool hangs\<close>

lemma count_visit:
  "visit (\<lambda>p n. Some (Inr (if P p then n + 1 else n) :: nat + nat)) qs n
     = Some (Inr (n + length (filter P qs)))"
  by (induction qs arbitrary: n) auto

lemma engine_count:
  "structs E (mAcpiDmarTable s) qs \<Longrightarrow>
   GetVtdEngineNumber E s = Some (length (filter (\<lambda>p. hdr_Type E p = DRHD) qs))"
  by (simp add: GetVtdEngineNumber_def structs_walk count_visit)

fun leads :: "(addr \<Rightarrow> nat) \<Rightarrow> addr \<Rightarrow> addr \<Rightarrow> addr list \<Rightarrow> addr \<Rightarrow> bool" where
  "leads len e p [] z \<longleftrightarrow> z = p"
| "leads len e p (q # qs) z \<longleftrightarrow> q = p \<and> p < e \<and> leads len e (p + len p) qs z"

lemma walk_stuck_at:
  assumes "leads len e p qs z" and "len z = 0" and "z < e"
    and cont: "\<And>p s r. body p s = Some r \<Longrightarrow> \<exists>s'. r = Inr s'"
  shows "walk len body p e s = None"
  using assms(1)
proof (induction qs arbitrary: p s)
  case Nil
  with assms(2,3) cont show ?case by (intro walk_stuck) auto
next
  case (Cons q qs)
  show ?case
  proof (cases "body p s")
    case None
    with Cons.prems show ?thesis by (simp add: walk_step)
  next
    case (Some r)
    with cont obtain s' where "r = Inr s'" by blast
    with Some Cons show ?thesis by (simp add: walk_step)
  qed
qed

text \<open>
  A structure of length zero in the DMAR table is never left: the tool does not return
  from counting the units, and so not from parsing the table.
\<close>

theorem ParseDmarAcpiTableDrhd_hangs:
  assumes "leads (\<lambda>p. unat (hdr_Length E p)) (t + unat (tbl_Length E t)) (t + sizeof_DMAR_HEADER E) qs z"
    and "hdr_Length E z = 0" and "z < t + unat (tbl_Length E t)" and "mAcpiDmarTable s = t"
  shows "GetVtdEngineNumber E s = None \<and> ParseDmarAcpiTableDrhd depth E s = None"
proof (rule conjI)
  show none: "GetVtdEngineNumber E s = None"
    unfolding GetVtdEngineNumber_def dmar_walk_def assms(4)
    by (simp, rule walk_stuck_at [OF assms(1)]) (use assms(2,3) in auto)
  show "ParseDmarAcpiTableDrhd depth E s = None"
    by (simp add: ParseDmarAcpiTableDrhd_def none)
qed

theorem ParseDmarAcpiTableDrhd_hangs_witness:
  "GetVtdEngineNumber (sample_env\<lparr>hdr_Length := \<lambda>p. if p = 0x1050 then 0 else 32\<rparr>) sample_state = None
   \<and> ParseDmarAcpiTableDrhd 256 (sample_env\<lparr>hdr_Length := \<lambda>p. if p = 0x1050 then 0 else 32\<rparr>) sample_state = None"
  by (rule ParseDmarAcpiTableDrhd_hangs [where t = "0x1000" and qs = "[0x1030]" and z = "0x1050"])
    (simp_all add: sample_env_def sample_state_def)

section \<open>The unit table\<close>

text \<open>What an operation on the PCI tables leaves alone.\<close>

definition frame :: "vtd_state \<Rightarrow> _" where
  "frame s = (mAcpiDmarTable s, gMaps s, mVtdUnitNumber s, gExceptionRecord s, gRmrrRecord s, mHasError s)"

definition unit_static :: "vtd_unit \<Rightarrow> u64 \<times> u16 \<times> bool" where
  "unit_static u = (VtdUnitBaseAddress u, Segment u, IncludeAllFlag (PciDeviceInfo u))"

definition statics :: "vtd_state \<Rightarrow> (u64 \<times> u16 \<times> bool) list" where
  "statics s = map unit_static (mVtdUnitInformation s)"

definition drhd_static :: "vtd_env \<Rightarrow> addr \<Rightarrow> u64 \<times> u16 \<times> bool" where
  "drhd_static E p = (drhd_RegisterBaseAddress E p, drhd_SegmentNumber E p,
     drhd_Flags E p AND INCLUDE_PCI_ALL E \<noteq> 0)"

lemma frame_simps [simp]:
  "frame (say f a s) = frame s" "frame (upd_info i g s) = frame s" "frame (upd_unit i h s) = frame s"
  "frame (print_device Seg sid ty pid s) = frame s"
  by (simp_all add: frame_def upd_info_def upd_unit_def print_device_def)

lemma frame_Register: "frame (snd (RegisterPciDevice E i Seg sid ty chk s)) = frame s"
  by (simp add: RegisterPciDevice_def Let_def split: option.split)

lemma statics_say [simp]: "statics (say f a s) = statics s"
  by (simp add: statics_def)

lemma statics_Register:
  assumes "unit_ok i Seg s"
  shows "statics (snd (RegisterPciDevice E i Seg sid ty chk s)) = statics s"
proof (cases "GetPciDataIndex s i Seg sid \<noteq> None \<or> elsewhere i Seg s sid \<or> \<not> room E i s")
  case True
  from Register_refused(1) [OF this] show ?thesis by (simp add: statics_def)
next
  case False
  then obtain p where "mVtdUnitInformation (snd (RegisterPciDevice E i Seg sid ty chk s))
           = mVtdUnitInformation (upd_info i (\<lambda>_. p) s)"
    and "IncludeAllFlag p = IncludeAllFlag (pci_info s i)"
    using Register_new [OF assms, of sid E ty chk] by metis
  moreover have "i < length (mVtdUnitInformation s)" using assms by (simp add: unit_ok_def)
  ultimately show ?thesis
    by (auto simp: statics_def upd_info_def unit_static_def map_update nth_list_update
        intro!: nth_equalityI)
qed

text \<open>The invariant of the work on unit \<open>i\<close>.\<close>

definition at_unit :: "nat \<Rightarrow> u16 \<Rightarrow> vtd_state \<Rightarrow> vtd_state \<Rightarrow> bool" where
  "at_unit i Seg s0 s \<longleftrightarrow> unit_ok i Seg s \<and> statics s = statics s0 \<and> frame s = frame s0"

lemma at_unit_say: "at_unit i Seg s0 s \<Longrightarrow> at_unit i Seg s0 (say f a s)"
  by (simp add: at_unit_def say_keeps)

lemma at_unit_Register:
  "at_unit i Seg s0 s \<Longrightarrow> at_unit i Seg s0 (snd (RegisterPciDevice E i Seg sid ty chk s))"
  by (simp add: at_unit_def unit_ok_Register statics_Register frame_Register)

lemma at_unit_scan:
  assumes "at_unit i Seg s0 s"
    and "ScanPciBus depth E (ScanBusCallbackRegisterPciDevice E i) Seg Bus s = Some (st, s')"
  shows "at_unit i Seg s0 s'"
proof (rule ScanPciBus_inv [where I = "at_unit i Seg s0", OF _ at_unit_say assms])
  fix b d f s assume "at_unit i Seg s0 s"
  then show "at_unit i Seg s0 (snd (ScanBusCallbackRegisterPciDevice E i Seg b d f s))"
    using callback_register [of E i Seg b d f s] by (auto intro: at_unit_Register)
qed

lemma scope_name_keeps [simp]:
  "statics (scope_name t s) = statics s" "frame (scope_name t s) = frame s"
  "unit_ok i Seg (scope_name t s) = unit_ok i Seg s"
  by (cases t; simp add: scope_name_def same_units(4) [where s' = "say f a s" and s = s for f a])+

lemma at_unit_process_scope:
  assumes "at_unit i (drhd_SegmentNumber E p) s0 s" and "process_scope depth E i p q s = Some r"
  shows "case r of Inl (st, s') \<Rightarrow> EFI_ERROR st \<and> at_unit i (drhd_SegmentNumber E p) s0 s'
     | Inr s' \<Rightarrow> at_unit i (drhd_SegmentNumber E p) s0 s'"
proof -
  let ?Seg = "drhd_SegmentNumber E p" and ?ty = "scope_Type E q"
  from assms(2) obtain b d f where loc: "GetPciBusDeviceFunction E ?Seg q = Some (b, d, f)"
    by (auto simp: process_scope_def bind_eq_Some_conv)
  let ?sid = "\<lparr>sid_Bus = b, sid_Device = ucast d, sid_Function = ucast f\<rparr>"
  let ?s1 = "say '' S%04x B%02x D%02x F%02x'' [hx ?Seg, hx b, hx d, hx f]
                   (scope_name ?ty (say ''  ProcessDhrd: '' [] s))"
  obtain st s2 where reg: "RegisterPciDevice E i ?Seg ?sid ?ty True ?s1 = (st, s2)" by fastforce
  have "at_unit i ?Seg s0 ?s1"
    using at_unit_say [OF assms(1)] by (simp add: at_unit_def say_keeps)
  from at_unit_Register [OF this] reg have inv: "at_unit i ?Seg s0 s2" by (metis snd_conv)
  note scanned = at_unit_scan [OF inv]
  show ?thesis
    using assms(2) loc reg inv
    by (auto simp: process_scope_def Let_def leave_on_error_def split: if_splits dest: scanned)
qed

text \<open>\<open>ProcessDhrd\<close> sets the attributes of its own unit and changes no other.\<close>

lemma length_upd_unit [simp]:
  "length (mVtdUnitInformation (upd_unit i f s)) = length (mVtdUnitInformation s)"
  by (simp add: upd_unit_def)

lemma ProcessDhrd_start:
  assumes "i < length (mVtdUnitInformation s)" and "units_wf s"
    and "s4 = say f a (upd_info i (\<lambda>j. j\<lparr>IncludeAllFlag := drhd_Flags E p AND INCLUDE_PCI_ALL E \<noteq> 0\<rparr>)
        (upd_unit i (\<lambda>u. u\<lparr>Segment := drhd_SegmentNumber E p\<rparr>)
          (say g b (upd_unit i (\<lambda>u. u\<lparr>VtdUnitBaseAddress := drhd_RegisterBaseAddress E p\<rparr>) s))))"
  shows "unit_ok i (drhd_SegmentNumber E p) s4" and "statics s4 = (statics s)[i := drhd_static E p]"
    and "frame s4 = frame s"
proof -
  let ?u = "mVtdUnitInformation s ! i"
  let ?v = "?u\<lparr>VtdUnitBaseAddress := drhd_RegisterBaseAddress E p, Segment := drhd_SegmentNumber E p,
     PciDeviceInfo := (PciDeviceInfo ?u)\<lparr>IncludeAllFlag := drhd_Flags E p AND INCLUDE_PCI_ALL E \<noteq> 0\<rparr>\<rparr>"
  have units: "mVtdUnitInformation s4 = (mVtdUnitInformation s)[i := ?v]"
    using assms(1) by (simp add: assms(3) upd_info_def upd_unit_def)
  have "unit_wf ?u" using assms(1,2) by (simp add: units_wf_def)
  then have "unit_wf ?v" by (simp add: unit_wf_def Let_def)
  then have "units_wf s4"
    using assms(2) set_update_subset_insert [of "mVtdUnitInformation s" i ?v]
    by (auto simp: units_wf_def units)
  with assms(1) units show "unit_ok i (drhd_SegmentNumber E p) s4"
    by (simp add: unit_ok_def)
  show "statics s4 = (statics s)[i := drhd_static E p]"
    by (simp add: statics_def units map_update unit_static_def drhd_static_def)
  show "frame s4 = frame s" by (simp add: assms(3))
qed

lemma ProcessDhrd_sets:
  assumes "i < length (mVtdUnitInformation s)" and "units_wf s"
    and "scopes E (sizeof_DRHD_HEADER E) p scs"
    and "ProcessDhrd depth E i p s = Some (st, s')"
  shows "units_wf s'" and "statics s' = (statics s)[i := drhd_static E p]" and "frame s' = frame s"
proof -
  let ?Seg = "drhd_SegmentNumber E p" and ?all = "drhd_Flags E p AND INCLUDE_PCI_ALL E \<noteq> 0"
  define s4 where "s4 = say (if ?all then ''  ProcessDhrd: with INCLUDE ALL'' else ''  ProcessDhrd: without INCLUDE ALL'') []
        (upd_info i (\<lambda>j. j\<lparr>IncludeAllFlag := ?all\<rparr>)
        (upd_unit i (\<lambda>u. u\<lparr>Segment := ?Seg\<rparr>)
          (say ''  VTD (%d) BaseAddress -  0x%016lx'' [hxn i, hx (drhd_RegisterBaseAddress E p)]
            (upd_unit i (\<lambda>u. u\<lparr>VtdUnitBaseAddress := drhd_RegisterBaseAddress E p\<rparr>) s))))"
  note start = ProcessDhrd_start [OF assms(1,2) s4_def]
  have here: "at_unit i ?Seg s4 s4" using start by (simp add: at_unit_def)
  from assms(4) obtain r where
    r: "(if ?all then map_option leave_on_error
            (ScanPciBus depth E (ScanBusCallbackRegisterPciDevice E i) ?Seg 0 s4)
         else Some (Inr s4)) = Some r"
    and rest: "(case r of Inl x \<Rightarrow> Some x
       | Inr s5 \<Rightarrow> map_option returned (visit (process_scope depth E i p) scs s5)) = Some (st, s')"
    unfolding ProcessDhrd_def Let_def s4_def [symmetric] bind_eq_Some_conv scopes_walk [OF assms(3)]
    by blast
  have r_inv: "case r of Inl x \<Rightarrow> at_unit i ?Seg s4 (snd x) | Inr s5 \<Rightarrow> at_unit i ?Seg s4 s5"
    using r here at_unit_scan [OF here]
    by (auto simp: leave_on_error_def split: if_splits)
  have "at_unit i ?Seg s4 s'"
  proof (cases r)
    case (Inl x)
    with rest r_inv show ?thesis by simp
  next
    case (Inr s5)
    with rest obtain v where v: "visit (process_scope depth E i p) scs s5 = Some v"
      and ret: "returned v = (st, s')" by auto
    have "case v of Inl x \<Rightarrow> at_unit i ?Seg s4 (snd x) | Inr t \<Rightarrow> at_unit i ?Seg s4 t"
    proof (rule visit_inv [OF _ _ _ v, where I = "at_unit i ?Seg s4" and J = "\<lambda>x. at_unit i ?Seg s4 (snd x)"])
      show "at_unit i ?Seg s4 s5" using Inr r_inv by simp
    qed (auto dest: at_unit_process_scope)
    with ret show ?thesis by (auto simp: returned_def split: sum.splits)
  qed
  with start show "units_wf s'" and "statics s' = (statics s)[i := drhd_static E p]" and "frame s' = frame s"
    by (auto simp: at_unit_def unit_ok_def)
qed

text \<open>The loop of \<open>ParseDmarAcpiTableDrhd\<close> after the structures \<open>ps\<close>.\<close>

definition drhds :: "'a dmar_view_scheme \<Rightarrow> addr list \<Rightarrow> addr list" where
  "drhds E qs = filter (\<lambda>p. hdr_Type E p = DRHD) qs"

definition drhd_inv :: "vtd_env \<Rightarrow> vtd_state \<Rightarrow> addr list \<Rightarrow> nat \<times> vtd_state \<Rightarrow> bool" where
  "drhd_inv E s0 ps = (\<lambda>(i, s). i = length (drhds E ps) \<and> units_wf s \<and> frame s = frame s0
     \<and> length (statics s) = length (statics s0) \<and> take i (statics s) = map (drhd_static E) (drhds E ps))"

lemma drhd_body_inv:
  assumes "drhd_inv E s0 ps (i, s)" and "length (drhds E (ps @ [p])) \<le> length (statics s0)"
    and "hdr_Type E p = DRHD \<Longrightarrow> scopes E (sizeof_DRHD_HEADER E) p scs"
    and "drhd_body depth E p (i, s) = Some (Inr t)"
  shows "drhd_inv E s0 (ps @ [p]) t"
proof (cases "hdr_Type E p = DRHD")
  case False
  with assms(1,4) show ?thesis by (auto simp: drhd_body_def drhd_inv_def drhds_def)
next
  case True
  with assms(4) obtain st s' where run: "ProcessDhrd depth E i p s = Some (st, s')" and t: "t = (i + 1, s')"
    by (auto simp: drhd_body_def split: if_splits)
  from assms(1,2) True have i: "i < length (mVtdUnitInformation s)"
    by (auto simp: drhd_inv_def drhds_def statics_def)
  then have "i < length (statics s)" by (simp add: statics_def)
  moreover have wf: "units_wf s" using assms(1) by (simp add: drhd_inv_def)
  ultimately show ?thesis
    using ProcessDhrd_sets [OF i wf assms(3) [OF True] run] assms(1) True t
    by (auto simp: drhd_inv_def drhds_def take_Suc_conv_app_nth take_update_cancel)
qed

lemma drhd_visit_inv:
  assumes "drhd_inv E s0 ps is" and "length (drhds E (ps @ qs)) \<le> length (statics s0)"
    and "\<forall>p \<in> set qs. hdr_Type E p = DRHD \<longrightarrow> scopes E (sizeof_DRHD_HEADER E) p (scs p)"
    and "visit (drhd_body depth E) qs is = Some (Inr t)"
  shows "drhd_inv E s0 (ps @ qs) t"
  using assms
proof (induction qs arbitrary: ps "is")
  case Nil
  then show ?case by simp
next
  case (Cons q qs)
  from Cons.prems(4) obtain t1 where t1: "drhd_body depth E q is = Some (Inr t1)"
    and rest: "visit (drhd_body depth E) qs t1 = Some (Inr t)"
    by (auto simp only: visit_Cons_Inr)
  obtain i s where "is": "is = (i, s)" by (cases "is")
  have "length (drhds E (ps @ [q])) \<le> length (statics s0)"
    using Cons.prems(2) by (simp add: drhds_def split: if_splits)
  with Cons.prems t1 "is" have "drhd_inv E s0 (ps @ [q]) t1"
    by (intro drhd_body_inv [where i = i and s = s and scs = "scs q"]) auto
  from Cons.IH [OF this _ _ rest] Cons.prems(2,3) show ?case by simp
qed

lemma fold_say_keeps [simp]:
  "mVtdUnitInformation (fold (\<lambda>k. say f (g k)) ks t) = mVtdUnitInformation t"
  "frame (fold (\<lambda>k. say f (g k)) ks t) = frame t"
  by (induction ks arbitrary: t) simp_all

lemma DumpPciDeviceInfo_keeps:
  "mVtdUnitInformation (DumpPciDeviceInfo i s) = mVtdUnitInformation s"
  "frame (DumpPciDeviceInfo i s) = frame s"
  by (simp_all add: DumpPciDeviceInfo_def)

lemma dump_all_keeps:
  "mVtdUnitInformation (fold DumpPciDeviceInfo is s) = mVtdUnitInformation s
   \<and> frame (fold DumpPciDeviceInfo is s) = frame s"
  by (induction "is" arbitrary: s) (simp_all add: DumpPciDeviceInfo_keeps)

text \<open>
  C2: When parsing the DRHD structures succeeds, there is one unit for each of them, in table
  order, with its base address, segment and include-all flag; the unit count is the length
  of the unit array (the two loops over the table agree, as the code asserts), and every
  device table is well formed.
\<close>

theorem ParseDmarAcpiTableDrhd_units:
  assumes "table_ok E (mAcpiDmarTable s) qs scs"
    and "ParseDmarAcpiTableDrhd depth E s = Some (EFI_SUCCESS, s')"
  shows "map unit_static (mVtdUnitInformation s') = map (drhd_static E) (drhds E qs)
    \<and> mVtdUnitNumber s' = length (mVtdUnitInformation s') \<and> units_wf s'"
proof -
  from assms(1) have chain: "structs E (mAcpiDmarTable s) qs"
    and sc: "\<forall>p \<in> set qs. hdr_Type E p = DRHD \<longrightarrow> scopes E (sizeof_DRHD_HEADER E) p (scs p)"
    by (auto simp: table_ok_def scoped_def fixed_part_def)
  let ?n = "length (drhds E qs)"
  define s0 where "s0 = (say ''  VtdUnitNumber - %d'' [hxn ?n] (s\<lparr>mVtdUnitNumber := ?n\<rparr>))
     \<lparr>mVtdUnitInformation := replicate ?n zero_unit\<rparr>"
  have fields: "mVtdUnitInformation s0 = replicate ?n zero_unit" "mVtdUnitNumber s0 = ?n"
    by (simp_all add: s0_def say_def)
  have engines: "GetVtdEngineNumber E s = Some ?n"
    using engine_count [OF chain] by (simp add: drhds_def)
  from assms(2) engines obtain r where r: "visit (drhd_body depth E) qs (0, s0) = Some r"
    and out: "(EFI_SUCCESS, s') = (case r of Inl x \<Rightarrow> x
        | Inr (_, s2) \<Rightarrow> (EFI_SUCCESS, fold DumpPciDeviceInfo [0..<mVtdUnitNumber s2] s2))"
    by (auto simp: ParseDmarAcpiTableDrhd_def Let_def s0_def structs_walk [OF chain] split: if_splits)
  have "\<exists>i s2. r = Inr (i, s2)"
  proof (cases r)
    case (Inl x)
    have "case r of Inl x \<Rightarrow> EFI_ERROR (fst x) | Inr _ \<Rightarrow> True"
      by (rule visit_inv [OF _ _ _ r, where I = "\<lambda>_. True" and J = "\<lambda>x. EFI_ERROR (fst x)"])
        (auto simp: drhd_body_def split: if_splits)
    with Inl out show ?thesis by (cases x) auto
  next
    case (Inr t)
    then show ?thesis by (cases t) simp
  qed
  then obtain i s2 where rs: "r = Inr (i, s2)" by blast
  with out have s': "s' = fold DumpPciDeviceInfo [0..<mVtdUnitNumber s2] s2" by simp
  have "units_wf s0"
    by (simp add: units_wf_def fields unit_wf_def zero_unit_def)
  then have init: "drhd_inv E s0 [] (0, s0)" by (simp add: drhd_inv_def drhds_def)
  have len: "length (statics s0) = ?n" by (simp add: statics_def fields)
  have "drhd_inv E s0 ([] @ qs) (i, s2)"
    by (rule drhd_visit_inv [OF init _ sc]) (use r rs len in simp_all)
  then have fin: "units_wf s2" "frame s2 = frame s0" "statics s2 = map (drhd_static E) (drhds E qs)"
    using len by (auto simp: drhd_inv_def)
  have num: "mVtdUnitNumber s2 = ?n"
    using fin(2) fields by (simp add: frame_def)
  have same: "mVtdUnitInformation s' = mVtdUnitInformation s2" "frame s' = frame s2"
    using dump_all_keeps by (simp_all add: s')
  have "length (mVtdUnitInformation s2) = ?n"
    using arg_cong [OF fin(3), of length] by (simp add: statics_def)
  with same fin num show ?thesis
    by (simp add: statics_def frame_def units_wf_def)
qed

text \<open>A table whose only structure is the include-all unit of the sample.\<close>

definition single_env :: vtd_env where
  "single_env = sample_env\<lparr>tbl_Length := \<lambda>_. 0x40\<rparr>"

definition single_state :: vtd_state where
  "single_state = sample_state\<lparr>mAcpiDmarTable := 0x1020\<rparr>"

lemma single_table: "table_ok single_env 0x1020 [0x1050] (\<lambda>_. [])"
  by (simp add: table_ok_def structs_def scopes_def scoped_def fixed_part_def single_env_def sample_env_def)

lemma single_above: "secondary_above single_env Seg"
  using sample_secondary_above [of Seg]
  by (simp add: secondary_above_def is_bridge_def single_env_def)

lemma single_succeeds:
  "\<exists>s'. ParseDmarAcpiTableDrhd 256 single_env single_state = Some (EFI_SUCCESS, s')"
proof -
  have chain: "structs single_env (mAcpiDmarTable single_state) [0x1050]"
    and sc: "scopes single_env (sizeof_DRHD_HEADER single_env) 0x1050 []"
    using single_table
    by (simp_all add: single_state_def table_ok_def scoped_def fixed_part_def)
      (simp add: scopes_def single_env_def sample_env_def)
  have ty: "hdr_Type single_env 0x1050 = DRHD" and all: "drhd_Flags single_env 0x1050 AND INCLUDE_PCI_ALL single_env \<noteq> 0"
    and mem: "alloc_units single_env n" "alloc_ok single_env n" for n
    by (simp_all add: single_env_def sample_env_def)
  have scan: "\<exists>t'. ScanPciBus 256 single_env (ScanBusCallbackRegisterPciDevice single_env i) Seg Bus t = Some (EFI_SUCCESS, t')"
    for i Seg Bus t
  proof -
    obtain st t' where "ScanPciBus 256 single_env (ScanBusCallbackRegisterPciDevice single_env i) Seg Bus t = Some (st, t')"
      using scan_total [OF single_above, of 256 Bus] by force
    with scan_no_errors [OF mem(2) this] show ?thesis by simp
  qed
  then obtain g where
    "ScanPciBus 256 single_env (ScanBusCallbackRegisterPciDevice single_env i) Seg Bus t
       = Some (EFI_SUCCESS, g i Seg Bus t)" for i Seg Bus t
    by metis
  then have "\<exists>t'. ProcessDhrd 256 single_env 0 0x1050 t = Some (EFI_SUCCESS, t')" for t
    using all by (simp add: ProcessDhrd_def Let_def scopes_walk [OF sc] leave_on_error_def returned_def)
  then obtain h where h: "ProcessDhrd 256 single_env 0 0x1050 t = Some (EFI_SUCCESS, h t)" for t
    by metis
  have "visit (drhd_body 256 single_env) [0x1050] (0, t) = Some (Inr (1, h t))" for t
    using ty by (simp add: drhd_body_def h)
  with engine_count [OF chain] ty mem(1) show ?thesis
    by (simp add: ParseDmarAcpiTableDrhd_def Let_def structs_walk [OF chain])
qed

theorem ParseDmarAcpiTableDrhd_units_witness:
  "\<exists>s'. ParseDmarAcpiTableDrhd 256 single_env single_state = Some (EFI_SUCCESS, s')
     \<and> map unit_static (mVtdUnitInformation s') = [(0xFED91000, 0, True)]"
proof -
  obtain s' where run: "ParseDmarAcpiTableDrhd 256 single_env single_state = Some (EFI_SUCCESS, s')"
    using single_succeeds by blast
  have "table_ok single_env (mAcpiDmarTable single_state) [0x1050] (\<lambda>_. [])"
    using single_table by (simp add: single_state_def)
  from ParseDmarAcpiTableDrhd_units [OF this run] run show ?thesis
    by (simp add: drhds_def drhd_static_def) (simp add: single_env_def sample_env_def)
qed

section \<open>Termination\<close>

definition acpi_root :: "'a acpi_view_scheme \<Rightarrow> addr option" where
  "acpi_root E = (case config_table E gEfiAcpi20TableGuid of
     Some t \<Rightarrow> Some t | None \<Rightarrow> config_table E gEfiAcpi10TableGuid)"

lemma scope_location_returns:
  assumes "0 < sizeof_PCI_PATH E"
  shows "\<exists>b d f. GetPciBusDeviceFunction E Seg q = Some (b, d, f)"
proof -
  let ?body = "\<lambda>p (MyBus, MyDevice, MyFunction).
      Some (Inr (SecondaryBus E Seg MyBus MyDevice MyFunction,
                 path_Device E (p + sizeof_PCI_PATH E),
                 path_Function E (p + sizeof_PCI_PATH E)) :: unit + u8 \<times> u8 \<times> u8)"
  have "\<exists>bdf. walk (\<lambda>_. sizeof_PCI_PATH E) ?body p e s = Some (Inr bdf)" for p e s
  proof -
    obtain qs where qs: "chain (\<lambda>_. sizeof_PCI_PATH E) e p qs"
      using chain_exists [of p e "\<lambda>_. sizeof_PCI_PATH E"] assms by auto
    have "visit ?body qs s = Some (Inr (fold (\<lambda>p (b, d, f). (SecondaryBus E Seg b d f,
        path_Device E (p + sizeof_PCI_PATH E), path_Function E (p + sizeof_PCI_PATH E))) qs s))"
      by (rule visit_fold) auto
    with walk_chain [OF qs, of ?body s] show ?thesis by (auto simp only: option.inject)
  qed
  note returns = this
  obtain bdf where "walk (\<lambda>_. sizeof_PCI_PATH E) ?body (q + sizeof_SCOPE_HEADER E)
      (q + unat (scope_Length E q) - sizeof_PCI_PATH E)
      (scope_StartBusNumber E q, path_Device E (q + sizeof_SCOPE_HEADER E),
       path_Function E (q + sizeof_SCOPE_HEADER E)) = Some (Inr bdf)"
    using returns by blast
  then show ?thesis
    by (cases bdf) (simp add: GetPciBusDeviceFunction_def Let_def)
qed

text \<open>What the scans need: depth for 256 buses, and bridges that lead upwards.\<close>

definition scannable :: "nat \<Rightarrow> vtd_env \<Rightarrow> bool" where
  "scannable depth E \<longleftrightarrow> 256 \<le> depth \<and> 0 < sizeof_PCI_PATH E \<and> (\<forall>Seg. secondary_above E Seg)"

lemma scan_returns:
  assumes "scannable depth E"
  shows "ScanPciBus depth E cb Seg Bus t \<noteq> None"
proof -
  have "\<exists>st s'. ScanPciBus depth E cb Seg Bus t = Some (st, s')"
    by (rule scan_total) (use assms in \<open>auto simp: scannable_def\<close>)
  then show ?thesis by auto
qed

lemma process_scope_returns:
  assumes "scannable depth E"
  shows "process_scope depth E i p q s \<noteq> None"
proof -
  have "0 < sizeof_PCI_PATH E" using assms by (simp add: scannable_def)
  then obtain b d f where loc: "GetPciBusDeviceFunction E (drhd_SegmentNumber E p) q = Some (b, d, f)"
    using scope_location_returns [of E "drhd_SegmentNumber E p" q] by blast
  obtain st s2 where reg: "RegisterPciDevice E i (drhd_SegmentNumber E p)
          \<lparr>sid_Bus = b, sid_Device = ucast d, sid_Function = ucast f\<rparr> (scope_Type E q) True
          (say '' S%04x B%02x D%02x F%02x'' [hx (drhd_SegmentNumber E p), hx b, hx d, hx f]
             (scope_name (scope_Type E q) (say ''  ProcessDhrd: '' [] s))) = (st, s2)"
    by fastforce
  from loc reg scan_returns [OF assms] show ?thesis by (simp add: process_scope_def Let_def)
qed

lemma ProcessDhrd_returns:
  assumes "scannable depth E" and "scopes E (sizeof_DRHD_HEADER E) p scs"
  shows "ProcessDhrd depth E i p s \<noteq> None"
proof -
  have scs: "visit (process_scope depth E i p) scs t \<noteq> None" for t
    by (rule visit_returns) (rule process_scope_returns [OF assms(1)])
  show ?thesis
    unfolding ProcessDhrd_def Let_def scopes_walk [OF assms(2)]
  proof (rule bind_returns)
    show "(if b then map_option leave_on_error
        (ScanPciBus depth E cb Seg Bus t) else Some (Inr t)) \<noteq> None" for b cb Seg Bus t
      using scan_returns [OF assms(1), of cb Seg Bus t] by simp
    show "(case r of Inl x \<Rightarrow> Some x
      | Inr t \<Rightarrow> map_option returned (visit (process_scope depth E i p) scs t)) \<noteq> None" for r
      using scs by (cases r) simp_all
  qed
qed

lemma ParseDrhd_returns:
  assumes "scannable depth E" and "table_ok E (mAcpiDmarTable s) qs scs"
  shows "ParseDmarAcpiTableDrhd depth E s \<noteq> None"
proof -
  from assms(2) have chain: "structs E (mAcpiDmarTable s) qs"
    and sc: "\<And>p. p \<in> set qs \<Longrightarrow> hdr_Type E p = DRHD \<Longrightarrow> scopes E (sizeof_DRHD_HEADER E) p (scs p)"
    by (auto simp: table_ok_def scoped_def fixed_part_def)
  have body: "drhd_body depth E p is \<noteq> None" if "p \<in> set qs" for p "is"
    using ProcessDhrd_returns [OF assms(1) sc [OF that]]
    by (cases "is") (simp add: drhd_body_def)
  have "visit (drhd_body depth E) qs is \<noteq> None" for "is"
    by (rule visit_returns) (rule body)
  then show ?thesis
    by (simp add: ParseDmarAcpiTableDrhd_def engine_count [OF chain] structs_walk [OF chain] Let_def
        del: not_None_eq split_paired_Ex)
qed

lemma ParseRmrr_returns:
  assumes "scannable depth E" and "table_ok E (mAcpiDmarTable s) qs scs"
  shows "ParseDmarAcpiTableRmrr E s \<noteq> None"
proof -
  from assms(2) have chain: "structs E (mAcpiDmarTable s) qs"
    and sc: "\<And>p. p \<in> set qs \<Longrightarrow> hdr_Type E p = RMRR \<Longrightarrow> scopes E (sizeof_RMRR_HEADER E) p (scs p)"
    by (auto simp: table_ok_def scoped_def fixed_part_def)
  have "0 < sizeof_PCI_PATH E" using assms(1) by (simp add: scannable_def)
  note loc = scope_location_returns [OF this]
  have scope: "rmrr_scope E p q t \<noteq> None" for p q t
    using loc [of "rmrr_SegmentNumber E p" q] by (auto simp: rmrr_scope_def Let_def)
  have "visit (rmrr_scope E p) ss t \<noteq> None" for p ss t
    by (rule visit_returns) (rule scope)
  then have body: "rmrr_body E p t \<noteq> None" if "p \<in> set qs" for p t
    by (simp add: rmrr_body_def ProcessRmrr_def scopes_walk [OF sc [OF that]] del: not_None_eq split_paired_Ex)
  have "visit (rmrr_body E) qs t \<noteq> None" for t
    by (rule visit_returns) (rule body)
  then show ?thesis
    by (simp add: ParseDmarAcpiTableRmrr_def structs_walk [OF chain] del: not_None_eq split_paired_Ex)
qed

text \<open>The frame is kept on every path, errors included.\<close>

lemma frame_scan:
  assumes "ScanPciBus depth E (ScanBusCallbackRegisterPciDevice E i) Seg Bus s = Some (st, s')"
  shows "frame s' = frame s"
proof (rule ScanPciBus_inv [where I = "\<lambda>t. frame t = frame s", OF _ _ refl assms])
  fix b d f t assume "frame t = frame s"
  then show "frame (snd (ScanBusCallbackRegisterPciDevice E i Seg b d f t)) = frame s"
    using callback_register [of E i Seg b d f t] frame_Register by auto
qed simp

lemma frame_process_scope:
  assumes "process_scope depth E i p q s = Some r"
  shows "case r of Inl x \<Rightarrow> frame (snd x) = frame s | Inr s' \<Rightarrow> frame s' = frame s"
proof -
  from assms obtain b d f where loc: "GetPciBusDeviceFunction E (drhd_SegmentNumber E p) q = Some (b, d, f)"
    by (auto simp: process_scope_def bind_eq_Some_conv)
  let ?s1 = "say '' S%04x B%02x D%02x F%02x'' [hx (drhd_SegmentNumber E p), hx b, hx d, hx f]
             (scope_name (scope_Type E q) (say ''  ProcessDhrd: '' [] s))"
  obtain st s2 where reg: "RegisterPciDevice E i (drhd_SegmentNumber E p)
          \<lparr>sid_Bus = b, sid_Device = ucast d, sid_Function = ucast f\<rparr> (scope_Type E q) True ?s1 = (st, s2)"
    by fastforce
  have "frame s2 = frame s"
    using frame_Register [of E i "drhd_SegmentNumber E p" "\<lparr>sid_Bus = b, sid_Device = ucast d, sid_Function = ucast f\<rparr>"
        "scope_Type E q" True ?s1] reg by simp
  then show ?thesis
    using assms loc reg
    by (auto simp: process_scope_def Let_def leave_on_error_def split: if_splits dest: frame_scan)
qed

lemma frame_ProcessDhrd:
  assumes "scopes E (sizeof_DRHD_HEADER E) p scs" and "ProcessDhrd depth E i p s = Some (st, s')"
  shows "frame s' = frame s"
proof -
  let ?Seg = "drhd_SegmentNumber E p" and ?all = "drhd_Flags E p AND INCLUDE_PCI_ALL E \<noteq> 0"
  define s4 where "s4 = say (if ?all then ''  ProcessDhrd: with INCLUDE ALL'' else ''  ProcessDhrd: without INCLUDE ALL'') []
        (upd_info i (\<lambda>j. j\<lparr>IncludeAllFlag := ?all\<rparr>)
        (upd_unit i (\<lambda>u. u\<lparr>Segment := ?Seg\<rparr>)
          (say ''  VTD (%d) BaseAddress -  0x%016lx'' [hxn i, hx (drhd_RegisterBaseAddress E p)]
            (upd_unit i (\<lambda>u. u\<lparr>VtdUnitBaseAddress := drhd_RegisterBaseAddress E p\<rparr>) s))))"
  have here: "frame s4 = frame s" by (simp add: s4_def)
  from assms(2) obtain r where
    r: "(if ?all then map_option leave_on_error
            (ScanPciBus depth E (ScanBusCallbackRegisterPciDevice E i) ?Seg 0 s4)
         else Some (Inr s4)) = Some r"
    and rest: "(case r of Inl x \<Rightarrow> Some x
       | Inr s5 \<Rightarrow> map_option returned (visit (process_scope depth E i p) scs s5)) = Some (st, s')"
    unfolding ProcessDhrd_def Let_def s4_def [symmetric] bind_eq_Some_conv scopes_walk [OF assms(1)]
    by blast
  have r_inv: "case r of Inl x \<Rightarrow> frame (snd x) = frame s | Inr s5 \<Rightarrow> frame s5 = frame s"
    using r here by (auto simp: leave_on_error_def split: if_splits dest: frame_scan)
  show ?thesis
  proof (cases r)
    case (Inl x)
    with rest r_inv show ?thesis by simp
  next
    case (Inr s5)
    with rest obtain v where v: "visit (process_scope depth E i p) scs s5 = Some v"
      and ret: "returned v = (st, s')" by auto
    have "case v of Inl x \<Rightarrow> frame (snd x) = frame s | Inr t \<Rightarrow> frame t = frame s"
    proof (rule visit_inv [OF _ _ _ v, where I = "\<lambda>t. frame t = frame s" and J = "\<lambda>x. frame (snd x) = frame s"])
      show "frame s5 = frame s" using Inr r_inv by simp
    qed (auto dest: frame_process_scope)
    with ret show ?thesis by (auto simp: returned_def split: sum.splits)
  qed
qed

lemma ParseDrhd_keeps:
  assumes "table_ok E (mAcpiDmarTable s) qs scs" and "ParseDmarAcpiTableDrhd depth E s = Some (st, s')"
  shows "mAcpiDmarTable s' = mAcpiDmarTable s" and "gRmrrRecord s' = gRmrrRecord s"
    and "gExceptionRecord s' = gExceptionRecord s" and "gMaps s' = gMaps s" and "mHasError s' = mHasError s"
proof -
  from assms(1) have chain: "structs E (mAcpiDmarTable s) qs"
    and sc: "\<And>p. p \<in> set qs \<Longrightarrow> hdr_Type E p = DRHD \<Longrightarrow> scopes E (sizeof_DRHD_HEADER E) p (scs p)"
    by (auto simp: table_ok_def scoped_def fixed_part_def)
  let ?n = "length (filter (\<lambda>p. hdr_Type E p = DRHD) qs)"
  let ?s1 = "s\<lparr>mVtdUnitNumber := ?n\<rparr>"
  have body: "case r of Inl x \<Rightarrow> frame (snd x) = frame ?s1 | Inr t \<Rightarrow> frame (snd t) = frame ?s1"
    if "p \<in> set qs" "frame (snd is) = frame ?s1" "drhd_body depth E p is = Some r" for p "is" r
    using that frame_ProcessDhrd [OF sc [OF that(1)]]
    by (cases "is") (force simp: drhd_body_def split: if_splits)
  have "frame s' = frame ?s1"
  proof (cases "?n = 0 \<or> \<not> alloc_units E ?n")
    case True
    with assms(2) show ?thesis
      by (auto simp: ParseDmarAcpiTableDrhd_def engine_count [OF chain] Let_def frame_def say_def
          split: if_splits)
  next
    case False
    define s0 where "s0 = (say ''  VtdUnitNumber - %d'' [hxn ?n] ?s1)\<lparr>mVtdUnitInformation := replicate ?n zero_unit\<rparr>"
    have s0: "frame s0 = frame ?s1" by (simp add: s0_def frame_def say_def)
    from assms(2) False obtain r where r: "visit (drhd_body depth E) qs (0, s0) = Some r"
      and out: "(st, s') = (case r of Inl x \<Rightarrow> x
        | Inr (_, s2) \<Rightarrow> (EFI_SUCCESS, fold DumpPciDeviceInfo [0..<mVtdUnitNumber s2] s2))"
      by (auto simp: ParseDmarAcpiTableDrhd_def engine_count [OF chain] Let_def s0_def structs_walk [OF chain])
    have "case r of Inl x \<Rightarrow> frame (snd x) = frame ?s1 | Inr t \<Rightarrow> frame (snd t) = frame ?s1"
      by (rule visit_inv [OF _ _ _ r, where I = "\<lambda>t. frame (snd t) = frame ?s1"
            and J = "\<lambda>x. frame (snd x) = frame ?s1"]) (use body s0 in fastforce)+
    with out show ?thesis by (auto simp: dump_all_keeps split: sum.splits)
  qed
  then show "mAcpiDmarTable s' = mAcpiDmarTable s" "gRmrrRecord s' = gRmrrRecord s"
    "gExceptionRecord s' = gExceptionRecord s" "gMaps s' = gMaps s" "mHasError s' = mHasError s"
    by (simp_all add: frame_def)
qed

text \<open>
  C20: On a platform whose DMAR table has structures and device scopes that fill it without
  zero lengths, and whose PCI-PCI bridges lead to larger bus numbers, \<open>DumpVtdAcpi\<close>
  returns; recursion depth 256 is enough.
\<close>

theorem DumpVtdAcpi_returns:
  assumes "scannable depth E"
    and "\<And>r t. acpi_root E = Some r \<Longrightarrow> t = FindAcpiPtr E r (DMAR_SIGNATURE E) \<Longrightarrow> t \<noteq> NULL \<Longrightarrow>
      \<exists>qs scs. table_ok E t qs scs"
  shows "DumpVtdAcpi depth E s \<noteq> None"
proof (cases "\<exists>r. acpi_root E = Some r \<and> FindAcpiPtr E r (DMAR_SIGNATURE E) \<noteq> NULL")
  case False
  then show ?thesis
    by (auto simp: DumpVtdAcpi_def GetDmarAcpiTable_def acpi_root_def Let_def split: option.splits)
next
  case True
  then obtain r where r: "acpi_root E = Some r" "FindAcpiPtr E r (DMAR_SIGNATURE E) \<noteq> NULL" by blast
  let ?t = "FindAcpiPtr E r (DMAR_SIGNATURE E)"
  from assms(2) [OF r(1) refl r(2)] obtain qs scs where ok: "table_ok E ?t qs scs" by blast
  note dump = DumpAcpiDMAR_visits [OF r(2) ok]
  then obtain os where "DumpAcpiDMAR E ?t = Some os" by blast
  then obtain s1 where s1: "GetDmarAcpiTable E s = Some (EFI_SUCCESS, s1)" "mAcpiDmarTable s1 = ?t"
    using r by (auto simp: GetDmarAcpiTable_def acpi_root_def Let_def emit_def say_def split: option.splits)
  with ok have ok1: "table_ok E (mAcpiDmarTable s1) qs scs" by simp
  from ParseDrhd_returns [OF assms(1) ok1] obtain st s2 where
    s2: "ParseDmarAcpiTableDrhd depth E s1 = Some (st, s2)" by auto
  have "table_ok E (mAcpiDmarTable s2) qs scs"
    using ParseDrhd_keeps(1) [OF ok1 s2] ok1 by simp
  from ParseRmrr_returns [OF assms(1) this] s1 s2 show ?thesis
    by (auto simp: DumpVtdAcpi_def)
qed

theorem DumpVtdAcpi_returns_witness: "DumpVtdAcpi 256 sample_env sample_state \<noteq> None"
proof (rule DumpVtdAcpi_returns)
  show "scannable 256 sample_env"
    using sample_secondary_above by (simp add: scannable_def) (simp add: sample_env_def)
  have "holds (memory sample_env) 0x200 (replicate 36 0 @ enc 8 (unat (0x900 :: u64)) @ enc 8 (unat (0x1000 :: u64)))"
    using holds_mem_of [of "0x200" "replicate 36 0 @ enc 8 0x900 @ enc 8 0x1000"]
    by (simp add: sample_env_def)
  then have "holds (memory sample_env) 548 (enc 8 (unat (0x900 :: u64)))"
    "holds (memory sample_env) 556 (enc 8 (unat (0x1000 :: u64)))"
    by (simp_all only: holds_append length_replicate length_enc) simp_all
  then have entries: "rd64 (memory sample_env) 548 = 0x900" "rd64 (memory sample_env) 556 = 0x1000"
    by (simp_all only: rd64_holds)
  have count: "unat (EntryCount sample_env 0x200 8) = Suc (Suc 0)"
    by (simp add: EntryCount_def sample_env_def)
  have "sizeof_DESCRIPTION_HEADER sample_env = 36" by (simp add: sample_env_def)
  with entries have "xsdt_entry sample_env 0x200 0 = 0x900" "xsdt_entry sample_env 0x200 (Suc 0) = 0x1000"
    by (simp_all add: xsdt_entry_def)
  then have "ScanTableInXSDT sample_env 0x200 (DMAR_SIGNATURE sample_env) = 0x1000"
    unfolding ScanTableInXSDT_def count by (simp add: sample_env_def)
  then have "FindAcpiPtr sample_env 0x100 (DMAR_SIGNATURE sample_env) = 0x1000"
    by (simp add: FindAcpiPtr_def below_max) (simp add: sample_env_def)
  then show "\<exists>qs scs. table_ok sample_env t qs scs"
    if "acpi_root sample_env = Some r" "t = FindAcpiPtr sample_env r (DMAR_SIGNATURE sample_env)" "t \<noteq> NULL" for r t
    using that sample_table by (auto simp: acpi_root_def) (auto simp: sample_env_def)
qed

section \<open>Reserved memory\<close>

definition rmrrs :: "'a dmar_view_scheme \<Rightarrow> addr list \<Rightarrow> addr list" where
  "rmrrs E qs = filter (\<lambda>p. hdr_Type E p = RMRR) qs"

definition scope_record :: "vtd_env \<Rightarrow> addr \<Rightarrow> addr \<Rightarrow> rmrr_record" where
  "scope_record E p q = new_rmrr E p (the (GetPciBusDeviceFunction E (rmrr_SegmentNumber E p) q))"

lemma ProcessRmrr_records:
  assumes "scopes E (sizeof_RMRR_HEADER E) p ss" and "0 < sizeof_PCI_PATH E" and "\<And>q. alloc_record E q"
    and "\<And>q. q \<in> set ss \<Longrightarrow> scope_Type E q = PCI_ENDPOINT"
  shows "\<exists>s'. ProcessRmrr E p s = Some (EFI_SUCCESS, s')
    \<and> gRmrrRecord s' = gRmrrRecord s @ map (scope_record E p) ss"
proof -
  have "\<exists>t'. visit (rmrr_scope E p) ss t = Some (Inr t')
      \<and> gRmrrRecord t' = gRmrrRecord t @ map (scope_record E p) ss" for t
    using assms(4)
  proof (induction ss arbitrary: t)
    case Nil
    show ?case by simp
  next
    case (Cons q ss)
    obtain b d f where loc: "GetPciBusDeviceFunction E (rmrr_SegmentNumber E p) q = Some (b, d, f)"
      using scope_location_returns [OF assms(2), of "rmrr_SegmentNumber E p" q] by blast
    then obtain t1 where t1: "rmrr_scope E p q t = Some (Inr t1)"
      and rec: "gRmrrRecord t1 = gRmrrRecord t @ [scope_record E p q]"
      using Cons.prems [of q] assms(3) by (auto simp: rmrr_scope_def scope_record_def Let_def)
    from Cons.IH [of t1] Cons.prems t1 rec show ?case by auto
  qed
  then obtain t' where "visit (rmrr_scope E p) ss
      (say ''  RMRR (Base 0x%016lx, Limit 0x%016lx)'' [hx (rmrr_BaseAddress E p), hx (rmrr_LimitAddress E p)] s)
      = Some (Inr t')" and "gRmrrRecord t' = gRmrrRecord s @ map (scope_record E p) ss"
    by (metis say_fields(4))
  then show ?thesis
    by (simp add: ProcessRmrr_def scopes_walk [OF assms(1)] returned_def)
qed

text \<open>
  When every device scope of the RMRR structures is a PCI endpoint and memory suffices,
  parsing succeeds and appends one record per scope, in table order, with the device the
  scope's path leads to and the region of its structure.
\<close>

theorem ParseDmarAcpiTableRmrr_records:
  assumes "table_ok E (mAcpiDmarTable s) qs scs" and "0 < sizeof_PCI_PATH E" and "\<And>q. alloc_record E q"
    and "\<And>p q. p \<in> set (rmrrs E qs) \<Longrightarrow> q \<in> set (scs p) \<Longrightarrow> scope_Type E q = PCI_ENDPOINT"
  shows "\<exists>s'. ParseDmarAcpiTableRmrr E s = Some (EFI_SUCCESS, s')
    \<and> gRmrrRecord s' = gRmrrRecord s @ concat (map (\<lambda>p. map (scope_record E p) (scs p)) (rmrrs E qs))"
proof -
  from assms(1) have chain: "structs E (mAcpiDmarTable s) qs"
    and sc: "\<And>p. p \<in> set qs \<Longrightarrow> hdr_Type E p = RMRR \<Longrightarrow> scopes E (sizeof_RMRR_HEADER E) p (scs p)"
    by (auto simp: table_ok_def scoped_def fixed_part_def)
  have "\<exists>t'. visit (rmrr_body E) ps t = Some (Inr t')
      \<and> gRmrrRecord t' = gRmrrRecord t @ concat (map (\<lambda>p. map (scope_record E p) (scs p)) (rmrrs E ps))"
    if "set ps \<subseteq> set qs" for ps t
    using that
  proof (induction ps arbitrary: t)
    case Nil
    show ?case by (simp add: rmrrs_def)
  next
    case (Cons p ps)
    show ?case
    proof (cases "hdr_Type E p = RMRR")
      case False
      with Cons show ?thesis by (simp add: rmrr_body_def rmrrs_def)
    next
      case True
      with Cons.prems have "p \<in> set (rmrrs E qs)" by (simp add: rmrrs_def)
      note ends = assms(4) [OF this]
      from Cons.prems True obtain t1 where t1: "ProcessRmrr E p t = Some (EFI_SUCCESS, t1)"
        and rec: "gRmrrRecord t1 = gRmrrRecord t @ map (scope_record E p) (scs p)"
        using ProcessRmrr_records [OF sc assms(2,3) ends, of p] by fastforce
      from Cons.IH [of t1] Cons.prems t1 rec True show ?thesis
        by (auto simp: rmrr_body_def rmrrs_def leave_on_error_def)
    qed
  qed
  from this [OF subset_refl, of s] show ?thesis
    by (auto simp: ParseDmarAcpiTableRmrr_def structs_walk [OF chain] returned_def)
qed

theorem ParseDmarAcpiTableRmrr_records_witness:
  "\<exists>s'. ParseDmarAcpiTableRmrr sample_env sample_state = Some (EFI_SUCCESS, s')
     \<and> gRmrrRecord s' = [\<lparr>rr_Segment = 0, rr_Bus = 0, rr_Device = 0, rr_Function = 0,
         rr_Address = 0x8D800000, rr_Length = 0x2800000\<rparr>]"
proof -
  have ok: "table_ok sample_env (mAcpiDmarTable sample_state) [0x1030, 0x1050, 0x1060] sample_scopes"
    using sample_table by (simp add: sample_state_def)
  have rm: "rmrrs sample_env [0x1030, 0x1050, 0x1060] = [0x1060]"
    by (simp add: rmrrs_def sample_env_def)
  have ty: "scope_Type sample_env 0x1078 = PCI_ENDPOINT" and size: "0 < sizeof_PCI_PATH sample_env"
    and alloc: "\<And>q. alloc_record sample_env q"
    by (simp_all add: sample_env_def)
  have rec: "scope_record sample_env 0x1060 0x1078 = \<lparr>rr_Segment = 0, rr_Bus = 0, rr_Device = 0,
      rr_Function = 0, rr_Address = 0x8D800000, rr_Length = 0x2800000\<rparr>"
    by (simp add: scope_record_def new_rmrr_def GetPciBusDeviceFunction_def sample_env_def)
  show ?thesis
    using ParseDmarAcpiTableRmrr_records [OF ok size alloc] rm ty rec
    by (simp add: sample_scopes_def) (simp add: sample_state_def)
qed

lemma visit_each:
  "visit body qs s = Some (Inr s') \<Longrightarrow> q \<in> set qs \<Longrightarrow> \<exists>t t'. body q t = Some (Inr t')"
  by (induction qs arbitrary: s) (auto simp only: visit_Cons_Inr set_simps list.set empty_iff)

text \<open>
  Parsing the RMRR structures reports success only when every device scope in them is a
  PCI endpoint.
\<close>

theorem ParseDmarAcpiTableRmrr_endpoints:
  assumes "table_ok E (mAcpiDmarTable s) qs scs"
    and "ParseDmarAcpiTableRmrr E s = Some (EFI_SUCCESS, s')"
  shows "\<forall>p \<in> set (rmrrs E qs). \<forall>q \<in> set (scs p). scope_Type E q = PCI_ENDPOINT"
proof (intro ballI)
  fix p q assume p: "p \<in> set (rmrrs E qs)" and q: "q \<in> set (scs p)"
  from assms(1) p have chain: "structs E (mAcpiDmarTable s) qs"
    and sc: "scopes E (sizeof_RMRR_HEADER E) p (scs p)" and ty: "hdr_Type E p = RMRR" "p \<in> set qs"
    by (auto simp: table_ok_def scoped_def fixed_part_def rmrrs_def)
  from assms(2) obtain v where v: "visit (rmrr_body E) qs s = Some v" and ret: "returned v = (EFI_SUCCESS, s')"
    by (auto simp: ParseDmarAcpiTableRmrr_def structs_walk [OF chain])
  have "case v of Inl x \<Rightarrow> EFI_ERROR (fst x) | Inr _ \<Rightarrow> True"
    by (rule visit_inv [OF _ _ _ v, where I = "\<lambda>_. True" and J = "\<lambda>x. EFI_ERROR (fst x)"])
      (auto simp: rmrr_body_def leave_on_error_def split: if_splits)
  with ret v have "visit (rmrr_body E) qs s = Some (Inr s')"
    by (auto simp: returned_def split: sum.splits)
  from visit_each [OF this ty(2)] obtain t t' where "rmrr_body E p t = Some (Inr t')" by blast
  with ty obtain st where pr: "ProcessRmrr E p t = Some (st, t')" and "\<not> EFI_ERROR st"
    by (auto simp: rmrr_body_def leave_on_error_def split: if_splits)
  then obtain w t0 where w: "visit (rmrr_scope E p) (scs p) t0 = Some w" and wret: "returned w = (st, t')"
    by (auto simp: ProcessRmrr_def scopes_walk [OF sc])
  have "case w of Inl x \<Rightarrow> EFI_ERROR (fst x) | Inr _ \<Rightarrow> True"
    by (rule visit_inv [OF _ _ _ w, where I = "\<lambda>_. True" and J = "\<lambda>x. EFI_ERROR (fst x)"])
      (auto simp: rmrr_scope_def Let_def bind_eq_Some_conv split: if_splits)
  with w wret \<open>\<not> EFI_ERROR st\<close> have "visit (rmrr_scope E p) (scs p) t0 = Some (Inr t')"
    by (auto simp: returned_def split: sum.splits)
  from visit_each [OF this q] show "scope_Type E q = PCI_ENDPOINT"
    by (auto simp: rmrr_scope_def split: if_splits)
qed

text \<open>The sample's region, for a bridge: parsing must fail.\<close>

theorem ParseDmarAcpiTableRmrr_endpoints_witness:
  "\<nexists>s'. ParseDmarAcpiTableRmrr (sample_env\<lparr>scope_Type := \<lambda>_. PCI_BRIDGE\<rparr>) sample_state = Some (EFI_SUCCESS, s')"
proof
  let ?E = "sample_env\<lparr>scope_Type := \<lambda>_. PCI_BRIDGE\<rparr>"
  assume "\<exists>s'. ParseDmarAcpiTableRmrr ?E sample_state = Some (EFI_SUCCESS, s')"
  then obtain s' where run: "ParseDmarAcpiTableRmrr ?E sample_state = Some (EFI_SUCCESS, s')" ..
  have "table_ok ?E (mAcpiDmarTable sample_state) [0x1030, 0x1050, 0x1060] sample_scopes"
    by (simp add: table_ok_def structs_def scopes_def scoped_def fixed_part_def sample_scopes_def
        sample_env_def sample_state_def)
  from ParseDmarAcpiTableRmrr_endpoints [OF this run] show False
    by (simp add: rmrrs_def sample_scopes_def) (simp add: sample_env_def)
qed

end
