(* ===== verification/Vtd_Check.thy ===== *)
theory Vtd_Check
  imports Vtd_Dmar_Props
begin

text \<open>
  \<^verbatim>\<open>AppSrc/VtdDump/VtdDump.c\<close>, the check of the translation tables: the list of IOMMU mappings,
  the exception devices, the look-ups \<open>ExistInIoMmuMap\<close>, \<open>ExistInExceptionList\<close> and
  \<open>ExistInRmrr\<close>, the check of one page (\<open>CheckPtEntry\<close>), the walks over page, context and
  root tables, and the entry point.  \<open>None\<close> is "does not return"; it includes a
  dereference of the null pointer \<open>gMaps\<close>.
\<close>

section \<open>IOMMU mappings\<close>

definition mappings :: "map_node list \<Rightarrow> map_info list" where
  "mappings ns = concat (map (\<lambda>n. case n of MAP_INFO m \<Rightarrow> [m] | NO_SIGNATURE \<Rightarrow> []) ns)"

text \<open>
  The ring behind the tool's own mapping is searched for the list head; the mappings after
  the head, in forward order, are those behind it and then those before it.  The tool's own
  mapping is left out: \<open>Unmap\<close> removes it right after.
\<close>

definition GetIoMmuMapList :: "map_node list \<Rightarrow> vtd_state \<Rightarrow> vtd_state" where
  "GetIoMmuMapList ring s =
     (case dropWhile (\<lambda>n. n \<noteq> NO_SIGNATURE) ring of
        [] \<Rightarrow> s
      | head # rest \<Rightarrow>
          s\<lparr>gMaps := Some (mappings (rest @ takeWhile (\<lambda>n. n \<noteq> NO_SIGNATURE) ring))\<rparr>)"

definition dump_handle :: "vtd_env \<Rightarrow> map_handle_info \<Rightarrow> vtd_state \<Rightarrow> vtd_state" where
  "dump_handle E h =
     say ''    IoMmuAccess   - 0x%016lx'' [hx (IoMmuAccess h)]
     \<circ> (case PathText E (Handle h) of None \<Rightarrow> id | Some PathStr \<Rightarrow> say '' (%s)'' [Txt PathStr])
     \<circ> (case PciLocation E (Handle h) of
          PCI_AT Seg Bus Device Fn \<Rightarrow> say '' (S%04xB%02xD%02xF%02x)'' [hx Seg, hx Bus, hx Device, hx Fn]
        | UNKNOWN_PCI \<Rightarrow> say '' (Unknown PCI)'' []
        | NOT_PCI \<Rightarrow> say '' (Not PCI)'' [])
     \<circ> say ''    Handle        - 0x%08x'' [hx (Handle h)]
     \<circ> say ''  IOMMU Map Handle Info - 0x%x'' [hx (mhi_Pointer h)]"

definition dump_mapping :: "vtd_env \<Rightarrow> map_info \<Rightarrow> vtd_state \<Rightarrow> vtd_state" where
  "dump_mapping E m =
     fold (dump_handle E) (rev (HandleList m))
     \<circ> say ''  DeviceAddress   - 0x%016lx'' [hx (DeviceAddress m)]
     \<circ> say ''  HostAddress     - 0x%016lx'' [hx (HostAddress m)]
     \<circ> say ''  NumberOfPages   - 0x%08x'' [hx (NumberOfPages m)]
     \<circ> say ''  NumberOfBytes   - 0x%08x'' [hx (NumberOfBytes m)]
     \<circ> say ''  Operation       - 0x%08x'' [hx (Operation m)]
     \<circ> say ''IOMMU Mapping - 0x%x'' [hx (map_Pointer m)]"

definition DumpIoMmuMapList :: "vtd_env \<Rightarrow> vtd_state \<Rightarrow> vtd_state option" where
  "DumpIoMmuMapList E s =
     map_option (\<lambda>maps. fold (dump_mapping E) (rev maps) s) (gMaps s)"

definition DumpIoMmuMap :: "vtd_env \<Rightarrow> vtd_state \<Rightarrow> vtd_state option" where
  "DumpIoMmuMap E s =
     (if EFI_ERROR (LocateIoMmu E) then Some (say ''No IOMMU Protocol'' [] s)
      else if EFI_ERROR (IoMmu_AllocateBuffer E)
      then Some (say ''IoMmu->AllocateBuffer - %r'' [Sts (IoMmu_AllocateBuffer E)] s)
      else if EFI_ERROR (IoMmu_Map E) then Some (say ''IoMmu->Map - %r'' [Sts (IoMmu_Map E)] s)
      else DumpIoMmuMapList E (GetIoMmuMapList (map_ring E) s))"

text \<open>The handle of a mapping: any access of the same kind, by this device or by an unknown one.\<close>

definition handle_matches ::
  "vtd_env \<Rightarrow> u64 \<Rightarrow> u64 \<Rightarrow> u64 \<Rightarrow> u64 \<Rightarrow> u64 \<Rightarrow> map_handle_info \<Rightarrow> bool" where
  "handle_matches E Seg Bus Device Fn Access h \<longleftrightarrow>
     IoMmuAccess h = Access
     \<and> (case PciLocation E (Handle h) of
          PCI_AT MySegment MyBus MyDevice MyFunction \<Rightarrow>
            MySegment = Seg \<and> MyBus = Bus \<and> MyDevice = Device \<and> MyFunction = Fn
        | _ \<Rightarrow> True)"

definition ExistInIoMmuMap ::
  "vtd_env \<Rightarrow> vtd_state \<Rightarrow> u64 \<Rightarrow> u64 \<Rightarrow> u64 \<Rightarrow> u64 \<Rightarrow> u64 \<Rightarrow> u64 \<Rightarrow> bool option" where
  "ExistInIoMmuMap E s Seg Bus Device Fn Address Access =
     map_option (\<lambda>maps.
         list_ex (\<lambda>m. \<not> (Address < DeviceAddress m
                         \<and> DeviceAddress m + push_bit 12 (NumberOfPages m) \<le> Address)
                     \<and> list_ex (handle_matches E Seg Bus Device Fn Access) (rev (HandleList m)))
           (rev maps))
       (gMaps s)"

section \<open>Exception devices\<close>

definition id_matches :: "pci_device_id \<Rightarrow> pci_device_id \<Rightarrow> bool" where
  "id_matches p d \<longleftrightarrow>
     (VendorId p = 0xFFFF \<or> VendorId p = VendorId d)
     \<and> (DeviceId p = 0xFFFF \<or> DeviceId p = DeviceId d)
     \<and> (RevisionId p = 0xFF \<or> RevisionId p = RevisionId d)
     \<and> (SubsystemVendorId p = 0xFFFF \<or> SubsystemVendorId p = SubsystemVendorId d)
     \<and> (SubsystemDeviceId p = 0xFFFF \<or> SubsystemDeviceId p = SubsystemDeviceId d)"

definition AddExceptionDevice :: "vtd_env \<Rightarrow> pci_device_id \<Rightarrow> vtd_state \<Rightarrow> vtd_state" where
  "AddExceptionDevice E p s =
     fold (\<lambda>Index s.
        fold (\<lambda>SubIndex s.
           (let u = mVtdUnitInformation s ! Index; d = PciDeviceData (PciDeviceInfo u) ! SubIndex in
            if id_matches p (PciDeviceId d) \<and> alloc_exception E Index SubIndex
            then s\<lparr>gExceptionRecord := gExceptionRecord s @
                   [\<lparr>exc_Segment = Segment u, exc_Bus = sid_Bus (PciSourceId d),
                     exc_Device = ucast (sid_Device (PciSourceId d)),
                     exc_Function = ucast (sid_Function (PciSourceId d))\<rparr>]\<rparr>
            else s))
          [0..<PciDeviceDataNumber (PciDeviceInfo (mVtdUnitInformation s ! Index))] s)
       [0..<mVtdUnitNumber s] s"

definition exception_entry :: "vtd_env \<Rightarrow> nat \<Rightarrow> addr \<Rightarrow> vtd_state \<Rightarrow> vtd_state" where
  "exception_entry E Index p s =
     (case exci_Type E p of
        EXC_DEVICE_SCOPE \<Rightarrow>
          (let s1 = (say ''  Function - 0x%04x'' [hx (exci_PathFunction E p)]
                     \<circ> say ''  Device   - 0x%04x'' [hx (exci_PathDevice E p)]
                     \<circ> say ''  StartBusNumber - 0x%04x'' [hx (exci_ScopeStartBus E p)]
                     \<circ> say ''  SegmentNumber - 0x%04x'' [hx (exci_ScopeSegment E p)]
                     \<circ> say ''DeviceScope(%d):'' [hxn Index]) s
           in if alloc_record E p
              then s1\<lparr>gExceptionRecord := gExceptionRecord s1 @
                     [\<lparr>exc_Segment = exci_ScopeSegment E p, exc_Bus = exci_ScopeStartBus E p,
                       exc_Device = exci_PathDevice E p, exc_Function = exci_PathFunction E p\<rparr>]\<rparr>
              else s1)
      | EXC_PCI_DEVICE_ID \<Rightarrow>
          (let d = exci_PciDeviceId E p in
           AddExceptionDevice E d
             ((say ''  SubsystemDeviceId - 0x%04x'' [hx (SubsystemDeviceId d)]
               \<circ> say ''  SubsystemVendorId - 0x%04x'' [hx (SubsystemVendorId d)]
               \<circ> say ''  RevisionId        - 0x%02x'' [hx (RevisionId d)]
               \<circ> say ''  DeviceId          - 0x%04x'' [hx (DeviceId d)]
               \<circ> say ''  VendorId          - 0x%04x'' [hx (VendorId d)]
               \<circ> say ''PciDeviceId(%d):'' [hxn Index]) s))
      | _ \<Rightarrow> s)"

text \<open>The loop over \<open>DeviceInfoCount\<close> entries: \<open>n\<close> are left.\<close>

fun exception_entries :: "vtd_env \<Rightarrow> nat \<Rightarrow> nat \<Rightarrow> addr \<Rightarrow> vtd_state \<Rightarrow> vtd_state" where
  "exception_entries E Index 0 p s = s"
| "exception_entries E Index (Suc n) p s =
     (if exci_Type E p = EXC_END then s
      else exception_entries E (Index + 1) n (p + unat (exci_Length E p)) (exception_entry E Index p s))"

definition DumpExceptionRecord :: "vtd_env \<Rightarrow> vtd_state \<Rightarrow> vtd_state" where
  "DumpExceptionRecord E s =
     (if EFI_ERROR (LocatePlatformVtd E) then say ''No PlatformVtd Protocol'' [] s
      else (case GetExceptionDeviceList E of (Status, DeviceInfoCount, DeviceInfo) \<Rightarrow>
        if EFI_ERROR Status then say ''No ExceptionDeviceList from PlatformVtd'' [] s
        else
          (let s1 = exception_entries E 0 DeviceInfoCount DeviceInfo
                      (say ''ExceptionDeviceList: (0x%x)'' [hxn DeviceInfo] s)
           in fold (\<lambda>r. say ''  Function  - 0x%x'' [hx (exc_Function r)]
                      \<circ> say ''  Device    - 0x%x'' [hx (exc_Device r)]
                      \<circ> say ''  Bus       - 0x%x'' [hx (exc_Bus r)]
                      \<circ> say ''  Segment   - 0x%x'' [hx (exc_Segment r)]
                      \<circ> say ''ExceptionRecord'' [])
                (rev (gExceptionRecord s1)) (say ''ExceptionDevice:'' [] s1))))"

definition ExistInExceptionList :: "vtd_state \<Rightarrow> u64 \<Rightarrow> u64 \<Rightarrow> u64 \<Rightarrow> u64 \<Rightarrow> bool" where
  "ExistInExceptionList s Seg Bus Device Fn =
     list_ex (\<lambda>r. ucast (exc_Segment r) = Seg \<and> ucast (exc_Bus r) = Bus
                \<and> ucast (exc_Device r) = Device \<and> ucast (exc_Function r) = Fn)
       (rev (gExceptionRecord s))"

definition ExistInRmrr :: "vtd_state \<Rightarrow> u64 \<Rightarrow> u64 \<Rightarrow> u64 \<Rightarrow> u64 \<Rightarrow> u64 \<Rightarrow> u64 \<Rightarrow> bool" where
  "ExistInRmrr s Seg Bus Device Fn Address Access =
     list_ex (\<lambda>r. \<not> (Address < rr_Address r \<and> rr_Address r + rr_Length r \<le> Address)
                \<and> ucast (rr_Segment r) = Seg \<and> ucast (rr_Bus r) = Bus
                \<and> ucast (rr_Device r) = Device \<and> ucast (rr_Function r) = Fn)
       (rev (gRmrrRecord s))"

section \<open>The check of one page\<close>

definition VTD_64BITS_ADDRESS :: "u64 \<times> u64 \<Rightarrow> u64" where
  "VTD_64BITS_ADDRESS = (\<lambda>(Lo, Hi). push_bit 12 Lo OR push_bit 32 Hi)"

abbreviation (input) SIZE_4KB :: u64 where "SIZE_4KB \<equiv> 0x1000"
abbreviation (input) SIZE_2MB :: u64 where "SIZE_2MB \<equiv> 0x200000"

definition pt_access :: "vtd_env \<Rightarrow> u64 \<Rightarrow> u64" where
  "pt_access E e = (if pt_Read E e then IOMMU_ACCESS_READ E else 0)
                     OR (if pt_Write E e then IOMMU_ACCESS_WRITE E else 0)"

definition CheckPtEntry ::
  "vtd_env \<Rightarrow> u64 \<Rightarrow> u64 \<Rightarrow> u64 \<Rightarrow> u64 \<Rightarrow> u64 \<Rightarrow> u64 \<Rightarrow> vtd_state \<Rightarrow> vtd_state option" where
  "CheckPtEntry E Seg Bus Device Fn PtEntry Size s =
     (if \<not> pt_Read E PtEntry \<and> \<not> pt_Write E PtEntry then Some s
      else
        (let IoMmuAccess = pt_access E PtEntry; Address = VTD_64BITS_ADDRESS (pt_Address E PtEntry) in
         if Size = SIZE_4KB then
           (if ExistInExceptionList s Seg Bus Device Fn then Some s
            else if ExistInRmrr s Seg Bus Device Fn Address IoMmuAccess then Some s
            else map_option (\<lambda>Exist.
                   if \<not> Exist
                   then (say ''-- ERROR: Address (0x%lx) is not in Map entry'' [hx Address] s)\<lparr>mHasError := True\<rparr>
                   else s)
                 (ExistInIoMmuMap E s Seg Bus Device Fn Address IoMmuAccess))
         else if Size = SIZE_2MB then
           map_option (case_sum id id)
             (visit (\<lambda>Index s.
                (let a = Address + of_nat Index * SIZE_4KB in
                 if ExistInExceptionList s Seg Bus Device Fn then Some (Inl s)
                 else if ExistInRmrr s Seg Bus Device Fn a IoMmuAccess then Some (Inl s)
                 else map_option (\<lambda>Exist. Inr
                        (if \<not> Exist then say ''-- ERROR: Address (0x%lx) is not in Map entry'' [hx a] s else s))
                      (ExistInIoMmuMap E s Seg Bus Device Fn a IoMmuAccess)))
              [0..<512] s)
         else Some (say ''-- ERROR: Invalid configuration (0x%lx-0x%lx)'' [hx Address, hx Size] s)))"

section \<open>The walks over the tables\<close>

definition pt_entry :: "vtd_env \<Rightarrow> addr \<Rightarrow> nat \<Rightarrow> u64" where
  "pt_entry E table i = rd64 (memory E) (table + 8 * i)"

definition next_table :: "vtd_env \<Rightarrow> u64 \<Rightarrow> addr" where
  "next_table E e = unat (VTD_64BITS_ADDRESS (pt_Address E e))"

definition level1 :: "vtd_env \<Rightarrow> u64 \<Rightarrow> u64 \<Rightarrow> u64 \<Rightarrow> u64 \<Rightarrow> addr \<Rightarrow> nat \<Rightarrow> vtd_state \<Rightarrow> vtd_state option" where
  "level1 E Seg Bus Device Fn Lvl1PtEntry Index1 s =
     (let e = pt_entry E Lvl1PtEntry Index1 in
      if e \<noteq> 0
      then CheckPtEntry E Seg Bus Device Fn e SIZE_4KB
             (say ''        Lvl1Pt Entry(0x%03x) - 0x%016lx'' [hxn Index1, hx e] s)
      else Some s)"

definition level2 :: "vtd_env \<Rightarrow> u64 \<Rightarrow> u64 \<Rightarrow> u64 \<Rightarrow> u64 \<Rightarrow> addr \<Rightarrow> nat \<Rightarrow> vtd_state \<Rightarrow> vtd_state option" where
  "level2 E Seg Bus Device Fn Lvl2PtEntry Index2 s =
     (let e = pt_entry E Lvl2PtEntry Index2 in
      if e = 0 then Some s
      else
        (let s1 = say ''      Lvl2Pt Entry(0x%03x) - 0x%016lx'' [hxn Index2, hx e] s in
         if \<not> pt_PageSize E e
         then each (level1 E Seg Bus Device Fn (next_table E e)) [0..<512] s1
         else CheckPtEntry E Seg Bus Device Fn e SIZE_2MB s1))"

definition level3 :: "vtd_env \<Rightarrow> u64 \<Rightarrow> u64 \<Rightarrow> u64 \<Rightarrow> u64 \<Rightarrow> addr \<Rightarrow> nat \<Rightarrow> vtd_state \<Rightarrow> vtd_state option" where
  "level3 E Seg Bus Device Fn Lvl3PtEntry Index3 s =
     (let e = pt_entry E Lvl3PtEntry Index3 in
      if e = 0 then Some s
      else each (level2 E Seg Bus Device Fn (next_table E e)) [0..<512]
             (say ''    Lvl3Pt Entry(0x%03x) - 0x%016lx'' [hxn Index3, hx e] s))"

definition level4 :: "vtd_env \<Rightarrow> u64 \<Rightarrow> u64 \<Rightarrow> u64 \<Rightarrow> u64 \<Rightarrow> addr \<Rightarrow> nat \<Rightarrow> vtd_state \<Rightarrow> vtd_state option" where
  "level4 E Seg Bus Device Fn Lvl4PtEntry Index4 s =
     (let e = pt_entry E Lvl4PtEntry Index4 in
      if e = 0 then Some s
      else each (level3 E Seg Bus Device Fn (next_table E e)) [0..<512]
             (say ''  Lvl4Pt Entry(0x%03x) - 0x%016lx'' [hxn Index4, hx e] s))"

definition DumpSecondLevelPagingEntry ::
  "vtd_env \<Rightarrow> u64 \<Rightarrow> u64 \<Rightarrow> u64 \<Rightarrow> u64 \<Rightarrow> addr \<Rightarrow> vtd_state \<Rightarrow> vtd_state option" where
  "DumpSecondLevelPagingEntry E Seg Bus Device Fn SecondLevelPagingEntry s =
     map_option (say ''***'' [])
       (each (level4 E Seg Bus Device Fn SecondLevelPagingEntry) [0..<512]
         (say ''SecondLevelPagingEntry Base - 0x%x'' [hxn SecondLevelPagingEntry]
           (say ''DMAR Second Level Page Table:'' [] (say ''***'' [] s))))"

definition entry128 :: "vtd_env \<Rightarrow> addr \<Rightarrow> nat \<Rightarrow> u64 \<times> u64" where
  "entry128 E t i = (rd64 (memory E) (t + 16 * i), rd64 (memory E) (t + 16 * i + 8))"

definition entry256 :: "vtd_env \<Rightarrow> addr \<Rightarrow> nat \<Rightarrow> u64 \<times> u64 \<times> u64 \<times> u64" where
  "entry256 E t i = (rd64 (memory E) (t + 32 * i), rd64 (memory E) (t + 32 * i + 8),
     rd64 (memory E) (t + 32 * i + 16), rd64 (memory E) (t + 32 * i + 24))"

definition context_entry ::
  "vtd_env \<Rightarrow> u64 \<Rightarrow> nat \<Rightarrow> addr \<Rightarrow> nat \<Rightarrow> vtd_state \<Rightarrow> vtd_state option" where
  "context_entry E Seg Index ContextEntry Index2 s =
     (let c = entry128 E ContextEntry Index2;
          s1 = (if fst c \<noteq> 0 \<or> snd c \<noteq> 0
                then say ''    ContextEntry(0x%02x) D%02xF%02x - 0x%016lx %016lx''
                       [hxn Index2, hxn (Index2 div 8), hxn (Index2 mod 8), hx (snd c), hx (fst c)] s
                else s)
      in if ctx_Present E c
         then DumpSecondLevelPagingEntry E Seg (of_nat Index) (of_nat (Index2 div 8)) (of_nat (Index2 mod 8))
                (unat (VTD_64BITS_ADDRESS (ctx_SecondLevelPointer E c))) s1
         else Some s1)"

definition root_entry :: "vtd_env \<Rightarrow> u64 \<Rightarrow> addr \<Rightarrow> nat \<Rightarrow> vtd_state \<Rightarrow> vtd_state option" where
  "root_entry E Seg RootEntry Index s =
     (let r = entry128 E RootEntry Index;
          s1 = (if fst r \<noteq> 0 \<or> snd r \<noteq> 0
                then say ''  RootEntry(0x%02x) B%02x - 0x%016lx %016lx'' [hxn Index, hxn Index, hx (snd r), hx (fst r)] s
                else s)
      in if root_Present E r
         then each (context_entry E Seg Index (unat (VTD_64BITS_ADDRESS (root_ContextTablePointer E r))))
                [0..<VTD_CONTEXT_ENTRY_NUMBER E] s1
         else Some s1)"

definition DumpDmarContextEntryTable :: "vtd_env \<Rightarrow> u64 \<Rightarrow> addr \<Rightarrow> vtd_state \<Rightarrow> vtd_state option" where
  "DumpDmarContextEntryTable E Seg RootEntry s =
     map_option (say ''***'' [])
       (each (root_entry E Seg RootEntry) [0..<VTD_ROOT_ENTRY_NUMBER E]
         (say ''RootEntry Address - 0x%x'' [hxn RootEntry]
           (say ''DMAR Context Entry Table:'' [] (say ''***'' [] s))))"

definition print_ext_context ::
  "string \<Rightarrow> nat \<Rightarrow> nat \<Rightarrow> u64 \<times> u64 \<times> u64 \<times> u64 \<Rightarrow> vtd_state \<Rightarrow> vtd_state" where
  "print_ext_context fmt Index2 DevFn = (\<lambda>(w1, w2, w3, w4) s.
     if w1 \<noteq> 0 \<or> w2 \<noteq> 0 \<or> w3 \<noteq> 0 \<or> w4 \<noteq> 0
     then say fmt [hxn Index2, hxn (DevFn div 8), hxn (DevFn mod 8), hx w4, hx w3, hx w2, hx w1] s
     else s)"

definition ext_context_lower ::
  "vtd_env \<Rightarrow> u64 \<Rightarrow> nat \<Rightarrow> addr \<Rightarrow> nat \<Rightarrow> vtd_state \<Rightarrow> vtd_state option" where
  "ext_context_lower E Seg Index ExtContextEntry Index2 s =
     (let c = entry256 E ExtContextEntry Index2;
          s1 = print_ext_context ''    ExtContextEntryLower(0x%02x) D%02xF%02x - 0x%016lx %016lx %016lx %016lx''
                 Index2 Index2 c s
      in if xctx_Present E c
         then DumpSecondLevelPagingEntry E Seg (of_nat Index) (of_nat (Index2 div 8)) (of_nat (Index2 mod 8))
                (unat (VTD_64BITS_ADDRESS (xctx_SecondLevelPointer E c))) s1
         else Some s1)"

definition ext_context_upper :: "vtd_env \<Rightarrow> addr \<Rightarrow> nat \<Rightarrow> vtd_state \<Rightarrow> vtd_state option" where
  "ext_context_upper E ExtContextEntry Index2 s =
     Some (print_ext_context ''    ExtContextEntryUpper(0x%02x) D%02xF%02x - 0x%016lx %016lx %016lx %016lx''
             Index2 (Index2 + 128) (entry256 E ExtContextEntry Index2) s)"

definition ext_root_entry :: "vtd_env \<Rightarrow> u64 \<Rightarrow> addr \<Rightarrow> nat \<Rightarrow> vtd_state \<Rightarrow> vtd_state option" where
  "ext_root_entry E Seg ExtRootEntry Index s =
     (let r = entry128 E ExtRootEntry Index;
          s1 = (if fst r \<noteq> 0 \<or> snd r \<noteq> 0
                then say ''  ExtRootEntry(0x%02x) B%02x - 0x%016lx %016lx'' [hxn Index, hxn Index, hx (snd r), hx (fst r)] s
                else s)
      in if \<not> xroot_LowerPresent E r then Some s1
         else Option.bind
                (each (ext_context_lower E Seg Index (unat (VTD_64BITS_ADDRESS (xroot_LowerContextTablePointer E r))))
                   [0..<VTD_CONTEXT_ENTRY_NUMBER E div 2] s1)
                (\<lambda>s2. if \<not> xroot_UpperPresent E r then Some s2
                  else each (ext_context_upper E (unat (VTD_64BITS_ADDRESS (xroot_UpperContextTablePointer E r))))
                         [0..<VTD_CONTEXT_ENTRY_NUMBER E div 2] s2))"

definition DumpDmarExtContextEntryTable :: "vtd_env \<Rightarrow> u64 \<Rightarrow> addr \<Rightarrow> vtd_state \<Rightarrow> vtd_state option" where
  "DumpDmarExtContextEntryTable E Seg ExtRootEntry s =
     map_option (say ''***'' [])
       (each (ext_root_entry E Seg ExtRootEntry) [0..<VTD_ROOT_ENTRY_NUMBER E]
         (say ''ExtRootEntry Address - 0x%x'' [hxn ExtRootEntry]
           (say ''DMAR ExtContext Entry Table:'' [] (say ''***'' [] s))))"

definition translation_unit :: "vtd_env \<Rightarrow> nat \<Rightarrow> vtd_state \<Rightarrow> vtd_state option" where
  "translation_unit E Index s =
     (let u = mVtdUnitInformation s ! Index;
          s1 = say ''VTD engine (%d) - Base:0x%08x'' [hxn Index, hx (VtdUnitBaseAddress u)] s;
          Address = MmioRead64 E (VtdUnitBaseAddress u + R_RTADDR_REG E);
          RootEntryTableAddress = Address AND NOT 0xFFF
      in if Address AND 0x800 \<noteq> 0
         then DumpDmarExtContextEntryTable E (ucast (Segment u)) (unat RootEntryTableAddress) s1
         else DumpDmarContextEntryTable E (ucast (Segment u)) (unat RootEntryTableAddress) s1)"

definition DumpVtdTranslation :: "vtd_env \<Rightarrow> vtd_state \<Rightarrow> vtd_state option" where
  "DumpVtdTranslation E s = each (translation_unit E) [0..<mVtdUnitNumber s] s"

text \<open>The entry point; its status is always \<open>EFI_SUCCESS\<close>.\<close>

definition VtdDumpEntrypoint :: "nat \<Rightarrow> vtd_env \<Rightarrow> vtd_state \<Rightarrow> vtd_state option" where
  "VtdDumpEntrypoint depth E s =
     Option.bind (DumpIoMmuMap E s) (\<lambda>s1.
     Option.bind (DumpVtdAcpi depth E s1) (\<lambda>s2.
     map_option (\<lambda>s4. say (if mHasError s4 then ''Check FAIL!!!'' else ''Check PASS!!!'') [] s4)
       (DumpVtdTranslation E (DumpExceptionRecord E s2))))"

end
