(* ===== verification/Vtd_Check_Props.thy ===== *)
theory Vtd_Check_Props
  imports Vtd_Check
begin

text \<open>
  What the check of \<open>VtdDump\<close> means: exactly which page table entries raise the error flag,
  and so what a "Check PASS" says; and where the check is weaker than it looks (addresses
  are never compared, 2 MB pages never raise the flag, upper halves of extended tables are
  not followed, a missing IOMMU protocol is a null pointer).
\<close>

section \<open>The driver's list of mappings\<close>

lemma mappings_simps [simp]:
  "mappings (xs @ ys) = mappings xs @ mappings ys" "mappings (map MAP_INFO ms) = ms"
  by (induction ms) (simp_all add: mappings_def)

text \<open>
  In a ring with one list head the tool collects exactly the driver's other mappings, in
  the driver's list order.
\<close>

theorem GetIoMmuMapList_collects:
  "gMaps (GetIoMmuMapList (map MAP_INFO before @ NO_SIGNATURE # map MAP_INFO after) s)
     = Some (after @ before)"
proof -
  have "dropWhile (\<lambda>n. n \<noteq> NO_SIGNATURE) (map MAP_INFO before @ NO_SIGNATURE # map MAP_INFO after)
      = NO_SIGNATURE # map MAP_INFO after"
    by (induction before) simp_all
  moreover have "takeWhile (\<lambda>n. n \<noteq> NO_SIGNATURE) (map MAP_INFO before @ NO_SIGNATURE # map MAP_INFO after)
      = map MAP_INFO before"
    by (induction before) simp_all
  ultimately show ?thesis by (simp add: GetIoMmuMapList_def)
qed

section \<open>The look-ups\<close>

lemma no_wrap_false:
  "unat b + unat l < 2 ^ 64 \<Longrightarrow> \<not> (a < b \<and> b + l \<le> (a :: u64))"
  by (simp add: word_less_nat_alt word_le_nat_alt unat_word_ariths)

text \<open>
  The address range of a reserved memory record is never used: unless a record wraps
  around the end of the address space, the answer is the same for all addresses.
\<close>

theorem ExistInRmrr_ignores_address:
  assumes "\<forall>r \<in> set (gRmrrRecord s). unat (rr_Address r) + unat (rr_Length r) < 2 ^ 64"
  shows "ExistInRmrr s Seg Bus Device Fn Address Access = ExistInRmrr s Seg Bus Device Fn Address' Access'"
  using assms no_wrap_false by (auto simp: ExistInRmrr_def list_ex_iff)

theorem ExistInRmrr_ignores_address_witness:
  "ExistInRmrr (sample_state\<lparr>gRmrrRecord := [\<lparr>rr_Segment = 0, rr_Bus = 0, rr_Device = 2, rr_Function = 0,
       rr_Address = 0x8D800000, rr_Length = 0x2800000\<rparr>]\<rparr>) 0 0 2 0 0x8D800000 3
   = ExistInRmrr (sample_state\<lparr>gRmrrRecord := [\<lparr>rr_Segment = 0, rr_Bus = 0, rr_Device = 2, rr_Function = 0,
       rr_Address = 0x8D800000, rr_Length = 0x2800000\<rparr>]\<rparr>) 0 0 2 0 0x1000 3"
  by (rule ExistInRmrr_ignores_address) simp

text \<open>
  The same holds of the IOMMU mappings: a mapping for the device counts for every address.
\<close>

theorem ExistInIoMmuMap_ignores_address:
  assumes "\<And>maps m. gMaps s = Some maps \<Longrightarrow> m \<in> set maps \<Longrightarrow>
      unat (DeviceAddress m) + unat (push_bit 12 (NumberOfPages m)) < 2 ^ 64"
  shows "ExistInIoMmuMap E s Seg Bus Device Fn Address Access
       = ExistInIoMmuMap E s Seg Bus Device Fn Address' Access"
proof (cases "gMaps s")
  case None
  then show ?thesis by (simp add: ExistInIoMmuMap_def)
next
  case (Some maps)
  with assms no_wrap_false show ?thesis
    by (auto simp: ExistInIoMmuMap_def list_ex_iff)
qed

theorem ExistInIoMmuMap_ignores_address_witness:
  "ExistInIoMmuMap sample_env (GetIoMmuMapList (map_ring sample_env) sample_state) 0 1 0 0 0x7000000 3
   = ExistInIoMmuMap sample_env (GetIoMmuMapList (map_ring sample_env) sample_state) 0 1 0 0 0x1000 3"
  by (rule ExistInIoMmuMap_ignores_address)
    (auto simp: GetIoMmuMapList_def mappings_def sample_env_def push_bit_eq_mult)

section \<open>One page\<close>

text \<open>What the walks leave alone; the flag and the console are all they change.\<close>

definition policy :: "vtd_state \<Rightarrow> _" where
  "policy s = (gMaps s, gExceptionRecord s, gRmrrRecord s, mVtdUnitNumber s, mVtdUnitInformation s)"

lemma policy_say [simp]: "policy (say f a s) = policy s"
  by (simp add: policy_def)

lemma lookups_policy:
  assumes "policy s = policy t"
  shows "ExistInIoMmuMap E s = ExistInIoMmuMap E t"
    and "ExistInExceptionList s = ExistInExceptionList t" and "ExistInRmrr s = ExistInRmrr t"
  using assms
  by (simp_all add: policy_def ExistInIoMmuMap_def ExistInExceptionList_def ExistInRmrr_def fun_eq_iff)

definition page_ok :: "vtd_env \<Rightarrow> vtd_state \<Rightarrow> u64 \<Rightarrow> u64 \<Rightarrow> u64 \<Rightarrow> u64 \<Rightarrow> u64 \<Rightarrow> bool" where
  "page_ok E s Seg Bus Device Fn e \<longleftrightarrow>
     \<not> pt_Read E e \<and> \<not> pt_Write E e
     \<or> ExistInExceptionList s Seg Bus Device Fn
     \<or> ExistInRmrr s Seg Bus Device Fn (VTD_64BITS_ADDRESS (pt_Address E e)) (pt_access E e)
     \<or> ExistInIoMmuMap E s Seg Bus Device Fn (VTD_64BITS_ADDRESS (pt_Address E e)) (pt_access E e) = Some True"

lemma page_ok_policy: "policy s = policy t \<Longrightarrow> page_ok E s = page_ok E t"
  by (simp add: page_ok_def lookups_policy [of s t] fun_eq_iff)

lemma CheckPtEntry_4KB:
  assumes "CheckPtEntry E Seg Bus Device Fn e SIZE_4KB s = Some s'"
  shows "policy s' = policy s \<and> (mHasError s' \<longleftrightarrow> mHasError s \<or> \<not> page_ok E s Seg Bus Device Fn e)"
  using assms
  by (auto simp: CheckPtEntry_def Let_def page_ok_def policy_def split: if_splits)

lemma CheckPtEntry_2MB:
  assumes "CheckPtEntry E Seg Bus Device Fn e SIZE_2MB s = Some s'"
  shows "policy s' = policy s \<and> mHasError s' = mHasError s"
proof (cases "\<not> pt_Read E e \<and> \<not> pt_Write E e")
  case True
  with assms show ?thesis by (simp add: CheckPtEntry_def)
next
  case False
  let ?I = "\<lambda>t. policy t = policy s \<and> mHasError t = mHasError s"
  from assms False obtain body r where r: "visit body [0..<512] s = Some r"
    and s': "s' = case_sum id id r"
    and body: "\<And>q t x. body q t = Some x \<Longrightarrow> policy (case_sum id id x) = policy t \<and> mHasError (case_sum id id x) = mHasError t"
    by (fastforce simp: CheckPtEntry_def Let_def split: if_splits)
  have "case r of Inl x \<Rightarrow> ?I x | Inr t \<Rightarrow> ?I t"
    by (rule visit_inv [OF _ _ _ r, where I = ?I and J = ?I]) (use body in fastforce)+
  with s' show ?thesis by (cases r) simp_all
qed

lemma CheckPtEntry_returns:
  assumes "gMaps s \<noteq> None"
  shows "CheckPtEntry E Seg Bus Device Fn e Size s \<noteq> None"
proof -
  have "visit (\<lambda>Index s.
                (let a = A + of_nat Index * SIZE_4KB in
                 if ExistInExceptionList s Seg Bus Device Fn then Some (Inl s)
                 else if ExistInRmrr s Seg Bus Device Fn a Acc then Some (Inl s)
                 else map_option (\<lambda>Exist. Inr
                        (if \<not> Exist then say ''-- ERROR: Address (0x%lx) is not in Map entry'' [hx a] s else s))
                      (ExistInIoMmuMap E s Seg Bus Device Fn a Acc))) is t \<noteq> None"
    if "gMaps t \<noteq> None" for A Acc "is" t
    using that
    by (induction "is" arbitrary: t) (auto simp: Let_def ExistInIoMmuMap_def split: if_splits)
  with assms show ?thesis
    by (auto simp: CheckPtEntry_def Let_def ExistInIoMmuMap_def simp del: upt_Suc)
qed

text \<open>
  The check of a 4 KB page raises the error flag exactly when the page is accessible and
  neither an exception record, nor a reserved memory record, nor an IOMMU mapping accounts
  for it; nothing else but the console changes.
\<close>

theorem CheckPtEntry_flags:
  assumes "CheckPtEntry E Seg Bus Device Fn e SIZE_4KB s = Some s'"
  shows "(mHasError s' \<longleftrightarrow> mHasError s \<or> \<not> page_ok E s Seg Bus Device Fn e) \<and> policy s' = policy s"
  using CheckPtEntry_4KB [OF assms] by blast

text \<open>The sample's mappings: device 1:0.0 may read and write; device 2:0.0 has no mapping.\<close>

definition sample_mapped :: vtd_state where
  "sample_mapped = GetIoMmuMapList (map_ring sample_env) sample_state"

lemma sample_mapped_fields:
  "gExceptionRecord sample_mapped = []" "gRmrrRecord sample_mapped = []" "mHasError sample_mapped = False"
  "mVtdUnitNumber sample_mapped = 1" "gMaps sample_mapped \<noteq> None"
  by (simp_all add: sample_mapped_def GetIoMmuMapList_def sample_env_def sample_state_def)

theorem CheckPtEntry_flags_witness:
  "\<exists>s'. CheckPtEntry sample_env 0 2 0 0 0x9000003 0x1000 sample_mapped = Some s' \<and> mHasError s'"
proof -
  have access: "pt_Read sample_env 0x9000003" by (simp add: sample_env_def)
  note maps = sample_mapped_fields(5)
  from access have bad: "\<not> page_ok sample_env sample_mapped 0 2 0 0 0x9000003"
    by (simp add: page_ok_def ExistInExceptionList_def ExistInRmrr_def sample_mapped_fields)
      (simp add: ExistInIoMmuMap_def sample_mapped_def GetIoMmuMapList_def mappings_def
        handle_matches_def sample_env_def)
  obtain s' where run: "CheckPtEntry sample_env 0 2 0 0 0x9000003 0x1000 sample_mapped = Some s'"
    using CheckPtEntry_returns [OF maps] by fast
  from CheckPtEntry_flags [OF run] bad run show ?thesis by simp
qed

text \<open>
  The check of a 2 MB page reports missing mappings on the console but never raises the
  error flag.
\<close>

theorem CheckPtEntry_2MB_silent:
  assumes "CheckPtEntry E Seg Bus Device Fn e SIZE_2MB s = Some s'"
  shows "mHasError s' = mHasError s"
  using CheckPtEntry_2MB [OF assms] by blast

theorem CheckPtEntry_2MB_silent_witness:
  "\<exists>s'. CheckPtEntry sample_env 0 2 0 0 0x9000083 0x200000 sample_mapped = Some s' \<and> \<not> mHasError s'"
proof -
  obtain s' where run: "CheckPtEntry sample_env 0 2 0 0 0x9000083 0x200000 sample_mapped = Some s'"
    using CheckPtEntry_returns [OF sample_mapped_fields(5)] by fast
  from CheckPtEntry_2MB_silent [OF run] run show ?thesis by (simp add: sample_mapped_fields)
qed

text \<open>
  When no list of mappings was found (\<open>gMaps\<close> is the null pointer, as without an IOMMU
  protocol) the check of an accessible page that no record covers dereferences it.
\<close>

theorem CheckPtEntry_null:
  assumes "gMaps s = None" and "pt_Read E e \<or> pt_Write E e"
    and "\<not> ExistInExceptionList s Seg Bus Device Fn"
    and "\<And>Address Access. \<not> ExistInRmrr s Seg Bus Device Fn Address Access"
  shows "CheckPtEntry E Seg Bus Device Fn e SIZE_4KB s = None"
  using assms by (auto simp: CheckPtEntry_def Let_def ExistInIoMmuMap_def)

theorem CheckPtEntry_null_witness:
  "CheckPtEntry sample_env 0 2 0 0 0x9000003 0x1000 (sample_state\<lparr>gMaps := None\<rparr>) = None"
  by (rule CheckPtEntry_null)
    (simp_all add: ExistInExceptionList_def ExistInRmrr_def sample_state_def, simp add: sample_env_def)

section \<open>The verdict\<close>

definition bad_level1 where
  "bad_level1 E s Seg Bus Device Fn t i1 \<longleftrightarrow>
     pt_entry E t i1 \<noteq> 0 \<and> \<not> page_ok E s Seg Bus Device Fn (pt_entry E t i1)"

definition bad_level2 where
  "bad_level2 E s Seg Bus Device Fn t i2 \<longleftrightarrow>
     (let e = pt_entry E t i2 in e \<noteq> 0 \<and> \<not> pt_PageSize E e
       \<and> (\<exists>i1 \<in> {0..<512}. bad_level1 E s Seg Bus Device Fn (next_table E e) i1))"

definition bad_level3 where
  "bad_level3 E s Seg Bus Device Fn t i3 \<longleftrightarrow>
     (let e = pt_entry E t i3 in e \<noteq> 0
       \<and> (\<exists>i2 \<in> {0..<512}. bad_level2 E s Seg Bus Device Fn (next_table E e) i2))"

definition bad_level4 where
  "bad_level4 E s Seg Bus Device Fn t i4 \<longleftrightarrow>
     (let e = pt_entry E t i4 in e \<noteq> 0
       \<and> (\<exists>i3 \<in> {0..<512}. bad_level3 E s Seg Bus Device Fn (next_table E e) i3))"

definition bad_tables :: "vtd_env \<Rightarrow> vtd_state \<Rightarrow> u64 \<Rightarrow> u64 \<Rightarrow> u64 \<Rightarrow> u64 \<Rightarrow> addr \<Rightarrow> bool" where
  "bad_tables E s Seg Bus Device Fn t \<longleftrightarrow> (\<exists>i4 \<in> {0..<512}. bad_level4 E s Seg Bus Device Fn t i4)"

lemma level1_flag:
  assumes "policy t = policy s" and "level1 E Seg Bus Device Fn tb i t = Some t'"
  shows "policy t' = policy s \<and> (mHasError t' \<longleftrightarrow> mHasError t \<or> bad_level1 E s Seg Bus Device Fn tb i)"
  using assms CheckPtEntry_4KB page_ok_policy [OF assms(1)] page_ok_policy [of "say _ _ t" t]
  by (fastforce simp: level1_def bad_level1_def Let_def split: if_splits)

lemma each_bad:
  assumes "\<And>x t t'. policy t = policy s \<Longrightarrow> f x t = Some t' \<Longrightarrow>
      policy t' = policy s \<and> (mHasError t' \<longleftrightarrow> mHasError t \<or> bad x)"
    and "policy t = policy s" and "each f [0..<n] t = Some t'"
  shows "policy t' = policy s \<and> (mHasError t' \<longleftrightarrow> mHasError t \<or> (\<exists>x \<in> {0..<n}. bad x))"
  using each_flag [where keep = policy and flag = mHasError and bad = bad and k = "policy s", OF assms]
  by simp

lemma level2_flag:
  assumes "policy t = policy s" and "level2 E Seg Bus Device Fn tb i t = Some t'"
  shows "policy t' = policy s \<and> (mHasError t' \<longleftrightarrow> mHasError t \<or> bad_level2 E s Seg Bus Device Fn tb i)"
proof (cases "pt_entry E tb i = 0")
  case True
  with assms show ?thesis by (simp add: level2_def bad_level2_def)
next
  case False
  let ?e = "pt_entry E tb i" and ?s = "say ''      Lvl2Pt Entry(0x%03x) - 0x%016lx'' [hxn i, hx (pt_entry E tb i)] t"
  show ?thesis
  proof (cases "pt_PageSize E ?e")
    case True
    with False assms have "CheckPtEntry E Seg Bus Device Fn ?e SIZE_2MB ?s = Some t'"
      by (simp add: level2_def Let_def)
    from CheckPtEntry_2MB [OF this] True assms(1) show ?thesis by (simp add: bad_level2_def)
  next
    case page: False
    with False assms have run: "each (level1 E Seg Bus Device Fn (next_table E ?e)) [0..<512] ?s = Some t'"
      by (simp add: level2_def Let_def)
    have "policy ?s = policy s" using assms(1) by simp
    from each_bad [OF level1_flag this run] False page show ?thesis
      by (simp add: bad_level2_def)
  qed
qed

lemma level3_flag:
  assumes "policy t = policy s" and "level3 E Seg Bus Device Fn tb i t = Some t'"
  shows "policy t' = policy s \<and> (mHasError t' \<longleftrightarrow> mHasError t \<or> bad_level3 E s Seg Bus Device Fn tb i)"
proof (cases "pt_entry E tb i = 0")
  case True
  with assms show ?thesis by (simp add: level3_def bad_level3_def)
next
  case False
  let ?e = "pt_entry E tb i" and ?s = "say ''    Lvl3Pt Entry(0x%03x) - 0x%016lx'' [hxn i, hx (pt_entry E tb i)] t"
  from False assms have run: "each (level2 E Seg Bus Device Fn (next_table E ?e)) [0..<512] ?s = Some t'"
    by (simp add: level3_def Let_def)
  have "policy ?s = policy s" using assms(1) by simp
  from each_bad [OF level2_flag this run] False show ?thesis by (simp add: bad_level3_def)
qed

lemma level4_flag:
  assumes "policy t = policy s" and "level4 E Seg Bus Device Fn tb i t = Some t'"
  shows "policy t' = policy s \<and> (mHasError t' \<longleftrightarrow> mHasError t \<or> bad_level4 E s Seg Bus Device Fn tb i)"
proof (cases "pt_entry E tb i = 0")
  case True
  with assms show ?thesis by (simp add: level4_def bad_level4_def)
next
  case False
  let ?e = "pt_entry E tb i" and ?s = "say ''  Lvl4Pt Entry(0x%03x) - 0x%016lx'' [hxn i, hx (pt_entry E tb i)] t"
  from False assms have run: "each (level3 E Seg Bus Device Fn (next_table E ?e)) [0..<512] ?s = Some t'"
    by (simp add: level4_def Let_def)
  have "policy ?s = policy s" using assms(1) by simp
  from each_bad [OF level3_flag this run] False show ?thesis by (simp add: bad_level4_def)
qed

lemma tables_flag:
  assumes "policy t = policy s" and "DumpSecondLevelPagingEntry E Seg Bus Device Fn tb t = Some t'"
  shows "policy t' = policy s \<and> (mHasError t' \<longleftrightarrow> mHasError t \<or> bad_tables E s Seg Bus Device Fn tb)"
proof -
  let ?s = "say ''SecondLevelPagingEntry Base - 0x%x'' [hxn tb]
           (say ''DMAR Second Level Page Table:'' [] (say ''***'' [] t))"
  from assms(2) obtain t1 where run: "each (level4 E Seg Bus Device Fn tb) [0..<512] ?s = Some t1"
    and t': "t' = say ''***'' [] t1" by (auto simp: DumpSecondLevelPagingEntry_def)
  have "policy ?s = policy s" using assms(1) by simp
  from each_bad [OF level4_flag this run] t' show ?thesis by (simp add: bad_tables_def)
qed

text \<open>Context tables: legacy ones, and the lower halves of extended ones.\<close>

definition bad_context where
  "bad_context E s Seg b ct c \<longleftrightarrow> ctx_Present E (entry128 E ct c)
     \<and> bad_tables E s Seg (of_nat b) (of_nat (c div 8)) (of_nat (c mod 8))
         (unat (VTD_64BITS_ADDRESS (ctx_SecondLevelPointer E (entry128 E ct c))))"

definition bad_root where
  "bad_root E s Seg rt b \<longleftrightarrow> root_Present E (entry128 E rt b)
     \<and> (\<exists>c \<in> {0..<VTD_CONTEXT_ENTRY_NUMBER E}.
          bad_context E s Seg b (unat (VTD_64BITS_ADDRESS (root_ContextTablePointer E (entry128 E rt b)))) c)"

definition bad_ext_context where
  "bad_ext_context E s Seg b ct c \<longleftrightarrow> xctx_Present E (entry256 E ct c)
     \<and> bad_tables E s Seg (of_nat b) (of_nat (c div 8)) (of_nat (c mod 8))
         (unat (VTD_64BITS_ADDRESS (xctx_SecondLevelPointer E (entry256 E ct c))))"

definition bad_ext_root where
  "bad_ext_root E s Seg rt b \<longleftrightarrow> xroot_LowerPresent E (entry128 E rt b)
     \<and> (\<exists>c \<in> {0..<VTD_CONTEXT_ENTRY_NUMBER E div 2}.
          bad_ext_context E s Seg b (unat (VTD_64BITS_ADDRESS (xroot_LowerContextTablePointer E (entry128 E rt b)))) c)"

definition bad_unit :: "vtd_env \<Rightarrow> vtd_state \<Rightarrow> nat \<Rightarrow> bool" where
  "bad_unit E s i \<longleftrightarrow>
     (let u = mVtdUnitInformation s ! i; a = MmioRead64 E (VtdUnitBaseAddress u + R_RTADDR_REG E);
          rt = unat (a AND NOT 0xFFF); Seg = ucast (Segment u)
      in if a AND 0x800 \<noteq> 0 then \<exists>b \<in> {0..<VTD_ROOT_ENTRY_NUMBER E}. bad_ext_root E s Seg rt b
         else \<exists>b \<in> {0..<VTD_ROOT_ENTRY_NUMBER E}. bad_root E s Seg rt b)"

lemma context_flag:
  assumes "policy t = policy s" and "context_entry E Seg b ct c t = Some t'"
  shows "policy t' = policy s \<and> (mHasError t' \<longleftrightarrow> mHasError t \<or> bad_context E s Seg b ct c)"
proof -
  define t1 where "t1 = (if fst (entry128 E ct c) \<noteq> 0 \<or> snd (entry128 E ct c) \<noteq> 0
      then say ''    ContextEntry(0x%02x) D%02xF%02x - 0x%016lx %016lx''
             [hxn c, hxn (c div 8), hxn (c mod 8), hx (snd (entry128 E ct c)), hx (fst (entry128 E ct c))] t
      else t)"
  have t1: "policy t1 = policy s" "mHasError t1 = mHasError t" using assms(1) by (simp_all add: t1_def)
  show ?thesis
    using assms(2) tables_flag [OF t1(1), of E Seg _ _ _ _ t'] t1
    unfolding context_entry_def Let_def t1_def [symmetric]
    by (auto simp: bad_context_def split: if_splits)
qed

lemma root_flag:
  assumes "policy t = policy s" and "root_entry E Seg rt b t = Some t'"
  shows "policy t' = policy s \<and> (mHasError t' \<longleftrightarrow> mHasError t \<or> bad_root E s Seg rt b)"
proof -
  define t1 where "t1 = (if fst (entry128 E rt b) \<noteq> 0 \<or> snd (entry128 E rt b) \<noteq> 0
      then say ''  RootEntry(0x%02x) B%02x - 0x%016lx %016lx''
             [hxn b, hxn b, hx (snd (entry128 E rt b)), hx (fst (entry128 E rt b))] t
      else t)"
  have t1: "policy t1 = policy s" "mHasError t1 = mHasError t" using assms(1) by (simp_all add: t1_def)
  show ?thesis
    using assms(2) each_bad [OF context_flag t1(1), where t' = t'] t1
    unfolding root_entry_def Let_def t1_def [symmetric]
    by (auto simp: bad_root_def split: if_splits)
qed

lemma print_ext_keeps [simp]:
  "policy (print_ext_context f i d c t) = policy t" "mHasError (print_ext_context f i d c t) = mHasError t"
  by (cases c; simp add: print_ext_context_def)+

lemma ext_context_flag:
  assumes "policy t = policy s" and "ext_context_lower E Seg b ct c t = Some t'"
  shows "policy t' = policy s \<and> (mHasError t' \<longleftrightarrow> mHasError t \<or> bad_ext_context E s Seg b ct c)"
proof -
  define t1 where "t1 = print_ext_context ''    ExtContextEntryLower(0x%02x) D%02xF%02x - 0x%016lx %016lx %016lx %016lx''
                 c c (entry256 E ct c) t"
  have t1: "policy t1 = policy s" "mHasError t1 = mHasError t" using assms(1) by (simp_all add: t1_def)
  show ?thesis
    using assms(2) tables_flag [OF t1(1), of E Seg _ _ _ _ t'] t1
    unfolding ext_context_lower_def Let_def t1_def [symmetric]
    by (auto simp: bad_ext_context_def split: if_splits)
qed

lemma ext_upper_flag:
  assumes "policy t = policy s" and "ext_context_upper E ct c t = Some t'"
  shows "policy t' = policy s \<and> (mHasError t' \<longleftrightarrow> mHasError t \<or> False)"
  using assms by (auto simp: ext_context_upper_def)

lemma ext_root_flag:
  assumes "policy t = policy s" and "ext_root_entry E Seg rt b t = Some t'"
  shows "policy t' = policy s \<and> (mHasError t' \<longleftrightarrow> mHasError t \<or> bad_ext_root E s Seg rt b)"
proof -
  let ?r = "entry128 E rt b"
  define t1 where "t1 = (if fst ?r \<noteq> 0 \<or> snd ?r \<noteq> 0
      then say ''  ExtRootEntry(0x%02x) B%02x - 0x%016lx %016lx'' [hxn b, hxn b, hx (snd ?r), hx (fst ?r)] t
      else t)"
  have t1: "policy t1 = policy s" "mHasError t1 = mHasError t" using assms(1) by (simp_all add: t1_def)
  show ?thesis
  proof (cases "xroot_LowerPresent E ?r")
    case False
    with assms(2) t1 show ?thesis
      unfolding ext_root_entry_def Let_def t1_def [symmetric] by (auto simp: bad_ext_root_def)
  next
    case True
    with assms(2) obtain t2 where
      lower: "each (ext_context_lower E Seg b (unat (VTD_64BITS_ADDRESS (xroot_LowerContextTablePointer E ?r))))
           [0..<VTD_CONTEXT_ENTRY_NUMBER E div 2] t1 = Some t2"
      and upper: "(if \<not> xroot_UpperPresent E ?r then Some t2
          else each (ext_context_upper E (unat (VTD_64BITS_ADDRESS (xroot_UpperContextTablePointer E ?r))))
                 [0..<VTD_CONTEXT_ENTRY_NUMBER E div 2] t2) = Some t'"
      unfolding ext_root_entry_def Let_def t1_def [symmetric] by (auto simp: bind_eq_Some_conv)
    have t2: "policy t2 = policy s \<and> (mHasError t2 \<longleftrightarrow> mHasError t1
        \<or> (\<exists>c \<in> {0..<VTD_CONTEXT_ENTRY_NUMBER E div 2}. bad_ext_context E s Seg b
             (unat (VTD_64BITS_ADDRESS (xroot_LowerContextTablePointer E ?r))) c))"
      by (rule each_bad [OF ext_context_flag t1(1) lower])
    then have "policy t2 = policy s" by blast
    from upper each_bad [OF ext_upper_flag this, where t' = t'] t1 t2 True show ?thesis
      by (auto simp: bad_ext_root_def split: if_splits)
  qed
qed

lemma unit_flag:
  assumes "policy t = policy s" and "translation_unit E i t = Some t'"
  shows "policy t' = policy s \<and> (mHasError t' \<longleftrightarrow> mHasError t \<or> bad_unit E s i)"
proof -
  let ?u = "mVtdUnitInformation s ! i"
  let ?a = "MmioRead64 E (VtdUnitBaseAddress ?u + R_RTADDR_REG E)"
  let ?rt = "unat (?a AND NOT 0xFFF)"
  let ?t1 = "say ''VTD engine (%d) - Base:0x%08x'' [hxn i, hx (VtdUnitBaseAddress ?u)] t"
  have u: "mVtdUnitInformation t = mVtdUnitInformation s" using assms(1) by (simp add: policy_def)
  have start: "policy (say f a (say g b (say h c ?t1))) = policy s" for f a g b h c
    using assms(1) by simp
  show ?thesis
  proof (cases "?a AND 0x800 \<noteq> 0")
    case True
    with assms(2) u obtain t2 where
      "each (ext_root_entry E (ucast (Segment ?u)) ?rt) [0..<VTD_ROOT_ENTRY_NUMBER E]
         (say ''ExtRootEntry Address - 0x%x'' [hxn ?rt]
           (say ''DMAR ExtContext Entry Table:'' [] (say ''***'' [] ?t1))) = Some t2"
      and "t' = say ''***'' [] t2"
      by (auto simp: translation_unit_def DumpDmarExtContextEntryTable_def Let_def)
    with each_bad [OF ext_root_flag start this(1)] True show ?thesis
      by (simp add: bad_unit_def Let_def)
  next
    case False
    with assms(2) u obtain t2 where
      "each (root_entry E (ucast (Segment ?u)) ?rt) [0..<VTD_ROOT_ENTRY_NUMBER E]
         (say ''RootEntry Address - 0x%x'' [hxn ?rt]
           (say ''DMAR Context Entry Table:'' [] (say ''***'' [] ?t1))) = Some t2"
      and "t' = say ''***'' [] t2"
      by (auto simp: translation_unit_def DumpDmarContextEntryTable_def Let_def)
    with each_bad [OF root_flag start this(1)] False show ?thesis
      by (simp add: bad_unit_def Let_def)
  qed
qed

text \<open>With a list of mappings, even an empty one, every walk returns.\<close>

lemma each_gMaps:
  assumes "\<And>x t. gMaps t \<noteq> None \<Longrightarrow> f x t \<noteq> None"
    and "\<And>x t t'. f x t = Some t' \<Longrightarrow> policy t' = policy t" and "gMaps t \<noteq> None"
  shows "each f xs t \<noteq> None"
  using assms(3)
proof (induction xs arbitrary: t)
  case Nil
  show ?case by simp
next
  case (Cons x xs)
  from assms(1) [OF Cons.prems] obtain t1 where t1: "f x t = Some t1" by fast
  from assms(2) [OF this] Cons.prems have "gMaps t1 \<noteq> None" by (simp add: policy_def)
  from Cons.IH [OF this] t1 show ?case by simp
qed

lemma levels_return:
  assumes "gMaps t \<noteq> None"
  shows "each (level1 E Seg Bus Device Fn tb) is t \<noteq> None"
    and "each (level2 E Seg Bus Device Fn tb) is t \<noteq> None"
    and "each (level3 E Seg Bus Device Fn tb) is t \<noteq> None"
    and "each (level4 E Seg Bus Device Fn tb) is t \<noteq> None"
proof -
  have "level1 E Seg Bus Device Fn tb i t \<noteq> None" if "gMaps t \<noteq> None" for tb i t
    using that by (simp add: level1_def Let_def CheckPtEntry_returns del: not_None_eq)
  then have e1: "each (level1 E Seg Bus Device Fn tb) is t \<noteq> None" if "gMaps t \<noteq> None" for tb "is" t
    by (rule each_gMaps) (use level1_flag [OF refl] that in blast)+
  have "level2 E Seg Bus Device Fn tb i t \<noteq> None" if "gMaps t \<noteq> None" for tb i t
    using that by (simp add: level2_def Let_def CheckPtEntry_returns e1 del: not_None_eq upt_Suc)
  then have e2: "each (level2 E Seg Bus Device Fn tb) is t \<noteq> None" if "gMaps t \<noteq> None" for tb "is" t
    by (rule each_gMaps) (use level2_flag [OF refl] that in blast)+
  have "level3 E Seg Bus Device Fn tb i t \<noteq> None" if "gMaps t \<noteq> None" for tb i t
    using that by (simp add: level3_def Let_def e2 del: not_None_eq upt_Suc)
  then have e3: "each (level3 E Seg Bus Device Fn tb) is t \<noteq> None" if "gMaps t \<noteq> None" for tb "is" t
    by (rule each_gMaps) (use level3_flag [OF refl] that in blast)+
  have "level4 E Seg Bus Device Fn tb i t \<noteq> None" if "gMaps t \<noteq> None" for tb i t
    using that by (simp add: level4_def Let_def e3 del: not_None_eq upt_Suc)
  then have e4: "each (level4 E Seg Bus Device Fn tb) is t \<noteq> None" if "gMaps t \<noteq> None" for tb "is" t
    by (rule each_gMaps) (use level4_flag [OF refl] that in blast)+
  from assms show "each (level1 E Seg Bus Device Fn tb) is t \<noteq> None"
    "each (level2 E Seg Bus Device Fn tb) is t \<noteq> None"
    "each (level3 E Seg Bus Device Fn tb) is t \<noteq> None"
    "each (level4 E Seg Bus Device Fn tb) is t \<noteq> None"
    by (rule e1 e2 e3 e4)+
qed

lemma tables_return: "gMaps t \<noteq> None \<Longrightarrow> DumpSecondLevelPagingEntry E Seg Bus Device Fn tb t \<noteq> None"
  by (simp add: DumpSecondLevelPagingEntry_def levels_return(4) del: not_None_eq upt_Suc)

lemma print_ext_gMaps [simp]: "gMaps (print_ext_context f i d c t) = gMaps t"
  by (cases c) (simp add: print_ext_context_def)

lemma contexts_return:
  assumes "gMaps t \<noteq> None"
  shows "each (context_entry E Seg b ct) cs t \<noteq> None"
    and "each (ext_context_lower E Seg b ct) cs t \<noteq> None"
proof -
  have "context_entry E Seg b ct c t \<noteq> None" if "gMaps t \<noteq> None" for c t
    using that by (simp add: context_entry_def Let_def tables_return del: not_None_eq)
  then show "each (context_entry E Seg b ct) cs t \<noteq> None"
    by (rule each_gMaps) (use context_flag [OF refl] assms in blast)+
  have "ext_context_lower E Seg b ct c t \<noteq> None" if "gMaps t \<noteq> None" for c t
    using that by (simp add: ext_context_lower_def Let_def tables_return del: not_None_eq)
  then show "each (ext_context_lower E Seg b ct) cs t \<noteq> None"
    by (rule each_gMaps) (use ext_context_flag [OF refl] assms in blast)+
qed

lemma roots_return:
  assumes "gMaps t \<noteq> None"
  shows "each (root_entry E Seg rt) bs t \<noteq> None" and "each (ext_root_entry E Seg rt) bs t \<noteq> None"
proof -
  have "root_entry E Seg rt b t \<noteq> None" if "gMaps t \<noteq> None" for b t
    using that by (simp add: root_entry_def Let_def contexts_return del: not_None_eq)
  then show "each (root_entry E Seg rt) bs t \<noteq> None"
    by (rule each_gMaps) (use root_flag [OF refl] assms in blast)+
  have up: "each (ext_context_upper E ct) cs t \<noteq> None" for ct cs t
    by (rule each_total) (simp add: ext_context_upper_def)
  have "ext_root_entry E Seg rt b t \<noteq> None" if "gMaps t \<noteq> None" for b t
  proof (cases "xroot_LowerPresent E (entry128 E rt b)")
    case False
    then show ?thesis by (simp add: ext_root_entry_def Let_def)
  next
    case True
    have upper: "(if u then Some s2 else each (ext_context_upper E ct) cs s2) \<noteq> None" for u s2 ct cs
      using up by simp
    have "Option.bind (each (ext_context_lower E Seg b ct) cs
        (if c then say f a t else t)) (\<lambda>s2. if u then Some s2 else each (ext_context_upper E ct') cs s2) \<noteq> None"
      for c f a ct ct' cs u
      by (rule bind_returns [OF contexts_return(2) upper]) (use that in simp)
    with True show ?thesis unfolding ext_root_entry_def Let_def by simp
  qed
  then show "each (ext_root_entry E Seg rt) bs t \<noteq> None"
    by (rule each_gMaps) (use ext_root_flag [OF refl] assms in blast)+
qed

lemma units_return: "gMaps t \<noteq> None \<Longrightarrow> translation_unit E i t \<noteq> None"
  by (simp add: translation_unit_def DumpDmarContextEntryTable_def DumpDmarExtContextEntryTable_def
      Let_def roots_return del: not_None_eq)

text \<open>
  C1: The walk over the translation tables raises the error flag exactly when some unit has
  an accessible 4 KB page, reachable through present entries, that neither an exception
  record nor a reserved memory record nor an IOMMU mapping accounts for.
\<close>

theorem DumpVtdTranslation_verdict:
  assumes "DumpVtdTranslation E s = Some s'"
  shows "mHasError s' \<longleftrightarrow> mHasError s \<or> (\<exists>i < mVtdUnitNumber s. bad_unit E s i)"
  using each_bad [OF unit_flag refl assms [unfolded DumpVtdTranslation_def]] by auto

lemma sample_translation: "\<exists>s'. DumpVtdTranslation sample_env sample_mapped = Some s'"
proof -
  have "each (translation_unit sample_env) [0..<mVtdUnitNumber sample_mapped] sample_mapped \<noteq> None"
    by (rule each_gMaps [OF units_return unit_flag [OF refl, THEN conjunct1] sample_mapped_fields(5)])
  then show ?thesis by (simp add: DumpVtdTranslation_def del: split_paired_Ex)
qed

theorem DumpVtdTranslation_verdict_witness:
  "\<exists>s'. DumpVtdTranslation sample_env sample_mapped = Some s'
     \<and> (mHasError s' \<longleftrightarrow> bad_unit sample_env sample_mapped 0)"
proof -
  obtain s' where run: "DumpVtdTranslation sample_env sample_mapped = Some s'"
    using sample_translation by blast
  from DumpVtdTranslation_verdict [OF run] run show ?thesis by (simp add: sample_mapped_fields)
qed

text \<open>
  Once the list of mappings was found, the walk over the translation tables returns,
  whatever the tables hold.
\<close>

theorem DumpVtdTranslation_returns:
  assumes "gMaps s \<noteq> None"
  shows "DumpVtdTranslation E s \<noteq> None"
  unfolding DumpVtdTranslation_def
  by (rule each_gMaps [OF units_return unit_flag [OF refl, THEN conjunct1] assms])

theorem DumpVtdTranslation_returns_witness: "DumpVtdTranslation sample_env sample_mapped \<noteq> None"
  by (rule DumpVtdTranslation_returns [OF sample_mapped_fields(5)])

text \<open>
  When the tool prints "Check PASS!!!", it has walked the tables of every unit it built and
  found no such page.
\<close>

theorem VtdDumpEntrypoint_pass:
  assumes "VtdDumpEntrypoint depth E s = Some s'" and "last (console s') = Print ''Check PASS!!!'' []"
  shows "\<exists>t s4. DumpVtdTranslation E t = Some s4 \<and> console s' = console s4 @ [Print ''Check PASS!!!'' []]
    \<and> (\<forall>i < mVtdUnitNumber t. \<not> bad_unit E t i)"
proof -
  from assms(1) obtain t s4 where t: "DumpVtdTranslation E t = Some s4"
    and s': "s' = say (if mHasError s4 then ''Check FAIL!!!'' else ''Check PASS!!!'') [] s4"
    by (auto simp: VtdDumpEntrypoint_def bind_eq_Some_conv)
  from assms(2) s' have pass: "\<not> mHasError s4"
    by (auto simp: say_def split: if_splits)
  with s' have "console s' = console s4 @ [Print ''Check PASS!!!'' []]"
    by (simp add: say_def)
  moreover have "mHasError s4 \<longleftrightarrow> mHasError t \<or> (\<exists>i < mVtdUnitNumber t. bad_unit E t i)"
    using each_bad [OF unit_flag refl t [unfolded DumpVtdTranslation_def]] by auto
  ultimately show ?thesis using t pass by blast
qed

text \<open>A machine without IOMMU protocol and DMAR table, at the start of the tool.\<close>

definition bare_env :: vtd_env where
  "bare_env = sample_env\<lparr>config_table := \<lambda>_. None, LocateIoMmu := EFI_NOT_FOUND\<rparr>"

definition start_state :: vtd_state where
  "start_state = \<lparr>mAcpiDmarTable = NULL, gMaps = None, mVtdUnitNumber = 0, mVtdUnitInformation = [],
     gExceptionRecord = [], gRmrrRecord = [], mHasError = False, console = []\<rparr>"

theorem VtdDumpEntrypoint_pass_witness:
  "\<exists>s' t s4. VtdDumpEntrypoint 256 bare_env start_state = Some s'
     \<and> DumpVtdTranslation bare_env t = Some s4 \<and> console s' = console s4 @ [Print ''Check PASS!!!'' []]"
proof -
  obtain s' where run: "VtdDumpEntrypoint 256 bare_env start_state = Some s'"
    and out: "last (console s') = Print ''Check PASS!!!'' []"
    by (simp add: VtdDumpEntrypoint_def DumpIoMmuMap_def DumpVtdAcpi_def GetDmarAcpiTable_def
        DumpExceptionRecord_def DumpVtdTranslation_def bare_env_def start_state_def sample_env_def say_def)
  from VtdDumpEntrypoint_pass [OF run out] run show ?thesis by blast
qed

end
