(* ===== verification/Acpi_Func.thy ===== *)
theory Acpi_Func
  imports Walks Registries
begin

text \<open>
  \<^verbatim>\<open>AcpiToolPkg/Library/DumpAcpi/DumpAcpiTableFuncLib\<close>: the registry of dump functions by table
  signature, the options of the dump, and the printers that all tables share (header, generic
  address structure, hex dump).  Layouts and constants of the ACPI headers are the fields of
  \<open>acpi_tables\<close>, read by address.
\<close>

section \<open>Data\<close>

datatype acpi_guid = gEfiAcpiTableGuid | gEfiAcpi20Table | OTHER_GUID nat

datatype address_space =
    SYSTEM_MEMORY | SYSTEM_IO | PCI_CONFIGURATION_SPACE | EMBEDDED_CONTROLLER | SMBUS
  | FUNCTIONAL_FIXED_HARDWARE | SPACE_OTHER

datatype access_size = ACCESS_UNDEFINED | ACCESS_BYTE | ACCESS_WORD | ACCESS_DWORD | ACCESS_QWORD | ACCESS_OTHER

record acpi_tables =
  ConfigurationTable :: "(acpi_guid \<times> addr) list"
  tmem :: mem
  sizeof_HEADER :: nat
  h_Signature :: "addr \<Rightarrow> u32"
  h_SignatureBytes :: "addr \<Rightarrow> u8 list"
  h_Length :: "addr \<Rightarrow> u32"
  h_Revision :: "addr \<Rightarrow> u8"
  h_Checksum :: "addr \<Rightarrow> u8"
  h_OemId :: "addr \<Rightarrow> u8 list"
  h_OemTableId :: "addr \<Rightarrow> u8 list"
  h_OemRevision :: "addr \<Rightarrow> u32"
  h_CreatorId :: "addr \<Rightarrow> u8 list"
  h_CreatorRevision :: "addr \<Rightarrow> u32"
  r_SignatureBytes :: "addr \<Rightarrow> u8 list"
  r_Checksum :: "addr \<Rightarrow> u8"
  r_OemId :: "addr \<Rightarrow> u8 list"
  r_Revision :: "addr \<Rightarrow> u8"
  r_RsdtAddress :: "addr \<Rightarrow> u32"
  r_Length :: "addr \<Rightarrow> u32"
  r_XsdtAddress :: "addr \<Rightarrow> u64"
  r_ExtendedChecksum :: "addr \<Rightarrow> u8"
  f_FirmwareCtrl :: "addr \<Rightarrow> u32"
  f_XFirmwareCtrl :: "addr \<Rightarrow> u64"
  f_Dsdt :: "addr \<Rightarrow> u32"
  f_XDsdt :: "addr \<Rightarrow> u64"
  FADT_2_0_REVISION :: u8
  SIG_FACP :: u32
  SIG_FACS :: u32
  SIG_DSDT :: u32
  SIG_SSDT :: u32
  SIG_PSDT :: u32
  SIG_RSDT :: u32
  SIG_XSDT :: u32
  g_AddressSpaceId :: "addr \<Rightarrow> u8"
  g_RegisterBitWidth :: "addr \<Rightarrow> u8"
  g_RegisterBitOffset :: "addr \<Rightarrow> u8"
  g_AccessSize :: "addr \<Rightarrow> u8"
  g_Address :: "addr \<Rightarrow> u64"
  space_kind :: "u8 \<Rightarrow> address_space"
  access_kind :: "u8 \<Rightarrow> access_size"

text \<open>
  The registered functions: the five of \<^verbatim>\<open>DumpACPI.c\<close> and those of the per-table libraries.
\<close>

datatype dump_func = DumpAcpiFADT | DumpAcpiFACS | DumpAcpiDSDT | DumpAcpiSSDT | DumpAcpiPSDT | LibraryDump nat

text \<open>The used part of \<open>mDumpAcpiTableFuncStruct\<close> is a list; its length is the count.\<close>

record acpi_state =
  mDumpAcpiTableFuncStruct :: "(u32 \<times> dump_func) list"
  mInternalIsAcpiDumpData :: bool
  mInternalIsAcpiDumpVerb :: bool
  mIsAcpi20 :: bool
  mIsDumpData :: bool
  mIsDumpVerb :: bool
  screen :: "out list"

definition display :: "out list \<Rightarrow> acpi_state \<Rightarrow> acpi_state" where
  "display os s = s\<lparr>screen := screen s @ os\<rparr>"

section \<open>The registry and the options\<close>

abbreviation (input) DUMP_ACPI_TABLE_FUNC_MAX_NUMBER :: nat where
  "DUMP_ACPI_TABLE_FUNC_MAX_NUMBER \<equiv> 256"

definition GetDumpAcpiTableFunc :: "acpi_state \<Rightarrow> u32 \<Rightarrow> dump_func option" where
  "GetDumpAcpiTableFunc s Signature =
     map_option snd (find (\<lambda>e. fst e = Signature) (mDumpAcpiTableFuncStruct s))"

definition RegisterDumpAcpiTable :: "u32 \<Rightarrow> dump_func \<Rightarrow> acpi_state \<Rightarrow> efi_status \<times> acpi_state" where
  "RegisterDumpAcpiTable Signature DumpFunc s =
     (if GetDumpAcpiTableFunc s Signature \<noteq> None then (EFI_ALREADY_STARTED, s)
      else if length (mDumpAcpiTableFuncStruct s) \<ge> DUMP_ACPI_TABLE_FUNC_MAX_NUMBER
      then (EFI_OUT_OF_RESOURCES, s)
      else (EFI_SUCCESS,
            s\<lparr>mDumpAcpiTableFuncStruct := mDumpAcpiTableFuncStruct s @ [(Signature, DumpFunc)]\<rparr>))"

definition SetAcpiDumpPropertyDumpData :: "bool \<Rightarrow> acpi_state \<Rightarrow> acpi_state" where
  "SetAcpiDumpPropertyDumpData b s = s\<lparr>mInternalIsAcpiDumpData := b\<rparr>"

definition SetAcpiDumpPropertyDumpVerb :: "bool \<Rightarrow> acpi_state \<Rightarrow> acpi_state" where
  "SetAcpiDumpPropertyDumpVerb b s = s\<lparr>mInternalIsAcpiDumpVerb := b\<rparr>"

section \<open>Shared printers\<close>

definition DumpAcpiTableHeader :: "acpi_tables \<Rightarrow> addr \<Rightarrow> out list" where
  "DumpAcpiTableHeader T p =
     (if p = NULL then [] else
      [Print ''  Table Header:'' [],
       Print ''    Signature %c%c%c%c'' (map hx (h_SignatureBytes T p)),
       Print ''    Length 0x%08x'' [hx (h_Length T p)],
       Print ''    Revision 0x%02x'' [hx (h_Revision T p)],
       Print ''    Checksum 0x%02x'' [hx (h_Checksum T p)],
       Print ''    OEMID %c%c%c%c%c%c'' (map hx (h_OemId T p)),
       Print ''    OEM Table ID %c%c%c%c%c%c%c%c'' (map hx (h_OemTableId T p)),
       Print ''    OEM Revision 0x%08x'' [hx (h_OemRevision T p)],
       Print ''    Creator ID %c%c%c%c'' (map hx (h_CreatorId T p)),
       Print ''    Creator Revision 0x%08x'' [hx (h_CreatorRevision T p)]])"

definition space_name :: "address_space \<Rightarrow> out list" where
  "space_name k = (case k of
       SYSTEM_MEMORY \<Rightarrow> [Print ''        System Memory'' []]
     | SYSTEM_IO \<Rightarrow> [Print ''        System I/O'' []]
     | PCI_CONFIGURATION_SPACE \<Rightarrow> [Print ''        PCI Configuration Space'' []]
     | EMBEDDED_CONTROLLER \<Rightarrow> [Print ''        Embedded Controller'' []]
     | SMBUS \<Rightarrow> [Print ''        SMBus'' []]
     | FUNCTIONAL_FIXED_HARDWARE \<Rightarrow> [Print ''        Functional Fixed Hardware'' []]
     | SPACE_OTHER \<Rightarrow> [])"

definition access_name :: "access_size \<Rightarrow> out list" where
  "access_name k = (case k of
       ACCESS_UNDEFINED \<Rightarrow> [Print ''        Undefined'' []]
     | ACCESS_BYTE \<Rightarrow> [Print ''        Byte access'' []]
     | ACCESS_WORD \<Rightarrow> [Print ''        Word access'' []]
     | ACCESS_DWORD \<Rightarrow> [Print ''        Dword access'' []]
     | ACCESS_QWORD \<Rightarrow> [Print ''        Qword access'' []]
     | ACCESS_OTHER \<Rightarrow> [])"

definition DumpAcpiGAddressStructure :: "acpi_tables \<Rightarrow> addr \<Rightarrow> out list" where
  "DumpAcpiGAddressStructure T p =
     (if p = NULL then [] else
      [Print ''      Address Space ID 0x%02x'' [hx (g_AddressSpaceId T p)]]
      @ space_name (space_kind T (g_AddressSpaceId T p))
      @ [Print ''      Rigister Bit Width 0x%02x'' [hx (g_RegisterBitWidth T p)],
         Print ''      Rigister Bit Offset 0x%02x'' [hx (g_RegisterBitOffset T p)],
         Print ''      Access Size 0x%02x'' [hx (g_AccessSize T p)]]
      @ access_name (access_kind T (g_AccessSize T p))
      @ [Print ''      Address 0x%016lx'' [hx (g_Address T p)]])"

text \<open>One row of the hex dump: \<open>n\<close> bytes from row \<open>Index\<close>.\<close>

definition hex_row :: "mem \<Rightarrow> addr \<Rightarrow> nat \<Rightarrow> nat \<Rightarrow> out list" where
  "hex_row m Buffer Index n =
     [Print ''      %04x: '' [hxn (Index * 16)]]
     @ map (\<lambda>IndexJ. Print ''%02x '' [hx (m (Buffer + Index * 16 + IndexJ))]) [0..<n]
     @ [Print '''' []]"

definition DumpAcpiHex :: "mem \<Rightarrow> nat \<Rightarrow> addr \<Rightarrow> out list" where
  "DumpAcpiHex m BufferSize Buffer =
     (let Left = BufferSize mod 16; Index = BufferSize div 16 in
      concat (map (\<lambda>Index. hex_row m Buffer Index 16) [0..<Index])
      @ (if Left \<noteq> 0 then hex_row m Buffer Index Left else []))"

section \<open>Properties\<close>

lemma GetDumpAcpiTableFunc_map: "GetDumpAcpiTableFunc s = map_of (mDumpAcpiTableFuncStruct s)"
proof
  fix k
  have "map_option snd (find (\<lambda>e. fst e = k) xs) = map_of xs k" for xs :: "(u32 \<times> dump_func) list"
    by (induction xs) auto
  then show "GetDumpAcpiTableFunc s k = map_of (mDumpAcpiTableFuncStruct s) k"
    by (simp add: GetDumpAcpiTableFunc_def)
qed

text \<open>The array is well formed: no signature twice, at most 256 entries.\<close>

definition funcs_wf :: "acpi_state \<Rightarrow> bool" where
  "funcs_wf s \<longleftrightarrow> distinct (map fst (mDumpAcpiTableFuncStruct s))
     \<and> length (mDumpAcpiTableFuncStruct s) \<le> 256"

lemma Register_lookup:
  "GetDumpAcpiTableFunc (snd (RegisterDumpAcpiTable k f s)) =
     (if GetDumpAcpiTableFunc s k = None \<and> length (mDumpAcpiTableFuncStruct s) < 256
      then (GetDumpAcpiTableFunc s)(k \<mapsto> f) else GetDumpAcpiTableFunc s)"
  by (auto simp: RegisterDumpAcpiTable_def GetDumpAcpiTableFunc_map map_add_def fun_eq_iff
      split: option.split)

lemma Register_wf: "funcs_wf s \<Longrightarrow> funcs_wf (snd (RegisterDumpAcpiTable k f s))"
  by (auto simp: RegisterDumpAcpiTable_def funcs_wf_def GetDumpAcpiTableFunc_map map_of_eq_None_iff)

interpretation table_funcs: keyed_registry GetDumpAcpiTableFunc RegisterDumpAcpiTable
  "\<lambda>s _. length (mDumpAcpiTableFuncStruct s) < 256" funcs_wf
  by unfold_locales
    (auto simp: Register_lookup Register_wf, simp_all add: RegisterDumpAcpiTable_def)

lemma dom_funcs: "funcs_wf s \<Longrightarrow> card (dom (GetDumpAcpiTableFunc s)) = length (mDumpAcpiTableFuncStruct s)"
  by (simp add: GetDumpAcpiTableFunc_map dom_map_of_conv_image_fst funcs_wf_def
      distinct_card [symmetric] del: distinct_card)
     (metis distinct_card length_map list.set_map)

text \<open>
  Registering dump functions from an empty registry, with at most 256 distinct signatures,
  gives the map in which the first function registered for a signature is the one found.
\<close>

theorem RegisterDumpAcpiTable_first_wins:
  assumes "mDumpAcpiTableFuncStruct s = []" and "card (fst ` set kvs) \<le> 256"
  shows "GetDumpAcpiTableFunc (fold (\<lambda>(k, f) s. snd (RegisterDumpAcpiTable k f s)) kvs s) = map_of kvs"
proof -
  have wf: "funcs_wf s" using assms(1) by (simp add: funcs_wf_def)
  have none: "GetDumpAcpiTableFunc s = (\<lambda>_. None)"
    using assms(1) by (simp add: GetDumpAcpiTableFunc_map fun_eq_iff)
  have "GetDumpAcpiTableFunc (fold (\<lambda>(k, f) s. snd (RegisterDumpAcpiTable k f s)) kvs s)
      = map_of kvs ++ GetDumpAcpiTableFunc s"
  proof (rule table_funcs.runs_first_wins [OF wf, where D = "{}"])
    fix r k
    assume r: "funcs_wf r" and k: "k \<in> fst ` set kvs" "GetDumpAcpiTableFunc r k = None"
      and dom: "dom (GetDumpAcpiTableFunc r) \<subseteq> {} \<union> fst ` set kvs"
    then have "dom (GetDumpAcpiTableFunc r) \<subset> fst ` set kvs" by blast
    then have "card (dom (GetDumpAcpiTableFunc r)) < card (fst ` set kvs)"
      by (intro psubset_card_mono) simp_all
    with assms(2) dom_funcs [OF r] show "length (mDumpAcpiTableFuncStruct r) < 256" by simp
  qed (simp add: none)
  with none show ?thesis by (simp add: map_add_def)
qed

theorem RegisterDumpAcpiTable_first_wins_witness:
  "GetDumpAcpiTableFunc (fold (\<lambda>(k, f) s. snd (RegisterDumpAcpiTable k f s))
     [(0x50434146, DumpAcpiFADT), (0x43495041, LibraryDump 1), (0x50434146, LibraryDump 2)]
     \<lparr>mDumpAcpiTableFuncStruct = [], mInternalIsAcpiDumpData = False, mInternalIsAcpiDumpVerb = True,
       mIsAcpi20 = False, mIsDumpData = False, mIsDumpVerb = True, screen = []\<rparr>) 0x50434146
   = Some DumpAcpiFADT"
  using RegisterDumpAcpiTable_first_wins
    [of "\<lparr>mDumpAcpiTableFuncStruct = [], mInternalIsAcpiDumpData = False, mInternalIsAcpiDumpVerb = True,
       mIsAcpi20 = False, mIsDumpData = False, mIsDumpVerb = True, screen = []\<rparr>"
      "[(0x50434146, DumpAcpiFADT), (0x43495041, LibraryDump 1), (0x50434146, LibraryDump 2)]"]
  by (simp add: card_insert_if)

text \<open>The bytes and the row offsets in a hex dump.\<close>

definition dumped :: "string \<Rightarrow> out list \<Rightarrow> arg list" where
  "dumped fmt os = concat (map (\<lambda>x. case x of Print f args \<Rightarrow> if f = fmt then args else []) os)"

lemma dumped_simps [simp]:
  "dumped fmt (xs @ ys) = dumped fmt xs @ dumped fmt ys" "dumped fmt [] = []"
  "dumped fmt (Print f as # xs) = (if f = fmt then as else []) @ dumped fmt xs"
  by (simp_all add: dumped_def)

lemma dumped_row:
  "dumped ''%02x '' (hex_row m p i n) = map hx (bytes_at m (p + i * 16) n)"
  "dumped ''      %04x: '' (hex_row m p i n) = [hxn (i * 16)]"
proof -
  have "dumped ''%02x '' (map (\<lambda>j. Print ''%02x '' [hx (m (p + i * 16 + j))]) js)
      = map hx (map (\<lambda>j. m (p + i * 16 + j)) js)"
    "dumped ''      %04x: '' (map (\<lambda>j. Print ''%02x '' [hx (m (p + i * 16 + j))]) js) = []" for js
    by (induction js) simp_all
  then show "dumped ''%02x '' (hex_row m p i n) = map hx (bytes_at m (p + i * 16) n)"
    "dumped ''      %04x: '' (hex_row m p i n) = [hxn (i * 16)]"
    by (simp_all add: hex_row_def bytes_at_def)
qed

lemma dumped_rows:
  "dumped ''%02x '' (concat (map (\<lambda>i. hex_row m p i 16) [0..<k])) = map hx (bytes_at m p (k * 16))"
  "dumped ''      %04x: '' (concat (map (\<lambda>i. hex_row m p i 16) [0..<k])) = map (\<lambda>i. hxn (i * 16)) [0..<k]"
proof (induction k)
  case 0
  show "dumped ''%02x '' (concat (map (\<lambda>i. hex_row m p i 16) [0..<0])) = map hx (bytes_at m p (0 * 16))"
    "dumped ''      %04x: '' (concat (map (\<lambda>i. hex_row m p i 16) [0..<0])) = map (\<lambda>i. hxn (i * 16)) [0..<0]"
    by (simp_all add: bytes_at_def)
next
  case (Suc k)
  have "bytes_at m p (Suc k * 16) = bytes_at m p (k * 16) @ bytes_at m (p + k * 16) 16"
    by (simp add: bytes_at_add [symmetric] add.commute)
  then show "dumped ''%02x '' (concat (map (\<lambda>i. hex_row m p i 16) [0..<Suc k])) = map hx (bytes_at m p (Suc k * 16))"
    "dumped ''      %04x: '' (concat (map (\<lambda>i. hex_row m p i 16) [0..<Suc k])) = map (\<lambda>i. hxn (i * 16)) [0..<Suc k]"
    using Suc by (simp_all add: dumped_row del: mult_Suc)
qed

text \<open>
  The hex dump shows every byte of the buffer once, in order, in rows of 16 that are
  labelled with their offsets; only the last row can be shorter, and there is no empty row.
\<close>

theorem DumpAcpiHex_complete:
  "dumped ''%02x '' (DumpAcpiHex m n p) = map hx (bytes_at m p n)
   \<and> dumped ''      %04x: '' (DumpAcpiHex m n p) = map (\<lambda>i. hxn (i * 16)) [0..<(n + 15) div 16]"
proof -
  let ?k = "n div 16" and ?r = "n mod 16"
  have none: "bytes_at m q 0 = []" for q by (simp add: bytes_at_def)
  have rows: "(n + 15) div 16 = (if ?r = 0 then ?k else Suc ?k)"
  proof -
    have "(n + 15) div 16 = ?k + (?r + 15) div 16"
      using div_mult_self2 [of 16 "?r + 15" ?k] by (simp add: add.commute add.left_commute)
    moreover have "(?r + 15) div 16 = (if ?r = 0 then 0 else 1)"
      by (cases "?r = 0") (simp_all add: div_nat_eqI)
    ultimately show ?thesis by simp
  qed
  have "dumped ''%02x '' (DumpAcpiHex m n p) = map hx (bytes_at m p (?k * 16) @ bytes_at m (p + ?k * 16) ?r)"
    by (cases "?r = 0") (simp_all add: DumpAcpiHex_def Let_def dumped_rows dumped_row none)
  moreover have "bytes_at m p (?k * 16) @ bytes_at m (p + ?k * 16) ?r = bytes_at m p n"
    by (metis bytes_at_add div_mult_mod_eq)
  moreover have "dumped ''      %04x: '' (DumpAcpiHex m n p) = map (\<lambda>i. hxn (i * 16)) [0..<(n + 15) div 16]"
    unfolding rows by (cases "?r = 0") (simp_all add: DumpAcpiHex_def Let_def dumped_rows dumped_row)
  ultimately show ?thesis by simp
qed

end
