(* ===== verification/Acpi_Subtables.thy ===== *)
theory Acpi_Subtables
  imports Acpi_Func
begin

text \<open>
  The loop by which the MADT and the SRAT dumps walk the structures after the fixed part of a
  table:
  \<^verbatim>\<open>
    TableLen = 0;
    while (n > 0) {
      switch (p->Type) { case T: Dump (p); TableLen = ...; break; ... default: break; }
      p = p + p->Length;  n -= TableLen;
    }
  \<close>
  The pointer advances by the length the structure states, the counter by the length the code
  expects of the type; a type the switch does not name leaves \<open>TableLen\<close> as it was.
\<close>

section \<open>The loop\<close>

text \<open>\<open>charge p\<close> is the new \<open>TableLen\<close>, \<open>None\<close> for the default branch.\<close>

partial_function (option) subtables ::
  "(addr \<Rightarrow> nat) \<Rightarrow> (addr \<Rightarrow> nat option) \<Rightarrow> (addr \<Rightarrow> out list) \<Rightarrow> addr \<Rightarrow> int \<Rightarrow> nat \<Rightarrow> out list
     \<Rightarrow> out list option"
where
  "subtables len charge dump p n TableLen os =
     (if n > 0
      then (let t = (case charge p of Some l \<Rightarrow> l | None \<Rightarrow> TableLen) in
            subtables len charge dump (p + len p) (n - int t) t (os @ dump p))
      else Some os)"

lemma subtables_stop [simp]: "n \<le> 0 \<Longrightarrow> subtables len charge dump p n t os = Some os"
  by (subst subtables.simps) simp

lemma subtables_known:
  "0 < n \<Longrightarrow> charge p = Some l \<Longrightarrow> subtables len charge dump p n t os =
     subtables len charge dump (p + len p) (n - int l) l (os @ dump p)"
  by (subst subtables.simps) simp

lemma subtables_unknown:
  "0 < n \<Longrightarrow> charge p = None \<Longrightarrow> subtables len charge dump p n t os =
     subtables len charge dump (p + len p) (n - int t) t (os @ dump p)"
  by (subst subtables.simps) simp

section \<open>What a table and the code agree on\<close>

text \<open>
  The contract between a table and the loop: on the structures that are \<open>good\<close> the length
  the code charges is the length the structure states.  The clauses on \<open>known\<close> are about the
  types only: they are charged, and never nothing.
\<close>

locale subtable_loop =
  fixes len :: "addr \<Rightarrow> nat" and charge :: "addr \<Rightarrow> nat option" and dump :: "addr \<Rightarrow> out list"
    and good :: "addr \<Rightarrow> bool" and known :: "addr \<Rightarrow> bool"
  assumes good_charge: "good p \<Longrightarrow> charge p = Some (len p)"
    and known_charge: "charge p \<noteq> None \<longleftrightarrow> known p"
    and unknown_silent: "\<not> known p \<Longrightarrow> dump p = []"
begin

text \<open>A table of good structures is printed completely, each structure once, in order.\<close>

lemma prints_all:
  assumes "chain len (p + nat n) p qs" and "\<forall>q \<in> set qs. good q"
  shows "subtables len charge dump p n t os = Some (os @ concat (map dump qs))"
  using assms
proof (induction qs arbitrary: p n t os)
  case Nil
  then show ?case by simp
next
  case (Cons q qs)
  then have q: "q = p" and n: "0 < n" and g: "good p" by auto
  have "chain len (p + len p + nat (n - int (len p))) (p + len p) qs"
  proof (cases "int (len p) \<le> n")
    case True
    then have eq: "p + len p + nat (n - int (len p)) = p + nat n" by simp
    from Cons.prems(1) q show ?thesis unfolding eq by simp
  next
    case False
    with Cons.prems(1) q have "qs = []" by (cases qs) auto
    with False show ?thesis by simp
  qed
  from Cons.IH [OF this] Cons.prems(2) q n good_charge [OF g] show ?case
    by (simp add: subtables_known)
qed

text \<open>An unknown structure met before any known one is skipped without being counted.\<close>

lemma unknown_first:
  "0 < n \<Longrightarrow> \<not> known p \<Longrightarrow>
   subtables len charge dump p n 0 os = subtables len charge dump (p + len p) n 0 os"
  using known_charge [of p] by (simp add: subtables_unknown unknown_silent)

lemma unknown_first_extends:
  assumes "0 < n" and "\<not> known p" and "chain len (p + len p + nat n) (p + len p) qs"
    and "\<forall>q \<in> set qs. good q"
  shows "subtables len charge dump p n 0 os = Some (os @ concat (map dump qs))"
  using assms by (simp add: unknown_first prints_all)

text \<open>Its length being zero, it is met again for ever.\<close>

lemma unknown_stuck:
  assumes "\<not> known p" and "len p = 0" and "0 < n"
  shows "subtables len charge dump p n 0 os = None"
proof -
  have "\<not> (q = p \<and> 0 < n' \<and> t = 0)"
    if ret: "subtables len charge dump q n' t os' = Some r" for q n' t os' r
  proof -
    have "len = len \<longrightarrow> charge = charge \<longrightarrow> \<not> (q = p \<and> 0 < n' \<and> t = 0)"
    proof (rule subtables.raw_induct
        [where P = "\<lambda>len' charge' dump' q n' t os' r. len' = len \<longrightarrow> charge' = charge \<longrightarrow>
            \<not> (q = p \<and> 0 < n' \<and> t = 0)", OF _ ret], goal_cases)
      case (1 w len' charge' dump' q n' t os' r)
      show ?case
      proof (intro impI notI)
        assume eqs: "len' = len" "charge' = charge" and at: "q = p \<and> 0 < n' \<and> t = 0"
        with 1(2) known_charge [of p] assms have "w len charge dump' p n' 0 (os' @ dump' p) = Some r"
          by simp
        from 1(1) [OF this] at show False by simp
      qed
    qed
    then show ?thesis by simp
  qed
  with assms(3) show ?thesis
    by (cases "subtables len charge dump p n 0 os") fastforce+
qed

text \<open>After a known structure of length \<open>t\<close>, every unknown one counts as \<open>t\<close> bytes.\<close>

lemma unknown_run:
  assumes "chain len e p (us @ rs)" and "\<forall>u \<in> set us. \<not> known u"
    and "int (length us) * int t < n + int t"
  shows "subtables len charge dump p n t os =
     subtables len charge dump (p + sum_list (map len us)) (n - int (length us) * int t) t os"
  using assms
proof (induction us arbitrary: p n)
  case Nil
  then show ?case by simp
next
  case (Cons u us)
  then have u: "u = p" "\<not> known p" and rest: "chain len e (p + len p) (us @ rs)" by auto
  have more: "int (length us) * int t < n - int t + int t" and n: "0 < n"
    using Cons.prems(3) by (simp_all add: algebra_simps)
      (smt (verit, ccfv_SIG) of_nat_0_le_iff mult_nonneg_nonneg)
  have "subtables len charge dump p n t os = subtables len charge dump (p + len p) (n - int t) t os"
    using n u known_charge [of p] by (simp add: subtables_unknown unknown_silent)
  also have "\<dots> = subtables len charge dump (p + len p + sum_list (map len us))
      (n - int t - int (length us) * int t) t os"
    using Cons.IH [OF rest _ more] Cons.prems(2) by simp
  finally show ?case using u by (simp add: algebra_simps)
qed

text \<open>
  The loop returns once a positive length has been charged, whatever the structures say: the
  counter then falls in every iteration.
\<close>

lemma returns:
  assumes pos: "\<And>q l. charge q = Some l \<Longrightarrow> 0 < l" and first: "0 < t \<or> known p"
  shows "subtables len charge dump p n t os \<noteq> None"
  using first
proof (induction "nat n" arbitrary: p n t os rule: less_induct)
  case less
  show ?case
  proof (cases "0 < n")
    case False
    then show ?thesis by simp
  next
    case True
    define t' where "t' = (case charge p of Some l \<Rightarrow> l | None \<Rightarrow> t)"
    have t': "0 < t'"
      using less.prems pos known_charge [of p] by (auto simp: t'_def split: option.split)
    then have "nat (n - int t') < nat n" using True by simp
    with less.hyps t' have "subtables len charge dump (p + len p) (n - int t') t' (os @ dump p) \<noteq> None"
      by blast
    moreover have "subtables len charge dump p n t os =
        subtables len charge dump (p + len p) (n - int t') t' (os @ dump p)"
      using True by (subst subtables.simps) (simp add: t'_def Let_def)
    ultimately show ?thesis by simp
  qed
qed

end

end
