(* ===== verification/Acpi_Madt.thy ===== *)
theory Acpi_Madt
  imports Acpi_Subtables
begin

text \<open>
  \<^verbatim>\<open>AcpiToolPkg/Library/DumpAcpi/DumpAcpiMADTLib\<close>: the dump of the MADT.  Each interrupt
  controller structure of the ACPI headers is a record of the fields after \<open>Type\<close> and
  \<open>Length\<close>; these two are the bytes 0 and 1, as the code's \<open>APIC_STRUCT_HEADER\<close> has them.
  Layouts, sizes and flag masks come from the headers and are the fields of \<open>madt_view\<close>.
\<close>

section \<open>Data\<close>

text \<open>The types the switch names; \<open>APIC_OTHER\<close> is its default branch.\<close>

datatype apic_type =
    PROCESSOR_LOCAL_APIC | IO_APIC | INTERRUPT_SOURCE_OVERRIDE | NON_MASKABLE_INTERRUPT_SOURCE
  | LOCAL_APIC_NMI | LOCAL_APIC_ADDRESS_OVERRIDE | IO_SAPIC | PROCESSOR_LOCAL_SAPIC
  | PLATFORM_INTERRUPT_SOURCES | PROCESSOR_LOCAL_X2APIC | LOCAL_X2APIC_NMI
  | GIC | GICD | GIC_MSI_FRAME | GICR | APIC_OTHER

record local_apic =
  la_AcpiProcessorId :: u8
  la_ApicId :: u8
  la_Flags :: u32

record io_apic =
  io_IoApicId :: u8
  io_IoApicAddress :: u32
  io_SystemVectorBase :: u32

record source_override =
  so_Bus :: u8
  so_Source :: u8
  so_GlobalSystemInterruptVector :: u32
  so_Flags :: u16

record nmi_source =
  ns_Flags :: u16
  ns_GlobalSystemInterruptVector :: u32

record local_nmi =
  ln_AcpiProcessorId :: u8
  ln_Flags :: u16
  ln_LocalApicInti :: u8

record io_sapic =
  is_IoApicId :: u8
  is_GlobalSystemInterruptBase :: u32
  is_IoSapicAddress :: u64

record local_sapic =
  ls_AcpiProcessorId :: u8
  ls_LocalSapicId :: u8
  ls_LocalSapicEid :: u8
  ls_Flags :: u32

record platform_source =
  ps_Flags :: u16
  ps_InterruptType :: u8
  ps_ProcessorId :: u8
  ps_ProcessorEid :: u8
  ps_IoSapicVector :: u8
  ps_GlobalSystemInterrupt :: u32

record local_x2apic =
  lx_X2ApicId :: u32
  lx_Flags :: u32
  lx_AcpiProcessorUid :: u32

record x2apic_nmi =
  xn_Flags :: u16
  xn_AcpiProcessorUid :: u32
  xn_LocalX2ApicLint :: u8

record gic =
  gic_CPUInterfaceNumber :: u32
  gic_AcpiProcessorUid :: u32
  gic_Flags :: u32
  gic_ParkingProtocolVersion :: u32
  gic_PerformanceInterruptGsiv :: u32
  gic_ParkedAddress :: u64
  gic_PhysicalBaseAddress :: u64
  gic_GICV :: u64
  gic_GICH :: u64
  gic_VGICMaintenanceInterrupt :: u32
  gic_GICRBaseAddress :: u64
  gic_MPIDR :: u64

record gic_distributor =
  gd_GicId :: u32
  gd_PhysicalBaseAddress :: u64
  gd_SystemVectorBase :: u32

record gic_msi_frame =
  gm_GicMsiFrameId :: u32
  gm_PhysicalBaseAddress :: u64
  gm_Flags :: u32
  gm_SPICount :: u16
  gm_SPIBase :: u16

record gic_redistributor =
  gr_DiscoveryRangeBaseAddress :: u64
  gr_DiscoveryRangeLength :: u32

text \<open>The structure views, sizes and masks.\<close>

record madt_view =
  APIC_SIGNATURE :: u32
  madt_LocalApicAddress :: "addr \<Rightarrow> u32"
  madt_Flags :: "addr \<Rightarrow> u32"
  sizeof_MADT :: nat
  apic_kind :: "u8 \<Rightarrow> apic_type"
  apic_sizeof :: "apic_type \<Rightarrow> nat"
  local_apic_at :: "addr \<Rightarrow> local_apic"
  io_apic_at :: "addr \<Rightarrow> io_apic"
  source_override_at :: "addr \<Rightarrow> source_override"
  nmi_source_at :: "addr \<Rightarrow> nmi_source"
  local_nmi_at :: "addr \<Rightarrow> local_nmi"
  address_override_at :: "addr \<Rightarrow> u64"
  io_sapic_at :: "addr \<Rightarrow> io_sapic"
  local_sapic_at :: "addr \<Rightarrow> local_sapic"
  platform_source_at :: "addr \<Rightarrow> platform_source"
  local_x2apic_at :: "addr \<Rightarrow> local_x2apic"
  x2apic_nmi_at :: "addr \<Rightarrow> x2apic_nmi"
  gic_at :: "addr \<Rightarrow> gic"
  gic_distributor_at :: "addr \<Rightarrow> gic_distributor"
  gic_msi_frame_at :: "addr \<Rightarrow> gic_msi_frame"
  gic_redistributor_at :: "addr \<Rightarrow> gic_redistributor"
  PCAT_COMPAT :: u32
  LOCAL_APIC_ENABLED_1_0 :: u32
  LOCAL_APIC_ENABLED_2_0 :: u32
  GIC_ENABLED :: u32
  PERFORMANCE_INTERRUPT_MODEL :: u32
  VGIC_MAINTENANCE_INTERRUPT_MODE_FLAGS :: u32
  SPI_COUNT_BASE_SELECT :: u32

text \<open>\<open>APIC_STRUCT_HEADER\<close>.\<close>

definition apic_Type :: "mem \<Rightarrow> addr \<Rightarrow> u8" where
  "apic_Type m p = m p"

definition apic_Length :: "mem \<Rightarrow> addr \<Rightarrow> u8" where
  "apic_Length m p = m (p + 1)"

section \<open>Printers\<close>

text \<open>The banner, the address and the two header fields every printer starts with.\<close>

definition apic_head :: "string \<Rightarrow> string \<Rightarrow> mem \<Rightarrow> addr \<Rightarrow> out list" where
  "apic_head title name m p =
     [Print (''  ***'' @ title @ ''***'') [],
      Print (''  '' @ name @ '' address 0x%016lx'') [hxn p],
      Print ''    Type 0x%02x'' [hx (apic_Type m p)],
      Print ''    Length 0x%02x'' [hx (apic_Length m p)]]"

definition apic_tail :: "out list" where
  "apic_tail = [Print ''  ***'' []]"

text \<open>The interrupt flags: polarity and trigger mode.\<close>

definition inti_flags :: "u16 \<Rightarrow> out list" where
  "inti_flags Flags =
     [Print ''    Flags 0x%04x'' [hx Flags], Print ''      Polarity 0x%04x'' [hx (Flags AND 3)]]
     @ (if Flags AND 3 = 0 then [Print ''        Conforms to the specifications of the bus'' []]
        else if Flags AND 3 = 1 then [Print ''        Active high'' []]
        else if Flags AND 3 = 3 then [Print ''        Active low'' []]
        else [])
     @ [Print ''      Trigger Mode 0x%04x'' [hx (Flags AND 0xc)]]
     @ (if Flags AND 0xc = 0 then [Print ''        Conforms to the specifications of the bus'' []]
        else if Flags AND 0xc = 4 then [Print ''        Edge-triggered'' []]
        else if Flags AND 0xc = 0xc then [Print ''        Level-triggered'' []]
        else [])"

definition DumpApicProcessorLocalApic :: "mem \<Rightarrow> madt_view \<Rightarrow> addr \<Rightarrow> out list" where
  "DumpApicProcessorLocalApic m V p =
     (if p = NULL then [] else
      let x = local_apic_at V p in
      apic_head ''Processor Local APIC Structure'' ''Processor Local APIC'' m p
      @ [Print ''    ACPI Processor ID 0x%02x'' [hx (la_AcpiProcessorId x)],
         Print ''    APIC ID 0x%02x'' [hx (la_ApicId x)],
         Print ''    Flags 0x%08x'' [hx (la_Flags x)],
         Print ''      Enabled 0x%08x'' [hx (la_Flags x AND LOCAL_APIC_ENABLED_1_0 V)]]
      @ apic_tail)"

definition DumpApicIOApic :: "mem \<Rightarrow> madt_view \<Rightarrow> addr \<Rightarrow> out list" where
  "DumpApicIOApic m V p =
     (if p = NULL then [] else
      let x = io_apic_at V p in
      apic_head ''IO APIC Structure'' ''IO APIC'' m p
      @ [Print ''    IO APIC ID 0x%02x'' [hx (io_IoApicId x)],
         Print ''    IO APIC Address 0x%08x'' [hx (io_IoApicAddress x)],
         Print ''    Global System Interrupt Base 0x%08x'' [hx (io_SystemVectorBase x)]]
      @ apic_tail)"

definition DumpApicInterruptSourceOverride :: "mem \<Rightarrow> madt_view \<Rightarrow> addr \<Rightarrow> out list" where
  "DumpApicInterruptSourceOverride m V p =
     (if p = NULL then [] else
      let x = source_override_at V p in
      apic_head ''Interrupt Source Override Structure'' ''Interrupt Source Override'' m p
      @ [Print ''    Bus 0x%02x'' [hx (so_Bus x)],
         Print ''    Source 0x%02x'' [hx (so_Source x)],
         Print ''    Global System Interrupt 0x%08x'' [hx (so_GlobalSystemInterruptVector x)]]
      @ inti_flags (so_Flags x)
      @ apic_tail)"

definition DumpApicNonMaskableInterruptSource :: "mem \<Rightarrow> madt_view \<Rightarrow> addr \<Rightarrow> out list" where
  "DumpApicNonMaskableInterruptSource m V p =
     (if p = NULL then [] else
      let x = nmi_source_at V p in
      apic_head ''Non-Maskable Interrupt Source Structure'' ''NMI Source'' m p
      @ inti_flags (ns_Flags x)
      @ [Print ''    Global System Interrupt 0x%08x'' [hx (ns_GlobalSystemInterruptVector x)]]
      @ apic_tail)"

definition DumpApicLocalApicNMI :: "mem \<Rightarrow> madt_view \<Rightarrow> addr \<Rightarrow> out list" where
  "DumpApicLocalApicNMI m V p =
     (if p = NULL then [] else
      let x = local_nmi_at V p in
      apic_head ''Local APIC NMI Structure'' ''Local APIC NMI'' m p
      @ [Print ''    ACPI Processor ID 0x%02x'' [hx (ln_AcpiProcessorId x)]]
      @ inti_flags (ln_Flags x)
      @ [Print ''    Local APIC INTI 0x%02x'' [hx (ln_LocalApicInti x)]]
      @ apic_tail)"

definition DumpApicLocalApicAddressOverride :: "mem \<Rightarrow> madt_view \<Rightarrow> addr \<Rightarrow> out list" where
  "DumpApicLocalApicAddressOverride m V p =
     (if p = NULL then [] else
      apic_head ''Local APIC Address Override Structure'' ''Local APIC Address Override'' m p
      @ [Print ''    Local APIC Address 0x%016lx'' [hx (address_override_at V p)]]
      @ apic_tail)"

definition DumpApicIOSapic :: "mem \<Rightarrow> madt_view \<Rightarrow> addr \<Rightarrow> out list" where
  "DumpApicIOSapic m V p =
     (if p = NULL then [] else
      let x = io_sapic_at V p in
      apic_head ''IO SAPIC Structure'' ''IO SAPIC'' m p
      @ [Print ''    IO SAPIC ID 0x%02x'' [hx (is_IoApicId x)],
         Print ''    Global System Interrupt Base 0x%08x'' [hx (is_GlobalSystemInterruptBase x)],
         Print ''    IO SAPIC Address 0x%016lx'' [hx (is_IoSapicAddress x)]]
      @ apic_tail)"

definition DumpApicProcessorLocalSapic :: "mem \<Rightarrow> madt_view \<Rightarrow> addr \<Rightarrow> out list" where
  "DumpApicProcessorLocalSapic m V p =
     (if p = NULL then [] else
      let x = local_sapic_at V p in
      apic_head ''Processor Local SAPIC Structure'' ''Processor Local SAPIC'' m p
      @ [Print ''    ACPI Processor ID 0x%02x'' [hx (ls_AcpiProcessorId x)],
         Print ''    Local SAPIC ID 0x%02x'' [hx (ls_LocalSapicId x)],
         Print ''    Local SAPIC EID 0x%02x'' [hx (ls_LocalSapicEid x)],
         Print ''    Flags 0x%08x'' [hx (ls_Flags x)],
         Print ''      Enabled 0x%08x'' [hx (ls_Flags x AND LOCAL_APIC_ENABLED_2_0 V)]]
      @ apic_tail)"

definition DumpApicPlatformInterruptSource :: "mem \<Rightarrow> madt_view \<Rightarrow> addr \<Rightarrow> out list" where
  "DumpApicPlatformInterruptSource m V p =
     (if p = NULL then [] else
      let x = platform_source_at V p in
      apic_head ''Platform Interrupt Source Structure'' ''Platform Interrupt Source'' m p
      @ inti_flags (ps_Flags x)
      @ [Print ''    Interrupt Type 0x%02x'' [hx (ps_InterruptType x)]]
      @ (if ps_InterruptType x = 1 then [Print ''      PMI'' []]
         else if ps_InterruptType x = 2 then [Print ''      INIT'' []]
         else if ps_InterruptType x = 3 then [Print ''      Corrected Platform Error Interrupt'' []]
         else [])
      @ [Print ''    Processor ID 0x%02x'' [hx (ps_ProcessorId x)],
         Print ''    Processor EID 0x%02x'' [hx (ps_ProcessorEid x)],
         Print ''    IO SAPIC Vector 0x%02x'' [hx (ps_IoSapicVector x)],
         Print ''    Global System Interrupt 0x%08x'' [hx (ps_GlobalSystemInterrupt x)]]
      @ apic_tail)"

definition DumpApicProcessorLocalX2Apic :: "mem \<Rightarrow> madt_view \<Rightarrow> addr \<Rightarrow> out list" where
  "DumpApicProcessorLocalX2Apic m V p =
     (if p = NULL then [] else
      let x = local_x2apic_at V p in
      apic_head ''Processor Local X2APIC Structure'' ''Processor Local X2APIC'' m p
      @ [Print ''    X2ACPI ID 0x%08x'' [hx (lx_X2ApicId x)],
         Print ''    Flags 0x%08x'' [hx (lx_Flags x)],
         Print ''      Enabled 0x%08x'' [hx (lx_Flags x AND LOCAL_APIC_ENABLED_1_0 V)],
         Print ''    ACPI Processor UID 0x%08x'' [hx (lx_AcpiProcessorUid x)]]
      @ apic_tail)"

definition DumpApicLocalX2ApicNmi :: "mem \<Rightarrow> madt_view \<Rightarrow> addr \<Rightarrow> out list" where
  "DumpApicLocalX2ApicNmi m V p =
     (if p = NULL then [] else
      let x = x2apic_nmi_at V p in
      apic_head ''Local X2APIC NMI Structure'' ''Local X2APIC NMI'' m p
      @ inti_flags (xn_Flags x)
      @ [Print ''    ACPI Processor UID 0x%08x'' [hx (xn_AcpiProcessorUid x)],
         Print ''    Local X2APIC LINT 0x%02x'' [hx (xn_LocalX2ApicLint x)]]
      @ apic_tail)"

text \<open>The closing ruler of this printer comes before the fields of ACPI 5.1.\<close>

definition DumpApicGic :: "mem \<Rightarrow> madt_view \<Rightarrow> addr \<Rightarrow> out list" where
  "DumpApicGic m V p =
     (if p = NULL then [] else
      let x = gic_at V p; new = apic_sizeof V GIC \<le> unat (apic_Length m p) in
      apic_head ''Processor Local GIC Structure'' ''Processor Local GIC'' m p
      @ (if new then [Print ''    CPU Interface Number 0x%08x'' [hx (gic_CPUInterfaceNumber x)]]
         else [Print ''    GIC ID 0x%08x'' [hx (gic_CPUInterfaceNumber x)]])
      @ [Print ''    ACPI Processor UID 0x%08x'' [hx (gic_AcpiProcessorUid x)],
         Print ''    Flags 0x%08x'' [hx (gic_Flags x)],
         Print ''      Enabled 0x%08x'' [hx (gic_Flags x AND GIC_ENABLED V)],
         Print ''      Performance Interrupt Model 0x%08x'' [hx (gic_Flags x AND PERFORMANCE_INTERRUPT_MODEL V)]]
      @ (if new then [Print ''      VGIC Maintenance Interrupt Model 0x%08x''
                        [hx (gic_Flags x AND VGIC_MAINTENANCE_INTERRUPT_MODE_FLAGS V)]]
         else [])
      @ [Print ''    Parking Protocol Version 0x%08x'' [hx (gic_ParkingProtocolVersion x)],
         Print ''    Performance Interrupt GSIV 0x%08x'' [hx (gic_PerformanceInterruptGsiv x)],
         Print ''    Parked Address 0x%016lx'' [hx (gic_ParkedAddress x)],
         Print ''    Physical Base Address 0x%016lx'' [hx (gic_PhysicalBaseAddress x)]]
      @ apic_tail
      @ (if new then
           [Print ''    GICV 0x%016lx'' [hx (gic_GICV x)],
            Print ''    GICH 0x%016lx'' [hx (gic_GICH x)],
            Print ''    VGIC Maintenance Interrupt 0x%08x'' [hx (gic_VGICMaintenanceInterrupt x)],
            Print ''    GICR Base Address 0x%016lx'' [hx (gic_GICRBaseAddress x)],
            Print ''    MPIDR 0x%016lx'' [hx (gic_MPIDR x)]]
         else []))"

definition DumpApicGicDistributor :: "mem \<Rightarrow> madt_view \<Rightarrow> addr \<Rightarrow> out list" where
  "DumpApicGicDistributor m V p =
     (if p = NULL then [] else
      let x = gic_distributor_at V p in
      apic_head ''GIC Distributor Structure'' ''GIC Distributor'' m p
      @ [Print ''    GIC ID 0x%08x'' [hx (gd_GicId x)],
         Print ''    Physical Base Address 0x%016lx'' [hx (gd_PhysicalBaseAddress x)],
         Print ''    System Vector Base 0x%08x'' [hx (gd_SystemVectorBase x)]]
      @ apic_tail)"

definition DumpApicGicMsiFrame :: "mem \<Rightarrow> madt_view \<Rightarrow> addr \<Rightarrow> out list" where
  "DumpApicGicMsiFrame m V p =
     (if p = NULL then [] else
      let x = gic_msi_frame_at V p in
      apic_head ''GIC MSI Frame Structure'' ''GIC MSI Frame'' m p
      @ [Print ''    GIC MSI Frame ID 0x%08x'' [hx (gm_GicMsiFrameId x)],
         Print ''    Physical Base Address 0x%016lx'' [hx (gm_PhysicalBaseAddress x)],
         Print ''    Flags 0x%08x'' [hx (gm_Flags x)],
         Print ''      SPI Count Base Select 0x%08x'' [hx (gm_Flags x AND SPI_COUNT_BASE_SELECT V)],
         Print ''    SPI Count 0x%04x'' [hx (gm_SPICount x)],
         Print ''    SPI Base 0x%04x'' [hx (gm_SPIBase x)]]
      @ apic_tail)"

definition DumpApicGicRedistributor :: "mem \<Rightarrow> madt_view \<Rightarrow> addr \<Rightarrow> out list" where
  "DumpApicGicRedistributor m V p =
     (if p = NULL then [] else
      let x = gic_redistributor_at V p in
      apic_head ''GIC Redistributor Structure'' ''GIC Redistributor'' m p
      @ [Print ''    Discovery Range Base Address 0x%016lx'' [hx (gr_DiscoveryRangeBaseAddress x)],
         Print ''    Discovery Range Length 0x%08x'' [hx (gr_DiscoveryRangeLength x)]]
      @ apic_tail)"

section \<open>The table\<close>

text \<open>The two things each branch of the switch does: it prints, and it sets \<open>TableLen\<close>.\<close>

definition madt_dump :: "mem \<Rightarrow> madt_view \<Rightarrow> addr \<Rightarrow> out list" where
  "madt_dump m V p =
     (case apic_kind V (apic_Type m p) of
        PROCESSOR_LOCAL_APIC \<Rightarrow> DumpApicProcessorLocalApic m V p
      | IO_APIC \<Rightarrow> DumpApicIOApic m V p
      | INTERRUPT_SOURCE_OVERRIDE \<Rightarrow> DumpApicInterruptSourceOverride m V p
      | NON_MASKABLE_INTERRUPT_SOURCE \<Rightarrow> DumpApicNonMaskableInterruptSource m V p
      | LOCAL_APIC_NMI \<Rightarrow> DumpApicLocalApicNMI m V p
      | LOCAL_APIC_ADDRESS_OVERRIDE \<Rightarrow> DumpApicLocalApicAddressOverride m V p
      | IO_SAPIC \<Rightarrow> DumpApicIOSapic m V p
      | PROCESSOR_LOCAL_SAPIC \<Rightarrow> DumpApicProcessorLocalSapic m V p
      | PLATFORM_INTERRUPT_SOURCES \<Rightarrow> DumpApicPlatformInterruptSource m V p
      | PROCESSOR_LOCAL_X2APIC \<Rightarrow> DumpApicProcessorLocalX2Apic m V p
      | LOCAL_X2APIC_NMI \<Rightarrow> DumpApicLocalX2ApicNmi m V p
      | GIC \<Rightarrow> DumpApicGic m V p
      | GICD \<Rightarrow> DumpApicGicDistributor m V p
      | GIC_MSI_FRAME \<Rightarrow> DumpApicGicMsiFrame m V p
      | GICR \<Rightarrow> DumpApicGicRedistributor m V p
      | APIC_OTHER \<Rightarrow> [])"

definition madt_charge :: "mem \<Rightarrow> madt_view \<Rightarrow> addr \<Rightarrow> nat option" where
  "madt_charge m V p =
     (let k = apic_kind V (apic_Type m p) in
      if k = APIC_OTHER then None
      else if k \<in> {GIC, GICD, GIC_MSI_FRAME, GICR} then Some (unat (apic_Length m p))
      else Some (apic_sizeof V k))"

text \<open>What is printed before the structures.\<close>

definition madt_banner :: "acpi_tables \<Rightarrow> addr \<Rightarrow> acpi_state \<Rightarrow> out list" where
  "madt_banner T Madt s =
     [Print ''***Multiple APIC Description Table***'' []]
     @ (if mInternalIsAcpiDumpData s then DumpAcpiHex (tmem T) (unat (h_Length T Madt)) Madt else [])"

definition madt_fixed :: "acpi_tables \<Rightarrow> madt_view \<Rightarrow> addr \<Rightarrow> out list" where
  "madt_fixed T V Madt =
     [Print ''MADT address 0x%016lx'' [hxn Madt]] @ DumpAcpiTableHeader T Madt
     @ [Print ''  Table Contents:'' [],
        Print ''    Local APIC Address 0x%02x'' [hx (madt_LocalApicAddress V Madt)],
        Print ''    Flags 0x%02x'' [hx (madt_Flags V Madt)],
        Print ''      PCAT_COMPAT 0x%02x'' [hx (madt_Flags V Madt AND PCAT_COMPAT V)],
        Print '''' []]"

definition DumpAcpiMADT :: "acpi_tables \<Rightarrow> madt_view \<Rightarrow> addr \<Rightarrow> acpi_state \<Rightarrow> acpi_state option" where
  "DumpAcpiMADT T V Madt s =
     (if Madt = NULL then Some s else
      let m = tmem T; Done = [Print ''***'' []] in
      if \<not> mInternalIsAcpiDumpVerb s then Some (display (madt_banner T Madt s @ Done) s)
      else
        (let MadtLen = int (unat (h_Length T Madt)) - int (sizeof_MADT V); TableLen = 0;
             ApicStructHeader = Madt + sizeof_MADT V
         in map_option (\<lambda>os. display (os @ Done) s)
              (subtables (\<lambda>p. unat (apic_Length m p)) (madt_charge m V) (madt_dump m V)
                ApicStructHeader MadtLen TableLen (madt_banner T Madt s @ madt_fixed T V Madt))))"

definition DumpAcpiMADTLibConstructor :: "madt_view \<Rightarrow> acpi_state \<Rightarrow> efi_status \<times> acpi_state" where
  "DumpAcpiMADTLibConstructor V s = RegisterDumpAcpiTable (APIC_SIGNATURE V) (LibraryDump 0) s"

end
