(* ===== verification/Acpi_Srat.thy ===== *)
theory Acpi_Srat
  imports Acpi_Subtables
begin

text \<open>
  \<^verbatim>\<open>AcpiToolPkg/Library/DumpAcpi/DumpAcpiSRATLib\<close>: the dump of the SRAT, whose switch knows the
  two structures of ACPI 3.0.  Layouts as in \<open>Acpi_Madt\<close>; \<open>Type\<close> and \<open>Length\<close> are the bytes 0
  and 1 of \<open>AFFINITY_STRUCT_HEADER\<close>.
\<close>

section \<open>Data\<close>

datatype affinity_type = PROCESSOR_LOCAL_APIC_SAPIC_AFFINITY | MEMORY_AFFINITY | AFFINITY_OTHER

record processor_affinity =
  pa_ProximityDomain7To0 :: u8
  pa_ApicId :: u8
  pa_Flags :: u32
  pa_LocalSapicEid :: u8
  pa_ProximityDomain15To8 :: u8
  pa_ProximityDomain23To16 :: u8
  pa_ProximityDomain31To24 :: u8

record memory_affinity =
  ma_ProximityDomain :: u32
  ma_AddressBaseLow :: u32
  ma_AddressBaseHigh :: u32
  ma_LengthLow :: u32
  ma_LengthHigh :: u32
  ma_Flags :: u32

record srat_view =
  SRAT_SIGNATURE :: u32
  SRAT_3_0_REVISION :: u8
  srat_Reserved1 :: "addr \<Rightarrow> u32"
  sizeof_SRAT :: nat
  affinity_kind :: "u8 \<Rightarrow> affinity_type"
  affinity_sizeof :: "affinity_type \<Rightarrow> nat"
  processor_affinity_at :: "addr \<Rightarrow> processor_affinity"
  memory_affinity_at :: "addr \<Rightarrow> memory_affinity"
  LOCAL_APIC_SAPIC_ENABLED :: u32
  MEMORY_ENABLED :: u32
  MEMORY_HOT_PLUGGABLE :: u32
  MEMORY_NONVOLATILE :: u32

text \<open>\<open>AFFINITY_STRUCT_HEADER\<close>.\<close>

definition affinity_Type :: "mem \<Rightarrow> addr \<Rightarrow> u8" where
  "affinity_Type m p = m p"

definition affinity_Length :: "mem \<Rightarrow> addr \<Rightarrow> u8" where
  "affinity_Length m p = m (p + 1)"

section \<open>Printers\<close>

definition DumpAcpiProcessorLocalApicSapicAffinity :: "mem \<Rightarrow> srat_view \<Rightarrow> addr \<Rightarrow> out list" where
  "DumpAcpiProcessorLocalApicSapicAffinity m V p =
     (if p = NULL then [] else
      let x = processor_affinity_at V p in
      [Print ''  ***Processor Local APIC/SAPIC Affinity Structure***'' [],
       Print ''  Processor Local APIC/SAPIC Affinity address 0x%016lx'' [hxn p],
       Print ''    Type 0x%02x'' [hx (affinity_Type m p)],
       Print ''    Length 0x%02x'' [hx (affinity_Length m p)],
       Print ''    Proximity Domain [7:0] 0x%02x'' [hx (pa_ProximityDomain7To0 x)],
       Print ''    APIC ID 0x%02x'' [hx (pa_ApicId x)],
       Print ''    Flags 0x%08x'' [hx (pa_Flags x)],
       Print ''      Enabled 0x%08x'' [hx (pa_Flags x AND LOCAL_APIC_SAPIC_ENABLED V)],
       Print ''    Local SAPIC EID 0x%02x'' [hx (pa_LocalSapicEid x)],
       Print ''    Proximity Domain [15:8] 0x%02x'' [hx (pa_ProximityDomain15To8 x)],
       Print ''    Proximity Domain [23:16] 0x%02x'' [hx (pa_ProximityDomain23To16 x)],
       Print ''    Proximity Domain [31:24] 0x%02x'' [hx (pa_ProximityDomain31To24 x)],
       Print ''  ***'' []])"

definition DumpAcpiMemoryAffinity :: "mem \<Rightarrow> srat_view \<Rightarrow> addr \<Rightarrow> out list" where
  "DumpAcpiMemoryAffinity m V p =
     (if p = NULL then [] else
      let x = memory_affinity_at V p in
      [Print ''  ***Memory Affinity Structure***'' [],
       Print ''  Memory Affinity address 0x%016lx'' [hxn p],
       Print ''    Type 0x%02x'' [hx (affinity_Type m p)],
       Print ''    Length 0x%02x'' [hx (affinity_Length m p)],
       Print ''    Proximity Domain 0x%08x'' [hx (ma_ProximityDomain x)],
       Print ''    Base Address Low 0x%08x'' [hx (ma_AddressBaseLow x)],
       Print ''    Base Address High 0x%08x'' [hx (ma_AddressBaseHigh x)],
       Print ''    Length Low 0x%08x'' [hx (ma_LengthLow x)],
       Print ''    Length High 0x%08x'' [hx (ma_LengthHigh x)],
       Print ''    Flags 0x%08x'' [hx (ma_Flags x)],
       Print ''      Enabled 0x%08x'' [hx (ma_Flags x AND MEMORY_ENABLED V)],
       Print ''      Hot Pluggable 0x%08x'' [hx (ma_Flags x AND MEMORY_HOT_PLUGGABLE V)],
       Print ''      NonVolatile 0x%08x'' [hx (ma_Flags x AND MEMORY_NONVOLATILE V)],
       Print ''  ***'' []])"

section \<open>The table\<close>

definition srat_dump :: "mem \<Rightarrow> srat_view \<Rightarrow> addr \<Rightarrow> out list" where
  "srat_dump m V p =
     (case affinity_kind V (affinity_Type m p) of
        PROCESSOR_LOCAL_APIC_SAPIC_AFFINITY \<Rightarrow> DumpAcpiProcessorLocalApicSapicAffinity m V p
      | MEMORY_AFFINITY \<Rightarrow> DumpAcpiMemoryAffinity m V p
      | AFFINITY_OTHER \<Rightarrow> [])"

definition srat_charge :: "mem \<Rightarrow> srat_view \<Rightarrow> addr \<Rightarrow> nat option" where
  "srat_charge m V p =
     (let k = affinity_kind V (affinity_Type m p) in
      if k = AFFINITY_OTHER then None else Some (affinity_sizeof V k))"

text \<open>What is printed before the structures.\<close>

definition srat_banner :: "acpi_tables \<Rightarrow> addr \<Rightarrow> acpi_state \<Rightarrow> out list" where
  "srat_banner T Srat s =
     [Print ''***System Resource Affinity Table***'' []]
     @ (if mInternalIsAcpiDumpData s then DumpAcpiHex (tmem T) (unat (h_Length T Srat)) Srat else [])"

definition srat_fixed :: "acpi_tables \<Rightarrow> srat_view \<Rightarrow> addr \<Rightarrow> out list" where
  "srat_fixed T V Srat =
     [Print ''SRAT address 0x%016lx'' [hxn Srat]] @ DumpAcpiTableHeader T Srat
     @ [Print ''  Table Contents:'' []]
     @ (if h_Revision T Srat < SRAT_3_0_REVISION V
        then [Print ''    TableRevision 0x%08x'' [hx (srat_Reserved1 V Srat)]] else [])
     @ [Print '''' []]"

definition DumpAcpiSRAT :: "acpi_tables \<Rightarrow> srat_view \<Rightarrow> addr \<Rightarrow> acpi_state \<Rightarrow> acpi_state option" where
  "DumpAcpiSRAT T V Srat s =
     (if Srat = NULL then Some s else
      let m = tmem T; Done = [Print ''***'' []] in
      if \<not> mInternalIsAcpiDumpVerb s then Some (display (srat_banner T Srat s @ Done) s)
      else
        (let SratLen = int (unat (h_Length T Srat)) - int (sizeof_SRAT V); TableLen = 0;
             AffinityStructHeader = Srat + sizeof_SRAT V
         in map_option (\<lambda>os. display (os @ Done) s)
              (subtables (\<lambda>p. unat (affinity_Length m p)) (srat_charge m V) (srat_dump m V)
                AffinityStructHeader SratLen TableLen (srat_banner T Srat s @ srat_fixed T V Srat))))"

definition DumpAcpiSRATLibConstructor :: "srat_view \<Rightarrow> acpi_state \<Rightarrow> efi_status \<times> acpi_state" where
  "DumpAcpiSRATLibConstructor V s = RegisterDumpAcpiTable (SRAT_SIGNATURE V) (LibraryDump 1) s"

end
