(* ===== verification/Acpi_Root.thy ===== *)
theory Acpi_Root
  imports Acpi_Func
begin

text \<open>
  \<^verbatim>\<open>AcpiToolPkg/DumpAcpi/DumpACPI.c\<close>: finding the root tables, printing them, and running the
  registered dump function of each table, for all tables or for one signature.  The
  registered functions themselves are the parameter \<open>run\<close>.  \<open>None\<close> is a dereference of a null
  table pointer.
\<close>

section \<open>Operations\<close>

type_synonym runner = "dump_func \<Rightarrow> addr \<Rightarrow> acpi_state \<Rightarrow> acpi_state"

definition lookup_table :: "acpi_tables \<Rightarrow> acpi_guid \<Rightarrow> addr option" where
  "lookup_table T g = map_option snd (find (\<lambda>e. fst e = g) (ConfigurationTable T))"

text \<open>The ACPI 2.0 table, when there is one, replaces the ACPI 1.0 table.\<close>

definition ScanAcpiRSDP :: "acpi_tables \<Rightarrow> acpi_state \<Rightarrow> addr \<times> acpi_state" where
  "ScanAcpiRSDP T s =
     (let Rsdp = (case lookup_table T gEfiAcpiTableGuid of Some p \<Rightarrow> p | None \<Rightarrow> NULL);
          s1 = s\<lparr>mIsAcpi20 := False\<rparr>
      in case lookup_table T gEfiAcpi20Table of
           Some p \<Rightarrow> (p, s1\<lparr>mIsAcpi20 := 2 \<le> r_Revision T p\<rparr>)
         | None \<Rightarrow> (Rsdp, s1))"

definition DumpAcpiRSDP :: "acpi_tables \<Rightarrow> addr \<Rightarrow> acpi_state \<Rightarrow> acpi_state" where
  "DumpAcpiRSDP T p s =
     (if p = NULL then s else
      display
       ([Print ''***Root System Description Pointer***'' []]
        @ (if mIsDumpData s then DumpAcpiHex (tmem T) (if mIsAcpi20 s then 36 else 20) p else [])
        @ (if mIsDumpVerb s then
             [Print ''RSDP address 0x%016lx'' [hxn p],
              Print ''  Signature %c%c%c%c%c%c%c%c'' (map hx (r_SignatureBytes T p)),
              Print ''  Checksum 0x%02x'' [hx (r_Checksum T p)],
              Print ''  OEMID %c%c%c%c%c%c'' (map hx (r_OemId T p))]
             @ (if mIsAcpi20 s then [Print ''  Revision 0x%02x'' [hx (r_Revision T p)]] else [])
             @ [Print ''  RsdtAddress 0x%08x'' [hx (r_RsdtAddress T p)]]
             @ (if mIsAcpi20 s then
                  [Print ''  Length 0x%08x'' [hx (r_Length T p)],
                   Print ''  XsdtAddress 0x%016lx'' [hx (r_XsdtAddress T p)],
                   Print ''  Extended Checksum 0x%02x'' [hx (r_ExtendedChecksum T p)]]
                else [])
           else [])
        @ [Print ''***'' []]) s)"

definition ScanAcpiRSDT :: "acpi_tables \<Rightarrow> addr \<Rightarrow> addr" where
  "ScanAcpiRSDT T Rsdp = (if Rsdp \<noteq> NULL then unat (r_RsdtAddress T Rsdp) else NULL)"

definition ScanAcpiXSDT :: "acpi_tables \<Rightarrow> addr \<Rightarrow> addr" where
  "ScanAcpiXSDT T Rsdp = (if Rsdp \<noteq> NULL then unat (r_XsdtAddress T Rsdp) else NULL)"

text \<open>The entry count of a root table, an unsigned 64-bit difference.\<close>

definition RootEntryCount :: "acpi_tables \<Rightarrow> addr \<Rightarrow> u64 \<Rightarrow> nat" where
  "RootEntryCount T p esize = unat ((ucast (h_Length T p) - of_nat (sizeof_HEADER T)) div esize)"

definition Entry32 :: "acpi_tables \<Rightarrow> addr \<Rightarrow> nat \<Rightarrow> u32" where
  "Entry32 T Rsdt i = rd32 (tmem T) (Rsdt + sizeof_HEADER T + 4 * i)"

definition Entry64 :: "acpi_tables \<Rightarrow> addr \<Rightarrow> nat \<Rightarrow> u64" where
  "Entry64 T Xsdt i = rd64 (tmem T) (Xsdt + sizeof_HEADER T + 8 * i)"

definition DumpAcpiRSDT :: "acpi_tables \<Rightarrow> addr \<Rightarrow> acpi_state \<Rightarrow> acpi_state" where
  "DumpAcpiRSDT T p s =
     (if p = NULL then s else
      display
       ([Print ''***Root System Description Table***'' []]
        @ (if mIsDumpData s then DumpAcpiHex (tmem T) (unat (h_Length T p)) p else [])
        @ (if mIsDumpVerb s then
             [Print ''RSDT address 0x%016lx'' [hxn p]] @ DumpAcpiTableHeader T p
             @ [Print ''  Table Contents:'' []]
             @ map (\<lambda>i. Print ''    Entry %2d: 0x%08x'' [hxn (i + 1), hx (Entry32 T p i)])
                 [0..<RootEntryCount T p 4]
           else [])
        @ [Print ''***'' []]) s)"

definition DumpAcpiXSDT :: "acpi_tables \<Rightarrow> addr \<Rightarrow> acpi_state \<Rightarrow> acpi_state" where
  "DumpAcpiXSDT T p s =
     (if p = NULL then s else
      display
       ([Print ''***Extended System Description Table***'' []]
        @ (if mIsDumpData s then DumpAcpiHex (tmem T) (unat (h_Length T p)) p else [])
        @ (if mIsDumpVerb s then
             [Print ''XSDT address 0x%016lx'' [hxn p]] @ DumpAcpiTableHeader T p
             @ [Print ''  Table Contents:'' []]
             @ map (\<lambda>i. Print ''    Entry %2d: 0x%016lx'' [hxn (i + 1), hx (Entry64 T p i)])
                 [0..<RootEntryCount T p 8]
           else [])
        @ [Print ''***'' []]) s)"

definition DumpAcpiTables :: "acpi_tables \<Rightarrow> addr \<Rightarrow> acpi_state \<Rightarrow> acpi_state" where
  "DumpAcpiTables T p s =
     (if p = NULL then s else
      display
       ([Print ''***'' [], Print ''*         %c%c%c%c Table'' (map hx (h_SignatureBytes T p)), Print ''***'' []]
        @ (if mIsDumpData s then DumpAcpiHex (tmem T) (unat (h_Length T p)) p else [])
        @ (if mIsDumpVerb s then
             [Print ''%c%c%c%c address 0x%016lx'' (map hx (h_SignatureBytes T p) @ [hxn p])]
             @ DumpAcpiTableHeader T p
           else [])
        @ [Print ''***'' []]) s)"

definition DumpSelectAcpiTable :: "acpi_tables \<Rightarrow> runner \<Rightarrow> addr \<Rightarrow> acpi_state \<Rightarrow> acpi_state" where
  "DumpSelectAcpiTable T run p s =
     (case GetDumpAcpiTableFunc s (h_Signature T p) of
        Some f \<Rightarrow> run f p s | None \<Rightarrow> DumpAcpiTables T p s)"

text \<open>The FACS and the DSDT of a FADT: the 64-bit pointers where the table has them.\<close>

definition ScanAcpiFADT :: "acpi_tables \<Rightarrow> addr \<Rightarrow> addr \<times> addr" where
  "ScanAcpiFADT T Fadt =
     (let Extended = FADT_2_0_REVISION T \<le> h_Revision T Fadt in
      (if \<not> Extended then unat (f_FirmwareCtrl T Fadt)
       else if f_XFirmwareCtrl T Fadt = 0 then unat (f_FirmwareCtrl T Fadt)
       else unat (f_XFirmwareCtrl T Fadt),
       if \<not> Extended then unat (f_Dsdt T Fadt)
       else if f_XDsdt T Fadt = 0 then unat (f_Dsdt T Fadt)
       else unat (f_XDsdt T Fadt)))"

text \<open>The loop of \<open>DumpAcpiAllTable\<close> over a root table: entry \<open>i\<close>, with \<open>n\<close> entries left.\<close>

fun all_tables :: "acpi_tables \<Rightarrow> runner \<Rightarrow> (nat \<Rightarrow> addr) \<Rightarrow> nat \<Rightarrow> nat \<Rightarrow> acpi_state \<Rightarrow> acpi_state" where
  "all_tables T run entry i 0 s = s"
| "all_tables T run entry i (Suc n) s =
     (let Table = entry i in
      if Table = NULL then all_tables T run entry (i + 1) n s
      else
        (let s1 = DumpSelectAcpiTable T run Table s;
             s2 = (if h_Signature T Table = SIG_FACP T
                   then (let (SubTable1, SubTable2) = ScanAcpiFADT T Table in
                         run DumpAcpiDSDT SubTable2 (run DumpAcpiFACS SubTable1 s1))
                   else s1)
         in all_tables T run entry (i + 1) n s2))"

definition DumpAcpiAllTable :: "acpi_tables \<Rightarrow> runner \<Rightarrow> acpi_state \<Rightarrow> acpi_state" where
  "DumpAcpiAllTable T run s =
     (let (Rsdp, s1) = ScanAcpiRSDP T s in
      if Rsdp = NULL then s1
      else
        (let s2 = DumpAcpiRSDP T Rsdp s1; Rsdt = ScanAcpiRSDT T Rsdp; s3 = DumpAcpiRSDT T Rsdt s2;
             Xsdt = (if mIsAcpi20 s3 then ScanAcpiXSDT T Rsdp else NULL);
             s4 = (if mIsAcpi20 s3 then DumpAcpiXSDT T Xsdt s3 else s3);
             s5 = (if Xsdt = NULL \<and> Rsdt \<noteq> NULL
                   then all_tables T run (\<lambda>i. unat (Entry32 T Rsdt i)) 0 (RootEntryCount T Rsdt 4) s4 else s4)
         in if Xsdt \<noteq> NULL
            then all_tables T run (\<lambda>i. unat (Entry64 T Xsdt i)) 0 (RootEntryCount T Xsdt 8) s5 else s5))"

text \<open>The loop of \<open>DumpAcpiTableWithSign\<close>, with the FACS and the DSDT recorded so far.\<close>

fun sign_tables ::
  "acpi_tables \<Rightarrow> runner \<Rightarrow> u32 \<Rightarrow> (nat \<Rightarrow> addr) \<Rightarrow> nat \<Rightarrow> nat \<Rightarrow> addr \<times> addr \<times> acpi_state
     \<Rightarrow> (addr \<times> addr \<times> acpi_state) option"
where
  "sign_tables T run sign entry i 0 x = Some x"
| "sign_tables T run sign entry i (Suc n) (SubTable1, SubTable2, s) =
     (let Table = entry i in
      if Table = NULL then None
      else
        (let s1 = (if h_Signature T Table = sign then DumpSelectAcpiTable T run Table s else s);
             (t1, t2) = (if h_Signature T Table = SIG_FACP T then ScanAcpiFADT T Table else (SubTable1, SubTable2))
         in sign_tables T run sign entry (i + 1) n (t1, t2, s1)))"

definition SIGNATURE_32 :: "u8 \<Rightarrow> u8 \<Rightarrow> u8 \<Rightarrow> u8 \<Rightarrow> u32" where
  "SIGNATURE_32 a b c d = ucast a OR push_bit 8 (ucast b) OR push_bit 16 (ucast c) OR push_bit 24 (ucast d)"

definition RSDP_SIGN_DEFINITION :: u32 where
  "RSDP_SIGN_DEFINITION = SIGNATURE_32 0x52 0x53 0x44 0x50"

definition DumpAcpiTableWithSign :: "acpi_tables \<Rightarrow> runner \<Rightarrow> u32 \<Rightarrow> acpi_state \<Rightarrow> acpi_state option" where
  "DumpAcpiTableWithSign T run sign s =
     (let (Rsdp, s1) = ScanAcpiRSDP T s in
      if Rsdp = NULL then Some s1
      else
        (let Rsdt = ScanAcpiRSDT T Rsdp; Xsdt = (if mIsAcpi20 s1 then ScanAcpiXSDT T Rsdp else NULL) in
         if sign = RSDP_SIGN_DEFINITION then Some (DumpAcpiRSDP T Rsdp s1)
         else if sign = SIG_RSDT T then Some (DumpAcpiRSDT T Rsdt s1)
         else if sign = SIG_XSDT T then Some (DumpAcpiXSDT T Xsdt s1)
         else
           map_option
             (\<lambda>(SubTable1, SubTable2, s2).
                if sign = SIG_FACS T then run DumpAcpiFACS SubTable1 s2
                else if sign = SIG_DSDT T then run DumpAcpiDSDT SubTable2 s2 else s2)
             (Option.bind
               (if Xsdt = NULL \<and> Rsdt \<noteq> NULL
                then sign_tables T run sign (\<lambda>i. unat (Entry32 T Rsdt i)) 0 (RootEntryCount T Rsdt 4) (NULL, NULL, s1)
                else Some (NULL, NULL, s1))
               (\<lambda>x. if Xsdt \<noteq> NULL
                  then sign_tables T run sign (\<lambda>i. unat (Entry64 T Xsdt i)) 0 (RootEntryCount T Xsdt 8) x
                  else Some x))))"

definition PrintUsage :: "acpi_state \<Rightarrow> acpi_state" where
  "PrintUsage = display
     [Print (''DumpACPI Version 0.9'' @ ''Copyright (C) Intel Corp 2012. All rights reserved.''
       @ ''Dumps ACPI1.0~ACPI5.0 Table in EFI Shell Environment.''
       @ ''usage: DumpACPI [-d] [-v] [-b] [-s <SIGN>]''
       @ ''  -d    Dumps ACPI Table Raw Data.''
       @ ''  -v    Dumps ACPI Table Verbose Data.''
       @ ''  -s    Dumps ACPI Table with signature being <SIGN>.''
       @ ''        The signature should be defined value in ACPI spec.''
       @ ''        One exception is RSDP, please use RSDP instead of RSD PTR .''
       @ ''  -b    Displays one screen at a time.'') []]"

text \<open>
  The parsed command line.  The value of \<open>-s\<close> is read as an array of characters; the code
  reads four of them without looking for the terminator.
\<close>

record acpi_params =
  flag_help :: bool
  flag_d :: bool
  flag_v :: bool
  value_s :: "(nat \<Rightarrow> u16) option"

datatype cmd_line = PARSE_ERROR efi_status | NO_PACKAGE | PACKAGE acpi_params

definition register_builtin :: "acpi_tables \<Rightarrow> acpi_state \<Rightarrow> acpi_state" where
  "register_builtin T s =
     fold (\<lambda>(k, f) s. snd (RegisterDumpAcpiTable k f s))
       [(SIG_FACP T, DumpAcpiFADT), (SIG_FACS T, DumpAcpiFACS), (SIG_DSDT T, DumpAcpiDSDT),
        (SIG_SSDT T, DumpAcpiSSDT), (SIG_PSDT T, DumpAcpiPSDT)] s"

definition DumpACPIEntryPoint ::
  "acpi_tables \<Rightarrow> runner \<Rightarrow> cmd_line \<Rightarrow> acpi_state \<Rightarrow> (efi_status \<times> acpi_state) option" where
  "DumpACPIEntryPoint T run cmd s0 =
     (let s = register_builtin T s0;
          go = (\<lambda>data verb sign s.
            (let verb' = (if \<not> verb \<and> \<not> data then True else verb);
                 s1 = SetAcpiDumpPropertyDumpVerb verb' (SetAcpiDumpPropertyDumpData data
                        (s\<lparr>mIsDumpData := data, mIsDumpVerb := verb'\<rparr>))
             in case sign of
                  Some g \<Rightarrow> map_option (Pair EFI_SUCCESS) (DumpAcpiTableWithSign T run g s1)
                | None \<Rightarrow> Some (EFI_SUCCESS, DumpAcpiAllTable T run s1)))
      in case cmd of
           PARSE_ERROR Status \<Rightarrow> Some (Status, display [Print ''ERROR: Incorrect command line.'' []] s)
         | NO_PACKAGE \<Rightarrow> go False True None s
         | PACKAGE p \<Rightarrow>
             if flag_help p then Some (EFI_SUCCESS, PrintUsage (s\<lparr>mIsDumpData := False, mIsDumpVerb := False\<rparr>))
             else go (flag_d p) (flag_v p)
                    (map_option (\<lambda>c. SIGNATURE_32 (ucast (c 0)) (ucast (c 1)) (ucast (c 2)) (ucast (c 3))) (value_s p)) s)"

section \<open>Properties\<close>

text \<open>The tables a run works on: those of the XSDT when it is used, else those of the RSDT.\<close>

definition listed_tables :: "acpi_tables \<Rightarrow> bool \<Rightarrow> addr \<Rightarrow> addr list" where
  "listed_tables T acpi20 Rsdp =
     (let Rsdt = ScanAcpiRSDT T Rsdp; Xsdt = (if acpi20 then ScanAcpiXSDT T Rsdp else NULL) in
      if Xsdt \<noteq> NULL then map (\<lambda>i. unat (Entry64 T Xsdt i)) [0..<RootEntryCount T Xsdt 8]
      else if Rsdt \<noteq> NULL then map (\<lambda>i. unat (Entry32 T Rsdt i)) [0..<RootEntryCount T Rsdt 4] else [])"

text \<open>What is done for one table: the table, and after a FADT its FACS and its DSDT.\<close>

definition dump_table :: "acpi_tables \<Rightarrow> runner \<Rightarrow> addr \<Rightarrow> acpi_state \<Rightarrow> acpi_state" where
  "dump_table T run t s =
     (let s1 = DumpSelectAcpiTable T run t s in
      if h_Signature T t = SIG_FACP T
      then run DumpAcpiDSDT (snd (ScanAcpiFADT T t)) (run DumpAcpiFACS (fst (ScanAcpiFADT T t)) s1)
      else s1)"

lemma all_tables_fold:
  "all_tables T run entry i n s = fold (dump_table T run) (filter (\<lambda>t. t \<noteq> NULL) (map entry [i..<i + n])) s"
proof (induction n arbitrary: i s)
  case 0
  show ?case by simp
next
  case (Suc n)
  then show ?case
    by (simp add: upt_conv_Cons dump_table_def Let_def case_prod_beta del: upt_Suc)
qed

lemma display_keeps [simp]:
  "mIsAcpi20 (display os s) = mIsAcpi20 s" "mIsDumpData (display os s) = mIsDumpData s"
  "mIsDumpVerb (display os s) = mIsDumpVerb s"
  "mDumpAcpiTableFuncStruct (display os s) = mDumpAcpiTableFuncStruct s"
  by (simp_all add: display_def)

lemma root_dumps_keep [simp]:
  "mIsAcpi20 (DumpAcpiRSDP T p s) = mIsAcpi20 s" "mIsAcpi20 (DumpAcpiRSDT T p s) = mIsAcpi20 s"
  "mIsAcpi20 (DumpAcpiXSDT T p s) = mIsAcpi20 s"
  by (simp_all add: DumpAcpiRSDP_def DumpAcpiRSDT_def DumpAcpiXSDT_def)

definition dump_roots :: "acpi_tables \<Rightarrow> addr \<Rightarrow> acpi_state \<Rightarrow> acpi_state" where
  "dump_roots T Rsdp s =
     (let s1 = DumpAcpiRSDT T (ScanAcpiRSDT T Rsdp) (DumpAcpiRSDP T Rsdp s) in
      if mIsAcpi20 s then DumpAcpiXSDT T (ScanAcpiXSDT T Rsdp) s1 else s1)"

text \<open>
  Dumping all tables prints the root structures and then dumps every non-null table of the
  XSDT (of the RSDT, when no XSDT is used) once, in table order, each FADT followed by its FACS
  and its DSDT; without a root pointer nothing is printed.
\<close>

theorem DumpAcpiAllTable_order:
  "DumpAcpiAllTable T run s =
     (let (Rsdp, s1) = ScanAcpiRSDP T s in
      if Rsdp = NULL then s1
      else fold (dump_table T run) (filter (\<lambda>t. t \<noteq> NULL) (listed_tables T (mIsAcpi20 s1) Rsdp))
             (dump_roots T Rsdp s1))"
  by (simp add: DumpAcpiAllTable_def listed_tables_def dump_roots_def Let_def all_tables_fold
      split: prod.split)

lemma sign_tables_run:
  assumes "\<forall>t \<in> set (map entry [i..<i + n]). t \<noteq> NULL"
  shows "sign_tables T run sign entry i n (a, b, s) =
     (let ts = map entry [i..<i + n]; fs = filter (\<lambda>t. h_Signature T t = SIG_FACP T) ts;
          (a', b') = (if fs = [] then (a, b) else ScanAcpiFADT T (last fs))
      in Some (a', b', fold (DumpSelectAcpiTable T run) (filter (\<lambda>t. h_Signature T t = sign) ts) s))"
  using assms
proof (induction n arbitrary: i a b s)
  case 0
  show ?case by simp
next
  case (Suc n)
  have split: "[i..<i + Suc n] = i # [Suc i..<Suc i + n]"
    by (simp add: upt_conv_Cons del: upt_Suc)
  from Suc.prems have "\<forall>t \<in> set (map entry [Suc i..<Suc i + n]). t \<noteq> NULL" and t: "entry i \<noteq> NULL"
    unfolding split by simp_all
  note IH = Suc.IH [OF this(1)]
  show ?case
    using t unfolding split
    by (cases "ScanAcpiFADT T (entry i)") (simp add: IH Let_def split: prod.split del: upt_Suc)
qed

text \<open>
  C40: With a signature other than those of the root structures, and no null entry in the root
  table, exactly the tables with that signature are dumped, in table order; for the FACS and
  the DSDT the ones that the last FADT names are dumped in addition.
\<close>

theorem DumpAcpiTableWithSign_selects:
  assumes "ScanAcpiRSDP T s = (Rsdp, s1)" and "Rsdp \<noteq> NULL"
    and "sign \<notin> {RSDP_SIGN_DEFINITION, SIG_RSDT T, SIG_XSDT T}"
    and "NULL \<notin> set (listed_tables T (mIsAcpi20 s1) Rsdp)"
  shows "DumpAcpiTableWithSign T run sign s =
     (let ts = listed_tables T (mIsAcpi20 s1) Rsdp; fs = filter (\<lambda>t. h_Signature T t = SIG_FACP T) ts;
          (facs, dsdt) = (if fs = [] then (NULL, NULL) else ScanAcpiFADT T (last fs));
          s2 = fold (DumpSelectAcpiTable T run) (filter (\<lambda>t. h_Signature T t = sign) ts) s1
      in Some (if sign = SIG_FACS T then run DumpAcpiFACS facs s2
               else if sign = SIG_DSDT T then run DumpAcpiDSDT dsdt s2 else s2))"
proof -
  define Xsdt where "Xsdt = (if mIsAcpi20 s1 then ScanAcpiXSDT T Rsdp else NULL)"
  define Rsdt where "Rsdt = ScanAcpiRSDT T Rsdp"
  have ts: "listed_tables T (mIsAcpi20 s1) Rsdp =
      (if Xsdt \<noteq> NULL then map (\<lambda>i. unat (Entry64 T Xsdt i)) [0..<RootEntryCount T Xsdt 8]
       else if Rsdt \<noteq> NULL then map (\<lambda>i. unat (Entry32 T Rsdt i)) [0..<RootEntryCount T Rsdt 4] else [])"
    by (simp add: listed_tables_def Xsdt_def Rsdt_def Let_def)
  show ?thesis
  proof (cases "Xsdt = NULL \<and> Rsdt = NULL")
    case True
    with assms(1-3) ts show ?thesis
      by (simp add: DumpAcpiTableWithSign_def Xsdt_def [symmetric] Rsdt_def [symmetric])
  next
    case False
    have no_null: "\<forall>t \<in> set (map f [0..<0 + n]). t \<noteq> NULL" if "NULL \<notin> set (map f [0..<n])" for f and n :: nat
      using that by (metis add_0)
    from False assms ts show ?thesis
      by (auto simp: DumpAcpiTableWithSign_def Xsdt_def [symmetric] Rsdt_def [symmetric]
          sign_tables_run [OF no_null] Let_def split: if_splits prod.splits)
  qed
qed

text \<open>
  A null entry in the root table, which a dump of all tables skips, is dereferenced by a
  dump for one signature.
\<close>

theorem DumpAcpiTableWithSign_null:
  assumes "ScanAcpiRSDP T s = (Rsdp, s1)" and "Rsdp \<noteq> NULL"
    and "sign \<notin> {RSDP_SIGN_DEFINITION, SIG_RSDT T, SIG_XSDT T}"
    and "NULL \<in> set (listed_tables T (mIsAcpi20 s1) Rsdp)"
  shows "DumpAcpiTableWithSign T run sign s = None"
proof -
  have none: "sign_tables T run sign entry i n x = None" if "NULL \<in> set (map entry [i..<i + n])" for entry i n x
    using that
  proof (induction n arbitrary: i x)
    case 0
    then show ?case by simp
  next
    case (Suc n)
    have split: "[i..<i + Suc n] = i # [Suc i..<Suc i + n]"
      by (simp add: upt_conv_Cons del: upt_Suc)
    from Suc.prems have "entry i = NULL \<or> NULL \<in> set (map entry [Suc i..<Suc i + n])"
      unfolding split list.map list.set by auto
    with Suc.IH [of "Suc i"] show ?case
      by (cases x) (auto simp: Let_def split: prod.split)
  qed
  have none0: "sign_tables T run sign entry 0 n x = None" if "NULL \<in> entry ` {0..<n}" for entry n x
    using none [of entry 0 n x] that by simp
  from assms show ?thesis
    by (auto simp: DumpAcpiTableWithSign_def listed_tables_def Let_def intro!: none0 split: if_splits)
qed


text \<open>
  A platform with an XSDT at 0x200 whose entries are read from a memory of constant bytes: the
  one table is at 0x0101010101010101, or null.
\<close>

definition sample_tables :: "u8 \<Rightarrow> acpi_tables" where
  "sample_tables b = \<lparr>ConfigurationTable = [(OTHER_GUID 7, 0x80), (gEfiAcpi20Table, 0x100)],
     tmem = (\<lambda>_. b), sizeof_HEADER = 36,
     h_Signature = (\<lambda>_. 0x43495041), h_SignatureBytes = (\<lambda>_. [0x41, 0x50, 0x49, 0x43]),
     h_Length = (\<lambda>_. 44), h_Revision = (\<lambda>_. 1), h_Checksum = (\<lambda>_. 0), h_OemId = (\<lambda>_. replicate 6 0),
     h_OemTableId = (\<lambda>_. replicate 8 0), h_OemRevision = (\<lambda>_. 0), h_CreatorId = (\<lambda>_. replicate 4 0),
     h_CreatorRevision = (\<lambda>_. 0), r_SignatureBytes = (\<lambda>_. replicate 8 0), r_Checksum = (\<lambda>_. 0),
     r_OemId = (\<lambda>_. replicate 6 0), r_Revision = (\<lambda>_. 2), r_RsdtAddress = (\<lambda>_. 0x180), r_Length = (\<lambda>_. 36),
     r_XsdtAddress = (\<lambda>_. 0x200), r_ExtendedChecksum = (\<lambda>_. 0), f_FirmwareCtrl = (\<lambda>_. 0),
     f_XFirmwareCtrl = (\<lambda>_. 0), f_Dsdt = (\<lambda>_. 0), f_XDsdt = (\<lambda>_. 0), FADT_2_0_REVISION = 3,
     SIG_FACP = 0x50434146, SIG_FACS = 0x53434146, SIG_DSDT = 0x54445344, SIG_SSDT = 0x54445353,
     SIG_PSDT = 0x54445350, SIG_RSDT = 0x54445352, SIG_XSDT = 0x54445358,
     g_AddressSpaceId = (\<lambda>_. 0), g_RegisterBitWidth = (\<lambda>_. 0), g_RegisterBitOffset = (\<lambda>_. 0),
     g_AccessSize = (\<lambda>_. 0), g_Address = (\<lambda>_. 0), space_kind = (\<lambda>_. SPACE_OTHER),
     access_kind = (\<lambda>_. ACCESS_OTHER)\<rparr>"

definition empty_acpi :: acpi_state where
  "empty_acpi = \<lparr>mDumpAcpiTableFuncStruct = [], mInternalIsAcpiDumpData = False,
     mInternalIsAcpiDumpVerb = True, mIsAcpi20 = False, mIsDumpData = False, mIsDumpVerb = True, screen = []\<rparr>"

lemma sample_rsdp: "ScanAcpiRSDP (sample_tables b) empty_acpi = (0x100, empty_acpi\<lparr>mIsAcpi20 := True\<rparr>)"
  by (simp add: ScanAcpiRSDP_def lookup_table_def sample_tables_def)

lemma sample_listed:
  "listed_tables (sample_tables b) True 0x100 = [unat (rd64 (\<lambda>_. b) (0x200 + 36))]"
proof -
  have "RootEntryCount (sample_tables b) 0x200 8 = 1"
    by (simp add: RootEntryCount_def sample_tables_def)
  then show ?thesis
    by (simp add: listed_tables_def ScanAcpiXSDT_def) (simp add: sample_tables_def Entry64_def)
qed

lemma rd64_const: "unat (rd64 (\<lambda>_. 0) p) = 0" "unat (rd64 (\<lambda>_. 1) p) = 0x0101010101010101"
proof -
  have "bytes_at (\<lambda>_. b) p 8 = [b, b, b, b, b, b, b, b]" for b
    by (simp add: bytes_at_def upt_rec)
  then show "unat (rd64 (\<lambda>_. 0) p) = 0" "unat (rd64 (\<lambda>_. 1) p) = 0x0101010101010101"
    by (simp_all add: rd64_def rd_def)
qed

lemma sample_sign: "0x43495041 \<notin> {RSDP_SIGN_DEFINITION, SIG_RSDT (sample_tables b), SIG_XSDT (sample_tables b)}"
  by (simp add: RSDP_SIGN_DEFINITION_def SIGNATURE_32_def sample_tables_def)

definition sample_run :: runner where
  "sample_run f p = display [Print ''run'' [hxn p]]"

theorem DumpAcpiTableWithSign_selects_witness:
  "DumpAcpiTableWithSign (sample_tables 1) sample_run 0x43495041 empty_acpi
     = Some (DumpSelectAcpiTable (sample_tables 1) sample_run 0x0101010101010101 (empty_acpi\<lparr>mIsAcpi20 := True\<rparr>))"
proof -
  have "NULL \<notin> set (listed_tables (sample_tables 1) (mIsAcpi20 (empty_acpi\<lparr>mIsAcpi20 := True\<rparr>)) 0x100)"
    by (simp add: sample_listed rd64_const)
  from DumpAcpiTableWithSign_selects [OF sample_rsdp _ sample_sign this, of sample_run] show ?thesis
    by (simp add: sample_listed rd64_const) (simp add: sample_tables_def)
qed

theorem DumpAcpiTableWithSign_null_witness:
  "DumpAcpiTableWithSign (sample_tables 0) sample_run 0x43495041 empty_acpi = None"
  by (rule DumpAcpiTableWithSign_null [OF sample_rsdp _ sample_sign]) (simp_all add: sample_listed rd64_const)

end
