(* ===== verification/Acpi_Affinity_Props.thy ===== *)
theory Acpi_Affinity_Props
  imports Acpi_Madt Acpi_Srat Acpi_Root
begin

text \<open>
  Properties of the MADT and SRAT dumps: what they print on tables they understand, when they
  return, and what the unknown types do to the loop.
\<close>

section \<open>The contract between tables and loops\<close>

text \<open>A structure the code understands: a named type and, where the type fixes it, the length.\<close>

definition madt_good :: "mem \<Rightarrow> madt_view \<Rightarrow> addr \<Rightarrow> bool" where
  "madt_good m V p \<longleftrightarrow>
     (let k = apic_kind V (apic_Type m p) in
      k \<noteq> APIC_OTHER
      \<and> (k \<in> {GIC, GICD, GIC_MSI_FRAME, GICR} \<or> unat (apic_Length m p) = apic_sizeof V k))"

definition srat_good :: "mem \<Rightarrow> srat_view \<Rightarrow> addr \<Rightarrow> bool" where
  "srat_good m V p \<longleftrightarrow>
     (let k = affinity_kind V (affinity_Type m p) in
      k \<noteq> AFFINITY_OTHER \<and> unat (affinity_Length m p) = affinity_sizeof V k)"

interpretation madt_loop: subtable_loop "\<lambda>p. unat (apic_Length m p)" "madt_charge m V" "madt_dump m V"
  "madt_good m V" "\<lambda>p. apic_kind V (apic_Type m p) \<noteq> APIC_OTHER" for m V
  by unfold_locales (auto simp: madt_charge_def madt_good_def madt_dump_def Let_def)

interpretation srat_loop: subtable_loop "\<lambda>p. unat (affinity_Length m p)" "srat_charge m V" "srat_dump m V"
  "srat_good m V" "\<lambda>p. affinity_kind V (affinity_Type m p) \<noteq> AFFINITY_OTHER" for m V
  by unfold_locales (auto simp: srat_charge_def srat_good_def srat_dump_def Let_def)

lemma chain_table:
  "chain len (base + L) (base + h) qs \<Longrightarrow> chain len (base + h + nat (int L - int h)) (base + h) qs"
proof (cases "h \<le> L")
  case True
  then have "base + h + nat (int L - int h) = base + L" by simp
  then show "chain len (base + L) (base + h) qs \<Longrightarrow> ?thesis" by (simp only:)
next
  case False
  then show "chain len (base + L) (base + h) qs \<Longrightarrow> ?thesis" by (cases qs) auto
qed

section \<open>The MADT\<close>

text \<open>
  C39: On a MADT whose structures fill the table, with types the code knows and the lengths it
  expects of them, the verbose dump prints the fixed part and then every structure once, in
  table order.
\<close>

theorem DumpAcpiMADT_complete:
  assumes "Madt \<noteq> NULL" and "mInternalIsAcpiDumpVerb s"
    and "chain (\<lambda>p. unat (apic_Length (tmem T) p)) (Madt + unat (h_Length T Madt)) (Madt + sizeof_MADT V) qs"
    and "\<forall>q \<in> set qs. madt_good (tmem T) V q"
  shows "DumpAcpiMADT T V Madt s =
     Some (display (madt_banner T Madt s @ madt_fixed T V Madt
       @ concat (map (madt_dump (tmem T) V) qs) @ [Print ''***'' []]) s)"
  using assms(1,2) madt_loop.prints_all [OF chain_table [OF assms(3)] assms(4)]
  by (simp add: DumpAcpiMADT_def Let_def)

text \<open>
  The MADT dump returns whenever the first structure is of a type the code knows and no
  known type is charged a length of zero, whatever the lengths in the table are.
\<close>

theorem DumpAcpiMADT_returns:
  assumes "apic_kind V (apic_Type (tmem T) (Madt + sizeof_MADT V)) \<noteq> APIC_OTHER"
    and "\<And>q l. madt_charge (tmem T) V q = Some l \<Longrightarrow> 0 < l"
  shows "DumpAcpiMADT T V Madt s \<noteq> None"
proof -
  have "subtables (\<lambda>p. unat (apic_Length (tmem T) p)) (madt_charge (tmem T) V) (madt_dump (tmem T) V)
      (Madt + sizeof_MADT V) n 0 os \<noteq> None" for n os
    using assms by (intro madt_loop.returns) auto
  then show ?thesis by (simp add: DumpAcpiMADT_def Let_def)
qed

text \<open>
  A MADT that starts with a structure of an unknown type is overrun by the length of that
  structure: the dump prints all structures up to that many bytes after the end of the table.
\<close>

theorem DumpAcpiMADT_overrun:
  assumes "Madt \<noteq> NULL" and "mInternalIsAcpiDumpVerb s" and "sizeof_MADT V < unat (h_Length T Madt)"
    and "apic_kind V (apic_Type (tmem T) (Madt + sizeof_MADT V)) = APIC_OTHER"
    and "L = unat (apic_Length (tmem T) (Madt + sizeof_MADT V))"
    and "chain (\<lambda>p. unat (apic_Length (tmem T) p)) (Madt + unat (h_Length T Madt) + L)
           (Madt + sizeof_MADT V + L) qs"
    and "\<forall>q \<in> set qs. madt_good (tmem T) V q"
  shows "DumpAcpiMADT T V Madt s =
     Some (display (madt_banner T Madt s @ madt_fixed T V Madt
       @ concat (map (madt_dump (tmem T) V) qs) @ [Print ''***'' []]) s)"
proof -
  let ?n = "int (unat (h_Length T Madt)) - int (sizeof_MADT V)"
  have "nat ?n = unat (h_Length T Madt) - sizeof_MADT V" by (simp only: nat_minus_as_int nat_int)
  with assms(3) have "Madt + sizeof_MADT V + L + nat ?n = Madt + unat (h_Length T Madt) + L" by simp
  with assms(6) have ch: "chain (\<lambda>p. unat (apic_Length (tmem T) p)) (Madt + sizeof_MADT V + L + nat ?n)
      (Madt + sizeof_MADT V + L) qs" by (simp only:)
  have "0 < ?n" using assms(3) by linarith
  from madt_loop.unknown_first_extends [OF this _ ch [unfolded assms(5)] assms(7)] assms(1,2,4)
  show ?thesis by (simp add: DumpAcpiMADT_def Let_def)
qed

text \<open>
  The verbose dump of a MADT whose first structure has an unknown type and a length of zero
  does not return.
\<close>

theorem DumpAcpiMADT_hangs:
  assumes "Madt \<noteq> NULL" and "mInternalIsAcpiDumpVerb s" and "sizeof_MADT V < unat (h_Length T Madt)"
    and "apic_kind V (apic_Type (tmem T) (Madt + sizeof_MADT V)) = APIC_OTHER"
    and "apic_Length (tmem T) (Madt + sizeof_MADT V) = 0"
  shows "DumpAcpiMADT T V Madt s = None"
proof -
  have "0 < int (unat (h_Length T Madt)) - int (sizeof_MADT V)" using assms(3) by linarith
  from madt_loop.unknown_stuck [OF _ _ this] assms show ?thesis
    by (simp add: DumpAcpiMADT_def Let_def)
qed

section \<open>The SRAT\<close>

text \<open>
  On an SRAT of processor and memory affinity structures with the lengths of ACPI 3.0 the
  verbose dump prints the fixed part and every structure once, in table order.
\<close>

theorem DumpAcpiSRAT_complete:
  assumes "Srat \<noteq> NULL" and "mInternalIsAcpiDumpVerb s"
    and "chain (\<lambda>p. unat (affinity_Length (tmem T) p)) (Srat + unat (h_Length T Srat)) (Srat + sizeof_SRAT V) qs"
    and "\<forall>q \<in> set qs. srat_good (tmem T) V q"
  shows "DumpAcpiSRAT T V Srat s =
     Some (display (srat_banner T Srat s @ srat_fixed T V Srat
       @ concat (map (srat_dump (tmem T) V) qs) @ [Print ''***'' []]) s)"
  using assms(1,2) srat_loop.prints_all [OF chain_table [OF assms(3)] assms(4)]
  by (simp add: DumpAcpiSRAT_def Let_def)

text \<open>
  Structures of a later ACPI version make the SRAT dump stop early: after a known structure
  of \<open>a\<close> bytes, \<open>k\<close> unknown ones count as \<open>a\<close> bytes each, so when these \<open>(k + 1) * a\<close> bytes
  reach the length of the table, nothing that follows them is printed.
\<close>

theorem DumpAcpiSRAT_stops_early:
  assumes "Srat \<noteq> NULL" and "mInternalIsAcpiDumpVerb s"
    and "chain (\<lambda>p. unat (affinity_Length (tmem T) p)) (Srat + unat (h_Length T Srat)) (Srat + sizeof_SRAT V)
           (q # us @ rs)"
    and "srat_good (tmem T) V q" and "a = unat (affinity_Length (tmem T) q)"
    and "\<forall>u \<in> set us. affinity_kind V (affinity_Type (tmem T) u) = AFFINITY_OTHER"
    and "sizeof_SRAT V + length us * a < unat (h_Length T Srat)"
    and "unat (h_Length T Srat) \<le> sizeof_SRAT V + (length us + 1) * a"
  shows "DumpAcpiSRAT T V Srat s =
     Some (display (srat_banner T Srat s @ srat_fixed T V Srat
       @ srat_dump (tmem T) V q @ [Print ''***'' []]) s)"
proof -
  let ?n = "int (unat (h_Length T Srat)) - int (sizeof_SRAT V)"
    and ?loop = "subtables (\<lambda>p. unat (affinity_Length (tmem T) p)) (srat_charge (tmem T) V) (srat_dump (tmem T) V)"
  let ?os = "srat_banner T Srat s @ srat_fixed T V Srat"
  have q: "q = Srat + sizeof_SRAT V"
    and rest: "chain (\<lambda>p. unat (affinity_Length (tmem T) p)) (Srat + unat (h_Length T Srat)) (q + a) (us @ rs)"
    using assms(3,5) by auto
  have n: "int (length us) * int a < ?n" "?n \<le> int (length us) * int a + int a"
    using assms(7,8) of_nat_less_iff [of "sizeof_SRAT V + length us * a" "unat (h_Length T Srat)", where 'a = int]
      of_nat_le_iff [of "unat (h_Length T Srat)" "sizeof_SRAT V + (length us + 1) * a", where 'a = int]
    by (simp_all add: algebra_simps)
  have "0 < ?n" using n(1) mult_nonneg_nonneg [of "int (length us)" "int a"] by linarith
  with srat_loop.good_charge [OF assms(4)]
  have "?loop q ?n 0 ?os = ?loop (q + a) (?n - int a) a (?os @ srat_dump (tmem T) V q)"
    using assms(5) by (simp add: subtables_known)
  also have "\<dots> = ?loop (q + a + sum_list (map (\<lambda>p. unat (affinity_Length (tmem T) p)) us))
      (?n - int a - int (length us) * int a) a (?os @ srat_dump (tmem T) V q)"
    using n(1) assms(6) by (intro srat_loop.unknown_run [OF rest]) simp_all
  also have "\<dots> = Some (?os @ srat_dump (tmem T) V q)"
    using n(2) by simp
  finally show ?thesis
    using assms(1,2) by (simp add: DumpAcpiSRAT_def Let_def q)
qed

section \<open>Sample tables\<close>

text \<open>
  A table at 0x1000 of \<open>n\<close> bytes; of the memory only the bytes that matter are not zero.  The
  type numbers and sizes are those of the ACPI specification.
\<close>

definition table_at_1000 :: "mem \<Rightarrow> u32 \<Rightarrow> acpi_tables" where
  "table_at_1000 m n = (sample_tables 0)\<lparr>tmem := m, h_Length := (\<lambda>_. n)\<rparr>"

definition sample_madt :: madt_view where
  "sample_madt = \<lparr>APIC_SIGNATURE = 0x43495041, madt_LocalApicAddress = (\<lambda>_. 0xfee00000),
     madt_Flags = (\<lambda>_. 1), sizeof_MADT = 44,
     apic_kind = (\<lambda>t. if t = 0 then PROCESSOR_LOCAL_APIC else if t = 1 then IO_APIC else APIC_OTHER),
     apic_sizeof = (\<lambda>k. if k = IO_APIC then 12 else 8),
     local_apic_at = (\<lambda>_. \<lparr>la_AcpiProcessorId = 0, la_ApicId = 0, la_Flags = 1\<rparr>),
     io_apic_at = (\<lambda>_. \<lparr>io_IoApicId = 0, io_IoApicAddress = 0xfec00000, io_SystemVectorBase = 0\<rparr>),
     source_override_at = undefined, nmi_source_at = undefined, local_nmi_at = undefined,
     address_override_at = undefined, io_sapic_at = undefined, local_sapic_at = undefined,
     platform_source_at = undefined, local_x2apic_at = undefined, x2apic_nmi_at = undefined,
     gic_at = undefined, gic_distributor_at = undefined, gic_msi_frame_at = undefined,
     gic_redistributor_at = undefined, PCAT_COMPAT = 1, LOCAL_APIC_ENABLED_1_0 = 1,
     LOCAL_APIC_ENABLED_2_0 = 1, GIC_ENABLED = 1, PERFORMANCE_INTERRUPT_MODEL = 2,
     VGIC_MAINTENANCE_INTERRUPT_MODE_FLAGS = 4, SPI_COUNT_BASE_SELECT = 1\<rparr>"

definition sample_srat :: srat_view where
  "sample_srat = \<lparr>SRAT_SIGNATURE = 0x54415253, SRAT_3_0_REVISION = 2, srat_Reserved1 = (\<lambda>_. 1),
     sizeof_SRAT = 48,
     affinity_kind = (\<lambda>t. if t = 0 then PROCESSOR_LOCAL_APIC_SAPIC_AFFINITY
                          else if t = 1 then MEMORY_AFFINITY else AFFINITY_OTHER),
     affinity_sizeof = (\<lambda>k. if k = MEMORY_AFFINITY then 40 else 16),
     processor_affinity_at = undefined, memory_affinity_at = undefined,
     LOCAL_APIC_SAPIC_ENABLED = 1, MEMORY_ENABLED = 1, MEMORY_HOT_PLUGGABLE = 2, MEMORY_NONVOLATILE = 4\<rparr>"

lemma table_at_1000_simps [simp]:
  "tmem (table_at_1000 m n) = m" "h_Length (table_at_1000 m n) p = n"
  by (simp_all add: table_at_1000_def)

lemma sample_madt_simps [simp]:
  "sizeof_MADT sample_madt = 44"
  "apic_kind sample_madt t = (if t = 0 then PROCESSOR_LOCAL_APIC else if t = 1 then IO_APIC else APIC_OTHER)"
  "apic_sizeof sample_madt k = (if k = IO_APIC then 12 else 8)"
  by (simp_all add: sample_madt_def)

lemma sample_srat_simps [simp]:
  "sizeof_SRAT sample_srat = 48"
  "affinity_kind sample_srat t = (if t = 0 then PROCESSOR_LOCAL_APIC_SAPIC_AFFINITY
     else if t = 1 then MEMORY_AFFINITY else AFFINITY_OTHER)"
  "affinity_sizeof sample_srat k = (if k = MEMORY_AFFINITY then 40 else 16)"
  by (simp_all add: sample_srat_def)

lemma empty_acpi_verb [simp]: "mInternalIsAcpiDumpVerb empty_acpi"
  by (simp add: empty_acpi_def)

text \<open>A local APIC and an I/O APIC.\<close>

definition two_apics :: mem where
  "two_apics = (\<lambda>_. 0)(0x102d := 8, 0x1034 := 1, 0x1035 := 12)"

theorem DumpAcpiMADT_complete_witness:
  "DumpAcpiMADT (table_at_1000 two_apics 64) sample_madt 0x1000 empty_acpi =
     Some (display (madt_banner (table_at_1000 two_apics 64) 0x1000 empty_acpi
       @ madt_fixed (table_at_1000 two_apics 64) sample_madt 0x1000
       @ DumpApicProcessorLocalApic two_apics sample_madt 0x102c
       @ DumpApicIOApic two_apics sample_madt 0x1034 @ [Print ''***'' []]) empty_acpi)"
  using DumpAcpiMADT_complete [of "0x1000" empty_acpi "table_at_1000 two_apics 64" sample_madt
      "[0x102c, 0x1034]"]
  by (simp add: two_apics_def apic_Length_def apic_Type_def madt_good_def madt_dump_def)

theorem DumpAcpiMADT_returns_witness:
  "DumpAcpiMADT (table_at_1000 (\<lambda>_. 0) 64) sample_madt 0x1000 empty_acpi \<noteq> None"
  by (rule DumpAcpiMADT_returns)
    (auto simp: apic_Type_def madt_charge_def Let_def split: if_splits)

text \<open>A structure of type 0x7f, then a local APIC; the second local APIC is after the table.\<close>

definition unknown_apic :: mem where
  "unknown_apic = (\<lambda>_. 0)(0x102c := 0x7f, 0x102d := 8, 0x1035 := 8, 0x103d := 8)"

theorem DumpAcpiMADT_overrun_witness:
  "DumpAcpiMADT (table_at_1000 unknown_apic 60) sample_madt 0x1000 empty_acpi =
     Some (display (madt_banner (table_at_1000 unknown_apic 60) 0x1000 empty_acpi
       @ madt_fixed (table_at_1000 unknown_apic 60) sample_madt 0x1000
       @ DumpApicProcessorLocalApic unknown_apic sample_madt 0x1034
       @ DumpApicProcessorLocalApic unknown_apic sample_madt 0x103c @ [Print ''***'' []]) empty_acpi)"
proof -
  have reads: "apic_Type unknown_apic 0x102c = 0x7f" "apic_Length unknown_apic 0x102c = 8"
    "apic_Type unknown_apic 0x1034 = 0" "apic_Length unknown_apic 0x1034 = 8"
    "apic_Type unknown_apic 0x103c = 0" "apic_Length unknown_apic 0x103c = 8"
    by (simp_all add: apic_Type_def apic_Length_def unknown_apic_def)
  have good: "\<forall>q \<in> set [0x1034, 0x103c]. madt_good (tmem (table_at_1000 unknown_apic 60)) sample_madt q"
    by (simp add: madt_good_def reads)
  have "chain (\<lambda>p. unat (apic_Length unknown_apic p)) (0x1000 + 60 + 8) (0x1000 + 44 + 8) [0x1034, 0x103c]"
    by (simp add: reads)
  then have ch: "chain (\<lambda>p. unat (apic_Length (tmem (table_at_1000 unknown_apic 60)) p))
      (0x1000 + unat (h_Length (table_at_1000 unknown_apic 60) 0x1000) + 8)
      (0x1000 + sizeof_MADT sample_madt + 8) [0x1034, 0x103c]"
    by (simp add: reads)
  have first: "apic_kind sample_madt (apic_Type (tmem (table_at_1000 unknown_apic 60)) (0x1000 + sizeof_MADT sample_madt)) = APIC_OTHER"
    "8 = unat (apic_Length (tmem (table_at_1000 unknown_apic 60)) (0x1000 + sizeof_MADT sample_madt))"
    by (simp_all add: reads)
  have dumps: "concat (map (madt_dump (tmem (table_at_1000 unknown_apic 60)) sample_madt) [0x1034, 0x103c])
      = DumpApicProcessorLocalApic unknown_apic sample_madt 0x1034 @ DumpApicProcessorLocalApic unknown_apic sample_madt 0x103c"
    by (simp add: reads madt_dump_def)
  have "sizeof_MADT sample_madt < unat (h_Length (table_at_1000 unknown_apic 60) 0x1000)" by simp
  from DumpAcpiMADT_overrun [OF _ empty_acpi_verb this first ch good] show ?thesis
    by (simp only: dumps append_assoc)
qed

theorem DumpAcpiMADT_hangs_witness:
  "DumpAcpiMADT (table_at_1000 ((\<lambda>_. 0)(0x102c := 0x7f)) 64) sample_madt 0x1000 empty_acpi = None"
  by (rule DumpAcpiMADT_hangs) (simp_all add: apic_Type_def apic_Length_def)

text \<open>A memory affinity structure; the same, followed by three structures of type 2 (24 bytes) and another one.\<close>

theorem DumpAcpiSRAT_complete_witness:
  "DumpAcpiSRAT (table_at_1000 ((\<lambda>_. 0)(0x1030 := 1, 0x1031 := 40)) 88) sample_srat 0x1000 empty_acpi =
     Some (display (srat_banner (table_at_1000 ((\<lambda>_. 0)(0x1030 := 1, 0x1031 := 40)) 88) 0x1000 empty_acpi
       @ srat_fixed (table_at_1000 ((\<lambda>_. 0)(0x1030 := 1, 0x1031 := 40)) 88) sample_srat 0x1000
       @ DumpAcpiMemoryAffinity ((\<lambda>_. 0)(0x1030 := 1, 0x1031 := 40)) sample_srat 0x1030
       @ [Print ''***'' []]) empty_acpi)"
  using DumpAcpiSRAT_complete [of "0x1000" empty_acpi "table_at_1000 ((\<lambda>_. 0)(0x1030 := 1, 0x1031 := 40)) 88"
      sample_srat "[0x1030]"]
  by (simp add: affinity_Length_def affinity_Type_def srat_good_def srat_dump_def)

definition x2apic_affinities :: mem where
  "x2apic_affinities = (\<lambda>_. 0)(0x1030 := 1, 0x1031 := 40, 0x1058 := 2, 0x1059 := 24, 0x1070 := 2, 0x1071 := 24,
     0x1088 := 2, 0x1089 := 24, 0x10a0 := 1, 0x10a1 := 40)"

theorem DumpAcpiSRAT_stops_early_witness:
  "DumpAcpiSRAT (table_at_1000 x2apic_affinities 200) sample_srat 0x1000 empty_acpi =
     Some (display (srat_banner (table_at_1000 x2apic_affinities 200) 0x1000 empty_acpi
       @ srat_fixed (table_at_1000 x2apic_affinities 200) sample_srat 0x1000
       @ DumpAcpiMemoryAffinity x2apic_affinities sample_srat 0x1030 @ [Print ''***'' []]) empty_acpi)"
proof -
  have reads: "affinity_Type x2apic_affinities 0x1030 = 1" "affinity_Length x2apic_affinities 0x1030 = 40"
    "affinity_Type x2apic_affinities 0x1058 = 2" "affinity_Length x2apic_affinities 0x1058 = 24"
    "affinity_Type x2apic_affinities 0x1070 = 2" "affinity_Length x2apic_affinities 0x1070 = 24"
    "affinity_Type x2apic_affinities 0x1088 = 2" "affinity_Length x2apic_affinities 0x1088 = 24"
    "affinity_Length x2apic_affinities 0x10a0 = 40"
    by (simp_all add: affinity_Type_def affinity_Length_def x2apic_affinities_def)
  have "chain (\<lambda>p. unat (affinity_Length x2apic_affinities p)) (0x1000 + 200) (0x1000 + 48)
      (0x1030 # [0x1058, 0x1070, 0x1088] @ [0x10a0])"
    by (simp add: reads)
  then have ch: "chain (\<lambda>p. unat (affinity_Length (tmem (table_at_1000 x2apic_affinities 200)) p))
      (0x1000 + unat (h_Length (table_at_1000 x2apic_affinities 200) 0x1000))
      (0x1000 + sizeof_SRAT sample_srat) (0x1030 # [0x1058, 0x1070, 0x1088] @ [0x10a0])"
    by (simp add: reads)
  have good: "srat_good (tmem (table_at_1000 x2apic_affinities 200)) sample_srat 0x1030"
    by (simp add: srat_good_def reads)
  have "\<forall>u \<in> set [0x1058, 0x1070, 0x1088].
      affinity_kind sample_srat (affinity_Type (tmem (table_at_1000 x2apic_affinities 200)) u) = AFFINITY_OTHER"
    by (simp add: reads)
  from DumpAcpiSRAT_stops_early [where s = empty_acpi, OF _ _ ch good refl this] show ?thesis
    by (simp add: reads srat_dump_def)
qed

end
