(* ===== verification/Tcg_Env.thy ===== *)
theory Tcg_Env
  imports Walks
begin

text \<open>
  The surroundings of \<^verbatim>\<open>AppSrc/Tcg2DumpLog/Tcg2DumpLog.c\<close>.  The event log is read from raw
  memory: the offsets and sizes of the packed TCG structures are parameters (\<open>tcg_layout\<close>), and
  the fields of the structures inside the event data, which are only printed, are functions of
  the address (\<open>event_data_view\<close>).  Hash functions, the TPM and the shell are parameters too.
\<close>

section \<open>Layout of the event log\<close>

text \<open>
  \<open>o_h\<close>: \<open>TCG_PCR_EVENT_HDR\<close>; \<open>o_2\<close>: \<open>TCG_PCR_EVENT2\<close>; \<open>o_s\<close>: \<open>TCG_EfiSpecIDEventStruct\<close>;
  \<open>o_a\<close>: \<open>TCG_EfiSpecIdEventAlgorithmSize\<close>; \<open>o_f\<close>: \<open>EFI_TCG2_FINAL_EVENTS_TABLE\<close>.
\<close>

record tcg_layout =
  log_mem :: mem
  sizeof_PCR_EVENT_HDR :: nat
  sizeof_TCG_DIGEST :: nat
  o_h_PCRIndex :: nat
  o_h_EventType :: nat
  o_h_Digest :: nat
  o_h_EventSize :: nat
  o_2_PCRIndex :: nat
  o_2_EventType :: nat
  o_2_Digest_count :: nat
  o_2_Digest_hashAlg :: nat
  o_2_Digest_digest :: nat
  sizeof_SpecIDEventStruct :: nat
  sizeof_signature :: nat
  o_s_platformClass :: nat
  o_s_specVersionMajor :: nat
  o_s_specVersionMinor :: nat
  o_s_specErrata :: nat
  o_s_uintnSize :: nat
  sizeof_AlgorithmSize :: nat
  o_a_algorithmId :: nat
  o_a_digestSize :: nat
  sizeof_FINAL_EVENTS_TABLE :: nat
  o_f_Version :: nat
  o_f_NumberOfEvents :: nat
  sizeof_TPMU_HA :: nat

section \<open>Event data\<close>

text \<open>
  The event types that the code takes from the TCG headers; the values it writes as numbers are
  not among them.
\<close>

datatype event_kind =
    EV_POST_CODE | EV_SEPARATOR | EV_S_CRTM_VERSION
  | EV_EFI_VARIABLE_DRIVER_CONFIG | EV_EFI_VARIABLE_BOOT
  | EV_EFI_BOOT_SERVICES_APPLICATION | EV_EFI_BOOT_SERVICES_DRIVER | EV_EFI_RUNTIME_SERVICES_DRIVER
  | EV_EFI_ACTION | EV_EFI_PLATFORM_FIRMWARE_BLOB | EV_EFI_PLATFORM_FIRMWARE_BLOB2
  | EV_EFI_HANDOFF_TABLES | EV_EFI_HANDOFF_TABLES2
  | EV_EFI_SPDM_FIRMWARE_BLOB | EV_EFI_SPDM_FIRMWARE_CONFIG | EV_OTHER

datatype spdm_device = DEVICE_TYPE_NULL | DEVICE_TYPE_PCI | DEVICE_TYPE_USB | DEVICE_TYPE_OTHER

record event_data_view = tcg_layout +
  event_kind_of :: "u32 \<Rightarrow> event_kind"
  AsciiText :: "addr \<Rightarrow> string"
  DevicePathText :: "addr \<Rightarrow> string"
  sizeof_Sp800_155 :: nat
  SIGNATURE_Sp800_155 :: "u8 list"
  sp_Signature :: "addr \<Rightarrow> u8 list"
  sp_VendorId :: "addr \<Rightarrow> u32"
  sp_ReferenceManifestGuid :: "addr \<Rightarrow> u8 list"
  sizeof_StartupLocality :: nat
  SIGNATURE_StartupLocality :: "u8 list"
  sl_Signature :: "addr \<Rightarrow> u8 list"
  sl_StartupLocality :: "addr \<Rightarrow> u8"
  SIGNATURE_SpecID_03 :: "u8 list"
  SIGNATURE_SpecID_02 :: "u8 list"
  var_VariableName :: "addr \<Rightarrow> u8 list"
  var_UnicodeNameLength :: "addr \<Rightarrow> u64"
  var_VariableDataLength :: "addr \<Rightarrow> u64"
  o_var_UnicodeName :: nat
  img_LocationInMemory :: "addr \<Rightarrow> u64"
  img_LengthInMemory :: "addr \<Rightarrow> u64"
  img_LinkTimeAddress :: "addr \<Rightarrow> u64"
  img_LengthOfDevicePath :: "addr \<Rightarrow> u64"
  o_img_DevicePath :: nat
  blob_BlobBase :: "addr \<Rightarrow> u64"
  blob_BlobLength :: "addr \<Rightarrow> u64"
  blob2_DescriptionSize :: "addr \<Rightarrow> u8"
  sizeof_blob2_DescriptionSize :: nat
  ho_NumberOfTables :: "addr \<Rightarrow> u64"
  ho_VendorGuid :: "addr \<Rightarrow> nat \<Rightarrow> u8 list"
  ho_VendorTable :: "addr \<Rightarrow> nat \<Rightarrow> u64"
  ho2_DescriptionSize :: "addr \<Rightarrow> u8"
  sizeof_ho2_DescriptionSize :: nat
  sizeof_SecurityHeader :: nat
  sec_Signature :: "addr \<Rightarrow> u8 list"
  sec_Version :: "addr \<Rightarrow> u16"
  sec_Length :: "addr \<Rightarrow> u16"
  sec_SpdmHashAlgo :: "addr \<Rightarrow> u32"
  sec_DeviceType :: "addr \<Rightarrow> u32"
  spdm_device_of :: "u32 \<Rightarrow> spdm_device"
  sizeof_BlockCommonHeader :: nat
  blk_Index :: "addr \<Rightarrow> u8"
  blk_MeasurementSpecification :: "addr \<Rightarrow> u8"
  blk_MeasurementSize :: "addr \<Rightarrow> u16"
  sizeof_BlockDmtfHeader :: nat
  dmtf_ValueType :: "addr \<Rightarrow> u8"
  dmtf_ValueSize :: "addr \<Rightarrow> u16"
  ctx_Version :: "addr \<Rightarrow> u16"
  ctx_Length :: "addr \<Rightarrow> u16"
  ctx_VendorId :: "addr \<Rightarrow> u16"
  ctx_DeviceId :: "addr \<Rightarrow> u16"
  ctx_RevisionID :: "addr \<Rightarrow> u8"
  ctx_ClassCode :: "addr \<Rightarrow> u8 \<times> u8 \<times> u8"
  ctx_SubsystemVendorID :: "addr \<Rightarrow> u16"
  ctx_SubsystemID :: "addr \<Rightarrow> u16"

section \<open>Hashes, TPM, protocol and shell\<close>

text \<open>
  \<open>hash alg bytes\<close>: the digest that \<open>Init\<close>, \<open>Update\<close> and \<open>Final\<close> of BaseCryptLib compute;
  \<open>alloc_context\<close>: whether the allocation of the hash context succeeds, by the address of the
  digest that is to be extended.  A log format is its bit in \<open>LogFormat\<close>.
\<close>

datatype log_format = TCG_1_2 | TCG_2

record tcg2_capability =
  cap_Size :: u8
  cap_StructureVersion :: "u8 \<times> u8"
  cap_ProtocolVersion :: "u8 \<times> u8"
  cap_HashAlgorithmBitmap :: u32
  cap_SupportedEventLogs :: u32
  cap_TPMPresentFlag :: u8
  cap_MaxCommandSize :: u16
  cap_MaxResponseSize :: u16
  cap_ManufacturerID :: u32
  cap_NumberOfPCRBanks :: u32
  cap_ActivePcrBanks :: u32

record tcg_env = event_data_view +
  TPM_ALG_SHA1 :: u16
  TPM_ALG_SHA256 :: u16
  GetHashSizeFromAlgo :: "u16 \<Rightarrow> u16"
  hash :: "u16 \<Rightarrow> u8 list \<Rightarrow> u8 list"
  alloc_context :: "addr \<Rightarrow> bool"
  PCR_SELECT_MAX :: nat
  MAX_PCR_INDEX :: u32
  Tpm2PcrRead :: "u16 \<Rightarrow> u8 list \<Rightarrow> efi_status \<times> u8 list list"
  format_bit :: "log_format \<Rightarrow> u32"
  LocateTcg2 :: efi_status
  GetCapability :: "efi_status \<times> tcg2_capability"
  GetActivePcrBanks :: "efi_status \<times> u32"
  GetEventLog :: "log_format \<Rightarrow> efi_status \<times> addr \<times> addr \<times> bool"
  FinalEventsTable :: addr

section \<open>Readers of the log\<close>

definition hdr_PCRIndex :: "tcg_env \<Rightarrow> addr \<Rightarrow> u32" where
  "hdr_PCRIndex E p = rd32 (log_mem E) (p + o_h_PCRIndex E)"

definition hdr_EventType :: "tcg_env \<Rightarrow> addr \<Rightarrow> u32" where
  "hdr_EventType E p = rd32 (log_mem E) (p + o_h_EventType E)"

definition hdr_EventSize :: "tcg_env \<Rightarrow> addr \<Rightarrow> u32" where
  "hdr_EventSize E p = rd32 (log_mem E) (p + o_h_EventSize E)"

definition ev2_PCRIndex :: "tcg_env \<Rightarrow> addr \<Rightarrow> u32" where
  "ev2_PCRIndex E p = rd32 (log_mem E) (p + o_2_PCRIndex E)"

definition ev2_EventType :: "tcg_env \<Rightarrow> addr \<Rightarrow> u32" where
  "ev2_EventType E p = rd32 (log_mem E) (p + o_2_EventType E)"

definition ev2_count :: "tcg_env \<Rightarrow> addr \<Rightarrow> u32" where
  "ev2_count E p = rd32 (log_mem E) (p + o_2_Digest_count E)"

definition ev2_hashAlg :: "tcg_env \<Rightarrow> addr \<Rightarrow> u16" where
  "ev2_hashAlg E p = rd16 (log_mem E) (p + o_2_Digest_hashAlg E)"

definition digest_size :: "tcg_env \<Rightarrow> u16 \<Rightarrow> nat" where
  "digest_size E alg = unat (GetHashSizeFromAlgo E alg)"

definition fin_NumberOfEvents :: "tcg_env \<Rightarrow> addr \<Rightarrow> u64" where
  "fin_NumberOfEvents E p = rd64 (log_mem E) (p + o_f_NumberOfEvents E)"

definition fin_Version :: "tcg_env \<Rightarrow> addr \<Rightarrow> u64" where
  "fin_Version E p = rd64 (log_mem E) (p + o_f_Version E)"

end
