(* ===== verification/Tcg_Events.thy ===== *)
theory Tcg_Events
  imports Tcg_Env
begin

text \<open>
  The printers of \<^verbatim>\<open>Tcg2DumpLog.c\<close> for one event, and the functions that measure events.
  All of them only read memory, so they are functions to the list of the prints they make.
\<close>

section \<open>Raw data\<close>

definition chars :: "u8 list \<Rightarrow> out list" where
  "chars bs = map (\<lambda>b. Print ''%c'' [hx b]) bs"

definition InternalDumpData :: "mem \<Rightarrow> addr \<Rightarrow> nat \<Rightarrow> out list" where
  "InternalDumpData m Data n = map (\<lambda>Index. Print ''%02x'' [hx (m (Data + Index))]) [0..<n]"

definition InternalDumpHex :: "mem \<Rightarrow> addr \<Rightarrow> nat \<Rightarrow> out list" where
  "InternalDumpHex m Data n =
     (let COLUME_SIZE = 16 * 2; Count = n div COLUME_SIZE; Left = n mod COLUME_SIZE;
          row = (\<lambda>Index k. [Print ''%04x: '' [hxn (Index * COLUME_SIZE)]]
                   @ InternalDumpData m (Data + Index * COLUME_SIZE) k @ [Print '''' []])
      in concat (map (\<lambda>Index. row Index COLUME_SIZE) [0..<Count])
         @ (if Left \<noteq> 0 then row Count Left else []))"

section \<open>Structures of the event data\<close>

text \<open>
  Five strings, each with its length in the byte before it, and an identifier after the fourth.
\<close>

definition DumpTcgSp800155PlatformIdEvent2Struct :: "tcg_env \<Rightarrow> addr \<Rightarrow> out list" where
  "DumpTcgSp800155PlatformIdEvent2Struct E p =
     (let m = log_mem E;
          Str1 = p + sizeof_Sp800_155 E; Str2 = Str1 + 1 + unat (m Str1); Str3 = Str2 + 1 + unat (m Str2);
          Str4 = Str3 + 1 + unat (m Str3); Id = Str4 + 1 + unat (m Str4); Str5 = Id + 4
      in [Print ''  TcgSp800155PlatformIdEvent2Struct:'' [], Print ''    signature - '' []]
         @ chars (sp_Signature E p)
         @ [Print '''' [],
            Print ''    VendorId - 0x%08x'' [hx (sp_VendorId E p)],
            Print ''    ReferenceManifestGuid - %g'' (map hx (sp_ReferenceManifestGuid E p)),
            Print ''    PlatformManufacturerStrSize - 0x%02x'' [hx (m Str1)],
            Print ''    PlatformManufacturerStr - %a'' [Txt (AsciiText E (Str1 + 1))],
            Print ''    PlatformModelSize - 0x%02x'' [hx (m Str2)],
            Print ''    PlatformModel - %a'' [Txt (AsciiText E (Str2 + 1))],
            Print ''    PlatformVersionSize - 0x%02x'' [hx (m Str3)],
            Print ''    PlatformVersion - %a'' [Txt (AsciiText E (Str3 + 1))],
            Print ''    FirmwareManufacturerStrSize - 0x%02x'' [hx (m Str4)],
            Print ''    FirmwareManufacturerStr - %a'' [Txt (AsciiText E (Str4 + 1))],
            Print ''    FirmwareManufacturerId - 0x%08x'' [hx (rd32 m Id)],
            Print ''    FirmwareVersionSize - 0x%02x'' [hx (m Str5)],
            Print ''    FirmwareVersion - %a'' [Txt (AsciiText E (Str5 + 1))]])"

definition DumpTcgStartupLocalityEventStruct :: "tcg_env \<Rightarrow> addr \<Rightarrow> out list" where
  "DumpTcgStartupLocalityEventStruct E p =
     [Print ''  TcgStartupLocalityEventStruct:'' [], Print ''    signature - '' []]
     @ chars (sl_Signature E p)
     @ [Print '''' [], Print ''    StartupLocality - 0x%02x'' [hx (sl_StartupLocality E p)]]"

text \<open>The variable data, in rows of 16.\<close>

definition variable_data :: "mem \<Rightarrow> addr \<Rightarrow> nat \<Rightarrow> out list" where
  "variable_data m VariableData n =
     concat (map (\<lambda>Index.
       [Print ''%02x '' [hx (m (VariableData + Index))]]
       @ (if (Index + 1) mod 0x10 = 0
          then [Print '''' []] @ (if Index + 1 < n then [Print ''                           '' []] else [])
          else [])) [0..<n])
     @ (if n = 0 \<or> n mod 0x10 \<noteq> 0 then [Print '''' []] else [])"

definition handoff_entries :: "tcg_env \<Rightarrow> addr \<Rightarrow> out list" where
  "handoff_entries E p =
     [Print ''      NumberOfTables - 0x%016x'' [hx (ho_NumberOfTables E p)]]
     @ concat (map (\<lambda>Index.
         [Print ''      TableEntry (%d):'' [hxn Index],
          Print ''        VendorGuid  - %g'' (map hx (ho_VendorGuid E p Index)),
          Print ''        VendorTable - 0x%016x'' [hx (ho_VendorTable E p Index)]])
         [0..<unat (ho_NumberOfTables E p)])"

definition spdm_block :: "tcg_env \<Rightarrow> addr \<Rightarrow> out list" where
  "spdm_block E p =
     (let m = log_mem E; CommonHeader = p + sizeof_SecurityHeader E;
          DmtfHeader = CommonHeader + sizeof_BlockCommonHeader E;
          MeasurementBuffer = DmtfHeader + sizeof_BlockDmtfHeader E;
          n = unat (dmtf_ValueSize E DmtfHeader);
          PciContext = MeasurementBuffer + n
      in [Print ''      Signature - '' []] @ chars (sec_Signature E p)
         @ [Print '''' [],
            Print ''      Version - 0x%04x'' [hx (sec_Version E p)],
            Print ''      Length - 0x%04x'' [hx (sec_Length E p)],
            Print ''      SpdmHashAlgo - 0x%08x'' [hx (sec_SpdmHashAlgo E p)],
            Print ''      DeviceType - 0x%08x'' [hx (sec_DeviceType E p)],
            Print ''      SpdmMeasurementBlock:'' [],
            Print ''        Index - 0x%02x'' [hx (blk_Index E CommonHeader)],
            Print ''        MeasurementSpec - 0x%02x'' [hx (blk_MeasurementSpecification E CommonHeader)],
            Print ''        MeasurementSize - 0x%04x'' [hx (blk_MeasurementSize E CommonHeader)],
            Print ''        Measurement:'' [],
            Print ''          DMTFSpecMeasurementValueType - 0x%02x'' [hx (dmtf_ValueType E DmtfHeader)],
            Print ''          DMTFSpecMeasurementValueSize - 0x%04x'' [hx (dmtf_ValueSize E DmtfHeader)],
            Print ''          DMTFSpecMeasurementValue - '' []]
         @ InternalDumpData m MeasurementBuffer n @ [Print '''' []]
         @ (case spdm_device_of E (sec_DeviceType E p) of
              DEVICE_TYPE_NULL \<Rightarrow> [Print ''      DeviceSecurityEventData - No Context'' []]
            | DEVICE_TYPE_PCI \<Rightarrow>
                (case ctx_ClassCode E PciContext of (c0, c1, c2) \<Rightarrow>
                [Print ''      DeviceSecurityEventData - PCI Context'' [],
                 Print ''        Version - 0x%04x'' [hx (ctx_Version E PciContext)],
                 Print ''        Length - 0x%04x'' [hx (ctx_Length E PciContext)],
                 Print ''        VendorId - 0x%04x'' [hx (ctx_VendorId E PciContext)],
                 Print ''        DeviceId - 0x%04x'' [hx (ctx_DeviceId E PciContext)],
                 Print ''        RevisionID - 0x%02x'' [hx (ctx_RevisionID E PciContext)],
                 Print ''        ClassCode - 0x%06x''
                   [hx ((push_bit 16 (ucast c2) OR push_bit 8 (ucast c1) OR ucast c0) :: u32)],
                 Print ''        SubsystemVendorID - 0x%04x'' [hx (ctx_SubsystemVendorID E PciContext)],
                 Print ''        SubsystemID - 0x%04x'' [hx (ctx_SubsystemID E PciContext)]])
            | DEVICE_TYPE_USB \<Rightarrow> [Print ''      DeviceSecurityEventData - USB Context'' []]
            | DEVICE_TYPE_OTHER \<Rightarrow> [Print ''      DeviceSecurityEventData - Reserved'' []]))"

definition EV_NO_ACTION :: u32 where
  "EV_NO_ACTION = 3"

definition no_action_data :: "tcg_env \<Rightarrow> addr \<Rightarrow> nat \<Rightarrow> out list" where
  "no_action_data E p n =
     (let m = log_mem E; starts = (\<lambda>sig. bytes_at m p (length sig) = sig) in
      if sizeof_Sp800_155 E \<le> n \<and> starts (SIGNATURE_Sp800_155 E)
      then DumpTcgSp800155PlatformIdEvent2Struct E p
      else if sizeof_StartupLocality E \<le> n \<and> starts (SIGNATURE_StartupLocality E)
      then DumpTcgStartupLocalityEventStruct E p
      else if sizeof_SpecIDEventStruct E \<le> n \<and> (starts (SIGNATURE_SpecID_03 E) \<or> starts (SIGNATURE_SpecID_02 E))
      then []
      else [Print ''  Unknown EV_NO_ACTION'' []])"

definition variable_event :: "tcg_env \<Rightarrow> addr \<Rightarrow> out list" where
  "variable_event E p =
     (let m = log_mem E; n = unat (var_UnicodeNameLength E p); UnicodeName = p + o_var_UnicodeName E in
      [Print ''      VariableName - %g'' (map hx (var_VariableName E p)),
       Print ''      UnicodeNameLength - 0x%016x'' [hx (var_UnicodeNameLength E p)],
       Print ''      VariableDataLength - 0x%016x'' [hx (var_VariableDataLength E p)],
       Print ''      UnicodeName - '' []]
      @ map (\<lambda>Index. Print ''%c'' [hx (rd16 m (UnicodeName + 2 * Index))]) [0..<n]
      @ [Print '''' [], Print ''      VariableData - '' []]
      @ variable_data m (UnicodeName + 2 * n) (unat (var_VariableDataLength E p)))"

definition image_event :: "tcg_env \<Rightarrow> addr \<Rightarrow> out list" where
  "image_event E p =
     [Print ''      ImageLocationInMemory - 0x%016x'' [hx (img_LocationInMemory E p)],
      Print ''      ImageLengthInMemory - 0x%016x'' [hx (img_LengthInMemory E p)],
      Print ''      ImageLinkTimeAddress - 0x%016x'' [hx (img_LinkTimeAddress E p)],
      Print ''      LengthOfDevicePath - 0x%016x'' [hx (img_LengthOfDevicePath E p)],
      Print ''      DevicePath:'' [],
      Print ''        %s'' [Txt (DevicePathText E (p + o_img_DevicePath E))]]"

definition blob_fields :: "tcg_env \<Rightarrow> addr \<Rightarrow> out list" where
  "blob_fields E p =
     [Print ''      BlobBase - 0x%016x'' [hx (blob_BlobBase E p)],
      Print ''      BlobLength - 0x%016x'' [hx (blob_BlobLength E p)]]"

text \<open>The switch over the event type, after the raw dump.\<close>

definition ParseEventData :: "tcg_env \<Rightarrow> u32 \<Rightarrow> addr \<Rightarrow> nat \<Rightarrow> out list" where
  "ParseEventData E EventType EventBuffer EventSize =
     (let m = log_mem E in
      InternalDumpHex m EventBuffer EventSize
      @ (if EventType = EV_NO_ACTION
         then [Print ''    EventData - Type: EV_NO_ACTION'' []] @ no_action_data E EventBuffer EventSize
         else if EventType = 0x00000006 then [Print ''    EventData - Type: EV_EVENT_TAG'' []]
         else if EventType = 0x0000000C then [Print ''    EventData - Type: EV_COMPACT_HASH'' []]
         else if EventType = 0x00000011 then [Print ''    EventData - Type: EV_NONHOST_INFO'' []]
         else if EventType = 0x80000006 then [Print ''    EventData - Type: EV_EFI_GPT_EVENT'' []]
         else if EventType = 0x800000E0 then [Print ''    EventData - Type: EV_EFI_VARIABLE_AUTHORITY'' []]
         else case event_kind_of E EventType of
           EV_POST_CODE \<Rightarrow>
             [Print ''    EventData - Type: EV_POST_CODE'' [], Print ''      POST CODE - '' []]
             @ chars (bytes_at m EventBuffer EventSize) @ [Print '''' []]
         | EV_SEPARATOR \<Rightarrow>
             [Print ''    EventData - Type: EV_SEPARATOR'' [],
              Print ''      SEPARATOR - 0x%08x'' [hx (rd32 m EventBuffer)]]
         | EV_S_CRTM_VERSION \<Rightarrow>
             [Print ''    EventData - Type: EV_S_CRTM_VERSION'' [], Print ''      CRTM VERSION - L'' []]
             @ chars (map (\<lambda>i. m (EventBuffer + 2 * i)) [0..<(EventSize + 1) div 2]) @ [Print '''' []]
         | EV_EFI_VARIABLE_DRIVER_CONFIG \<Rightarrow>
             [Print ''    EventData - Type: EV_EFI_VARIABLE_DRIVER_CONFIG'' []] @ variable_event E EventBuffer
         | EV_EFI_VARIABLE_BOOT \<Rightarrow>
             [Print ''    EventData - Type: EV_EFI_VARIABLE_BOOT'' []] @ variable_event E EventBuffer
         | EV_EFI_BOOT_SERVICES_APPLICATION \<Rightarrow>
             [Print ''    EventData - Type: EV_EFI_BOOT_SERVICES_APPLICATION'' []] @ image_event E EventBuffer
         | EV_EFI_BOOT_SERVICES_DRIVER \<Rightarrow>
             [Print ''    EventData - Type: EV_EFI_BOOT_SERVICES_DRIVER'' []] @ image_event E EventBuffer
         | EV_EFI_RUNTIME_SERVICES_DRIVER \<Rightarrow>
             [Print ''    EventData - Type: EV_EFI_RUNTIME_SERVICES_DRIVER'' []] @ image_event E EventBuffer
         | EV_EFI_ACTION \<Rightarrow>
             [Print ''    EventData - Type: EV_EFI_ACTION'' [], Print ''      Action String - '' []]
             @ chars (bytes_at m EventBuffer EventSize) @ [Print '''' []]
         | EV_EFI_PLATFORM_FIRMWARE_BLOB \<Rightarrow>
             [Print ''    EventData - Type: EV_EFI_PLATFORM_FIRMWARE_BLOB'' []] @ blob_fields E EventBuffer
         | EV_EFI_PLATFORM_FIRMWARE_BLOB2 \<Rightarrow>
             (let n = unat (blob2_DescriptionSize E EventBuffer);
                  Description = EventBuffer + sizeof_blob2_DescriptionSize E
              in [Print ''    EventData - Type: EV_EFI_PLATFORM_FIRMWARE_BLOB2'' [],
                  Print ''      BlobDescriptionSize - 0x%02x'' [hx (blob2_DescriptionSize E EventBuffer)],
                  Print ''      BlobDescription - '' []]
                 @ chars (bytes_at m Description n) @ [Print '''' []]
                 @ blob_fields E (Description + n))
         | EV_EFI_HANDOFF_TABLES \<Rightarrow>
             [Print ''    EventData - Type: EV_EFI_HANDOFF_TABLES'' []] @ handoff_entries E EventBuffer
         | EV_EFI_HANDOFF_TABLES2 \<Rightarrow>
             (let n = unat (ho2_DescriptionSize E EventBuffer);
                  Description = EventBuffer + sizeof_ho2_DescriptionSize E
              in [Print ''    EventData - Type: EV_EFI_HANDOFF_TABLES2'' [],
                  Print ''      TableDescriptionSize - 0x%02x'' [hx (ho2_DescriptionSize E EventBuffer)],
                  Print ''      TableDescription - '' []]
                 @ chars (bytes_at m Description n) @ [Print '''' []]
                 @ handoff_entries E (Description + n))
         | EV_EFI_SPDM_FIRMWARE_BLOB \<Rightarrow>
             [Print ''    EventData - Type: EV_EFI_SPDM_FIRMWARE_BLOB'' []] @ spdm_block E EventBuffer
         | EV_EFI_SPDM_FIRMWARE_CONFIG \<Rightarrow>
             [Print ''    EventData - Type: EV_EFI_SPDM_FIRMWARE_CONFIG'' []] @ spdm_block E EventBuffer
         | EV_OTHER \<Rightarrow> [Print ''Unknown Event Type'' []]))"

section \<open>Events\<close>

definition DumpEvent :: "tcg_env \<Rightarrow> addr \<Rightarrow> out list" where
  "DumpEvent E EventHdr =
     [Print ''  Event:'' [],
      Print ''    PCRIndex  - %d'' [hx (hdr_PCRIndex E EventHdr)],
      Print ''    EventType - 0x%08x'' [hx (hdr_EventType E EventHdr)],
      Print ''    Digest    - '' []]
     @ InternalDumpData (log_mem E) (EventHdr + o_h_Digest E) (sizeof_TCG_DIGEST E)
     @ [Print '''' [], Print ''    EventSize - 0x%08x'' [hx (hdr_EventSize E EventHdr)]]
     @ ParseEventData E (hdr_EventType E EventHdr) (EventHdr + sizeof_PCR_EVENT_HDR E)
         (unat (hdr_EventSize E EventHdr))"

definition GetTcgSpecIdNumberOfAlgorithms :: "tcg_env \<Rightarrow> addr \<Rightarrow> u32" where
  "GetTcgSpecIdNumberOfAlgorithms E p = rd32 (log_mem E) (p + sizeof_SpecIDEventStruct E)"

definition GetTcgSpecIdDigestSize :: "tcg_env \<Rightarrow> addr \<Rightarrow> addr" where
  "GetTcgSpecIdDigestSize E p = p + sizeof_SpecIDEventStruct E + 4"

definition algorithmId :: "tcg_env \<Rightarrow> addr \<Rightarrow> nat \<Rightarrow> u16" where
  "algorithmId E p i =
     rd16 (log_mem E) (GetTcgSpecIdDigestSize E p + i * sizeof_AlgorithmSize E + o_a_algorithmId E)"

definition digestSize :: "tcg_env \<Rightarrow> addr \<Rightarrow> nat \<Rightarrow> u16" where
  "digestSize E p i =
     rd16 (log_mem E) (GetTcgSpecIdDigestSize E p + i * sizeof_AlgorithmSize E + o_a_digestSize E)"

definition DumpTcgEfiSpecIdEventStruct :: "tcg_env \<Rightarrow> addr \<Rightarrow> out list" where
  "DumpTcgEfiSpecIdEventStruct E p =
     (let m = log_mem E; numberOfAlgorithms = unat (GetTcgSpecIdNumberOfAlgorithms E p);
          vendorInfoSize = GetTcgSpecIdDigestSize E p + numberOfAlgorithms * sizeof_AlgorithmSize E
      in [Print ''  TCG_EfiSpecIDEventStruct:'' [], Print ''    signature - '' []]
         @ chars (bytes_at m p (sizeof_signature E))
         @ [Print '''' [],
            Print ''    platformClass - 0x%08x'' [hx (rd32 m (p + o_s_platformClass E))],
            Print ''    specVersion - %d.%d.%d''
              [hx (m (p + o_s_specVersionMajor E)), hx (m (p + o_s_specVersionMinor E)), hx (m (p + o_s_specErrata E))],
            Print ''    uintnSize - 0x%02x'' [hx (m (p + o_s_uintnSize E))],
            Print ''    numberOfAlgorithms - 0x%08x'' [hx (GetTcgSpecIdNumberOfAlgorithms E p)]]
         @ concat (map (\<lambda>Index.
             [Print ''    digest(%d)'' [hxn Index],
              Print ''      algorithmId - 0x%04x'' [hx (algorithmId E p Index)],
              Print ''      digestSize - 0x%04x'' [hx (digestSize E p Index)]]) [0..<numberOfAlgorithms])
         @ [Print ''    vendorInfoSize - 0x%02x'' [hx (m vendorInfoSize)], Print ''    vendorInfo - '' []]
         @ InternalDumpData m (vendorInfoSize + 1) (unat (m vendorInfoSize)) @ [Print '''' []])"

definition GetTcgEfiSpecIdEventStructSize :: "tcg_env \<Rightarrow> addr \<Rightarrow> nat" where
  "GetTcgEfiSpecIdEventStructSize E p =
     (let numberOfAlgorithms = unat (GetTcgSpecIdNumberOfAlgorithms E p);
          vendorInfoSize = GetTcgSpecIdDigestSize E p + numberOfAlgorithms * sizeof_AlgorithmSize E
      in sizeof_SpecIDEventStruct E + 4 + numberOfAlgorithms * sizeof_AlgorithmSize E + 1
         + unat (log_mem E vendorInfoSize))"

text \<open>
  The loop over the digests of a \<open>TCG_PCR_EVENT2\<close>, with the algorithm and the address of the
  digest that is next: it ends two bytes after the last digest.
\<close>

fun skip_digests :: "tcg_env \<Rightarrow> nat \<Rightarrow> u16 \<Rightarrow> addr \<Rightarrow> addr" where
  "skip_digests E 0 HashAlgo DigestBuffer = DigestBuffer"
| "skip_digests E (Suc n) HashAlgo DigestBuffer =
     (let DigestSize = digest_size E HashAlgo in
      skip_digests E n (rd16 (log_mem E) (DigestBuffer + DigestSize)) (DigestBuffer + DigestSize + 2))"

fun dump_digests :: "tcg_env \<Rightarrow> nat \<Rightarrow> nat \<Rightarrow> u16 \<Rightarrow> addr \<Rightarrow> out list" where
  "dump_digests E 0 DigestIndex HashAlgo DigestBuffer = []"
| "dump_digests E (Suc n) DigestIndex HashAlgo DigestBuffer =
     (let DigestSize = digest_size E HashAlgo in
      [Print ''    HashAlgo : 0x%04x'' [hx HashAlgo], Print ''    Digest(%d): '' [hxn DigestIndex]]
      @ InternalDumpData (log_mem E) DigestBuffer DigestSize @ [Print '''' []]
      @ dump_digests E n (DigestIndex + 1) (rd16 (log_mem E) (DigestBuffer + DigestSize))
          (DigestBuffer + DigestSize + 2))"

fun find_digest :: "tcg_env \<Rightarrow> u16 \<Rightarrow> nat \<Rightarrow> u16 \<Rightarrow> addr \<Rightarrow> addr option" where
  "find_digest E HashAlg 0 HashAlgo DigestBuffer = None"
| "find_digest E HashAlg (Suc n) HashAlgo DigestBuffer =
     (let DigestSize = digest_size E HashAlgo in
      if HashAlg = HashAlgo then Some DigestBuffer
      else find_digest E HashAlg n (rd16 (log_mem E) (DigestBuffer + DigestSize))
             (DigestBuffer + DigestSize + 2))"

text \<open>Where the \<open>EventSize\<close> of a \<open>TCG_PCR_EVENT2\<close> is.\<close>

definition event_size_at :: "tcg_env \<Rightarrow> addr \<Rightarrow> addr" where
  "event_size_at E p =
     skip_digests E (unat (ev2_count E p)) (ev2_hashAlg E p) (p + o_2_Digest_digest E) - 2"

definition DumpEvent2 :: "tcg_env \<Rightarrow> addr \<Rightarrow> out list" where
  "DumpEvent2 E TcgPcrEvent2 =
     (let DigestBuffer = event_size_at E TcgPcrEvent2; EventSize = rd32 (log_mem E) DigestBuffer in
      [Print ''  Event:'' [],
       Print ''    PCRIndex  - %d'' [hx (ev2_PCRIndex E TcgPcrEvent2)],
       Print ''    EventType - 0x%08x'' [hx (ev2_EventType E TcgPcrEvent2)],
       Print ''    DigestCount: 0x%08x'' [hx (ev2_count E TcgPcrEvent2)]]
      @ dump_digests E (unat (ev2_count E TcgPcrEvent2)) 0 (ev2_hashAlg E TcgPcrEvent2)
          (TcgPcrEvent2 + o_2_Digest_digest E)
      @ [Print ''    EventSize - 0x%08x'' [hx EventSize]]
      @ ParseEventData E (ev2_EventType E TcgPcrEvent2) (DigestBuffer + 4) (unat EventSize))"

definition GetPcrEventSize :: "tcg_env \<Rightarrow> addr \<Rightarrow> nat" where
  "GetPcrEventSize E p = sizeof_PCR_EVENT_HDR E + unat (hdr_EventSize E p)"

definition GetPcrEvent2Size :: "tcg_env \<Rightarrow> addr \<Rightarrow> nat" where
  "GetPcrEvent2Size E p =
     (let DigestBuffer = event_size_at E p; EventSize = rd32 (log_mem E) DigestBuffer;
          EventBuffer = DigestBuffer + 4
      in EventBuffer + unat EventSize - p)"

definition GetDigestFromPcrEvent2 :: "tcg_env \<Rightarrow> addr \<Rightarrow> u16 \<Rightarrow> addr option" where
  "GetDigestFromPcrEvent2 E p HashAlg =
     find_digest E HashAlg (unat (ev2_count E p)) (ev2_hashAlg E p) (p + o_2_Digest_digest E)"

end
