(* ===== verification/Tcg_Log.thy ===== *)
theory Tcg_Log
  imports Tcg_Events
begin

text \<open>
  \<^verbatim>\<open>Tcg2DumpLog.c\<close>: walking the event logs, replaying the measurements into PCR values, and
  the command line.  \<open>None\<close> is a walk that does not end or an access outside an array.
\<close>

section \<open>PCR values\<close>

text \<open>\<open>pcrSelect\<close> is zeroed, then one bit is set at byte \<open>PcrIndex / 8\<close>.\<close>

definition DumpPcr :: "tcg_env \<Rightarrow> u32 \<Rightarrow> u16 \<Rightarrow> out list option" where
  "DumpPcr E PcrIndex HashAlgo =
     (if PCR_SELECT_MAX E \<le> unat PcrIndex div 8 then None
      else
        (let pcrSelect = (replicate (PCR_SELECT_MAX E) 0)[unat PcrIndex div 8 := push_bit (unat PcrIndex mod 8) 1];
             (Status, PcrValues) = Tpm2PcrRead E HashAlgo pcrSelect
         in if EFI_ERROR Status then Some [Print ''Tpm2PcrRead - %r'' [Sts Status]]
            else Some (concat (map (\<lambda>digest.
                [Print ''PCR[%d] (Hash:0x%x): '' [hx PcrIndex, hx HashAlgo]]
                @ map (\<lambda>b. Print ''%02x'' [hx b]) digest @ [Print '''' []]) PcrValues))))"

definition mHashInfo :: "tcg_env \<Rightarrow> u16 list" where
  "mHashInfo E = [TPM_ALG_SHA1 E, TPM_ALG_SHA256 E]"

definition GetHashInfo :: "tcg_env \<Rightarrow> u16 \<Rightarrow> u16 option" where
  "GetHashInfo E HashAlg = find (\<lambda>a. HashAlg = a) (mHashInfo E)"

text \<open>
  \<open>TcgDigest\<close> is the digest buffer, \<open>NewDigest\<close> an address: the first bytes of the buffer become
  the hash of old and new digest, or 0xFF when the hash cannot be computed.
\<close>

definition ExtendEvent :: "tcg_env \<Rightarrow> u16 \<Rightarrow> u8 list \<Rightarrow> addr \<Rightarrow> u8 list" where
  "ExtendEvent E HashAlg TcgDigest NewDigest =
     (let DigestSize = digest_size E HashAlg in
      case GetHashInfo E HashAlg of
        None \<Rightarrow> replicate DigestSize 0xFF @ drop DigestSize TcgDigest
      | Some a \<Rightarrow>
          if \<not> alloc_context E NewDigest then replicate DigestSize 0xFF @ drop DigestSize TcgDigest
          else (let d = hash E a (take DigestSize TcgDigest @ bytes_at (log_mem E) NewDigest DigestSize)
                in d @ drop (length d) TcgDigest))"

section \<open>Walking a log\<close>

text \<open>
  \<open>while (p <= LastEntry) { body (p); p += size (p); }\<close>, and the loop over the final events table,
  which counts the events.
\<close>

definition log_walk :: "(addr \<Rightarrow> nat) \<Rightarrow> (addr \<Rightarrow> 's \<Rightarrow> 's) \<Rightarrow> addr \<Rightarrow> addr \<Rightarrow> 's \<Rightarrow> 's option" where
  "log_walk esize body p LastEntry s =
     map_option (\<lambda>r. case r of Inl x \<Rightarrow> x | Inr x \<Rightarrow> x)
       (walk esize (\<lambda>p s. Some (Inr (body p s))) p (LastEntry + 1) s)"

fun final_walk :: "(addr \<Rightarrow> nat) \<Rightarrow> (addr \<Rightarrow> 's \<Rightarrow> 's) \<Rightarrow> nat \<Rightarrow> addr \<Rightarrow> 's \<Rightarrow> 's" where
  "final_walk esize body 0 p s = s"
| "final_walk esize body (Suc n) p s = final_walk esize body n (p + esize p) (body p s)"

definition PCR_INDEX_ALL :: u32 where
  "PCR_INDEX_ALL = 0xFFFFFFFF"

text \<open>The loop bodies: print the event, or extend the expected value with it.\<close>

definition print_event :: "tcg_env \<Rightarrow> u32 \<Rightarrow> addr \<Rightarrow> out list \<Rightarrow> out list" where
  "print_event E PcrIndex p os =
     (if PcrIndex = PCR_INDEX_ALL \<or> PcrIndex = hdr_PCRIndex E p then os @ DumpEvent E p else os)"

definition print_event2 :: "tcg_env \<Rightarrow> u32 \<Rightarrow> addr \<Rightarrow> out list \<Rightarrow> out list" where
  "print_event2 E PcrIndex p os =
     (if PcrIndex = PCR_INDEX_ALL \<or> PcrIndex = ev2_PCRIndex E p then os @ DumpEvent2 E p else os)"

definition extend_event :: "tcg_env \<Rightarrow> u32 \<Rightarrow> addr \<Rightarrow> u8 list \<Rightarrow> u8 list" where
  "extend_event E PcrIndex p d =
     (if PcrIndex = hdr_PCRIndex E p \<and> hdr_EventType E p \<noteq> EV_NO_ACTION
      then ExtendEvent E (TPM_ALG_SHA1 E) d (p + o_h_Digest E) else d)"

definition extend_event2 :: "tcg_env \<Rightarrow> u32 \<Rightarrow> u16 \<Rightarrow> addr \<Rightarrow> u8 list \<Rightarrow> u8 list" where
  "extend_event2 E PcrIndex HashAlg p d =
     (if PcrIndex = ev2_PCRIndex E p \<and> ev2_EventType E p \<noteq> EV_NO_ACTION
      then (case GetDigestFromPcrEvent2 E p HashAlg of
              Some DigestBuffer \<Rightarrow> ExtendEvent E HashAlg d DigestBuffer | None \<Rightarrow> d)
      else d)"

text \<open>A walk over a log and, when there is one, the final events table.\<close>

definition both_logs ::
  "tcg_env \<Rightarrow> (addr \<Rightarrow> nat) \<Rightarrow> (addr \<Rightarrow> 's \<Rightarrow> 's) \<Rightarrow> addr \<Rightarrow> addr \<Rightarrow> addr \<Rightarrow> 's \<Rightarrow> 's option" where
  "both_logs E esize body p LastEntry Final s =
     map_option (\<lambda>s. if Final \<noteq> NULL
         then final_walk esize body (unat (fin_NumberOfEvents E Final)) (Final + sizeof_FINAL_EVENTS_TABLE E) s
         else s)
       (log_walk esize body p LastEntry s)"

definition final_heading :: "tcg_env \<Rightarrow> addr \<Rightarrow> out list" where
  "final_heading E Final =
     (if Final = NULL then [Print ''FinalEventsTable: NOT FOUND'' []]
      else [Print ''FinalEventsTable: (0x%x)'' [hxn Final],
            Print ''  Version: (0x%x)'' [hx (fin_Version E Final)],
            Print ''  NumberOfEvents: (0x%x)'' [hx (fin_NumberOfEvents E Final)]])"

text \<open>The print-out of a log: the events, the heading of the final events table, its events.\<close>

definition print_logs ::
  "tcg_env \<Rightarrow> (addr \<Rightarrow> nat) \<Rightarrow> (addr \<Rightarrow> out list \<Rightarrow> out list) \<Rightarrow> addr \<Rightarrow> addr \<Rightarrow> addr \<Rightarrow> out list \<Rightarrow> out list option" where
  "print_logs E esize body p LastEntry Final os =
     map_option (\<lambda>os. if Final = NULL then os @ final_heading E Final
         else final_walk esize body (unat (fin_NumberOfEvents E Final)) (Final + sizeof_FINAL_EVENTS_TABLE E)
                (os @ final_heading E Final))
       (log_walk esize body p LastEntry os)"

text \<open>Where the second format has its specification structure and its first \<open>TCG_PCR_EVENT2\<close>.\<close>

definition spec_id_at :: "tcg_env \<Rightarrow> addr \<Rightarrow> addr" where
  "spec_id_at E EventLogLocation = EventLogLocation + sizeof_PCR_EVENT_HDR E"

definition first_event2 :: "tcg_env \<Rightarrow> addr \<Rightarrow> addr" where
  "first_event2 E EventLogLocation =
     spec_id_at E EventLogLocation + GetTcgEfiSpecIdEventStructSize E (spec_id_at E EventLogLocation)"

definition calculated :: "u32 \<Rightarrow> u8 list \<Rightarrow> out list" where
  "calculated PcrIndex d =
     [Print ''Tcg2Event Calculated:'' [], Print ''    PCRIndex  - %d'' [hx PcrIndex], Print ''    Digest    - '' []]
     @ map (\<lambda>b. Print ''%02x'' [hx b]) d @ [Print '''' []]"

text \<open>The expected value of a PCR, in the SHA-1 format and for one algorithm of the second format.\<close>

definition expected_1_2 :: "tcg_env \<Rightarrow> u32 \<Rightarrow> addr \<Rightarrow> addr \<Rightarrow> addr \<Rightarrow> u8 list option" where
  "expected_1_2 E PcrIndex EventLogLocation EventLogLastEntry Final =
     both_logs E (GetPcrEventSize E) (extend_event E PcrIndex) EventLogLocation EventLogLastEntry Final
       (replicate (sizeof_TCG_DIGEST E) 0)"

definition expected_2 :: "tcg_env \<Rightarrow> u32 \<Rightarrow> u16 \<Rightarrow> addr \<Rightarrow> addr \<Rightarrow> addr \<Rightarrow> u8 list option" where
  "expected_2 E PcrIndex HashAlg EventLogLocation EventLogLastEntry Final =
     both_logs E (GetPcrEvent2Size E) (extend_event2 E PcrIndex HashAlg)
       (first_event2 E EventLogLocation) EventLogLastEntry Final (replicate (sizeof_TPMU_HA E) 0)"

text \<open>The body of the loop over the algorithms: the digest size that the log names is printed.\<close>

definition expected_algorithm ::
  "tcg_env \<Rightarrow> u32 \<Rightarrow> addr \<Rightarrow> addr \<Rightarrow> addr \<Rightarrow> nat \<Rightarrow> out list \<Rightarrow> out list option" where
  "expected_algorithm E PcrIndex EventLogLocation EventLogLastEntry Final AlgoIndex os =
     (let spec = spec_id_at E EventLogLocation; HashAlg = algorithmId E spec AlgoIndex;
          n = unat (digestSize E spec AlgoIndex)
      in Option.bind (expected_2 E PcrIndex HashAlg EventLogLocation EventLogLastEntry Final)
           (\<lambda>d. if length d < n then None
                else Option.bind (DumpPcr E PcrIndex HashAlg)
                  (\<lambda>pcr. Some (os @ calculated PcrIndex (take n d) @ pcr))))"

definition DumpEventLog ::
  "tcg_env \<Rightarrow> log_format \<Rightarrow> addr \<Rightarrow> addr \<Rightarrow> addr \<Rightarrow> u32 \<Rightarrow> bool \<Rightarrow> out list option" where
  "DumpEventLog E EventLogFormat EventLogLocation EventLogLastEntry Final PcrIndex CalculateExpected =
     (let head = [Print ''EventLogFormat: (0x%x)'' [hx (format_bit E EventLogFormat)],
                  Print ''EventLogLocation: (0x%lx)'' [hxn EventLogLocation]]
      in if \<not> CalculateExpected
         then map_option (\<lambda>os. os @ [Print ''Tcg2Event end'' []])
           (case EventLogFormat of
              TCG_1_2 \<Rightarrow>
                print_logs E (GetPcrEventSize E) (print_event E PcrIndex) EventLogLocation EventLogLastEntry Final
                  (head @ [Print ''Tcg2Event:'' []])
            | TCG_2 \<Rightarrow>
                print_logs E (GetPcrEvent2Size E) (print_event2 E PcrIndex)
                  (first_event2 E EventLogLocation) EventLogLastEntry Final
                  (head @ [Print ''Tcg2Event:'' []] @ DumpEvent E EventLogLocation
                   @ DumpTcgEfiSpecIdEventStruct E (spec_id_at E EventLogLocation)))
         else
           (case EventLogFormat of
              TCG_1_2 \<Rightarrow>
                Option.bind (expected_1_2 E PcrIndex EventLogLocation EventLogLastEntry Final)
                  (\<lambda>d. Option.bind (DumpPcr E PcrIndex (TPM_ALG_SHA1 E))
                    (\<lambda>pcr. Some (head @ calculated PcrIndex d @ pcr)))
            | TCG_2 \<Rightarrow>
                each (expected_algorithm E PcrIndex EventLogLocation EventLogLastEntry Final)
                  [0..<unat (GetTcgSpecIdNumberOfAlgorithms E (spec_id_at E EventLogLocation))] head))"

definition DumpTcg2Capability :: "tcg2_capability \<Rightarrow> out list" where
  "DumpTcg2Capability c =
     [Print ''Tcg2 Capability:'' [],
      Print ''  Size - 0x%02x'' [hx (cap_Size c)],
      Print ''  StructureVersion - %02x.%02x'' [hx (fst (cap_StructureVersion c)), hx (snd (cap_StructureVersion c))],
      Print ''  ProtocolVersion - %02x.%02x'' [hx (fst (cap_StructureVersion c)), hx (snd (cap_StructureVersion c))],
      Print ''  HashAlgorithmBitmap - 0x%08x'' [hx (cap_HashAlgorithmBitmap c)],
      Print ''  SupportedEventLogs - 0x%08x'' [hx (cap_SupportedEventLogs c)],
      Print ''  TPMPresentFlag - 0x%02x'' [hx (cap_TPMPresentFlag c)],
      Print ''  MaxCommandSize - 0x%04x'' [hx (cap_MaxCommandSize c)],
      Print ''  MaxResponseSize - 0x%04x'' [hx (cap_MaxResponseSize c)],
      Print ''  ManufacturerID - 0x%08x'' [hx (cap_ManufacturerID c)]]
     @ (case cap_ProtocolVersion c of (Major, Minor) \<Rightarrow>
          if 1 < Major \<or> Major = 1 \<and> 0 < Minor
          then [Print ''  NumberOfPCRBanks - 0x%08x'' [hx (cap_NumberOfPCRBanks c)],
                Print ''  ActivePcrBanks - 0x%08x'' [hx (cap_ActivePcrBanks c)]]
          else [])"

end
