(* ===== verification/Tcg_Acpi.thy ===== *)
theory Tcg_Acpi
  imports Acpi_Root
begin

text \<open>
  The option \<open>-A\<close> of \<^verbatim>\<open>Tcg2DumpLog.c\<close>: the tool's own search for the TPM2 table and its
  print-out.  The functions have the names of those of \<^verbatim>\<open>DumpACPI.c\<close> and are told apart by the
  prefix \<open>Tcg2_\<close>; the header printer is the same text as there.
\<close>

datatype start_method = START_ACPI | START_TIS | START_CRB | START_CRB_WITH_ACPI | START_OTHER

record tpm2_view =
  TPM2_SIGNATURE :: u32
  sizeof_TPM2_V4 :: nat
  tpm2_Flags :: "addr \<Rightarrow> u32"
  tpm2_AddressOfControlArea :: "addr \<Rightarrow> u64"
  tpm2_StartMethod :: "addr \<Rightarrow> u32"
  start_method_of :: "u32 \<Rightarrow> start_method"
  tpm2_Laml :: "addr \<Rightarrow> u32"
  tpm2_Lasa :: "addr \<Rightarrow> u64"

definition DumpAcpiTPM2 :: "acpi_tables \<Rightarrow> tpm2_view \<Rightarrow> addr \<Rightarrow> out list" where
  "DumpAcpiTPM2 T V Tpm2 =
     [Print ''***Trusted Computing Platform 2 Table***'' [],
      Print ''TPM2 address 0x%016lx'' [hxn Tpm2]]
     @ DumpAcpiTableHeader T Tpm2
     @ [Print ''  Table Contents:'' [],
        Print ''    Flags 0x%08x'' [hx (tpm2_Flags V Tpm2)],
        Print ''    Address Of Control Area 0x%016lx'' [hx (tpm2_AddressOfControlArea V Tpm2)],
        Print ''    Start Method 0x%08x'' [hx (tpm2_StartMethod V Tpm2)]]
     @ (case start_method_of V (tpm2_StartMethod V Tpm2) of
          START_ACPI \<Rightarrow> [Print ''      ACPI'' []]
        | START_TIS \<Rightarrow> [Print ''      TIS'' []]
        | START_CRB \<Rightarrow> [Print ''      CRB'' []]
        | START_CRB_WITH_ACPI \<Rightarrow> [Print ''      CRB with ACPI'' []]
        | START_OTHER \<Rightarrow> [])
     @ (if 4 \<le> h_Revision T Tpm2 \<and> sizeof_TPM2_V4 V \<le> unat (h_Length T Tpm2)
        then [Print ''    Laml 0x%08x'' [hx (tpm2_Laml V Tpm2)],
              Print ''    Lasa 0x%016lx'' [hx (tpm2_Lasa V Tpm2)]]
        else [])
     @ [Print ''***'' []]"

definition Tcg2_DumpSelectAcpiTable :: "acpi_tables \<Rightarrow> tpm2_view \<Rightarrow> addr \<Rightarrow> out list" where
  "Tcg2_DumpSelectAcpiTable T V Table =
     (if h_Signature T Table = TPM2_SIGNATURE V then DumpAcpiTPM2 T V Table else [])"

definition Tcg2_ScanAcpiRSDP :: "acpi_tables \<Rightarrow> addr" where
  "Tcg2_ScanAcpiRSDP T = (case lookup_table T gEfiAcpiTableGuid of Some p \<Rightarrow> p | None \<Rightarrow> NULL)"

definition Tcg2_ScanAcpiRSDT :: "acpi_tables \<Rightarrow> addr \<Rightarrow> addr" where
  "Tcg2_ScanAcpiRSDT T Rsdp = unat (r_RsdtAddress T Rsdp)"

definition Tcg2_ScanAcpiXSDT :: "acpi_tables \<Rightarrow> addr \<Rightarrow> addr" where
  "Tcg2_ScanAcpiXSDT T Rsdp = unat (r_XsdtAddress T Rsdp)"

text \<open>The body of the two loops: null entries are skipped.\<close>

definition tpm2_entry :: "acpi_tables \<Rightarrow> tpm2_view \<Rightarrow> u32 \<Rightarrow> addr \<Rightarrow> out list" where
  "tpm2_entry T V TableSign Table =
     (if Table = NULL then []
      else [Print ''Table - 0x%x (0x%x)'' [hxn Table, hx (h_Signature T Table)]]
           @ (if h_Signature T Table = TableSign then Tcg2_DumpSelectAcpiTable T V Table else []))"

definition Tcg2_DumpAcpiTableWithSign :: "acpi_tables \<Rightarrow> tpm2_view \<Rightarrow> u32 \<Rightarrow> out list" where
  "Tcg2_DumpAcpiTableWithSign T V TableSign =
     (let Rsdp = Tcg2_ScanAcpiRSDP T in
      if Rsdp = NULL then []
      else
        (let Rsdt = Tcg2_ScanAcpiRSDT T Rsdp; Xsdt = Tcg2_ScanAcpiXSDT T Rsdp in
         [Print ''Rsdp - 0x%x'' [hxn Rsdp], Print ''Rsdt - 0x%x'' [hxn Rsdt], Print ''Xsdt - 0x%x'' [hxn Xsdt]]
         @ (if Xsdt = NULL \<and> Rsdt \<noteq> NULL
            then concat (map (\<lambda>i. tpm2_entry T V TableSign (unat (Entry32 T Rsdt i))) [0..<RootEntryCount T Rsdt 4])
            else [])
         @ (if Xsdt \<noteq> NULL
            then concat (map (\<lambda>i. tpm2_entry T V TableSign (unat (Entry64 T Xsdt i))) [0..<RootEntryCount T Xsdt 8])
            else [])))"

end
