(* ===== verification/Tcg_Main.thy ===== *)
theory Tcg_Main
  imports Tcg_Log Tcg_Acpi
begin

text \<open>
  The command line of \<^verbatim>\<open>Tcg2DumpLog.c\<close> and its file access.  What is printed and every call of
  the shell's file protocol is recorded in the state, in order.
\<close>

section \<open>Files\<close>

datatype file_op = FOPEN string | FSETSIZE | FREAD nat | FWRITE "u8 list" | FCLOSE

record tcg_shell = tcg_env +
  LocateShell :: efi_status
  OpenFileByName :: "string \<Rightarrow> efi_status"
  GetFileSize :: "string \<Rightarrow> efi_status \<times> u64"
  GetFileInfo :: "string \<Rightarrow> u64 option"
  SetFileInfo :: "string \<Rightarrow> efi_status"
  ReadFile :: "string \<Rightarrow> nat \<Rightarrow> efi_status \<times> u8 list"
  WriteFile :: "string \<Rightarrow> u8 list \<Rightarrow> efi_status"
  AllocateFilePool :: "nat \<Rightarrow> addr"
  StrDecimalToUintn :: "string \<Rightarrow> u64"
  StrHexToUintn :: "string \<Rightarrow> u64"
  acpi_of :: acpi_tables
  tpm2_of :: tpm2_view

abbreviation base_env :: "tcg_shell \<Rightarrow> tcg_env" where
  "base_env \<equiv> tcg_env.truncate"

text \<open>\<open>None\<close> is an address no pool was allocated at.  The result has the bytes that were read.\<close>

definition ReadFileToBuffer :: "tcg_shell \<Rightarrow> string \<Rightarrow> efi_status \<times> (addr \<times> u8 list) option \<times> file_op list" where
  "ReadFileToBuffer E FileName =
     (if EFI_ERROR (LocateShell E) then (LocateShell E, None, [])
      else if EFI_ERROR (OpenFileByName E FileName) then (OpenFileByName E FileName, None, [])
      else
        (let (Status, FileSize) = GetFileSize E FileName in
         if EFI_ERROR Status then (Status, None, [FOPEN FileName, FCLOSE])
         else
           (let TempBuffer = AllocateFilePool E (unat FileSize) in
            if TempBuffer = NULL then (EFI_OUT_OF_RESOURCES, None, [FOPEN FileName, FCLOSE])
            else
              (let (Status, bytes) = ReadFile E FileName (unat FileSize) in
               if EFI_ERROR Status then (Status, None, [FOPEN FileName, FREAD (unat FileSize), FCLOSE])
               else (EFI_SUCCESS, Some (TempBuffer, bytes), [FOPEN FileName, FREAD (unat FileSize), FCLOSE])))))"

definition WriteFileFromBuffer :: "tcg_shell \<Rightarrow> string \<Rightarrow> u8 list \<Rightarrow> efi_status \<times> file_op list" where
  "WriteFileFromBuffer E FileName Buffer =
     (if EFI_ERROR (LocateShell E) then (LocateShell E, [])
      else if EFI_ERROR (OpenFileByName E FileName) then (OpenFileByName E FileName, [])
      else case GetFileInfo E FileName of
        None \<Rightarrow> (EFI_DEVICE_ERROR, [FOPEN FileName, FCLOSE])
      | Some FileSize \<Rightarrow>
          if FileSize \<noteq> 0 \<and> EFI_ERROR (SetFileInfo E FileName)
          then (SetFileInfo E FileName, [FOPEN FileName, FSETSIZE, FCLOSE])
          else
            (let ops = [FOPEN FileName] @ (if FileSize \<noteq> 0 then [FSETSIZE] else []) @ [FWRITE Buffer, FCLOSE];
                 Status = WriteFile E FileName Buffer
             in if EFI_ERROR Status then (Status, ops) else (EFI_SUCCESS, ops)))"

section \<open>The entry point\<close>

text \<open>\<open>NO_PARAMS\<close> is a null parameter package.\<close>

record tcg_params =
  p_help :: bool
  p_A :: bool
  p_I :: "string option"
  p_L :: "string option"
  p_E :: bool
  p_BIN :: "string option"
  p_PARSE :: "string option"
  p_C :: bool

datatype tcg_cmd_line = BAD_LINE efi_status | NO_PARAMS | PARAMS tcg_params

record tcg_state =
  tcg_out :: "out list"
  tcg_ops :: "file_op list"
  PcrIndex :: u32

definition puts :: "out list \<Rightarrow> tcg_state \<Rightarrow> tcg_state" where
  "puts os s = s\<lparr>tcg_out := tcg_out s @ os\<rparr>"

text \<open>\<open>Inl\<close>: the index is too large.\<close>

definition parse_pcr :: "tcg_shell \<Rightarrow> string option \<Rightarrow> u32 + u32" where
  "parse_pcr E name =
     (case name of
        None \<Rightarrow> Inr PCR_INDEX_ALL
      | Some n \<Rightarrow>
          if n = ''ALL'' then Inr PCR_INDEX_ALL
          else (let i = ucast (StrDecimalToUintn E n) in
                if MAX_PCR_INDEX E < i then Inl i else Inr i))"

definition name_text :: "string option \<Rightarrow> string" where
  "name_text n = (case n of Some t \<Rightarrow> t | None \<Rightarrow> ''<null string>'')"

text \<open>The event log in the file \<open>BinayFileName\<close>: only the second format is written.\<close>

definition dump_binary :: "tcg_shell \<Rightarrow> string \<Rightarrow> log_format \<Rightarrow> addr \<Rightarrow> addr \<Rightarrow> tcg_state \<Rightarrow> tcg_state" where
  "dump_binary E BinayFileName LogFormat EventLogLocation EventLogLastEntry s =
     (let LastPcrEventSize =
            (case LogFormat of TCG_1_2 \<Rightarrow> GetPcrEventSize (base_env E) EventLogLastEntry
             | TCG_2 \<Rightarrow> GetPcrEvent2Size (base_env E) EventLogLastEntry);
          BufferSize = EventLogLastEntry - EventLogLocation + LastPcrEventSize;
          s1 = puts
            [Print ''EventLogSize: 0x%x'' [hxn BufferSize],
             Print ''    EventLogLocation:  (0x%lx)'' [hxn EventLogLocation],
             Print ''    EventLogLastEntry: (0x%lx)'' [hxn EventLogLastEntry],
             Print ''    LastPcrEventSize:  (0x%lx)'' [hxn LastPcrEventSize]] s
      in case LogFormat of
           TCG_1_2 \<Rightarrow> puts [Print ''Do NOT support to dump event log binary file in TCG1.2 format!'' []] s1
         | TCG_2 \<Rightarrow>
             (let (Status, ops) = WriteFileFromBuffer E BinayFileName
                    (bytes_at (log_mem E) EventLogLocation BufferSize)
              in (puts [Print ''DumpEventLogBinFile Start ...'' [],
                        Print ''DumpEventLogBinFile End (Dump to %s %r)'' [Txt BinayFileName, Sts Status]] s1)
                   \<lparr>tcg_ops := tcg_ops s1 @ ops\<rparr>))"

text \<open>One call of \<open>DumpEventLog\<close> with the current \<open>PcrIndex\<close>.\<close>

definition dump_one ::
  "tcg_shell \<Rightarrow> log_format \<Rightarrow> addr \<Rightarrow> addr \<Rightarrow> addr \<Rightarrow> bool \<Rightarrow> tcg_state \<Rightarrow> tcg_state option" where
  "dump_one E LogFormat Location LastEntry Final CalculateExpected s =
     map_option (\<lambda>os. puts os s)
       (DumpEventLog (base_env E) LogFormat Location LastEntry Final (PcrIndex s) CalculateExpected)"

text \<open>The body of the loop over the formats; with \<open>-E\<close> and no index it runs \<open>PcrIndex\<close> through all PCRs.\<close>

definition dump_format :: "tcg_shell \<Rightarrow> tcg_params \<Rightarrow> u32 \<Rightarrow> log_format \<Rightarrow> tcg_state \<Rightarrow> tcg_state option" where
  "dump_format E p LogFormat f s =
     (if format_bit E f AND LogFormat = 0 then Some s
      else
        (let (Status, Location, LastEntry, Truncated) = GetEventLog E f in
         if EFI_ERROR Status
         then Some (puts [Print ''ERROR: Tcg2Protocol->GetEventLog(0x%x) - %r'' [hx (format_bit E f), Sts Status]] s)
         else
           (let s1 = (if Truncated then puts [Print ''WARNING: EventLogTruncated'' []] s else s);
                Final = (if f = TCG_2 then FinalEventsTable E else NULL);
                s2 = (case p_BIN p of Some name \<Rightarrow> dump_binary E name f Location LastEntry s1 | None \<Rightarrow> s1)
            in if p_E p \<and> PcrIndex s2 = PCR_INDEX_ALL
               then map_option (\<lambda>s. s\<lparr>PcrIndex := MAX_PCR_INDEX E + 1\<rparr>)
                      (each (\<lambda>i s. dump_one E f Location LastEntry Final (p_E p) (s\<lparr>PcrIndex := of_nat i\<rparr>))
                        [0..<unat (MAX_PCR_INDEX E) + 1] s2)
               else dump_one E f Location LastEntry Final (p_E p) s2)))"

text \<open>The memory once a file has been read into a pool at \<open>Buffer\<close>.\<close>

definition loaded :: "tcg_shell \<Rightarrow> addr \<Rightarrow> u8 list \<Rightarrow> tcg_shell" where
  "loaded E Buffer bytes = E\<lparr>log_mem :=
     (\<lambda>a. if Buffer \<le> a \<and> a < Buffer + length bytes then bytes ! (a - Buffer) else log_mem E a)\<rparr>"

definition Tcg2_PrintUsage :: "tcg_state \<Rightarrow> tcg_state" where
  "Tcg2_PrintUsage = puts
     [Print (''Tcg2DumpLog Version 0.2'' @ ''Copyright (C) Intel Corp 2019. All rights reserved.'') [],
      Print (''Tcg2DumpLog in EFI Shell Environment.''
        @ ''usage: Tcg2DumpLog [-I <PcrIndex>] [-L <LogFormat>] [-E] [-BIN <File>]''
        @ ''usage: Tcg2DumpLog [-C]'' @ ''usage: Tcg2DumpLog [-A]'' @ ''usage: Tcg2DumpLog [-PARSE]'') [],
      Print (''  -I   - PcrIndex, the valid value is 0-23|ALL (case sensitive)''
        @ ''  -L   - LogFormat, the bitmask of EventLogFormat (Hex based)''
        @ ''  -E   - Print expected PCR value''
        @ ''  -BIN - Dump Event Log binary file (Only support TCG2.0 Event Log Format)''
        @ ''  -C   - Dump Tcg2 Capability''
        @ ''  -A   - Dump TPM2 ACPI table''
        @ ''  -PARSE - Parse Input Event Log binary file (Only support TCG2.0 Event Log Format)'') []]"

definition capability_output :: "tcg_shell \<Rightarrow> tcg2_capability \<Rightarrow> out list" where
  "capability_output E c =
     DumpTcg2Capability c
     @ (case cap_ProtocolVersion c of (Major, Minor) \<Rightarrow>
          if Major < 1 \<or> Major = 1 \<and> Minor = 0 then []
          else (case GetActivePcrBanks E of (Status, PCRBanks) \<Rightarrow>
                  if EFI_ERROR Status then [] else [Print ''CurrentActivePCRBanks - 0x%08x'' [hx PCRBanks]]))"

definition Tcg2_UefiMain :: "tcg_shell \<Rightarrow> tcg_cmd_line \<Rightarrow> tcg_state \<Rightarrow> (efi_status \<times> tcg_state) option" where
  "Tcg2_UefiMain E cmd s =
     (case cmd of
        BAD_LINE Status \<Rightarrow> Some (Status, puts [Print ''ERROR: Incorrect command line.'' []] s)
      | NO_PARAMS \<Rightarrow> Some (EFI_SUCCESS, Tcg2_PrintUsage s)
      | PARAMS p \<Rightarrow>
          if p_help p then Some (EFI_SUCCESS, Tcg2_PrintUsage s)
          else if p_A p then Some (EFI_SUCCESS, puts (Tcg2_DumpAcpiTableWithSign (acpi_of E) (tpm2_of E) (TPM2_SIGNATURE (tpm2_of E))) s)
          else case parse_pcr E (p_I p) of
            Inl i \<Rightarrow> Some (EFI_NOT_FOUND, puts [Print ''ERROR: PcrIndex too large (%d)!'' [hx i]] s)
          | Inr i \<Rightarrow>
              (let LogFormat = (case p_L p of None \<Rightarrow> 0xFFFFFFFF | Some n \<Rightarrow> ucast (StrHexToUintn E n));
                   s1 = puts
                     [Print ''Parameter -I: PcrIndex = 0x%x'' [hx i],
                      Print ''Parameter -L: LogFormat = 0x%x'' [hx LogFormat],
                      Print ''Parameter -E: CalculateExpected = %d'' [hxn (if p_E p then 1 else 0)],
                      Print ''Parameter -BIN: BinayFileName = %s'' [Txt (name_text (p_BIN p))]]
                     (s\<lparr>PcrIndex := i\<rparr>)
               in case p_PARSE p of
                    Some name \<Rightarrow>
                      (let (Status, buffer, ops) = ReadFileToBuffer E name;
                           s2 = puts [Print ''Parameter -PARSE: ParseBinFileName = %s'' [Txt name]] s1;
                           s3 = s2\<lparr>tcg_ops := tcg_ops s2 @ ops\<rparr>
                       in case buffer of
                            None \<Rightarrow> None
                          | Some (Buffer, bytes) \<Rightarrow>
                              map_option (\<lambda>os. (EFI_SUCCESS, puts os s3))
                                (DumpEventLog (base_env (loaded E Buffer bytes))
                                  TCG_2 Buffer (Buffer + length bytes - 1) NULL PCR_INDEX_ALL False))
                  | None \<Rightarrow>
                      if EFI_ERROR (LocateTcg2 E)
                      then Some (LocateTcg2 E, puts [Print ''ERROR: Locate Tcg2Protocol - %r'' [Sts (LocateTcg2 E)]] s1)
                      else
                        (let (Status, c) = GetCapability E in
                         if EFI_ERROR Status
                         then Some (Status, puts [Print ''ERROR: Tcg2Protocol->GetCapability - %r'' [Sts Status]] s1)
                         else if p_C p then Some (EFI_SUCCESS, puts (capability_output E c) s1)
                         else map_option (Pair EFI_SUCCESS)
                                (each (dump_format E p LogFormat) [TCG_1_2, TCG_2] s1))))"

end
