(* ===== verification/Tcg_Props.thy ===== *)
theory Tcg_Props
  imports Tcg_Main
begin

text \<open>
  Properties of \<^verbatim>\<open>Tcg2DumpLog.c\<close>.  The specification is the byte encoding of an event log as a
  list of events (TCG PC Client Platform Firmware Profile), and the replay of such a list into
  the value of a PCR.
\<close>

section \<open>Event logs as lists of events\<close>

record event =
  e_pcr :: u32
  e_type :: u32
  e_digests :: "(u16 \<times> u8 list) list"
  e_data :: "u8 list"

definition enc_digest :: "u16 \<times> u8 list \<Rightarrow> u8 list" where
  "enc_digest ad = enc 2 (unat (fst ad)) @ snd ad"

definition encode2 :: "event \<Rightarrow> u8 list" where
  "encode2 e = enc 4 (unat (e_pcr e)) @ enc 4 (unat (e_type e)) @ enc 4 (length (e_digests e))
     @ concat (map enc_digest (e_digests e)) @ enc 4 (length (e_data e)) @ e_data e"

definition event_ok :: "tcg_env \<Rightarrow> event \<Rightarrow> bool" where
  "event_ok E e \<longleftrightarrow> length (e_digests e) < 2 ^ 32 \<and> length (e_data e) < 2 ^ 32
     \<and> (\<forall>(a, d) \<in> set (e_digests e). length d = digest_size E a)"

text \<open>The first format has one SHA-1 digest; its event is kept as a list of one digest.\<close>

definition encode1 :: "event \<Rightarrow> u8 list" where
  "encode1 e = enc 4 (unat (e_pcr e)) @ enc 4 (unat (e_type e)) @ snd (hd (e_digests e))
     @ enc 4 (length (e_data e)) @ e_data e"

definition event1_ok :: "tcg_env \<Rightarrow> event \<Rightarrow> bool" where
  "event1_ok E e \<longleftrightarrow> length (e_data e) < 2 ^ 32
     \<and> (\<exists>d. e_digests e = [(TPM_ALG_SHA1 E, d)] \<and> length d = sizeof_TCG_DIGEST E)"

text \<open>The packed layout of the specification.\<close>

definition packed :: "tcg_env \<Rightarrow> bool" where
  "packed E \<longleftrightarrow> sizeof_TCG_DIGEST E = 20 \<and> sizeof_PCR_EVENT_HDR E = 32
     \<and> o_h_PCRIndex E = 0 \<and> o_h_EventType E = 4 \<and> o_h_Digest E = 8 \<and> o_h_EventSize E = 28
     \<and> o_2_PCRIndex E = 0 \<and> o_2_EventType E = 4 \<and> o_2_Digest_count E = 8
     \<and> o_2_Digest_hashAlg E = 12 \<and> o_2_Digest_digest E = 14
     \<and> sizeof_SpecIDEventStruct E = 24 \<and> sizeof_AlgorithmSize E = 4
     \<and> o_a_algorithmId E = 0 \<and> o_a_digestSize E = 2"

lemma rd32_enc: "holds m p (enc 4 n) \<Longrightarrow> n < 2 ^ 32 \<Longrightarrow> unat (rd32 m p) = n"
  by (simp add: rd32_def rd_holds unat_of_nat)

lemma rd16_enc: "holds m p (enc 2 n) \<Longrightarrow> n < 2 ^ 16 \<Longrightarrow> unat (rd16 m p) = n"
  by (simp add: rd16_def rd_holds unat_of_nat)

lemma digests_alg: "holds m q (concat (map enc_digest (ad # ds))) \<Longrightarrow>
    rd16 m q = fst ad \<and> holds m (q + 2) (snd ad)
    \<and> holds m (q + 2 + length (snd ad)) (concat (map enc_digest ds))"
  by (simp add: enc_digest_def rd16_holds add.assoc)

lemma skip_digests_enc:
  assumes "holds (log_mem E) q (concat (map enc_digest ds))"
    and "\<forall>(a, d) \<in> set ds. length d = digest_size E a"
  shows "skip_digests E (length ds) (rd16 (log_mem E) q) (q + 2) =
     q + 2 + length (concat (map enc_digest ds))"
  using assms
proof (induction ds arbitrary: q)
  case Nil
  then show ?case by simp
next
  case (Cons ad ds)
  from digests_alg [OF Cons.prems(1)] Cons.prems(2)
  have a: "rd16 (log_mem E) q = fst ad" and sz: "digest_size E (fst ad) = length (snd ad)"
    and rest: "holds (log_mem E) (q + 2 + length (snd ad)) (concat (map enc_digest ds))"
    by auto
  from Cons.IH [OF rest] Cons.prems(2) show ?case
    by (simp add: a sz Let_def enc_digest_def)
qed

lemma find_digest_enc:
  assumes "holds (log_mem E) q (concat (map enc_digest ds))"
    and "\<forall>(a, d) \<in> set ds. length d = digest_size E a"
  shows "map_option (\<lambda>b. bytes_at (log_mem E) b (digest_size E alg))
      (find_digest E alg (length ds) (rd16 (log_mem E) q) (q + 2)) = map_of ds alg"
  using assms
proof (induction ds arbitrary: q)
  case Nil
  then show ?case by simp
next
  case (Cons ad ds)
  obtain b x where ad: "ad = (b, x)" by (cases ad)
  from digests_alg [OF Cons.prems(1)] Cons.prems(2)
  have a: "rd16 (log_mem E) q = b" and sz: "length x = digest_size E b"
    and d: "bytes_at (log_mem E) (q + 2) (digest_size E b) = x"
    and rest: "holds (log_mem E) (q + 2 + digest_size E b) (concat (map enc_digest ds))"
    by (auto simp: holds_def ad)
  from Cons.IH [OF rest] Cons.prems(2) show ?case
    by (simp add: ad a [simplified] d [simplified] Let_def)
qed

text \<open>What the readers say of an encoded event.\<close>

lemma encode2_reads:
  assumes "packed E" and ok: "event_ok E e" and h: "holds (log_mem E) p (encode2 e)"
  shows "ev2_PCRIndex E p = e_pcr e" and "ev2_EventType E p = e_type e"
    and "unat (ev2_count E p) = length (e_digests e)"
    and "rd32 (log_mem E) (event_size_at E p) = of_nat (length (e_data e))"
    and "GetPcrEvent2Size E p = length (encode2 e)"
    and "map_option (\<lambda>b. bytes_at (log_mem E) b (digest_size E alg)) (GetDigestFromPcrEvent2 E p alg)
         = map_of (e_digests e) alg"
proof -
  let ?m = "log_mem E" and ?ds = "concat (map enc_digest (e_digests e))"
  from h have h1: "holds ?m p (enc 4 (unat (e_pcr e)))" and h2: "holds ?m (p + 4) (enc 4 (unat (e_type e)))"
    and h3: "holds ?m (p + 8) (enc 4 (length (e_digests e)))" and h4: "holds ?m (p + 12) ?ds"
    and h5: "holds ?m (p + 12 + length ?ds) (enc 4 (length (e_data e)))"
    by (simp_all add: encode2_def add.assoc)
  from ok have n: "length (e_digests e) < 2 ^ 32" "length (e_data e) < 2 ^ 32"
    and lens: "\<forall>(a, d) \<in> set (e_digests e). length d = digest_size E a"
    by (simp_all add: event_ok_def)
  from \<open>packed E\<close> h1 h2 show "ev2_PCRIndex E p = e_pcr e" "ev2_EventType E p = e_type e"
    by (simp_all add: packed_def ev2_PCRIndex_def ev2_EventType_def rd32_holds)
  from \<open>packed E\<close> h3 n(1) show count: "unat (ev2_count E p) = length (e_digests e)"
    by (simp add: packed_def ev2_count_def rd32_enc)
  have alg: "ev2_hashAlg E p = rd16 ?m (p + 12)" "p + o_2_Digest_digest E = p + 12 + 2"
    using \<open>packed E\<close> by (simp_all add: packed_def ev2_hashAlg_def)
  have at: "event_size_at E p = p + 12 + length ?ds"
    by (simp only: event_size_at_def count alg skip_digests_enc [OF h4 lens])
  have "rd ?m (p + 12 + length ?ds) 4 = length (e_data e)"
    using rd_holds [OF h5] n(2) by simp
  then show size: "rd32 ?m (event_size_at E p) = of_nat (length (e_data e))"
    by (simp add: at rd32_def)
  show "GetPcrEvent2Size E p = length (encode2 e)"
    using n(2) by (simp add: GetPcrEvent2Size_def size Let_def) (simp add: at encode2_def unat_of_nat)
  show "map_option (\<lambda>b. bytes_at ?m b (digest_size E alg)) (GetDigestFromPcrEvent2 E p alg)
      = map_of (e_digests e) alg"
    by (simp only: GetDigestFromPcrEvent2_def count alg find_digest_enc [OF h4 lens])
qed

lemma encode1_reads:
  assumes "packed E" and ok: "event1_ok E e" and h: "holds (log_mem E) p (encode1 e)"
  shows "hdr_PCRIndex E p = e_pcr e" and "hdr_EventType E p = e_type e"
    and "GetPcrEventSize E p = length (encode1 e)"
    and "bytes_at (log_mem E) (p + o_h_Digest E) 20 = snd (hd (e_digests e))"
proof -
  let ?m = "log_mem E"
  from ok \<open>packed E\<close> have n: "length (e_data e) < 2 ^ 32" and d: "length (snd (hd (e_digests e))) = 20"
    by (auto simp: event1_ok_def packed_def)
  from h d have h1: "holds ?m p (enc 4 (unat (e_pcr e)))" and h2: "holds ?m (p + 4) (enc 4 (unat (e_type e)))"
    and h3: "holds ?m (p + 8) (snd (hd (e_digests e)))" and h4: "holds ?m (p + 28) (enc 4 (length (e_data e)))"
    by (simp_all add: encode1_def add.assoc)
  from \<open>packed E\<close> h1 h2 show "hdr_PCRIndex E p = e_pcr e" "hdr_EventType E p = e_type e"
    by (simp_all add: packed_def hdr_PCRIndex_def hdr_EventType_def rd32_holds)
  from \<open>packed E\<close> h4 n d show "GetPcrEventSize E p = length (encode1 e)"
    by (simp add: packed_def GetPcrEventSize_def hdr_EventSize_def rd32_enc encode1_def)
  from \<open>packed E\<close> h3 d show "bytes_at ?m (p + o_h_Digest E) 20 = snd (hd (e_digests e))"
    by (simp add: packed_def holds_def)
qed


section \<open>Walking an encoded log\<close>

text \<open>The addresses at which the events of an encoded log start.\<close>

fun positions :: "('e \<Rightarrow> u8 list) \<Rightarrow> addr \<Rightarrow> 'e list \<Rightarrow> addr list" where
  "positions encode p [] = []"
| "positions encode p (e # es) = p # positions encode (p + length (encode e)) es"

lemma positions_last: "es \<noteq> [] \<Longrightarrow> q \<le> last (positions encode q es)"
proof (induction es arbitrary: q)
  case Nil
  then show ?case by simp
next
  case (Cons e es)
  show ?case
  proof (cases es)
    case Nil
    then show ?thesis by simp
  next
    case (Cons e' es')
    then have "q + length (encode e) \<le> last (positions encode (q + length (encode e)) es)"
      using Cons.IH [of "q + length (encode e)"] by simp
    with Cons show ?thesis by simp
  qed
qed

text \<open>
  The contract between the encoding of an event and the code that measures it; both formats of
  the log satisfy it.
\<close>

locale event_log =
  fixes m :: mem and esize :: "addr \<Rightarrow> nat" and encode :: "'e \<Rightarrow> u8 list" and ok :: "'e \<Rightarrow> bool"
  assumes measures: "ok e \<Longrightarrow> holds m p (encode e) \<Longrightarrow> esize p = length (encode e)"
    and nonempty: "ok e \<Longrightarrow> encode e \<noteq> []"
begin

lemma positions_chain:
  assumes "\<forall>e \<in> set es. ok e" and "holds m p (concat (map encode es))" and "es \<noteq> []"
    and "last (positions encode p es) \<le> LastEntry" and "LastEntry < p + length (concat (map encode es))"
  shows "chain esize (LastEntry + 1) p (positions encode p es)"
  using assms
proof (induction es arbitrary: p)
  case Nil
  then show ?case by simp
next
  case (Cons e es)
  from Cons.prems(1,2) have e: "ok e" and sz: "esize p = length (encode e)"
    and rest: "holds m (p + length (encode e)) (concat (map encode es))"
    using measures [of e p] by simp_all
  show ?case
  proof (cases "es = []")
    case True
    with Cons.prems(4,5) sz show ?thesis by simp
  next
    case False
    then have pos: "positions encode (p + length (encode e)) es \<noteq> []" by (cases es) simp_all
    have "p + length (encode e) \<le> LastEntry"
      using Cons.prems(4) order_trans [OF positions_last [OF False]] pos by simp
    then have "p \<le> LastEntry" by simp
    moreover have "chain esize (LastEntry + 1) (p + length (encode e)) (positions encode (p + length (encode e)) es)"
      using Cons.prems(1,4,5) False pos by (intro Cons.IH rest) (simp_all add: add.assoc)
    ultimately show ?thesis by (simp add: sz)
  qed
qed

lemma log_walk_events:
  fixes s :: 's
  assumes "\<forall>e \<in> set es. ok e" and "holds m p (concat (map encode es))" and "es \<noteq> []"
    and "last (positions encode p es) \<le> LastEntry" and "LastEntry < p + length (concat (map encode es))"
  shows "log_walk esize body p LastEntry s = Some (fold body (positions encode p es) s)"
proof -
  have "visit (\<lambda>p s. Some (Inr (body p s) :: 's + 's)) qs s = Some (Inr (fold body qs s))" for qs s
    by (induction qs arbitrary: s) simp_all
  then show ?thesis
    using walk_chain [OF positions_chain [OF assms], of "\<lambda>p s. Some (Inr (body p s) :: 's + 's)" s]
    by (simp add: log_walk_def)
qed

lemma final_walk_events:
  assumes "\<forall>e \<in> set es. ok e" and "holds m p (concat (map encode es))"
  shows "final_walk esize body (length es) p s = fold body (positions encode p es) s"
  using assms
proof (induction es arbitrary: p s)
  case Nil
  then show ?case by simp
next
  case (Cons e es)
  then show ?case using measures [of e p] by simp
qed

text \<open>A body that treats an encoded event as \<open>f\<close> treats the event.\<close>

lemma fold_events:
  assumes "\<forall>e \<in> set es. ok e" and "holds m p (concat (map encode es))" and "I s"
    and step: "\<And>e p s. ok e \<Longrightarrow> holds m p (encode e) \<Longrightarrow> I s \<Longrightarrow> body p (g s) = g (f e s) \<and> I (f e s)"
  shows "fold body (positions encode p es) (g s) = g (fold f es s)"
  using assms(1-3)
proof (induction es arbitrary: p s)
  case Nil
  then show ?case by simp
next
  case (Cons e es)
  then show ?case using step [of e p s] by simp
qed

end


lemma enc_eq_Nil [simp]: "enc n v = [] \<longleftrightarrow> n = 0"
  by (cases n) simp_all

interpretation log1: event_log "log_mem E" "GetPcrEventSize E" encode1 "\<lambda>e. packed E \<and> event1_ok E e" for E
  by unfold_locales (auto simp: encode1_reads(3), auto simp: encode1_def)

interpretation log2: event_log "log_mem E" "GetPcrEvent2Size E" encode2 "\<lambda>e. packed E \<and> event_ok E e" for E
  by unfold_locales (auto simp: encode2_reads(5), auto simp: encode2_def)

section \<open>Round trip\<close>

text \<open>
  C8: An event of the crypto-agile format is read back from its encoding: PCR, type, number of
  digests, the first digest of each algorithm, and the size, which is the length of the encoding.
\<close>

theorem encode2_roundtrip:
  assumes "packed E" and "event_ok E e" and "holds (log_mem E) p (encode2 e)"
  shows "ev2_PCRIndex E p = e_pcr e \<and> ev2_EventType E p = e_type e
    \<and> unat (ev2_count E p) = length (e_digests e)
    \<and> GetPcrEvent2Size E p = length (encode2 e)
    \<and> rd32 (log_mem E) (event_size_at E p) = of_nat (length (e_data e))
    \<and> map_option (\<lambda>b. bytes_at (log_mem E) b (digest_size E alg)) (GetDigestFromPcrEvent2 E p alg)
      = map_of (e_digests e) alg"
  using encode2_reads [OF assms] by simp

section \<open>Replay\<close>

text \<open>The specification of a PCR bank: the digests of the measured events, extended in order.\<close>

definition measured :: "u32 \<Rightarrow> event \<Rightarrow> bool" where
  "measured pcr e \<longleftrightarrow> e_pcr e = pcr \<and> e_type e \<noteq> EV_NO_ACTION"

definition replay_step :: "(u8 list \<Rightarrow> u8 list) \<Rightarrow> u32 \<Rightarrow> u16 \<Rightarrow> event \<Rightarrow> u8 list \<Rightarrow> u8 list" where
  "replay_step h pcr alg e d =
     (if measured pcr e then (case map_of (e_digests e) alg of Some x \<Rightarrow> h (d @ x) | None \<Rightarrow> d) else d)"

definition replay :: "(u8 list \<Rightarrow> u8 list) \<Rightarrow> nat \<Rightarrow> u32 \<Rightarrow> u16 \<Rightarrow> event list \<Rightarrow> u8 list" where
  "replay h n pcr alg es = fold (replay_step h pcr alg) es (replicate n 0)"

text \<open>A usable algorithm: the code can compute it, and its digests have the size it expects.\<close>

definition computable :: "tcg_env \<Rightarrow> u16 \<Rightarrow> bool" where
  "computable E alg \<longleftrightarrow> alg \<in> {TPM_ALG_SHA1 E, TPM_ALG_SHA256 E}
     \<and> (\<forall>x. length (hash E alg x) = digest_size E alg) \<and> digest_size E alg \<le> sizeof_TPMU_HA E
     \<and> (\<forall>p. alloc_context E p)"

lemma GetHashInfo_iff: "GetHashInfo E alg = (if alg \<in> {TPM_ALG_SHA1 E, TPM_ALG_SHA256 E} then Some alg else None)"
  by (auto simp: GetHashInfo_def mHashInfo_def)

lemma ExtendEvent_computable:
  assumes "computable E alg" and "length d = digest_size E alg"
  shows "ExtendEvent E alg (d @ z) p = hash E alg (d @ bytes_at (log_mem E) p (digest_size E alg)) @ z"
  using assms by (simp add: ExtendEvent_def computable_def GetHashInfo_iff Let_def)

lemma extend_event2_step:
  assumes "packed E" and "event_ok E e" and "holds (log_mem E) p (encode2 e)"
    and "computable E alg" and "length d = digest_size E alg"
  shows "extend_event2 E pcr alg p (d @ z) = replay_step (hash E alg) pcr alg e d @ z
    \<and> length (replay_step (hash E alg) pcr alg e d) = digest_size E alg"
proof -
  note r = encode2_reads [OF assms(1-3)]
  have len: "length (hash E alg x) = digest_size E alg" for x
    using assms(4) by (simp add: computable_def)
  show ?thesis
    using r(6) [of alg] assms(5)
    by (cases "GetDigestFromPcrEvent2 E p alg")
      (auto simp: extend_event2_def replay_step_def measured_def r(1,2) len
        ExtendEvent_computable [OF assms(4)] split: option.splits)
qed

end
