(* ===== verification/Tcg_Log_Props.thy ===== *)
theory Tcg_Log_Props
  imports Tcg_Props
begin

text \<open>
  The two formats of the event log as a whole: what \<open>DumpEventLog\<close> prints and which PCR values
  it computes, for logs given as lists of events.
\<close>

section \<open>The specification structure\<close>

record spec_id =
  sp_fixed :: "u8 list"
  sp_algs :: "(u16 \<times> u16) list"
  sp_vendor :: "u8 list"

definition enc_alg :: "u16 \<times> u16 \<Rightarrow> u8 list" where
  "enc_alg an = enc 2 (unat (fst an)) @ enc 2 (unat (snd an))"

definition encode_spec :: "spec_id \<Rightarrow> u8 list" where
  "encode_spec s = sp_fixed s @ enc 4 (length (sp_algs s)) @ concat (map enc_alg (sp_algs s))
     @ [of_nat (length (sp_vendor s))] @ sp_vendor s"

definition spec_ok :: "spec_id \<Rightarrow> bool" where
  "spec_ok s \<longleftrightarrow> length (sp_fixed s) = 24 \<and> length (sp_algs s) < 2 ^ 32 \<and> length (sp_vendor s) < 2 ^ 8"

lemma length_enc_algs [simp]: "length (concat (map enc_alg as)) = 4 * length as"
  by (induction as) (simp_all add: enc_alg_def)

lemma algs_nth:
  assumes "holds m q (concat (map enc_alg as))" and "i < length as"
  shows "rd16 m (q + 4 * i) = fst (as ! i) \<and> rd16 m (q + 4 * i + 2) = snd (as ! i)"
  using assms
proof (induction as arbitrary: q i)
  case Nil
  then show ?case by simp
next
  case (Cons a as)
  have four: "length (enc_alg a) = 4" by (simp add: enc_alg_def)
  from Cons.prems(1) have here: "holds m q (enc_alg a)" and rest: "holds m (q + 4) (concat (map enc_alg as))"
    by (simp_all add: four)
  from here have h: "holds m q (enc 2 (unat (fst a)))" "holds m (q + 2) (enc 2 (unat (snd a)))"
    by (simp_all add: enc_alg_def)
  show ?case
  proof (cases i)
    case 0
    then show ?thesis using rd16_holds [OF h(1)] rd16_holds [OF h(2)] by simp
  next
    case (Suc j)
    with Cons.prems(2) Cons.IH [OF rest, of j] show ?thesis by (simp add: add.assoc)
  qed
qed

lemma encode_spec_reads:
  assumes "packed E" and "spec_ok s" and h: "holds (log_mem E) p (encode_spec s)"
  shows "unat (GetTcgSpecIdNumberOfAlgorithms E p) = length (sp_algs s)"
    and "GetTcgEfiSpecIdEventStructSize E p = length (encode_spec s)"
    and "i < length (sp_algs s) \<Longrightarrow> algorithmId E p i = fst (sp_algs s ! i) \<and> digestSize E p i = snd (sp_algs s ! i)"
proof -
  let ?m = "log_mem E"
  from assms(2) have n: "length (sp_fixed s) = 24" "length (sp_algs s) < 2 ^ 32" "length (sp_vendor s) < 2 ^ 8"
    by (simp_all add: spec_ok_def)
  from h n(1) have h1: "holds ?m (p + 24) (enc 4 (length (sp_algs s)))"
    and h2: "holds ?m (p + 28) (concat (map enc_alg (sp_algs s)))"
    and h3: "?m (p + 28 + 4 * length (sp_algs s)) = of_nat (length (sp_vendor s))"
    by (simp_all add: encode_spec_def add.assoc)
  from \<open>packed E\<close> have E: "sizeof_SpecIDEventStruct E = 24" "sizeof_AlgorithmSize E = 4"
    "o_a_algorithmId E = 0" "o_a_digestSize E = 2"
    by (simp_all add: packed_def)
  show count: "unat (GetTcgSpecIdNumberOfAlgorithms E p) = length (sp_algs s)"
    using h1 n(2) by (simp add: GetTcgSpecIdNumberOfAlgorithms_def E rd32_enc)
  have "unat (?m (p + 28 + 4 * length (sp_algs s))) = length (sp_vendor s)"
    using n(3) by (simp add: h3 unat_of_nat)
  then show "GetTcgEfiSpecIdEventStructSize E p = length (encode_spec s)"
    using n(1) by (simp add: GetTcgEfiSpecIdEventStructSize_def count Let_def)
      (simp add: GetTcgSpecIdDigestSize_def E encode_spec_def mult.commute add.assoc)
  show "i < length (sp_algs s) \<Longrightarrow> algorithmId E p i = fst (sp_algs s ! i) \<and> digestSize E p i = snd (sp_algs s ! i)"
    using algs_nth [OF h2, of i]
    by (simp add: algorithmId_def digestSize_def GetTcgSpecIdDigestSize_def E mult.commute add.assoc)
qed

section \<open>Logs in memory\<close>

text \<open>
  A log of the second format: the header of the first event (whose fields only the print-out
  reads), the specification structure, the events.  \<open>LastEntry\<close> points into the last event, as
  the protocol and the option \<open>-PARSE\<close> have it.
\<close>

definition log2_in :: "tcg_env \<Rightarrow> addr \<Rightarrow> addr \<Rightarrow> u8 list \<Rightarrow> spec_id \<Rightarrow> event list \<Rightarrow> bool" where
  "log2_in E Location LastEntry hdr spec es \<longleftrightarrow>
     holds (log_mem E) Location (hdr @ encode_spec spec @ concat (map encode2 es))
     \<and> length hdr = 32 \<and> spec_ok spec \<and> (\<forall>e \<in> set es. event_ok E e) \<and> es \<noteq> []
     \<and> last (positions encode2 (Location + 32 + length (encode_spec spec)) es) \<le> LastEntry
     \<and> LastEntry < Location + 32 + length (encode_spec spec) + length (concat (map encode2 es))"

definition log1_in :: "tcg_env \<Rightarrow> addr \<Rightarrow> addr \<Rightarrow> event list \<Rightarrow> bool" where
  "log1_in E Location LastEntry es \<longleftrightarrow>
     holds (log_mem E) Location (concat (map encode1 es)) \<and> (\<forall>e \<in> set es. event1_ok E e) \<and> es \<noteq> []
     \<and> last (positions encode1 Location es) \<le> LastEntry
     \<and> LastEntry < Location + length (concat (map encode1 es))"

text \<open>The final events table; without one there are no final events.\<close>

definition final_in :: "tcg_env \<Rightarrow> addr \<Rightarrow> event list \<Rightarrow> bool" where
  "final_in E Final fs \<longleftrightarrow>
     (if Final = NULL then fs = []
      else unat (fin_NumberOfEvents E Final) = length fs \<and> (\<forall>e \<in> set fs. event_ok E e)
           \<and> holds (log_mem E) (Final + sizeof_FINAL_EVENTS_TABLE E) (concat (map encode2 fs)))"

lemma log2_parts:
  assumes "packed E" and "log2_in E Location LastEntry hdr spec es"
  shows "spec_id_at E Location = Location + 32"
    and "first_event2 E Location = Location + 32 + length (encode_spec spec)"
    and "holds (log_mem E) (first_event2 E Location) (concat (map encode2 es))"
    and "holds (log_mem E) (spec_id_at E Location) (encode_spec spec)"
    and "spec_ok spec"
proof -
  from assms(2) have ok: "spec_ok spec" and hdr: "length hdr = 32"
    and log: "holds (log_mem E) Location (hdr @ encode_spec spec @ concat (map encode2 es))"
    by (auto simp only: log2_in_def)
  from log have h: "holds (log_mem E) (Location + 32) (encode_spec spec)"
      "holds (log_mem E) (Location + 32 + length (encode_spec spec)) (concat (map encode2 es))"
    by (simp_all only: holds_append hdr)
  show at: "spec_id_at E Location = Location + 32"
    using assms(1) by (simp add: spec_id_at_def packed_def)
  show first: "first_event2 E Location = Location + 32 + length (encode_spec spec)"
    using encode_spec_reads(2) [OF assms(1) ok h(1)] by (simp add: first_event2_def at)
  show "holds (log_mem E) (first_event2 E Location) (concat (map encode2 es))" by (simp only: first h)
  show "holds (log_mem E) (spec_id_at E Location) (encode_spec spec)" by (simp only: at h)
  show "spec_ok spec" by (rule ok)
qed

text \<open>A walk over log and final events whose body treats an encoded event as \<open>f\<close> treats the event.\<close>

lemma both_logs_events:
  assumes "packed E" and "log2_in E Location LastEntry hdr spec es" and "final_in E Final fs" and "I s"
    and step: "\<And>e p s. event_ok E e \<Longrightarrow> holds (log_mem E) p (encode2 e) \<Longrightarrow> I s \<Longrightarrow>
      body p (g s) = g (f e s) \<and> I (f e s)"
  shows "both_logs E (GetPcrEvent2Size E) body (first_event2 E Location) LastEntry Final (g s)
    = Some (g (fold f (es @ fs) s))"
proof -
  note parts = log2_parts [OF assms(1,2)]
  have ok: "\<forall>e \<in> set es. packed E \<and> event_ok E e" and ne: "es \<noteq> []"
    and last: "last (positions encode2 (first_event2 E Location) es) \<le> LastEntry"
      "LastEntry < first_event2 E Location + length (concat (map encode2 es))"
    using assms(1,2) by (simp_all add: log2_in_def parts(2))
  have okf: "\<forall>e \<in> set fs. packed E \<and> event_ok E e"
    using assms(1,3) by (auto simp: final_in_def split: if_splits)
  have run: "fold body (positions encode2 p gs) (g s) = g (fold f gs s)"
    if "\<forall>e \<in> set gs. packed E \<and> event_ok E e" "holds (log_mem E) p (concat (map encode2 gs))" "I s" for p gs s
    by (rule log2.fold_events [where I = I and g = g and f = f, OF that]) (use step in auto)
  have keep: "I (fold f es s)"
  proof -
    have "I s \<Longrightarrow> \<forall>e \<in> set gs. event_ok E e \<Longrightarrow> holds (log_mem E) p (concat (map encode2 gs)) \<Longrightarrow> I (fold f gs s)"
      for gs p s
      by (induction gs arbitrary: p s) (use step in auto)
    with assms(4) ok parts(3) show ?thesis by blast
  qed
  have "log_walk (GetPcrEvent2Size E) body (first_event2 E Location) LastEntry (g s) = Some (g (fold f es s))"
    unfolding log2.log_walk_events [OF ok parts(3) ne last] by (simp add: run [OF ok parts(3) assms(4)])
  moreover have "final_walk (GetPcrEvent2Size E) body (unat (fin_NumberOfEvents E Final))
      (Final + sizeof_FINAL_EVENTS_TABLE E) (g (fold f es s)) = g (fold f fs (fold f es s))" if "Final \<noteq> NULL"
    using assms(3) that by (simp add: final_in_def log2.final_walk_events [OF okf] run [OF okf _ keep])
  ultimately show ?thesis
    using assms(3) by (cases "Final = NULL") (simp_all add: both_logs_def final_in_def)
qed

lemma expected_2_replay:
  assumes "packed E" and "log2_in E Location LastEntry hdr spec es" and "final_in E Final fs"
    and "computable E alg"
  shows "expected_2 E pcr alg Location LastEntry Final
    = Some (replay (hash E alg) (digest_size E alg) pcr alg (es @ fs)
        @ replicate (sizeof_TPMU_HA E - digest_size E alg) 0)"
proof -
  let ?n = "digest_size E alg"
  have "replicate (sizeof_TPMU_HA E) (0 :: u8) = replicate ?n 0 @ replicate (sizeof_TPMU_HA E - ?n) 0"
    using assms(4) by (simp add: computable_def flip: replicate_add)
  then show ?thesis
    using both_logs_events [OF assms(1-3), where I = "\<lambda>d. length d = ?n" and s = "replicate ?n 0"
        and g = "\<lambda>d. d @ replicate (sizeof_TPMU_HA E - ?n) 0" and f = "replay_step (hash E alg) pcr alg"
        and body = "extend_event2 E pcr alg"]
      extend_event2_step [OF assms(1) _ _ assms(4)]
    by (simp add: expected_2_def replay_def)
qed

section \<open>Expected PCR values\<close>


text \<open>
  With \<open>-E\<close> the dump of a log of the first format shows the SHA-1 replay of its measured
  events, next to what the TPM returns for the PCR.
\<close>

theorem DumpEventLog_expected_sha1:
  assumes "packed E" and "log1_in E Location LastEntry es"
    and "computable E (TPM_ALG_SHA1 E)" and "digest_size E (TPM_ALG_SHA1 E) = 20"
    and "unat pcr div 8 < PCR_SELECT_MAX E"
  shows "DumpEventLog E TCG_1_2 Location LastEntry NULL pcr True =
    Some ([Print ''EventLogFormat: (0x%x)'' [hx (format_bit E TCG_1_2)],
           Print ''EventLogLocation: (0x%lx)'' [hxn Location]]
      @ calculated pcr (replay (hash E (TPM_ALG_SHA1 E)) 20 pcr (TPM_ALG_SHA1 E) es)
      @ the (DumpPcr E pcr (TPM_ALG_SHA1 E)))"
proof -
  let ?a = "TPM_ALG_SHA1 E"
  have ok: "\<forall>e \<in> set es. packed E \<and> event1_ok E e" and h: "holds (log_mem E) Location (concat (map encode1 es))"
    and ne: "es \<noteq> []" and last: "last (positions encode1 Location es) \<le> LastEntry"
      "LastEntry < Location + length (concat (map encode1 es))"
    using assms(1,2) by (auto simp: log1_in_def)
  have step: "extend_event E pcr p d = replay_step (hash E ?a) pcr ?a e d
      \<and> length (replay_step (hash E ?a) pcr ?a e d) = 20"
    if e: "packed E \<and> event1_ok E e" "holds (log_mem E) p (encode1 e)" and d: "length d = 20" for e p d
  proof -
    from e(1) obtain x where x: "e_digests e = [(?a, x)]" by (auto simp: event1_ok_def)
    have r: "hdr_PCRIndex E p = e_pcr e" "hdr_EventType E p = e_type e" "bytes_at (log_mem E) (p + o_h_Digest E) 20 = x"
      using encode1_reads [OF conjunct1 [OF e(1)] conjunct2 [OF e(1)] e(2)] x by simp_all
    have "length (hash E ?a y) = 20" for y using assms(3,4) by (simp add: computable_def)
    with ExtendEvent_computable [OF assms(3), of d "[]"] assms(4) d show ?thesis
      by (simp add: extend_event_def replay_step_def measured_def r x)
  qed
  have "fold (extend_event E pcr) (positions encode1 Location es) (id (replicate 20 0))
      = id (fold (replay_step (hash E ?a) pcr ?a) es (replicate 20 0))"
    by (rule log1.fold_events [OF ok h, where I = "\<lambda>d. length d = 20"]) (use step in auto)
  then have "expected_1_2 E pcr Location LastEntry NULL = Some (replay (hash E ?a) 20 pcr ?a es)"
    using assms(1) by (simp add: expected_1_2_def both_logs_def log1.log_walk_events [OF ok h ne last] replay_def packed_def)
  moreover obtain os where "DumpPcr E pcr ?a = Some os"
    using assms(5) by (cases "DumpPcr E pcr ?a") (auto simp: DumpPcr_def Let_def split: prod.splits if_splits)
  ultimately show ?thesis by (simp add: DumpEventLog_def Let_def)
qed

end
