(* ===== verification/Tcg_Main_Props.thy ===== *)
theory Tcg_Main_Props
  imports Tcg_Log_Props
begin

text \<open>
  What the tool prints of a log, what it does with banks it cannot compute, the binary file, and
  the run over all PCRs.
\<close>

section \<open>The print-out\<close>

text \<open>The events of a PCR (or all of them) in an encoded list at \<open>p\<close>, printed.\<close>

definition selected :: "tcg_env \<Rightarrow> u32 \<Rightarrow> addr \<Rightarrow> event list \<Rightarrow> out list" where
  "selected E pcr p es =
     concat (map (\<lambda>(q, e). if pcr = PCR_INDEX_ALL \<or> e_pcr e = pcr then DumpEvent2 E q else [])
       (zip (positions encode2 p es) es))"

lemma print_events:
  assumes "packed E" and "\<forall>e \<in> set es. event_ok E e" and "holds (log_mem E) p (concat (map encode2 es))"
  shows "fold (print_event2 E pcr) (positions encode2 p es) os = os @ selected E pcr p es"
  using assms(2,3)
proof (induction es arbitrary: p os)
  case Nil
  then show ?case by (simp add: selected_def)
next
  case (Cons e es)
  then have "ev2_PCRIndex E p = e_pcr e" using encode2_reads(1) [OF assms(1), of e p] by simp
  with Cons show ?case by (auto simp: selected_def print_event2_def)
qed

lemma print_logs_events:
  assumes "packed E" and "log2_in E Location LastEntry hdr spec es" and "final_in E Final fs"
  shows "print_logs E (GetPcrEvent2Size E) (print_event2 E pcr) (first_event2 E Location) LastEntry Final os
    = Some (os @ selected E pcr (first_event2 E Location) es @ final_heading E Final
        @ selected E pcr (Final + sizeof_FINAL_EVENTS_TABLE E) fs)"
proof -
  note parts = log2_parts [OF assms(1,2)]
  have ok: "\<forall>e \<in> set es. packed E \<and> event_ok E e" and ne: "es \<noteq> []"
    and last: "last (positions encode2 (first_event2 E Location) es) \<le> LastEntry"
      "LastEntry < first_event2 E Location + length (concat (map encode2 es))"
    using assms(1,2) by (simp_all add: log2_in_def parts(2))
  have okf: "\<forall>e \<in> set fs. packed E \<and> event_ok E e"
    using assms(1,3) by (auto simp: final_in_def split: if_splits)
  have "\<forall>e \<in> set es. event_ok E e" "\<forall>e \<in> set fs. event_ok E e" using ok okf by simp_all
  note run = print_events [OF assms(1) this(1) parts(3)] print_events [OF assms(1) this(2)]
  show ?thesis
    using assms(3)
    by (auto simp: print_logs_def log2.log_walk_events [OF ok parts(3) ne last] run final_in_def
        log2.final_walk_events [OF okf] selected_def split: if_splits)
qed

text \<open>
  C21: Without \<open>-E\<close> the dump of a crypto-agile log prints the first event and its specification
  structure, then of the log and of the final events table exactly the events of the selected
  PCR, in log order.
\<close>

theorem DumpEventLog_prints:
  assumes "packed E" and "log2_in E Location LastEntry hdr spec es" and "final_in E Final fs"
  shows "DumpEventLog E TCG_2 Location LastEntry Final pcr False =
    Some ([Print ''EventLogFormat: (0x%x)'' [hx (format_bit E TCG_2)],
           Print ''EventLogLocation: (0x%lx)'' [hxn Location], Print ''Tcg2Event:'' []]
      @ DumpEvent E Location @ DumpTcgEfiSpecIdEventStruct E (Location + 32)
      @ selected E pcr (Location + 32 + length (encode_spec spec)) es
      @ final_heading E Final @ selected E pcr (Final + sizeof_FINAL_EVENTS_TABLE E) fs
      @ [Print ''Tcg2Event end'' []])"
  using print_logs_events [OF assms] log2_parts(1,2) [OF assms(1,2)]
  by (simp add: DumpEventLog_def Let_def)

section \<open>Banks that cannot be computed\<close>

text \<open>
  For an algorithm other than SHA-1 and SHA-256 the expected value does not depend on the
  digests: it is all zeros as long as no measured event of the PCR has a digest for it, and all
  0xFF bytes from the first such event on.
\<close>

theorem expected_2_unsupported:
  assumes "packed E" and "log2_in E Location LastEntry hdr spec es" and "final_in E Final fs"
    and "alg \<notin> {TPM_ALG_SHA1 E, TPM_ALG_SHA256 E}" and "digest_size E alg \<le> sizeof_TPMU_HA E"
  shows "expected_2 E pcr alg Location LastEntry Final
    = Some (replicate (digest_size E alg)
              (if \<exists>e \<in> set (es @ fs). measured pcr e \<and> alg \<in> fst ` set (e_digests e) then 0xFF else 0)
        @ replicate (sizeof_TPMU_HA E - digest_size E alg) 0)"
proof -
  let ?n = "digest_size E alg" and ?hit = "\<lambda>e. measured pcr e \<and> alg \<in> fst ` set (e_digests e)"
  let ?g = "\<lambda>b. replicate ?n (if b then 0xFF else (0 :: u8)) @ replicate (sizeof_TPMU_HA E - ?n) 0"
  have zeros: "replicate (sizeof_TPMU_HA E) (0 :: u8) = ?g False"
    using assms(5) by (simp flip: replicate_add)
  have step: "extend_event2 E pcr alg p (?g b) = ?g (b \<or> ?hit e)"
    if e: "event_ok E e" "holds (log_mem E) p (encode2 e)" for e p b
  proof -
    note r = encode2_reads [OF assms(1) e]
    have "GetDigestFromPcrEvent2 E p alg = None \<longleftrightarrow> alg \<notin> fst ` set (e_digests e)"
      using r(6) [of alg] by (metis map_of_eq_None_iff option.map_disc_iff)
    moreover have "ExtendEvent E alg (?g b) q = ?g True" for q
      using assms(4) by (simp add: ExtendEvent_def GetHashInfo_iff Let_def)
    ultimately show ?thesis
      by (auto simp: extend_event2_def measured_def r(1,2) split: option.split)
  qed
  have "fold (\<lambda>e b. b \<or> ?hit e) gs b \<longleftrightarrow> b \<or> (\<exists>e \<in> set gs. ?hit e)" for gs b
    by (induction gs arbitrary: b) auto
  then show ?thesis
    using both_logs_events [OF assms(1-3), where I = "\<lambda>_. True" and s = False and g = ?g
        and f = "\<lambda>e b. b \<or> ?hit e" and body = "extend_event2 E pcr alg"] step
    by (simp add: expected_2_def zeros bex_Un)
qed

section \<open>The binary file\<close>

text \<open>The size the tool computes from the address of the last entry is that of the whole log.\<close>

lemma last_position:
  "es \<noteq> [] \<Longrightarrow> holds m p (concat (map encode2 es)) \<Longrightarrow>
   holds m (last (positions encode2 p es)) (encode2 (last es))
   \<and> last (positions encode2 p es) + length (encode2 (last es)) = p + length (concat (map encode2 es))"
proof (induction es arbitrary: p)
  case Nil
  then show ?case by simp
next
  case (Cons e es)
  show ?case
  proof (cases "es = []")
    case True
    with Cons.prems show ?thesis by simp
  next
    case False
    then have "positions encode2 (p + length (encode2 e)) es \<noteq> []" by (cases es) simp_all
    with Cons.IH [OF False, of "p + length (encode2 e)"] Cons.prems(2) False show ?thesis
      by (simp add: add.assoc)
  qed
qed

lemma log2_size:
  assumes "packed E" and "log2_in E Location LastEntry hdr spec es"
    and "LastEntry = last (positions encode2 (Location + 32 + length (encode_spec spec)) es)"
  shows "LastEntry - Location + GetPcrEvent2Size E LastEntry
      = length (hdr @ encode_spec spec @ concat (map encode2 es))"
proof -
  note parts = log2_parts [OF assms(1,2)]
  have es: "es \<noteq> []" "event_ok E (last es)" and hdr: "length hdr = 32"
    using assms(2) by (auto simp: log2_in_def)
  from last_position [OF es(1) parts(3)]
  have at: "holds (log_mem E) LastEntry (encode2 (last es))"
    and sz: "LastEntry + length (encode2 (last es))
      = Location + 32 + length (encode_spec spec) + length (concat (map encode2 es))"
    by (simp_all add: assms(3) parts(2))
  have "Location + 32 \<le> LastEntry"
    using positions_last [OF es(1), of "Location + 32 + length (encode_spec spec)" encode2] assms(3) by simp
  with sz show ?thesis
    by (simp add: encode2_reads(5) [OF assms(1) es(2) at] hdr)
qed

text \<open>
  With \<open>-BIN\<close> the bytes handed to the file are exactly those of the whole event log, from the
  first event to the end of the last one.
\<close>

theorem dump_binary_complete:
  assumes "packed (base_env E)" and "log2_in (base_env E) Location LastEntry hdr spec es"
    and "LastEntry = last (positions encode2 (Location + 32 + length (encode_spec spec)) es)"
  shows "tcg_ops (dump_binary E name TCG_2 Location LastEntry s)
    = tcg_ops s @ snd (WriteFileFromBuffer E name (hdr @ encode_spec spec @ concat (map encode2 es)))"
proof -
  have "log_mem (base_env E) = log_mem E" by (simp add: tcg_env.defs)
  moreover have "bytes_at (log_mem (base_env E)) Location (length (hdr @ encode_spec spec @ concat (map encode2 es)))
      = hdr @ encode_spec spec @ concat (map encode2 es)"
    using assms(2) by (simp only: log2_in_def holds_def)
  ultimately show ?thesis
    by (simp add: dump_binary_def Let_def log2_size [OF assms] puts_def case_prod_beta)
qed

section \<open>File handles\<close>

text \<open>The state of a handle along a trace: \<open>None\<close> is a call on a handle in the wrong state.\<close>

fun handle_state :: "bool \<Rightarrow> file_op list \<Rightarrow> bool option" where
  "handle_state is_open [] = Some is_open"
| "handle_state False (FOPEN n # ops) = handle_state True ops"
| "handle_state True (FCLOSE # ops) = handle_state False ops"
| "handle_state True (FSETSIZE # ops) = handle_state True ops"
| "handle_state True (FREAD n # ops) = handle_state True ops"
| "handle_state True (FWRITE b # ops) = handle_state True ops"
| "handle_state is_open (op # ops) = None"

text \<open>
  On every path, errors included, reading and writing a file use the handle only while it is
  open and leave it closed.
\<close>

theorem file_handles_closed:
  "handle_state False (snd (snd (ReadFileToBuffer E name))) = Some False
   \<and> handle_state False (snd (WriteFileFromBuffer E name Buffer)) = Some False"
  by (auto simp: ReadFileToBuffer_def WriteFileFromBuffer_def Let_def split: prod.split option.split)

section \<open>All PCRs\<close>

lemma DumpEventLog_bad_pcr:
  assumes "PCR_SELECT_MAX E \<le> unat pcr div 8"
    and "0 < unat (GetTcgSpecIdNumberOfAlgorithms E (spec_id_at E Location))"
  shows "DumpEventLog E TCG_2 Location LastEntry Final pcr True = None"
proof -
  have "expected_algorithm E pcr Location LastEntry Final i os = None" for i os
    using assms(1)
    by (cases "expected_2 E pcr (algorithmId E (spec_id_at E Location) i) Location LastEntry Final")
      (simp_all add: expected_algorithm_def Let_def DumpPcr_def)
  moreover have "[0..<unat (GetTcgSpecIdNumberOfAlgorithms E (spec_id_at E Location))] \<noteq> []"
    using assms(2) by simp
  ultimately have "each (expected_algorithm E pcr Location LastEntry Final)
      [0..<unat (GetTcgSpecIdNumberOfAlgorithms E (spec_id_at E Location))] os = None" for os
    by (cases "[0..<unat (GetTcgSpecIdNumberOfAlgorithms E (spec_id_at E Location))]") simp_all
  then show ?thesis by (simp add: DumpEventLog_def Let_def)
qed

text \<open>
  With \<open>-E\<close> and no index, a machine that has logs in both formats makes the tool leave the
  PCR range: the loop over the PCRs of the first log leaves \<open>PcrIndex\<close> at 24, the second log is
  dumped for that index only, and the selection bit of PCR 24 is outside the array.
\<close>

theorem Tcg2_UefiMain_pcr_24:
  assumes "\<not> p_help p \<and> \<not> p_A p \<and> p_I p = None \<and> p_L p = None \<and> p_E p \<and> p_PARSE p = None \<and> \<not> p_C p"
    and "\<not> EFI_ERROR (LocateTcg2 E) \<and> \<not> EFI_ERROR (fst (GetCapability E))"
    and "format_bit E TCG_1_2 = 1 \<and> format_bit E TCG_2 = 2"
    and "\<not> EFI_ERROR (fst (GetEventLog E TCG_1_2)) \<and> \<not> EFI_ERROR (fst (GetEventLog E TCG_2))"
    and "MAX_PCR_INDEX E = 23" and "PCR_SELECT_MAX E = 3"
    and "0 < unat (GetTcgSpecIdNumberOfAlgorithms (base_env E)
           (spec_id_at (base_env E) (fst (snd (GetEventLog E TCG_2)))))"
  shows "Tcg2_UefiMain E (PARAMS p) s = None"
proof -
  have keep: "PcrIndex (puts os t) = PcrIndex t" for os t by (simp add: puts_def)
  have keep_bin: "PcrIndex (dump_binary E n f l le t) = PcrIndex t" for n f l le t
    by (simp add: dump_binary_def Let_def puts_def split: log_format.split prod.split)
  have first: "t' = t'' \<Longrightarrow> PcrIndex t'' = 24" if t: "PcrIndex t = PCR_INDEX_ALL"
    and run: "dump_format E p 0xFFFFFFFF TCG_1_2 t = Some t'" for t t' t''
    using run t assms(1,3,4,5)
    by (auto simp: dump_format_def Let_def keep keep_bin split: prod.splits option.splits if_splits)
  have second: "dump_format E p 0xFFFFFFFF TCG_2 t = None" if t: "PcrIndex t = 24" for t
  proof -
    have 3: "PCR_SELECT_MAX (base_env E) \<le> unat (24 :: u32) div 8"
      using assms(6) by (simp add: tcg_env.defs)
    obtain st l le tr where g: "GetEventLog E TCG_2 = (st, l, le, tr)" by (cases "GetEventLog E TCG_2") auto
    have "dump_one E TCG_2 l le Final True t' = None" if "PcrIndex t' = 24" for Final t'
      using assms(7) that by (simp add: dump_one_def g DumpEventLog_bad_pcr [OF 3])
    then show ?thesis
      using assms(1,3,4) t
      by (simp add: dump_format_def g Let_def keep keep_bin PCR_INDEX_ALL_def split: option.split)
  qed
  have loop: "each (dump_format E p 0xFFFFFFFF) [TCG_1_2, TCG_2] t = None" if t: "PcrIndex t = PCR_INDEX_ALL" for t
    using first [OF t] second by (cases "dump_format E p 0xFFFFFFFF TCG_1_2 t") auto
  obtain st c where c: "GetCapability E = (st, c)" by (cases "GetCapability E")
  show ?thesis
    using assms(1,2)
    by (simp add: Tcg2_UefiMain_def Let_def parse_pcr_def c loop keep del: each.simps)
qed

end
