(* ===== verification/Tcg_Witness.thy ===== *)
theory Tcg_Witness
  imports Tcg_Main_Props
begin

text \<open>
  The option \<open>-PARSE\<close> on a file with an encoded log, and concrete logs at which the theorems on
  \<^verbatim>\<open>Tcg2DumpLog.c\<close> apply.
\<close>

lemma base_env_mem: "log_mem (base_env E) = log_mem E"
  by (simp add: tcg_env.defs)

lemma loaded_base: "base_env (loaded E B bytes) = (base_env E)\<lparr>log_mem := log_mem (loaded E B bytes)\<rparr>"
  by (simp add: loaded_def tcg_env.defs)

lemma loaded_holds: "holds (log_mem (loaded E B bytes)) B bytes"
  unfolding holds_def by (rule nth_equalityI) (simp_all add: bytes_at_def loaded_def)

text \<open>
  C22: Given a file with the bytes of a whole crypto-agile log, as \<open>-BIN\<close> writes it, the option
  \<open>-PARSE\<close> succeeds and prints every event of the log, from the memory the file was read to.
\<close>

theorem Tcg2_UefiMain_parse:
  assumes "\<not> p_help p \<and> \<not> p_A p \<and> p_I p = None \<and> p_PARSE p = Some name"
    and "\<not> EFI_ERROR (LocateShell E) \<and> \<not> EFI_ERROR (OpenFileByName E name)"
    and "GetFileSize E name = (EFI_SUCCESS, n)" and "AllocateFilePool E (unat n) = B" and "B \<noteq> NULL"
    and "ReadFile E name (unat n) = (EFI_SUCCESS, hdr @ encode_spec spec @ concat (map encode2 es))"
    and "packed (base_env E)" and "length hdr = 32" and "spec_ok spec"
    and "\<forall>e \<in> set es. event_ok (base_env E) e" and "es \<noteq> []"
    and "E' = base_env (loaded E B (hdr @ encode_spec spec @ concat (map encode2 es)))"
  shows "\<exists>s' parameters. Tcg2_UefiMain E (PARAMS p) s = Some (EFI_SUCCESS, s')
    \<and> tcg_out s' = tcg_out s @ parameters
        @ DumpEvent E' B @ DumpTcgEfiSpecIdEventStruct E' (B + 32)
        @ selected E' PCR_INDEX_ALL (B + 32 + length (encode_spec spec)) es
        @ [Print ''FinalEventsTable: NOT FOUND'' [], Print ''Tcg2Event end'' []]"
proof -
  let ?bytes = "hdr @ encode_spec spec @ concat (map encode2 es)"
  let ?last = "B + length ?bytes - 1"
  have E': "E' = (base_env E)\<lparr>log_mem := log_mem (loaded E B ?bytes)\<rparr>"
    by (simp only: assms(12) loaded_base)
  have packed': "packed E'" using assms(7) by (simp add: E' packed_def)
  have ok': "\<forall>e \<in> set es. event_ok E' e"
    using assms(10) by (simp add: E' event_ok_def digest_size_def)
  have held: "holds (log_mem E') B ?bytes" by (simp only: assms(12) base_env_mem loaded_holds)
  have log: "log2_in E' B ?last hdr spec es"
  proof -
    from held have "holds (log_mem E') (B + 32 + length (encode_spec spec)) (concat (map encode2 es))"
      by (simp only: holds_append assms(8))
    note at = last_position [OF assms(11) this]
    have "encode2 (last es) \<noteq> []" by (simp add: encode2_def)
    then have "last (positions encode2 (B + 32 + length (encode_spec spec)) es) \<le> ?last"
      using at assms(8) by (cases "length (encode2 (last es))") auto
    moreover have "concat (map encode2 es) \<noteq> []"
      using assms(11) by (cases es) (simp_all add: encode2_def)
    then have "?last < B + 32 + length (encode_spec spec) + length (concat (map encode2 es))"
      using assms(8) by (cases "concat (map encode2 es)") simp_all
    ultimately show ?thesis
      using held assms(8,9,11) ok' by (simp only: log2_in_def) simp
  qed
  have "final_in E' NULL []" by (simp add: final_in_def)
  note printed = DumpEventLog_prints [OF packed' log this, of PCR_INDEX_ALL]
  define bytes where "bytes = ?bytes"
  define X where "X = DumpEvent E' B @ DumpTcgEfiSpecIdEventStruct E' (B + 32)
      @ selected E' PCR_INDEX_ALL (B + 32 + length (encode_spec spec)) es
      @ [Print ''FinalEventsTable: NOT FOUND'' [], Print ''Tcg2Event end'' []]"
  define heading where "heading = [Print ''EventLogFormat: (0x%x)'' [hx (format_bit E' TCG_2)],
      Print ''EventLogLocation: (0x%lx)'' [hxn B], Print ''Tcg2Event:'' []]"
  have log_out: "DumpEventLog (base_env (loaded E B bytes)) TCG_2 B (B + length bytes - Suc 0) 0 PCR_INDEX_ALL False
      = Some (heading @ X)"
    using printed unfolding assms(12) [folded bytes_def, symmetric] X_def heading_def
    by (simp add: bytes_def final_heading_def selected_def)
  have content: "ReadFile E name (unat n) = (EFI_SUCCESS, bytes)" using assms(6) by (simp only: bytes_def)
  have "\<exists>s' par. Tcg2_UefiMain E (PARAMS p) s = Some (EFI_SUCCESS, s') \<and> tcg_out s' = tcg_out s @ par @ heading @ X"
    using assms(1-5) content by (simp add: Tcg2_UefiMain_def Let_def parse_pcr_def ReadFileToBuffer_def log_out puts_def)
  then obtain s' par where "Tcg2_UefiMain E (PARAMS p) s = Some (EFI_SUCCESS, s')"
    and "tcg_out s' = tcg_out s @ (par @ heading) @ X" by auto
  then show ?thesis unfolding X_def by blast
qed

section \<open>Concrete logs\<close>

text \<open>The layout of the specification, a toy hash and a TPM without PCR values.\<close>

definition toy_hash :: "u16 \<Rightarrow> u8 list \<Rightarrow> u8 list" where
  "toy_hash alg x = replicate (if alg = 4 then 20 else 32) (sum_list x)"

definition sample_shell :: "mem \<Rightarrow> tcg_shell" where
  "sample_shell m = undefined\<lparr>log_mem := m, sizeof_PCR_EVENT_HDR := 32, sizeof_TCG_DIGEST := 20,
     o_h_PCRIndex := 0, o_h_EventType := 4, o_h_Digest := 8, o_h_EventSize := 28,
     o_2_PCRIndex := 0, o_2_EventType := 4, o_2_Digest_count := 8, o_2_Digest_hashAlg := 12,
     o_2_Digest_digest := 14, sizeof_SpecIDEventStruct := 24, sizeof_AlgorithmSize := 4,
     o_a_algorithmId := 0, o_a_digestSize := 2, sizeof_TPMU_HA := 64,
     TPM_ALG_SHA1 := 4, TPM_ALG_SHA256 := 11,
     GetHashSizeFromAlgo := (\<lambda>a. if a = 4 then 20 else if a = 11 then 32 else if a = 12 then 48 else 0),
     hash := toy_hash, alloc_context := (\<lambda>_. True), PCR_SELECT_MAX := 3, MAX_PCR_INDEX := 23,
     Tpm2PcrRead := (\<lambda>_ _. (EFI_SUCCESS, [])), format_bit := (\<lambda>f. if f = TCG_1_2 then 1 else 2),
     LocateTcg2 := EFI_SUCCESS, GetCapability := (EFI_SUCCESS, undefined),
     GetEventLog := (\<lambda>_. (EFI_SUCCESS, 0x1000, 0x1041, False)), FinalEventsTable := NULL,
     LocateShell := EFI_SUCCESS, OpenFileByName := (\<lambda>_. EFI_SUCCESS),
     GetFileSize := (\<lambda>_. (EFI_SUCCESS, 103)), AllocateFilePool := (\<lambda>_. 0x2000),
     ReadFile := (\<lambda>_ _. (EFI_SUCCESS, bytes_at m 0x1000 103))\<rparr>"

definition sample_tcg :: "mem \<Rightarrow> tcg_env" where
  "sample_tcg m = base_env (sample_shell m)"

lemma sample_tcg_fields [simp]:
  "log_mem (sample_tcg m) = m" "TPM_ALG_SHA1 (sample_tcg m) = 4" "TPM_ALG_SHA256 (sample_tcg m) = 11"
  "GetHashSizeFromAlgo (sample_tcg m) = (\<lambda>a. if a = 4 then 20 else if a = 11 then 32 else if a = 12 then 48 else 0)"
  "hash (sample_tcg m) = toy_hash" "alloc_context (sample_tcg m) = (\<lambda>_. True)"
  "sizeof_TPMU_HA (sample_tcg m) = 64" "PCR_SELECT_MAX (sample_tcg m) = 3"
  "Tpm2PcrRead (sample_tcg m) = (\<lambda>_ _. (EFI_SUCCESS, []))"
  "format_bit (sample_tcg m) = (\<lambda>f. if f = TCG_1_2 then 1 else 2)"
  "sizeof_TCG_DIGEST (sample_tcg m) = 20"
  by (simp_all add: sample_tcg_def sample_shell_def tcg_env.defs)

lemma sample_packed [simp]: "packed (sample_tcg m)"
  by (simp add: packed_def sample_tcg_def sample_shell_def tcg_env.defs)

lemma sample_computable [simp]: "computable (sample_tcg m) 4"
  by (simp add: computable_def toy_hash_def digest_size_def)

text \<open>A log that extends PCR 0 with one SHA-1 digest.\<close>

definition sample_event :: event where
  "sample_event = \<lparr>e_pcr = 0, e_type = 8, e_digests = [(4, replicate 20 7)], e_data = []\<rparr>"

definition sample_spec :: spec_id where
  "sample_spec = \<lparr>sp_fixed = replicate 24 0, sp_algs = [(4, 20)], sp_vendor = []\<rparr>"

definition sample_log :: "u8 list" where
  "sample_log = replicate 32 0 @ encode_spec sample_spec @ concat (map encode2 [sample_event])"

definition sample_mem :: mem where
  "sample_mem = mem_of 0x1000 sample_log"

lemma sample_lengths: "length (encode_spec sample_spec) = 33" "length (encode2 sample_event) = 38"
  by (simp_all add: encode_spec_def sample_spec_def enc_alg_def encode2_def sample_event_def enc_digest_def)

lemma sample_log_ok: "event_ok (sample_tcg m) sample_event" "spec_ok sample_spec"
  by (simp_all add: event_ok_def sample_event_def digest_size_def spec_ok_def sample_spec_def)

lemma sample_log2: "log2_in (sample_tcg sample_mem) 0x1000 0x1041 (replicate 32 0) sample_spec [sample_event]"
  using holds_mem_of [of "0x1000" sample_log]
  by (simp add: log2_in_def sample_log_ok sample_lengths sample_mem_def [symmetric])
    (simp add: sample_log_def sample_lengths)

lemma sample_final: "final_in (sample_tcg m) NULL []"
  by (simp add: final_in_def)

theorem encode2_roundtrip_witness:
  "GetPcrEvent2Size (sample_tcg (mem_of 0x1000 (encode2 sample_event))) 0x1000 = 38
   \<and> ev2_EventType (sample_tcg (mem_of 0x1000 (encode2 sample_event))) 0x1000 = 8"
  using encode2_roundtrip [OF sample_packed sample_log_ok(1), of "mem_of 0x1000 (encode2 sample_event)" "0x1000"]
    holds_mem_of [of "0x1000" "encode2 sample_event"]
  by (simp add: sample_lengths) (simp add: sample_event_def)


text \<open>The TPM returns no values; PCR 0 is extended once, with 20 bytes of 7, from zeros.\<close>

lemma sample_replay:
  "replay toy_hash' 20 0 4 [sample_event] = toy_hash' (replicate 20 0 @ replicate 20 7)"
  by (simp add: replay_def replay_step_def measured_def sample_event_def EV_NO_ACTION_def)

lemma sample_DumpPcr: "DumpPcr (sample_tcg m) 0 a = Some []"
  by (simp add: DumpPcr_def Let_def)


theorem DumpEventLog_prints_witness:
  "DumpEventLog (sample_tcg sample_mem) TCG_2 0x1000 0x1041 NULL 5 False =
     Some ([Print ''EventLogFormat: (0x%x)'' [Hex 2], Print ''EventLogLocation: (0x%lx)'' [Hex 0x1000],
            Print ''Tcg2Event:'' []]
       @ DumpEvent (sample_tcg sample_mem) 0x1000 @ DumpTcgEfiSpecIdEventStruct (sample_tcg sample_mem) 0x1020
       @ [Print ''FinalEventsTable: NOT FOUND'' [], Print ''Tcg2Event end'' []])"
  using DumpEventLog_prints [OF sample_packed sample_log2 sample_final, of 5]
  by (simp add: selected_def final_heading_def) (simp add: PCR_INDEX_ALL_def sample_event_def)

theorem expected_2_unsupported_witness:
  "expected_2 (sample_tcg sample_mem) 0 12 0x1000 0x1041 NULL = Some (replicate 64 0)"
proof -
  have "expected_2 (sample_tcg sample_mem) 0 12 0x1000 0x1041 NULL = Some (replicate 48 0 @ replicate 16 0)"
    using expected_2_unsupported [OF sample_packed sample_log2 sample_final, of 12 0]
    by (simp add: digest_size_def) (simp add: sample_event_def)
  then show ?thesis by (simp flip: replicate_add)
qed

theorem dump_binary_complete_witness:
  "tcg_ops (dump_binary (sample_shell sample_mem) ''log'' TCG_2 0x1000 0x1041
       \<lparr>tcg_out = [], tcg_ops = [], PcrIndex = 0\<rparr>)
   = snd (WriteFileFromBuffer (sample_shell sample_mem) ''log'' sample_log)"
  using dump_binary_complete [OF sample_packed [unfolded sample_tcg_def] sample_log2 [unfolded sample_tcg_def]]
  by (simp add: sample_lengths sample_log_def)

text \<open>A log of the first format with the same event.\<close>

definition sample_mem1 :: mem where
  "sample_mem1 = mem_of 0x1000 (encode1 sample_event)"

theorem DumpEventLog_expected_sha1_witness:
  "DumpEventLog (sample_tcg sample_mem1) TCG_1_2 0x1000 0x1000 NULL 0 True =
     Some ([Print ''EventLogFormat: (0x%x)'' [Hex 1], Print ''EventLogLocation: (0x%lx)'' [Hex 0x1000]]
       @ calculated 0 (replicate 20 140))"
proof -
  have "toy_hash 4 (replicate 20 0 @ replicate 20 7) = replicate 20 140"
    by (simp add: toy_hash_def sum_list_replicate)
  moreover have "event1_ok (sample_tcg sample_mem1) sample_event"
    by (simp add: event1_ok_def sample_event_def)
  then have "log1_in (sample_tcg sample_mem1) 0x1000 0x1000 [sample_event]"
    using holds_mem_of [of "0x1000" "encode1 sample_event"]
    by (simp add: log1_in_def sample_mem1_def) (simp add: encode1_def)
  ultimately show ?thesis
    using DumpEventLog_expected_sha1 [OF sample_packed, of sample_mem1 "0x1000" "0x1000" "[sample_event]" 0]
      sample_replay [of "toy_hash 4"]
    by (simp add: digest_size_def sample_DumpPcr)
qed

definition no_params :: tcg_params where
  "no_params = \<lparr>p_help = False, p_A = False, p_I = None, p_L = None, p_E = False, p_BIN = None,
     p_PARSE = None, p_C = False\<rparr>"

theorem Tcg2_UefiMain_parse_witness:
  "\<exists>s' parameters. Tcg2_UefiMain (sample_shell sample_mem) (PARAMS (no_params\<lparr>p_PARSE := Some ''log''\<rparr>))
       \<lparr>tcg_out = [], tcg_ops = [], PcrIndex = 0\<rparr> = Some (EFI_SUCCESS, s')
    \<and> tcg_out s' = parameters
        @ DumpEvent (base_env (loaded (sample_shell sample_mem) 0x2000 sample_log)) 0x2000
        @ DumpTcgEfiSpecIdEventStruct (base_env (loaded (sample_shell sample_mem) 0x2000 sample_log)) 0x2020
        @ DumpEvent2 (base_env (loaded (sample_shell sample_mem) 0x2000 sample_log)) 0x2041
        @ [Print ''FinalEventsTable: NOT FOUND'' [], Print ''Tcg2Event end'' []]"
proof -
  have len: "length sample_log = 103" by (simp add: sample_log_def sample_lengths)
  have content: "bytes_at sample_mem 0x1000 103 = sample_log"
    using holds_mem_of [of "0x1000" sample_log] by (simp add: holds_def len sample_mem_def)
  have readable: "GetFileSize (sample_shell sample_mem) ''log'' = (EFI_SUCCESS, 103)"
    "AllocateFilePool (sample_shell sample_mem) (unat (103 :: u64)) = 0x2000"
    "ReadFile (sample_shell sample_mem) ''log'' (unat (103 :: u64))
       = (EFI_SUCCESS, replicate 32 0 @ encode_spec sample_spec @ concat (map encode2 [sample_event]))"
    by (simp_all add: sample_shell_def content) (simp add: sample_log_def)
  have ok: "\<forall>e \<in> set [sample_event]. event_ok (base_env (sample_shell sample_mem)) e"
    using sample_log_ok(1) by (simp add: sample_tcg_def)
  show ?thesis
    using Tcg2_UefiMain_parse [OF _ _ readable(1,2) _ readable(3) sample_packed [unfolded sample_tcg_def] _ sample_log_ok(2) ok,
        of "no_params\<lparr>p_PARSE := Some ''log''\<rparr>", OF _ _ _ _ _ refl, of "\<lparr>tcg_out = [], tcg_ops = [], PcrIndex = 0\<rparr>"]
    by (simp add: no_params_def sample_lengths selected_def sample_log_def [symmetric, simplified])
      (simp add: sample_shell_def)
qed

theorem Tcg2_UefiMain_pcr_24_witness:
  "Tcg2_UefiMain (sample_shell (\<lambda>_. 1)) (PARAMS (no_params\<lparr>p_E := True\<rparr>))
     \<lparr>tcg_out = [], tcg_ops = [], PcrIndex = 0\<rparr> = None"
proof -
  have "rd (\<lambda>_. 1 :: u8) p 4 = 0x01010101" for p
    by (simp add: rd_def bytes_at_def upt_rec)
  then have "0 < unat (rd32 (\<lambda>_. 1) p)" for p
    by (simp add: rd32_def)
  then show ?thesis
    by (intro Tcg2_UefiMain_pcr_24)
      (simp_all add: no_params_def sample_shell_def GetTcgSpecIdNumberOfAlgorithms_def tcg_env.defs)
qed

end
