(* ===== verification/Str_Token.thy ===== *)
theory Str_Token
  imports Prelude
begin

text \<open>
  \<^verbatim>\<open>AppSrc/EdkiiCoreDatabaseDump/PeiCoreDump/SupportString.c\<close> (the DXE and SMM directories hold
  the same file): case-insensitive suffixes and the two tokenizers.  A tokenizer writes
  terminators into the buffer it is given and keeps its position in a global variable, so the
  model has the buffer as memory.  A scan for a terminator that is not there does not end:
  the loops are partial (\<open>None\<close>).  \<open>CharSet\<close> is a literal in every call and is a list here.
\<close>

section \<open>Case-insensitive suffixes\<close>

type_synonym char16 = u16

definition UnicodeToUpper :: "char16 \<Rightarrow> char16" where
  "UnicodeToUpper Chr = (if 97 \<le> Chr \<and> Chr \<le> 122 then Chr - (97 - 65) else Chr)"

text \<open>Strings as lists without their terminators; the result is the difference that C computes in \<open>int\<close>.\<close>

fun StriCmp :: "char16 list \<Rightarrow> char16 list \<Rightarrow> int" where
  "StriCmp [] [] = 0"
| "StriCmp [] (d # ds) = 0 - uint (UnicodeToUpper d)"
| "StriCmp (c # cs) [] = uint (UnicodeToUpper c)"
| "StriCmp (c # cs) (d # ds) =
     (if UnicodeToUpper c = UnicodeToUpper d then StriCmp cs ds
      else uint (UnicodeToUpper c) - uint (UnicodeToUpper d))"

text \<open>\<open>None\<close> is a null pointer.\<close>

definition StrEndWith :: "char16 list option \<Rightarrow> char16 list option \<Rightarrow> bool" where
  "StrEndWith Str SubStr =
     (case (Str, SubStr) of
        (Some str, Some sub) \<Rightarrow>
          (if length str < length sub then False
           else (let Temp = drop (length str - length sub) str in StriCmp Temp sub = 0))
      | _ \<Rightarrow> False)"

section \<open>Scans\<close>

text \<open>\<open>AsciiStr\<close>: the C string at an address, as the string functions of BaseLib read it.\<close>

partial_function (option) AsciiStr :: "mem \<Rightarrow> addr \<Rightarrow> u8 list option" where
  "AsciiStr m p =
     (if m p = 0 then Some [] else Option.bind (AsciiStr m (p + 1)) (\<lambda>xs. Some (m p # xs)))"

partial_function (option) spn_loop :: "mem \<Rightarrow> u8 list \<Rightarrow> addr \<Rightarrow> nat \<Rightarrow> nat option" where
  "spn_loop m CharSet Str1 Count =
     (if m Str1 = 0 then Some Count
      else if m Str1 \<notin> set CharSet then Some Count
      else spn_loop m CharSet (Str1 + 1) (Count + 1))"

definition AsciiStrSpn :: "mem \<Rightarrow> addr \<Rightarrow> u8 list \<Rightarrow> nat option" where
  "AsciiStrSpn m String CharSet = spn_loop m CharSet String 0"

partial_function (option) AsciiStrBrk :: "mem \<Rightarrow> addr \<Rightarrow> u8 list \<Rightarrow> addr option" where
  "AsciiStrBrk m Str1 CharSet =
     (if m Str1 = 0 then Some NULL
      else if m Str1 \<in> set CharSet then Some Str1
      else AsciiStrBrk m (Str1 + 1) CharSet)"

section \<open>Tokenizers\<close>

record tok_state =
  chars :: mem
  mAsciiLineBuffer :: addr
  mAsciiFieldBuffer :: addr

type_synonym token_fun = "addr \<Rightarrow> u8 list \<Rightarrow> tok_state \<Rightarrow> (addr \<times> tok_state) option"

text \<open>The token at \<open>Begin\<close> is terminated; the result is the new position (null at the end).\<close>

definition cut_token :: "addr \<Rightarrow> u8 list \<Rightarrow> tok_state \<Rightarrow> (addr \<times> tok_state) option" where
  "cut_token Begin CharSet s =
     Option.bind (AsciiStrBrk (chars s) Begin CharSet)
       (\<lambda>End. Some (if End \<noteq> NULL \<and> chars s End \<noteq> 0
                    then (End + 1, s\<lparr>chars := (chars s)(End := 0)\<rparr>)
                    else (End, s)))"

definition AsciiStrTokenLine :: token_fun where
  "AsciiStrTokenLine String CharSet s =
     (let Begin = (if String = NULL then mAsciiLineBuffer s else String) in
      if Begin = NULL then Some (NULL, s)
      else Option.bind (AsciiStrSpn (chars s) Begin CharSet)
             (\<lambda>n. let Begin = Begin + n in
                  if chars s Begin = 0 then Some (NULL, s\<lparr>mAsciiLineBuffer := NULL\<rparr>)
                  else Option.bind (cut_token Begin CharSet s)
                         (\<lambda>(End, s'). Some (Begin, s'\<lparr>mAsciiLineBuffer := End\<rparr>))))"

definition AsciiStrTokenField :: token_fun where
  "AsciiStrTokenField String CharSet s =
     (let Begin = (if String = NULL then mAsciiFieldBuffer s else String) in
      if Begin = NULL then Some (NULL, s)
      else if chars s Begin = 0 then Some (NULL, s\<lparr>mAsciiFieldBuffer := NULL\<rparr>)
      else Option.bind (cut_token Begin CharSet s)
             (\<lambda>(End, s'). Some (Begin, s'\<lparr>mAsciiFieldBuffer := End\<rparr>)))"

text \<open>The loop of the four functions below: empty tokens are skipped.\<close>

partial_function (option) skip_empty ::
  "token_fun \<Rightarrow> u8 list \<Rightarrow> addr \<Rightarrow> tok_state \<Rightarrow> (addr \<times> tok_state) option"
where
  "skip_empty token CharSet Buf s =
     (if Buf \<noteq> NULL \<and> chars s Buf = 0
      then Option.bind (token NULL CharSet s) (\<lambda>(Buf', s'). skip_empty token CharSet Buf' s')
      else Some (Buf, s))"

definition get_token :: "token_fun \<Rightarrow> token_fun" where
  "get_token token String CharSet s =
     Option.bind (token String CharSet s) (\<lambda>(Buf, s'). skip_empty token CharSet Buf s')"

definition AsciiStrGetNewTokenLine :: token_fun where
  "AsciiStrGetNewTokenLine String CharSet s = get_token AsciiStrTokenLine String CharSet s"

definition AsciiStrGetNextTokenLine :: "u8 list \<Rightarrow> tok_state \<Rightarrow> (addr \<times> tok_state) option" where
  "AsciiStrGetNextTokenLine CharSet s = get_token AsciiStrTokenLine NULL CharSet s"

definition AsciiStrGetNewTokenField :: token_fun where
  "AsciiStrGetNewTokenField String CharSet s = get_token AsciiStrTokenField String CharSet s"

definition AsciiStrGetNextTokenField :: "u8 list \<Rightarrow> tok_state \<Rightarrow> (addr \<times> tok_state) option" where
  "AsciiStrGetNextTokenField CharSet s = get_token AsciiStrTokenField NULL CharSet s"

section \<open>C strings\<close>

definition cstr :: "mem \<Rightarrow> addr \<Rightarrow> u8 list \<Rightarrow> bool" where
  "cstr m p xs \<longleftrightarrow> 0 \<notin> set xs \<and> holds m p (xs @ [0])"

lemma cstr_Nil [simp]: "cstr m p [] \<longleftrightarrow> m p = 0"
  by (simp add: cstr_def)

lemma cstr_Cons [simp]: "cstr m p (x # xs) \<longleftrightarrow> x \<noteq> 0 \<and> m p = x \<and> cstr m (Suc p) xs"
  by (auto simp: cstr_def)

lemma cstr_append: "cstr m p (xs @ ys) \<longleftrightarrow> 0 \<notin> set xs \<and> holds m p xs \<and> cstr m (p + length xs) ys"
  by (auto simp: cstr_def add.assoc)

lemma cstr_end: "cstr m p xs \<Longrightarrow> m (p + length xs) = 0"
  by (simp add: cstr_def)

lemma holds_cong: "(\<And>a. p \<le> a \<Longrightarrow> a < p + length xs \<Longrightarrow> m' a = m a) \<Longrightarrow> holds m' p xs = holds m p xs"
proof (induction xs arbitrary: p)
  case Nil
  then show ?case by simp
next
  case (Cons x xs)
  from Cons.prems [of p] Cons.IH [of "Suc p"] Cons.prems show ?case by simp
qed

lemma cstr_cong:
  "(\<And>a. p \<le> a \<Longrightarrow> a \<le> p + length xs \<Longrightarrow> m' a = m a) \<Longrightarrow> cstr m' p xs = cstr m p xs"
  unfolding cstr_def by (subst holds_cong [where m = m]) auto

lemma cstr_unique: "cstr m p xs \<Longrightarrow> cstr m p ys \<Longrightarrow> xs = ys"
proof (induction xs arbitrary: p ys)
  case Nil
  then show ?case by (cases ys) auto
next
  case (Cons x xs)
  then show ?case by (cases ys) auto
qed

lemma AsciiStr_cstr: "cstr m p xs \<Longrightarrow> AsciiStr m p = Some xs"
  by (induction xs arbitrary: p) (auto simp: AsciiStr.simps [of m])

lemma spn_loop_cstr:
  "cstr m p xs \<Longrightarrow> spn_loop m cs p n = Some (n + length (takeWhile (\<lambda>c. c \<in> set cs) xs))"
  by (induction xs arbitrary: p n) (auto simp: spn_loop.simps [of m])

lemma AsciiStrSpn_cstr:
  "cstr m p xs \<Longrightarrow> AsciiStrSpn m p cs = Some (length (takeWhile (\<lambda>c. c \<in> set cs) xs))"
  by (simp add: AsciiStrSpn_def spn_loop_cstr)

lemma AsciiStrBrk_cstr:
  "cstr m p xs \<Longrightarrow> AsciiStrBrk m p cs =
     Some (if \<exists>c\<in>set xs. c \<in> set cs then p + length (takeWhile (\<lambda>c. c \<notin> set cs) xs) else NULL)"
  by (induction xs arbitrary: p) (auto simp: AsciiStrBrk.simps [of m])

end
