(* ===== verification/Str_Token_Props.thy ===== *)
theory Str_Token_Props
  imports Str_Token
begin

text \<open>
  What the tokenizers promise: the successive tokens are the non-empty pieces between
  delimiters, and only the string itself is written to.  The line and the field tokenizer differ
  (one skips leading delimiters, the other returns empty tokens), but the loop that skips empty
  tokens makes the same contract of both: the locale \<open>tokenizer\<close>.
\<close>

section \<open>Pieces of a string\<close>

fun split :: "u8 list \<Rightarrow> u8 list \<Rightarrow> u8 list list" where
  "split cs [] = [[]]"
| "split cs (x # xs) =
     (if x \<in> set cs then [] # split cs xs
      else (case split cs xs of [] \<Rightarrow> [[x]] | t # ts \<Rightarrow> (x # t) # ts))"

definition tokens :: "u8 list \<Rightarrow> u8 list \<Rightarrow> u8 list list" where
  "tokens cs xs = filter (\<lambda>t. t \<noteq> []) (split cs xs)"

lemma split_piece: "\<forall>x\<in>set t. x \<notin> set cs \<Longrightarrow> split cs t = [t]"
  by (induction t) auto

lemma split_append: "\<forall>x\<in>set t. x \<notin> set cs \<Longrightarrow> c \<in> set cs \<Longrightarrow> split cs (t @ c # r) = t # split cs r"
  by (induction t) auto

lemma tokens_Nil [simp]: "tokens cs [] = []"
  by (simp add: tokens_def)

lemma tokens_skip [simp]: "c \<in> set cs \<Longrightarrow> tokens cs (c # xs) = tokens cs xs"
  by (simp add: tokens_def)

lemma tokens_dropWhile: "tokens cs (dropWhile (\<lambda>c. c \<in> set cs) xs) = tokens cs xs"
  by (induction xs) auto

lemma tokens_piece: "\<forall>x\<in>set t. x \<notin> set cs \<Longrightarrow> tokens cs t = (if t = [] then [] else [t])"
  by (simp add: tokens_def split_piece)

lemma tokens_append:
  "\<forall>x\<in>set t. x \<notin> set cs \<Longrightarrow> c \<in> set cs \<Longrightarrow>
   tokens cs (t @ c # r) = (if t = [] then [] else [t]) @ tokens cs r"
  by (simp add: tokens_def split_append)

lemma in_set_split: "t \<in> set (split cs xs) \<Longrightarrow> set t \<subseteq> set xs - set cs"
  by (induction xs arbitrary: t) (auto split: list.splits if_splits, blast+)

lemma in_set_tokens: "t \<in> set (tokens cs xs) \<Longrightarrow> t \<noteq> [] \<and> set t \<subseteq> set xs - set cs"
  using in_set_split by (fastforce simp: tokens_def)

section \<open>The contract\<close>

text \<open>Only the bytes from \<open>lo\<close> up to \<open>hi\<close> are written.\<close>

definition unchanged :: "tok_state \<Rightarrow> tok_state \<Rightarrow> addr \<Rightarrow> addr \<Rightarrow> bool" where
  "unchanged s s' lo hi \<longleftrightarrow> (\<forall>a. a < lo \<or> hi \<le> a \<longrightarrow> chars s' a = chars s a)"

text \<open>The position is null or at the rest of the string, which lies strictly between \<open>lo\<close> and \<open>hi\<close>.\<close>

definition left :: "(tok_state \<Rightarrow> addr) \<Rightarrow> tok_state \<Rightarrow> addr \<Rightarrow> addr \<Rightarrow> u8 list \<Rightarrow> bool" where
  "left cursor s lo hi rest \<longleftrightarrow>
     (if cursor s = NULL then rest = []
      else lo < cursor s \<and> cursor s + length rest \<le> hi \<and> cstr (chars s) (cursor s) rest)"

lemma unchanged_refl [simp]: "unchanged s s lo hi"
  by (simp add: unchanged_def)

lemma unchanged_trans:
  "unchanged s s' lo hi \<Longrightarrow> unchanged s' s'' lo' hi' \<Longrightarrow> lo \<le> lo' \<Longrightarrow> hi' \<le> hi \<Longrightarrow> unchanged s s'' lo hi"
  by (auto simp: unchanged_def)

lemma unchanged_weaken: "unchanged s s' lo' hi' \<Longrightarrow> lo \<le> lo' \<Longrightarrow> hi' \<le> hi \<Longrightarrow> unchanged s s' lo hi"
  by (auto simp: unchanged_def)

lemma unchanged_cstr: "unchanged s s' lo hi \<Longrightarrow> hi \<le> p \<Longrightarrow> cstr (chars s') p xs = cstr (chars s) p xs"
  by (rule cstr_cong) (auto simp: unchanged_def)

text \<open>One token, possibly empty.\<close>

definition one_token ::
  "(tok_state \<Rightarrow> addr) \<Rightarrow> u8 list \<Rightarrow> addr \<Rightarrow> u8 list \<Rightarrow> addr \<Rightarrow> tok_state \<Rightarrow> u8 list \<Rightarrow> u8 list \<Rightarrow> bool"
where
  "one_token cursor cs p xs B s' t rest \<longleftrightarrow>
     B \<noteq> NULL \<and> p \<le> B \<and> B + length t \<le> p + length xs \<and> cstr (chars s') B t \<and> length rest < length xs
     \<and> tokens cs xs = (if t = [] then [] else [t]) @ tokens cs rest
     \<and> left cursor s' (B + length t) (p + length xs) rest"

locale tokenizer =
  fixes token :: token_fun and cursor other :: "tok_state \<Rightarrow> addr"
  assumes token_end: "cursor s = NULL \<Longrightarrow> token NULL cs s = Some (NULL, s)"
    and token_resume: "token NULL cs s = token (cursor s) cs s"
    and token_step: "cstr (chars s) p xs \<Longrightarrow> p \<noteq> NULL \<Longrightarrow>
      \<exists>B s'. token p cs s = Some (B, s') \<and> other s' = other s \<and> unchanged s s' p (p + length xs)
        \<and> ((B = NULL \<and> cursor s' = NULL \<and> tokens cs xs = []) \<or> (\<exists>t rest. one_token cursor cs p xs B s' t rest))"
begin

definition got :: "u8 list \<Rightarrow> addr \<Rightarrow> addr \<Rightarrow> u8 list list \<Rightarrow> addr \<Rightarrow> tok_state \<Rightarrow> bool" where
  "got cs lo hi ts B s' \<longleftrightarrow>
     (case ts of
        [] \<Rightarrow> B = NULL \<and> cursor s' = NULL
      | t # us \<Rightarrow> B \<noteq> NULL \<and> lo \<le> B \<and> B + length t \<le> hi \<and> cstr (chars s') B t
          \<and> (\<exists>rest. tokens cs rest = us \<and> left cursor s' (B + length t) hi rest))"

lemma got_weaken: "got cs lo hi ts B s' \<Longrightarrow> lo' \<le> lo \<Longrightarrow> hi \<le> hi' \<Longrightarrow> got cs lo' hi' ts B s'"
  by (fastforce simp: got_def left_def split: list.splits if_splits)

lemma get_resume: "get_token token NULL cs s = get_token token (cursor s) cs s"
  by (simp add: get_token_def token_resume [of cs s])

lemma get_end: "cursor s = NULL \<Longrightarrow> get_token token NULL cs s = Some (NULL, s)"
  by (simp add: get_token_def token_end skip_empty.simps)

theorem get_ok:
  assumes "cstr (chars s) p xs" "p \<noteq> NULL"
  shows "\<exists>B s'. get_token token p cs s = Some (B, s') \<and> other s' = other s
    \<and> unchanged s s' p (p + length xs) \<and> got cs p (p + length xs) (tokens cs xs) B s'"
  using assms
proof (induction "length xs" arbitrary: xs p s rule: less_induct)
  case less
  from token_step [OF less.prems, of cs] obtain B s1 where step: "token p cs s = Some (B, s1)"
    and oth: "other s1 = other s" and unc: "unchanged s s1 p (p + length xs)"
    and res: "(B = NULL \<and> cursor s1 = NULL \<and> tokens cs xs = []) \<or> (\<exists>t rest. one_token cursor cs p xs B s1 t rest)"
    by blast
  from res show ?case
  proof (elim disjE exE conjE)
    assume "B = NULL" "cursor s1 = NULL" "tokens cs xs = []"
    with step oth unc show ?thesis by (simp add: get_token_def got_def skip_empty.simps)
  next
    fix t rest
    assume one: "one_token cursor cs p xs B s1 t rest"
    show ?thesis
    proof (cases "t = []")
      case False
      then have "skip_empty token cs B s1 = Some (B, s1)"
        using one by (subst skip_empty.simps) (cases t, auto simp: one_token_def)
      with step oth unc one False show ?thesis
        by (auto simp: get_token_def got_def one_token_def)
    next
      case True
      with step one have get: "get_token token p cs s = get_token token NULL cs s1"
        by (simp add: get_token_def one_token_def skip_empty.simps [of _ _ B])
      show ?thesis
      proof (cases "cursor s1 = NULL")
        case stop: True
        with one \<open>t = []\<close> have "tokens cs xs = []" by (simp add: one_token_def left_def)
        with stop get oth unc show ?thesis by (simp add: get_end got_def)
      next
        case False
        with one True have rest: "cstr (chars s1) (cursor s1) rest" "length rest < length xs"
          and toks: "tokens cs xs = tokens cs rest"
          and pos: "p \<le> cursor s1" "cursor s1 + length rest \<le> p + length xs"
          by (auto simp: one_token_def left_def)
        from less.hyps [OF rest(2) rest(1) False] obtain B' s2
          where "get_token token (cursor s1) cs s1 = Some (B', s2)" "other s2 = other s1"
            "unchanged s1 s2 (cursor s1) (cursor s1 + length rest)"
            "got cs (cursor s1) (cursor s1 + length rest) (tokens cs rest) B' s2"
          by blast
        with get oth unc pos toks show ?thesis
          by (auto simp: get_resume [of cs s1] intro: got_weaken unchanged_trans)
      qed
    qed
  qed
qed

text \<open>The same when the tokenizer goes on from where it stopped.\<close>

theorem get_next:
  assumes "left cursor s lo hi rest"
  shows "\<exists>B s'. get_token token NULL cs s = Some (B, s') \<and> other s' = other s
    \<and> unchanged s s' (Suc lo) hi \<and> got cs (Suc lo) hi (tokens cs rest) B s'"
proof (cases "cursor s = NULL")
  case True
  with assms show ?thesis by (simp add: get_end left_def got_def)
next
  case False
  with assms have rest: "cstr (chars s) (cursor s) rest" and pos: "Suc lo \<le> cursor s" "cursor s + length rest \<le> hi"
    by (auto simp: left_def)
  from get_ok [OF rest False, of cs] obtain B s' where "get_token token (cursor s) cs s = Some (B, s')"
    "other s' = other s" "unchanged s s' (cursor s) (cursor s + length rest)"
    "got cs (cursor s) (cursor s + length rest) (tokens cs rest) B s'"
    by blast
  with pos show ?thesis
    by (auto simp: get_resume [of cs s] intro: got_weaken unchanged_weaken)
qed

end

section \<open>The two tokenizers keep it\<close>

lemma cut_token_ok:
  assumes "cstr (chars s) B ys" "B \<noteq> NULL" "ys = t @ r" "\<forall>x\<in>set t. x \<notin> set cs" "r \<noteq> [] \<longrightarrow> hd r \<in> set cs"
  shows "cut_token B cs s =
    Some (if r = [] then (NULL, s) else (B + length t + 1, s\<lparr>chars := (chars s)(B + length t := 0)\<rparr>))"
proof (cases r)
  case Nil
  with assms show ?thesis by (auto simp: cut_token_def AsciiStrBrk_cstr)
next
  case (Cons c r')
  with assms have "takeWhile (\<lambda>c. c \<notin> set cs) ys = t" "\<exists>c\<in>set ys. c \<in> set cs"
    "chars s (B + length t) \<noteq> 0"
    by (auto simp: takeWhile_append cstr_append)
  with assms Cons show ?thesis by (simp add: cut_token_def AsciiStrBrk_cstr [OF assms(1)])
qed

lemma token_split:
  obtains t r where "ys = t @ r" "\<forall>x\<in>set t. x \<notin> set cs" "r \<noteq> [] \<longrightarrow> hd r \<in> set cs"
proof (rule that [of "takeWhile (\<lambda>c. c \<notin> set cs) ys" "dropWhile (\<lambda>c. c \<notin> set cs) ys"])
  show "dropWhile (\<lambda>c. c \<notin> set cs) ys \<noteq> [] \<longrightarrow> hd (dropWhile (\<lambda>c. c \<notin> set cs) ys) \<in> set cs"
    using hd_dropWhile [of "\<lambda>c. c \<notin> set cs" ys] by blast
qed (auto dest: set_takeWhileD)

text \<open>
  Cutting at the first delimiter leaves the token, the rest behind it and everything else.
\<close>

lemma cut_one_token:
  assumes ys: "cstr (chars s) B ys" "B \<noteq> NULL" "ys \<noteq> []"
    and at: "p \<le> B" "B + length ys = p + length xs" "tokens cs xs = tokens cs ys"
    and cursor: "\<And>e s. cursor (upd e s) = e" "\<And>e s. chars (upd e s) = chars s"
  shows "\<exists>e s1 t rest. cut_token B cs s = Some (e, s1) \<and> (s1 = s \<or> (\<exists>m. s1 = s\<lparr>chars := m\<rparr>))
    \<and> unchanged s s1 p (p + length xs) \<and> one_token cursor cs p xs B (upd e s1) t rest"
proof -
  obtain t r where yst: "ys = t @ r" and t: "\<forall>x\<in>set t. x \<notin> set cs" and r: "r \<noteq> [] \<longrightarrow> hd r \<in> set cs"
    by (rule token_split)
  note cut = cut_token_ok [OF ys(1,2) yst t r]
  show ?thesis
  proof (cases r)
    case Nil
    with ys at yst t have "one_token cursor cs p xs B (upd NULL s) t []"
      by (auto simp: one_token_def left_def cursor tokens_piece)
    with cut Nil show ?thesis by fastforce
  next
    case (Cons c r')
    let ?s = "s\<lparr>chars := (chars s)(B + length t := 0)\<rparr>"
    have c: "c \<in> set cs" using r Cons by simp
    have old: "0 \<notin> set t" "holds (chars s) B t" "cstr (chars s) (B + length t + 1) r'"
      using ys(1) yst Cons by (auto simp: cstr_append)
    have "cstr (chars ?s) B t"
      using old(1,2) holds_cong [of B t "chars ?s" "chars s"] by (simp add: cstr_def)
    moreover have "cstr (chars ?s) (B + length t + 1) r'"
      using old(3) by (subst cstr_cong [where m = "chars s"]) auto
    moreover have "tokens cs ys = (if t = [] then [] else [t]) @ tokens cs r'"
      using tokens_append [OF t c] yst Cons by simp
    ultimately have "one_token cursor cs p xs B (upd (B + length t + 1) ?s) t r'"
      using ys at yst Cons by (auto simp: one_token_def left_def cursor)
    moreover have "unchanged s ?s p (p + length xs)"
      using at yst Cons by (auto simp: unchanged_def)
    ultimately show ?thesis using cut Cons by fastforce
  qed
qed

lemma TokenLine_step:
  assumes xs: "cstr (chars s) p xs" and p: "p \<noteq> NULL"
  shows "\<exists>B s'. AsciiStrTokenLine p cs s = Some (B, s') \<and> mAsciiFieldBuffer s' = mAsciiFieldBuffer s
    \<and> unchanged s s' p (p + length xs)
    \<and> ((B = NULL \<and> mAsciiLineBuffer s' = NULL \<and> tokens cs xs = [])
       \<or> (\<exists>t rest. one_token mAsciiLineBuffer cs p xs B s' t rest))"
proof -
  let ?n = "length (takeWhile (\<lambda>c. c \<in> set cs) xs)" and ?ys = "dropWhile (\<lambda>c. c \<in> set cs) xs"
  have at: "cstr (chars s) (p + ?n) ?ys"
    using xs cstr_append [of "chars s" p "takeWhile (\<lambda>c. c \<in> set cs) xs" ?ys] by simp
  have len: "p + ?n + length ?ys = p + length xs"
    using length_append [of "takeWhile (\<lambda>c. c \<in> set cs) xs" ?ys] by simp
  show ?thesis
  proof (cases "?ys = []")
    case True
    with at have zero: "chars s (p + ?n) = 0" by simp
    have "tokens cs xs = tokens cs ?ys" by (simp only: tokens_dropWhile)
    also have "\<dots> = []" using True by (simp only: tokens_Nil)
    finally show ?thesis
      using p zero by (simp add: AsciiStrTokenLine_def AsciiStrSpn_cstr [OF xs] Let_def unchanged_def)
  next
    case False
    with at have ne: "chars s (p + ?n) \<noteq> 0" by (cases ?ys) auto
    have "\<exists>e s1 t rest. cut_token (p + ?n) cs s = Some (e, s1) \<and> (s1 = s \<or> (\<exists>m. s1 = s\<lparr>chars := m\<rparr>))
      \<and> unchanged s s1 p (p + length xs)
      \<and> one_token mAsciiLineBuffer cs p xs (p + ?n) (s1\<lparr>mAsciiLineBuffer := e\<rparr>) t rest"
      by (rule cut_one_token [OF at _ False _ len]) (use p in \<open>simp_all add: tokens_dropWhile\<close>)
    then obtain e s1 t rest where cut: "cut_token (p + ?n) cs s = Some (e, s1)"
      "s1 = s \<or> (\<exists>m. s1 = s\<lparr>chars := m\<rparr>)" "unchanged s s1 p (p + length xs)"
      "one_token mAsciiLineBuffer cs p xs (p + ?n) (s1\<lparr>mAsciiLineBuffer := e\<rparr>) t rest"
      by blast
    then have "AsciiStrTokenLine p cs s = Some (p + ?n, s1\<lparr>mAsciiLineBuffer := e\<rparr>)"
      using p ne by (simp add: AsciiStrTokenLine_def AsciiStrSpn_cstr [OF xs] Let_def)
    moreover have "mAsciiFieldBuffer s1 = mAsciiFieldBuffer s" using cut(2) by auto
    ultimately show ?thesis using cut(3,4) by (auto simp: unchanged_def)
  qed
qed

lemma TokenField_step:
  assumes xs: "cstr (chars s) p xs" and p: "p \<noteq> NULL"
  shows "\<exists>B s'. AsciiStrTokenField p cs s = Some (B, s') \<and> mAsciiLineBuffer s' = mAsciiLineBuffer s
    \<and> unchanged s s' p (p + length xs)
    \<and> ((B = NULL \<and> mAsciiFieldBuffer s' = NULL \<and> tokens cs xs = [])
       \<or> (\<exists>t rest. one_token mAsciiFieldBuffer cs p xs B s' t rest))"
proof (cases "xs = []")
  case True
  with xs p show ?thesis by (simp add: AsciiStrTokenField_def Let_def unchanged_def)
next
  case False
  with xs have ne: "chars s p \<noteq> 0" by (cases xs) auto
  have "\<exists>e s1 t rest. cut_token p cs s = Some (e, s1) \<and> (s1 = s \<or> (\<exists>m. s1 = s\<lparr>chars := m\<rparr>))
    \<and> unchanged s s1 p (p + length xs)
    \<and> one_token mAsciiFieldBuffer cs p xs p (s1\<lparr>mAsciiFieldBuffer := e\<rparr>) t rest"
    by (rule cut_one_token [OF xs p False order_refl refl refl]) simp_all
  then obtain e s1 t rest where cut: "cut_token p cs s = Some (e, s1)"
    "s1 = s \<or> (\<exists>m. s1 = s\<lparr>chars := m\<rparr>)" "unchanged s s1 p (p + length xs)"
    "one_token mAsciiFieldBuffer cs p xs p (s1\<lparr>mAsciiFieldBuffer := e\<rparr>) t rest"
    by blast
  then have "AsciiStrTokenField p cs s = Some (p, s1\<lparr>mAsciiFieldBuffer := e\<rparr>)"
    using p ne by (simp add: AsciiStrTokenField_def Let_def)
  moreover have "mAsciiLineBuffer s1 = mAsciiLineBuffer s" using cut(2) by auto
  ultimately show ?thesis using cut(3,4) by (auto simp: unchanged_def)
qed

interpretation line_tok: tokenizer AsciiStrTokenLine mAsciiLineBuffer mAsciiFieldBuffer
proof (unfold_locales, goal_cases)
  case 1
  then show ?case by (simp add: AsciiStrTokenLine_def)
next
  case 2
  show ?case by (simp add: AsciiStrTokenLine_def)
next
  case 3
  then show ?case by (rule TokenLine_step)
qed

interpretation field_tok: tokenizer AsciiStrTokenField mAsciiFieldBuffer mAsciiLineBuffer
proof (unfold_locales, goal_cases)
  case 1
  then show ?case by (simp add: AsciiStrTokenField_def)
next
  case 2
  show ?case by (simp add: AsciiStrTokenField_def)
next
  case 3
  then show ?case by (rule TokenField_step)
qed

section \<open>Suffixes\<close>

lemma UnicodeToUpper_0 [simp]: "UnicodeToUpper c = 0 \<longleftrightarrow> c = 0"
  by (auto simp: UnicodeToUpper_def)

lemma StriCmp_0: "StriCmp xs ys = 0 \<longleftrightarrow> map UnicodeToUpper xs = map UnicodeToUpper ys"
  if "0 \<notin> set xs" "0 \<notin> set ys"
  using that
  by (induction xs ys rule: StriCmp.induct) (auto simp: unsigned_eq_0_iff dest: unsigned_word_eqI)

end
