(* ===== verification/Support_File.thy ===== *)
theory Support_File
  imports Str_Token_Props
begin

text \<open>
  \<^verbatim>\<open>AppSrc/EdkiiCoreDatabaseDump/PeiCoreDump/SupportFile.c\<close>: files of the volume the application
  was loaded from, or of all volumes.  The file system is a parameter; the calls that open and
  close handles and take and return pools are recorded in order.  An allocation may depend on
  what happened before it: its first argument is the length of the record.
\<close>

datatype file_handle = ROOT addr | FILE addr "char16 list"

datatype file_event = EOpen file_handle | EClose file_handle | EAlloc addr | EFree addr

text \<open>
  \<open>DirEntries\<close>: what successive reads of a directory return, as \<open>(is_directory, name)\<close>, up to the
  read that fails or returns no bytes; both end the enumeration.  A volume is its protocol's
  address.  \<open>LocateFileSystems\<close>: the status and the array of \<^verbatim>\<open>LocateHandleBuffer\<close> (on an error, what
  the uninitialised locals hold); \<open>HandlePool\<close>: the pool the firmware then allocates for the array.
\<close>

record file_system =
  DeviceHandle :: addr
  SimpleFileSystem :: "addr \<Rightarrow> efi_status \<times> addr"
  LocateFileSystems :: "efi_status \<times> addr list"
  HandlePool :: "nat \<Rightarrow> addr"
  OpenVolume :: "addr \<Rightarrow> efi_status"
  OpenPath :: "addr \<Rightarrow> char16 list \<Rightarrow> efi_status"
  OpenDir :: "addr \<Rightarrow> char16 list \<Rightarrow> efi_status"
  FileSize :: "addr \<Rightarrow> char16 list \<Rightarrow> efi_status \<times> nat"
  ReadBytes :: "addr \<Rightarrow> char16 list \<Rightarrow> nat \<Rightarrow> efi_status \<times> u8 list"
  SetPosition :: "addr \<Rightarrow> char16 list \<Rightarrow> efi_status"
  DirEntries :: "addr \<Rightarrow> char16 list \<Rightarrow> (bool \<times> char16 list) list"
  Allocate :: "nat \<Rightarrow> nat \<Rightarrow> addr"
  sizeof_FILE_INFO :: nat

text \<open>A file in memory: the pool (the bytes read and the zeros behind them) and the byte count.\<close>

record file_buffer =
  fb_Buffer :: addr
  fb_BufferSize :: nat
  fb_pool :: "u8 list"

definition GetMyVol :: "file_system \<Rightarrow> addr" where
  "GetMyVol E =
     (let (Status, Vol) = SimpleFileSystem E (DeviceHandle E) in
      if \<not> EFI_ERROR Status then Vol else NULL)"

text \<open>The buffer is \<open>None\<close> where the output parameters are not written.\<close>

definition ReadFileFromVol ::
  "file_system \<Rightarrow> addr \<Rightarrow> char16 list \<Rightarrow> file_event list \<Rightarrow> efi_status \<times> file_buffer option \<times> file_event list"
where
  "ReadFileFromVol E Vol FileName ops =
     (let Status = OpenVolume E Vol in
      if EFI_ERROR Status then (Status, None, ops)
      else
        (let Status = OpenPath E Vol FileName; ops = ops @ [EOpen (ROOT Vol)] in
         if EFI_ERROR Status then (Status, None, ops @ [EClose (ROOT Vol)])
         else
           (let h = FILE Vol FileName;
                ops = ops @ [EOpen h, EClose (ROOT Vol)];
                FileInfo = Allocate E (length ops) (sizeof_FILE_INFO E + 1024)
            in if FileInfo = NULL then (Status, None, ops @ [EClose h])
               else
                 (let ops = ops @ [EAlloc FileInfo]; (Status, Size) = FileSize E Vol FileName in
                  if EFI_ERROR Status then (Status, None, ops @ [EClose h, EFree FileInfo])
                  else
                    (let TempBufferSize = Size + 2; TempBuffer = Allocate E (length ops) TempBufferSize in
                     if TempBuffer = NULL then (Status, None, ops @ [EClose h, EFree FileInfo])
                     else
                       (let ops = ops @ [EAlloc TempBuffer, EFree FileInfo];
                            (Status, bytes) = ReadBytes E Vol FileName TempBufferSize
                        in if EFI_ERROR Status then (Status, None, ops @ [EClose h, EFree TempBuffer])
                           else (EFI_SUCCESS,
                             Some \<lparr>fb_Buffer = TempBuffer, fb_BufferSize = length bytes,
                               fb_pool = bytes @ replicate (TempBufferSize - length bytes) 0\<rparr>,
                             ops @ [EClose h])))))))"

text \<open>
  The scan of all volumes: \<open>found\<close> is the volume and the buffer of a first match.  \<open>None\<close>: a
  status reports success but the buffer was not written, and its stale value is used.
\<close>

type_synonym scan_result = "efi_status \<times> (addr \<times> file_buffer) option \<times> out list \<times> file_event list"

fun scan_volumes ::
  "file_system \<Rightarrow> char16 list \<Rightarrow> addr list \<Rightarrow> (addr \<times> file_buffer) option \<Rightarrow> file_event list \<Rightarrow> scan_result option"
where
  "scan_volumes E FileName [] found ops =
     Some (case found of None \<Rightarrow> (EFI_NOT_FOUND, None, [], ops) | Some f \<Rightarrow> (EFI_SUCCESS, Some f, [], ops))"
| "scan_volumes E FileName (h # hs) found ops =
     (let (Status, Vol) = SimpleFileSystem E h in
      if EFI_ERROR Status then scan_volumes E FileName hs found ops
      else
        (let (Status, buf, ops) = ReadFileFromVol E Vol FileName ops in
         if EFI_ERROR Status then scan_volumes E FileName hs found ops
         else
           (case buf of
              None \<Rightarrow> None
            | Some b \<Rightarrow>
                (case found of
                   Some (ThisVol, old) \<Rightarrow>
                     Some (EFI_NO_MAPPING, None, [Print ''Duplicated FileName found!'' []],
                           ops @ [EFree (fb_Buffer b), EFree (fb_Buffer old)])
                 | None \<Rightarrow> scan_volumes E FileName hs (Some (Vol, b)) ops))))"

text \<open>
  \<open>FileName\<close> may be null; the output pointers are not, in this model.  The caller of
  \<^verbatim>\<open>LocateHandleBuffer\<close> owns the array of handles; no path frees it.
\<close>

definition ReadFileToBufferEx ::
  "file_system \<Rightarrow> addr \<Rightarrow> char16 list option \<Rightarrow> bool \<Rightarrow> file_event list \<Rightarrow> scan_result option"
where
  "ReadFileToBufferEx E ThisVol FileName ScanFs ops =
     (case FileName of
        None \<Rightarrow> Some (EFI_INVALID_PARAMETER, None, [], ops)
      | Some name \<Rightarrow>
          if \<not> ScanFs then
            (let Vol = (if ThisVol = NULL then GetMyVol E else ThisVol) in
             if Vol = NULL then Some (EFI_INVALID_PARAMETER, None, [], ops)
             else (let (Status, buf, ops) = ReadFileFromVol E Vol name ops
                   in Some (Status, map_option (Pair Vol) buf, [], ops)))
          else
            (let (Status, HandleBuffer) = LocateFileSystems E in
             if EFI_ERROR Status \<and> HandleBuffer = [] then Some (EFI_NOT_FOUND, None, [], ops)
             else scan_volumes E name HandleBuffer None
                    (if EFI_ERROR Status then ops else ops @ [EAlloc (HandlePool E (length ops))])))"

definition ReadFileToBuffer_app ::
  "file_system \<Rightarrow> char16 list option \<Rightarrow> file_event list \<Rightarrow> scan_result option"
where
  "ReadFileToBuffer_app E FileName ops = ReadFileToBufferEx E NULL FileName False ops"

text \<open>The loop over the directory; \<open>FileIndex\<close> counts the matching files that were passed.\<close>

fun dir_loop :: "(bool \<times> char16 list) list \<Rightarrow> char16 list \<Rightarrow> nat \<Rightarrow> nat \<Rightarrow> char16 list option" where
  "dir_loop [] Suffix Index FileIndex = None"
| "dir_loop ((is_dir, name) # es) Suffix Index FileIndex =
     (if is_dir then dir_loop es Suffix Index FileIndex
      else if \<not> StrEndWith (Some name) (Some Suffix) then dir_loop es Suffix Index FileIndex
      else if FileIndex = Index then Some name
      else dir_loop es Suffix Index (FileIndex + 1))"

text \<open>The name (in a new pool), the index for the next call and the record.\<close>

definition GetFileNameUnderDir ::
  "file_system \<Rightarrow> addr \<Rightarrow> char16 list \<Rightarrow> char16 list \<Rightarrow> nat \<Rightarrow> file_event list
   \<Rightarrow> char16 list option \<times> nat \<times> file_event list"
where
  "GetFileNameUnderDir E Vol DirName Suffix Index ops =
     (if EFI_ERROR (OpenVolume E Vol) then (None, Index, ops)
      else if EFI_ERROR (OpenDir E Vol DirName)
      then (None, Index, ops @ [EOpen (ROOT Vol), EClose (ROOT Vol)])
      else
        (let h = FILE Vol DirName; ops = ops @ [EOpen (ROOT Vol), EOpen h, EClose (ROOT Vol)] in
         if EFI_ERROR (SetPosition E Vol DirName) then (None, Index, ops @ [EClose h])
         else
           (let FileInfo = Allocate E (length ops) (sizeof_FILE_INFO E + 1024) in
            if FileInfo = NULL then (None, Index, ops @ [EClose h])
            else
              (let ops = ops @ [EAlloc FileInfo] in
               case dir_loop (DirEntries E Vol DirName) Suffix Index 0 of
                 None \<Rightarrow> (None, Index, ops @ [EFree FileInfo, EClose h])
               | Some name \<Rightarrow>
                   (let TempName = Allocate E (length ops) (2 * length name + 2) in
                    (if TempName = NULL then None else Some name, Index + 1,
                     ops @ (if TempName = NULL then [] else [EAlloc TempName]) @ [EFree FileInfo, EClose h]))))))"

section \<open>Properties\<close>

text \<open>Every handle a record opens it closes; the pools it keeps are \<open>kept\<close>.\<close>

definition balanced :: "file_event list \<Rightarrow> addr list \<Rightarrow> bool" where
  "balanced ops kept_pools \<longleftrightarrow>
     (\<forall>h. count_list ops (EOpen h) = count_list ops (EClose h))
     \<and> (\<forall>p. count_list ops (EAlloc p) = count_list ops (EFree p) + count_list kept_pools p)"

lemma count_list_append [simp]: "count_list (xs @ ys) z = count_list xs z + count_list ys z"
  by (induction xs) auto

lemma balanced_append: "balanced xs as \<Longrightarrow> balanced ys bs \<Longrightarrow> balanced (xs @ ys) (as @ bs)"
  by (simp add: balanced_def)

lemma ReadFileFromVol_cases:
  obtains ops' where "snd (snd (ReadFileFromVol E Vol FileName ops)) = ops @ ops'"
    "balanced ops' (case fst (snd (ReadFileFromVol E Vol FileName ops)) of None \<Rightarrow> [] | Some b \<Rightarrow> [fb_Buffer b])"
proof -
  have "\<exists>ops'. snd (snd (ReadFileFromVol E Vol FileName ops)) = ops @ ops' \<and>
    balanced ops' (case fst (snd (ReadFileFromVol E Vol FileName ops)) of None \<Rightarrow> [] | Some b \<Rightarrow> [fb_Buffer b])"
    by (simp add: ReadFileFromVol_def Let_def balanced_def split: prod.split)
  with that show ?thesis by blast
qed

end
