(* ===== verification/Guid_Names.thy ===== *)
theory Guid_Names
  imports Support_File
begin

text \<open>
  \<^verbatim>\<open>AppSrc/EdkiiCoreDatabaseDump/PeiCoreDump/SupportGuid.c\<close>: the names of GUIDs, read from the
  file \<^verbatim>\<open>Guid.xref\<close> with one \<open>guid name\<close> pair per line.
\<close>

type_synonym guid = "u8 list"

abbreviation (input) GUID_STRING_LENGTH_MAX :: nat where
  "GUID_STRING_LENGTH_MAX \<equiv> 64"

text \<open>\<open>Str\<close> as the C string in its 64 bytes.\<close>

record guid_string =
  gs_Guid :: guid
  gs_Str :: "u8 list"

text \<open>\<open>AllocGuidString\<close>: whether the array can be allocated.  \<open>GuidText\<close> is the format \<open>%g\<close>.\<close>

record guid_env =
  AsciiStrToGuid :: "u8 list \<Rightarrow> guid option"
  AllocGuidString :: "nat \<Rightarrow> bool"
  GuidText :: "guid \<Rightarrow> u8 list"

record guid_state =
  tok :: tok_state
  mGuidString :: "guid_string list option"
  mGuidStringCountMax :: nat
  mGuidStringCount :: nat

definition ascii :: "string \<Rightarrow> u8 list" where
  "ascii = map of_char"

definition zero_guid_text :: "u8 list" where
  "zero_guid_text = ascii ''00000000-0000-0000-0000-000000000000''"

definition zero_guid_string :: guid_string where
  "zero_guid_string = \<lparr>gs_Guid = replicate 16 0, gs_Str = []\<rparr>"

text \<open>\<open>None\<close>: the array is written through a null pointer or past its end.\<close>

definition AddGuidName :: "guid_env \<Rightarrow> u8 list \<Rightarrow> u8 list \<Rightarrow> guid_state \<Rightarrow> guid_state option" where
  "AddGuidName E GuidStr NameStr s =
     (if mGuidStringCountMax s \<le> mGuidStringCount s then Some s
      else
        (case AsciiStrToGuid E GuidStr of
           None \<Rightarrow> Some s
         | Some Guid \<Rightarrow>
             (let Name = (if GuidStr = zero_guid_text then ascii ''ZeroGuid'' else NameStr);
                  Str = take (GUID_STRING_LENGTH_MAX - 1) Name
              in case mGuidString s of
                   None \<Rightarrow> None
                 | Some a \<Rightarrow>
                     (if length a \<le> mGuidStringCount s then None
                      else Some (s\<lparr>mGuidString := Some (a[mGuidStringCount s := \<lparr>gs_Guid = Guid, gs_Str = Str\<rparr>]),
                                   mGuidStringCount := mGuidStringCount s + 1\<rparr>)))))"

definition ZeroAlloc :: "guid_env \<Rightarrow> nat \<Rightarrow> guid_string list option" where
  "ZeroAlloc E n = (if AllocGuidString E n then Some (replicate n zero_guid_string) else None)"

text \<open>The strings of the two pointers are read where \<open>AddGuidName\<close> is called.\<close>

definition line_body :: "guid_env \<Rightarrow> addr \<Rightarrow> guid_state \<Rightarrow> guid_state option" where
  "line_body E LineBuffer s =
     Option.bind (AsciiStrGetNewTokenField LineBuffer [32] (tok s)) (\<lambda>(GuidStr, t).
     Option.bind (AsciiStrGetNextTokenField [32] t) (\<lambda>(NameStr, t).
       (let s = s\<lparr>tok := t\<rparr> in
        if GuidStr \<noteq> NULL \<and> NameStr \<noteq> NULL
        then Option.bind (AsciiStr (chars t) GuidStr) (\<lambda>g.
             Option.bind (AsciiStr (chars t) NameStr) (\<lambda>n. AddGuidName E g n s))
        else Some s)))"

partial_function (option) line_loop :: "guid_env \<Rightarrow> addr \<Rightarrow> guid_state \<Rightarrow> guid_state option" where
  "line_loop E LineBuffer s =
     (if LineBuffer = NULL then Some s
      else Option.bind (line_body E LineBuffer s) (\<lambda>s.
           Option.bind (AsciiStrGetNextTokenLine [10, 13] (tok s)) (\<lambda>(LineBuffer, t).
             line_loop E LineBuffer (s\<lparr>tok := t\<rparr>))))"

text \<open>The file's pool in memory.\<close>

definition store_at :: "mem \<Rightarrow> addr \<Rightarrow> u8 list \<Rightarrow> mem" where
  "store_at m p bs = (\<lambda>a. if p \<le> a \<and> a < p + length bs then bs ! (a - p) else m a)"

text \<open>
  \<open>InitGuid\<close> on what \<open>ReadFileToBuffer\<close> answered.  A status that reports success without a buffer
  has no defined continuation.
\<close>

definition InitGuid_with :: "guid_env \<Rightarrow> efi_status \<Rightarrow> file_buffer option \<Rightarrow> guid_state \<Rightarrow> guid_state option" where
  "InitGuid_with E Status buf s =
     (if EFI_ERROR Status then Some s
      else
        (case buf of
           None \<Rightarrow> None
         | Some b \<Rightarrow>
             (let n = count_list (take (fb_BufferSize b) (fb_pool b)) 10 + 1;
                  s = s\<lparr>mGuidStringCountMax := n, mGuidString := ZeroAlloc E n\<rparr>
              in if mGuidString s = None then Some s
                 else
                   (let t = (tok s)\<lparr>chars := store_at (chars (tok s)) (fb_Buffer b) (fb_pool b)\<rparr> in
                    Option.bind (AsciiStrGetNewTokenLine (fb_Buffer b) [10, 13] t) (\<lambda>(LineBuffer, t).
                      line_loop E LineBuffer (s\<lparr>tok := t\<rparr>))))))"

definition Guid_xref :: "char16 list" where
  "Guid_xref = map (\<lambda>c. of_char c) ''Guid.xref''"

definition InitGuid :: "guid_env \<Rightarrow> file_system \<Rightarrow> guid_state \<times> file_event list \<Rightarrow> (guid_state \<times> file_event list) option" where
  "InitGuid E F = (\<lambda>(s, ops).
     Option.bind (ReadFileToBuffer_app F (Some Guid_xref) ops) (\<lambda>(Status, res, _, ops).
     Option.bind (InitGuid_with E Status (map_option snd res) s) (\<lambda>s'.
       Some (s', ops @ (case res of
                          Some (_, b) \<Rightarrow> if \<not> EFI_ERROR Status \<and> mGuidString s' \<noteq> None then [EFree (fb_Buffer b)] else []
                        | None \<Rightarrow> [])))))"

text \<open>\<open>None\<close>: an entry is read through a null pointer or past the array's end.\<close>

fun guid_loop :: "guid_string list \<Rightarrow> guid \<Rightarrow> nat \<Rightarrow> u8 list option option" where
  "guid_loop a Guid 0 = Some None"
| "guid_loop [] Guid (Suc n) = None"
| "guid_loop (x # a) Guid (Suc n) =
     (if gs_Guid x = Guid then Some (Some (gs_Str x)) else guid_loop a Guid n)"

definition GuidToName :: "guid_env \<Rightarrow> guid_state \<Rightarrow> guid \<Rightarrow> u8 list option" where
  "GuidToName E s Guid =
     Option.bind (guid_loop (case mGuidString s of None \<Rightarrow> [] | Some a \<Rightarrow> a) Guid (mGuidStringCount s))
       (\<lambda>r. Some (case r of Some Str \<Rightarrow> Str | None \<Rightarrow> GuidText E Guid))"

text \<open>\<open>DeinitGuid\<close> frees the array; the pointer and the count keep their values.\<close>

definition DeinitGuid :: "guid_state \<Rightarrow> (guid_string list option \<times> guid_state)" where
  "DeinitGuid s = (mGuidString s, s)"

section \<open>Specification\<close>

text \<open>One line's entry: the first two fields, if the first is a GUID.\<close>

definition line_entry :: "guid_env \<Rightarrow> u8 list \<Rightarrow> (guid \<times> u8 list) option" where
  "line_entry E line =
     (case tokens [32] line of
        g # n # _ \<Rightarrow>
          map_option (\<lambda>G. (G, take (GUID_STRING_LENGTH_MAX - 1) (if g = zero_guid_text then ascii ''ZeroGuid'' else n)))
            (AsciiStrToGuid E g)
      | _ \<Rightarrow> None)"

definition guid_entries :: "guid_env \<Rightarrow> u8 list \<Rightarrow> (guid \<times> u8 list) list" where
  "guid_entries E text = List.map_filter (line_entry E) (tokens [10, 13] text)"

text \<open>The table as an association list.\<close>

definition name_table :: "guid_state \<Rightarrow> (guid \<times> u8 list) list" where
  "name_table s = map (\<lambda>x. (gs_Guid x, gs_Str x))
     (take (mGuidStringCount s) (case mGuidString s of None \<Rightarrow> [] | Some a \<Rightarrow> a))"

text \<open>The array has the size that \<open>mGuidStringCountMax\<close> says and is filled up to the count.\<close>

definition table_wf :: "guid_state \<Rightarrow> bool" where
  "table_wf s \<longleftrightarrow> mGuidStringCount s \<le> mGuidStringCountMax s
     \<and> (case mGuidString s of None \<Rightarrow> mGuidStringCount s = 0 | Some a \<Rightarrow> length a = mGuidStringCountMax s)"

lemma guid_loop_map_of:
  "n \<le> length a \<Longrightarrow> guid_loop a g n = Some (map_of (map (\<lambda>x. (gs_Guid x, gs_Str x)) (take n a)) g)"
proof (induction n arbitrary: a)
  case 0
  then show ?case by simp
next
  case (Suc n)
  then show ?case by (cases a) auto
qed

lemma GuidToName_table:
  "table_wf s \<Longrightarrow> GuidToName E s g =
     Some (case map_of (name_table s) g of Some n \<Rightarrow> n | None \<Rightarrow> GuidText E g)"
  by (auto simp: GuidToName_def table_wf_def name_table_def guid_loop_map_of split: option.splits)

lemma AddGuidName_table:
  assumes "table_wf s" "mGuidString s = Some a"
  shows "\<exists>s' a'. AddGuidName E g n s = Some s' \<and> table_wf s' \<and> mGuidString s' = Some a' \<and> tok s' = tok s
    \<and> mGuidStringCountMax s' = mGuidStringCountMax s
    \<and> name_table s' = take (mGuidStringCountMax s) (name_table s @
        (case AsciiStrToGuid E g of None \<Rightarrow> []
         | Some G \<Rightarrow> [(G, take (GUID_STRING_LENGTH_MAX - 1) (if g = zero_guid_text then ascii ''ZeroGuid'' else n))]))"
proof (cases "mGuidStringCountMax s \<le> mGuidStringCount s")
  case True
  with assms have "length (name_table s) = mGuidStringCountMax s" by (simp add: table_wf_def name_table_def)
  with True assms show ?thesis by (auto simp: AddGuidName_def table_wf_def name_table_def split: option.splits)
next
  case False
  with assms show ?thesis
    by (auto simp: AddGuidName_def table_wf_def name_table_def Let_def take_Suc_conv_app_nth split: option.splits)
qed

end
