(* ===== verification/Guid_Names_Props.thy ===== *)
theory Guid_Names_Props
  imports Guid_Names
begin

text \<open>
  What \<^verbatim>\<open>SupportFile.c\<close> and \<^verbatim>\<open>SupportGuid.c\<close> compute: which volume a file comes from, handles and
  pools, and the table of names as a function of the text of \<^verbatim>\<open>Guid.xref\<close>.
\<close>

section \<open>One line\<close>

lemma unchanged_below:
  "unchanged s s' lo hi \<Longrightarrow> p + length xs < lo \<Longrightarrow> cstr (chars s') p xs = cstr (chars s) p xs"
  by (rule cstr_cong) (auto simp: unchanged_def)

lemma take_take_append: "take n (take n xs @ ys) = take n (xs @ ys)"
  by (cases "length xs \<le> n") auto

definition entry_list :: "guid_env \<Rightarrow> u8 list \<Rightarrow> (guid \<times> u8 list) list" where
  "entry_list E line = (case line_entry E line of None \<Rightarrow> [] | Some e \<Rightarrow> [e])"

lemma map_filter_Cons_append:
  "List.map_filter (line_entry E) (t # ts) = entry_list E t @ List.map_filter (line_entry E) ts"
  by (simp add: entry_list_def split: option.split)

definition table_after :: "guid_state \<Rightarrow> guid_state \<Rightarrow> (guid \<times> u8 list) list \<Rightarrow> bool" where
  "table_after s s' es \<longleftrightarrow> table_wf s' \<and> mGuidString s' \<noteq> None \<and> mGuidStringCountMax s' = mGuidStringCountMax s
     \<and> name_table s' = take (mGuidStringCountMax s) (name_table s @ es)"

lemma table_after_refl: "table_wf s \<Longrightarrow> mGuidString s \<noteq> None \<Longrightarrow> table_after s s []"
  by (auto simp: table_after_def table_wf_def name_table_def split: option.splits)

lemma table_after_tok [simp]: "table_after s (s'\<lparr>tok := t\<rparr>) es = table_after s s' es"
  "table_after (s\<lparr>tok := t\<rparr>) s' es = table_after s s' es"
  by (simp_all add: table_after_def table_wf_def name_table_def cong: option.case_cong)

lemma table_after_trans: "table_after s s' es \<Longrightarrow> table_after s' s'' fs \<Longrightarrow> table_after s s'' (es @ fs)"
  by (auto simp: table_after_def take_take_append simp del: take_append)

text \<open>The two fields of a line, as strings that are still there when both pointers are known.\<close>

lemma two_fields:
  assumes t: "cstr (chars k) B t" "B \<noteq> NULL"
  shows "\<exists>G k1 N k2. AsciiStrGetNewTokenField B [32] k = Some (G, k1)
    \<and> AsciiStrGetNextTokenField [32] k1 = Some (N, k2)
    \<and> mAsciiLineBuffer k2 = mAsciiLineBuffer k \<and> unchanged k k2 B (B + length t)
    \<and> (case tokens [32] t of
         g # n # _ \<Rightarrow> G \<noteq> NULL \<and> N \<noteq> NULL \<and> cstr (chars k2) G g \<and> cstr (chars k2) N n
       | _ \<Rightarrow> G = NULL \<or> N = NULL)"
proof -
  from field_tok.get_ok [OF t, of "[32]"] obtain G k1
    where g1: "get_token AsciiStrTokenField B [32] k = Some (G, k1)"
      "mAsciiLineBuffer k1 = mAsciiLineBuffer k" "unchanged k k1 B (B + length t)"
      and got: "field_tok.got [32] B (B + length t) (tokens [32] t) G k1"
    by blast
  show ?thesis
  proof (cases "tokens [32] t")
    case Nil
    with got have "G = NULL" "mAsciiFieldBuffer k1 = NULL" by (auto simp: field_tok.got_def)
    with g1 Nil show ?thesis
      by (simp add: AsciiStrGetNewTokenField_def AsciiStrGetNextTokenField_def field_tok.get_end)
  next
    case (Cons g us)
    with got obtain rest where G: "G \<noteq> NULL" "B \<le> G" "cstr (chars k1) G g" "tokens [32] rest = us"
      and lf: "left mAsciiFieldBuffer k1 (G + length g) (B + length t) rest"
      by (auto simp: field_tok.got_def)
    from field_tok.get_next [OF lf, of "[32]"] obtain N k2
      where g2: "get_token AsciiStrTokenField NULL [32] k1 = Some (N, k2)"
        "mAsciiLineBuffer k2 = mAsciiLineBuffer k1" "unchanged k1 k2 (Suc (G + length g)) (B + length t)"
        and got2: "field_tok.got [32] (Suc (G + length g)) (B + length t) (tokens [32] rest) N k2"
      by blast
    have "unchanged k k2 B (B + length t)"
      using g1(3) g2(3) G(2) by (auto intro: unchanged_trans)
    moreover have "cstr (chars k2) G g"
      using unchanged_below [OF g2(3), of G g] G(3) by simp
    ultimately show ?thesis
      using g1 g2 G Cons got2
      by (auto simp: AsciiStrGetNewTokenField_def AsciiStrGetNextTokenField_def field_tok.got_def split: list.splits)
  qed
qed

lemma line_body_ok:
  assumes "table_wf s" "mGuidString s \<noteq> None" and t: "cstr (chars (tok s)) B t" "B \<noteq> NULL"
  shows "\<exists>s'. line_body E B s = Some s' \<and> table_after s s' (entry_list E t)
    \<and> mAsciiLineBuffer (tok s') = mAsciiLineBuffer (tok s) \<and> unchanged (tok s) (tok s') B (B + length t)"
proof -
  from two_fields [OF t] obtain G k1 N k2 where new: "AsciiStrGetNewTokenField B [32] (tok s) = Some (G, k1)"
    and nxt: "AsciiStrGetNextTokenField [32] k1 = Some (N, k2)"
    and frame: "mAsciiLineBuffer k2 = mAsciiLineBuffer (tok s)" "unchanged (tok s) k2 B (B + length t)"
    and fields: "case tokens [32] t of
         g # n # _ \<Rightarrow> G \<noteq> NULL \<and> N \<noteq> NULL \<and> cstr (chars k2) G g \<and> cstr (chars k2) N n
       | _ \<Rightarrow> G = NULL \<or> N = NULL"
    by blast
  let ?s = "s\<lparr>tok := k2\<rparr>"
  show ?thesis
  proof (cases "\<exists>g n us. tokens [32] t = g # n # us")
    case False
    then have "G = NULL \<or> N = NULL" "entry_list E t = []"
      using fields by (auto simp: entry_list_def line_entry_def split: list.splits)
    then have "line_body E B s = Some ?s" by (auto simp: line_body_def new nxt)
    with frame \<open>entry_list E t = []\<close> table_after_refl [OF assms(1,2)] show ?thesis by auto
  next
    case True
    then obtain g n us where toks: "tokens [32] t = g # n # us" by blast
    with fields have "AsciiStr (chars k2) G = Some g" "AsciiStr (chars k2) N = Some n" "G \<noteq> NULL" "N \<noteq> NULL"
      by (auto intro: AsciiStr_cstr)
    then have body: "line_body E B s = AddGuidName E g n ?s"
      by (simp add: line_body_def new nxt)
    obtain a where "table_wf ?s" "mGuidString ?s = Some a"
      using assms(1,2) by (auto simp: table_wf_def)
    from AddGuidName_table [OF this, of E g n] toks frame body show ?thesis
      by (fastforce simp: table_after_def entry_list_def line_entry_def name_table_def split: option.splits)
  qed
qed

section \<open>All lines\<close>

lemma line_loop_ok:
  assumes "line_tok.got [10, 13] lo hi ts B (tok s)" "table_wf s" "mGuidString s \<noteq> None"
  shows "\<exists>s'. line_loop E B s = Some s' \<and> table_after s s' (List.map_filter (line_entry E) ts)"
  using assms
proof (induction ts arbitrary: lo B s)
  case Nil
  then have "B = NULL" by (simp add: line_tok.got_def)
  with Nil table_after_refl show ?case by (simp add: line_loop.simps)
next
  case (Cons t ts)
  then obtain rest where B: "B \<noteq> NULL" "cstr (chars (tok s)) B t" and rest: "tokens [10, 13] rest = ts"
    and lf: "left mAsciiLineBuffer (tok s) (B + length t) hi rest"
    by (auto simp: line_tok.got_def)
  from line_body_ok [OF Cons.prems(2,3) B(2,1), of E] obtain s1 where body: "line_body E B s = Some s1"
    and after: "table_after s s1 (entry_list E t)"
    and frame: "mAsciiLineBuffer (tok s1) = mAsciiLineBuffer (tok s)" "unchanged (tok s) (tok s1) B (B + length t)"
    by blast
  have "left mAsciiLineBuffer (tok s1) (B + length t) hi rest"
    using lf frame unchanged_cstr [OF frame(2), of "mAsciiLineBuffer (tok s)" rest]
    by (auto simp: left_def)
  from line_tok.get_next [OF this, of "[10, 13]"] rest obtain B' k
    where nxt: "AsciiStrGetNextTokenLine [10, 13] (tok s1) = Some (B', k)"
      and got: "line_tok.got [10, 13] (Suc (B + length t)) hi ts B' k"
    by (auto simp: AsciiStrGetNextTokenLine_def)
  from after have wf: "table_wf (s1\<lparr>tok := k\<rparr>)" "mGuidString (s1\<lparr>tok := k\<rparr>) \<noteq> None"
    by (auto simp: table_after_def table_wf_def)
  from Cons.IH [of "Suc (B + length t)" B' "s1\<lparr>tok := k\<rparr>"] got wf obtain s2
    where "line_loop E B' (s1\<lparr>tok := k\<rparr>) = Some s2"
      and "table_after (s1\<lparr>tok := k\<rparr>) s2 (List.map_filter (line_entry E) ts)"
    by auto
  with B body nxt after show ?case
    by (auto simp: line_loop.simps [of E B] map_filter_Cons_append simp del: map_filter_simps
        intro: table_after_trans)
qed

text \<open>The text of a file: what comes before the first zero byte.\<close>

lemma holds_store_at: "holds (store_at m p bs) p bs"
proof -
  have "bytes_at (store_at m p bs) p (length bs) = bs"
    by (rule nth_equalityI) (auto simp: bytes_at_def store_at_def)
  then show ?thesis by (simp add: holds_def)
qed

lemma cstr_pool:
  assumes "0 \<in> set pool"
  shows "cstr (store_at m p pool) p (takeWhile (\<lambda>c. c \<noteq> 0) pool)"
proof -
  from assms obtain rest where "dropWhile (\<lambda>c. c \<noteq> 0) pool = 0 # rest"
    by (metis (mono_tags, lifting) dropWhile_eq_Nil_conv hd_dropWhile list.exhaust_sel)
  then have "pool = (takeWhile (\<lambda>c. c \<noteq> 0) pool @ [0]) @ rest"
    using takeWhile_dropWhile_id [of "\<lambda>c. c \<noteq> 0" pool] by simp
  then have "holds (store_at m p pool) p ((takeWhile (\<lambda>c. c \<noteq> 0) pool @ [0]) @ rest)"
    using holds_store_at [of m p pool] by metis
  then show ?thesis
    by (auto simp: cstr_def simp del: append_assoc append.simps dest: set_takeWhileD)
qed

lemma InitGuid_with_ok:
  assumes pool: "0 \<in> set (fb_pool b)" "fb_Buffer b \<noteq> NULL"
    and alloc: "AllocGuidString E (count_list (take (fb_BufferSize b) (fb_pool b)) 10 + 1)"
    and init: "mGuidStringCount s = 0"
  shows "\<exists>s'. InitGuid_with E EFI_SUCCESS (Some b) s = Some s' \<and> table_wf s'
    \<and> mGuidString s' \<noteq> None
    \<and> name_table s' = take (count_list (take (fb_BufferSize b) (fb_pool b)) 10 + 1)
        (guid_entries E (takeWhile (\<lambda>c. c \<noteq> 0) (fb_pool b)))"
proof -
  let ?n = "count_list (take (fb_BufferSize b) (fb_pool b)) 10 + 1"
  let ?s = "s\<lparr>mGuidStringCountMax := ?n, mGuidString := ZeroAlloc E ?n\<rparr>"
  let ?k = "(tok s)\<lparr>chars := store_at (chars (tok s)) (fb_Buffer b) (fb_pool b)\<rparr>"
  let ?text = "takeWhile (\<lambda>c. c \<noteq> 0) (fb_pool b)"
  have "cstr (chars ?k) (fb_Buffer b) ?text" using cstr_pool [OF pool(1)] by simp
  from line_tok.get_ok [OF this pool(2), of "[10, 13]"] obtain B k
    where new: "AsciiStrGetNewTokenLine (fb_Buffer b) [10, 13] ?k = Some (B, k)"
      and got: "line_tok.got [10, 13] (fb_Buffer b) (fb_Buffer b + length ?text) (tokens [10, 13] ?text) B k"
    by (auto simp: AsciiStrGetNewTokenLine_def)
  have wf: "table_wf (?s\<lparr>tok := k\<rparr>)" "mGuidString (?s\<lparr>tok := k\<rparr>) \<noteq> None" "name_table (?s\<lparr>tok := k\<rparr>) = []"
    using alloc init by (auto simp: table_wf_def ZeroAlloc_def name_table_def)
  have "line_tok.got [10, 13] (fb_Buffer b) (fb_Buffer b + length ?text) (tokens [10, 13] ?text) B
      (tok (?s\<lparr>tok := k\<rparr>))"
    using got by simp
  from line_loop_ok [OF this wf(1,2), of E] obtain s'
    where "line_loop E B (?s\<lparr>tok := k\<rparr>) = Some s'"
      and "table_after (?s\<lparr>tok := k\<rparr>) s' (guid_entries E ?text)"
    unfolding guid_entries_def by blast
  with new alloc wf(3) show ?thesis
    by (auto simp: InitGuid_with_def Let_def ZeroAlloc_def table_after_def)
qed

section \<open>The table of a file\<close>

text \<open>Every carriage return belongs to a line feed.\<close>

fun crlf :: "u8 list \<Rightarrow> bool" where
  "crlf [] = True"
| "crlf (c # xs) =
     (if c = 13 then (case xs of [] \<Rightarrow> True | d # ys \<Rightarrow> d = 10 \<and> crlf xs) else crlf xs)"

lemma split_not_Nil [simp]: "split cs xs \<noteq> []"
  by (cases xs) (auto split: list.splits)

lemma length_tokens_tl: "length (tokens cs xs) \<le> Suc (length (filter (\<lambda>t. t \<noteq> []) (tl (split cs xs))))"
  by (cases "split cs xs") (auto simp: tokens_def)

lemma crlf_lines:
  "crlf xs \<Longrightarrow> length (filter (\<lambda>t. t \<noteq> []) (tl (split [10, 13] xs))) \<le> count_list xs 10"
proof (induction xs)
  case Nil
  then show ?case by simp
next
  case (Cons c xs)
  obtain t ts where sp: "split [10, 13] xs = t # ts"
    by (cases "split [10, 13] xs") auto
  have IH: "length (filter (\<lambda>t. t \<noteq> []) ts) \<le> count_list xs 10"
    using Cons sp by (auto split: if_splits list.splits)
  show ?case
  proof (cases "c = 13")
    case True
    show ?thesis
    proof (cases xs)
      case Nil
      with True show ?thesis by simp
    next
      fix d ys assume xs: "xs = d # ys"
      with True Cons.prems have "d = 10" by simp
      with xs sp have "t = []" by auto
      with True sp IH show ?thesis by simp
    qed
  next
    case False
    with sp IH show ?thesis by simp
  qed
qed

lemma crlf_entries:
  assumes "crlf xs"
  shows "length (guid_entries E xs) \<le> count_list xs 10 + 1"
proof -
  have "length (List.map_filter (line_entry E) ts) \<le> length ts" for ts
    by (induction ts) (auto split: option.splits)
  then have "length (guid_entries E xs) \<le> length (tokens [10, 13] xs)"
    by (simp add: guid_entries_def)
  also have "\<dots> \<le> Suc (count_list xs 10)"
    using length_tokens_tl [of "[10, 13]" xs] crlf_lines [OF assms] by simp
  finally show ?thesis by simp
qed

text \<open>What a successful read of the application's own volume hands over.\<close>

lemma ReadFileFromVol_buffer:
  assumes "ReadFileFromVol F V name ops = (EFI_SUCCESS, Some b, ops')"
  shows "fb_Buffer b \<noteq> NULL
    \<and> (let bytes = snd (ReadBytes F V name (snd (FileSize F V name) + 2)) in
       fb_BufferSize b = length bytes \<and> fb_pool b = bytes @ replicate (snd (FileSize F V name) + 2 - length bytes) 0)"
  using assms by (auto simp: ReadFileFromVol_def Let_def split: if_splits prod.splits)

definition file_text :: "file_system \<Rightarrow> addr \<Rightarrow> char16 list \<Rightarrow> u8 list" where
  "file_text F V name = takeWhile (\<lambda>c. c \<noteq> 0) (snd (ReadBytes F V name (snd (FileSize F V name) + 2)))"

lemma pool_text:
  assumes "ReadFileFromVol F V name ops = (EFI_SUCCESS, Some b, ops')"
    and "length (snd (ReadBytes F V name (snd (FileSize F V name) + 2))) \<le> snd (FileSize F V name)"
  shows "0 \<in> set (fb_pool b)" "takeWhile (\<lambda>c. c \<noteq> 0) (fb_pool b) = file_text F V name"
    "take (fb_BufferSize b) (fb_pool b) = snd (ReadBytes F V name (snd (FileSize F V name) + 2))"
proof -
  let ?bytes = "snd (ReadBytes F V name (snd (FileSize F V name) + 2))"
  define k where "k = snd (FileSize F V name) + 1 - length ?bytes"
  have pool: "fb_pool b = ?bytes @ 0 # replicate k 0" "fb_BufferSize b = length ?bytes"
    using ReadFileFromVol_buffer [OF assms(1)] assms(2)
    by (auto simp: Let_def Suc_diff_le k_def)
  then show "0 \<in> set (fb_pool b)" "take (fb_BufferSize b) (fb_pool b) = ?bytes"
    by simp_all
  show "takeWhile (\<lambda>c. c \<noteq> 0) (fb_pool b) = file_text F V name"
    by (cases "0 \<in> set ?bytes")
      (auto simp: pool file_text_def takeWhile_append takeWhile_eq_all_conv [THEN iffD2])
qed

lemma InitGuid_run:
  assumes read: "ReadFileToBuffer_app F (Some Guid_xref) ops = Some (EFI_SUCCESS, Some (V, b), os, ops')"
    and law: "length (snd (ReadBytes F V Guid_xref (snd (FileSize F V Guid_xref) + 2))) \<le> snd (FileSize F V Guid_xref)"
    and alloc: "\<And>n. AllocGuidString E n"
    and init: "mGuidStringCount s = 0"
  shows "\<exists>s'. InitGuid E F (s, ops) = Some (s', ops' @ [EFree (fb_Buffer b)]) \<and> table_wf s'
    \<and> name_table s' = take (count_list (snd (ReadBytes F V Guid_xref (snd (FileSize F V Guid_xref) + 2))) 10 + 1)
        (guid_entries E (file_text F V Guid_xref))"
proof -
  from read obtain ops1 where vol: "ReadFileFromVol F V Guid_xref ops = (EFI_SUCCESS, Some b, ops1)"
    by (auto simp: ReadFileToBuffer_app_def ReadFileToBufferEx_def Let_def split: if_splits prod.splits)
  note pool = pool_text [OF vol law]
  have "fb_Buffer b \<noteq> NULL" using ReadFileFromVol_buffer [OF vol] by simp
  from InitGuid_with_ok [OF pool(1) this alloc init] obtain s' where
    "InitGuid_with E EFI_SUCCESS (Some b) s = Some s'" "table_wf s'" "mGuidString s' \<noteq> None"
    "name_table s' = take (count_list (take (fb_BufferSize b) (fb_pool b)) 10 + 1)
        (guid_entries E (takeWhile (\<lambda>c. c \<noteq> 0) (fb_pool b)))"
    by blast
  with read pool show ?thesis
    by (simp add: InitGuid_def)
qed

text \<open>
  C10: \<open>InitGuid\<close> on a readable \<^verbatim>\<open>Guid.xref\<close> returns and frees its buffer, and \<open>GuidToName\<close> then
  answers as the finite map of the file does: the name in the first line that has the GUID, cut to
  63 characters (lines are the pieces between line ends, fields the pieces between blanks, and a
  line counts if its first field is a GUID and it has a second one); any other GUID is formatted.
  The table has room for one line more than the file has line feeds, and lines beyond that are
  dropped.  A read returns no more bytes than the file has.
\<close>

theorem InitGuid_names:
  assumes read: "ReadFileToBuffer_app F (Some Guid_xref) ops = Some (EFI_SUCCESS, Some (V, b), os, ops')"
    and law: "length (snd (ReadBytes F V Guid_xref (snd (FileSize F V Guid_xref) + 2))) \<le> snd (FileSize F V Guid_xref)"
    and alloc: "\<And>n. AllocGuidString E n"
    and init: "mGuidStringCount s = 0"
  shows "\<exists>s'. InitGuid E F (s, ops) = Some (s', ops' @ [EFree (fb_Buffer b)])
    \<and> (\<forall>g. GuidToName E s' g =
        Some (case map_of (take (count_list (snd (ReadBytes F V Guid_xref (snd (FileSize F V Guid_xref) + 2))) 10 + 1)
                (guid_entries E (file_text F V Guid_xref))) g of
                Some name \<Rightarrow> name | None \<Rightarrow> GuidText E g))"
  using InitGuid_run [OF assms] by (auto simp: GuidToName_table)

text \<open>A file system with one volume and a \<^verbatim>\<open>Guid.xref\<close> of two lines.\<close>

definition sample_guid_text :: "u8 \<Rightarrow> u8 list" where
  "sample_guid_text d = replicate 36 d"

definition sample_xref :: "u8 list \<Rightarrow> u8 list" where
  "sample_xref eol = sample_guid_text 65 @ [32] @ ascii ''Alpha'' @ eol @ sample_guid_text 66 @ [32, 32] @ ascii ''Beta''"

definition sample_fs :: "u8 list \<Rightarrow> file_system" where
  "sample_fs bytes =
     \<lparr>DeviceHandle = 7, SimpleFileSystem = (\<lambda>h. (EFI_SUCCESS, h + 1)), LocateFileSystems = (EFI_SUCCESS, [7]),
      HandlePool = (\<lambda>_. 500),
      OpenVolume = (\<lambda>_. EFI_SUCCESS), OpenPath = (\<lambda>_ _. EFI_SUCCESS), OpenDir = (\<lambda>_ _. EFI_SUCCESS),
      FileSize = (\<lambda>_ _. (EFI_SUCCESS, length bytes)), ReadBytes = (\<lambda>_ _ n. (EFI_SUCCESS, take n bytes)),
      SetPosition = (\<lambda>_ _. EFI_SUCCESS), DirEntries = (\<lambda>_ _. []),
      Allocate = (\<lambda>n k. 1000 * (n + 1)), sizeof_FILE_INFO = 80\<rparr>"

definition sample_guid_env :: guid_env where
  "sample_guid_env =
     \<lparr>AsciiStrToGuid = (\<lambda>t. if length t = 36 then Some (take 16 t) else None),
      AllocGuidString = (\<lambda>_. True), GuidText = (\<lambda>g. g)\<rparr>"

definition sample_guid_state :: guid_state where
  "sample_guid_state =
     \<lparr>tok = \<lparr>chars = (\<lambda>_. 0), mAsciiLineBuffer = 0, mAsciiFieldBuffer = 0\<rparr>,
      mGuidString = None, mGuidStringCountMax = 0, mGuidStringCount = 0\<rparr>"

lemma sample_read:
  "ReadFileToBuffer_app (sample_fs bytes) (Some Guid_xref) [] =
    Some (EFI_SUCCESS, Some (8, \<lparr>fb_Buffer = 5000, fb_BufferSize = length bytes, fb_pool = bytes @ [0, 0]\<rparr>), [],
      [EOpen (ROOT 8), EOpen (FILE 8 Guid_xref), EClose (ROOT 8), EAlloc 4000, EAlloc 5000, EFree 4000,
       EClose (FILE 8 Guid_xref)])"
  by (simp add: ReadFileToBuffer_app_def ReadFileToBufferEx_def GetMyVol_def ReadFileFromVol_def sample_fs_def Let_def
      numeral_2_eq_2)

lemma sample_fs_simps [simp]:
  "snd (ReadBytes (sample_fs bs) V n k) = take k bs" "snd (FileSize (sample_fs bs) V n) = length bs"
  "AllocGuidString sample_guid_env k" "mGuidStringCount sample_guid_state = 0"
  by (simp_all add: sample_fs_def sample_guid_env_def sample_guid_state_def)

lemma sample_entries:
  "guid_entries sample_guid_env (file_text (sample_fs (sample_xref [13, 10])) 8 Guid_xref) =
     [(replicate 16 65, ascii ''Alpha''), (replicate 16 66, ascii ''Beta'')]"
  by code_simp

lemma InitGuid_names_witness:
  "\<exists>s' ops. InitGuid sample_guid_env (sample_fs (sample_xref [13, 10])) (sample_guid_state, []) = Some (s', ops)
    \<and> GuidToName sample_guid_env s' (replicate 16 66) = Some (ascii ''Beta'')"
proof -
  have n: "count_list (sample_xref [13, 10]) 10 = 1" by code_simp
  show ?thesis
    using InitGuid_names [OF sample_read, of "sample_xref [13, 10]" sample_guid_env sample_guid_state]
    by (auto simp: sample_entries n)
qed

text \<open>
  In a file whose carriage returns all precede line feeds no line is lost: \<open>GuidToName\<close> knows
  every GUID of every line.
\<close>

theorem InitGuid_all_lines:
  assumes read: "ReadFileToBuffer_app F (Some Guid_xref) ops = Some (EFI_SUCCESS, Some (V, b), os, ops')"
    and law: "length (snd (ReadBytes F V Guid_xref (snd (FileSize F V Guid_xref) + 2))) \<le> snd (FileSize F V Guid_xref)"
    and alloc: "\<And>n. AllocGuidString E n"
    and init: "mGuidStringCount s = 0"
    and crlf: "crlf (file_text F V Guid_xref)"
    and entry: "(G, name) \<in> set (guid_entries E (file_text F V Guid_xref))"
  shows "\<exists>s' ops'' name'. InitGuid E F (s, ops) = Some (s', ops'')
    \<and> GuidToName E s' G = Some name' \<and> (G, name') \<in> set (guid_entries E (file_text F V Guid_xref))"
proof -
  let ?bytes = "snd (ReadBytes F V Guid_xref (snd (FileSize F V Guid_xref) + 2))"
    and ?es = "guid_entries E (file_text F V Guid_xref)"
  have "count_list (file_text F V Guid_xref) 10 \<le> count_list ?bytes 10"
    using count_list_append [of "takeWhile (\<lambda>c. c \<noteq> 0) ?bytes" "dropWhile (\<lambda>c. c \<noteq> 0) ?bytes" 10]
    by (simp add: file_text_def del: count_list_append)
  with crlf_entries [OF crlf, of E] have "take (count_list ?bytes 10 + 1) ?es = ?es"
    by simp
  moreover from entry obtain name' where "map_of ?es G = Some name'"
    by (metis domIff dom_map_of_conv_image_fst image_eqI fst_conv not_None_eq)
  ultimately show ?thesis
    using InitGuid_run [OF read law alloc init] map_of_SomeD by (fastforce simp: GuidToName_table)
qed

lemma InitGuid_all_lines_witness:
  "\<exists>s' ops name. InitGuid sample_guid_env (sample_fs (sample_xref [13, 10])) (sample_guid_state, []) = Some (s', ops)
    \<and> GuidToName sample_guid_env s' (replicate 16 66) = Some name
    \<and> (replicate 16 66, name) \<in> set (guid_entries sample_guid_env (file_text (sample_fs (sample_xref [13, 10])) 8 Guid_xref))"
proof -
  have crlf: "crlf (file_text (sample_fs (sample_xref [13, 10])) 8 Guid_xref)" by code_simp
  show ?thesis
    by (rule InitGuid_all_lines [OF sample_read _ _ _ crlf, where name = "ascii ''Beta''"])
      (simp_all add: sample_entries)
qed

text \<open>
  With carriage returns only, the table has one place: all lines but the first are dropped.
\<close>

lemma InitGuid_cr_only:
  assumes "ReadFileToBuffer_app F (Some Guid_xref) ops = Some (EFI_SUCCESS, Some (V, b), os, ops')"
    and "length (snd (ReadBytes F V Guid_xref (snd (FileSize F V Guid_xref) + 2))) \<le> snd (FileSize F V Guid_xref)"
    and "\<And>n. AllocGuidString E n" "mGuidStringCount s = 0"
    and "10 \<notin> set (snd (ReadBytes F V Guid_xref (snd (FileSize F V Guid_xref) + 2)))"
  shows "\<exists>s' ops''. InitGuid E F (s, ops) = Some (s', ops'')
    \<and> name_table s' = take 1 (guid_entries E (file_text F V Guid_xref))"
  using InitGuid_run [OF assms(1-4)] assms(5) by (auto simp: count_list_0_iff)

section \<open>Which volume\<close>

text \<open>
  When allocations succeed, whether a volume has a readable file does not depend on the record.
\<close>

definition has_file :: "file_system \<Rightarrow> char16 list \<Rightarrow> addr \<Rightarrow> bool" where
  "has_file F name h \<longleftrightarrow>
     (let (Status, V) = SimpleFileSystem F h in
      \<not> EFI_ERROR Status \<and> \<not> EFI_ERROR (OpenVolume F V) \<and> \<not> EFI_ERROR (OpenPath F V name)
      \<and> \<not> EFI_ERROR (fst (FileSize F V name))
      \<and> \<not> EFI_ERROR (fst (ReadBytes F V name (snd (FileSize F V name) + 2))))"

text \<open>What a scan reports about the matching handles.\<close>

definition scan_report ::
  "file_system \<Rightarrow> char16 list \<Rightarrow> addr list \<Rightarrow> efi_status \<Rightarrow> (addr \<times> file_buffer) option \<Rightarrow> bool"
where
  "scan_report F name hs Status res \<longleftrightarrow>
     (case filter (has_file F name) hs of
        [] \<Rightarrow> Status = EFI_NOT_FOUND \<and> res = None
      | [h] \<Rightarrow> Status = EFI_SUCCESS \<and>
          (\<exists>b. res = Some (snd (SimpleFileSystem F h), b)
             \<and> take (fb_BufferSize b) (fb_pool b)
               = snd (ReadBytes F (snd (SimpleFileSystem F h)) name
                       (snd (FileSize F (snd (SimpleFileSystem F h)) name) + 2)))
      | _ \<Rightarrow> Status = EFI_NO_MAPPING \<and> res = None)"

lemma ReadFileFromVol_has:
  assumes alloc: "\<And>n k. Allocate F n k \<noteq> NULL" and ok: "\<not> EFI_ERROR (fst (SimpleFileSystem F h))"
    and V: "V = snd (SimpleFileSystem F h)"
  obtains (yes) b ops' where "has_file F name h" "ReadFileFromVol F V name ops = (EFI_SUCCESS, Some b, ops @ ops')"
      "balanced ops' [fb_Buffer b]"
      "take (fb_BufferSize b) (fb_pool b) = snd (ReadBytes F V name (snd (FileSize F V name) + 2))"
  | (no) St ops' where "\<not> has_file F name h" "EFI_ERROR St" "ReadFileFromVol F V name ops = (St, None, ops @ ops')"
      "balanced ops' []"
proof -
  obtain ops' where ops': "snd (snd (ReadFileFromVol F V name ops)) = ops @ ops'"
    "balanced ops' (case fst (snd (ReadFileFromVol F V name ops)) of None \<Rightarrow> [] | Some b \<Rightarrow> [fb_Buffer b])"
    by (rule ReadFileFromVol_cases)
  have nz: "(Allocate F n k = 0) = False" for n k
    using alloc by simp
  have has: "has_file F name h \<longleftrightarrow> \<not> EFI_ERROR (fst (ReadFileFromVol F V name ops))"
    "has_file F name h \<longleftrightarrow> fst (snd (ReadFileFromVol F V name ops)) \<noteq> None"
    using ok by (auto simp: has_file_def V ReadFileFromVol_def Let_def nz split: prod.split)
  show ?thesis
  proof (cases "has_file F name h")
    case True
    with has obtain b where "fst (snd (ReadFileFromVol F V name ops)) = Some b" by auto
    moreover from this have "fst (ReadFileFromVol F V name ops) = EFI_SUCCESS"
      by (auto simp: ReadFileFromVol_def Let_def split: if_splits prod.splits)
    ultimately have run: "ReadFileFromVol F V name ops = (EFI_SUCCESS, Some b, ops @ ops')"
      using ops'(1) by (metis prod.collapse)
    from ReadFileFromVol_buffer [OF run] ops'(2) show ?thesis
      by (intro yes [OF True run]) (auto simp: run Let_def)
  next
    case False
    with has have err: "EFI_ERROR (fst (ReadFileFromVol F V name ops))" "fst (snd (ReadFileFromVol F V name ops)) = None"
      by auto
    have "ReadFileFromVol F V name ops = (fst (ReadFileFromVol F V name ops), None, ops @ ops')"
      using err(2) ops'(1) by (metis prod.collapse)
    with False err ops'(2) show ?thesis by (auto intro: no)
  qed
qed

definition pools_of :: "(addr \<times> file_buffer) option \<Rightarrow> addr list" where
  "pools_of res = (case res of None \<Rightarrow> [] | Some (_, b) \<Rightarrow> [fb_Buffer b])"

text \<open>Handles are closed again; pools held before and taken are freed or held afterwards.\<close>

definition accounts :: "file_event list \<Rightarrow> addr list \<Rightarrow> addr list \<Rightarrow> bool" where
  "accounts ops before after \<longleftrightarrow>
     (\<forall>h. count_list ops (EOpen h) = count_list ops (EClose h))
     \<and> (\<forall>p. count_list before p + count_list ops (EAlloc p) = count_list ops (EFree p) + count_list after p)"

definition scan_outcome ::
  "file_system \<Rightarrow> char16 list \<Rightarrow> addr list \<Rightarrow> (addr \<times> file_buffer) option \<Rightarrow> efi_status \<Rightarrow> (addr \<times> file_buffer) option
   \<Rightarrow> file_event list \<Rightarrow> bool"
where
  "scan_outcome F name hs found St res ops \<longleftrightarrow>
     accounts ops (pools_of found) (pools_of res)
     \<and> (case found of
          None \<Rightarrow> scan_report F name hs St res
        | Some f \<Rightarrow> if filter (has_file F name) hs = [] then St = EFI_SUCCESS \<and> res = Some f
                    else St = EFI_NO_MAPPING \<and> res = None)"

lemma pools_of_simps [simp]: "pools_of None = []" "pools_of (Some (V, b)) = [fb_Buffer b]"
  by (simp_all add: pools_of_def)

lemma scan_outcome_skip:
  assumes "scan_outcome F name hs found St res ops2" "\<not> has_file F name h" "balanced ops1 []"
  shows "scan_outcome F name (h # hs) found St res (ops1 @ ops2)"
  using assms by (auto simp: scan_outcome_def scan_report_def accounts_def balanced_def split: option.splits)

lemma scan_outcome_first:
  assumes "scan_outcome F name hs (Some (V, b)) St res ops2" "has_file F name h" "balanced ops1 [fb_Buffer b]"
    and "V = snd (SimpleFileSystem F h)"
    and "take (fb_BufferSize b) (fb_pool b) = snd (ReadBytes F V name (snd (FileSize F V name) + 2))"
  shows "scan_outcome F name (h # hs) None St res (ops1 @ ops2)"
proof -
  have "accounts (ops1 @ ops2) [] (pools_of res)"
    using assms(1,3) by (simp add: scan_outcome_def accounts_def balanced_def)
  moreover have "scan_report F name (h # hs) St res"
    using assms by (auto simp: scan_outcome_def scan_report_def neq_Nil_conv split: if_splits)
  ultimately show ?thesis by (simp add: scan_outcome_def)
qed

lemma scan_volumes_ok:
  assumes alloc: "\<And>n k. Allocate F n k \<noteq> NULL"
  shows "\<exists>St res os ops'. scan_volumes F name hs found ops = Some (St, res, os, ops @ ops')
    \<and> scan_outcome F name hs found St res ops'"
proof (induction hs arbitrary: found ops)
  case Nil
  then show ?case by (auto simp: scan_outcome_def accounts_def scan_report_def split: option.split)
next
  case (Cons h hs)
  obtain S V where sfs: "SimpleFileSystem F h = (S, V)" by fastforce
  show ?case
  proof (cases "EFI_ERROR S")
    case True
    then have "\<not> has_file F name h" "balanced [] []" by (auto simp: has_file_def sfs balanced_def)
    with True sfs Cons.IH [of found ops] show ?thesis
      by (auto dest: scan_outcome_skip)
  next
    case False
    then have V: "\<not> EFI_ERROR (fst (SimpleFileSystem F h))" "V = snd (SimpleFileSystem F h)"
      using sfs by auto
    show ?thesis
    proof (cases rule: ReadFileFromVol_has [OF alloc V, of name ops, case_names yes no])
      case (no St ops1)
      then have "scan_volumes F name (h # hs) found ops = scan_volumes F name hs found (ops @ ops1)"
        using False sfs by simp
      with Cons.IH [of found "ops @ ops1"] no show ?thesis
        by (auto dest: scan_outcome_skip)
    next
      case (yes b ops1)
      show ?thesis
      proof (cases found)
        case None
        with yes have "scan_volumes F name (h # hs) found ops = scan_volumes F name hs (Some (V, b)) (ops @ ops1)"
          using False sfs by simp
        with Cons.IH [of "Some (V, b)" "ops @ ops1"] yes None V(2) show ?thesis
          by (auto dest: scan_outcome_first)
      next
        case (Some f)
        with yes False sfs show ?thesis
          by (cases f) (auto simp: scan_outcome_def accounts_def balanced_def)
      qed
    qed
  qed
qed

text \<open>The array of handles that the firmware allocates for the scan.\<close>

definition handle_pools :: "file_system \<Rightarrow> file_event list \<Rightarrow> addr list" where
  "handle_pools F ops = (if EFI_ERROR (fst (LocateFileSystems F)) then [] else [HandlePool F (length ops)])"

text \<open>
  C34: A scan of all volumes reports what is there: \<open>EFI_NOT_FOUND\<close> if no volume has the file,
  the volume and the content if exactly one has it, and \<open>EFI_NO_MAPPING\<close> if there are
  more.  Every handle it opens is closed.  Two pools stay allocated: the returned buffer and, on
  every path, the array of handles that \<^verbatim>\<open>LocateHandleBuffer\<close> allocated, which leaks.  Allocations
  are taken to succeed.
\<close>

theorem ReadFileToBufferEx_scan:
  assumes "\<And>n k. Allocate F n k \<noteq> NULL"
  shows "\<exists>St res os ops'. ReadFileToBufferEx F V (Some name) True ops = Some (St, res, os, ops @ ops')
    \<and> scan_report F name (snd (LocateFileSystems F)) St res
    \<and> balanced ops' (pools_of res @ handle_pools F ops)"
proof (cases "EFI_ERROR (fst (LocateFileSystems F)) \<and> snd (LocateFileSystems F) = []")
  case True
  then show ?thesis
    by (auto simp: ReadFileToBufferEx_def scan_report_def balanced_def pools_of_def handle_pools_def split: prod.split)
next
  case False
  let ?hp = "handle_pools F ops"
  from scan_volumes_ok [OF assms, of name "snd (LocateFileSystems F)" None "ops @ map EAlloc ?hp"]
  obtain St res os ops' where
    run: "scan_volumes F name (snd (LocateFileSystems F)) None (ops @ map EAlloc ?hp)
      = Some (St, res, os, ops @ map EAlloc ?hp @ ops')"
    and out: "scan_outcome F name (snd (LocateFileSystems F)) None St res ops'" by auto
  from run False have "ReadFileToBufferEx F V (Some name) True ops
      = Some (St, res, os, ops @ map EAlloc ?hp @ ops')"
    by (auto simp: ReadFileToBufferEx_def handle_pools_def split: prod.splits if_splits)
  moreover have "balanced (map EAlloc ?hp @ ops') (pools_of res @ ?hp)"
    using out by (auto simp: scan_outcome_def accounts_def balanced_def handle_pools_def)
  ultimately show ?thesis using out by (auto simp: scan_outcome_def)
qed

lemma ReadFileToBufferEx_scan_witness:
  "\<exists>St res os ops'. ReadFileToBufferEx (sample_fs [1, 2]) 0 (Some Guid_xref) True [] = Some (St, res, os, ops')
    \<and> scan_report (sample_fs [1, 2]) Guid_xref [7] St res \<and> balanced ops' (pools_of res @ [500])"
  using ReadFileToBufferEx_scan [of "sample_fs [1, 2]" 0 Guid_xref "[]"]
  by (simp add: sample_fs_def handle_pools_def)

text \<open>An allocation that fails is reported as success, without a buffer.\<close>

lemma ReadFileFromVol_no_memory:
  assumes "OpenVolume F V = EFI_SUCCESS" "OpenPath F V name = EFI_SUCCESS" "\<And>n k. Allocate F n k = NULL"
  shows "\<exists>ops'. ReadFileFromVol F V name ops = (EFI_SUCCESS, None, ops')"
  using assms by (simp add: ReadFileFromVol_def Let_def)

end
