(* ===== verification/Pei_Dump.thy ===== *)
theory Pei_Dump
  imports Guid_Names_Props
begin

text \<open>
  \<^verbatim>\<open>AppSrc/EdkiiCoreDatabaseDump/PeiCoreDump/PeiCoreDump.c\<close>: the PEI module that collects the
  PEIMs of the firmware volumes and the PPI database of the PEI core.  What it prints goes to
  \<open>DEBUG\<close> and is not modelled.  PEI services are parameters; an array of the PEI core is the list
  of its valid entries.
\<close>

section \<open>The PEI core's data\<close>

text \<open>\<open>EFI_PEI_PPI_DESCRIPTOR\<close> and \<open>EFI_PEI_NOTIFY_DESCRIPTOR\<close> have the same layout.\<close>

record ppi_descriptor =
  pd_Flags :: u64
  pd_Guid :: guid
  pd_Ptr :: u64

record ppi_list =
  Ptrs :: "ppi_descriptor option list"
  MaxCount :: u64
  LastDispatchedCount :: u64

text \<open>\<open>LastDispatchedCount\<close> is not used for the callback list.  A null file handle is \<open>None\<close>.\<close>

record pei_core =
  Fv :: "u64 option list list"
  PpiList :: ppi_list
  CallbackNotifyList :: ppi_list
  DispatchNotifyList :: ppi_list
  PhysicalMemoryBegin :: u64
  PhysicalMemoryLength :: u64
  FreePhysicalMemoryTop :: u64

datatype section_type = EFI_SECTION_PE32 | EFI_SECTION_TE | EFI_SECTION_USER_INTERFACE

record pei_env =
  FfsFindSectionData :: "section_type \<Rightarrow> u64 \<Rightarrow> efi_status \<times> u64"
  FfsGetFileInfo :: "u64 \<Rightarrow> efi_status \<times> guid"
  PeCoffLoaderGetPdbPointer :: "u64 \<Rightarrow> u8 list option"
  UiString :: "u64 \<Rightarrow> char16 list"
  GuidText16 :: "guid \<Rightarrow> char16 list"
  AllocImages :: "nat \<Rightarrow> bool"
  mPpiFuncStruct :: "(guid \<times> u64) list"
  LoadUintn :: "u64 \<Rightarrow> u64"

section \<open>Names\<close>

abbreviation (input) NAME_STRING_LENGTH :: nat where
  "NAME_STRING_LENGTH \<equiv> 35"

text \<open>The scan for \<open>StartIndex\<close> and \<open>EndIndex\<close>: behind the last backslash, at the last period.\<close>

fun pdb_scan :: "u8 list \<Rightarrow> nat \<Rightarrow> nat \<Rightarrow> nat \<Rightarrow> nat \<times> nat" where
  "pdb_scan [] IndexA StartIndex EndIndex = (StartIndex, EndIndex)"
| "pdb_scan (c # cs) IndexA StartIndex EndIndex =
     pdb_scan cs (IndexA + 1) (if c = 92 then IndexA + 1 else StartIndex) (if c = 46 then IndexA else EndIndex)"

function pdb_copy :: "u8 list \<Rightarrow> nat \<Rightarrow> nat \<Rightarrow> nat \<Rightarrow> char16 list" where
  "pdb_copy s IndexA EndIndex IndexU =
     (if IndexA < EndIndex
      then ucast (s ! IndexA) #
        (if NAME_STRING_LENGTH \<le> IndexU + 1 then [] else pdb_copy s (IndexA + 1) EndIndex (IndexU + 1))
      else [])"
  by pat_completeness auto
termination by (relation "measure (\<lambda>(s, i, e, u). e - i)") auto

declare pdb_copy.simps [simp del]

text \<open>The string in \<open>UnicodeBuffer\<close>, which is cleared first.\<close>

definition GetShortPdbFileName :: "u8 list option \<Rightarrow> char16 list" where
  "GetShortPdbFileName PdbFileName =
     (case PdbFileName of
        None \<Rightarrow> [32]
      | Some s \<Rightarrow> (let (StartIndex, EndIndex) = pdb_scan s 0 0 (length s) in pdb_copy s StartIndex EndIndex 0))"

text \<open>\<open>StrnCpyS\<close> into a buffer of \<open>NAME_STRING_LENGTH + 1\<close> characters.\<close>

definition copy_name :: "char16 list \<Rightarrow> char16 list" where
  "copy_name s = take NAME_STRING_LENGTH s"

section \<open>Images\<close>

record image_struct =
  is_FileGuid :: guid
  is_EntryPoint :: u64
  is_ImageBase :: u64
  is_ImageSize :: u64
  is_LoadedImageBase :: u64
  is_NameString :: "char16 list"

record pei_dump =
  mNameString :: "char16 list"
  mImageStruct :: "image_struct list option"
  mImageStructCountMax :: nat
  mImageStructCount :: nat

definition zero_image :: image_struct where
  "zero_image = \<lparr>is_FileGuid = replicate 16 0, is_EntryPoint = 0, is_ImageBase = 0, is_ImageSize = 0,
     is_LoadedImageBase = 0, is_NameString = []\<rparr>"

text \<open>\<open>None\<close>: the array is written through a null pointer or past its end.\<close>

definition AddImageStruct ::
  "u64 \<Rightarrow> u64 \<Rightarrow> u64 \<Rightarrow> char16 list option \<Rightarrow> guid \<Rightarrow> pei_dump \<Rightarrow> pei_dump option"
where
  "AddImageStruct ImageBase ImageSize LoadedImageBase NameString Guid s =
     (if mImageStructCountMax s \<le> mImageStructCount s then Some s
      else
        (case mImageStruct s of
           None \<Rightarrow> None
         | Some a \<Rightarrow>
             (if length a \<le> mImageStructCount s then None
              else
                (let old = a ! mImageStructCount s;
                     new = old\<lparr>is_ImageBase := ImageBase, is_ImageSize := ImageSize,
                       is_LoadedImageBase := LoadedImageBase,
                       is_NameString := (case NameString of None \<Rightarrow> is_NameString old | Some n \<Rightarrow> copy_name n),
                       is_FileGuid := Guid\<rparr>
                 in Some (s\<lparr>mImageStruct := Some (a[mImageStructCount s := new]),
                            mImageStructCount := mImageStructCount s + 1\<rparr>)))))"

text \<open>The entries in use.\<close>

definition images :: "pei_dump \<Rightarrow> image_struct list" where
  "images s = take (mImageStructCount s) (case mImageStruct s of None \<Rightarrow> [] | Some a \<Rightarrow> a)"

definition in_image :: "u64 \<Rightarrow> image_struct \<Rightarrow> bool" where
  "in_image Address x \<longleftrightarrow> is_ImageBase x \<le> Address \<and> Address < is_ImageBase x + is_ImageSize x"

fun ref_loop :: "image_struct list \<Rightarrow> u64 \<Rightarrow> u64 \<Rightarrow> u64" where
  "ref_loop [] Address Index = - 1"
| "ref_loop (x # xs) Address Index = (if in_image Address x then Index else ref_loop xs Address (Index + 1))"

definition AddressToImageRef :: "pei_dump \<Rightarrow> u64 \<Rightarrow> u64" where
  "AddressToImageRef s Address = ref_loop (images s) Address 0"

fun ref_ex_loop :: "pei_env \<Rightarrow> pei_dump \<Rightarrow> (guid \<times> u64) list \<Rightarrow> u64 \<Rightarrow> guid \<Rightarrow> u64" where
  "ref_ex_loop E s [] Address Protocol = - 1"
| "ref_ex_loop E s ((g, FuncOffset) # fs) Address Protocol =
     (if Protocol = g then AddressToImageRef s (LoadUintn E (Address + FuncOffset))
      else ref_ex_loop E s fs Address Protocol)"

definition AddressToImageRefEx :: "pei_env \<Rightarrow> pei_dump \<Rightarrow> u64 \<Rightarrow> guid \<Rightarrow> u64" where
  "AddressToImageRefEx E s Address Protocol =
     (let ImageRef = AddressToImageRef s Address in
      if ImageRef \<noteq> - 1 then ImageRef else ref_ex_loop E s (mPpiFuncStruct E) Address Protocol)"

text \<open>The name, the GUID and the image base of a file; the name is in \<open>mNameString\<close>.\<close>

definition GetDriverNameString ::
  "pei_env \<Rightarrow> u64 \<Rightarrow> guid \<Rightarrow> u64 \<Rightarrow> pei_dump \<Rightarrow> char16 list option \<times> guid \<times> u64 \<times> pei_dump"
where
  "GetDriverNameString E FileHandle Guid ImageBase s =
     (let (Status, ImageData) =
            (let (Status, d) = FfsFindSectionData E EFI_SECTION_PE32 FileHandle in
             if EFI_ERROR Status then FfsFindSectionData E EFI_SECTION_TE FileHandle else (Status, d));
          ImageBase = (if \<not> EFI_ERROR Status then ImageData else ImageBase);
          Name = (if \<not> EFI_ERROR Status
                  then (case PeCoffLoaderGetPdbPointer E ImageData of
                          None \<Rightarrow> None | Some Pdb \<Rightarrow> Some (GetShortPdbFileName (Some Pdb)))
                  else None);
          Name = (case Name of
                    Some n \<Rightarrow> Some n
                  | None \<Rightarrow>
                      (let (Status, Ui) = FfsFindSectionData E EFI_SECTION_USER_INTERFACE FileHandle in
                       if \<not> EFI_ERROR Status then Some (copy_name (UiString E Ui)) else None));
          (Status, FileName) = FfsGetFileInfo E FileHandle;
          Guid = (if \<not> EFI_ERROR Status then FileName else Guid);
          Name = (case Name of
                    Some n \<Rightarrow> Some n
                  | None \<Rightarrow> if \<not> EFI_ERROR Status then Some (copy_name (GuidText16 E FileName)) else None)
      in (Name, Guid, ImageBase, case Name of Some n \<Rightarrow> s\<lparr>mNameString := n\<rparr> | None \<Rightarrow> s))"

definition CalcTotalPeimCount :: "pei_core \<Rightarrow> nat" where
  "CalcTotalPeimCount P = sum_list (map length (Fv P))"

fun peim_loop :: "pei_env \<Rightarrow> u64 option list \<Rightarrow> pei_dump \<Rightarrow> pei_dump option" where
  "peim_loop E [] s = Some s"
| "peim_loop E (None # hs) s = Some s"
| "peim_loop E (Some h # hs) s =
     (let (NameString, Guid, ImageBase, s) = GetDriverNameString E h (replicate 16 0) 0 s in
      Option.bind (AddImageStruct ImageBase 0 ImageBase NameString Guid s) (peim_loop E hs))"

fun fv_loop :: "pei_env \<Rightarrow> u64 option list list \<Rightarrow> pei_dump \<Rightarrow> pei_dump option" where
  "fv_loop E [] s = Some s"
| "fv_loop E (hs # fvs) s = Option.bind (peim_loop E hs s) (fv_loop E fvs)"

definition DumpImageData :: "pei_env \<Rightarrow> pei_core \<Rightarrow> pei_dump \<Rightarrow> pei_dump option" where
  "DumpImageData E P s =
     (let TotalPeimCount = CalcTotalPeimCount P;
          s = s\<lparr>mImageStructCountMax := TotalPeimCount,
               mImageStruct := (if AllocImages E TotalPeimCount then Some (replicate TotalPeimCount zero_image) else None)\<rparr>
      in if mImageStruct s = None then Some s else fv_loop E (Fv P) s)"

definition CalcTotalPpiDataCount :: "pei_core \<Rightarrow> nat" where
  "CalcTotalPpiDataCount P =
     length (Ptrs (PpiList P)) + length (Ptrs (CallbackNotifyList P)) + length (Ptrs (DispatchNotifyList P))"

section \<open>Short names\<close>

text \<open>The part behind the last backslash, and of that the part before the last period.\<close>

definition base_name :: "u8 list \<Rightarrow> u8 list" where
  "base_name s = rev (takeWhile (\<lambda>c. c \<noteq> 92) (rev s))"

definition stem :: "u8 list \<Rightarrow> u8 list" where
  "stem s = (if 46 \<in> set s then rev (tl (dropWhile (\<lambda>c. c \<noteq> 46) (rev s))) else s)"

lemma pdb_copy_eq:
  "EndIndex \<le> length s \<Longrightarrow> IndexU < NAME_STRING_LENGTH \<Longrightarrow>
   pdb_copy s IndexA EndIndex IndexU
     = map ucast (take (NAME_STRING_LENGTH - IndexU) (take (EndIndex - IndexA) (drop IndexA s)))"
proof (induction s IndexA EndIndex IndexU rule: pdb_copy.induct)
  case (1 s IndexA EndIndex IndexU)
  show ?case
  proof (cases "IndexA < EndIndex")
    case False
    then show ?thesis by (simp add: pdb_copy.simps [of s IndexA])
  next
    case True
    with "1.prems" have d: "drop IndexA s = s ! IndexA # drop (Suc IndexA) s"
      and e: "EndIndex - IndexA = Suc (EndIndex - Suc IndexA)"
      by (simp_all add: Cons_nth_drop_Suc)
    show ?thesis
    proof (cases "NAME_STRING_LENGTH \<le> IndexU + 1")
      case last: True
      with "1.prems" have "NAME_STRING_LENGTH - IndexU = 1" by simp
      with True last d e show ?thesis by (simp add: pdb_copy.simps [of s IndexA])
    next
      case False
      then have "NAME_STRING_LENGTH - IndexU = Suc (NAME_STRING_LENGTH - Suc IndexU)" by simp
      with True False d e "1.IH" "1.prems" show ?thesis by (simp add: pdb_copy.simps [of s IndexA])
    qed
  qed
qed

lemma pdb_scan_snoc:
  "pdb_scan (cs @ [c]) i a b =
     (case pdb_scan cs i a b of (st, en) \<Rightarrow>
        (if c = 92 then i + length cs + 1 else st, if c = 46 then i + length cs else en))"
  by (induction cs arbitrary: i a b) (auto split: prod.split)

lemma pdb_scan_eq:
  "pdb_scan s 0 0 n =
     (length s - length (base_name s),
      if 46 \<in> set s then length s - Suc (length (takeWhile (\<lambda>c. c \<noteq> 46) (rev s))) else n)"
  by (induction s rule: rev_induct) (auto simp: pdb_scan_snoc base_name_def Suc_diff_le length_takeWhile_le)

end
