(* ===== verification/Pei_Hob.thy ===== *)
theory Pei_Hob
  imports Pei_Dump
begin

text \<open>
  \<^verbatim>\<open>PeiCoreDumpHob.c\<close> and the layouts of \<^verbatim>\<open>PeiCoreDumpComm.h\<close>: the PEI module writes its database,
  three packed groups of structures, into a HOB.  Memory is written as the code writes it, so the
  size of the HOB plays no role in what is written.
\<close>

section \<open>Layout\<close>

definition SIGNATURE_32 :: "char \<Rightarrow> char \<Rightarrow> char \<Rightarrow> char \<Rightarrow> u32" where
  "SIGNATURE_32 A B C D = of_char A + 256 * of_char B + 65536 * of_char C + 16777216 * of_char D"

definition PEI_CORE_IMAGE_DATABASE_SIGNATURE :: u32 where
  "PEI_CORE_IMAGE_DATABASE_SIGNATURE = SIGNATURE_32 (CHR ''P'') (CHR ''C'') (CHR ''I'') (CHR ''D'')"

definition PEI_CORE_PPI_DATABASE_SIGNATURE :: u32 where
  "PEI_CORE_PPI_DATABASE_SIGNATURE = SIGNATURE_32 (CHR ''P'') (CHR ''C'') (CHR ''P'') (CHR ''D'')"

definition PEI_CORE_MEMORY_INFO_SIGNATURE :: u32 where
  "PEI_CORE_MEMORY_INFO_SIGNATURE = SIGNATURE_32 (CHR ''P'') (CHR ''C'') (CHR ''M'') (CHR ''I'')"

abbreviation (input) PEI_CORE_NAME_STRING :: nat where
  "PEI_CORE_NAME_STRING \<equiv> 36"

abbreviation (input) sizeof_IMAGE :: nat where "sizeof_IMAGE \<equiv> 132"
abbreviation (input) sizeof_PPI_DATABASE :: nat where "sizeof_PPI_DATABASE \<equiv> 76"
abbreviation (input) sizeof_PPI :: nat where "sizeof_PPI \<equiv> 40"
abbreviation (input) sizeof_MEMORY_INFO :: nat where "sizeof_MEMORY_INFO \<equiv> 36"

text \<open>\<open>EFI_HOB_GUID_TYPE\<close>: a header of 8 bytes and the GUID.\<close>

abbreviation (input) sizeof_HOB_GUID_TYPE :: nat where "sizeof_HOB_GUID_TYPE \<equiv> 24"

definition mPeiCoreDumpGuid :: guid where
  "mPeiCoreDumpGuid = [0xda, 0x65, 0x20, 0x12, 0x58, 0xb0, 0xbc, 0x4f, 0xb2, 0x33, 0x34, 0x4f, 0xfc, 0xa9, 0x93, 0xb5]"

text \<open>The two flag masks of the PI specification that the code tests.\<close>

record ppi_flags =
  PPI_DESCRIPTOR_PPI :: u64
  PPI_DESCRIPTOR_NOTIFY_TYPES :: u64

section \<open>Writing the database\<close>

definition w32 :: "u32 \<Rightarrow> u8 list" where "w32 v = enc 4 (unat v)"
definition w64 :: "u64 \<Rightarrow> u8 list" where "w64 v = enc 8 (unat v)"

definition db_header :: "u32 \<Rightarrow> nat \<Rightarrow> u8 list" where
  "db_header Signature Length = w32 Signature @ enc 4 Length @ w32 1"

definition name_bytes :: "char16 list \<Rightarrow> u8 list" where
  "name_bytes n = concat (map (\<lambda>c. enc 2 (unat c)) (n @ replicate (PEI_CORE_NAME_STRING - length n) 0))"

definition image_bytes :: "image_struct \<Rightarrow> u8 list" where
  "image_bytes x =
     db_header PEI_CORE_IMAGE_DATABASE_SIGNATURE sizeof_IMAGE @ is_FileGuid x @ name_bytes (is_NameString x)
     @ w64 (is_EntryPoint x) @ w64 (is_LoadedImageBase x) @ w64 (is_ImageSize x) @ w64 (is_ImageBase x)"

definition unused_image_bytes :: "u8 list" where
  "unused_image_bytes = db_header PEI_CORE_IMAGE_DATABASE_SIGNATURE sizeof_IMAGE @ replicate (sizeof_IMAGE - 12) 0"

text \<open>Consecutive structures of one size; a structure may be written in part.\<close>

fun put_all :: "nat \<Rightarrow> u8 list list \<Rightarrow> addr \<Rightarrow> mem \<Rightarrow> mem" where
  "put_all n [] p m = m"
| "put_all n (b # bs) p m = put_all n bs (p + n) (store_at m p b)"

definition BuildImageDatabaseData :: "pei_core \<Rightarrow> pei_dump \<Rightarrow> addr \<Rightarrow> mem \<Rightarrow> mem" where
  "BuildImageDatabaseData P s Data m =
     (let m = put_all sizeof_IMAGE (map image_bytes (images s)) Data m
      in put_all sizeof_IMAGE
           (replicate (CalcTotalPeimCount P - length (images s)) unused_image_bytes)
           (Data + sizeof_IMAGE * length (images s)) m)"

definition ppi_bytes :: "pei_env \<Rightarrow> ppi_flags \<Rightarrow> pei_dump \<Rightarrow> ppi_descriptor option \<Rightarrow> u8 list" where
  "ppi_bytes E K s d =
     (case d of
        None \<Rightarrow> []
      | Some d \<Rightarrow>
          w64 (pd_Flags d) @
          (if pd_Flags d AND PPI_DESCRIPTOR_PPI K \<noteq> 0
           then pd_Guid d @ w64 (pd_Ptr d) @ w64 (AddressToImageRefEx E s (pd_Ptr d) (pd_Guid d))
           else if pd_Flags d AND PPI_DESCRIPTOR_NOTIFY_TYPES K \<noteq> 0
           then pd_Guid d @ w64 (pd_Ptr d) @ w64 (AddressToImageRef s (pd_Ptr d))
           else []))"

definition BuildPpiData ::
  "pei_env \<Rightarrow> ppi_flags \<Rightarrow> pei_dump \<Rightarrow> ppi_descriptor option list \<Rightarrow> addr \<Rightarrow> mem \<Rightarrow> mem"
where
  "BuildPpiData E K s PpiListPtrs p m = put_all sizeof_PPI (map (ppi_bytes E K s) PpiListPtrs) p m"

definition ppi_database_bytes :: "pei_core \<Rightarrow> u8 list" where
  "ppi_database_bytes P =
     db_header PEI_CORE_PPI_DATABASE_SIGNATURE (sizeof_PPI_DATABASE + CalcTotalPpiDataCount P * sizeof_PPI)
     @ enc 8 (length (Ptrs (PpiList P))) @ w64 (MaxCount (PpiList P)) @ w64 (LastDispatchedCount (PpiList P))
     @ enc 8 (length (Ptrs (CallbackNotifyList P))) @ w64 (MaxCount (CallbackNotifyList P))
     @ enc 8 (length (Ptrs (DispatchNotifyList P))) @ w64 (MaxCount (DispatchNotifyList P))
     @ w64 (LastDispatchedCount (DispatchNotifyList P))"

definition BuildPpiDatabaseData :: "pei_env \<Rightarrow> ppi_flags \<Rightarrow> pei_core \<Rightarrow> pei_dump \<Rightarrow> addr \<Rightarrow> mem \<Rightarrow> mem" where
  "BuildPpiDatabaseData E K P s Data m =
     (let m = store_at m Data (ppi_database_bytes P);
          p = Data + sizeof_PPI_DATABASE;
          m = store_at m p (replicate (CalcTotalPpiDataCount P * sizeof_PPI) 0);
          m = BuildPpiData E K s (Ptrs (PpiList P)) p m;
          p = p + sizeof_PPI * length (Ptrs (PpiList P));
          m = BuildPpiData E K s (Ptrs (CallbackNotifyList P)) p m;
          p = p + sizeof_PPI * length (Ptrs (CallbackNotifyList P))
      in BuildPpiData E K s (Ptrs (DispatchNotifyList P)) p m)"

definition BuildMemoryInfoData :: "pei_core \<Rightarrow> addr \<Rightarrow> mem \<Rightarrow> mem" where
  "BuildMemoryInfoData P Data m =
     store_at m Data
       (db_header PEI_CORE_MEMORY_INFO_SIGNATURE sizeof_MEMORY_INFO
        @ w64 (PhysicalMemoryBegin P) @ w64 (PhysicalMemoryLength P) @ w64 (FreePhysicalMemoryTop P))"

definition ImageDatabaseSize :: "pei_core \<Rightarrow> nat" where
  "ImageDatabaseSize P = CalcTotalPeimCount P * sizeof_IMAGE"

definition PpiDatabaseSize :: "pei_core \<Rightarrow> nat" where
  "PpiDatabaseSize P = sizeof_PPI_DATABASE + CalcTotalPpiDataCount P * sizeof_PPI"

definition database_size :: "pei_core \<Rightarrow> nat" where
  "database_size P = ImageDatabaseSize P + PpiDatabaseSize P + sizeof_MEMORY_INFO"

text \<open>\<open>CreateHob\<close> takes the length as a \<open>UINT16\<close>; it answers with the new HOB's address.\<close>

definition HobLength :: "pei_core \<Rightarrow> u16" where
  "HobLength P = of_nat (sizeof_HOB_GUID_TYPE + database_size P)"

definition BuildPeiCoreDatabase ::
  "pei_env \<Rightarrow> ppi_flags \<Rightarrow> (u16 \<Rightarrow> efi_status \<times> addr) \<Rightarrow> pei_core \<Rightarrow> pei_dump \<Rightarrow> mem \<Rightarrow> mem"
where
  "BuildPeiCoreDatabase E K CreateHob P s m =
     (let (Status, Hob) = CreateHob (HobLength P) in
      if EFI_ERROR Status then m
      else
        (let m = store_at m (Hob + 8) mPeiCoreDumpGuid;
             Data = Hob + sizeof_HOB_GUID_TYPE;
             m = BuildImageDatabaseData P s Data m;
             m = BuildPpiDatabaseData E K P s (Data + ImageDatabaseSize P) m
         in BuildMemoryInfoData P (Data + ImageDatabaseSize P + PpiDatabaseSize P) m))"

text \<open>The module's work at the end of PEI; the array is freed afterwards.\<close>

definition PeiCoreDump ::
  "pei_env \<Rightarrow> ppi_flags \<Rightarrow> (u16 \<Rightarrow> efi_status \<times> addr) \<Rightarrow> pei_core \<Rightarrow> pei_dump \<times> mem
   \<Rightarrow> (efi_status \<times> pei_dump \<times> mem) option"
where
  "PeiCoreDump E K CreateHob P = (\<lambda>(s, m).
     Option.bind (DumpImageData E P s) (\<lambda>s.
       Some (EFI_SUCCESS, s, BuildPeiCoreDatabase E K CreateHob P s m)))"

end
