(* ===== verification/Pei_App.thy ===== *)
theory Pei_App
  imports Pei_Hob Walks
begin

text \<open>
  \<^verbatim>\<open>PeiCoreDumpApp.c\<close>: the shell application that finds the HOB and prints the database.  The
  three printers walk the structures by their lengths.
\<close>

partial_function (option) UniStr :: "mem \<Rightarrow> addr \<Rightarrow> char16 list option" where
  "UniStr m p =
     (if rd16 m p = 0 then Some [] else Option.bind (UniStr m (p + 2)) (\<lambda>xs. Some (rd16 m p # xs)))"

text \<open>The text \<open>???\<close>.\<close>

definition UNKNOWN_NAME :: "char16 list" where
  "UNKNOWN_NAME = [63, 63, 63]"

record pei_app =
  app_guids :: guid_state
  mPeiCoreDatabase :: addr
  mPeiCoreDatabaseSize :: nat
  app_images :: "image_struct list option"
  app_images_max :: nat
  app_out :: "out list"

definition say :: "out list \<Rightarrow> pei_app \<Rightarrow> pei_app" where
  "say os s = s\<lparr>app_out := app_out s @ os\<rparr>"

text \<open>\<open>GetFirstGuidHob\<close> with the data and data size macros.\<close>

definition GetPeiCoreDatabase :: "(guid \<Rightarrow> (addr \<times> nat) option) \<Rightarrow> pei_app \<Rightarrow> pei_app" where
  "GetPeiCoreDatabase GetFirstGuidHob s =
     (case GetFirstGuidHob mPeiCoreDumpGuid of
        None \<Rightarrow> say [Print ''PeiCoreDump Hob not found!'' []] s
      | Some (p, n) \<Rightarrow> s\<lparr>mPeiCoreDatabase := p, mPeiCoreDatabaseSize := n\<rparr>)"

text \<open>\<open>None\<close>: the name is read through a null pointer or past the array.\<close>

definition GetImageRefName :: "pei_app \<Rightarrow> u64 \<Rightarrow> char16 list option" where
  "GetImageRefName s ImageRef =
     (if app_images_max s \<le> unat ImageRef then Some UNKNOWN_NAME
      else case app_images s of
        None \<Rightarrow> None
      | Some a \<Rightarrow> if unat ImageRef < length a then Some (is_NameString (a ! unat ImageRef)) else None)"

section \<open>The printers\<close>

abbreviation db_Signature :: "mem \<Rightarrow> addr \<Rightarrow> u32" where
  "db_Signature m p \<equiv> rd32 m p"

abbreviation db_Length :: "mem \<Rightarrow> addr \<Rightarrow> nat" where
  "db_Length m p \<equiv> unat (rd32 m (p + 4))"

definition image_body :: "mem \<Rightarrow> addr \<Rightarrow> pei_app \<Rightarrow> (pei_app + pei_app) option" where
  "image_body m p s =
     (if db_Signature m p = PEI_CORE_IMAGE_DATABASE_SIGNATURE \<and> bytes_at m (p + 12) 16 \<noteq> replicate 16 0
      then Option.bind (UniStr m (p + 28)) (\<lambda>name.
             Some (Inr (say [Print ''Image: %s (0x%x)'' [Uni name, hx (rd64 m (p + 108))],
                             Print ''(Fv(%g))'' [Ascii (bytes_at m (p + 12) 16)]] s)))
      else Some (Inr s))"

text \<open>The loops run from the database to its end; \<open>Inl\<close> is \<open>break\<close>.\<close>

definition db_walk :: "mem \<Rightarrow> (addr \<Rightarrow> pei_app \<Rightarrow> (pei_app + pei_app) option) \<Rightarrow> pei_app \<Rightarrow> pei_app option" where
  "db_walk m body s =
     map_option (\<lambda>r. case r of Inl s \<Rightarrow> s | Inr s \<Rightarrow> s)
       (walk (db_Length m) body (mPeiCoreDatabase s) (mPeiCoreDatabase s + mPeiCoreDatabaseSize s) s)"

definition DumpPeiLoadedImage :: "mem \<Rightarrow> pei_app \<Rightarrow> pei_app option" where
  "DumpPeiLoadedImage m s = db_walk m (image_body m) s"

text \<open>The last part of a line: the image's name, if it is known.\<close>

definition image_ref_text :: "mem \<Rightarrow> u64 \<Rightarrow> u64 \<Rightarrow> pei_app \<Rightarrow> pei_app option" where
  "image_ref_text m Ptr ImageRef s =
     (if Ptr \<noteq> 0
      then Option.bind (GetImageRefName s ImageRef) (\<lambda>Name.
             Some (if Name \<noteq> UNKNOWN_NAME then say [Print '' (%s)'' [Uni Name]] s else s))
      else Some s)"

definition ppi_body :: "guid_env \<Rightarrow> ppi_flags \<Rightarrow> mem \<Rightarrow> addr \<Rightarrow> nat \<Rightarrow> pei_app \<Rightarrow> pei_app option" where
  "ppi_body E K m PpiStruct Index s =
     (let p = PpiStruct + sizeof_PPI * Index;
          Flags = rd64 m p;
          Guid = bytes_at m (p + 8) 16;
          Ptr = rd64 m (p + 24);
          line = (\<lambda>fmt s.
            Option.bind (GuidToName E (app_guids s) Guid) (\<lambda>name.
            Option.bind (image_ref_text m Ptr (rd64 m (p + 32)) (say [Print fmt [Ascii name, hx Ptr]] s)) (\<lambda>s.
              Some (say [Print '''' []] s))))
      in if Flags = 0 then Some s
         else
           (let s = say [Print ''[%d] - Flags (0x%x)'' [hxn Index, hx Flags]] s in
            if Flags AND PPI_DESCRIPTOR_PPI K \<noteq> 0 then line ''  Ppi - %a, Interface - 0x%x'' s
            else if Flags AND PPI_DESCRIPTOR_NOTIFY_TYPES K \<noteq> 0 then line ''  Notify - %a, Interface - 0x%x'' s
            else Some s))"

definition DumpPpiPtrsOnPpiDatabaseStruct ::
  "guid_env \<Rightarrow> ppi_flags \<Rightarrow> mem \<Rightarrow> addr \<Rightarrow> u64 \<Rightarrow> pei_app \<Rightarrow> pei_app option"
where
  "DumpPpiPtrsOnPpiDatabaseStruct E K m PpiStruct CurrentCount s =
     each (ppi_body E K m PpiStruct) [0..<unat CurrentCount] s"

definition DumpPpiOnPpiDatabaseStruct :: "guid_env \<Rightarrow> ppi_flags \<Rightarrow> mem \<Rightarrow> addr \<Rightarrow> pei_app \<Rightarrow> pei_app option" where
  "DumpPpiOnPpiDatabaseStruct E K m p s =
     (let n1 = rd64 m (p + 12); n2 = rd64 m (p + 36); n3 = rd64 m (p + 52);
          PpiStruct = p + sizeof_PPI_DATABASE
      in Option.bind (DumpPpiPtrsOnPpiDatabaseStruct E K m PpiStruct n1
                        (say [Print ''PpiList.PpiPtrs :'' []] s)) (\<lambda>s.
         Option.bind (DumpPpiPtrsOnPpiDatabaseStruct E K m (PpiStruct + sizeof_PPI * unat n1) n2
                        (say [Print ''CallbackNotifyList.NotifyPtrs :'' []] s)) (\<lambda>s.
         DumpPpiPtrsOnPpiDatabaseStruct E K m (PpiStruct + sizeof_PPI * (unat n1 + unat n2)) n3
           (say [Print ''DispatchNotifyList.NotifyPtrs :'' []] s))))"

definition ppi_database_body :: "guid_env \<Rightarrow> ppi_flags \<Rightarrow> mem \<Rightarrow> addr \<Rightarrow> pei_app \<Rightarrow> (pei_app + pei_app) option" where
  "ppi_database_body E K m p s =
     (if db_Signature m p = PEI_CORE_PPI_DATABASE_SIGNATURE
      then map_option Inl (DumpPpiOnPpiDatabaseStruct E K m p
             (say [Print ''PpiList.CurrentCount - %d'' [hx (rd64 m (p + 12))],
                   Print ''PpiList.MaxCount - %d'' [hx (rd64 m (p + 20))],
                   Print ''PpiList.LastDispatchedCount - %d'' [hx (rd64 m (p + 28))],
                   Print ''CallbackNotifyList.CurrentCount - %d'' [hx (rd64 m (p + 36))],
                   Print ''CallbackNotifyList.MaxCount - %d'' [hx (rd64 m (p + 44))],
                   Print ''DispatchNotifyList.CurrentCount - %d'' [hx (rd64 m (p + 52))],
                   Print ''DispatchNotifyList.MaxCount - %d'' [hx (rd64 m (p + 60))],
                   Print ''DispatchNotifyList.LastDispatchedCount - %d'' [hx (rd64 m (p + 68))]] s))
      else Some (Inr s))"

definition DumpPpiDatabase :: "guid_env \<Rightarrow> ppi_flags \<Rightarrow> mem \<Rightarrow> pei_app \<Rightarrow> pei_app option" where
  "DumpPpiDatabase E K m s = db_walk m (ppi_database_body E K m) s"

definition memory_body :: "mem \<Rightarrow> addr \<Rightarrow> pei_app \<Rightarrow> (pei_app + pei_app) option" where
  "memory_body m p s =
     (if db_Signature m p = PEI_CORE_MEMORY_INFO_SIGNATURE
      then Some (Inl (say [Print ''PhysicalMemoryBegin - 0x%016lx'' [hx (rd64 m (p + 12))],
                           Print ''PhysicalMemoryLength - 0x%016lx'' [hx (rd64 m (p + 20))],
                           Print ''FreePhysicalMemoryTop - 0x%016lx'' [hx (rd64 m (p + 28))]] s))
      else Some (Inr s))"

definition DumpMemoryInfo :: "mem \<Rightarrow> pei_app \<Rightarrow> pei_app option" where
  "DumpMemoryInfo m s = db_walk m (memory_body m) s"

section \<open>The entry point\<close>

definition PeiCoreDumpAppEntrypoint ::
  "guid_env \<Rightarrow> file_system \<Rightarrow> ppi_flags \<Rightarrow> (guid \<Rightarrow> (addr \<times> nat) option) \<Rightarrow> mem
   \<Rightarrow> pei_app \<times> file_event list \<Rightarrow> (efi_status \<times> pei_app \<times> file_event list) option"
where
  "PeiCoreDumpAppEntrypoint E F K GetFirstGuidHob m = (\<lambda>(s, ops).
     (let s = GetPeiCoreDatabase GetFirstGuidHob s in
      if mPeiCoreDatabase s = NULL then Some (EFI_SUCCESS, s, ops)
      else
        Option.bind (InitGuid E F (app_guids s, ops)) (\<lambda>(g, ops).
        Option.bind (DumpPeiLoadedImage m (say [Print ''# IMAGE DATABASE #'' []] (s\<lparr>app_guids := g\<rparr>))) (\<lambda>s.
        Option.bind (DumpPpiDatabase E K m (say [Print '''' [], Print ''# PPI DATABASE #'' []] s)) (\<lambda>s.
        Option.bind (DumpMemoryInfo m (say [Print '''' [], Print ''# MEMORY INFO #'' []] s)) (\<lambda>s.
          Some (EFI_SUCCESS, say [Print '''' []] (s\<lparr>app_guids := snd (DeinitGuid (app_guids s))\<rparr>), ops)))))))"

end
