(* ===== verification/Pei_Props.thy ===== *)
theory Pei_Props
  imports Pei_App
begin

text \<open>
  What the PEI module collects: short names, the list of PEIMs, and image references.
\<close>

section \<open>Short names\<close>

lemma base_name_split: "s = take (length s - length (base_name s)) s @ base_name s"
proof -
  let ?t = "takeWhile (\<lambda>c. c \<noteq> 92) (rev s)" and ?d = "dropWhile (\<lambda>c. c \<noteq> 92) (rev s)"
  have "s = rev ?d @ rev ?t"
    by (metis rev_append rev_rev_ident takeWhile_dropWhile_id)
  moreover from this have "take (length s - length (base_name s)) s = rev ?d"
    by (metis append_eq_conv_conj base_name_def diff_add_inverse2 length_append)
  ultimately show ?thesis by (simp add: base_name_def)
qed

lemma takeWhile_shorter: "x \<in> set xs \<Longrightarrow> length (takeWhile (\<lambda>c. c \<noteq> x) xs) < length xs"
  by (induction xs) auto

text \<open>
  The short name of a PDB path is the last component without its extension, cut to 35
  characters, but it is empty when the only periods of the path are in front of the last
  backslash: then the end index lies before the start index.
\<close>

theorem GetShortPdbFileName_name:
  "GetShortPdbFileName (Some s) =
     (if 46 \<in> set s \<and> 46 \<notin> set (base_name s) then []
      else map ucast (take NAME_STRING_LENGTH (stem (base_name s))))"
proof -
  let ?b = "base_name s" and ?st = "length s - length (base_name s)"
  obtain d where s: "s = d @ ?b" and st: "?st = length d"
    using base_name_split [of s] by (metis diff_add_inverse2 length_append)
  have copy: "pdb_copy s i e 0 = map ucast (take NAME_STRING_LENGTH (take (e - i) (drop i s)))"
    if "e \<le> length s" for i e
    using pdb_copy_eq [OF that, of 0 i] by simp
  consider (ext) "46 \<in> set ?b" | (early) "46 \<in> set s" "46 \<notin> set ?b" | (none) "46 \<notin> set s"
    by blast
  then show ?thesis
  proof cases
    case ext
    let ?k = "length (takeWhile (\<lambda>c. c \<noteq> 46) (rev ?b))"
    have k: "?k < length ?b"
      using ext takeWhile_shorter [of 46 "rev ?b"] by simp
    have "takeWhile (\<lambda>c. c \<noteq> 46) (rev s) = takeWhile (\<lambda>c. c \<noteq> 46) (rev ?b)"
      using ext by (subst s) (simp add: takeWhile_append1)
    moreover have in_s: "46 \<in> set s" using ext by (subst s) simp
    ultimately have "pdb_scan s 0 0 (length s) = (length d, length s - Suc ?k)"
      using st by (simp add: pdb_scan_eq)
    moreover have "length s - Suc ?k - length d = length ?b - Suc ?k"
      using k by (subst s) simp
    moreover have "stem ?b = take (length ?b - Suc ?k) ?b"
      using ext by (simp add: stem_def dropWhile_eq_drop tl_drop drop_Suc [symmetric] rev_drop)
    ultimately show ?thesis
      using ext s by (simp add: GetShortPdbFileName_def copy) (metis append_eq_conv_conj)
  next
    case early
    then have "\<forall>c\<in>set (rev ?b). c \<noteq> 46" by auto
    then have "length ?b \<le> length (takeWhile (\<lambda>c. c \<noteq> 46) (rev (d @ ?b)))"
      by (auto simp: takeWhile_append)
    then have "length ?b \<le> length (takeWhile (\<lambda>c. c \<noteq> 46) (rev s))"
      using s by simp
    with early show ?thesis
      by (simp add: GetShortPdbFileName_def pdb_scan_eq copy)
  next
    case none
    then have "46 \<notin> set ?b" using s by (metis Un_iff set_append)
    with none s st show ?thesis
      by (simp add: GetShortPdbFileName_def pdb_scan_eq copy stem_def) (metis append_eq_conv_conj)
  qed
qed

section \<open>The list of PEIMs\<close>

text \<open>The entry of one file; what \<open>GetDriverNameString\<close> returns does not depend on the state.\<close>

definition driver_name :: "pei_env \<Rightarrow> u64 \<Rightarrow> char16 list option" where
  "driver_name E h = fst (GetDriverNameString E h (replicate 16 0) 0 undefined)"

definition image_of :: "pei_env \<Rightarrow> u64 \<Rightarrow> image_struct" where
  "image_of E h =
     (let (Name, Guid, Base, _) = GetDriverNameString E h (replicate 16 0) 0 undefined in
      \<lparr>is_FileGuid = Guid, is_EntryPoint = 0, is_ImageBase = Base, is_ImageSize = 0,
       is_LoadedImageBase = Base, is_NameString = (case Name of None \<Rightarrow> [] | Some n \<Rightarrow> copy_name n)\<rparr>)"

text \<open>The handles of a volume up to the first null one.\<close>

fun volume_files :: "u64 option list \<Rightarrow> u64 list" where
  "volume_files (Some h # hs) = h # volume_files hs"
| "volume_files _ = []"

definition core_files :: "pei_core \<Rightarrow> u64 list" where
  "core_files P = concat (map volume_files (Fv P))"

lemma length_volume_files: "length (volume_files hs) \<le> length hs"
  by (induction hs rule: volume_files.induct) auto

lemma length_core_files: "length (core_files P) \<le> CalcTotalPeimCount P"
proof -
  have "length (concat (map volume_files fvs)) \<le> sum_list (map length fvs)" for fvs
    by (induction fvs) (auto intro: add_mono length_volume_files)
  then show ?thesis by (simp add: core_files_def CalcTotalPeimCount_def)
qed

lemma GetDriverNameString_state:
  "GetDriverNameString E h g b s =
     (case GetDriverNameString E h g b undefined of (Name, Guid, Base, _) \<Rightarrow>
        (Name, Guid, Base, case Name of Some n \<Rightarrow> s\<lparr>mNameString := n\<rparr> | None \<Rightarrow> s))"
  by (simp add: GetDriverNameString_def Let_def split: prod.split)

text \<open>A table with \<open>done\<close> in its first places and empty entries behind.\<close>

definition filled :: "image_struct list \<Rightarrow> nat \<Rightarrow> pei_dump \<Rightarrow> bool" where
  "filled xs k s \<longleftrightarrow> mImageStruct s = Some (xs @ replicate k zero_image) \<and> mImageStructCount s = length xs
     \<and> mImageStructCountMax s = length xs + k"

lemma images_filled: "filled xs k s \<Longrightarrow> images s = xs"
  by (simp add: filled_def images_def)

lemma AddImageStruct_filled:
  assumes "filled xs (Suc k) s" "GetDriverNameString E h (replicate 16 0) 0 s = (Name, Guid, Base, s1)"
  shows "\<exists>s'. AddImageStruct Base 0 Base Name Guid s1 = Some s' \<and> filled (xs @ [image_of E h]) k s'"
proof -
  from assms(2) have img: "image_of E h = \<lparr>is_FileGuid = Guid, is_EntryPoint = 0, is_ImageBase = Base,
      is_ImageSize = 0, is_LoadedImageBase = Base, is_NameString = (case Name of None \<Rightarrow> [] | Some n \<Rightarrow> copy_name n)\<rparr>"
    and s1: "s1 = (case Name of Some n \<Rightarrow> s\<lparr>mNameString := n\<rparr> | None \<Rightarrow> s)"
    by (auto simp: image_of_def GetDriverNameString_state [of E h _ _ s] split: prod.splits)
  from s1 assms(1) have "filled xs (Suc k) s1" by (auto simp: filled_def split: option.split)
  then show ?thesis
    by (auto simp: AddImageStruct_def filled_def img zero_image_def nth_append list_update_append Let_def
        split: option.split)
qed

lemma peim_loop_filled:
  "filled xs (length (volume_files hs) + k) s \<Longrightarrow>
   \<exists>s'. peim_loop E hs s = Some s' \<and> filled (xs @ map (image_of E) (volume_files hs)) k s'"
proof (induction hs arbitrary: xs s rule: volume_files.induct)
  case (1 h hs)
  obtain Name Guid Base s1 where get: "GetDriverNameString E h (replicate 16 0) 0 s = (Name, Guid, Base, s1)"
    by (metis prod_cases4)
  from "1.prems" have "filled xs (Suc (length (volume_files hs) + k)) s" by simp
  from AddImageStruct_filled [OF this get] obtain s2 where "AddImageStruct Base 0 Base Name Guid s1 = Some s2"
    "filled (xs @ [image_of E h]) (length (volume_files hs) + k) s2"
    by blast
  with "1.IH" get show ?case by fastforce
qed simp_all

lemma fv_loop_filled:
  "filled xs (length (concat (map volume_files fvs)) + k) s \<Longrightarrow>
   \<exists>s'. fv_loop E fvs s = Some s' \<and> filled (xs @ map (image_of E) (concat (map volume_files fvs))) k s'"
proof (induction fvs arbitrary: xs s)
  case Nil
  then show ?case by simp
next
  case (Cons hs fvs)
  from Cons.prems have "filled xs (length (volume_files hs) + (length (concat (map volume_files fvs)) + k)) s"
    by (simp add: add.assoc)
  from peim_loop_filled [OF this, of E] Cons.IH show ?case by fastforce
qed

lemma DumpImageData_filled:
  assumes "AllocImages E (CalcTotalPeimCount P)" "mImageStructCount s = 0"
  shows "\<exists>s'. DumpImageData E P s = Some s'
    \<and> filled (map (image_of E) (core_files P)) (CalcTotalPeimCount P - length (core_files P)) s'"
proof -
  let ?n = "CalcTotalPeimCount P"
  let ?s = "s\<lparr>mImageStructCountMax := ?n, mImageStruct := Some (replicate ?n zero_image)\<rparr>"
  have "filled [] (length (concat (map volume_files (Fv P))) + (?n - length (core_files P))) ?s"
    using assms length_core_files [of P] by (simp add: filled_def core_files_def)
  from fv_loop_filled [OF this, of E] assms show ?thesis
    by (auto simp: DumpImageData_def core_files_def)
qed

text \<open>
  The module records every PEIM: the entries in use are those of the files of all volumes, in
  order, up to the first null handle of each; the array is never written past its end, and unused
  entries stay empty.
\<close>

theorem DumpImageData_files:
  assumes "AllocImages E (CalcTotalPeimCount P)" "mImageStructCount s = 0"
  shows "\<exists>s'. DumpImageData E P s = Some s' \<and> images s' = map (image_of E) (core_files P)
    \<and> mImageStruct s' = Some (images s' @ replicate (CalcTotalPeimCount P - length (core_files P)) zero_image)
    \<and> mImageStructCount s' \<le> mImageStructCountMax s'"
  using DumpImageData_filled [OF assms] by (auto simp: filled_def images_def)

section \<open>Image references\<close>

lemma ref_loop_empty: "\<forall>x\<in>set xs. is_ImageSize x = 0 \<Longrightarrow> ref_loop xs a i = - 1"
  by (induction xs arbitrary: i) (auto simp: in_image_def)

lemma image_of_size [simp]: "is_ImageSize (image_of E h) = 0" "is_EntryPoint (image_of E h) = 0"
  "is_LoadedImageBase (image_of E h) = is_ImageBase (image_of E h)"
  by (simp_all add: image_of_def split: prod.split)

lemma no_image_refs:
  assumes "images s = map (image_of E) hs"
  shows "AddressToImageRef s a = - 1" "AddressToImageRefEx E s a g = - 1"
proof -
  show ref: "AddressToImageRef s a = - 1" for a
    using assms by (simp add: AddressToImageRef_def ref_loop_empty)
  have "ref_ex_loop E s fs a g = - 1" for fs
    by (induction fs) (auto simp: ref)
  then show "AddressToImageRefEx E s a g = - 1"
    by (simp add: AddressToImageRefEx_def ref)
qed

text \<open>
  No address is ever attributed to an image: \<open>DumpImageData\<close> records every PEIM with size 0, so
  that the range test of \<open>AddressToImageRef\<close> fails for every address and every PPI and
  notification is stored without its image.
\<close>

theorem AddressToImageRef_never:
  assumes "DumpImageData E P s = Some s'" "AllocImages E (CalcTotalPeimCount P)" "mImageStructCount s = 0"
  shows "AddressToImageRef s' a = - 1 \<and> AddressToImageRefEx E s' a g = - 1"
  using DumpImageData_filled [OF assms(2,3)] assms(1) images_filled no_image_refs by fastforce

end
