(* ===== verification/Pei_Roundtrip.thy ===== *)
theory Pei_Roundtrip
  imports Pei_Props
begin

text \<open>
  From the PEI module to the application: the bytes the module writes and the text the application
  prints from them.
\<close>

section \<open>Writing\<close>

lemma store_at_same: "holds (store_at m p bs) p bs"
  by (rule holds_store_at)

lemma store_at_other:
  "q + length xs \<le> p \<or> p + length bs \<le> q \<Longrightarrow> holds (store_at m p bs) q xs = holds m q xs"
  by (rule holds_cong) (auto simp: store_at_def)

text \<open>Structures of \<open>n\<close> bytes whose unwritten tails are zero.\<close>

definition padded :: "nat \<Rightarrow> u8 list \<Rightarrow> u8 list" where
  "padded n b = b @ replicate (n - length b) 0"

lemma put_all_before:
  "q + length xs \<le> p \<Longrightarrow> holds (put_all n bs p m) q xs = holds m q xs"
  by (induction bs arbitrary: p m) (auto simp: store_at_other)

lemma put_all_after:
  "p + n * length bs \<le> q \<Longrightarrow> \<forall>b\<in>set bs. length b \<le> n \<Longrightarrow> holds (put_all n bs p m) q xs = holds m q xs"
proof (induction bs arbitrary: p m)
  case Nil
  then show ?case by simp
next
  case (Cons b bs)
  from Cons.prems have "p + n + n * length bs \<le> q" "p + length b \<le> q" by auto
  with Cons show ?case by (simp add: store_at_other)
qed

lemma put_all_padded:
  "\<forall>b\<in>set bs. length b \<le> n \<Longrightarrow> holds m p (replicate (n * length bs) 0) \<Longrightarrow>
   holds (put_all n bs p m) p (concat (map (padded n) bs))"
proof (induction bs arbitrary: p m)
  case Nil
  then show ?case by simp
next
  case (Cons b bs)
  have zeros: "holds m p (replicate n 0)" "holds m (p + n) (replicate (n * length bs) 0)"
    using Cons.prems(2) by (simp_all add: replicate_add)
  have "holds m p (replicate (length b) 0 @ replicate (n - length b) 0)"
    using zeros(1) Cons.prems(1) by (simp flip: replicate_add del: holds_append)
  then have tail: "holds m (p + length b) (replicate (n - length b) 0)" by simp
  have "holds (store_at m p b) p (padded n b)"
    using tail by (simp add: padded_def store_at_same store_at_other)
  moreover have "length (padded n b) = n" using Cons.prems(1) by (simp add: padded_def)
  moreover have "holds (store_at m p b) (p + n) (replicate (n * length bs) 0)"
    using zeros(2) Cons.prems(1) by (simp add: store_at_other)
  ultimately show ?case
    using Cons by (simp add: put_all_before)
qed

lemma put_all_full:
  "\<forall>b\<in>set bs. length b = n \<Longrightarrow> holds (put_all n bs p m) p (concat bs)"
proof (induction bs arbitrary: p m)
  case Nil
  then show ?case by simp
next
  case (Cons b bs)
  then show ?case by (simp add: put_all_before store_at_same)
qed

section \<open>The database\<close>

definition image_wf :: "image_struct \<Rightarrow> bool" where
  "image_wf x \<longleftrightarrow> length (is_FileGuid x) = 16 \<and> length (is_NameString x) \<le> NAME_STRING_LENGTH
     \<and> 0 \<notin> set (is_NameString x)"

definition all_ppis :: "pei_core \<Rightarrow> ppi_descriptor option list" where
  "all_ppis P = Ptrs (PpiList P) @ Ptrs (CallbackNotifyList P) @ Ptrs (DispatchNotifyList P)"

definition core_wf :: "pei_core \<Rightarrow> bool" where
  "core_wf P \<longleftrightarrow> (\<forall>d. Some d \<in> set (all_ppis P) \<longrightarrow> length (pd_Guid d) = 16)"

definition image_area :: "pei_core \<Rightarrow> pei_dump \<Rightarrow> u8 list" where
  "image_area P s = concat (map image_bytes (images s)
     @ replicate (CalcTotalPeimCount P - length (images s)) unused_image_bytes)"

definition ppi_area :: "pei_env \<Rightarrow> ppi_flags \<Rightarrow> pei_core \<Rightarrow> pei_dump \<Rightarrow> u8 list" where
  "ppi_area E K P s = concat (map (\<lambda>d. padded sizeof_PPI (ppi_bytes E K s d)) (all_ppis P))"

definition memory_bytes :: "pei_core \<Rightarrow> u8 list" where
  "memory_bytes P = db_header PEI_CORE_MEMORY_INFO_SIGNATURE sizeof_MEMORY_INFO
     @ w64 (PhysicalMemoryBegin P) @ w64 (PhysicalMemoryLength P) @ w64 (FreePhysicalMemoryTop P)"

definition database_bytes :: "pei_env \<Rightarrow> ppi_flags \<Rightarrow> pei_core \<Rightarrow> pei_dump \<Rightarrow> u8 list" where
  "database_bytes E K P s = image_area P s @ ppi_database_bytes P @ ppi_area E K P s @ memory_bytes P"

lemma length_w [simp]: "length (w32 v) = 4" "length (w64 w) = 8"
  by (simp_all add: w32_def w64_def)

lemma length_db_header [simp]: "length (db_header sig n) = 12"
  by (simp add: db_header_def)

lemma length_name_bytes: "length n \<le> PEI_CORE_NAME_STRING \<Longrightarrow> length (name_bytes n) = 72"
  by (simp add: name_bytes_def length_concat comp_def sum_list_triv sum_list_replicate)

lemma length_image_bytes: "image_wf x \<Longrightarrow> length (image_bytes x) = sizeof_IMAGE"
  by (simp add: image_bytes_def image_wf_def length_name_bytes)

lemma length_unused [simp]: "length unused_image_bytes = sizeof_IMAGE"
  by (simp add: unused_image_bytes_def)

lemma length_ppi_bytes: "(\<And>x. d = Some x \<Longrightarrow> length (pd_Guid x) = 16) \<Longrightarrow> length (ppi_bytes E K s d) \<le> sizeof_PPI"
  by (auto simp: ppi_bytes_def split: option.split)

lemma length_ppi_database [simp]: "length (ppi_database_bytes P) = sizeof_PPI_DATABASE"
  by (simp add: ppi_database_bytes_def)

lemma length_memory [simp]: "length (memory_bytes P) = sizeof_MEMORY_INFO"
  by (simp add: memory_bytes_def)

lemma length_concat_const: "\<forall>b\<in>set bs. length b = n \<Longrightarrow> length (concat bs) = n * length bs"
  by (induction bs) auto

lemma length_image_area:
  assumes "\<forall>x\<in>set (images s). image_wf x" "length (images s) \<le> CalcTotalPeimCount P"
  shows "length (image_area P s) = ImageDatabaseSize P"
proof -
  have "length (image_area P s) = sizeof_IMAGE *
      length (map image_bytes (images s) @ replicate (CalcTotalPeimCount P - length (images s)) unused_image_bytes)"
    unfolding image_area_def using assms(1) by (intro length_concat_const) (auto simp: length_image_bytes)
  with assms(2) show ?thesis by (simp add: ImageDatabaseSize_def)
qed

lemma length_all_ppis: "length (all_ppis P) = CalcTotalPpiDataCount P"
  by (simp add: all_ppis_def CalcTotalPpiDataCount_def)

lemma core_wf_ppi: "core_wf P \<Longrightarrow> d \<in> set (all_ppis P) \<Longrightarrow> length (ppi_bytes E K s d) \<le> sizeof_PPI"
  by (rule length_ppi_bytes) (auto simp: core_wf_def)

lemma length_ppi_area: "core_wf P \<Longrightarrow> length (ppi_area E K P s) = CalcTotalPpiDataCount P * sizeof_PPI"
  unfolding ppi_area_def
  by (subst length_concat_const [where n = sizeof_PPI])
    (use core_wf_ppi in \<open>force simp: padded_def length_all_ppis\<close>)+

lemma put_all_append: "put_all n (xs @ ys) p m = put_all n ys (p + n * length xs) (put_all n xs p m)"
  by (induction xs arbitrary: p m) (simp_all add: add.assoc)

lemma BuildImageDatabaseData_eq:
  "BuildImageDatabaseData P s Data m =
     put_all sizeof_IMAGE (map image_bytes (images s)
       @ replicate (CalcTotalPeimCount P - length (images s)) unused_image_bytes) Data m"
  by (simp add: BuildImageDatabaseData_def put_all_append)

lemma BuildPpiDatabaseData_eq:
  "BuildPpiDatabaseData E K P s Data m =
     put_all sizeof_PPI (map (ppi_bytes E K s) (all_ppis P)) (Data + sizeof_PPI_DATABASE)
       (store_at (store_at m Data (ppi_database_bytes P)) (Data + sizeof_PPI_DATABASE)
         (replicate (CalcTotalPpiDataCount P * sizeof_PPI) 0))"
  by (simp add: BuildPpiDatabaseData_def BuildPpiData_def all_ppis_def put_all_append Let_def)

text \<open>The three writers, each leaving the areas in front of its own alone.\<close>

lemma image_area_written:
  "\<forall>x\<in>set (images s). image_wf x \<Longrightarrow> holds (BuildImageDatabaseData P s Data m) Data (image_area P s)"
  unfolding BuildImageDatabaseData_eq image_area_def
  by (rule put_all_full) (auto simp: length_image_bytes)

lemma ppi_area_written:
  assumes "core_wf P"
  shows "holds (BuildPpiDatabaseData E K P s Data m) Data (ppi_database_bytes P @ ppi_area E K P s)"
proof -
  let ?m = "store_at (store_at m Data (ppi_database_bytes P)) (Data + sizeof_PPI_DATABASE)
         (replicate (CalcTotalPpiDataCount P * sizeof_PPI) 0)"
  have "holds ?m Data (ppi_database_bytes P)" by (simp add: store_at_other store_at_same)
  moreover have "holds ?m (Data + sizeof_PPI_DATABASE) (replicate (sizeof_PPI * length (map (ppi_bytes E K s) (all_ppis P))) 0)"
    using store_at_same by (simp add: length_all_ppis mult.commute)
  then have "holds (put_all sizeof_PPI (map (ppi_bytes E K s) (all_ppis P)) (Data + sizeof_PPI_DATABASE) ?m)
      (Data + sizeof_PPI_DATABASE) (concat (map (padded sizeof_PPI) (map (ppi_bytes E K s) (all_ppis P))))"
    using assms by (intro put_all_padded) (auto dest: core_wf_ppi)
  ultimately show ?thesis
    by (simp add: BuildPpiDatabaseData_eq put_all_before ppi_area_def comp_def)
qed

lemma ppi_keeps_before:
  "q + length xs \<le> Data \<Longrightarrow> holds (BuildPpiDatabaseData E K P s Data m) q xs = holds m q xs"
  by (simp add: BuildPpiDatabaseData_eq put_all_before store_at_other)

theorem database_written:
  assumes "CreateHob (HobLength P) = (EFI_SUCCESS, Hob)" "core_wf P"
    and "\<forall>x\<in>set (images s). image_wf x" "length (images s) \<le> CalcTotalPeimCount P"
  shows "holds (BuildPeiCoreDatabase E K CreateHob P s m) (Hob + sizeof_HOB_GUID_TYPE) (database_bytes E K P s)"
proof -
  let ?D = "Hob + sizeof_HOB_GUID_TYPE"
  let ?m1 = "BuildImageDatabaseData P s ?D (store_at m (Hob + 8) mPeiCoreDumpGuid)"
  let ?m2 = "BuildPpiDatabaseData E K P s (?D + ImageDatabaseSize P) ?m1"
  let ?e = "?D + ImageDatabaseSize P + PpiDatabaseSize P"
  have build: "BuildPeiCoreDatabase E K CreateHob P s m = store_at ?m2 ?e (memory_bytes P)"
    by (simp add: BuildPeiCoreDatabase_def assms(1) BuildMemoryInfoData_def memory_bytes_def Let_def)
  have len: "length (image_area P s) = ImageDatabaseSize P" "length (ppi_area E K P s) = CalcTotalPpiDataCount P * sizeof_PPI"
    using assms by (simp_all add: length_image_area length_ppi_area)
  have "holds ?m2 ?D (image_area P s)"
    using image_area_written [OF assms(3)] len by (subst ppi_keeps_before) auto
  moreover have "holds ?m2 (?D + ImageDatabaseSize P) (ppi_database_bytes P @ ppi_area E K P s)"
    by (rule ppi_area_written [OF assms(2)])
  ultimately show ?thesis
    unfolding build database_bytes_def using len
    by (simp add: store_at_other store_at_same PpiDatabaseSize_def add.assoc)
qed

section \<open>Reading\<close>

lemma rd32_w32: "holds m p (w32 v) \<Longrightarrow> rd32 m p = v"
  by (simp add: w32_def rd32_holds)

lemma rd64_w64: "holds m p (w64 v) \<Longrightarrow> rd64 m p = v"
  by (simp add: w64_def rd64_holds)

lemma rd64_enc: "holds m p (enc 8 n) \<Longrightarrow> rd64 m p = of_nat n"
  by (simp add: rd64_def rd_holds word_of_nat_eq_iff take_bit_eq_mod)

lemma rd32_nat: "holds m p (enc 4 n) \<Longrightarrow> rd32 m p = of_nat n"
  by (simp add: rd32_def rd_holds word_of_nat_eq_iff take_bit_eq_mod)

lemma bytes_at_holds: "holds m p bs \<Longrightarrow> n = length bs \<Longrightarrow> bytes_at m p n = bs"
  by (simp add: holds_def)

lemma holds_concat_nth:
  assumes "holds m p (concat (map f ds))" "\<And>d. d \<in> set ds \<Longrightarrow> length (f d) = n" "i < length ds"
  shows "holds m (p + n * i) (f (ds ! i))"
  using assms
proof (induction ds arbitrary: p i)
  case Nil
  then show ?case by simp
next
  case (Cons d ds)
  show ?case
  proof (cases i)
    case 0
    with Cons.prems show ?thesis by simp
  next
    case (Suc j)
    with Cons.prems Cons.IH [of "p + n" j] show ?thesis by (simp add: add.assoc)
  qed
qed

lemma UniStr_holds:
  "holds m p (concat (map (\<lambda>c. enc 2 (unat c)) (n @ [0]))) \<Longrightarrow> 0 \<notin> set n \<Longrightarrow> UniStr m p = Some n"
proof (induction n arbitrary: p)
  case Nil
  then have "rd16 m p = 0" by (intro rd16_holds) simp
  then show ?case by (simp add: UniStr.simps)
next
  case (Cons c n)
  from Cons.prems(1) have c: "rd16 m p = c" and rest: "holds m (p + 2) (concat (map (\<lambda>c. enc 2 (unat c)) (n @ [0])))"
    by (auto intro: rd16_holds)
  from Cons.IH [OF rest] Cons.prems(2) c show ?case by (simp add: UniStr.simps [of m p])
qed

lemma name_bytes_holds:
  assumes "holds m p (name_bytes n)" "length n \<le> NAME_STRING_LENGTH" "0 \<notin> set n"
  shows "UniStr m p = Some n"
proof -
  from assms(2) obtain k where "PEI_CORE_NAME_STRING - length n = Suc k"
    by (cases "PEI_CORE_NAME_STRING - length n") auto
  with assms(1) have "holds m p (concat (map (\<lambda>c. enc 2 (unat c)) (n @ [0])))"
    by (simp add: name_bytes_def)
  then show ?thesis by (rule UniStr_holds) (rule assms(3))
qed

definition of_header :: "mem \<Rightarrow> addr \<Rightarrow> u32 \<Rightarrow> nat \<Rightarrow> bool" where
  "of_header m p sig n \<longleftrightarrow> db_Signature m p = sig \<and> db_Length m p = n"

lemma db_header_read:
  assumes "holds m p (db_header sig n)" "n < 2 ^ 32"
  shows "of_header m p sig n"
  using assms by (auto simp: of_header_def db_header_def rd32_w32 rd32_nat unat_of_nat)

section \<open>Images\<close>

definition image_lines :: "image_struct \<Rightarrow> out list" where
  "image_lines x =
     (if is_FileGuid x = replicate 16 0 then []
      else [Print ''Image: %s (0x%x)'' [Uni (is_NameString x), hx (is_LoadedImageBase x)],
            Print ''(Fv(%g))'' [Ascii (is_FileGuid x)]])"

lemma zero_image_bytes: "unused_image_bytes = image_bytes zero_image"
  by (simp add: unused_image_bytes_def image_bytes_def zero_image_def name_bytes_def w64_def) code_simp

lemma image_body_read:
  assumes "holds m p (image_bytes x)" "image_wf x"
  shows "image_body m p s = Some (Inr (say (image_lines x) s))"
    and "of_header m p PEI_CORE_IMAGE_DATABASE_SIGNATURE sizeof_IMAGE"
proof -
  have len: "length (is_FileGuid x) = 16" "length (name_bytes (is_NameString x)) = 72"
    using assms(2) by (auto simp: image_wf_def length_name_bytes)
  from assms(1) have parts: "holds m p (db_header PEI_CORE_IMAGE_DATABASE_SIGNATURE sizeof_IMAGE)"
    "holds m (p + 12) (is_FileGuid x)" "holds m (p + 28) (name_bytes (is_NameString x))"
    "holds m (p + 108) (w64 (is_LoadedImageBase x))"
    by (simp_all add: image_bytes_def len add.assoc)
  show hdr: "of_header m p PEI_CORE_IMAGE_DATABASE_SIGNATURE sizeof_IMAGE"
    using db_header_read [OF parts(1)] by simp
  from parts len have "bytes_at m (p + 12) 16 = is_FileGuid x" "rd64 m (p + 108) = is_LoadedImageBase x"
    by (auto intro: bytes_at_holds rd64_w64)
  moreover have "UniStr m (p + 28) = Some (is_NameString x)"
    using parts(3) assms(2) by (intro name_bytes_holds) (auto simp: image_wf_def)
  ultimately show "image_body m p s = Some (Inr (say (image_lines x) s))"
    using hdr by (auto simp: image_body_def of_header_def image_lines_def say_def)
qed

end
