(* ===== verification/Pei_Report.thy ===== *)
theory Pei_Report
  imports Pei_Roundtrip
begin

text \<open>
  What the application prints from the module's database, as a function of what the PEI core had.
\<close>

section \<open>PPI entries\<close>

definition ppi_lines :: "(guid \<Rightarrow> u8 list) \<Rightarrow> ppi_flags \<Rightarrow> nat \<Rightarrow> ppi_descriptor option \<Rightarrow> out list" where
  "ppi_lines name K i d =
     (case d of
        None \<Rightarrow> []
      | Some d \<Rightarrow>
          if pd_Flags d = 0 then []
          else Print ''[%d] - Flags (0x%x)'' [hxn i, hx (pd_Flags d)] #
            (if pd_Flags d AND PPI_DESCRIPTOR_PPI K \<noteq> 0
             then [Print ''  Ppi - %a, Interface - 0x%x'' [Ascii (name (pd_Guid d)), hx (pd_Ptr d)], Print '''' []]
             else if pd_Flags d AND PPI_DESCRIPTOR_NOTIFY_TYPES K \<noteq> 0
             then [Print ''  Notify - %a, Interface - 0x%x'' [Ascii (name (pd_Guid d)), hx (pd_Ptr d)], Print '''' []]
             else []))"

definition list_lines :: "(guid \<Rightarrow> u8 list) \<Rightarrow> ppi_flags \<Rightarrow> ppi_descriptor option list \<Rightarrow> out list" where
  "list_lines name K ds = concat (map (\<lambda>i. ppi_lines name K i (ds ! i)) [0..<length ds])"

definition ppi_report :: "(guid \<Rightarrow> u8 list) \<Rightarrow> ppi_flags \<Rightarrow> pei_core \<Rightarrow> out list" where
  "ppi_report name K P =
     [Print ''PpiList.CurrentCount - %d'' [hxn (length (Ptrs (PpiList P)))],
      Print ''PpiList.MaxCount - %d'' [hx (MaxCount (PpiList P))],
      Print ''PpiList.LastDispatchedCount - %d'' [hx (LastDispatchedCount (PpiList P))],
      Print ''CallbackNotifyList.CurrentCount - %d'' [hxn (length (Ptrs (CallbackNotifyList P)))],
      Print ''CallbackNotifyList.MaxCount - %d'' [hx (MaxCount (CallbackNotifyList P))],
      Print ''DispatchNotifyList.CurrentCount - %d'' [hxn (length (Ptrs (DispatchNotifyList P)))],
      Print ''DispatchNotifyList.MaxCount - %d'' [hx (MaxCount (DispatchNotifyList P))],
      Print ''DispatchNotifyList.LastDispatchedCount - %d'' [hx (LastDispatchedCount (DispatchNotifyList P))],
      Print ''PpiList.PpiPtrs :'' []]
     @ list_lines name K (Ptrs (PpiList P))
     @ [Print ''CallbackNotifyList.NotifyPtrs :'' []] @ list_lines name K (Ptrs (CallbackNotifyList P))
     @ [Print ''DispatchNotifyList.NotifyPtrs :'' []] @ list_lines name K (Ptrs (DispatchNotifyList P))"

text \<open>The application's state while it prints: no images of its own, names by \<open>name\<close>.\<close>

definition printing :: "guid_env \<Rightarrow> (guid \<Rightarrow> u8 list) \<Rightarrow> pei_app \<Rightarrow> bool" where
  "printing E name a \<longleftrightarrow> app_images_max a = 0 \<and> (\<forall>g. GuidToName E (app_guids a) g = Some (name g))"

lemma say_say [simp]: "say ys (say xs a) = say (xs @ ys) a"
  by (simp add: say_def)

lemma say_Nil [simp]: "say [] a = a"
  by (simp add: say_def)

lemma say_pei_fields [simp]:
  "mPeiCoreDatabase (say xs a) = mPeiCoreDatabase a" "mPeiCoreDatabaseSize (say xs a) = mPeiCoreDatabaseSize a"
  "app_guids (say xs a) = app_guids a" "app_out (say xs a) = app_out a @ xs"
  "printing E name (say xs a) = printing E name a"
  by (simp_all add: say_def printing_def)

lemma image_ref_unknown: "app_images_max a = 0 \<Longrightarrow> image_ref_text m Ptr Ref a = Some a"
  by (simp add: image_ref_text_def GetImageRefName_def)

lemma ppi_body_read:
  assumes "holds m (p + sizeof_PPI * i) (padded sizeof_PPI (ppi_bytes E' K s d))"
    and "\<And>x. d = Some x \<Longrightarrow> length (pd_Guid x) = 16" and "printing E name a"
  shows "ppi_body E K m p i a = Some (say (ppi_lines name K i d) a)"
proof (cases d)
  case None
  with assms(1) have "holds m (p + sizeof_PPI * i) (replicate (8 + 32) 0)"
    by (simp add: ppi_bytes_def padded_def)
  then have "holds m (p + sizeof_PPI * i) (replicate 8 0)"
    by (simp only: replicate_add holds_append)
  moreover have "replicate 8 0 = enc 8 0" by code_simp
  ultimately have "rd64 m (p + sizeof_PPI * i) = 0" by (simp add: rd64_enc)
  with None show ?thesis by (simp add: ppi_body_def ppi_lines_def)
next
  case (Some x)
  from assms(3) have names: "GuidToName E (app_guids a) g = Some (name g)" and max: "app_images_max a = 0" for g
    by (auto simp: printing_def)
  let ?q = "p + sizeof_PPI * i"
  have flags: "rd64 m ?q = pd_Flags x"
    using assms(1) Some by (auto simp: ppi_bytes_def padded_def intro: rd64_w64)
  show ?thesis
  proof (cases "pd_Flags x AND PPI_DESCRIPTOR_PPI K \<noteq> 0 \<or> pd_Flags x AND PPI_DESCRIPTOR_NOTIFY_TYPES K \<noteq> 0")
    case True
    with assms(1,2) Some have "holds m (?q + 8) (pd_Guid x)" "holds m (?q + 24) (w64 (pd_Ptr x))" "length (pd_Guid x) = 16"
      by (auto simp: ppi_bytes_def padded_def add.assoc split: if_splits)
    then have "bytes_at m (?q + 8) 16 = pd_Guid x" "rd64 m (?q + 24) = pd_Ptr x"
      by (auto intro: bytes_at_holds rd64_w64)
    moreover have "image_ref_text m Ptr Ref (say os a) = Some (say os a)" for Ptr Ref os
      using max by (intro image_ref_unknown) (simp add: say_def)
    ultimately show ?thesis
      using True Some by (auto simp: ppi_body_def ppi_lines_def flags names Let_def)
  next
    case False
    with Some show ?thesis by (auto simp: ppi_body_def ppi_lines_def flags Let_def)
  qed
qed

lemma each_say:
  assumes "\<And>i a. i \<in> set xs \<Longrightarrow> printing E name a \<Longrightarrow> f i a = Some (say (g i) a)" "printing E name a"
  shows "each f xs a = Some (say (concat (map g xs)) a)"
  using assms by (induction xs arbitrary: a) auto

lemma DumpPpiPtrs_read:
  assumes area: "holds m p (concat (map (\<lambda>d. padded sizeof_PPI (ppi_bytes E' K s d)) ds))"
    and wf: "\<And>x. Some x \<in> set ds \<Longrightarrow> length (pd_Guid x) = 16" and "printing E name a"
    and n: "unat n = length ds"
  shows "DumpPpiPtrsOnPpiDatabaseStruct E K m p n a = Some (say (list_lines name K ds) a)"
proof -
  have len: "length (padded sizeof_PPI (ppi_bytes E' K s d)) = sizeof_PPI" if "d \<in> set ds" for d
  proof -
    have "length (ppi_bytes E' K s d) \<le> sizeof_PPI"
      by (rule length_ppi_bytes) (use wf that in blast)
    then show ?thesis by (simp add: padded_def)
  qed
  have at: "holds m (p + sizeof_PPI * i) (padded sizeof_PPI (ppi_bytes E' K s (ds ! i)))" if "i < length ds" for i
    by (rule holds_concat_nth [OF area len that])
  show ?thesis
    unfolding DumpPpiPtrsOnPpiDatabaseStruct_def list_lines_def n
  proof (rule each_say [where E = E and name = name])
    fix i b
    assume "i \<in> set [0..<length ds]" "printing E name b"
    then show "ppi_body E K m p i b = Some (say (ppi_lines name K i (ds ! i)) b)"
      using wf by (intro ppi_body_read [OF at]) (auto, metis nth_mem)
  qed (rule assms(3))
qed

section \<open>The three printers\<close>

definition memory_lines :: "pei_core \<Rightarrow> out list" where
  "memory_lines P =
     [Print ''PhysicalMemoryBegin - 0x%016lx'' [hx (PhysicalMemoryBegin P)],
      Print ''PhysicalMemoryLength - 0x%016lx'' [hx (PhysicalMemoryLength P)],
      Print ''FreePhysicalMemoryTop - 0x%016lx'' [hx (FreePhysicalMemoryTop P)]]"

text \<open>
  The HOB's data may be followed by padding.  What is read behind the database as a header must
  not be an image and must lead behind the padding; without padding nothing is read.
\<close>

definition tail_ok :: "mem \<Rightarrow> addr \<Rightarrow> nat \<Rightarrow> bool" where
  "tail_ok m p pad \<longleftrightarrow> pad = 0 \<or> (db_Signature m p \<noteq> PEI_CORE_IMAGE_DATABASE_SIGNATURE \<and> pad \<le> db_Length m p)"

lemma signatures [simp]:
  "PEI_CORE_IMAGE_DATABASE_SIGNATURE \<noteq> PEI_CORE_PPI_DATABASE_SIGNATURE"
  "PEI_CORE_IMAGE_DATABASE_SIGNATURE \<noteq> PEI_CORE_MEMORY_INFO_SIGNATURE"
  "PEI_CORE_PPI_DATABASE_SIGNATURE \<noteq> PEI_CORE_MEMORY_INFO_SIGNATURE"
  "PEI_CORE_PPI_DATABASE_SIGNATURE \<noteq> PEI_CORE_IMAGE_DATABASE_SIGNATURE"
  "PEI_CORE_MEMORY_INFO_SIGNATURE \<noteq> PEI_CORE_IMAGE_DATABASE_SIGNATURE"
  "PEI_CORE_MEMORY_INFO_SIGNATURE \<noteq> PEI_CORE_PPI_DATABASE_SIGNATURE"
  by (simp_all add: PEI_CORE_IMAGE_DATABASE_SIGNATURE_def PEI_CORE_PPI_DATABASE_SIGNATURE_def
      PEI_CORE_MEMORY_INFO_SIGNATURE_def SIGNATURE_32_def of_char_def)

text \<open>Skipping and visiting the images in front of a loop's rest.\<close>

lemma walk_images:
  assumes "holds m p (concat (map image_bytes xs))" "\<forall>x\<in>set xs. image_wf x" "p + sizeof_IMAGE * length xs \<le> e"
    and "\<And>q x a. holds m q (image_bytes x) \<Longrightarrow> image_wf x \<Longrightarrow> body q a = Some (Inr (say (g x) a))"
  shows "walk (db_Length m) body p e a =
    walk (db_Length m) body (p + sizeof_IMAGE * length xs) e (say (concat (map g xs)) a)"
  using assms
proof (induction xs arbitrary: p a)
  case Nil
  then show ?case by simp
next
  case (Cons x xs)
  from Cons.prems(1,2) have at: "holds m p (image_bytes x)" "holds m (p + sizeof_IMAGE) (concat (map image_bytes xs))"
    by (simp_all add: length_image_bytes)
  from image_body_read(2) [OF at(1)] Cons.prems(2) have "db_Length m p = sizeof_IMAGE"
    by (simp add: of_header_def)
  with Cons.prems(3) Cons.prems(4) [OF at(1)] Cons.prems(2)
  have "walk (db_Length m) body p e a = walk (db_Length m) body (p + sizeof_IMAGE) e (say (g x) a)"
    by (subst walk_step) auto
  also have "\<dots> = walk (db_Length m) body (p + sizeof_IMAGE + sizeof_IMAGE * length xs) e (say (concat (map g xs)) (say (g x) a))"
    by (rule Cons.IH) (use Cons.prems at in \<open>auto simp: add.assoc\<close>)
  finally show ?case by (simp add: add.assoc)
qed

text \<open>A well-formed database at \<open>D\<close>.\<close>

definition stored :: "pei_env \<Rightarrow> ppi_flags \<Rightarrow> pei_core \<Rightarrow> pei_dump \<Rightarrow> mem \<Rightarrow> addr \<Rightarrow> bool" where
  "stored E K P s m D \<longleftrightarrow> holds m D (database_bytes E K P s) \<and> core_wf P \<and> (\<forall>x\<in>set (images s). image_wf x)
     \<and> length (images s) \<le> CalcTotalPeimCount P \<and> database_size P < 2 ^ 16"

definition all_images :: "pei_core \<Rightarrow> pei_dump \<Rightarrow> image_struct list" where
  "all_images P s = images s @ replicate (CalcTotalPeimCount P - length (images s)) zero_image"

lemma zero_image_wf [simp]: "image_wf zero_image"
  by (simp add: image_wf_def zero_image_def)

lemma image_area_eq: "image_area P s = concat (map image_bytes (all_images P s))"
  by (simp add: image_area_def all_images_def zero_image_bytes)

lemma stored_parts:
  assumes "stored E K P s m D"
  shows "holds m D (concat (map image_bytes (all_images P s)))" "\<forall>x\<in>set (all_images P s). image_wf x"
    "sizeof_IMAGE * length (all_images P s) = ImageDatabaseSize P"
    "holds m (D + ImageDatabaseSize P) (ppi_database_bytes P @ ppi_area E K P s)"
    "holds m (D + ImageDatabaseSize P + PpiDatabaseSize P) (memory_bytes P)"
    "of_header m (D + ImageDatabaseSize P) PEI_CORE_PPI_DATABASE_SIGNATURE (PpiDatabaseSize P)"
    "of_header m (D + ImageDatabaseSize P + PpiDatabaseSize P) PEI_CORE_MEMORY_INFO_SIGNATURE sizeof_MEMORY_INFO"
proof -
  from assms have len: "length (image_area P s) = ImageDatabaseSize P"
    "length (ppi_area E K P s) = CalcTotalPpiDataCount P * sizeof_PPI"
    by (simp_all add: stored_def length_image_area length_ppi_area)
  with assms show h: "holds m D (concat (map image_bytes (all_images P s)))"
    "holds m (D + ImageDatabaseSize P) (ppi_database_bytes P @ ppi_area E K P s)"
    "holds m (D + ImageDatabaseSize P + PpiDatabaseSize P) (memory_bytes P)"
    by (simp_all add: stored_def database_bytes_def image_area_eq [symmetric] PpiDatabaseSize_def add.assoc)
  from assms show "\<forall>x\<in>set (all_images P s). image_wf x"
    "sizeof_IMAGE * length (all_images P s) = ImageDatabaseSize P"
    by (auto simp: stored_def all_images_def ImageDatabaseSize_def)
  from assms have "PpiDatabaseSize P < 2 ^ 32"
    by (simp add: stored_def database_size_def)
  with h(2) show "of_header m (D + ImageDatabaseSize P) PEI_CORE_PPI_DATABASE_SIGNATURE (PpiDatabaseSize P)"
    by (intro db_header_read) (simp_all add: ppi_database_bytes_def PpiDatabaseSize_def)
  from h(3) show "of_header m (D + ImageDatabaseSize P + PpiDatabaseSize P) PEI_CORE_MEMORY_INFO_SIGNATURE sizeof_MEMORY_INFO"
    by (intro db_header_read) (simp_all add: memory_bytes_def)
qed

text \<open>A loop over the database: the images, then the two other structures.\<close>

lemma walk_database:
  assumes st: "stored E K P s m D" and e: "e = D + database_size P + pad"
    and img: "\<forall>q x a. holds m q (image_bytes x) \<longrightarrow> image_wf x \<longrightarrow> body q a = Some (Inr (say (g x) a))"
  shows "walk (db_Length m) body D e a =
    walk (db_Length m) body (D + ImageDatabaseSize P) e (say (concat (map g (all_images P s))) a)"
    and "body (D + ImageDatabaseSize P) b = Some (Inr b) \<Longrightarrow>
      walk (db_Length m) body (D + ImageDatabaseSize P) e b =
      walk (db_Length m) body (D + ImageDatabaseSize P + PpiDatabaseSize P) e b"
    and "body (D + ImageDatabaseSize P + PpiDatabaseSize P) b = Some (Inr b) \<Longrightarrow>
      walk (db_Length m) body (D + ImageDatabaseSize P + PpiDatabaseSize P) e b =
      walk (db_Length m) body (D + database_size P) e b"
proof -
  note parts = stored_parts [OF st]
  show "walk (db_Length m) body D e a =
    walk (db_Length m) body (D + ImageDatabaseSize P) e (say (concat (map g (all_images P s))) a)"
    using walk_images [OF parts(1,2), of e body g a] img parts(3) e by (simp add: database_size_def)
  have "D + ImageDatabaseSize P < e" "D + ImageDatabaseSize P + PpiDatabaseSize P < e"
    using e by (auto simp: database_size_def)
  then show "body (D + ImageDatabaseSize P) b = Some (Inr b) \<Longrightarrow>
      walk (db_Length m) body (D + ImageDatabaseSize P) e b =
      walk (db_Length m) body (D + ImageDatabaseSize P + PpiDatabaseSize P) e b"
    "body (D + ImageDatabaseSize P + PpiDatabaseSize P) b = Some (Inr b) \<Longrightarrow>
      walk (db_Length m) body (D + ImageDatabaseSize P + PpiDatabaseSize P) e b =
      walk (db_Length m) body (D + database_size P) e b"
    using parts(6,7)
    by (simp_all add: walk_step of_header_def database_size_def add.assoc)
qed

lemma DumpPeiLoadedImage_read:
  assumes st: "stored E K P s m D" and a: "mPeiCoreDatabase a = D" "mPeiCoreDatabaseSize a = database_size P + pad"
    and tail: "tail_ok m (D + database_size P) pad"
  shows "DumpPeiLoadedImage m a = Some (say (concat (map image_lines (images s))) a)"
proof -
  let ?e = "D + database_size P + pad"
  have lines: "concat (map image_lines (all_images P s)) = concat (map image_lines (images s))"
    by (simp add: all_images_def image_lines_def zero_image_def)
  note parts = stored_parts [OF st]
  have "\<forall>q x b. holds m q (image_bytes x) \<longrightarrow> image_wf x \<longrightarrow> image_body m q b = Some (Inr (say (image_lines x) b))"
    by (simp add: image_body_read(1))
  note w = walk_database [OF st refl this, where pad = pad]
  let ?b = "say (concat (map image_lines (images s))) a"
  have b: "image_body m (D + ImageDatabaseSize P) ?b = Some (Inr ?b)"
    "image_body m (D + ImageDatabaseSize P + PpiDatabaseSize P) ?b = Some (Inr ?b)"
    using parts(6,7) by (simp_all add: image_body_def of_header_def)
  have "walk (db_Length m) (image_body m) D ?e a = walk (db_Length m) (image_body m) (D + database_size P) ?e ?b"
    using w(1) [where a = a] w(2) [OF b(1)] w(3) [OF b(2)] lines by simp
  also have "\<dots> = Some (Inr ?b)"
    using tail by (cases "pad = 0") (simp_all add: tail_ok_def walk_step image_body_def)
  finally show ?thesis
    using a by (simp add: DumpPeiLoadedImage_def db_walk_def add.assoc)
qed

lemma DumpMemoryInfo_read:
  assumes st: "stored E K P s m D" and a: "mPeiCoreDatabase a = D" "mPeiCoreDatabaseSize a = database_size P + pad"
  shows "DumpMemoryInfo m a = Some (say (memory_lines P) a)"
proof -
  let ?e = "D + database_size P + pad" and ?q = "D + ImageDatabaseSize P + PpiDatabaseSize P"
  note parts = stored_parts [OF st]
  have "\<forall>q x b. holds m q (image_bytes x) \<longrightarrow> image_wf x \<longrightarrow> memory_body m q b = Some (Inr (say [] b))"
    using image_body_read(2) by (fastforce simp: memory_body_def of_header_def)
  note w = walk_database [OF st refl this, where pad = pad]
  have nil: "concat (map (\<lambda>_. []) (all_images P s)) = ([] :: out list)" by simp
  have b: "memory_body m (D + ImageDatabaseSize P) a = Some (Inr a)"
    using parts(6) by (simp add: memory_body_def of_header_def)
  have "walk (db_Length m) (memory_body m) D ?e a = walk (db_Length m) (memory_body m) ?q ?e a"
    using w(1) [where a = a] w(2) [OF b] nil by simp
  moreover have "memory_body m ?q a = Some (Inl (say (memory_lines P) a))"
    using parts(5,7) by (auto simp: memory_body_def of_header_def memory_lines_def memory_bytes_def rd64_w64 add.assoc)
  moreover have "?q < ?e" by (simp add: database_size_def)
  ultimately show ?thesis
    using a by (simp add: DumpMemoryInfo_def db_walk_def walk_step add.assoc)
qed

lemma length_padded:
  "core_wf P \<Longrightarrow> d \<in> set (all_ppis P) \<Longrightarrow> length (padded sizeof_PPI (ppi_bytes E K s d)) = sizeof_PPI"
  using core_wf_ppi [of P d E K s] by (simp add: padded_def)

lemma ppi_database_read:
  assumes st: "stored E K P s m D" and a: "printing G name a"
  shows "ppi_database_body G K m (D + ImageDatabaseSize P) a = Some (Inl (say (ppi_report name K P) a))"
proof -
  let ?p = "D + ImageDatabaseSize P" and ?L = "\<lambda>ds. concat (map (\<lambda>d. padded sizeof_PPI (ppi_bytes E K s d)) ds)"
  let ?n1 = "length (Ptrs (PpiList P))" and ?n2 = "length (Ptrs (CallbackNotifyList P))"
    and ?n3 = "length (Ptrs (DispatchNotifyList P))"
  note parts = stored_parts [OF st]
  have wf: "length (pd_Guid x) = 16" if "Some x \<in> set (all_ppis P)" for x
    using st that by (simp add: stored_def core_wf_def)
  have fits: "?n1 + ?n2 + ?n3 < 2 ^ 16"
    using st by (simp add: stored_def database_size_def PpiDatabaseSize_def CalcTotalPpiDataCount_def)
  from parts(4) have fields: "rd64 m (?p + 12) = of_nat ?n1" "rd64 m (?p + 20) = MaxCount (PpiList P)"
    "rd64 m (?p + 28) = LastDispatchedCount (PpiList P)" "rd64 m (?p + 36) = of_nat ?n2"
    "rd64 m (?p + 44) = MaxCount (CallbackNotifyList P)" "rd64 m (?p + 52) = of_nat ?n3"
    "rd64 m (?p + 60) = MaxCount (DispatchNotifyList P)" "rd64 m (?p + 68) = LastDispatchedCount (DispatchNotifyList P)"
    by (auto simp: ppi_database_bytes_def add.assoc intro: rd64_enc rd64_w64)
  have counts: "unat (of_nat ?n1 :: u64) = ?n1" "unat (of_nat ?n2 :: u64) = ?n2" "unat (of_nat ?n3 :: u64) = ?n3"
    using fits by (simp_all add: unat_of_nat)
  have lens: "length (?L ds) = sizeof_PPI * length ds" if "set ds \<subseteq> set (all_ppis P)" for ds
    using st that by (subst length_concat_const [where n = sizeof_PPI]) (auto simp: stored_def intro: length_padded)
  have subs: "set (Ptrs (PpiList P)) \<subseteq> set (all_ppis P)" "set (Ptrs (CallbackNotifyList P)) \<subseteq> set (all_ppis P)"
    "set (Ptrs (DispatchNotifyList P)) \<subseteq> set (all_ppis P)"
    by (auto simp: all_ppis_def)
  have "holds m (?p + sizeof_PPI_DATABASE)
      (?L (Ptrs (PpiList P)) @ ?L (Ptrs (CallbackNotifyList P)) @ ?L (Ptrs (DispatchNotifyList P)))"
    using parts(4) by (simp add: ppi_area_def all_ppis_def)
  then have areas: "holds m (?p + sizeof_PPI_DATABASE) (?L (Ptrs (PpiList P)))"
    "holds m (?p + sizeof_PPI_DATABASE + sizeof_PPI * ?n1) (?L (Ptrs (CallbackNotifyList P)))"
    "holds m (?p + sizeof_PPI_DATABASE + (sizeof_PPI * ?n1 + sizeof_PPI * ?n2)) (?L (Ptrs (DispatchNotifyList P)))"
    by (simp_all add: lens [OF subs(1)] lens [OF subs(2)] add.assoc distrib_left)
  have dump: "DumpPpiPtrsOnPpiDatabaseStruct G K m q n b = Some (say (list_lines name K ds) b)"
    if "holds m q (?L ds)" "set ds \<subseteq> set (all_ppis P)" "unat n = length ds" "printing G name b" for q n ds b
    using wf that by (intro DumpPpiPtrs_read) auto
  show ?thesis
    using parts(6) a
    by (simp add: ppi_database_body_def of_header_def DumpPpiOnPpiDatabaseStruct_def fields counts Let_def
        dump [OF areas(1) subs(1)] dump [OF areas(2) subs(2)] dump [OF areas(3) subs(3)] ppi_report_def)
qed

lemma DumpPpiDatabase_read:
  assumes st: "stored E K P s m D" and a: "mPeiCoreDatabase a = D" "mPeiCoreDatabaseSize a = database_size P + pad"
    and names: "printing G name a"
  shows "DumpPpiDatabase G K m a = Some (say (ppi_report name K P) a)"
proof -
  let ?e = "D + database_size P + pad" and ?q = "D + ImageDatabaseSize P"
  have "\<forall>q x b. holds m q (image_bytes x) \<longrightarrow> image_wf x \<longrightarrow> ppi_database_body G K m q b = Some (Inr (say [] b))"
    using image_body_read(2) by (fastforce simp: ppi_database_body_def of_header_def)
  note w = walk_database(1) [OF st refl this, where pad = pad and a = a]
  have nil: "concat (map (\<lambda>_. []) (all_images P s)) = ([] :: out list)" by simp
  have "?q < ?e" by (simp add: database_size_def)
  then have "walk (db_Length m) (ppi_database_body G K m) D ?e a = Some (Inl (say (ppi_report name K P) a))"
    using w nil ppi_database_read [OF st names] by (simp add: walk_step)
  with a show ?thesis by (simp add: DumpPpiDatabase_def db_walk_def add.assoc)
qed

section \<open>From the PEI core to the screen\<close>

text \<open>What the parameters of the module must be: GUIDs have 16 bytes and strings no zero characters.\<close>

definition env_wf :: "pei_env \<Rightarrow> bool" where
  "env_wf E \<longleftrightarrow> (\<forall>h st g. FfsGetFileInfo E h = (st, g) \<longrightarrow> length g = 16) \<and> (\<forall>p. 0 \<notin> set (UiString E p))
     \<and> (\<forall>g. 0 \<notin> set (GuidText16 E g)) \<and> (\<forall>p s. PeCoffLoaderGetPdbPointer E p = Some s \<longrightarrow> 0 \<notin> set s)"

lemma set_pdb_copy: "e \<le> length s \<Longrightarrow> set (pdb_copy s i e 0) \<subseteq> ucast ` set s"
  by (auto simp: pdb_copy_eq dest!: in_set_takeD in_set_dropD)

lemma ucast_zero: "ucast (b :: u8) = (0 :: char16) \<Longrightarrow> b = 0"
  using unat_ucast_up [of b, where 'b = 16] by (simp add: unsigned_eq_0_iff)

lemma short_name_nonzero:
  assumes "0 \<notin> set s"
  shows "0 \<notin> set (GetShortPdbFileName (Some s))"
proof -
  obtain st en where scan: "pdb_scan s 0 0 (length s) = (st, en)" by fastforce
  then have "en \<le> length s" by (auto simp: pdb_scan_eq)
  from set_pdb_copy [OF this, of st] scan
  have "set (GetShortPdbFileName (Some s)) \<subseteq> ucast ` set s"
    by (simp add: GetShortPdbFileName_def)
  moreover have "(0::char16) \<notin> ucast ` set s"
    using assms by (auto dest!: ucast_zero [OF sym])
  ultimately show ?thesis by blast
qed

lemma in_copy_name: "0 \<notin> set n \<Longrightarrow> 0 \<notin> set (copy_name n)" "length (copy_name n) \<le> NAME_STRING_LENGTH"
  by (auto simp: copy_name_def dest: in_set_takeD)

lemma image_of_wf: "env_wf E \<Longrightarrow> image_wf (image_of E h)"
  by (auto simp: image_of_def image_wf_def GetDriverNameString_def Let_def env_wf_def in_copy_name
      short_name_nonzero split: prod.splits option.splits if_splits)

definition dump_report :: "pei_env \<Rightarrow> ppi_flags \<Rightarrow> (guid \<Rightarrow> u8 list) \<Rightarrow> pei_core \<Rightarrow> out list" where
  "dump_report E K name P =
     [Print ''# IMAGE DATABASE #'' []] @ concat (map (\<lambda>h. image_lines (image_of E h)) (core_files P))
     @ [Print '''' [], Print ''# PPI DATABASE #'' []] @ ppi_report name K P
     @ [Print '''' [], Print ''# MEMORY INFO #'' []] @ memory_lines P @ [Print '''' []]"

lemma PeiCoreDump_stored:
  assumes wf: "env_wf E" "core_wf P" and alloc: "AllocImages E (CalcTotalPeimCount P)" "mImageStructCount s = 0"
    and hob: "CreateHob (HobLength P) = (EFI_SUCCESS, Hob)" and fits: "sizeof_HOB_GUID_TYPE + database_size P < 2 ^ 16"
  shows "\<exists>s' m'. PeiCoreDump E K CreateHob P (s, m) = Some (EFI_SUCCESS, s', m')
    \<and> stored E K P s' m' (Hob + sizeof_HOB_GUID_TYPE) \<and> images s' = map (image_of E) (core_files P)"
proof -
  from DumpImageData_filled [OF alloc] obtain s' where s': "DumpImageData E P s = Some s'"
    and img: "images s' = map (image_of E) (core_files P)"
    by (auto dest: images_filled)
  have "\<forall>x\<in>set (images s'). image_wf x" using img image_of_wf [OF wf(1)] by auto
  moreover have "length (images s') \<le> CalcTotalPeimCount P" using img length_core_files by simp
  ultimately show ?thesis
    using database_written [where E = E and K = K and s = s' and m = m and CreateHob = CreateHob and P = P, OF hob wf(2)] s' img fits wf(2)
    by (simp add: PeiCoreDump_def stored_def)
qed

text \<open>
  C9: From the PEI core to the screen.  When the database fits its HOB, the application prints from
  the bytes of the module exactly this: every file of every volume with a non-zero GUID, with its
  name and image base; the counts and every entry with flags of the three PPI lists, in order, with
  the name of \<^verbatim>\<open>Guid.xref\<close> or the GUID's text (never with an image name, see above); and the memory
  information.  What follows the database in the HOB must not look like an image (\<open>tail_ok\<close>).
\<close>

theorem PeiCoreDump_to_screen:
  assumes wf: "env_wf E" "core_wf P" and alloc: "AllocImages E (CalcTotalPeimCount P)" "mImageStructCount s = 0"
    and hob: "CreateHob (HobLength P) = (EFI_SUCCESS, Hob)" and fits: "sizeof_HOB_GUID_TYPE + database_size P < 2 ^ 16"
    and dump: "PeiCoreDump E K CreateHob P (s, m) = Some (St, s', m')"
    and find: "FirstHob mPeiCoreDumpGuid = Some (Hob + sizeof_HOB_GUID_TYPE, database_size P + pad)"
    and tail: "tail_ok m' (Hob + sizeof_HOB_GUID_TYPE + database_size P) pad"
    and app: "app_images_max a = 0"
    and guids: "InitGuid G F (app_guids a, ops) = Some (gs, ops')" "table_wf gs"
  shows "\<exists>a'. PeiCoreDumpAppEntrypoint G F K FirstHob m' (a, ops) = Some (EFI_SUCCESS, a', ops')
    \<and> app_out a' = app_out a @ dump_report E K
        (\<lambda>g. case map_of (name_table gs) g of Some n \<Rightarrow> n | None \<Rightarrow> GuidText G g) P"
proof -
  let ?D = "Hob + sizeof_HOB_GUID_TYPE"
  let ?name = "\<lambda>g. case map_of (name_table gs) g of Some n \<Rightarrow> n | None \<Rightarrow> GuidText G g"
  let ?a = "a\<lparr>mPeiCoreDatabase := ?D, mPeiCoreDatabaseSize := database_size P + pad, app_guids := gs\<rparr>"
  from PeiCoreDump_stored [where K = K and m = m and CreateHob = CreateHob and P = P, OF wf alloc hob fits] dump
  have st: "stored E K P s' m' ?D" and img: "images s' = map (image_of E) (core_files P)"
    by auto
  have "printing G ?name b" if "app_guids b = gs" "app_images_max b = 0" for b
    using that GuidToName_table [OF guids(2)] by (simp add: printing_def)
  then have pr: "printing G ?name ?a" using app by simp
  note r = DumpPeiLoadedImage_read [OF st _ _ tail] DumpPpiDatabase_read [OF st, where pad = pad and name = ?name and G = G]
    DumpMemoryInfo_read [OF st, where pad = pad]
  show ?thesis
    using find guids(1) pr
    by (simp add: PeiCoreDumpAppEntrypoint_def GetPeiCoreDatabase_def r Let_def DeinitGuid_def img comp_def
        dump_report_def)
qed

end
