(* ===== verification/Pei_Witness.thy ===== *)
theory Pei_Witness
  imports Pei_Report
begin

text \<open>
  A concrete firmware, and what happens when the database does not fit its HOB.
\<close>

section \<open>A small firmware\<close>

text \<open>One volume with one PEIM (its PDB path is \<open>A\B.c\<close>), one PPI and one empty slot.\<close>

definition sample_pei_env :: pei_env where
  "sample_pei_env =
     \<lparr>FfsFindSectionData = (\<lambda>t h. if t = EFI_SECTION_TE then (EFI_SUCCESS, h + 0x100) else (EFI_NOT_FOUND, 0)),
      FfsGetFileInfo = (\<lambda>h. (EFI_SUCCESS, replicate 16 65)),
      PeCoffLoaderGetPdbPointer = (\<lambda>p. Some [65, 92, 66, 46, 99]), UiString = (\<lambda>_. []), GuidText16 = (\<lambda>_. []),
      AllocImages = (\<lambda>_. True), mPpiFuncStruct = [], LoadUintn = (\<lambda>_. 0)\<rparr>"

definition sample_ppi_flags :: ppi_flags where
  "sample_ppi_flags = \<lparr>PPI_DESCRIPTOR_PPI = 0x10, PPI_DESCRIPTOR_NOTIFY_TYPES = 0x60\<rparr>"

definition sample_core :: pei_core where
  "sample_core =
     \<lparr>Fv = [[Some 0x1000, None]],
      PpiList = \<lparr>Ptrs = [None, Some \<lparr>pd_Flags = 0x10, pd_Guid = replicate 16 66, pd_Ptr = 0x2000\<rparr>],
                 MaxCount = 64, LastDispatchedCount = 2\<rparr>,
      CallbackNotifyList = \<lparr>Ptrs = [], MaxCount = 64, LastDispatchedCount = 0\<rparr>,
      DispatchNotifyList = \<lparr>Ptrs = [], MaxCount = 64, LastDispatchedCount = 0\<rparr>,
      PhysicalMemoryBegin = 0x100000, PhysicalMemoryLength = 0x4000000, FreePhysicalMemoryTop = 0x3000000\<rparr>"

definition sample_pei_state :: pei_dump where
  "sample_pei_state = \<lparr>mNameString = [], mImageStruct = None, mImageStructCountMax = 0, mImageStructCount = 0\<rparr>"

definition sample_app :: pei_app where
  "sample_app =
     \<lparr>app_guids = sample_guid_state, mPeiCoreDatabase = 0, mPeiCoreDatabaseSize = 0, app_images = None,
      app_images_max = 0, app_out = []\<rparr>"

lemma sample_core_size: "database_size sample_core = 456"
  by (simp add: database_size_def ImageDatabaseSize_def PpiDatabaseSize_def CalcTotalPeimCount_def
      CalcTotalPpiDataCount_def sample_core_def)

lemma sample_pei_wf: "env_wf sample_pei_env" "core_wf sample_core"
  by (auto simp: env_wf_def sample_pei_env_def core_wf_def all_ppis_def sample_core_def)

lemma sample_image: "image_of sample_pei_env 0x1000 =
  \<lparr>is_FileGuid = replicate 16 65, is_EntryPoint = 0, is_ImageBase = 0x1100, is_ImageSize = 0,
   is_LoadedImageBase = 0x1100, is_NameString = [66]\<rparr>"
  by code_simp

lemma PeiCoreDump_to_screen_witness:
  "\<exists>s' m' a' ops'.
     PeiCoreDump sample_pei_env sample_ppi_flags (\<lambda>_. (EFI_SUCCESS, 0x8000)) sample_core (sample_pei_state, \<lambda>_. 0)
       = Some (EFI_SUCCESS, s', m')
     \<and> PeiCoreDumpAppEntrypoint sample_guid_env (sample_fs (sample_xref [13, 10])) sample_ppi_flags
         (\<lambda>_. Some (0x8018, 456)) m' (sample_app, []) = Some (EFI_SUCCESS, a', ops')
     \<and> Print ''Image: %s (0x%x)'' [Uni [66], Hex 0x1100] \<in> set (app_out a')"
proof -
  have ok: "AllocImages sample_pei_env (CalcTotalPeimCount sample_core)" "mImageStructCount sample_pei_state = 0"
    "sizeof_HOB_GUID_TYPE + database_size sample_core < 2 ^ 16"
    by (simp_all add: sample_pei_env_def sample_pei_state_def sample_core_size)
  from PeiCoreDump_stored [where K = sample_ppi_flags and m = "\<lambda>_. 0" and Hob = "0x8000"
      and CreateHob = "\<lambda>_. (EFI_SUCCESS, 0x8000)", OF sample_pei_wf ok(1,2) refl ok(3)]
  obtain s' m' where dump: "PeiCoreDump sample_pei_env sample_ppi_flags (\<lambda>_. (EFI_SUCCESS, 0x8000)) sample_core
      (sample_pei_state, \<lambda>_. 0) = Some (EFI_SUCCESS, s', m')"
    by blast
  obtain gs ops' where gs: "InitGuid sample_guid_env (sample_fs (sample_xref [13, 10])) (app_guids sample_app, []) = Some (gs, ops')"
    "table_wf gs"
    using InitGuid_run [OF sample_read, of "sample_xref [13, 10]" sample_guid_env sample_guid_state]
    by (auto simp: sample_app_def)
  have find: "(\<lambda>_. Some (0x8018, 456)) mPeiCoreDumpGuid = Some (0x8000 + sizeof_HOB_GUID_TYPE, database_size sample_core + 0)"
    by (simp add: sample_core_size)
  have "core_files sample_core = [0x1000]" by (simp add: core_files_def sample_core_def)
  then have "Print ''Image: %s (0x%x)'' [Uni [66], Hex 0x1100] \<in> set (dump_report sample_pei_env sample_ppi_flags n sample_core)" for n
    by (simp add: dump_report_def sample_image image_lines_def)
  with PeiCoreDump_to_screen [where CreateHob = "\<lambda>_. (EFI_SUCCESS, 0x8000)",
      OF sample_pei_wf ok(1,2) refl ok(3) dump find _ _ gs] dump show ?thesis
    by (fastforce simp: tail_ok_def sample_app_def)
qed

lemma DumpImageData_files_witness:
  "\<exists>s'. DumpImageData sample_pei_env sample_core sample_pei_state = Some s'
    \<and> images s' = map (image_of sample_pei_env) [0x1000]"
  using DumpImageData_files [of sample_pei_env sample_core sample_pei_state]
  by (auto simp: sample_pei_env_def sample_pei_state_def core_files_def sample_core_def)

lemma AddressToImageRef_never_witness:
  "\<exists>s'. DumpImageData sample_pei_env sample_core sample_pei_state = Some s' \<and> AddressToImageRef s' 0x1100 = - 1"
proof -
  have ok: "AllocImages sample_pei_env (CalcTotalPeimCount sample_core)" "mImageStructCount sample_pei_state = 0"
    by (simp_all add: sample_pei_env_def sample_pei_state_def)
  from DumpImageData_filled [OF ok] obtain s' where s': "DumpImageData sample_pei_env sample_core sample_pei_state = Some s'"
    by blast
  from AddressToImageRef_never [OF s' ok, of "0x1100"] s' show ?thesis by auto
qed

text \<open>
  C36: The HOB is created with a length of 16 bits, but the database is written whole.  When it does
  not fit, the memory information is written behind the end of the HOB that was created.
\<close>

theorem BuildPeiCoreDatabase_overflow:
  assumes "CreateHob (HobLength P) = (EFI_SUCCESS, Hob)" "2 ^ 16 \<le> sizeof_HOB_GUID_TYPE + database_size P"
  shows "Hob + unat (HobLength P) \<le> Hob + sizeof_HOB_GUID_TYPE + ImageDatabaseSize P + PpiDatabaseSize P
    \<and> rd32 (BuildPeiCoreDatabase E K CreateHob P s m)
        (Hob + sizeof_HOB_GUID_TYPE + ImageDatabaseSize P + PpiDatabaseSize P) = PEI_CORE_MEMORY_INFO_SIGNATURE"
proof
  have "unat (HobLength P) = (sizeof_HOB_GUID_TYPE + database_size P) mod 2 ^ 16"
    unfolding HobLength_def by (subst unat_of_nat) simp
  also have "\<dots> \<le> sizeof_HOB_GUID_TYPE + database_size P - 2 ^ 16"
    using assms(2) by (subst le_mod_geq) auto
  finally show "Hob + unat (HobLength P) \<le> Hob + sizeof_HOB_GUID_TYPE + ImageDatabaseSize P + PpiDatabaseSize P"
    by (simp add: database_size_def)
  show "rd32 (BuildPeiCoreDatabase E K CreateHob P s m)
      (Hob + sizeof_HOB_GUID_TYPE + ImageDatabaseSize P + PpiDatabaseSize P) = PEI_CORE_MEMORY_INFO_SIGNATURE"
    using assms(1) holds_store_at [where bs = "memory_bytes P"]
    by (intro rd32_w32) (simp add: BuildPeiCoreDatabase_def BuildMemoryInfoData_def Let_def db_header_def memory_bytes_def)
qed

definition large_core :: pei_core where
  "large_core = sample_core\<lparr>Fv := [replicate 500 (Some 0x1000)]\<rparr>"

lemma BuildPeiCoreDatabase_overflow_witness:
  "rd32 (BuildPeiCoreDatabase sample_pei_env sample_ppi_flags (\<lambda>_. (EFI_SUCCESS, 0x8000)) large_core sample_pei_state (\<lambda>_. 0))
     (0x8000 + 24 + 66000 + 156) = PEI_CORE_MEMORY_INFO_SIGNATURE
   \<and> 0x8000 + unat (HobLength large_core) \<le> 0x8000 + 24 + 66000 + 156"
proof -
  have "ImageDatabaseSize large_core = 66000" "PpiDatabaseSize large_core = 156"
    by (simp_all add: ImageDatabaseSize_def PpiDatabaseSize_def CalcTotalPeimCount_def
        CalcTotalPpiDataCount_def large_core_def sample_core_def)
  with BuildPeiCoreDatabase_overflow [of "\<lambda>_. (EFI_SUCCESS, 0x8000)" large_core "0x8000"] show ?thesis
    by (simp add: database_size_def)
qed

end
