(* ===== verification/Mcu_Cpu.thy ===== *)
theory Mcu_Cpu
  imports Walks
begin

text \<open>
  \<^verbatim>\<open>AppSrc/PatchMicrocode/PatchMicrocode.c\<close>, the part that runs on the processors: it collects
  the microcode revision of each and triggers the update on each.  A processor is named by its
  number of the MP services protocol.  What was executed is recorded, and what an MSR holds may
  depend on it.
\<close>

section \<open>Processors\<close>

datatype msr = MSR_IA32_PLATFORM_ID | MSR_IA32_DEBUG_INTERFACE | MSR_IA32_BIOS_SIGN_ID | MSR_IA32_BIOS_UPDT_TRIG

datatype cpu_op = CPUID_VERSION_INFO | WRMSR msr u64 | RDMSR msr

type_synonym cpu_trace = "(nat \<times> cpu_op) list"

text \<open>
  \<open>GetNumberOfProcessors\<close>, \<open>WhoAmI\<close>: \<open>None\<close> when the call fails and its output is not written.
  \<open>StartupThisAP\<close> runs the procedure to its end on the processor if it succeeds, and not at all
  otherwise.  The bit fields of the registers are those of the headers.
\<close>

record cpu_env =
  LocateMpServices :: efi_status
  GetNumberOfProcessors :: "nat option"
  WhoAmI :: "nat option"
  StartupThisAP :: "nat \<Rightarrow> efi_status"
  CpuidEax :: "nat \<Rightarrow> u32"
  CpuidEcx :: "nat \<Rightarrow> u32"
  AsmReadMsr64 :: "cpu_trace \<Rightarrow> nat \<Rightarrow> msr \<Rightarrow> u64"
  Bits_SDBG :: "u32 \<Rightarrow> u32"
  Bits_Enable :: "u64 \<Rightarrow> u32"
  Bits_Lock :: "u64 \<Rightarrow> u32"
  Bits_DebugOccurred :: "u64 \<Rightarrow> u32"
  Bits_PlatformId :: "u64 \<Rightarrow> u32"
  Bits_MicrocodeUpdateSignature :: "u64 \<Rightarrow> u32"

record cpu_info =
  ci_CpuId :: u32
  ci_PlatformId :: u64
  ci_DebugInterfaceSupport :: bool
  ci_DebugInterface :: u64
  ci_MicrocodeVersion :: u64

definition zero_info :: cpu_info where
  "zero_info = \<lparr>ci_CpuId = 0, ci_PlatformId = 0, ci_DebugInterfaceSupport = False,
     ci_DebugInterface = 0, ci_MicrocodeVersion = 0\<rparr>"

section \<open>On one processor\<close>

type_synonym cpu_step = "cpu_info \<times> cpu_trace \<Rightarrow> cpu_info \<times> cpu_trace"

definition GetCpuid :: "cpu_env \<Rightarrow> nat \<Rightarrow> cpu_step" where
  "GetCpuid E cpu = (\<lambda>(CpuInfo, t). (CpuInfo\<lparr>ci_CpuId := CpuidEax E cpu\<rparr>, t @ [(cpu, CPUID_VERSION_INFO)]))"

definition GetDebugInterface :: "cpu_env \<Rightarrow> nat \<Rightarrow> cpu_step" where
  "GetDebugInterface E cpu = (\<lambda>(CpuInfo, t).
     (let Ecx = CpuidEcx E cpu; t = t @ [(cpu, CPUID_VERSION_INFO)] in
      if Bits_SDBG E Ecx = 0 then (CpuInfo\<lparr>ci_DebugInterfaceSupport := False, ci_DebugInterface := 0\<rparr>, t)
      else (CpuInfo\<lparr>ci_DebugInterfaceSupport := True,
                    ci_DebugInterface := AsmReadMsr64 E t cpu MSR_IA32_DEBUG_INTERFACE\<rparr>,
            t @ [(cpu, RDMSR MSR_IA32_DEBUG_INTERFACE)])))"

definition GetPlatformId :: "cpu_env \<Rightarrow> nat \<Rightarrow> cpu_step" where
  "GetPlatformId E cpu = (\<lambda>(CpuInfo, t).
     (CpuInfo\<lparr>ci_PlatformId := AsmReadMsr64 E t cpu MSR_IA32_PLATFORM_ID\<rparr>,
      t @ [(cpu, RDMSR MSR_IA32_PLATFORM_ID)]))"

definition GetMicrocodeVersion :: "cpu_env \<Rightarrow> nat \<Rightarrow> cpu_step" where
  "GetMicrocodeVersion E cpu = (\<lambda>(CpuInfo, t).
     (let t = t @ [(cpu, WRMSR MSR_IA32_BIOS_SIGN_ID 0), (cpu, CPUID_VERSION_INFO)] in
      (CpuInfo\<lparr>ci_MicrocodeVersion := AsmReadMsr64 E t cpu MSR_IA32_BIOS_SIGN_ID\<rparr>,
       t @ [(cpu, RDMSR MSR_IA32_BIOS_SIGN_ID)])))"

definition GetCpuInfoForThis :: "cpu_env \<Rightarrow> nat \<Rightarrow> cpu_step" where
  "GetCpuInfoForThis E cpu =
     GetMicrocodeVersion E cpu \<circ> GetPlatformId E cpu \<circ> GetDebugInterface E cpu \<circ> GetCpuid E cpu"

definition TriggerMicrocodeUpdateForThis :: "nat \<Rightarrow> nat \<Rightarrow> addr \<Rightarrow> cpu_trace \<Rightarrow> cpu_trace" where
  "TriggerMicrocodeUpdateForThis sizeof_HEADER cpu Context t =
     t @ [(cpu, WRMSR MSR_IA32_BIOS_UPDT_TRIG (of_nat Context + of_nat sizeof_HEADER))]"

section \<open>Output\<close>

definition DumpCpuid :: "cpu_info \<Rightarrow> out list" where
  "DumpCpuid CpuInfo = [Print ''CPUID[1].EAX - 0x%08x'' [hx (ci_CpuId CpuInfo)]]"

definition DumpDebugInterface :: "cpu_env \<Rightarrow> cpu_info \<Rightarrow> out list" where
  "DumpDebugInterface E CpuInfo =
     (if \<not> ci_DebugInterfaceSupport CpuInfo
      then [Print ''MSR_IA32_DEBUG_INTERFACE_REGISTER - unsupported'' []]
      else
        [Print ''MSR_IA32_DEBUG_INTERFACE_REGISTER - 0x%016lx'' [hx (ci_DebugInterface CpuInfo)],
         Print ''  Enable        - 0x%x'' [hx (Bits_Enable E (ci_DebugInterface CpuInfo))],
         Print ''  Lock          - 0x%x'' [hx (Bits_Lock E (ci_DebugInterface CpuInfo))],
         Print ''  DebugOccurred - 0x%x'' [hx (Bits_DebugOccurred E (ci_DebugInterface CpuInfo))]])"

definition DumpPlatformId :: "cpu_env \<Rightarrow> cpu_info \<Rightarrow> out list" where
  "DumpPlatformId E CpuInfo =
     [Print ''MSR_IA32_PLATFORM_ID - 0x%016lx'' [hx (ci_PlatformId CpuInfo)],
      Print ''  PlatformId - 0x%x'' [hx (Bits_PlatformId E (ci_PlatformId CpuInfo))]]"

definition DumpMicrocodeVersion :: "cpu_env \<Rightarrow> cpu_info \<Rightarrow> out list" where
  "DumpMicrocodeVersion E CpuInfo =
     [Print ''MSR_IA32_BIOS_SIGN_ID - 0x%016lx'' [hx (ci_MicrocodeVersion CpuInfo)],
      Print ''  MicrocodeUpdateSignature - 0x%08x''
        [hx (Bits_MicrocodeUpdateSignature E (ci_MicrocodeVersion CpuInfo))]]"

definition DumpCpuInfoForThis :: "cpu_env \<Rightarrow> cpu_info \<Rightarrow> out list" where
  "DumpCpuInfoForThis E CpuInfo =
     DumpCpuid CpuInfo @ DumpDebugInterface E CpuInfo @ DumpPlatformId E CpuInfo
     @ DumpMicrocodeVersion E CpuInfo"

section \<open>On all processors\<close>

text \<open>The number of processors and the one that runs the loop.\<close>

definition mp_setup :: "cpu_env \<Rightarrow> nat \<times> nat" where
  "mp_setup E =
     (if EFI_ERROR (LocateMpServices E) then (1, 0)
      else (case GetNumberOfProcessors E of None \<Rightarrow> 1 | Some n \<Rightarrow> n,
            case WhoAmI E of None \<Rightarrow> 0 | Some i \<Rightarrow> i))"

definition info_body :: "cpu_env \<Rightarrow> nat \<Rightarrow> nat \<Rightarrow> cpu_trace \<times> out list \<Rightarrow> cpu_trace \<times> out list" where
  "info_body E BspIndex CpuIndex = (\<lambda>(t, os).
     (let (CpuInfo, t) =
        (if CpuIndex = BspIndex then GetCpuInfoForThis E CpuIndex (zero_info, t)
         else if EFI_ERROR (StartupThisAP E CpuIndex) then (zero_info, t)
         else GetCpuInfoForThis E CpuIndex (zero_info, t))
      in (t, os @ [Print ''Get CPU Info (%d) ...'' [hxn CpuIndex],
               Print ''Dump CPU Info (%d) ...'' [hxn CpuIndex]]
             @ DumpCpuInfoForThis E CpuInfo)))"

definition DumpCpuInfo :: "cpu_env \<Rightarrow> cpu_trace \<times> out list \<Rightarrow> cpu_trace \<times> out list" where
  "DumpCpuInfo E s = (let (NumberOfCpus, BspIndex) = mp_setup E in fold (info_body E BspIndex) [0..<NumberOfCpus] s)"

definition trigger_body ::
  "cpu_env \<Rightarrow> nat \<Rightarrow> addr \<Rightarrow> nat \<Rightarrow> nat \<Rightarrow> cpu_trace \<times> out list \<Rightarrow> cpu_trace \<times> out list"
where
  "trigger_body E sizeof_HEADER Buffer BspIndex CpuIndex = (\<lambda>(t, os).
     (if CpuIndex = BspIndex then TriggerMicrocodeUpdateForThis sizeof_HEADER CpuIndex Buffer t
      else if EFI_ERROR (StartupThisAP E CpuIndex) then t
      else TriggerMicrocodeUpdateForThis sizeof_HEADER CpuIndex Buffer t,
      os @ [Print ''Patch CPU (%d) ...'' [hxn CpuIndex]]))"

definition TriggerMicrocodeUpdate ::
  "cpu_env \<Rightarrow> nat \<Rightarrow> addr \<Rightarrow> cpu_trace \<times> out list \<Rightarrow> cpu_trace \<times> out list"
where
  "TriggerMicrocodeUpdate E sizeof_HEADER Buffer s =
     (let (NumberOfCpus, BspIndex) = mp_setup E in
      fold (trigger_body E sizeof_HEADER Buffer BspIndex) [0..<NumberOfCpus] s)"

end
