(* ===== verification/Mcu.thy ===== *)
theory Mcu
  imports Mcu_Cpu Guid_Names_Props
begin

text \<open>
  \<^verbatim>\<open>AppSrc/PatchMicrocode/PatchMicrocode.c\<close>: the microcode file, its dump with the checksums,
  and the entry point.  The layout of the microcode structures and the checksum function are
  those of EDK II and parameters here.
\<close>

section \<open>The file\<close>

text \<open>
  The outcome of \<open>GetImageFromFile\<close>: the status, the pool with the bytes read (\<open>None\<close> where the
  output parameter is not written), the size (likewise) and the record of calls.  The whole is
  \<open>None\<close> when an allocation fails: only assertions look at that, and the pointer that is then used
  was never set.
\<close>

type_synonym image_result = "efi_status \<times> (addr \<times> u8 list) option \<times> nat option \<times> file_event list"

definition LibOpenRoot :: "file_system \<Rightarrow> addr \<Rightarrow> addr option" where
  "LibOpenRoot F Device =
     (let (Status, Volume) = SimpleFileSystem F Device in
      if EFI_ERROR Status then None
      else if EFI_ERROR (OpenVolume F Volume) then None
      else Some Volume)"

definition GetImageFromFile ::
  "file_system \<Rightarrow> efi_status \<Rightarrow> char16 list \<Rightarrow> file_event list \<Rightarrow> image_result option"
where
  "GetImageFromFile F LoadedImage FileName ops =
     (if EFI_ERROR LoadedImage then Some (LoadedImage, None, None, ops)
      else case LibOpenRoot F (DeviceHandle F) of
        None \<Rightarrow> Some (EFI_INVALID_PARAMETER, None, None, ops)
      | Some Vol \<Rightarrow>
          (let ops = ops @ [EOpen (ROOT Vol)]; Status = OpenPath F Vol FileName in
           if EFI_ERROR Status then Some (Status, None, None, ops)
           else
             (let h = FILE Vol FileName;
                  ops = ops @ [EOpen h, EClose (ROOT Vol)];
                  Info = Allocate F (length ops) (sizeof_FILE_INFO F + 1024)
              in if Info = NULL then None
                 else
                   (let ops = ops @ [EAlloc Info]; (Status, Size) = FileSize F Vol FileName in
                    if EFI_ERROR Status then Some (Status, None, None, ops)
                    else
                      (let Buffer = Allocate F (length ops) Size in
                       if Buffer = NULL then None
                       else
                         (let ops = ops @ [EAlloc Buffer]; (Status, bytes) = ReadBytes F Vol FileName Size in
                          if EFI_ERROR Status then Some (Status, None, Some Size, ops)
                          else Some (EFI_SUCCESS, Some (Buffer, bytes), Some Size, ops @ [EClose h])))))))"

section \<open>The dump\<close>

text \<open>
  \<open>o_m\<close>: \<open>CPU_MICROCODE_HEADER\<close>; \<open>o_x\<close>: \<open>CPU_MICROCODE_EXTENDED_TABLE_HEADER\<close>; \<open>o_e\<close>:
  \<open>CPU_MICROCODE_EXTENDED_TABLE\<close>.  All fields that are used have 32 bits.
\<close>

record mcu_layout =
  sizeof_MICROCODE_HEADER :: nat
  o_m_HeaderVersion :: nat
  o_m_UpdateRevision :: nat
  o_m_Date :: nat
  o_m_ProcessorSignature :: nat
  o_m_Checksum :: nat
  o_m_LoaderRevision :: nat
  o_m_ProcessorFlags :: nat
  o_m_DataSize :: nat
  o_m_TotalSize :: nat
  sizeof_EXTENDED_TABLE_HEADER :: nat
  o_x_ExtendedSignatureCount :: nat
  o_x_ExtendedChecksum :: nat
  sizeof_EXTENDED_TABLE :: nat
  o_e_ProcessorSignature :: nat
  o_e_ProcessorFlag :: nat
  o_e_Checksum :: nat
  CalculateSum32 :: "mem \<Rightarrow> addr \<Rightarrow> nat \<Rightarrow> u32"

definition mcu_header_lines :: "mcu_layout \<Rightarrow> mem \<Rightarrow> addr \<Rightarrow> out list" where
  "mcu_header_lines L m p =
     [Print ''CPU_MICROCODE_HEADER'' [],
      Print ''  HeaderVersion          - 0x%08x'' [hx (rd32 m (p + o_m_HeaderVersion L))],
      Print ''  UpdateRevision         - 0x%08x'' [hx (rd32 m (p + o_m_UpdateRevision L))],
      Print ''  Date                   - 0x%08x'' [hx (rd32 m (p + o_m_Date L))],
      Print ''  ProcessorSignature     - 0x%08x'' [hx (rd32 m (p + o_m_ProcessorSignature L))],
      Print ''  Checksum               - 0x%08x'' [hx (rd32 m (p + o_m_Checksum L))],
      Print ''  LoaderRevision         - 0x%08x'' [hx (rd32 m (p + o_m_LoaderRevision L))],
      Print ''  ProcessorFlags         - 0x%08x'' [hx (rd32 m (p + o_m_ProcessorFlags L))],
      Print ''  DataSize               - 0x%08x'' [hx (rd32 m (p + o_m_DataSize L))],
      Print ''  TotalSize              - 0x%08x'' [hx (rd32 m (p + o_m_TotalSize L))]]"

definition checksum_line :: "u32 \<Rightarrow> out" where
  "checksum_line v = Print ''CheckSum32               - 0x%08x'' [hx v]"

definition extended_header_lines :: "mcu_layout \<Rightarrow> mem \<Rightarrow> addr \<Rightarrow> out list" where
  "extended_header_lines L m x =
     [Print ''CPU_MICROCODE_EXTENDED_TABLE_HEADER'' [],
      Print ''  ExtendedSignatureCount - 0x%08x'' [hx (rd32 m (x + o_x_ExtendedSignatureCount L))],
      Print ''  ExtendedChecksum       - 0x%08x'' [hx (rd32 m (x + o_x_ExtendedChecksum L))]]"

definition extended_entry_lines :: "mcu_layout \<Rightarrow> mem \<Rightarrow> addr \<Rightarrow> nat \<Rightarrow> out list" where
  "extended_entry_lines L m e Index =
     [Print ''CPU_MICROCODE_EXTENDED_TABLE[%d]'' [hxn Index],
      Print ''  ProcessorSignature     - 0x%08x'' [hx (rd32 m (e + o_e_ProcessorSignature L))],
      Print ''  ProcessorFlag          - 0x%08x'' [hx (rd32 m (e + o_e_ProcessorFlag L))],
      Print ''  Checksum               - 0x%08x'' [hx (rd32 m (e + o_e_Checksum L))]]"

text \<open>The address of an element of the extended table, whose header is at \<open>x\<close>.\<close>

definition extended_entry :: "mcu_layout \<Rightarrow> addr \<Rightarrow> nat \<Rightarrow> addr" where
  "extended_entry L x Index = x + sizeof_EXTENDED_TABLE_HEADER L + sizeof_EXTENDED_TABLE L * Index"

definition extended_body :: "mcu_layout \<Rightarrow> mem \<Rightarrow> u32 \<Rightarrow> addr \<Rightarrow> nat \<Rightarrow> out list" where
  "extended_body L m InCompleteCheckSum32 x Index =
     (let e = extended_entry L x Index;
          CheckSum32 = InCompleteCheckSum32;
          CheckSum32 = CheckSum32 + rd32 m (e + o_e_ProcessorSignature L);
          CheckSum32 = CheckSum32 + rd32 m (e + o_e_ProcessorFlag L);
          CheckSum32 = CheckSum32 + rd32 m (e + o_e_Checksum L)
      in extended_entry_lines L m e Index @ [checksum_line CheckSum32])"

text \<open>\<open>ExtendedTableLength\<close> is a difference of \<open>UINTN\<close>s and may wrap around.\<close>

definition DumpMicrocode :: "mcu_layout \<Rightarrow> mem \<Rightarrow> addr \<Rightarrow> nat \<Rightarrow> out list" where
  "DumpMicrocode L m Buffer BufferSize =
     (let DataSize = rd32 m (Buffer + o_m_DataSize L);
          TotalSize = (if DataSize = 0 then sizeof_MICROCODE_HEADER L + 2000
                       else sizeof_MICROCODE_HEADER L + unat DataSize);
          InCompleteCheckSum32 = CalculateSum32 L m Buffer TotalSize;
          InCompleteCheckSum32 = InCompleteCheckSum32 - rd32 m (Buffer + o_m_ProcessorSignature L);
          InCompleteCheckSum32 = InCompleteCheckSum32 - rd32 m (Buffer + o_m_ProcessorFlags L);
          InCompleteCheckSum32 = InCompleteCheckSum32 - rd32 m (Buffer + o_m_Checksum L);
          CheckSum32 = InCompleteCheckSum32;
          CheckSum32 = CheckSum32 + rd32 m (Buffer + o_m_ProcessorSignature L);
          CheckSum32 = CheckSum32 + rd32 m (Buffer + o_m_ProcessorFlags L);
          CheckSum32 = CheckSum32 + rd32 m (Buffer + o_m_Checksum L);
          os = mcu_header_lines L m Buffer @ [checksum_line CheckSum32]
      in if DataSize = 0 then os
         else
           (let ExtendedTableLength =
                  (ucast (rd32 m (Buffer + o_m_TotalSize L)) :: u64)
                  - (ucast DataSize + of_nat (sizeof_MICROCODE_HEADER L))
            in if ExtendedTableLength = 0 then os
               else
                 (let x = Buffer + unat DataSize + sizeof_MICROCODE_HEADER L in
                  os @ extended_header_lines L m x
                  @ [checksum_line (CalculateSum32 L m x (unat ExtendedTableLength))]
                  @ concat (map (extended_body L m InCompleteCheckSum32 x)
                      [0..<unat (rd32 m (x + o_x_ExtendedSignatureCount L))]))))"

section \<open>The entry point\<close>

text \<open>\<open>ImageBuffer\<close>, \<open>FileSize\<close>: what the uninitialised local variables hold.\<close>

record mcu_app =
  mcu_layout_of :: mcu_layout
  mcu_cpus :: cpu_env
  mcu_files :: file_system
  GetShellParameters :: efi_status
  Argv :: "char16 list list"
  LoadedImageStatus :: efi_status
  ImageBuffer_junk :: addr
  FileSize_junk :: nat

record mcu_state =
  mcu_mem :: mem
  mcu_ops :: "file_event list"
  mcu_trace :: cpu_trace
  mcu_out :: "out list"

definition opt_D :: "char16 list" where "opt_D = [45, 68]"
definition opt_P :: "char16 list" where "opt_P = [45, 80]"

definition PrintHelp :: "out list" where
  "PrintHelp =
     [Print ''PatchMicrocode -D'' [], Print ''  Dump System Information'' [],
      Print ''PatchMicrocode -D <MCU>'' [], Print ''  Dump MCU file Information'' [],
      Print ''PatchMicrocode -P <MCU>'' [], Print ''  Patch MCU file'' []]"

text \<open>The call whose status is not looked at, and what the locals hold behind it.\<close>

definition load_image :: "mcu_app \<Rightarrow> char16 list \<Rightarrow> mcu_state \<Rightarrow> (addr \<times> nat \<times> mcu_state) option" where
  "load_image A name s =
     map_option (\<lambda>(Status, image, Size, ops).
       (case image of None \<Rightarrow> ImageBuffer_junk A | Some (Buffer, bytes) \<Rightarrow> Buffer,
        case Size of None \<Rightarrow> FileSize_junk A | Some n \<Rightarrow> n,
        s\<lparr>mcu_ops := ops,
          mcu_mem := (case image of None \<Rightarrow> mcu_mem s | Some (Buffer, bytes) \<Rightarrow> store_at (mcu_mem s) Buffer bytes)\<rparr>))
     (GetImageFromFile (mcu_files A) (LoadedImageStatus A) name (mcu_ops s))"

definition on_cpus :: "(cpu_trace \<times> out list \<Rightarrow> cpu_trace \<times> out list) \<Rightarrow> mcu_state \<Rightarrow> mcu_state" where
  "on_cpus f s = (let (t, os) = f (mcu_trace s, mcu_out s) in s\<lparr>mcu_trace := t, mcu_out := os\<rparr>)"

definition mcu_say :: "out list \<Rightarrow> mcu_state \<Rightarrow> mcu_state" where
  "mcu_say os s = s\<lparr>mcu_out := mcu_out s @ os\<rparr>"

definition PatchMicrocodeEntrypoint :: "mcu_app \<Rightarrow> mcu_state \<Rightarrow> (efi_status \<times> mcu_state) option" where
  "PatchMicrocodeEntrypoint A s =
     (let L = mcu_layout_of A; Status = GetShellParameters A; Argc = length (Argv A) in
      if EFI_ERROR Status then Some (Status, mcu_say [Print ''Not UEFI shell...'' []] s)
      else if Argc < 2 \<or> 3 < Argc then Some (EFI_INVALID_PARAMETER, s)
      else if Argc = 2 \<and> Argv A ! 1 = opt_D then Some (EFI_SUCCESS, on_cpus (DumpCpuInfo (mcu_cpus A)) s)
      else if Argc = 3 \<and> Argv A ! 1 = opt_P then
        map_option (\<lambda>(ImageBuffer, FileSize, s).
            (EFI_SUCCESS, on_cpus (TriggerMicrocodeUpdate (mcu_cpus A) (sizeof_MICROCODE_HEADER L) ImageBuffer) s))
          (load_image A (Argv A ! 2) s)
      else if Argc = 3 \<and> Argv A ! 1 = opt_D then
        map_option (\<lambda>(ImageBuffer, FileSize, s).
            (EFI_SUCCESS, mcu_say (DumpMicrocode L (mcu_mem s) ImageBuffer FileSize) s))
          (load_image A (Argv A ! 2) s)
      else Some (EFI_SUCCESS, mcu_say PrintHelp s))"

end
