(* ===== verification/Mcu_Props.thy ===== *)
theory Mcu_Props
  imports Mcu
begin

text \<open>
  What PatchMicrocode promises: the checksum of every extended signature is that of the update
  with the signature put into its header; the report and the trigger reach every processor that
  can be started; and what happens when the file cannot be read.
\<close>

section \<open>Checksums\<close>

definition words_sum :: "mem \<Rightarrow> addr \<Rightarrow> nat \<Rightarrow> u32" where
  "words_sum m p n = (\<Sum>i<n. rd32 m (p + 4 * i))"

text \<open>What EDK II documents of \<open>CalculateSum32\<close>: the sum of the words, without carry.\<close>

definition sums_words :: "mcu_layout \<Rightarrow> bool" where
  "sums_words L \<longleftrightarrow> (\<forall>m p n. CalculateSum32 L m p (4 * n) = words_sum m p n)"

text \<open>The three replaced fields are different words of the header.\<close>

definition mcu_layout_ok :: "mcu_layout \<Rightarrow> bool" where
  "mcu_layout_ok L \<longleftrightarrow>
     4 dvd sizeof_MICROCODE_HEADER L \<and> sizeof_MICROCODE_HEADER L < 2 ^ 32 \<and>
     distinct [o_m_ProcessorSignature L, o_m_ProcessorFlags L, o_m_Checksum L] \<and>
     (\<forall>off \<in> {o_m_ProcessorSignature L, o_m_ProcessorFlags L, o_m_Checksum L}.
        4 dvd off \<and> off < sizeof_MICROCODE_HEADER L)"

definition wr32 :: "mem \<Rightarrow> addr \<Rightarrow> u32 \<Rightarrow> mem" where
  "wr32 m p v = store_at m p (enc 4 (unat v))"

definition with_signature :: "mcu_layout \<Rightarrow> mem \<Rightarrow> addr \<Rightarrow> u32 \<Rightarrow> u32 \<Rightarrow> u32 \<Rightarrow> mem" where
  "with_signature L m p Signature Flags Checksum =
     wr32 (wr32 (wr32 m (p + o_m_ProcessorSignature L) Signature)
       (p + o_m_ProcessorFlags L) Flags) (p + o_m_Checksum L) Checksum"

lemma rd32_wr32_same [simp]: "rd32 (wr32 m p v) p = v"
  unfolding wr32_def by (rule rd32_holds) (rule holds_store_at)

lemma rd32_wr32_other:
  assumes "p + 4 \<le> q \<or> q + 4 \<le> p"
  shows "rd32 (wr32 m p v) q = rd32 m q"
proof -
  have "bytes_at (wr32 m p v) q 4 = bytes_at m q 4"
    using assms by (auto simp: bytes_at_def wr32_def store_at_def)
  then show ?thesis by (simp add: rd32_def rd_def)
qed

lemma rd32_wr32:
  "4 dvd a \<Longrightarrow> 4 dvd b \<Longrightarrow> rd32 (wr32 m (p + a) v) (p + b) = (if a = b then v else rd32 m (p + b))"
  by (cases "a = b") (simp, simp, rule rd32_wr32_other, presburger)

lemma words_sum_wr32:
  assumes "4 dvd off" "off < 4 * n"
  shows "words_sum (wr32 m (p + off) v) p n = words_sum m p n - rd32 m (p + off) + v"
proof -
  obtain i where i: "off = 4 * i" "i < n" using assms by (auto elim!: dvdE)
  have rest: "(\<Sum>j\<in>{..<n} - {i}. rd32 (wr32 m (p + off) v) (p + 4 * j)) = (\<Sum>j\<in>{..<n} - {i}. rd32 m (p + 4 * j))"
    by (rule sum.cong) (auto simp: rd32_wr32 i)
  have "words_sum m' p n = rd32 m' (p + 4 * i) + (\<Sum>j\<in>{..<n} - {i}. rd32 m' (p + 4 * j))" for m'
    using i(2) by (simp add: words_sum_def sum.remove [of "{..<n}" i])
  with rest show ?thesis by (simp add: i)
qed

text \<open>
  The sum that the code completes with the fields of an extended signature is the checksum of
  the update with these fields in its header.
\<close>

lemma words_sum_with_signature:
  assumes "mcu_layout_ok L" "sizeof_MICROCODE_HEADER L \<le> 4 * n"
  shows "words_sum (with_signature L m p s f c) p n =
    words_sum m p n - rd32 m (p + o_m_ProcessorSignature L) - rd32 m (p + o_m_ProcessorFlags L)
      - rd32 m (p + o_m_Checksum L) + s + f + c"
proof -
  have off: "4 dvd o_m_ProcessorSignature L" "o_m_ProcessorSignature L < 4 * n"
    "4 dvd o_m_ProcessorFlags L" "o_m_ProcessorFlags L < 4 * n"
    "4 dvd o_m_Checksum L" "o_m_Checksum L < 4 * n"
    using assms by (auto simp: mcu_layout_ok_def)
  have ne: "o_m_ProcessorSignature L \<noteq> o_m_ProcessorFlags L" "o_m_ProcessorSignature L \<noteq> o_m_Checksum L"
    "o_m_ProcessorFlags L \<noteq> o_m_Checksum L"
    using assms(1) by (auto simp: mcu_layout_ok_def)
  show ?thesis
    unfolding with_signature_def words_sum_wr32 [OF off(5,6)] words_sum_wr32 [OF off(3,4)]
      words_sum_wr32 [OF off(1,2)]
    by (simp add: rd32_wr32 off ne)
qed

definition entry_report :: "mcu_layout \<Rightarrow> mem \<Rightarrow> addr \<Rightarrow> nat \<Rightarrow> addr \<Rightarrow> nat \<Rightarrow> out list" where
  "entry_report L m Buffer n x i =
     (let e = extended_entry L x i in
      extended_entry_lines L m e i
      @ [checksum_line (words_sum
           (with_signature L m Buffer (rd32 m (e + o_e_ProcessorSignature L))
              (rd32 m (e + o_e_ProcessorFlag L)) (rd32 m (e + o_e_Checksum L))) Buffer n)])"

lemma extended_length:
  assumes "s < 2 ^ 32"
  shows "unat ((ucast (t :: u32) :: u64) - (ucast (d :: u32) + of_nat s)) =
    (if s + unat d \<le> unat t then unat t - (s + unat d) else unat t + 2 ^ 64 - (s + unat d))"
proof -
  have t: "unat (ucast t :: u64) = unat t" and d: "unat (ucast d :: u64) = unat d"
    by (simp_all add: unat_ucast_up)
  have small: "unat t < 2 ^ 32" "unat d < 2 ^ 32"
    using unat_widths(3) [of t] unat_widths(3) [of d] by simp_all
  have sum: "unat (ucast d + of_nat s :: u64) = s + unat d"
    using assms small by (simp add: unat_word_ariths unat_of_nat d)
  show ?thesis
    using assms small by (simp add: unat_sub_if_size sum t word_size)
qed

text \<open>
  C11: PatchMicrocode -D prints, for an update with an extended signature table, the header, the
  sum of the update's words, the table's header and sum, and for every extended signature its
  fields and the sum of the update in which the header's signature, flags and checksum are
  replaced by them.  So a printed zero says that the update is valid with that signature.
\<close>

theorem DumpMicrocode_checks:
  assumes "mcu_layout_ok L" and "sums_words L"
    and d: "unat (rd32 m (Buffer + o_m_DataSize L)) = 4 * d" "0 < d"
    and total: "unat (rd32 m (Buffer + o_m_TotalSize L)) = sizeof_MICROCODE_HEADER L + 4 * d + 4 * ext" "0 < ext"
    and n: "4 * n = sizeof_MICROCODE_HEADER L + 4 * d" and x: "x = Buffer + 4 * n"
  shows "DumpMicrocode L m Buffer BufferSize =
    mcu_header_lines L m Buffer @ [checksum_line (words_sum m Buffer n)]
    @ extended_header_lines L m x @ [checksum_line (words_sum m x ext)]
    @ concat (map (entry_report L m Buffer n x) [0..<unat (rd32 m (x + o_x_ExtendedSignatureCount L))])"
proof -
  define D where "D = rd32 m (Buffer + o_m_DataSize L)"
  define T where "T = rd32 m (Buffer + o_m_TotalSize L)"
  define len where "len = (ucast T :: u64) - (ucast D + of_nat (sizeof_MICROCODE_HEADER L))"
  have nz: "D \<noteq> 0" using d by (auto simp: D_def)
  have size: "sizeof_MICROCODE_HEADER L < 2 ^ 32" using assms(1) by (simp add: mcu_layout_ok_def)
  have len: "unat len = 4 * ext"
    using d total by (simp add: len_def extended_length [OF size] D_def T_def)
  then have len0: "len \<noteq> 0" using total(2) by auto
  have sums: "CalculateSum32 L m q (4 * k) = words_sum m q k" for q k
    using assms(2) by (simp add: sums_words_def)
  have x': "Buffer + unat D + sizeof_MICROCODE_HEADER L = x" using d n x by (simp add: D_def)
  have whole: "CalculateSum32 L m Buffer (sizeof_MICROCODE_HEADER L + unat D) = words_sum m Buffer n"
    using sums [of Buffer n] n d by (simp add: D_def)
  have body: "extended_body L m (words_sum m Buffer n - rd32 m (Buffer + o_m_ProcessorSignature L)
       - rd32 m (Buffer + o_m_ProcessorFlags L) - rd32 m (Buffer + o_m_Checksum L)) x =
     entry_report L m Buffer n x"
    using n by (auto simp: fun_eq_iff extended_body_def entry_report_def Let_def
      words_sum_with_signature [OF assms(1)])
  show ?thesis
    unfolding DumpMicrocode_def
    by (simp add: Let_def D_def [symmetric] T_def [symmetric] nz whole x' sums body
      len_def [symmetric] len0 len)
qed

text \<open>
  When the header's total size is smaller than header and data, the length of the extended
  table wraps around: a sum over almost the whole address space is taken, whatever the size
  of the file.
\<close>

theorem DumpMicrocode_wraps:
  assumes "sizeof_MICROCODE_HEADER L < 2 ^ 32"
    and "rd32 m (Buffer + o_m_DataSize L) \<noteq> 0"
    and small: "unat (rd32 m (Buffer + o_m_TotalSize L)) <
      sizeof_MICROCODE_HEADER L + unat (rd32 m (Buffer + o_m_DataSize L))"
  shows "\<exists>n > 2 ^ 63. checksum_line (CalculateSum32 L m
      (Buffer + unat (rd32 m (Buffer + o_m_DataSize L)) + sizeof_MICROCODE_HEADER L) n)
    \<in> set (DumpMicrocode L m Buffer BufferSize)"
proof -
  define D where "D = rd32 m (Buffer + o_m_DataSize L)"
  define T where "T = rd32 m (Buffer + o_m_TotalSize L)"
  define len where "len = (ucast T :: u64) - (ucast D + of_nat (sizeof_MICROCODE_HEADER L))"
  have "unat D < 2 ^ 32" using unat_widths(3) [of D] by simp
  then have big: "2 ^ 63 < unat len"
    using small assms(1) by (simp add: len_def extended_length [OF assms(1)] D_def T_def)
  then have "len \<noteq> 0" by auto
  with big assms(2) show ?thesis
    unfolding DumpMicrocode_def
    by (intro exI [of _ "unat len"])
      (simp add: Let_def D_def [symmetric] T_def [symmetric] len_def [symmetric])
qed

section \<open>Processors\<close>

definition processors :: "cpu_env \<Rightarrow> nat list" where
  "processors E = [0..<fst (mp_setup E)]"

text \<open>The processor that runs the tool, and those that execute a procedure when asked.\<close>

definition started :: "cpu_env \<Rightarrow> nat \<Rightarrow> bool" where
  "started E i \<longleftrightarrow> i = snd (mp_setup E) \<or> \<not> EFI_ERROR (StartupThisAP E i)"

text \<open>
  The processor manuals: after zero is written to the signature MSR, \<open>CPUID\<close> leaves the revision
  of the loaded microcode there.  The other two MSRs are not changed by the tool.
\<close>

definition msr_behaviour :: "cpu_env \<Rightarrow> (nat \<Rightarrow> u64) \<Rightarrow> (nat \<Rightarrow> u64) \<Rightarrow> (nat \<Rightarrow> u64) \<Rightarrow> bool" where
  "msr_behaviour E revision platform debug \<longleftrightarrow>
     (\<forall>t i. AsmReadMsr64 E (t @ [(i, WRMSR MSR_IA32_BIOS_SIGN_ID 0), (i, CPUID_VERSION_INFO)]) i
              MSR_IA32_BIOS_SIGN_ID = revision i)
     \<and> (\<forall>t i. AsmReadMsr64 E t i MSR_IA32_PLATFORM_ID = platform i)
     \<and> (\<forall>t i. AsmReadMsr64 E t i MSR_IA32_DEBUG_INTERFACE = debug i)"

definition info_of :: "cpu_env \<Rightarrow> (nat \<Rightarrow> u64) \<Rightarrow> (nat \<Rightarrow> u64) \<Rightarrow> (nat \<Rightarrow> u64) \<Rightarrow> nat \<Rightarrow> cpu_info" where
  "info_of E revision platform debug i =
     (let sdbg = (Bits_SDBG E (CpuidEcx E i) \<noteq> 0) in
      \<lparr>ci_CpuId = CpuidEax E i, ci_PlatformId = platform i, ci_DebugInterfaceSupport = sdbg,
       ci_DebugInterface = (if sdbg then debug i else 0), ci_MicrocodeVersion = revision i\<rparr>)"

lemma GetCpuInfoForThis_info:
  "msr_behaviour E revision platform debug \<Longrightarrow>
   fst (GetCpuInfoForThis E i (zero_info, t)) = info_of E revision platform debug i"
  by (simp add: msr_behaviour_def GetCpuInfoForThis_def GetCpuid_def GetDebugInterface_def
    GetPlatformId_def GetMicrocodeVersion_def info_of_def zero_info_def Let_def)

text \<open>Loops that append the same to the output whatever they did before.\<close>

lemma fold_appends:
  assumes "\<And>x t os. snd (f x (t, os)) = os @ g x"
  shows "snd (fold f xs (t, os)) = os @ concat (map g xs)"
proof (induction xs arbitrary: t os)
  case Nil
  show ?case by simp
next
  case (Cons x xs)
  have "f x (t, os) = (fst (f x (t, os)), os @ g x)"
    using assms [of x t os] by (metis prod.collapse)
  then show ?case using Cons [of "fst (f x (t, os))" "os @ g x"] by simp
qed

text \<open>
  PatchMicrocode -D reports every processor in the order of the numbers: of each that can
  be started its own CPUID, debug interface, platform and the revision of its microcode, of the
  others zeros.
\<close>

theorem DumpCpuInfo_reports:
  assumes "msr_behaviour E revision platform debug"
  shows "snd (DumpCpuInfo E (t, os)) = os @ concat (map (\<lambda>i.
    [Print ''Get CPU Info (%d) ...'' [hxn i], Print ''Dump CPU Info (%d) ...'' [hxn i]]
    @ DumpCpuInfoForThis E (if started E i then info_of E revision platform debug i else zero_info))
    (processors E))"
proof -
  note info = GetCpuInfoForThis_info [OF assms]
  have "snd (info_body E (snd (mp_setup E)) i (t, os)) = os @
    [Print ''Get CPU Info (%d) ...'' [hxn i], Print ''Dump CPU Info (%d) ...'' [hxn i]]
    @ DumpCpuInfoForThis E (if started E i then info_of E revision platform debug i else zero_info)"
    for i t os
    using info [of i t] by (auto simp: info_body_def started_def split: prod.split)
  from fold_appends [of "info_body E (snd (mp_setup E))", OF this] show ?thesis
    by (simp add: DumpCpuInfo_def processors_def split_beta)
qed

lemma fold_trigger_body:
  "fst (fold (trigger_body E n p b) xs (t, os)) =
   t @ map (\<lambda>i. (i, WRMSR MSR_IA32_BIOS_UPDT_TRIG (of_nat (p + n))))
     (filter (\<lambda>i. i = b \<or> \<not> EFI_ERROR (StartupThisAP E i)) xs)"
  by (induction xs arbitrary: t os) (simp_all add: trigger_body_def TriggerMicrocodeUpdateForThis_def)

text \<open>What the trigger executes: one write on each processor that can be started.\<close>

definition triggers :: "cpu_env \<Rightarrow> addr \<Rightarrow> cpu_trace" where
  "triggers E p = map (\<lambda>i. (i, WRMSR MSR_IA32_BIOS_UPDT_TRIG (of_nat p))) (filter (started E) (processors E))"

lemma TriggerMicrocodeUpdate_trace:
  "fst (TriggerMicrocodeUpdate E n p (t, os)) = t @ triggers E (p + n)"
  by (simp add: TriggerMicrocodeUpdate_def triggers_def processors_def started_def [abs_def]
      fold_trigger_body split_beta)

section \<open>The entry point\<close>

text \<open>The file can be read: its bytes, and the pools for its information and its contents.\<close>

definition file_there :: "mcu_app \<Rightarrow> file_event list \<Rightarrow> addr \<Rightarrow> char16 list \<Rightarrow> addr \<Rightarrow> addr \<Rightarrow> u8 list \<Rightarrow> bool" where
  "file_there A ops Vol name Info Buffer bytes \<longleftrightarrow>
     (let F = mcu_files A; ops1 = ops @ [EOpen (ROOT Vol), EOpen (FILE Vol name), EClose (ROOT Vol)] in
      LoadedImageStatus A = EFI_SUCCESS \<and> SimpleFileSystem F (DeviceHandle F) = (EFI_SUCCESS, Vol)
      \<and> OpenVolume F Vol = EFI_SUCCESS \<and> OpenPath F Vol name = EFI_SUCCESS
      \<and> Info \<noteq> NULL \<and> Allocate F (length ops1) (sizeof_FILE_INFO F + 1024) = Info
      \<and> FileSize F Vol name = (EFI_SUCCESS, length bytes)
      \<and> Buffer \<noteq> NULL \<and> Allocate F (Suc (length ops1)) (length bytes) = Buffer
      \<and> ReadBytes F Vol name (length bytes) = (EFI_SUCCESS, bytes))"

text \<open>
  C12: PatchMicrocode -P with a readable file loads its bytes into memory and makes every processor
  that can be started, and no other, load the update once, from the data behind the header of
  these bytes.  The file is closed; its two pools are kept.
\<close>

theorem PatchMicrocode_patches:
  assumes "GetShellParameters A = EFI_SUCCESS" and "Argv A = [prog, opt_P, name]"
    and "file_there A (mcu_ops s) Vol name Info Buffer bytes"
  shows "\<exists>s'. PatchMicrocodeEntrypoint A s = Some (EFI_SUCCESS, s') \<and>
    holds (mcu_mem s') Buffer bytes \<and>
    mcu_trace s' = mcu_trace s
      @ triggers (mcu_cpus A) (Buffer + sizeof_MICROCODE_HEADER (mcu_layout_of A)) \<and>
    mcu_ops s' = mcu_ops s @ [EOpen (ROOT Vol), EOpen (FILE Vol name), EClose (ROOT Vol), EAlloc Info,
      EAlloc Buffer, EClose (FILE Vol name)]"
proof -
  have "GetImageFromFile (mcu_files A) (LoadedImageStatus A) name (mcu_ops s) =
    Some (EFI_SUCCESS, Some (Buffer, bytes), Some (length bytes),
      mcu_ops s @ [EOpen (ROOT Vol), EOpen (FILE Vol name), EClose (ROOT Vol), EAlloc Info,
        EAlloc Buffer, EClose (FILE Vol name)])"
    using assms(3) by (simp add: file_there_def GetImageFromFile_def LibOpenRoot_def Let_def)
  then show ?thesis
    using assms(1,2) TriggerMicrocodeUpdate_trace
    by (simp add: PatchMicrocodeEntrypoint_def load_image_def opt_P_def opt_D_def on_cpus_def Let_def
      holds_store_at split_beta)
qed

text \<open>
  PatchMicrocode -P with a file that cannot be opened still makes every processor load an
  update, from wherever the uninitialised pointer points to, and reports success.
\<close>

theorem PatchMicrocode_no_file:
  assumes "GetShellParameters A = EFI_SUCCESS" and "Argv A = [prog, opt_P, name]"
    and "LoadedImageStatus A = EFI_SUCCESS"
    and "SimpleFileSystem (mcu_files A) (DeviceHandle (mcu_files A)) = (EFI_SUCCESS, Vol)"
    and "OpenVolume (mcu_files A) Vol = EFI_SUCCESS" and "EFI_ERROR (OpenPath (mcu_files A) Vol name)"
  shows "\<exists>s'. PatchMicrocodeEntrypoint A s = Some (EFI_SUCCESS, s') \<and>
    mcu_trace s' = mcu_trace s
      @ triggers (mcu_cpus A) (ImageBuffer_junk A + sizeof_MICROCODE_HEADER (mcu_layout_of A))"
proof -
  have "GetImageFromFile (mcu_files A) (LoadedImageStatus A) name (mcu_ops s) =
    Some (OpenPath (mcu_files A) Vol name, None, None, mcu_ops s @ [EOpen (ROOT Vol)])"
    using assms(3-) by (simp add: GetImageFromFile_def LibOpenRoot_def)
  then show ?thesis
    using assms(1,2) TriggerMicrocodeUpdate_trace
    by (simp add: PatchMicrocodeEntrypoint_def load_image_def opt_P_def opt_D_def on_cpus_def Let_def
      split_beta)
qed

section \<open>Witnesses\<close>

text \<open>
  Concrete platforms for the theorems about PatchMicrocode: the layout of the processor manuals,
  a small update with one extended signature, and a machine of three processors whose last one
  is disabled.
\<close>

definition sample_layout :: mcu_layout where
  "sample_layout = \<lparr>sizeof_MICROCODE_HEADER = 48, o_m_HeaderVersion = 0, o_m_UpdateRevision = 4,
     o_m_Date = 8, o_m_ProcessorSignature = 12, o_m_Checksum = 16, o_m_LoaderRevision = 20,
     o_m_ProcessorFlags = 24, o_m_DataSize = 28, o_m_TotalSize = 32,
     sizeof_EXTENDED_TABLE_HEADER = 20, o_x_ExtendedSignatureCount = 0, o_x_ExtendedChecksum = 4,
     sizeof_EXTENDED_TABLE = 12, o_e_ProcessorSignature = 0, o_e_ProcessorFlag = 4,
     o_e_Checksum = 8, CalculateSum32 = (\<lambda>m p n. words_sum m p (n div 4))\<rparr>"

definition sample_mcu :: mem where
  "sample_mcu a =
     (if a = 256 + 28 then 4 else if a = 256 + 32 then 84 else if a = 308 then 1
      else if a = 328 then 7 else 0)"

lemma sample_layout_ok: "mcu_layout_ok sample_layout" "sums_words sample_layout"
  by (simp_all add: sample_layout_def mcu_layout_ok_def sums_words_def)

lemma sample_mcu_fields:
  "rd32 sample_mcu (256 + 28) = 4" "rd32 sample_mcu (256 + 32) = 84" "rd32 sample_mcu 308 = 1"
  by (simp_all add: rd32_def rd_def bytes_at_def sample_mcu_def upt_rec)

lemma DumpMicrocode_checks_witness:
  "DumpMicrocode sample_layout sample_mcu 256 84 =
    mcu_header_lines sample_layout sample_mcu 256 @ [checksum_line (words_sum sample_mcu 256 13)]
    @ extended_header_lines sample_layout sample_mcu 308 @ [checksum_line (words_sum sample_mcu 308 8)]
    @ concat (map (entry_report sample_layout sample_mcu 256 13 308)
        [0..<unat (rd32 sample_mcu (308 + o_x_ExtendedSignatureCount sample_layout))])"
proof (rule DumpMicrocode_checks [OF sample_layout_ok, where d = 1])
  show "unat (rd32 sample_mcu (256 + o_m_DataSize sample_layout)) = 4 * 1"
    using sample_mcu_fields(1) by (simp add: sample_layout_def)
  show "unat (rd32 sample_mcu (256 + o_m_TotalSize sample_layout)) =
      sizeof_MICROCODE_HEADER sample_layout + 4 * 1 + 4 * 8"
    using sample_mcu_fields(2) by (simp add: sample_layout_def)
qed (simp_all add: sample_layout_def)

lemma rd32_ones: "rd32 (\<lambda>_. 1) p = 0x01010101"
  by (simp add: rd32_def rd_def bytes_at_def upt_rec)

lemma DumpMicrocode_wraps_witness:
  "\<exists>n > 2 ^ 63. checksum_line (CalculateSum32 sample_layout (\<lambda>_. 1)
      (256 + unat (rd32 (\<lambda>_. 1) (256 + o_m_DataSize sample_layout)) + sizeof_MICROCODE_HEADER sample_layout) n)
    \<in> set (DumpMicrocode sample_layout (\<lambda>_. 1) 256 84)"
  by (rule DumpMicrocode_wraps) (simp_all add: rd32_ones, simp_all add: sample_layout_def)

section \<open>Three processors\<close>

definition sample_cpus :: cpu_env where
  "sample_cpus = \<lparr>LocateMpServices = EFI_SUCCESS, GetNumberOfProcessors = Some 3, WhoAmI = Some 1,
     StartupThisAP = (\<lambda>i. if i = 0 then EFI_SUCCESS else EFI_INVALID_PARAMETER),
     CpuidEax = (\<lambda>i. 0x806E9), CpuidEcx = (\<lambda>i. 0x800),
     AsmReadMsr64 = (\<lambda>t i r. case r of
        MSR_IA32_BIOS_SIGN_ID \<Rightarrow> (if 2 \<le> length t \<and>
            drop (length t - 2) t = [(i, WRMSR MSR_IA32_BIOS_SIGN_ID 0), (i, CPUID_VERSION_INFO)]
          then 0xDE00000000 else 0)
      | _ \<Rightarrow> of_nat i),
     Bits_SDBG = (\<lambda>v. v AND 0x800), Bits_Enable = (\<lambda>v. ucast (v AND 1)),
     Bits_Lock = (\<lambda>v. ucast (v AND 0x40000000)), Bits_DebugOccurred = (\<lambda>v. ucast (v AND 0x80000000)),
     Bits_PlatformId = (\<lambda>v. ucast (drop_bit 50 v)), Bits_MicrocodeUpdateSignature = (\<lambda>v. ucast (drop_bit 32 v))\<rparr>"

lemma sample_cpus_msrs: "msr_behaviour sample_cpus (\<lambda>i. 0xDE00000000) of_nat of_nat"
  by (simp add: msr_behaviour_def sample_cpus_def)

lemma DumpCpuInfo_reports_witness:
  "snd (DumpCpuInfo sample_cpus ([], [])) = [] @ concat (map (\<lambda>i.
    [Print ''Get CPU Info (%d) ...'' [hxn i], Print ''Dump CPU Info (%d) ...'' [hxn i]]
    @ DumpCpuInfoForThis sample_cpus
        (if started sample_cpus i then info_of sample_cpus (\<lambda>i. 0xDE00000000) of_nat of_nat i else zero_info))
    (processors sample_cpus))"
  by (rule DumpCpuInfo_reports [OF sample_cpus_msrs])

lemma sample_triggers:
  "triggers sample_cpus p = [(0, WRMSR MSR_IA32_BIOS_UPDT_TRIG (of_nat p)), (1, WRMSR MSR_IA32_BIOS_UPDT_TRIG (of_nat p))]"
  by (simp add: triggers_def processors_def started_def mp_setup_def sample_cpus_def upt_rec)

section \<open>A volume with one file\<close>

definition mcu_name :: "char16 list" where
  "mcu_name = [117]"

definition sample_volume :: file_system where
  "sample_volume = \<lparr>DeviceHandle = 1, SimpleFileSystem = (\<lambda>h. (EFI_SUCCESS, 16)),
     LocateFileSystems = (EFI_SUCCESS, [1]), HandlePool = (\<lambda>_. 500), OpenVolume = (\<lambda>v. EFI_SUCCESS),
     OpenPath = (\<lambda>v n. if n = mcu_name then EFI_SUCCESS else EFI_NOT_FOUND),
     OpenDir = (\<lambda>v n. EFI_NOT_FOUND), FileSize = (\<lambda>v n. (EFI_SUCCESS, 2)),
     ReadBytes = (\<lambda>v n k. (EFI_SUCCESS, take k [1, 2])), SetPosition = (\<lambda>v n. EFI_SUCCESS),
     DirEntries = (\<lambda>v n. []), Allocate = (\<lambda>t n. 4096 * (t + 1)), sizeof_FILE_INFO = 80\<rparr>"

definition sample_app :: "char16 list \<Rightarrow> mcu_app" where
  "sample_app name = \<lparr>mcu_layout_of = sample_layout, mcu_cpus = sample_cpus, mcu_files = sample_volume,
     GetShellParameters = EFI_SUCCESS, Argv = [[80], opt_P, name], LoadedImageStatus = EFI_SUCCESS,
     ImageBuffer_junk = 3405691582, FileSize_junk = 7\<rparr>"

definition sample_state :: mcu_state where
  "sample_state = \<lparr>mcu_mem = (\<lambda>_. 0), mcu_ops = [], mcu_trace = [], mcu_out = []\<rparr>"

lemma PatchMicrocode_patches_witness:
  "\<exists>s'. PatchMicrocodeEntrypoint (sample_app mcu_name) sample_state = Some (EFI_SUCCESS, s') \<and>
    holds (mcu_mem s') 20480 [1, 2] \<and>
    mcu_trace s' = [(0, WRMSR MSR_IA32_BIOS_UPDT_TRIG 20528), (1, WRMSR MSR_IA32_BIOS_UPDT_TRIG 20528)]"
proof -
  have "file_there (sample_app mcu_name) (mcu_ops sample_state) 16 mcu_name 16384 20480 [1, 2]"
    by (simp add: file_there_def sample_app_def sample_state_def sample_volume_def Let_def)
  from PatchMicrocode_patches [OF _ _ this, of "[80]"] show ?thesis
    by (auto simp: sample_app_def sample_triggers sample_state_def sample_layout_def)
qed

lemma PatchMicrocode_no_file_witness:
  "\<exists>s'. PatchMicrocodeEntrypoint (sample_app []) sample_state = Some (EFI_SUCCESS, s') \<and>
    mcu_trace s' = [(0, WRMSR MSR_IA32_BIOS_UPDT_TRIG 3405691630), (1, WRMSR MSR_IA32_BIOS_UPDT_TRIG 3405691630)]"
  using PatchMicrocode_no_file [of "sample_app []" "[80]" "[]" 16 sample_state]
  by (auto simp: sample_app_def sample_volume_def mcu_name_def sample_triggers sample_state_def
    sample_layout_def)

end
