(* ===== verification/App_Utils.thy ===== *)
theory App_Utils
  imports Str_Token
begin

text \<open>
  \<^verbatim>\<open>Library/AppUtilsLib/Utils.c\<close>: hexadecimal strings, the options of a command line and the
  command line itself.  A C string is the list of its characters without the terminator.
\<close>

section \<open>Hexadecimal strings\<close>

definition HexCharToUint8 :: "char16 \<Rightarrow> u8" where
  "HexCharToUint8 C =
     (if 48 \<le> C \<and> C \<le> 57 then ucast (C - 48)
      else if 97 \<le> C \<and> C \<le> 102 then ucast (C - 97 + 10)
      else if 65 \<le> C \<and> C \<le> 70 then ucast (C - 65 + 10)
      else 0xFF)"

text \<open>The loop; \<open>None\<close>: it reads behind the terminator.\<close>

fun hex_loop :: "char16 list \<Rightarrow> nat \<Rightarrow> u8 list option" where
  "hex_loop s 0 = Some []"
| "hex_loop (h # l # s) (Suc n) =
     map_option (Cons (push_bit 4 (HexCharToUint8 h) OR HexCharToUint8 l)) (hex_loop s n)"
| "hex_loop s (Suc n) = None"

text \<open>\<open>BufferSize * 2\<close> is a \<open>UINTN\<close>.\<close>

definition HexStringToBuffer :: "char16 list option \<Rightarrow> nat \<Rightarrow> (efi_status + u8 list) option" where
  "HexStringToBuffer HexStr BufferSize =
     (case HexStr of
        None \<Rightarrow> Some (Inl EFI_INVALID_PARAMETER)
      | Some s \<Rightarrow>
          if length s \<noteq> (BufferSize * 2) mod 2 ^ 64 then Some (Inl EFI_BAD_BUFFER_SIZE)
          else map_option Inr (hex_loop s BufferSize))"

section \<open>Options\<close>

record get_opt_context =
  OptIndex :: nat
  Opt :: char16
  OptArg :: "char16 list option"

text \<open>The first character of a string, its terminator if it is empty.\<close>

definition char_at :: "char16 list \<Rightarrow> nat \<Rightarrow> char16" where
  "char_at s i = (if i < length s then s ! i else 0)"

definition GetOpt ::
  "char16 list list \<Rightarrow> char16 list option \<Rightarrow> get_opt_context \<Rightarrow> efi_status \<times> get_opt_context"
where
  "GetOpt Argv OptionsWithArgs Context =
     (let Argc = length Argv; i = OptIndex Context in
      if Argc \<le> i then (EFI_END_OF_MEDIA, Context)
      else if char_at (Argv ! i) 0 \<noteq> 45 then (EFI_END_OF_MEDIA, Context)
      else if char_at (Argv ! i) 1 = 0 then (EFI_END_OF_MEDIA, Context\<lparr>OptIndex := i + 1\<rparr>)
      else
        (let c = char_at (Argv ! i) 1;
             (SkipCount, Context) =
               (if c \<in> set (case OptionsWithArgs of None \<Rightarrow> [] | Some os \<Rightarrow> os) then
                  (if char_at (Argv ! i) 2 \<noteq> 0 then (1, Context\<lparr>Opt := c, OptArg := Some (drop 2 (Argv ! i))\<rparr>)
                   else if i + 1 < Argc \<and> char_at (Argv ! (i + 1)) 0 \<noteq> 45
                   then (2, Context\<lparr>Opt := c, OptArg := Some (Argv ! (i + 1))\<rparr>)
                   else (1, Context\<lparr>Opt := c, OptArg := None\<rparr>))
                else (1, Context\<lparr>Opt := c\<rparr>))
         in (EFI_SUCCESS, Context\<lparr>OptIndex := i + SkipCount\<rparr>)))"

section \<open>The command line\<close>

text \<open>What opening the two shell protocols gives: the status, and the protocol's arguments.\<close>

definition GetShellArgcArgv ::
  "efi_status \<times> char16 list list \<Rightarrow> efi_status \<times> char16 list list \<Rightarrow> efi_status \<times> char16 list list option"
where
  "GetShellArgcArgv ShellParameters ShellInterface =
     (if \<not> EFI_ERROR (fst ShellParameters) then (EFI_SUCCESS, Some (snd ShellParameters))
      else if \<not> EFI_ERROR (fst ShellInterface) then (EFI_SUCCESS, Some (snd ShellInterface))
      else (EFI_NOT_FOUND, None))"

section \<open>Hexadecimal strings and bytes\<close>

text \<open>The two ways to write a digit.\<close>

definition digit :: "bool \<Rightarrow> nat \<Rightarrow> char16" where
  "digit upper v = (if v < 10 then of_nat (48 + v) else of_nat ((if upper then 65 else 97) + (v - 10)))"

definition hex_of :: "bool \<times> bool \<times> u8 \<Rightarrow> char16 list" where
  "hex_of = (\<lambda>(u, v, b). [digit u (unat b div 16), digit v (unat b mod 16)])"

lemma HexCharToUint8_digit:
  assumes "v < 16"
  shows "HexCharToUint8 (digit upper v) = of_nat v"
proof -
  have "v = 0 \<or> v = 1 \<or> v = 2 \<or> v = 3 \<or> v = 4 \<or> v = 5 \<or> v = 6 \<or> v = 7 \<or>
    v = 8 \<or> v = 9 \<or> v = 10 \<or> v = 11 \<or> v = 12 \<or> v = 13 \<or> v = 14 \<or> v = 15"
    using assms by presburger
  then show ?thesis by (elim disjE; cases upper) (simp_all add: HexCharToUint8_def digit_def)
qed

lemma nibbles: "push_bit 4 (of_nat (unat (b :: u8) div 16)) OR of_nat (unat b mod 16) = b"
proof -
  have hi: "(of_nat (unat b div 16) :: u8) = drop_bit 4 b"
    using word_arith_nat_div [of b 16] drop_bit_eq_div [of 4 b] by simp
  have lo: "(of_nat (unat b mod 16) :: u8) = take_bit 4 b"
    using word_arith_nat_mod [of b 16] take_bit_eq_mod [of 4 b] by simp
  show ?thesis
    unfolding hi lo by (rule bit_word_eqI) (auto simp: bit_simps)
qed

lemma length_concat_hex_of [simp]: "length (concat (map hex_of xs)) = 2 * length xs"
  by (induction xs) (auto simp: hex_of_def)

lemma hex_loop_hex_of: "hex_loop (concat (map hex_of xs)) (length xs) = Some (map (snd \<circ> snd) xs)"
proof (induction xs)
  case (Cons x xs)
  obtain u v b where x: "x = (u, v, b)" by (cases x) auto
  have "unat b div 16 < 16" using unat_widths(1) [of b] by (simp add: less_mult_imp_div_less)
  with Cons show ?case by (simp add: x hex_of_def HexCharToUint8_digit nibbles)
qed simp

text \<open>
  HexStringToBuffer returns the bytes that were written as two digits each, in either case.
\<close>

theorem HexStringToBuffer_roundtrip:
  "2 * length xs < 2 ^ 64 \<Longrightarrow>
   HexStringToBuffer (Some (concat (map hex_of xs))) (length xs) = Some (Inr (map (snd \<circ> snd) xs))"
  by (simp add: HexStringToBuffer_def hex_loop_hex_of)

lemma HexStringToBuffer_roundtrip_witness:
  "HexStringToBuffer (Some [65, 48, 98, 70]) 2 = Some (Inr [0xA0, 0xBF])"
  using HexStringToBuffer_roundtrip [of "[(True, False, 0xA0), (False, True, 0xBF)]"]
  by (simp add: hex_of_def digit_def) (simp add: numeral_2_eq_2)

text \<open>Digits are not checked: every string of the right length is accepted.\<close>

lemma hex_loop_accepts: "length s = 2 * n \<Longrightarrow> hex_loop s n \<noteq> None"
  by (induction s n rule: hex_loop.induct) auto

lemma HexStringToBuffer_accepts:
  "length s = 2 * n \<Longrightarrow> 2 * n < 2 ^ 64 \<Longrightarrow> \<exists>bs. HexStringToBuffer (Some s) n = Some (Inr bs)"
  using hex_loop_accepts [of s n] by (auto simp: HexStringToBuffer_def mult.commute)

section \<open>Parsing a command line\<close>

lemma GetOpt_advances:
  "GetOpt Argv os c = (EFI_SUCCESS, c') \<Longrightarrow> OptIndex c < length Argv \<and> OptIndex c < OptIndex c'"
  by (auto simp: GetOpt_def Let_def split: if_splits)

text \<open>
  The loop of a caller: the options in order, with the argument of those that take one, and the
  context at the end.
\<close>

function all_options ::
  "char16 list list \<Rightarrow> char16 list \<Rightarrow> get_opt_context \<Rightarrow> (char16 \<times> char16 list option) list \<times> get_opt_context"
where
  "all_options Argv os c =
     (let (Status, c') = GetOpt Argv (Some os) c in
      if Status = EFI_SUCCESS then
        (let (xs, d) = all_options Argv os c' in
         ((Opt c', if Opt c' \<in> set os then OptArg c' else None) # xs, d))
      else ([], c'))"
  by pat_completeness auto
termination
  by (relation "measure (\<lambda>(Argv, os, c). length Argv - OptIndex c)")
    (auto dest!: GetOpt_advances [OF sym])

declare all_options.simps [simp del]

text \<open>
  The forms of an option on a command line: one that takes no argument (what follows the
  character in its string is ignored); one that takes an argument and has none, has it behind
  the character, or as the next string.
\<close>

datatype option_form =
    Flag char16 "char16 list"
  | Alone char16
  | Attached char16 "char16 list"
  | Separate char16 "char16 list"

fun strings :: "option_form \<Rightarrow> char16 list list" where
  "strings (Flag c junk) = [45 # c # junk]"
| "strings (Alone c) = [[45, c]]"
| "strings (Attached c a) = [45 # c # a]"
| "strings (Separate c a) = [[45, c], a]"

fun parsed :: "option_form \<Rightarrow> char16 \<times> char16 list option" where
  "parsed (Flag c junk) = (c, None)"
| "parsed (Alone c) = (c, None)"
| "parsed (Attached c a) = (c, Some a)"
| "parsed (Separate c a) = (c, Some a)"

text \<open>
  A form that can be told apart: an option that takes an argument is without one only in front
  of a string with a dash or at the end.
\<close>

fun proper :: "char16 list \<Rightarrow> option_form \<Rightarrow> char16 list list \<Rightarrow> bool" where
  "proper os (Flag c junk) rest \<longleftrightarrow> c \<notin> set os \<and> c \<noteq> 0"
| "proper os (Alone c) rest \<longleftrightarrow> c \<in> set os \<and> c \<noteq> 0 \<and> (rest = [] \<or> char_at (hd rest) 0 = 45)"
| "proper os (Attached c a) rest \<longleftrightarrow> c \<in> set os \<and> c \<noteq> 0 \<and> char_at a 0 \<noteq> 0"
| "proper os (Separate c a) rest \<longleftrightarrow> c \<in> set os \<and> c \<noteq> 0 \<and> char_at a 0 \<noteq> 45"

fun command_line :: "char16 list \<Rightarrow> option_form list \<Rightarrow> char16 list list \<Rightarrow> bool" where
  "command_line os [] rest \<longleftrightarrow> rest = [] \<or> hd rest = [45] \<or> char_at (hd rest) 0 \<noteq> 45"
| "command_line os (f # fs) rest \<longleftrightarrow> proper os f (concat (map strings fs) @ rest) \<and> command_line os fs rest"

lemma GetOpt_form:
  assumes "proper os f rest" and "OptIndex c = length before"
  shows "GetOpt (before @ strings f @ rest) (Some os) c =
    (EFI_SUCCESS, c\<lparr>OptIndex := length before + length (strings f), Opt := fst (parsed f),
       OptArg := (if fst (parsed f) \<in> set os then snd (parsed f) else OptArg c)\<rparr>)"
  using assms
  by (cases f; cases rest) (auto simp: GetOpt_def Let_def char_at_def nth_append)

lemma parsed_argument: "proper os f rest \<Longrightarrow> fst (parsed f) \<notin> set os \<Longrightarrow> snd (parsed f) = None"
  by (cases f) auto

lemma all_options_stops:
  assumes "command_line os [] rest" and "OptIndex c = length before"
  shows "all_options (before @ rest) os c =
    ([], c\<lparr>OptIndex := length before + (if rest \<noteq> [] \<and> hd rest = [45] then 1 else 0)\<rparr>)"
  using assms
  by (subst all_options.simps) (cases rest; auto simp: GetOpt_def Let_def char_at_def nth_append)

lemma all_options_forms:
  assumes "command_line os fs rest" and "OptIndex c = length before"
  shows "fst (all_options (before @ concat (map strings fs) @ rest) os c) = map parsed fs \<and>
    OptIndex (snd (all_options (before @ concat (map strings fs) @ rest) os c)) =
      length before + length (concat (map strings fs)) + (if rest \<noteq> [] \<and> hd rest = [45] then 1 else 0)"
  using assms
proof (induction fs arbitrary: before c)
  case Nil
  then show ?case using all_options_stops [of os rest c before] by auto
next
  case (Cons f fs)
  define d where "d = c\<lparr>OptIndex := length before + length (strings f), Opt := fst (parsed f),
       OptArg := (if fst (parsed f) \<in> set os then snd (parsed f) else OptArg c)\<rparr>"
  from Cons.prems have f: "proper os f (concat (map strings fs) @ rest)" by simp
  have "GetOpt (before @ strings f @ concat (map strings fs) @ rest) (Some os) c = (EFI_SUCCESS, d)"
    using GetOpt_form [OF f Cons.prems(2)] by (simp add: d_def)
  moreover have "(Opt d, if Opt d \<in> set os then OptArg d else None) = parsed f"
    using parsed_argument [OF f] by (auto simp: d_def prod_eq_iff)
  moreover note Cons.IH [of d "before @ strings f"]
  moreover have "OptIndex d = length (before @ strings f)" by (simp add: d_def)
  ultimately show ?case
    using Cons.prems
    by (simp add: all_options.simps [of "before @ strings f @ concat (map strings fs) @ rest"] split_beta)
qed

text \<open>
  C35: Calling GetOpt until it ends returns the options of a command line in order, each with its
  argument behind the character or in the next string, and leaves the index on the first string
  that is not an option, behind a lone dash.
\<close>

theorem GetOpt_parses:
  assumes "command_line os fs rest" and "OptIndex c = length before"
  shows "\<exists>d. all_options (before @ concat (map strings fs) @ rest) os c = (map parsed fs, d) \<and>
    drop (OptIndex d) (before @ concat (map strings fs) @ rest) =
      (if rest \<noteq> [] \<and> hd rest = [45] then tl rest else rest)"
proof -
  obtain xs d where r: "all_options (before @ concat (map strings fs) @ rest) os c = (xs, d)"
    by (cases "all_options (before @ concat (map strings fs) @ rest) os c")
  with all_options_forms [OF assms] show ?thesis
    by (cases rest) (auto simp: length_concat)
qed

text \<open>The command line \<open>x -v -ofile -n 7 - rest\<close> where \<open>o\<close> and \<open>n\<close> take arguments.\<close>

lemma GetOpt_parses_witness:
  "\<exists>d. all_options [[120], [45, 118], [45, 111, 102], [45, 110], [55], [45], [114]] [111, 110]
     \<lparr>OptIndex = 1, Opt = 0, OptArg = None\<rparr> =
     ([(118, None), (111, Some [102]), (110, Some [55])], d) \<and>
    drop (OptIndex d) [[120], [45, 118], [45, 111, 102], [45, 110], [55], [45], [114]] = [[114 :: char16]]"
  using GetOpt_parses [of "[111, 110]" "[Flag 118 [], Attached 111 [102], Separate 110 [55]]" "[[45], [114]]"
      "\<lparr>OptIndex = 1, Opt = 0, OptArg = None\<rparr>" "[[120]]"]
  by (simp add: char_at_def)

end
