(* ===== verification/Reset_Count.thy ===== *)
theory Reset_Count
  imports Str_Token
begin

text \<open>
  \<^verbatim>\<open>AppSrc/ResetCountApp/ResetCountApp.c\<close>: resets the machine again and again and counts the
  resets in a variable.  The firmware's events, keys and variable services are parameters of one
  run; the machine that runs the tool at every boot is a step relation.
\<close>

section \<open>The prompts\<close>

text \<open>One pass of the waiting loop: whether each event is signalled, and what the console returns.\<close>

datatype key_read = NOT_READY | READ_FAILED | KEY char16

record prompt_env =
  CreateTimeoutEvent :: efi_status
  SetTimeoutTimer :: efi_status
  CreateDescendEvent :: efi_status
  SetDescendTimer :: efi_status
  TimeoutSignalled :: "nat \<Rightarrow> bool"
  DescendSignalled :: "nat \<Rightarrow> bool"
  ReadKeyStroke :: "nat \<Rightarrow> key_read"
  Key_junk :: char16
  Status_junk :: efi_status

text \<open>\<open>EFI_ABORTED\<close> is known to the callers as an error only.\<close>

definition EFI_ABORTED :: efi_status where
  "EFI_ABORTED = EFI_OTHER_ERROR 21"

definition is_q :: "char16 \<Rightarrow> bool" where
  "is_q c \<longleftrightarrow> c = 81 \<or> c = 113"

text \<open>The loop, in its \<open>i\<close>-th pass; a failed read leaves the key as it was.\<close>

partial_function (option) wait_loop ::
  "prompt_env \<Rightarrow> nat \<Rightarrow> u8 \<Rightarrow> char16 \<Rightarrow> out list \<Rightarrow> (efi_status \<times> out list) option"
where
  "wait_loop E i Timeout Key os =
     (if TimeoutSignalled E i then Some (EFI_SUCCESS, os)
      else
        (let (Timeout, os) =
               (if DescendSignalled E i then (Timeout - 1, os @ [Print ''%d'' [hx Timeout]]) else (Timeout, os))
         in case ReadKeyStroke E i of
              NOT_READY \<Rightarrow> wait_loop E (i + 1) Timeout Key os
            | r \<Rightarrow>
                (let Key = (case r of KEY c \<Rightarrow> c | _ \<Rightarrow> Key) in
                 if is_q Key then Some (EFI_ABORTED, os) else wait_loop E (i + 1) Timeout Key os)))"

definition WaitUserInput_timeout :: "prompt_env \<Rightarrow> (efi_status \<times> out list) option" where
  "WaitUserInput_timeout E =
     (let os = [Print ''Enter q to quit, any other key to continue:'' []];
          leave = (\<lambda>(Status, os). (Status, os @ [Print '''' []]))
      in if EFI_ERROR (CreateTimeoutEvent E) then Some (CreateTimeoutEvent E, os)
         else if EFI_ERROR (SetTimeoutTimer E) then Some (leave (SetTimeoutTimer E, os))
         else if EFI_ERROR (CreateDescendEvent E) then Some (leave (CreateDescendEvent E, os))
         else if EFI_ERROR (SetDescendTimer E) then Some (leave (SetDescendTimer E, os))
         else map_option leave (wait_loop E 0 5 (Key_junk E) os))"

text \<open>
  The other prompt, which no caller uses: a line editor whose reads are not checked, so the last
  key counts again until the next one is there.  Only the word \<open>exit\<close> ends it; the status it
  returns was never set.
\<close>

partial_function (option) edit_line ::
  "prompt_env \<Rightarrow> nat \<Rightarrow> char16 \<Rightarrow> char16 list \<Rightarrow> out list \<Rightarrow> (char16 list \<times> nat \<times> char16 \<times> out list) option"
where
  "edit_line E i Key Buffer os =
     (let Key = (case ReadKeyStroke E i of KEY c \<Rightarrow> c | _ \<Rightarrow> Key) in
      if Key = 13 then Some (Buffer, i + 1, Key, os @ [Print '''' []])
      else if Key = 8 then
        (if Buffer \<noteq> [] then edit_line E (i + 1) Key (butlast Buffer) (os @ [Print ''(rubout)'' []])
         else edit_line E (i + 1) Key Buffer os)
      else if 0x20 \<le> Key \<and> length Buffer < 127
      then edit_line E (i + 1) Key (Buffer @ [Key]) (os @ [Print ''%c'' [hx Key]])
      else edit_line E (i + 1) Key Buffer os)"

definition exit_word :: "char16 list" where
  "exit_word = [101, 120, 105, 116]"

partial_function (option) prompt_loop ::
  "prompt_env \<Rightarrow> nat \<Rightarrow> char16 \<Rightarrow> out list \<Rightarrow> (efi_status \<times> out list) option"
where
  "prompt_loop E i Key os =
     Option.bind (edit_line E i Key [] (os @ [Print ''> '' []])) (\<lambda>(Buffer, i, Key, os).
       if Buffer = exit_word then Some (Status_junk E, os @ [Print ''Bye'' []])
       else prompt_loop E i Key (os @ [Print ''You typed: %s'' [Uni Buffer]]))"

datatype prompt_type = QuitContinueOrTimeOut | AnyKeyInput

definition WaitUserInput :: "prompt_env \<Rightarrow> prompt_type \<Rightarrow> (efi_status \<times> out list) option" where
  "WaitUserInput E Type =
     (case Type of
        QuitContinueOrTimeOut \<Rightarrow> WaitUserInput_timeout E
      | AnyKeyInput \<Rightarrow>
          prompt_loop E 0 (Key_junk E) [Print ''Enter q to quit, any other key/delay 5s to continue:'' []])"

section \<open>The tool\<close>

text \<open>
  One boot.  \<open>ReadError\<close>, \<open>WriteError\<close>: the status of the variable services apart from a missing
  variable.  \<open>Count_junk\<close>: what the uninitialised counter holds.
\<close>

record reset_boot =
  GetArgStatus :: efi_status
  reset_Argv :: "char16 list list"
  Count_junk :: u64
  ReadError :: efi_status
  WriteError :: efi_status
  StrHexToUintn :: "char16 list \<Rightarrow> u64"
  prompt :: prompt_env

datatype reset_outcome = Returned efi_status | ResetCold

definition GetVariable :: "reset_boot \<Rightarrow> u64 option \<Rightarrow> u64 \<Rightarrow> efi_status \<times> u64" where
  "GetVariable B v Count =
     (case v of
        None \<Rightarrow> (EFI_NOT_FOUND, Count)
      | Some c \<Rightarrow> if EFI_ERROR (ReadError B) then (ReadError B, Count) else (ReadError B, c))"

definition SetVariable :: "reset_boot \<Rightarrow> u64 option \<Rightarrow> u64 \<Rightarrow> efi_status \<times> u64 option" where
  "SetVariable B v Count =
     (if EFI_ERROR (WriteError B) then (WriteError B, v) else (WriteError B, Some Count))"

definition opt_help :: "char16 list" where "opt_help = [45, 104, 101, 108, 112]"
definition opt_info :: "char16 list" where "opt_info = [45, 105, 110, 102, 111]"
definition opt_clean :: "char16 list" where "opt_clean = [45, 99, 108, 101, 97, 110]"
definition opt_run :: "char16 list" where "opt_run = [45, 114, 117, 110]"
definition opt_setcount :: "char16 list" where "opt_setcount = [45, 115, 101, 116, 99, 111, 117, 110, 116]"

lemmas reset_options = opt_help_def opt_info_def opt_clean_def opt_run_def opt_setcount_def

definition reset_usage :: "out list" where
  "reset_usage =
     [Print ''ResetCountApp:  usage'' [], Print ''  ResetCountApp <...> [Count]'' [],
      Print ''  ResetCountApp -help '' [], Print ''  ResetCountApp -info '' [],
      Print ''  ResetCountApp -clean '' [], Print ''  ResetCountApp -run '' [],
      Print ''  ResetCountApp -setcount count '' [], Print ''  -info: Print ResetCount'' [],
      Print ''  -clean: clean ResetCount'' [], Print ''  -run: run ResetCount, no stop'' [],
      Print ''  -setcount: run ResetCount to count stop'' [], Print ''Parameter:'' []]"

text \<open>The end of \<open>UefiMain\<close>: the prompt and the reset.\<close>

definition ask_and_reset ::
  "reset_boot \<Rightarrow> u64 \<Rightarrow> u64 option \<Rightarrow> out list \<Rightarrow> (reset_outcome \<times> u64 option \<times> out list) option"
where
  "ask_and_reset B Count v os =
     map_option (\<lambda>(Status, os').
       if EFI_ERROR Status
       then (Returned EFI_SUCCESS, v, os @ os' @ [Print ''Cancel %d reset'' [hx Count]])
       else (ResetCold, v, os @ os' @ [Print ''Start %d reset'' [hx Count]]))
     (WaitUserInput (prompt B) QuitContinueOrTimeOut)"

definition Reset_UefiMain ::
  "reset_boot \<Rightarrow> u64 option \<times> out list \<Rightarrow> (reset_outcome \<times> u64 option \<times> out list) option"
where
  "Reset_UefiMain B = (\<lambda>(v, os).
     (let Argv = reset_Argv B; Argc = length Argv; Count = Count_junk B in
      if EFI_ERROR (GetArgStatus B)
      then Some (Returned (GetArgStatus B), v, os @ [Print ''Please use UEFI SHELL to run this application!'' []])
      else if Argc < 2 then Some (Returned EFI_INVALID_PARAMETER, v, os @ reset_usage)
      else if Argv ! 1 = opt_help then Some (Returned EFI_INVALID_PARAMETER, v, os @ reset_usage)
      else if Argv ! 1 = opt_info then
        (let (Status, Count) = GetVariable B v Count;
             (Count, os) = (if EFI_ERROR Status then (0, os @ [Print ''No reset count %r!!!'' [Sts Status]])
                            else (Count, os))
         in Some (Returned Status, v, os @ [Print ''ResetCount is %d '' [hx Count]]))
      else if Argv ! 1 = opt_clean then
        (let os = os @ [Print ''ResetCount is %d, will clean to 0'' [hx Count]];
             (Status, v) = SetVariable B v 0
         in Some (Returned Status, v, os))
      else if Argv ! 1 = opt_run \<or> Argv ! 1 = opt_setcount then
        (let (_, Count) = GetVariable B v Count;
             Count = Count + 1;
             (Status, v) = SetVariable B v Count
         in if EFI_ERROR Status then Some (Returned Status, v, os)
            else if Argv ! 1 = opt_setcount \<and> 2 < Argc \<and> StrHexToUintn B (Argv ! 2) \<le> Count
            then Some (Returned EFI_SUCCESS, v, os @ [Print ''ResetCount %d end!'' [hx Count]])
            else ask_and_reset B Count v os)
      else ask_and_reset B Count v os))"

section \<open>Boot after boot\<close>

text \<open>
  The machine starts the tool at every boot, each time as one of \<open>Bs\<close>: it is about to run it, or
  the tool has returned to the shell.  The variable survives a reset.
\<close>

datatype machine = Booting "u64 option" | Idle "u64 option"

inductive boot :: "reset_boot set \<Rightarrow> machine \<Rightarrow> machine \<Rightarrow> bool" for Bs where
  again: "B \<in> Bs \<Longrightarrow> Reset_UefiMain B (v, []) = Some (ResetCold, v', os) \<Longrightarrow> boot Bs (Booting v) (Booting v')"
| stop: "B \<in> Bs \<Longrightarrow> Reset_UefiMain B (v, []) = Some (Returned s, v', os) \<Longrightarrow> boot Bs (Booting v) (Idle v')"

inductive_simps boot_simps: "boot Bs (Booting v) m"
inductive_cases boot_from_idle: "boot Bs (Idle v) m"

lemma boot_idle [simp]: "\<not> boot Bs (Idle v) m"
  by (auto elim: boot_from_idle)

end
