(* ===== verification/Reset_Count_Props.thy ===== *)
theory Reset_Count_Props
  imports Reset_Count
begin

text \<open>
  What ResetCountApp does over many boots, and when its prompt ends.
\<close>

section \<open>The prompt\<close>

text \<open>The key in the variable before a pass, and the passes in which it asks to quit.\<close>

fun key_before :: "prompt_env \<Rightarrow> nat \<Rightarrow> char16" where
  "key_before E 0 = Key_junk E"
| "key_before E (Suc i) = (case ReadKeyStroke E i of KEY c \<Rightarrow> c | _ \<Rightarrow> key_before E i)"

definition quits_at :: "prompt_env \<Rightarrow> nat \<Rightarrow> bool" where
  "quits_at E i \<longleftrightarrow> ReadKeyStroke E i \<noteq> NOT_READY \<and> is_q (key_before E (Suc i))"

definition events_ok :: "prompt_env \<Rightarrow> bool" where
  "events_ok E \<longleftrightarrow> (\<forall>s \<in> {CreateTimeoutEvent E, SetTimeoutTimer E, CreateDescendEvent E, SetDescendTimer E}. \<not> EFI_ERROR s)"

lemma wait_loop_result:
  assumes "i \<le> n" and "TimeoutSignalled E n" and "\<forall>j<n. \<not> TimeoutSignalled E j"
  shows "\<exists>os'. wait_loop E i t (key_before E i) os =
    Some (if \<exists>j. i \<le> j \<and> j < n \<and> quits_at E j then EFI_ABORTED else EFI_SUCCESS, os')"
  using assms(1)
proof (induction "n - i" arbitrary: i t os)
  case 0
  then have "i = n" by simp
  with assms(2) show ?case by (subst wait_loop.simps) auto
next
  case (Suc k)
  then have i: "i < n" "\<not> TimeoutSignalled E i" using assms(3) by auto
  have ex: "(\<exists>j. i \<le> j \<and> j < n \<and> quits_at E j) \<longleftrightarrow>
      quits_at E i \<or> (\<exists>j. Suc i \<le> j \<and> j < n \<and> quits_at E j)"
    using i(1) by (metis Suc_leD Suc_le_eq le_less)
  have IH: "\<exists>os'. wait_loop E (Suc i) t (key_before E (Suc i)) os =
      Some (if \<exists>j. Suc i \<le> j \<and> j < n \<and> quits_at E j then EFI_ABORTED else EFI_SUCCESS, os')" for t os
    using Suc.hyps(1) [of "Suc i" t os] Suc.hyps(2) i(1) by (simp del: key_before.simps)
  show ?case
  proof (cases "ReadKeyStroke E i")
    case NOT_READY
    with IH i show ?thesis unfolding ex
      by (subst wait_loop.simps) (auto simp: quits_at_def [of E i] Let_def split: prod.split)
  next
    case READ_FAILED
    with IH i show ?thesis unfolding ex
      by (subst wait_loop.simps) (auto simp: quits_at_def [of E i] Let_def split: prod.split)
  next
    case (KEY c)
    with IH i show ?thesis unfolding ex
      by (subst wait_loop.simps) (auto simp: quits_at_def [of E i] Let_def split: prod.split)
  qed
qed

text \<open>
  The prompt ends as soon as its timer fires, and reports an abort exactly when a key read
  before was a q.  No other key ends it, although it says that any other key continues.
\<close>

theorem WaitUserInput_ends:
  assumes "events_ok E" and "TimeoutSignalled E n" and "\<forall>j<n. \<not> TimeoutSignalled E j"
  shows "\<exists>os. WaitUserInput E QuitContinueOrTimeOut =
    Some (if \<exists>j<n. quits_at E j then EFI_ABORTED else EFI_SUCCESS, os)"
proof -
  have "\<not> EFI_ERROR (CreateTimeoutEvent E)" "\<not> EFI_ERROR (SetTimeoutTimer E)"
    "\<not> EFI_ERROR (CreateDescendEvent E)" "\<not> EFI_ERROR (SetDescendTimer E)"
    using assms(1) by (simp_all add: events_ok_def)
  moreover from wait_loop_result [of 0 n E 5 "[Print ''Enter q to quit, any other key to continue:'' []]"] assms(2,3)
  obtain os' where "wait_loop E 0 5 (Key_junk E) [Print ''Enter q to quit, any other key to continue:'' []] =
      Some (if \<exists>j<n. quits_at E j then EFI_ABORTED else EFI_SUCCESS, os')"
    by auto
  ultimately show ?thesis
    by (simp add: WaitUserInput_def WaitUserInput_timeout_def Let_def)
qed

section \<open>Counting\<close>

text \<open>A boot with the given option whose variable services work.\<close>

definition counting :: "char16 list list \<Rightarrow> reset_boot \<Rightarrow> bool" where
  "counting args B \<longleftrightarrow>
     GetArgStatus B = EFI_SUCCESS \<and> tl (reset_Argv B) = args \<and> length (reset_Argv B) = Suc (length args)
     \<and> \<not> EFI_ERROR (ReadError B) \<and> \<not> EFI_ERROR (WriteError B)"

text \<open>The prompt ends, without or with a wish to quit.\<close>

definition answered :: "reset_boot \<Rightarrow> bool \<Rightarrow> bool" where
  "answered B quit \<longleftrightarrow> (\<exists>Status os. WaitUserInput (prompt B) QuitContinueOrTimeOut = Some (Status, os)
     \<and> EFI_ERROR Status = quit)"

definition setcount_boot :: "char16 list \<Rightarrow> u64 \<Rightarrow> reset_boot \<Rightarrow> bool" where
  "setcount_boot n N B \<longleftrightarrow> counting [opt_setcount, n] B \<and> StrHexToUintn B n = N"

lemma ask_and_reset_answered:
  "answered B quit \<Longrightarrow> \<exists>os'. ask_and_reset B Count v os =
     Some (if quit then Returned EFI_SUCCESS else ResetCold, v, os')"
  by (auto simp: answered_def ask_and_reset_def)

text \<open>The counter with which the tool goes on: that of the variable, or what was on the stack.\<close>

definition old_count :: "reset_boot \<Rightarrow> u64 option \<Rightarrow> u64" where
  "old_count B v = (case v of None \<Rightarrow> Count_junk B | Some c \<Rightarrow> c)"

lemma setcount_main:
  assumes "setcount_boot n N B" and "answered B quit"
  shows "\<exists>os. Reset_UefiMain B (v, []) =
    Some (if N \<le> old_count B v + 1 \<or> quit then Returned EFI_SUCCESS else ResetCold,
      Some (old_count B v + 1), os)"
proof -
  from assms(1) obtain prog where argv: "reset_Argv B = [prog, opt_setcount, n]"
    by (auto simp: setcount_boot_def counting_def length_Suc_conv)
  have "\<not> EFI_ERROR (GetArgStatus B)" "snd (GetVariable B v (Count_junk B)) = old_count B v"
    "SetVariable B v c = (WriteError B, Some c)" "\<not> EFI_ERROR (WriteError B)" for c
    using assms(1)
    by (auto simp: setcount_boot_def counting_def GetVariable_def SetVariable_def old_count_def split: option.split)
  then show ?thesis
    using assms(1) ask_and_reset_answered [OF assms(2), of "old_count B v + 1" "Some (old_count B v + 1)" "[]"]
    by (simp add: Reset_UefiMain_def argv Let_def reset_options setcount_boot_def split_beta)
qed

lemma run_main:
  assumes "counting [opt_run] B" and "answered B False"
  shows "\<exists>os. Reset_UefiMain B (Some c, []) = Some (ResetCold, Some (c + 1), os)"
proof -
  from assms(1) obtain prog where argv: "reset_Argv B = [prog, opt_run]"
    by (auto simp: counting_def length_Suc_conv)
  then show ?thesis
    using assms(1) ask_and_reset_answered [OF assms(2), of "c + 1" "Some (c + 1)" "[]"]
    by (auto simp: Reset_UefiMain_def counting_def GetVariable_def SetVariable_def Let_def reset_options split_beta)
qed

text \<open>A boot that nobody interrupts.\<close>

lemma boot_setcount:
  assumes "Bs \<noteq> {}" and "\<forall>B\<in>Bs. setcount_boot n N B \<and> answered B False"
  shows "boot Bs (Booting (Some c)) m \<longleftrightarrow>
    m = (if N \<le> c + 1 then Idle (Some (c + 1)) else Booting (Some (c + 1)))"
proof -
  have run: "\<exists>os. Reset_UefiMain B (Some c, []) =
      Some (if N \<le> c + 1 then Returned EFI_SUCCESS else ResetCold, Some (c + 1), os)" if "B \<in> Bs" for B
    using setcount_main [of n N B False "Some c"] assms(2) that by (simp add: old_count_def)
  with assms(1) show ?thesis
    unfolding boot_simps by (auto, fastforce+)
qed

lemma boot_run:
  assumes "Bs \<noteq> {}" and "\<forall>B\<in>Bs. counting [opt_run] B \<and> answered B False"
  shows "boot Bs (Booting (Some c)) m \<longleftrightarrow> m = Booting (Some (c + 1))"
proof -
  have "\<exists>os. Reset_UefiMain B (Some c, []) = Some (ResetCold, Some (c + 1), os)" if "B \<in> Bs" for B
    using run_main assms(2) that by blast
  with assms(1) show ?thesis
    unfolding boot_simps by (auto, fastforce+)
qed

section \<open>Runs\<close>

lemma unat_plus_small:
  "unat (c :: u64) + k < 2 ^ 64 \<Longrightarrow> unat (c + of_nat k) = unat c + k"
  by (simp add: unat_word_ariths unat_of_nat)

text \<open>
  C13: Left alone, ResetCountApp -setcount N started at every boot with the variable at c < N
  boots exactly N - c times, one more in the variable at each, and then stays in the shell with
  the variable at N.
\<close>

theorem setcount_boots:
  assumes "Bs \<noteq> {}" and "\<forall>B\<in>Bs. setcount_boot n N B \<and> answered B False" and "c < N"
  shows "(boot Bs ^^ k) (Booting (Some c)) m \<longleftrightarrow>
    k < unat N - unat c \<and> m = Booting (Some (c + of_nat k)) \<or>
    k = unat N - unat c \<and> m = Idle (Some N)"
proof (induction k arbitrary: m)
  case 0
  have "unat c < unat N" using assms(3) by (simp add: word_less_nat_alt)
  then show ?case by auto
next
  case (Suc k)
  note step = boot_setcount [OF assms(1,2)]
  have cN: "unat c < unat N" "unat N < 2 ^ 64"
    using assms(3) unat_widths(4) [of N] by (simp_all add: word_less_nat_alt)
  have up: "c + of_nat k + 1 = c + of_nat (Suc k)" by simp
  show ?case
  proof (cases "k < unat N - unat c")
    case True
    then have small: "unat (c + of_nat (Suc k)) = unat c + Suc k"
      using cN by (intro unat_plus_small) simp
    have fin: "N \<le> c + of_nat (Suc k) \<longleftrightarrow> Suc k = unat N - unat c"
      using True cN unfolding word_le_nat_alt small by arith
    have at_N: "Suc k = unat N - unat c \<Longrightarrow> c + of_nat (Suc k) = N"
      using small cN by (simp add: word_unat_eq_iff del: of_nat_Suc)
    show ?thesis
      using True by (auto simp: relcompp_apply Suc.IH step fin at_N up simp del: of_nat_Suc)
  next
    case False
    then show ?thesis by (auto simp: relcompp_apply Suc.IH)
  qed
qed

text \<open>With \<open>-run\<close> no boot is the last one.\<close>

lemma run_boots:
  assumes "Bs \<noteq> {}" and "\<forall>B\<in>Bs. counting [opt_run] B \<and> answered B False"
  shows "(boot Bs ^^ k) (Booting (Some c)) m \<longleftrightarrow> m = Booting (Some (c + of_nat k))"
  by (induction k arbitrary: m) (auto simp: relcompp_apply boot_run [OF assms] add.assoc add.commute [of 1])

text \<open>
  C14: Whatever the user answers, the variable never leaves the range from c to N: a machine
  about to run the tool has not reached N, or has not run it yet, and a machine left in the
  shell has counted at least once.
\<close>

theorem setcount_reachable:
  assumes "\<forall>B\<in>Bs. setcount_boot n N B \<and> (\<exists>quit. answered B quit)" and "c < N"
    and "(boot Bs)\<^sup>*\<^sup>* (Booting (Some c)) m"
  shows "case m of Booting v \<Rightarrow> \<exists>d. v = Some d \<and> c \<le> d \<and> d < N | Idle v \<Rightarrow> \<exists>d. v = Some d \<and> c < d \<and> d \<le> N"
  using assms(3)
proof (induction rule: rtranclp_induct)
  case base
  then show ?case using assms(2) by simp
next
  case (step m m')
  from step.hyps(2) obtain B v s v' os where B: "B \<in> Bs" "m = Booting v"
    and main: "Reset_UefiMain B (v, []) = Some (s, v', os)"
    and m': "m' = (if s = ResetCold then Booting v' else Idle v')"
    by (cases rule: boot.cases) auto
  from step.IH B(2) obtain d where d: "v = Some d" "c \<le> d" "d < N" by auto
  have bounds: "c < d + 1" "d + 1 \<le> N"
    using d(2,3) unat_plus_small [of d 1] unat_widths(4) [of N]
    by (simp_all add: word_less_nat_alt word_le_nat_alt)
  from assms(1) B(1) obtain quit where "setcount_boot n N B" "answered B quit" by blast
  from setcount_main [OF this, of v] main d(1)
  have "s = (if N \<le> d + 1 \<or> quit then Returned EFI_SUCCESS else ResetCold)" "v' = Some (d + 1)"
    by (auto simp: old_count_def)
  with bounds m' show ?case by auto
qed

text \<open>
  On the first run the counter starts from what the stack holds: if that is N - 1 or more, the
  machine is never reset.
\<close>

theorem setcount_first_run:
  assumes "setcount_boot n N B" and "answered B quit" and "N \<le> Count_junk B + 1"
  shows "boot {B} (Booting None) m \<longleftrightarrow> m = Idle (Some (Count_junk B + 1))"
  using setcount_main [OF assms(1,2), of None] assms(3)
  by (auto simp: boot_simps old_count_def)

section \<open>Witnesses\<close>

text \<open>
  A machine without a keyboard whose timer fires in the third pass, and one whose user types a q.
\<close>

definition sample_prompt :: "char16 option \<Rightarrow> prompt_env" where
  "sample_prompt key = \<lparr>CreateTimeoutEvent = EFI_SUCCESS, SetTimeoutTimer = EFI_SUCCESS,
     CreateDescendEvent = EFI_SUCCESS, SetDescendTimer = EFI_SUCCESS, TimeoutSignalled = (\<lambda>i. 2 \<le> i),
     DescendSignalled = (\<lambda>i. i = 1),
     ReadKeyStroke = (\<lambda>i. if i = 1 then (case key of None \<Rightarrow> NOT_READY | Some c \<Rightarrow> KEY c) else NOT_READY),
     Key_junk = 113, Status_junk = EFI_SUCCESS\<rparr>"

lemma less_2: "(\<exists>j<2::nat. P j) \<longleftrightarrow> P 0 \<or> P 1"
  by (auto simp: less_2_cases_iff)

text \<open>The key x does not end the prompt, the key q does.\<close>

lemma WaitUserInput_ends_witness:
  "(\<exists>os. WaitUserInput (sample_prompt (Some 120)) QuitContinueOrTimeOut = Some (EFI_SUCCESS, os)) \<and>
   (\<exists>os. WaitUserInput (sample_prompt (Some 113)) QuitContinueOrTimeOut = Some (EFI_ABORTED, os))"
proof -
  have ok: "events_ok (sample_prompt k)" "TimeoutSignalled (sample_prompt k) 2"
    "\<forall>j<2. \<not> TimeoutSignalled (sample_prompt k) j" for k
    by (auto simp: events_ok_def sample_prompt_def)
  show ?thesis
    using WaitUserInput_ends [OF ok, of "Some 120"] WaitUserInput_ends [OF ok, of "Some 113"]
    by (simp add: less_2 quits_at_def sample_prompt_def is_q_def)
qed

definition sample_boot :: "u64 \<Rightarrow> reset_boot" where
  "sample_boot junk = \<lparr>GetArgStatus = EFI_SUCCESS, reset_Argv = [[82], opt_setcount, [53]],
     Count_junk = junk, ReadError = EFI_SUCCESS, WriteError = EFI_SUCCESS,
     StrHexToUintn = (\<lambda>s. if s = [53] then 5 else 0), prompt = sample_prompt None\<rparr>"

lemma sample_boot_ok: "setcount_boot [53] 5 (sample_boot junk)" "answered (sample_boot junk) False"
proof -
  show "setcount_boot [53] 5 (sample_boot junk)"
    by (simp add: setcount_boot_def counting_def sample_boot_def)
  have "events_ok (prompt (sample_boot junk))" "TimeoutSignalled (prompt (sample_boot junk)) 2"
    "\<forall>j<2. \<not> TimeoutSignalled (prompt (sample_boot junk)) j"
    by (auto simp: events_ok_def sample_prompt_def sample_boot_def)
  moreover have "\<not> quits_at (prompt (sample_boot junk)) j" for j
    by (simp add: quits_at_def sample_prompt_def sample_boot_def)
  moreover from wait_loop_result [OF le0 calculation(2,3), of 5]
  have "\<exists>os'. wait_loop (prompt (sample_boot junk)) 0 5 (Key_junk (prompt (sample_boot junk))) os = Some (EFI_SUCCESS, os')" for os
    using calculation(4) by simp
  ultimately show "answered (sample_boot junk) False"
    by (fastforce simp: answered_def WaitUserInput_def WaitUserInput_timeout_def events_ok_def Let_def)
qed

text \<open>From 2 the machine boots three times until the variable is 5.\<close>

lemma setcount_boots_witness:
  "(boot {sample_boot 0} ^^ 3) (Booting (Some 2)) (Idle (Some 5)) \<and>
   (\<forall>m. \<not> (boot {sample_boot 0} ^^ 4) (Booting (Some 2)) m)"
  using setcount_boots [of "{sample_boot 0}" "[53]" 5 2 3 "Idle (Some 5)"]
    setcount_boots [of "{sample_boot 0}" "[53]" 5 2 4] sample_boot_ok
  by simp

lemma setcount_reachable_witness:
  "(boot {sample_boot 0})\<^sup>*\<^sup>* (Booting (Some 2)) (Booting (Some 3)) \<and>
   (\<exists>d. Some (3 :: u64) = Some d \<and> 2 \<le> d \<and> d < 5)"
proof -
  have "boot {sample_boot 0} (Booting (Some 2)) (Booting (Some 3))"
    using boot_setcount [of "{sample_boot 0}" "[53]" 5 2] sample_boot_ok by simp
  then have run: "(boot {sample_boot 0})\<^sup>*\<^sup>* (Booting (Some 2)) (Booting (Some 3))" by blast
  from setcount_reachable [OF _ _ this, of "[53]" 5] sample_boot_ok run
  show ?thesis by auto
qed

lemma setcount_first_run_witness:
  "boot {sample_boot 777} (Booting None) (Idle (Some 778))"
  using setcount_first_run [OF sample_boot_ok, of 777] by (simp add: sample_boot_def)

end
