(* ===== verification/Smm_Lists.thy ===== *)
theory Smm_Lists
  imports Pei_Hob
begin

text \<open>
  The linked lists of the SMM core, whose structures \<^verbatim>\<open>SmmCoreDump/SmmCore/PiSmmCore.h\<close> repeats, and
  the four functions of \<^verbatim>\<open>SmmCoreDump.c\<close> that find the head of a list.  The heads are variables of
  the SMM core that have no name outside: the module registers something of its own and follows
  the list from there to the node that is not one of the structures.
\<close>

section \<open>Structures\<close>

text \<open>The offsets of the fields on X64; a \<open>LIST_ENTRY\<close> starts with its forward link.\<close>

definition EFI_HANDLE_SIGNATURE :: u64 where
  "EFI_HANDLE_SIGNATURE = ucast (SIGNATURE_32 (CHR ''h'') (CHR ''n'') (CHR ''d'') (CHR ''l''))"

definition PROTOCOL_ENTRY_SIGNATURE :: u64 where
  "PROTOCOL_ENTRY_SIGNATURE = ucast (SIGNATURE_32 (CHR ''p'') (CHR ''r'') (CHR ''t'') (CHR ''e''))"

definition PROTOCOL_INTERFACE_SIGNATURE :: u64 where
  "PROTOCOL_INTERFACE_SIGNATURE = ucast (SIGNATURE_32 (CHR ''p'') (CHR ''i'') (CHR ''f'') (CHR ''c''))"

definition SMI_ENTRY_SIGNATURE :: u64 where
  "SMI_ENTRY_SIGNATURE = ucast (SIGNATURE_32 (CHR ''s'') (CHR ''m'') (CHR ''i'') (CHR ''e''))"

definition SMI_HANDLER_SIGNATURE :: u64 where
  "SMI_HANDLER_SIGNATURE = ucast (SIGNATURE_32 (CHR ''s'') (CHR ''m'') (CHR ''i'') (CHR ''h''))"

definition ptr :: "mem \<Rightarrow> addr \<Rightarrow> addr" where
  "ptr m p = unat (rd64 m p)"

abbreviation ForwardLink :: "mem \<Rightarrow> addr \<Rightarrow> addr" where
  "ForwardLink m p \<equiv> ptr m p"

abbreviation (input) o_AllHandles :: nat where "o_AllHandles \<equiv> 8"
abbreviation (input) o_Handle_Protocols :: nat where "o_Handle_Protocols \<equiv> 24"
abbreviation (input) o_AllEntries :: nat where "o_AllEntries \<equiv> 8"
abbreviation (input) o_ProtocolID :: nat where "o_ProtocolID \<equiv> 24"
abbreviation (input) o_Entry_Protocols :: nat where "o_Entry_Protocols \<equiv> 40"
abbreviation (input) o_Notify :: nat where "o_Notify \<equiv> 56"
abbreviation (input) o_Interface_Link :: nat where "o_Interface_Link \<equiv> 8"
abbreviation (input) o_ByProtocol :: nat where "o_ByProtocol \<equiv> 32"
abbreviation (input) o_Protocol :: nat where "o_Protocol \<equiv> 48"
abbreviation (input) o_Interface :: nat where "o_Interface \<equiv> 56"
abbreviation (input) o_Notify_Link :: nat where "o_Notify_Link \<equiv> 16"
abbreviation (input) o_Function :: nat where "o_Function \<equiv> 32"
abbreviation (input) o_Smi_AllEntries :: nat where "o_Smi_AllEntries \<equiv> 8"
abbreviation (input) o_HandlerType :: nat where "o_HandlerType \<equiv> 24"
abbreviation (input) o_SmiHandlers :: nat where "o_SmiHandlers \<equiv> 40"
abbreviation (input) o_Handler_Link :: nat where "o_Handler_Link \<equiv> 8"
abbreviation (input) o_Handler :: nat where "o_Handler \<equiv> 24"
abbreviation (input) o_SmiEntry :: nat where "o_SmiEntry \<equiv> 40"

section \<open>Loops over a list\<close>

text \<open>
  \<open>for (e = head->ForwardLink; e != head; e = e->ForwardLink)\<close>: a search that may stop at a node,
  and the nodes of a loop that runs to the end.  \<open>None\<close>: the head is never reached.
\<close>

partial_function (option) search ::
  "mem \<Rightarrow> (addr \<Rightarrow> 'a option option) \<Rightarrow> addr \<Rightarrow> addr \<Rightarrow> 'a option option"
where
  "search m f head e =
     (if e = head then Some None
      else Option.bind (f e) (\<lambda>r. case r of Some x \<Rightarrow> Some (Some x) | None \<Rightarrow> search m f head (ForwardLink m e)))"

partial_function (option) nodes_from :: "mem \<Rightarrow> addr \<Rightarrow> addr \<Rightarrow> addr list option" where
  "nodes_from m head e =
     (if e = head then Some [] else Option.bind (nodes_from m head (ForwardLink m e)) (\<lambda>es. Some (e # es)))"

definition nodes :: "mem \<Rightarrow> addr \<Rightarrow> addr list option" where
  "nodes m head = nodes_from m head (ForwardLink m head)"

section \<open>The heads\<close>

text \<open>The first node behind \<open>start\<close> whose structure, \<open>off\<close> bytes in front, has another signature.\<close>

definition first_foreign :: "mem \<Rightarrow> nat \<Rightarrow> u64 \<Rightarrow> addr \<Rightarrow> addr option option" where
  "first_foreign m off Signature start =
     search m (\<lambda>e. Some (if rd64 m (e - off) \<noteq> Signature then Some e else None)) start (ForwardLink m start)"

text \<open>The heads, as module variables; a search without result leaves them.\<close>

record smm_heads =
  mSmmCoreHandleList :: addr
  mSmmCoreProtocolDatabase :: addr
  mSmmCoreRootSmiHandlerList :: addr
  mSmmCoreSmiEntryList :: addr

definition GetSmmCoreHandleList :: "mem \<Rightarrow> addr \<Rightarrow> smm_heads \<Rightarrow> smm_heads option" where
  "GetSmmCoreHandleList m IHandle g =
     Option.bind (first_foreign m o_AllHandles EFI_HANDLE_SIGNATURE (IHandle + o_AllHandles)) (\<lambda>r.
       Some (case r of None \<Rightarrow> g | Some e \<Rightarrow> g\<lparr>mSmmCoreHandleList := e\<rparr>))"

text \<open>A protocol entry, reached through the first protocol of the first handle that has one.\<close>

definition protocol_of_handle :: "mem \<Rightarrow> addr \<Rightarrow> addr option option" where
  "protocol_of_handle m Handle =
     search m
       (\<lambda>e. Some (let i = e - o_Interface_Link in
          if rd64 m i = PROTOCOL_INTERFACE_SIGNATURE \<and> ptr m (i + o_Protocol) \<noteq> NULL
          then Some (ptr m (i + o_Protocol)) else None))
       (Handle + o_Handle_Protocols) (ForwardLink m (Handle + o_Handle_Protocols))"

definition some_protocol_entry :: "mem \<Rightarrow> addr \<Rightarrow> addr option option" where
  "some_protocol_entry m IHandle =
     search m
       (\<lambda>e. let Handle = e - o_AllHandles in
            if rd64 m Handle = EFI_HANDLE_SIGNATURE then protocol_of_handle m Handle else Some None)
       (IHandle + o_AllHandles) (ForwardLink m (IHandle + o_AllHandles))"

definition GetSmmCoreProtocolDatabase :: "mem \<Rightarrow> addr \<Rightarrow> smm_heads \<Rightarrow> smm_heads option" where
  "GetSmmCoreProtocolDatabase m IHandle g =
     Option.bind (some_protocol_entry m IHandle)
       (\<lambda>IProtocolEntry.
          case IProtocolEntry of
            None \<Rightarrow> Some g
          | Some i \<Rightarrow>
              Option.bind (first_foreign m o_AllEntries PROTOCOL_ENTRY_SIGNATURE (i + o_AllEntries)) (\<lambda>r.
                Some (case r of None \<Rightarrow> g | Some e \<Rightarrow> g\<lparr>mSmmCoreProtocolDatabase := e\<rparr>)))"

definition GetSmmCoreSmiEntryList :: "mem \<Rightarrow> addr \<Rightarrow> smm_heads \<Rightarrow> smm_heads option" where
  "GetSmmCoreSmiEntryList m SmiHandler g =
     (let SmiEntry = ptr m (SmiHandler + o_SmiEntry) in
      Option.bind (first_foreign m o_Smi_AllEntries SMI_ENTRY_SIGNATURE (SmiEntry + o_Smi_AllEntries)) (\<lambda>r.
        Some (case r of None \<Rightarrow> g | Some e \<Rightarrow> g\<lparr>mSmmCoreSmiEntryList := e\<rparr>)))"

definition GetSmmCoreRootSmiHandlerList :: "mem \<Rightarrow> addr \<Rightarrow> smm_heads \<Rightarrow> smm_heads option" where
  "GetSmmCoreRootSmiHandlerList m SmiHandler g =
     Option.bind (first_foreign m o_Handler_Link SMI_HANDLER_SIGNATURE (SmiHandler + o_Handler_Link)) (\<lambda>r.
       Some (case r of None \<Rightarrow> g | Some e \<Rightarrow> g\<lparr>mSmmCoreRootSmiHandlerList := e\<rparr>))"

section \<open>Rings\<close>

text \<open>\<open>linked m e es t\<close>: following the forward links from \<open>e\<close> one meets \<open>es\<close> and then \<open>t\<close>.\<close>

fun linked :: "mem \<Rightarrow> addr \<Rightarrow> addr list \<Rightarrow> addr \<Rightarrow> bool" where
  "linked m e [] t \<longleftrightarrow> e = t"
| "linked m e (x # xs) t \<longleftrightarrow> e = x \<and> linked m (ForwardLink m x) xs t"

definition ring :: "mem \<Rightarrow> addr \<Rightarrow> addr list \<Rightarrow> bool" where
  "ring m head es \<longleftrightarrow> distinct (head # es) \<and> linked m (ForwardLink m head) es head"

lemma linked_append [simp]:
  "linked m e (xs @ ys) t \<longleftrightarrow> (\<exists>u. linked m e xs u \<and> linked m u ys t)"
  by (induction xs arbitrary: e) auto

lemma linked_fun: "linked m e xs t \<Longrightarrow> linked m e xs u \<Longrightarrow> t = u"
  by (induction xs arbitrary: e) auto

text \<open>A ring can be entered at any of its nodes.\<close>

lemma ring_rotate: "ring m head (xs @ h # ys) \<Longrightarrow> ring m h (ys @ head # xs)"
  by (auto simp: ring_def)

lemma search_none:
  "linked m e es head \<Longrightarrow> head \<notin> set es \<Longrightarrow> \<forall>x\<in>set es. f x = Some None \<Longrightarrow> search m f head e = Some None"
  by (induction es arbitrary: e) (subst search.simps, simp, subst search.simps, auto)

lemma search_first:
  "linked m e (xs @ y # ys) head \<Longrightarrow> head \<notin> set (xs @ [y]) \<Longrightarrow> \<forall>x\<in>set xs. f x = Some None \<Longrightarrow>
   f y = Some (Some r) \<Longrightarrow> search m f head e = Some (Some r)"
  by (induction xs arbitrary: e) (subst search.simps, simp, subst search.simps, auto)

lemma nodes_ring: "ring m head es \<Longrightarrow> nodes m head = Some es"
proof -
  have "nodes_from m head e = Some es" if "linked m e es head" "head \<notin> set es" for e
    using that by (induction es arbitrary: e) (subst nodes_from.simps, simp, subst nodes_from.simps, auto)
  moreover assume "ring m head es"
  ultimately show ?thesis by (simp add: nodes_def ring_def)
qed

text \<open>
  In a ring whose nodes carry the signature and whose head does not, the search from any node
  finds the head.
\<close>

lemma first_foreign_head:
  assumes "ring m head (xs @ h # ys)" and "\<forall>e\<in>set (xs @ ys). rd64 m (e - off) = Signature"
    and "rd64 m (head - off) \<noteq> Signature"
  shows "first_foreign m off Signature h = Some (Some head)"
proof -
  from ring_rotate [OF assms(1)] have r: "linked m (ForwardLink m h) (ys @ head # xs) h" "h \<notin> set (ys @ [head])"
    by (auto simp: ring_def)
  show ?thesis
    unfolding first_foreign_def using assms(2,3) by (intro search_first [OF r]) auto
qed

lemma search_stop [simp]: "search m f head head = Some None"
  by (subst search.simps) simp

lemma search_some:
  assumes "linked m e es head" "head \<notin> set es"
    and "\<And>x. x \<in> set es \<Longrightarrow> \<exists>r. f x = Some r \<and> (\<forall>y. r = Some y \<longrightarrow> P y)"
    and "\<exists>x\<in>set es. f x \<noteq> Some None"
  shows "\<exists>y. search m f head e = Some (Some y) \<and> P y"
  using assms
proof (induction es arbitrary: e)
  case Nil
  then show ?case by simp
next
  case (Cons x es)
  from Cons.prems(3) [of x] obtain r where r: "f x = Some r" "\<forall>y. r = Some y \<longrightarrow> P y" by auto
  with Cons show ?case by (subst search.simps) (cases r; auto)
qed

section \<open>The heads are found\<close>

text \<open>
  A ring of structures that start \<open>off\<close> bytes in front of their links and carry a signature; its
  head is a variable that does not look like one.
\<close>

definition ring_of :: "mem \<Rightarrow> nat \<Rightarrow> u64 \<Rightarrow> addr \<Rightarrow> addr list \<Rightarrow> bool" where
  "ring_of m off Signature head ss \<longleftrightarrow>
     ring m head (map (\<lambda>s. s + off) ss) \<and> (\<forall>s\<in>set ss. rd64 m s = Signature) \<and> rd64 m (head - off) \<noteq> Signature"

lemma ring_of_head:
  "ring_of m off Signature head ss \<Longrightarrow> s \<in> set ss \<Longrightarrow>
   first_foreign m off Signature (s + off) = Some (Some head)"
  by (auto simp: ring_of_def dest!: split_list) (rule first_foreign_head, auto)

lemma ring_of_nodes: "ring_of m off Signature head ss \<Longrightarrow> nodes m head = Some (map (\<lambda>s. s + off) ss)"
  by (auto simp: ring_of_def dest: nodes_ring)

text \<open>
  The handle database as the SMM core keeps it: a ring of handles, each with a ring of its
  protocol interfaces, and a ring of protocol entries.
\<close>

definition interfaces_ok :: "mem \<Rightarrow> addr list \<Rightarrow> addr \<Rightarrow> addr list \<Rightarrow> bool" where
  "interfaces_ok m entries h is \<longleftrightarrow>
     ring m (h + o_Handle_Protocols) (map (\<lambda>i. i + o_Interface_Link) is) \<and>
     (\<forall>i\<in>set is. rd64 m i = PROTOCOL_INTERFACE_SIGNATURE \<and> ptr m (i + o_Protocol) \<in> set entries)"

definition handles_ok :: "mem \<Rightarrow> addr \<Rightarrow> addr list \<Rightarrow> addr list \<Rightarrow> (addr \<Rightarrow> addr list) \<Rightarrow> bool" where
  "handles_ok m gHandleList hs entries ifs \<longleftrightarrow>
     ring_of m o_AllHandles EFI_HANDLE_SIGNATURE gHandleList hs \<and> NULL \<notin> set entries \<and>
     (\<forall>h\<in>set hs. interfaces_ok m entries h (ifs h))"

lemma protocol_of_handle_ok:
  assumes "interfaces_ok m entries h is" and "NULL \<notin> set entries"
  shows "\<exists>r. protocol_of_handle m h = Some r \<and> (r = None \<longleftrightarrow> is = []) \<and> (\<forall>p. r = Some p \<longrightarrow> p \<in> set entries)"
proof (cases "is")
  case Nil
  with assms show ?thesis by (simp add: interfaces_ok_def ring_def protocol_of_handle_def)
next
  case (Cons i js)
  have l: "linked m (ForwardLink m (h + o_Handle_Protocols))
      ([] @ (i + o_Interface_Link) # map (\<lambda>i. i + o_Interface_Link) js) (h + o_Handle_Protocols)"
    "h + o_Handle_Protocols \<notin> set ([] @ [i + o_Interface_Link])"
    using assms Cons by (auto simp: interfaces_ok_def ring_def)
  from assms Cons have i: "ptr m (i + o_Protocol) \<in> set entries" "rd64 m i = PROTOCOL_INTERFACE_SIGNATURE"
    by (auto simp: interfaces_ok_def)
  with assms(2) have "ptr m (i + o_Protocol) \<noteq> NULL" by metis
  with i search_first [OF l, of "\<lambda>e. Some (let i = e - o_Interface_Link in
          if rd64 m i = PROTOCOL_INTERFACE_SIGNATURE \<and> ptr m (i + o_Protocol) \<noteq> NULL
          then Some (ptr m (i + o_Protocol)) else None)" "ptr m (i + o_Protocol)"] Cons
  show ?thesis by (simp add: protocol_of_handle_def)
qed

lemma some_protocol_entry_found:
  assumes handles: "handles_ok m gHandleList hs entries ifs"
    and own: "own \<in> set hs" and other: "\<exists>h\<in>set hs. h \<noteq> own \<and> ifs h \<noteq> []"
  shows "\<exists>i. some_protocol_entry m own = Some (Some i) \<and> i \<in> set entries"
proof -
  from handles have ring: "ring_of m o_AllHandles EFI_HANDLE_SIGNATURE gHandleList hs"
    and ok: "\<forall>h\<in>set hs. interfaces_ok m entries h (ifs h)" and "NULL \<notin> set entries"
    by (auto simp: handles_ok_def)
  from own obtain xs ys where hs: "hs = xs @ own # ys" by (auto dest: split_list)
  let ?links = "map (\<lambda>h. h + o_AllHandles)"
  from ring have r: "linked m (ForwardLink m (own + o_AllHandles)) (?links ys @ gHandleList # ?links xs) (own + o_AllHandles)"
    "own + o_AllHandles \<notin> set (?links ys @ gHandleList # ?links xs)"
    using ring_rotate [of m gHandleList "?links xs" "own + o_AllHandles" "?links ys"]
    by (auto simp: ring_of_def hs ring_def)
  show ?thesis
    unfolding some_protocol_entry_def
  proof (rule search_some [OF r])
    fix e
    assume e: "e \<in> set (?links ys @ gHandleList # ?links xs)"
    show "\<exists>r. (let Handle = e - o_AllHandles in
           if rd64 m Handle = EFI_HANDLE_SIGNATURE then protocol_of_handle m Handle else Some None) = Some r \<and>
         (\<forall>y. r = Some y \<longrightarrow> y \<in> set entries)"
    proof (cases "e = gHandleList")
      case True
      with ring show ?thesis by (simp add: ring_of_def)
    next
      case False
      with e obtain h where "e = h + o_AllHandles" "h \<in> set hs" by (auto simp: hs)
      with protocol_of_handle_ok [OF _ \<open>NULL \<notin> set entries\<close>, of m h "ifs h"] ok show ?thesis by auto
    qed
  next
    from other obtain h where h: "h \<in> set hs" "h \<noteq> own" "ifs h \<noteq> []" by blast
    with protocol_of_handle_ok [OF _ \<open>NULL \<notin> set entries\<close>, of m h "ifs h"] ok
    have "protocol_of_handle m h \<noteq> Some None" by auto
    moreover have "rd64 m h = EFI_HANDLE_SIGNATURE" "h + o_AllHandles \<in> set (?links ys @ gHandleList # ?links xs)"
      using ring h by (auto simp: ring_of_def hs)
    ultimately show "\<exists>e\<in>set (?links ys @ gHandleList # ?links xs). (let Handle = e - o_AllHandles in
           if rd64 m Handle = EFI_HANDLE_SIGNATURE then protocol_of_handle m Handle else Some None) \<noteq> Some None"
      by (intro bexI [of _ "h + o_AllHandles"]) auto
  qed
qed

lemma GetSmmCore_heads_found:
  assumes handles: "handles_ok m gHandleList hs entries ifs"
    and database: "ring_of m o_AllEntries PROTOCOL_ENTRY_SIGNATURE mProtocolDatabase entries"
    and own: "own \<in> set hs" and other: "\<exists>h\<in>set hs. h \<noteq> own \<and> ifs h \<noteq> []"
  shows "GetSmmCoreHandleList m own g = Some (g\<lparr>mSmmCoreHandleList := gHandleList\<rparr>)"
    and "GetSmmCoreProtocolDatabase m own g = Some (g\<lparr>mSmmCoreProtocolDatabase := mProtocolDatabase\<rparr>)"
proof -
  from handles have "ring_of m o_AllHandles EFI_HANDLE_SIGNATURE gHandleList hs" by (simp add: handles_ok_def)
  from ring_of_head [OF this own]
  show "GetSmmCoreHandleList m own g = Some (g\<lparr>mSmmCoreHandleList := gHandleList\<rparr>)"
    by (simp add: GetSmmCoreHandleList_def)
  from some_protocol_entry_found [OF handles own other] ring_of_head [OF database]
  show "GetSmmCoreProtocolDatabase m own g = Some (g\<lparr>mSmmCoreProtocolDatabase := mProtocolDatabase\<rparr>)"
    by (auto simp: GetSmmCoreProtocolDatabase_def)
qed

text \<open>
  From the handle the module installed, wherever it stands in the SMM core's list, the two
  searches return and find the heads of the handle list and of the protocol database, as soon
  as any other handle has a protocol.
\<close>

theorem GetSmmCore_heads:
  assumes "handles_ok m gHandleList hs entries ifs"
    and "ring_of m o_AllEntries PROTOCOL_ENTRY_SIGNATURE mProtocolDatabase entries"
    and "own \<in> set hs" and "\<exists>h\<in>set hs. h \<noteq> own \<and> ifs h \<noteq> []"
  shows "GetSmmCoreHandleList m own g = Some (g\<lparr>mSmmCoreHandleList := gHandleList\<rparr>) \<and>
    GetSmmCoreProtocolDatabase m own g = Some (g\<lparr>mSmmCoreProtocolDatabase := mProtocolDatabase\<rparr>)"
  using GetSmmCore_heads_found [OF assms] by blast

text \<open>The same for the lists of SMI handlers.\<close>

lemma GetSmmCoreSmiEntryList_head:
  assumes "ring_of m o_Smi_AllEntries SMI_ENTRY_SIGNATURE mSmiEntryList es" "ptr m (SmiHandler + o_SmiEntry) \<in> set es"
  shows "GetSmmCoreSmiEntryList m SmiHandler g = Some (g\<lparr>mSmmCoreSmiEntryList := mSmiEntryList\<rparr>)"
  using ring_of_head [OF assms] by (simp add: GetSmmCoreSmiEntryList_def)

lemma GetSmmCoreRootSmiHandlerList_head:
  assumes "ring_of m o_Handler_Link SMI_HANDLER_SIGNATURE SmiHandlers hs" "SmiHandler \<in> set hs"
  shows "GetSmmCoreRootSmiHandlerList m SmiHandler g = Some (g\<lparr>mSmmCoreRootSmiHandlerList := SmiHandlers\<rparr>)"
  using ring_of_head [OF assms] by (simp add: GetSmmCoreRootSmiHandlerList_def)

end
