(* ===== verification/Smm_Handler.thy ===== *)
theory Smm_Handler
  imports Smm_Lists
begin

text \<open>
  The two ends of the channel by which the database leaves SMRAM: the SMI handler of
  \<^verbatim>\<open>SmmCoreDumpHandler.c\<close> and \<open>GetSmmCoreDatabase\<close> of \<^verbatim>\<open>SmmCoreDumpApp.c\<close>.  Both work on one memory.
  The layouts are those of \<^verbatim>\<open>SmmCoreDumpComm.h\<close>.
\<close>

section \<open>The messages\<close>

abbreviation (input) sizeof_PARAMETER_HEADER :: nat where "sizeof_PARAMETER_HEADER \<equiv> 16"
abbreviation (input) sizeof_GET_INFO :: nat where "sizeof_GET_INFO \<equiv> 24"
abbreviation (input) sizeof_GET_DATA :: nat where "sizeof_GET_DATA \<equiv> 40"
abbreviation (input) o_DataLength :: nat where "o_DataLength \<equiv> 4"
abbreviation (input) o_ReturnStatus :: nat where "o_ReturnStatus \<equiv> 8"
abbreviation (input) o_DumpSize :: nat where "o_DumpSize \<equiv> 16"
abbreviation (input) o_DumpBuffer :: nat where "o_DumpBuffer \<equiv> 24"
abbreviation (input) o_DumpOffset :: nat where "o_DumpOffset \<equiv> 32"

definition SMM_CORE_DUMP_COMMAND_GET_INFO :: u32 where
  "SMM_CORE_DUMP_COMMAND_GET_INFO = 1"

definition SMM_CORE_DUMP_COMMAND_GET_DATA_BY_OFFSET :: u32 where
  "SMM_CORE_DUMP_COMMAND_GET_DATA_BY_OFFSET = 2"

definition mSmmCoreDumpGuid :: guid where
  "mSmmCoreDumpGuid = [0x42, 0x43, 0x17, 0x49, 0x08, 0x71, 0x9b, 0x40, 0x8b, 0xbe, 0x65, 0xfd, 0xa8, 0x53, 0x89, 0xf5]"

definition wr64 :: "addr \<Rightarrow> u64 \<Rightarrow> mem \<Rightarrow> mem" where
  "wr64 p v m = store_at m p (w64 v)"

definition wr_32 :: "addr \<Rightarrow> u32 \<Rightarrow> mem \<Rightarrow> mem" where
  "wr_32 p v m = store_at m p (w32 v)"

definition CopyMem :: "addr \<Rightarrow> addr \<Rightarrow> nat \<Rightarrow> mem \<Rightarrow> mem" where
  "CopyMem dst src n m = store_at m dst (bytes_at m src n)"

section \<open>The handler\<close>

record smm_db =
  mSmmCoreDatabase :: addr
  mSmmCoreDatabaseSize :: u64
  mSmmCoreDumpRecordingStatus :: bool

text \<open>The memory, \<open>DumpSize\<close> and \<open>DumpOffset\<close> afterwards.\<close>

definition SmmCoreDumpCopyData ::
  "smm_db \<Rightarrow> addr \<Rightarrow> u64 \<Rightarrow> u64 \<Rightarrow> mem \<Rightarrow> mem \<times> u64 \<times> u64"
where
  "SmmCoreDumpCopyData S DumpBuffer DumpSize DumpOffset m =
     (if mSmmCoreDatabaseSize S \<le> DumpOffset then (m, DumpSize, mSmmCoreDatabaseSize S)
      else
        (let DumpSize = (if mSmmCoreDatabaseSize S - DumpOffset < DumpSize
                         then mSmmCoreDatabaseSize S - DumpOffset else DumpSize)
         in (CopyMem DumpBuffer (mSmmCoreDatabase S + unat DumpOffset) (unat DumpSize) m,
             DumpSize, DumpOffset + DumpSize)))"

definition SmmCoreDumpHandlerGetInfo :: "addr \<Rightarrow> smm_db \<times> mem \<Rightarrow> smm_db \<times> mem" where
  "SmmCoreDumpHandlerGetInfo p = (\<lambda>(S, m).
     (let RecordingStatus = mSmmCoreDumpRecordingStatus S;
          S = S\<lparr>mSmmCoreDumpRecordingStatus := False\<rparr>;
          m = wr64 (p + o_DumpSize) (mSmmCoreDatabaseSize S) m;
          m = wr64 (p + o_ReturnStatus) 0 m
      in (S\<lparr>mSmmCoreDumpRecordingStatus := RecordingStatus\<rparr>, m)))"

text \<open>\<open>EFI_ACCESS_DENIED\<close> as the code stores it: the error bit and 15.\<close>

definition ACCESS_DENIED :: u64 where
  "ACCESS_DENIED = 0x800000000000000F"

text \<open>
  \<open>SmmIsBufferOutsideSmmValid\<close> is a function of the address and the length.  The parameters are
  copied into SMRAM, checked and used there, and copied back.
\<close>

definition SmmCoreDumpHandlerGetDataByOffset ::
  "(u64 \<Rightarrow> u64 \<Rightarrow> bool) \<Rightarrow> addr \<Rightarrow> smm_db \<times> mem \<Rightarrow> smm_db \<times> mem"
where
  "SmmCoreDumpHandlerGetDataByOffset valid p = (\<lambda>(S, m).
     (let RecordingStatus = mSmmCoreDumpRecordingStatus S;
          S = S\<lparr>mSmmCoreDumpRecordingStatus := False\<rparr>;
          Header = bytes_at m p sizeof_PARAMETER_HEADER;
          DumpSize = rd64 m (p + o_DumpSize);
          DumpBuffer = rd64 m (p + o_DumpBuffer);
          DumpOffset = rd64 m (p + o_DumpOffset);
          m = (if \<not> valid DumpBuffer DumpSize then wr64 (p + o_ReturnStatus) ACCESS_DENIED m
               else
                 (let (m, DumpSize, DumpOffset) = SmmCoreDumpCopyData S (unat DumpBuffer) DumpSize DumpOffset m;
                      m = store_at m p (Header @ w64 DumpSize @ w64 DumpBuffer @ w64 DumpOffset)
                  in wr64 (p + o_ReturnStatus) 0 m))
      in (S\<lparr>mSmmCoreDumpRecordingStatus := RecordingStatus\<rparr>, m)))"

text \<open>\<open>CommBufferSize\<close> is \<open>None\<close> for a null pointer.\<close>

definition SmmCoreDumpHandler ::
  "(u64 \<Rightarrow> u64 \<Rightarrow> bool) \<Rightarrow> addr \<Rightarrow> nat option \<Rightarrow> smm_db \<times> mem \<Rightarrow> efi_status \<times> smm_db \<times> mem"
where
  "SmmCoreDumpHandler valid CommBuffer CommBufferSize = (\<lambda>(S, m).
     (case CommBufferSize of
        None \<Rightarrow> (EFI_SUCCESS, S, m)
      | Some n \<Rightarrow>
          if mSmmCoreDatabase S = NULL then (EFI_SUCCESS, S, m)
          else if CommBuffer = NULL then (EFI_SUCCESS, S, m)
          else if n < sizeof_PARAMETER_HEADER then (EFI_SUCCESS, S, m)
          else if \<not> valid (of_nat CommBuffer) (of_nat n) then (EFI_SUCCESS, S, m)
          else
            (let m = wr64 (CommBuffer + o_ReturnStatus) (- 1) m;
                 Command = rd32 m CommBuffer
             in if Command = SMM_CORE_DUMP_COMMAND_GET_INFO then
                  (if n \<noteq> sizeof_GET_INFO then (EFI_SUCCESS, S, m)
                   else (EFI_SUCCESS, SmmCoreDumpHandlerGetInfo CommBuffer (S, m)))
                else if Command = SMM_CORE_DUMP_COMMAND_GET_DATA_BY_OFFSET then
                  (if n \<noteq> sizeof_GET_DATA then (EFI_SUCCESS, S, m)
                   else (EFI_SUCCESS, SmmCoreDumpHandlerGetDataByOffset valid CommBuffer (S, m)))
                else (EFI_SUCCESS, S, m))))"

section \<open>The application's end\<close>

text \<open>
  An entry of the table of communication regions: whether it is conventional memory, its pages
  and its start.  \<open>Communicate\<close> gets the buffer and its size and answers with the status, the size
  and the memory; it may depend on the memory only.
\<close>

record region =
  rg_Conventional :: bool
  rg_NumberOfPages :: u64
  rg_PhysicalStart :: u64

record comm_env =
  LocateSmmCommunication :: efi_status
  RegionTable :: "efi_status \<times> region list"
  AllocDump :: "u64 \<Rightarrow> addr"
  Communicate :: "mem \<Rightarrow> addr \<Rightarrow> nat \<Rightarrow> efi_status \<times> nat \<times> mem"

text \<open>\<open>EFI_SMM_COMMUNICATE_HEADER\<close>: a GUID, the message's length and the message.\<close>

abbreviation (input) o_MessageLength :: nat where "o_MessageLength \<equiv> 16"
abbreviation (input) sizeof_COMM_HEADER :: nat where "sizeof_COMM_HEADER \<equiv> 24"

abbreviation (input) EFI_PAGE_SIZE :: u64 where "EFI_PAGE_SIZE \<equiv> 4096"

text \<open>
  The loop over the regions.  Without a fitting entry only an assertion stops the code; it goes on
  with what lies behind the table, \<open>None\<close>.
\<close>

fun region_loop :: "region list \<Rightarrow> u64 \<Rightarrow> (region \<times> u64) option" where
  "region_loop [] Size = None"
| "region_loop (r # rs) Size =
     (if rg_Conventional r then
        (let Size = push_bit 12 (rg_NumberOfPages r) in
         if EFI_PAGE_SIZE \<le> Size then Some (r, Size) else region_loop rs Size)
      else region_loop rs Size)"

text \<open>The head of a message with its command; the rest of the message is set by the caller.\<close>

definition put_message :: "addr \<Rightarrow> nat \<Rightarrow> u32 \<Rightarrow> mem \<Rightarrow> mem" where
  "put_message CommBuffer Length Command m =
     (let m = store_at m CommBuffer mSmmCoreDumpGuid;
          m = wr64 (CommBuffer + o_MessageLength) (of_nat Length) m;
          p = CommBuffer + sizeof_COMM_HEADER;
          m = wr_32 p Command m;
          m = wr_32 (p + o_DataLength) (of_nat Length) m
      in wr64 (p + o_ReturnStatus) (- 1) m)"

record smm_app =
  app_Database :: addr
  app_DatabaseSize :: u64
  sa_out :: "out list"

definition smm_say :: "out list \<Rightarrow> smm_app \<Rightarrow> smm_app" where
  "smm_say os a = a\<lparr>sa_out := sa_out a @ os\<rparr>"

text \<open>The loop that fetches the data piece by piece; \<open>p\<close> is the message.\<close>

partial_function (option) fetch_loop ::
  "comm_env \<Rightarrow> addr \<Rightarrow> nat \<Rightarrow> u64 \<Rightarrow> smm_app \<times> mem \<Rightarrow> (smm_app \<times> mem) option"
where
  "fetch_loop C CommBuffer CommSize Size am =
     (case am of (a, m) \<Rightarrow>
        let p = CommBuffer + sizeof_COMM_HEADER; Offset = rd64 m (p + o_DumpOffset) in
        if Offset < app_DatabaseSize a then
          (let left = app_DatabaseSize a - Offset;
               m = wr64 (p + o_DumpSize) (if Size \<le> left then Size else left) m;
               (Status, CommSize, m) = Communicate C m CommBuffer CommSize
           in if rd64 m (p + o_ReturnStatus) \<noteq> 0
              then Some (smm_say [Print ''SmmCoreDump: GetData - 0x%x'' [hx (rd64 m (p + o_ReturnStatus))]]
                           (a\<lparr>app_Database := NULL\<rparr>), m)
              else fetch_loop C CommBuffer CommSize Size
                     (a, CopyMem (app_Database a + unat Offset) (ptr m (p + o_DumpBuffer))
                           (unat (rd64 m (p + o_DumpSize))) m))
        else Some (a, m))"

definition GetSmmCoreDatabase :: "comm_env \<Rightarrow> smm_app \<times> mem \<Rightarrow> (smm_app \<times> mem) option" where
  "GetSmmCoreDatabase C = (\<lambda>(a, m).
     (let Status = LocateSmmCommunication C in
      if EFI_ERROR Status
      then Some (smm_say [Print ''SmmCoreDump: Locate SmmCommunication protocol - %r'' [Sts Status]] a, m)
      else
        (let (Status, regions) = RegionTable C in
         if EFI_ERROR Status
         then Some (smm_say [Print ''SmmCoreDump: Get PiSmmCommunicationRegionTable - %r'' [Sts Status]] a, m)
         else
           (case region_loop regions 0 of
              None \<Rightarrow> None
            | Some (r, Size) \<Rightarrow>
                (let CommBuffer = unat (rg_PhysicalStart r);
                     p = CommBuffer + sizeof_COMM_HEADER;
                     m = put_message CommBuffer sizeof_GET_INFO SMM_CORE_DUMP_COMMAND_GET_INFO m;
                     m = wr64 (p + o_DumpSize) 0 m;
                     (Status, _, m) = Communicate C m CommBuffer (sizeof_COMM_HEADER + sizeof_GET_INFO)
                 in if EFI_ERROR Status
                    then Some (smm_say [Print ''SmmCoreDump: SmmCommunication - %r'' [Sts Status]] a, m)
                    else if rd64 m (p + o_ReturnStatus) \<noteq> 0
                    then Some (smm_say [Print ''SmmCoreDump: GetInfo - 0x%0x'' [hx (rd64 m (p + o_ReturnStatus))]] a, m)
                    else
                      (let n = rd64 m (p + o_DumpSize);
                           a = a\<lparr>app_DatabaseSize := n, app_Database := AllocDump C n\<rparr>
                       in if app_Database a = NULL
                          then Some (smm_say [Print ''SmmCoreDump: AllocateZeroPool (0x%x) for dump buffer - %r''
                                                [hx n, Sts EFI_OUT_OF_RESOURCES]] a, m)
                          else
                            (let m = store_at m (app_Database a) (replicate (unat n) 0);
                                 m = put_message CommBuffer sizeof_GET_DATA SMM_CORE_DUMP_COMMAND_GET_DATA_BY_OFFSET m;
                                 CommSize = sizeof_COMM_HEADER + sizeof_GET_DATA;
                                 m = wr64 (p + o_DumpBuffer) (of_nat (CommBuffer + CommSize)) m;
                                 m = wr64 (p + o_DumpOffset) 0 m
                             in fetch_loop C CommBuffer CommSize (Size - of_nat CommSize) (a, m))))))))"

end
