(* ===== verification/Smm_Channel_Props.thy ===== *)
theory Smm_Channel_Props
  imports Smm_Handler Pei_Roundtrip
begin

text \<open>
  What the channel between SMRAM and the application guarantees: the handler, whatever it is sent,
  changes nothing in SMRAM and tells nothing of it but the database; and the application, whatever
  the size of the communication region, ends up with exactly the database.
\<close>

section \<open>The handler and SMRAM\<close>

definition in_range :: "addr \<Rightarrow> addr \<Rightarrow> nat \<Rightarrow> bool" where
  "in_range a p n \<longleftrightarrow> p \<le> a \<and> a < p + n"

text \<open>What the platform promises of \<open>SmmIsBufferOutsideSmmValid\<close>.\<close>

definition outside_smram :: "addr set \<Rightarrow> (u64 \<Rightarrow> u64 \<Rightarrow> bool) \<Rightarrow> bool" where
  "outside_smram smram valid \<longleftrightarrow>
     (\<forall>p n a. valid p n \<longrightarrow> in_range a (unat p) (unat n) \<longrightarrow> a \<notin> smram)"

definition same_outside :: "addr set \<Rightarrow> mem \<Rightarrow> mem \<Rightarrow> bool" where
  "same_outside smram m1 m2 \<longleftrightarrow> (\<forall>a. a \<notin> smram \<longrightarrow> m1 a = m2 a)"

definition same_inside :: "addr set \<Rightarrow> mem \<Rightarrow> mem \<Rightarrow> bool" where
  "same_inside smram m1 m2 \<longleftrightarrow> (\<forall>a \<in> smram. m1 a = m2 a)"

definition database_in :: "addr set \<Rightarrow> smm_db \<Rightarrow> bool" where
  "database_in smram S \<longleftrightarrow> (\<forall>a. in_range a (mSmmCoreDatabase S) (unat (mSmmCoreDatabaseSize S)) \<longrightarrow> a \<in> smram)"

definition same_database :: "smm_db \<Rightarrow> mem \<Rightarrow> mem \<Rightarrow> bool" where
  "same_database S m1 m2 \<longleftrightarrow>
     (\<forall>a. in_range a (mSmmCoreDatabase S) (unat (mSmmCoreDatabaseSize S)) \<longrightarrow> m1 a = m2 a)"

definition clear_of :: "addr set \<Rightarrow> addr \<Rightarrow> nat \<Rightarrow> bool" where
  "clear_of smram p n \<longleftrightarrow> (\<forall>a. in_range a p n \<longrightarrow> a \<notin> smram)"

lemma clear_of_part: "clear_of smram p n \<Longrightarrow> k + j \<le> n \<Longrightarrow> clear_of smram (p + k) j"
  by (auto simp: clear_of_def in_range_def)

lemma store_clear: "clear_of smram p (length bs) \<Longrightarrow> same_inside smram (store_at m p bs) m"
  by (auto simp: same_inside_def clear_of_def in_range_def store_at_def)

lemma same_inside_trans: "same_inside smram m1 m2 \<Longrightarrow> same_inside smram m2 m3 \<Longrightarrow> same_inside smram m1 m3"
  by (simp add: same_inside_def)

lemma store_same_outside: "same_outside smram m1 m2 \<Longrightarrow> same_outside smram (store_at m1 p bs) (store_at m2 p bs)"
  by (simp add: same_outside_def store_at_def)

lemma bytes_same_outside: "same_outside smram m1 m2 \<Longrightarrow> clear_of smram p n \<Longrightarrow> bytes_at m1 p n = bytes_at m2 p n"
  by (auto simp: same_outside_def clear_of_def in_range_def bytes_at_def)

lemma rd_same_outside:
  "same_outside smram m1 m2 \<Longrightarrow> clear_of smram p 8 \<Longrightarrow> rd64 m1 p = rd64 m2 p"
  "same_outside smram m1 m2 \<Longrightarrow> clear_of smram p 4 \<Longrightarrow> rd32 m1 p = rd32 m2 p"
  by (simp_all add: rd64_def rd32_def rd_def bytes_same_outside)

text \<open>A copy takes at most what was checked, and only from the database.\<close>

lemma copied_part:
  assumes "DumpOffset < mSmmCoreDatabaseSize S"
    and "n = (if mSmmCoreDatabaseSize S - DumpOffset < DumpSize then mSmmCoreDatabaseSize S - DumpOffset else DumpSize)"
  shows "unat n \<le> unat DumpSize" and "unat DumpOffset + unat n \<le> unat (mSmmCoreDatabaseSize S)"
  using assms by (auto simp: word_less_nat_alt word_le_nat_alt unat_sub_if' split: if_splits)

lemma CopyData_inside:
  assumes "clear_of smram DumpBuffer (unat DumpSize)"
  shows "same_inside smram (fst (SmmCoreDumpCopyData S DumpBuffer DumpSize DumpOffset m)) m"
proof (cases "mSmmCoreDatabaseSize S \<le> DumpOffset")
  case True
  then show ?thesis by (simp add: SmmCoreDumpCopyData_def same_inside_def)
next
  case False
  define n where "n = (if mSmmCoreDatabaseSize S - DumpOffset < DumpSize
    then mSmmCoreDatabaseSize S - DumpOffset else DumpSize)"
  have "unat n \<le> unat DumpSize" using copied_part(1) [OF _ n_def] False by simp
  then have "clear_of smram DumpBuffer (unat n)" using assms clear_of_part [of smram DumpBuffer _ 0 "unat n"] by simp
  then show ?thesis
    using False store_clear [of smram DumpBuffer "bytes_at m (mSmmCoreDatabase S + unat DumpOffset) (unat n)" m]
    by (simp add: SmmCoreDumpCopyData_def CopyMem_def Let_def flip: n_def)
qed

lemma CopyData_outside:
  assumes "same_outside smram m1 m2" "same_database S m1 m2"
  shows "same_outside smram (fst (SmmCoreDumpCopyData S DumpBuffer DumpSize DumpOffset m1))
      (fst (SmmCoreDumpCopyData S DumpBuffer DumpSize DumpOffset m2))"
    and "snd (SmmCoreDumpCopyData S DumpBuffer DumpSize DumpOffset m1) =
      snd (SmmCoreDumpCopyData S DumpBuffer DumpSize DumpOffset m2)"
proof -
  define n where "n = (if mSmmCoreDatabaseSize S - DumpOffset < DumpSize
    then mSmmCoreDatabaseSize S - DumpOffset else DumpSize)"
  have "bytes_at m1 (mSmmCoreDatabase S + unat DumpOffset) (unat n) =
      bytes_at m2 (mSmmCoreDatabase S + unat DumpOffset) (unat n)" if "DumpOffset < mSmmCoreDatabaseSize S"
    using assms(2) copied_part(2) [OF that n_def]
    by (auto simp: same_database_def in_range_def bytes_at_def)
  then show "same_outside smram (fst (SmmCoreDumpCopyData S DumpBuffer DumpSize DumpOffset m1))
      (fst (SmmCoreDumpCopyData S DumpBuffer DumpSize DumpOffset m2))"
    using assms(1) by (auto simp: SmmCoreDumpCopyData_def CopyMem_def Let_def store_same_outside not_le simp flip: n_def)
  show "snd (SmmCoreDumpCopyData S DumpBuffer DumpSize DumpOffset m1) =
      snd (SmmCoreDumpCopyData S DumpBuffer DumpSize DumpOffset m2)"
    by (simp add: SmmCoreDumpCopyData_def Let_def)
qed

lemma wr64_inside: "clear_of smram p 8 \<Longrightarrow> same_inside smram (wr64 p v m) m"
  unfolding wr64_def by (rule store_clear) simp

lemma wr64_outside: "same_outside smram m1 m2 \<Longrightarrow> same_outside smram (wr64 p v m1) (wr64 p v m2)"
  by (simp add: wr64_def store_same_outside)

lemma same_database_inside:
  "database_in smram S \<Longrightarrow> same_inside smram n1 m1 \<Longrightarrow> same_inside smram n2 m2 \<Longrightarrow>
   same_database S m1 m2 \<Longrightarrow> same_database S n1 n2"
  by (simp add: database_in_def same_inside_def same_database_def)

lemma GetInfo_inside:
  assumes "clear_of smram p sizeof_GET_INFO"
  shows "fst (SmmCoreDumpHandlerGetInfo p (S, m)) = S"
    and "same_inside smram (snd (SmmCoreDumpHandlerGetInfo p (S, m))) m"
  using clear_of_part [OF assms, of o_DumpSize 8] clear_of_part [OF assms, of o_ReturnStatus 8]
  by (auto simp: SmmCoreDumpHandlerGetInfo_def Let_def intro: same_inside_trans wr64_inside)

lemma GetData_inside:
  assumes p: "clear_of smram p sizeof_GET_DATA" and valid: "outside_smram smram valid"
  shows "fst (SmmCoreDumpHandlerGetDataByOffset valid p (S, m)) = S"
    and "same_inside smram (snd (SmmCoreDumpHandlerGetDataByOffset valid p (S, m))) m"
proof -
  let ?buf = "rd64 m (p + o_DumpBuffer)" and ?n = "rd64 m (p + o_DumpSize)"
  show "fst (SmmCoreDumpHandlerGetDataByOffset valid p (S, m)) = S"
    by (simp add: SmmCoreDumpHandlerGetDataByOffset_def Let_def)
  have status: "same_inside smram (wr64 (p + o_ReturnStatus) v m') m'" for v m'
    by (rule wr64_inside) (rule clear_of_part [OF p], simp)
  have copied: "same_inside smram (store_at m' p (bytes_at m p sizeof_PARAMETER_HEADER @ w64 a @ w64 b @ w64 c)) m'" for a b c m'
    by (rule store_clear) (use p in simp)
  show "same_inside smram (snd (SmmCoreDumpHandlerGetDataByOffset valid p (S, m))) m"
  proof (cases "valid ?buf ?n")
    case False
    then show ?thesis by (simp add: SmmCoreDumpHandlerGetDataByOffset_def Let_def status)
  next
    case True
    then have buf: "clear_of smram (unat ?buf) (unat ?n)"
      using valid by (auto simp: outside_smram_def clear_of_def)
    show ?thesis
      using True CopyData_inside [OF buf]
      by (auto simp: SmmCoreDumpHandlerGetDataByOffset_def Let_def split_beta
          intro!: same_inside_trans [OF status] same_inside_trans [OF copied])
  qed
qed

lemma GetData_outside:
  assumes p: "clear_of smram p sizeof_GET_DATA" and "same_outside smram m1 m2" "same_database S m1 m2"
  shows "same_outside smram (snd (SmmCoreDumpHandlerGetDataByOffset valid p (S, m1)))
    (snd (SmmCoreDumpHandlerGetDataByOffset valid p (S, m2)))"
proof -
  have reads: "bytes_at m1 p sizeof_PARAMETER_HEADER = bytes_at m2 p sizeof_PARAMETER_HEADER"
    "rd64 m1 (p + o_DumpSize) = rd64 m2 (p + o_DumpSize)"
    "rd64 m1 (p + o_DumpBuffer) = rd64 m2 (p + o_DumpBuffer)"
    "rd64 m1 (p + o_DumpOffset) = rd64 m2 (p + o_DumpOffset)"
    using assms(2) clear_of_part [OF p, of 0 sizeof_PARAMETER_HEADER] clear_of_part [OF p, of o_DumpSize 8]
      clear_of_part [OF p, of o_DumpBuffer 8] clear_of_part [OF p, of o_DumpOffset 8]
    by (auto intro: bytes_same_outside rd_same_outside)
  have db: "same_database (S\<lparr>mSmmCoreDumpRecordingStatus := False\<rparr>) m1 m2"
    using assms(3) by (simp add: same_database_def)
  show ?thesis
    using assms(2) CopyData_outside [OF assms(2) db]
    by (simp add: SmmCoreDumpHandlerGetDataByOffset_def reads Let_def split_beta wr64_outside store_same_outside)
qed

text \<open>What the handler leaves in memory.\<close>

definition after_smi :: "(u64 \<Rightarrow> u64 \<Rightarrow> bool) \<Rightarrow> addr \<Rightarrow> nat option \<Rightarrow> smm_db \<Rightarrow> mem \<Rightarrow> mem" where
  "after_smi valid CommBuffer CommBufferSize S m = snd (snd (SmmCoreDumpHandler valid CommBuffer CommBufferSize (S, m)))"

lemma comm_buffer_clear:
  assumes "outside_smram smram valid" "valid (of_nat CommBuffer) (of_nat n)" "CommBuffer < 2 ^ 64" "n < 2 ^ 64"
  shows "clear_of smram CommBuffer n"
  using assms by (auto simp: outside_smram_def clear_of_def unat_of_nat)

text \<open>
  C5: Whatever is sent to the SMI handler, it returns with the module's variables as they were and
  with every byte of SMRAM unchanged.
\<close>

theorem SmmCoreDumpHandler_confined:
  assumes "outside_smram smram valid" and "CommBuffer < 2 ^ 64" and "\<forall>n. CommBufferSize = Some n \<longrightarrow> n < 2 ^ 64"
  shows "fst (snd (SmmCoreDumpHandler valid CommBuffer CommBufferSize (S, m))) = S \<and>
    same_inside smram (after_smi valid CommBuffer CommBufferSize S m) m"
proof (cases CommBufferSize)
  case None
  then show ?thesis by (simp add: SmmCoreDumpHandler_def after_smi_def same_inside_def)
next
  case (Some n)
  show ?thesis
  proof (cases "mSmmCoreDatabase S = NULL \<or> CommBuffer = NULL \<or> n < sizeof_PARAMETER_HEADER \<or>
      \<not> valid (of_nat CommBuffer) (of_nat n)")
    case True
    with Some show ?thesis by (auto simp: SmmCoreDumpHandler_def after_smi_def same_inside_def)
  next
    case False
    with assms Some have clear: "clear_of smram CommBuffer n" by (auto intro: comm_buffer_clear)
    let ?m = "wr64 (CommBuffer + o_ReturnStatus) (- 1) m"
    have head: "same_inside smram ?m m"
      using False by (intro wr64_inside clear_of_part [OF clear]) simp
    have "SmmCoreDumpHandler valid CommBuffer CommBufferSize (S, m) =
        (EFI_SUCCESS,
         if rd32 ?m CommBuffer = SMM_CORE_DUMP_COMMAND_GET_INFO \<and> n = sizeof_GET_INFO
         then SmmCoreDumpHandlerGetInfo CommBuffer (S, ?m)
         else if rd32 ?m CommBuffer = SMM_CORE_DUMP_COMMAND_GET_DATA_BY_OFFSET \<and> n = sizeof_GET_DATA
         then SmmCoreDumpHandlerGetDataByOffset valid CommBuffer (S, ?m) else (S, ?m))"
      using False Some
      by (simp add: SmmCoreDumpHandler_def Let_def SMM_CORE_DUMP_COMMAND_GET_INFO_def
          SMM_CORE_DUMP_COMMAND_GET_DATA_BY_OFFSET_def)
    with clear head assms(1) show ?thesis
      by (auto simp: after_smi_def GetInfo_inside GetData_inside
          intro: same_inside_trans [OF GetInfo_inside(2) head] same_inside_trans [OF GetData_inside(2) head])
  qed
qed

text \<open>
  C4: What the SMI handler leaves outside SMRAM depends only on what was outside SMRAM before and on
  the database: two machines that agree on these agree afterwards, whatever else their SMRAM holds.
\<close>

theorem SmmCoreDumpHandler_no_leak:
  assumes "outside_smram smram valid" and "CommBuffer < 2 ^ 64" and "\<forall>n. CommBufferSize = Some n \<longrightarrow> n < 2 ^ 64"
    and "database_in smram S" and out: "same_outside smram m1 m2" and db: "same_database S m1 m2"
  shows "same_outside smram (after_smi valid CommBuffer CommBufferSize S m1) (after_smi valid CommBuffer CommBufferSize S m2)"
proof (cases CommBufferSize)
  case None
  with out show ?thesis by (simp add: SmmCoreDumpHandler_def after_smi_def)
next
  case (Some n)
  show ?thesis
  proof (cases "mSmmCoreDatabase S = NULL \<or> CommBuffer = NULL \<or> n < sizeof_PARAMETER_HEADER \<or>
      \<not> valid (of_nat CommBuffer) (of_nat n)")
    case True
    with Some out show ?thesis by (auto simp: SmmCoreDumpHandler_def after_smi_def)
  next
    case False
    with assms Some have clear: "clear_of smram CommBuffer n" by (auto intro: comm_buffer_clear)
    let ?w = "wr64 (CommBuffer + o_ReturnStatus) (- 1)"
    have "clear_of smram (CommBuffer + o_ReturnStatus) 8"
      using False by (intro clear_of_part [OF clear]) simp
    then have db': "same_database S (?w m1) (?w m2)"
      using same_database_inside [OF assms(4) _ _ db] wr64_inside by blast
    have out': "same_outside smram (?w m1) (?w m2)" using out by (rule wr64_outside)
    then have "rd32 (?w m1) CommBuffer = rd32 (?w m2) CommBuffer"
      using False clear_of_part [OF clear, of 0 4] by (intro rd_same_outside(2)) simp_all
    with out' GetData_outside [OF _ out' db'] clear False Some show ?thesis
      by (auto simp: SmmCoreDumpHandler_def after_smi_def Let_def SmmCoreDumpHandlerGetInfo_def wr64_outside)
  qed
qed

end
