(* ===== verification/Smm_Channel.thy ===== *)
theory Smm_Channel
  imports Smm_Channel_Props
begin

text \<open>
  The application's side of the channel as a client of an interface: the locale \<open>dump_channel\<close> has
  one call with two messages, and the loop of \<open>GetSmmCoreDatabase\<close> is proved against its laws.  The
  SMI handler provides them.
\<close>

section \<open>Messages in memory\<close>

definition info_message :: "mem \<Rightarrow> addr \<Rightarrow> u64 \<Rightarrow> nat \<Rightarrow> bool" where
  "info_message m CB status v \<longleftrightarrow>
     holds m CB (mSmmCoreDumpGuid @ enc 8 sizeof_GET_INFO @ w32 SMM_CORE_DUMP_COMMAND_GET_INFO
       @ enc 4 sizeof_GET_INFO @ w64 status @ enc 8 v)"

definition data_message :: "mem \<Rightarrow> addr \<Rightarrow> u64 \<Rightarrow> nat \<Rightarrow> nat \<Rightarrow> nat \<Rightarrow> bool" where
  "data_message m CB status k buf off \<longleftrightarrow>
     holds m CB (mSmmCoreDumpGuid @ enc 8 sizeof_GET_DATA @ w32 SMM_CORE_DUMP_COMMAND_GET_DATA_BY_OFFSET
       @ enc 4 sizeof_GET_DATA @ w64 status @ enc 8 k @ enc 8 buf @ enc 8 off)"

text \<open>Two memories that agree except on a range.\<close>

definition same_but :: "addr \<Rightarrow> nat \<Rightarrow> mem \<Rightarrow> mem \<Rightarrow> bool" where
  "same_but p n m m' \<longleftrightarrow> (\<forall>a. \<not> in_range a p n \<longrightarrow> m' a = m a)"

definition apart :: "addr \<Rightarrow> nat \<Rightarrow> addr \<Rightarrow> nat \<Rightarrow> bool" where
  "apart p n q k \<longleftrightarrow> p + n \<le> q \<or> q + k \<le> p"

lemma same_but_store: "p \<le> q \<Longrightarrow> q + length bs \<le> p + n \<Longrightarrow> same_but p n m m' \<Longrightarrow> same_but p n m (store_at m' q bs)"
  by (auto simp: same_but_def in_range_def store_at_def)

lemma same_but_refl [simp]: "same_but p n m m"
  by (simp add: same_but_def)

lemma same_but_mono: "same_but p n m m' \<Longrightarrow> n \<le> k \<Longrightarrow> same_but p k m m'"
  by (auto simp: same_but_def in_range_def)

lemma same_but_trans: "same_but p n m m' \<Longrightarrow> same_but p n m' m'' \<Longrightarrow> same_but p n m m''"
  by (simp add: same_but_def)

lemma same_but_holds: "same_but p n m m' \<Longrightarrow> apart p n q (length bs) \<Longrightarrow> holds m' q bs = holds m q bs"
  by (rule holds_cong) (auto simp: same_but_def apart_def in_range_def)

lemma same_but_bytes: "same_but p n m m' \<Longrightarrow> apart p n q k \<Longrightarrow> bytes_at m' q k = bytes_at m q k"
  by (auto simp: bytes_at_def same_but_def apart_def in_range_def)

lemma bytes_store_other: "apart p (length bs) q k \<Longrightarrow> bytes_at (store_at m p bs) q k = bytes_at m q k"
  by (auto simp: bytes_at_def store_at_def apart_def)

lemma w_enc: "w64 v = enc 8 (unat v)" "w32 u = enc 4 (unat u)"
  by (simp_all add: w64_def w32_def)

lemma unat_of_nat_small: "n < 2 ^ 64 \<Longrightarrow> unat (of_nat n :: u64) = n"
  by (simp add: unat_of_nat)

lemma w64_of_nat [simp]: "n < 2 ^ 64 \<Longrightarrow> w64 (of_nat n) = enc 8 n"
  by (simp add: w64_def unat_of_nat_small)

lemma length_mSmmCoreDumpGuid [simp]: "length mSmmCoreDumpGuid = 16"
  by (simp add: mSmmCoreDumpGuid_def)

lemmas message_defs = info_message_def data_message_def wr64_def wr_32_def

text \<open>The messages as the application writes them; the size in the second is that of the first.\<close>

lemma put_info:
  "info_message (wr64 (CB + sizeof_COMM_HEADER + o_DumpSize) 0
     (put_message CB sizeof_GET_INFO SMM_CORE_DUMP_COMMAND_GET_INFO m)) CB (- 1) 0"
  "same_but CB 48 m (wr64 (CB + sizeof_COMM_HEADER + o_DumpSize) 0
     (put_message CB sizeof_GET_INFO SMM_CORE_DUMP_COMMAND_GET_INFO m))"
proof -
  have enc: "w64 24 = enc 8 24" "w64 0 = enc 8 0" "w32 24 = enc 4 24"
    by (simp_all add: w_enc)
  show "info_message (wr64 (CB + sizeof_COMM_HEADER + o_DumpSize) 0
     (put_message CB sizeof_GET_INFO SMM_CORE_DUMP_COMMAND_GET_INFO m)) CB (- 1) 0"
    by (simp add: message_defs put_message_def enc store_at_same store_at_other add.assoc)
  show "same_but CB 48 m (wr64 (CB + sizeof_COMM_HEADER + o_DumpSize) 0
     (put_message CB sizeof_GET_INFO SMM_CORE_DUMP_COMMAND_GET_INFO m))"
    by (auto simp: wr64_def wr_32_def put_message_def Let_def intro!: same_but_store)
qed

lemma put_data:
  assumes "holds m (CB + sizeof_COMM_HEADER + o_DumpSize) (enc 8 k)" "CB + 64 < 2 ^ 64"
  shows "data_message (wr64 (CB + sizeof_COMM_HEADER + o_DumpOffset) 0
     (wr64 (CB + sizeof_COMM_HEADER + o_DumpBuffer) (of_nat (CB + 64))
       (put_message CB sizeof_GET_DATA SMM_CORE_DUMP_COMMAND_GET_DATA_BY_OFFSET m))) CB (- 1) k (CB + 64) 0"
    and "same_but CB 64 m (wr64 (CB + sizeof_COMM_HEADER + o_DumpOffset) 0
     (wr64 (CB + sizeof_COMM_HEADER + o_DumpBuffer) (of_nat (CB + 64))
       (put_message CB sizeof_GET_DATA SMM_CORE_DUMP_COMMAND_GET_DATA_BY_OFFSET m)))"
proof -
  have enc: "w64 40 = enc 8 40" "w64 0 = enc 8 0" "w32 40 = enc 4 40" "w64 (of_nat (CB + 64)) = enc 8 (CB + 64)"
    using assms(2) w64_of_nat [of "CB + 64"] by (simp_all add: w_enc)
  show "data_message (wr64 (CB + sizeof_COMM_HEADER + o_DumpOffset) 0
     (wr64 (CB + sizeof_COMM_HEADER + o_DumpBuffer) (of_nat (CB + 64))
       (put_message CB sizeof_GET_DATA SMM_CORE_DUMP_COMMAND_GET_DATA_BY_OFFSET m))) CB (- 1) k (CB + 64) 0"
    using assms(1) unfolding message_defs put_message_def Let_def enc(4)
    by (simp add: enc store_at_same store_at_other add.assoc)
  show "same_but CB 64 m (wr64 (CB + sizeof_COMM_HEADER + o_DumpOffset) 0
     (wr64 (CB + sizeof_COMM_HEADER + o_DumpBuffer) (of_nat (CB + 64))
       (put_message CB sizeof_GET_DATA SMM_CORE_DUMP_COMMAND_GET_DATA_BY_OFFSET m)))"
    by (auto simp: wr64_def wr_32_def put_message_def Let_def intro!: same_but_store)
qed

section \<open>The interface\<close>

locale dump_channel =
  fixes comm :: "'x \<Rightarrow> mem \<Rightarrow> addr \<Rightarrow> nat \<Rightarrow> efi_status \<times> nat \<times> mem"
    and ok :: "'x \<Rightarrow> addr \<Rightarrow> nat \<Rightarrow> bool"
    and db :: "'x \<Rightarrow> addr"
    and size :: "'x \<Rightarrow> nat"
  assumes bounds: "ok x CB Size \<Longrightarrow> CB + Size < 2 ^ 64 \<and> 64 < Size \<and> size x < 2 ^ 64 \<and> apart CB Size (db x) (size x)"
    and get_info: "ok x CB Size \<Longrightarrow> info_message m CB st v \<Longrightarrow>
      \<exists>m'. comm x m CB 48 = (EFI_SUCCESS, 48, m') \<and> info_message m' CB 0 (size x) \<and> same_but CB 48 m m'"
    and get_data: "ok x CB Size \<Longrightarrow> data_message m CB st k (CB + 64) off \<Longrightarrow>
      0 < k \<Longrightarrow> k \<le> Size - 64 \<Longrightarrow> off + k \<le> size x \<Longrightarrow>
      \<exists>m'. comm x m CB 64 = (EFI_SUCCESS, 64, m') \<and> data_message m' CB 0 k (CB + 64) (off + k) \<and>
        bytes_at m' (CB + 64) k = bytes_at m (db x + off) k \<and> same_but CB (64 + k) m m'"
begin

text \<open>The loop, from any offset: \<open>P\<close> is the pool, whose first \<open>off\<close> bytes are there already.\<close>

lemma fetch:
  assumes ok: "ok x CB Size" and C: "\<And>m. Communicate C m CB 64 = comm x m CB 64"
    and P: "apart CB Size P (size x)" "apart P (size x) (db x) (size x)"
    and a: "app_Database a = P" "app_DatabaseSize a = of_nat (size x)"
    and W: "unat (W :: u64) = Size - 64"
    and "data_message m CB st k (CB + 64) off" "off \<le> size x" "bytes_at m P off = bytes_at m (db x) off"
  shows "\<exists>m'. fetch_loop C CB 64 W (a, m) = Some (a, m') \<and>
    bytes_at m' P (size x) = bytes_at m (db x) (size x) \<and>
    (\<forall>q. \<not> in_range q CB Size \<longrightarrow> \<not> in_range q P (size x) \<longrightarrow> m' q = m q)"
  using assms(8-10)
proof (induction "size x - off" arbitrary: off m st k rule: less_induct)
  case less
  have b: "CB + Size < 2 ^ 64" "64 < Size" "size x < 2 ^ 64" "apart CB Size (db x) (size x)"
    using bounds [OF ok] by auto
  have off: "rd64 m (CB + sizeof_COMM_HEADER + o_DumpOffset) = of_nat off"
    using less.prems(1) by (intro rd64_enc) (simp add: data_message_def add.assoc)
  show ?case
  proof (cases "off < size x")
    case False
    with less.prems(2) have "off = size x" by simp
    with less.prems(3) off a show ?thesis by (subst fetch_loop.simps) (simp add: Let_def)
  next
    case True
    have unats: "unat (of_nat off :: u64) = off" "unat (of_nat (size x) :: u64) = size x"
      using True b by (auto intro!: unat_of_nat_small)
    define k' where "k' = min (Size - 64) (size x - off)"
    have k': "0 < k'" "k' \<le> Size - 64" "off + k' \<le> size x" "k' < 2 ^ 64"
      using True b by (auto simp: k'_def)
    have left: "(if W \<le> of_nat (size x) - (of_nat off :: u64) then W
        else of_nat (size x) - of_nat off) = (of_nat k' :: u64)"
      using True unats W b by (auto simp: k'_def word_le_nat_alt word_unat_eq_iff unat_sub_if' unat_of_nat_small)
    let ?m1 = "wr64 (CB + sizeof_COMM_HEADER + o_DumpSize) (of_nat k') m"
    have m1: "data_message ?m1 CB st k' (CB + 64) off" "same_but CB Size m ?m1"
      using less.prems(1) k'(4) b(2)
      by (auto simp: message_defs store_at_same store_at_other add.assoc intro!: same_but_store)
    from get_data [OF ok m1(1) k'(1-3)] obtain m2 where m2: "comm x ?m1 CB 64 = (EFI_SUCCESS, 64, m2)"
      "data_message m2 CB 0 k' (CB + 64) (off + k')" "bytes_at m2 (CB + 64) k' = bytes_at ?m1 (db x + off) k'"
      "same_but CB (64 + k') ?m1 m2"
      by auto
    have reads: "rd64 m2 (CB + sizeof_COMM_HEADER + o_ReturnStatus) = 0"
      "rd64 m2 (CB + sizeof_COMM_HEADER + o_DumpSize) = of_nat k'"
      using m2(2) by (auto simp: data_message_def add.assoc intro: rd64_enc rd64_w64)
    have "holds m2 (CB + sizeof_COMM_HEADER + o_DumpBuffer) (enc 8 (CB + 64))"
      using m2(2) by (simp add: data_message_def add.assoc)
    then have buf: "ptr m2 (CB + sizeof_COMM_HEADER + o_DumpBuffer) = CB + 64"
      unfolding ptr_def by (subst rd64_enc) (simp, rule unat_of_nat_small, use b in simp)
    have s12: "same_but CB Size m m2"
      using m1(2) m2(4) same_but_mono [OF m2(4), of Size] k'(2) b(2) by (auto intro: same_but_trans)
    let ?m3 = "CopyMem (P + off) (CB + 64) k' m2"
    have m3: "?m3 = store_at m2 (P + off) (bytes_at m (db x + off) k')"
      using m2(3) same_but_bytes [OF m1(2), of "db x + off" k'] b(4) k'
      by (auto simp: CopyMem_def apart_def)
    have step: "fetch_loop C CB 64 W (a, m) = fetch_loop C CB 64 W (a, ?m3)"
    proof -
      define p where "p = CB + 24"
      have less: "(of_nat off :: u64) < of_nat (size x)" using True unats by (simp add: word_less_nat_alt)
      note facts = off [folded p_def] reads [folded p_def] buf [folded p_def] m2(1) [folded p_def]
      show ?thesis
        unfolding fetch_loop.simps [of C CB 64 W "(a, m)"] Let_def prod.case p_def [symmetric]
          facts(1) a(2) left
        by (simp add: facts a C less unats(1) unat_of_nat_small [OF k'(4)])
    qed
    have msg: "data_message ?m3 CB 0 k' (CB + 64) (off + k')"
      using m2(2) P(1) k' b(2) unfolding m3 data_message_def
      by (subst store_at_other) (auto simp: apart_def)
    have frame: "q \<in> set [] \<or> ?m3 q = m q" if "\<not> in_range q CB Size" "\<not> in_range q P (size x)" for q
      using s12 that k'(3) by (auto simp: m3 same_but_def store_at_def in_range_def)
    have dbs: "bytes_at ?m3 (db x) j = bytes_at m (db x) j" if "j \<le> size x" for j
      using frame b(4) P(2) that by (auto simp: bytes_at_def in_range_def apart_def)
    have got: "bytes_at ?m3 P (off + k') = bytes_at ?m3 (db x) (off + k')"
    proof -
      have "bytes_at ?m3 P off = bytes_at m P off"
        using P(1) s12 less.prems(2) by (auto simp: m3 bytes_at_def store_at_def same_but_def in_range_def apart_def)
      moreover have "bytes_at ?m3 (P + off) k' = bytes_at m (db x + off) k'"
        unfolding m3 using holds_store_at [of m2 "P + off" "bytes_at m (db x + off) k'"] by (simp add: holds_def)
      ultimately show ?thesis
        using less.prems(3) dbs [OF k'(3)] by (simp add: bytes_at_add)
    qed
    have shrinks: "size x - (off + k') < size x - off" using True k'(1) by simp
    from less.hyps [OF shrinks msg k'(3) got] obtain m' where m':
      "fetch_loop C CB 64 W (a, ?m3) = Some (a, m')"
      "bytes_at m' P (size x) = bytes_at ?m3 (db x) (size x)"
      "\<forall>q. \<not> in_range q CB Size \<longrightarrow> \<not> in_range q P (size x) \<longrightarrow> m' q = ?m3 q"
      by blast
    with step dbs [of "size x"] frame show ?thesis by auto
  qed
qed

text \<open>The whole exchange.\<close>

lemma transfer:
  assumes ok: "ok x CB Size" and C: "\<And>m n. Communicate C m CB n = comm x m CB n"
    and region: "LocateSmmCommunication C = EFI_SUCCESS" "RegionTable C = (EFI_SUCCESS, rs)"
      "region_loop rs 0 = Some (r, W)" "CB = unat (rg_PhysicalStart r)" "Size = unat W"
    and P: "AllocDump C (of_nat (size x)) = P" "P \<noteq> NULL" "apart CB Size P (size x)" "apart P (size x) (db x) (size x)"
  shows "\<exists>m'. GetSmmCoreDatabase C (a, m) =
      Some (a\<lparr>app_DatabaseSize := of_nat (size x), app_Database := P\<rparr>, m') \<and>
    bytes_at m' P (size x) = bytes_at m (db x) (size x) \<and>
    (\<forall>q. \<not> in_range q CB Size \<longrightarrow> \<not> in_range q P (size x) \<longrightarrow> m' q = m q)"
proof -
  have b: "CB + Size < 2 ^ 64" "64 < Size" "size x < 2 ^ 64" "apart CB Size (db x) (size x)"
    using bounds [OF ok] by auto
  let ?m1 = "wr64 (CB + sizeof_COMM_HEADER + o_DumpSize) 0 (put_message CB sizeof_GET_INFO SMM_CORE_DUMP_COMMAND_GET_INFO m)"
  from get_info [OF ok put_info(1), of m] obtain m2 where m2: "comm x ?m1 CB 48 = (EFI_SUCCESS, 48, m2)"
    "info_message m2 CB 0 (size x)" "same_but CB 48 ?m1 m2"
    by auto
  have reads: "rd64 m2 (CB + sizeof_COMM_HEADER + o_ReturnStatus) = 0"
    "rd64 m2 (CB + sizeof_COMM_HEADER + o_DumpSize) = of_nat (size x)"
    and at: "holds m2 (CB + sizeof_COMM_HEADER + o_DumpSize) (enc 8 (size x))"
    using m2(2) by (auto simp: info_message_def add.assoc intro: rd64_enc rd64_w64)
  let ?m3 = "store_at m2 P (replicate (size x) 0)"
  have "holds ?m3 (CB + sizeof_COMM_HEADER + o_DumpSize) (enc 8 (size x))"
    using at P(3) b(2) by (subst store_at_other) (auto simp: apart_def)
  note data = put_data [OF this]
  let ?m4 = "wr64 (CB + sizeof_COMM_HEADER + o_DumpOffset) 0
     (wr64 (CB + sizeof_COMM_HEADER + o_DumpBuffer) (of_nat (CB + 64))
       (put_message CB sizeof_GET_DATA SMM_CORE_DUMP_COMMAND_GET_DATA_BY_OFFSET ?m3))"
  let ?a = "a\<lparr>app_DatabaseSize := of_nat (size x), app_Database := P\<rparr>"
  have W: "unat (W - 64) = Size - 64" using b(2) region(5) by (simp add: unat_sub word_le_nat_alt)
  have run: "GetSmmCoreDatabase C (a, m) = fetch_loop C CB 64 (W - 64) (?a, ?m4)"
  proof -
    define p where "p = CB + 24"
    note facts = reads [folded p_def] m2(1) [folded p_def]
    show ?thesis
      unfolding GetSmmCoreDatabase_def Let_def prod.case region(1-3) option.case region(4) [symmetric] p_def [symmetric]
      by (simp add: C facts P unat_of_nat_small [OF b(3)])
  qed
  have outside: "\<forall>q. \<not> in_range q CB Size \<longrightarrow> \<not> in_range q P (size x) \<longrightarrow> ?m4 q = m q"
    using put_info(2) [of CB m] m2(3) data(2) b(1,2)
    by (auto simp: same_but_def in_range_def store_at_def)
  then have db: "bytes_at ?m4 (db x) (size x) = bytes_at m (db x) (size x)"
    using b(4) P(4) by (auto simp: bytes_at_def in_range_def apart_def)
  have "\<exists>m'. fetch_loop C CB 64 (W - 64) (?a, ?m4) = Some (?a, m') \<and>
    bytes_at m' P (size x) = bytes_at ?m4 (db x) (size x) \<and>
    (\<forall>q. \<not> in_range q CB Size \<longrightarrow> \<not> in_range q P (size x) \<longrightarrow> m' q = ?m4 q)"
    using data(1) b(1,2) by (intro fetch [OF ok C P(3,4) _ _ W]) (auto simp: bytes_at_def)
  with run outside db show ?thesis by auto
qed

end

end
