(* ===== verification/Lay.thy ===== *)
theory Lay
  imports Smm_Channel
begin

text \<open>
  Building a database from linked lists: the loop of the core dump modules, which walks a list in
  memory and writes one structure behind the other, and a small algebra of memories in which such
  a loop has a closed form.
\<close>

section \<open>The loop\<close>

text \<open>
  \<open>for (e = head->ForwardLink; e != head; e = e->ForwardLink)\<close> with a body that writes memory and may
  break out of the loop or return from the function.  \<open>None\<close>: the head is a null pointer, the list
  does not come back to it, or the body fails.
\<close>

datatype 's flow = Next 's | Break 's | Return nat

partial_function (option) for_each ::
  "addr \<Rightarrow> (addr \<Rightarrow> 's \<Rightarrow> mem \<Rightarrow> ('s flow \<times> mem) option) \<Rightarrow> addr \<Rightarrow> 's \<Rightarrow> mem \<Rightarrow> ('s flow \<times> mem) option"
where
  "for_each head body e s m =
     (if e = head then Some (Break s, m)
      else Option.bind (body e s m) (\<lambda>(r, m).
        case r of Next s \<Rightarrow> for_each head body (ForwardLink m e) s m | _ \<Rightarrow> Some (r, m)))"

definition for_list ::
  "addr \<Rightarrow> (addr \<Rightarrow> 's \<Rightarrow> mem \<Rightarrow> ('s flow \<times> mem) option) \<Rightarrow> 's \<Rightarrow> mem \<Rightarrow> ('s flow \<times> mem) option"
where
  "for_list head body s m =
     (if head = NULL then None else for_each head body (ForwardLink m head) s m)"

section \<open>Painting\<close>

text \<open>
  A pattern is a list of bytes with gaps, \<open>None\<close>; painting it writes the bytes and leaves what is in
  the gaps.
\<close>

type_synonym pattern = "u8 option list"

definition paint :: "mem \<Rightarrow> addr \<Rightarrow> pattern \<Rightarrow> mem" where
  "paint m p bs a =
     (if p \<le> a \<and> a < p + length bs then (case bs ! (a - p) of None \<Rightarrow> m a | Some b \<Rightarrow> b) else m a)"

abbreviation solid :: "u8 list \<Rightarrow> pattern" where
  "solid bs \<equiv> map Some bs"

lemma store_paint: "store_at m p bs = paint m p (solid bs)"
  by (rule ext) (auto simp: store_at_def paint_def)

lemma paint_Nil [simp]: "paint m p [] = m"
  by (rule ext) (auto simp: paint_def)

lemma paint_append: "q = p + length xs \<Longrightarrow> paint (paint m p xs) q ys = paint m p (xs @ ys)"
  by (rule ext) (auto simp: paint_def nth_append diff_diff_add split: option.split)

lemma paint_gap:
  "q = p + length xs + k \<Longrightarrow> paint (paint m p xs) q ys = paint m p (xs @ replicate k None @ ys)"
proof -
  have gap: "paint m' r (replicate k None) = m'" for m' r
    by (rule ext) (auto simp: paint_def)
  assume q: "q = p + length xs + k"
  have "paint m p (xs @ replicate k None @ ys) = paint (paint m p (xs @ replicate k None)) q ys"
    using q by (subst paint_append) simp_all
  also have "paint m p (xs @ replicate k None) = paint m p xs"
    by (simp add: paint_append [symmetric] gap)
  finally show ?thesis ..
qed

text \<open>Writing again into the middle.\<close>

lemma paint_over:
  assumes "q = p + length xs" "length bs = length ys"
  shows "paint (paint m p (xs @ ys @ zs)) q (solid bs) = paint m p (xs @ solid bs @ zs)"
proof (rule ext)
  fix a
  consider "a < q" | "q \<le> a" "a < q + length ys" | "q + length ys \<le> a" by linarith
  then show "paint (paint m p (xs @ ys @ zs)) q (solid bs) a = paint m p (xs @ solid bs @ zs) a"
  proof cases
    case 1
    then show ?thesis using assms by (auto simp: paint_def nth_append)
  next
    case 2
    then show ?thesis using assms by (auto simp: paint_def nth_append)
  next
    case 3
    then show ?thesis using assms by (auto simp: paint_def nth_append)
  qed
qed

lemma bytes_at_paint:
  "bytes_at (paint m p (xs @ solid bs @ zs)) (p + length xs) (length bs) = bs"
  by (rule nth_equalityI) (auto simp: bytes_at_def paint_def nth_append)

lemma paint_same_but [simp]: "q \<le> p \<Longrightarrow> p + length bs \<le> q + n \<Longrightarrow> same_but q n m (paint m p bs)"
  by (auto simp: same_but_def in_range_def paint_def)

text \<open>What a painted memory holds, as long as there is no gap.\<close>

lemma holds_paint: "holds (paint m p (xs @ solid bs @ zs)) (p + length xs) bs"
  by (simp add: holds_def bytes_at_paint)

section \<open>The loop paints\<close>

text \<open>
  The memories that differ from \<open>m0\<close> in a buffer only: whatever is written there, the list stays
  what it is, and so does what the body makes of a node.  Then the loop paints the nodes'
  patterns one behind the other, up to the node that breaks it.
\<close>

definition around :: "addr \<Rightarrow> nat \<Rightarrow> mem \<Rightarrow> mem set" where
  "around B N m0 = {m. same_but B N m0 m}"

lemma around_self [simp]: "m \<in> around B N m"
  by (simp add: around_def)

lemma around_paint:
  "m \<in> around B N m0 \<Longrightarrow> B \<le> p \<Longrightarrow> p + length bs \<le> B + N \<Longrightarrow> paint m p bs \<in> around B N m0"
  by (auto simp: around_def intro: same_but_trans)

lemma linked_from: "linked m e es head \<Longrightarrow> e = (case es of [] \<Rightarrow> head | x # _ \<Rightarrow> x)"
  by (cases es) auto

definition breaks :: "('a \<Rightarrow> 's \<Rightarrow> mem \<Rightarrow> ('s flow \<times> mem) option) \<Rightarrow> mem set \<Rightarrow> 'a list \<Rightarrow> bool" where
  "breaks body M rest \<longleftrightarrow> rest = [] \<or> (\<forall>s. \<forall>m\<in>M. body (hd rest) s m = Some (Break s, m))"

lemma breaks_Nil [simp]: "breaks body M []"
  by (simp add: breaks_def)

lemma for_each_paints:
  assumes linked: "\<And>m. m \<in> around B N m0 \<Longrightarrow> linked m e (es @ rest) head" and "head \<notin> set (es @ rest)"
    and step: "\<And>x n m. x \<in> set es \<Longrightarrow> m \<in> around B N m0 \<Longrightarrow> n + length (pat x) \<le> T \<Longrightarrow>
      body x (f n) m = Some (Next (f (n + length (pat x))), paint m (D + n) (pat x))"
    and "m \<in> around B N m0" and "B \<le> D" "D + T \<le> B + N"
    and "n + length (concat (map pat es)) \<le> T" and "breaks body (around B N m0) rest"
  shows "for_each head body e (f n) m =
    Some (Break (f (n + length (concat (map pat es)))), paint m (D + n) (concat (map pat es)))"
  using assms
proof (induction es arbitrary: e n m)
  case Nil
  from Nil.prems(1) [OF Nil.prems(4)] have "linked m e rest head" by simp
  with Nil.prems(2,4,8) show ?case
    by (cases rest) (auto simp: breaks_def for_each.simps [of head body])
next
  case (Cons x es)
  let ?m = "paint m (D + n) (pat x)"
  from Cons.prems(1) [OF Cons.prems(4)] Cons.prems(2) have x: "e = x" "x \<noteq> head" by auto
  have m: "?m \<in> around B N m0"
    using Cons.prems(4-7) by (auto intro!: around_paint)
  have "ForwardLink m' x = (case es @ rest of [] \<Rightarrow> head | y # _ \<Rightarrow> y)" if "m' \<in> around B N m0" for m'
    using Cons.prems(1) [OF that] by (auto simp del: linked_append dest: linked_from)
  with m have next_link: "ForwardLink m' x = ForwardLink ?m x" if "m' \<in> around B N m0" for m'
    using that by simp
  have "body x (f n) m = Some (Next (f (n + length (pat x))), ?m)"
    using Cons.prems by auto
  moreover have "for_each head body (ForwardLink ?m x) (f (n + length (pat x))) ?m =
      Some (Break (f (n + length (pat x) + length (concat (map pat es)))),
        paint ?m (D + (n + length (pat x))) (concat (map pat es)))"
  proof (rule Cons.IH)
    show "linked m' (ForwardLink ?m x) (es @ rest) head" if "m' \<in> around B N m0" for m'
      using Cons.prems(1) [OF that] next_link [OF that] by (auto simp del: linked_append)
  qed (use m Cons.prems in \<open>auto simp del: linked_append\<close>)
  ultimately show ?case
    using x by (subst for_each.simps) (simp add: paint_append add.assoc)
qed

lemma for_list_paints:
  assumes ring: "\<And>m. m \<in> around B N m0 \<Longrightarrow> ring m head (es @ rest)" and "head \<noteq> NULL"
    and "\<And>x n m. x \<in> set es \<Longrightarrow> m \<in> around B N m0 \<Longrightarrow> n + length (pat x) \<le> T \<Longrightarrow>
      body x (f n) m = Some (Next (f (n + length (pat x))), paint m (D + n) (pat x))"
    and m: "m \<in> around B N m0" and "B \<le> D" "D + T \<le> B + N"
    and "n + length (concat (map pat es)) \<le> T" and "breaks body (around B N m0) rest"
  shows "for_list head body (f n) m =
    Some (Break (f (n + length (concat (map pat es)))), paint m (D + n) (concat (map pat es)))"
proof -
  have link: "ForwardLink m' head = ForwardLink m head" if "m' \<in> around B N m0" for m'
  proof -
    have "linked m' (ForwardLink m' head) (es @ rest) head" "linked m (ForwardLink m head) (es @ rest) head"
      using ring [OF that] ring [OF m] by (simp_all add: ring_def del: linked_append)
    then show ?thesis by (metis linked_from)
  qed
  have "linked m' (ForwardLink m head) (es @ rest) head" if "m' \<in> around B N m0" for m'
    using ring [OF that] link [OF that] by (simp add: ring_def del: linked_append)
  moreover have "head \<notin> set (es @ rest)" using ring [OF m] by (simp add: ring_def)
  ultimately have "for_each head body (ForwardLink m head) (f n) m =
      Some (Break (f (n + length (concat (map pat es)))), paint m (D + n) (concat (map pat es)))"
    using assms(3-8) by (rule for_each_paints)
  with assms(2) show ?thesis by (simp add: for_list_def)
qed

text \<open>A loop whose states and memories are known one by one.\<close>

lemma for_each_states:
  assumes "\<And>m. m \<in> around B N m0 \<Longrightarrow> linked m e es head" and "head \<notin> set es"
    and "\<And>i. i < length es \<Longrightarrow> body (es ! i) (f i) (G i) = Some (Next (f (Suc i)), G (Suc i))"
    and "\<And>i. i \<le> length es \<Longrightarrow> G i \<in> around B N m0"
  shows "for_each head body e (f 0) (G 0) = Some (Break (f (length es)), G (length es))"
  using assms
proof (induction es arbitrary: e f G)
  case Nil
  from Nil.prems(1) [OF Nil.prems(4)] have "e = head" by simp
  then show ?case by (simp add: for_each.simps)
next
  case (Cons x es)
  have m1: "G 1 \<in> around B N m0" using Cons.prems(4) [of 1] by simp
  have x: "e = x" "x \<noteq> head" using Cons.prems(1) [OF m1] Cons.prems(2) by auto
  have next_link: "ForwardLink m' x = (case es of [] \<Rightarrow> head | y # _ \<Rightarrow> y)" if "m' \<in> around B N m0" for m'
    using Cons.prems(1) [OF that] by (auto dest: linked_from)
  have "for_each head body (ForwardLink (G 1) x) ((\<lambda>i. f (Suc i)) 0) ((\<lambda>i. G (Suc i)) 0) =
      Some (Break (f (Suc (length es))), G (Suc (length es)))"
  proof (rule Cons.IH)
    show "linked m' (ForwardLink (G 1) x) es head" if "m' \<in> around B N m0" for m'
      using Cons.prems(1) [OF that] next_link [OF that] next_link [OF m1] by auto
    show "body (es ! i) (f (Suc i)) (G (Suc i)) = Some (Next (f (Suc (Suc i))), G (Suc (Suc i)))" if "i < length es" for i
      using Cons.prems(3) [of "Suc i"] that by simp
  qed (use Cons.prems in auto)
  moreover have "body x (f 0) (G 0) = Some (Next (f 1), G 1)" using Cons.prems(3) [of 0] by simp
  ultimately show ?case using x by (subst for_each.simps) simp
qed

text \<open>A loop that only adds something up.\<close>

lemma for_each_counts:
  assumes "linked m e (es @ rest) head" "head \<notin> set (es @ rest)"
    and "\<And>x n. x \<in> set es \<Longrightarrow> body x n m = Some (Next (n + len x), m)"
    and "breaks body {m} rest"
  shows "for_each head body e n m = Some (Break (n + sum_list (map len es)), m)"
  using assms
proof (induction es arbitrary: e n)
  case Nil
  then show ?case
    by (cases rest) (auto simp: breaks_def for_each.simps [of head body])
next
  case (Cons x es)
  then show ?case
    by (subst for_each.simps) (auto simp: add.assoc)
qed

lemma for_list_counts:
  assumes "ring m head (es @ rest)" "head \<noteq> NULL"
    and "\<And>x n. x \<in> set es \<Longrightarrow> body x n m = Some (Next (n + len x), m)"
    and "breaks body {m} rest"
  shows "for_list head body n m = Some (Break (n + sum_list (map len es)), m)"
  using assms by (auto simp: for_list_def ring_def simp del: linked_append intro!: for_each_counts)

section \<open>Lists and what they mean\<close>

text \<open>
  A list with a structure \<open>P e x\<close> at every node \<open>e\<close>, in all memories of a set; \<open>list_upto\<close> leaves out
  the nodes from the first with \<open>Q\<close> on.
\<close>

definition list_of :: "mem set \<Rightarrow> addr \<Rightarrow> (addr \<Rightarrow> 'x \<Rightarrow> bool) \<Rightarrow> 'x list \<Rightarrow> bool" where
  "list_of M head P xs \<longleftrightarrow> head \<noteq> NULL \<and> (\<exists>es. (\<forall>m\<in>M. ring m head es) \<and> list_all2 P es xs)"

definition list_upto :: "mem set \<Rightarrow> addr \<Rightarrow> (addr \<Rightarrow> bool) \<Rightarrow> (addr \<Rightarrow> 'x \<Rightarrow> bool) \<Rightarrow> 'x list \<Rightarrow> bool" where
  "list_upto M head Q P xs \<longleftrightarrow>
     head \<noteq> NULL \<and> (\<exists>es rest. (\<forall>m\<in>M. ring m head (es @ rest)) \<and> list_all2 P es xs \<and> (rest \<noteq> [] \<longrightarrow> Q (hd rest)))"

definition always :: "mem set \<Rightarrow> (mem \<Rightarrow> 'a \<Rightarrow> 'x) \<Rightarrow> 'a \<Rightarrow> 'x \<Rightarrow> bool" where
  "always M view e x \<longleftrightarrow> (\<forall>m\<in>M. view m e = x)"

lemma list_of_upto: "list_of M head P xs \<Longrightarrow> list_upto M head (\<lambda>_. False) P xs"
  unfolding list_of_def list_upto_def by (metis append_Nil2)

lemma list_all2_map: "list_all2 P es xs \<Longrightarrow> \<exists>g. xs = map g es \<and> (\<forall>e\<in>set es. P e (g e))" if "distinct es"
  using that
proof (induction es arbitrary: xs)
  case Nil
  then show ?case by simp
next
  case (Cons e es)
  from Cons.prems obtain x ys where xs: "xs = x # ys" "P e x" "list_all2 P es ys" "e \<notin> set es" "distinct es"
    by (auto simp: list_all2_Cons1)
  from Cons.IH [OF xs(3,5)] obtain g where "ys = map g es" "\<forall>e\<in>set es. P e (g e)" by blast
  with xs show ?case by (intro exI [of _ "g(e := x)"]) auto
qed

text \<open>The loop over such a list writes the patterns of what is at its nodes.\<close>

lemma list_paints:
  assumes list: "list_upto (around B N m0) head Q P xs"
    and step: "\<And>e x n m. P e x \<Longrightarrow> x \<in> set xs \<Longrightarrow> m \<in> around B N m0 \<Longrightarrow> n + length (pat x) \<le> T \<Longrightarrow>
      body e (f n) m = Some (Next (f (n + length (pat x))), paint m (D + n) (pat x))"
    and stop: "\<And>e s m. Q e \<Longrightarrow> m \<in> around B N m0 \<Longrightarrow> body e s m = Some (Break s, m)"
    and m: "m \<in> around B N m0" "B \<le> D" "D + T \<le> B + N" "n + length (concat (map pat xs)) \<le> T"
  shows "for_list head body (f n) m =
    Some (Break (f (n + length (concat (map pat xs)))), paint m (D + n) (concat (map pat xs)))"
proof -
  from list obtain es rest where ring: "\<And>m. m \<in> around B N m0 \<Longrightarrow> ring m head (es @ rest)" "head \<noteq> NULL"
    and all: "list_all2 P es xs" and rest: "rest \<noteq> [] \<longrightarrow> Q (hd rest)"
    by (auto simp: list_upto_def)
  from ring(1) [OF m(1)] have "distinct es" by (simp add: ring_def)
  with all obtain g where g: "xs = map g es" "\<forall>e\<in>set es. P e (g e)" by (blast dest: list_all2_map)
  have br: "breaks body (around B N m0) rest" using rest stop by (auto simp: breaks_def)
  have conc: "concat (map pat xs) = concat (map (\<lambda>e. pat (g e)) es)" by (simp add: g(1) comp_def)
  have "for_list head body (f n) m =
    Some (Break (f (n + length (concat (map (\<lambda>e. pat (g e)) es)))), paint m (D + n) (concat (map (\<lambda>e. pat (g e)) es)))"
  proof (rule for_list_paints [OF ring])
    show "n + length (concat (map (\<lambda>e. pat (g e)) es)) \<le> T" using m(4) conc by simp
  qed (use g m br step in \<open>auto simp: g(1)\<close>)
  then show ?thesis by (simp add: conc)
qed

lemma list_states:
  assumes list: "list_of (around B N m0) head P xs"
    and step: "\<And>e i. i < length xs \<Longrightarrow> P e (xs ! i) \<Longrightarrow> body e (f i) (G i) = Some (Next (f (Suc i)), G (Suc i))"
    and G: "\<And>i. i \<le> length xs \<Longrightarrow> G i \<in> around B N m0"
  shows "for_list head body (f 0) (G 0) = Some (Break (f (length xs)), G (length xs))"
proof -
  from list obtain es where ring: "\<And>m. m \<in> around B N m0 \<Longrightarrow> ring m head es" "head \<noteq> NULL"
    and all: "list_all2 P es xs"
    by (auto simp: list_of_def)
  have len: "length es = length xs" using all by (rule list_all2_lengthD)
  have link: "ForwardLink m head = ForwardLink (G 0) head" if "m \<in> around B N m0" for m
    using ring(1) [OF that] ring(1) [OF G [of 0]] by (metis le0 linked_from ring_def)
  have "for_each head body (ForwardLink (G 0) head) (f 0) (G 0) = Some (Break (f (length es)), G (length es))"
  proof (rule for_each_states)
    show "linked m (ForwardLink (G 0) head) es head" if "m \<in> around B N m0" for m
      using ring(1) [OF that] link [OF that] by (simp add: ring_def)
    show "head \<notin> set es" using ring(1) [OF G [of 0]] by (simp add: ring_def)
  qed (use all len G step in \<open>auto simp: list_all2_conv_all_nth\<close>)
  with ring(2) len show ?thesis by (simp add: for_list_def)
qed

lemma list_counts:
  assumes list: "list_upto M head Q P xs" and m: "m \<in> M"
    and step: "\<And>e x n. P e x \<Longrightarrow> x \<in> set xs \<Longrightarrow> body e n m = Some (Next (n + len x), m)"
    and stop: "\<And>e s. Q e \<Longrightarrow> body e s m = Some (Break s, m)"
  shows "for_list head body n m = Some (Break (n + sum_list (map len xs)), m)"
proof -
  from list m obtain es rest where ring: "ring m head (es @ rest)" "head \<noteq> NULL"
    and all: "list_all2 P es xs" and rest: "rest \<noteq> [] \<longrightarrow> Q (hd rest)"
    by (auto simp: list_upto_def)
  from ring(1) have "distinct es" by (simp add: ring_def)
  with all obtain g where g: "xs = map g es" "\<forall>e\<in>set es. P e (g e)" by (blast dest: list_all2_map)
  have "for_list head body n m = Some (Break (n + sum_list (map (\<lambda>e. len (g e)) es)), m)"
    by (rule for_list_counts [OF ring]) (use g rest step stop in \<open>auto simp: breaks_def\<close>)
  then show ?thesis by (simp add: g(1) comp_def)
qed

end
