(* ===== verification/Smm_Images.thy ===== *)
theory Smm_Images
  imports Smm_Lists
begin

text \<open>
  \<^verbatim>\<open>SmmCoreDump/SmmCoreDump.c\<close>: the list of loaded images.  It is taken from the SMM handle
  database, or, where the SMM core has no loaded image there, from the images of the boot services
  that lie in SMRAM.
\<close>

section \<open>The surroundings\<close>

text \<open>
  The file path of an image: a file of a firmware volume, a path, or something else.
  \<open>li_ImageEntryPoint\<close>: the entry point in the SMM core's private structure around the protocol,
  if the structure's signature is there.
\<close>

datatype file_path = FV_FILE guid | FILE_PATH "char16 list" | OTHER_PATH

record loaded_image =
  li_FilePath :: file_path
  li_ImageBase :: u64
  li_ImageSize :: u64
  li_ImageEntryPoint :: "u64 option"

definition EFI_BUFFER_TOO_SMALL :: efi_status where
  "EFI_BUFFER_TOO_SMALL = EFI_OTHER_ERROR 5"

text \<open>
  \<open>SmmLocateHandle\<close>: the status of the call without a buffer, and that with a buffer together with
  what \<open>SmmHandleProtocol\<close> answers for each handle.  \<open>EntryPoint_junk\<close> is what the local
  \<open>EntryPointInImage\<close> holds before the loop over the images; it is not initialised.
\<close>

record smram_range =
  sr_CpuStart :: u64
  sr_PhysicalSize :: u64

record smm_image_env =
  SmmLocateHandle_size :: efi_status
  SmmLocateHandle :: "efi_status \<times> (efi_status \<times> loaded_image) list"
  LocateHandleBuffer :: "efi_status \<times> (efi_status \<times> loaded_image) list"
  AllocHandles :: bool
  AllocImageStructs :: "nat \<Rightarrow> bool"
  GetPdbPointer :: "u64 \<Rightarrow> u8 list option"
  GetSectionFromAnyFv :: "guid \<Rightarrow> efi_status \<times> char16 list"
  GuidText16_smm :: "guid \<Rightarrow> char16 list"
  SmramRanges :: "smram_range list"
  EntryPoint_junk :: u64
  mProtocolFuncStruct :: "(guid \<times> u64) list"
  DOS_SIGNATURE :: u16
  TE_SIGNATURE :: u16
  NT_SIGNATURE :: u32
  o_lfanew :: nat
  o_Te_StrippedSize :: nat
  o_Te_AddressOfEntryPoint :: nat
  sizeof_TE_HEADER :: u64
  o_Nt_AddressOfEntryPoint :: nat

definition SMM_CORE_GUID :: guid where
  "SMM_CORE_GUID = [0xCD, 0x54, 0x4F, 0xE9, 0xEB, 0x81, 0xed, 0x47, 0xAE, 0xC3, 0x85, 0x6F, 0x5D, 0xC1, 0x57, 0xA9]"

record smm_dump = pei_dump +
  mSmmCoreLoadedImage :: bool

section \<open>Images\<close>

text \<open>A buffer of length \<open>Length\<close> and the ranges of SMRAM.\<close>

definition IsSmram :: "smm_image_env \<Rightarrow> u64 \<Rightarrow> u64 \<Rightarrow> bool" where
  "IsSmram E Buffer Length \<longleftrightarrow>
     (\<exists>r\<in>set (SmramRanges E).
        sr_CpuStart r \<le> Buffer \<and> Buffer < sr_CpuStart r + sr_PhysicalSize r
        \<or> Buffer \<le> sr_CpuStart r \<and> sr_CpuStart r < Buffer + Length)"

text \<open>The name (\<open>None\<close>: a null pointer) and the GUID; the names of the first three methods are in \<open>mNameString\<close>.\<close>

definition GetDriverNameString_smm ::
  "smm_image_env \<Rightarrow> loaded_image \<Rightarrow> smm_dump \<Rightarrow> char16 list option \<times> guid \<times> smm_dump"
where
  "GetDriverNameString_smm E img s =
     (let Guid = (case li_FilePath img of FV_FILE g \<Rightarrow> g | _ \<Rightarrow> replicate 16 0);
          Pdb = (if li_ImageBase img \<noteq> 0 then GetPdbPointer E (li_ImageBase img) else None)
      in case Pdb of
           Some p \<Rightarrow> (let n = GetShortPdbFileName (Some p) in (Some n, Guid, s\<lparr>mNameString := n\<rparr>))
         | None \<Rightarrow>
             (case li_FilePath img of
                FV_FILE g \<Rightarrow>
                  (let (Status, Ui) = GetSectionFromAnyFv E g;
                       n = (if \<not> EFI_ERROR Status then copy_name Ui else copy_name (GuidText16_smm E g))
                   in (Some n, Guid, s\<lparr>mNameString := n\<rparr>))
              | FILE_PATH PathName \<Rightarrow> (Some PathName, Guid, s)
              | OTHER_PATH \<Rightarrow> (None, Guid, s)))"

text \<open>The entry point relative to the image, read from its header in memory.\<close>

definition InternalPeCoffGetEntryPoint :: "'a smm_image_env_scheme \<Rightarrow> mem \<Rightarrow> u64 \<Rightarrow> efi_status \<times> u64 option" where
  "InternalPeCoffGetEntryPoint E m Pe32Data =
     (let Hdr = (if rd16 m (unat Pe32Data) = DOS_SIGNATURE E
                 then Pe32Data + (ucast (rd32 m (unat Pe32Data + o_lfanew E)) AND 0xffff) else Pe32Data);
          h = unat Hdr
      in if rd16 m h = TE_SIGNATURE E
         then (EFI_SUCCESS, Some (Pe32Data + ucast (rd32 m (h + o_Te_AddressOfEntryPoint E)) + sizeof_TE_HEADER E
                                  - ucast (rd16 m (h + o_Te_StrippedSize E))))
         else if rd32 m h = NT_SIGNATURE E
         then (EFI_SUCCESS, Some (Pe32Data + ucast (rd32 m (h + o_Nt_AddressOfEntryPoint E))))
         else (EFI_UNSUPPORTED, None))"

text \<open>As in the PEI module, but the entry point is kept too.\<close>

definition AddImageStruct_smm ::
  "u64 \<Rightarrow> u64 \<Rightarrow> u64 \<Rightarrow> u64 \<Rightarrow> char16 list option \<Rightarrow> guid \<Rightarrow> smm_dump \<Rightarrow> smm_dump option"
where
  "AddImageStruct_smm ImageBase ImageSize LoadedImageBase EntryPoint NameString Guid s =
     (if mImageStructCountMax s \<le> mImageStructCount s then Some s
      else
        (case mImageStruct s of
           None \<Rightarrow> None
         | Some a \<Rightarrow>
             (if length a \<le> mImageStructCount s then None
              else
                (let old = a ! mImageStructCount s;
                     new = old\<lparr>is_ImageBase := ImageBase, is_ImageSize := ImageSize,
                       is_LoadedImageBase := LoadedImageBase, is_EntryPoint := EntryPoint,
                       is_NameString := (case NameString of None \<Rightarrow> is_NameString old | Some n \<Rightarrow> copy_name n),
                       is_FileGuid := Guid\<rparr>
                 in Some (s\<lparr>mImageStruct := Some (a[mImageStructCount s := new]),
                            mImageStructCount := mImageStructCount s + 1\<rparr>)))))"

text \<open>
  Where the code runs outside the image's buffer (an emulator), the base is moved so that the
  entry points agree; a failure to read the header is only asserted against, and then the local
  \<open>EntryPointInImage\<close> still has its value of an earlier image.  The result has the entry point, the base
  and the local afterwards.
\<close>

definition entry_and_base :: "'a smm_image_env_scheme \<Rightarrow> mem \<Rightarrow> u64 \<Rightarrow> loaded_image \<Rightarrow> u64 \<times> u64 \<times> u64" where
  "entry_and_base E m EntryPointInImage img =
     (let base = li_ImageBase img in
      case li_ImageEntryPoint img of
        None \<Rightarrow> (0, base, EntryPointInImage)
      | Some e \<Rightarrow>
          if e \<noteq> 0 \<and> (e < base \<or> base + li_ImageSize img \<le> e)
          then (let x = (case snd (InternalPeCoffGetEntryPoint E m base) of None \<Rightarrow> EntryPointInImage | Some x \<Rightarrow> x)
                in (e, base + e - x, x))
          else (e, base, EntryPointInImage))"

text \<open>The state of the loop has the local \<open>EntryPointInImage\<close> beside the variables of the module.\<close>

definition smm_image_body ::
  "smm_image_env \<Rightarrow> mem \<Rightarrow> efi_status \<times> loaded_image \<Rightarrow> u64 \<times> smm_dump \<Rightarrow> (u64 \<times> smm_dump) option"
where
  "smm_image_body E m = (\<lambda>(Status, img) (EntryPointInImage, s).
     if EFI_ERROR Status then Some (EntryPointInImage, s)
     else
       (let (NameStr, Guid, s) = GetDriverNameString_smm E img s;
            (EntryPoint, RealImageBase, EntryPointInImage) = entry_and_base E m EntryPointInImage img in
        Option.bind (AddImageStruct_smm RealImageBase (li_ImageSize img) (li_ImageBase img) EntryPoint NameStr Guid s) (\<lambda>s.
          Some (EntryPointInImage,
            if li_FilePath img = FV_FILE SMM_CORE_GUID then s\<lparr>mSmmCoreLoadedImage := True\<rparr> else s))))"

text \<open>The array for \<open>n\<close> images; the count is left as it is.\<close>

definition new_images :: "smm_image_env \<Rightarrow> nat \<Rightarrow> smm_dump \<Rightarrow> smm_dump" where
  "new_images E n s = s\<lparr>mImageStructCountMax := n,
     mImageStruct := (if AllocImageStructs E n then Some (replicate n zero_image) else None)\<rparr>"

fun image_loop ::
  "(efi_status \<times> loaded_image \<Rightarrow> 's \<Rightarrow> 's option) \<Rightarrow> (efi_status \<times> loaded_image) list \<Rightarrow> 's \<Rightarrow> 's option"
where
  "image_loop body [] s = Some s"
| "image_loop body (h # hs) s = Option.bind (body h s) (image_loop body hs)"

definition GetSmmLoadedImage :: "smm_image_env \<Rightarrow> mem \<Rightarrow> smm_dump \<Rightarrow> smm_dump option" where
  "GetSmmLoadedImage E m s =
     (if SmmLocateHandle_size E \<noteq> EFI_BUFFER_TOO_SMALL then Some s
      else if \<not> AllocHandles E then Some s
      else
        (let (Status, handles) = SmmLocateHandle E in
         if EFI_ERROR Status then Some s
         else
           (let s = new_images E (length handles) s in
            if mImageStruct s = None then Some s
            else map_option snd (image_loop (smm_image_body E m) handles (EntryPoint_junk E, s)))))"

definition dxe_image_body :: "smm_image_env \<Rightarrow> efi_status \<times> loaded_image \<Rightarrow> smm_dump \<Rightarrow> smm_dump option" where
  "dxe_image_body E = (\<lambda>(Status, img) s.
     if EFI_ERROR Status then Some s
     else if \<not> IsSmram E (li_ImageBase img) (li_ImageSize img) then Some s
     else
       (let (NameStr, Guid, s) = GetDriverNameString_smm E img s in
        Option.bind (AddImageStruct_smm (li_ImageBase img) (li_ImageSize img) (li_ImageBase img) 0 NameStr Guid s) (\<lambda>s.
          Some (if li_FilePath img = FV_FILE SMM_CORE_GUID then s\<lparr>mSmmCoreLoadedImage := True\<rparr> else s))))"

definition GetLoadedImage :: "smm_image_env \<Rightarrow> smm_dump \<Rightarrow> smm_dump option" where
  "GetLoadedImage E s =
     (let (Status, handles) = LocateHandleBuffer E in
      if EFI_ERROR Status then Some s
      else
        (let s = new_images E (length handles) s in
         if mImageStruct s = None then Some s else image_loop (dxe_image_body E) handles s))"

section \<open>References to images\<close>

definition smm_images :: "smm_dump \<Rightarrow> image_struct list" where
  "smm_images s = take (mImageStructCount s) (case mImageStruct s of None \<Rightarrow> [] | Some a \<Rightarrow> a)"

definition AddressToImageRef_smm :: "smm_dump \<Rightarrow> u64 \<Rightarrow> u64" where
  "AddressToImageRef_smm s Address = ref_loop (smm_images s) Address 0"

fun protocol_ref_loop :: "mem \<Rightarrow> smm_dump \<Rightarrow> (guid \<times> u64) list \<Rightarrow> u64 \<Rightarrow> guid \<Rightarrow> u64" where
  "protocol_ref_loop m s [] Address Protocol = - 1"
| "protocol_ref_loop m s ((g, FuncOffset) # fs) Address Protocol =
     (if Protocol = g then AddressToImageRef_smm s (rd64 m (unat (Address + FuncOffset)))
      else protocol_ref_loop m s fs Address Protocol)"

definition AddressToImageRefEx_smm :: "smm_image_env \<Rightarrow> mem \<Rightarrow> smm_dump \<Rightarrow> u64 \<Rightarrow> guid \<Rightarrow> u64" where
  "AddressToImageRefEx_smm E m s Address Protocol =
     (let ImageRef = AddressToImageRef_smm s Address in
      if ImageRef \<noteq> - 1 then ImageRef else protocol_ref_loop m s (mProtocolFuncStruct E) Address Protocol)"

end
