(* ===== verification/Smm_Database.thy ===== *)
theory Smm_Database
  imports Lay Smm_Images
begin

text \<open>
  \<^verbatim>\<open>SmmCoreDumpHandler.c\<close>: the sizes of the five groups of the database, their data and the
  functions that build and register it.  Sizes are natural numbers: every structure of the
  database is smaller than the node it describes, so their sum fits a \<open>UINTN\<close>.  The length of a
  structure is the 32-bit field of its header, read back from memory as the code does.
\<close>

section \<open>Layout\<close>

definition SMM_CORE_IMAGE_DATABASE_SIGNATURE :: u32 where
  "SMM_CORE_IMAGE_DATABASE_SIGNATURE = SIGNATURE_32 (CHR ''S'') (CHR ''C'') (CHR ''I'') (CHR ''D'')"

definition SMM_CORE_HANDLE_DATABASE_SIGNATURE :: u32 where
  "SMM_CORE_HANDLE_DATABASE_SIGNATURE = SIGNATURE_32 (CHR ''S'') (CHR ''C'') (CHR ''H'') (CHR ''D'')"

definition SMM_CORE_PROTOCOL_DATABASE_SIGNATURE :: u32 where
  "SMM_CORE_PROTOCOL_DATABASE_SIGNATURE = SIGNATURE_32 (CHR ''S'') (CHR ''C'') (CHR ''P'') (CHR ''D'')"

definition SMM_CORE_SMI_DATABASE_SIGNATURE :: u32 where
  "SMM_CORE_SMI_DATABASE_SIGNATURE = SIGNATURE_32 (CHR ''S'') (CHR ''C'') (CHR ''S'') (CHR ''D'')"

abbreviation (input) sizeof_HANDLE_DATABASE :: nat where "sizeof_HANDLE_DATABASE \<equiv> 28"
abbreviation (input) sizeof_HANDLE_PROTOCOL :: nat where "sizeof_HANDLE_PROTOCOL \<equiv> 32"
abbreviation (input) sizeof_PROTOCOL_DATABASE :: nat where "sizeof_PROTOCOL_DATABASE \<equiv> 44"
abbreviation (input) sizeof_PROTOCOL_INTERFACE :: nat where "sizeof_PROTOCOL_INTERFACE \<equiv> 16"
abbreviation (input) sizeof_PROTOCOL_NOTIFY :: nat where "sizeof_PROTOCOL_NOTIFY \<equiv> 16"
abbreviation (input) sizeof_SMI_DATABASE :: nat where "sizeof_SMI_DATABASE \<equiv> 40"
abbreviation (input) sizeof_SMI_HANDLER :: nat where "sizeof_SMI_HANDLER \<equiv> 24"

abbreviation (input) o_Length :: nat where "o_Length \<equiv> 4"
abbreviation (input) o_ProtocolCount :: nat where "o_ProtocolCount \<equiv> 20"
abbreviation (input) o_InterfaceCount :: nat where "o_InterfaceCount \<equiv> 28"
abbreviation (input) o_NotifyCount :: nat where "o_NotifyCount \<equiv> 36"
abbreviation (input) o_IsRootHandler :: nat where "o_IsRootHandler \<equiv> 12"
abbreviation (input) o_DbHandlerType :: nat where "o_DbHandlerType \<equiv> 16"
abbreviation (input) o_HandlerCount :: nat where "o_HandlerCount \<equiv> 32"

text \<open>
  What the module is built with: the GUID under which it registers, the pool, and the library for
  child drivers.
\<close>

record smm_build =
  gEfiCallerIdGuid :: guid
  AllocDatabase :: "nat \<Rightarrow> addr"
  SmmChildGetDataSize :: nat
  SmmChildGetData :: "nat \<Rightarrow> addr \<Rightarrow> mem \<Rightarrow> mem"

text \<open>The functions of \<^verbatim>\<open>SmmChildDumpLibNull.c\<close>.\<close>

definition SmmChildGetDataSize_Null :: nat where
  "SmmChildGetDataSize_Null = 0"

definition SmmChildGetData_Null :: "nat \<Rightarrow> addr \<Rightarrow> mem \<Rightarrow> mem" where
  "SmmChildGetData_Null Size Data m = m"

section \<open>Sizes\<close>

definition GetSmmImageDatabaseSize :: "smm_dump \<Rightarrow> nat" where
  "GetSmmImageDatabaseSize s = sizeof_IMAGE * mImageStructCount s"

text \<open>The loops that only count.\<close>

definition size_loop :: "addr \<Rightarrow> (addr \<Rightarrow> nat \<Rightarrow> nat flow option) \<Rightarrow> mem \<Rightarrow> nat option" where
  "size_loop head body m =
     map_option (\<lambda>(r, _). case r of Next n \<Rightarrow> n | Break n \<Rightarrow> n | Return n \<Rightarrow> n)
       (for_list head (\<lambda>e Size m. map_option (\<lambda>r. (r, m)) (body e Size)) 0 m)"

definition GetSmmProtocolInterfacesSizeOnHandle :: "mem \<Rightarrow> addr \<Rightarrow> nat option" where
  "GetSmmProtocolInterfacesSizeOnHandle m IHandle =
     size_loop (IHandle + o_Handle_Protocols) (\<lambda>e Size. Some (Next (Size + sizeof_HANDLE_PROTOCOL))) m"

definition GetSmmHandlerDatabaseSize :: "mem \<Rightarrow> smm_heads \<Rightarrow> nat option" where
  "GetSmmHandlerDatabaseSize m g =
     size_loop (mSmmCoreHandleList g)
       (\<lambda>e Size. map_option (\<lambda>n. Next (Size + sizeof_HANDLE_DATABASE + n))
          (GetSmmProtocolInterfacesSizeOnHandle m (e - o_AllHandles))) m"

definition GetSmmProtocolInterfacesSizeOnProtocolEntry :: "mem \<Rightarrow> addr \<Rightarrow> nat option" where
  "GetSmmProtocolInterfacesSizeOnProtocolEntry m ProtocolEntry =
     size_loop (ProtocolEntry + o_Entry_Protocols) (\<lambda>e Size. Some (Next (Size + sizeof_PROTOCOL_INTERFACE))) m"

definition GetSmmProtocolNotifySizeOnProtocolEntry :: "mem \<Rightarrow> addr \<Rightarrow> nat option" where
  "GetSmmProtocolNotifySizeOnProtocolEntry m ProtocolEntry =
     size_loop (ProtocolEntry + o_Notify) (\<lambda>e Size. Some (Next (Size + sizeof_PROTOCOL_NOTIFY))) m"

definition GetSmmProtocolDatabaseSize :: "smm_build \<Rightarrow> mem \<Rightarrow> smm_heads \<Rightarrow> nat option" where
  "GetSmmProtocolDatabaseSize A m g =
     size_loop (mSmmCoreProtocolDatabase g)
       (\<lambda>e Size. let ProtocolEntry = e - o_AllEntries in
          if bytes_at m (ProtocolEntry + o_ProtocolID) 16 = gEfiCallerIdGuid A then Some (Break Size)
          else
            Option.bind (GetSmmProtocolInterfacesSizeOnProtocolEntry m ProtocolEntry) (\<lambda>n1.
            Option.bind (GetSmmProtocolNotifySizeOnProtocolEntry m ProtocolEntry) (\<lambda>n2.
              Some (Next (Size + sizeof_PROTOCOL_DATABASE + n1 + n2))))) m"

definition GetSmmSmiHandlerSizeOnSmiEntry :: "mem \<Rightarrow> addr \<Rightarrow> nat option" where
  "GetSmmSmiHandlerSizeOnSmiEntry m SmiEntry =
     size_loop (SmiEntry + o_SmiHandlers) (\<lambda>e Size. Some (Next (Size + sizeof_SMI_HANDLER))) m"

definition GetSmmSmiDatabaseSize :: "mem \<Rightarrow> smm_heads \<Rightarrow> nat option" where
  "GetSmmSmiDatabaseSize m g =
     size_loop (mSmmCoreSmiEntryList g)
       (\<lambda>e Size. map_option (\<lambda>n. Next (Size + sizeof_SMI_DATABASE + n))
          (GetSmmSmiHandlerSizeOnSmiEntry m (e - o_Smi_AllEntries))) m"

definition GetSmmRootSmiDatabaseSize :: "mem \<Rightarrow> smm_heads \<Rightarrow> nat option" where
  "GetSmmRootSmiDatabaseSize m g =
     map_option (\<lambda>n. sizeof_SMI_DATABASE + n)
       (size_loop (mSmmCoreRootSmiHandlerList g) (\<lambda>e Size. Some (Next (Size + sizeof_SMI_HANDLER))) m)"

record smm_sizes =
  mSmmImageDatabaseSize :: nat
  mSmmHandlerDatabaseSize :: nat
  mSmmProtocolDatabaseSize :: nat
  mSmmSmiDatabaseSize :: nat
  mSmmRootSmiDatabaseSize :: nat
  mSmmChildDatabaseSize :: nat

definition GetSmmCoreDatabaseSize :: "smm_build \<Rightarrow> smm_dump \<Rightarrow> mem \<Rightarrow> smm_heads \<Rightarrow> (nat \<times> smm_sizes) option" where
  "GetSmmCoreDatabaseSize A s m g =
     (let n1 = GetSmmImageDatabaseSize s in
      Option.bind (GetSmmHandlerDatabaseSize m g) (\<lambda>n2.
      Option.bind (GetSmmProtocolDatabaseSize A m g) (\<lambda>n3.
      Option.bind (GetSmmSmiDatabaseSize m g) (\<lambda>n4.
      Option.bind (GetSmmRootSmiDatabaseSize m g) (\<lambda>n5.
        let n6 = SmmChildGetDataSize A in
        Some (n1 + n2 + n3 + n4 + n5 + n6,
          \<lparr>mSmmImageDatabaseSize = n1, mSmmHandlerDatabaseSize = n2, mSmmProtocolDatabaseSize = n3,
           mSmmSmiDatabaseSize = n4, mSmmRootSmiDatabaseSize = n5, mSmmChildDatabaseSize = n6\<rparr>))))))"

section \<open>Data\<close>

text \<open>The result of a function: where a loop ends, \<open>after\<close> has the last word.\<close>

definition returning :: "('s \<Rightarrow> nat) \<Rightarrow> ('s flow \<times> mem) option \<Rightarrow> (nat \<times> mem) option" where
  "returning after r =
     map_option (\<lambda>(r, m). (case r of Next s \<Rightarrow> after s | Break s \<Rightarrow> after s | Return n \<Rightarrow> n, m)) r"

text \<open>The array behind a structure: \<open>n\<close> bytes for each node.\<close>

definition array_data ::
  "nat \<Rightarrow> (mem \<Rightarrow> addr \<Rightarrow> u8 list) \<Rightarrow> addr \<Rightarrow> addr \<Rightarrow> nat \<Rightarrow> mem \<Rightarrow> (nat \<times> mem) option"
where
  "array_data n entry head Data MaxSize m =
     returning id (for_list head
       (\<lambda>e Size m.
          if MaxSize \<le> Size then Some (Return 0, m)
          else if MaxSize - Size < n then Some (Return 0, m)
          else Some (Next (Size + n), store_at m (Data + Size) (entry m e))) 0 m)"

text \<open>An image structure is that of the PEI database under another signature.\<close>

definition smm_image_bytes :: "image_struct \<Rightarrow> u8 list" where
  "smm_image_bytes x =
     db_header SMM_CORE_IMAGE_DATABASE_SIGNATURE sizeof_IMAGE @ is_FileGuid x @ name_bytes (is_NameString x)
     @ w64 (is_EntryPoint x) @ w64 (is_LoadedImageBase x) @ w64 (is_ImageSize x) @ w64 (is_ImageBase x)"

text \<open>\<open>None\<close>: the array is read through a null pointer or past its end.\<close>

definition GetSmmImageDatabaseData :: "smm_dump \<Rightarrow> addr \<Rightarrow> nat \<Rightarrow> mem \<Rightarrow> (nat \<times> mem) option" where
  "GetSmmImageDatabaseData s Data ExpectedSize m =
     (if ExpectedSize div sizeof_IMAGE \<noteq> mImageStructCount s then Some (0, m)
      else if length (smm_images s) \<noteq> mImageStructCount s then None
      else Some (sizeof_IMAGE * mImageStructCount s,
                 put_all sizeof_IMAGE (map smm_image_bytes (smm_images s)) Data m))"

definition handle_protocol_bytes :: "smm_image_env \<Rightarrow> smm_dump \<Rightarrow> mem \<Rightarrow> addr \<Rightarrow> u8 list" where
  "handle_protocol_bytes E s m e =
     (let ProtocolInterface = e - o_Interface_Link;
          ProtocolID = bytes_at m (ptr m (ProtocolInterface + o_Protocol) + o_ProtocolID) 16;
          Interface = rd64 m (ProtocolInterface + o_Interface)
      in ProtocolID @ w64 Interface @ w64 (AddressToImageRefEx_smm E m s Interface ProtocolID))"

definition GetSmmProtocolInterfacesDataOnHandle ::
  "smm_image_env \<Rightarrow> smm_dump \<Rightarrow> addr \<Rightarrow> addr \<Rightarrow> nat \<Rightarrow> mem \<Rightarrow> (nat \<times> mem) option"
where
  "GetSmmProtocolInterfacesDataOnHandle E s IHandle Data MaxSize m =
     array_data sizeof_HANDLE_PROTOCOL (handle_protocol_bytes E s) (IHandle + o_Handle_Protocols) Data MaxSize m"

text \<open>The state of the loops over structures: \<open>Size\<close> and the structure's address.\<close>

definition handle_data_body ::
  "smm_image_env \<Rightarrow> smm_dump \<Rightarrow> nat \<Rightarrow> addr \<Rightarrow> nat \<times> addr \<Rightarrow> mem \<Rightarrow> ((nat \<times> addr) flow \<times> mem) option"
where
  "handle_data_body E s ExpectedSize e = (\<lambda>(Size, p) m.
     (let Handle = e - o_AllHandles in
      if ExpectedSize \<le> Size then Some (Return 0, m)
      else if ExpectedSize - Size < sizeof_HANDLE_DATABASE then Some (Return 0, m)
      else
        (let m = store_at m p (db_header SMM_CORE_HANDLE_DATABASE_SIGNATURE sizeof_HANDLE_DATABASE @ enc 8 Handle);
             Size = Size + sizeof_HANDLE_DATABASE
         in Option.bind
              (GetSmmProtocolInterfacesDataOnHandle E s Handle (p + unat (rd32 m (p + o_Length))) (ExpectedSize - Size) m)
              (\<lambda>(n, m).
                 let ProtocolCount = n div sizeof_HANDLE_PROTOCOL;
                     m = wr64 (p + o_ProtocolCount) (of_nat ProtocolCount) m;
                     Size = Size + ProtocolCount * sizeof_HANDLE_PROTOCOL;
                     m = wr_32 (p + o_Length) (rd32 m (p + o_Length) + of_nat (ProtocolCount * sizeof_HANDLE_PROTOCOL)) m
                 in Some (Next (Size, p + unat (rd32 m (p + o_Length))), m)))))"

text \<open>The end of the functions: what was written must be what was counted.\<close>

definition expected :: "nat \<Rightarrow> nat \<times> addr \<Rightarrow> nat" where
  "expected ExpectedSize = (\<lambda>(Size, _). if Size \<noteq> ExpectedSize then 0 else Size)"

definition GetSmmHandlerDatabaseData ::
  "smm_image_env \<Rightarrow> smm_dump \<Rightarrow> smm_heads \<Rightarrow> addr \<Rightarrow> nat \<Rightarrow> mem \<Rightarrow> (nat \<times> mem) option"
where
  "GetSmmHandlerDatabaseData E s g Data ExpectedSize m =
     returning (expected ExpectedSize)
       (for_list (mSmmCoreHandleList g) (handle_data_body E s ExpectedSize) (0, Data) m)"

definition protocol_interface_bytes :: "smm_image_env \<Rightarrow> smm_dump \<Rightarrow> mem \<Rightarrow> addr \<Rightarrow> u8 list" where
  "protocol_interface_bytes E s m e =
     (let ProtocolInterface = e - o_ByProtocol;
          ProtocolID = bytes_at m (ptr m (ProtocolInterface + o_Protocol) + o_ProtocolID) 16;
          Interface = rd64 m (ProtocolInterface + o_Interface)
      in w64 Interface @ w64 (AddressToImageRefEx_smm E m s Interface ProtocolID))"

definition GetSmmProtocolInterfacesDataOnProtocolEntry ::
  "smm_image_env \<Rightarrow> smm_dump \<Rightarrow> addr \<Rightarrow> addr \<Rightarrow> nat \<Rightarrow> mem \<Rightarrow> (nat \<times> mem) option"
where
  "GetSmmProtocolInterfacesDataOnProtocolEntry E s ProtocolEntry Data MaxSize m =
     array_data sizeof_PROTOCOL_INTERFACE (protocol_interface_bytes E s) (ProtocolEntry + o_Entry_Protocols) Data MaxSize m"

definition protocol_notify_bytes :: "smm_dump \<Rightarrow> mem \<Rightarrow> addr \<Rightarrow> u8 list" where
  "protocol_notify_bytes s m e =
     (let Function = rd64 m (e - o_Notify_Link + o_Function)
      in w64 Function @ w64 (AddressToImageRef_smm s Function))"

definition GetSmmProtocolNotifyDataOnProtocolEntry ::
  "smm_dump \<Rightarrow> addr \<Rightarrow> addr \<Rightarrow> nat \<Rightarrow> mem \<Rightarrow> (nat \<times> mem) option"
where
  "GetSmmProtocolNotifyDataOnProtocolEntry s ProtocolEntry Data MaxSize m =
     array_data sizeof_PROTOCOL_NOTIFY (protocol_notify_bytes s) (ProtocolEntry + o_Notify) Data MaxSize m"

definition protocol_data_body ::
  "smm_build \<Rightarrow> smm_image_env \<Rightarrow> smm_dump \<Rightarrow> nat \<Rightarrow> addr \<Rightarrow> nat \<times> addr \<Rightarrow> mem \<Rightarrow> ((nat \<times> addr) flow \<times> mem) option"
where
  "protocol_data_body A E s ExpectedSize e = (\<lambda>(Size, p) m.
     (let ProtocolEntry = e - o_AllEntries in
      if bytes_at m (ProtocolEntry + o_ProtocolID) 16 = gEfiCallerIdGuid A then Some (Break (Size, p), m)
      else if ExpectedSize \<le> Size then Some (Return 0, m)
      else if ExpectedSize - Size < sizeof_PROTOCOL_DATABASE then Some (Return 0, m)
      else
        (let m = store_at m p (db_header SMM_CORE_PROTOCOL_DATABASE_SIGNATURE sizeof_PROTOCOL_DATABASE
                   @ bytes_at m (ProtocolEntry + o_ProtocolID) 16);
             Size = Size + sizeof_PROTOCOL_DATABASE
         in Option.bind
              (GetSmmProtocolInterfacesDataOnProtocolEntry E s ProtocolEntry (p + unat (rd32 m (p + o_Length)))
                 (ExpectedSize - Size) m)
              (\<lambda>(n, m).
                 let InterfaceCount = n div sizeof_PROTOCOL_INTERFACE;
                     m = wr64 (p + o_InterfaceCount) (of_nat InterfaceCount) m;
                     Size = Size + InterfaceCount * sizeof_PROTOCOL_INTERFACE;
                     m = wr_32 (p + o_Length) (rd32 m (p + o_Length) + of_nat (InterfaceCount * sizeof_PROTOCOL_INTERFACE)) m
                 in Option.bind
                      (GetSmmProtocolNotifyDataOnProtocolEntry s ProtocolEntry (p + unat (rd32 m (p + o_Length)))
                         (ExpectedSize - Size) m)
                      (\<lambda>(n, m).
                         let NotifyCount = n div sizeof_PROTOCOL_NOTIFY;
                             m = wr64 (p + o_NotifyCount) (of_nat NotifyCount) m;
                             Size = Size + NotifyCount * sizeof_PROTOCOL_NOTIFY;
                             m = wr_32 (p + o_Length) (rd32 m (p + o_Length) + of_nat (NotifyCount * sizeof_PROTOCOL_NOTIFY)) m
                         in Some (Next (Size, p + unat (rd32 m (p + o_Length))), m))))))"

definition GetSmmProtocolDatabaseData ::
  "smm_build \<Rightarrow> smm_image_env \<Rightarrow> smm_dump \<Rightarrow> smm_heads \<Rightarrow> addr \<Rightarrow> nat \<Rightarrow> mem \<Rightarrow> (nat \<times> mem) option"
where
  "GetSmmProtocolDatabaseData A E s g Data ExpectedSize m =
     returning (expected ExpectedSize)
       (for_list (mSmmCoreProtocolDatabase g) (protocol_data_body A E s ExpectedSize) (0, Data) m)"

definition smi_handler_bytes :: "smm_dump \<Rightarrow> mem \<Rightarrow> addr \<Rightarrow> u8 list" where
  "smi_handler_bytes s m e =
     (let SmiHandler = e - o_Handler_Link; Handler = rd64 m (SmiHandler + o_Handler)
      in enc 8 SmiHandler @ w64 Handler @ w64 (AddressToImageRef_smm s Handler))"

definition GetSmmSmiHandlerDataOnSmiEntry ::
  "smm_dump \<Rightarrow> addr \<Rightarrow> addr \<Rightarrow> nat \<Rightarrow> mem \<Rightarrow> (nat \<times> mem) option"
where
  "GetSmmSmiHandlerDataOnSmiEntry s SmiEntry Data MaxSize m =
     array_data sizeof_SMI_HANDLER (smi_handler_bytes s) (SmiEntry + o_SmiHandlers) Data MaxSize m"

text \<open>The head of an SMI structure; its three reserved bytes are not written.\<close>

definition put_smi_head :: "addr \<Rightarrow> u8 \<Rightarrow> guid \<Rightarrow> mem \<Rightarrow> mem" where
  "put_smi_head p IsRootHandler HandlerType m =
     store_at (store_at m p (db_header SMM_CORE_SMI_DATABASE_SIGNATURE sizeof_SMI_DATABASE @ [IsRootHandler]))
       (p + o_DbHandlerType) HandlerType"

definition smi_data_body ::
  "smm_dump \<Rightarrow> nat \<Rightarrow> addr \<Rightarrow> nat \<times> addr \<Rightarrow> mem \<Rightarrow> ((nat \<times> addr) flow \<times> mem) option"
where
  "smi_data_body s ExpectedSize e = (\<lambda>(Size, p) m.
     (let SmiEntry = e - o_Smi_AllEntries in
      if ExpectedSize \<le> Size then Some (Return 0, m)
      else if ExpectedSize - Size < sizeof_SMI_DATABASE then Some (Return 0, m)
      else
        (let m = put_smi_head p 0 (bytes_at m (SmiEntry + o_HandlerType) 16) m;
             Size = Size + sizeof_SMI_DATABASE
         in Option.bind
              (GetSmmSmiHandlerDataOnSmiEntry s SmiEntry (p + unat (rd32 m (p + o_Length))) (ExpectedSize - Size) m)
              (\<lambda>(n, m).
                 let HandlerCount = n div sizeof_SMI_HANDLER;
                     m = wr64 (p + o_HandlerCount) (of_nat HandlerCount) m;
                     Size = Size + HandlerCount * sizeof_SMI_HANDLER;
                     m = wr_32 (p + o_Length) (rd32 m (p + o_Length) + of_nat (HandlerCount * sizeof_SMI_HANDLER)) m
                 in Some (Next (Size, p + unat (rd32 m (p + o_Length))), m)))))"

definition GetSmmSmiDatabaseData :: "smm_dump \<Rightarrow> smm_heads \<Rightarrow> addr \<Rightarrow> nat \<Rightarrow> mem \<Rightarrow> (nat \<times> mem) option" where
  "GetSmmSmiDatabaseData s g Data ExpectedSize m =
     returning (expected ExpectedSize)
       (for_list (mSmmCoreSmiEntryList g) (smi_data_body s ExpectedSize) (0, Data) m)"

text \<open>The root handlers share one structure, whose count and length grow with each of them.\<close>

definition root_data_body ::
  "smm_dump \<Rightarrow> addr \<Rightarrow> nat \<Rightarrow> addr \<Rightarrow> nat \<times> addr \<Rightarrow> mem \<Rightarrow> ((nat \<times> addr) flow \<times> mem) option"
where
  "root_data_body s SmiStruct ExpectedSize e = (\<lambda>(Size, p) m.
     (if ExpectedSize \<le> Size then Some (Return 0, m)
      else if ExpectedSize - Size < sizeof_SMI_HANDLER then Some (Return 0, m)
      else
        (let m = store_at m p (smi_handler_bytes s m e);
             m = wr64 (SmiStruct + o_HandlerCount) (rd64 m (SmiStruct + o_HandlerCount) + 1) m;
             m = wr_32 (SmiStruct + o_Length) (rd32 m (SmiStruct + o_Length) + of_nat sizeof_SMI_HANDLER) m
         in Some (Next (Size + sizeof_SMI_HANDLER, p + sizeof_SMI_HANDLER), m))))"

definition GetSmmRootSmiDatabaseData :: "smm_dump \<Rightarrow> smm_heads \<Rightarrow> addr \<Rightarrow> nat \<Rightarrow> mem \<Rightarrow> (nat \<times> mem) option" where
  "GetSmmRootSmiDatabaseData s g Data ExpectedSize m =
     (let m = put_smi_head Data 1 (replicate 16 0) m;
          m = wr64 (Data + o_HandlerCount) 0 m
      in returning (expected ExpectedSize)
           (for_list (mSmmCoreRootSmiHandlerList g) (root_data_body s Data ExpectedSize)
              (sizeof_SMI_DATABASE, Data + unat (rd32 m (Data + o_Length))) m))"

section \<open>The database\<close>

text \<open>A group that has not the size it was counted with ends the function.\<close>

definition then_group ::
  "nat \<Rightarrow> (nat \<times> mem) option \<Rightarrow> (mem \<Rightarrow> (efi_status \<times> mem) option) \<Rightarrow> (efi_status \<times> mem) option"
where
  "then_group counted written rest =
     Option.bind written (\<lambda>(n, m). if n \<noteq> counted then Some (EFI_INVALID_PARAMETER, m) else rest m)"

definition GetSmmCoreDatabaseData ::
  "smm_build \<Rightarrow> smm_image_env \<Rightarrow> smm_dump \<Rightarrow> smm_heads \<Rightarrow> smm_sizes \<Rightarrow> addr \<Rightarrow> mem \<Rightarrow> (efi_status \<times> mem) option"
where
  "GetSmmCoreDatabaseData A E s g z Data m =
     then_group (mSmmImageDatabaseSize z) (GetSmmImageDatabaseData s Data (mSmmImageDatabaseSize z) m) (\<lambda>m.
     let p = Data + mSmmImageDatabaseSize z in
     then_group (mSmmHandlerDatabaseSize z) (GetSmmHandlerDatabaseData E s g p (mSmmHandlerDatabaseSize z) m) (\<lambda>m.
     let p = p + mSmmHandlerDatabaseSize z in
     then_group (mSmmProtocolDatabaseSize z) (GetSmmProtocolDatabaseData A E s g p (mSmmProtocolDatabaseSize z) m) (\<lambda>m.
     let p = p + mSmmProtocolDatabaseSize z in
     then_group (mSmmSmiDatabaseSize z) (GetSmmSmiDatabaseData s g p (mSmmSmiDatabaseSize z) m) (\<lambda>m.
     let p = p + mSmmSmiDatabaseSize z in
     then_group (mSmmRootSmiDatabaseSize z) (GetSmmRootSmiDatabaseData s g p (mSmmRootSmiDatabaseSize z) m) (\<lambda>m.
     let p = p + mSmmRootSmiDatabaseSize z in
     Some (EFI_SUCCESS,
       if mSmmChildDatabaseSize z \<noteq> 0 then SmmChildGetData A (mSmmChildDatabaseSize z) p m else m))))))"

definition BuildSmmCoreDatabase ::
  "smm_build \<Rightarrow> smm_image_env \<Rightarrow> smm_dump \<Rightarrow> smm_heads \<Rightarrow> smm_db \<times> mem \<Rightarrow> (smm_db \<times> mem) option"
where
  "BuildSmmCoreDatabase A E s g = (\<lambda>(S, m).
     Option.bind (GetSmmCoreDatabaseSize A s m g) (\<lambda>(n, z).
       let S = S\<lparr>mSmmCoreDatabaseSize := of_nat n, mSmmCoreDatabase := AllocDatabase A n\<rparr> in
       if mSmmCoreDatabase S = NULL then Some (S, m)
       else
         Option.bind (GetSmmCoreDatabaseData A E s g z (mSmmCoreDatabase S) m) (\<lambda>(Status, m).
           Some (if EFI_ERROR Status then S\<lparr>mSmmCoreDatabase := NULL\<rparr> else S, m))))"

end
