(* ===== verification/Smm_Database_Props.thy ===== *)
theory Smm_Database_Props
  imports Smm_Database
begin

text \<open>
  What \<^verbatim>\<open>BuildSmmCoreDatabase\<close> makes: the structures of the database as a datatype, what the SMM core's
  lists say in terms of it, and the proof that the module writes exactly these structures.
\<close>

section \<open>The structures\<close>

datatype db_item =
    ImageItem image_struct
  | HandleItem addr "(guid \<times> u64 \<times> u64) list"
  | ProtocolItem guid "(u64 \<times> u64) list" "(u64 \<times> u64) list"
  | SmiItem bool guid "(addr \<times> u64 \<times> u64) list"

fun entry_bytes :: "guid \<times> u64 \<times> u64 \<Rightarrow> u8 list" where
  "entry_bytes (g, i, r) = g @ w64 i @ w64 r"

fun pair_bytes :: "u64 \<times> u64 \<Rightarrow> u8 list" where
  "pair_bytes (f, r) = w64 f @ w64 r"

fun handler_bytes :: "addr \<times> u64 \<times> u64 \<Rightarrow> u8 list" where
  "handler_bytes (h, f, r) = enc 8 h @ w64 f @ w64 r"

fun item_length :: "db_item \<Rightarrow> nat" where
  "item_length (ImageItem x) = sizeof_IMAGE"
| "item_length (HandleItem h ps) = sizeof_HANDLE_DATABASE + sizeof_HANDLE_PROTOCOL * length ps"
| "item_length (ProtocolItem g is ns) =
     sizeof_PROTOCOL_DATABASE + sizeof_PROTOCOL_INTERFACE * length is + sizeof_PROTOCOL_NOTIFY * length ns"
| "item_length (SmiItem root g hs) = sizeof_SMI_DATABASE + sizeof_SMI_HANDLER * length hs"

text \<open>The gap is the field \<open>Reserved\<close>.\<close>

fun item_pattern :: "db_item \<Rightarrow> pattern" where
  "item_pattern (ImageItem x) = solid (smm_image_bytes x)"
| "item_pattern (HandleItem h ps) =
     solid (db_header SMM_CORE_HANDLE_DATABASE_SIGNATURE (item_length (HandleItem h ps))
       @ enc 8 h @ enc 8 (length ps) @ concat (map entry_bytes ps))"
| "item_pattern (ProtocolItem g is ns) =
     solid (db_header SMM_CORE_PROTOCOL_DATABASE_SIGNATURE (item_length (ProtocolItem g is ns))
       @ g @ enc 8 (length is) @ enc 8 (length ns) @ concat (map pair_bytes is) @ concat (map pair_bytes ns))"
| "item_pattern (SmiItem root g hs) =
     solid (db_header SMM_CORE_SMI_DATABASE_SIGNATURE (item_length (SmiItem root g hs)) @ [if root then 1 else 0])
     @ replicate 3 None @ solid (g @ enc 8 (length hs) @ concat (map handler_bytes hs))"

text \<open>GUIDs have 16 bytes, names fit, and the length fits the header.\<close>

fun item_ok :: "db_item \<Rightarrow> bool" where
  "item_ok (ImageItem x) \<longleftrightarrow> image_wf x"
| "item_ok (HandleItem h ps) \<longleftrightarrow> item_length (HandleItem h ps) < 2 ^ 32 \<and> (\<forall>(g, _)\<in>set ps. length g = 16)"
| "item_ok (ProtocolItem g is ns) \<longleftrightarrow> item_length (ProtocolItem g is ns) < 2 ^ 32 \<and> length g = 16"
| "item_ok (SmiItem root g hs) \<longleftrightarrow> item_length (SmiItem root g hs) < 2 ^ 32 \<and> length g = 16"

lemma length_pair [simp]: "length (pair_bytes x) = 16"
  by (cases x) simp

lemma length_handler [simp]: "length (handler_bytes x) = 24"
  by (cases x) simp

lemma length_concat_map: "(\<And>x. x \<in> set xs \<Longrightarrow> length (f x) = n) \<Longrightarrow> length (concat (map f xs)) = n * length xs"
  by (induction xs) auto

lemma length_entries: "\<forall>(g, _)\<in>set ps. length g = 16 \<Longrightarrow> length (concat (map entry_bytes ps)) = 32 * length ps"
  by (rule length_concat_map) auto

lemma length_pairs [simp]: "length (concat (map pair_bytes xs)) = 16 * length xs"
  by (rule length_concat_map) simp

lemma length_handlers [simp]: "length (concat (map handler_bytes xs)) = 24 * length xs"
  by (rule length_concat_map) simp

lemma length_smm_image: "image_wf x \<Longrightarrow> length (smm_image_bytes x) = sizeof_IMAGE"
  by (simp add: smm_image_bytes_def image_wf_def length_name_bytes)

lemma length_item: "item_ok it \<Longrightarrow> length (item_pattern it) = item_length it"
  by (cases it) (auto simp: length_smm_image length_entries simp del: length_concat)

section \<open>Loops\<close>

lemma size_loop_counts:
  assumes "list_upto M head Q P xs" "m \<in> M"
    and "\<And>e x n. P e x \<Longrightarrow> x \<in> set xs \<Longrightarrow> body e n = Some (Next (n + len x))"
    and "\<And>e s. Q e \<Longrightarrow> body e s = Some (Break s)"
  shows "size_loop head body m = Some (sum_list (map len xs))"
  unfolding size_loop_def
  by (subst list_counts [OF assms(1,2), of _ len]) (simp_all add: assms(3,4))

lemma array_size:
  assumes "list_of M head P xs" "m \<in> M"
  shows "size_loop head (\<lambda>e Size. Some (Next (Size + k))) m = Some (k * length xs)"
  using size_loop_counts [OF list_of_upto [OF assms(1)] assms(2), of "\<lambda>e Size. Some (Next (Size + k))" "\<lambda>_. k"]
  by (simp add: sum_list_triv)

lemma concat_solid: "concat (map (\<lambda>x. solid (f x)) xs) = solid (concat (map f xs))"
  by (induction xs) auto

lemma array_data_paints:
  assumes list: "list_of (around B N m0) head (always (around B N m0) view) xs"
    and entry: "\<And>m e. entry m e = bytes (view m e)" and k: "\<And>x. x \<in> set xs \<Longrightarrow> length (bytes x) = k" "0 < k"
    and m: "m \<in> around B N m0" "B \<le> D" "D + T \<le> B + N" "k * length xs \<le> T"
  shows "array_data k entry head D T m = Some (k * length xs, paint m D (solid (concat (map bytes xs))))"
proof -
  have len: "length (concat (map (\<lambda>x. solid (bytes x)) xs)) = k * length xs"
    using k(1) by (intro length_concat_map) simp
  let ?body = "\<lambda>e Size m. if T \<le> Size then Some (Return 0, m) else if T - Size < k then Some (Return 0, m)
    else Some (Next (Size + k), store_at m (D + Size) (entry m e))"
  have "for_list head ?body (id 0) m = Some (Break (id (0 + length (concat (map (\<lambda>x. solid (bytes x)) xs)))),
      paint m (D + 0) (concat (map (\<lambda>x. solid (bytes x)) xs)))"
  proof (rule list_paints [OF list_of_upto [OF list], where T = T])
    fix e x n m
    assume "always (around B N m0) view e x" "x \<in> set xs" "m \<in> around B N m0" "n + length (solid (bytes x)) \<le> T"
    with k show "?body e (id n) m = Some (Next (id (n + length (solid (bytes x)))), paint m (D + n) (solid (bytes x)))"
      by (auto simp: always_def entry store_paint)
  qed (use m len in simp_all)
  then show ?thesis
    using len by (simp add: array_data_def returning_def concat_solid del: length_concat)
qed

section \<open>Headers\<close>

lemma enc_mod: "enc n (v mod 256 ^ n) = enc n v"
proof (induction n arbitrary: v)
  case 0
  then show ?case by simp
next
  case (Suc n)
  have "v mod 256 ^ Suc n = 256 * (v div 256 mod 256 ^ n) + v mod 256" by (simp add: mod_mult2_eq)
  then have "v mod 256 ^ Suc n mod 256 = v mod 256" "v mod 256 ^ Suc n div 256 = v div 256 mod 256 ^ n" by simp_all
  with Suc show ?case by (simp only: enc.simps)
qed

lemma w32_of_nat: "w32 (of_nat n) = enc 4 n"
  using enc_mod [of 4 n] by (simp add: w32_def unat_of_nat)

text \<open>A structure that starts with a header: its length is read and made longer.\<close>

lemma header_length:
  "rd32 (paint m p (solid (db_header sig n) @ z)) (p + 4) = of_nat n"
proof -
  have "holds (paint m p (solid (w32 sig) @ solid (enc 4 n) @ (solid (w32 1) @ z))) (p + length (solid (w32 sig))) (enc 4 n)"
    by (rule holds_paint)
  then show ?thesis by (intro rd32_nat) (simp add: db_header_def)
qed

lemma header_longer:
  "wr_32 (p + 4) (rd32 (paint m p (solid (db_header sig n) @ z)) (p + 4) + of_nat j) (paint m p (solid (db_header sig n) @ z)) =
   paint m p (solid (db_header sig (n + j)) @ z)"
proof -
  have "paint (paint m p (solid (w32 sig) @ solid (enc 4 n) @ (solid (w32 1) @ z))) (p + 4) (solid (enc 4 (n + j))) =
      paint m p (solid (w32 sig) @ solid (enc 4 (n + j)) @ (solid (w32 1) @ z))"
    by (rule paint_over) simp_all
  moreover have "w32 (of_nat n + of_nat j) = enc 4 (n + j)"
    using w32_of_nat [of "n + j"] by simp
  ultimately show ?thesis
    unfolding wr_32_def store_paint header_length by (simp add: db_header_def)
qed

lemma w64_nat: "w64 (of_nat n) = enc 8 n"
  using enc_mod [of 8 n] by (simp add: w64_def unat_of_nat)

text \<open>A count that is filled in after the array behind it.\<close>

lemma count_filled:
  assumes "q = p + length x" "length g = 8"
  shows "wr64 q (of_nat n) (paint m p (x @ g @ z)) = paint m p (x @ solid (enc 8 n) @ z)"
  unfolding wr64_def store_paint w64_nat using assms by (intro paint_over) simp_all

lemma unat_small: "n < 2 ^ 32 \<Longrightarrow> unat (of_nat n :: u32) = n"
  by (simp add: unat_of_nat)

section \<open>What the lists say\<close>

definition interface_view :: "smm_image_env \<Rightarrow> smm_dump \<Rightarrow> mem \<Rightarrow> addr \<Rightarrow> guid \<times> u64 \<times> u64" where
  "interface_view E s m e =
     (let i = e - o_Interface_Link; g = bytes_at m (ptr m (i + o_Protocol) + o_ProtocolID) 16; Interface = rd64 m (i + o_Interface)
      in (g, Interface, AddressToImageRefEx_smm E m s Interface g))"

definition by_protocol_view :: "smm_image_env \<Rightarrow> smm_dump \<Rightarrow> mem \<Rightarrow> addr \<Rightarrow> u64 \<times> u64" where
  "by_protocol_view E s m e =
     (let i = e - o_ByProtocol; g = bytes_at m (ptr m (i + o_Protocol) + o_ProtocolID) 16; Interface = rd64 m (i + o_Interface)
      in (Interface, AddressToImageRefEx_smm E m s Interface g))"

definition notify_view :: "smm_dump \<Rightarrow> mem \<Rightarrow> addr \<Rightarrow> u64 \<times> u64" where
  "notify_view s m e = (let f = rd64 m (e - o_Notify_Link + o_Function) in (f, AddressToImageRef_smm s f))"

definition handler_view :: "smm_dump \<Rightarrow> mem \<Rightarrow> addr \<Rightarrow> addr \<times> u64 \<times> u64" where
  "handler_view s m e =
     (let h = e - o_Handler_Link; f = rd64 m (h + o_Handler) in (h, f, AddressToImageRef_smm s f))"

definition protocol_id :: "mem \<Rightarrow> addr \<Rightarrow> guid" where
  "protocol_id m e = bytes_at m (e - o_AllEntries + o_ProtocolID) 16"

definition handler_type :: "mem \<Rightarrow> addr \<Rightarrow> guid" where
  "handler_type m e = bytes_at m (e - o_Smi_AllEntries + o_HandlerType) 16"

text \<open>A node of one of the lists and the structure it stands for, in all memories of a set.\<close>

definition handle_item :: "mem set \<Rightarrow> smm_image_env \<Rightarrow> smm_dump \<Rightarrow> addr \<Rightarrow> db_item \<Rightarrow> bool" where
  "handle_item M E s e it \<longleftrightarrow>
     (\<exists>ps. it = HandleItem (e - o_AllHandles) ps \<and>
        list_of M (e - o_AllHandles + o_Handle_Protocols) (always M (interface_view E s)) ps)"

definition protocol_item :: "mem set \<Rightarrow> smm_build \<Rightarrow> smm_image_env \<Rightarrow> smm_dump \<Rightarrow> addr \<Rightarrow> db_item \<Rightarrow> bool" where
  "protocol_item M A E s e it \<longleftrightarrow>
     (\<exists>g is ns. it = ProtocolItem g is ns \<and> always M protocol_id e g \<and> g \<noteq> gEfiCallerIdGuid A \<and>
        list_of M (e - o_AllEntries + o_Entry_Protocols) (always M (by_protocol_view E s)) is \<and>
        list_of M (e - o_AllEntries + o_Notify) (always M (notify_view s)) ns)"

definition smi_item :: "mem set \<Rightarrow> smm_dump \<Rightarrow> addr \<Rightarrow> db_item \<Rightarrow> bool" where
  "smi_item M s e it \<longleftrightarrow>
     (\<exists>g hs. it = SmiItem False g hs \<and> always M handler_type e g \<and>
        list_of M (e - o_Smi_AllEntries + o_SmiHandlers) (always M (handler_view s)) hs)"

lemma entries_are_views:
  "handle_protocol_bytes E s m e = entry_bytes (interface_view E s m e)"
  "protocol_interface_bytes E s m e = pair_bytes (by_protocol_view E s m e)"
  "protocol_notify_bytes s m e = pair_bytes (notify_view s m e)"
  "smi_handler_bytes s m e = handler_bytes (handler_view s m e)"
  by (simp_all add: handle_protocol_bytes_def interface_view_def protocol_interface_bytes_def by_protocol_view_def
      protocol_notify_bytes_def notify_view_def smi_handler_bytes_def handler_view_def Let_def)

section \<open>One structure\<close>

text \<open>The buffer, an address in it and room for the structure.\<close>

definition room :: "addr \<Rightarrow> nat \<Rightarrow> mem \<Rightarrow> addr \<Rightarrow> nat \<Rightarrow> mem \<Rightarrow> bool" where
  "room B N m0 D T m \<longleftrightarrow> m \<in> around B N m0 \<and> B \<le> D \<and> D + T \<le> B + N"

lemma room_paint: "room B N m0 D T m \<Longrightarrow> D \<le> p \<Longrightarrow> p + length bs \<le> D + T \<Longrightarrow> room B N m0 D T (paint m p bs)"
  by (auto simp: room_def intro: around_paint)

lemma handle_paints:
  assumes it: "handle_item (around B N m0) E s e it" "item_ok it"
    and room: "room B N m0 D T m" "n + item_length it \<le> T"
  shows "handle_data_body E s T e (n, D + n) m =
    Some (Next (n + item_length it, D + (n + item_length it)), paint m (D + n) (item_pattern it))"
proof -
  from it obtain ps where ps: "it = HandleItem (e - o_AllHandles) ps"
    "list_of (around B N m0) (e - o_AllHandles + o_Handle_Protocols) (always (around B N m0) (interface_view E s)) ps"
    by (auto simp: handle_item_def)
  let ?p = "D + n" and ?h = "solid (enc 8 (e - o_AllHandles))" and ?k = "length ps"
  let ?Y = "solid (concat (map entry_bytes ps))"
  let ?hdr = "\<lambda>l. solid (db_header SMM_CORE_HANDLE_DATABASE_SIGNATURE l)"
  let ?m1 = "paint m ?p (?hdr 28 @ ?h)"
  have small: "28 + 32 * ?k < 2 ^ 32" and g: "\<forall>(g, _)\<in>set ps. length g = 16" and T: "n + 28 + 32 * ?k \<le> T"
    using it(2) room(2) ps(1) by auto
  have m1: "room B N m0 D T ?m1" using room T by (intro room_paint) auto
  have child: "array_data sizeof_HANDLE_PROTOCOL (handle_protocol_bytes E s) (e - o_AllHandles + o_Handle_Protocols)
      (?p + 28) (T - (n + 28)) ?m1 = Some (32 * ?k, paint ?m1 (?p + 28) ?Y)"
    using m1 T g by (intro array_data_paints [OF ps(2)]) (auto simp: entries_are_views room_def)
  have m2: "paint ?m1 (?p + 28) ?Y = paint m ?p (?hdr 28 @ ?h @ replicate 8 None @ ?Y)"
    by (subst paint_gap [where k = 8]) simp_all
  have m3: "wr64 (?p + o_ProtocolCount) (of_nat ?k) (paint ?m1 (?p + 28) ?Y) = paint m ?p (?hdr 28 @ ?h @ solid (enc 8 ?k) @ ?Y)"
    unfolding m2 using count_filled [of "?p + 20" ?p "?hdr 28 @ ?h" "replicate 8 None" ?k m ?Y] by simp
  let ?m3 = "paint m ?p (?hdr 28 @ ?h @ solid (enc 8 ?k) @ ?Y)"
  have m4: "wr_32 (?p + o_Length) (rd32 ?m3 (?p + o_Length) + of_nat ?k * 32) ?m3 = paint m ?p (item_pattern it)"
    using header_longer [of ?p m _ 28 "?h @ solid (enc 8 ?k) @ ?Y" "?k * 32"] by (simp add: ps(1) mult.commute)
  have lens: "unat (rd32 ?m1 (?p + o_Length)) = 28" "unat (rd32 (paint m ?p (item_pattern it)) (?p + o_Length)) = 28 + 32 * ?k"
    using small unat_small [of 28] unat_small [of "28 + 32 * ?k"] by (simp_all add: header_length ps(1))
  have "store_at m ?p (db_header SMM_CORE_HANDLE_DATABASE_SIGNATURE sizeof_HANDLE_DATABASE @ enc 8 (e - o_AllHandles)) = ?m1"
    by (simp add: store_paint)
  with T show ?thesis
    by (simp add: handle_data_body_def GetSmmProtocolInterfacesDataOnHandle_def lens(1) child Let_def m3 m4 lens(2))
      (simp add: ps(1))
qed

lemma protocol_paints:
  assumes it: "protocol_item (around B N m0) A E s e it" "item_ok it"
    and room: "room B N m0 D T m" "n + item_length it \<le> T"
  shows "protocol_data_body A E s T e (n, D + n) m =
    Some (Next (n + item_length it, D + (n + item_length it)), paint m (D + n) (item_pattern it))"
proof -
  from it obtain g xs ns where ps: "it = ProtocolItem g xs ns" "always (around B N m0) protocol_id e g" "g \<noteq> gEfiCallerIdGuid A"
    and ifs: "list_of (around B N m0) (e - o_AllEntries + o_Entry_Protocols) (always (around B N m0) (by_protocol_view E s)) xs"
    and nfs: "list_of (around B N m0) (e - o_AllEntries + o_Notify) (always (around B N m0) (notify_view s)) ns"
    by (auto simp: protocol_item_def)
  let ?p = "D + n" and ?i = "length xs" and ?k = "length ns"
  let ?X = "solid (concat (map pair_bytes xs))" and ?Y = "solid (concat (map pair_bytes ns))"
  let ?hdr = "\<lambda>l. solid (db_header SMM_CORE_PROTOCOL_DATABASE_SIGNATURE l)"
  let ?m1 = "paint m ?p (?hdr 44 @ solid g)"
  let ?L = "44 + 16 * ?i"
  let ?m2 = "paint m ?p (?hdr ?L @ solid g @ solid (enc 8 ?i) @ replicate 8 None @ ?X)"
  have small: "?L + 16 * ?k < 2 ^ 32" and len: "length g = 16" and T: "n + ?L + 16 * ?k \<le> T"
    using it(2) room(2) ps(1) by auto
  have id: "bytes_at m (e - o_AllEntries + o_ProtocolID) 16 = g"
    using ps(2) room(1) by (simp add: always_def protocol_id_def room_def)
  have m1: "room B N m0 D T ?m1" using room T len by (intro room_paint) auto
  have first: "array_data sizeof_PROTOCOL_INTERFACE (protocol_interface_bytes E s) (e - o_AllEntries + o_Entry_Protocols)
      (?p + 44) (T - (n + 44)) ?m1 = Some (16 * ?i, paint ?m1 (?p + 44) ?X)"
    using m1 T by (intro array_data_paints [OF ifs]) (auto simp: entries_are_views room_def)
  have "paint ?m1 (?p + 44) ?X = paint m ?p (?hdr 44 @ solid g @ replicate 8 None @ replicate 8 None @ ?X)"
    using len by (subst paint_gap [where k = 16]) (simp_all flip: replicate_add append_assoc)
  then have c1: "wr64 (?p + o_InterfaceCount) (of_nat ?i) (paint ?m1 (?p + 44) ?X) =
      paint m ?p (?hdr 44 @ solid g @ solid (enc 8 ?i) @ replicate 8 None @ ?X)"
    using len count_filled [of "?p + 28" ?p "?hdr 44 @ solid g" "replicate 8 None" ?i m "replicate 8 None @ ?X"] by simp
  have l1: "wr_32 (?p + o_Length) (rd32 M (?p + o_Length) + of_nat ?i * 16) M = ?m2"
    if "M = paint m ?p (?hdr 44 @ solid g @ solid (enc 8 ?i) @ replicate 8 None @ ?X)" for M
    using header_longer [of ?p m _ 44 "solid g @ solid (enc 8 ?i) @ replicate 8 None @ ?X" "?i * 16"] that
    by (simp add: mult.commute)
  have m2: "room B N m0 D T ?m2" using room T len by (intro room_paint) auto
  have second: "array_data sizeof_PROTOCOL_NOTIFY (protocol_notify_bytes s) (e - o_AllEntries + o_Notify)
      (?p + ?L) (T - (n + 44 + ?i * 16)) ?m2 = Some (16 * ?k, paint ?m2 (?p + ?L) ?Y)"
    using m2 T by (intro array_data_paints [OF nfs]) (auto simp: entries_are_views room_def)
  have "paint ?m2 (?p + ?L) ?Y = paint m ?p (?hdr ?L @ solid g @ solid (enc 8 ?i) @ replicate 8 None @ ?X @ ?Y)"
    using len by (subst paint_append) simp_all
  then have c2: "wr64 (?p + o_NotifyCount) (of_nat ?k) (paint ?m2 (?p + ?L) ?Y) =
      paint m ?p (?hdr ?L @ solid g @ solid (enc 8 ?i) @ solid (enc 8 ?k) @ ?X @ ?Y)"
    using len count_filled [of "?p + 36" ?p "?hdr ?L @ solid g @ solid (enc 8 ?i)" "replicate 8 None" ?k m "?X @ ?Y"] by simp
  have l2: "wr_32 (?p + o_Length) (rd32 M (?p + o_Length) + of_nat ?k * 16) M = paint m ?p (item_pattern it)"
    if "M = paint m ?p (?hdr ?L @ solid g @ solid (enc 8 ?i) @ solid (enc 8 ?k) @ ?X @ ?Y)" for M
    using header_longer [of ?p m _ ?L "solid g @ solid (enc 8 ?i) @ solid (enc 8 ?k) @ ?X @ ?Y" "?k * 16"] that
    by (simp add: ps(1) mult.commute)
  have lens: "unat (rd32 ?m1 (?p + o_Length)) = 44" "unat (rd32 ?m2 (?p + o_Length)) = ?L"
    "unat (rd32 (paint m ?p (item_pattern it)) (?p + o_Length)) = ?L + 16 * ?k"
    using small unat_small [of 44] unat_small [of ?L] unat_small [of "?L + 16 * ?k"] by (simp_all add: header_length ps(1))
  have "store_at m ?p (db_header SMM_CORE_PROTOCOL_DATABASE_SIGNATURE sizeof_PROTOCOL_DATABASE @ g) = ?m1"
    by (simp add: store_paint)
  with T show ?thesis
    by (simp add: protocol_data_body_def GetSmmProtocolInterfacesDataOnProtocolEntry_def
        GetSmmProtocolNotifyDataOnProtocolEntry_def id ps(3) lens(1) first Let_def c1 l1 lens(2) second c2 l2 lens(3))
      (simp add: ps(1))
qed

abbreviation (input) smi_hdr :: "nat \<Rightarrow> pattern" where
  "smi_hdr l \<equiv> solid (db_header SMM_CORE_SMI_DATABASE_SIGNATURE l)"

lemma smi_head_paints:
  "put_smi_head p r g m = paint m p (smi_hdr 40 @ [Some r] @ replicate 3 None @ solid g)"
  unfolding put_smi_head_def store_paint by (subst paint_gap [where k = 3]) simp_all

lemma smi_paints:
  assumes it: "smi_item (around B N m0) s e it" "item_ok it"
    and room: "room B N m0 D T m" "n + item_length it \<le> T"
  shows "smi_data_body s T e (n, D + n) m =
    Some (Next (n + item_length it, D + (n + item_length it)), paint m (D + n) (item_pattern it))"
proof -
  from it obtain g hs where hs: "it = SmiItem False g hs" "always (around B N m0) handler_type e g"
    "list_of (around B N m0) (e - o_Smi_AllEntries + o_SmiHandlers) (always (around B N m0) (handler_view s)) hs"
    by (auto simp: smi_item_def)
  let ?p = "D + n" and ?k = "length hs" and ?Y = "solid (concat (map handler_bytes hs))"
  let ?Z = "[Some 0] @ replicate 3 None @ solid g"
  let ?m1 = "paint m ?p (smi_hdr 40 @ ?Z)"
  have small: "40 + 24 * ?k < 2 ^ 32" and len: "length g = 16" and T: "n + 40 + 24 * ?k \<le> T"
    using it(2) room(2) hs(1) by auto
  have id: "bytes_at m (e - o_Smi_AllEntries + o_HandlerType) 16 = g"
    using hs(2) room(1) by (simp add: always_def handler_type_def room_def)
  have m1: "room B N m0 D T ?m1" using room T len by (intro room_paint) auto
  have child: "array_data sizeof_SMI_HANDLER (smi_handler_bytes s) (e - o_Smi_AllEntries + o_SmiHandlers)
      (?p + 40) (T - (n + 40)) ?m1 = Some (24 * ?k, paint ?m1 (?p + 40) ?Y)"
    using m1 T by (intro array_data_paints [OF hs(3)]) (auto simp: entries_are_views room_def)
  have "paint ?m1 (?p + 40) ?Y = paint m ?p ((smi_hdr 40 @ ?Z) @ replicate 8 None @ ?Y)"
    using len by (subst paint_gap [where k = 8]) simp_all
  then have c: "wr64 (?p + o_HandlerCount) (of_nat ?k) (paint ?m1 (?p + 40) ?Y) = paint m ?p (smi_hdr 40 @ ?Z @ solid (enc 8 ?k) @ ?Y)"
    using len count_filled [of "?p + 32" ?p "smi_hdr 40 @ ?Z" "replicate 8 None" ?k m ?Y] by simp
  have l: "wr_32 (?p + o_Length) (rd32 M (?p + o_Length) + of_nat ?k * 24) M = paint m ?p (item_pattern it)"
    if "M = paint m ?p (smi_hdr 40 @ ?Z @ solid (enc 8 ?k) @ ?Y)" for M
    using header_longer [of ?p m _ 40 "?Z @ solid (enc 8 ?k) @ ?Y" "?k * 24"] that by (simp add: hs(1) mult.commute)
  have lens: "unat (rd32 ?m1 (?p + o_Length)) = 40" "unat (rd32 (paint m ?p (item_pattern it)) (?p + o_Length)) = 40 + 24 * ?k"
    using small unat_small [of 40] unat_small [of "40 + 24 * ?k"] by (simp_all only: header_length hs(1) item_pattern.simps
        item_length.simps append_assoc map_append)
  from T show ?thesis
    by (simp add: smi_data_body_def GetSmmSmiHandlerDataOnSmiEntry_def id smi_head_paints lens(1) child Let_def c l lens(2) lens(2) [unfolded hs(1)] hs(1) del: append.simps item_pattern.simps)
qed

text \<open>The structure of the root handlers, after \<open>i\<close> of them.\<close>

lemma root_step:
  assumes hv: "always (around B N m0) (handler_view s) e h" and room: "room B N m0 D T m"
    and T: "40 + 24 * Suc (length hs) \<le> T" and i: "Suc (length hs) < 2 ^ 32"
  defines "R \<equiv> \<lambda>hs. paint m D (item_pattern (SmiItem True (replicate 16 0) hs))"
  shows "root_data_body s D T e (40 + 24 * length hs, D + (40 + 24 * length hs)) (R hs) =
    Some (Next (40 + 24 * Suc (length hs), D + (40 + 24 * Suc (length hs))), R (hs @ [h]))"
proof -
  let ?k = "length hs" and ?Y = "solid (concat (map handler_bytes hs))"
  let ?Z = "[Some 1] @ replicate 3 None @ solid (replicate 16 0)"
  have R: "R hs = paint m D (smi_hdr (40 + 24 * ?k) @ ?Z @ solid (enc 8 ?k) @ ?Y)" by (simp add: R_def)
  have "R hs \<in> around B N m0"
    using room T by (auto simp: room_def R_def intro!: around_paint)
  then have hb: "smi_handler_bytes s (R hs) e = handler_bytes h"
    using hv by (simp add: entries_are_views always_def)
  define M1 where "M1 = store_at (R hs) (D + (40 + 24 * ?k)) (handler_bytes h)"
  have M1: "M1 = paint m D ((smi_hdr (40 + 24 * ?k) @ ?Z) @ solid (enc 8 ?k) @ ?Y @ solid (handler_bytes h))"
    unfolding M1_def store_paint R by (subst paint_append) simp_all
  have "holds M1 (D + length (smi_hdr (40 + 24 * ?k) @ ?Z)) (enc 8 ?k)" unfolding M1 by (rule holds_paint)
  then have count: "rd64 M1 (D + o_HandlerCount) + 1 = of_nat (Suc ?k)"
    using rd64_enc [of M1 "D + 32" ?k] by simp
  define M2 where "M2 = wr64 (D + o_HandlerCount) (of_nat (Suc ?k)) M1"
  have M2: "M2 = paint m D (smi_hdr (40 + 24 * ?k) @ ?Z @ solid (enc 8 (Suc ?k)) @ ?Y @ solid (handler_bytes h))"
    unfolding M2_def M1 using count_filled [of "D + 32" D "smi_hdr (40 + 24 * ?k) @ ?Z" "solid (enc 8 ?k)" "Suc ?k" m]
    by simp
  have M3: "wr_32 (D + o_Length) (rd32 M2 (D + o_Length) + of_nat sizeof_SMI_HANDLER) M2 = R (hs @ [h])"
    unfolding M2
    using header_longer [of D m _ "40 + 24 * ?k" "?Z @ solid (enc 8 (Suc ?k)) @ ?Y @ solid (handler_bytes h)" 24]
    by (simp add: R_def)
  show ?thesis
    using T M3
    by (simp add: root_data_body_def hb count Let_def del: of_nat_Suc enc.simps flip: M1_def M2_def)
qed

section \<open>The groups\<close>

definition pattern_of :: "db_item list \<Rightarrow> pattern" where
  "pattern_of its = concat (map item_pattern its)"

definition total_length :: "db_item list \<Rightarrow> nat" where
  "total_length its = sum_list (map item_length its)"

lemma total_simps [simp]:
  "total_length [] = 0" "total_length (x # xs) = item_length x + total_length xs"
  "total_length (xs @ ys) = total_length xs + total_length ys"
  "pattern_of (xs @ ys) = pattern_of xs @ pattern_of ys"
  by (simp_all add: total_length_def pattern_of_def)

lemma length_pattern: "\<forall>it\<in>set its. item_ok it \<Longrightarrow> length (pattern_of its) = total_length its"
  by (induction its) (auto simp: pattern_of_def total_length_def length_item)

text \<open>A loop over structures: each is counted, then painted.\<close>

lemma group_paints:
  assumes list: "list_upto (around B N m0) head Q P its" and ok: "\<forall>it\<in>set its. item_ok it"
    and room: "room B N m0 D T m" "T = total_length its"
    and step: "\<And>e it n m. P e it \<Longrightarrow> item_ok it \<Longrightarrow> room B N m0 D T m \<Longrightarrow> n + item_length it \<le> T \<Longrightarrow>
      body e (n, D + n) m = Some (Next (n + item_length it, D + (n + item_length it)), paint m (D + n) (item_pattern it))"
    and stop: "\<And>e s m. Q e \<Longrightarrow> m \<in> around B N m0 \<Longrightarrow> body e s m = Some (Break s, m)"
  shows "returning (expected T) (for_list head body (0, D) m) = Some (T, paint m D (pattern_of its))"
proof -
  have len: "length (concat (map item_pattern its)) = T"
    using length_pattern [OF ok] room(2) by (simp add: pattern_of_def del: length_concat)
  have "for_list head body (0, D + 0) m =
      Some (Break (0 + length (concat (map item_pattern its)), D + (0 + length (concat (map item_pattern its)))),
        paint m (D + 0) (concat (map item_pattern its)))"
  proof (rule list_paints [OF list, where f = "\<lambda>n. (n, D + n)" and T = T])
    fix e it n m
    assume "P e it" "it \<in> set its" "m \<in> around B N m0" "n + length (item_pattern it) \<le> T"
    with ok room show "body e (n, D + n) m =
        Some (Next (n + length (item_pattern it), D + (n + length (item_pattern it))), paint m (D + n) (item_pattern it))"
      by (simp add: step length_item room_def)
  qed (use room len stop in \<open>simp_all add: room_def\<close>)
  then show ?thesis
    by (simp add: len returning_def expected_def pattern_of_def del: length_concat)
qed

lemma group_size:
  assumes "list_upto (around B N m) head Q P its"
    and "\<And>e it n. P e it \<Longrightarrow> body e n = Some (Next (n + item_length it))"
    and "\<And>e s. Q e \<Longrightarrow> body e s = Some (Break s)"
  shows "size_loop head body m = Some (total_length its)"
  unfolding total_length_def using assms(2,3) by (intro size_loop_counts [OF assms(1) around_self])

lemma array_size_around: "list_of (around B N m) head P xs \<Longrightarrow>
    size_loop head (\<lambda>e Size. Some (Next (Size + k))) m = Some (k * length xs)"
  by (rule array_size [OF _ around_self])

lemma sizes_ok:
  "handle_item (around B N m) E s e it \<Longrightarrow>
     \<exists>k. GetSmmProtocolInterfacesSizeOnHandle m (e - o_AllHandles) = Some k \<and> sizeof_HANDLE_DATABASE + k = item_length it"
  "smi_item (around B N m) s e it \<Longrightarrow>
     \<exists>k. GetSmmSmiHandlerSizeOnSmiEntry m (e - o_Smi_AllEntries) = Some k \<and> sizeof_SMI_DATABASE + k = item_length it"
  by (auto simp: handle_item_def smi_item_def GetSmmProtocolInterfacesSizeOnHandle_def
      GetSmmSmiHandlerSizeOnSmiEntry_def array_size_around)

lemma GetSmmHandlerDatabase_paints:
  assumes "list_of (around B N m0) (mSmmCoreHandleList g) (handle_item (around B N m0) E s) its" "\<forall>it\<in>set its. item_ok it"
    and "room B N m0 D (total_length its) m"
  shows "GetSmmHandlerDatabaseSize m0 g = Some (total_length its)"
    and "GetSmmHandlerDatabaseData E s g D (total_length its) m = Some (total_length its, paint m D (pattern_of its))"
  unfolding GetSmmHandlerDatabaseSize_def GetSmmHandlerDatabaseData_def
  using assms by (auto intro!: group_size group_paints list_of_upto handle_paints simp: sizes_ok(1))

lemma GetSmmSmiDatabase_paints:
  assumes "list_of (around B N m0) (mSmmCoreSmiEntryList g) (smi_item (around B N m0) s) its" "\<forall>it\<in>set its. item_ok it"
    and "room B N m0 D (total_length its) m"
  shows "GetSmmSmiDatabaseSize m0 g = Some (total_length its)"
    and "GetSmmSmiDatabaseData s g D (total_length its) m = Some (total_length its, paint m D (pattern_of its))"
  unfolding GetSmmSmiDatabaseSize_def GetSmmSmiDatabaseData_def
  using assms by (auto intro!: group_size group_paints list_of_upto smi_paints simp: sizes_ok(2))

text \<open>The protocol database ends where the module's own protocol is.\<close>

definition own_entry :: "mem set \<Rightarrow> smm_build \<Rightarrow> addr \<Rightarrow> bool" where
  "own_entry M A e \<longleftrightarrow> always M protocol_id e (gEfiCallerIdGuid A)"

lemma protocol_size:
  assumes "protocol_item (around B N m) A E s e it"
  shows "\<exists>k1 k2. GetSmmProtocolInterfacesSizeOnProtocolEntry m (e - o_AllEntries) = Some k1 \<and>
    GetSmmProtocolNotifySizeOnProtocolEntry m (e - o_AllEntries) = Some k2 \<and>
    sizeof_PROTOCOL_DATABASE + k1 + k2 = item_length it \<and>
    bytes_at m (e - o_AllEntries + o_ProtocolID) 16 \<noteq> gEfiCallerIdGuid A"
  using assms
  by (auto simp: protocol_item_def GetSmmProtocolInterfacesSizeOnProtocolEntry_def
      GetSmmProtocolNotifySizeOnProtocolEntry_def array_size_around always_def protocol_id_def)

lemma GetSmmProtocolDatabase_paints:
  assumes "list_upto (around B N m0) (mSmmCoreProtocolDatabase g) (own_entry (around B N m0) A)
      (protocol_item (around B N m0) A E s) its"
    and "\<forall>it\<in>set its. item_ok it" and "room B N m0 D (total_length its) m"
  shows "GetSmmProtocolDatabaseSize A m0 g = Some (total_length its)"
    and "GetSmmProtocolDatabaseData A E s g D (total_length its) m = Some (total_length its, paint m D (pattern_of its))"
proof -
  show "GetSmmProtocolDatabaseSize A m0 g = Some (total_length its)"
    unfolding GetSmmProtocolDatabaseSize_def
    by (rule group_size [OF assms(1)])
      (auto dest!: protocol_size simp: own_entry_def always_def protocol_id_def Let_def)
  show "GetSmmProtocolDatabaseData A E s g D (total_length its) m = Some (total_length its, paint m D (pattern_of its))"
    unfolding GetSmmProtocolDatabaseData_def
  proof (rule group_paints [OF assms(1-3) refl protocol_paints])
    show "protocol_data_body A E s (total_length its) e p m = Some (Break p, m)"
      if "own_entry (around B N m0) A e" "m \<in> around B N m0" for e p m
      using that by (cases p) (simp add: own_entry_def always_def protocol_id_def protocol_data_body_def)
  qed
qed

text \<open>The root handlers.\<close>

lemma GetSmmRootSmiDatabase_paints:
  assumes hs: "list_of (around B N m0) (mSmmCoreRootSmiHandlerList g) (always (around B N m0) (handler_view s)) hs"
    and it: "it = SmiItem True (replicate 16 0) hs" and ok: "item_ok it"
    and room: "room B N m0 D (item_length it) m"
  shows "GetSmmRootSmiDatabaseSize m0 g = Some (item_length it)"
    and "GetSmmRootSmiDatabaseData s g D (item_length it) m = Some (item_length it, paint m D (item_pattern it))"
proof -
  show "GetSmmRootSmiDatabaseSize m0 g = Some (item_length it)"
    by (simp add: GetSmmRootSmiDatabaseSize_def array_size_around [OF hs] it)
  let ?G = "\<lambda>i. paint m D (item_pattern (SmiItem True (replicate 16 0) (take i hs)))"
  let ?f = "\<lambda>i. (40 + 24 * i, D + (40 + 24 * i))"
  let ?body = "root_data_body s D (item_length it)"
  have loop: "for_list (mSmmCoreRootSmiHandlerList g) ?body (?f 0) (?G 0) = Some (Break (?f (length hs)), ?G (length hs))"
  proof (rule list_states [OF hs])
    fix e i
    assume i: "i < length hs" and "always (around B N m0) (handler_view s) e (hs ! i)"
    with ok root_step [OF _ room, of s e "hs ! i" "take i hs"]
    show "?body e (?f i) (?G i) = Some (Next (?f (Suc i)), ?G (Suc i))"
      by (simp add: it min_def take_Suc_conv_app_nth del: item_pattern.simps)
  next
    fix i
    assume "i \<le> length hs"
    then show "?G i \<in> around B N m0"
      using room length_item [of "SmiItem True (replicate 16 0) (take i hs)"] ok
      by (auto simp: it room_def min_def simp del: item_pattern.simps intro!: around_paint)
  qed
  have "wr64 (D + o_HandlerCount) 0 (put_smi_head D 1 (replicate 16 0) m) = ?G 0"
    using w64_nat [of 0]
    by (simp add: smi_head_paints wr64_def store_paint paint_append del: replicate.simps)
  moreover have "unat (rd32 (?G 0) (D + o_Length)) = 40"
    by (simp add: header_length)
  ultimately show "GetSmmRootSmiDatabaseData s g D (item_length it) m = Some (item_length it, paint m D (item_pattern it))"
    using loop by (simp add: GetSmmRootSmiDatabaseData_def Let_def returning_def expected_def it del: item_pattern.simps)
qed

text \<open>The images.\<close>

lemma put_all_paints: "\<forall>b\<in>set bs. length b = n \<Longrightarrow> put_all n bs p m = paint m p (solid (concat bs))"
proof (induction bs arbitrary: p m)
  case Nil
  then show ?case by simp
next
  case (Cons b bs)
  then show ?case by (simp add: store_paint paint_append)
qed

lemma image_group:
  assumes "length (smm_images s) = mImageStructCount s" "\<forall>it\<in>set (map ImageItem (smm_images s)). item_ok it"
  shows "total_length (map ImageItem (smm_images s)) = sizeof_IMAGE * mImageStructCount s"
    and "GetSmmImageDatabaseData s D (sizeof_IMAGE * mImageStructCount s) m =
      Some (sizeof_IMAGE * mImageStructCount s, paint m D (pattern_of (map ImageItem (smm_images s))))"
proof -
  have "put_all sizeof_IMAGE (map smm_image_bytes (smm_images s)) D m =
      paint m D (solid (concat (map smm_image_bytes (smm_images s))))"
    using assms(2) by (intro put_all_paints) (auto simp: length_smm_image)
  with assms(1) show "GetSmmImageDatabaseData s D (sizeof_IMAGE * mImageStructCount s) m =
      Some (sizeof_IMAGE * mImageStructCount s, paint m D (pattern_of (map ImageItem (smm_images s))))"
    by (simp add: GetSmmImageDatabaseData_def pattern_of_def comp_def concat_solid)
  show "total_length (map ImageItem (smm_images s)) = sizeof_IMAGE * mImageStructCount s"
    using assms(1) by (simp add: total_length_def comp_def sum_list_triv)
qed

section \<open>The whole database\<close>

text \<open>What the module knows of the SMM core, in all memories of a set.\<close>

definition smm_core_is ::
  "mem set \<Rightarrow> smm_build \<Rightarrow> smm_image_env \<Rightarrow> smm_dump \<Rightarrow> smm_heads \<Rightarrow> db_item list \<Rightarrow> bool"
where
  "smm_core_is M A E s g its \<longleftrightarrow>
     (\<exists>hs ps ss rs. its = map ImageItem (smm_images s) @ hs @ ps @ ss @ [SmiItem True (replicate 16 0) rs] \<and>
        length (smm_images s) = mImageStructCount s \<and>
        list_of M (mSmmCoreHandleList g) (handle_item M E s) hs \<and>
        list_upto M (mSmmCoreProtocolDatabase g) (own_entry M A) (protocol_item M A E s) ps \<and>
        list_of M (mSmmCoreSmiEntryList g) (smi_item M s) ss \<and>
        list_of M (mSmmCoreRootSmiHandlerList g) (always M (handler_view s)) rs)"

lemma room_part:
  "room B N m0 B N m \<Longrightarrow> B \<le> D \<Longrightarrow> D + T \<le> B + N \<Longrightarrow> room B N m0 D T m"
  by (auto simp: room_def)

lemma room_start: "room B N m B N m"
  by (simp add: room_def)

lemma BuildSmmCoreDatabase_lays_out_aux:
  assumes "SmmChildGetDataSize A = SmmChildGetDataSize_Null"
    and "AllocDatabase A (total_length its) = D" and "D \<noteq> NULL"
    and core: "smm_core_is (around D (total_length its) m) A E s g its" and ok: "\<forall>it\<in>set its. item_ok it"
  shows "BuildSmmCoreDatabase A E s g (S, m) =
    Some (S\<lparr>mSmmCoreDatabaseSize := of_nat (total_length its), mSmmCoreDatabase := D\<rparr>, paint m D (pattern_of its))"
proof -
  define N where "N = total_length its"
  from core obtain hs ps ss rs where its: "its = map ImageItem (smm_images s) @ hs @ ps @ ss @ [SmiItem True (replicate 16 0) rs]"
    and images: "length (smm_images s) = mImageStructCount s"
    and hs: "list_of (around D N m) (mSmmCoreHandleList g) (handle_item (around D N m) E s) hs"
    and ps: "list_upto (around D N m) (mSmmCoreProtocolDatabase g) (own_entry (around D N m) A) (protocol_item (around D N m) A E s) ps"
    and ss: "list_of (around D N m) (mSmmCoreSmiEntryList g) (smi_item (around D N m) s) ss"
    and rs: "list_of (around D N m) (mSmmCoreRootSmiHandlerList g) (always (around D N m) (handler_view s)) rs"
    by (auto simp: smm_core_is_def N_def)
  define ims where "ims = map ImageItem (smm_images s)"
  define r where "r = SmiItem True (replicate 16 0) rs"
  note its = its [folded ims_def r_def]
  have oks: "\<forall>it\<in>set ims. item_ok it" "\<forall>it\<in>set hs. item_ok it" "\<forall>it\<in>set ps. item_ok it" "\<forall>it\<in>set ss. item_ok it" "item_ok r"
    using ok by (auto simp: its)
  note lens = oks(1-4) [THEN length_pattern]
  have N: "N = total_length ims + total_length hs + total_length ps + total_length ss + item_length r"
    by (simp add: N_def its)
  note image = image_group [OF images oks(1) [unfolded ims_def], folded ims_def]
  let ?D2 = "D + total_length ims"
  let ?D3 = "?D2 + total_length hs"
  let ?D4 = "?D3 + total_length ps"
  let ?D5 = "?D4 + total_length ss"
  have r1: "room D N m D N (paint m D (pattern_of ims))"
    using lens N by (intro room_paint room_start) auto
  have r2: "room D N m D N (paint m D (pattern_of (ims @ hs)))"
    using lens N by (intro room_paint room_start) auto
  have r3: "room D N m D N (paint m D (pattern_of (ims @ hs @ ps)))"
    using lens N by (intro room_paint room_start) auto
  have r4: "room D N m D N (paint m D (pattern_of (ims @ hs @ ps @ ss)))"
    using lens N by (intro room_paint room_start) auto
  note handle = GetSmmHandlerDatabase_paints [OF hs oks(2) room_part [OF r1, of ?D2]]
  note protocol = GetSmmProtocolDatabase_paints [OF ps oks(3) room_part [OF r2, of ?D3]]
  note smi = GetSmmSmiDatabase_paints [OF ss oks(4) room_part [OF r3, of ?D4]]
  note root = GetSmmRootSmiDatabase_paints [OF rs r_def oks(5) room_part [OF r4, of ?D5]]
  have size: "GetSmmCoreDatabaseSize A s m g = Some (N, \<lparr>mSmmImageDatabaseSize = total_length ims,
      mSmmHandlerDatabaseSize = total_length hs, mSmmProtocolDatabaseSize = total_length ps,
      mSmmSmiDatabaseSize = total_length ss, mSmmRootSmiDatabaseSize = item_length r, mSmmChildDatabaseSize = 0\<rparr>)"
    using handle(1) protocol(1) smi(1) root(1) image(1) assms(1) N
    by (simp add: GetSmmCoreDatabaseSize_def GetSmmImageDatabaseSize_def SmmChildGetDataSize_Null_def Let_def)
  have data: "GetSmmCoreDatabaseData A E s g z D m = Some (EFI_SUCCESS, paint m D (pattern_of its))"
    if "z = \<lparr>mSmmImageDatabaseSize = total_length ims,
      mSmmHandlerDatabaseSize = total_length hs, mSmmProtocolDatabaseSize = total_length ps,
      mSmmSmiDatabaseSize = total_length ss, mSmmRootSmiDatabaseSize = item_length r, mSmmChildDatabaseSize = 0\<rparr>" for z
    using that handle(2) protocol(2) smi(2) root(2) image N lens
    by (simp add: GetSmmCoreDatabaseData_def then_group_def paint_append its pattern_of_def [of "[r]"] add.assoc)
  show ?thesis
    using size data assms(2,3) by (simp add: BuildSmmCoreDatabase_def N_def)
qed

text \<open>
  C18: With the SMM core's lists intact, the module counts and writes the same number of bytes, never
  gives up, and its database is the images, the handles with their interfaces, the protocols up to
  its own, the SMI entries and the root handlers, one structure behind the other; nothing else in
  memory changes.
\<close>

theorem BuildSmmCoreDatabase_lays_out:
  assumes "SmmChildGetDataSize A = SmmChildGetDataSize_Null"
    and "AllocDatabase A (total_length its) = D" and "D \<noteq> NULL"
    and core: "smm_core_is (around D (total_length its) m) A E s g its" and ok: "\<forall>it\<in>set its. item_ok it"
  shows "BuildSmmCoreDatabase A E s g (S, m) =
    Some (S\<lparr>mSmmCoreDatabaseSize := of_nat (total_length its), mSmmCoreDatabase := D\<rparr>, paint m D (pattern_of its))"
  using assms by (rule BuildSmmCoreDatabase_lays_out_aux)

end
