(* ===== verification/Smm_Main.thy ===== *)
theory Smm_Main
  imports Smm_Database_Props
begin

text \<open>
  The module's work at the end of DXE: \<open>SmmCoreDump\<close> of \<^verbatim>\<open>SmmCoreDump.c\<close>.  It collects the images, plants
  a protocol and two handlers of its own to find the SMM core's lists, and builds and registers the
  database.  The dumps to the debug port between these steps have no effect in a release build.
\<close>

section \<open>The services of the SMM core\<close>

text \<open>Each may change the memory; a handle is the address of the SMM core's structure.\<close>

datatype smi_function = Dummy_Handler | Dump_Handler

record smm_services =
  SmmInstallProtocolInterface :: "guid \<Rightarrow> mem \<Rightarrow> efi_status \<times> addr \<times> mem"
  SmmUninstallProtocolInterface :: "addr \<Rightarrow> guid \<Rightarrow> mem \<Rightarrow> efi_status \<times> mem"
  SmiHandlerRegister :: "smi_function \<Rightarrow> guid option \<Rightarrow> mem \<Rightarrow> efi_status \<times> addr \<times> mem"
  SmiHandlerUnRegister :: "addr \<Rightarrow> mem \<Rightarrow> mem"

record smm_module =
  sm_dump :: smm_dump
  sm_heads :: smm_heads
  sm_db :: smm_db

definition RegisterSmmCoreDumpHandler ::
  "smm_services \<Rightarrow> smm_build \<Rightarrow> smm_image_env \<Rightarrow> smm_module \<times> mem \<Rightarrow> (smm_module \<times> mem) option"
where
  "RegisterSmmCoreDumpHandler V A E = (\<lambda>(t, m).
     Option.bind (BuildSmmCoreDatabase A E (sm_dump t) (sm_heads t) (sm_db t, m)) (\<lambda>(S, m).
       let (Status, DispatchHandle, m) = SmiHandlerRegister V Dump_Handler (Some mSmmCoreDumpGuid) m
       in Some (t\<lparr>sm_db := S\<rparr>, m)))"

text \<open>A dummy handler is registered, a list is looked for behind it, and it is taken out again.\<close>

definition with_dummy ::
  "smm_services \<Rightarrow> guid option \<Rightarrow> (mem \<Rightarrow> addr \<Rightarrow> smm_heads \<Rightarrow> smm_heads option) \<Rightarrow> smm_module \<times> mem
   \<Rightarrow> (smm_module \<times> mem) option"
where
  "with_dummy V HandlerType look_for = (\<lambda>(t, m).
     let (Status, SmiHandle, m) = SmiHandlerRegister V Dummy_Handler HandlerType m in
     if EFI_ERROR Status then Some (t, m)
     else Option.bind (look_for m SmiHandle (sm_heads t)) (\<lambda>g.
            Some (t\<lparr>sm_heads := g\<rparr>, SmiHandlerUnRegister V SmiHandle m)))"

text \<open>The label \<open>Done\<close>: the array of images is freed.\<close>

definition dump_done :: "smm_module \<times> mem \<Rightarrow> (efi_status \<times> smm_module \<times> mem) option" where
  "dump_done tm = Some (EFI_SUCCESS, tm)"

definition SmmCoreDump ::
  "smm_services \<Rightarrow> smm_build \<Rightarrow> smm_image_env \<Rightarrow> smm_module \<times> mem \<Rightarrow> (efi_status \<times> smm_module \<times> mem) option"
where
  "SmmCoreDump V A E = (\<lambda>(t, m).
     Option.bind (GetSmmLoadedImage E m (sm_dump t)) (\<lambda>s.
     Option.bind (if mSmmCoreLoadedImage s then Some s else GetLoadedImage E s) (\<lambda>s.
       let t = t\<lparr>sm_dump := s\<rparr> in
       if \<not> mSmmCoreLoadedImage s then dump_done (t, m)
       else
         (let (Status, SmmHandle, m) = SmmInstallProtocolInterface V (gEfiCallerIdGuid A) m in
          if EFI_ERROR Status then dump_done (t, m)
          else
            Option.bind (GetSmmCoreHandleList m SmmHandle (sm_heads t)) (\<lambda>g.
            Option.bind (GetSmmCoreProtocolDatabase m SmmHandle g) (\<lambda>g.
              let t = t\<lparr>sm_heads := g\<rparr>;
                  (Status, m) = SmmUninstallProtocolInterface V SmmHandle (gEfiCallerIdGuid A) m
              in if EFI_ERROR Status then dump_done (t, m)
                 else if mSmmCoreHandleList g = NULL then dump_done (t, m)
                 else
                   Option.bind (with_dummy V (Some (gEfiCallerIdGuid A)) GetSmmCoreSmiEntryList (t, m)) (\<lambda>tm.
                   Option.bind (with_dummy V None GetSmmCoreRootSmiHandlerList tm) (\<lambda>tm.
                   Option.bind (RegisterSmmCoreDumpHandler V A E tm) dump_done))))))))"

section \<open>From the lists to the database\<close>

lemma with_dummy_found:
  "SmiHandlerRegister V Dummy_Handler h m = (EFI_SUCCESS, p, m1) \<Longrightarrow> look_for m1 p (sm_heads t) = Some g \<Longrightarrow>
   with_dummy V h look_for (t, m) = Some (t\<lparr>sm_heads := g\<rparr>, SmiHandlerUnRegister V p m1)"
  by (simp add: with_dummy_def)

lemma with_dummy_failed:
  "SmiHandlerRegister V Dummy_Handler h m = (Status, p, m1) \<Longrightarrow> EFI_ERROR Status \<Longrightarrow>
   with_dummy V h look_for (t, m) = Some (t, m1)"
  by (simp add: with_dummy_def)

text \<open>
  Where the SMM core's lists are as the module plants its own nodes in them, the module finds all
  four heads behind its own nodes and leaves the database of what the lists held.
\<close>

theorem SmmCoreDump_builds:
  assumes images: "GetSmmLoadedImage E m (sm_dump t) = Some s" "mSmmCoreLoadedImage s"
    and install: "SmmInstallProtocolInterface V (gEfiCallerIdGuid A) m = (EFI_SUCCESS, own, m1)"
    and "handles_ok m1 gHandleList hs entries ifs" "own \<in> set hs" "\<exists>h\<in>set hs. h \<noteq> own \<and> ifs h \<noteq> []"
    and "ring_of m1 o_AllEntries PROTOCOL_ENTRY_SIGNATURE mProtocolDatabase entries" and "gHandleList \<noteq> NULL"
    and uninstall: "SmmUninstallProtocolInterface V own (gEfiCallerIdGuid A) m1 = (EFI_SUCCESS, m2)"
    and smi: "SmiHandlerRegister V Dummy_Handler (Some (gEfiCallerIdGuid A)) m2 = (EFI_SUCCESS, p, m3)"
      "ring_of m3 o_Smi_AllEntries SMI_ENTRY_SIGNATURE mSmiEntryList es" "ptr m3 (p + o_SmiEntry) \<in> set es"
    and root: "SmiHandlerRegister V Dummy_Handler None (SmiHandlerUnRegister V p m3) = (EFI_SUCCESS, q, m4)"
      "ring_of m4 o_Handler_Link SMI_HANDLER_SIGNATURE mRootList rs" "q \<in> set rs"
    and db: "SmmChildGetDataSize A = SmmChildGetDataSize_Null" "AllocDatabase A (total_length its) = D" "D \<noteq> NULL"
      "\<forall>it\<in>set its. item_ok it"
      "smm_core_is (around D (total_length its) (SmiHandlerUnRegister V q m4)) A E s
        \<lparr>mSmmCoreHandleList = gHandleList, mSmmCoreProtocolDatabase = mProtocolDatabase,
         mSmmCoreRootSmiHandlerList = mRootList, mSmmCoreSmiEntryList = mSmiEntryList\<rparr> its"
    and register: "SmiHandlerRegister V Dump_Handler (Some mSmmCoreDumpGuid)
        (paint (SmiHandlerUnRegister V q m4) D (pattern_of its)) = (EFI_SUCCESS, h, m5)"
  shows "\<exists>t'. SmmCoreDump V A E (t, m) = Some (EFI_SUCCESS, t', m5) \<and>
    mSmmCoreDatabase (sm_db t') = D \<and> mSmmCoreDatabaseSize (sm_db t') = of_nat (total_length its)"
proof -
  note heads = GetSmmCore_heads_found [OF assms(4) assms(7) assms(5) assms(6)]
  let ?g = "\<lparr>mSmmCoreHandleList = gHandleList, mSmmCoreProtocolDatabase = mProtocolDatabase,
         mSmmCoreRootSmiHandlerList = mRootList, mSmmCoreSmiEntryList = mSmiEntryList\<rparr>"
  define t1 where "t1 = t\<lparr>sm_dump := s,
    sm_heads := (sm_heads t)\<lparr>mSmmCoreHandleList := gHandleList, mSmmCoreProtocolDatabase := mProtocolDatabase\<rparr>\<rparr>"
  define t2 where "t2 = t1\<lparr>sm_heads := (sm_heads t1)\<lparr>mSmmCoreSmiEntryList := mSmiEntryList\<rparr>\<rparr>"
  define t3 where "t3 = t2\<lparr>sm_heads := (sm_heads t2)\<lparr>mSmmCoreRootSmiHandlerList := mRootList\<rparr>\<rparr>"
  have entry: "with_dummy V (Some (gEfiCallerIdGuid A)) GetSmmCoreSmiEntryList (t1, m2) = Some (t2, SmiHandlerUnRegister V p m3)"
    unfolding t2_def by (rule with_dummy_found [OF smi(1)]) (rule GetSmmCoreSmiEntryList_head [OF smi(2,3)])
  have roots: "with_dummy V None GetSmmCoreRootSmiHandlerList (t2, SmiHandlerUnRegister V p m3) = Some (t3, SmiHandlerUnRegister V q m4)"
    unfolding t3_def by (rule with_dummy_found [OF root(1)]) (rule GetSmmCoreRootSmiHandlerList_head [OF root(2,3)])
  have t3: "sm_heads t3 = ?g" "sm_dump t3 = s" by (simp_all add: t3_def t2_def t1_def)
  note build = BuildSmmCoreDatabase_lays_out_aux [OF db(1-3,5,4), of "sm_db t3"]
  have "RegisterSmmCoreDumpHandler V A E (t3, SmiHandlerUnRegister V q m4) =
      Some (t3\<lparr>sm_db := (sm_db t3)\<lparr>mSmmCoreDatabaseSize := of_nat (total_length its), mSmmCoreDatabase := D\<rparr>\<rparr>, m5)"
    using build register by (simp add: RegisterSmmCoreDumpHandler_def t3)
  then show ?thesis
    using images install uninstall heads entry roots assms(8)
    by (simp add: SmmCoreDump_def dump_done_def flip: t1_def)
qed

text \<open>
  If the SMM core cannot register the dummy handler, the head of that list stays a null pointer,
  and the module goes on to follow it: the counting loops do not test what the dumps to the debug
  port test.
\<close>

theorem SmmCoreDump_null_list:
  assumes "GetSmmLoadedImage E m (sm_dump t) = Some s" "mSmmCoreLoadedImage s"
    and "SmmInstallProtocolInterface V (gEfiCallerIdGuid A) m = (EFI_SUCCESS, own, m1)"
    and "GetSmmCoreHandleList m1 own (sm_heads t) = Some g1" "GetSmmCoreProtocolDatabase m1 own g1 = Some g2"
    and "SmmUninstallProtocolInterface V own (gEfiCallerIdGuid A) m1 = (EFI_SUCCESS, m2)"
    and "mSmmCoreHandleList g2 \<noteq> NULL" "mSmmCoreSmiEntryList g2 = NULL"
    and "SmiHandlerRegister V Dummy_Handler (Some (gEfiCallerIdGuid A)) m2 = (Status, p, m3)" "EFI_ERROR Status"
  shows "SmmCoreDump V A E (t, m) = None"
proof -
  have none: "RegisterSmmCoreDumpHandler V A E (t', m') = None" if "mSmmCoreSmiEntryList (sm_heads t') = NULL" for t' m'
    using that by (simp add: RegisterSmmCoreDumpHandler_def BuildSmmCoreDatabase_def GetSmmCoreDatabaseSize_def
        GetSmmSmiDatabaseSize_def size_loop_def for_list_def Let_def bind_eq_None_conv)
  have keep: "mSmmCoreSmiEntryList (sm_heads t'') = mSmmCoreSmiEntryList (sm_heads t')"
    if "with_dummy V None GetSmmCoreRootSmiHandlerList (t', m') = Some (t'', m'')" for t' m' t'' m''
    using that by (auto simp: with_dummy_def GetSmmCoreRootSmiHandlerList_def bind_eq_Some_conv split: if_splits prod.splits option.splits)
  have "Option.bind (with_dummy V None GetSmmCoreRootSmiHandlerList (t', m')) (\<lambda>tm.
      Option.bind (RegisterSmmCoreDumpHandler V A E tm) dump_done) = None"
    if "mSmmCoreSmiEntryList (sm_heads t') = NULL" for t' m'
    using keep none that by (cases "with_dummy V None GetSmmCoreRootSmiHandlerList (t', m')") auto
  then show ?thesis
    using assms by (simp add: SmmCoreDump_def with_dummy_failed)
qed

end
