(* ===== verification/Smm_App.thy ===== *)
theory Smm_App
  imports Smm_Main
begin

text \<open>
  \<^verbatim>\<open>SmmCoreDumpApp.c\<close>: the printers of the shell application and its entry point.  Every printer walks
  the whole database by the lengths in the headers and prints the structures of one kind.
\<close>

section \<open>State\<close>

record smm_screen =
  sc_app :: smm_app
  sc_guids :: guid_state
  sc_images :: "image_struct list option"
  sc_images_max :: nat
  sc_images_count :: nat

definition tell :: "out list \<Rightarrow> smm_screen \<Rightarrow> smm_screen" where
  "tell os s = s\<lparr>sc_app := smm_say os (sc_app s)\<rparr>"

text \<open>\<open>None\<close>: the array is accessed through a null pointer or past its end.  The entry point is not kept.\<close>

definition AddImageStruct_app ::
  "u64 \<Rightarrow> u64 \<Rightarrow> u64 \<Rightarrow> u64 \<Rightarrow> char16 list \<Rightarrow> guid \<Rightarrow> smm_screen \<Rightarrow> smm_screen option"
where
  "AddImageStruct_app ImageBase ImageSize LoadedImageBase EntryPoint NameString Guid s =
     (if sc_images_max s \<le> sc_images_count s then Some s
      else
        (case sc_images s of
           None \<Rightarrow> None
         | Some a \<Rightarrow>
             (if length a \<le> sc_images_count s then None
              else
                (let new = (a ! sc_images_count s)\<lparr>is_ImageBase := ImageBase, is_ImageSize := ImageSize,
                       is_LoadedImageBase := LoadedImageBase, is_NameString := copy_name NameString, is_FileGuid := Guid\<rparr>
                 in Some (s\<lparr>sc_images := Some (a[sc_images_count s := new]),
                            sc_images_count := sc_images_count s + 1\<rparr>)))))"

definition GetImageRefName_smm :: "smm_screen \<Rightarrow> u64 \<Rightarrow> char16 list option" where
  "GetImageRefName_smm s ImageRef =
     (if sc_images_max s \<le> unat ImageRef then Some UNKNOWN_NAME
      else case sc_images s of
        None \<Rightarrow> None
      | Some a \<Rightarrow> if unat ImageRef < length a then Some (is_NameString (a ! unat ImageRef)) else None)"

text \<open>The loops over the database.\<close>

definition smm_walk :: "mem \<Rightarrow> (addr \<Rightarrow> smm_screen \<Rightarrow> (smm_screen + smm_screen) option) \<Rightarrow> smm_screen \<Rightarrow> smm_screen option" where
  "smm_walk m body s =
     map_option (\<lambda>r. case r of Inl s \<Rightarrow> s | Inr s \<Rightarrow> s)
       (walk (db_Length m) body (app_Database (sc_app s))
          (app_Database (sc_app s) + unat (app_DatabaseSize (sc_app s))) s)"

section \<open>Images\<close>

definition count_image_body :: "mem \<Rightarrow> addr \<Rightarrow> smm_screen \<Rightarrow> (smm_screen + smm_screen) option" where
  "count_image_body m p s =
     Some (Inr (if db_Signature m p = SMM_CORE_IMAGE_DATABASE_SIGNATURE
                then s\<lparr>sc_images_max := sc_images_max s + 1\<rparr> else s))"

definition smm_image_body_app :: "mem \<Rightarrow> addr \<Rightarrow> smm_screen \<Rightarrow> (smm_screen + smm_screen) option" where
  "smm_image_body_app m p s =
     (if db_Signature m p = SMM_CORE_IMAGE_DATABASE_SIGNATURE
      then
        Option.bind (UniStr m (p + 28)) (\<lambda>NameString.
          let FileGuid = bytes_at m (p + 12) 16; EntryPoint = rd64 m (p + 100); ImageBase = rd64 m (p + 108);
              ImageSize = rd64 m (p + 116); RealImageBase = rd64 m (p + 124);
              s = tell [Print ''Image - %s '' [Uni NameString], Print ''(0x%x - 0x%x'' [hx ImageBase, hx ImageSize]] s;
              s = (if EntryPoint \<noteq> 0 then tell [Print '', EntryPoint:0x%x'' [hx EntryPoint]] s else s);
              s = (if ImageBase \<noteq> RealImageBase then tell [Print '', Base:0x%x'' [hx RealImageBase]] s else s);
              s = tell [Print '')'' [], Print ''       (FvFile(%g))'' [Ascii FileGuid]] s
          in map_option Inr (AddImageStruct_app RealImageBase ImageSize ImageBase EntryPoint NameString FileGuid s))
      else Some (Inr s))"

text \<open>The first argument is whether the pool has room for that many images.\<close>

definition DumpSmmLoadedImage :: "(nat \<Rightarrow> bool) \<Rightarrow> mem \<Rightarrow> smm_screen \<Rightarrow> smm_screen option" where
  "DumpSmmLoadedImage AllocApp m s =
     Option.bind (smm_walk m (count_image_body m) (s\<lparr>sc_images_max := 0\<rparr>)) (\<lambda>s.
       if \<not> AllocApp (sc_images_max s) then Some (s\<lparr>sc_images := None, sc_images_max := 0\<rparr>)
       else smm_walk m (smm_image_body_app m) (s\<lparr>sc_images := Some (replicate (sc_images_max s) zero_image)\<rparr>))"

section \<open>Handles, protocols and handlers\<close>

text \<open>The last part of a line: the image, if it is known.\<close>

definition ref_name :: "u64 \<Rightarrow> u64 \<Rightarrow> smm_screen \<Rightarrow> smm_screen option" where
  "ref_name Interface ImageRef s =
     (if Interface \<noteq> 0
      then Option.bind (GetImageRefName_smm s ImageRef) (\<lambda>Name.
             Some (if Name \<noteq> UNKNOWN_NAME then tell [Print '' (%s)'' [Uni Name]] s else s))
      else Some s)"

definition ref_line :: "out list \<Rightarrow> u64 \<Rightarrow> u64 \<Rightarrow> smm_screen \<Rightarrow> smm_screen option" where
  "ref_line os Interface ImageRef s =
     Option.bind (ref_name Interface ImageRef (tell os s)) (\<lambda>s. Some (tell [Print '''' []] s))"

definition DumpProtocolInterfacesOnHandleStruct :: "guid_env \<Rightarrow> mem \<Rightarrow> addr \<Rightarrow> smm_screen \<Rightarrow> smm_screen option" where
  "DumpProtocolInterfacesOnHandleStruct G m HandleStruct s =
     each (\<lambda>Index s.
         let p = HandleStruct + sizeof_HANDLE_DATABASE + sizeof_HANDLE_PROTOCOL * Index; Interface = rd64 m (p + 16) in
         Option.bind (GuidToName G (sc_guids s) (bytes_at m p 16)) (\<lambda>name.
           ref_line [Print ''  Protocol - %a, Interface - 0x%x'' [Ascii name, hx Interface]] Interface (rd64 m (p + 24)) s))
       [0..<unat (rd64 m (HandleStruct + o_ProtocolCount))] s"

definition DumpHandleDatabase :: "guid_env \<Rightarrow> mem \<Rightarrow> smm_screen \<Rightarrow> smm_screen option" where
  "DumpHandleDatabase G m s =
     smm_walk m (\<lambda>p s.
       if db_Signature m p = SMM_CORE_HANDLE_DATABASE_SIGNATURE
       then map_option Inr (DumpProtocolInterfacesOnHandleStruct G m p (tell [Print ''Handle - 0x%x'' [hx (rd64 m (p + 12))]] s))
       else Some (Inr s)) s"

text \<open>An array of pairs of an address and an image.\<close>

definition pair_lines_loop :: "string \<Rightarrow> mem \<Rightarrow> addr \<Rightarrow> u64 \<Rightarrow> smm_screen \<Rightarrow> smm_screen option" where
  "pair_lines_loop fmt m array Count s =
     each (\<lambda>Index s. let v = rd64 m (array + 16 * Index) in
         ref_line [Print fmt [hx v]] v (rd64 m (array + 16 * Index + 8)) s) [0..<unat Count] s"

definition DumpProtocolInterfacesOnProtocolStruct :: "mem \<Rightarrow> addr \<Rightarrow> smm_screen \<Rightarrow> smm_screen option" where
  "DumpProtocolInterfacesOnProtocolStruct m ProtocolStruct s =
     pair_lines_loop ''  Interface - 0x%x'' m (ProtocolStruct + sizeof_PROTOCOL_DATABASE)
       (rd64 m (ProtocolStruct + o_InterfaceCount)) s"

definition DumpProtocolNotifyOnProtocolStruct :: "mem \<Rightarrow> addr \<Rightarrow> smm_screen \<Rightarrow> smm_screen option" where
  "DumpProtocolNotifyOnProtocolStruct m ProtocolStruct s =
     pair_lines_loop ''  Notify - 0x%x'' m
       (ProtocolStruct + sizeof_PROTOCOL_DATABASE + unat (rd64 m (ProtocolStruct + o_InterfaceCount)) * sizeof_PROTOCOL_INTERFACE)
       (rd64 m (ProtocolStruct + o_NotifyCount)) s"

definition DumpProtocolDatabase :: "guid_env \<Rightarrow> mem \<Rightarrow> smm_screen \<Rightarrow> smm_screen option" where
  "DumpProtocolDatabase G m s =
     smm_walk m (\<lambda>p s.
       if db_Signature m p = SMM_CORE_PROTOCOL_DATABASE_SIGNATURE
       then
         Option.bind (GuidToName G (sc_guids s) (bytes_at m (p + 12) 16)) (\<lambda>name.
         Option.bind (DumpProtocolInterfacesOnProtocolStruct m p (tell [Print ''Protocol - %a'' [Ascii name]] s)) (\<lambda>s.
           map_option Inr (DumpProtocolNotifyOnProtocolStruct m p s)))
       else Some (Inr s)) s"

text \<open>The handlers of an SMI structure; the two printers differ in the indentation.\<close>

definition handlers_loop :: "string \<Rightarrow> string \<Rightarrow> mem \<Rightarrow> addr \<Rightarrow> smm_screen \<Rightarrow> smm_screen option" where
  "handlers_loop fmt1 fmt2 m SmiStruct s =
     each (\<lambda>Index s.
         let p = SmiStruct + sizeof_SMI_DATABASE + sizeof_SMI_HANDLER * Index; Handler = rd64 m (p + 8) in
         ref_line [Print fmt1 [hx (rd64 m p)], Print fmt2 [hx Handler]] Handler (rd64 m (p + 16)) s)
       [0..<unat (rd64 m (SmiStruct + o_HandlerCount))] s"

definition DumpSmiHandler :: "guid_env \<Rightarrow> mem \<Rightarrow> smm_screen \<Rightarrow> smm_screen option" where
  "DumpSmiHandler G m s =
     smm_walk m (\<lambda>p s.
       if db_Signature m p = SMM_CORE_SMI_DATABASE_SIGNATURE \<and> m (p + o_IsRootHandler) = 0
       then
         Option.bind (GuidToName G (sc_guids s) (bytes_at m (p + o_DbHandlerType) 16)) (\<lambda>name.
           map_option Inr (handlers_loop ''  SmiHandle - 0x%x'' ''    Handler - 0x%x'' m p
             (tell [Print ''SmiEntry - %a'' [Ascii name]] s)))
       else Some (Inr s)) s"

definition DumpRootSmiHandler :: "mem \<Rightarrow> smm_screen \<Rightarrow> smm_screen option" where
  "DumpRootSmiHandler m s =
     smm_walk m (\<lambda>p s.
       if db_Signature m p = SMM_CORE_SMI_DATABASE_SIGNATURE \<and> m (p + o_IsRootHandler) \<noteq> 0
       then map_option Inr (handlers_loop ''RootSmiHandle - 0x%x'' ''  Handler - 0x%x'' m p s)
       else Some (Inr s)) s"

section \<open>The entry point\<close>

text \<open>\<open>DumpSmmChildHandler\<close> is the child library's; that of \<^verbatim>\<open>SmmChildDumpLibNull.c\<close> does nothing.\<close>

definition DumpSmmChildHandler_Null :: "mem \<Rightarrow> addr \<Rightarrow> u64 \<Rightarrow> smm_screen \<Rightarrow> smm_screen" where
  "DumpSmmChildHandler_Null m Data Size s = s"

definition SmmCoreDumpAppEntrypoint ::
  "comm_env \<Rightarrow> (nat \<Rightarrow> bool) \<Rightarrow> guid_env \<Rightarrow> file_system \<Rightarrow> (mem \<Rightarrow> addr \<Rightarrow> u64 \<Rightarrow> smm_screen \<Rightarrow> smm_screen)
   \<Rightarrow> smm_screen \<times> file_event list \<times> mem \<Rightarrow> (efi_status \<times> smm_screen \<times> file_event list \<times> mem) option"
where
  "SmmCoreDumpAppEntrypoint C AllocApp G F DumpSmmChildHandler = (\<lambda>(s, ops, m).
     Option.bind (GetSmmCoreDatabase C (sc_app s, m)) (\<lambda>(a, m).
       let s = s\<lparr>sc_app := a\<rparr> in
       if app_Database a = NULL then Some (EFI_SUCCESS, s, ops, m)
       else
         Option.bind (InitGuid G F (sc_guids s, ops)) (\<lambda>(g, ops).
         Option.bind (DumpSmmLoadedImage AllocApp m (tell [Print ''# IMAGE DATABASE #'' []] (s\<lparr>sc_guids := g\<rparr>))) (\<lambda>s.
         Option.bind (DumpHandleDatabase G m (tell [Print '''' [], Print ''# HANDLE DATABASE #'' []] s)) (\<lambda>s.
         Option.bind (DumpProtocolDatabase G m (tell [Print '''' [], Print ''# PROTOCOL DATABASE #'' []] s)) (\<lambda>s.
         Option.bind (DumpSmiHandler G m (tell [Print '''' [], Print ''# SMI Handler DATABASE #'' [],
             Print ''# 1. GUID SMI Handler #'' []] s)) (\<lambda>s.
         Option.bind (DumpRootSmiHandler m (tell [Print ''# 2. ROOT SMI Handler #'' []] s)) (\<lambda>s.
           let s = DumpSmmChildHandler m (app_Database (sc_app s)) (app_DatabaseSize (sc_app s)) (tell [Print '''' []] s)
           in Some (EFI_SUCCESS, s\<lparr>sc_guids := snd (DeinitGuid (sc_guids s))\<rparr>, ops, m)))))))))"

end
