(* ===== verification/Smm_Report.thy ===== *)
theory Smm_Report
  imports Smm_App
begin

text \<open>
  What the application prints, as a function of the structures of the database.
\<close>

section \<open>Memory that shows a pattern\<close>

fun shown :: "mem \<Rightarrow> addr \<Rightarrow> pattern \<Rightarrow> bool" where
  "shown m p [] \<longleftrightarrow> True"
| "shown m p (x # xs) \<longleftrightarrow> (case x of None \<Rightarrow> True | Some b \<Rightarrow> m p = b) \<and> shown m (Suc p) xs"

lemma shown_append [simp]: "shown m p (xs @ ys) \<longleftrightarrow> shown m p xs \<and> shown m (p + length xs) ys"
  by (induction xs arbitrary: p) auto

lemma shown_solid [simp]: "shown m p (solid bs) \<longleftrightarrow> holds m p bs"
  by (induction bs arbitrary: p) simp_all

lemma shown_nth: "shown m p xs \<longleftrightarrow> (\<forall>i<length xs. case xs ! i of None \<Rightarrow> True | Some b \<Rightarrow> m (p + i) = b)"
  by (induction xs arbitrary: p) (simp_all add: All_less_Suc2 option.case_eq_if)

lemma shown_paint: "shown (paint m p bs) p bs"
  by (auto simp: shown_nth paint_def split: option.split)

lemma shown_copy:
  assumes "shown m p bs" "bytes_at m' q (length bs) = bytes_at m p (length bs)"
  shows "shown m' q bs"
proof -
  have "m' (q + i) = m (p + i)" if "i < length bs" for i
    using arg_cong [OF assms(2), of "\<lambda>xs. xs ! i"] that by (simp add: bytes_at_def)
  with assms(1) show ?thesis by (simp add: shown_nth option.case_eq_if)
qed

section \<open>Walking the structures\<close>

lemma item_head:
  assumes "shown m p (item_pattern it)" "item_ok it"
  shows "db_Length m p = item_length it" "0 < item_length it"
proof -
  have "\<exists>sig. holds m p (db_header sig (item_length it))"
    using assms(1) by (cases it) (auto simp: smm_image_bytes_def)
  moreover have "item_length it < 2 ^ 32" using assms(2) by (cases it) auto
  ultimately show "db_Length m p = item_length it"
    using db_header_read by (auto simp: of_header_def)
  show "0 < item_length it" by (cases it) auto
qed

text \<open>\<open>I\<close>: an invariant that may speak of the structures to come.\<close>

lemma walk_items:
  assumes "shown m p (pattern_of its)" "\<forall>it\<in>set its. item_ok it" "I its s"
    and step: "\<And>q it rest s. item_ok it \<Longrightarrow> shown m q (item_pattern it) \<Longrightarrow> I (it # rest) s \<Longrightarrow>
      body q s = Some (Inr (F it s)) \<and> I rest (F it s)"
  shows "walk (db_Length m) body p (p + total_length its) s = Some (Inr (fold F its s)) \<and> I [] (fold F its s)"
  using assms(1-3)
proof (induction its arbitrary: p s)
  case Nil
  then show ?case by (simp add: total_length_def)
next
  case (Cons it its)
  from Cons.prems(1,2) have it: "shown m p (item_pattern it)" "item_ok it"
    and rest: "shown m (p + item_length it) (pattern_of its)"
    by (auto simp: pattern_of_def length_item)
  note head = item_head [OF it]
  from step [OF it(2,1) Cons.prems(3)] have b: "body p s = Some (Inr (F it s))" "I its (F it s)" by auto
  from Cons.IH [OF rest _ b(2)] Cons.prems(2)
  have "walk (db_Length m) body (p + item_length it) (p + item_length it + total_length its) (F it s) =
      Some (Inr (fold F its (F it s))) \<and> I [] (fold F its (F it s))" by auto
  with head b show ?case by (subst walk_step) (simp_all add: add.assoc)
qed

section \<open>Lines\<close>

text \<open>\<open>names\<close>: the names of the images, in order.\<close>

definition ref_text :: "char16 list list \<Rightarrow> u64 \<Rightarrow> u64 \<Rightarrow> out list" where
  "ref_text names v ref =
     (if v \<noteq> 0 \<and> unat ref < length names \<and> names ! unat ref \<noteq> UNKNOWN_NAME then [Print '' (%s)'' [Uni (names ! unat ref)]] else [])"

fun smm_image_lines :: "db_item \<Rightarrow> out list" where
  "smm_image_lines (ImageItem x) =
     [Print ''Image - %s '' [Uni (is_NameString x)], Print ''(0x%x - 0x%x'' [hx (is_LoadedImageBase x), hx (is_ImageSize x)]]
     @ (if is_EntryPoint x \<noteq> 0 then [Print '', EntryPoint:0x%x'' [hx (is_EntryPoint x)]] else [])
     @ (if is_LoadedImageBase x \<noteq> is_ImageBase x then [Print '', Base:0x%x'' [hx (is_ImageBase x)]] else [])
     @ [Print '')'' [], Print ''       (FvFile(%g))'' [Ascii (is_FileGuid x)]]"
| "smm_image_lines _ = []"

fun handle_lines :: "(guid \<Rightarrow> u8 list) \<Rightarrow> char16 list list \<Rightarrow> db_item \<Rightarrow> out list" where
  "handle_lines name names (HandleItem h ps) =
     Print ''Handle - 0x%x'' [hxn h] #
     concat (map (\<lambda>(g, v, ref). [Print ''  Protocol - %a, Interface - 0x%x'' [Ascii (name g), hx v]] @ ref_text names v ref @ [Print '''' []]) ps)"
| "handle_lines name names _ = []"

definition pair_lines :: "string \<Rightarrow> char16 list list \<Rightarrow> (u64 \<times> u64) list \<Rightarrow> out list" where
  "pair_lines fmt names ps = concat (map (\<lambda>(v, ref). [Print fmt [hx v]] @ ref_text names v ref @ [Print '''' []]) ps)"

fun protocol_lines :: "(guid \<Rightarrow> u8 list) \<Rightarrow> char16 list list \<Rightarrow> db_item \<Rightarrow> out list" where
  "protocol_lines name names (ProtocolItem g xs ns) =
     Print ''Protocol - %a'' [Ascii (name g)] #
     pair_lines ''  Interface - 0x%x'' names xs @ pair_lines ''  Notify - 0x%x'' names ns"
| "protocol_lines name names _ = []"

definition handler_lines :: "string \<Rightarrow> string \<Rightarrow> char16 list list \<Rightarrow> (addr \<times> u64 \<times> u64) list \<Rightarrow> out list" where
  "handler_lines fmt1 fmt2 names hs =
     concat (map (\<lambda>(h, v, ref). [Print fmt1 [hxn h], Print fmt2 [hx v]] @ ref_text names v ref @ [Print '''' []]) hs)"

fun smi_lines :: "(guid \<Rightarrow> u8 list) \<Rightarrow> char16 list list \<Rightarrow> db_item \<Rightarrow> out list" where
  "smi_lines name names (SmiItem root g hs) =
     (if root then []
      else Print ''SmiEntry - %a'' [Ascii (name g)] # handler_lines ''  SmiHandle - 0x%x'' ''    Handler - 0x%x'' names hs)"
| "smi_lines name names _ = []"

fun root_lines :: "char16 list list \<Rightarrow> db_item \<Rightarrow> out list" where
  "root_lines names (SmiItem root g hs) =
     (if root then handler_lines ''RootSmiHandle - 0x%x'' ''  Handler - 0x%x'' names hs else [])"
| "root_lines names _ = []"

fun item_names :: "db_item \<Rightarrow> char16 list list" where
  "item_names (ImageItem x) = [is_NameString x]"
| "item_names _ = []"

definition smm_report :: "(guid \<Rightarrow> u8 list) \<Rightarrow> db_item list \<Rightarrow> out list" where
  "smm_report name its =
     (let names = concat (map item_names its); lines = (\<lambda>f. concat (map f its)) in
      [Print ''# IMAGE DATABASE #'' []] @ lines smm_image_lines
      @ [Print '''' [], Print ''# HANDLE DATABASE #'' []] @ lines (handle_lines name names)
      @ [Print '''' [], Print ''# PROTOCOL DATABASE #'' []] @ lines (protocol_lines name names)
      @ [Print '''' [], Print ''# SMI Handler DATABASE #'' [], Print ''# 1. GUID SMI Handler #'' []] @ lines (smi_lines name names)
      @ [Print ''# 2. ROOT SMI Handler #'' []] @ lines (root_lines names) @ [Print '''' []])"

section \<open>Telling\<close>

lemma tell_tell [simp]: "tell ys (tell xs s) = tell (xs @ ys) s"
  by (simp add: tell_def smm_say_def)

lemma tell_Nil [simp]: "tell [] s = s"
  by (simp add: tell_def smm_say_def)

lemma tell_fields [simp]:
  "sc_guids (tell xs s) = sc_guids s" "sc_images (tell xs s) = sc_images s" "sc_images_max (tell xs s) = sc_images_max s"
  "sc_images_count (tell xs s) = sc_images_count s" "app_Database (sc_app (tell xs s)) = app_Database (sc_app s)"
  "app_DatabaseSize (sc_app (tell xs s)) = app_DatabaseSize (sc_app s)"
  "sa_out (sc_app (tell xs s)) = sa_out (sc_app s) @ xs"
  by (simp_all add: tell_def smm_say_def)

lemma fold_tell: "fold (\<lambda>it. tell (f it)) its s = tell (concat (map f its)) s"
  by (induction its arbitrary: s) simp_all

text \<open>The state after the images are known.\<close>

definition knows :: "guid_env \<Rightarrow> (guid \<Rightarrow> u8 list) \<Rightarrow> char16 list list \<Rightarrow> smm_screen \<Rightarrow> bool" where
  "knows G name names s \<longleftrightarrow>
     (\<forall>g. GuidToName G (sc_guids s) g = Some (name g)) \<and> sc_images_max s = length names \<and>
     (\<exists>a. sc_images s = Some a \<and> map is_NameString a = names)"

lemma knows_tell [simp]: "knows G name names (tell xs s) = knows G name names s"
  by (simp add: knows_def)

lemma ref_line_tells:
  assumes "knows G name names s"
  shows "ref_line os v ref s = Some (tell (os @ ref_text names v ref @ [Print '''' []]) s)"
proof -
  from assms obtain a where "sc_images s = Some a" "map is_NameString a = names" "sc_images_max s = length names"
    by (auto simp: knows_def)
  then have "GetImageRefName_smm (tell os s) ref = Some (if unat ref < length names then names ! unat ref else UNKNOWN_NAME)"
    by (auto simp: GetImageRefName_smm_def)
  then show ?thesis by (simp add: ref_line_def ref_name_def ref_text_def)
qed

text \<open>A loop over the entries of an array.\<close>

lemma each_tells:
  assumes "holds m p (concat (map f xs))" "\<And>x. x \<in> set xs \<Longrightarrow> length (f x) = n" "knows G name names s"
    and "\<And>x i s. x \<in> set xs \<Longrightarrow> holds m (p + n * i) (f x) \<Longrightarrow> knows G name names s \<Longrightarrow> body i s = Some (tell (line x) s)"
  shows "each body [0..<length xs] s = Some (tell (concat (map line xs)) s)"
proof -
  have body: "body i s = Some (tell (line (xs ! i)) s)" if "i < length xs" "knows G name names s" for i s
    using assms(4) [OF nth_mem [OF that(1)] holds_concat_nth [OF assms(1,2) that(1)] that(2)] by simp
  have "each body is s = Some (tell (concat (map (\<lambda>i. line (xs ! i)) is)) s)"
    if "\<forall>i\<in>set is. i < length xs" "knows G name names s" for "is" s
    using that by (induction "is" arbitrary: s) (simp_all add: body)
  from this [of "[0..<length xs]"] assms(3) have
    "each body [0..<length xs] s = Some (tell (concat (map (\<lambda>i. line (xs ! i)) [0..<length xs])) s)" by simp
  also have "map (\<lambda>i. line (xs ! i)) [0..<length xs] = map line xs"
    by (rule nth_equalityI) simp_all
  finally show ?thesis .
qed

section \<open>The printers\<close>

fun item_signature :: "db_item \<Rightarrow> u32" where
  "item_signature (ImageItem _) = SMM_CORE_IMAGE_DATABASE_SIGNATURE"
| "item_signature (HandleItem _ _) = SMM_CORE_HANDLE_DATABASE_SIGNATURE"
| "item_signature (ProtocolItem _ _ _) = SMM_CORE_PROTOCOL_DATABASE_SIGNATURE"
| "item_signature (SmiItem _ _ _) = SMM_CORE_SMI_DATABASE_SIGNATURE"

lemma smm_signatures_differ [simp]:
  "SMM_CORE_IMAGE_DATABASE_SIGNATURE \<noteq> SMM_CORE_HANDLE_DATABASE_SIGNATURE"
  "SMM_CORE_IMAGE_DATABASE_SIGNATURE \<noteq> SMM_CORE_PROTOCOL_DATABASE_SIGNATURE"
  "SMM_CORE_IMAGE_DATABASE_SIGNATURE \<noteq> SMM_CORE_SMI_DATABASE_SIGNATURE"
  "SMM_CORE_HANDLE_DATABASE_SIGNATURE \<noteq> SMM_CORE_PROTOCOL_DATABASE_SIGNATURE"
  "SMM_CORE_HANDLE_DATABASE_SIGNATURE \<noteq> SMM_CORE_SMI_DATABASE_SIGNATURE"
  "SMM_CORE_PROTOCOL_DATABASE_SIGNATURE \<noteq> SMM_CORE_SMI_DATABASE_SIGNATURE"
  by (simp_all add: SMM_CORE_IMAGE_DATABASE_SIGNATURE_def SMM_CORE_HANDLE_DATABASE_SIGNATURE_def
      SMM_CORE_PROTOCOL_DATABASE_SIGNATURE_def SMM_CORE_SMI_DATABASE_SIGNATURE_def SIGNATURE_32_def of_char_def)

lemmas smm_signatures_differ_sym [simp] = smm_signatures_differ [symmetric]

lemma item_signature_read: "shown m p (item_pattern it) \<Longrightarrow> db_Signature m p = item_signature it"
  by (cases it) (auto simp: smm_image_bytes_def db_header_def rd32_w32)

definition at_database :: "mem \<Rightarrow> db_item list \<Rightarrow> smm_screen \<Rightarrow> bool" where
  "at_database m its s \<longleftrightarrow> shown m (app_Database (sc_app s)) (pattern_of its) \<and> (\<forall>it\<in>set its. item_ok it) \<and>
     total_length its < 2 ^ 64 \<and> app_DatabaseSize (sc_app s) = of_nat (total_length its)"

lemma at_database_tell [simp]: "at_database m its (tell xs s) = at_database m its s"
  by (simp add: at_database_def)

lemma smm_walk_items:
  assumes "at_database m its s" "I its s"
    and "\<And>q it rest s. item_ok it \<Longrightarrow> shown m q (item_pattern it) \<Longrightarrow> I (it # rest) s \<Longrightarrow>
      body q s = Some (Inr (F it s)) \<and> I rest (F it s)"
  shows "smm_walk m body s = Some (fold F its s)" "I [] (fold F its s)"
proof -
  from assms(1) have "shown m (app_Database (sc_app s)) (pattern_of its)" "\<forall>it\<in>set its. item_ok it"
    by (auto simp: at_database_def)
  from walk_items [where I = I and F = F and body = body, OF this assms(2,3)]
  have w: "walk (db_Length m) body (app_Database (sc_app s)) (app_Database (sc_app s) + total_length its) s =
      Some (Inr (fold F its s)) \<and> I [] (fold F its s)" by simp
  moreover have "unat (app_DatabaseSize (sc_app s)) = total_length its"
    using assms(1) by (simp add: at_database_def unat_of_nat_small)
  ultimately show "smm_walk m body s = Some (fold F its s)" "I [] (fold F its s)"
    by (simp_all add: smm_walk_def)
qed

lemma smm_walk_tells:
  assumes "at_database m its s" "knows G name names s"
    and "\<And>q it s. item_ok it \<Longrightarrow> shown m q (item_pattern it) \<Longrightarrow> knows G name names s \<Longrightarrow>
      body q s = Some (Inr (tell (f it) s))"
  shows "smm_walk m body s = Some (tell (concat (map f its)) s)"
  using smm_walk_items(1) [where I = "\<lambda>_. knows G name names" and F = "\<lambda>it. tell (f it)", OF assms(1,2)] assms(3)
  by (simp add: fold_tell)

lemma unat_count: "28 + 32 * n < 2 ^ 32 \<Longrightarrow> unat (of_nat n :: u64) = n"
  by (rule unat_of_nat_small) simp

lemma DumpHandleDatabase_prints:
  assumes "at_database m its s" "knows G name names s"
  shows "DumpHandleDatabase G m s = Some (tell (concat (map (handle_lines name names) its)) s)"
  unfolding DumpHandleDatabase_def
proof (rule smm_walk_tells [OF assms])
  fix q it s
  assume ok: "item_ok it" and sh: "shown m q (item_pattern it)" and k: "knows G name names s"
  show "(if db_Signature m q = SMM_CORE_HANDLE_DATABASE_SIGNATURE
       then map_option Inr (DumpProtocolInterfacesOnHandleStruct G m q (tell [Print ''Handle - 0x%x'' [hx (rd64 m (q + 12))]] s))
       else Some (Inr s)) = Some (Inr (tell (handle_lines name names it) s))"
  proof (cases it)
    case (HandleItem h ps)
    let ?line = "\<lambda>(g, v, ref). [Print ''  Protocol - %a, Interface - 0x%x'' [Ascii (name g), hx v]] @ ref_text names v ref @ [Print '''' []]"
    have g: "\<And>g v r. (g, v, r) \<in> set ps \<Longrightarrow> length g = 16" and n: "28 + 32 * length ps < 2 ^ 32"
      using ok HandleItem by auto
    from sh have at: "holds m (q + 12) (enc 8 h)" "holds m (q + 20) (enc 8 (length ps))"
      "holds m (q + 28) (concat (map entry_bytes ps))"
      by (simp_all add: HandleItem add.assoc)
    have "unat (rd64 m (q + o_ProtocolCount)) = length ps"
      using rd64_enc [OF at(2)] unat_count [OF n] by simp
    moreover have "each (\<lambda>Index s.
         let p = q + sizeof_HANDLE_DATABASE + sizeof_HANDLE_PROTOCOL * Index; Interface = rd64 m (p + 16) in
         Option.bind (GuidToName G (sc_guids s) (bytes_at m p 16)) (\<lambda>name.
           ref_line [Print ''  Protocol - %a, Interface - 0x%x'' [Ascii name, hx Interface]] Interface (rd64 m (p + 24)) s))
       [0..<length ps] (tell os s) = Some (tell (concat (map ?line ps)) (tell os s))" for os
    proof (rule each_tells [OF at(3), where n = 32 and G = G and name = name and names = names])
      fix x i and s :: smm_screen
      assume "x \<in> set ps" and x: "holds m (q + 28 + 32 * i) (entry_bytes x)" and k: "knows G name names s"
      then obtain g v r where [simp]: "x = (g, v, r)" "length g = 16" by (metis g prod_cases3)
      from x have "bytes_at m (q + 28 + 32 * i) 16 = g" "rd64 m (q + 28 + 32 * i + 16) = v" "rd64 m (q + 28 + 32 * i + 24) = r"
        by (auto intro: bytes_at_holds rd64_w64)
      moreover have "GuidToName G (sc_guids s) g = Some (name g)" using k by (simp add: knows_def)
      ultimately show "(let p = q + sizeof_HANDLE_DATABASE + sizeof_HANDLE_PROTOCOL * i; Interface = rd64 m (p + 16) in
         Option.bind (GuidToName G (sc_guids s) (bytes_at m p 16)) (\<lambda>name.
           ref_line [Print ''  Protocol - %a, Interface - 0x%x'' [Ascii name, hx Interface]] Interface (rd64 m (p + 24)) s)) =
         Some (tell (?line x) s)"
        by (simp add: Let_def ref_line_tells [OF k])
    qed (use g k in auto)
    ultimately show ?thesis
      using item_signature_read [OF sh] rd64_enc [OF at(1)]
      by (simp add: HandleItem DumpProtocolInterfacesOnHandleStruct_def)
  qed (use item_signature_read [OF sh] in simp_all)
qed

lemma pair_lines_loop_tells:
  assumes "holds m p (concat (map pair_bytes ps))" "unat n = length ps" "knows G name names s"
  shows "pair_lines_loop fmt m p n s = Some (tell (pair_lines fmt names ps) s)"
  unfolding pair_lines_loop_def pair_lines_def assms(2)
proof (rule each_tells [OF assms(1) length_pair assms(3)])
  fix x i and s :: smm_screen
  assume x: "holds m (p + 16 * i) (pair_bytes x)" and k: "knows G name names s"
  obtain v r where [simp]: "x = (v, r)" by (cases x)
  from x have "rd64 m (p + 16 * i) = v" "rd64 m (p + 16 * i + 8) = r" by (auto intro: rd64_w64)
  then show "(let v = rd64 m (p + 16 * i) in ref_line [Print fmt [hx v]] v (rd64 m (p + 16 * i + 8)) s) =
      Some (tell ((\<lambda>(v, ref). [Print fmt [hx v]] @ ref_text names v ref @ [Print '''' []]) x) s)"
    by (simp add: ref_line_tells [OF k])
qed

lemma handlers_loop_tells:
  assumes "holds m (p + 32) (enc 8 (length hs))" "holds m (p + 40) (concat (map handler_bytes hs))"
    and "length hs < 2 ^ 64" "knows G name names s"
  shows "handlers_loop fmt1 fmt2 m p s = Some (tell (handler_lines fmt1 fmt2 names hs) s)"
proof -
  have n: "unat (rd64 m (p + o_HandlerCount)) = length hs"
    using rd64_enc [OF assms(1)] unat_of_nat_small [OF assms(3)] by simp
  show ?thesis
    unfolding handlers_loop_def handler_lines_def n
  proof (rule each_tells [OF assms(2) length_handler assms(4)])
    fix x i and s :: smm_screen
    assume x: "holds m (p + 40 + 24 * i) (handler_bytes x)" and k: "knows G name names s"
    obtain h v r where [simp]: "x = (h, v, r)" by (cases x)
    from x have "rd64 m (p + 40 + 24 * i) = of_nat h" "rd64 m (p + 40 + 24 * i + 8) = v" "rd64 m (p + 40 + 24 * i + 16) = r"
      by (auto intro: rd64_w64 rd64_enc)
    then show "(let q = p + sizeof_SMI_DATABASE + sizeof_SMI_HANDLER * i; Handler = rd64 m (q + 8) in
         ref_line [Print fmt1 [hx (rd64 m q)], Print fmt2 [hx Handler]] Handler (rd64 m (q + 16)) s) =
        Some (tell ((\<lambda>(h, v, ref). [Print fmt1 [hxn h], Print fmt2 [hx v]] @ ref_text names v ref @ [Print '''' []]) x) s)"
      by (simp add: Let_def ref_line_tells [OF k])
  qed
qed

lemma DumpProtocolDatabase_prints:
  assumes "at_database m its s" "knows G name names s"
  shows "DumpProtocolDatabase G m s = Some (tell (concat (map (protocol_lines name names) its)) s)"
  unfolding DumpProtocolDatabase_def
proof (rule smm_walk_tells [OF assms])
  fix q it s
  assume ok: "item_ok it" and sh: "shown m q (item_pattern it)" and k: "knows G name names s"
  show "(if db_Signature m q = SMM_CORE_PROTOCOL_DATABASE_SIGNATURE
       then
         Option.bind (GuidToName G (sc_guids s) (bytes_at m (q + 12) 16)) (\<lambda>name.
         Option.bind (DumpProtocolInterfacesOnProtocolStruct m q (tell [Print ''Protocol - %a'' [Ascii name]] s)) (\<lambda>s.
           map_option Inr (DumpProtocolNotifyOnProtocolStruct m q s)))
       else Some (Inr s)) = Some (Inr (tell (protocol_lines name names it) s))"
  proof (cases it)
    case (ProtocolItem g xs ns)
    from ok have len: "length g = 16" and n: "44 + 16 * length xs + 16 * length ns < 2 ^ 32"
      by (auto simp: ProtocolItem)
    from sh have at: "holds m (q + 12) g" "holds m (q + 28) (enc 8 (length xs))" "holds m (q + 36) (enc 8 (length ns))"
      "holds m (q + 44) (concat (map pair_bytes xs))" "holds m (q + 44 + length xs * 16) (concat (map pair_bytes ns))"
      by (simp_all add: ProtocolItem add.assoc len mult.commute)
    have counts: "unat (rd64 m (q + o_InterfaceCount)) = length xs" "unat (rd64 m (q + o_NotifyCount)) = length ns"
      using rd64_enc [OF at(2)] rd64_enc [OF at(3)] n by (simp_all add: unat_of_nat_small)
    have "bytes_at m (q + 12) 16 = g" using at(1) len by (simp add: bytes_at_holds)
    moreover have "GuidToName G (sc_guids s) g = Some (name g)" using k by (simp add: knows_def)
    moreover have "DumpProtocolInterfacesOnProtocolStruct m q (tell os s) =
        Some (tell (pair_lines ''  Interface - 0x%x'' names xs) (tell os s))" for os
      unfolding DumpProtocolInterfacesOnProtocolStruct_def
      using k by (intro pair_lines_loop_tells [OF at(4) counts(1)]) simp
    moreover have "DumpProtocolNotifyOnProtocolStruct m q (tell os s) =
        Some (tell (pair_lines ''  Notify - 0x%x'' names ns) (tell os s))" for os
      unfolding DumpProtocolNotifyOnProtocolStruct_def counts(1)
      using k by (intro pair_lines_loop_tells [OF at(5) counts(2)]) simp
    ultimately show ?thesis
      using item_signature_read [OF sh] by (simp add: ProtocolItem)
  qed (use item_signature_read [OF sh] in simp_all)
qed

lemma smi_fields:
  assumes "shown m q (item_pattern (SmiItem root g hs))" "item_ok (SmiItem root g hs)"
  shows "m (q + o_IsRootHandler) = (if root then 1 else 0)" "bytes_at m (q + o_DbHandlerType) 16 = g"
    and "holds m (q + 32) (enc 8 (length hs))" "holds m (q + 40) (concat (map handler_bytes hs))" "length hs < 2 ^ 64"
  using assms by (simp_all add: add.assoc bytes_at_holds numeral_3_eq_3 add.commute [of q])

lemma DumpSmiHandler_prints:
  assumes "at_database m its s" "knows G name names s"
  shows "DumpSmiHandler G m s = Some (tell (concat (map (smi_lines name names) its)) s)"
  unfolding DumpSmiHandler_def
proof (rule smm_walk_tells [OF assms])
  fix q it s
  assume ok: "item_ok it" and sh: "shown m q (item_pattern it)" and k: "knows G name names s"
  show "(if db_Signature m q = SMM_CORE_SMI_DATABASE_SIGNATURE \<and> m (q + o_IsRootHandler) = 0
       then
         Option.bind (GuidToName G (sc_guids s) (bytes_at m (q + o_DbHandlerType) 16)) (\<lambda>name.
           map_option Inr (handlers_loop ''  SmiHandle - 0x%x'' ''    Handler - 0x%x'' m q
             (tell [Print ''SmiEntry - %a'' [Ascii name]] s)))
       else Some (Inr s)) = Some (Inr (tell (smi_lines name names it) s))"
  proof (cases it)
    case (SmiItem root g hs)
    note fields = smi_fields [OF sh [unfolded SmiItem] ok [unfolded SmiItem]]
    have "GuidToName G (sc_guids s) g = Some (name g)" using k by (simp add: knows_def)
    moreover have "handlers_loop f1 f2 m q (tell os s) = Some (tell (handler_lines f1 f2 names hs) (tell os s))" for f1 f2 os
      using k by (intro handlers_loop_tells [OF fields(3-5)]) simp
    ultimately show ?thesis
      using item_signature_read [OF sh] fields(1,2) by (simp add: SmiItem)
  qed (use item_signature_read [OF sh] in simp_all)
qed

lemma DumpRootSmiHandler_prints:
  assumes "at_database m its s" "knows G name names s"
  shows "DumpRootSmiHandler m s = Some (tell (concat (map (root_lines names) its)) s)"
  unfolding DumpRootSmiHandler_def
proof (rule smm_walk_tells [OF assms])
  fix q it s
  assume ok: "item_ok it" and sh: "shown m q (item_pattern it)" and k: "knows G name names s"
  show "(if db_Signature m q = SMM_CORE_SMI_DATABASE_SIGNATURE \<and> m (q + o_IsRootHandler) \<noteq> 0
       then map_option Inr (handlers_loop ''RootSmiHandle - 0x%x'' ''  Handler - 0x%x'' m q s)
       else Some (Inr s)) = Some (Inr (tell (root_lines names it) s))"
  proof (cases it)
    case (SmiItem root g hs)
    note fields = smi_fields [OF sh [unfolded SmiItem] ok [unfolded SmiItem]]
    show ?thesis
      using item_signature_read [OF sh] fields(1) handlers_loop_tells [OF fields(3-5) k] by (simp add: SmiItem)
  qed (use item_signature_read [OF sh] in simp_all)
qed

section \<open>The images\<close>

lemma smm_image_fields:
  assumes "shown m q (item_pattern (ImageItem x))" "item_ok (ImageItem x)"
  shows "UniStr m (q + 28) = Some (is_NameString x)" "bytes_at m (q + 12) 16 = is_FileGuid x"
    and "rd64 m (q + 100) = is_EntryPoint x" "rd64 m (q + 108) = is_LoadedImageBase x"
    and "rd64 m (q + 116) = is_ImageSize x" "rd64 m (q + 124) = is_ImageBase x"
proof -
  from assms(2) have len: "length (is_FileGuid x) = 16" "length (name_bytes (is_NameString x)) = 72"
    by (auto simp: image_wf_def length_name_bytes)
  from assms(1) have at: "holds m (q + 12) (is_FileGuid x)" "holds m (q + 28) (name_bytes (is_NameString x))"
    "holds m (q + 100) (w64 (is_EntryPoint x))" "holds m (q + 108) (w64 (is_LoadedImageBase x))"
    "holds m (q + 116) (w64 (is_ImageSize x))" "holds m (q + 124) (w64 (is_ImageBase x))"
    by (simp_all add: smm_image_bytes_def len add.assoc)
  then show "bytes_at m (q + 12) 16 = is_FileGuid x" "rd64 m (q + 100) = is_EntryPoint x"
    "rd64 m (q + 108) = is_LoadedImageBase x" "rd64 m (q + 116) = is_ImageSize x" "rd64 m (q + 124) = is_ImageBase x"
    using len by (auto intro: bytes_at_holds rd64_w64)
  show "UniStr m (q + 28) = Some (is_NameString x)"
    using at(2) assms(2) by (intro name_bytes_holds) (auto simp: image_wf_def)
qed

definition names_of :: "db_item list \<Rightarrow> char16 list list" where
  "names_of its = concat (map item_names its)"

lemma names_of_simps [simp]: "names_of [] = []" "names_of (it # its) = item_names it @ names_of its"
  by (simp_all add: names_of_def)

lemma count_images:
  assumes "at_database m its s"
  shows "smm_walk m (count_image_body m) s = Some (s\<lparr>sc_images_max := sc_images_max s + length (names_of its)\<rparr>)"
proof -
  let ?F = "\<lambda>it s. s\<lparr>sc_images_max := sc_images_max s + length (item_names it)\<rparr>"
  have "count_image_body m q s = Some (Inr (?F it s))" if "shown m q (item_pattern it)" for q it s
    using item_signature_read [OF that] by (cases it) (simp_all add: count_image_body_def)
  then have "smm_walk m (count_image_body m) s = Some (fold ?F its s)"
    by (intro smm_walk_items(1) [where I = "\<lambda>_ _. True", OF assms]) simp_all
  moreover have "fold ?F its s = s\<lparr>sc_images_max := sc_images_max s + length (names_of its)\<rparr>" for s
    by (induction its arbitrary: s) (simp_all add: add.assoc)
  ultimately show ?thesis by simp
qed

text \<open>One image more in the array.\<close>

definition add_image :: "image_struct \<Rightarrow> smm_screen \<Rightarrow> smm_screen" where
  "add_image x s =
     (case sc_images s of
        None \<Rightarrow> s
      | Some a \<Rightarrow> s\<lparr>sc_images := Some (a[sc_images_count s := (a ! sc_images_count s)\<lparr>is_ImageBase := is_ImageBase x,
          is_ImageSize := is_ImageSize x, is_LoadedImageBase := is_LoadedImageBase x, is_NameString := is_NameString x,
          is_FileGuid := is_FileGuid x\<rparr>]), sc_images_count := sc_images_count s + 1\<rparr>)"

fun image_step :: "db_item \<Rightarrow> smm_screen \<Rightarrow> smm_screen" where
  "image_step (ImageItem x) s = add_image x (tell (smm_image_lines (ImageItem x)) s)"
| "image_step _ s = s"

text \<open>What is still to come fills the array and completes the output.\<close>

definition filling :: "smm_app \<Rightarrow> guid_state \<Rightarrow> char16 list list \<Rightarrow> db_item list \<Rightarrow> smm_screen \<Rightarrow> bool" where
  "filling A g names rest s \<longleftrightarrow> smm_say (concat (map smm_image_lines rest)) (sc_app s) = A \<and> sc_guids s = g \<and>
     sc_images_max s = length names \<and>
     (\<exists>a. sc_images s = Some a \<and> length a = length names \<and> sc_images_count s \<le> length a \<and>
        map is_NameString (take (sc_images_count s) a) @ names_of rest = names)"

lemma smm_say_say [simp]: "smm_say ys (smm_say xs a) = smm_say (xs @ ys) a"
  by (simp add: smm_say_def)

lemma filling_step:
  assumes "item_ok it" "shown m q (item_pattern it)" "filling A g names (it # rest) s"
  shows "smm_image_body_app m q s = Some (Inr (image_step it s)) \<and> filling A g names rest (image_step it s)"
proof (cases it)
  case (ImageItem x)
  from assms(3) have s: "sc_images_max s = length names" "sc_guids s = g"
      "smm_say (concat (map smm_image_lines (it # rest))) (sc_app s) = A"
    unfolding filling_def by blast+
  from assms(3) obtain a where a: "sc_images s = Some a" "length a = length names" "sc_images_count s \<le> length a"
    "map is_NameString (take (sc_images_count s) a) @ names_of (it # rest) = names"
    unfolding filling_def by blast
  from arg_cong [OF a(4), of length] have c: "sc_images_count s < length a"
    using a(2,3) by (simp add: ImageItem)
  have name: "copy_name (is_NameString x) = is_NameString x"
    using assms(1) by (simp add: ImageItem image_wf_def copy_name_def)
  note fields = smm_image_fields [OF assms(2) [unfolded ImageItem] assms(1) [unfolded ImageItem]]
  have "smm_image_body_app m q s = Some (Inr (image_step it s))"
    using item_signature_read [OF assms(2)] a c s
    by (simp add: smm_image_body_app_def ImageItem fields Let_def AddImageStruct_app_def add_image_def name)
  moreover have "filling A g names rest (image_step it s)"
    using a c s by (simp add: filling_def ImageItem add_image_def take_Suc_conv_app_nth tell_def del: smm_image_lines.simps)
  ultimately show ?thesis ..
qed (use assms item_signature_read [OF assms(2)] in \<open>simp_all add: smm_image_body_app_def filling_def\<close>)

lemma DumpSmmLoadedImage_prints:
  assumes at: "at_database m its s" and "AllocApp (length (names_of its))" "sc_images_count s = 0"
    and names: "\<And>g. GuidToName G (sc_guids s) g = Some (name g)"
  shows "\<exists>s'. DumpSmmLoadedImage AllocApp m s = Some s' \<and> knows G name (names_of its) s' \<and> at_database m its s' \<and>
    sc_app s' = smm_say (concat (map smm_image_lines its)) (sc_app s) \<and> sc_guids s' = sc_guids s"
proof -
  let ?n = "length (names_of its)"
  let ?s = "s\<lparr>sc_images_max := ?n, sc_images := Some (replicate ?n zero_image)\<rparr>"
  let ?A = "smm_say (concat (map smm_image_lines its)) (sc_app s)"
  have at0: "at_database m its (s\<lparr>sc_images_max := 0\<rparr>)" and at': "at_database m its ?s"
    using at by (simp_all add: at_database_def)
  have "filling ?A (sc_guids s) (names_of its) its ?s"
    using assms(3) by (simp add: filling_def)
  from smm_walk_items [where I = "filling ?A (sc_guids s) (names_of its)" and F = image_step, OF at' this filling_step]
  have w: "smm_walk m (smm_image_body_app m) ?s = Some (fold image_step its ?s)"
    and f: "filling ?A (sc_guids s) (names_of its) [] (fold image_step its ?s)" by auto
  from f obtain a where a: "sc_images (fold image_step its ?s) = Some a" "length a = ?n"
    "map is_NameString (take (sc_images_count (fold image_step its ?s)) a) @ names_of [] = names_of its"
    unfolding filling_def by blast
  from arg_cong [OF a(3), of length] a(2) have "?n \<le> sc_images_count (fold image_step its ?s)" by simp
  with a have "map is_NameString a = names_of its" by simp
  with f names a(1) have "knows G name (names_of its) (fold image_step its ?s)"
    by (auto simp: filling_def knows_def)
  moreover have "sc_app (fold image_step its ?s) = ?A" "sc_guids (fold image_step its ?s) = sc_guids s"
    using f by (auto simp: filling_def smm_say_def)
  moreover from this at have "at_database m its (fold image_step its ?s)"
    by (simp add: at_database_def smm_say_def)
  moreover have "DumpSmmLoadedImage AllocApp m s = Some (fold image_step its ?s)"
    using count_images [OF at0] assms(2) w by (simp add: DumpSmmLoadedImage_def)
  ultimately show ?thesis by blast
qed

end
