(* ===== verification/Smm_Transfer.thy ===== *)
theory Smm_Transfer
  imports Smm_Channel
begin

text \<open>
  The SMI handler provides the interface \<open>dump_channel\<close>, so the application gets the database that
  the module built.
\<close>

section \<open>The handler's answers\<close>

record comm_setting =
  cs_env :: comm_env
  cs_valid :: "u64 \<Rightarrow> u64 \<Rightarrow> bool"
  cs_db :: smm_db

text \<open>
  The SMM core, as the PI specification describes it: a message goes to the handler that is
  registered for its GUID, with the message's data and its length.
\<close>

definition dispatches :: "comm_setting \<Rightarrow> bool" where
  "dispatches x \<longleftrightarrow> (\<forall>m CB L. holds m CB mSmmCoreDumpGuid \<longrightarrow> holds m (CB + o_MessageLength) (enc 8 L) \<longrightarrow> L < 2 ^ 64 \<longrightarrow>
     Communicate (cs_env x) m CB (sizeof_COMM_HEADER + L) =
       (EFI_SUCCESS, sizeof_COMM_HEADER + L,
        after_smi (cs_valid x) (CB + sizeof_COMM_HEADER) (Some L) (cs_db x) m))"

lemma dispatchesD:
  "dispatches x \<Longrightarrow> holds m CB mSmmCoreDumpGuid \<Longrightarrow> holds m (CB + o_MessageLength) (enc 8 L) \<Longrightarrow> L < 2 ^ 64 \<Longrightarrow>
   Communicate (cs_env x) m CB (sizeof_COMM_HEADER + L) =
     (EFI_SUCCESS, sizeof_COMM_HEADER + L,
      after_smi (cs_valid x) (CB + sizeof_COMM_HEADER) (Some L) (cs_db x) m)"
  by (simp add: dispatches_def)

definition db_size :: "comm_setting \<Rightarrow> nat" where
  "db_size x = unat (mSmmCoreDatabaseSize (cs_db x))"

definition db_addr :: "comm_setting \<Rightarrow> addr" where
  "db_addr x = mSmmCoreDatabase (cs_db x)"

definition channel_ok :: "comm_setting \<Rightarrow> addr \<Rightarrow> nat \<Rightarrow> bool" where
  "channel_ok x CB Size \<longleftrightarrow>
     dispatches x \<and> db_addr x \<noteq> NULL \<and> CB + Size < 2 ^ 64 \<and> 64 < Size \<and> apart CB Size (db_addr x) (db_size x)
     \<and> (\<forall>p n. CB \<le> p \<longrightarrow> p + n \<le> CB + Size \<longrightarrow> cs_valid x (of_nat p) (of_nat n))"

lemma smi_info:
  assumes "info_message m CB st v" "mSmmCoreDatabase S \<noteq> NULL" "valid (of_nat (CB + 24)) 24"
  shows "info_message (after_smi valid (CB + 24) (Some 24) S m) CB 0 (unat (mSmmCoreDatabaseSize S))"
    and "same_but CB 48 m (after_smi valid (CB + 24) (Some 24) S m)"
proof -
  let ?p = "CB + 24"
  let ?m1 = "wr64 (?p + o_ReturnStatus) (- 1) m"
  have "rd32 ?m1 ?p = SMM_CORE_DUMP_COMMAND_GET_INFO"
    using assms(1) by (intro rd32_w32) (simp add: message_defs store_at_other add.assoc)
  then have smi: "after_smi valid ?p (Some 24) S m = wr64 (?p + o_ReturnStatus) 0 (wr64 (?p + o_DumpSize) (mSmmCoreDatabaseSize S) ?m1)"
    using assms(2,3) by (simp add: after_smi_def SmmCoreDumpHandler_def Let_def SmmCoreDumpHandlerGetInfo_def)
  show "info_message (after_smi valid ?p (Some 24) S m) CB 0 (unat (mSmmCoreDatabaseSize S))"
    using assms(1) unfolding smi
    by (simp add: message_defs w64_def store_at_same store_at_other add.assoc)
  show "same_but CB 48 m (after_smi valid ?p (Some 24) S m)"
    unfolding smi by (auto simp: wr64_def intro!: same_but_store)
qed

lemma smi_data:
  assumes msg: "data_message m CB st k (CB + 64) off" and "mSmmCoreDatabase S \<noteq> NULL"
    and v: "valid (of_nat (CB + 24)) 40" "valid (of_nat (CB + 64)) (of_nat k)"
    and size: "off + k \<le> unat (mSmmCoreDatabaseSize S)" "0 < k" "CB + 64 + k < 2 ^ 64"
    and apart: "apart CB (64 + k) (mSmmCoreDatabase S) (unat (mSmmCoreDatabaseSize S))"
  defines "m' \<equiv> after_smi valid (CB + 24) (Some 40) S m"
  shows "data_message m' CB 0 k (CB + 64) (off + k)"
    and "bytes_at m' (CB + 64) k = bytes_at m (mSmmCoreDatabase S + off) k"
    and "same_but CB (64 + k) m m'"
proof -
  let ?p = "CB + 24"
  let ?m1 = "wr64 (?p + o_ReturnStatus) (- 1) m"
  have msg1: "data_message ?m1 CB (- 1) k (CB + 64) off"
    using msg by (simp add: message_defs store_at_same store_at_other add.assoc)
  have N: "unat (mSmmCoreDatabaseSize S) < 2 ^ 64" using unat_widths(4) [of "mSmmCoreDatabaseSize S"] by simp
  have small: "k < 2 ^ 64" "off < 2 ^ 64" "off + k < 2 ^ 64" using size N by auto
  have cmd: "rd32 ?m1 ?p = SMM_CORE_DUMP_COMMAND_GET_DATA_BY_OFFSET"
    using msg1 by (intro rd32_w32) (simp add: data_message_def add.assoc)
  have enc: "holds ?m1 (?p + o_DumpSize) (enc 8 k)" "holds ?m1 (?p + o_DumpBuffer) (enc 8 (CB + 64))"
    "holds ?m1 (?p + o_DumpOffset) (enc 8 off)"
    and hdr: "holds ?m1 ?p (w32 SMM_CORE_DUMP_COMMAND_GET_DATA_BY_OFFSET @ enc 4 40 @ w64 (- 1))"
    using msg1 by (simp_all add: data_message_def add.assoc)
  have reads: "rd64 ?m1 (?p + o_DumpSize) = of_nat k" "rd64 ?m1 (?p + o_DumpBuffer) = of_nat (CB + 64)"
    "rd64 ?m1 (?p + o_DumpOffset) = of_nat off"
    using enc by (simp_all only: rd64_enc)
  have header: "bytes_at ?m1 ?p 16 = w32 SMM_CORE_DUMP_COMMAND_GET_DATA_BY_OFFSET @ enc 4 40 @ w64 (- 1)"
    using hdr by (rule bytes_at_holds) simp
  have slice: "bytes_at ?m1 (mSmmCoreDatabase S + off) k = bytes_at m (mSmmCoreDatabase S + off) k"
    unfolding wr64_def using apart size(1) by (intro bytes_store_other) (auto simp: apart_def)
  let ?m2 = "store_at ?m1 (CB + 64) (bytes_at m (mSmmCoreDatabase S + off) k)"
  have copy: "SmmCoreDumpCopyData (S\<lparr>mSmmCoreDumpRecordingStatus := False\<rparr>) (CB + 64) (of_nat k) (of_nat off) ?m1 =
      (?m2, of_nat k, of_nat (off + k))"
    using size small slice
    by (auto simp: SmmCoreDumpCopyData_def CopyMem_def Let_def word_le_nat_alt word_less_nat_alt unat_sub_if'
        unat_of_nat_small)
  have buf: "unat (of_nat (CB + 64) :: u64) = CB + 64" by (rule unat_of_nat_small) (use size(3) in simp)
  have m': "m' = wr64 (?p + o_ReturnStatus) 0
     (store_at ?m2 ?p ((w32 SMM_CORE_DUMP_COMMAND_GET_DATA_BY_OFFSET @ enc 4 40 @ w64 (- 1))
        @ w64 (of_nat k) @ w64 (of_nat (CB + 64)) @ w64 (of_nat (off + k))))"
    using assms(2) v cmd
    unfolding m'_def after_smi_def SmmCoreDumpHandler_def SmmCoreDumpHandlerGetDataByOffset_def
    by (simp only: prod.case option.case Let_def reads header buf copy snd_conv)
      (simp add: SMM_CORE_DUMP_COMMAND_GET_INFO_def SMM_CORE_DUMP_COMMAND_GET_DATA_BY_OFFSET_def)
  have w: "w64 (of_nat k) = enc 8 k" "w64 (of_nat (CB + 64)) = enc 8 (CB + 64)" "w64 (of_nat (off + k)) = enc 8 (off + k)"
    using small size(3) by (intro w64_of_nat; simp)+
  define blk where "blk = (w32 SMM_CORE_DUMP_COMMAND_GET_DATA_BY_OFFSET @ enc 4 40 @ w64 (- 1))
    @ enc 8 k @ enc 8 (CB + 64) @ enc 8 (off + k)"
  define M where "M = store_at ?m2 ?p blk"
  have len: "length blk = 40" by (simp add: blk_def)
  have "holds M ?p blk" unfolding M_def by (rule store_at_same)
  moreover have "holds M CB mSmmCoreDumpGuid" "holds M (CB + 16) (enc 8 40)"
    using msg1 unfolding M_def data_message_def by (simp_all add: store_at_other len)
  ultimately have "data_message M CB (- 1) k (CB + 64) (off + k)"
    by (simp add: data_message_def blk_def add.assoc)
  then have "data_message (store_at M (?p + o_ReturnStatus) (w64 0)) CB 0 k (CB + 64) (off + k)"
    by (simp add: data_message_def store_at_same store_at_other add.assoc)
  then show "data_message m' CB 0 k (CB + 64) (off + k)"
    unfolding m' w M_def blk_def wr64_def .
  show "same_but CB (64 + k) m m'"
    unfolding m' by (auto simp: wr64_def intro!: same_but_store)
  have "bytes_at m' (CB + 64) k = bytes_at ?m2 (CB + 64) k"
    unfolding m' wr64_def by (subst bytes_store_other, simp add: apart_def, subst bytes_store_other) (simp_all add: apart_def)
  then show "bytes_at m' (CB + 64) k = bytes_at m (mSmmCoreDatabase S + off) k"
    using holds_store_at [of ?m1 "CB + 64" "bytes_at m (mSmmCoreDatabase S + off) k"] by (simp add: holds_def)
qed

interpretation smi: dump_channel "\<lambda>x. Communicate (cs_env x)" channel_ok db_addr db_size
proof
  fix x CB Size
  assume ok: "channel_ok x CB Size"
  then show "CB + Size < 2 ^ 64 \<and> 64 < Size \<and> db_size x < 2 ^ 64 \<and> apart CB Size (db_addr x) (db_size x)"
    using unat_widths(4) [of "mSmmCoreDatabaseSize (cs_db x)"] by (simp add: channel_ok_def db_size_def)
  have valid: "cs_valid x (of_nat p) (of_nat n)" if "CB \<le> p" "p + n \<le> CB + Size" for p n
    using ok that by (auto simp: channel_ok_def)
  have bounds: "64 < Size" "CB + Size < 2 ^ 64" "mSmmCoreDatabase (cs_db x) \<noteq> NULL" "dispatches x"
    "apart CB Size (mSmmCoreDatabase (cs_db x)) (unat (mSmmCoreDatabaseSize (cs_db x)))"
    using ok by (auto simp: channel_ok_def db_addr_def db_size_def)
  {
    fix m st v
    assume msg: "info_message m CB st v"
    then have "Communicate (cs_env x) m CB (24 + 24) =
        (EFI_SUCCESS, 24 + 24, after_smi (cs_valid x) (CB + 24) (Some 24) (cs_db x) m)"
      using dispatchesD [OF bounds(4), of m CB 24] by (simp add: info_message_def)
    moreover have "cs_valid x (of_nat (CB + 24)) 24"
      using valid [of "CB + 24" 24] bounds(1) by simp
    ultimately show "\<exists>m'. Communicate (cs_env x) m CB 48 = (EFI_SUCCESS, 48, m') \<and>
        info_message m' CB 0 (db_size x) \<and> same_but CB 48 m m'"
      using smi_info [OF msg bounds(3)] by (simp add: db_size_def)
  next
    fix m st k off
    assume msg: "data_message m CB st k (CB + 64) off" and k: "0 < k" "k \<le> Size - 64" "off + k \<le> db_size x"
    then have "Communicate (cs_env x) m CB (24 + 40) =
        (EFI_SUCCESS, 24 + 40, after_smi (cs_valid x) (CB + 24) (Some 40) (cs_db x) m)"
      using dispatchesD [OF bounds(4), of m CB 40] by (simp add: data_message_def)
    moreover have "cs_valid x (of_nat (CB + 24)) 40" "cs_valid x (of_nat (CB + 64)) (of_nat k)"
      using valid [of "CB + 24" 40] valid [of "CB + 64" k] bounds(1) k(2) by simp_all
    moreover have "CB + 64 + k < 2 ^ 64"
      "apart CB (64 + k) (mSmmCoreDatabase (cs_db x)) (unat (mSmmCoreDatabaseSize (cs_db x)))"
      using bounds k by (auto simp: apart_def)
    ultimately show "\<exists>m'. Communicate (cs_env x) m CB 64 = (EFI_SUCCESS, 64, m') \<and>
        data_message m' CB 0 k (CB + 64) (off + k) \<and>
        bytes_at m' (CB + 64) k = bytes_at m (db_addr x + off) k \<and> same_but CB (64 + k) m m'"
      using smi_data [OF msg bounds(3), of "cs_valid x"] k by (simp add: db_addr_def db_size_def)
  }
qed

section \<open>The transfer\<close>

text \<open>
  C17: On a platform that dispatches messages, with a communication region of any size from a page
  up, the application's loop returns with exactly the module's database in its own pool and
  nothing else changed but the region.
\<close>

theorem GetSmmCoreDatabase_transfers:
  assumes "channel_ok x CB Size" and "C = cs_env x"
    and "LocateSmmCommunication C = EFI_SUCCESS" and "RegionTable C = (EFI_SUCCESS, rs)"
    and "region_loop rs 0 = Some (r, W)" and "CB = unat (rg_PhysicalStart r)" and "Size = unat W"
    and "AllocDump C (of_nat (db_size x)) = P" and "P \<noteq> NULL"
    and "apart CB Size P (db_size x)" and "apart P (db_size x) (db_addr x) (db_size x)"
  shows "\<exists>m'. GetSmmCoreDatabase C (a, m) =
      Some (a\<lparr>app_DatabaseSize := of_nat (db_size x), app_Database := P\<rparr>, m') \<and>
    bytes_at m' P (db_size x) = bytes_at m (db_addr x) (db_size x) \<and>
    (\<forall>q. \<not> in_range q CB Size \<longrightarrow> \<not> in_range q P (db_size x) \<longrightarrow> m' q = m q)"
  using assms(2) by (intro smi.transfer [OF assms(1) _ assms(3-11)]) simp

end
