(* ===== verification/Smm_Screen.thy ===== *)
theory Smm_Screen
  imports Smm_Report Smm_Transfer
begin

text \<open>
  The module, the channel and the application together.
\<close>

section \<open>From the SMM core to the screen\<close>

text \<open>
  C3: From the SMM core to the screen.  The module builds its database of what the SMM core's lists
  hold; later, with the database in SMRAM unchanged, the application fetches it through a
  communication region of any size from a page up and prints exactly: every image; every handle with
  its protocols; every protocol with its interfaces and notifications; every SMI entry with its
  handlers and the root handlers, in the order of the lists, each address with the name of the image
  it lies in.
\<close>

theorem SmmCore_to_screen:
  assumes core: "smm_core_is (around D (total_length its) m0) A E sd g its" "\<forall>it\<in>set its. item_ok it"
    and build: "SmmChildGetDataSize A = SmmChildGetDataSize_Null" "AllocDatabase A (total_length its) = D" "D \<noteq> NULL"
      "total_length its < 2 ^ 64"
    and module: "BuildSmmCoreDatabase A E sd g (S, m0) = Some (cs_db x, m1)" and later: "same_database (cs_db x) m1 m"
    and channel: "channel_ok x CB Size" "C = cs_env x" "LocateSmmCommunication C = EFI_SUCCESS"
      "RegionTable C = (EFI_SUCCESS, rs)" "region_loop rs 0 = Some (r, W)" "CB = unat (rg_PhysicalStart r)" "Size = unat W"
    and pool: "AllocDump C (of_nat (total_length its)) = P" "P \<noteq> NULL" "apart CB Size P (total_length its)"
      "apart P (total_length its) D (total_length its)"
    and app: "sc_images_count s = 0" "AllocApp (length (names_of its))"
    and guids: "InitGuid G F (sc_guids s, ops) = Some (gs, ops')" "table_wf gs"
  shows "\<exists>s' m'. SmmCoreDumpAppEntrypoint C AllocApp G F DumpSmmChildHandler_Null (s, ops, m) =
      Some (EFI_SUCCESS, s', ops', m') \<and>
    sa_out (sc_app s') = sa_out (sc_app s) @ smm_report
      (\<lambda>g. case map_of (name_table gs) g of Some n \<Rightarrow> n | None \<Rightarrow> GuidText G g) its"
proof -
  let ?n = "total_length its"
  let ?name = "\<lambda>g. case map_of (name_table gs) g of Some n \<Rightarrow> n | None \<Rightarrow> GuidText G g"
  from BuildSmmCoreDatabase_lays_out_aux [OF build(1-3) core, of S] module
  have S: "cs_db x = S\<lparr>mSmmCoreDatabaseSize := of_nat ?n, mSmmCoreDatabase := D\<rparr>" and m1: "m1 = paint m0 D (pattern_of its)"
    by auto
  have db: "db_addr x = D" "db_size x = ?n"
    using build(4) by (simp_all add: db_addr_def db_size_def S unat_of_nat_small)
  have len: "length (pattern_of its) = ?n" by (rule length_pattern [OF core(2)])
  have "bytes_at m D ?n = bytes_at m1 D ?n"
    using later build(4) by (auto simp: same_database_def S in_range_def bytes_at_def unat_of_nat_small)
  then have m: "shown m D (pattern_of its)"
    using shown_copy [OF shown_paint [of m0 D "pattern_of its"], of m D] len by (simp add: m1)
  from smi.transfer [OF channel(1) _ channel(3-7), of P "sc_app s" m] pool channel(2)
  obtain m' where fetched: "GetSmmCoreDatabase C (sc_app s, m) =
      Some ((sc_app s)\<lparr>app_DatabaseSize := of_nat ?n, app_Database := P\<rparr>, m')"
    and "bytes_at m' P ?n = bytes_at m D ?n"
    by (auto simp: db)
  with m len have m': "shown m' P (pattern_of its)" by (auto intro: shown_copy)
  let ?a = "(sc_app s)\<lparr>app_DatabaseSize := of_nat ?n, app_Database := P\<rparr>"
  let ?s = "tell [Print ''# IMAGE DATABASE #'' []] (s\<lparr>sc_app := ?a, sc_guids := gs\<rparr>)"
  have at: "at_database m' its ?s"
    using m' core(2) build(4) by (simp add: at_database_def)
  have names: "GuidToName G (sc_guids ?s) g = Some (?name g)" for g
    using GuidToName_table [OF guids(2)] by simp
  from DumpSmmLoadedImage_prints [where name = ?name and G = G and AllocApp = AllocApp, OF at app(2) _ names] app(1)
  obtain s1 where s1: "DumpSmmLoadedImage AllocApp m' ?s = Some s1" "knows G ?name (names_of its) s1" "at_database m' its s1"
    "sc_app s1 = smm_say (concat (map smm_image_lines its)) (sc_app ?s)"
    by auto
  have out: "sa_out (sc_app s1) = sa_out (sc_app s) @ Print ''# IMAGE DATABASE #'' [] # concat (map smm_image_lines its)"
    using s1(4) by (simp add: smm_say_def tell_def)
  note prints = DumpHandleDatabase_prints DumpProtocolDatabase_prints DumpSmiHandler_prints DumpRootSmiHandler_prints
  show ?thesis
    using fetched pool(2) guids(1) s1(1-3) out
    by (simp add: SmmCoreDumpAppEntrypoint_def prints [where names = "names_of its" and name = ?name] DeinitGuid_def
        DumpSmmChildHandler_Null_def smm_report_def Let_def flip: names_of_def)
qed

end
