(* ===== verification/Smm_Witness.thy ===== *)
theory Smm_Witness
  imports Smm_Transfer
begin

text \<open>The properties of the SMM dump on concrete machines.\<close>

section \<open>A handle database\<close>

lemma rd64_wr64 [simp]:
  "rd64 (wr64 p v m) p = v"
  "q + 8 \<le> p \<or> p + 8 \<le> q \<Longrightarrow> rd64 (wr64 p v m) q = rd64 m q"
proof -
  show "rd64 (wr64 p v m) p = v" by (rule rd64_w64) (simp add: wr64_def store_at_same)
  assume "q + 8 \<le> p \<or> p + 8 \<le> q"
  then show "rd64 (wr64 p v m) q = rd64 m q"
    by (auto simp: wr64_def rd64_def rd_def intro!: arg_cong [where f = "\<lambda>x. of_nat (le_nat x)"] bytes_store_other)
      (simp_all add: apart_def)
qed

text \<open>
  Two handles and one protocol: the first handle, at 256, has the interface at 768; the second, at
  512, is the module's own and has none any more.
\<close>

definition sample_smm :: mem where
  "sample_smm =
     wr64 128 264 (wr64 256 EFI_HANDLE_SIGNATURE (wr64 264 520 (wr64 280 776
     (wr64 512 EFI_HANDLE_SIGNATURE (wr64 520 128 (wr64 536 536
     (wr64 768 PROTOCOL_INTERFACE_SIGNATURE (wr64 776 280 (wr64 816 1024
     (wr64 1024 PROTOCOL_ENTRY_SIGNATURE (wr64 1032 1280 (wr64 1280 1032 (\<lambda>_. 0)))))))))))))"

definition sample_smm_interfaces :: "addr \<Rightarrow> addr list" where
  "sample_smm_interfaces h = (if h = 256 then [768] else [])"

lemma rd64_zeros [simp]: "rd64 (\<lambda>_. 0) p = 0"
  by (simp add: rd64_def rd_def bytes_at_def upt_rec)

lemmas smm_signatures = EFI_HANDLE_SIGNATURE_def PROTOCOL_ENTRY_SIGNATURE_def PROTOCOL_INTERFACE_SIGNATURE_def
  SIGNATURE_32_def

lemma sample_smm_ok:
  "handles_ok sample_smm 128 [256, 512] [1024] sample_smm_interfaces"
  "ring_of sample_smm o_AllEntries PROTOCOL_ENTRY_SIGNATURE 1280 [1024]"
proof -
  have sig: "EFI_HANDLE_SIGNATURE \<noteq> 0" "PROTOCOL_ENTRY_SIGNATURE \<noteq> 0"
    by (simp_all add: smm_signatures)
  show "handles_ok sample_smm 128 [256, 512] [1024] sample_smm_interfaces"
    using sig by (simp add: handles_ok_def interfaces_ok_def ring_of_def ring_def ptr_def sample_smm_def
        sample_smm_interfaces_def)
  show "ring_of sample_smm o_AllEntries PROTOCOL_ENTRY_SIGNATURE 1280 [1024]"
    using sig by (simp add: ring_of_def ring_def ptr_def sample_smm_def)
qed

definition no_heads :: smm_heads where
  "no_heads = \<lparr>mSmmCoreHandleList = NULL, mSmmCoreProtocolDatabase = NULL, mSmmCoreRootSmiHandlerList = NULL,
     mSmmCoreSmiEntryList = NULL\<rparr>"

lemma GetSmmCore_heads_witness:
  "GetSmmCoreHandleList sample_smm 512 no_heads = Some (no_heads\<lparr>mSmmCoreHandleList := 128\<rparr>) \<and>
   GetSmmCoreProtocolDatabase sample_smm 512 no_heads = Some (no_heads\<lparr>mSmmCoreProtocolDatabase := 1280\<rparr>)"
  by (rule GetSmmCore_heads [OF sample_smm_ok]) (simp_all add: sample_smm_interfaces_def)

section \<open>A channel\<close>

text \<open>SMRAM starts at 1 MB; the database has 20000 bytes there and the region for messages one page.\<close>

definition sample_smram :: "addr set" where
  "sample_smram = {a. 0x100000 \<le> a}"

definition sample_valid :: "u64 \<Rightarrow> u64 \<Rightarrow> bool" where
  "sample_valid p n \<longleftrightarrow> unat p + unat n \<le> 0x100000"

definition sample_db :: smm_db where
  "sample_db = \<lparr>mSmmCoreDatabase = 0x200000, mSmmCoreDatabaseSize = 20000, mSmmCoreDumpRecordingStatus = False\<rparr>"

definition sample_comm :: comm_env where
  "sample_comm = \<lparr>LocateSmmCommunication = EFI_SUCCESS,
     RegionTable = (EFI_SUCCESS, [\<lparr>rg_Conventional = False, rg_NumberOfPages = 8, rg_PhysicalStart = 0x8000\<rparr>,
       \<lparr>rg_Conventional = True, rg_NumberOfPages = 1, rg_PhysicalStart = 0x10000\<rparr>]),
     AllocDump = (\<lambda>_. 0x50000),
     Communicate = (\<lambda>m CB n.
       if holds m CB mSmmCoreDumpGuid \<and> holds m (CB + 16) (enc 8 (n - 24))
       then (EFI_SUCCESS, n, after_smi sample_valid (CB + 24) (Some (n - 24)) sample_db m)
       else (EFI_NOT_FOUND, n, m))\<rparr>"

definition sample_setting :: comm_setting where
  "sample_setting = \<lparr>cs_env = sample_comm, cs_valid = sample_valid, cs_db = sample_db\<rparr>"

lemma sample_valid_outside: "outside_smram sample_smram sample_valid"
  by (auto simp: outside_smram_def sample_valid_def sample_smram_def in_range_def)

lemma sample_channel_ok: "channel_ok sample_setting 0x10000 4096"
proof -
  have "unat (of_nat p :: u64) + unat (of_nat n :: u64) \<le> 0x100000" if "0x10000 \<le> p" "p + n \<le> 0x10000 + 4096" for p n
    using that by (simp add: unat_of_nat_small)
  then show ?thesis
    by (simp add: channel_ok_def sample_setting_def db_addr_def db_size_def sample_db_def sample_valid_def
        apart_def dispatches_def sample_comm_def)
qed

lemma SmmCoreDumpHandler_confined_witness:
  "fst (snd (SmmCoreDumpHandler sample_valid 0x10018 (Some 40) (sample_db, \<lambda>_. 2))) = sample_db \<and>
   same_inside sample_smram (after_smi sample_valid 0x10018 (Some 40) sample_db (\<lambda>_. 2)) (\<lambda>_. 2)"
  by (rule SmmCoreDumpHandler_confined [OF sample_valid_outside]) simp_all

lemma SmmCoreDumpHandler_no_leak_witness:
  "same_outside sample_smram (after_smi sample_valid 0x10018 (Some 40) sample_db (\<lambda>_. 2))
     (after_smi sample_valid 0x10018 (Some 40) sample_db (\<lambda>a. if a < 0x300000 then 2 else 7))"
  by (rule SmmCoreDumpHandler_no_leak [OF sample_valid_outside])
    (simp_all add: database_in_def same_outside_def same_database_def sample_db_def sample_smram_def in_range_def)

lemma GetSmmCoreDatabase_transfers_witness:
  "\<exists>m'. GetSmmCoreDatabase sample_comm (\<lparr>app_Database = NULL, app_DatabaseSize = 0, sa_out = []\<rparr>, \<lambda>_. 90) =
     Some (\<lparr>app_Database = 0x50000, app_DatabaseSize = 20000, sa_out = []\<rparr>, m') \<and>
     bytes_at m' 0x50000 20000 = bytes_at (\<lambda>_. 90) 0x200000 20000"
  using GetSmmCoreDatabase_transfers [OF sample_channel_ok, where C = sample_comm and W = "4096" and P = "0x50000"
      and a = "\<lparr>app_Database = NULL, app_DatabaseSize = 0, sa_out = []\<rparr>" and m = "\<lambda>_. 90"
      and rs = "snd (RegionTable sample_comm)" and r = "snd (RegionTable sample_comm) ! 1"]
  by (force simp: sample_setting_def sample_comm_def sample_db_def db_size_def db_addr_def apart_def)

end
