(* ===== verification/Smm_Images_Props.thy ===== *)
theory Smm_Images_Props
  imports Smm_Database
begin

text \<open>
  The list of images: what a reference to an image means, and what becomes of the list when it is
  filled twice.
\<close>

section \<open>References\<close>

lemma ref_loop_found:
  assumes "i < length xs" "in_image a (xs ! i)" "\<forall>j<i. \<not> in_image a (xs ! j)"
  shows "ref_loop xs a k = k + of_nat i"
  using assms
proof (induction xs arbitrary: i k)
  case Nil
  then show ?case by simp
next
  case (Cons x xs)
  show ?case
  proof (cases i)
    case 0
    with Cons.prems show ?thesis by simp
  next
    case (Suc j)
    with Cons.prems(3) have "\<not> in_image a x" "\<forall>l<j. \<not> in_image a (xs ! l)" by (auto simp: All_less_Suc2)
    with Cons.IH [of j "k + 1"] Cons.prems(1,2) Suc show ?thesis by (simp add: add.assoc)
  qed
qed

lemma ref_loop_missing: "\<forall>x\<in>set xs. \<not> in_image a x \<Longrightarrow> ref_loop xs a k = - 1"
  by (induction xs arbitrary: k) auto

text \<open>A reference is the index of the first image around the address, or all ones.\<close>

lemma AddressToImageRef_smm_first:
  "i < length (smm_images s) \<Longrightarrow> in_image a (smm_images s ! i) \<Longrightarrow> \<forall>j<i. \<not> in_image a (smm_images s ! j) \<Longrightarrow>
   AddressToImageRef_smm s a = of_nat i"
  "\<forall>x\<in>set (smm_images s). \<not> in_image a x \<Longrightarrow> AddressToImageRef_smm s a = - 1"
  by (simp_all add: AddressToImageRef_smm_def ref_loop_found ref_loop_missing)

section \<open>The second list\<close>

lemma image_loop_inv:
  assumes "I s" and "\<And>h s. I s \<Longrightarrow> \<exists>s'. body h s = Some s' \<and> I s'"
  shows "\<exists>s'. image_loop body hs s = Some s' \<and> I s'"
  using assms(1)
proof (induction hs arbitrary: s)
  case Nil
  then show ?case by simp
next
  case (Cons h hs)
  from assms(2) [OF Cons.prems] obtain s1 where "body h s = Some s1" "I s1" by blast
  with Cons.IH [of s1] show ?case by simp
qed

lemma GetDriverNameString_smm_keeps:
  "GetDriverNameString_smm E img s = (n, g, s') \<Longrightarrow>
   mImageStruct s' = mImageStruct s \<and> mImageStructCount s' = mImageStructCount s \<and> mImageStructCountMax s' = mImageStructCountMax s"
  by (auto simp: GetDriverNameString_smm_def Let_def split: option.splits file_path.splits prod.splits)

text \<open>
  The boot services' images are collected into a new array, but the count of the first list is
  not reset.  When the SMM handle database had at least as many images as there are boot services
  images, none of these is entered; and when it had more, building the database runs past the end
  of the new array.
\<close>

theorem GetLoadedImage_stale_count:
  assumes "LocateHandleBuffer E = (EFI_SUCCESS, hs)" "AllocImageStructs E (length hs)"
    and "length hs \<le> mImageStructCount s"
  shows "\<exists>s'. GetLoadedImage E s = Some s' \<and> mImageStruct s' = Some (replicate (length hs) zero_image) \<and>
    mImageStructCount s' = mImageStructCount s \<and>
    (length hs < mImageStructCount s \<longrightarrow> BuildSmmCoreDatabase A E s' g (S, m) = None \<or> AllocDatabase A
       (fst (the (GetSmmCoreDatabaseSize A s' m g))) = NULL)"
proof -
  let ?I = "\<lambda>s'. mImageStruct s' = Some (replicate (length hs) zero_image) \<and> mImageStructCount s' = mImageStructCount s \<and>
    mImageStructCountMax s' = length hs"
  have step: "\<exists>s2. dxe_image_body E h s1 = Some s2 \<and> ?I s2" if "?I s1" for h s1
  proof -
    obtain Status img where h: "h = (Status, img)" by (cases h)
    obtain n g' s2 where d: "GetDriverNameString_smm E img s1 = (n, g', s2)" by (cases "GetDriverNameString_smm E img s1")
    with GetDriverNameString_smm_keeps [OF d] that have "?I s2" by simp
    with assms(3) show ?thesis
      using that by (auto simp: dxe_image_body_def h d AddImageStruct_smm_def)
  qed
  have "?I (new_images E (length hs) s)" using assms(2) by (simp add: new_images_def)
  from image_loop_inv [where I = ?I and body = "dxe_image_body E", OF this step]
  obtain s' where s': "image_loop (dxe_image_body E) hs (new_images E (length hs) s) = Some s'" "?I s'" by blast
  then have "GetLoadedImage E s = Some s'"
    using assms(1,2) by (simp add: GetLoadedImage_def new_images_def)
  moreover have "BuildSmmCoreDatabase A E s' g (S, m) = None \<or> AllocDatabase A
       (fst (the (GetSmmCoreDatabaseSize A s' m g))) = NULL" if "length hs < mImageStructCount s"
  proof (cases "GetSmmCoreDatabaseSize A s' m g")
    case None
    then show ?thesis by (simp add: BuildSmmCoreDatabase_def)
  next
    case (Some nz)
    obtain n z where nz: "nz = (n, z)" by (cases nz)
    with Some have "mSmmImageDatabaseSize z = sizeof_IMAGE * mImageStructCount s'"
      by (auto simp: GetSmmCoreDatabaseSize_def GetSmmImageDatabaseSize_def Let_def bind_eq_Some_conv)
    moreover have "length (smm_images s') \<noteq> mImageStructCount s'"
      using s'(2) that by (simp add: smm_images_def)
    ultimately have "GetSmmCoreDatabaseData A E s' g z D m = None" for D
      by (simp add: GetSmmCoreDatabaseData_def then_group_def GetSmmImageDatabaseData_def)
    with Some nz show ?thesis by (simp add: BuildSmmCoreDatabase_def Let_def)
  qed
  ultimately show ?thesis using s'(2) by blast
qed

end
