(* ===== verification/Smm_Screen_Witness.thy ===== *)
theory Smm_Screen_Witness
  imports Smm_Screen Smm_Witness Smm_Images_Props Pei_Witness
begin

text \<open>
  An SMM core with two handles, one protocol, one SMI entry and one root handler, from the module's
  start to the screen.
\<close>

section \<open>The SMM core\<close>

text \<open>
  The lists of \<open>sample_smm\<close>, the interface at 768 in the ring of its protocol, an SMI entry at 3072 with
  the handler at 3200, and the root handler at 2048.
\<close>

definition sample_lists :: mem where
  "sample_lists =
     wr64 824 0x5010 (wr64 1064 800 (wr64 800 1064 (wr64 1080 1080
     (wr64 1536 3080 (wr64 3072 SMI_ENTRY_SIGNATURE (wr64 3080 1536 (wr64 3112 3208
     (wr64 3200 SMI_HANDLER_SIGNATURE (wr64 3208 3112 (wr64 3224 0x5030 (wr64 3240 3072
     (wr64 1600 2056 (wr64 2048 SMI_HANDLER_SIGNATURE (wr64 2056 1600 (wr64 2072 0x5020 sample_smm)))))))))))))))"

lemma sample_lists_low: "m \<in> around 0x200000 N sample_lists \<Longrightarrow> p + 8 \<le> 0x200000 \<Longrightarrow> rd64 m p = rd64 sample_lists p"
  by (auto simp: around_def rd64_def rd_def apart_def dest!: same_but_bytes [of _ _ _ _ p 8])

lemma sample_lists_low16: "m \<in> around 0x200000 N sample_lists \<Longrightarrow> p + 16 \<le> 0x200000 \<Longrightarrow> bytes_at m p 16 = bytes_at sample_lists p 16"
  by (auto simp: around_def apart_def intro!: same_but_bytes [of "0x200000" N])

definition smm_driver :: loaded_image where
  "smm_driver = \<lparr>li_FilePath = FV_FILE SMM_CORE_GUID, li_ImageBase = 0x5000, li_ImageSize = 0x1000, li_ImageEntryPoint = None\<rparr>"

definition sample_images :: smm_image_env where
  "sample_images = \<lparr>SmmLocateHandle_size = EFI_BUFFER_TOO_SMALL, SmmLocateHandle = (EFI_SUCCESS, [(EFI_SUCCESS, smm_driver)]),
     LocateHandleBuffer = (EFI_NOT_FOUND, []), AllocHandles = True, AllocImageStructs = (\<lambda>_. True),
     GetPdbPointer = (\<lambda>_. None), GetSectionFromAnyFv = (\<lambda>_. (EFI_SUCCESS, [83, 77, 77])), GuidText16_smm = (\<lambda>_. []),
     SmramRanges = [], EntryPoint_junk = 0, mProtocolFuncStruct = [], DOS_SIGNATURE = 0x5A4D, TE_SIGNATURE = 0x5A56,
     NT_SIGNATURE = 0x4550, o_lfanew = 60, o_Te_StrippedSize = 6, o_Te_AddressOfEntryPoint = 8, sizeof_TE_HEADER = 40,
     o_Nt_AddressOfEntryPoint = 40\<rparr>"

definition empty_dump :: smm_dump where
  "empty_dump = \<lparr>mNameString = [], mImageStruct = None, mImageStructCountMax = 0, mImageStructCount = 0, mSmmCoreLoadedImage = False\<rparr>"

definition driver_image :: image_struct where
  "driver_image = \<lparr>is_FileGuid = SMM_CORE_GUID, is_EntryPoint = 0, is_ImageBase = 0x5000, is_ImageSize = 0x1000,
     is_LoadedImageBase = 0x5000, is_NameString = [83, 77, 77]\<rparr>"

definition sample_dump :: smm_dump where
  "sample_dump = \<lparr>mNameString = [83, 77, 77], mImageStruct = Some [driver_image], mImageStructCountMax = 1,
     mImageStructCount = 1, mSmmCoreLoadedImage = True\<rparr>"

lemma sample_images_found: "GetSmmLoadedImage sample_images m empty_dump = Some sample_dump"
  by (simp add: GetSmmLoadedImage_def sample_images_def new_images_def empty_dump_def smm_image_body_def smm_driver_def
      GetDriverNameString_smm_def entry_and_base_def AddImageStruct_smm_def copy_name_def sample_dump_def driver_image_def
      zero_image_def Let_def)

definition sample_build :: smm_build where
  "sample_build = \<lparr>gEfiCallerIdGuid = replicate 16 1, AllocDatabase = (\<lambda>_. 0x200000), SmmChildGetDataSize = 0,
     SmmChildGetData = SmmChildGetData_Null\<rparr>"

definition sample_heads :: smm_heads where
  "sample_heads = \<lparr>mSmmCoreHandleList = 128, mSmmCoreProtocolDatabase = 1280, mSmmCoreRootSmiHandlerList = 1600,
     mSmmCoreSmiEntryList = 1536\<rparr>"

abbreviation (input) no_guid :: guid where
  "no_guid \<equiv> replicate 16 0"

definition sample_items :: "db_item list" where
  "sample_items =
     [ImageItem driver_image, HandleItem 256 [(no_guid, 0x5010, 0)], HandleItem 512 [],
      ProtocolItem no_guid [(0x5010, 0)] [], SmiItem False no_guid [(3200, 0x5030, 0)], SmiItem True no_guid [(2048, 0x5020, 0)]]"

lemma sample_items_ok: "\<forall>it\<in>set sample_items. item_ok it" "total_length sample_items = 408"
  by (simp_all add: sample_items_def driver_image_def image_wf_def SMM_CORE_GUID_def total_length_def)

lemma sample_refs:
  "AddressToImageRef_smm sample_dump 0x5010 = 0" "AddressToImageRef_smm sample_dump 0x5020 = 0"
  "AddressToImageRef_smm sample_dump 0x5030 = 0"
  "AddressToImageRefEx_smm sample_images m sample_dump 0x5010 g = 0"
  by (simp_all add: AddressToImageRefEx_smm_def AddressToImageRef_smm_def smm_images_def sample_dump_def in_image_def
      driver_image_def)

lemma sample_words:
  assumes "m \<in> around 0x200000 N sample_lists"
  shows "ring m 128 [264, 520]" "ring m 280 [776]" "ring m 536 []" "ring m 1280 [1032]" "ring m 1064 [800]"
    "ring m 1080 []" "ring m 1536 [3080]" "ring m 3112 [3208]" "ring m 1600 [2056]"
    "rd64 m 824 = 0x5010" "ptr m 816 = 1024" "rd64 m 2072 = 0x5020" "rd64 m 3224 = 0x5030"
  by (simp_all add: ring_def ptr_def sample_lists_low [OF assms] sample_lists_def sample_smm_def)

lemma bytes16_wr64: "q + 16 \<le> p \<or> p + 8 \<le> q \<Longrightarrow> bytes_at (wr64 p v m) q 16 = bytes_at m q 16"
  unfolding wr64_def by (rule bytes_store_other) (auto simp: apart_def)

lemma sample_guids:
  assumes "m \<in> around 0x200000 N sample_lists"
  shows "bytes_at m 1048 16 = no_guid" "bytes_at m 3096 16 = no_guid"
proof -
  have "bytes_at (\<lambda>_. 0) p 16 = no_guid" for p by (simp add: bytes_at_def map_replicate_const)
  then show "bytes_at m 1048 16 = no_guid" "bytes_at m 3096 16 = no_guid"
    by (simp_all add: sample_lists_low16 [OF assms] sample_lists_def sample_smm_def bytes16_wr64)
qed

lemma list_of_single: "head \<noteq> NULL \<Longrightarrow> (\<And>m. m \<in> M \<Longrightarrow> ring m head es) \<Longrightarrow> list_all2 P es xs \<Longrightarrow> list_of M head P xs"
  by (auto simp: list_of_def)

lemma sample_core_is: "smm_core_is (around 0x200000 408 sample_lists) sample_build sample_images sample_dump sample_heads sample_items"
proof -
  let ?M = "around 0x200000 408 sample_lists"
  note w = sample_words [where N = 408] and g = sample_guids [where N = 408]
  have if1: "list_of ?M 280 (always ?M (interface_view sample_images sample_dump)) [(no_guid, 0x5010, 0)]"
    by (rule list_of_single [where es = "[776]"]) (simp_all add: w g always_def interface_view_def sample_refs)
  have if2: "list_of ?M 536 (always ?M (interface_view sample_images sample_dump)) []"
    by (rule list_of_single [where es = "[]"]) (simp_all add: w)
  have hs: "list_of ?M 128 (handle_item ?M sample_images sample_dump) [HandleItem 256 [(no_guid, 0x5010, 0)], HandleItem 512 []]"
    by (rule list_of_single [where es = "[264, 520]"]) (simp_all add: w handle_item_def if1 if2)
  have by1: "list_of ?M 1064 (always ?M (by_protocol_view sample_images sample_dump)) [(0x5010, 0)]"
    by (rule list_of_single [where es = "[800]"]) (simp_all add: w g always_def by_protocol_view_def sample_refs)
  have nt1: "list_of ?M 1080 (always ?M (notify_view sample_dump)) []"
    by (rule list_of_single [where es = "[]"]) (simp_all add: w)
  have "list_of ?M 1280 (protocol_item ?M sample_build sample_images sample_dump) [ProtocolItem no_guid [(0x5010, 0)] []]"
    by (rule list_of_single [where es = "[1032]"])
      (simp_all add: w g protocol_item_def by1 nt1 always_def protocol_id_def sample_build_def del: replicate.simps)
  then have ps: "list_upto ?M 1280 (own_entry ?M sample_build) (protocol_item ?M sample_build sample_images sample_dump)
      [ProtocolItem no_guid [(0x5010, 0)] []]"
    unfolding list_of_def list_upto_def by (metis append_Nil2)
  have hv1: "list_of ?M 3112 (always ?M (handler_view sample_dump)) [(3200, 0x5030, 0)]"
    by (rule list_of_single [where es = "[3208]"]) (simp_all add: w always_def handler_view_def sample_refs)
  have ss: "list_of ?M 1536 (smi_item ?M sample_dump) [SmiItem False no_guid [(3200, 0x5030, 0)]]"
    by (rule list_of_single [where es = "[3080]"]) (simp_all add: w g smi_item_def hv1 always_def handler_type_def)
  have rs: "list_of ?M 1600 (always ?M (handler_view sample_dump)) [(2048, 0x5020, 0)]"
    by (rule list_of_single [where es = "[2056]"]) (simp_all add: w always_def handler_view_def sample_refs)
  have "length (smm_images sample_dump) = mImageStructCount sample_dump" "smm_images sample_dump = [driver_image]"
    by (simp_all add: smm_images_def sample_dump_def)
  with hs ps ss rs show ?thesis
    unfolding smm_core_is_def
    by (intro exI [of _ "[HandleItem 256 [(no_guid, 0x5010, 0)], HandleItem 512 []]"]
        exI [of _ "[ProtocolItem no_guid [(0x5010, 0)] []]"] exI [of _ "[SmiItem False no_guid [(3200, 0x5030, 0)]]"]
        exI [of _ "[(2048, 0x5020, 0)]"])
      (simp add: sample_heads_def sample_items_def)
qed

section \<open>The module\<close>

definition sample_database :: smm_db where
  "sample_database = \<lparr>mSmmCoreDatabase = 0x200000, mSmmCoreDatabaseSize = 408, mSmmCoreDumpRecordingStatus = False\<rparr>"

definition no_database :: smm_db where
  "no_database = \<lparr>mSmmCoreDatabase = NULL, mSmmCoreDatabaseSize = 0, mSmmCoreDumpRecordingStatus = False\<rparr>"

lemma smm_alloc: "SmmChildGetDataSize sample_build = SmmChildGetDataSize_Null"
  "AllocDatabase sample_build n = 0x200000"
  by (simp_all add: sample_build_def SmmChildGetDataSize_Null_def)

lemma BuildSmmCoreDatabase_lays_out_witness:
  "BuildSmmCoreDatabase sample_build sample_images sample_dump sample_heads (no_database, sample_lists) =
    Some (sample_database, paint sample_lists 0x200000 (pattern_of sample_items))"
  using BuildSmmCoreDatabase_lays_out [OF smm_alloc _ _ sample_items_ok(1), of sample_lists sample_images sample_dump
      sample_heads no_database] sample_core_is
  by (simp add: sample_items_ok(2) no_database_def sample_database_def)

definition sample_services :: smm_services where
  "sample_services = \<lparr>SmmInstallProtocolInterface = (\<lambda>g m. (EFI_SUCCESS, 512, m)),
     SmmUninstallProtocolInterface = (\<lambda>h g m. (EFI_SUCCESS, m)),
     SmiHandlerRegister = (\<lambda>f g m. (EFI_SUCCESS, if g = None then 2048 else 3200, m)),
     SmiHandlerUnRegister = (\<lambda>h m. m)\<rparr>"

definition sample_module :: smm_module where
  "sample_module = \<lparr>sm_dump = empty_dump, sm_heads = no_heads, sm_db = no_database\<rparr>"

lemma sample_rings:
  "handles_ok sample_lists 128 [256, 512] [1024] sample_smm_interfaces"
  "ring_of sample_lists o_AllEntries PROTOCOL_ENTRY_SIGNATURE 1280 [1024]"
  "ring_of sample_lists o_Smi_AllEntries SMI_ENTRY_SIGNATURE 1536 [3072]"
  "ring_of sample_lists o_Handler_Link SMI_HANDLER_SIGNATURE 1600 [2048]"
  "ptr sample_lists (3200 + o_SmiEntry) = 3072"
proof -
  have sig: "EFI_HANDLE_SIGNATURE \<noteq> 0" "PROTOCOL_ENTRY_SIGNATURE \<noteq> 0" "SMI_ENTRY_SIGNATURE \<noteq> 0" "SMI_HANDLER_SIGNATURE \<noteq> 0"
    by (simp_all add: smm_signatures SMI_ENTRY_SIGNATURE_def SMI_HANDLER_SIGNATURE_def)
  show "handles_ok sample_lists 128 [256, 512] [1024] sample_smm_interfaces"
    using sig by (simp add: handles_ok_def interfaces_ok_def ring_of_def ring_def ptr_def sample_lists_def sample_smm_def
        sample_smm_interfaces_def)
  show "ring_of sample_lists o_AllEntries PROTOCOL_ENTRY_SIGNATURE 1280 [1024]"
    "ring_of sample_lists o_Smi_AllEntries SMI_ENTRY_SIGNATURE 1536 [3072]"
    "ring_of sample_lists o_Handler_Link SMI_HANDLER_SIGNATURE 1600 [2048]"
    "ptr sample_lists (3200 + o_SmiEntry) = 3072"
    using sig by (simp_all add: ring_of_def ring_def ptr_def sample_lists_def sample_smm_def)
qed

lemma SmmCoreDump_builds_witness:
  "\<exists>t'. SmmCoreDump sample_services sample_build sample_images (sample_module, sample_lists) =
      Some (EFI_SUCCESS, t', paint sample_lists 0x200000 (pattern_of sample_items)) \<and>
    mSmmCoreDatabase (sm_db t') = 0x200000 \<and> mSmmCoreDatabaseSize (sm_db t') = of_nat (total_length sample_items)"
proof (rule SmmCoreDump_builds [where own = 512 and p = 3200 and q = 2048 and s = sample_dump])
  show "smm_core_is (around 0x200000 (total_length sample_items) (SmiHandlerUnRegister sample_services 2048 sample_lists))
      sample_build sample_images sample_dump
      \<lparr>mSmmCoreHandleList = 128, mSmmCoreProtocolDatabase = 1280, mSmmCoreRootSmiHandlerList = 1600,
       mSmmCoreSmiEntryList = 1536\<rparr> sample_items"
    using sample_core_is by (simp add: sample_heads_def sample_services_def sample_items_ok(2))
  show "handles_ok sample_lists 128 [256, 512] [1024] sample_smm_interfaces" by (rule sample_rings(1))
  show "ring_of sample_lists o_AllEntries PROTOCOL_ENTRY_SIGNATURE 1280 [1024]" by (rule sample_rings(2))
  show "ring_of sample_lists o_Smi_AllEntries SMI_ENTRY_SIGNATURE 1536 [3072]" by (rule sample_rings(3))
  show "ring_of sample_lists o_Handler_Link SMI_HANDLER_SIGNATURE 1600 [2048]" by (rule sample_rings(4))
qed (simp_all add: sample_services_def sample_module_def sample_images_found sample_dump_def sample_smm_interfaces_def
    smm_alloc sample_items_ok sample_rings(5) [simplified])

text \<open>The SMM core out of memory for handlers.\<close>

definition full_services :: smm_services where
  "full_services = sample_services\<lparr>SmiHandlerRegister := (\<lambda>f g m. (EFI_OUT_OF_RESOURCES, 0, m))\<rparr>"

lemma SmmCoreDump_null_list_witness:
  "SmmCoreDump full_services sample_build sample_images (sample_module, sample_lists) = None"
proof (rule SmmCoreDump_null_list [where own = 512 and s = sample_dump and Status = EFI_OUT_OF_RESOURCES])
  note heads = GetSmmCore_heads_found [OF sample_rings(1,2), of 512]
  show "GetSmmCoreHandleList sample_lists 512 (sm_heads sample_module) = Some (no_heads\<lparr>mSmmCoreHandleList := 128\<rparr>)"
    using heads(1) by (simp add: sample_smm_interfaces_def sample_module_def)
  show "GetSmmCoreProtocolDatabase sample_lists 512 (no_heads\<lparr>mSmmCoreHandleList := 128\<rparr>) =
      Some (no_heads\<lparr>mSmmCoreHandleList := 128, mSmmCoreProtocolDatabase := 1280\<rparr>)"
    using heads(2) by (simp add: sample_smm_interfaces_def)
qed (simp_all add: full_services_def sample_services_def sample_module_def sample_images_found sample_dump_def no_heads_def)

section \<open>The screen\<close>

definition screen_comm :: comm_env where
  "screen_comm = sample_comm\<lparr>Communicate := (\<lambda>m CB n.
       if holds m CB mSmmCoreDumpGuid \<and> holds m (CB + 16) (enc 8 (n - 24))
       then (EFI_SUCCESS, n, after_smi sample_valid (CB + 24) (Some (n - 24)) sample_database m)
       else (EFI_NOT_FOUND, n, m))\<rparr>"

definition screen_setting :: comm_setting where
  "screen_setting = \<lparr>cs_env = screen_comm, cs_valid = sample_valid, cs_db = sample_database\<rparr>"

definition blank_screen :: smm_screen where
  "blank_screen = \<lparr>sc_app = \<lparr>app_Database = NULL, app_DatabaseSize = 0, sa_out = []\<rparr>, sc_guids = sample_guid_state,
     sc_images = None, sc_images_max = 0, sc_images_count = 0\<rparr>"

lemma screen_channel_ok: "channel_ok screen_setting 0x10000 4096"
proof -
  have "unat (of_nat p :: u64) + unat (of_nat n :: u64) \<le> 0x100000" if "0x10000 \<le> p" "p + n \<le> 0x10000 + 4096" for p n
    using that by (simp add: unat_of_nat_small)
  then show ?thesis
    by (simp add: channel_ok_def screen_setting_def db_addr_def db_size_def sample_database_def sample_valid_def
        apart_def dispatches_def screen_comm_def)
qed

lemma SmmCore_to_screen_witness:
  "\<exists>s' ops' m'. SmmCoreDumpAppEntrypoint screen_comm (\<lambda>_. True) sample_guid_env (sample_fs (sample_xref [13, 10]))
      DumpSmmChildHandler_Null (blank_screen, [], paint sample_lists 0x200000 (pattern_of sample_items)) =
      Some (EFI_SUCCESS, s', ops', m') \<and>
    Print '' (%s)'' [Uni [83, 77, 77]] \<in> set (sa_out (sc_app s'))"
proof -
  obtain gs ops' where gs: "InitGuid sample_guid_env (sample_fs (sample_xref [13, 10])) (sc_guids blank_screen, []) = Some (gs, ops')"
    "table_wf gs"
    using InitGuid_run [OF sample_read, of "sample_xref [13, 10]" sample_guid_env sample_guid_state]
    by (auto simp: blank_screen_def)
  have core: "smm_core_is (around 0x200000 (total_length sample_items) sample_lists) sample_build sample_images sample_dump
      sample_heads sample_items"
    using sample_core_is by (simp add: sample_items_ok(2))
  have build: "BuildSmmCoreDatabase sample_build sample_images sample_dump sample_heads (no_database, sample_lists) =
      Some (cs_db screen_setting, paint sample_lists 0x200000 (pattern_of sample_items))"
    using BuildSmmCoreDatabase_lays_out_aux [OF smm_alloc _ core sample_items_ok(1)]
    by (simp add: sample_items_ok(2) no_database_def sample_database_def screen_setting_def)
  have line: "Print '' (%s)'' [Uni [83, 77, 77]] \<in> set (smm_report name sample_items)" for name
    by (simp add: smm_report_def sample_items_def ref_text_def driver_image_def UNKNOWN_NAME_def Let_def)
  let ?rs = "snd (RegionTable screen_comm)"
  have "\<exists>s' m'. SmmCoreDumpAppEntrypoint screen_comm (\<lambda>_. True) sample_guid_env (sample_fs (sample_xref [13, 10]))
      DumpSmmChildHandler_Null (blank_screen, [], paint sample_lists 0x200000 (pattern_of sample_items)) =
      Some (EFI_SUCCESS, s', ops', m') \<and>
    sa_out (sc_app s') = sa_out (sc_app blank_screen) @ smm_report
      (\<lambda>g. case map_of (name_table gs) g of Some n \<Rightarrow> n | None \<Rightarrow> GuidText sample_guid_env g) sample_items"
    by (rule SmmCore_to_screen [OF core sample_items_ok(1) smm_alloc _ _ build _ screen_channel_ok,
          where rs = ?rs and r = "?rs ! 1" and W = "4096" and P = "0x50000"])
      (use gs in \<open>simp_all add: same_database_def screen_setting_def screen_comm_def sample_comm_def sample_items_ok(2)
          apart_def blank_screen_def\<close>)
  with line show ?thesis by fastforce
qed

section \<open>The list of images, filled twice\<close>

definition boot_images :: smm_image_env where
  "boot_images = sample_images\<lparr>LocateHandleBuffer := (EFI_SUCCESS, [(EFI_SUCCESS, smm_driver)])\<rparr>"

definition two_images :: smm_dump where
  "two_images = sample_dump\<lparr>mImageStruct := Some [driver_image, driver_image], mImageStructCount := 2\<rparr>"

lemma GetLoadedImage_stale_count_witness:
  "\<exists>s'. GetLoadedImage boot_images two_images = Some s' \<and> mImageStruct s' = Some [zero_image] \<and> mImageStructCount s' = 2"
proof -
  have "LocateHandleBuffer boot_images = (EFI_SUCCESS, [(EFI_SUCCESS, smm_driver)])" "AllocImageStructs boot_images 1"
    "mImageStructCount two_images = 2"
    by (simp_all add: boot_images_def sample_images_def two_images_def)
  with GetLoadedImage_stale_count [of boot_images "[(EFI_SUCCESS, smm_driver)]" two_images sample_build sample_heads
      no_database sample_lists]
  show ?thesis by auto
qed

end
