(* ===== verification/Dxe_Lists.thy ===== *)
theory Dxe_Lists
  imports Smm_Lists
begin

text \<open>
  \<^verbatim>\<open>EdkiiCoreDatabaseDump/DxeCoreDump\<close>: the linked lists of the DXE core and the search for their
  heads.  The handle and protocol structures of \<^verbatim>\<open>DxeCore/Handle.h\<close> are laid out like those of the
  SMM core; \<^verbatim>\<open>DxeCore/Event.h\<close> adds the events, which are printed along the back links.
\<close>

section \<open>Structures\<close>

definition EVENT_SIGNATURE :: u64 where
  "EVENT_SIGNATURE = ucast (SIGNATURE_32 (CHR ''e'') (CHR ''v'') (CHR ''n'') (CHR ''t''))"

abbreviation (input) o_Type :: nat where "o_Type \<equiv> 8"
abbreviation (input) o_SignalLink :: nat where "o_SignalLink \<equiv> 16"
abbreviation (input) o_NotifyTpl :: nat where "o_NotifyTpl \<equiv> 32"
abbreviation (input) o_NotifyFunction :: nat where "o_NotifyFunction \<equiv> 40"
abbreviation (input) o_EventGroup :: nat where "o_EventGroup \<equiv> 56"
abbreviation (input) o_Event :: nat where "o_Event \<equiv> 32"

definition BackLink :: "mem \<Rightarrow> addr \<Rightarrow> addr" where
  "BackLink m e = ptr m (e + 8)"

section \<open>Loops\<close>

partial_function (option) back_nodes_from :: "mem \<Rightarrow> addr \<Rightarrow> addr \<Rightarrow> addr list option" where
  "back_nodes_from m head e =
     (if e = head then Some []
      else Option.bind (back_nodes_from m head (BackLink m e)) (\<lambda>es. Some (e # es)))"

definition back_nodes :: "mem \<Rightarrow> addr \<Rightarrow> addr list option" where
  "back_nodes m head = back_nodes_from m head (BackLink m head)"

text \<open>
  A loop that prints something for every node.  \<open>None\<close>: the head is a null pointer, the list does
  not come back to it, or the body fails.
\<close>

fun lines_of :: "('a \<Rightarrow> out list option) \<Rightarrow> 'a list \<Rightarrow> out list option" where
  "lines_of line [] = Some []"
| "lines_of line (x # xs) = Option.bind (line x) (\<lambda>os. map_option ((@) os) (lines_of line xs))"

definition print_nodes :: "(addr \<Rightarrow> addr list option) \<Rightarrow> addr \<Rightarrow> (addr \<Rightarrow> out list option) \<Rightarrow> out list option" where
  "print_nodes walked head line = (if head = NULL then None else Option.bind (walked head) (lines_of line))"

lemma lines_of_concat: "(\<And>x. x \<in> set xs \<Longrightarrow> line x = Some (f x)) \<Longrightarrow> lines_of line xs = Some (concat (map f xs))"
  by (induction xs) simp_all

lemma lines_of_map: "lines_of line (map f xs) = lines_of (\<lambda>x. line (f x)) xs"
  by (induction xs) simp_all

section \<open>The heads\<close>

record dxe_heads =
  mDxeCoreHandleList :: addr
  mDxeCoreProtocolDatabase :: addr
  mDxeCoreEventSignalQueue :: addr
  mDxeCoreEfiTimerList :: addr

definition GetDxeCoreHandleList :: "mem \<Rightarrow> addr \<Rightarrow> dxe_heads \<Rightarrow> dxe_heads option" where
  "GetDxeCoreHandleList m IHandle g =
     Option.bind (first_foreign m o_AllHandles EFI_HANDLE_SIGNATURE (IHandle + o_AllHandles)) (\<lambda>r.
       Some (case r of None \<Rightarrow> g | Some e \<Rightarrow> g\<lparr>mDxeCoreHandleList := e\<rparr>))"

definition GetDxeCoreProtocolDatabase :: "mem \<Rightarrow> addr \<Rightarrow> dxe_heads \<Rightarrow> dxe_heads option" where
  "GetDxeCoreProtocolDatabase m IHandle g =
     Option.bind (some_protocol_entry m IHandle) (\<lambda>IProtocolEntry.
       case IProtocolEntry of
         None \<Rightarrow> Some g
       | Some i \<Rightarrow>
           Option.bind (first_foreign m o_AllEntries PROTOCOL_ENTRY_SIGNATURE (i + o_AllEntries)) (\<lambda>r.
             Some (case r of None \<Rightarrow> g | Some e \<Rightarrow> g\<lparr>mDxeCoreProtocolDatabase := e\<rparr>)))"

definition GetDxeCoreEventSignalQueue :: "mem \<Rightarrow> addr \<Rightarrow> dxe_heads \<Rightarrow> dxe_heads option" where
  "GetDxeCoreEventSignalQueue m IEvent g =
     Option.bind (first_foreign m o_SignalLink EVENT_SIGNATURE (IEvent + o_SignalLink)) (\<lambda>r.
       Some (case r of None \<Rightarrow> g | Some e \<Rightarrow> g\<lparr>mDxeCoreEventSignalQueue := e\<rparr>))"

text \<open>\<open>o_Timer\<close>: the offset of \<open>Timer\<close>, behind a structure of the EDK II headers.\<close>

definition GetDxeCoreTimerList :: "nat \<Rightarrow> mem \<Rightarrow> addr \<Rightarrow> dxe_heads \<Rightarrow> dxe_heads option" where
  "GetDxeCoreTimerList o_Timer m IEvent g =
     Option.bind (first_foreign m o_Timer EVENT_SIGNATURE (IEvent + o_Timer)) (\<lambda>r.
       Some (case r of None \<Rightarrow> g | Some e \<Rightarrow> g\<lparr>mDxeCoreEfiTimerList := e\<rparr>))"

section \<open>Rings with back links\<close>

definition two_way :: "mem \<Rightarrow> addr \<Rightarrow> addr list \<Rightarrow> bool" where
  "two_way m head es \<longleftrightarrow> ring m head es \<and> (\<forall>e\<in>set (head # es). BackLink m (ForwardLink m e) = e)"

fun back_linked :: "mem \<Rightarrow> addr \<Rightarrow> addr list \<Rightarrow> addr \<Rightarrow> bool" where
  "back_linked m e [] t \<longleftrightarrow> e = t"
| "back_linked m e (x # xs) t \<longleftrightarrow> e = x \<and> back_linked m (BackLink m x) xs t"

lemma back_linked_append [simp]:
  "back_linked m e (xs @ ys) t \<longleftrightarrow> (\<exists>u. back_linked m e xs u \<and> back_linked m u ys t)"
  by (induction xs arbitrary: e) auto

lemma back_linked_rev:
  "linked m (ForwardLink m p) es t \<Longrightarrow> \<forall>e\<in>set (p # es). BackLink m (ForwardLink m e) = e \<Longrightarrow>
   back_linked m (BackLink m t) (rev es) p"
proof (induction es arbitrary: p)
  case Nil
  then show ?case by auto
next
  case (Cons x es)
  then have "back_linked m (BackLink m t) (rev es) x" and "BackLink m x = p" by auto
  then show ?case by auto
qed

lemma back_nodes_from_linked:
  "back_linked m e es head \<Longrightarrow> head \<notin> set es \<Longrightarrow> back_nodes_from m head e = Some es"
  by (induction es arbitrary: e) (subst back_nodes_from.simps, simp, subst back_nodes_from.simps, auto)

lemma back_nodes_ring: "two_way m head es \<Longrightarrow> back_nodes m head = Some (rev es)"
  using back_nodes_from_linked [of m "BackLink m head" "rev es" head] back_linked_rev [of m head es head]
  by (simp add: two_way_def ring_def back_nodes_def)

section \<open>The heads are found\<close>

lemma GetDxeCore_heads_found:
  assumes "handles_ok m gHandleList hs entries ifs"
    and "ring_of m o_AllEntries PROTOCOL_ENTRY_SIGNATURE mProtocolDatabase entries"
    and "own \<in> set hs" and "\<exists>h\<in>set hs. h \<noteq> own \<and> ifs h \<noteq> []"
  shows "GetDxeCoreHandleList m own g = Some (g\<lparr>mDxeCoreHandleList := gHandleList\<rparr>)"
    and "GetDxeCoreProtocolDatabase m own g = Some (g\<lparr>mDxeCoreProtocolDatabase := mProtocolDatabase\<rparr>)"
proof -
  from assms(1) have "ring_of m o_AllHandles EFI_HANDLE_SIGNATURE gHandleList hs" by (simp add: handles_ok_def)
  from ring_of_head [OF this assms(3)]
  show "GetDxeCoreHandleList m own g = Some (g\<lparr>mDxeCoreHandleList := gHandleList\<rparr>)"
    by (simp add: GetDxeCoreHandleList_def)
  from some_protocol_entry_found [OF assms(1,3,4)] ring_of_head [OF assms(2)]
  show "GetDxeCoreProtocolDatabase m own g = Some (g\<lparr>mDxeCoreProtocolDatabase := mProtocolDatabase\<rparr>)"
    by (auto simp: GetDxeCoreProtocolDatabase_def)
qed

lemma GetDxeCoreEventSignalQueue_found:
  assumes "ring_of m o_SignalLink EVENT_SIGNATURE q es" "e \<in> set es"
  shows "GetDxeCoreEventSignalQueue m e g = Some (g\<lparr>mDxeCoreEventSignalQueue := q\<rparr>)"
  using ring_of_head [OF assms] by (simp add: GetDxeCoreEventSignalQueue_def)

lemma GetDxeCoreTimerList_found:
  assumes "ring_of m o_Timer EVENT_SIGNATURE q es" "e \<in> set es"
  shows "GetDxeCoreTimerList o_Timer m e g = Some (g\<lparr>mDxeCoreEfiTimerList := q\<rparr>)"
  using ring_of_head [OF assms] by (simp add: GetDxeCoreTimerList_def)

end
