(* ===== verification/Dxe_Dump.thy ===== *)
theory Dxe_Dump
  imports Dxe_Lists Smm_App
begin

text \<open>
  \<^verbatim>\<open>EdkiiCoreDatabaseDump/DxeCoreDump/DxeCoreDump.c\<close>: the shell application that lists the images,
  handles, protocols and events of the DXE core.  It runs in the same address space as the core, so
  it prints straight from the core's lists.
\<close>

section \<open>The surroundings\<close>

text \<open>
  \<open>LoadedImages\<close>: the status of \<open>LocateHandleBuffer\<close>, and for each handle what \<open>HandleProtocol\<close>
  answers and the text of the image's path.  A text that cannot be made is a null pointer.
\<close>

record dxe_env = smm_image_env +
  LoadedImages :: "efi_status \<times> (efi_status \<times> loaded_image \<times> char16 list option) list"
  AllocDxeImages :: "nat \<Rightarrow> bool"
  DevicePathText :: "mem \<Rightarrow> u64 \<Rightarrow> char16 list option"
  guid_named :: "string \<Rightarrow> guid"
  field_offset :: "string \<Rightarrow> string \<Rightarrow> u64"
  o_FilePath :: nat
  o_Timer :: nat
  o_TriggerTime :: nat
  o_Period :: nat

datatype event_type = EVT_NOTIFY_SIGNAL | EVT_TIMER

text \<open>Services of the DXE core that change its lists.\<close>

record dxe_services =
  CreateEventEx :: "event_type \<Rightarrow> guid \<Rightarrow> mem \<Rightarrow> efi_status \<times> addr \<times> mem"
  CreateEvent :: "event_type \<Rightarrow> mem \<Rightarrow> efi_status \<times> addr \<times> mem"
  SetTimer :: "addr \<Rightarrow> u64 \<Rightarrow> mem \<Rightarrow> efi_status \<times> mem"
  CloseEvent :: "addr \<Rightarrow> mem \<Rightarrow> mem"

record dxe_image =
  di_ImageBase :: u64
  di_ImageSize :: u64
  di_NameString :: "char16 list"

record dxe_state =
  dx_out :: "out list"
  dx_guids :: guid_state
  dx_NameString :: "char16 list"
  dx_ImageStruct :: "dxe_image list option"
  dx_ImageStructCountMax :: nat
  dx_ImageStructCount :: nat
  mDxeCoreLoadedImage :: bool
  dx_heads :: dxe_heads

definition dxe_say :: "out list \<Rightarrow> dxe_state \<Rightarrow> dxe_state" where
  "dxe_say os s = s\<lparr>dx_out := dx_out s @ os\<rparr>"

text \<open>\<open>%s\<close> with a null pointer.\<close>

definition text_arg :: "char16 list option \<Rightarrow> arg" where
  "text_arg t = (case t of None \<Rightarrow> Txt ''<null string>'' | Some x \<Rightarrow> Uni x)"

text \<open>
  The function of a protocol by which the image that produced it is found: the protocol's GUID,
  its structure and the field.
\<close>

definition protocol_functions :: "(string \<times> string \<times> string) list" where
  "protocol_functions =
     [(''gEfiDevicePathUtilitiesProtocolGuid'', ''EFI_DEVICE_PATH_UTILITIES_PROTOCOL'', ''GetDevicePathSize''),
      (''gEfiDevicePathToTextProtocolGuid'', ''EFI_DEVICE_PATH_TO_TEXT_PROTOCOL'', ''ConvertDeviceNodeToText''),
      (''gEfiDevicePathFromTextProtocolGuid'', ''EFI_DEVICE_PATH_FROM_TEXT_PROTOCOL'', ''ConvertTextToDeviceNode''),
      (''gEfiDriverBindingProtocolGuid'', ''EFI_DRIVER_BINDING_PROTOCOL'', ''Supported''),
      (''gEfiPlatformDriverOverrideProtocolGuid'', ''EFI_PLATFORM_DRIVER_OVERRIDE_PROTOCOL'', ''GetDriver''),
      (''gEfiBusSpecificDriverOverrideProtocolGuid'', ''EFI_BUS_SPECIFIC_DRIVER_OVERRIDE_PROTOCOL'', ''GetDriver''),
      (''gEfiDriverDiagnostics2ProtocolGuid'', ''EFI_DRIVER_DIAGNOSTICS2_PROTOCOL'', ''RunDiagnostics''),
      (''gEfiComponentName2ProtocolGuid'', ''EFI_COMPONENT_NAME2_PROTOCOL'', ''GetDriverName''),
      (''gEfiPlatformToDriverConfigurationProtocolGuid'', ''EFI_PLATFORM_TO_DRIVER_CONFIGURATION_PROTOCOL'', ''Query''),
      (''gEfiDriverFamilyOverrideProtocolGuid'', ''EFI_DRIVER_FAMILY_OVERRIDE_PROTOCOL'', ''GetVersion''),
      (''gEfiDriverHealthProtocolGuid'', ''EFI_DRIVER_HEALTH_PROTOCOL'', ''GetHealthStatus''),
      (''gEfiAdapterInformationProtocolGuid'', ''EFI_ADAPTER_INFORMATION_PROTOCOL'', ''GetInformation''),
      (''gEfiSimpleTextInputExProtocolGuid'', ''EFI_SIMPLE_TEXT_INPUT_EX_PROTOCOL'', ''Reset''),
      (''gEfiSimpleTextInProtocolGuid'', ''EFI_SIMPLE_TEXT_INPUT_PROTOCOL'', ''Reset''),
      (''gEfiSimpleTextOutProtocolGuid'', ''EFI_SIMPLE_TEXT_OUTPUT_PROTOCOL'', ''Reset''),
      (''gEfiSimplePointerProtocolGuid'', ''EFI_SIMPLE_POINTER_PROTOCOL'', ''Reset''),
      (''gEfiAbsolutePointerProtocolGuid'', ''EFI_ABSOLUTE_POINTER_PROTOCOL'', ''Reset''),
      (''gEfiSerialIoProtocolGuid'', ''EFI_SERIAL_IO_PROTOCOL'', ''Reset''),
      (''gEfiGraphicsOutputProtocolGuid'', ''EFI_GRAPHICS_OUTPUT_PROTOCOL'', ''QueryMode''),
      (''gEfiLoadFileProtocolGuid'', ''EFI_LOAD_FILE_PROTOCOL'', ''LoadFile''),
      (''gEfiLoadFile2ProtocolGuid'', ''EFI_LOAD_FILE_PROTOCOL'', ''LoadFile''),
      (''gEfiSimpleFileSystemProtocolGuid'', ''EFI_SIMPLE_FILE_SYSTEM_PROTOCOL'', ''OpenVolume''),
      (''gEfiDiskIoProtocolGuid'', ''EFI_DISK_IO_PROTOCOL'', ''ReadDisk''),
      (''gEfiDiskIo2ProtocolGuid'', ''EFI_DISK_IO2_PROTOCOL'', ''Cancel''),
      (''gEfiBlockIoProtocolGuid'', ''EFI_BLOCK_IO_PROTOCOL'', ''Reset''),
      (''gEfiBlockIo2ProtocolGuid'', ''EFI_BLOCK_IO2_PROTOCOL'', ''Reset''),
      (''gEfiBlockIoCryptoProtocolGuid'', ''EFI_BLOCK_IO_CRYPTO_PROTOCOL'', ''Reset''),
      (''gEfiEraseBlockProtocolGuid'', ''EFI_ERASE_BLOCK_PROTOCOL'', ''EraseBlocks''),
      (''gEfiAtaPassThruProtocolGuid'', ''EFI_ATA_PASS_THRU_PROTOCOL'', ''PassThru''),
      (''gEfiStorageSecurityCommandProtocolGuid'', ''EFI_STORAGE_SECURITY_COMMAND_PROTOCOL'', ''ReceiveData''),
      (''gEfiNvmExpressPassThruProtocolGuid'', ''EFI_NVM_EXPRESS_PASS_THRU_PROTOCOL'', ''PassThru''),
      (''gEfiSdMmcPassThruProtocolGuid'', ''EFI_SD_MMC_PASS_THRU_PROTOCOL'', ''PassThru''),
      (''gEfiRamDiskProtocolGuid'', ''EFI_RAM_DISK_PROTOCOL'', ''Register''),
      (''gEfiPciRootBridgeIoProtocolGuid'', ''EFI_PCI_ROOT_BRIDGE_IO_PROTOCOL'', ''PollMem''),
      (''gEfiPciIoProtocolGuid'', ''EFI_PCI_IO_PROTOCOL'', ''PollMem''),
      (''gEfiScsiIoProtocolGuid'', ''EFI_SCSI_IO_PROTOCOL'', ''GetDeviceType''),
      (''gEfiExtScsiPassThruProtocolGuid'', ''EFI_EXT_SCSI_PASS_THRU_PROTOCOL'', ''PassThru''),
      (''gEfiIScsiInitiatorNameProtocolGuid'', ''EFI_ISCSI_INITIATOR_NAME_PROTOCOL'', ''Get''),
      (''gEfiUsb2HcProtocolGuid'', ''EFI_USB2_HC_PROTOCOL'', ''GetCapability''),
      (''gEfiUsbIoProtocolGuid'', ''EFI_USB_IO_PROTOCOL'', ''UsbControlTransfer''),
      (''gEfiUsbFunctionIoProtocolGuid'', ''EFI_USBFN_IO_PROTOCOL'', ''DetectPort''),
      (''gEfiDebugSupportProtocolGuid'', ''EFI_DEBUG_SUPPORT_PROTOCOL'', ''GetMaximumProcessorIndex''),
      (''gEfiDebugPortProtocolGuid'', ''EFI_DEBUGPORT_PROTOCOL'', ''Reset''),
      (''gEfiDecompressProtocolGuid'', ''EFI_DECOMPRESS_PROTOCOL'', ''GetInfo''),
      (''gEfiAcpiTableProtocolGuid'', ''EFI_ACPI_TABLE_PROTOCOL'', ''InstallAcpiTable''),
      (''gEfiUnicodeCollationProtocolGuid'', ''EFI_UNICODE_COLLATION_PROTOCOL'', ''StriColl''),
      (''gEfiUnicodeCollation2ProtocolGuid'', ''EFI_UNICODE_COLLATION_PROTOCOL'', ''StriColl''),
      (''gEfiRegularExpressionProtocolGuid'', ''EFI_REGULAR_EXPRESSION_PROTOCOL'', ''MatchString''),
      (''gEfiEbcProtocolGuid'', ''EFI_EBC_PROTOCOL'', ''CreateThunk''),
      (''gEfiFirmwareManagementProtocolGuid'', ''EFI_FIRMWARE_MANAGEMENT_PROTOCOL'', ''GetImageInfo''),
      (''gEfiHiiFontProtocolGuid'', ''EFI_HII_FONT_PROTOCOL'', ''StringToImage''),
      (''gEfiHiiStringProtocolGuid'', ''EFI_HII_STRING_PROTOCOL'', ''NewString''),
      (''gEfiHiiImageProtocolGuid'', ''EFI_HII_IMAGE_PROTOCOL'', ''NewImage''),
      (''gEfiHiiImageExProtocolGuid'', ''EFI_HII_IMAGE_EX_PROTOCOL'', ''NewImageEx''),
      (''gEfiHiiImageDecoderProtocolGuid'', ''EFI_HII_IMAGE_DECODER_PROTOCOL'', ''GetImageDecoderName''),
      (''gEfiHiiDatabaseProtocolGuid'', ''EFI_HII_DATABASE_PROTOCOL'', ''NewPackageList''),
      (''gEfiConfigKeywordHandlerProtocolGuid'', ''EFI_CONFIG_KEYWORD_HANDLER_PROTOCOL'', ''SetData''),
      (''gEfiHiiConfigRoutingProtocolGuid'', ''EFI_HII_CONFIG_ROUTING_PROTOCOL'', ''ExtractConfig''),
      (''gEfiHiiConfigAccessProtocolGuid'', ''EFI_HII_CONFIG_ACCESS_PROTOCOL'', ''ExtractConfig''),
      (''gEfiFormBrowser2ProtocolGuid'', ''EFI_FORM_BROWSER2_PROTOCOL'', ''SendForm''),
      (''gEfiHash2ServiceBindingProtocolGuid'', ''EFI_SERVICE_BINDING_PROTOCOL'', ''CreateChild''),
      (''gEfiHash2ProtocolGuid'', ''EFI_HASH2_PROTOCOL'', ''GetHashSize''),
      (''gEfiKmsProtocolGuid'', ''EFI_KMS_PROTOCOL'', ''GetServiceStatus''),
      (''gEfiPkcs7VerifyProtocolGuid'', ''EFI_PKCS7_VERIFY_PROTOCOL'', ''VerifyBuffer''),
      (''gEfiRngProtocolGuid'', ''EFI_RNG_PROTOCOL'', ''GetInfo''),
      (''gEfiSmartCardReaderProtocolGuid'', ''EFI_SMART_CARD_READER_PROTOCOL'', ''SCardConnect''),
      (''gEfiSmartCardEdgeProtocolGuid'', ''EFI_SMART_CARD_EDGE_PROTOCOL'', ''GetContext''),
      (''gEfiTimestampProtocolGuid'', ''EFI_TIMESTAMP_PROTOCOL'', ''GetTimestamp'')]"

definition mProtocolFuncStruct_dxe :: "dxe_env \<Rightarrow> (guid \<times> u64) list" where
  "mProtocolFuncStruct_dxe E =
     map (\<lambda>(Guid, Structure, Field). (guid_named E Guid, field_offset E Structure Field)) protocol_functions"

definition DXE_CORE_GUID :: "dxe_env \<Rightarrow> guid" where
  "DXE_CORE_GUID E = guid_named E ''DXE_CORE_GUID''"

section \<open>Images\<close>

text \<open>The name; \<open>None\<close> is a null pointer.\<close>

definition GetDriverNameString_dxe :: "dxe_env \<Rightarrow> loaded_image \<Rightarrow> dxe_state \<Rightarrow> char16 list option \<times> dxe_state" where
  "GetDriverNameString_dxe E img s =
     (let Pdb = (if li_ImageBase img \<noteq> 0 then GetPdbPointer E (li_ImageBase img) else None)
      in case Pdb of
           Some p \<Rightarrow> (let n = GetShortPdbFileName (Some p) in (Some n, s\<lparr>dx_NameString := n\<rparr>))
         | None \<Rightarrow>
             (case li_FilePath img of
                FV_FILE g \<Rightarrow>
                  (let (Status, Ui) = GetSectionFromAnyFv E g;
                       n = (if \<not> EFI_ERROR Status then copy_name Ui else copy_name (GuidText16_smm E g))
                   in (Some n, s\<lparr>dx_NameString := n\<rparr>))
              | FILE_PATH PathName \<Rightarrow> (Some PathName, s)
              | OTHER_PATH \<Rightarrow> (None, s)))"

text \<open>\<open>None\<close>: the array is written through a null pointer or past its end.\<close>

definition AddImageStruct_dxe :: "u64 \<Rightarrow> u64 \<Rightarrow> char16 list option \<Rightarrow> dxe_state \<Rightarrow> dxe_state option" where
  "AddImageStruct_dxe ImageBase ImageSize NameString s =
     (if dx_ImageStructCountMax s \<le> dx_ImageStructCount s then Some s
      else
        (case dx_ImageStruct s of
           None \<Rightarrow> None
         | Some a \<Rightarrow>
             (if length a \<le> dx_ImageStructCount s then None
              else
                (let old = a ! dx_ImageStructCount s;
                     new = old\<lparr>di_ImageBase := ImageBase, di_ImageSize := ImageSize,
                       di_NameString := (case NameString of None \<Rightarrow> di_NameString old | Some n \<Rightarrow> copy_name n)\<rparr>
                 in Some (s\<lparr>dx_ImageStruct := Some (a[dx_ImageStructCount s := new]),
                            dx_ImageStructCount := dx_ImageStructCount s + 1\<rparr>)))))"

definition dxe_images :: "dxe_state \<Rightarrow> dxe_image list" where
  "dxe_images s = take (dx_ImageStructCount s) (case dx_ImageStruct s of None \<Rightarrow> [] | Some a \<Rightarrow> a)"

fun name_loop :: "dxe_image list \<Rightarrow> u64 \<Rightarrow> char16 list" where
  "name_loop [] Address = UNKNOWN_NAME"
| "name_loop (x # xs) Address =
     (if di_ImageBase x \<le> Address \<and> Address < di_ImageBase x + di_ImageSize x then di_NameString x
      else name_loop xs Address)"

definition AddressToImageName :: "dxe_state \<Rightarrow> u64 \<Rightarrow> char16 list" where
  "AddressToImageName s Address = name_loop (dxe_images s) Address"

fun protocol_name_loop :: "mem \<Rightarrow> dxe_state \<Rightarrow> (guid \<times> u64) list \<Rightarrow> u64 \<Rightarrow> guid \<Rightarrow> char16 list" where
  "protocol_name_loop m s [] Address Protocol = UNKNOWN_NAME"
| "protocol_name_loop m s ((g, FuncOffset) # fs) Address Protocol =
     (if Protocol = g then AddressToImageName s (rd64 m (unat (Address + FuncOffset)))
      else protocol_name_loop m s fs Address Protocol)"

definition AddressToImageNameEx :: "dxe_env \<Rightarrow> mem \<Rightarrow> dxe_state \<Rightarrow> u64 \<Rightarrow> guid \<Rightarrow> char16 list" where
  "AddressToImageNameEx E m s Address Protocol =
     (let Name = AddressToImageName s Address in
      if Name \<noteq> UNKNOWN_NAME then Name
      else protocol_name_loop m s (mProtocolFuncStruct_dxe E) Address Protocol)"

definition dxe_image_text ::
  "loaded_image \<Rightarrow> u64 \<Rightarrow> u64 \<Rightarrow> char16 list option \<Rightarrow> char16 list option \<Rightarrow> out list"
where
  "dxe_image_text img EntryPoint RealImageBase NameStr PathStr =
     [Print ''Image: %s '' [text_arg NameStr], Print ''(0x%x - 0x%x'' [hx (li_ImageBase img), hx (li_ImageSize img)]]
     @ (if EntryPoint \<noteq> 0 then [Print '', EntryPoint:0x%x'' [hx EntryPoint]] else [])
     @ (if RealImageBase \<noteq> li_ImageBase img then [Print '', Base:0x%x'' [hx RealImageBase]] else [])
     @ [Print '')'' [], Print ''       (%s)'' [text_arg PathStr]]"

text \<open>The state of the loop has the local \<open>EntryPointInImage\<close> beside the variables of the program.\<close>

definition loaded_image_body ::
  "dxe_env \<Rightarrow> mem \<Rightarrow> efi_status \<times> loaded_image \<times> char16 list option \<Rightarrow> u64 \<times> dxe_state \<Rightarrow> (u64 \<times> dxe_state) option"
where
  "loaded_image_body E m = (\<lambda>(Status, img, PathStr) (EntryPointInImage, s).
     if EFI_ERROR Status then Some (EntryPointInImage, s)
     else
       (let (NameStr, s) = GetDriverNameString_dxe E img s;
            (EntryPoint, RealImageBase, EntryPointInImage) = entry_and_base E m EntryPointInImage img;
            s = dxe_say (dxe_image_text img EntryPoint RealImageBase NameStr PathStr) s
        in Option.bind (AddImageStruct_dxe RealImageBase (li_ImageSize img) NameStr s) (\<lambda>s.
             Some (EntryPointInImage,
               if li_FilePath img = FV_FILE (DXE_CORE_GUID E) then s\<lparr>mDxeCoreLoadedImage := True\<rparr> else s))))"

definition zero_dxe_image :: dxe_image where
  "zero_dxe_image = \<lparr>di_ImageBase = 0, di_ImageSize = 0, di_NameString = []\<rparr>"

definition GetLoadedImage_dxe :: "dxe_env \<Rightarrow> mem \<Rightarrow> dxe_state \<Rightarrow> dxe_state option" where
  "GetLoadedImage_dxe E m s =
     (let (Status, handles) = LoadedImages E in
      if EFI_ERROR Status then Some s
      else
        (let n = length handles;
             s = s\<lparr>dx_ImageStructCountMax := n,
                   dx_ImageStruct := (if AllocDxeImages E n then Some (replicate n zero_dxe_image) else None)\<rparr>
         in if dx_ImageStruct s = None then Some s
            else map_option snd (each (loaded_image_body E m) handles (EntryPoint_junk E, s))))"

section \<open>Handles\<close>

text \<open>A structure reached through a pointer that may be null.\<close>

definition deref :: "addr \<Rightarrow> (addr \<Rightarrow> 'a option) \<Rightarrow> 'a option" where
  "deref p f = (if p = NULL then None else f p)"

text \<open>The part that both printers of protocol interfaces have in common, behind the interface's address.\<close>

definition interface_text :: "dxe_env \<Rightarrow> mem \<Rightarrow> dxe_state \<Rightarrow> u64 \<Rightarrow> guid \<Rightarrow> out list option" where
  "interface_text E m s Interface ProtocolID =
     (let Name = AddressToImageNameEx E m s Interface ProtocolID;
          named = (if Interface \<noteq> 0 \<and> Name \<noteq> UNKNOWN_NAME then [Print '' (%s)'' [Uni Name]] else []);
          path = (\<lambda>t. [Print ''    (%s)'' [text_arg t]]);
          path1 = (if ProtocolID = guid_named E ''gEfiDevicePathProtocolGuid'' then path (DevicePathText E m Interface) else []);
          path3 = (if ProtocolID = guid_named E ''gEfiLoadedImageDevicePathProtocolGuid'' then path (DevicePathText E m Interface) else [])
      in if ProtocolID = guid_named E ''gEfiLoadedImageProtocolGuid''
         then deref (unat Interface) (\<lambda>p.
           Some (named @ [Print '''' []] @ path1 @ path (DevicePathText E m (rd64 m (p + o_FilePath E))) @ path3))
         else Some (named @ [Print '''' []] @ path1 @ path3))"

definition ProtocolID_of :: "mem \<Rightarrow> addr \<Rightarrow> guid" where
  "ProtocolID_of m Protocol = bytes_at m (Protocol + o_ProtocolID) 16"

definition handle_interface_line :: "guid_env \<Rightarrow> dxe_env \<Rightarrow> mem \<Rightarrow> dxe_state \<Rightarrow> addr \<Rightarrow> out list option" where
  "handle_interface_line G E m s ListEntry =
     (let ProtocolInterface = ListEntry - o_Interface_Link; Interface = rd64 m (ProtocolInterface + o_Interface) in
      deref (ptr m (ProtocolInterface + o_Protocol)) (\<lambda>Protocol.
        Option.bind (GuidToName G (dx_guids s) (ProtocolID_of m Protocol)) (\<lambda>name.
          map_option ((@) [Print ''  Protocol - %a, Interface - 0x%x'' [Ascii name, hx Interface]])
            (interface_text E m s Interface (ProtocolID_of m Protocol)))))"

definition DumpProtocolInterfacesOnHandle :: "guid_env \<Rightarrow> dxe_env \<Rightarrow> mem \<Rightarrow> dxe_state \<Rightarrow> addr \<Rightarrow> out list option" where
  "DumpProtocolInterfacesOnHandle G E m s IHandle =
     print_nodes (nodes m) (IHandle + o_Handle_Protocols) (handle_interface_line G E m s)"

definition DumpHandleList :: "guid_env \<Rightarrow> dxe_env \<Rightarrow> mem \<Rightarrow> dxe_state \<Rightarrow> out list option" where
  "DumpHandleList G E m s =
     print_nodes (nodes m) (mDxeCoreHandleList (dx_heads s)) (\<lambda>ListEntry.
       let Handle = ListEntry - o_AllHandles in
       map_option ((@) [Print ''Handle - 0x%x'' [hxn Handle]]) (DumpProtocolInterfacesOnHandle G E m s Handle))"

section \<open>Protocols and events\<close>

definition entry_interface_line :: "dxe_env \<Rightarrow> mem \<Rightarrow> dxe_state \<Rightarrow> addr \<Rightarrow> out list option" where
  "entry_interface_line E m s ListEntry =
     (let ProtocolInterface = ListEntry - o_ByProtocol; Interface = rd64 m (ProtocolInterface + o_Interface) in
      deref (ptr m (ProtocolInterface + o_Protocol)) (\<lambda>Protocol.
        map_option ((@) [Print ''  Interface - 0x%x'' [hx Interface]])
          (interface_text E m s Interface (ProtocolID_of m Protocol))))"

definition DumpProtocolInterfacesOnProtocolEntry :: "dxe_env \<Rightarrow> mem \<Rightarrow> dxe_state \<Rightarrow> addr \<Rightarrow> out list option" where
  "DumpProtocolInterfacesOnProtocolEntry E m s ProtocolEntry =
     print_nodes (nodes m) (ProtocolEntry + o_Entry_Protocols) (entry_interface_line E m s)"

text \<open>An event, with the two formats that the printers indent differently.\<close>

definition event_text ::
  "string \<Rightarrow> string \<Rightarrow> guid_env \<Rightarrow> dxe_env \<Rightarrow> mem \<Rightarrow> dxe_state \<Rightarrow> addr \<Rightarrow> out list option"
where
  "event_text fmt1 fmt2 G E m s Event =
     Option.bind (GuidToName G (dx_guids s) (bytes_at m (Event + o_EventGroup) 16)) (\<lambda>EventGroupStr.
       let TriggerTime = rd64 m (Event + o_TriggerTime E); Period = rd64 m (Event + o_Period E);
           NotifyFunction = rd64 m (Event + o_NotifyFunction); Name = AddressToImageName s NotifyFunction
       in Some
         ([Print fmt1 [hxn Event]]
          @ (if EventGroupStr \<noteq> ascii ''ZeroGuid'' then [Print '' (%a)'' [Ascii EventGroupStr]] else [])
          @ (if TriggerTime \<noteq> 0 \<or> Period \<noteq> 0
             then [Print '' (TiggerTime:%ld, Period:%ld)'' [hx TriggerTime, hx Period]] else [])
          @ [Print '''' [],
             Print fmt2 [hx (rd32 m (Event + o_Type)), hx (rd64 m (Event + o_NotifyTpl)), hx NotifyFunction]]
          @ (if NotifyFunction \<noteq> 0 \<and> Name \<noteq> UNKNOWN_NAME then [Print '' (%s)'' [Uni Name]] else [])
          @ [Print '''' []]))"

definition DumpProtocolNotifyOnProtocolEntry :: "guid_env \<Rightarrow> dxe_env \<Rightarrow> mem \<Rightarrow> dxe_state \<Rightarrow> addr \<Rightarrow> out list option" where
  "DumpProtocolNotifyOnProtocolEntry G E m s ProtocolEntry =
     print_nodes (nodes m) (ProtocolEntry + o_Notify) (\<lambda>ListEntry.
       let ProtocolNotify = ListEntry - o_Notify_Link in
       deref (ptr m (ProtocolNotify + o_Event))
         (event_text ''  Event - 0x%x'' ''    Type - 0x%x, TPL - 0x%x, Notify - 0x%x'' G E m s))"

definition DumpProtocolDatabase_dxe :: "guid_env \<Rightarrow> dxe_env \<Rightarrow> mem \<Rightarrow> dxe_state \<Rightarrow> out list option" where
  "DumpProtocolDatabase_dxe G E m s =
     print_nodes (nodes m) (mDxeCoreProtocolDatabase (dx_heads s)) (\<lambda>ListEntry.
       let ProtocolEntry = ListEntry - o_AllEntries in
       Option.bind (GuidToName G (dx_guids s) (ProtocolID_of m ProtocolEntry)) (\<lambda>name.
       Option.bind (DumpProtocolInterfacesOnProtocolEntry E m s ProtocolEntry) (\<lambda>os1.
       Option.bind (DumpProtocolNotifyOnProtocolEntry G E m s ProtocolEntry) (\<lambda>os2.
         Some ([Print ''Protocol - %a'' [Ascii name]] @ os1 @ os2)))))"

definition event_line :: "nat \<Rightarrow> guid_env \<Rightarrow> dxe_env \<Rightarrow> mem \<Rightarrow> dxe_state \<Rightarrow> addr \<Rightarrow> out list option" where
  "event_line off G E m s ListEntry =
     event_text ''Event - 0x%x'' ''  Type - 0x%x, TPL - 0x%x, Notify - 0x%x'' G E m s (ListEntry - off)"

definition DumpEventSignalQueue :: "guid_env \<Rightarrow> dxe_env \<Rightarrow> mem \<Rightarrow> dxe_state \<Rightarrow> out list option" where
  "DumpEventSignalQueue G E m s =
     print_nodes (back_nodes m) (mDxeCoreEventSignalQueue (dx_heads s)) (event_line o_SignalLink G E m s)"

definition DumpEventTimerList :: "guid_env \<Rightarrow> dxe_env \<Rightarrow> mem \<Rightarrow> dxe_state \<Rightarrow> out list option" where
  "DumpEventTimerList G E m s =
     print_nodes (back_nodes m) (mDxeCoreEfiTimerList (dx_heads s)) (event_line (o_Timer E) G E m s)"

section \<open>The entry point\<close>

text \<open>
  The parts that end with \<open>goto Done\<close> yield the state as an \<open>Inl\<close>.
\<close>

definition find_heads :: "mem \<Rightarrow> addr \<Rightarrow> dxe_state \<Rightarrow> (dxe_state + dxe_state) option" where
  "find_heads m ImageHandle s =
     Option.bind (GetDxeCoreHandleList m ImageHandle (dx_heads s)) (\<lambda>g.
     Option.bind (GetDxeCoreProtocolDatabase m ImageHandle g) (\<lambda>g.
       let s = s\<lparr>dx_heads := g\<rparr> in
       if mDxeCoreHandleList g = NULL then Some (Inl (dxe_say [Print ''DxeCore gHandleList is not found!'' []] s))
       else if mDxeCoreProtocolDatabase g = NULL
       then Some (Inr (dxe_say [Print ''DxeCore mProtocolDatabase is not found!'' []] s))
       else Some (Inr s)))"

definition dump_section :: "string \<Rightarrow> (dxe_state \<Rightarrow> out list option) \<Rightarrow> dxe_state \<Rightarrow> dxe_state option" where
  "dump_section headline Dump s =
     map_option (\<lambda>os. dxe_say ([Print headline []] @ os @ [Print '''' []]) s) (Dump s)"

definition signal_events ::
  "dxe_services \<Rightarrow> guid_env \<Rightarrow> dxe_env \<Rightarrow> dxe_state \<times> mem \<Rightarrow> ((dxe_state + dxe_state) \<times> mem) option"
where
  "signal_events V G E = (\<lambda>(s, m).
     let (Status, DummyEvent, m) = CreateEventEx V EVT_NOTIFY_SIGNAL (guid_named E ''gEfiEventReadyToBootGuid'') m in
     if EFI_ERROR Status then Some (Inr s, m)
     else
       Option.bind (GetDxeCoreEventSignalQueue m DummyEvent (dx_heads s)) (\<lambda>g.
         let s = s\<lparr>dx_heads := g\<rparr>; m = CloseEvent V DummyEvent m in
         if mDxeCoreEventSignalQueue g = NULL
         then Some (Inl (dxe_say [Print ''DxeCore gEventSignalQueue is not found!'' []] s), m)
         else map_option (\<lambda>os. (Inr (dxe_say os s), m)) (DumpEventSignalQueue G E m s)))"

definition timer_events ::
  "dxe_services \<Rightarrow> guid_env \<Rightarrow> dxe_env \<Rightarrow> dxe_state \<times> mem \<Rightarrow> ((dxe_state + dxe_state) \<times> mem) option"
where
  "timer_events V G E = (\<lambda>(s, m).
     let (Status, DummyEvent, m) = CreateEvent V EVT_TIMER m in
     if EFI_ERROR Status then Some (Inr s, m)
     else
       (let (Status, m) = SetTimer V DummyEvent (10 * 1000 * 1000) m in
        Option.bind
          (if EFI_ERROR Status then Some (dx_heads s) else GetDxeCoreTimerList (o_Timer E) m DummyEvent (dx_heads s)) (\<lambda>g.
            let s = s\<lparr>dx_heads := g\<rparr>; m = CloseEvent V DummyEvent m in
            if mDxeCoreEfiTimerList g = NULL
            then Some (Inl (dxe_say [Print ''DxeCore mEfiTimerList is not found!'' []] s), m)
            else map_option (\<lambda>os. (Inr (dxe_say os s), m)) (DumpEventTimerList G E m s))))"

text \<open>Everything behind the list of images.\<close>

definition dump_databases ::
  "dxe_services \<Rightarrow> guid_env \<Rightarrow> dxe_env \<Rightarrow> addr \<Rightarrow> dxe_state \<times> mem \<Rightarrow> (dxe_state \<times> mem) option"
where
  "dump_databases V G E ImageHandle = (\<lambda>(s, m).
     Option.bind (find_heads m ImageHandle s) (\<lambda>r.
       case r of Inl s \<Rightarrow> Some (s, m)
       | Inr s \<Rightarrow>
         Option.bind (dump_section ''# HANDLE DATABASE #'' (DumpHandleList G E m) s) (\<lambda>s.
         Option.bind (dump_section ''# PROTOCOL DATABASE #'' (DumpProtocolDatabase_dxe G E m) s) (\<lambda>s.
         Option.bind (signal_events V G E (dxe_say [Print ''# EVENT DATABASE #'' [], Print ''# 1. NOTIFY_SIGNAL #'' []] s, m)) (\<lambda>(r, m).
           case r of Inl s \<Rightarrow> Some (s, m)
           | Inr s \<Rightarrow>
             Option.bind (timer_events V G E (dxe_say [Print ''# 2. TIMER #'' []] s, m)) (\<lambda>(r, m).
               case r of Inl s \<Rightarrow> Some (s, m) | Inr s \<Rightarrow> Some (dxe_say [Print '''' []] s, m)))))))"

definition DxeCoreDumpEntrypoint ::
  "dxe_services \<Rightarrow> guid_env \<Rightarrow> file_system \<Rightarrow> dxe_env \<Rightarrow> addr
   \<Rightarrow> dxe_state \<times> file_event list \<times> mem \<Rightarrow> (efi_status \<times> dxe_state \<times> file_event list \<times> mem) option"
where
  "DxeCoreDumpEntrypoint V G F E ImageHandle = (\<lambda>(s, ops, m).
     Option.bind (InitGuid G F (dx_guids s, ops)) (\<lambda>(g, ops).
     Option.bind (GetLoadedImage_dxe E m (dxe_say [Print ''# IMAGE DATABASE #'' []] (s\<lparr>dx_guids := g\<rparr>))) (\<lambda>s.
     Option.bind
       (if \<not> mDxeCoreLoadedImage s then Some (dxe_say [Print ''DxeCore is not found!'' []] s, m)
        else dump_databases V G E ImageHandle (dxe_say [Print '''' []] s, m)) (\<lambda>(s, m).
       Some (EFI_SUCCESS, s\<lparr>dx_guids := snd (DeinitGuid (dx_guids s))\<rparr>, ops, m)))))"

end
