(* ===== verification/Dxe_Report.thy ===== *)
theory Dxe_Report
  imports Dxe_Dump
begin

text \<open>
  What DxeCoreDump prints, as a function of the DXE core's database.
\<close>

section \<open>The database\<close>

text \<open>
  A handle with its protocol interfaces; a protocol with its interfaces and the events to notify;
  the events of the signal queue and those with a timer, the oldest first.
\<close>

record dxe_event =
  ev_address :: addr
  ev_Type :: u32
  ev_NotifyTpl :: u64
  ev_NotifyFunction :: u64
  ev_EventGroup :: guid
  ev_TriggerTime :: u64
  ev_Period :: u64

record dxe_core =
  co_handles :: "(addr \<times> (guid \<times> u64) list) list"
  co_protocols :: "(guid \<times> u64 list \<times> dxe_event list) list"
  co_signal :: "dxe_event list"
  co_timer :: "dxe_event list"

text \<open>How it lies in memory.\<close>

definition event_of :: "dxe_env \<Rightarrow> mem \<Rightarrow> addr \<Rightarrow> dxe_event" where
  "event_of E m e = \<lparr>ev_address = e, ev_Type = rd32 m (e + o_Type), ev_NotifyTpl = rd64 m (e + o_NotifyTpl),
     ev_NotifyFunction = rd64 m (e + o_NotifyFunction), ev_EventGroup = bytes_at m (e + o_EventGroup) 16,
     ev_TriggerTime = rd64 m (e + o_TriggerTime E), ev_Period = rd64 m (e + o_Period E)\<rparr>"

definition event_at :: "dxe_env \<Rightarrow> mem \<Rightarrow> addr \<Rightarrow> dxe_event \<Rightarrow> bool" where
  "event_at E m e x \<longleftrightarrow> x = event_of E m e"

definition interface_at :: "dxe_env \<Rightarrow> mem \<Rightarrow> addr \<Rightarrow> guid \<times> u64 \<Rightarrow> bool" where
  "interface_at E m i x \<longleftrightarrow> ptr m (i + o_Protocol) \<noteq> NULL \<and>
     x = (ProtocolID_of m (ptr m (i + o_Protocol)), rd64 m (i + o_Interface)) \<and>
     (fst x = guid_named E ''gEfiLoadedImageProtocolGuid'' \<longrightarrow> snd x \<noteq> 0)"

text \<open>A list in memory: the structures behind its links are related to the entries of a list.\<close>

definition listed :: "(addr \<Rightarrow> addr list option) \<Rightarrow> addr \<Rightarrow> nat \<Rightarrow> (addr \<Rightarrow> 'a \<Rightarrow> bool) \<Rightarrow> 'a list \<Rightarrow> bool" where
  "listed walked head off R xs \<longleftrightarrow> head \<noteq> NULL \<and>
     (\<exists>ss. walked head = Some (map (\<lambda>s. s + off) ss) \<and> list_all2 R ss xs)"

definition handle_at :: "dxe_env \<Rightarrow> mem \<Rightarrow> addr \<Rightarrow> addr \<times> (guid \<times> u64) list \<Rightarrow> bool" where
  "handle_at E m h x \<longleftrightarrow> fst x = h \<and> listed (nodes m) (h + o_Handle_Protocols) o_Interface_Link (interface_at E m) (snd x)"

definition notify_at :: "dxe_env \<Rightarrow> mem \<Rightarrow> addr \<Rightarrow> dxe_event \<Rightarrow> bool" where
  "notify_at E m n x \<longleftrightarrow> ptr m (n + o_Event) \<noteq> NULL \<and> event_at E m (ptr m (n + o_Event)) x"

definition protocol_at :: "dxe_env \<Rightarrow> mem \<Rightarrow> addr \<Rightarrow> guid \<times> u64 list \<times> dxe_event list \<Rightarrow> bool" where
  "protocol_at E m p = (\<lambda>(g, vs, evs). ProtocolID_of m p = g \<and>
     listed (nodes m) (p + o_Entry_Protocols) o_ByProtocol (\<lambda>i v. interface_at E m i (g, v)) vs \<and>
     listed (nodes m) (p + o_Notify) o_Notify_Link (notify_at E m) evs)"

section \<open>Lines\<close>

text \<open>The image around an address, and the one that provides an interface.\<close>

definition image_around :: "dxe_image list \<Rightarrow> u64 \<Rightarrow> char16 list option" where
  "image_around imgs a =
     (case find (\<lambda>x. di_ImageBase x \<le> a \<and> a < di_ImageBase x + di_ImageSize x) imgs of
        None \<Rightarrow> None
      | Some x \<Rightarrow> if di_NameString x = UNKNOWN_NAME then None else Some (di_NameString x))"

definition provider :: "dxe_env \<Rightarrow> mem \<Rightarrow> dxe_image list \<Rightarrow> guid \<Rightarrow> u64 \<Rightarrow> char16 list option" where
  "provider E m imgs g v =
     (case image_around imgs v of
        Some n \<Rightarrow> Some n
      | None \<Rightarrow> Option.bind (map_of (mProtocolFuncStruct_dxe E) g) (\<lambda>off. image_around imgs (rd64 m (unat (v + off)))))"

definition in_brackets :: "char16 list option \<Rightarrow> out list" where
  "in_brackets n = (case n of None \<Rightarrow> [] | Some x \<Rightarrow> [Print '' (%s)'' [Uni x]])"

definition path_line :: "char16 list option \<Rightarrow> out" where
  "path_line t = Print ''    (%s)'' [text_arg t]"

text \<open>The path of a device path or of an image.\<close>

definition path_lines :: "dxe_env \<Rightarrow> mem \<Rightarrow> guid \<Rightarrow> u64 \<Rightarrow> out list" where
  "path_lines E m g v =
     (if g = guid_named E ''gEfiDevicePathProtocolGuid'' then [path_line (DevicePathText E m v)] else [])
     @ (if g = guid_named E ''gEfiLoadedImageProtocolGuid''
        then [path_line (DevicePathText E m (rd64 m (unat v + o_FilePath E)))] else [])
     @ (if g = guid_named E ''gEfiLoadedImageDevicePathProtocolGuid'' then [path_line (DevicePathText E m v)] else [])"

definition interface_lines :: "dxe_env \<Rightarrow> mem \<Rightarrow> dxe_image list \<Rightarrow> guid \<Rightarrow> u64 \<Rightarrow> out list" where
  "interface_lines E m imgs g v =
     in_brackets (if v = 0 then None else provider E m imgs g v) @ [Print '''' []] @ path_lines E m g v"

definition dxe_handle_lines :: "(guid \<Rightarrow> u8 list) \<Rightarrow> dxe_env \<Rightarrow> mem \<Rightarrow> dxe_image list \<Rightarrow> addr \<times> (guid \<times> u64) list \<Rightarrow> out list" where
  "dxe_handle_lines name E m imgs = (\<lambda>(h, ps).
     Print ''Handle - 0x%x'' [hxn h] #
     concat (map (\<lambda>(g, v). Print ''  Protocol - %a, Interface - 0x%x'' [Ascii (name g), hx v] # interface_lines E m imgs g v) ps))"

definition event_lines :: "string \<Rightarrow> string \<Rightarrow> (guid \<Rightarrow> u8 list) \<Rightarrow> dxe_image list \<Rightarrow> dxe_event \<Rightarrow> out list" where
  "event_lines fmt1 fmt2 name imgs x =
     [Print fmt1 [hxn (ev_address x)]]
     @ (if name (ev_EventGroup x) = ascii ''ZeroGuid'' then [] else [Print '' (%a)'' [Ascii (name (ev_EventGroup x))]])
     @ (if ev_TriggerTime x = 0 \<and> ev_Period x = 0 then []
        else [Print '' (TiggerTime:%ld, Period:%ld)'' [hx (ev_TriggerTime x), hx (ev_Period x)]])
     @ [Print '''' [], Print fmt2 [hx (ev_Type x), hx (ev_NotifyTpl x), hx (ev_NotifyFunction x)]]
     @ in_brackets (if ev_NotifyFunction x = 0 then None else image_around imgs (ev_NotifyFunction x)) @ [Print '''' []]"

abbreviation queue_lines :: "(guid \<Rightarrow> u8 list) \<Rightarrow> dxe_image list \<Rightarrow> dxe_event \<Rightarrow> out list" where
  "queue_lines \<equiv> event_lines ''Event - 0x%x'' ''  Type - 0x%x, TPL - 0x%x, Notify - 0x%x''"

definition dxe_protocol_lines ::
  "(guid \<Rightarrow> u8 list) \<Rightarrow> dxe_env \<Rightarrow> mem \<Rightarrow> dxe_image list \<Rightarrow> guid \<times> u64 list \<times> dxe_event list \<Rightarrow> out list"
where
  "dxe_protocol_lines name E m imgs = (\<lambda>(g, vs, evs).
     Print ''Protocol - %a'' [Ascii (name g)] #
     concat (map (\<lambda>v. Print ''  Interface - 0x%x'' [hx v] # interface_lines E m imgs g v) vs)
     @ concat (map (event_lines ''  Event - 0x%x'' ''    Type - 0x%x, TPL - 0x%x, Notify - 0x%x'' name imgs) evs))"

section \<open>The printers\<close>

lemma print_listed:
  assumes "listed walked head off R xs" "\<And>s x. R s x \<Longrightarrow> x \<in> set xs \<Longrightarrow> line (s + off) = Some (f x)"
  shows "print_nodes walked head line = Some (concat (map f xs))"
proof -
  from assms(1) obtain ss where ss: "head \<noteq> NULL" "walked head = Some (map (\<lambda>s. s + off) ss)" "list_all2 R ss xs"
    by (auto simp: listed_def)
  from ss(3) assms(2) have "lines_of (\<lambda>s. line (s + off)) ss = Some (concat (map f xs))"
  proof (induction rule: list_all2_induct)
    case Nil
    show ?case by simp
  next
    case (Cons s ss x xs)
    have "lines_of (\<lambda>s. line (s + off)) ss = Some (concat (map f xs))" by (rule Cons.IH) (simp add: Cons.prems)
    moreover from Cons.hyps(1) have "line (s + off) = Some (f x)" by (rule Cons.prems) simp
    ultimately show ?case by simp
  qed
  with ss show ?thesis by (simp add: print_nodes_def lines_of_map)
qed

lemma name_loop_around:
  "in_brackets (image_around imgs a) = (if name_loop imgs a = UNKNOWN_NAME then [] else [Print '' (%s)'' [Uni (name_loop imgs a)]])"
  "image_around imgs a = (if name_loop imgs a = UNKNOWN_NAME then None else Some (name_loop imgs a))"
  by (induction imgs) (auto simp: image_around_def in_brackets_def)

lemma AddressToImageNameEx_provider:
  "provider E m (dxe_images s) g v =
     (let n = AddressToImageNameEx E m s v g in if n = UNKNOWN_NAME then None else Some n)"
proof -
  have "Option.bind (map_of fs g) (\<lambda>off. image_around (dxe_images s) (rd64 m (unat (v + off)))) =
      (let n = protocol_name_loop m s fs v g in if n = UNKNOWN_NAME then None else Some n)" for fs
    by (induction fs) (auto simp: AddressToImageName_def name_loop_around(2))
  then show ?thesis
    by (simp add: provider_def AddressToImageNameEx_def AddressToImageName_def name_loop_around(2))
qed

lemma interface_text_lines:
  assumes "g = guid_named E ''gEfiLoadedImageProtocolGuid'' \<longrightarrow> v \<noteq> 0"
  shows "interface_text E m s v g = Some (interface_lines E m (dxe_images s) g v)"
  using assms
  by (auto simp: interface_text_def interface_lines_def path_lines_def path_line_def in_brackets_def deref_def
      AddressToImageNameEx_provider Let_def unat_eq_0)

text \<open>The names and the images are known.\<close>

definition dxe_knows :: "guid_env \<Rightarrow> (guid \<Rightarrow> u8 list) \<Rightarrow> dxe_image list \<Rightarrow> dxe_state \<Rightarrow> bool" where
  "dxe_knows G name imgs s \<longleftrightarrow> (\<forall>g. GuidToName G (dx_guids s) g = Some (name g)) \<and> dxe_images s = imgs"

lemma DumpProtocolInterfacesOnHandle_prints:
  assumes "dxe_knows G name imgs s" "handle_at E m h x"
  shows "DumpProtocolInterfacesOnHandle G E m s h = Some (concat (map (\<lambda>(g, v).
     Print ''  Protocol - %a, Interface - 0x%x'' [Ascii (name g), hx v] # interface_lines E m imgs g v) (snd x)))"
proof -
  from assms(2) have "listed (nodes m) (h + o_Handle_Protocols) o_Interface_Link (interface_at E m) (snd x)"
    by (simp add: handle_at_def)
  then show ?thesis
    unfolding DumpProtocolInterfacesOnHandle_def
  proof (rule print_listed)
    fix i y
    assume "interface_at E m i y" "y \<in> set (snd x)"
    with assms(1) show "handle_interface_line G E m s (i + o_Interface_Link) = Some (case y of (g, v) \<Rightarrow>
        Print ''  Protocol - %a, Interface - 0x%x'' [Ascii (name g), hx v] # interface_lines E m imgs g v)"
      by (auto simp: handle_interface_line_def interface_at_def dxe_knows_def deref_def interface_text_lines Let_def)
  qed
qed

lemma DumpHandleList_prints:
  assumes "dxe_knows G name imgs s"
    and "listed (nodes m) (mDxeCoreHandleList (dx_heads s)) o_AllHandles (handle_at E m) hs"
  shows "DumpHandleList G E m s = Some (concat (map (dxe_handle_lines name E m imgs) hs))"
  unfolding DumpHandleList_def
proof (rule print_listed [OF assms(2)])
  fix h x
  assume "handle_at E m h x" "x \<in> set hs"
  with DumpProtocolInterfacesOnHandle_prints [OF assms(1) this(1)]
  show "(let Handle = h + o_AllHandles - o_AllHandles in
      map_option ((@) [Print ''Handle - 0x%x'' [hxn Handle]]) (DumpProtocolInterfacesOnHandle G E m s Handle)) =
    Some (dxe_handle_lines name E m imgs x)"
    by (cases x) (simp add: dxe_handle_lines_def handle_at_def)
qed

lemma event_text_lines:
  assumes "dxe_knows G name imgs s" "event_at E m e x"
  shows "event_text fmt1 fmt2 G E m s e = Some (event_lines fmt1 fmt2 name imgs x)"
  using assms by (auto simp: event_text_def event_lines_def event_at_def event_of_def dxe_knows_def AddressToImageName_def
      name_loop_around in_brackets_def Let_def)

lemma DumpProtocolDatabase_dxe_prints:
  assumes k: "dxe_knows G name imgs s"
    and "listed (nodes m) (mDxeCoreProtocolDatabase (dx_heads s)) o_AllEntries (protocol_at E m) ps"
  shows "DumpProtocolDatabase_dxe G E m s = Some (concat (map (dxe_protocol_lines name E m imgs) ps))"
  unfolding DumpProtocolDatabase_dxe_def
proof (rule print_listed [OF assms(2)])
  fix p x
  assume p: "protocol_at E m p x" "x \<in> set ps"
  obtain g vs evs where x: "x = (g, vs, evs)" by (cases x)
  from p x have at: "ProtocolID_of m p = g"
    "listed (nodes m) (p + o_Entry_Protocols) o_ByProtocol (\<lambda>i v. interface_at E m i (g, v)) vs"
    "listed (nodes m) (p + o_Notify) o_Notify_Link (notify_at E m) evs"
    by (auto simp: protocol_at_def)
  have "DumpProtocolInterfacesOnProtocolEntry E m s p =
      Some (concat (map (\<lambda>v. Print ''  Interface - 0x%x'' [hx v] # interface_lines E m imgs g v) vs))"
    unfolding DumpProtocolInterfacesOnProtocolEntry_def using k
    by (intro print_listed [OF at(2)])
      (auto simp: entry_interface_line_def interface_at_def dxe_knows_def deref_def interface_text_lines Let_def)
  moreover have "DumpProtocolNotifyOnProtocolEntry G E m s p =
      Some (concat (map (event_lines ''  Event - 0x%x'' ''    Type - 0x%x, TPL - 0x%x, Notify - 0x%x'' name imgs) evs))"
    unfolding DumpProtocolNotifyOnProtocolEntry_def
    by (intro print_listed [OF at(3)]) (auto simp: notify_at_def deref_def event_text_lines [OF k])
  ultimately show "(let ProtocolEntry = p + o_AllEntries - o_AllEntries in
       Option.bind (GuidToName G (dx_guids s) (ProtocolID_of m ProtocolEntry)) (\<lambda>name.
       Option.bind (DumpProtocolInterfacesOnProtocolEntry E m s ProtocolEntry) (\<lambda>os1.
       Option.bind (DumpProtocolNotifyOnProtocolEntry G E m s ProtocolEntry) (\<lambda>os2.
         Some ([Print ''Protocol - %a'' [Ascii name]] @ os1 @ os2))))) = Some (dxe_protocol_lines name E m imgs x)"
    using k at(1) by (simp add: dxe_protocol_lines_def x dxe_knows_def)
qed

lemma event_queue_prints:
  assumes "dxe_knows G name imgs s" "listed (back_nodes m) head off (event_at E m) evs"
  shows "print_nodes (back_nodes m) head (event_line off G E m s) = Some (concat (map (queue_lines name imgs) evs))"
  by (rule print_listed [OF assms(2)]) (simp add: event_line_def event_text_lines [OF assms(1)])

end
