(* ===== verification/Dxe_Screen.thy ===== *)
theory Dxe_Screen
  imports Dxe_Report
begin

text \<open>
  DxeCoreDump as a whole.
\<close>

section \<open>Images\<close>

text \<open>The name of an image: from its debug information, its file, or its path.\<close>

definition driver_name :: "dxe_env \<Rightarrow> loaded_image \<Rightarrow> char16 list option" where
  "driver_name E img =
     (case (if li_ImageBase img = 0 then None else GetPdbPointer E (li_ImageBase img)) of
        Some p \<Rightarrow> Some (GetShortPdbFileName (Some p))
      | None \<Rightarrow>
          (case li_FilePath img of
             FV_FILE g \<Rightarrow> Some (copy_name (if EFI_ERROR (fst (GetSectionFromAnyFv E g)) then GuidText16_smm E g
                                           else snd (GetSectionFromAnyFv E g)))
           | FILE_PATH PathName \<Rightarrow> Some PathName
           | OTHER_PATH \<Rightarrow> None))"

lemma GetDriverNameString_dxe_name:
  "\<exists>n. GetDriverNameString_dxe E img s = (driver_name E img, s\<lparr>dx_NameString := n\<rparr>)"
  by (auto simp: GetDriverNameString_dxe_def driver_name_def Let_def split: option.split file_path.split prod.split
      intro: exI [of _ "dx_NameString s"])

definition kept_image :: "dxe_env \<Rightarrow> loaded_image \<Rightarrow> u64 \<Rightarrow> dxe_image" where
  "kept_image E img RealImageBase = \<lparr>di_ImageBase = RealImageBase, di_ImageSize = li_ImageSize img,
     di_NameString = (case driver_name E img of None \<Rightarrow> [] | Some n \<Rightarrow> copy_name n)\<rparr>"

text \<open>Entry point and base of the images in turn, and what is left in the local variable of the loop.\<close>

fun located :: "dxe_env \<Rightarrow> mem \<Rightarrow> u64 \<Rightarrow> (loaded_image \<times> 'p) list \<Rightarrow> ((loaded_image \<times> 'p) \<times> u64 \<times> u64) list" where
  "located E m EntryPointInImage [] = []"
| "located E m EntryPointInImage ((img, p) # xs) =
     (let (EntryPoint, RealImageBase, EntryPointInImage) = entry_and_base E m EntryPointInImage img
      in ((img, p), EntryPoint, RealImageBase) # located E m EntryPointInImage xs)"

text \<open>The images that the core answers for.\<close>

definition answered :: "(efi_status \<times> 'a) list \<Rightarrow> 'a list" where
  "answered hs = map snd (filter (\<lambda>h. \<not> EFI_ERROR (fst h)) hs)"

definition kept_images :: "dxe_env \<Rightarrow> mem \<Rightarrow> (efi_status \<times> loaded_image \<times> char16 list option) list \<Rightarrow> dxe_image list" where
  "kept_images E m hs =
     map (\<lambda>((img, _), _, RealImageBase). kept_image E img RealImageBase) (located E m (EntryPoint_junk E) (answered hs))"

definition image_list_lines :: "dxe_env \<Rightarrow> (loaded_image \<times> char16 list option) \<times> u64 \<times> u64 \<Rightarrow> out list" where
  "image_list_lines E = (\<lambda>((img, PathStr), EntryPoint, RealImageBase).
     dxe_image_text img EntryPoint RealImageBase (driver_name E img) PathStr)"

text \<open>The loop has room for \<open>k\<close> more images.\<close>

definition dxe_filling :: "dxe_image list \<Rightarrow> nat \<Rightarrow> dxe_state \<Rightarrow> bool" where
  "dxe_filling xs k s \<longleftrightarrow> dx_ImageStruct s = Some (xs @ replicate k zero_dxe_image) \<and>
     dx_ImageStructCount s = length xs \<and> length xs + k = dx_ImageStructCountMax s"

lemma loaded_image_body_adds:
  assumes "dxe_filling xs (Suc k) s" "\<not> EFI_ERROR Status" and eb: "entry_and_base E m l img = (e, b, l')"
  shows "\<exists>s'. loaded_image_body E m (Status, img, PathStr) (l, s) = Some (l', s') \<and>
    dxe_filling (xs @ [kept_image E img b]) k s' \<and> dx_out s' = dx_out s @ image_list_lines E ((img, PathStr), e, b) \<and>
    dx_guids s' = dx_guids s \<and> dx_heads s' = dx_heads s \<and>
    (mDxeCoreLoadedImage s' \<longleftrightarrow> mDxeCoreLoadedImage s \<or> li_FilePath img = FV_FILE (DXE_CORE_GUID E))"
proof -
  obtain n where n: "GetDriverNameString_dxe E img s = (driver_name E img, s\<lparr>dx_NameString := n\<rparr>)"
    using GetDriverNameString_dxe_name by blast
  from assms(1,2) show ?thesis
    by (simp add: loaded_image_body_def n eb AddImageStruct_dxe_def dxe_filling_def dxe_say_def image_list_lines_def
        kept_image_def zero_dxe_image_def nth_append list_update_append split: option.split)
qed

lemma answered_Cons: "answered ((Status, x) # hs) = (if EFI_ERROR Status then answered hs else x # answered hs)"
  by (simp add: answered_def)

lemma loaded_images_added:
  assumes "dxe_filling xs k s" "length hs \<le> k"
  shows "\<exists>l' s' k'. each (loaded_image_body E m) hs (l, s) = Some (l', s')
    \<and> dxe_filling (xs @ map (\<lambda>((img, _), _, b). kept_image E img b) (located E m l (answered hs))) k' s' \<and>
    dx_out s' = dx_out s @ concat (map (image_list_lines E) (located E m l (answered hs))) \<and>
    dx_guids s' = dx_guids s \<and> dx_heads s' = dx_heads s \<and>
    (mDxeCoreLoadedImage s' \<longleftrightarrow> mDxeCoreLoadedImage s \<or>
      (\<exists>x\<in>set (answered hs). li_FilePath (fst x) = FV_FILE (DXE_CORE_GUID E)))"
  using assms
proof (induction hs arbitrary: xs k l s)
  case Nil
  then show ?case by (auto simp: answered_def)
next
  case (Cons h hs)
  obtain Status img t where h: "h = (Status, img, t)" by (cases h)
  show ?case
  proof (cases "EFI_ERROR Status")
    case True
    then show ?thesis
      using Cons.IH [OF Cons.prems(1)] Cons.prems(2)
      by (simp add: h loaded_image_body_def answered_Cons)
  next
    case False
    from Cons.prems obtain j where k: "k = Suc j" "length hs \<le> j" by (cases k) auto
    obtain e b l1 where eb: "entry_and_base E m l img = (e, b, l1)" by (metis prod_cases3)
    from loaded_image_body_adds [OF Cons.prems(1) [unfolded k(1)] False eb, of t]
    obtain s1 where s1: "loaded_image_body E m h (l, s) = Some (l1, s1)" "dxe_filling (xs @ [kept_image E img b]) j s1"
      "dx_out s1 = dx_out s @ image_list_lines E ((img, t), e, b)" "dx_guids s1 = dx_guids s" "dx_heads s1 = dx_heads s"
      "mDxeCoreLoadedImage s1 \<longleftrightarrow> mDxeCoreLoadedImage s \<or> li_FilePath img = FV_FILE (DXE_CORE_GUID E)"
      by (auto simp: h)
    with Cons.IH [OF s1(2) k(2), of l1] False show ?thesis
      by (auto simp: h answered_Cons eb)
  qed
qed

lemma GetLoadedImage_dxe_lists:
  assumes "LoadedImages E = (Status, hs)" "\<not> EFI_ERROR Status" "AllocDxeImages E (length hs)" "dx_ImageStructCount s = 0"
  shows "\<exists>s'. GetLoadedImage_dxe E m s = Some s' \<and> dxe_images s' = kept_images E m hs \<and>
    dx_out s' = dx_out s @ concat (map (image_list_lines E) (located E m (EntryPoint_junk E) (answered hs))) \<and>
    dx_guids s' = dx_guids s \<and> dx_heads s' = dx_heads s \<and>
    (mDxeCoreLoadedImage s' \<longleftrightarrow> mDxeCoreLoadedImage s \<or>
      (\<exists>x\<in>set (answered hs). li_FilePath (fst x) = FV_FILE (DXE_CORE_GUID E)))"
proof -
  let ?n = "length hs"
  let ?s = "s\<lparr>dx_ImageStructCountMax := ?n, dx_ImageStruct := Some (replicate ?n zero_dxe_image)\<rparr>"
  have "dxe_filling [] ?n ?s" using assms(4) by (simp add: dxe_filling_def)
  from loaded_images_added [OF this order.refl, of E m "EntryPoint_junk E"] assms(1-3) show ?thesis
    by (auto simp: GetLoadedImage_dxe_def dxe_filling_def dxe_images_def kept_images_def)
qed

section \<open>The screen\<close>

definition databases_report :: "(guid \<Rightarrow> u8 list) \<Rightarrow> dxe_env \<Rightarrow> mem \<Rightarrow> dxe_image list \<Rightarrow> dxe_core \<Rightarrow> out list" where
  "databases_report name E m imgs C =
     [Print ''# HANDLE DATABASE #'' []] @ concat (map (dxe_handle_lines name E m imgs) (co_handles C))
     @ [Print '''' [], Print ''# PROTOCOL DATABASE #'' []] @ concat (map (dxe_protocol_lines name E m imgs) (co_protocols C))
     @ [Print '''' [], Print ''# EVENT DATABASE #'' [], Print ''# 1. NOTIFY_SIGNAL #'' []]
     @ concat (map (queue_lines name imgs) (co_signal C))
     @ [Print ''# 2. TIMER #'' []] @ concat (map (queue_lines name imgs) (co_timer C)) @ [Print '''' []]"

definition dxe_report ::
  "(guid \<Rightarrow> u8 list) \<Rightarrow> dxe_env \<Rightarrow> mem \<Rightarrow> (efi_status \<times> loaded_image \<times> char16 list option) list \<Rightarrow> dxe_core \<Rightarrow> out list"
where
  "dxe_report name E m hs C =
     [Print ''# IMAGE DATABASE #'' []] @ concat (map (image_list_lines E) (located E m (EntryPoint_junk E) (answered hs))) @ [Print '''' []]
     @ databases_report name E m (kept_images E m hs) C"

text \<open>The handle database, in which the application's own handle is not the only one with protocols.\<close>

definition dxe_handles_are :: "dxe_env \<Rightarrow> mem \<Rightarrow> addr \<Rightarrow> dxe_core \<Rightarrow> addr \<Rightarrow> addr \<Rightarrow> bool" where
  "dxe_handles_are E m own C gHandleList mProtocolDatabase \<longleftrightarrow>
     (\<exists>hs entries ifs. handles_ok m gHandleList hs entries ifs \<and>
        ring_of m o_AllEntries PROTOCOL_ENTRY_SIGNATURE mProtocolDatabase entries \<and>
        own \<in> set hs \<and> (\<exists>h\<in>set hs. h \<noteq> own \<and> ifs h \<noteq> [])) \<and>
     listed (nodes m) gHandleList o_AllHandles (handle_at E m) (co_handles C) \<and>
     listed (nodes m) mProtocolDatabase o_AllEntries (protocol_at E m) (co_protocols C)"

text \<open>
  A queue of events: the new event is linked into a ring whose other nodes are events, and after it
  was closed the ring holds the events that are printed.
\<close>

definition queue_holds :: "dxe_env \<Rightarrow> nat \<Rightarrow> addr \<Rightarrow> mem \<Rightarrow> mem \<Rightarrow> addr \<Rightarrow> dxe_event list \<Rightarrow> bool" where
  "queue_holds E off e m m' q evs \<longleftrightarrow>
     (\<exists>es. ring_of m off EVENT_SIGNATURE q es \<and> e \<in> set es) \<and>
     q \<noteq> NULL \<and> (\<exists>es. two_way m' q (map (\<lambda>e. e + off) (rev es)) \<and> list_all2 (event_at E m') es evs)"

lemma queue_listed:
  "queue_holds E off e m m' q evs \<Longrightarrow> listed (back_nodes m') q off (event_at E m') evs"
  by (auto simp: queue_holds_def listed_def dest!: back_nodes_ring simp: rev_map)

lemma dxe_say_fields [simp]:
  "dx_guids (dxe_say os s) = dx_guids s" "dxe_images (dxe_say os s) = dxe_images s" "dx_heads (dxe_say os s) = dx_heads s"
  "dx_out (dxe_say os s) = dx_out s @ os" "mDxeCoreLoadedImage (dxe_say os s) = mDxeCoreLoadedImage s"
  by (simp_all add: dxe_say_def dxe_images_def)

lemma dxe_knows_say [simp]: "dxe_knows G name imgs (dxe_say os s) = dxe_knows G name imgs s"
  by (simp add: dxe_knows_def)

lemma dxe_knows_heads [simp]: "dxe_knows G name imgs (s\<lparr>dx_heads := g\<rparr>) = dxe_knows G name imgs s"
  by (simp add: dxe_knows_def dxe_images_def)

lemma signal_events_prints:
  assumes "dxe_knows G name imgs s"
    and "CreateEventEx V EVT_NOTIFY_SIGNAL (guid_named E ''gEfiEventReadyToBootGuid'') m = (Status, e, m1)" "\<not> EFI_ERROR Status"
    and "queue_holds E o_SignalLink e m1 (CloseEvent V e m1) q evs"
  shows "\<exists>s'. signal_events V G E (s, m) = Some (Inr s', CloseEvent V e m1) \<and> dxe_knows G name imgs s' \<and>
    dx_out s' = dx_out s @ concat (map (queue_lines name imgs) evs)"
proof -
  from assms(4) obtain es where "ring_of m1 o_SignalLink EVENT_SIGNATURE q es" "e \<in> set es" and q: "q \<noteq> NULL"
    by (auto simp: queue_holds_def)
  note found = GetDxeCoreEventSignalQueue_found [OF this(1,2)]
  let ?s = "s\<lparr>dx_heads := (dx_heads s)\<lparr>mDxeCoreEventSignalQueue := q\<rparr>\<rparr>"
  from assms(1) have "dxe_knows G name imgs ?s" by simp
  from event_queue_prints [OF this queue_listed [OF assms(4)]]
  show ?thesis
    using assms(1-3) q found by (simp add: signal_events_def Let_def DumpEventSignalQueue_def)
qed

lemma timer_events_prints:
  assumes "dxe_knows G name imgs s"
    and "CreateEvent V EVT_TIMER m = (Status, e, m1)" "\<not> EFI_ERROR Status"
    and "SetTimer V e (10 * 1000 * 1000) m1 = (Status', m2)" "\<not> EFI_ERROR Status'"
    and "queue_holds E (o_Timer E) e m2 (CloseEvent V e m2) q evs"
  shows "\<exists>s'. timer_events V G E (s, m) = Some (Inr s', CloseEvent V e m2) \<and> dxe_knows G name imgs s' \<and>
    dx_out s' = dx_out s @ concat (map (queue_lines name imgs) evs)"
proof -
  from assms(6) obtain es where "ring_of m2 (o_Timer E) EVENT_SIGNATURE q es" "e \<in> set es" and q: "q \<noteq> NULL"
    by (auto simp: queue_holds_def)
  note found = GetDxeCoreTimerList_found [OF this(1,2)]
  let ?s = "s\<lparr>dx_heads := (dx_heads s)\<lparr>mDxeCoreEfiTimerList := q\<rparr>\<rparr>"
  from assms(1) have "dxe_knows G name imgs ?s" by simp
  from event_queue_prints [OF this queue_listed [OF assms(6)]]
  show ?thesis
    using assms(1-5) q found by (simp add: timer_events_def Let_def DumpEventTimerList_def)
qed

lemma find_heads_found:
  assumes "dxe_handles_are E m own C gHandleList mProtocolDatabase"
  shows "find_heads m own s = Some (Inr (s\<lparr>dx_heads :=
    (dx_heads s)\<lparr>mDxeCoreHandleList := gHandleList, mDxeCoreProtocolDatabase := mProtocolDatabase\<rparr>\<rparr>))"
proof -
  from assms obtain hs entries ifs where ok: "handles_ok m gHandleList hs entries ifs"
    "ring_of m o_AllEntries PROTOCOL_ENTRY_SIGNATURE mProtocolDatabase entries"
    "own \<in> set hs" "\<exists>h\<in>set hs. h \<noteq> own \<and> ifs h \<noteq> []"
    and "gHandleList \<noteq> NULL" "mProtocolDatabase \<noteq> NULL"
    by (auto simp: dxe_handles_are_def listed_def)
  then show ?thesis by (simp add: find_heads_def GetDxeCore_heads_found [OF ok] Let_def)
qed

lemma dump_databases_prints:
  assumes k: "dxe_knows G name imgs s"
    and handles: "dxe_handles_are E m own C gHandleList mProtocolDatabase"
    and signal: "CreateEventEx V EVT_NOTIFY_SIGNAL (guid_named E ''gEfiEventReadyToBootGuid'') m = (EFI_SUCCESS, e1, m1)"
      "queue_holds E o_SignalLink e1 m1 (CloseEvent V e1 m1) gEventSignalQueue (co_signal C)"
    and timer: "CreateEvent V EVT_TIMER (CloseEvent V e1 m1) = (EFI_SUCCESS, e2, m2)"
      "SetTimer V e2 (10 * 1000 * 1000) m2 = (EFI_SUCCESS, m3)"
      "queue_holds E (o_Timer E) e2 m3 (CloseEvent V e2 m3) mEfiTimerList (co_timer C)"
  shows "\<exists>s'. dump_databases V G E own (s, m) = Some (s', CloseEvent V e2 m3) \<and>
    dx_out s' = dx_out s @ databases_report name E m imgs C"
proof -
  define s2 where "s2 = s\<lparr>dx_heads :=
    (dx_heads s)\<lparr>mDxeCoreHandleList := gHandleList, mDxeCoreProtocolDatabase := mProtocolDatabase\<rparr>\<rparr>"
  have heads: "find_heads m own s = Some (Inr s2)"
    using find_heads_found [OF handles] by (simp add: s2_def)
  have k2: "dxe_knows G name imgs s2" using k by (simp add: s2_def)
  have lists: "listed (nodes m) (mDxeCoreHandleList (dx_heads s2)) o_AllHandles (handle_at E m) (co_handles C)"
    "listed (nodes m) (mDxeCoreProtocolDatabase (dx_heads s2)) o_AllEntries (protocol_at E m) (co_protocols C)"
    using handles by (simp_all add: dxe_handles_are_def s2_def)
  define s3 where "s3 = dxe_say ([Print ''# HANDLE DATABASE #'' []] @
    concat (map (dxe_handle_lines name E m imgs) (co_handles C)) @ [Print '''' []]) s2"
  define s4 where "s4 = dxe_say ([Print ''# PROTOCOL DATABASE #'' []] @
    concat (map (dxe_protocol_lines name E m imgs) (co_protocols C)) @ [Print '''' []]) s3"
  have sections: "dump_section ''# HANDLE DATABASE #'' (DumpHandleList G E m) s2 = Some s3"
    "dump_section ''# PROTOCOL DATABASE #'' (DumpProtocolDatabase_dxe G E m) s3 = Some s4"
    using DumpHandleList_prints [OF k2 lists(1)] DumpProtocolDatabase_dxe_prints [of G name imgs s3 m E "co_protocols C"]
      k2 lists(2) by (simp_all add: dump_section_def s3_def s4_def)
  let ?s5 = "dxe_say [Print ''# EVENT DATABASE #'' [], Print ''# 1. NOTIFY_SIGNAL #'' []] s4"
  have "dxe_knows G name imgs ?s5" using k2 by (simp add: s3_def s4_def)
  from signal_events_prints [OF this signal(1) _ signal(2)]
  obtain s6 where s6: "signal_events V G E (?s5, m) = Some (Inr s6, CloseEvent V e1 m1)" "dxe_knows G name imgs s6"
    "dx_out s6 = dx_out ?s5 @ concat (map (queue_lines name imgs) (co_signal C))" by auto
  let ?s7 = "dxe_say [Print ''# 2. TIMER #'' []] s6"
  from s6(2) have "dxe_knows G name imgs ?s7" by simp
  from timer_events_prints [OF this timer(1) _ timer(2) _ timer(3)]
  obtain s8 where s8: "timer_events V G E (?s7, CloseEvent V e1 m1) = Some (Inr s8, CloseEvent V e2 m3)"
    "dx_out s8 = dx_out ?s7 @ concat (map (queue_lines name imgs) (co_timer C))" by auto
  show ?thesis
    using heads sections s6(1,3) s8
    by (simp add: dump_databases_def databases_report_def s2_def s3_def s4_def)
qed


text \<open>
  If the head of the protocol database is not found, the tool says so, goes on to dump the handles,
  and then follows the null pointer: the test lacks the \<open>goto Done\<close> of the others.
\<close>

theorem DxeCoreDump_null_database:
  assumes "InitGuid G F (dx_guids s, ops) = Some (gs, ops')"
    and "GetLoadedImage_dxe E m (dxe_say [Print ''# IMAGE DATABASE #'' []] (s\<lparr>dx_guids := gs\<rparr>)) = Some s1"
    and "mDxeCoreLoadedImage s1"
    and "GetDxeCoreHandleList m own (dx_heads s1) = Some g1" "GetDxeCoreProtocolDatabase m own g1 = Some g2"
    and "mDxeCoreHandleList g2 \<noteq> NULL" "mDxeCoreProtocolDatabase g2 = NULL"
  shows "DxeCoreDumpEntrypoint V G F E own (s, ops, m) = None"
proof -
  have null: "DumpProtocolDatabase_dxe G E m t = None" if "mDxeCoreProtocolDatabase (dx_heads t) = NULL" for t
    using that by (simp add: DumpProtocolDatabase_dxe_def print_nodes_def)
  have stuck: "Option.bind (dump_section h (DumpHandleList G E m) t) (\<lambda>t.
      Option.bind (dump_section h' (DumpProtocolDatabase_dxe G E m) t) rest) = None"
    if "mDxeCoreProtocolDatabase (dx_heads t) = NULL" for h h' t and rest :: "dxe_state \<Rightarrow> (dxe_state \<times> mem) option"
    using that null by (cases "DumpHandleList G E m t") (simp_all add: dump_section_def)
  from assms show ?thesis
    by (simp add: DxeCoreDumpEntrypoint_def dump_databases_def find_heads_def stuck)
qed

end
