(* ===== verification/Dxe_Witness.thy ===== *)
theory Dxe_Witness
  imports Dxe_Screen Smm_Screen_Witness
begin

text \<open>
  A DXE core with the handles and the protocol of \<open>sample_lists\<close> and one event, which waits in the
  signal queue and for a timer.
\<close>

definition sample_dxe_env :: dxe_env where
  "sample_dxe_env = \<lparr>SmmLocateHandle_size = EFI_NOT_FOUND, SmmLocateHandle = (EFI_NOT_FOUND, []),
     LocateHandleBuffer = (EFI_NOT_FOUND, []), AllocHandles = True, AllocImageStructs = (\<lambda>_. True),
     GetPdbPointer = (\<lambda>_. None), GetSectionFromAnyFv = (\<lambda>_. (EFI_SUCCESS, [68, 88, 69])), GuidText16_smm = (\<lambda>_. []),
     SmramRanges = [], EntryPoint_junk = 0, mProtocolFuncStruct = [], DOS_SIGNATURE = 0x5A4D, TE_SIGNATURE = 0x5A56,
     NT_SIGNATURE = 0x4550, o_lfanew = 60, o_Te_StrippedSize = 6, o_Te_AddressOfEntryPoint = 8, sizeof_TE_HEADER = 40,
     o_Nt_AddressOfEntryPoint = 40,
     LoadedImages = (EFI_SUCCESS, [(EFI_SUCCESS, \<lparr>li_FilePath = FV_FILE (replicate 16 13), li_ImageBase = 0x5000,
       li_ImageSize = 0x1000, li_ImageEntryPoint = Some 0x5100\<rparr>, None)]),
     AllocDxeImages = (\<lambda>_. True), DevicePathText = (\<lambda>m v. None), guid_named = (\<lambda>n. replicate 16 (of_nat (length n))),
     field_offset = (\<lambda>s f. 0), o_FilePath = 24, o_Timer = 152, o_TriggerTime = 168, o_Period = 176\<rparr>"

text \<open>The event is at 4096, the heads of the queues at 5120 and 5376.\<close>

definition sample_dxe :: mem where
  "sample_dxe =
     wr64 4096 EVENT_SIGNATURE (wr64 5120 4112 (wr64 5128 4112 (wr64 4112 5120 (wr64 4120 5120
     (wr64 5376 4248 (wr64 5384 4248 (wr64 4248 5376 (wr64 4256 5376 (wr64 4136 0x5020 sample_lists)))))))))"

text \<open>A new event is linked in front of the old one and taken out again.\<close>

definition link_new :: "addr \<Rightarrow> addr \<Rightarrow> addr \<Rightarrow> addr \<Rightarrow> mem \<Rightarrow> mem" where
  "link_new q l e l' m =
     wr64 e EVENT_SIGNATURE (wr64 l (of_nat l') (wr64 (l + 8) (of_nat q) (wr64 (l' + 8) (of_nat l) (wr64 q (of_nat l) m))))"

definition link_old :: "addr \<Rightarrow> addr \<Rightarrow> mem \<Rightarrow> mem" where
  "link_old q l' m = wr64 q (of_nat l') (wr64 (l' + 8) (of_nat q) m)"

definition sample_dxe_services :: dxe_services where
  "sample_dxe_services = \<lparr>
     CreateEventEx = (\<lambda>t g m. (EFI_SUCCESS, 4608, link_new 5120 4624 4608 4112 m)),
     CreateEvent = (\<lambda>t m. (EFI_SUCCESS, 4864, m)),
     SetTimer = (\<lambda>e p m. (EFI_SUCCESS, link_new 5376 5016 4864 4248 m)),
     CloseEvent = (\<lambda>e m. if e = 4608 then link_old 5120 4112 m else link_old 5376 4248 m)\<rparr>"

abbreviation (input) "dxe_signal_mem \<equiv> link_new 5120 4624 4608 4112 sample_dxe"
abbreviation (input) "dxe_signal_done \<equiv> link_old 5120 4112 dxe_signal_mem"
abbreviation (input) "dxe_timer_mem \<equiv> link_new 5376 5016 4864 4248 dxe_signal_done"
abbreviation (input) "dxe_timer_done \<equiv> link_old 5376 4248 dxe_timer_mem"

abbreviation (input) sample_event :: "mem \<Rightarrow> dxe_event" where
  "sample_event m \<equiv> event_of sample_dxe_env m 4096"

definition sample_dxe_core :: dxe_core where
  "sample_dxe_core = \<lparr>co_handles = [(256, [(no_guid, 0x5010)]), (512, [])], co_protocols = [(no_guid, [0x5010], [])],
     co_signal = [sample_event dxe_signal_done], co_timer = [sample_event dxe_timer_done]\<rparr>"

definition blank_dxe :: dxe_state where
  "blank_dxe = \<lparr>dx_out = [], dx_guids = sample_guid_state, dx_NameString = [], dx_ImageStruct = None,
     dx_ImageStructCountMax = 0, dx_ImageStructCount = 0, mDxeCoreLoadedImage = False,
     dx_heads = \<lparr>mDxeCoreHandleList = NULL, mDxeCoreProtocolDatabase = NULL, mDxeCoreEventSignalQueue = NULL,
       mDxeCoreEfiTimerList = NULL\<rparr>\<rparr>"

lemma event_signature_neq: "EVENT_SIGNATURE \<noteq> 0" "EFI_HANDLE_SIGNATURE \<noteq> 0" "PROTOCOL_ENTRY_SIGNATURE \<noteq> 0"
  by (simp_all add: EVENT_SIGNATURE_def smm_signatures)

lemmas sample_dxe_words = sample_dxe_def sample_lists_def sample_smm_def link_new_def link_old_def ptr_def BackLink_def
  event_signature_neq

lemma sample_dxe_rings:
  "ring sample_dxe 128 [264, 520]" "ring sample_dxe 280 [776]" "ring sample_dxe 536 []" "ring sample_dxe 1280 [1032]"
  "ring sample_dxe 1064 [800]" "ring sample_dxe 1080 []" "ptr sample_dxe 816 = 1024" "rd64 sample_dxe 824 = 0x5010"
  by (simp_all add: ring_def sample_dxe_words)

lemma sample_queue_rings:
  "ring_of dxe_signal_mem 16 EVENT_SIGNATURE 5120 [4608, 4096]" "two_way dxe_signal_done 5120 [4112]"
  "ring_of dxe_timer_mem 152 EVENT_SIGNATURE 5376 [4864, 4096]" "two_way dxe_timer_done 5376 [4248]"
  by (simp_all add: two_way_def ring_of_def ring_def sample_dxe_words)

lemma queue_holds_single:
  assumes "ring_of m off EVENT_SIGNATURE q [e, e']" "two_way m' q [e' + off]" "q \<noteq> NULL"
  shows "queue_holds E off e m m' q [event_of E m' e']"
proof -
  have "list_all2 (event_at E m') [e'] [event_of E m' e']" by (simp add: event_at_def)
  moreover have "two_way m' q (map (\<lambda>e. e + off) (rev [e']))" using assms(2) by simp
  moreover have "e \<in> set [e, e']" by simp
  ultimately show ?thesis
    using assms(1,3) unfolding queue_holds_def by blast
qed

lemma sample_dxe_queues:
  "queue_holds sample_dxe_env 16 4608 dxe_signal_mem dxe_signal_done 5120 [sample_event dxe_signal_done]"
  "queue_holds sample_dxe_env 152 4864 dxe_timer_mem dxe_timer_done 5376 [sample_event dxe_timer_done]"
  using queue_holds_single [OF sample_queue_rings(1)] queue_holds_single [OF sample_queue_rings(3)]
    sample_queue_rings(2,4) by simp_all

lemma sample_dxe_guid: "bytes_at sample_dxe 1048 16 = no_guid"
proof -
  have "bytes_at (\<lambda>_. 0) p 16 = no_guid" for p by (simp add: bytes_at_def map_replicate_const)
  then show ?thesis by (simp add: sample_dxe_def sample_lists_def sample_smm_def bytes16_wr64)
qed

lemma listed_ring:
  "head \<noteq> NULL \<Longrightarrow> ring m head (map (\<lambda>s. s + off) ss) \<Longrightarrow> list_all2 R ss xs \<Longrightarrow> listed (nodes m) head off R xs"
  by (auto simp: listed_def dest: nodes_ring)

lemma sample_dxe_handles: "dxe_handles_are sample_dxe_env sample_dxe 512 sample_dxe_core 128 1280"
proof -
  let ?at = "interface_at sample_dxe_env sample_dxe"
  have at: "?at 768 (no_guid, 0x5010)"
    by (simp add: interface_at_def ProtocolID_of_def sample_dxe_rings sample_dxe_guid sample_dxe_env_def)
  have "listed (nodes sample_dxe) 280 8 ?at [(no_guid, 0x5010)]" "listed (nodes sample_dxe) 536 8 ?at []"
    using listed_ring [of 280 sample_dxe 8 "[768]" ?at] listed_ring [of 536 sample_dxe 8 "[]" ?at] at
    by (simp_all add: sample_dxe_rings)
  then have hs: "listed (nodes sample_dxe) 128 8 (handle_at sample_dxe_env sample_dxe) (co_handles sample_dxe_core)"
    by (intro listed_ring [where ss = "[256, 512]"]) (simp_all add: sample_dxe_core_def handle_at_def sample_dxe_rings)
  have "listed (nodes sample_dxe) 1064 32 (\<lambda>i v. ?at i (no_guid, v)) [0x5010]"
    by (rule listed_ring [where ss = "[768]"]) (simp_all add: sample_dxe_rings at)
  moreover have "listed (nodes sample_dxe) 1080 16 (notify_at sample_dxe_env sample_dxe) []"
    by (rule listed_ring [where ss = "[]"]) (simp_all add: sample_dxe_rings)
  ultimately have ps: "listed (nodes sample_dxe) 1280 8 (protocol_at sample_dxe_env sample_dxe) (co_protocols sample_dxe_core)"
    by (intro listed_ring [where ss = "[1024]"])
      (simp_all add: sample_dxe_core_def protocol_at_def ProtocolID_of_def sample_dxe_guid sample_dxe_rings)
  have "handles_ok sample_dxe 128 [256, 512] [1024] sample_smm_interfaces"
    "ring_of sample_dxe o_AllEntries PROTOCOL_ENTRY_SIGNATURE 1280 [1024]"
    by (simp_all add: handles_ok_def interfaces_ok_def ring_of_def ring_def sample_smm_interfaces_def sample_dxe_words)
  moreover have "(512::nat) \<in> set [256, 512]" "\<exists>h\<in>set [256, 512]. h \<noteq> 512 \<and> sample_smm_interfaces h \<noteq> []"
    by (simp_all add: sample_smm_interfaces_def)
  ultimately show ?thesis unfolding dxe_handles_are_def using hs ps by blast
qed


text \<open>A core in which the application's handle, at 256, is the only one with a protocol.\<close>

lemma only_own_protocol: "some_protocol_entry sample_dxe 256 = Some None"
proof -
  have "ptr sample_dxe 536 = 536" using sample_dxe_rings(3) by (simp add: ring_def)
  then have "protocol_of_handle sample_dxe 512 = Some None" by (simp add: protocol_of_handle_def)
  moreover have "rd64 sample_dxe 120 = 0" by (simp add: sample_dxe_words)
  moreover have "linked sample_dxe (ForwardLink sample_dxe 264) [520, 128] 264"
    using sample_dxe_rings(1) by (simp add: ring_def)
  ultimately show ?thesis
    unfolding some_protocol_entry_def by (intro search_none [where es = "[520, 128]"]) (simp_all add: event_signature_neq [symmetric])
qed

lemma DxeCoreDump_null_database_witness:
  "DxeCoreDumpEntrypoint sample_dxe_services sample_guid_env (sample_fs (sample_xref [13, 10]))
      sample_dxe_env 256 (blank_dxe, [], sample_dxe) = None"
proof -
  let ?hs = "snd (LoadedImages sample_dxe_env)"
  obtain gs ops' where gs: "InitGuid sample_guid_env (sample_fs (sample_xref [13, 10])) (dx_guids blank_dxe, []) = Some (gs, ops')"
    using InitGuid_run [OF sample_read, of "sample_xref [13, 10]" sample_guid_env sample_guid_state]
    by (auto simp: blank_dxe_def)
  let ?s0 = "dxe_say [Print ''# IMAGE DATABASE #'' []] (blank_dxe\<lparr>dx_guids := gs\<rparr>)"
  have "LoadedImages sample_dxe_env = (EFI_SUCCESS, ?hs)" "AllocDxeImages sample_dxe_env (length ?hs)" "dx_ImageStructCount ?s0 = 0"
    by (simp_all add: sample_dxe_env_def blank_dxe_def dxe_say_def)
  from GetLoadedImage_dxe_lists [OF this(1) _ this(2,3), of sample_dxe]
  obtain s1 where s1: "GetLoadedImage_dxe sample_dxe_env sample_dxe ?s0 = Some s1" "dx_heads s1 = dx_heads blank_dxe"
    "mDxeCoreLoadedImage s1"
    by (auto simp: sample_dxe_env_def answered_def DXE_CORE_GUID_def)
  have ring: "ring_of sample_dxe o_AllHandles EFI_HANDLE_SIGNATURE 128 [256, 512]"
    by (simp add: ring_of_def ring_def sample_dxe_words)
  let ?g = "(dx_heads s1)\<lparr>mDxeCoreHandleList := 128\<rparr>"
  show ?thesis
  proof (rule DxeCoreDump_null_database [OF gs s1(1,3)])
    show "GetDxeCoreHandleList sample_dxe 256 (dx_heads s1) = Some ?g"
      using ring_of_head [OF ring, of 256] by (simp add: GetDxeCoreHandleList_def)
    show "GetDxeCoreProtocolDatabase sample_dxe 256 ?g = Some ?g"
      by (simp add: GetDxeCoreProtocolDatabase_def only_own_protocol)
  qed (simp_all add: s1(2) blank_dxe_def)
qed

end
