(* ===== verification/Acpi_Layout.thy ===== *)
theory Acpi_Layout
  imports Acpi_Func Walks
begin

text \<open>
  What the table libraries of \<^verbatim>\<open>AcpiToolPkg/Library/DumpAcpi\<close> share: how a field of a structure is
  read, the frame every dump function has, and the loops over structures of stated lengths.
\<close>

section \<open>Structures of the EDK II headers\<close>

text \<open>
  The layouts and constants of the industry standard headers.  \<open>place S F\<close>: the byte offset of field
  \<open>F\<close> in structure \<open>S\<close>, the bytes of its storage unit, and the position and width of a bit field in it.
  \<open>code\<close>: a constant by its name.  \<open>cstr\<close>: the zero terminated string at an address.  Structures and
  constants declared in the package itself are written out in the definitions that use them.
\<close>

record acpi_layout =
  place :: "string \<Rightarrow> string \<Rightarrow> nat \<times> nat \<times> nat \<times> nat"
  extent :: "string \<Rightarrow> nat"
  offset :: "string \<Rightarrow> string \<Rightarrow> nat"
  code :: "string \<Rightarrow> u64"
  guid_code :: "string \<Rightarrow> u8 list"
  cstr :: "addr \<Rightarrow> u8 list"

definition fld :: "acpi_tables \<Rightarrow> acpi_layout \<Rightarrow> string \<Rightarrow> addr \<Rightarrow> string \<Rightarrow> u64" where
  "fld T L S p F =
     (let (byte, size, bit, width) = place L S F
      in take_bit width (drop_bit bit (of_nat (rd (tmem T) (p + byte) size))))"

text \<open>Reads of structures declared in the package, and of arrays.\<close>

definition get8 :: "acpi_tables \<Rightarrow> addr \<Rightarrow> u64" where
  "get8 T p = ucast (tmem T p)"

definition get16 :: "acpi_tables \<Rightarrow> addr \<Rightarrow> u64" where
  "get16 T p = ucast (rd16 (tmem T) p)"

definition get32 :: "acpi_tables \<Rightarrow> addr \<Rightarrow> u64" where
  "get32 T p = ucast (rd32 (tmem T) p)"

definition get64 :: "acpi_tables \<Rightarrow> addr \<Rightarrow> u64" where
  "get64 T p = rd64 (tmem T) p"

abbreviation (input) sizeof_GAS :: "acpi_layout \<Rightarrow> nat" where
  "sizeof_GAS L \<equiv> extent L ''EFI_ACPI_2_0_GENERIC_ADDRESS_STRUCTURE''"

section \<open>The frame of a dump function\<close>

text \<open>
  Every dump function prints a title, the raw data if asked to, and in a verbose dump the address,
  the table header and the contents.
\<close>

definition library_dump ::
  "acpi_tables \<Rightarrow> string \<Rightarrow> string \<Rightarrow> (addr \<Rightarrow> out list option) \<Rightarrow> addr \<Rightarrow> acpi_state \<Rightarrow> acpi_state option"
where
  "library_dump T title address contents Table s =
     (if Table = NULL then Some s
      else
        (let banner = [Print title []]
               @ (if mInternalIsAcpiDumpData s then DumpAcpiHex (tmem T) (unat (h_Length T Table)) Table else []);
             Done = [Print ''***'' []]
         in if \<not> mInternalIsAcpiDumpVerb s then Some (display (banner @ Done) s)
            else map_option (\<lambda>os. display (banner @ [Print address [hxn Table]] @ DumpAcpiTableHeader T Table
                                      @ [Print ''  Table Contents:'' []] @ os @ Done) s)
                   (contents Table)))"

section \<open>Loops over structures\<close>

text \<open>The \<open>n\<close>-th of the structures from \<open>p\<close> on, each followed at its length by the next.\<close>

fun nth_structure :: "(addr \<Rightarrow> nat) \<Rightarrow> nat \<Rightarrow> addr \<Rightarrow> addr" where
  "nth_structure len 0 p = p"
| "nth_structure len (Suc n) p = nth_structure len n (p + len p)"


text \<open>
  The loop
  \<^verbatim>\<open>
    while (n > 0) { Dump (p); n -= p->Length; p = p + p->Length; }
  \<close>
  prints the structures from \<open>p\<close> on.  \<open>None\<close>: it does not end, or a dump inside does not.
\<close>

partial_function (option) structures ::
  "(addr \<Rightarrow> nat) \<Rightarrow> (addr \<Rightarrow> out list option) \<Rightarrow> addr \<Rightarrow> int \<Rightarrow> out list \<Rightarrow> out list option"
where
  "structures len dump p n os =
     (if n > 0
      then Option.bind (dump p) (\<lambda>o1. structures len dump (p + len p) (n - int (len p)) (os @ o1))
      else Some os)"

text \<open>
  The same loop with the two updates exchanged,
  \<^verbatim>\<open>
    while (n > 0) { Dump (p); p = p + p->Length; n -= p->Length; }
  \<close>
  so that the counter is reduced by the length of the structure that comes next.
\<close>

partial_function (option) structures_next ::
  "(addr \<Rightarrow> nat) \<Rightarrow> (addr \<Rightarrow> out list option) \<Rightarrow> addr \<Rightarrow> int \<Rightarrow> out list \<Rightarrow> out list option"
where
  "structures_next len dump p n os =
     (if n > 0
      then Option.bind (dump p) (\<lambda>o1.
             let q = p + len p in structures_next len dump q (n - int (len q)) (os @ o1))
      else Some os)"

lemma structures_stop [simp]: "n \<le> 0 \<Longrightarrow> structures len dump p n os = Some os"
  by (subst structures.simps) simp

lemma structures_step:
  "0 < n \<Longrightarrow> dump p = Some o1 \<Longrightarrow>
   structures len dump p n os = structures len dump (p + len p) (n - int (len p)) (os @ o1)"
  by (subst structures.simps) simp

lemma structures_next_stop [simp]: "n \<le> 0 \<Longrightarrow> structures_next len dump p n os = Some os"
  by (subst structures_next.simps) simp

lemma structures_next_step:
  "0 < n \<Longrightarrow> dump p = Some o1 \<Longrightarrow>
   structures_next len dump p n os =
     structures_next len dump (p + len p) (n - int (len (p + len p))) (os @ o1)"
  by (subst structures_next.simps) (simp add: Let_def)

text \<open>A table that ends where its structures do: the chain does not run over.\<close>

definition fills :: "(addr \<Rightarrow> nat) \<Rightarrow> addr \<Rightarrow> addr \<Rightarrow> addr list \<Rightarrow> bool" where
  "fills len e p qs \<longleftrightarrow> chain len e p qs \<and> p + (\<Sum>q \<leftarrow> qs. len q) = e"

lemma fills_Cons: "fills len e p (q # qs) \<longleftrightarrow> q = p \<and> p < e \<and> fills len e (p + len p) qs"
  by (auto simp: fills_def)

lemma fills_Nil [simp]: "fills len e p [] \<longleftrightarrow> p = e"
  by (auto simp: fills_def)

text \<open>
  What the loops need of the dump of one structure: \<open>good\<close> structures are dumped, and \<open>shown\<close> is what
  the dump prints of them.
\<close>

locale structure_loop =
  fixes len :: "addr \<Rightarrow> nat" and dump :: "addr \<Rightarrow> out list option" and shown :: "addr \<Rightarrow> out list"
    and good :: "addr \<Rightarrow> bool"
  assumes good_dump: "good p \<Longrightarrow> dump p = Some (shown p)"
begin

text \<open>The structures of a chain are printed completely, each once, in order.\<close>

lemma prints_all:
  assumes "chain len (p + nat n) p qs" and "\<forall>q \<in> set qs. good q"
  shows "structures len dump p n os = Some (os @ concat (map shown qs))"
  using assms
proof (induction qs arbitrary: p n os)
  case Nil
  then show ?case by simp
next
  case (Cons q qs)
  then have q: "q = p" and n: "0 < n" and g: "good p" by auto
  have "chain len (p + len p + nat (n - int (len p))) (p + len p) qs"
  proof (cases "int (len p) \<le> n")
    case True
    then have eq: "p + len p + nat (n - int (len p)) = p + nat n" by simp
    from Cons.prems(1) q show ?thesis unfolding eq by simp
  next
    case False
    with Cons.prems(1) q have "qs = []" by (cases qs) auto
    with False show ?thesis by simp
  qed
  from Cons.IH [OF this] Cons.prems(2) q n good_dump [OF g] show ?case
    by (simp add: structures_step)
qed

text \<open>And a loop that returns has walked a chain.\<close>

lemma returned_chain:
  assumes "structures len dump p n os = Some r"
  shows "\<exists>qs. chain len (p + nat n) p qs"
proof -
  have "len = len \<longrightarrow> dump = dump \<longrightarrow> (\<exists>qs. chain len (p + nat n) p qs)"
  proof (rule structures.raw_induct
      [where P = "\<lambda>len' dump' p n os r. len' = len \<longrightarrow> dump' = dump \<longrightarrow> (\<exists>qs. chain len (p + nat n) p qs)",
       OF _ assms], goal_cases)
    case (1 w len' dump' p n os r)
    show ?case
    proof (intro impI)
      assume eqs: "len' = len" "dump' = dump"
      show "\<exists>qs. chain len (p + nat n) p qs"
      proof (cases "0 < n")
        case False
        then have "chain len (p + nat n) p []" by simp
        then show ?thesis ..
      next
        case True
        with 1(2) eqs obtain o1 where "w len dump (p + len p) (n - int (len p)) (os @ o1) = Some r"
          by (auto simp: bind_eq_Some_conv)
        with 1(1) [OF this] obtain qs
          where qs: "chain len (p + len p + nat (n - int (len p))) (p + len p) qs" by auto
        have "\<exists>qs. chain len (p + nat n) (p + len p) qs"
        proof (cases "int (len p) \<le> n")
          case le: True
          then have "p + len p + nat (n - int (len p)) = p + nat n" by simp
          with qs show ?thesis by metis
        next
          case False
          then have "chain len (p + nat n) (p + len p) []" by simp
          then show ?thesis ..
        qed
        then obtain rs where "chain len (p + nat n) (p + len p) rs" ..
        with True have "chain len (p + nat n) p (p # rs)" by simp
        then show ?thesis ..
      qed
    qed
  qed
  then show ?thesis by simp
qed

lemma returns_iff:
  assumes "\<And>p. good p"
  shows "structures len dump p n os \<noteq> None \<longleftrightarrow> (\<exists>qs. chain len (p + nat n) p qs)"
  using returned_chain [of p n os] prints_all [of p n _ os] assms by fastforce

text \<open>
  The loop that reads the next length first: behind the structures of a table it goes on, and the
  counter that is left is the length of the first structure less the length found there.
\<close>

lemma next_runs_over:
  assumes "fills len e p (q # qs)" and "\<forall>q \<in> set (q # qs). good q"
    and "0 < (l0 :: int)" and "n = l0 + int (e - p) - int (len p)"
  shows "structures_next len dump p n os =
    structures_next len dump e (l0 - int (len e)) (os @ concat (map shown (q # qs)))"
  using assms
proof (induction qs arbitrary: p q n os)
  case Nil
  then have q: "q = p" "p + len p = e" "0 < n" and g: "good p" by (auto simp: fills_Cons)
  with Nil.prems(4) have n: "n = l0" by auto
  show ?case using structures_next_step [of n dump p _ len os, OF \<open>0 < n\<close> good_dump [OF g]] q
    by (simp add: n)
next
  case (Cons q' qs)
  then have q: "q = p" and rest: "fills len e (p + len p) (q' # qs)" and g: "good p"
    by (auto simp: fills_Cons)
  then have le: "p + len p < e" by (simp add: fills_Cons)
  with Cons.prems(3,4) have "0 < n" by simp
  have "n - int (len (p + len p)) = l0 + int (e - (p + len p)) - int (len (p + len p))"
    using Cons.prems(4) le by simp
  from Cons.IH [OF rest _ Cons.prems(3) this] Cons.prems(2) q \<open>0 < n\<close> good_dump [OF g]
  show ?case by (simp add: structures_next_step)
qed

text \<open>A length of zero is never left.\<close>

lemma next_stuck:
  assumes "len p = 0" and "0 < n"
  shows "structures_next len dump p n os = None"
proof -
  have "q \<noteq> p \<or> n \<le> 0" if ret: "structures_next len dump q n os = Some r" for q n os r
  proof -
    have "len = len \<longrightarrow> q \<noteq> p \<or> n \<le> 0"
    proof (rule structures_next.raw_induct
        [where P = "\<lambda>len' dump' q n os r. len' = len \<longrightarrow> q \<noteq> p \<or> n \<le> 0", OF _ ret], goal_cases)
      case (1 w len' dump' q n os r)
      show ?case
      proof (rule impI, rule ccontr)
        assume eqs: "len' = len" and "\<not> (q \<noteq> p \<or> n \<le> 0)"
        then have at: "q = p" "0 < n" by auto
        with 1(2) eqs assms(1) obtain o1 where "w len dump' p n (os @ o1) = Some r"
          by (auto simp: bind_eq_Some_conv Let_def)
        from 1(1) [OF this] eqs at show False by simp
      qed
    qed
    then show ?thesis by simp
  qed
  then show ?thesis using assms(2) by (cases "structures_next len dump p n os") force+
qed

end

end
