(* ===== verification/Acpi_Fixed.thy ===== *)
theory Acpi_Fixed
  imports Acpi_Layout Acpi_Root
begin

text \<open>
  \<^verbatim>\<open>AcpiToolPkg/Library/DumpAcpi/*\<close>: The tables of fixed layout: one dump function per library, and the constructor that registers it.
  The number of a library in \<open>LibraryDump\<close> is its place in the alphabetical list of the libraries, after
  those of the MADT and the SRAT.
\<close>

section \<open>BGRT\<close>

definition DumpAcpiBGRT_contents :: "acpi_tables \<Rightarrow> acpi_layout \<Rightarrow> addr \<Rightarrow> out list" where
  "DumpAcpiBGRT_contents T L Bgrt =
     (let f = fld T L ''EFI_ACPI_5_0_BOOT_GRAPHICS_RESOURCE_TABLE'' Bgrt in
     [Print ''    Version 0x%04x'' [Hex (f ''Version'')],
       Print ''    Status 0x%02x'' [Hex (f ''Status'')],
       Print ''      Valid 0x%02x'' [Hex (f ''Status'' AND code L ''EFI_ACPI_5_0_BGRT_STATUS_VALID'')],
       Print ''    Image Type 0x%02x'' [Hex (f ''ImageType'')]]
     @ (let v = f ''ImageType'' in
        if v = code L ''EFI_ACPI_5_0_BGRT_IMAGE_TYPE_BMP'' then [Print ''      BMP'' []] else [])
     @ [Print ''    Image Address 0x%016lx'' [Hex (f ''ImageAddress'')],
       Print ''    Image OffsetX 0x%08x'' [Hex (f ''ImageOffsetX'')],
       Print ''    Image OffsetY 0x%08x'' [Hex (f ''ImageOffsetY'')]])"

definition DumpAcpiBGRT :: "acpi_tables \<Rightarrow> acpi_layout \<Rightarrow> addr \<Rightarrow> acpi_state \<Rightarrow> acpi_state option" where
  "DumpAcpiBGRT T L =
     library_dump T ''***Boot Graphics Resource Table***'' ''BGRT address 0x%016lx'' (\<lambda>p. Some (DumpAcpiBGRT_contents T L p))"

definition DumpAcpiBGRTLibConstructor :: "acpi_layout \<Rightarrow> acpi_state \<Rightarrow> efi_status \<times> acpi_state" where
  "DumpAcpiBGRTLibConstructor L = RegisterDumpAcpiTable (ucast (code L ''EFI_ACPI_5_0_BOOT_GRAPHICS_RESOURCE_TABLE_SIGNATURE'')) (LibraryDump 4)"

section \<open>BOOT\<close>

definition DumpAcpiBOOT :: "acpi_tables \<Rightarrow> acpi_layout \<Rightarrow> addr \<Rightarrow> acpi_state \<Rightarrow> acpi_state option" where
  "DumpAcpiBOOT T L =
     library_dump T ''***Simple Boot Flag Table***'' ''BOOT address 0x%016lx'' (\<lambda>p. Some [])"

definition DumpAcpiBOOTLibConstructor :: "acpi_layout \<Rightarrow> acpi_state \<Rightarrow> efi_status \<times> acpi_state" where
  "DumpAcpiBOOTLibConstructor L = RegisterDumpAcpiTable (ucast (code L ''EFI_ACPI_2_0_SIMPLE_BOOT_FLAG_TABLE_SIGNATURE'')) (LibraryDump 5)"

section \<open>CSRT\<close>

definition DumpAcpiCSRT :: "acpi_tables \<Rightarrow> acpi_layout \<Rightarrow> addr \<Rightarrow> acpi_state \<Rightarrow> acpi_state option" where
  "DumpAcpiCSRT T L =
     library_dump T ''***Core System Resources Table***'' ''CSRT address 0x%016lx'' (\<lambda>p. Some [])"

definition DumpAcpiCSRTLibConstructor :: "acpi_layout \<Rightarrow> acpi_state \<Rightarrow> efi_status \<times> acpi_state" where
  "DumpAcpiCSRTLibConstructor L = RegisterDumpAcpiTable (ucast (code L ''EFI_ACPI_5_0_CORE_SYSTEM_RESOURCE_TABLE_SIGNATURE'')) (LibraryDump 7)"

section \<open>DBGP\<close>

definition DumpAcpiDBGP_contents :: "acpi_tables \<Rightarrow> acpi_layout \<Rightarrow> addr \<Rightarrow> out list" where
  "DumpAcpiDBGP_contents T L Dbgp =
     (let f = fld T L ''EFI_ACPI_DEBUG_PORT_DESCRIPTION_TABLE'' Dbgp in
     [Print ''    Interface Type 0x%02x'' [Hex (f ''InterfaceType'')]]
     @ (let v = f ''InterfaceType'' in
        if v = code L ''EFI_ACPI_DBGP_INTERFACE_TYPE_FULL_16550'' then [Print ''      full 16550 interface'' []] else
        if v = code L ''EFI_ACPI_DBGP_INTERFACE_TYPE_16550_SUBSET_COMPATIBLE_WITH_MS_DBGP_SPEC''
            then [Print ''      16550 subset interface compatible with Microsoft Debug Port Specification'' []] else [])
     @ [Print ''    Base Address'' []]
     @ DumpAcpiGAddressStructure T (Dbgp + offset L ''EFI_ACPI_DEBUG_PORT_DESCRIPTION_TABLE'' ''BaseAddress''))"

definition DumpAcpiDBGP :: "acpi_tables \<Rightarrow> acpi_layout \<Rightarrow> addr \<Rightarrow> acpi_state \<Rightarrow> acpi_state option" where
  "DumpAcpiDBGP T L =
     library_dump T ''***Debug Port Table***'' ''DBGP address 0x%016lx'' (\<lambda>p. Some (DumpAcpiDBGP_contents T L p))"

definition DumpAcpiDBGPLibConstructor :: "acpi_layout \<Rightarrow> acpi_state \<Rightarrow> efi_status \<times> acpi_state" where
  "DumpAcpiDBGPLibConstructor L = RegisterDumpAcpiTable (ucast (code L ''EFI_ACPI_2_0_DEBUG_PORT_TABLE_SIGNATURE'')) (LibraryDump 9)"

section \<open>ECDT\<close>

definition DumpAcpiECDT_contents :: "acpi_tables \<Rightarrow> acpi_layout \<Rightarrow> addr \<Rightarrow> out list" where
  "DumpAcpiECDT_contents T L Ecdt =
     (let f = fld T L ''EFI_ACPI_2_0_EMBEDDED_CONTROLLER_BOOT_RESOURCES_TABLE'' Ecdt in
     [Print ''    EC_CONTROL'' []]
     @ DumpAcpiGAddressStructure T (Ecdt + offset L ''EFI_ACPI_2_0_EMBEDDED_CONTROLLER_BOOT_RESOURCES_TABLE'' ''EcControl'')
     @ [Print ''    EC_DATA'' []]
     @ DumpAcpiGAddressStructure T (Ecdt + offset L ''EFI_ACPI_2_0_EMBEDDED_CONTROLLER_BOOT_RESOURCES_TABLE'' ''EcData'')
     @ [Print ''    UID 0x%08x'' [Hex (f ''Uid'')],
       Print ''    GPE_BIT 0x%02x'' [Hex (f ''GpeBit'')],
       Print ''    EC_ID %a'' [Ascii (cstr L (Ecdt + extent L ''EFI_ACPI_2_0_EMBEDDED_CONTROLLER_BOOT_RESOURCES_TABLE''))]])"

definition DumpAcpiECDT :: "acpi_tables \<Rightarrow> acpi_layout \<Rightarrow> addr \<Rightarrow> acpi_state \<Rightarrow> acpi_state option" where
  "DumpAcpiECDT T L =
     library_dump T ''***Embedded Controller Boot Resources Table***'' ''ECDT address 0x%016lx'' (\<lambda>p. Some (DumpAcpiECDT_contents T L p))"

definition DumpAcpiECDTLibConstructor :: "acpi_layout \<Rightarrow> acpi_state \<Rightarrow> efi_status \<times> acpi_state" where
  "DumpAcpiECDTLibConstructor L = RegisterDumpAcpiTable (ucast (code L
      ''EFI_ACPI_2_0_EMBEDDED_CONTROLLER_BOOT_RESOURCES_TABLE_SIGNATURE'')) (LibraryDump 11)"

section \<open>ETDT\<close>

definition DumpAcpiETDT :: "acpi_tables \<Rightarrow> acpi_layout \<Rightarrow> addr \<Rightarrow> acpi_state \<Rightarrow> acpi_state option" where
  "DumpAcpiETDT T L =
     library_dump T ''***Event Timer Description Table***'' ''ETDT address 0x%016lx'' (\<lambda>p. Some [])"

definition DumpAcpiETDTLibConstructor :: "acpi_layout \<Rightarrow> acpi_state \<Rightarrow> efi_status \<times> acpi_state" where
  "DumpAcpiETDTLibConstructor L = RegisterDumpAcpiTable (ucast (code L ''EFI_ACPI_2_0_EVENT_TIMER_DESCRIPTION_TABLE_SIGNATURE'')) (LibraryDump 14)"

section \<open>GTDT\<close>

definition DumpAcpiGTDT_contents :: "acpi_tables \<Rightarrow> acpi_layout \<Rightarrow> addr \<Rightarrow> out list" where
  "DumpAcpiGTDT_contents T L Gtdt =
     (let f = fld T L ''EFI_ACPI_5_1_GENERIC_TIMER_DESCRIPTION_TABLE'' Gtdt in
     (if (of_nat (extent L ''EFI_ACPI_5_1_GENERIC_TIMER_DESCRIPTION_TABLE'')) \<le> f ''Header.Length''
         then [Print ''    Count Control Base Physical Address 0x%016lx''
         [Hex (f ''CntControlBasePhysicalAddress'')]] else [Print ''    Physical Address 0x%016lx'' [Hex (f ''CntControlBasePhysicalAddress'')],
       Print ''    Global Flags 0x%08x'' [Hex (fld T L ''EFI_ACPI_5_0_GENERIC_TIMER_DESCRIPTION_TABLE'' Gtdt ''GlobalFlags'')],
       Print ''      Memory Mapped Block Present 0x%08x'' [Hex
           (fld T L ''EFI_ACPI_5_0_GENERIC_TIMER_DESCRIPTION_TABLE'' Gtdt ''GlobalFlags''
           AND code L ''EFI_ACPI_5_0_GTDT_GLOBAL_FLAG_MEMORY_MAPPED_BLOCK_PRESENT'')],
       Print ''      Interrupt Mode 0x%08x'' [Hex
           (fld T L ''EFI_ACPI_5_0_GENERIC_TIMER_DESCRIPTION_TABLE'' Gtdt ''GlobalFlags''
           AND code L ''EFI_ACPI_5_0_GTDT_GLOBAL_FLAG_INTERRUPT_MODE'')]])
     @ [Print ''    Secure PL1 Timer GSIV 0x%08x'' [Hex (f ''SecurePL1TimerGSIV'')],
       Print ''    Secure PL1 Timer Flags 0x%08x'' [Hex (f ''SecurePL1TimerFlags'')],
       Print ''      Timer Interrupt Mode 0x%08x'' [Hex (f ''SecurePL1TimerFlags''
           AND code L ''EFI_ACPI_5_0_GTDT_TIMER_FLAG_TIMER_INTERRUPT_MODE'')],
       Print ''      Timer Interrupt Polarity 0x%08x'' [Hex (f ''SecurePL1TimerFlags''
           AND code L ''EFI_ACPI_5_0_GTDT_TIMER_FLAG_TIMER_INTERRUPT_POLARITY'')],
       Print ''    Non-Secure PL1 Timer GSIV 0x%08x'' [Hex (f ''NonSecurePL1TimerGSIV'')],
       Print ''    Non-Secure PL1 Timer Flags 0x%08x'' [Hex (f ''NonSecurePL1TimerFlags'')],
       Print ''      Timer Interrupt Mode 0x%08x'' [Hex (f ''NonSecurePL1TimerFlags''
           AND code L ''EFI_ACPI_5_0_GTDT_TIMER_FLAG_TIMER_INTERRUPT_MODE'')],
       Print ''      Timer Interrupt Polarity 0x%08x'' [Hex (f ''NonSecurePL1TimerFlags''
           AND code L ''EFI_ACPI_5_0_GTDT_TIMER_FLAG_TIMER_INTERRUPT_POLARITY'')],
       Print ''    Virtual Timer GSIV 0x%08x'' [Hex (f ''VirtualTimerGSIV'')],
       Print ''    Virtual Timer Flags 0x%08x'' [Hex (f ''VirtualTimerFlags'')],
       Print ''      Timer Interrupt Mode 0x%08x'' [Hex (f ''VirtualTimerFlags'' AND code L ''EFI_ACPI_5_0_GTDT_TIMER_FLAG_TIMER_INTERRUPT_MODE'')],
       Print ''      Timer Interrupt Polarity 0x%08x'' [Hex (f ''VirtualTimerFlags''
           AND code L ''EFI_ACPI_5_0_GTDT_TIMER_FLAG_TIMER_INTERRUPT_POLARITY'')],
       Print ''    Non-Secure PL2 Timer GSIV 0x%08x'' [Hex (f ''NonSecurePL2TimerGSIV'')],
       Print ''    Non-Secure PL2 Timer Flags 0x%08x'' [Hex (f ''NonSecurePL2TimerFlags'')],
       Print ''      Timer Interrupt Mode 0x%08x'' [Hex (f ''NonSecurePL2TimerFlags''
           AND code L ''EFI_ACPI_5_0_GTDT_TIMER_FLAG_TIMER_INTERRUPT_MODE'')],
       Print ''      Timer Interrupt Polarity 0x%08x'' [Hex (f ''NonSecurePL2TimerFlags''
           AND code L ''EFI_ACPI_5_0_GTDT_TIMER_FLAG_TIMER_INTERRUPT_POLARITY'')]]
     @ (if (of_nat (extent L ''EFI_ACPI_5_1_GENERIC_TIMER_DESCRIPTION_TABLE'')) \<le> f ''Header.Length''
         then [Print ''    Count Read Base Physical Address 0x%016lx'' [Hex (f ''CntReadBasePhysicalAddress'')],
       Print ''    Platform Timer Count 0x%08x'' [Hex (f ''PlatformTimerCount'')],
       Print ''    Platform Timer Offset 0x%08x'' [Hex (f ''PlatformTimerOffset'')]] else []))"

definition DumpAcpiGTDT :: "acpi_tables \<Rightarrow> acpi_layout \<Rightarrow> addr \<Rightarrow> acpi_state \<Rightarrow> acpi_state option" where
  "DumpAcpiGTDT T L =
     library_dump T ''***Generic Timer Description Table***'' ''GTDT address 0x%016lx'' (\<lambda>p. Some (DumpAcpiGTDT_contents T L p))"

definition DumpAcpiGTDTLibConstructor :: "acpi_layout \<Rightarrow> acpi_state \<Rightarrow> efi_status \<times> acpi_state" where
  "DumpAcpiGTDTLibConstructor L = RegisterDumpAcpiTable (ucast (code L
      ''EFI_ACPI_5_0_GENERIC_TIMER_DESCRIPTION_TABLE_SIGNATURE'')) (LibraryDump 16)"

section \<open>HPET\<close>

definition DumpAcpiHPET_contents :: "acpi_tables \<Rightarrow> acpi_layout \<Rightarrow> addr \<Rightarrow> out list" where
  "DumpAcpiHPET_contents T L Hpet =
     (let f = fld T L ''EFI_ACPI_HIGH_PRECISION_EVENT_TIMER_TABLE_HEADER'' Hpet in
     [Print ''    Event Timer Block ID 0x%08x'' [Hex (f ''EventTimerBlockId'')],
       Print ''      Hardware Rev ID 0x%08x'' [Hex (f ''EventTimerBlockId'' AND 0xFF)],
       Print ''      Number of Comparators in 1st Timer Block 0x%08x'' [Hex (f ''EventTimerBlockId'' AND 0x1F00)],
       Print ''      COUNT_SIZE_CAP counter size 0x%08x'' [Hex (f ''EventTimerBlockId'' AND 0x2000)],
       Print ''      LegacyReplacement IRQ Routing Capable 0x%08x'' [Hex (f ''EventTimerBlockId'' AND 0x8000)],
       Print ''      PCI Vendor ID of 1st Timer Block 0x%08x'' [Hex (f ''EventTimerBlockId'' AND 0xFFFF0000)],
       Print ''    BASE_ADDRESS Lower 32-bit'' []]
     @ DumpAcpiGAddressStructure T (Hpet + offset L ''EFI_ACPI_HIGH_PRECISION_EVENT_TIMER_TABLE_HEADER'' ''BaseAddressLower32Bit'')
     @ [Print ''    HPET Number 0x%02x'' [Hex (f ''HpetNumber'')],
       Print ''    Main Counter Minimum Clock_tick in Periodic Mode 0x%04x'' [Hex (f ''MainCounterMinimumClockTickInPeriodicMode'')],
       Print ''    Page Protection And OEM Attribute 0x%02x'' [Hex (f ''PageProtectionAndOemAttribute'')]]
     @ (let v = f ''PageProtectionAndOemAttribute'' AND 0xF in
        if v = code L ''EFI_ACPI_NO_PAGE_PROTECTION'' then [Print ''      no guarantee for page protection'' []] else
        if v = code L ''EFI_ACPI_4KB_PAGE_PROTECTION'' then [Print ''      4KB page protected'' []] else
        if v = code L ''EFI_ACPI_64KB_PAGE_PROTECTION'' then [Print ''      64KB page protected'' []] else []))"

definition DumpAcpiHPET :: "acpi_tables \<Rightarrow> acpi_layout \<Rightarrow> addr \<Rightarrow> acpi_state \<Rightarrow> acpi_state option" where
  "DumpAcpiHPET T L =
     library_dump T ''***High Precision Event Timers Description Table***'' ''HPET address 0x%016lx'' (\<lambda>p.
         Some (DumpAcpiHPET_contents T L p))"

definition DumpAcpiHPETLibConstructor :: "acpi_layout \<Rightarrow> acpi_state \<Rightarrow> efi_status \<times> acpi_state" where
  "DumpAcpiHPETLibConstructor L = RegisterDumpAcpiTable (ucast (code L
      ''EFI_ACPI_3_0_HIGH_PRECISION_EVENT_TIMER_TABLE_SIGNATURE'')) (LibraryDump 18)"

section \<open>IVRS\<close>

definition DumpAcpiIVRS :: "acpi_tables \<Rightarrow> acpi_layout \<Rightarrow> addr \<Rightarrow> acpi_state \<Rightarrow> acpi_state option" where
  "DumpAcpiIVRS T L =
     library_dump T ''***IO Virtualization Reporting Structure***'' ''IVRS address 0x%016lx'' (\<lambda>p. Some [])"

definition DumpAcpiIVRSLibConstructor :: "acpi_layout \<Rightarrow> acpi_state \<Rightarrow> efi_status \<times> acpi_state" where
  "DumpAcpiIVRSLibConstructor L = RegisterDumpAcpiTable (ucast (code L
      ''EFI_ACPI_4_0_IO_VIRTUALIZATION_REPORTING_STRUCTURE_SIGNATURE'')) (LibraryDump 20)"

section \<open>MCHI\<close>

definition DumpAcpiMCHI :: "acpi_tables \<Rightarrow> acpi_layout \<Rightarrow> addr \<Rightarrow> acpi_state \<Rightarrow> acpi_state option" where
  "DumpAcpiMCHI T L =
     library_dump T ''***Management Controller Host Interface Description Table***'' ''MCHI address 0x%016lx'' (\<lambda>p. Some [])"

definition DumpAcpiMCHILibConstructor :: "acpi_layout \<Rightarrow> acpi_state \<Rightarrow> efi_status \<times> acpi_state" where
  "DumpAcpiMCHILibConstructor L = RegisterDumpAcpiTable (ucast (code L
      ''EFI_ACPI_4_0_MANAGEMENT_CONTROLLER_HOST_INTERFACE_TABLE_SIGNATURE'')) (LibraryDump 23)"

section \<open>MSDM\<close>

definition DumpAcpiMSDM_contents :: "acpi_tables \<Rightarrow> acpi_layout \<Rightarrow> addr \<Rightarrow> out list" where
  "DumpAcpiMSDM_contents T L Msdm =
     (let f = fld T L ''EFI_ACPI_DESCRIPTION_HEADER'' Msdm in
     [Print ''    Software Licensing Structure:'' []]
     @ DumpAcpiHex (tmem T) (unat (f ''Length'' - (of_nat (extent L ''EFI_ACPI_DESCRIPTION_HEADER'')))) (Msdm +
         extent L ''EFI_ACPI_DESCRIPTION_HEADER''))"

definition DumpAcpiMSDM :: "acpi_tables \<Rightarrow> acpi_layout \<Rightarrow> addr \<Rightarrow> acpi_state \<Rightarrow> acpi_state option" where
  "DumpAcpiMSDM T L =
     library_dump T ''***Microsoft Data Management Table***'' ''MSDM address 0x%016lx'' (\<lambda>p. Some (DumpAcpiMSDM_contents T L p))"

definition DumpAcpiMSDMLibConstructor :: "acpi_layout \<Rightarrow> acpi_state \<Rightarrow> efi_status \<times> acpi_state" where
  "DumpAcpiMSDMLibConstructor L = RegisterDumpAcpiTable (ucast (code L ''EFI_ACPI_5_0_DATA_MANAGEMENT_TABLE_SIGNATURE'')) (LibraryDump 26)"

section \<open>RASF\<close>

definition DumpAcpiRASF_contents :: "acpi_tables \<Rightarrow> acpi_layout \<Rightarrow> addr \<Rightarrow> out list" where
  "DumpAcpiRASF_contents T L Rasf =
     ([Print ''    Platform Communication Channel Identifier'' []]
     @ concat (map (\<lambda>Index. [Print ''%02x''
         [Hex (get8 T (Rasf + offset L ''EFI_ACPI_5_0_RAS_FEATURE_TABLE'' ''PlatformCommunicationChannelIdentifier''
         + Index))]]) [0..<extent L ''EFI_ACPI_5_0_RAS_FEATURE_TABLE.PlatformCommunicationChannelIdentifier''])
     @ [Print '''' []])"

definition DumpAcpiRASF :: "acpi_tables \<Rightarrow> acpi_layout \<Rightarrow> addr \<Rightarrow> acpi_state \<Rightarrow> acpi_state option" where
  "DumpAcpiRASF T L =
     library_dump T ''***ACPI RAS Feature Table***'' ''RASF address 0x%016lx'' (\<lambda>p. Some (DumpAcpiRASF_contents T L p))"

definition DumpAcpiRASFLibConstructor :: "acpi_layout \<Rightarrow> acpi_state \<Rightarrow> efi_status \<times> acpi_state" where
  "DumpAcpiRASFLibConstructor L = RegisterDumpAcpiTable (ucast (code L ''EFI_ACPI_5_0_ACPI_RAS_FEATURE_TABLE_SIGNATURE'')) (LibraryDump 29)"

section \<open>SBST\<close>

definition DumpAcpiSBST_contents :: "acpi_tables \<Rightarrow> acpi_layout \<Rightarrow> addr \<Rightarrow> out list" where
  "DumpAcpiSBST_contents T L Sbst =
     (let f = fld T L ''EFI_ACPI_2_0_SMART_BATTERY_DESCRIPTION_TABLE'' Sbst in
     [Print ''    Warning Energy Level 0x%08x'' [Hex (f ''WarningEnergyLevel'')],
       Print ''    Low Energy Level 0x%08x'' [Hex (f ''LowEnergyLevel'')],
       Print ''    Critical Energy Level 0x%08x'' [Hex (f ''CriticalEnergyLevel'')]])"

definition DumpAcpiSBST :: "acpi_tables \<Rightarrow> acpi_layout \<Rightarrow> addr \<Rightarrow> acpi_state \<Rightarrow> acpi_state option" where
  "DumpAcpiSBST T L =
     library_dump T ''***Smart Battery Description Table***'' ''SBST address 0x%016lx'' (\<lambda>p. Some (DumpAcpiSBST_contents T L p))"

definition DumpAcpiSBSTLibConstructor :: "acpi_layout \<Rightarrow> acpi_state \<Rightarrow> efi_status \<times> acpi_state" where
  "DumpAcpiSBSTLibConstructor L = RegisterDumpAcpiTable (ucast (code L
      ''EFI_ACPI_1_0_SMART_BATTERY_SPECIFICATION_TABLE_SIGNATURE'')) (LibraryDump 30)"

section \<open>SLIC\<close>

definition DumpAcpiSLIC_contents :: "acpi_tables \<Rightarrow> acpi_layout \<Rightarrow> addr \<Rightarrow> out list" where
  "DumpAcpiSLIC_contents T L Slic =
     (let f = fld T L ''EFI_ACPI_DESCRIPTION_HEADER'' Slic in
     [Print ''    Software Licensing Structure:'' []]
     @ DumpAcpiHex (tmem T) (unat (f ''Length'' - (of_nat (extent L ''EFI_ACPI_DESCRIPTION_HEADER'')))) (Slic +
         extent L ''EFI_ACPI_DESCRIPTION_HEADER''))"

definition DumpAcpiSLIC :: "acpi_tables \<Rightarrow> acpi_layout \<Rightarrow> addr \<Rightarrow> acpi_state \<Rightarrow> acpi_state option" where
  "DumpAcpiSLIC T L =
     library_dump T ''***Microsoft Software Licensing Table***'' ''SLIC address 0x%016lx'' (\<lambda>p. Some (DumpAcpiSLIC_contents T L p))"

definition DumpAcpiSLICLibConstructor :: "acpi_layout \<Rightarrow> acpi_state \<Rightarrow> efi_status \<times> acpi_state" where
  "DumpAcpiSLICLibConstructor L = RegisterDumpAcpiTable (ucast (code L ''EFI_ACPI_5_0_SOFTWARE_LICENSING_TABLE_SIGNATURE'')) (LibraryDump 31)"

section \<open>SPCR\<close>

definition DumpAcpiSPCR_contents :: "acpi_tables \<Rightarrow> acpi_layout \<Rightarrow> addr \<Rightarrow> out list" where
  "DumpAcpiSPCR_contents T L Spcr =
     (let f = fld T L ''EFI_ACPI_SERIAL_PORT_CONSOLE_REDIRECTION_TABLE'' Spcr in
     [Print ''    Interface Type 0x%02x'' [Hex (f ''InterfaceType'')]]
     @ (let v = f ''InterfaceType'' in
        if v = 0 then [Print ''      full 16550 interface'' []] else
        if v = 1 then [Print ''      full 16450 interface (must also accept writing to the 16550 FCR register)'' []] else [])
     @ [Print ''    Base Address'' []]
     @ DumpAcpiGAddressStructure T (Spcr + offset L ''EFI_ACPI_SERIAL_PORT_CONSOLE_REDIRECTION_TABLE'' ''BaseAddress'')
     @ [Print ''    Interrupt Type 0x%02x'' [Hex (f ''InterruptType'')],
       Print ''      PC-AT-compatible dual-8259 IRQ interrupt 0x%02x'' [Hex (f ''InterruptType'' AND 0x1)],
       Print ''      I/O APIC interrupt (Global System Interrupt) 0x%02x'' [Hex (f ''InterruptType'' AND 0x2)],
       Print ''      I/O SAPIC interrupt (Global System Interrupt) 0x%02x'' [Hex (f ''InterruptType'' AND 0x4)],
       Print ''    IRQ 0x%02x'' [Hex (f ''Irq'')],
       Print ''    Global System Interrupt 0x%08x'' [Hex (f ''GlobalSystemInterrupt'')],
       Print ''    Baud Rate 0x%02x'' [Hex (f ''BaudRate'')]]
     @ (let v = f ''BaudRate'' in
        if v = 3 then [Print ''      9600'' []] else
        if v = 4 then [Print ''      19200'' []] else
        if v = 6 then [Print ''      57600'' []] else
        if v = 7 then [Print ''      115200'' []] else [])
     @ [Print ''    Parity 0x%02x'' [Hex (f ''Parity'')]]
     @ (let v = f ''Parity'' in
        if v = 0 then [Print ''      No parity'' []] else [])
     @ [Print ''    Stop Bits 0x%02x'' [Hex (f ''StopBits'')]]
     @ (let v = f ''StopBits'' in
        if v = 1 then [Print ''      1 Stop bit'' []] else [])
     @ [Print ''    Flow Control 0x%02x'' [Hex (f ''FlowControl'')],
       Print ''      DCD required for transmit  0x%02x'' [Hex (f ''FlowControl'' AND 0x1)],
       Print ''      RTS/CTS hardware flow control 0x%02x'' [Hex (f ''FlowControl'' AND 0x2)],
       Print ''      XON/XOFF software control 0x%02x'' [Hex (f ''FlowControl'' AND 0x4)],
       Print ''    Terminal Type 0x%02x'' [Hex (f ''TerminalType'')]]
     @ (let v = f ''TerminalType'' in
        if v = 0 then [Print ''      VT100'' []] else
        if v = 1 then [Print ''      VT100+'' []] else
        if v = 2 then [Print ''      VT-UTF8'' []] else
        if v = 3 then [Print ''      ANSI'' []] else [])
     @ [Print ''    PCI Device ID 0x%04x'' [Hex (f ''PciDeviceId'')],
       Print ''    PCI Vendor ID 0x%04x'' [Hex (f ''PciVendorId'')],
       Print ''    PCI Bus Bumber 0x%02x'' [Hex (f ''PciBusNumber'')],
       Print ''    PCI Device Bumber 0x%02x'' [Hex (f ''PciDeviceNumber'')],
       Print ''    PCI Function Bumber 0x%02x'' [Hex (f ''PciFunctionNumber'')],
       Print ''    PCI Flags 0x%08x'' [Hex (f ''PciFlags'')],
       Print ''      OS NOT suppress PNP device enumeration 0x%08x'' [Hex (f ''PciFlags'' AND 0x1)],
       Print ''    PCI Segment 0x%02x'' [Hex (f ''PciSegment'')]])"

definition DumpAcpiSPCR :: "acpi_tables \<Rightarrow> acpi_layout \<Rightarrow> addr \<Rightarrow> acpi_state \<Rightarrow> acpi_state option" where
  "DumpAcpiSPCR T L =
     library_dump T ''***Serial Port Console Redirection Table***'' ''SPCR address 0x%016lx'' (\<lambda>p. Some (DumpAcpiSPCR_contents T L p))"

definition DumpAcpiSPCRLibConstructor :: "acpi_layout \<Rightarrow> acpi_state \<Rightarrow> efi_status \<times> acpi_state" where
  "DumpAcpiSPCRLibConstructor L = RegisterDumpAcpiTable (ucast (code L
      ''EFI_ACPI_2_0_SERIAL_PORT_CONSOLE_REDIRECTION_TABLE_SIGNATURE'')) (LibraryDump 33)"

section \<open>SPMI\<close>

definition DumpAcpiSPMI_contents :: "acpi_tables \<Rightarrow> acpi_layout \<Rightarrow> addr \<Rightarrow> out list" where
  "DumpAcpiSPMI_contents T L Spmi =
     ([Print ''    Interface Type 0x%02x'' [Hex (get8 T (Spmi + (sizeof_HEADER T + 1)))]]
     @ (let v = get8 T (Spmi + (sizeof_HEADER T + 1)) in
        if v = 1 then [Print ''      Keyboard Controller Style (KCS)'' []] else
        if v = 2 then [Print ''      Server Management Interface Chip (SMIC)'' []] else
        if v = 3 then [Print ''      Block Transfer (BT)'' []] else
        if v = 4 then [Print ''      SMBus System Interface (SSIF)'' []] else [])
     @ [Print ''    Specification Revision 0x%04x'' [Hex (get16 T (Spmi + (sizeof_HEADER T + 2)))],
       Print ''    Interrupt Type 0x%02x'' [Hex (get8 T (Spmi + (sizeof_HEADER T + 4)))],
       Print ''      SCI triggered through GPE 0x%02x'' [Hex ((get8 T (Spmi + (sizeof_HEADER T + 4))) AND 0x1)],
       Print ''      I/O APIC/SAPIC interrupt (Global System Interrupt) 0x%02x'' [Hex ((get8 T (Spmi + (sizeof_HEADER T + 4))) AND 0x2)],
       Print ''    GPE 0x%02x'' [Hex (get8 T (Spmi + (sizeof_HEADER T + 5)))],
       Print ''    PCI Device Flag 0x%02x'' [Hex (get8 T (Spmi + (sizeof_HEADER T + 7)))],
       Print ''      PCI Device Flag Set 0x%02x'' [Hex ((get8 T (Spmi + (sizeof_HEADER T + 7))) AND 0x1)],
       Print ''    Global System Interrupt 0x%08x'' [Hex (get32 T (Spmi + (sizeof_HEADER T + 8)))],
       Print ''    Base Address'' []]
     @ DumpAcpiGAddressStructure T (Spmi + (sizeof_HEADER T + 12))
     @ (if (get8 T (Spmi + (sizeof_HEADER T + 7))) AND 0x1 \<noteq> 0
         then [Print ''    PCI Segment Group 0x%02x'' [Hex (get8 T (Spmi + (sizeof_HEADER T + 12 + sizeof_GAS L)))],
       Print ''    PCI Bus Bumber 0x%02x'' [Hex (get8 T (Spmi + (sizeof_HEADER T + 13 + sizeof_GAS L)))],
       Print ''    PCI Device Bumber 0x%02x'' [Hex ((get8 T (Spmi + (sizeof_HEADER T + 14 + sizeof_GAS L))) AND 0xF)],
       Print ''    PCI Function Bumber 0x%02x'' [Hex ((get8 T (Spmi + (sizeof_HEADER T + 15 + sizeof_GAS L))) AND 0x7)],
       Print ''      Interrupt Flag 0x%02x'' [Hex ((get8 T (Spmi + (sizeof_HEADER T + 15 + sizeof_GAS L)))
           AND 0x40)]] else [Print ''    UID byte 1 0x%02x'' [Hex (get8 T (Spmi + (sizeof_HEADER T + 12 + sizeof_GAS L)))],
       Print ''    UID byte 2 0x%02x'' [Hex (get8 T (Spmi + (sizeof_HEADER T + 13 + sizeof_GAS L)))],
       Print ''    UID byte 3 0x%02x'' [Hex (get8 T (Spmi + (sizeof_HEADER T + 14 + sizeof_GAS L)))],
       Print ''    UID byte 4 0x%02x'' [Hex (get8 T (Spmi + (sizeof_HEADER T + 15 + sizeof_GAS L)))]]))"

definition DumpAcpiSPMI :: "acpi_tables \<Rightarrow> acpi_layout \<Rightarrow> addr \<Rightarrow> acpi_state \<Rightarrow> acpi_state option" where
  "DumpAcpiSPMI T L =
     library_dump T ''***Service Processor Management Interface Description Table***'' ''SPMI address 0x%016lx''
         (\<lambda>p. Some (DumpAcpiSPMI_contents T L p))"

definition DumpAcpiSPMILibConstructor :: "acpi_layout \<Rightarrow> acpi_state \<Rightarrow> efi_status \<times> acpi_state" where
  "DumpAcpiSPMILibConstructor L = RegisterDumpAcpiTable (ucast (code L
      ''EFI_ACPI_2_0_SERVER_PLATFORM_MANAGEMENT_INTERFACE_SIGNATURE'')) (LibraryDump 34)"

section \<open>UEFI\<close>

definition DumpAcpiUEFI_contents :: "acpi_tables \<Rightarrow> acpi_layout \<Rightarrow> addr \<Rightarrow> out list" where
  "DumpAcpiUEFI_contents T L Uefi =
     (let f = fld T L ''EFI_ACPI_DATA_TABLE'' Uefi in
     [Print ''    Identifier %g'' [Ascii (bytes_at (tmem T) (Uefi + offset L ''EFI_ACPI_DATA_TABLE'' ''Identifier'') 16)],
       Print ''    Data Offset 0x%02x'' [Hex (f ''DataOffset'')]]
     @ (if bytes_at (tmem T) (Uefi + offset L ''EFI_ACPI_DATA_TABLE'' ''Identifier'') 16 = guid_code L
         ''gEfiSmmCommunicationProtocolGuid'' then [Print ''    SwSmi Number 0x%08x'' [Hex
         (fld T L ''EFI_SMM_COMMUNICATION_ACPI_TABLE'' Uefi ''SwSmiNumber'')],
       Print ''    BufferPtrAddress 0x%016lx'' [Hex (fld T L ''EFI_SMM_COMMUNICATION_ACPI_TABLE'' Uefi ''BufferPtrAddress'')]] else []))"

definition DumpAcpiUEFI :: "acpi_tables \<Rightarrow> acpi_layout \<Rightarrow> addr \<Rightarrow> acpi_state \<Rightarrow> acpi_state option" where
  "DumpAcpiUEFI T L =
     library_dump T ''***UEFI ACPI Data Table***'' ''UEFI address 0x%016lx'' (\<lambda>p. Some (DumpAcpiUEFI_contents T L p))"

definition DumpAcpiUEFILibConstructor :: "acpi_layout \<Rightarrow> acpi_state \<Rightarrow> efi_status \<times> acpi_state" where
  "DumpAcpiUEFILibConstructor L = RegisterDumpAcpiTable (ucast (code L ''EFI_ACPI_4_0_UEFI_ACPI_DATA_TABLE_SIGNATURE'')) (LibraryDump 37)"

section \<open>WAET\<close>

definition DumpAcpiWAET :: "acpi_tables \<Rightarrow> acpi_layout \<Rightarrow> addr \<Rightarrow> acpi_state \<Rightarrow> acpi_state option" where
  "DumpAcpiWAET T L =
     library_dump T ''***Windows ACPI Emulated Devices Table***'' ''WAET address 0x%016lx'' (\<lambda>p. Some [])"

definition DumpAcpiWAETLibConstructor :: "acpi_layout \<Rightarrow> acpi_state \<Rightarrow> efi_status \<times> acpi_state" where
  "DumpAcpiWAETLibConstructor L = RegisterDumpAcpiTable (ucast (code L
      ''EFI_ACPI_4_0_WINDOWS_ACPI_ENLIGHTENMENT_TABLE_SIGNATURE'')) (LibraryDump 38)"

section \<open>WDDT\<close>

definition DumpAcpiWDDT_contents :: "acpi_tables \<Rightarrow> acpi_layout \<Rightarrow> addr \<Rightarrow> out list" where
  "DumpAcpiWDDT_contents T L Wddt =
     ([Print ''    Spec Version 0x%04x'' [Hex (get16 T (Wddt + (sizeof_HEADER T)))],
       Print ''    Table Version 0x%04x'' [Hex (get16 T (Wddt + (sizeof_HEADER T + 2)))],
       Print ''    Vid 0x%04x'' [Hex (get16 T (Wddt + (sizeof_HEADER T + 4)))],
       Print ''    Base Address'' []]
     @ DumpAcpiGAddressStructure T (Wddt + (sizeof_HEADER T + 6))
     @ [Print ''    Timer Max Count 0x%04x'' [Hex (get16 T (Wddt + (sizeof_HEADER T + 6 + sizeof_GAS L)))],
       Print ''    Timer Min Count 0x%04x'' [Hex (get16 T (Wddt + (sizeof_HEADER T + 8 + sizeof_GAS L)))],
       Print ''    Timer Count Period 0x%04x'' [Hex (get16 T (Wddt + (sizeof_HEADER T + 10 + sizeof_GAS L)))],
       Print ''    Status 0x%04x'' [Hex (get16 T (Wddt + (sizeof_HEADER T + 12 + sizeof_GAS L)))],
       Print ''      Available 0x%04x'' [Hex ((get16 T (Wddt + (sizeof_HEADER T + 12 + sizeof_GAS L))) AND 0x0001)],
       Print ''      Active 0x%04x'' [Hex ((get16 T (Wddt + (sizeof_HEADER T + 12 + sizeof_GAS L))) AND 0x0002)],
       Print ''      Owned By OS (Or BIOS) 0x%04x'' [Hex ((get16 T (Wddt + (sizeof_HEADER T + 12 + sizeof_GAS L))) AND 0x0004)],
       Print ''      User Reset Event 0x%04x'' [Hex ((get16 T (Wddt + (sizeof_HEADER T + 12 + sizeof_GAS L))) AND 0x0800)],
       Print ''      Watchdog Timer Event 0x%04x'' [Hex ((get16 T (Wddt + (sizeof_HEADER T + 12 + sizeof_GAS L))) AND 0x1000)],
       Print ''      Power Fail Event 0x%04x'' [Hex ((get16 T (Wddt + (sizeof_HEADER T + 12 + sizeof_GAS L))) AND 0x2000)],
       Print ''      Unknown Reset Event 0x%04x'' [Hex ((get16 T (Wddt + (sizeof_HEADER T + 12 + sizeof_GAS L))) AND 0x4000)],
       Print ''    Capability 0x%04x'' [Hex (get16 T (Wddt + (sizeof_HEADER T + 14 + sizeof_GAS L)))],
       Print ''      Auto Reset 0x%04x'' [Hex ((get16 T (Wddt + (sizeof_HEADER T + 14 + sizeof_GAS L))) AND 0x0001)],
       Print ''      Alert Support 0x%04x'' [Hex ((get16 T (Wddt + (sizeof_HEADER T + 14 + sizeof_GAS L))) AND 0x0002)],
       Print ''      Platform Shutdown 0x%04x'' [Hex ((get16 T (Wddt + (sizeof_HEADER T + 14 + sizeof_GAS L))) AND 0x0004)],
       Print ''      Immediate Shutdown 0x%04x'' [Hex ((get16 T (Wddt + (sizeof_HEADER T + 14 + sizeof_GAS L))) AND 0x0008)],
       Print ''      BIOS Handoff Support 0x%04x'' [Hex ((get16 T (Wddt + (sizeof_HEADER T + 14 + sizeof_GAS L))) AND 0x0010)]])"

definition DumpAcpiWDDT :: "acpi_tables \<Rightarrow> acpi_layout \<Rightarrow> addr \<Rightarrow> acpi_state \<Rightarrow> acpi_state option" where
  "DumpAcpiWDDT T L =
     library_dump T ''***Watchdog Description Table***'' ''WDDT address 0x%016lx'' (\<lambda>p. Some (DumpAcpiWDDT_contents T L p))"

definition DumpAcpiWDDTLibConstructor :: "acpi_layout \<Rightarrow> acpi_state \<Rightarrow> efi_status \<times> acpi_state" where
  "DumpAcpiWDDTLibConstructor L = RegisterDumpAcpiTable (SIGNATURE_32 0x57 0x44 0x44 0x54) (LibraryDump 40)"

section \<open>WDRT\<close>

definition DumpAcpiWdrtv1 :: "acpi_tables \<Rightarrow> acpi_layout \<Rightarrow> addr \<Rightarrow> out list" where
  "DumpAcpiWdrtv1 T L Wdrtv1 =
     (if Wdrtv1 = NULL then [] else
      let f = fld T L ''EFI_ACPI_WATCHDOG_RESOURCE_1_0_TABLE'' Wdrtv1 in
     [Print ''    Control Register Address'' []]
     @ DumpAcpiGAddressStructure T (Wdrtv1 + offset L ''EFI_ACPI_WATCHDOG_RESOURCE_1_0_TABLE'' ''ControlRegisterAddress'')
     @ [Print ''    Count Register Address'' []]
     @ DumpAcpiGAddressStructure T (Wdrtv1 + offset L ''EFI_ACPI_WATCHDOG_RESOURCE_1_0_TABLE'' ''CountRegisterAddress'')
     @ [Print ''    PCI Device ID 0x%04x'' [Hex (f ''PCIDeviceID'')],
       Print ''    PCI Vendor ID 0x%04x'' [Hex (f ''PCIVendorID'')],
       Print ''    PCI Bus Number 0x%02x'' [Hex (f ''PCIBusNumber'')],
       Print ''    PCI Device Number 0x%02x'' [Hex (f ''PCIDeviceNumber'')],
       Print ''    PCI Function Number 0x%02x'' [Hex (f ''PCIFunctionNumber'')],
       Print ''    PCI Segment 0x%02x'' [Hex (f ''PCISegment'')],
       Print ''    Max Count 0x%04x'' [Hex (f ''MaxCount'')],
       Print ''    Units 0x%02x'' [Hex (f ''Units'')]]
     @ (let v = f ''Units'' in
        if v = code L ''EFI_ACPI_WDRT_1_0_COUNT_UNIT_1_SEC_PER_COUNT'' then [Print ''      1 seconds/count'' []] else
        if v = code L ''EFI_ACPI_WDRT_1_0_COUNT_UNIT_100_MILLISEC_PER_COUNT'' then [Print ''      100 milliseconds/count'' []] else
        if v = code L ''EFI_ACPI_WDRT_1_0_COUNT_UNIT_10_MILLISEC_PER_COUNT'' then [Print ''      10 milliseconds/count'' []] else []))"

definition DumpAcpiWDRT_contents :: "acpi_tables \<Rightarrow> acpi_layout \<Rightarrow> addr \<Rightarrow> out list" where
  "DumpAcpiWDRT_contents T L Wdrt =
     (DumpAcpiWdrtv1 T L Wdrt)"

definition DumpAcpiWDRT :: "acpi_tables \<Rightarrow> acpi_layout \<Rightarrow> addr \<Rightarrow> acpi_state \<Rightarrow> acpi_state option" where
  "DumpAcpiWDRT T L =
     library_dump T ''***Watchdog Resource Table***'' ''WDRT address 0x%016lx'' (\<lambda>p. Some (DumpAcpiWDRT_contents T L p))"

definition DumpAcpiWDRTLibConstructor :: "acpi_layout \<Rightarrow> acpi_state \<Rightarrow> efi_status \<times> acpi_state" where
  "DumpAcpiWDRTLibConstructor L = RegisterDumpAcpiTable (ucast (code L ''EFI_ACPI_3_0_WATCHDOG_RESOURCE_TABLE_SIGNATURE'')) (LibraryDump 41)"

section \<open>WPBT\<close>

definition DumpAcpiWPBT :: "acpi_tables \<Rightarrow> acpi_layout \<Rightarrow> addr \<Rightarrow> acpi_state \<Rightarrow> acpi_state option" where
  "DumpAcpiWPBT T L =
     library_dump T ''***Windows Platform Binary Table***'' ''WPBT address 0x%016lx'' (\<lambda>p. Some [])"

definition DumpAcpiWPBTLibConstructor :: "acpi_layout \<Rightarrow> acpi_state \<Rightarrow> efi_status \<times> acpi_state" where
  "DumpAcpiWPBTLibConstructor L = RegisterDumpAcpiTable (ucast (code L ''EFI_ACPI_5_0_PLATFORM_BINARY_TABLE_SIGNATURE'')) (LibraryDump 42)"

section \<open>WSMT\<close>

definition DumpAcpiWSMT_contents :: "acpi_tables \<Rightarrow> acpi_layout \<Rightarrow> addr \<Rightarrow> out list" where
  "DumpAcpiWSMT_contents T L Wsmt =
     (let f = fld T L ''EFI_ACPI_WSMT_TABLE'' Wsmt in
     [Print ''    Protection Flags 0x%08x'' [Hex (f ''ProtectionFlags'')],
       Print ''      FIXED_COMM_BUFFERS 0x%08x'' [Hex (f ''ProtectionFlags'' AND code L ''EFI_WSMT_PROTECTION_FLAGS_FIXED_COMM_BUFFERS'')],
       Print ''      COMM_BUFFER_NESTED_PTR_PROTECTION 0x%08x'' [Hex (f ''ProtectionFlags''
           AND code L ''EFI_WSMT_PROTECTION_FLAGS_COMM_BUFFER_NESTED_PTR_PROTECTION'')],
       Print ''      SYSTEM_RESOURCE_PROTECTION 0x%08x'' [Hex (f ''ProtectionFlags''
           AND code L ''EFI_WSMT_PROTECTION_FLAGS_SYSTEM_RESOURCE_PROTECTION'')]])"

definition DumpAcpiWSMT :: "acpi_tables \<Rightarrow> acpi_layout \<Rightarrow> addr \<Rightarrow> acpi_state \<Rightarrow> acpi_state option" where
  "DumpAcpiWSMT T L =
     library_dump T ''***Windows SMM Security Mitigation Table***'' ''WSMT address 0x%016lx'' (\<lambda>p. Some (DumpAcpiWSMT_contents T L p))"

definition DumpAcpiWSMTLibConstructor :: "acpi_layout \<Rightarrow> acpi_state \<Rightarrow> efi_status \<times> acpi_state" where
  "DumpAcpiWSMTLibConstructor L = RegisterDumpAcpiTable (ucast (code L
      ''EFI_ACPI_WINDOWS_SMM_SECURITY_MITIGATION_TABLE_SIGNATURE'')) (LibraryDump 43)"

section \<open>WSPT\<close>

definition DumpAcpiWSPT :: "acpi_tables \<Rightarrow> acpi_layout \<Rightarrow> addr \<Rightarrow> acpi_state \<Rightarrow> acpi_state option" where
  "DumpAcpiWSPT T L =
     library_dump T ''***Windows Specific Properties Table***'' ''WSPT address 0x%016lx'' (\<lambda>p. Some [])"

definition DumpAcpiWSPTLibConstructor :: "acpi_layout \<Rightarrow> acpi_state \<Rightarrow> efi_status \<times> acpi_state" where
  "DumpAcpiWSPTLibConstructor L = RegisterDumpAcpiTable (ucast (code L
      ''EFI_ACPI_3_0_WINDOWS_SPECIFIC_PROPERTIES_TABLE_SIGNATURE'')) (LibraryDump 44)"

end
