(* ===== verification/Acpi_Counted.thy ===== *)
theory Acpi_Counted
  imports Acpi_Layout
begin

text \<open>
  \<^verbatim>\<open>AcpiToolPkg/Library/DumpAcpi/*\<close>: The tables with arrays of counted structures, the TPM2 table with its control area, the hardware error
  source table, a counted list of structures whose type gives their size, and the iSCSI boot firmware
  table, whose structures are found by offsets from its start.
\<close>

section \<open>BERT\<close>

definition DumpBootErrorRegion :: "acpi_tables \<Rightarrow> acpi_layout \<Rightarrow> addr \<Rightarrow> u64 \<Rightarrow> out list" where
  "DumpBootErrorRegion T L BootErrorRegion BootErrorRegionLength =
     (if BootErrorRegion = NULL then [] else
      let f = fld T L ''EFI_ACPI_4_0_BOOT_ERROR_REGION_STRUCTURE'' BootErrorRegion in
     [Print ''  ***Boot Error Region***'' [],
       Print ''    Block Status 0x%08x'' [Hex (f ''BlockStatus'')],
       Print ''      Uncorrectable Error Valid 0x%08x'' [Hex (f ''BlockStatus.UncorrectableErrorValid'')],
       Print ''      Correctable Error Valid 0x%08x'' [Hex (f ''BlockStatus.CorrectableErrorValid'')],
       Print ''      Multiple Uncorrectable Errors 0x%08x'' [Hex (f ''BlockStatus.MultipleUncorrectableErrors'')],
       Print ''      Multiple Correctable Errors 0x%08x'' [Hex (f ''BlockStatus.MultipleCorrectableErrors'')],
       Print ''      Error Data Entry Count 0x%08x'' [Hex (f ''BlockStatus.ErrorDataEntryCount'')],
       Print ''    Raw Data Offset 0x%08x'' [Hex (f ''RawDataOffset'')],
       Print ''    Raw Data Length 0x%08x'' [Hex (f ''RawDataLength'')],
       Print ''    Data Length 0x%08x'' [Hex (f ''DataLength'')],
       Print ''    Error Severity 0x%08x'' [Hex (f ''ErrorSeverity'')]]
     @ (let v = f ''ErrorSeverity'' in
        if v = code L ''EFI_ACPI_4_0_ERROR_SEVERITY_CORRECTABLE'' then [Print ''      Correctable'' []] else
        if v = code L ''EFI_ACPI_4_0_ERROR_SEVERITY_FATAL'' then [Print ''      Fatal'' []] else
        if v = code L ''EFI_ACPI_4_0_ERROR_SEVERITY_CORRECTED'' then [Print ''      Corrected'' []] else
        if v = code L ''EFI_ACPI_4_0_ERROR_SEVERITY_NONE'' then [Print ''      None'' []] else [])
     @ [Print ''  ***'' []])"

definition DumpAcpiBERT_contents :: "acpi_tables \<Rightarrow> acpi_layout \<Rightarrow> addr \<Rightarrow> out list" where
  "DumpAcpiBERT_contents T L Bert =
     (let f = fld T L ''EFI_ACPI_4_0_BOOT_ERROR_RECORD_TABLE_HEADER'' Bert in
     [Print ''    Boot Error Region Length 0x%08x'' [Hex (f ''BootErrorRegionLength'')],
       Print ''    Boot Error Region 0x%016lx'' [Hex (f ''BootErrorRegion'')]]
     @ DumpBootErrorRegion T L (unat (f ''BootErrorRegion'')) (f ''BootErrorRegionLength''))"

definition DumpAcpiBERT :: "acpi_tables \<Rightarrow> acpi_layout \<Rightarrow> addr \<Rightarrow> acpi_state \<Rightarrow> acpi_state option" where
  "DumpAcpiBERT T L =
     library_dump T ''***Boot Error Record Table***'' ''BERT address 0x%016lx'' (\<lambda>p. Some (DumpAcpiBERT_contents T L p))"

definition DumpAcpiBERTLibConstructor :: "acpi_layout \<Rightarrow> acpi_state \<Rightarrow> efi_status \<times> acpi_state" where
  "DumpAcpiBERTLibConstructor L = RegisterDumpAcpiTable (ucast (code L ''EFI_ACPI_4_0_BOOT_ERROR_RECORD_TABLE_SIGNATURE'')) (LibraryDump 3)"

section \<open>DBG2\<close>

definition DumpDbg2DeviceInfoStruct :: "acpi_tables \<Rightarrow> acpi_layout \<Rightarrow> addr \<Rightarrow> out list" where
  "DumpDbg2DeviceInfoStruct T L Dbg2DebugDeviceInfo =
     (if Dbg2DebugDeviceInfo = NULL then [] else
      let f = fld T L ''EFI_ACPI_DBG2_DEBUG_DEVICE_INFORMATION_STRUCT'' Dbg2DebugDeviceInfo in
     [Print ''  ***Dbg2 Device Information Structure***'' [],
       Print ''  Dbg2 Device Information address 0x%016lx'' [hxn Dbg2DebugDeviceInfo],
       Print ''    Revision 0x%02x'' [Hex (f ''Revision'')],
       Print ''    Length 0x%04x'' [Hex (f ''Length'')],
       Print ''    Number of Generic Address Registers 0x%02x'' [Hex (f ''NumberofGenericAddressRegisters'')],
       Print ''    NameSpace String Length 0x%04x'' [Hex (f ''NameSpaceStringLength'')],
       Print ''    NameSpace String Offset 0x%04x'' [Hex (f ''NameSpaceStringOffset'')]]
     @ (if f ''NameSpaceStringOffset'' \<noteq> 0
         then [Print ''      %a'' [Ascii (cstr L (Dbg2DebugDeviceInfo + unat (f ''NameSpaceStringOffset'')))]] else [])
     @ [Print ''    Oem Data Length 0x%04x'' [Hex (f ''OemDataLength'')],
       Print ''    Oem Data Offset 0x%04x'' [Hex (f ''OemDataOffset'')]]
     @ (if f ''OemDataOffset'' \<noteq> 0 then ([Print ''    Oem Data:'' []]
         @ DumpAcpiHex (tmem T) (unat (f ''OemDataLength'')) (Dbg2DebugDeviceInfo + unat (f ''OemDataOffset'')) @ [Print '''' []]) else [])
     @ [Print ''    Port Type 0x%04x'' [Hex (f ''PortType'')]]
     @ (let v = f ''PortType'' in
        if v = code L ''EFI_ACPI_DBG2_PORT_TYPE_SERIAL'' then [Print ''      Serial'' []] else
        if v = code L ''EFI_ACPI_DBG2_PORT_TYPE_1394'' then [Print ''      1394'' []] else
        if v = code L ''EFI_ACPI_DBG2_PORT_TYPE_USB'' then [Print ''      USB'' []] else
        if v = code L ''EFI_ACPI_DBG2_PORT_TYPE_NET'' then [Print ''      NET'' []] else [])
     @ [Print ''    Port Subtype 0x%04x'' [Hex (f ''PortSubtype'')]]
     @ (let v = f ''PortType'' in
        if v = code L ''EFI_ACPI_DBG2_PORT_TYPE_SERIAL'' then (let v = f ''PortSubtype'' in
        if v = code L ''EFI_ACPI_DBG2_PORT_SUBTYPE_SERIAL_FULL_16550'' then [Print ''      full 16550 interface'' []] else
        if v = code L ''EFI_ACPI_DBG2_PORT_SUBTYPE_SERIAL_16550_SUBSET_COMPATIBLE_WITH_MS_DBGP_SPEC''
            then [Print ''      16550 subset interface compatible with Microsoft Debug Port Specification'' []] else []) else
        if v = code L ''EFI_ACPI_DBG2_PORT_TYPE_1394'' then (let v = f ''PortSubtype'' in
        if v = code L ''EFI_ACPI_DBG2_PORT_SUBTYPE_1394_STANDARD'' then [Print ''      IEEE1394 Standard'' []] else []) else
        if v = code L ''EFI_ACPI_DBG2_PORT_TYPE_USB'' then (let v = f ''PortSubtype'' in
        if v = code L ''EFI_ACPI_DBG2_PORT_SUBTYPE_USB_XHCI'' then [Print ''      XHCI compatible'' []] else
        if v = code L ''EFI_ACPI_DBG2_PORT_SUBTYPE_USB_EHCI'' then [Print ''      EHCI compatible'' []] else []) else
        if v = code L ''EFI_ACPI_DBG2_PORT_TYPE_NET'' then [Print ''      Vendor ID: %04x'' [Hex (f ''PortSubtype'')]] else [])
     @ [Print ''    Base Address Register Offset 0x%04x'' [Hex (f ''BaseAddressRegisterOffset'')]]
     @ concat (map (\<lambda>Index. ([Print ''    Base Address Register(%d)'' [hxn Index]]
         @ DumpAcpiGAddressStructure T (Dbg2DebugDeviceInfo + unat (f ''BaseAddressRegisterOffset'') + extent L
         ''EFI_ACPI_3_0_GENERIC_ADDRESS_STRUCTURE'' * Index))) [0..<unat (f ''NumberofGenericAddressRegisters'')])
     @ [Print ''    Address Size Offset 0x%04x'' [Hex (f ''AddressSizeOffset'')]]
     @ concat (map (\<lambda>Index. [Print ''    Address Size(%d): 0x%08x'' [hxn Index,
         Hex (get32 T (Dbg2DebugDeviceInfo + unat (f ''AddressSizeOffset'') + 4 * Index))]]) [0..<unat (f ''NumberofGenericAddressRegisters'')])
     @ [Print ''  ***'' []])"

definition DumpAcpiDBG2_contents :: "acpi_tables \<Rightarrow> acpi_layout \<Rightarrow> addr \<Rightarrow> out list" where
  "DumpAcpiDBG2_contents T L Dbg2 =
     (let f = fld T L ''EFI_ACPI_DEBUG_PORT_2_DESCRIPTION_TABLE'' Dbg2 in
     [Print ''    Number Dbg Device Info 0x%08x'' [Hex (f ''NumberDbgDeviceInfo'')],
       Print ''    Offset Dbg Device Info 0x%08x'' [Hex (f ''OffsetDbgDeviceInfo'')]]
     @ concat (map (\<lambda>Index. DumpDbg2DeviceInfoStruct T L (nth_structure (\<lambda>p. unat
         (fld T L ''EFI_ACPI_DBG2_DEBUG_DEVICE_INFORMATION_STRUCT'' p ''Length'')) Index (Dbg2 + unat (f
         ''OffsetDbgDeviceInfo'')))) [0..<unat (f ''NumberDbgDeviceInfo'')]))"

definition DumpAcpiDBG2 :: "acpi_tables \<Rightarrow> acpi_layout \<Rightarrow> addr \<Rightarrow> acpi_state \<Rightarrow> acpi_state option" where
  "DumpAcpiDBG2 T L =
     library_dump T ''***Debug Port 2 Table***'' ''DBG2 address 0x%016lx'' (\<lambda>p. Some (DumpAcpiDBG2_contents T L p))"

definition DumpAcpiDBG2LibConstructor :: "acpi_layout \<Rightarrow> acpi_state \<Rightarrow> efi_status \<times> acpi_state" where
  "DumpAcpiDBG2LibConstructor L = RegisterDumpAcpiTable (ucast (code L ''EFI_ACPI_5_0_DEBUG_PORT_2_TABLE_SIGNATURE'')) (LibraryDump 8)"

section \<open>EINJ\<close>

definition DumpEinjInstructionEntry :: "acpi_tables \<Rightarrow> acpi_layout \<Rightarrow> addr \<Rightarrow> out list" where
  "DumpEinjInstructionEntry T L InstructionEntry =
     (if InstructionEntry = NULL then [] else
      let f = fld T L ''EFI_ACPI_4_0_EINJ_INJECTION_INSTRUCTION_ENTRY'' InstructionEntry in
     [Print ''  ***EINJ Instruction Entry***'' [],
       Print ''  EINJ Instruction Entry address 0x%016lx'' [hxn InstructionEntry],
       Print ''    Injection Action 0x%02x'' [Hex (f ''InjectionAction'')]]
     @ (let v = f ''InjectionAction'' in
        if v = code L ''EFI_ACPI_4_0_EINJ_BEGIN_INJECTION_OPERATION'' then [Print ''      BEGIN_INJECTION_OPERATION'' []] else
        if v = code L ''EFI_ACPI_4_0_EINJ_GET_TRIGGER_ERROR_ACTION_TABLE'' then [Print ''      GET_TRIGGER_ERROR_ACTION_TABLE'' []] else
        if v = code L ''EFI_ACPI_4_0_EINJ_SET_ERROR_TYPE'' then [Print ''      SET_ERROR_TYPE'' []] else
        if v = code L ''EFI_ACPI_4_0_EINJ_GET_ERROR_TYPE'' then [Print ''      GET_ERROR_TYPE'' []] else
        if v = code L ''EFI_ACPI_4_0_EINJ_END_OPERATION'' then [Print ''      END_OPERATION'' []] else
        if v = code L ''EFI_ACPI_4_0_EINJ_EXECUTE_OPERATION'' then [Print ''      EXECUTE_OPERATION'' []] else
        if v = code L ''EFI_ACPI_4_0_EINJ_CHECK_BUSY_STATUS'' then [Print ''      CHECK_BUSY_STATUS'' []] else
        if v = code L ''EFI_ACPI_4_0_EINJ_GET_COMMAND_STATUS'' then [Print ''      GET_COMMAND_STATUS'' []] else
        if v = code L ''EFI_ACPI_4_0_EINJ_TRIGGER_ERROR'' then [Print ''      TRIGGER_ERROR'' []] else [])
     @ [Print ''    Instruction 0x%02x'' [Hex (f ''Instruction'')]]
     @ (let v = f ''Instruction'' in
        if v = code L ''EFI_ACPI_4_0_EINJ_READ_REGISTER'' then [Print ''      READ_REGISTER'' []] else
        if v = code L ''EFI_ACPI_4_0_EINJ_READ_REGISTER_VALUE'' then [Print ''      READ_REGISTER_VALUE'' []] else
        if v = code L ''EFI_ACPI_4_0_EINJ_WRITE_REGISTER'' then [Print ''      WRITE_REGISTER'' []] else
        if v = code L ''EFI_ACPI_4_0_EINJ_WRITE_REGISTER_VALUE'' then [Print ''      WRITE_REGISTER_VALUE'' []] else
        if v = code L ''EFI_ACPI_4_0_EINJ_NOOP'' then [Print ''      NOOP'' []] else [])
     @ [Print ''    Flags 0x%02x'' [Hex (f ''Flags'')],
       Print ''      PRESERVE_REGISTER 0x%02x'' [Hex (f ''Flags'' AND code L ''EFI_ACPI_4_0_EINJ_PRESERVE_REGISTER'')],
       Print ''    Register Region'' []]
     @ DumpAcpiGAddressStructure T (InstructionEntry + offset L ''EFI_ACPI_4_0_EINJ_INJECTION_INSTRUCTION_ENTRY'' ''RegisterRegion'')
     @ [Print ''    Value 0x%016lx'' [Hex (f ''Value'')],
       Print ''    Mask 0x%016lx'' [Hex (f ''Mask'')],
       Print ''  ***'' []])"

definition DumpAcpiEINJ_contents :: "acpi_tables \<Rightarrow> acpi_layout \<Rightarrow> addr \<Rightarrow> out list" where
  "DumpAcpiEINJ_contents T L Einj =
     (let f = fld T L ''EFI_ACPI_4_0_ERROR_INJECTION_TABLE_HEADER'' Einj in
     [Print ''    Injection Header Size 0x%08x'' [Hex (f ''InjectionHeaderSize'')],
       Print ''    Injection Flags 0x%02x'' [Hex (f ''InjectionFlags'')],
       Print ''    Injection Entry Count 0x%08x'' [Hex (f ''InjectionEntryCount'')]]
     @ concat (map (\<lambda>Index. DumpEinjInstructionEntry T L (Einj + extent L
         ''EFI_ACPI_4_0_ERROR_INJECTION_TABLE_HEADER'' + extent L ''EFI_ACPI_4_0_EINJ_INJECTION_INSTRUCTION_ENTRY'' *
         Index)) [0..<unat (f ''InjectionEntryCount'')]))"

definition DumpAcpiEINJ :: "acpi_tables \<Rightarrow> acpi_layout \<Rightarrow> addr \<Rightarrow> acpi_state \<Rightarrow> acpi_state option" where
  "DumpAcpiEINJ T L =
     library_dump T ''***Error Record Serialization Table***'' ''EINJ address 0x%016lx'' (\<lambda>p. Some (DumpAcpiEINJ_contents T L p))"

definition DumpAcpiEINJLibConstructor :: "acpi_layout \<Rightarrow> acpi_state \<Rightarrow> efi_status \<times> acpi_state" where
  "DumpAcpiEINJLibConstructor L = RegisterDumpAcpiTable (ucast (code L ''EFI_ACPI_4_0_ERROR_INJECTION_TABLE_SIGNATURE'')) (LibraryDump 12)"

section \<open>ERST\<close>

definition DumpErstInstructionEntry :: "acpi_tables \<Rightarrow> acpi_layout \<Rightarrow> addr \<Rightarrow> out list" where
  "DumpErstInstructionEntry T L InstructionEntry =
     (if InstructionEntry = NULL then [] else
      let f = fld T L ''EFI_ACPI_4_0_ERST_SERIALIZATION_INSTRUCTION_ENTRY'' InstructionEntry in
     [Print ''  ***ERST Instruction Entry***'' [],
       Print ''  ERST Instruction Entry address 0x%016lx'' [hxn InstructionEntry],
       Print ''    Serialization Action 0x%02x'' [Hex (f ''SerializationAction'')]]
     @ (let v = f ''SerializationAction'' in
        if v = code L ''EFI_ACPI_4_0_ERST_BEGIN_WRITE_OPERATION'' then [Print ''      BEGIN_WRITE_OPERATION'' []] else
        if v = code L ''EFI_ACPI_4_0_ERST_BEGIN_READ_OPERATION'' then [Print ''      BEGIN_READ_OPERATION'' []] else
        if v = code L ''EFI_ACPI_4_0_ERST_BEGIN_CLEAR_OPERATION'' then [Print ''      BEGIN_CLEAR_OPERATION'' []] else
        if v = code L ''EFI_ACPI_4_0_ERST_END_OPERATION'' then [Print ''      END_OPERATION'' []] else
        if v = code L ''EFI_ACPI_4_0_ERST_SET_RECORD_OFFSET'' then [Print ''      SET_RECORD_OFFSET'' []] else
        if v = code L ''EFI_ACPI_4_0_ERST_EXECUTE_OPERATION'' then [Print ''      EXECUTE_OPERATION'' []] else
        if v = code L ''EFI_ACPI_4_0_ERST_CHECK_BUSY_STATUS'' then [Print ''      CHECK_BUSY_STATUS'' []] else
        if v = code L ''EFI_ACPI_4_0_ERST_GET_COMMAND_STATUS'' then [Print ''      GET_COMMAND_STATUS'' []] else
        if v = code L ''EFI_ACPI_4_0_ERST_GET_RECORD_IDENTIFIER'' then [Print ''      GET_RECORD_IDENTIFIER'' []] else
        if v = code L ''EFI_ACPI_4_0_ERST_SET_RECORD_IDENTIFIER'' then [Print ''      SET_RECORD_IDENTIFIER'' []] else
        if v = code L ''EFI_ACPI_4_0_ERST_GET_RECORD_COUNT'' then [Print ''      GET_RECORD_COUNT'' []] else
        if v = code L ''EFI_ACPI_4_0_ERST_BEGIN_DUMMY_WRITE_OPERATION'' then [Print ''      BEGIN_DUMMY_WRITE_OPERATION'' []] else
        if v = code L ''EFI_ACPI_4_0_ERST_GET_ERROR_LOG_ADDRESS_RANGE'' then [Print ''      GET_ERROR_LOG_ADDRESS_RANGE'' []] else
        if v = code L ''EFI_ACPI_4_0_ERST_GET_ERROR_LOG_ADDRESS_RANGE_LENGTH'' then [Print ''      GET_ERROR_LOG_ADDRESS_RANGE_LENGTH'' []] else
        if v = code L ''EFI_ACPI_4_0_ERST_GET_ERROR_LOG_ADDRESS_RANGE_ATTRIBUTES''
            then [Print ''      GET_ERROR_LOG_ADDRESS_RANGE_ATTRIBUTES'' []] else [])
     @ [Print ''    Instruction 0x%02x'' [Hex (f ''Instruction'')]]
     @ (let v = f ''Instruction'' in
        if v = code L ''EFI_ACPI_4_0_ERST_READ_REGISTER'' then [Print ''      READ_REGISTER'' []] else
        if v = code L ''EFI_ACPI_4_0_ERST_READ_REGISTER_VALUE'' then [Print ''      READ_REGISTER_VALUE'' []] else
        if v = code L ''EFI_ACPI_4_0_ERST_WRITE_REGISTER'' then [Print ''      WRITE_REGISTER'' []] else
        if v = code L ''EFI_ACPI_4_0_ERST_WRITE_REGISTER_VALUE'' then [Print ''      WRITE_REGISTER_VALUE'' []] else
        if v = code L ''EFI_ACPI_4_0_ERST_NOOP'' then [Print ''      NOOP'' []] else
        if v = code L ''EFI_ACPI_4_0_ERST_LOAD_VAR1'' then [Print ''      LOAD_VAR1'' []] else
        if v = code L ''EFI_ACPI_4_0_ERST_LOAD_VAR2'' then [Print ''      LOAD_VAR2'' []] else
        if v = code L ''EFI_ACPI_4_0_ERST_STORE_VAR1'' then [Print ''      STORE_VAR1'' []] else
        if v = code L ''EFI_ACPI_4_0_ERST_ADD'' then [Print ''      ADD'' []] else
        if v = code L ''EFI_ACPI_4_0_ERST_SUBTRACT'' then [Print ''      SUBTRACT'' []] else
        if v = code L ''EFI_ACPI_4_0_ERST_ADD_VALUE'' then [Print ''      ADD_VALUE'' []] else
        if v = code L ''EFI_ACPI_4_0_ERST_SUBTRACT_VALUE'' then [Print ''      SUBTRACT_VALUE'' []] else
        if v = code L ''EFI_ACPI_4_0_ERST_STALL'' then [Print ''      STALL'' []] else
        if v = code L ''EFI_ACPI_4_0_ERST_STALL_WHILE_TRUE'' then [Print ''      STALL_WHILE_TRUE'' []] else
        if v = code L ''EFI_ACPI_4_0_ERST_SKIP_NEXT_INSTRUCTION_IF_TRUE'' then [Print ''      SKIP_NEXT_INSTRUCTION_IF_TRUE'' []] else
        if v = code L ''EFI_ACPI_4_0_ERST_GOTO'' then [Print ''      GOTO'' []] else
        if v = code L ''EFI_ACPI_4_0_ERST_SET_SRC_ADDRESS_BASE'' then [Print ''      SET_SRC_ADDRESS_BASE'' []] else
        if v = code L ''EFI_ACPI_4_0_ERST_SET_DST_ADDRESS_BASE'' then [Print ''      SET_DST_ADDRESS_BASE'' []] else
        if v = code L ''EFI_ACPI_4_0_ERST_MOVE_DATA'' then [Print ''      MOVE_DATA'' []] else [])
     @ [Print ''    Flags 0x%02x'' [Hex (f ''Flags'')],
       Print ''      PRESERVE_REGISTER 0x%02x'' [Hex (f ''Flags'' AND code L ''EFI_ACPI_4_0_ERST_PRESERVE_REGISTER'')],
       Print ''    Register Region'' []]
     @ DumpAcpiGAddressStructure T (InstructionEntry + offset L ''EFI_ACPI_4_0_ERST_SERIALIZATION_INSTRUCTION_ENTRY'' ''RegisterRegion'')
     @ [Print ''    Value 0x%016lx'' [Hex (f ''Value'')],
       Print ''    Mask 0x%016lx'' [Hex (f ''Mask'')],
       Print ''  ***'' []])"

definition DumpAcpiERST_contents :: "acpi_tables \<Rightarrow> acpi_layout \<Rightarrow> addr \<Rightarrow> out list" where
  "DumpAcpiERST_contents T L Erst =
     (let f = fld T L ''EFI_ACPI_4_0_ERROR_RECORD_SERIALIZATION_TABLE_HEADER'' Erst in
     [Print ''    Serialization Header Size 0x%08x'' [Hex (f ''SerializationHeaderSize'')],
       Print ''    Instruction Entry Count 0x%08x'' [Hex (f ''InstructionEntryCount'')]]
     @ concat (map (\<lambda>Index. DumpErstInstructionEntry T L (Erst + extent L
         ''EFI_ACPI_4_0_ERROR_RECORD_SERIALIZATION_TABLE_HEADER'' + extent L
         ''EFI_ACPI_4_0_ERST_SERIALIZATION_INSTRUCTION_ENTRY'' * Index)) [0..<unat (f ''InstructionEntryCount'')]))"

definition DumpAcpiERST :: "acpi_tables \<Rightarrow> acpi_layout \<Rightarrow> addr \<Rightarrow> acpi_state \<Rightarrow> acpi_state option" where
  "DumpAcpiERST T L =
     library_dump T ''***Error Record Serialization Table***'' ''ERST address 0x%016lx'' (\<lambda>p. Some (DumpAcpiERST_contents T L p))"

definition DumpAcpiERSTLibConstructor :: "acpi_layout \<Rightarrow> acpi_state \<Rightarrow> efi_status \<times> acpi_state" where
  "DumpAcpiERSTLibConstructor L = RegisterDumpAcpiTable (ucast (code L
      ''EFI_ACPI_4_0_ERROR_RECORD_SERIALIZATION_TABLE_SIGNATURE'')) (LibraryDump 13)"

section \<open>MPST\<close>

definition DumpMemoryPowerNode :: "acpi_tables \<Rightarrow> acpi_layout \<Rightarrow> addr \<Rightarrow> out list" where
  "DumpMemoryPowerNode T L MemoryPowerNode =
     (if MemoryPowerNode = NULL then [] else
      let f = fld T L ''EFI_ACPI_5_0_MPST_MEMORY_POWER_STRUCTURE'' MemoryPowerNode in
     [Print ''  ***Memory Power Node***'' [],
       Print ''  Memory Power Node address 0x%016lx'' [hxn MemoryPowerNode],
       Print ''    Flag 0x%02x'' [Hex (f ''Flag'')],
       Print ''      Enabled 0x%02x'' [Hex (f ''Flag'' AND code L ''EFI_ACPI_5_0_MPST_MEMORY_POWER_STRUCTURE_FLAG_ENABLE'')],
       Print ''      Power Managed 0x%02x'' [Hex (f ''Flag'' AND code L ''EFI_ACPI_5_0_MPST_MEMORY_POWER_STRUCTURE_FLAG_POWER_MANAGED'')],
       Print ''      Hot Pluggable 0x%02x'' [Hex (f ''Flag'' AND code L ''EFI_ACPI_5_0_MPST_MEMORY_POWER_STRUCTURE_FLAG_HOT_PLUGGABLE'')],
       Print ''    Memory Power Node Id 0x%04x'' [Hex (f ''MemoryPowerNodeId'')],
       Print ''    Length 0x%08x'' [Hex (f ''Length'')],
       Print ''    Address Base 0x%016lx'' [Hex (f ''AddressBase'')],
       Print ''    Address Length 0x%016lx'' [Hex (f ''AddressLength'')],
       Print ''    Number Of Power States 0x%02x'' [Hex (f ''NumberOfPowerStates'')],
       Print ''    Number Of Physical Components 0x%02x'' [Hex (f ''NumberOfPhysicalComponents'')]]
     @ concat (map (\<lambda>Index. [Print ''    Power State Value 0x%02x'' [Hex
         (fld T L ''EFI_ACPI_5_0_MPST_MEMORY_POWER_STATE'' (MemoryPowerNode + extent L
         ''EFI_ACPI_5_0_MPST_MEMORY_POWER_STRUCTURE'' + extent L ''EFI_ACPI_5_0_MPST_MEMORY_POWER_STATE'' * Index) ''PowerStateValue'')],
       Print ''    Power State Info Index 0x%02x'' [Hex
           (fld T L ''EFI_ACPI_5_0_MPST_MEMORY_POWER_STATE'' (MemoryPowerNode + extent L
           ''EFI_ACPI_5_0_MPST_MEMORY_POWER_STRUCTURE'' + extent L ''EFI_ACPI_5_0_MPST_MEMORY_POWER_STATE'' * Index)
           ''PowerStateInformationIndex'')]]) [0..<unat (f ''NumberOfPowerStates'')])
     @ concat (map (\<lambda>Index. [Print ''    Physical Component Identifier 0x%04x''
         [Hex (get16 T (MemoryPowerNode + extent L ''EFI_ACPI_5_0_MPST_MEMORY_POWER_STRUCTURE'' + extent L
         ''EFI_ACPI_5_0_MPST_MEMORY_POWER_STATE'' * unat (f ''NumberOfPowerStates'') + 2 * Index))]]) [0..<unat (f ''NumberOfPhysicalComponents'')])
     @ [Print ''  ***'' []])"

definition DumpMemoryPowerStateCharacteristic :: "acpi_tables \<Rightarrow> acpi_layout \<Rightarrow> addr \<Rightarrow> out list" where
  "DumpMemoryPowerStateCharacteristic T L MemoryPowerStateCharacteristic =
     (if MemoryPowerStateCharacteristic = NULL then [] else
      let f = fld T L ''EFI_ACPI_5_0_MPST_MEMORY_POWER_STATE_CHARACTERISTICS_STRUCTURE'' MemoryPowerStateCharacteristic in
     [Print ''  ***Memory Power State Characteristic***'' [],
       Print ''  Memory Power State Characteristic address 0x%016lx'' [hxn MemoryPowerStateCharacteristic],
       Print ''    Power State Structure ID 0x%02x'' [Hex (f ''PowerStateStructureID'')],
       Print ''    Flag 0x%02x'' [Hex (f ''Flag'')],
       Print ''      Memory Contents Preserved 0x%02x'' [Hex (f ''Flag''
           AND code L ''EFI_ACPI_5_0_MPST_MEMORY_POWER_STATE_CHARACTERISTICS_STRUCTURE_FLAG_MEMORY_CONTENT_PRESERVED'')],
       Print ''      Autonomous Memory Power State Entry 0x%02x'' [Hex (f ''Flag''
           AND code L ''EFI_ACPI_5_0_MPST_MEMORY_POWER_STATE_CHARACTERISTICS_STRUCTURE_FLAG_AUTONOMOUS_MEMORY_POWER_STATE_ENTRY'')],
       Print ''      Autonomous Memory Power State Exit 0x%02x'' [Hex (f ''Flag''
           AND code L ''EFI_ACPI_5_0_MPST_MEMORY_POWER_STATE_CHARACTERISTICS_STRUCTURE_FLAG_AUTONOMOUS_MEMORY_POWER_STATE_EXIT'')],
       Print ''    Average Power Consumed in MPS0 0x%08x'' [Hex (f ''AveragePowerConsumedInMPS0'')],
       Print ''    Relative Power Saving to MPS0 0x%08x'' [Hex (f ''RelativePowerSavingToMPS0'')],
       Print ''    Exit Latency To Mps0 0x%016lx'' [Hex (f ''ExitLatencyToMPS0'')],
       Print ''  ***'' []])"

definition DumpAcpiMPST_contents :: "acpi_tables \<Rightarrow> acpi_layout \<Rightarrow> addr \<Rightarrow> out list" where
  "DumpAcpiMPST_contents T L Mpst =
     (let f = fld T L ''EFI_ACPI_5_0_MEMORY_POWER_STATUS_TABLE'' Mpst in
     [Print ''    Platform Communication Channel Identifier 0x%08x'' [Hex (f ''PlatformCommunicationChannelIdentifier'')]]
     @ concat (map (\<lambda>Index. DumpMemoryPowerNode T L (nth_structure (\<lambda>p. unat
         (fld T L ''EFI_ACPI_5_0_MPST_MEMORY_POWER_STRUCTURE'' p ''Length'')) Index (Mpst + extent L
         ''EFI_ACPI_5_0_MEMORY_POWER_STATUS_TABLE'' + extent L ''EFI_ACPI_5_0_MPST_MEMORY_POWER_NODE_TABLE'')))
         [0..<unat
         (fld T L ''EFI_ACPI_5_0_MPST_MEMORY_POWER_NODE_TABLE'' (Mpst + extent L
         ''EFI_ACPI_5_0_MEMORY_POWER_STATUS_TABLE'') ''MemoryPowerNodeCount'')])
     @ concat (map (\<lambda>Index. DumpMemoryPowerStateCharacteristic T L (nth_structure (\<lambda>p. unat
         (fld T L ''EFI_ACPI_5_0_MPST_MEMORY_POWER_STRUCTURE'' p ''Length'')) (unat
         (fld T L ''EFI_ACPI_5_0_MPST_MEMORY_POWER_NODE_TABLE'' (Mpst + extent L
         ''EFI_ACPI_5_0_MEMORY_POWER_STATUS_TABLE'') ''MemoryPowerNodeCount'')) (Mpst + extent L
         ''EFI_ACPI_5_0_MEMORY_POWER_STATUS_TABLE'' + extent L ''EFI_ACPI_5_0_MPST_MEMORY_POWER_NODE_TABLE'') +
         extent L ''EFI_ACPI_5_0_MPST_MEMORY_POWER_STATE_CHARACTERISTICS_TABLE'' + extent L
         ''EFI_ACPI_5_0_MPST_MEMORY_POWER_STATE_CHARACTERISTICS_STRUCTURE'' * Index)) [0..<unat
         (fld T L ''EFI_ACPI_5_0_MPST_MEMORY_POWER_STATE_CHARACTERISTICS_TABLE'' (nth_structure (\<lambda>p. unat
         (fld T L ''EFI_ACPI_5_0_MPST_MEMORY_POWER_STRUCTURE'' p ''Length'')) (unat
         (fld T L ''EFI_ACPI_5_0_MPST_MEMORY_POWER_NODE_TABLE'' (Mpst + extent L
         ''EFI_ACPI_5_0_MEMORY_POWER_STATUS_TABLE'') ''MemoryPowerNodeCount'')) (Mpst + extent L
         ''EFI_ACPI_5_0_MEMORY_POWER_STATUS_TABLE'' + extent L ''EFI_ACPI_5_0_MPST_MEMORY_POWER_NODE_TABLE''))
         ''MemoryPowerStateCharacteristicsCount'')]))"

definition DumpAcpiMPST :: "acpi_tables \<Rightarrow> acpi_layout \<Rightarrow> addr \<Rightarrow> acpi_state \<Rightarrow> acpi_state option" where
  "DumpAcpiMPST T L =
     library_dump T ''***Memory Power State Table***'' ''MPST address 0x%016lx'' (\<lambda>p. Some (DumpAcpiMPST_contents T L p))"

definition DumpAcpiMPSTLibConstructor :: "acpi_layout \<Rightarrow> acpi_state \<Rightarrow> efi_status \<times> acpi_state" where
  "DumpAcpiMPSTLibConstructor L = RegisterDumpAcpiTable (ucast (code L ''EFI_ACPI_5_0_MEMORY_POWER_STATE_TABLE_SIGNATURE'')) (LibraryDump 24)"

section \<open>MSCT\<close>

definition DumpAcpiMaximumProximityDomainInformation :: "acpi_tables \<Rightarrow> acpi_layout \<Rightarrow> addr \<Rightarrow> out list" where
  "DumpAcpiMaximumProximityDomainInformation T L MaximumProximityDomainInformation =
     (if MaximumProximityDomainInformation = NULL then [] else
      let f = fld T L ''EFI_ACPI_4_0_MAXIMUM_PROXIMITY_DOMAIN_INFORMATION_STRUCTURE'' MaximumProximityDomainInformation in
     [Print ''  ***Maximum Proximity Domain Information Structure***'' [],
       Print ''  MaximumProximityDomainInformation address 0x%016lx'' [hxn MaximumProximityDomainInformation],
       Print ''    Revision 0x%02x'' [Hex (f ''Revision'')],
       Print ''    Length 0x%02x'' [Hex (f ''Length'')],
       Print ''    Proximity Domain Range Low 0x%04x'' [Hex (f ''ProximityDomainRangeLow'')],
       Print ''    Proximity Domain Range High 0x%04x'' [Hex (f ''ProximityDomainRangeHigh'')],
       Print ''    Maximum Processor Capacity 0x%04x'' [Hex (f ''MaximumProcessorCapacity'')],
       Print ''    Maximum Memory Capacity 0x%08x'' [Hex (f ''MaximumMemoryCapacity'')],
       Print ''  ***'' []])"

definition DumpAcpiMSCT_contents :: "acpi_tables \<Rightarrow> acpi_layout \<Rightarrow> addr \<Rightarrow> out list" where
  "DumpAcpiMSCT_contents T L Msct =
     (let f = fld T L ''EFI_ACPI_4_0_MAXIMUM_SYSTEM_CHARACTERISTICS_TABLE_HEADER'' Msct in
     [Print ''    Offset to Proximity Domain Information Structure 0x%08x'' [Hex (f ''OffsetProxDomInfo'')],
       Print ''    Maximum Number of Proximity Domains 0x%08x'' [Hex (f ''MaximumNumberOfProximityDomains'')],
       Print ''    Maximum Number of Clock Domains 0x%08x'' [Hex (f ''MaximumNumberOfClockDomains'')],
       Print ''    Maximum Physical Address 0x%016lx'' [Hex (f ''MaximumPhysicalAddress'')]]
     @ concat (map (\<lambda>Index. DumpAcpiMaximumProximityDomainInformation T L (nth_structure (\<lambda>p. unat
         (fld T L ''EFI_ACPI_4_0_MAXIMUM_PROXIMITY_DOMAIN_INFORMATION_STRUCTURE'' p ''Length'')) Index (Msct + unat
         (f ''OffsetProxDomInfo'')))) [0..<Suc (unat (f ''MaximumNumberOfProximityDomains''))]))"

definition DumpAcpiMSCT :: "acpi_tables \<Rightarrow> acpi_layout \<Rightarrow> addr \<Rightarrow> acpi_state \<Rightarrow> acpi_state option" where
  "DumpAcpiMSCT T L =
     library_dump T ''***Maximum System Characteristics Table***'' ''MSCT address 0x%016lx'' (\<lambda>p. Some (DumpAcpiMSCT_contents T L p))"

definition DumpAcpiMSCTLibConstructor :: "acpi_layout \<Rightarrow> acpi_state \<Rightarrow> efi_status \<times> acpi_state" where
  "DumpAcpiMSCTLibConstructor L = RegisterDumpAcpiTable (ucast (code L
      ''EFI_ACPI_4_0_MAXIMUM_SYSTEM_CHARACTERISTICS_TABLE_SIGNATURE'')) (LibraryDump 25)"

section \<open>SLIT\<close>

text \<open>The three conversions of the matrix format have one argument, the entry.\<close>

definition DumpAcpiSLIT_contents :: "acpi_tables \<Rightarrow> acpi_layout \<Rightarrow> addr \<Rightarrow> out list option" where
  "DumpAcpiSLIT_contents T L Slit =
     (let N = unat (fld T L ''EFI_ACPI_3_0_SYSTEM_LOCALITY_DISTANCE_INFORMATION_TABLE_HEADER'' Slit ''NumberOfSystemLocalities'');
          Entry = Slit + extent L ''EFI_ACPI_3_0_SYSTEM_LOCALITY_DISTANCE_INFORMATION_TABLE_HEADER''
      in Some ([Print ''    Number Of System Localities 0x%016lx'' [hxn N]]
           @ concat (map (\<lambda>EntryIndexI. concat (map (\<lambda>EntryIndexJ.
               [Print ''    Matrix entry (%016lxh,%016lxh) 0x%02x'' [Hex (get8 T (Entry + EntryIndexI * N + EntryIndexJ))]])
               [0..<N])) [0..<N])))"

definition DumpAcpiSLIT :: "acpi_tables \<Rightarrow> acpi_layout \<Rightarrow> addr \<Rightarrow> acpi_state \<Rightarrow> acpi_state option" where
  "DumpAcpiSLIT T L =
     library_dump T ''***System Locality Distance Information Table***'' ''SLIT address 0x%016lx'' (DumpAcpiSLIT_contents T L)"

definition DumpAcpiSLITLibConstructor :: "acpi_layout \<Rightarrow> acpi_state \<Rightarrow> efi_status \<times> acpi_state" where
  "DumpAcpiSLITLibConstructor L = RegisterDumpAcpiTable (ucast (code L
      ''EFI_ACPI_2_0_SYSTEM_LOCALITY_INFORMATION_TABLE_SIGNATURE'')) (LibraryDump 32)"

section \<open>TPM2\<close>

text \<open>\<^verbatim>\<open>MmioRead32\<close> reads the memory.\<close>

definition InternalMmioRead64 :: "acpi_tables \<Rightarrow> addr \<Rightarrow> u64" where
  "InternalMmioRead64 T Address = get32 T Address + push_bit 32 (get32 T (Address + 4))"

definition DumpAcpiTpm2ControlArea :: "acpi_tables \<Rightarrow> acpi_layout \<Rightarrow> addr \<Rightarrow> out list" where
  "DumpAcpiTpm2ControlArea T L ControlArea =
     (if ControlArea = NULL then [] else
      let at = (\<lambda>F. ControlArea + offset L ''EFI_TPM2_ACPI_CONTROL_AREA'' F)
      in [Print ''  ***TPM2 Control Area***'' [],
          Print ''    Error 0x%08x'' [Hex (get32 T (at ''Error''))],
          Print ''    Cancel 0x%08x'' [Hex (get32 T (at ''Cancel''))],
          Print ''    Start 0x%08x'' [Hex (get32 T (at ''Start''))],
          Print ''    Interrupt Control 0x%016lx'' [Hex (InternalMmioRead64 T (at ''InterruptControl''))],
          Print ''    Command Size 0x%08x'' [Hex (get32 T (at ''CommandSize''))],
          Print ''    Command 0x%016lx'' [Hex (InternalMmioRead64 T (at ''Command''))],
          Print ''    Response Size 0x%08x'' [Hex (get32 T (at ''ResponseSize''))],
          Print ''    Response 0x%016lx'' [Hex (InternalMmioRead64 T (at ''Response''))],
          Print ''  ***'' []])"

text \<open>The cases of TIS and CRB lack their \<^verbatim>\<open>break\<close> and run into the next one.\<close>

definition DumpAcpiTPM2_contents :: "acpi_tables \<Rightarrow> acpi_layout \<Rightarrow> addr \<Rightarrow> out list option" where
  "DumpAcpiTPM2_contents T L Tpm2 =
     (let f = fld T L ''EFI_TPM2_ACPI_TABLE'' Tpm2; v = f ''StartMethod'';
          crb_acpi = [Print ''      CRB with ACPI'' []];
          crb = [Print ''      CRB'' []] @ crb_acpi;
          tis = [Print ''      TIS'' []] @ crb
      in Some ([Print ''    Flags 0x%08x'' [Hex (f ''Flags'')],
           Print ''    Address Of Control Area 0x%016lx'' [Hex (f ''AddressOfControlArea'')],
           Print ''    Start Method 0x%08x'' [Hex v]]
         @ (if v = code L ''EFI_TPM2_ACPI_TABLE_START_METHOD_ACPI'' then [Print ''      ACPI'' []] else
            if v = code L ''EFI_TPM2_ACPI_TABLE_START_METHOD_TIS'' then tis else
            if v = code L ''EFI_TPM2_ACPI_TABLE_START_METHOD_COMMAND_RESPONSE_BUFFER_INTERFACE'' then crb else
            if v = code L ''EFI_TPM2_ACPI_TABLE_START_METHOD_COMMAND_RESPONSE_BUFFER_INTERFACE_WITH_ACPI'' then crb_acpi else [])
         @ DumpAcpiTpm2ControlArea T L (unat (f ''AddressOfControlArea''))))"

definition DumpAcpiTPM2 :: "acpi_tables \<Rightarrow> acpi_layout \<Rightarrow> addr \<Rightarrow> acpi_state \<Rightarrow> acpi_state option" where
  "DumpAcpiTPM2 T L =
     library_dump T ''***Trusted Computing Platform 2 Table***'' ''TPM2 address 0x%016lx'' (DumpAcpiTPM2_contents T L)"

definition DumpAcpiTPM2LibConstructor :: "acpi_layout \<Rightarrow> acpi_state \<Rightarrow> efi_status \<times> acpi_state" where
  "DumpAcpiTPM2LibConstructor L = RegisterDumpAcpiTable (ucast (code L
      ''EFI_ACPI_5_0_TRUSTED_COMPUTING_PLATFORM_2_TABLE_SIGNATURE'')) (LibraryDump 36)"

section \<open>WDAT\<close>

definition DumpAcpiWdatActionTable :: "acpi_tables \<Rightarrow> acpi_layout \<Rightarrow> addr \<Rightarrow> out list" where
  "DumpAcpiWdatActionTable T L WatchdogActionTable =
     (if WatchdogActionTable = NULL then [] else
      let f = fld T L ''EFI_ACPI_WATCHDOG_ACTION_1_0_WATCHDOG_ACTION_INSTRUCTION_ENTRY'' WatchdogActionTable in
     [Print ''  ***Watchdog Action Table***'' [],
       Print ''  Watchdog Action Table address 0x%016lx'' [hxn WatchdogActionTable],
       Print ''    Watchdog Action 0x%02x'' [Hex (f ''WatchdogAction'')]]
     @ (let v = f ''WatchdogAction'' in
        if v = code L ''EFI_ACPI_WDAT_1_0_WATCHDOG_ACTION_RESET'' then [Print ''      Reset'' []] else
        if v = code L ''EFI_ACPI_WDAT_1_0_WATCHDOG_ACTION_QUERY_CURRENT_COUNTDOWN_PERIOD''
            then [Print ''      Query Current Countdown Period'' []] else
        if v = code L ''EFI_ACPI_WDAT_1_0_WATCHDOG_ACTION_QUERY_COUNTDOWN_PERIOD'' then [Print ''      Query Countdown Period'' []] else
        if v = code L ''EFI_ACPI_WDAT_1_0_WATCHDOG_ACTION_SET_COUNTDOWN_PERIOD'' then [Print ''      Set Countdown Period'' []] else
        if v = code L ''EFI_ACPI_WDAT_1_0_WATCHDOG_ACTION_QUERY_RUNNING_STATE'' then [Print ''      Query Running State'' []] else
        if v = code L ''EFI_ACPI_WDAT_1_0_WATCHDOG_ACTION_SET_RUNNING_STATE'' then [Print ''      Set Running State'' []] else
        if v = code L ''EFI_ACPI_WDAT_1_0_WATCHDOG_ACTION_QUERY_STOPPED_STATE'' then [Print ''      Query Stopped State'' []] else
        if v = code L ''EFI_ACPI_WDAT_1_0_WATCHDOG_ACTION_SET_STOPPED_STATE'' then [Print ''      Set Stopped State'' []] else
        if v = code L ''EFI_ACPI_WDAT_1_0_WATCHDOG_ACTION_QUERY_REBOOT'' then [Print ''      Query Reboot'' []] else
        if v = code L ''EFI_ACPI_WDAT_1_0_WATCHDOG_ACTION_SET_REBOOT'' then [Print ''      Set Reboot'' []] else
        if v = code L ''EFI_ACPI_WDAT_1_0_WATCHDOG_ACTION_QUERY_SHUTDOWN'' then [Print ''      Query Shutdown'' []] else
        if v = code L ''EFI_ACPI_WDAT_1_0_WATCHDOG_ACTION_SET_SHUTDOWN'' then [Print ''      Set Shutdown'' []] else
        if v = code L ''EFI_ACPI_WDAT_1_0_WATCHDOG_ACTION_QUERY_WATCHDOG_STATUS'' then [Print ''      Query Watchdog Status'' []] else
        if v = code L ''EFI_ACPI_WDAT_1_0_WATCHDOG_ACTION_SET_WATCHDOG_STATUS'' then [Print ''      Set Watchdog Status'' []] else [])
     @ [Print ''    Instruction Flags 0x%02x'' [Hex (f ''InstructionFlags'')]]
     @ (let v = f ''InstructionFlags'' in
        if v = code L ''EFI_ACPI_WDAT_1_0_WATCHDOG_INSTRUCTION_READ_VALUE'' then [Print ''      Read Value'' []] else
        if v = code L ''EFI_ACPI_WDAT_1_0_WATCHDOG_INSTRUCTION_READ_COUNTDOWN'' then [Print ''      Read Countdown'' []] else
        if v = code L ''EFI_ACPI_WDAT_1_0_WATCHDOG_INSTRUCTION_WRITE_VALUE'' then [Print ''      Write Value'' []] else
        if v = code L ''EFI_ACPI_WDAT_1_0_WATCHDOG_INSTRUCTION_WRITE_COUNTDOWN'' then [Print ''      Write Countdown'' []] else
        if v = code L ''EFI_ACPI_WDAT_1_0_WATCHDOG_INSTRUCTION_PRESERVE_REGISTER'' then [Print ''      Preserve Register'' []] else [])
     @ [Print ''    Register Region'' []]
     @ DumpAcpiGAddressStructure T (WatchdogActionTable + offset L
         ''EFI_ACPI_WATCHDOG_ACTION_1_0_WATCHDOG_ACTION_INSTRUCTION_ENTRY'' ''RegisterRegion'')
     @ [Print ''    Value 0x%08x'' [Hex (f ''Value'')],
       Print ''    Mask 0x%08x'' [Hex (f ''Mask'')],
       Print ''  ***'' []])"

definition DumpAcpiWDAT_contents :: "acpi_tables \<Rightarrow> acpi_layout \<Rightarrow> addr \<Rightarrow> out list" where
  "DumpAcpiWDAT_contents T L Wdat =
     (let f = fld T L ''EFI_ACPI_WATCHDOG_ACTION_1_0_TABLE'' Wdat in
     [Print ''    Watchdog Header Length 0x%08x'' [Hex (f ''WatchdogHeaderLength'')],
       Print ''    PCI Segment 0x%04x'' [Hex (f ''PCISegment'')],
       Print ''    PCI Bus Number 0x%02x'' [Hex (f ''PCIBusNumber'')],
       Print ''    PCI Device Number 0x%02x'' [Hex (f ''PCIDeviceNumber'')],
       Print ''    PCI Function Number 0x%02x'' [Hex (f ''PCIFunctionNumber'')],
       Print ''    Timer Period 0x%08x'' [Hex (f ''TimerPeriod'')],
       Print ''    Max Count 0x%08x'' [Hex (f ''MaxCount'')],
       Print ''    Min Count 0x%08x'' [Hex (f ''MinCount'')],
       Print ''    Watchdog Flags 0x%02x'' [Hex (f ''WatchdogFlags'')],
       Print ''      Watchdog Enabled 0x%02x'' [Hex (f ''WatchdogFlags'' AND code L ''EFI_ACPI_WDAT_1_0_WATCHDOG_ENABLED'')],
       Print ''      Watchdog Stopped In Sleep State 0x%02x'' [Hex (f ''WatchdogFlags''
           AND code L ''EFI_ACPI_WDAT_1_0_WATCHDOG_STOPPED_IN_SLEEP_STATE'')],
       Print ''    Number Watchdog Instruction Entries 0x%08x'' [Hex (f ''NumberWatchdogInstructionEntries'')]]
     @ concat (map (\<lambda>Index. DumpAcpiWdatActionTable T L (Wdat + extent L
         ''EFI_ACPI_WATCHDOG_ACTION_1_0_TABLE'' + extent L
         ''EFI_ACPI_WATCHDOG_ACTION_1_0_WATCHDOG_ACTION_INSTRUCTION_ENTRY'' * Index)) [0..<unat (f ''NumberWatchdogInstructionEntries'')]))"

definition DumpAcpiWDAT :: "acpi_tables \<Rightarrow> acpi_layout \<Rightarrow> addr \<Rightarrow> acpi_state \<Rightarrow> acpi_state option" where
  "DumpAcpiWDAT T L =
     library_dump T ''***Watchdog Action Table***'' ''WDAT address 0x%016lx'' (\<lambda>p. Some (DumpAcpiWDAT_contents T L p))"

definition DumpAcpiWDATLibConstructor :: "acpi_layout \<Rightarrow> acpi_state \<Rightarrow> efi_status \<times> acpi_state" where
  "DumpAcpiWDATLibConstructor L = RegisterDumpAcpiTable (ucast (code L ''EFI_ACPI_3_0_WATCHDOG_ACTION_TABLE_SIGNATURE'')) (LibraryDump 39)"

section \<open>HEST\<close>

definition DumpHestMachineCheckErrorBank :: "acpi_tables \<Rightarrow> acpi_layout \<Rightarrow> addr \<Rightarrow> out list" where
  "DumpHestMachineCheckErrorBank T L MachineCheckErrorBank =
     (if MachineCheckErrorBank = NULL then [] else
      let f = fld T L ''EFI_ACPI_4_0_IA32_ARCHITECTURE_MACHINE_CHECK_ERROR_BANK_STRUCTURE'' MachineCheckErrorBank in
     [Print ''    ***Machine Check Error Bank***'' [],
       Print ''    Machine Check Error Bank address 0x%016lx'' [hxn MachineCheckErrorBank],
       Print ''      Bank Number 0x%02x'' [Hex (f ''BankNumber'')],
       Print ''      Clear Status On Initialization 0x%02x'' [Hex (f ''ClearStatusOnInitialization'')],
       Print ''      Status Data Format 0x%02x'' [Hex (f ''StatusDataFormat'')]]
     @ (let v = f ''StatusDataFormat'' in
        if v = code L ''EFI_ACPI_4_0_IA32_ARCHITECTURE_MACHINE_CHECK_ERROR_DATA_FORMAT_IA32'' then [Print ''        IA32'' []] else
        if v = code L ''EFI_ACPI_4_0_IA32_ARCHITECTURE_MACHINE_CHECK_ERROR_DATA_FORMAT_INTEL64'' then [Print ''        Intel64'' []] else
        if v = code L ''EFI_ACPI_4_0_IA32_ARCHITECTURE_MACHINE_CHECK_ERROR_DATA_FORMAT_AMD64'' then [Print ''        AMD64'' []] else [])
     @ [Print ''      Control Register Msr Address 0x%04x'' [Hex (f ''ControlRegisterMsrAddress'')],
       Print ''      Control Init Data 0x%016lx'' [Hex (f ''ControlInitData'')],
       Print ''      Status Register Msr Address 0x%08x'' [Hex (f ''StatusRegisterMsrAddress'')],
       Print ''      Address Register Msr Address 0x%08x'' [Hex (f ''AddressRegisterMsrAddress'')],
       Print ''      Misc Register Msr Address 0x%08x'' [Hex (f ''MiscRegisterMsrAddress'')],
       Print ''    ***'' []])"

definition DumpHestHardwareNotificationStructure :: "acpi_tables \<Rightarrow> acpi_layout \<Rightarrow> addr \<Rightarrow> out list" where
  "DumpHestHardwareNotificationStructure T L NotificationStructure =
     (if NotificationStructure = NULL then [] else
      let f = fld T L ''EFI_ACPI_4_0_HARDWARE_ERROR_NOTIFICATION_STRUCTURE'' NotificationStructure in
     [Print ''    ***Hardware Notification Structure***'' [],
       Print ''    Hardware Notification Structure address 0x%016lx'' [hxn NotificationStructure],
       Print ''      Type 0x%02x'' [Hex (f ''Type'')]]
     @ (let v = f ''Type'' in
        if v = code L ''EFI_ACPI_4_0_HARDWARE_ERROR_NOTIFICATION_POLLED'' then [Print ''        Polled'' []] else
        if v = code L ''EFI_ACPI_4_0_HARDWARE_ERROR_NOTIFICATION_EXTERNAL_INTERRUPT'' then [Print ''        External Interrupt'' []] else
        if v = code L ''EFI_ACPI_4_0_HARDWARE_ERROR_NOTIFICATION_LOCAL_INTERRUPT'' then [Print ''        Local Interrupt'' []] else
        if v = code L ''EFI_ACPI_4_0_HARDWARE_ERROR_NOTIFICATION_SCI'' then [Print ''        SCI'' []] else
        if v = code L ''EFI_ACPI_4_0_HARDWARE_ERROR_NOTIFICATION_NMI'' then [Print ''        NMI'' []] else [])
     @ [Print ''      Length 0x%02x'' [Hex (f ''Length'')],
       Print ''      Configuration Write Enable 0x%04x'' [Hex (f ''ConfigurationWriteEnable'')],
       Print ''        Type 0x%04x'' [Hex (f ''ConfigurationWriteEnable.Type'')],
       Print ''        Poll Interval 0x%04x'' [Hex (f ''ConfigurationWriteEnable.PollInterval'')],
       Print ''        Switch To Polling Threshold Value 0x%04x'' [Hex (f ''ConfigurationWriteEnable.SwitchToPollingThresholdValue'')],
       Print ''        Switch To Polling Threshold Window 0x%04x'' [Hex (f ''ConfigurationWriteEnable.SwitchToPollingThresholdWindow'')],
       Print ''        Error Threshold Value 0x%04x'' [Hex (f ''ConfigurationWriteEnable.ErrorThresholdValue'')],
       Print ''        Error Threshold Window 0x%04x'' [Hex (f ''ConfigurationWriteEnable.ErrorThresholdWindow'')],
       Print ''      Poll Interval 0x%08x'' [Hex (f ''PollInterval'')],
       Print ''      Vector 0x%08x'' [Hex (f ''Vector'')],
       Print ''      Switch To Polling Threshold Value 0x%08x'' [Hex (f ''SwitchToPollingThresholdValue'')],
       Print ''      Switch To Polling Threshold Window 0x%08x'' [Hex (f ''SwitchToPollingThresholdWindow'')],
       Print ''      Error Threshold Value 0x%08x'' [Hex (f ''ErrorThresholdValue'')],
       Print ''      Error Threshold Window 0x%08x'' [Hex (f ''ErrorThresholdWindow'')],
       Print ''    ***'' []])"

definition DumpHestIa32MachineCheckException :: "acpi_tables \<Rightarrow> acpi_layout \<Rightarrow> addr \<Rightarrow> out list" where
  "DumpHestIa32MachineCheckException T L ErrorSource =
     (if ErrorSource = NULL then [] else
      let f = fld T L ''EFI_ACPI_4_0_IA32_ARCHITECTURE_MACHINE_CHECK_EXCEPTION_STRUCTURE'' ErrorSource in
     [Print ''  ***IA32 Machine Check Exception Structure***'' [],
       Print ''  IA32 Machine Check Exception Structure address 0x%016lx'' [hxn ErrorSource],
       Print ''    Type 0x%04x'' [Hex (f ''Type'')],
       Print ''    Source Id 0x%04x'' [Hex (f ''SourceId'')],
       Print ''    Flags 0x%02x'' [Hex (f ''Flags'')],
       Print ''      Firmware First 0x%02x'' [Hex (f ''Flags'' AND code L ''EFI_ACPI_4_0_ERROR_SOURCE_FLAG_FIRMWARE_FIRST'')],
       Print ''    Enabled 0x%02x'' [Hex (f ''Enabled'')],
       Print ''    Number Of Records To PreAllocate 0x%08x'' [Hex (f ''NumberOfRecordsToPreAllocate'')],
       Print ''    Max Sections Per Record 0x%08x'' [Hex (f ''MaxSectionsPerRecord'')],
       Print ''    Global Capability Init Data 0x%016lx'' [Hex (f ''GlobalCapabilityInitData'')],
       Print ''    Global Control Init Data 0x%016lx'' [Hex (f ''GlobalControlInitData'')],
       Print ''    Number Of Hardware Banks 0x%02x'' [Hex (f ''NumberOfHardwareBanks'')]]
     @ concat (map (\<lambda>Index. DumpHestMachineCheckErrorBank T L (ErrorSource + extent L
         ''EFI_ACPI_4_0_IA32_ARCHITECTURE_MACHINE_CHECK_EXCEPTION_STRUCTURE'' + extent L
         ''EFI_ACPI_4_0_IA32_ARCHITECTURE_MACHINE_CHECK_ERROR_BANK_STRUCTURE'' * Index)) [0..<unat (f ''NumberOfHardwareBanks'')])
     @ [Print ''  ***'' []])"

definition DumpHestIa32CorrectedMachineCheck :: "acpi_tables \<Rightarrow> acpi_layout \<Rightarrow> addr \<Rightarrow> out list" where
  "DumpHestIa32CorrectedMachineCheck T L ErrorSource =
     (if ErrorSource = NULL then [] else
      let f = fld T L ''EFI_ACPI_4_0_IA32_ARCHITECTURE_CORRECTED_MACHINE_CHECK_STRUCTURE'' ErrorSource in
     [Print ''  ***IA32 Corrected Machine Check Structure***'' [],
       Print ''  IA32 Corrected Machine Check Structure address 0x%016lx'' [hxn ErrorSource],
       Print ''    Type 0x%04x'' [Hex (f ''Type'')],
       Print ''    Source Id 0x%04x'' [Hex (f ''SourceId'')],
       Print ''    Flags 0x%02x'' [Hex (f ''Flags'')],
       Print ''      Firmware First 0x%02x'' [Hex (f ''Flags'' AND code L ''EFI_ACPI_4_0_ERROR_SOURCE_FLAG_FIRMWARE_FIRST'')],
       Print ''    Enabled 0x%02x'' [Hex (f ''Enabled'')],
       Print ''    Number Of Records To PreAllocate 0x%08x'' [Hex (f ''NumberOfRecordsToPreAllocate'')],
       Print ''    Max Sections Per Record 0x%08x'' [Hex (f ''MaxSectionsPerRecord'')]]
     @ DumpHestHardwareNotificationStructure T L (ErrorSource + offset L
         ''EFI_ACPI_4_0_IA32_ARCHITECTURE_CORRECTED_MACHINE_CHECK_STRUCTURE'' ''NotificationStructure'')
     @ [Print ''    Number Of Hardware Banks 0x%02x'' [Hex (f ''NumberOfHardwareBanks'')]]
     @ concat (map (\<lambda>Index. DumpHestMachineCheckErrorBank T L (ErrorSource + extent L
         ''EFI_ACPI_4_0_IA32_ARCHITECTURE_CORRECTED_MACHINE_CHECK_STRUCTURE'' + extent L
         ''EFI_ACPI_4_0_IA32_ARCHITECTURE_MACHINE_CHECK_ERROR_BANK_STRUCTURE'' * Index)) [0..<unat (f ''NumberOfHardwareBanks'')])
     @ [Print ''  ***'' []])"

definition DumpHestIa32NmiError :: "acpi_tables \<Rightarrow> acpi_layout \<Rightarrow> addr \<Rightarrow> out list" where
  "DumpHestIa32NmiError T L ErrorSource =
     (if ErrorSource = NULL then [] else
      let f = fld T L ''EFI_ACPI_4_0_IA32_ARCHITECTURE_NMI_ERROR_STRUCTURE'' ErrorSource in
     [Print ''  ***IA32 NMI Error Structure***'' [],
       Print ''  IA32 NMI Error Structure address 0x%016lx'' [hxn ErrorSource],
       Print ''    Type 0x%04x'' [Hex (f ''Type'')],
       Print ''    Source Id 0x%04x'' [Hex (f ''SourceId'')],
       Print ''    Number Of Records To PreAllocate 0x%08x'' [Hex (f ''NumberOfRecordsToPreAllocate'')],
       Print ''    Max Sections Per Record 0x%08x'' [Hex (f ''MaxSectionsPerRecord'')],
       Print ''    Max Raw Data Length 0x%08x'' [Hex (f ''MaxRawDataLength'')],
       Print ''  ***'' []])"

definition DumpHestPcieRootPortAer :: "acpi_tables \<Rightarrow> acpi_layout \<Rightarrow> addr \<Rightarrow> out list" where
  "DumpHestPcieRootPortAer T L ErrorSource =
     (if ErrorSource = NULL then [] else
      let f = fld T L ''EFI_ACPI_4_0_PCI_EXPRESS_ROOT_PORT_AER_STRUCTURE'' ErrorSource in
     [Print ''  ***PCI Express Root Port AER Structure***'' [],
       Print ''  PCI Express Root Port AER Structure address 0x%016lx'' [hxn ErrorSource],
       Print ''    Type 0x%04x'' [Hex (f ''Type'')],
       Print ''    Source Id 0x%04x'' [Hex (f ''SourceId'')],
       Print ''    Flags 0x%02x'' [Hex (f ''Flags'')],
       Print ''      Firmware First 0x%02x'' [Hex (f ''Flags'' AND code L ''EFI_ACPI_4_0_ERROR_SOURCE_FLAG_FIRMWARE_FIRST'')],
       Print ''    Enabled 0x%02x'' [Hex (f ''Enabled'')],
       Print ''    Number Of Records To PreAllocate 0x%08x'' [Hex (f ''NumberOfRecordsToPreAllocate'')],
       Print ''    Max Sections Per Record 0x%08x'' [Hex (f ''MaxSectionsPerRecord'')],
       Print ''    Bus 0x%08x'' [Hex (f ''Bus'')],
       Print ''    Device 0x%04x'' [Hex (f ''Device'')],
       Print ''    Function 0x%04x'' [Hex (f ''Function'')],
       Print ''    Device Control 0x%04x'' [Hex (f ''DeviceControl'')],
       Print ''    Uncorrectable Error Mask 0x%08x'' [Hex (f ''UncorrectableErrorMask'')],
       Print ''    Uncorrectable Error Severity 0x%08x'' [Hex (f ''UncorrectableErrorSeverity'')],
       Print ''    Correctable Error Mask 0x%08x'' [Hex (f ''CorrectableErrorMask'')],
       Print ''    Advanced Error Capabilities And Control 0x%08x'' [Hex (f ''AdvancedErrorCapabilitiesAndControl'')],
       Print ''    Root Error Command 0x%08x'' [Hex (f ''RootErrorCommand'')],
       Print ''  ***'' []])"

definition DumpHestPcieDeviceAer :: "acpi_tables \<Rightarrow> acpi_layout \<Rightarrow> addr \<Rightarrow> out list" where
  "DumpHestPcieDeviceAer T L ErrorSource =
     (if ErrorSource = NULL then [] else
      let f = fld T L ''EFI_ACPI_4_0_PCI_EXPRESS_DEVICE_AER_STRUCTURE'' ErrorSource in
     [Print ''  ***PCI Express Device AER Structure***'' [],
       Print ''  PCI Express Device AER Structure address 0x%016lx'' [hxn ErrorSource],
       Print ''    Type 0x%04x'' [Hex (f ''Type'')],
       Print ''    Source Id 0x%04x'' [Hex (f ''SourceId'')],
       Print ''    Flags 0x%02x'' [Hex (f ''Flags'')],
       Print ''      Firmware First 0x%02x'' [Hex (f ''Flags'' AND code L ''EFI_ACPI_4_0_ERROR_SOURCE_FLAG_FIRMWARE_FIRST'')],
       Print ''      Global 0x%02x'' [Hex (f ''Flags'' AND code L ''EFI_ACPI_4_0_ERROR_SOURCE_FLAG_GLOBAL'')],
       Print ''    Enabled 0x%02x'' [Hex (f ''Enabled'')],
       Print ''    Number Of Records To PreAllocate 0x%08x'' [Hex (f ''NumberOfRecordsToPreAllocate'')],
       Print ''    Max Sections Per Record 0x%08x'' [Hex (f ''MaxSectionsPerRecord'')],
       Print ''    Bus 0x%08x'' [Hex (f ''Bus'')],
       Print ''    Device 0x%04x'' [Hex (f ''Device'')],
       Print ''    Function 0x%04x'' [Hex (f ''Function'')],
       Print ''    Device Control 0x%04x'' [Hex (f ''DeviceControl'')],
       Print ''    Uncorrectable Error Mask 0x%08x'' [Hex (f ''UncorrectableErrorMask'')],
       Print ''    Uncorrectable Error Severity 0x%08x'' [Hex (f ''UncorrectableErrorSeverity'')],
       Print ''    Correctable Error Mask 0x%08x'' [Hex (f ''CorrectableErrorMask'')],
       Print ''    Advanced Error Capabilities And Control 0x%08x'' [Hex (f ''AdvancedErrorCapabilitiesAndControl'')],
       Print ''  ***'' []])"

definition DumpHestPcieBridgeAer :: "acpi_tables \<Rightarrow> acpi_layout \<Rightarrow> addr \<Rightarrow> out list" where
  "DumpHestPcieBridgeAer T L ErrorSource =
     (if ErrorSource = NULL then [] else
      let f = fld T L ''EFI_ACPI_4_0_PCI_EXPRESS_BRIDGE_AER_STRUCTURE'' ErrorSource in
     [Print ''  ***PCI Express Bridge AER Structure***'' [],
       Print ''  PCI Express Bridge AER Structure address 0x%016lx'' [hxn ErrorSource],
       Print ''    Type 0x%04x'' [Hex (f ''Type'')],
       Print ''    Source Id 0x%04x'' [Hex (f ''SourceId'')],
       Print ''    Flags 0x%02x'' [Hex (f ''Flags'')],
       Print ''      Firmware First 0x%02x'' [Hex (f ''Flags'' AND code L ''EFI_ACPI_4_0_ERROR_SOURCE_FLAG_FIRMWARE_FIRST'')],
       Print ''      Global 0x%02x'' [Hex (f ''Flags'' AND code L ''EFI_ACPI_4_0_ERROR_SOURCE_FLAG_GLOBAL'')],
       Print ''    Enabled 0x%02x'' [Hex (f ''Enabled'')],
       Print ''    Number Of Records To PreAllocate 0x%08x'' [Hex (f ''NumberOfRecordsToPreAllocate'')],
       Print ''    Max Sections Per Record 0x%08x'' [Hex (f ''MaxSectionsPerRecord'')],
       Print ''    Bus 0x%08x'' [Hex (f ''Bus'')],
       Print ''    Device 0x%04x'' [Hex (f ''Device'')],
       Print ''    Function 0x%04x'' [Hex (f ''Function'')],
       Print ''    Device Control 0x%04x'' [Hex (f ''DeviceControl'')],
       Print ''    Uncorrectable Error Mask 0x%08x'' [Hex (f ''UncorrectableErrorMask'')],
       Print ''    Uncorrectable Error Severity 0x%08x'' [Hex (f ''UncorrectableErrorSeverity'')],
       Print ''    Correctable Error Mask 0x%08x'' [Hex (f ''CorrectableErrorMask'')],
       Print ''    Advanced Error Capabilities And Control 0x%08x'' [Hex (f ''AdvancedErrorCapabilitiesAndControl'')],
       Print ''    Secondary Uncorrectable Error Mask 0x%08x'' [Hex (f ''SecondaryUncorrectableErrorMask'')],
       Print ''    Secondary Uncorrectable Error Severity 0x%08x'' [Hex (f ''SecondaryUncorrectableErrorSeverity'')],
       Print ''    Secondary Advanced Error Capabilities And Control 0x%08x'' [Hex (f ''SecondaryAdvancedErrorCapabilitiesAndControl'')],
       Print ''  ***'' []])"

definition DumpHestGenericHardwareError :: "acpi_tables \<Rightarrow> acpi_layout \<Rightarrow> addr \<Rightarrow> out list" where
  "DumpHestGenericHardwareError T L ErrorSource =
     (if ErrorSource = NULL then [] else
      let f = fld T L ''EFI_ACPI_4_0_GENERIC_HARDWARE_ERROR_SOURCE_STRUCTURE'' ErrorSource in
     [Print ''  ***Generic Hardware Error Structure***'' [],
       Print ''  Generic Hardware Error Structure address 0x%016lx'' [hxn ErrorSource],
       Print ''    Type 0x%04x'' [Hex (f ''Type'')],
       Print ''    Source Id 0x%04x'' [Hex (f ''SourceId'')],
       Print ''    Related Source Id 0x%04x'' [Hex (f ''RelatedSourceId'')],
       Print ''    Flags 0x%02x'' [Hex (f ''Flags'')],
       Print ''    Enabled 0x%02x'' [Hex (f ''Enabled'')],
       Print ''    Number Of Records To PreAllocate 0x%08x'' [Hex (f ''NumberOfRecordsToPreAllocate'')],
       Print ''    Max Sections Per Record 0x%08x'' [Hex (f ''MaxSectionsPerRecord'')],
       Print ''    Max Raw Data Length 0x%08x'' [Hex (f ''MaxRawDataLength'')],
       Print ''    Error Status Address'' []]
     @ DumpAcpiGAddressStructure T (ErrorSource + offset L ''EFI_ACPI_4_0_GENERIC_HARDWARE_ERROR_SOURCE_STRUCTURE'' ''ErrorStatusAddress'')
     @ DumpHestHardwareNotificationStructure T L (ErrorSource + offset L
         ''EFI_ACPI_4_0_GENERIC_HARDWARE_ERROR_SOURCE_STRUCTURE'' ''NotificationStructure'')
     @ [Print ''    Error Status Block Length 0x%08x'' [Hex (f ''ErrorStatusBlockLength'')],
       Print ''  ***'' []])"

text \<open>What an error source of a known type occupies, and its lines.\<close>

definition error_source :: "acpi_tables \<Rightarrow> acpi_layout \<Rightarrow> addr \<Rightarrow> (nat \<times> out list) option" where
  "error_source T L p =
     (let v = get16 T p in
      if v = code L ''EFI_ACPI_4_0_IA32_ARCHITECTURE_MACHINE_CHECK_EXCEPTION''
      then Some (extent L ''EFI_ACPI_4_0_IA32_ARCHITECTURE_MACHINE_CHECK_EXCEPTION_STRUCTURE''
              + unat (fld T L ''EFI_ACPI_4_0_IA32_ARCHITECTURE_MACHINE_CHECK_EXCEPTION_STRUCTURE'' p ''NumberOfHardwareBanks'')
                * extent L ''EFI_ACPI_4_0_IA32_ARCHITECTURE_MACHINE_CHECK_ERROR_BANK_STRUCTURE'',
                 DumpHestIa32MachineCheckException T L p) else
      if v = code L ''EFI_ACPI_4_0_IA32_ARCHITECTURE_CORRECTED_MACHINE_CHECK''
      then Some (extent L ''EFI_ACPI_4_0_IA32_ARCHITECTURE_CORRECTED_MACHINE_CHECK_STRUCTURE''
              + unat (fld T L ''EFI_ACPI_4_0_IA32_ARCHITECTURE_CORRECTED_MACHINE_CHECK_STRUCTURE'' p ''NumberOfHardwareBanks'')
                * extent L ''EFI_ACPI_4_0_IA32_ARCHITECTURE_MACHINE_CHECK_ERROR_BANK_STRUCTURE'',
                 DumpHestIa32CorrectedMachineCheck T L p) else
      if v = code L ''EFI_ACPI_4_0_IA32_ARCHITECTURE_NMI_ERROR''
      then Some (extent L ''EFI_ACPI_4_0_IA32_ARCHITECTURE_NMI_ERROR_STRUCTURE'',
                 DumpHestIa32NmiError T L p) else
      if v = code L ''EFI_ACPI_4_0_PCI_EXPRESS_ROOT_PORT_AER''
      then Some (extent L ''EFI_ACPI_4_0_PCI_EXPRESS_ROOT_PORT_AER_STRUCTURE'',
                 DumpHestPcieRootPortAer T L p) else
      if v = code L ''EFI_ACPI_4_0_PCI_EXPRESS_DEVICE_AER''
      then Some (extent L ''EFI_ACPI_4_0_PCI_EXPRESS_DEVICE_AER_STRUCTURE'',
                 DumpHestPcieDeviceAer T L p) else
      if v = code L ''EFI_ACPI_4_0_PCI_EXPRESS_BRIDGE_AER''
      then Some (extent L ''EFI_ACPI_4_0_PCI_EXPRESS_BRIDGE_AER_STRUCTURE'',
                 DumpHestPcieBridgeAer T L p) else
      if v = code L ''EFI_ACPI_4_0_GENERIC_HARDWARE_ERROR''
      then Some (extent L ''EFI_ACPI_4_0_GENERIC_HARDWARE_ERROR_SOURCE_STRUCTURE'',
                 DumpHestGenericHardwareError T L p) else None)"

text \<open>An unknown type ends the dump.\<close>

fun error_sources :: "acpi_tables \<Rightarrow> acpi_layout \<Rightarrow> nat \<Rightarrow> addr \<Rightarrow> out list" where
  "error_sources T L 0 p = []"
| "error_sources T L (Suc n) p =
     (case error_source T L p of
        None \<Rightarrow> [Print ''      Unknown Type 0x%02x'' [Hex (get16 T p)]]
      | Some (ErrorSourceLength, os) \<Rightarrow> os @ error_sources T L n (p + ErrorSourceLength))"

definition DumpAcpiHEST_contents :: "acpi_tables \<Rightarrow> acpi_layout \<Rightarrow> addr \<Rightarrow> out list option" where
  "DumpAcpiHEST_contents T L Hest =
     (let ErrorSourceCount = fld T L ''EFI_ACPI_4_0_HARDWARE_ERROR_SOURCE_TABLE_HEADER'' Hest ''ErrorSourceCount'' in
      Some ([Print ''    Error Source Count 0x%08x'' [Hex ErrorSourceCount]]
            @ error_sources T L (unat ErrorSourceCount)
                (Hest + extent L ''EFI_ACPI_4_0_HARDWARE_ERROR_SOURCE_TABLE_HEADER'')))"

definition DumpAcpiHEST :: "acpi_tables \<Rightarrow> acpi_layout \<Rightarrow> addr \<Rightarrow> acpi_state \<Rightarrow> acpi_state option" where
  "DumpAcpiHEST T L =
     library_dump T ''***Hardware Error Source Table***'' ''HEST address 0x%016lx'' (DumpAcpiHEST_contents T L)"

definition DumpAcpiHESTLibConstructor :: "acpi_layout \<Rightarrow> acpi_state \<Rightarrow> efi_status \<times> acpi_state" where
  "DumpAcpiHESTLibConstructor L = RegisterDumpAcpiTable (ucast (code L ''EFI_ACPI_4_0_HARDWARE_ERROR_SOURCE_TABLE_SIGNATURE'')) (LibraryDump 17)"

section \<open>IBFT\<close>

definition DumpIbftIpAddress :: "acpi_tables \<Rightarrow> acpi_layout \<Rightarrow> addr \<Rightarrow> out list" where
  "DumpIbftIpAddress T L IpAddress =
     ([Print ''%02x'' [Hex (get8 T IpAddress)]]
      @ map (\<lambda>Index. Print '':%02x'' [Hex (get8 T (IpAddress + Index))]) [1..<16])"

definition DumpIbftName :: "acpi_tables \<Rightarrow> acpi_layout \<Rightarrow> u64 \<Rightarrow> addr \<Rightarrow> out list" where
  "DumpIbftName T L Length Name =
     (map (\<lambda>Index. Print ''%c'' [Hex (get8 T (Name + Index))]) [0..<unat Length])"

definition DumpIbftByte :: "acpi_tables \<Rightarrow> acpi_layout \<Rightarrow> u64 \<Rightarrow> addr \<Rightarrow> out list" where
  "DumpIbftByte T L Length Byte =
     (map (\<lambda>Index. Print ''%2x'' [Hex (get8 T (Byte + Index))]) [0..<unat Length])"

definition DumpIbftStructHeader :: "acpi_tables \<Rightarrow> acpi_layout \<Rightarrow> addr \<Rightarrow> addr \<Rightarrow> out list" where
  "DumpIbftStructHeader T L Ibft IbftStructure =
     (if IbftStructure = NULL then [] else
      let f = fld T L ''EFI_ACPI_ISCSI_BOOT_FIRMWARE_TABLE_STRUCTURE_HEADER'' IbftStructure in
     [Print ''  ***IBFT Structure***'' [],
       Print ''  Ibft Structure address 0x%016lx'' [hxn IbftStructure],
       Print ''    Structure Id 0x%02x'' [Hex (f ''StructureId'')],
       Print ''    Version 0x%02x'' [Hex (f ''Version'')],
       Print ''    Length 0x%04x'' [Hex (f ''Length'')],
       Print ''    Index 0x%02x'' [Hex (f ''Index'')],
       Print ''    Flags 0x%02x'' [Hex (f ''Flags'')],
       Print ''  ***'' []])"

text \<open>
  The control structure ends in an array of pairs of offsets (\<^verbatim>\<open>IBFT_CONTROL_NIC_TARGET_STRUCT\<close>, two
  16-bit numbers), two of them in its fixed part.
\<close>

abbreviation (input) sizeof_CONTROL :: "acpi_layout \<Rightarrow> nat" where
  "sizeof_CONTROL L \<equiv> extent L ''EFI_ACPI_ISCSI_BOOT_FIRMWARE_TABLE_CONTROL_STRUCTURE''"

definition ibft_Count :: "acpi_tables \<Rightarrow> acpi_layout \<Rightarrow> addr \<Rightarrow> u64" where
  "ibft_Count T L IbftStructure =
     (fld T L ''EFI_ACPI_ISCSI_BOOT_FIRMWARE_TABLE_CONTROL_STRUCTURE'' IbftStructure ''Header.Length''
        - of_nat (sizeof_CONTROL L)) div 4 + 2"

definition NicTarget :: "acpi_layout \<Rightarrow> addr \<Rightarrow> nat \<Rightarrow> addr" where
  "NicTarget L IbftStructure Index =
     IbftStructure + offset L ''EFI_ACPI_ISCSI_BOOT_FIRMWARE_TABLE_CONTROL_STRUCTURE'' ''NIC0Offset'' + 4 * Index"

definition DumpIbftControlStruct :: "acpi_tables \<Rightarrow> acpi_layout \<Rightarrow> addr \<Rightarrow> addr \<Rightarrow> out list" where
  "DumpIbftControlStruct T L Ibft IbftStructure =
     (if IbftStructure = NULL then [] else
      let f = fld T L ''EFI_ACPI_ISCSI_BOOT_FIRMWARE_TABLE_CONTROL_STRUCTURE'' IbftStructure
      in [Print ''  ***IBFT Control Structure***'' [],
          Print ''  Ibft Structure address 0x%016lx'' [hxn IbftStructure],
          Print ''    Structure Id 0x%02x'' [Hex (f ''Header.StructureId'')],
          Print ''    Version 0x%02x'' [Hex (f ''Header.Version'')],
          Print ''    Length 0x%04x'' [Hex (f ''Header.Length'')],
          Print ''    Index 0x%02x'' [Hex (f ''Header.Index'')],
          Print ''    Flags 0x%02x'' [Hex (f ''Header.Flags'')],
          Print ''      Boot Failover 0x%02x''
            [Hex (f ''Header.Flags'' AND code L ''EFI_ACPI_ISCSI_BOOT_FIRMWARE_TABLE_CONTROL_STRUCTURE_FLAG_BOOT_FAILOVER'')],
          Print ''    Extensions 0x%04x'' [Hex (f ''Extensions'')],
          Print ''    Initiator Offset 0x%04x'' [Hex (f ''InitiatorOffset'')]]
        @ concat (map (\<lambda>Index.
            [Print ''    NIC%d Offset 0x%04x'' [hxn Index, Hex (get16 T (NicTarget L IbftStructure Index))],
             Print ''    Target%d Offset 0x%04x'' [hxn Index, Hex (get16 T (NicTarget L IbftStructure Index + 2))]])
            [0..<unat (ibft_Count T L IbftStructure)])
        @ [Print ''  ***'' []])"

definition DumpIbftInitiatorStruct :: "acpi_tables \<Rightarrow> acpi_layout \<Rightarrow> addr \<Rightarrow> addr \<Rightarrow> out list" where
  "DumpIbftInitiatorStruct T L Ibft IbftStructure =
     (if IbftStructure = NULL then [] else
      let f = fld T L ''EFI_ACPI_ISCSI_BOOT_FIRMWARE_TABLE_INITIATOR_STRUCTURE'' IbftStructure in
     [Print ''  ***IBFT Initiator Structure***'' [],
       Print ''  Ibft Structure address 0x%016lx'' [hxn IbftStructure],
       Print ''    Structure Id 0x%02x'' [Hex (f ''Header.StructureId'')],
       Print ''    Version 0x%02x'' [Hex (f ''Header.Version'')],
       Print ''    Length 0x%04x'' [Hex (f ''Header.Length'')],
       Print ''    Index 0x%02x'' [Hex (f ''Header.Index'')],
       Print ''    Flags 0x%02x'' [Hex (f ''Header.Flags'')],
       Print ''      Block Valid 0x%02x'' [Hex (f ''Header.Flags''
           AND code L ''EFI_ACPI_ISCSI_BOOT_FIRMWARE_TABLE_INITIATOR_STRUCTURE_FLAG_BLOCK_VALID'')],
       Print ''      Firmware Boot Selected 0x%02x'' [Hex (f ''Header.Flags''
           AND code L ''EFI_ACPI_ISCSI_BOOT_FIRMWARE_TABLE_INITIATOR_STRUCTURE_FLAG_BOOT_SELECTED'')],
       Print ''    iSNS Server'' []]
     @ DumpIbftIpAddress T L (IbftStructure + offset L ''EFI_ACPI_ISCSI_BOOT_FIRMWARE_TABLE_INITIATOR_STRUCTURE'' ''ISnsServer'')
     @ [Print '''' [],
       Print ''    SLP Server'' []]
     @ DumpIbftIpAddress T L (IbftStructure + offset L ''EFI_ACPI_ISCSI_BOOT_FIRMWARE_TABLE_INITIATOR_STRUCTURE'' ''SlpServer'')
     @ [Print '''' [],
       Print ''    Primary Radius Server'' []]
     @ DumpIbftIpAddress T L (IbftStructure + offset L ''EFI_ACPI_ISCSI_BOOT_FIRMWARE_TABLE_INITIATOR_STRUCTURE'' ''PrimaryRadiusServer'')
     @ [Print '''' [],
       Print ''    Secondary Radius Server'' []]
     @ DumpIbftIpAddress T L (IbftStructure + offset L ''EFI_ACPI_ISCSI_BOOT_FIRMWARE_TABLE_INITIATOR_STRUCTURE'' ''SecondaryRadiusServer'')
     @ [Print '''' [],
       Print ''    Initiator Name Length 0x%04x'' [Hex (f ''IScsiNameLength'')],
       Print ''    Initiator Name Offset 0x%04x'' [Hex (f ''IScsiNameOffset'')],
       Print '''' []]
     @ DumpIbftName T L (f ''IScsiNameLength'') (Ibft + unat (f ''IScsiNameOffset''))
     @ [Print '''' [],
       Print ''  ***'' []])"

definition DumpIbftNicStruct :: "acpi_tables \<Rightarrow> acpi_layout \<Rightarrow> addr \<Rightarrow> addr \<Rightarrow> out list" where
  "DumpIbftNicStruct T L Ibft IbftStructure =
     (if IbftStructure = NULL then [] else
      let f = fld T L ''EFI_ACPI_ISCSI_BOOT_FIRMWARE_TABLE_NIC_STRUCTURE'' IbftStructure in
     [Print ''  ***IBFT NIC Structure***'' [],
       Print ''  Ibft Structure address 0x%016lx'' [hxn IbftStructure],
       Print ''    Structure Id 0x%02x'' [Hex (f ''Header.StructureId'')],
       Print ''    Version 0x%02x'' [Hex (f ''Header.Version'')],
       Print ''    Length 0x%04x'' [Hex (f ''Header.Length'')],
       Print ''    Index 0x%02x'' [Hex (f ''Header.Index'')],
       Print ''    Flags 0x%02x'' [Hex (f ''Header.Flags'')],
       Print ''      Block Valid 0x%02x'' [Hex (f ''Header.Flags''
           AND code L ''EFI_ACPI_ISCSI_BOOT_FIRMWARE_TABLE_NIC_STRUCTURE_FLAG_BLOCK_VALID'')],
       Print ''      Firmware Boot Selected 0x%02x'' [Hex (f ''Header.Flags''
           AND code L ''EFI_ACPI_ISCSI_BOOT_FIRMWARE_TABLE_NIC_STRUCTURE_FLAG_BOOT_SELECTED'')],
       Print ''      Global 0x%02x'' [Hex (f ''Header.Flags'' AND code L ''EFI_ACPI_ISCSI_BOOT_FIRMWARE_TABLE_NIC_STRUCTURE_FLAG_GLOBAL'')],
       Print ''    IP Address'' []]
     @ DumpIbftIpAddress T L (IbftStructure + offset L ''EFI_ACPI_ISCSI_BOOT_FIRMWARE_TABLE_NIC_STRUCTURE'' ''Ip'')
     @ [Print '''' [],
       Print ''    Subnet Mask Prefix 0x%02x'' [Hex (f ''SubnetMaskPrefixLength'')],
       Print ''    Origin 0x%02x'' [Hex (f ''Origin'')],
       Print ''    Gateway'' []]
     @ DumpIbftIpAddress T L (IbftStructure + offset L ''EFI_ACPI_ISCSI_BOOT_FIRMWARE_TABLE_NIC_STRUCTURE'' ''Gateway'')
     @ [Print '''' [],
       Print ''    Primary DNS'' []]
     @ DumpIbftIpAddress T L (IbftStructure + offset L ''EFI_ACPI_ISCSI_BOOT_FIRMWARE_TABLE_NIC_STRUCTURE'' ''PrimaryDns'')
     @ [Print '''' [],
       Print ''    Secondary DNS'' []]
     @ DumpIbftIpAddress T L (IbftStructure + offset L ''EFI_ACPI_ISCSI_BOOT_FIRMWARE_TABLE_NIC_STRUCTURE'' ''SecondaryDns'')
     @ [Print '''' [],
       Print ''    DHCP'' []]
     @ DumpIbftIpAddress T L (IbftStructure + offset L ''EFI_ACPI_ISCSI_BOOT_FIRMWARE_TABLE_NIC_STRUCTURE'' ''DhcpServer'')
     @ [Print '''' [],
       Print ''    VLAN 0x%04x'' [Hex (f ''VLanTag'')],
       Print ''    MAC Address %02x:%02x:%02x:%02x:%02x:%02x''
           [Hex (get8 T (IbftStructure + offset L ''EFI_ACPI_ISCSI_BOOT_FIRMWARE_TABLE_NIC_STRUCTURE'' ''Mac'' + 0)),
           Hex (get8 T (IbftStructure + offset L ''EFI_ACPI_ISCSI_BOOT_FIRMWARE_TABLE_NIC_STRUCTURE'' ''Mac'' + 1)),
           Hex (get8 T (IbftStructure + offset L ''EFI_ACPI_ISCSI_BOOT_FIRMWARE_TABLE_NIC_STRUCTURE'' ''Mac'' + 2)),
           Hex (get8 T (IbftStructure + offset L ''EFI_ACPI_ISCSI_BOOT_FIRMWARE_TABLE_NIC_STRUCTURE'' ''Mac'' + 3)),
           Hex (get8 T (IbftStructure + offset L ''EFI_ACPI_ISCSI_BOOT_FIRMWARE_TABLE_NIC_STRUCTURE'' ''Mac'' + 4)),
           Hex (get8 T (IbftStructure + offset L ''EFI_ACPI_ISCSI_BOOT_FIRMWARE_TABLE_NIC_STRUCTURE'' ''Mac'' + 5))],
       Print ''    PCI Device %02x:%2x:%2x'' [Hex (f ''PciLocation'' AND 0xFF), Hex ((if 8 < f ''PciLocation''
           then 1 else 0) AND 0x1F), Hex ((if 13 < f ''PciLocation'' then 1 else 0) AND 0x7)],
       Print ''    Host Name Length 0x%04x'' [Hex (f ''HostNameLength'')],
       Print ''    Host Name Offset 0x%04x'' [Hex (f ''HostNameOffset'')],
       Print '''' []]
     @ DumpIbftName T L (f ''HostNameLength'') (Ibft + unat (f ''HostNameOffset''))
     @ [Print '''' [],
       Print ''  ***'' []])"

definition DumpIbftTargetStruct :: "acpi_tables \<Rightarrow> acpi_layout \<Rightarrow> addr \<Rightarrow> addr \<Rightarrow> out list" where
  "DumpIbftTargetStruct T L Ibft IbftStructure =
     (if IbftStructure = NULL then [] else
      let f = fld T L ''EFI_ACPI_ISCSI_BOOT_FIRMWARE_TABLE_TARGET_STRUCTURE'' IbftStructure in
     [Print ''  ***IBFT NIC Structure***'' [],
       Print ''  Ibft Structure address 0x%016lx'' [hxn IbftStructure],
       Print ''    Structure Id 0x%02x'' [Hex (f ''Header.StructureId'')],
       Print ''    Version 0x%02x'' [Hex (f ''Header.Version'')],
       Print ''    Length 0x%04x'' [Hex (f ''Header.Length'')],
       Print ''    Index 0x%02x'' [Hex (f ''Header.Index'')],
       Print ''    Flags 0x%02x'' [Hex (f ''Header.Flags'')],
       Print ''      Block Valid 0x%02x'' [Hex (f ''Header.Flags''
           AND code L ''EFI_ACPI_ISCSI_BOOT_FIRMWARE_TABLE_TARGET_STRUCTURE_FLAG_BLOCK_VALID'')],
       Print ''      Firmware Boot Selected 0x%02x'' [Hex (f ''Header.Flags''
           AND code L ''EFI_ACPI_ISCSI_BOOT_FIRMWARE_TABLE_TARGET_STRUCTURE_FLAG_BOOT_SELECTED'')],
       Print ''      Use Radius CHAP 0x%02x'' [Hex (f ''Header.Flags''
           AND code L ''EFI_ACPI_ISCSI_BOOT_FIRMWARE_TABLE_TARGET_STRUCTURE_FLAG_RADIUS_CHAP'')],
       Print ''      Use Radius rCHAP 0x%02x'' [Hex (f ''Header.Flags''
           AND code L ''EFI_ACPI_ISCSI_BOOT_FIRMWARE_TABLE_TARGET_STRUCTURE_FLAG_RADIUS_RCHAP'')],
       Print ''    Target IP Address'' []]
     @ DumpIbftIpAddress T L (IbftStructure + offset L ''EFI_ACPI_ISCSI_BOOT_FIRMWARE_TABLE_TARGET_STRUCTURE'' ''Ip'')
     @ [Print '''' [],
       Print ''    Target IP Socket 0x%04x'' [Hex (f ''Port'')],
       Print ''    Target Boot LUN %02x%02x%02x%02x%02x%02x%02x%02x''
           [Hex (get8 T (IbftStructure + offset L ''EFI_ACPI_ISCSI_BOOT_FIRMWARE_TABLE_TARGET_STRUCTURE'' ''BootLun''
           + 0)), Hex (get8 T (IbftStructure + offset L ''EFI_ACPI_ISCSI_BOOT_FIRMWARE_TABLE_TARGET_STRUCTURE''
           ''BootLun'' + 1)),
           Hex (get8 T (IbftStructure + offset L ''EFI_ACPI_ISCSI_BOOT_FIRMWARE_TABLE_TARGET_STRUCTURE'' ''BootLun''
           + 2)), Hex (get8 T (IbftStructure + offset L ''EFI_ACPI_ISCSI_BOOT_FIRMWARE_TABLE_TARGET_STRUCTURE''
           ''BootLun'' + 3)),
           Hex (get8 T (IbftStructure + offset L ''EFI_ACPI_ISCSI_BOOT_FIRMWARE_TABLE_TARGET_STRUCTURE'' ''BootLun''
           + 4)), Hex (get8 T (IbftStructure + offset L ''EFI_ACPI_ISCSI_BOOT_FIRMWARE_TABLE_TARGET_STRUCTURE''
           ''BootLun'' + 5)),
           Hex (get8 T (IbftStructure + offset L ''EFI_ACPI_ISCSI_BOOT_FIRMWARE_TABLE_TARGET_STRUCTURE'' ''BootLun''
           + 6)), Hex (get8 T (IbftStructure + offset L ''EFI_ACPI_ISCSI_BOOT_FIRMWARE_TABLE_TARGET_STRUCTURE'' ''BootLun'' + 7))],
       Print ''    CHAP Type 0x%02x'' [Hex (f ''CHAPType'')]]
     @ (let v = f ''CHAPType'' in
        if v = code L ''EFI_ACPI_ISCSI_BOOT_FIRMWARE_TABLE_TARGET_STRUCTURE_CHAP_TYPE_NO_CHAP'' then [Print ''      No CHAP'' []] else
        if v = code L ''EFI_ACPI_ISCSI_BOOT_FIRMWARE_TABLE_TARGET_STRUCTURE_CHAP_TYPE_CHAP'' then [Print ''      CHAP'' []] else
        if v = code L ''EFI_ACPI_ISCSI_BOOT_FIRMWARE_TABLE_TARGET_STRUCTURE_CHAP_TYPE_MUTUAL_CHAP'' then [Print ''      Mutual CHAP'' []] else [])
     @ [Print ''    NIC Association 0x%02x'' [Hex (f ''NicIndex'')],
       Print ''    Target Name Length 0x%04x'' [Hex (f ''IScsiNameLength'')],
       Print ''    Target Name Offset 0x%04x'' [Hex (f ''IScsiNameOffset'')],
       Print '''' []]
     @ DumpIbftName T L (f ''IScsiNameLength'') (Ibft + unat (f ''IScsiNameOffset''))
     @ [Print '''' [],
       Print ''    CHAP Name Length 0x%04x'' [Hex (f ''CHAPNameLength'')],
       Print ''    CHAP Name Offset 0x%04x'' [Hex (f ''CHAPNameOffset'')],
       Print '''' []]
     @ DumpIbftName T L (f ''CHAPNameLength'') (Ibft + unat (f ''CHAPNameOffset''))
     @ [Print '''' [],
       Print ''    CHAP Secret Length 0x%04x'' [Hex (f ''CHAPSecretLength'')],
       Print ''    CHAP Secret Offset 0x%04x'' [Hex (f ''CHAPSecretOffset'')],
       Print '''' []]
     @ DumpIbftByte T L (f ''CHAPSecretLength'') (Ibft + unat (f ''CHAPSecretOffset''))
     @ [Print '''' [],
       Print ''    Reverse CHAP Name Length 0x%04x'' [Hex (f ''ReverseCHAPNameLength'')],
       Print ''    Reverse CHAP Name Offset 0x%04x'' [Hex (f ''ReverseCHAPNameOffset'')],
       Print '''' []]
     @ DumpIbftName T L (f ''ReverseCHAPNameLength'') (Ibft + unat (f ''ReverseCHAPNameOffset''))
     @ [Print '''' [],
       Print ''    Reverse CHAP Secret Length 0x%04x'' [Hex (f ''ReverseCHAPSecretLength'')],
       Print ''    Reverse CHAP Secret Offset 0x%04x'' [Hex (f ''ReverseCHAPSecretOffset'')],
       Print '''' []]
     @ DumpIbftName T L (f ''ReverseCHAPSecretLength'') (Ibft + unat (f ''ReverseCHAPSecretOffset''))
     @ [Print '''' [],
       Print ''  ***'' []])"

definition DumpIbftExtensionsStruct :: "acpi_tables \<Rightarrow> acpi_layout \<Rightarrow> addr \<Rightarrow> addr \<Rightarrow> out list" where
  "DumpIbftExtensionsStruct T L Ibft IbftStructure =
     (if IbftStructure = NULL then [] else
      let f = fld T L ''EFI_ACPI_ISCSI_BOOT_FIRMWARE_TABLE_STRUCTURE_HEADER'' IbftStructure in
     [Print ''  ***IBFT Extensions Structure***'' [],
       Print ''  Ibft Structure address 0x%016lx'' [hxn IbftStructure],
       Print ''    Structure Id 0x%02x'' [Hex (f ''StructureId'')],
       Print ''    Version 0x%02x'' [Hex (f ''Version'')],
       Print ''    Length 0x%04x'' [Hex (f ''Length'')],
       Print ''    Index 0x%02x'' [Hex (f ''Index'')],
       Print ''    Flags 0x%02x'' [Hex (f ''Flags'')],
       Print ''  ***'' []])"

definition DumpAcpiIBFT_contents :: "acpi_tables \<Rightarrow> acpi_layout \<Rightarrow> addr \<Rightarrow> out list option" where
  "DumpAcpiIBFT_contents T L Table =
     (let IbftStructure = Table + extent L ''EFI_ACPI_ISCSI_BOOT_FIRMWARE_TABLE_HEADER'';
          f = fld T L ''EFI_ACPI_ISCSI_BOOT_FIRMWARE_TABLE_CONTROL_STRUCTURE'' IbftStructure
      in Some (DumpIbftControlStruct T L Table IbftStructure
           @ (if f ''InitiatorOffset'' \<noteq> 0
              then DumpIbftInitiatorStruct T L Table (Table + unat (f ''InitiatorOffset'')) else [])
           @ concat (map (\<lambda>Index.
               let NICOffset = get16 T (NicTarget L IbftStructure Index);
                   TargetOffset = get16 T (NicTarget L IbftStructure Index + 2)
               in (if NICOffset \<noteq> 0 then DumpIbftNicStruct T L Table (Table + unat NICOffset) else [])
                  @ (if TargetOffset \<noteq> 0 then DumpIbftTargetStruct T L Table (Table + unat TargetOffset) else []))
               [0..<unat (ibft_Count T L IbftStructure)])
           @ (if f ''Extensions'' \<noteq> 0
              then DumpIbftExtensionsStruct T L Table (Table + unat (f ''Extensions'')) else [])))"

definition DumpAcpiIBFT :: "acpi_tables \<Rightarrow> acpi_layout \<Rightarrow> addr \<Rightarrow> acpi_state \<Rightarrow> acpi_state option" where
  "DumpAcpiIBFT T L =
     library_dump T ''***ISCSI Boot Firmware Table***'' ''IBFT address 0x%016lx'' (DumpAcpiIBFT_contents T L)"

definition DumpAcpiIBFTLibConstructor :: "acpi_layout \<Rightarrow> acpi_state \<Rightarrow> efi_status \<times> acpi_state" where
  "DumpAcpiIBFTLibConstructor L = RegisterDumpAcpiTable (ucast (code L ''EFI_ACPI_3_0_ISCSI_BOOT_FIRMWARE_TABLE_SIGNATURE'')) (LibraryDump 19)"

end
