(* ===== verification/Acpi_Walked.thy ===== *)
theory Acpi_Walked
  imports Acpi_Layout
begin

text \<open>
  \<^verbatim>\<open>AcpiToolPkg/Library/DumpAcpi/*\<close>: The tables of structures of stated lengths, walked to their end: ASF!, CPEP, MCFG and LPIT; the
  memory topology table with its nested devices; the firmware performance data table and the tables its
  records point to; the table of non-volatile memory modules; the DMA remapping table, whose printers
  resemble those of VtdDump (\<open>Vtd_Dmar\<close>), hence the \<open>_lib\<close>.
\<close>

section \<open>ASF\<close>

definition DumpAsfInfo :: "acpi_tables \<Rightarrow> acpi_layout \<Rightarrow> addr \<Rightarrow> out list" where
  "DumpAsfInfo T L AsfInfo =
     (if AsfInfo = NULL then [] else
      let f = fld T L ''EFI_ACPI_ASF_INFO'' AsfInfo in
     [Print ''  ***ASF_INFO***'' [],
       Print ''  ASF_INFO address 0x%016lx'' [hxn AsfInfo],
       Print ''      Type 0x%02x'' [Hex (f ''RecordHeader.Type'')],
       Print ''      Record Length 0x%02x'' [Hex (f ''RecordHeader.RecordLength'')],
       Print ''      Minumum Watchdog Reset Value 0x%02x'' [Hex (f ''MinWatchDogResetValue'')],
       Print ''      Minumum Asf Sensor Interpoll Wait Time 0x%02x'' [Hex (f ''MinPollingInterval'')],
       Print ''      System ID 0x%04x'' [Hex (f ''SystemID'')],
       Print ''      IANA Manufacture ID 0x%08x'' [Hex (f ''IANAManufactureID'')],
       Print ''      Feature Flags 0x%02x'' [Hex (f ''FeatureFlags'')],
       Print ''  ***'' []])"

definition DumpAsfAlert :: "acpi_tables \<Rightarrow> acpi_layout \<Rightarrow> addr \<Rightarrow> out list" where
  "DumpAsfAlert T L AsfAlert =
     (if AsfAlert = NULL then [] else
      let f = fld T L ''EFI_ACPI_ASF_ALRT'' AsfAlert in
     [Print ''  ***ASF_ALERT***'' [],
       Print ''  ASF_ALERT address 0x%016lx'' [hxn AsfAlert],
       Print ''      Type 0x%02x'' [Hex (f ''RecordHeader.Type'')],
       Print ''      Record Length 0x%02x'' [Hex (f ''RecordHeader.RecordLength'')],
       Print ''      Assertion Event Bit Mask 0x%02x'' [Hex (f ''AssertionEventBitMask'')],
       Print ''      De-Assertion Event Bit Mask 0x%02x'' [Hex (f ''DeassertionEventBitMask'')],
       Print ''      Number Of Alerts 0x%02x'' [Hex (f ''NumberOfAlerts'')],
       Print ''      Array Element Length 0x%02x'' [Hex (f ''ArrayElementLength'')],
       Print ''      Device Array'' []]
     @ concat (map (\<lambda>Index. [Print ''        Alert Data %d:'' [hxn Index],
       Print ''          Device Address 0x%02x'' [Hex
           (fld T L ''EFI_ACPI_ASF_ALERTDATA'' (AsfAlert + extent L ''EFI_ACPI_ASF_ALRT'' + extent L
           ''EFI_ACPI_ASF_ALERTDATA'' * Index) ''DeviceAddress'')],
       Print ''          Command 0x%02x'' [Hex
           (fld T L ''EFI_ACPI_ASF_ALERTDATA'' (AsfAlert + extent L ''EFI_ACPI_ASF_ALRT'' + extent L
           ''EFI_ACPI_ASF_ALERTDATA'' * Index) ''Command'')],
       Print ''          Data Mask 0x%02x'' [Hex
           (fld T L ''EFI_ACPI_ASF_ALERTDATA'' (AsfAlert + extent L ''EFI_ACPI_ASF_ALRT'' + extent L
           ''EFI_ACPI_ASF_ALERTDATA'' * Index) ''DataMask'')],
       Print ''          Compare Value 0x%02x'' [Hex
           (fld T L ''EFI_ACPI_ASF_ALERTDATA'' (AsfAlert + extent L ''EFI_ACPI_ASF_ALRT'' + extent L
           ''EFI_ACPI_ASF_ALERTDATA'' * Index) ''CompareValue'')],
       Print ''          Event Sensor Type 0x%02x'' [Hex
           (fld T L ''EFI_ACPI_ASF_ALERTDATA'' (AsfAlert + extent L ''EFI_ACPI_ASF_ALRT'' + extent L
           ''EFI_ACPI_ASF_ALERTDATA'' * Index) ''EventSenseType'')],
       Print ''          Event Type 0x%02x'' [Hex
           (fld T L ''EFI_ACPI_ASF_ALERTDATA'' (AsfAlert + extent L ''EFI_ACPI_ASF_ALRT'' + extent L
           ''EFI_ACPI_ASF_ALERTDATA'' * Index) ''EventType'')],
       Print ''          Event Offset 0x%02x'' [Hex
           (fld T L ''EFI_ACPI_ASF_ALERTDATA'' (AsfAlert + extent L ''EFI_ACPI_ASF_ALRT'' + extent L
           ''EFI_ACPI_ASF_ALERTDATA'' * Index) ''EventOffset'')],
       Print ''          Event Source Type 0x%02x'' [Hex
           (fld T L ''EFI_ACPI_ASF_ALERTDATA'' (AsfAlert + extent L ''EFI_ACPI_ASF_ALRT'' + extent L
           ''EFI_ACPI_ASF_ALERTDATA'' * Index) ''EventSourceType'')],
       Print ''          Event Severity 0x%02x'' [Hex
           (fld T L ''EFI_ACPI_ASF_ALERTDATA'' (AsfAlert + extent L ''EFI_ACPI_ASF_ALRT'' + extent L
           ''EFI_ACPI_ASF_ALERTDATA'' * Index) ''EventSeverity'')],
       Print ''          Sensor Number 0x%02x'' [Hex
           (fld T L ''EFI_ACPI_ASF_ALERTDATA'' (AsfAlert + extent L ''EFI_ACPI_ASF_ALRT'' + extent L
           ''EFI_ACPI_ASF_ALERTDATA'' * Index) ''SensorNumber'')],
       Print ''          Entity 0x%02x'' [Hex
           (fld T L ''EFI_ACPI_ASF_ALERTDATA'' (AsfAlert + extent L ''EFI_ACPI_ASF_ALRT'' + extent L
           ''EFI_ACPI_ASF_ALERTDATA'' * Index) ''Entity'')],
       Print ''          Entity Instance 0x%02x'' [Hex
           (fld T L ''EFI_ACPI_ASF_ALERTDATA'' (AsfAlert + extent L ''EFI_ACPI_ASF_ALRT'' + extent L
           ''EFI_ACPI_ASF_ALERTDATA'' * Index) ''EntityInstance'')]]) [0..<unat (f ''NumberOfAlerts'')])
     @ [Print ''  ***'' []])"

definition DumpAsfRctl :: "acpi_tables \<Rightarrow> acpi_layout \<Rightarrow> addr \<Rightarrow> out list" where
  "DumpAsfRctl T L AsfRctl =
     (if AsfRctl = NULL then [] else
      let f = fld T L ''EFI_ACPI_ASF_RCTL'' AsfRctl in
     [Print ''  ***ASF_RCTL***'' [],
       Print ''  ASF_RCTL address 0x%016lx'' [hxn AsfRctl],
       Print ''      Type 0x%02x'' [Hex (f ''RecordHeader.Type'')],
       Print ''      Record Length 0x%02x'' [Hex (f ''RecordHeader.RecordLength'')],
       Print ''      Number Of Controls 0x%02x'' [Hex (f ''NumberOfControls'')],
       Print ''      Array Element Length 0x%02x'' [Hex (f ''ArrayElementLength'')],
       Print ''      Control Array'' []]
     @ concat (map (\<lambda>Index. [Print ''        Control Data %d:'' [hxn Index],
       Print ''          Function 0x%02x'' [Hex
           (fld T L ''EFI_ACPI_ASF_CONTROLDATA'' (AsfRctl + extent L ''EFI_ACPI_ASF_RCTL'' + extent L
           ''EFI_ACPI_ASF_CONTROLDATA'' * Index) ''Function'')],
       Print ''          Device Address 0x%02x'' [Hex
           (fld T L ''EFI_ACPI_ASF_CONTROLDATA'' (AsfRctl + extent L ''EFI_ACPI_ASF_RCTL'' + extent L
           ''EFI_ACPI_ASF_CONTROLDATA'' * Index) ''DeviceAddress'')],
       Print ''          Command 0x%02x'' [Hex
           (fld T L ''EFI_ACPI_ASF_CONTROLDATA'' (AsfRctl + extent L ''EFI_ACPI_ASF_RCTL'' + extent L
           ''EFI_ACPI_ASF_CONTROLDATA'' * Index) ''Command'')],
       Print ''          Data Value 0x%02x'' [Hex
           (fld T L ''EFI_ACPI_ASF_CONTROLDATA'' (AsfRctl + extent L ''EFI_ACPI_ASF_RCTL'' + extent L
           ''EFI_ACPI_ASF_CONTROLDATA'' * Index) ''DataValue'')]]) [0..<unat (f ''NumberOfControls'')])
     @ [Print ''  ***'' []])"

definition DumpAsfRmcp :: "acpi_tables \<Rightarrow> acpi_layout \<Rightarrow> addr \<Rightarrow> out list" where
  "DumpAsfRmcp T L AsfRmcp =
     (if AsfRmcp = NULL then [] else
      let f = fld T L ''EFI_ACPI_ASF_RMCP'' AsfRmcp in
     [Print ''  ***ASF_RMCP***'' [],
       Print ''  ASF_RMCP address 0x%016lx'' [hxn AsfRmcp],
       Print ''      Type 0x%02x'' [Hex (f ''RecordHeader.Type'')],
       Print ''      Record Length 0x%02x'' [Hex (f ''RecordHeader.RecordLength'')],
       Print ''      RMCP Boot Options Capabilites'' [],
       Print ''        RMCP System Firmware Capabilities Bit Mask byte1 0x%02x''
           [Hex (get8 T (AsfRmcp + offset L ''EFI_ACPI_ASF_RMCP'' ''RemoteControlCapabilities'' + 0))],
       Print ''        RMCP System Firmware Capabilities Bit Mask byte2 0x%02x''
           [Hex (get8 T (AsfRmcp + offset L ''EFI_ACPI_ASF_RMCP'' ''RemoteControlCapabilities'' + 1))],
       Print ''        RMCP System Firmware Capabilities Bit Mask byte3 0x%02x''
           [Hex (get8 T (AsfRmcp + offset L ''EFI_ACPI_ASF_RMCP'' ''RemoteControlCapabilities'' + 2))],
       Print ''        RMCP System Firmware Capabilities Bit Mask byte4 0x%02x''
           [Hex (get8 T (AsfRmcp + offset L ''EFI_ACPI_ASF_RMCP'' ''RemoteControlCapabilities'' + 3))],
       Print ''        RMCP Special Commands Bit Mask byte1 0x%02x''
           [Hex (get8 T (AsfRmcp + offset L ''EFI_ACPI_ASF_RMCP'' ''RemoteControlCapabilities'' + 4))],
       Print ''        RMCP Special Commands Bit Mask byte2 0x%02x''
           [Hex (get8 T (AsfRmcp + offset L ''EFI_ACPI_ASF_RMCP'' ''RemoteControlCapabilities'' + 5))],
       Print ''        RMCP System Capabilites Bit Mask 0x%02x''
           [Hex (get8 T (AsfRmcp + offset L ''EFI_ACPI_ASF_RMCP'' ''RemoteControlCapabilities'' + 6))],
       Print ''      RCMP Boot Options Completion Code 0x%02x'' [Hex (f ''RMCPCompletionCode'')],
       Print ''      RCMP IANA Enterprise ID %08x'' [Hex (f ''RMCPIANA'')],
       Print ''      RCMP Special Command 0x%02x'' [Hex (f ''RMCPSpecialCommand'')],
       Print ''      RCMP Special Command Parameter Byte 1 0x%02x''
           [Hex (get8 T (AsfRmcp + offset L ''EFI_ACPI_ASF_RMCP'' ''RMCPSpecialCommandParameter'' + 0))],
       Print ''      RCMP Special Command Parameter Byte 2 0x%02x''
           [Hex (get8 T (AsfRmcp + offset L ''EFI_ACPI_ASF_RMCP'' ''RMCPSpecialCommandParameter'' + 1))],
       Print ''      RCMP Boot Options Bit Mask Byte 1 0x%02x'' [Hex (get8 T (AsfRmcp + offset L ''EFI_ACPI_ASF_RMCP'' ''RMCPBootOptions'' + 0))],
       Print ''      RCMP Boot Options Bit Mask Byte 2 0x%02x'' [Hex (get8 T (AsfRmcp + offset L ''EFI_ACPI_ASF_RMCP'' ''RMCPBootOptions'' + 1))],
       Print ''      RCMP OEM Parameter Byte 1 0x%02x'' [Hex (get8 T (AsfRmcp + offset L ''EFI_ACPI_ASF_RMCP'' ''RMCPOEMParameters'' + 0))],
       Print ''      RCMP OEM Parameter Byte 2 0x%02x'' [Hex (get8 T (AsfRmcp + offset L ''EFI_ACPI_ASF_RMCP'' ''RMCPOEMParameters'' + 1))],
       Print ''  ***'' []])"

definition DumpAsfAddr :: "acpi_tables \<Rightarrow> acpi_layout \<Rightarrow> addr \<Rightarrow> out list" where
  "DumpAsfAddr T L AsfAddr =
     (if AsfAddr = NULL then [] else
      let f = fld T L ''EFI_ACPI_ASF_ADDR'' AsfAddr in
     [Print ''  ***ASF_ADDR***'' [],
       Print ''  ASF_ADDR address 0x%016lx'' [hxn AsfAddr],
       Print ''      Type 0x%02x'' [Hex (f ''RecordHeader.Type'')],
       Print ''      Record Length 0x%02x'' [Hex (f ''RecordHeader.RecordLength'')],
       Print ''      SEEPROM Address 0x%02x'' [Hex (f ''SEEPROMAddress'')],
       Print ''      Number Of Devices 0x%02x'' [Hex (f ''NumberOfDevices'')],
       Print ''      Fixed SMBus Address'' []]
     @ concat (map (\<lambda>Index. [Print ''        Device %d 0x%02x'' [hxn Index,
         Hex (get8 T (AsfAddr + extent L ''EFI_ACPI_ASF_ADDR'' + Index))]]) [0..<unat (f ''NumberOfDevices'')])
     @ [Print ''  ***'' []])"

definition asf_dump :: "acpi_tables \<Rightarrow> acpi_layout \<Rightarrow> addr \<Rightarrow> out list" where
  "asf_dump T L AsfRecordEntry =
     (let v = fld T L ''EFI_ACPI_ASF_RECORD_HEADER'' AsfRecordEntry ''Type'' AND 0x7F in
      if v = 0 then DumpAsfInfo T L AsfRecordEntry
      else if v = 1 then DumpAsfAlert T L AsfRecordEntry
      else if v = 2 then DumpAsfRctl T L AsfRecordEntry
      else if v = 3 then DumpAsfRmcp T L AsfRecordEntry
      else if v = 4 then DumpAsfAddr T L AsfRecordEntry
      else [])"

text \<open>The loop over the records: bit 7 of the type marks the last one.\<close>

partial_function (option) asf_records :: "acpi_tables \<Rightarrow> acpi_layout \<Rightarrow> addr \<Rightarrow> out
    list \<Rightarrow> out list option" where
  "asf_records T L AsfRecordEntry os =
     (let RecordLength = unat (fld T L ''EFI_ACPI_ASF_RECORD_HEADER'' AsfRecordEntry ''RecordLength'');
          os = os @ asf_dump T L AsfRecordEntry
      in if fld T L ''EFI_ACPI_ASF_RECORD_HEADER'' AsfRecordEntry ''Type'' AND 0x80 = 0x80 then Some os
         else asf_records T L (AsfRecordEntry + RecordLength) os)"

definition DumpAcpiASFT_contents :: "acpi_tables \<Rightarrow> acpi_layout \<Rightarrow> addr \<Rightarrow> out list option" where
  "DumpAcpiASFT_contents T L Asft =
     (asf_records T L (Asft + sizeof_HEADER T) [])"

definition DumpAcpiASFT :: "acpi_tables \<Rightarrow> acpi_layout \<Rightarrow> addr \<Rightarrow> acpi_state \<Rightarrow> acpi_state option" where
  "DumpAcpiASFT T L =
     library_dump T ''***Alert Standard Format Table***'' ''ASF! address 0x%016lx'' (DumpAcpiASFT_contents T L)"

definition DumpAcpiASFLibConstructor :: "acpi_layout \<Rightarrow> acpi_state \<Rightarrow> efi_status \<times> acpi_state" where
  "DumpAcpiASFLibConstructor L = RegisterDumpAcpiTable (ucast (code L ''EFI_ACPI_ASF_DESCRIPTION_TABLE_SIGNATURE'')) (LibraryDump 2)"

section \<open>CPEP\<close>

definition DumpAcpiCpepStruct :: "acpi_tables \<Rightarrow> acpi_layout \<Rightarrow> addr \<Rightarrow> out list" where
  "DumpAcpiCpepStruct T L CpepStruct =
     (if CpepStruct = NULL then [] else
      let f = fld T L ''EFI_ACPI_4_0_CPEP_PROCESSOR_APIC_SAPIC_STRUCTURE'' CpepStruct in
     [Print ''  ***CPEP Structure***'' [],
       Print ''  CPEP Structure address 0x%016lx'' [hxn CpepStruct],
       Print ''    Type 0x%02x'' [Hex (f ''Type'')],
       Print ''    Length 0x%02x'' [Hex (f ''Length'')],
       Print ''    Processor ID 0x%02x'' [Hex (f ''ProcessorId'')],
       Print ''    Processor EID 0x%02x'' [Hex (f ''ProcessorEid'')],
       Print ''    Polling Interval 0x%08x'' [Hex (f ''PollingInterval'')],
       Print ''  ***'' []])"

definition DumpAcpiCPEP_contents :: "acpi_tables \<Rightarrow> acpi_layout \<Rightarrow> addr \<Rightarrow> out list option" where
  "DumpAcpiCPEP_contents T L Cpep =
     (let header = extent L ''EFI_ACPI_4_0_CORRECTED_PLATFORM_ERROR_POLLING_TABLE_HEADER'';
          CpepLen = int (unat (fld T L ''EFI_ACPI_4_0_CORRECTED_PLATFORM_ERROR_POLLING_TABLE_HEADER'' Cpep ''Header.Length'')) - int header
      in structures (\<lambda>p. extent L ''EFI_ACPI_4_0_CPEP_PROCESSOR_APIC_SAPIC_STRUCTURE'')
           (\<lambda>p. Some (DumpAcpiCpepStruct T L p)) (Cpep + header) CpepLen [Print '''' []])"

definition DumpAcpiCPEP :: "acpi_tables \<Rightarrow> acpi_layout \<Rightarrow> addr \<Rightarrow> acpi_state \<Rightarrow> acpi_state option" where
  "DumpAcpiCPEP T L =
     library_dump T ''***Corrected Platform Error Polling Table***'' ''CPEP address 0x%016lx'' (DumpAcpiCPEP_contents T L)"

definition DumpAcpiCPEPLibConstructor :: "acpi_layout \<Rightarrow> acpi_state \<Rightarrow> efi_status \<times> acpi_state" where
  "DumpAcpiCPEPLibConstructor L = RegisterDumpAcpiTable (ucast (code L
      ''EFI_ACPI_3_0_CORRECTED_PLATFORM_ERROR_POLLING_TABLE_SIGNATURE'')) (LibraryDump 6)"

section \<open>MCFG\<close>

definition DumpAcpiMemoryMappedConfigurationBaseAddressAllocation :: "acpi_tables \<Rightarrow> acpi_layout \<Rightarrow> addr \<Rightarrow> out list" where
  "DumpAcpiMemoryMappedConfigurationBaseAddressAllocation T L MemoryMappedConfigurationBaseAddressAllocation =
     (if MemoryMappedConfigurationBaseAddressAllocation = NULL then [] else
      let f = fld T L ''EFI_ACPI_MEMORY_MAPPED_ENHANCED_CONFIGURATION_SPACE_BASE_ADDRESS_ALLOCATION_STRUCTURE''
          MemoryMappedConfigurationBaseAddressAllocation in
     [Print ''  ***Memory Mapped Configuration Base Address Allocation Structure***'' [],
       Print ''  MemoryMappedConfigurationBaseAddressAllocation address 0x%016lx'' [hxn MemoryMappedConfigurationBaseAddressAllocation],
       Print ''    Base Address 0x%016lx'' [Hex (f ''BaseAddress'')],
       Print ''    PCI Segment Group Number 0x%04x'' [Hex (f ''PciSegmentGroupNumber'')],
       Print ''    Start Bus Number 0x%02x'' [Hex (f ''StartBusNumber'')],
       Print ''    End Bus Number 0x%02x'' [Hex (f ''EndBusNumber'')],
       Print ''  ***'' []])"

definition DumpAcpiMCFG_contents :: "acpi_tables \<Rightarrow> acpi_layout \<Rightarrow> addr \<Rightarrow> out list option" where
  "DumpAcpiMCFG_contents T L Mcfg =
     (let header = extent L ''EFI_ACPI_MEMORY_MAPPED_CONFIGURATION_BASE_ADDRESS_TABLE_HEADER'';
          McfgLen = int (unat (fld T L ''EFI_ACPI_MEMORY_MAPPED_CONFIGURATION_BASE_ADDRESS_TABLE_HEADER'' Mcfg ''Header.Length''))
                      - int header
      in structures
           (\<lambda>p. extent L ''EFI_ACPI_MEMORY_MAPPED_ENHANCED_CONFIGURATION_SPACE_BASE_ADDRESS_ALLOCATION_STRUCTURE'')
           (\<lambda>p. Some (DumpAcpiMemoryMappedConfigurationBaseAddressAllocation T L p)) (Mcfg + header) McfgLen [Print '''' []])"

definition DumpAcpiMCFG :: "acpi_tables \<Rightarrow> acpi_layout \<Rightarrow> addr \<Rightarrow> acpi_state \<Rightarrow> acpi_state option" where
  "DumpAcpiMCFG T L =
     library_dump T ''***PCI Express Memory Mapped Configuration Space Base Address Description Table***''
         ''MCFG address 0x%016lx'' (DumpAcpiMCFG_contents T L)"

definition DumpAcpiMCFGLibConstructor :: "acpi_layout \<Rightarrow> acpi_state \<Rightarrow> efi_status \<times> acpi_state" where
  "DumpAcpiMCFGLibConstructor L = RegisterDumpAcpiTable (ucast (code L
      ''EFI_ACPI_2_0_MEMORY_MAPPED_CONFIGURATION_BASE_ADDRESS_TABLE_SIGNATURE'')) (LibraryDump 22)"

section \<open>LPIT\<close>

definition DumpNativeCStateLpiStateStructure :: "acpi_tables \<Rightarrow> acpi_layout \<Rightarrow> addr \<Rightarrow> out list" where
  "DumpNativeCStateLpiStateStructure T L NativeCStateLpiState =
     (if NativeCStateLpiState = NULL then [] else
      let f = fld T L ''ACPI_LPI_NATIVE_CSTATE_DESCRIPTOR'' NativeCStateLpiState in
     [Print ''  ***Native C State LPI State Descriptor***'' [],
       Print ''  NativeCStateLpiState address 0x%016lx'' [hxn NativeCStateLpiState],
       Print ''    Type 0x%08x'' [Hex (f ''Type'')],
       Print ''    Length 0x%08x'' [Hex (f ''Length'')],
       Print ''    Unique Id 0x%04x'' [Hex (f ''UniqueId'')],
       Print ''    Flags 0x%08x'' [Hex (f ''Flags.Data32'')],
       Print ''      Diabled 0x%08x'' [Hex (f ''Flags.Bits.Disabled'')],
       Print ''      Counter Unavailable 0x%08x'' [Hex (push_bit 1 (f ''Flags.Bits.CounterUnavailable''))],
       Print ''    Entry Trigger Register'' []]
     @ DumpAcpiGAddressStructure T (NativeCStateLpiState + offset L ''ACPI_LPI_NATIVE_CSTATE_DESCRIPTOR'' ''EntryTrigger'')
     @ [Print ''    Residency 0x%08x'' [Hex (f ''Residency'')],
       Print ''    Latency 0x%08x'' [Hex (f ''Latency'')],
       Print ''    Residency Counter Register'' []]
     @ DumpAcpiGAddressStructure T (NativeCStateLpiState + offset L ''ACPI_LPI_NATIVE_CSTATE_DESCRIPTOR'' ''ResidencyCounter'')
     @ [Print ''    Residency Counter Frequency 0x%016lx'' [Hex (f ''ResidencyCounterFrequency'')],
       Print ''  ***'' []])"

text \<open>The layout of \<^verbatim>\<open>EFI_ACPI_LPI_DESCRIPTOR\<close>: \<open>Type\<close> and \<open>Length\<close>, 32 bits each.\<close>

definition lpi_Length :: "acpi_tables \<Rightarrow> addr \<Rightarrow> nat" where
  "lpi_Length T p = unat (get32 T (p + 4))"

definition lpi_dump :: "acpi_tables \<Rightarrow> acpi_layout \<Rightarrow> addr \<Rightarrow> out list" where
  "lpi_dump T L LpiDesc =
     (if get32 T LpiDesc = code L ''ACPI_LPI_STRUCTURE_TYPE_NATIVE_CSTATE''
      then DumpNativeCStateLpiStateStructure T L LpiDesc else [])"

definition DumpAcpiLPIT_contents :: "acpi_tables \<Rightarrow> acpi_layout \<Rightarrow> addr \<Rightarrow> out list option" where
  "DumpAcpiLPIT_contents T L Lpit =
     (let LpiLen = int (unat (h_Length T Lpit)) - int (sizeof_HEADER T)
      in structures_next (lpi_Length T) (\<lambda>p. Some (lpi_dump T L p)) (Lpit + sizeof_HEADER T) LpiLen [Print '''' []])"

definition DumpAcpiLPIT :: "acpi_tables \<Rightarrow> acpi_layout \<Rightarrow> addr \<Rightarrow> acpi_state \<Rightarrow> acpi_state option" where
  "DumpAcpiLPIT T L =
     library_dump T ''***Low Power Idle Table***'' ''LPIT address 0x%016lx'' (DumpAcpiLPIT_contents T L)"

definition DumpAcpiLPITLibConstructor :: "acpi_layout \<Rightarrow> acpi_state \<Rightarrow> efi_status \<times> acpi_state" where
  "DumpAcpiLPITLibConstructor L = RegisterDumpAcpiTable (ucast (code L
      ''EFI_ACPI_5_1_IO_LOW_POWER_IDLE_TABLE_STRUCTURE_SIGNATURE'')) (LibraryDump 21)"

section \<open>PMTT\<close>

definition DumpPmttDevice :: "acpi_tables \<Rightarrow> acpi_layout \<Rightarrow> addr \<Rightarrow> out list" where
  "DumpPmttDevice T L CommonMemoryAggregatorDevice =
     (let f = fld T L ''EFI_ACPI_5_0_PMMT_COMMON_MEMORY_AGGREGATOR_DEVICE_STRUCTURE'' CommonMemoryAggregatorDevice in
     [Print ''    Type 0x%02x'' [Hex (f ''Type'')],
       Print ''    Length 0x%04x'' [Hex (f ''Length'')],
       Print ''    Flags 0x%04x'' [Hex (f ''Flags'')]]
     @ (if (f ''Flags'' AND 0x1) \<noteq> 0 then [Print ''      top level aggregator device'' []]
         else [Print ''      not top level aggregator device'' []])
     @ (if (f ''Flags'' AND 0x2) \<noteq> 0 then [Print ''      physical element of the topology'' []]
         else [Print ''      logical element of the topology'' []])
     @ (let v = drop_bit 2 (f ''Flags'' AND 0xC) in
        if v = 0x0 then [Print ''      all components aggregated by this device implements volatile memory'' []] else
        if v = 0x1 then [Print ''      all components aggregated by this device implements both volatile and non-volatile memory'' []] else
        if v = 0x2 then [Print ''      all components aggregated by this device implements non-volatile memory'' []] else []))"

definition DumpPmttDimm :: "acpi_tables \<Rightarrow> acpi_layout \<Rightarrow> addr \<Rightarrow> out list" where
  "DumpPmttDimm T L DimmDevice =
     (if DimmDevice = NULL then [] else
      let f = fld T L ''EFI_ACPI_5_0_PMMT_DIMM_MEMORY_AGGREGATOR_DEVICE_STRUCTURE'' DimmDevice in
     [Print ''  ***DIMM Device***'' [],
       Print ''  DIMM Device address 0x%016lx'' [hxn DimmDevice]]
     @ DumpPmttDevice T L (DimmDevice + offset L ''EFI_ACPI_5_0_PMMT_DIMM_MEMORY_AGGREGATOR_DEVICE_STRUCTURE'' ''Header'')
     @ [Print ''    Physical Component Identifier 0x%04x'' [Hex (f ''PhysicalComponentIdentifier'')],
       Print ''    Size Of Dimm (in MB) 0x%08x'' [Hex (f ''SizeOfDimm'')],
       Print ''    SMBIOS Handler 0x%08x'' [Hex (f ''SmbiosHandle'')],
       Print ''  ***'' []])"

text \<open>\<open>ProximityDomain\<close> is never advanced: the first domain is printed for all of them.\<close>

abbreviation (input) sizeof_MEMORY_CONTROLLER :: "acpi_layout \<Rightarrow> nat" where
  "sizeof_MEMORY_CONTROLLER L \<equiv> extent L ''EFI_ACPI_5_0_PMMT_MEMORY_CONTROLLER_MEMORY_AGGREGATOR_DEVICE_STRUCTURE''"

definition DumpPmttMemoryController :: "acpi_tables \<Rightarrow> acpi_layout \<Rightarrow> addr \<Rightarrow> out list option" where
  "DumpPmttMemoryController T L MemoryControllerDevice =
     (if MemoryControllerDevice = NULL then Some [] else
      let f = fld T L ''EFI_ACPI_5_0_PMMT_MEMORY_CONTROLLER_MEMORY_AGGREGATOR_DEVICE_STRUCTURE'' MemoryControllerDevice;
          ProximityDomain = MemoryControllerDevice + sizeof_MEMORY_CONTROLLER L;
          domains = 4 * unat (f ''NumberOfProximityDomains'');
          MemoryControllerLen = int (unat (f ''Header.Length'')) - int (sizeof_MEMORY_CONTROLLER L) - int domains
      in map_option (\<lambda>os. os @ [Print ''  ***'' []])
           (structures
             (\<lambda>p. unat (fld T L ''EFI_ACPI_5_0_PMMT_DIMM_MEMORY_AGGREGATOR_DEVICE_STRUCTURE'' p ''Header.Length''))
             (\<lambda>p. Some (DumpPmttDimm T L p)) (MemoryControllerDevice + sizeof_MEMORY_CONTROLLER L + domains) MemoryControllerLen
             ([Print ''  ***Memory Controller Device***'' [],
               Print ''  Memory Controller Device address 0x%016lx'' [hxn MemoryControllerDevice]]
              @ DumpPmttDevice T L (MemoryControllerDevice
                  + offset L ''EFI_ACPI_5_0_PMMT_MEMORY_CONTROLLER_MEMORY_AGGREGATOR_DEVICE_STRUCTURE'' ''Header'')
              @ [Print ''    Read Latency 0x%08x'' [Hex (f ''ReadLatency'')],
                 Print ''    Write Latency 0x%08x'' [Hex (f ''WriteLatency'')],
                 Print ''    Read Bandwidth 0x%08x'' [Hex (f ''ReadBandwidth'')],
                 Print ''    Write Bandwidth 0x%08x'' [Hex (f ''WriteBandwidth'')],
                 Print ''    Optimal Access Unit 0x%04x'' [Hex (f ''OptimalAccessUnit'')],
                 Print ''    Optimal Access Alignment 0x%04x'' [Hex (f ''OptimalAccessAlignment'')],
                 Print ''    Number Of Proximity Domains 0x%04x'' [Hex (f ''NumberOfProximityDomains'')]]
              @ map (\<lambda>Index. Print ''    Proximity Domains 0x%08x'' [Hex (get32 T ProximityDomain)])
                  [0..<unat (f ''NumberOfProximityDomains'')])))"

abbreviation (input) sizeof_SOCKET :: "acpi_layout \<Rightarrow> nat" where
  "sizeof_SOCKET L \<equiv> extent L ''EFI_ACPI_5_0_PMMT_SOCKET_MEMORY_AGGREGATOR_DEVICE_STRUCTURE''"

definition DumpPmttSocket :: "acpi_tables \<Rightarrow> acpi_layout \<Rightarrow> addr \<Rightarrow> out list option" where
  "DumpPmttSocket T L SocketDevice =
     (if SocketDevice = NULL then Some [] else
      let f = fld T L ''EFI_ACPI_5_0_PMMT_SOCKET_MEMORY_AGGREGATOR_DEVICE_STRUCTURE'' SocketDevice;
          SocketLen = int (unat (f ''Header.Length'')) - int (sizeof_SOCKET L)
      in map_option (\<lambda>os. os @ [Print ''  ***'' []])
           (structures
             (\<lambda>p. unat (fld T L ''EFI_ACPI_5_0_PMMT_MEMORY_CONTROLLER_MEMORY_AGGREGATOR_DEVICE_STRUCTURE'' p ''Header.Length''))
             (DumpPmttMemoryController T L) (SocketDevice + sizeof_SOCKET L) SocketLen
             ([Print ''  ***Socket Device***'' [], Print ''  Socket Device address 0x%016lx'' [hxn SocketDevice]]
              @ DumpPmttDevice T L (SocketDevice
                  + offset L ''EFI_ACPI_5_0_PMMT_SOCKET_MEMORY_AGGREGATOR_DEVICE_STRUCTURE'' ''Header'')
              @ [Print ''    Socket Identifier 0x%02x'' [Hex (f ''SocketIdentifier'')]])))"

definition aggregator_Length :: "acpi_tables \<Rightarrow> acpi_layout \<Rightarrow> addr \<Rightarrow> nat" where
  "aggregator_Length T L p =
     unat (fld T L ''EFI_ACPI_5_0_PMMT_COMMON_MEMORY_AGGREGATOR_DEVICE_STRUCTURE'' p ''Length'')"

definition aggregator_dump :: "acpi_tables \<Rightarrow> acpi_layout \<Rightarrow> addr \<Rightarrow> out list option" where
  "aggregator_dump T L p =
     (let v = fld T L ''EFI_ACPI_5_0_PMMT_COMMON_MEMORY_AGGREGATOR_DEVICE_STRUCTURE'' p ''Type'' in
      if v = code L ''EFI_ACPI_5_0_PMMT_MEMORY_AGGREGATOR_DEVICE_TYPE_SOCKET'' then DumpPmttSocket T L p
      else if v = code L ''EFI_ACPI_5_0_PMMT_MEMORY_AGGREGATOR_DEVICE_TYPE_MEMORY_CONTROLLER'' then DumpPmttMemoryController T L p
      else if v = code L ''EFI_ACPI_5_0_PMMT_MEMORY_AGGREGATOR_DEVICE_TYPE_DIMM'' then Some (DumpPmttDimm T L p)
      else Some [])"

definition DumpAcpiPMTT_contents :: "acpi_tables \<Rightarrow> acpi_layout \<Rightarrow> addr \<Rightarrow> out list option" where
  "DumpAcpiPMTT_contents T L Pmtt =
     (let header = extent L ''EFI_ACPI_5_0_MEMORY_TOPOLOGY_TABLE'';
          PmttLen = int (unat (fld T L ''EFI_ACPI_5_0_MEMORY_TOPOLOGY_TABLE'' Pmtt ''Header.Length'')) - int header
      in structures_next (aggregator_Length T L) (aggregator_dump T L) (Pmtt + header) PmttLen [])"

definition DumpAcpiPMTT :: "acpi_tables \<Rightarrow> acpi_layout \<Rightarrow> addr \<Rightarrow> acpi_state \<Rightarrow> acpi_state option" where
  "DumpAcpiPMTT T L =
     library_dump T ''***Memory Topology Table***'' ''PMTT address 0x%016lx'' (DumpAcpiPMTT_contents T L)"

definition DumpAcpiPMTTLibConstructor :: "acpi_layout \<Rightarrow> acpi_state \<Rightarrow> efi_status \<times> acpi_state" where
  "DumpAcpiPMTTLibConstructor L = RegisterDumpAcpiTable (ucast (code L ''EFI_ACPI_5_0_PLATFORM_MEMORY_TOPOLOGY_TABLE_SIGNATURE'')) (LibraryDump 28)"

section \<open>FPDT\<close>

definition DumpFpdtRecordHeader :: "acpi_tables \<Rightarrow> acpi_layout \<Rightarrow> addr \<Rightarrow> out list" where
  "DumpFpdtRecordHeader T L FpdtRecord =
     (if FpdtRecord = NULL then [] else
      let f = fld T L ''EFI_ACPI_5_0_FPDT_PERFORMANCE_RECORD_HEADER'' FpdtRecord in
     [Print ''  ***Performance Record***'' [],
       Print ''  Fpdt Record address 0x%016lx'' [hxn FpdtRecord],
       Print ''    Type 0x%04x'' [Hex (f ''Type'')],
       Print ''    Length 0x%02x'' [Hex (f ''Length'')],
       Print ''    Revision 0x%02x'' [Hex (f ''Revision'')],
       Print ''  ***'' []])"

definition DumpFpdtBasicBootData :: "acpi_tables \<Rightarrow> acpi_layout \<Rightarrow> addr \<Rightarrow> out list" where
  "DumpFpdtBasicBootData T L FpdtRecord =
     (if FpdtRecord = NULL then [] else
      let f = fld T L ''EFI_ACPI_5_0_FPDT_FIRMWARE_BASIC_BOOT_RECORD'' FpdtRecord in
     [Print ''  ***Basic Boot Performance Record***'' [],
       Print ''  Fpdt Record address 0x%016lx'' [hxn FpdtRecord],
       Print ''    Type 0x%04x'' [Hex (f ''Header.Type'')],
       Print ''    Length 0x%02x'' [Hex (f ''Header.Length'')],
       Print ''    Revision 0x%02x'' [Hex (f ''Header.Revision'')],
       Print ''    Reset End 0x%016lx'' [Hex (f ''ResetEnd'')],
       Print ''    OS Loader LoadImage Start 0x%016lx'' [Hex (f ''OsLoaderLoadImageStart'')],
       Print ''    OS Loader StartImage Start 0x%016lx'' [Hex (f ''OsLoaderStartImageStart'')],
       Print ''    ExitBootServices Entry 0x%016lx'' [Hex (f ''ExitBootServicesEntry'')],
       Print ''    ExitBootServices Exit 0x%016lx'' [Hex (f ''ExitBootServicesExit'')],
       Print ''  ***'' []])"

definition fpdt_Length :: "acpi_tables \<Rightarrow> acpi_layout \<Rightarrow> addr \<Rightarrow> nat" where
  "fpdt_Length T L p = unat (fld T L ''EFI_ACPI_5_0_FPDT_PERFORMANCE_RECORD_HEADER'' p ''Length'')"

abbreviation (input) fpdt_Type :: "acpi_tables \<Rightarrow> acpi_layout \<Rightarrow> addr \<Rightarrow> u64" where
  "fpdt_Type T L p \<equiv> fld T L ''EFI_ACPI_5_0_FPDT_PERFORMANCE_RECORD_HEADER'' p ''Type''"

definition basic_boot_dump :: "acpi_tables \<Rightarrow> acpi_layout \<Rightarrow> addr \<Rightarrow> out list" where
  "basic_boot_dump T L p =
     (if fpdt_Type T L p = code L ''EFI_ACPI_5_0_FPDT_RUNTIME_RECORD_TYPE_FIRMWARE_BASIC_BOOT''
      then DumpFpdtBasicBootData T L p else DumpFpdtRecordHeader T L p)"

definition DumpFpdtBasicBootTable :: "acpi_tables \<Rightarrow> acpi_layout \<Rightarrow> addr \<Rightarrow> out list option" where
  "DumpFpdtBasicBootTable T L FpdtRecordTable =
     (if FpdtRecordTable = NULL then Some [] else
      let f = fld T L ''EFI_ACPI_5_0_FPDT_FIRMWARE_BASIC_BOOT_TABLE'' FpdtRecordTable;
          FpdtRecordLen = int (unat (f ''Header.Length'')) - int (extent L ''EFI_ACPI_5_0_FPDT_FIRMWARE_BASIC_BOOT_TABLE.Header'')
      in structures (fpdt_Length T L) (\<lambda>p. Some (basic_boot_dump T L p))
           (FpdtRecordTable + extent L ''EFI_ACPI_5_0_FPDT_FIRMWARE_BASIC_BOOT_TABLE'') FpdtRecordLen
           [Print ''  ***Basic Boot Performance Table***'' [],
            Print ''  Fpdt Record address 0x%016lx'' [hxn FpdtRecordTable],
            Print ''    Signature 0x%08x'' [Hex (f ''Header.Signature'')],
            Print ''    Length 0x%08x'' [Hex (f ''Header.Length'')],
            Print ''  ***'' []])"

definition DumpFpdtBootPerformanceTablePointer :: "acpi_tables \<Rightarrow> acpi_layout \<Rightarrow> addr \<Rightarrow> out list option" where
  "DumpFpdtBootPerformanceTablePointer T L FpdtRecord =
     (if FpdtRecord = NULL then Some [] else
      let f = fld T L ''EFI_ACPI_5_0_FPDT_BOOT_PERFORMANCE_TABLE_POINTER_RECORD'' FpdtRecord in
      map_option ((@) [Print ''  ***Boot Performance Table Pointer Record***'' [],
         Print ''  Fpdt Record address 0x%016lx'' [hxn FpdtRecord],
         Print ''    Type 0x%04x'' [Hex (f ''Header.Type'')],
         Print ''    Length 0x%02x'' [Hex (f ''Header.Length'')],
         Print ''    Revision 0x%02x'' [Hex (f ''Header.Revision'')],
         Print ''    Boot Performance Table Pointer 0x%016lx'' [Hex (f ''BootPerformanceTablePointer'')],
         Print ''  ***'' []])
        (DumpFpdtBasicBootTable T L (unat (f ''BootPerformanceTablePointer''))))"

definition DumpFpdtS3PerformanceTableS3Resume :: "acpi_tables \<Rightarrow> acpi_layout \<Rightarrow> addr \<Rightarrow> out list" where
  "DumpFpdtS3PerformanceTableS3Resume T L FpdtRecord =
     (if FpdtRecord = NULL then [] else
      let f = fld T L ''EFI_ACPI_5_0_FPDT_S3_RESUME_RECORD'' FpdtRecord in
     [Print ''  ***S3 Resume Performance Record***'' [],
       Print ''  Fpdt Record address 0x%016lx'' [hxn FpdtRecord],
       Print ''    Type 0x%04x'' [Hex (f ''Header.Type'')],
       Print ''    Length 0x%02x'' [Hex (f ''Header.Length'')],
       Print ''    Revision 0x%02x'' [Hex (f ''Header.Revision'')],
       Print ''    Resume Count 0x%08x'' [Hex (f ''ResumeCount'')],
       Print ''    Full Resume 0x%016lx'' [Hex (f ''FullResume'')],
       Print ''    Average Resume 0x%016lx'' [Hex (f ''AverageResume'')],
       Print ''  ***'' []])"

definition DumpFpdtS3PerformanceTableS3Suspend :: "acpi_tables \<Rightarrow> acpi_layout \<Rightarrow> addr \<Rightarrow> out list" where
  "DumpFpdtS3PerformanceTableS3Suspend T L FpdtRecord =
     (if FpdtRecord = NULL then [] else
      let f = fld T L ''EFI_ACPI_5_0_FPDT_S3_SUSPEND_RECORD'' FpdtRecord in
     [Print ''  ***S3 Suspend Performance Record***'' [],
       Print ''  Fpdt Record address 0x%016lx'' [hxn FpdtRecord],
       Print ''    Type 0x%04x'' [Hex (f ''Header.Type'')],
       Print ''    Length 0x%02x'' [Hex (f ''Header.Length'')],
       Print ''    Revision 0x%02x'' [Hex (f ''Header.Revision'')],
       Print ''    Suspend Start 0x%016lx'' [Hex (f ''SuspendStart'')],
       Print ''    Suspend End 0x%016lx'' [Hex (f ''SuspendEnd'')],
       Print ''  ***'' []])"

definition s3_dump :: "acpi_tables \<Rightarrow> acpi_layout \<Rightarrow> addr \<Rightarrow> out list" where
  "s3_dump T L p =
     (if fpdt_Type T L p = code L ''EFI_ACPI_5_0_FPDT_RUNTIME_RECORD_TYPE_S3_RESUME''
      then DumpFpdtS3PerformanceTableS3Resume T L p
      else if fpdt_Type T L p = code L ''EFI_ACPI_5_0_FPDT_RUNTIME_RECORD_TYPE_S3_SUSPEND''
      then DumpFpdtS3PerformanceTableS3Suspend T L p else DumpFpdtRecordHeader T L p)"

definition DumpFpdtS3BootTable :: "acpi_tables \<Rightarrow> acpi_layout \<Rightarrow> addr \<Rightarrow> out list option" where
  "DumpFpdtS3BootTable T L FpdtRecordTable =
     (if FpdtRecordTable = NULL then Some [] else
      let f = fld T L ''EFI_ACPI_5_0_FPDT_FIRMWARE_S3_BOOT_TABLE'' FpdtRecordTable;
          FpdtRecordLen = int (unat (f ''Header.Length'')) - int (extent L ''EFI_ACPI_5_0_FPDT_FIRMWARE_S3_BOOT_TABLE.Header'')
      in structures (fpdt_Length T L) (\<lambda>p. Some (s3_dump T L p))
           (FpdtRecordTable + extent L ''EFI_ACPI_5_0_FPDT_FIRMWARE_S3_BOOT_TABLE'') FpdtRecordLen
           [Print ''  ***S3 Boot Performance Table***'' [],
            Print ''  Fpdt Record address 0x%016lx'' [hxn FpdtRecordTable],
            Print ''    Signature 0x%08x'' [Hex (f ''Header.Signature'')],
            Print ''    Length 0x%08x'' [Hex (f ''Header.Length'')],
            Print ''  ***'' []])"

definition DumpFpdtS3PerformanceTablePointer :: "acpi_tables \<Rightarrow> acpi_layout \<Rightarrow> addr \<Rightarrow> out list option" where
  "DumpFpdtS3PerformanceTablePointer T L FpdtRecord =
     (if FpdtRecord = NULL then Some [] else
      let f = fld T L ''EFI_ACPI_5_0_FPDT_S3_PERFORMANCE_TABLE_POINTER_RECORD'' FpdtRecord in
      map_option ((@) [Print ''  ***S3 Performance Table Pointer Record***'' [],
         Print ''  Fpdt Record address 0x%016lx'' [hxn FpdtRecord],
         Print ''    Type 0x%04x'' [Hex (f ''Header.Type'')],
         Print ''    Length 0x%02x'' [Hex (f ''Header.Length'')],
         Print ''    Revision 0x%02x'' [Hex (f ''Header.Revision'')],
         Print ''    S3 Performance Table Pointer 0x%016lx'' [Hex (f ''S3PerformanceTablePointer'')],
         Print ''  ***'' []])
        (DumpFpdtS3BootTable T L (unat (f ''S3PerformanceTablePointer''))))"

definition fpdt_dump :: "acpi_tables \<Rightarrow> acpi_layout \<Rightarrow> addr \<Rightarrow> out list option" where
  "fpdt_dump T L p =
     (if fpdt_Type T L p = code L ''EFI_ACPI_5_0_FPDT_RECORD_TYPE_FIRMWARE_BASIC_BOOT_POINTER''
      then DumpFpdtBootPerformanceTablePointer T L p
      else if fpdt_Type T L p = code L ''EFI_ACPI_5_0_FPDT_RECORD_TYPE_S3_PERFORMANCE_TABLE_POINTER''
      then DumpFpdtS3PerformanceTablePointer T L p else Some (DumpFpdtRecordHeader T L p))"

definition DumpAcpiFPDT_contents :: "acpi_tables \<Rightarrow> acpi_layout \<Rightarrow> addr \<Rightarrow> out list option" where
  "DumpAcpiFPDT_contents T L Fpdt =
     (let header = extent L ''EFI_ACPI_5_0_FIRMWARE_PERFORMANCE_RECORD_TABLE'';
          FpdtLen = int (unat (fld T L ''EFI_ACPI_5_0_FIRMWARE_PERFORMANCE_RECORD_TABLE'' Fpdt ''Header.Length'')) - int header
      in structures (fpdt_Length T L) (fpdt_dump T L) (Fpdt + header) FpdtLen [])"

definition DumpAcpiFPDT :: "acpi_tables \<Rightarrow> acpi_layout \<Rightarrow> addr \<Rightarrow> acpi_state \<Rightarrow> acpi_state option" where
  "DumpAcpiFPDT T L =
     library_dump T ''***Firmware Performance Data Table***'' ''FPDT address 0x%016lx'' (DumpAcpiFPDT_contents T L)"

definition DumpAcpiFPDTLibConstructor :: "acpi_layout \<Rightarrow> acpi_state \<Rightarrow> efi_status \<times> acpi_state" where
  "DumpAcpiFPDTLibConstructor L = RegisterDumpAcpiTable (ucast (code L
      ''EFI_ACPI_5_0_FIRMWARE_PERFORMANCE_DATA_TABLE_SIGNATURE'')) (LibraryDump 15)"

section \<open>NFIT\<close>

definition DumpNfitFlushHintAddressStruct :: "acpi_tables \<Rightarrow> acpi_layout \<Rightarrow> addr \<Rightarrow> out list" where
  "DumpNfitFlushHintAddressStruct T L FlushHintAddress =
     (if FlushHintAddress = NULL then [] else
      let f = fld T L ''EFI_ACPI_6_0_NFIT_FLUSH_HINT_ADDRESS_STRUCTURE'' FlushHintAddress in
     [Print ''  ***Flush Hint Address Structure***'' [],
       Print ''  Flush Hint Address Structure address 0x%016lx'' [hxn FlushHintAddress],
       Print ''    Type 0x%04x'' [Hex (f ''Type'')],
       Print ''    Length 0x%04x'' [Hex (f ''Length'')],
       Print ''    NFIT Device Handle 0x%08x'' [Hex (f ''NFITDeviceHandle'')],
       Print ''      DIMM Number 0x%08x'' [Hex (f ''NFITDeviceHandle.DIMMNumber'')],
       Print ''      Memory Channel Number 0x%08x'' [Hex (f ''NFITDeviceHandle.MemoryChannelNumber'')],
       Print ''      Memory Controller ID 0x%08x'' [Hex (f ''NFITDeviceHandle.MemoryControllerID'')],
       Print ''      Socket ID 0x%08x'' [Hex (f ''NFITDeviceHandle.SocketID'')],
       Print ''      Node Controller ID 0x%08x'' [Hex (f ''NFITDeviceHandle.NodeControllerID'')],
       Print ''    Number Of Flush Hint Addresses 0x%04x'' [Hex (f ''NumberOfFlushHintAddresses'')]]
     @ concat (map (\<lambda>Index. [Print ''    Flush Hint Address %03d 0x%016lx'' [hxn Index,
         Hex (get64 T (FlushHintAddress + extent L ''EFI_ACPI_6_0_NFIT_FLUSH_HINT_ADDRESS_STRUCTURE'' + 8 *
         Index))]]) [0..<unat (f ''NumberOfFlushHintAddresses'')])
     @ [Print ''  ***'' []])"

definition DumpNfitNVDIMMBlockDataWindowRegionStruct :: "acpi_tables \<Rightarrow> acpi_layout \<Rightarrow> addr \<Rightarrow> out list" where
  "DumpNfitNVDIMMBlockDataWindowRegionStruct T L NVDIMMBlockDataWindowRegion =
     (if NVDIMMBlockDataWindowRegion = NULL then [] else
      let f = fld T L ''EFI_ACPI_6_0_NFIT_NVDIMM_BLOCK_DATA_WINDOW_REGION_STRUCTURE'' NVDIMMBlockDataWindowRegion in
     [Print ''  ***NVDIMM Block Data Window Region Structure***'' [],
       Print ''  NVDIMM Block Data Window Region Structure address 0x%016lx'' [hxn NVDIMMBlockDataWindowRegion],
       Print ''    Type 0x%04x'' [Hex (f ''Type'')],
       Print ''    Length 0x%04x'' [Hex (f ''Length'')],
       Print ''    NVDIMM Control Region Structure Index 0x%04x'' [Hex (f ''NVDIMMControlRegionStructureIndex'')],
       Print ''    Number Of Block Data Windows 0x%04x'' [Hex (f ''NumberOfBlockDataWindows'')],
       Print ''    Block Data Window Start Offset 0x%016lx'' [Hex (f ''BlockDataWindowStartOffset'')],
       Print ''    Size Of Block Data Window 0x%016lx'' [Hex (f ''SizeOfBlockDataWindow'')],
       Print ''    Block Accessible Memory Capacity 0x%016lx'' [Hex (f ''BlockAccessibleMemoryCapacity'')],
       Print ''    Beginning Address Of First Block In Block Accessible 0x%016lx''
           [Hex (f ''BeginningAddressOfFirstBlockInBlockAccessibleMemory'')],
       Print ''  ***'' []])"

definition DumpNfitNVDIMMControlRegionStruct :: "acpi_tables \<Rightarrow> acpi_layout \<Rightarrow> addr \<Rightarrow> out list" where
  "DumpNfitNVDIMMControlRegionStruct T L NVDIMMControlRegion =
     (if NVDIMMControlRegion = NULL then [] else
      let f = fld T L ''EFI_ACPI_6_0_NFIT_NVDIMM_CONTROL_REGION_STRUCTURE'' NVDIMMControlRegion in
     [Print ''  ***NVDIMM Control Region Structure***'' [],
       Print ''  NVDIMM Control Region Structure address 0x%016lx'' [hxn NVDIMMControlRegion],
       Print ''    Type 0x%04x'' [Hex (f ''Type'')],
       Print ''    Length 0x%04x'' [Hex (f ''Length'')],
       Print ''    NVDIMM Control Region Structure Index 0x%04x'' [Hex (f ''NVDIMMControlRegionStructureIndex'')],
       Print ''    Vendor ID 0x%04x'' [Hex (f ''VendorID'')],
       Print ''    Device ID 0x%04x'' [Hex (f ''DeviceID'')],
       Print ''    Revision ID 0x%04x'' [Hex (f ''RevisionID'')],
       Print ''    Subsystem Vendor ID 0x%04x'' [Hex (f ''SubsystemVendorID'')],
       Print ''    Subsystem Device ID 0x%04x'' [Hex (f ''SubsystemDeviceID'')],
       Print ''    Subsystem Revision ID 0x%04x'' [Hex (f ''SubsystemRevisionID'')],
       Print ''    Serial Number 0x%08x'' [Hex (f ''SerialNumber'')],
       Print ''    Region Format Interface Code 0x%04x'' [Hex (f ''RegionFormatInterfaceCode'')],
       Print ''    Number Of Block Control Windows 0x%04x'' [Hex (f ''NumberOfBlockControlWindows'')],
       Print ''    Size Of Block Control Window 0x%016lx'' [Hex (f ''SizeOfBlockControlWindow'')],
       Print ''    Command Register Offset In Block Control Window 0x%016lx'' [Hex (f ''CommandRegisterOffsetInBlockControlWindow'')],
       Print ''    Size Of Command Register In Block Control Windows 0x%016lx'' [Hex (f ''SizeOfCommandRegisterInBlockControlWindows'')],
       Print ''    Status Register Offset In Block Control Window 0x%016lx'' [Hex (f ''StatusRegisterOffsetInBlockControlWindow'')],
       Print ''    Size Of Status Register In Block Control Windows 0x%016lx'' [Hex (f ''SizeOfStatusRegisterInBlockControlWindows'')],
       Print ''    NVDIMM Control Region Flag 0x%04x'' [Hex (f ''NVDIMMControlRegionFlag'')],
       Print ''      Block Data Windows implementation is buffered 0x%04x'' [Hex (f ''NVDIMMControlRegionFlag''
           AND code L ''EFI_ACPI_6_0_NFIT_NVDIMM_CONTROL_REGION_FLAGS_BLOCK_DATA_WINDOWS_BUFFERED'')],
       Print ''  ***'' []])"

definition DumpNfitSMBIOSManagementInformationStruct :: "acpi_tables \<Rightarrow> acpi_layout \<Rightarrow> addr \<Rightarrow> out list" where
  "DumpNfitSMBIOSManagementInformationStruct T L SMBIOSManagementInformation =
     (if SMBIOSManagementInformation = NULL then [] else
      let f = fld T L ''EFI_ACPI_6_0_NFIT_SMBIOS_MANAGEMENT_INFORMATION_STRUCTURE'' SMBIOSManagementInformation;
          Data = SMBIOSManagementInformation + extent L ''EFI_ACPI_6_0_NFIT_SMBIOS_MANAGEMENT_INFORMATION_STRUCTURE'';
          DataSize = f ''Length'' - of_nat (extent L ''EFI_ACPI_6_0_NFIT_SMBIOS_MANAGEMENT_INFORMATION_STRUCTURE'')
      in [Print ''  ***SMBIOS Management Information Structure***'' [],
          Print ''  SMBIOS Management Information Structure address 0x%016lx'' [hxn SMBIOSManagementInformation],
          Print ''    Type 0x%04x'' [Hex (f ''Type'')],
          Print ''    Length 0x%04x'' [Hex (f ''Length'')],
          Print ''    Data'' []]
        @ DumpAcpiHex (tmem T) (unat DataSize) Data
        @ [Print ''  ***'' []])"

definition DumpNfitInterleaveStruct :: "acpi_tables \<Rightarrow> acpi_layout \<Rightarrow> addr \<Rightarrow> out list" where
  "DumpNfitInterleaveStruct T L Interleave =
     (if Interleave = NULL then [] else
      let f = fld T L ''EFI_ACPI_6_0_NFIT_INTERLEAVE_STRUCTURE'' Interleave in
     [Print ''  ***Interleave Structure***'' [],
       Print ''  Interleave Structure address 0x%016lx'' [hxn Interleave],
       Print ''    Type 0x%04x'' [Hex (f ''Type'')],
       Print ''    Length 0x%04x'' [Hex (f ''Length'')],
       Print ''    Interleave Structure Index 0x%04x'' [Hex (f ''InterleaveStructureIndex'')],
       Print ''    Number Of Lines 0x%08x'' [Hex (f ''NumberOfLines'')],
       Print ''    Line Size 0x%08x'' [Hex (f ''LineSize'')]]
     @ concat (map (\<lambda>Index. [Print ''    Line %03d 0ffset 0x%08x'' [hxn Index,
         Hex (get32 T (Interleave + extent L ''EFI_ACPI_6_0_NFIT_INTERLEAVE_STRUCTURE'' + 4 * Index))]]) [0..<unat (f ''NumberOfLines'')])
     @ [Print ''  ***'' []])"

definition DumpNfitMemoryDeviceToSystemPhysicalAddressRangeMappingStruct :: "acpi_tables \<Rightarrow> acpi_layout \<Rightarrow> addr \<Rightarrow> out list" where
  "DumpNfitMemoryDeviceToSystemPhysicalAddressRangeMappingStruct T L MemoryDeviceToSystemPhysicalAddressRangeMapping =
     (if MemoryDeviceToSystemPhysicalAddressRangeMapping = NULL then [] else
      let f = fld T L ''EFI_ACPI_6_0_NFIT_MEMORY_DEVICE_TO_SYSTEM_ADDRESS_RANGE_MAP_STRUCTURE'' MemoryDeviceToSystemPhysicalAddressRangeMapping in
     [Print ''  ***Memory Device To System Physical Address Range Mapping Structure***'' [],
       Print ''  Memory Device To System Physical Address Range Mapping 0x%016lx'' [hxn MemoryDeviceToSystemPhysicalAddressRangeMapping],
       Print ''    Type 0x%04x'' [Hex (f ''Type'')],
       Print ''    Length 0x%04x'' [Hex (f ''Length'')],
       Print ''    NFIT Device Handle 0x%08x'' [Hex (f ''NFITDeviceHandle'')],
       Print ''      DIMM Number 0x%08x'' [Hex (f ''NFITDeviceHandle.DIMMNumber'')],
       Print ''      Memory Channel Number 0x%08x'' [Hex (f ''NFITDeviceHandle.MemoryChannelNumber'')],
       Print ''      Memory Controller ID 0x%08x'' [Hex (f ''NFITDeviceHandle.MemoryControllerID'')],
       Print ''      Socket ID 0x%08x'' [Hex (f ''NFITDeviceHandle.SocketID'')],
       Print ''      Node Controller ID 0x%08x'' [Hex (f ''NFITDeviceHandle.NodeControllerID'')],
       Print ''    Memory Device  Physical ID 0x%04x'' [Hex (f ''MemoryDevicePhysicalID'')],
       Print ''    Memory Device Region ID 0x%04x'' [Hex (f ''MemoryDeviceRegionID'')],
       Print ''    SPA Range Structure Index 0x%04x'' [Hex (f ''SPARangeStructureIndex'')],
       Print ''    NVDIMM Control Region Structure Index 0x%04x'' [Hex (f ''NVDIMMControlRegionStructureIndex'')],
       Print ''    Memory Device Region Size 0x%016lx'' [Hex (f ''MemoryDeviceRegionSize'')],
       Print ''    Region Offset 0x%016lx'' [Hex (f ''RegionOffset'')],
       Print ''    Memory Device Physical Address Region Base 0x%016lx'' [Hex (f ''MemoryDevicePhysicalAddressRegionBase'')],
       Print ''    Interleave Structure Index 0x%04x'' [Hex (f ''InterleaveStructureIndex'')],
       Print ''    Interleave Ways 0x%04x'' [Hex (f ''InterleaveWays'')],
       Print ''    Memory Device State Flags 0x%04x'' [Hex (f ''MemoryDeviceStateFlags'')],
       Print ''      previous SAVE to the Memory Device failed 0x%04x'' [Hex (f ''MemoryDeviceStateFlags''
           AND code L ''EFI_ACPI_6_0_NFIT_MEMORY_DEVICE_STATE_FLAGS_PREVIOUS_SAVE_FAIL'')],
       Print ''      last RESTORE from the Memory Device failed 0x%04x'' [Hex (f ''MemoryDeviceStateFlags''
           AND code L ''EFI_ACPI_6_0_NFIT_MEMORY_DEVICE_STATE_FLAGS_LAST_RESTORE_FAIL'')],
       Print ''      platform flush of data to Memory Device failed 0x%04x'' [Hex (f ''MemoryDeviceStateFlags''
           AND code L ''EFI_ACPI_6_0_NFIT_MEMORY_DEVICE_STATE_FLAGS_PLATFORM_FLUSH_FAIL'')],
       Print ''      Memory Device is not armed prior to OSPM hand off 0x%04x''
           [Hex (f ''MemoryDeviceStateFlags'' AND code L ''EFI_ACPI_6_0_NFIT_MEMORY_DEVICE_STATE_FLAGS_NOT_ARMED_PRIOR_TO_OSPM_HAND_OFF'')],
       Print ''      SMART and health events prior OSPM handoff 0x%04x'' [Hex (f ''MemoryDeviceStateFlags''
           AND code L ''EFI_ACPI_6_0_NFIT_MEMORY_DEVICE_STATE_FLAGS_SMART_HEALTH_EVENTS_PRIOR_OSPM_HAND_OFF'')],
       Print ''      firmware enabled to notify SMART and health events 0x%04x''
           [Hex (f ''MemoryDeviceStateFlags''
           AND code L ''EFI_ACPI_6_0_NFIT_MEMORY_DEVICE_STATE_FLAGS_FIRMWARE_ENABLED_TO_NOTIFY_OSPM_ON_SMART_HEALTH_EVENTS'')],
       Print ''  ***'' []])"

definition DumpNfitSystemPhysicalAddressRangeStruct :: "acpi_tables \<Rightarrow> acpi_layout \<Rightarrow> addr \<Rightarrow> out list" where
  "DumpNfitSystemPhysicalAddressRangeStruct T L SystemPhysicalAddressRangeStruct =
     (if SystemPhysicalAddressRangeStruct = NULL then [] else
      let f = fld T L ''EFI_ACPI_6_0_NFIT_SYSTEM_PHYSICAL_ADDRESS_RANGE_STRUCTURE'' SystemPhysicalAddressRangeStruct in
     [Print ''  ***System Physical Address Range Structure***'' [],
       Print ''  System Physical Address Range Structure address 0x%016lx'' [hxn SystemPhysicalAddressRangeStruct],
       Print ''    Type 0x%04x'' [Hex (f ''Type'')],
       Print ''    Length 0x%04x'' [Hex (f ''Length'')],
       Print ''    SPA Range Structure Index 0x%02x'' [Hex (f ''SPARangeStructureIndex'')],
       Print ''    Flags 0x%04x'' [Hex (f ''Flags'')],
       Print ''      Control Region for management during hot add/online  0x%04x'' [Hex (f ''Flags''
           AND code L ''EFI_ACPI_6_0_NFIT_SYSTEM_PHYSICAL_ADDRESS_RANGE_FLAGS_CONTROL_REGION_FOR_MANAGEMENT'')],
       Print ''      Proximity Domain field valid 0x%04x'' [Hex (f ''Flags''
           AND code L ''EFI_ACPI_6_0_NFIT_SYSTEM_PHYSICAL_ADDRESS_RANGE_FLAGS_CONTROL_REGION_FOR_MANAGEMENT'')],
       Print ''    Proximity Domain 0x%08x'' [Hex (f ''ProximityDomain'')],
       Print ''    Address Range Type GUID %g'' [Ascii (bytes_at (tmem T) (SystemPhysicalAddressRangeStruct + offset
           L ''EFI_ACPI_6_0_NFIT_SYSTEM_PHYSICAL_ADDRESS_RANGE_STRUCTURE'' ''AddressRangeTypeGUID'') 16)]]
     @ (if bytes_at (tmem T) (SystemPhysicalAddressRangeStruct + offset L
         ''EFI_ACPI_6_0_NFIT_SYSTEM_PHYSICAL_ADDRESS_RANGE_STRUCTURE'' ''AddressRangeTypeGUID'') 16 = guid_code L
         ''mEfiAcpiNfitGuidVolatileMemoryRegion'' then [Print ''      Volatile Memory Region'' []]
         else (if bytes_at (tmem T) (SystemPhysicalAddressRangeStruct + offset L
         ''EFI_ACPI_6_0_NFIT_SYSTEM_PHYSICAL_ADDRESS_RANGE_STRUCTURE'' ''AddressRangeTypeGUID'') 16 = guid_code L
         ''mEfiAcpiNfitGuidByteAddressablePersistentMemoryRegion''
         then [Print ''      Byte Addressable Persistent Memory (PM) Region'' []]
         else (if bytes_at (tmem T) (SystemPhysicalAddressRangeStruct + offset L
         ''EFI_ACPI_6_0_NFIT_SYSTEM_PHYSICAL_ADDRESS_RANGE_STRUCTURE'' ''AddressRangeTypeGUID'') 16 = guid_code L
         ''mEfiAcpiNfitGuidNVDIMMControlRegion'' then [Print ''      NVDIMM Control Region'' []]
         else (if bytes_at (tmem T) (SystemPhysicalAddressRangeStruct + offset L
         ''EFI_ACPI_6_0_NFIT_SYSTEM_PHYSICAL_ADDRESS_RANGE_STRUCTURE'' ''AddressRangeTypeGUID'') 16 = guid_code L
         ''mEfiAcpiNfitGuidNVDIMMBlockDataWindowRegion''
         then [Print ''      NVDIMM Block Data Window Region'' []]
         else (if bytes_at (tmem T) (SystemPhysicalAddressRangeStruct + offset L
         ''EFI_ACPI_6_0_NFIT_SYSTEM_PHYSICAL_ADDRESS_RANGE_STRUCTURE'' ''AddressRangeTypeGUID'') 16 = guid_code L
         ''mEfiAcpiNfitGuidRamDiskSupportingVirtualDiskRegionVolatile''
         then [Print ''      A RAM Disk Supporting a Virtual Disk Region - Volatile'' []]
         else (if bytes_at (tmem T) (SystemPhysicalAddressRangeStruct + offset L
         ''EFI_ACPI_6_0_NFIT_SYSTEM_PHYSICAL_ADDRESS_RANGE_STRUCTURE'' ''AddressRangeTypeGUID'') 16 = guid_code L
         ''mEfiAcpiNfitGuidRamDiskSupportingVirtualCDRegionVolatile''
         then [Print ''      A RAM Disk Supporting a Virtual CD Region - Volatile'' []]
         else (if bytes_at (tmem T) (SystemPhysicalAddressRangeStruct + offset L
         ''EFI_ACPI_6_0_NFIT_SYSTEM_PHYSICAL_ADDRESS_RANGE_STRUCTURE'' ''AddressRangeTypeGUID'') 16 = guid_code L
         ''mEfiAcpiNfitGuidRamDiskSupportingVirtualDiskRegionPersistent''
         then [Print ''      A RAM Disk Supporting a Virtual Disk Region - Persistent'' []]
         else (if bytes_at (tmem T) (SystemPhysicalAddressRangeStruct + offset L
         ''EFI_ACPI_6_0_NFIT_SYSTEM_PHYSICAL_ADDRESS_RANGE_STRUCTURE'' ''AddressRangeTypeGUID'') 16 = guid_code L
         ''mEfiAcpiNfitGuidRamDiskSupportingVirtualCDRegionPersistent''
         then [Print ''      A RAM Disk Supporting a Virtual CD Region - Persistent'' []] else []))))))))
     @ [Print ''    System Physical Address Range Base 0x%016lx'' [Hex (f ''SystemPhysicalAddressRangeBase'')],
       Print ''    System Physical Address Range Length 0x%016lx'' [Hex (f ''SystemPhysicalAddressRangeLength'')],
       Print ''    Address Range Memory Mapping Attribute 0x%016lx'' [Hex (f ''AddressRangeMemoryMappingAttribute'')]]
     @ (let v = f ''AddressRangeMemoryMappingAttribute'' in
        if v = code L ''EFI_MEMORY_UC'' then [Print ''      EFI_MEMORY_UC'' []] else
        if v = code L ''EFI_MEMORY_WC'' then [Print ''      EFI_MEMORY_WC'' []] else
        if v = code L ''EFI_MEMORY_WT'' then [Print ''      EFI_MEMORY_WT'' []] else
        if v = code L ''EFI_MEMORY_WB'' then [Print ''      EFI_MEMORY_WB'' []] else
        if v = code L ''EFI_MEMORY_UCE'' then [Print ''      EFI_MEMORY_UCE'' []] else
        if v = code L ''EFI_MEMORY_WP'' then [Print ''      EFI_MEMORY_WP'' []] else
        if v = code L ''EFI_MEMORY_RP'' then [Print ''      EFI_MEMORY_RP'' []] else
        if v = code L ''EFI_MEMORY_XP'' then [Print ''      EFI_MEMORY_XP'' []] else
        if v = 0x00008000 then [Print ''      EFI_MEMORY_NV'' []] else
        if v = 0x00010000 then [Print ''      EFI_MEMORY_MORE_RELIABLE'' []] else [])
     @ [Print ''  ***'' []])"

definition nfit_Length :: "acpi_tables \<Rightarrow> acpi_layout \<Rightarrow> addr \<Rightarrow> nat" where
  "nfit_Length T L p = unat (fld T L ''EFI_ACPI_6_0_NFIT_STRUCTURE_HEADER'' p ''Length'')"

definition nfit_dump :: "acpi_tables \<Rightarrow> acpi_layout \<Rightarrow> addr \<Rightarrow> out list" where
  "nfit_dump T L p =
     (let v = fld T L ''EFI_ACPI_6_0_NFIT_STRUCTURE_HEADER'' p ''Type'' in
      if v = code L ''EFI_ACPI_6_0_NFIT_SYSTEM_PHYSICAL_ADDRESS_RANGE_STRUCTURE_TYPE''
      then DumpNfitSystemPhysicalAddressRangeStruct T L p
      else if v = code L ''EFI_ACPI_6_0_NFIT_MEMORY_DEVICE_TO_SYSTEM_ADDRESS_RANGE_MAP_STRUCTURE_TYPE''
      then DumpNfitMemoryDeviceToSystemPhysicalAddressRangeMappingStruct T L p
      else if v = code L ''EFI_ACPI_6_0_NFIT_INTERLEAVE_STRUCTURE_TYPE'' then DumpNfitInterleaveStruct T L p
      else if v = code L ''EFI_ACPI_6_0_NFIT_SMBIOS_MANAGEMENT_INFORMATION_STRUCTURE_TYPE''
      then DumpNfitSMBIOSManagementInformationStruct T L p
      else if v = code L ''EFI_ACPI_6_0_NFIT_NVDIMM_CONTROL_REGION_STRUCTURE_TYPE''
      then DumpNfitNVDIMMControlRegionStruct T L p
      else if v = code L ''EFI_ACPI_6_0_NFIT_NVDIMM_BLOCK_DATA_WINDOW_REGION_STRUCTURE_TYPE''
      then DumpNfitNVDIMMBlockDataWindowRegionStruct T L p
      else if v = code L ''EFI_ACPI_6_0_NFIT_FLUSH_HINT_ADDRESS_STRUCTURE_TYPE'' then DumpNfitFlushHintAddressStruct T L p
      else [])"

definition DumpAcpiNFIT_contents :: "acpi_tables \<Rightarrow> acpi_layout \<Rightarrow> addr \<Rightarrow> out list option" where
  "DumpAcpiNFIT_contents T L Nfit =
     (let header = extent L ''EFI_ACPI_6_0_NVDIMM_FIRMWARE_INTERFACE_TABLE'';
          NfitLen = int (unat (fld T L ''EFI_ACPI_6_0_NVDIMM_FIRMWARE_INTERFACE_TABLE'' Nfit ''Header.Length'')) - int header
      in structures (nfit_Length T L) (\<lambda>p. Some (nfit_dump T L p)) (Nfit + header) NfitLen [])"

definition DumpAcpiNFIT :: "acpi_tables \<Rightarrow> acpi_layout \<Rightarrow> addr \<Rightarrow> acpi_state \<Rightarrow> acpi_state option" where
  "DumpAcpiNFIT T L =
     library_dump T ''***NFIT Table***'' ''NFIT address 0x%016lx'' (DumpAcpiNFIT_contents T L)"

definition DumpAcpiNFITLibConstructor :: "acpi_layout \<Rightarrow> acpi_state \<Rightarrow> efi_status \<times> acpi_state" where
  "DumpAcpiNFITLibConstructor L = RegisterDumpAcpiTable (ucast (code L
      ''EFI_ACPI_6_0_NVDIMM_FIRMWARE_INTERFACE_TABLE_STRUCTURE_SIGNATURE'')) (LibraryDump 27)"

section \<open>DMAR\<close>

definition DumpDmarDeviceScopeEntry_lib :: "acpi_tables \<Rightarrow> acpi_layout \<Rightarrow> addr \<Rightarrow> out list" where
  "DumpDmarDeviceScopeEntry_lib T L DmarDeviceScopeEntry =
     (if DmarDeviceScopeEntry = NULL then [] else
      let f = fld T L ''EFI_ACPI_DMAR_DEVICE_SCOPE_STRUCTURE_HEADER'' DmarDeviceScopeEntry;
          PciPathNumber = (f ''Length'' - of_nat (extent L ''EFI_ACPI_DMAR_DEVICE_SCOPE_STRUCTURE_HEADER''))
                            div of_nat (extent L ''EFI_ACPI_DMAR_PCI_PATH'');
          PciPath = DmarDeviceScopeEntry + extent L ''EFI_ACPI_DMAR_DEVICE_SCOPE_STRUCTURE_HEADER'';
          PciPath_at = (\<lambda>PciPathIndex. fld T L ''EFI_ACPI_DMAR_PCI_PATH''
                          (PciPath + extent L ''EFI_ACPI_DMAR_PCI_PATH'' * PciPathIndex))
      in [Print ''    ***DMA-Remapping Device Scope Entry Structure***'' [],
          Print ''    DMAR Device Scope Entry address 0x%016lx'' [hxn DmarDeviceScopeEntry],
          Print ''      Device Scope Entry Type 0x%02x'' [Hex (f ''Type'')]]
        @ (let v = f ''Type'' in
           if v = code L ''EFI_ACPI_DEVICE_SCOPE_ENTRY_TYPE_PCI_ENDPOINT'' then [Print ''        PCI Endpoint Device'' []] else
           if v = code L ''EFI_ACPI_DEVICE_SCOPE_ENTRY_TYPE_PCI_BRIDGE'' then [Print ''        PCI Sub-hierachy'' []] else
           if v = code L ''EFI_ACPI_DEVICE_SCOPE_ENTRY_TYPE_IOAPIC'' then [Print ''        IOAPIC'' []] else
           if v = code L ''EFI_ACPI_DEVICE_SCOPE_ENTRY_TYPE_MSI_CAPABLE_HPET'' then [Print ''        MSI Capable HPET'' []] else
           if v = code L ''EFI_ACPI_DEVICE_SCOPE_ENTRY_TYPE_ACPI_NAMESPACE_DEVICE''
           then [Print ''        ACPI Namespace Device'' []] else [])
        @ [Print ''      Length 0x%02x'' [Hex (f ''Length'')],
           Print ''      Enumeration ID 0x%02x'' [Hex (f ''EnumerationId'')],
           Print ''      Starting Bus Number 0x%02x'' [Hex (f ''StartBusNumber'')]]
        @ concat (map (\<lambda>PciPathIndex.
            [Print ''      Device 0x%02x'' [Hex (PciPath_at PciPathIndex ''Device'')],
             Print ''      Function 0x%02x'' [Hex (PciPath_at PciPathIndex ''Function'')]]) [0..<unat PciPathNumber])
        @ [Print ''    ***'' []])"

definition DumpDmarAndd_lib :: "acpi_tables \<Rightarrow> acpi_layout \<Rightarrow> addr \<Rightarrow> out list" where
  "DumpDmarAndd_lib T L Andd =
     (if Andd = NULL then [] else
      let f = fld T L ''EFI_ACPI_DMAR_ANDD_HEADER'' Andd in
     [Print ''  ***ACPI Name-space Device Declaration Structure***'' [],
       Print ''  ANDD address 0x%016lx'' [hxn Andd],
       Print ''    Type 0x%04x'' [Hex (f ''Header.Type'')],
       Print ''    Length 0x%04x'' [Hex (f ''Header.Length'')],
       Print ''    ACPI Device Number 0x%02x'' [Hex (f ''AcpiDeviceNumber'')],
       Print ''    ACPI Object Name %a'' [Ascii (cstr L (Andd + extent L ''EFI_ACPI_DMAR_ANDD_HEADER''))],
       Print ''  ***'' []])"

definition DumpDmarRhsa_lib :: "acpi_tables \<Rightarrow> acpi_layout \<Rightarrow> addr \<Rightarrow> out list" where
  "DumpDmarRhsa_lib T L Rhsa =
     (if Rhsa = NULL then [] else
      let f = fld T L ''EFI_ACPI_DMAR_RHSA_HEADER'' Rhsa in
     [Print ''  ***Remapping Hardware Status Affinity Structure***'' [],
       Print ''  RHSA address 0x%016lx'' [hxn Rhsa],
       Print ''    Type 0x%04x'' [Hex (f ''Header.Type'')],
       Print ''    Length 0x%04x'' [Hex (f ''Header.Length'')],
       Print ''    Register Base Address 0x%016lx'' [Hex (f ''RegisterBaseAddress'')],
       Print ''    Proximity Domain 0x%08x'' [Hex (f ''ProximityDomain'')],
       Print ''  ***'' []])"

text \<open>The loop over the device scopes that ATSR, RMRR and DRHD share, and the closing line.\<close>

definition dmar_scopes :: "acpi_tables \<Rightarrow> acpi_layout \<Rightarrow> addr \<Rightarrow> int \<Rightarrow> out list \<Rightarrow> out list option" where
  "dmar_scopes T L p n os =
     map_option (\<lambda>os. os @ [Print ''  ***'' []])
       (structures (\<lambda>p. unat (fld T L ''EFI_ACPI_DMAR_DEVICE_SCOPE_STRUCTURE_HEADER'' p ''Length''))
          (\<lambda>p. Some (DumpDmarDeviceScopeEntry_lib T L p)) p n os)"

definition DumpDmarAtsr_lib :: "acpi_tables \<Rightarrow> acpi_layout \<Rightarrow> addr \<Rightarrow> out list option" where
  "DumpDmarAtsr_lib T L Atsr =
     (if Atsr = NULL then Some [] else
      let f = fld T L ''EFI_ACPI_DMAR_ATSR_HEADER'' Atsr
      in dmar_scopes T L (Atsr + extent L ''EFI_ACPI_DMAR_ATSR_HEADER'') (int (unat (f ''Header.Length'')) - int
          (extent L ''EFI_ACPI_DMAR_ATSR_HEADER''))
           [Print ''  ***Root Port ATS Capability Reporting Structure***'' [],
            Print ''  ATSR address 0x%016lx'' [hxn Atsr],
            Print ''    Type 0x%04x'' [Hex (f ''Header.Type'')],
            Print ''    Length 0x%04x'' [Hex (f ''Header.Length'')],
            Print ''    Flags 0x%02x'' [Hex (f ''Flags'')],
            Print ''      ALL_PORTS 0x%02x'' [Hex (f ''Flags'' AND code L ''EFI_ACPI_DMAR_ATSR_FLAGS_ALL_PORTS'')],
            Print ''    Segment Number 0x%04x'' [Hex (f ''SegmentNumber'')]])"

definition DumpDmarRmrr_lib :: "acpi_tables \<Rightarrow> acpi_layout \<Rightarrow> addr \<Rightarrow> out list option" where
  "DumpDmarRmrr_lib T L Rmrr =
     (if Rmrr = NULL then Some [] else
      let f = fld T L ''EFI_ACPI_DMAR_RMRR_HEADER'' Rmrr
      in dmar_scopes T L (Rmrr + extent L ''EFI_ACPI_DMAR_RMRR_HEADER'') (int (unat (f ''Header.Length'')) - int
          (extent L ''EFI_ACPI_DMAR_RMRR_HEADER''))
           [Print ''  ***Reserved Memory Region Reporting Structure***'' [],
            Print ''  RMRR address 0x%016lx'' [hxn Rmrr],
            Print ''    Type 0x%04x'' [Hex (f ''Header.Type'')],
            Print ''    Length 0x%04x'' [Hex (f ''Header.Length'')],
            Print ''    Segment Number 0x%04x'' [Hex (f ''SegmentNumber'')],
            Print ''    Reserved Memory Region Base Address 0x%016lx'' [Hex (f ''ReservedMemoryRegionBaseAddress'')],
            Print ''    Reserved Memory Region Limit Address 0x%016lx'' [Hex (f ''ReservedMemoryRegionLimitAddress'')]])"

definition DumpDmarDrhd_lib :: "acpi_tables \<Rightarrow> acpi_layout \<Rightarrow> addr \<Rightarrow> out list option" where
  "DumpDmarDrhd_lib T L Drhd =
     (if Drhd = NULL then Some [] else
      let f = fld T L ''EFI_ACPI_DMAR_DRHD_HEADER'' Drhd
      in dmar_scopes T L (Drhd + extent L ''EFI_ACPI_DMAR_DRHD_HEADER'') (int (unat (f ''Header.Length'')) - int
          (extent L ''EFI_ACPI_DMAR_DRHD_HEADER''))
           [Print ''  ***DMA-Remapping Hardware Definition Structure***'' [],
            Print ''  DRHD address 0x%016lx'' [hxn Drhd],
            Print ''    Type 0x%04x'' [Hex (f ''Header.Type'')],
            Print ''    Length 0x%04x'' [Hex (f ''Header.Length'')],
            Print ''    Flags 0x%02x'' [Hex (f ''Flags'')],
            Print ''      INCLUDE_PCI_ALL 0x%02x'' [Hex (f ''Flags'' AND code L ''EFI_ACPI_DMAR_DRHD_FLAGS_INCLUDE_PCI_ALL'')],
            Print ''    Segment Number 0x%04x'' [Hex (f ''SegmentNumber'')],
            Print ''    Register Base Address 0x%016lx'' [Hex (f ''RegisterBaseAddress'')]])"

definition dmar_dump :: "acpi_tables \<Rightarrow> acpi_layout \<Rightarrow> addr \<Rightarrow> out list option" where
  "dmar_dump T L p =
     (let v = fld T L ''EFI_ACPI_DMAR_STRUCTURE_HEADER'' p ''Type'' in
      if v = code L ''EFI_ACPI_DMAR_TYPE_DRHD'' then DumpDmarDrhd_lib T L p
      else if v = code L ''EFI_ACPI_DMAR_TYPE_RMRR'' then DumpDmarRmrr_lib T L p
      else if v = code L ''EFI_ACPI_DMAR_TYPE_ATSR'' then DumpDmarAtsr_lib T L p
      else if v = code L ''EFI_ACPI_DMAR_TYPE_RHSA'' then Some (DumpDmarRhsa_lib T L p)
      else if v = code L ''EFI_ACPI_DMAR_TYPE_ANDD'' then Some (DumpDmarAndd_lib T L p)
      else Some [])"

definition DumpAcpiDMAR_lib_contents :: "acpi_tables \<Rightarrow> acpi_layout \<Rightarrow> addr \<Rightarrow> out list option" where
  "DumpAcpiDMAR_lib_contents T L Dmar =
     (let f = fld T L ''EFI_ACPI_DMAR_HEADER'' Dmar; header = extent L ''EFI_ACPI_DMAR_HEADER'';
          DmarLen = int (unat (f ''Header.Length'')) - int header
      in structures (\<lambda>p. unat (fld T L ''EFI_ACPI_DMAR_STRUCTURE_HEADER'' p ''Length'')) (dmar_dump T L) (Dmar + header) DmarLen
           [Print ''    Host Address Width 0x%02x'' [Hex (f ''HostAddressWidth'')],
            Print ''    Flags 0x%02x'' [Hex (f ''Flags'')],
            Print ''      INTR_REMAP 0x%02x'' [Hex (f ''Flags'' AND code L ''EFI_ACPI_DMAR_FLAGS_INTR_REMAP'')],
            Print ''      X2APIC_OPT_OUT_SET 0x%02x'' [Hex (f ''Flags'' AND code L ''EFI_ACPI_DMAR_FLAGS_X2APIC_OPT_OUT'')]])"

definition DumpAcpiDMAR_lib :: "acpi_tables \<Rightarrow> acpi_layout \<Rightarrow> addr \<Rightarrow> acpi_state \<Rightarrow> acpi_state option" where
  "DumpAcpiDMAR_lib T L =
     library_dump T ''***DMAR Table***'' ''DMAR address 0x%016lx'' (DumpAcpiDMAR_lib_contents T L)"

definition DumpAcpiDMARLibConstructor :: "acpi_layout \<Rightarrow> acpi_state \<Rightarrow> efi_status \<times> acpi_state" where
  "DumpAcpiDMARLibConstructor L = RegisterDumpAcpiTable (ucast (code L ''EFI_ACPI_4_0_DMA_REMAPPING_TABLE_SIGNATURE'')) (LibraryDump 10)"

end
