(* ===== verification/Acpi_Tcpa.thy ===== *)
theory Acpi_Tcpa
  imports Acpi_Layout
begin

text \<open>
  \<^verbatim>\<open>DumpAcpiTCPALib\<close>: The TCPA table and the event log it points to.
\<close>

section \<open>TCPA\<close>

definition DumpTcpaPcrEventStructPcrValue :: "acpi_tables \<Rightarrow> acpi_layout \<Rightarrow> u64 \<Rightarrow> addr \<Rightarrow> out list" where
  "DumpTcpaPcrEventStructPcrValue T L TcpaPcrEventStructPcrValueLength TcpaPcrEventStructPcrValue =
     (if TcpaPcrEventStructPcrValue = NULL then [] else
      [Print ''    PCR Value Length 0x%08x'' [Hex TcpaPcrEventStructPcrValueLength],
       Print ''    PCR Value:'' []]
     @ DumpAcpiHex (tmem T) (unat (TcpaPcrEventStructPcrValueLength)) (TcpaPcrEventStructPcrValue)
     @ [Print '''' []])"

text \<open>
  The structures at the end of an event, \<^verbatim>\<open>TCPA_PCR_EVENT_STRUCT_EVENT\<close> (\<open>EventSize\<close>, \<open>Event\<close>) and
  \<^verbatim>\<open>TCPA_PCR_EVENT_STRUCT_EVENT_PLATFORM_SPECIFIC\<close> (\<open>EventId\<close>,
      \<open>EventDataSize\<close>, \<open>EventData\<close>), are packed
  numbers of 32 bits and bytes.
\<close>

definition DumpTcpaPcrEventStructEventUnknown :: "acpi_tables \<Rightarrow> acpi_layout \<Rightarrow> addr \<Rightarrow> out list" where
  "DumpTcpaPcrEventStructEventUnknown T L TcpaPcrEventStructEvent =
     (if TcpaPcrEventStructEvent = NULL then [] else
      [Print ''    Event Size 0x%08x'' [Hex (get32 T TcpaPcrEventStructEvent)],
       Print ''    Event Data:'' []]
      @ DumpAcpiHex (tmem T) (unat (get32 T TcpaPcrEventStructEvent)) (TcpaPcrEventStructEvent + 4)
      @ [Print '''' []])"

definition DumpTcpaPcrEventStructEventPlatformSpecific :: "acpi_tables \<Rightarrow> acpi_layout \<Rightarrow> addr \<Rightarrow> out list" where
  "DumpTcpaPcrEventStructEventPlatformSpecific T L TcpaPcrEventStructEvent =
     (if TcpaPcrEventStructEvent = NULL then [] else
      let p = TcpaPcrEventStructEvent + 4; v = get32 T p
      in DumpTcpaPcrEventStructEventUnknown T L TcpaPcrEventStructEvent
        @ [Print ''    Platform Specific Event:'' [],
           Print ''      Event Id 0x%08x'' [Hex v]]
        @ (if v = 1 then [Print ''        SMBIOS Structure'' []] else
           if v = 2 then [Print ''        BIS Certificate'' []] else
           if v = 3 then [Print ''        POST BIOS ROM Strings'' []] else
           if v = 4 then [Print ''        ESCD'' []] else
           if v = 5 then [Print ''        CMOS'' []] else
           if v = 6 then [Print ''        NVRAM'' []] else
           if v = 7 then [Print ''        Option ROM Execute'' []] else
           if v = 8 then [Print ''        Option ROM Configuration'' []] else
           if v = 0xA then [Print ''        Option ROM Microcode Update'' []] else
           if v = 0xB then [Print ''        S-CRTM Version String'' []] else
           if v = 0xC then [Print ''        S-CRTM Contents'' []] else
           if v = 0xD then [Print ''        POST Contents'' []] else
           if v = 0xE then [Print ''        Host Platform Manufacturer Table of Devices'' []] else [])
        @ [Print ''      Event Data Size 0x%08x'' [Hex (get32 T (p + 4))],
           Print ''      Event Data:'' []]
        @ DumpAcpiHex (tmem T) (unat (get32 T (p + 4))) (p + 8)
        @ [Print '''' []])"

text \<open>
  An event of the log.  Version 1 has \<^verbatim>\<open>TCPA_PCR_EVENT_STRUCT\<close> (\<open>VersionInfo\<close>,
      \<open>PCRIndex\<close>, \<open>EventType\<close>)
  before a PCR value of stated length, version 2 \<^verbatim>\<open>TCPA_V2_PCR_EVENT_STRUCT\<close>
      (\<open>PCRIndex\<close>, \<open>EventType\<close>,
  \<open>Digest\<close>).  A size of 0 ends the log.
\<close>

definition tcpa_title :: "acpi_layout \<Rightarrow> u64 \<Rightarrow> u64 \<Rightarrow> out list" where
  "tcpa_title L Version v = (
      if v = 0 then (if Version < 2 then [Print ''  PCR EVENT CODE CERT'' []] else [Print ''  PCR EVENT PREBOOT CERT'' []]) else
      if v = code L ''EV_POST_CODE'' then (if Version < 2 then [Print ''  PCR EVENT CODE NO CERT'' []]
          else [Print ''  PCR EVENT POST CODE'' []]) else
      if v = 2 then (if Version < 2 then [Print ''  PCR EVENT XML CONFIG'' []] else [Print ''  PCR EVENT Unknown'' []]) else
      if v = 3 then [Print ''  PCR EVENT NO ACTION'' []] else
      if v = code L ''EV_SEPARATOR'' then [Print ''  PCR EVENT SEPARATOR'' []] else
      if v = 5 then [Print ''  PCR EVENT ACTION'' []] else
      if v = 6 then (if Version < 2 then [Print ''  PCR EVENT PLATFORM SPECIFIC'' []] else [Print ''  PCR EVENT TAG'' []]) else
      if v = code L ''EV_S_CRTM_CONTENTS'' then [Print ''  PCR EVENT S-CRTM CONTENTS'' []] else
      if v = code L ''EV_S_CRTM_VERSION'' then [Print ''  PCR EVENT S-CRTM VERION'' []] else
      if v = 9 then [Print ''  PCR EVENT CPU MICROCODE'' []] else
      if v = 0xA then [Print ''  PCR EVENT PLATFORM CONFIG FLAGS'' []] else
      if v = 0xB then [Print ''  PCR EVENT TABLE OF DEVICES'' []] else
      if v = 0xC then [Print ''  PCR EVENT COMPACT HASH'' []] else
      if v = 0xD then [Print ''  PCR EVENT IPL'' []] else
      if v = 0xE then [Print ''  PCR EVENT IPL PARTITION DATA'' []] else
      if v = 0xF then [Print ''  PCR EVENT NON-HOST CODE'' []] else
      if v = 0x10 then [Print ''  PCR EVENT NON-HOST CONFIG'' []] else
      if v = 0x11 then [Print ''  PCR EVENT NON_HOST INFO'' []] else
      if v = code L ''EV_EFI_VARIABLE_DRIVER_CONFIG'' then [Print ''  PCR EVENT UEFI VARIABLE DRIVER CONFIG'' []] else
      if v = code L ''EV_EFI_VARIABLE_BOOT'' then [Print ''  PCR EVENT UEFI VARIABLE BOOT'' []] else
      if v = code L ''EV_EFI_BOOT_SERVICES_APPLICATION'' then [Print ''  PCR EVENT UEFI BOOT SERVICES APPLICATION'' []] else
      if v = code L ''EV_EFI_BOOT_SERVICES_DRIVER'' then [Print ''  PCR EVENT UEFI BOOT SERVICES DRIVER'' []] else
      if v = code L ''EV_EFI_RUNTIME_SERVICES_DRIVER'' then [Print ''  PCR EVENT UEFI RUNTIME SERVICES DRIVER'' []] else
      if v = code L ''EV_EFI_GPT_EVENT'' then [Print ''  PCR EVENT UEFI GPT EVENT'' []] else
      if v = code L ''EV_EFI_ACTION'' then [Print ''  PCR EVENT UEFI ACTION'' []] else
      if v = code L ''EV_EFI_PLATFORM_FIRMWARE_BLOB'' then [Print ''  PCR EVENT UEFI PLATFORM FIRMWARE BLOB'' []] else
      if v = code L ''EV_EFI_HANDOFF_TABLES'' then [Print ''  PCR EVENT UEFI HANDOFF TABLES'' []] else
      if v < code L ''EV_EFI_EVENT_BASE'' then [Print ''  PCR EVENT Unknown'' []] else [Print ''  PCR EVENT UEFI Unknown'' []])"

record tcpa_event =
  te_PCRIndex :: u64
  te_EventType :: u64
  te_PcrValueLen :: u64
  te_PcrValue :: addr
  te_Event :: addr
  te_Size :: u32

definition sizeof_V1 :: "acpi_layout \<Rightarrow> nat" where
  "sizeof_V1 L = extent L ''TPM_VERSION'' + 8"

definition tcpa_v1 :: "acpi_tables \<Rightarrow> acpi_layout \<Rightarrow> addr \<Rightarrow> tcpa_event option" where
  "tcpa_v1 T L p =
     (if fld T L ''TPM_VERSION'' p ''major'' \<noteq> 1 \<or> fld T L ''TPM_VERSION'' p ''minor'' = 0 then None
      else
        (let size = of_nat (sizeof_V1 L) :: u32;
             PcrValue = p + unat size; PCRValueLen = get32 T PcrValue;
             size = size + (4 + ucast PCRValueLen);
             Event = p + unat size;
             size = size + (4 + ucast (get32 T Event));
             PCRIndex = get32 T (p + extent L ''TPM_VERSION'')
         in if PCRIndex = 0xFFFFFFFF then None
            else Some \<lparr>te_PCRIndex = PCRIndex, te_EventType = get32 T (p + extent L ''TPM_VERSION'' + 4),
                   te_PcrValueLen = PCRValueLen, te_PcrValue = PcrValue + 4, te_Event = Event, te_Size = size\<rparr>))"

definition tcpa_v2 :: "acpi_tables \<Rightarrow> addr \<Rightarrow> tcpa_event option" where
  "tcpa_v2 T p =
     (let Event = p + 28; PCRIndex = get32 T p
      in if PCRIndex = 0xFFFFFFFF then None
         else Some \<lparr>te_PCRIndex = PCRIndex, te_EventType = get32 T (p + 4), te_PcrValueLen = 20, te_PcrValue = p + 8,
                te_Event = Event, te_Size = 28 + (4 + ucast (get32 T Event))\<rparr>)"

definition DumpTcpaPcrEvent :: "acpi_tables \<Rightarrow> acpi_layout \<Rightarrow> u64 \<Rightarrow> addr \<Rightarrow> out list \<times> u32" where
  "DumpTcpaPcrEvent T L Version TcpaPcrEvent =
     (case (if Version < 2 then tcpa_v1 T L TcpaPcrEvent else tcpa_v2 T TcpaPcrEvent) of
        None \<Rightarrow> ([], 0)
      | Some e \<Rightarrow>
          ([Print ''  ***'' []] @ tcpa_title L Version (te_EventType e)
           @ [Print ''  ***'' [], Print ''  PCR EVENT address 0x%016lx'' [hxn TcpaPcrEvent]]
           @ (if Version < 2
              then [Print ''    VersionInfo 0x%08x       Version %d.%d       Revision %d.%d''
                      (Hex (get32 T TcpaPcrEvent)
                       # map (\<lambda>F. Hex (fld T L ''TPM_VERSION'' TcpaPcrEvent F))
                           [''major'', ''minor'', ''revMajor'', ''revMinor''])]
              else [])
           @ [Print ''    PCR Index 0x%08x'' [Hex (te_PCRIndex e)],
              Print ''    PCR Event Type 0x%08x'' [Hex (te_EventType e)]]
           @ DumpTcpaPcrEventStructPcrValue T L (te_PcrValueLen e) (te_PcrValue e)
           @ (if te_EventType e = 6 \<and> Version < 2
              then DumpTcpaPcrEventStructEventPlatformSpecific T L (te_Event e)
              else DumpTcpaPcrEventStructEventUnknown T L (te_Event e))
           @ [Print ''  ***'' []],
           te_Size e))"

function tcpa_log :: "acpi_tables \<Rightarrow> acpi_layout \<Rightarrow> u64 \<Rightarrow> addr \<Rightarrow> addr \<Rightarrow> out list" where
  "tcpa_log T L Version PcrEvent log_end =
     (if PcrEvent < log_end
      then
        (let (os, PcrEventStructSize) = DumpTcpaPcrEvent T L Version PcrEvent
         in if PcrEventStructSize = 0 then os
            else os @ tcpa_log T L Version (PcrEvent + unat PcrEventStructSize) log_end)
      else [])"
  by pat_completeness auto

termination
  by (relation "measure (\<lambda>(T, L, Version, PcrEvent, log_end). log_end - PcrEvent)")
    (auto simp: word_neq_0_conv unat_gt_0 intro!: diff_less_mono2)

text \<open>The parameters are named the wrong way round: \<open>Laml\<close> is the address, \<open>Lasa\<close> the length.\<close>

definition DumpTcpaLogArea :: "acpi_tables \<Rightarrow> acpi_layout \<Rightarrow> u64 \<Rightarrow> addr \<Rightarrow> u64 \<Rightarrow> out list" where
  "DumpTcpaLogArea T L Version Laml Lasa =
     (if Laml = NULL then [] else tcpa_log T L Version Laml (Laml + unat Lasa))"

text \<open>What the three kinds of table end in: the raw log if asked for, and the events.\<close>

definition tcpa_area :: "acpi_tables \<Rightarrow> acpi_layout \<Rightarrow> bool \<Rightarrow> u64 \<Rightarrow> u64 \<Rightarrow> u64 \<Rightarrow> out list" where
  "tcpa_area T L DumpData Version Lasa Laml =
     (if DumpData then [Print ''    Log Area Data :'' []] @ DumpAcpiHex (tmem T) (unat Laml) (unat Lasa) else [])
     @ DumpTcpaLogArea T L Version (unat Lasa) Laml"

text \<open>\<^verbatim>\<open>EFI_TCG_ACPI_1_0_TABLE\<close>: \<open>Reserved\<close>, \<open>Laml\<close> and
    \<open>Lasa\<close> behind the header, packed.\<close>

definition DumpAcpiTcpav1 :: "acpi_tables \<Rightarrow> acpi_layout \<Rightarrow> bool \<Rightarrow> addr \<Rightarrow> out list" where
  "DumpAcpiTcpav1 T L DumpData Tcpav1 =
     (if Tcpav1 = NULL then [] else
      let Laml = get32 T (Tcpav1 + (sizeof_HEADER T + 2)); Lasa = get64 T (Tcpav1 + (sizeof_HEADER T + 6))
      in [Print ''    Log Area Maximum Length 0x%08x'' [Hex Laml],
          Print ''    Log Area Start Address 0x%016lx'' [Hex Lasa]]
         @ tcpa_area T L DumpData 1 Lasa Laml)"

definition DumpAcpiTcpav2client :: "acpi_tables \<Rightarrow> acpi_layout \<Rightarrow> bool \<Rightarrow> addr \<Rightarrow> out list" where
  "DumpAcpiTcpav2client T L DumpData Tcpav2client =
     (if Tcpav2client = NULL then [] else
      let f = fld T L ''EFI_TCG_CLIENT_ACPI_TABLE'' Tcpav2client
      in [Print ''    Platform Class 0x%04x'' [Hex (f ''PlatformClass'')],
          Print ''      PC Client Platform'' [],
          Print ''    Log Area Maximum Length 0x%08x'' [Hex (f ''Laml'')],
          Print ''    Log Area Start Address 0x%016lx'' [Hex (f ''Lasa'')]]
         @ tcpa_area T L DumpData 2 (f ''Lasa'') (f ''Laml''))"

definition DumpAcpiTcpav2server :: "acpi_tables \<Rightarrow> acpi_layout \<Rightarrow> bool \<Rightarrow> addr \<Rightarrow> out list" where
  "DumpAcpiTcpav2server T L DumpData Tcpav2server =
     (if Tcpav2server = NULL then [] else
      let f = fld T L ''EFI_TCG_SERVER_ACPI_TABLE'' Tcpav2server;
          at = (\<lambda>F. Tcpav2server + offset L ''EFI_TCG_SERVER_ACPI_TABLE'' F)
      in [Print ''    Platform Class 0x%04x'' [Hex (f ''PlatformClass'')],
          Print ''      Server Platform'' [],
          Print ''    Specification Revision 0x%04x'' [Hex (f ''SpecRev'')],
          Print ''    Device Flags 0x%02x'' [Hex (f ''DeviceFlags'')],
          Print ''      PCI Device Flag 0x%02x'' [Hex (f ''DeviceFlags'' AND 0x1)],
          Print ''      TPM Bus is PNP 0x%02x'' [Hex (f ''DeviceFlags'' AND 0x2)],
          Print ''      TPM Configuration Address Valid 0x%02x'' [Hex (f ''DeviceFlags'' AND 0x4)],
          Print ''    Interrupt Flags 0x%02x'' [Hex (f ''InterruptFlags'')],
          Print ''      Interrupt Mode 0x%02x'' [Hex (f ''InterruptFlags'' AND 0x1)]]
         @ (if f ''InterruptFlags'' AND 0x1 = 0x0 then [Print ''        Level-Triggered'' []]
            else if f ''InterruptFlags'' AND 0x1 = 0x1 then [Print ''        Edge-Triggered'' []] else [])
         @ [Print ''      Interrupt Polarity 0x%02x'' [Hex (f ''InterruptFlags'' AND 0x2)]]
         @ (if f ''InterruptFlags'' AND 0x2 = 0x0 then [Print ''        Active-High'' []]
            else if f ''InterruptFlags'' AND 0x2 = 0x2 then [Print ''        Active-Low'' []] else [])
         @ [Print ''      SCI Triggered Through GPE 0x%02x'' [Hex (f ''InterruptFlags'' AND 0x4)],
            Print ''      IO APIC/SAPIC Interrupt 0x%02x'' [Hex (f ''InterruptFlags'' AND 0x8)],
            Print ''    GPE 0x%02x'' [Hex (f ''Gpe'')],
            Print ''    Global System Interrupt 0x%08x'' [Hex (f ''GlobalSysInt'')],
            Print ''    Base Address'' []]
         @ DumpAcpiGAddressStructure T (at ''BaseAddress'')
         @ [Print ''    Configuration Address'' []]
         @ DumpAcpiGAddressStructure T (at ''ConfigAddress'')
         @ [Print ''    PCI Segment Group Number 0x%02x'' [Hex (f ''PciSegNum'')],
            Print ''    PCI Bus Number 0x%02x'' [Hex (f ''PciBusNum'')],
            Print ''    PCI Device Number 0x%02x'' [Hex (f ''PciDevNum'' AND 0x1F)],
            Print ''    PCI Function Number 0x%02x'' [Hex (f ''PciFuncNum'' AND 0x7)],
            Print ''    Log Area Maximum Length 0x%016lx'' [Hex (f ''Laml'')],
            Print ''    Log Area Start Address 0x%016lx'' [Hex (f ''Lasa'')]]
         @ tcpa_area T L DumpData 2 (f ''Lasa'') (f ''Laml''))"

definition DumpAcpiTCPA_contents :: "acpi_tables \<Rightarrow> acpi_layout \<Rightarrow> bool \<Rightarrow> addr \<Rightarrow> out list" where
  "DumpAcpiTCPA_contents T L DumpData Tcpa =
     (if unat (h_Revision T Tcpa) < 2 then DumpAcpiTcpav1 T L DumpData Tcpa
      else
        (let v = fld T L ''EFI_TCG_CLIENT_ACPI_TABLE'' Tcpa ''PlatformClass'' in
         if v = code L ''TCG_PLATFORM_TYPE_CLIENT'' then DumpAcpiTcpav2client T L DumpData Tcpa
         else if v = code L ''TCG_PLATFORM_TYPE_SERVER'' then DumpAcpiTcpav2server T L DumpData Tcpa
         else []))"

definition DumpAcpiTCPA :: "acpi_tables \<Rightarrow> acpi_layout \<Rightarrow> addr \<Rightarrow> acpi_state \<Rightarrow> acpi_state option" where
  "DumpAcpiTCPA T L Tcpa s =
     library_dump T ''***Trusted Computing Platform Alliance Capabilities Table***'' ''TCPA address 0x%016lx''
       (\<lambda>p. Some (DumpAcpiTCPA_contents T L (mInternalIsAcpiDumpData s) p)) Tcpa s"

definition DumpAcpiTCPALibConstructor :: "acpi_layout \<Rightarrow> acpi_state \<Rightarrow> efi_status \<times> acpi_state" where
  "DumpAcpiTCPALibConstructor L = RegisterDumpAcpiTable (ucast (code L
      ''EFI_ACPI_3_0_TRUSTED_COMPUTING_PLATFORM_ALLIANCE_CAPABILITIES_TABLE_SIGNATURE'')) (LibraryDump 35)"

end
