(* ===== verification/Acpi_Fadt.thy ===== *)
theory Acpi_Fadt
  imports Acpi_Layout Acpi_Root
begin

text \<open>
  \<^verbatim>\<open>AcpiToolPkg/DumpAcpi/DumpAcpi{FADT,FACS,DSDT,SSDT,PSDT}.c\<close>: the five dump functions DumpACPI registers
  itself.  Their names are those of the constructors of \<open>dump_func\<close>, hence the suffix \<open>_dump\<close>.
\<close>

section \<open>FADT\<close>

definition fadt_profile :: "acpi_tables \<Rightarrow> acpi_layout \<Rightarrow> addr \<Rightarrow> out list" where
  "fadt_profile T L Fadt =
     (let f = fld T L ''EFI_ACPI_5_1_FIXED_ACPI_DESCRIPTION_TABLE'' Fadt in
     [Print ''    FACS Address 0x%08x'' [Hex (f ''FirmwareCtrl'')],
       Print ''    DSDT Address 0x%08x'' [Hex (f ''Dsdt'')]]
     @ (if f ''Header.Revision'' < code L ''EFI_ACPI_2_0_FIXED_ACPI_DESCRIPTION_TABLE_REVISION''
         then ([Print ''    INT_MODEL 0x%02x'' [Hex
         (fld T L ''EFI_ACPI_1_0_FIXED_ACPI_DESCRIPTION_TABLE'' Fadt ''IntModel'')]]
         @ (let v = fld T L ''EFI_ACPI_1_0_FIXED_ACPI_DESCRIPTION_TABLE'' Fadt ''IntModel'' in
        if v = code L ''EFI_ACPI_1_0_INT_MODE_DUAL_PIC'' then [Print ''      Dual PIC'' []] else
        if v = code L ''EFI_ACPI_1_0_INT_MODE_MULTIPLE_APIC'' then [Print ''      Multiple APIC'' []] else []))
            else ([Print ''    PM_Profile 0x%02x'' [Hex (f ''PreferredPmProfile'')]] @ (let v = f ''PreferredPmProfile'' in
        if v = code L ''EFI_ACPI_2_0_PM_PROFILE_UNSPECIFIED'' then [Print ''      Unspecified'' []] else
        if v = code L ''EFI_ACPI_2_0_PM_PROFILE_DESKTOP'' then [Print ''      Desktop'' []] else
        if v = code L ''EFI_ACPI_2_0_PM_PROFILE_MOBILE'' then [Print ''      Mobile'' []] else
        if v = code L ''EFI_ACPI_2_0_PM_PROFILE_WORKSTATION'' then [Print ''      Workstation'' []] else
        if v = code L ''EFI_ACPI_2_0_PM_PROFILE_ENTERPRISE_SERVER'' then [Print ''      Enterprise Server'' []] else
        if v = code L ''EFI_ACPI_2_0_PM_PROFILE_SOHO_SERVER'' then [Print ''      SOHO Server'' []] else
        if v = code L ''EFI_ACPI_2_0_PM_PROFILE_APPLIANCE_PC'' then [Print ''      Appliance PC'' []] else
        if v = code L ''EFI_ACPI_3_0_PM_PROFILE_PERFORMANCE_SERVER'' then [Print ''      Performance Server'' []] else
        if v = code L ''EFI_ACPI_5_0_PM_PROFILE_TABLET'' then [Print ''      Tablet'' []] else []))))"

definition fadt_ports :: "acpi_tables \<Rightarrow> acpi_layout \<Rightarrow> addr \<Rightarrow> out list" where
  "fadt_ports T L Fadt =
     (let f = fld T L ''EFI_ACPI_5_1_FIXED_ACPI_DESCRIPTION_TABLE'' Fadt in
     [Print ''    SCI 0x%04x'' [Hex (f ''SciInt'')],
       Print ''    SMI Command Port 0x%08x'' [Hex (f ''SmiCmd'')],
       Print ''    ACPI Enable Command 0x%02x'' [Hex (f ''AcpiEnable'')],
       Print ''    ACPI Disable Command 0x%02x'' [Hex (f ''AcpiDisable'')],
       Print ''    S4BIOS Request Command 0x%02x'' [Hex (f ''S4BiosReq'')]]
     @ (if code L ''EFI_ACPI_2_0_FIXED_ACPI_DESCRIPTION_TABLE_REVISION'' \<le> f ''Header.Revision''
         then [Print ''    Perf State Control Command 0x%02x'' [Hex (f ''PstateCnt'')]] else [])
     @ [Print ''    PM1a Event Address 0x%08x'' [Hex (f ''Pm1aEvtBlk'')],
       Print ''    PM1b Event Address 0x%08x'' [Hex (f ''Pm1bEvtBlk'')],
       Print ''    PM1a Control Address 0x%08x'' [Hex (f ''Pm1aCntBlk'')],
       Print ''    PM1b Control Address 0x%08x'' [Hex (f ''Pm1bCntBlk'')],
       Print ''    PM2 Control Address 0x%08x'' [Hex (f ''Pm2CntBlk'')],
       Print ''    PM Timer Address 0x%08x'' [Hex (f ''PmTmrBlk'')],
       Print ''    GPE0 Address 0x%08x'' [Hex (f ''Gpe0Blk'')],
       Print ''    GPE1 Address 0x%08x'' [Hex (f ''Gpe1Blk'')],
       Print ''    PM1 Event Length 0x%02x'' [Hex (f ''Pm1EvtLen'')],
       Print ''    PM1 Control Length 0x%02x'' [Hex (f ''Pm1CntLen'')],
       Print ''    PM2 Control Length 0x%02x'' [Hex (f ''Pm2CntLen'')],
       Print ''    PM Timer Length 0x%02x'' [Hex (f ''PmTmrLen'')],
       Print ''    GPE0 Length 0x%02x'' [Hex (f ''Gpe0BlkLen'')],
       Print ''    GPE1 Length 0x%02x'' [Hex (f ''Gpe1BlkLen'')],
       Print ''    GPE1 Base 0x%02x'' [Hex (f ''Gpe1Base'')]]
     @ (if code L ''EFI_ACPI_2_0_FIXED_ACPI_DESCRIPTION_TABLE_REVISION'' \<le> f ''Header.Revision''
         then [Print ''    C State Control Command 0x%02x'' [Hex (f ''CstCnt'')]] else []))"

definition fadt_latency :: "acpi_tables \<Rightarrow> acpi_layout \<Rightarrow> addr \<Rightarrow> out list" where
  "fadt_latency T L Fadt =
     (let f = fld T L ''EFI_ACPI_5_1_FIXED_ACPI_DESCRIPTION_TABLE'' Fadt in
     [Print ''    C2 Hardware Latency 0x%04x'' [Hex (f ''PLvl2Lat'')],
       Print ''    C3 Hardware Latency 0x%04x'' [Hex (f ''PLvl3Lat'')],
       Print ''    Cache Flush Size 0x%04x'' [Hex (f ''FlushSize'')],
       Print ''    Cache Flush Stride 0x%04x'' [Hex (f ''FlushStride'')],
       Print ''    Duty Cycle Bit Offset 0x%02x'' [Hex (f ''DutyOffset'')],
       Print ''    Duty Cycle Bit Width 0x%02x'' [Hex (f ''DutyWidth'')],
       Print ''    Day Alarm Index 0x%02x'' [Hex (f ''DayAlrm'')],
       Print ''    Month Alarm Index 0x%02x'' [Hex (f ''MonAlrm'')],
       Print ''    Century Alarm Index 0x%02x'' [Hex (f ''Century'')]])"

definition fadt_boot :: "acpi_tables \<Rightarrow> acpi_layout \<Rightarrow> addr \<Rightarrow> out list" where
  "fadt_boot T L Fadt =
     (let f = fld T L ''EFI_ACPI_5_1_FIXED_ACPI_DESCRIPTION_TABLE'' Fadt in
     (if code L ''EFI_ACPI_2_0_FIXED_ACPI_DESCRIPTION_TABLE_REVISION'' \<le> f ''Header.Revision''
         then ([Print ''    IAPC Boot Flag 0x%04x'' [Hex (f ''IaPcBootArch'')],
       Print ''      LEGACY_DEVICES 0x%04x'' [Hex (f ''IaPcBootArch'' AND code L ''EFI_ACPI_2_0_LEGACY_DEVICES'')],
       Print ''      8042 0x%04x'' [Hex (f ''IaPcBootArch'' AND code L ''EFI_ACPI_2_0_8042'')]]
           @ (if code L ''EFI_ACPI_3_0_FIXED_ACPI_DESCRIPTION_TABLE_REVISION'' \<le> f ''Header.Revision''
           then ([Print ''      VGA Not Present 0x%04x'' [Hex (f ''IaPcBootArch'' AND code L ''EFI_ACPI_3_0_VGA_NOT_PRESENT'')],
       Print ''      MSI Not Present 0x%04x'' [Hex (f ''IaPcBootArch'' AND code L ''EFI_ACPI_3_0_MSI_NOT_SUPPORTED'')],
       Print ''      PCIe ASPM Controls 0x%04x'' [Hex (f ''IaPcBootArch''
           AND code L ''EFI_ACPI_3_0_PCIE_ASPM_CONTROLS'')]]
           @ (if code L ''EFI_ACPI_5_0_FIXED_ACPI_DESCRIPTION_TABLE_REVISION'' \<le> f ''Header.Revision''
           then [Print ''      CMOS RTC Not Present 0x%04x'' [Hex (f ''IaPcBootArch''
           AND code L ''EFI_ACPI_5_0_CMOS_RTC_NOT_PRESENT'')]] else [])) else [])) else []))"

definition fadt_flags :: "acpi_tables \<Rightarrow> acpi_layout \<Rightarrow> addr \<Rightarrow> out list" where
  "fadt_flags T L Fadt =
     (let f = fld T L ''EFI_ACPI_5_1_FIXED_ACPI_DESCRIPTION_TABLE'' Fadt in
     [Print ''    Flags 0x%08x'' [Hex (f ''Flags'')],
       Print ''      WBINVD 0x%08x'' [Hex (f ''Flags'' AND code L ''EFI_ACPI_1_0_WBINVD'')],
       Print ''      WBINVD_FLUSH 0x%08x'' [Hex (f ''Flags'' AND code L ''EFI_ACPI_1_0_WBINVD_FLUSH'')],
       Print ''      PROC_C1 0x%08x'' [Hex (f ''Flags'' AND code L ''EFI_ACPI_1_0_PROC_C1'')],
       Print ''      P_LVL2_UP 0x%08x'' [Hex (f ''Flags'' AND code L ''EFI_ACPI_1_0_P_LVL2_UP'')],
       Print ''      PWR_BUTTON 0x%08x'' [Hex (f ''Flags'' AND code L ''EFI_ACPI_1_0_PWR_BUTTON'')],
       Print ''      SLP_BUTTON 0x%08x'' [Hex (f ''Flags'' AND code L ''EFI_ACPI_1_0_SLP_BUTTON'')],
       Print ''      FIX_RTC 0x%08x'' [Hex (f ''Flags'' AND code L ''EFI_ACPI_1_0_FIX_RTC'')],
       Print ''      RTC_S4 0x%08x'' [Hex (f ''Flags'' AND code L ''EFI_ACPI_1_0_RTC_S4'')],
       Print ''      TMR_VAL_EXT 0x%08x'' [Hex (f ''Flags'' AND code L ''EFI_ACPI_1_0_TMR_VAL_EXT'')],
       Print ''      DCK_CAP 0x%08x'' [Hex (f ''Flags'' AND code L ''EFI_ACPI_1_0_DCK_CAP'')]]
     @ (if code L ''EFI_ACPI_2_0_FIXED_ACPI_DESCRIPTION_TABLE_REVISION'' \<le> f ''Header.Revision''
         then ([Print ''      RESET_REG_SUP 0x%08x'' [Hex (f ''Flags'' AND code L ''EFI_ACPI_2_0_RESET_REG_SUP'')],
       Print ''      SEALED_CASE 0x%08x'' [Hex (f ''Flags'' AND code L ''EFI_ACPI_2_0_SEALED_CASE'')],
       Print ''      HEADLESS 0x%08x'' [Hex (f ''Flags'' AND code L ''EFI_ACPI_2_0_HEADLESS'')],
       Print ''      CPU_SW_SLP 0x%08x'' [Hex (f ''Flags'' AND code L ''EFI_ACPI_2_0_CPU_SW_SLP'')]]
           @ (if code L ''EFI_ACPI_3_0_FIXED_ACPI_DESCRIPTION_TABLE_REVISION'' \<le> f ''Header.Revision''
           then ([Print ''      PCI_EXP_WAK 0x%08x'' [Hex (f ''Flags'' AND code L ''EFI_ACPI_3_0_PCI_EXP_WAK'')],
       Print ''      USE_PLATFORM_CLOCK 0x%08x'' [Hex (f ''Flags'' AND code L ''EFI_ACPI_3_0_USE_PLATFORM_CLOCK'')],
       Print ''      S4_RTC_STS_VALID 0x%08x'' [Hex (f ''Flags'' AND code L ''EFI_ACPI_3_0_S4_RTC_STS_VALID'')],
       Print ''      REMOTE_POWER_ON_CAPABLE 0x%08x'' [Hex (f ''Flags'' AND code L ''EFI_ACPI_3_0_REMOTE_POWER_ON_CAPABLE'')],
       Print ''      FORCE_APIC_CLUSTER_MODEL 0x%08x'' [Hex (f ''Flags'' AND code L ''EFI_ACPI_3_0_FORCE_APIC_CLUSTER_MODEL'')],
       Print ''      FORCE_APIC_PHYSICAL_DESTINATION_MODE 0x%08x'' [Hex (f ''Flags''
           AND code L ''EFI_ACPI_3_0_FORCE_APIC_PHYSICAL_DESTINATION_MODE'')]]
           @ (if code L ''EFI_ACPI_5_0_FIXED_ACPI_DESCRIPTION_TABLE_REVISION'' \<le> f ''Header.Revision''
           then [Print ''      HW_REDUCED_ACPI 0x%08x'' [Hex (f ''Flags'' AND code L ''EFI_ACPI_5_0_HW_REDUCED_ACPI'')],
       Print ''      LOW_POWER_S0_IDLE_CAPABLE 0x%08x'' [Hex (f ''Flags''
           AND code L ''EFI_ACPI_5_0_LOW_POWER_S0_IDLE_CAPABLE'')]] else [])) else [])) else []))"

definition fadt_extended :: "acpi_tables \<Rightarrow> acpi_layout \<Rightarrow> addr \<Rightarrow> out list" where
  "fadt_extended T L Fadt =
     (let f = fld T L ''EFI_ACPI_5_1_FIXED_ACPI_DESCRIPTION_TABLE'' Fadt in
     (if code L ''EFI_ACPI_2_0_FIXED_ACPI_DESCRIPTION_TABLE_REVISION'' \<le> f ''Header.Revision''
         then ([Print ''    Reset Register Address'' []]
         @ DumpAcpiGAddressStructure T (Fadt + offset L ''EFI_ACPI_5_1_FIXED_ACPI_DESCRIPTION_TABLE'' ''ResetReg'')
         @ [Print ''    Reset Register Value 0x%02x'' [Hex (f ''ResetValue'')]]
         @ (if code L ''EFI_ACPI_5_0_FIXED_ACPI_DESCRIPTION_TABLE_REVISION'' \<le> f ''Header.Revision''
         then ((if code L ''EFI_ACPI_5_1_FIXED_ACPI_DESCRIPTION_TABLE_MINOR_REVISION'' \<le> f ''MinorVersion''
         then [Print ''    ARM Boot Flag 0x%02x'' [Hex (f ''ArmBootArch'')],
       Print ''      PSCI_COMPLIANT 0x%08x'' [Hex (f ''ArmBootArch'' AND code L ''EFI_ACPI_5_1_ARM_PSCI_COMPLIANT'')],
       Print ''      PSCI_USE_HVC 0x%08x'' [Hex (f ''ArmBootArch''
           AND code L ''EFI_ACPI_5_1_ARM_PSCI_USE_HVC'')]] else []) @ [Print ''    Minor Version 0x%02x''
           [Hex (f ''MinorVersion'')]]) else []) @ [Print ''    Extended FACS Address 0x%016lx'' [Hex (f ''XFirmwareCtrl'')],
       Print ''    Extended DSDT Address 0x%016lx'' [Hex (f ''XDsdt'')],
       Print ''    Extended PM1a Event Address'' []]
           @ DumpAcpiGAddressStructure T (Fadt + offset L ''EFI_ACPI_5_1_FIXED_ACPI_DESCRIPTION_TABLE''
           ''XPm1aEvtBlk'') @ [Print ''    Extended PM1b Event Address'' []]
           @ DumpAcpiGAddressStructure T (Fadt + offset L ''EFI_ACPI_5_1_FIXED_ACPI_DESCRIPTION_TABLE''
           ''XPm1bEvtBlk'') @ [Print ''    Extended PM1a Control Address'' []]
           @ DumpAcpiGAddressStructure T (Fadt + offset L ''EFI_ACPI_5_1_FIXED_ACPI_DESCRIPTION_TABLE''
           ''XPm1aCntBlk'') @ [Print ''    Extended PM1b Control Address'' []]
           @ DumpAcpiGAddressStructure T (Fadt + offset L ''EFI_ACPI_5_1_FIXED_ACPI_DESCRIPTION_TABLE''
           ''XPm1bCntBlk'') @ [Print ''    Extended PM2 Control Address'' []]
           @ DumpAcpiGAddressStructure T (Fadt + offset L ''EFI_ACPI_5_1_FIXED_ACPI_DESCRIPTION_TABLE''
           ''XPm2CntBlk'') @ [Print ''    Extended PM Timer Address'' []]
           @ DumpAcpiGAddressStructure T (Fadt + offset L ''EFI_ACPI_5_1_FIXED_ACPI_DESCRIPTION_TABLE''
           ''XPmTmrBlk'') @ [Print ''    Extended GPE0 Address'' []]
           @ DumpAcpiGAddressStructure T (Fadt + offset L ''EFI_ACPI_5_1_FIXED_ACPI_DESCRIPTION_TABLE'' ''XGpe0Blk'')
           @ [Print ''    Extended GPE1 Address'' []]
           @ DumpAcpiGAddressStructure T (Fadt + offset L ''EFI_ACPI_5_1_FIXED_ACPI_DESCRIPTION_TABLE'' ''XGpe1Blk'')
           @ (if code L ''EFI_ACPI_5_0_FIXED_ACPI_DESCRIPTION_TABLE_REVISION'' \<le> f ''Header.Revision''
           then ([Print ''    Sleep Control Reg'' []]
           @ DumpAcpiGAddressStructure T (Fadt + offset L ''EFI_ACPI_5_1_FIXED_ACPI_DESCRIPTION_TABLE''
           ''SleepControlReg'') @ [Print ''    Sleep Status Reg'' []]
           @ DumpAcpiGAddressStructure T (Fadt + offset L ''EFI_ACPI_5_1_FIXED_ACPI_DESCRIPTION_TABLE'' ''SleepStatusReg'')) else [])) else []))"

definition DumpAcpiFADT_contents :: "acpi_tables \<Rightarrow> acpi_layout \<Rightarrow> addr \<Rightarrow> out list" where
  "DumpAcpiFADT_contents T L Fadt =
     fadt_profile T L Fadt
     @ fadt_ports T L Fadt
     @ fadt_latency T L Fadt
     @ fadt_boot T L Fadt
     @ fadt_flags T L Fadt
     @ fadt_extended T L Fadt"

definition DumpAcpiFADT_dump :: "acpi_tables \<Rightarrow> acpi_layout \<Rightarrow> addr \<Rightarrow> acpi_state \<Rightarrow> acpi_state option" where
  "DumpAcpiFADT_dump T L =
     library_dump T ''***Fixed ACPI Description Table***'' ''FADT address 0x%016lx'' (\<lambda>p. Some (DumpAcpiFADT_contents T L p))"

section \<open>FACS\<close>

text \<open>The FACS has no table header: its signature and length stand at its start.\<close>

definition DumpAcpiFACS_contents :: "acpi_tables \<Rightarrow> acpi_layout \<Rightarrow> addr \<Rightarrow> out list" where
  "DumpAcpiFACS_contents T L Facs =
     (let f = fld T L ''EFI_ACPI_4_0_FIRMWARE_ACPI_CONTROL_STRUCTURE'' Facs;
          v2 = code L ''EFI_ACPI_2_0_FIRMWARE_ACPI_CONTROL_STRUCTURE_VERSION'' \<le> f ''Version'';
          v4 = code L ''EFI_ACPI_4_0_FIRMWARE_ACPI_CONTROL_STRUCTURE_VERSION'' \<le> f ''Version'' in
      [Print ''  Signature %c%c%c%c''
         (map (\<lambda>i. hx (tmem T (Facs + offset L ''EFI_ACPI_4_0_FIRMWARE_ACPI_CONTROL_STRUCTURE'' ''Signature'' + i))) [0..<4]),
       Print ''  Length 0x%08x'' [Hex (f ''Length'')],
       Print ''  Hardware Signature 0x%08x'' [Hex (f ''HardwareSignature'')],
       Print ''  Firmware Waking Vector 0x%08x'' [Hex (f ''FirmwareWakingVector'')],
       Print ''  Global Lock 0x%08x'' [Hex (f ''GlobalLock'')],
       Print ''    Pending 0x%08x'' [Hex (f ''GlobalLock'' AND 0x1)],
       Print ''    Owned 0x%08x'' [Hex (f ''GlobalLock'' AND 0x2)],
       Print ''  Flags 0x%08x'' [Hex (f ''Flags'')],
       Print ''    S4BIOS_F 0x%08x'' [Hex (f ''Flags'' AND code L ''EFI_ACPI_1_0_S4BIOS_F'')]]
      @ (if v4
         then [Print ''    64BIT_WAKE_SUPPORTED_F 0x%08x''
                 [Hex (f ''Flags'' AND code L ''EFI_ACPI_4_0_64BIT_WAKE_SUPPORTED_F'')]]
         else [])
      @ (if v2
         then [Print ''  64bit Firmware Waking Vector 0x%016lx'' [Hex (f ''XFirmwareWakingVector'')],
               Print ''  Version 0x%02x'' [Hex (f ''Version'')]]
              @ (if v4
                 then [Print ''  OspmFlags 0x%08x'' [Hex (f ''OspmFlags'')],
                       Print ''    OSPM_64BIT_WAKE_F 0x%08x''
                         [Hex (f ''OspmFlags'' AND code L ''EFI_ACPI_4_0_OSPM_64BIT_WAKE__F'')]]
                 else [])
         else []))"

definition DumpAcpiFACS_dump :: "acpi_tables \<Rightarrow> acpi_layout \<Rightarrow> addr \<Rightarrow> acpi_state \<Rightarrow> acpi_state" where
  "DumpAcpiFACS_dump T L Facs s =
     (if Facs = NULL then s
      else display
        ([Print ''***Firmware ACPI Control Structure***'' []]
         @ (if mInternalIsAcpiDumpData s
            then DumpAcpiHex (tmem T)
                   (unat (fld T L ''EFI_ACPI_4_0_FIRMWARE_ACPI_CONTROL_STRUCTURE'' Facs ''Length'')) Facs
            else [])
         @ (if mInternalIsAcpiDumpVerb s
            then [Print ''FACS address 0x%016lx'' [hxn Facs]] @ DumpAcpiFACS_contents T L Facs else [])
         @ [Print ''***'' []]) s)"

section \<open>DSDT, SSDT and PSDT\<close>

text \<open>
  These three tables hold byte code.  They are not printed beyond their header; with \<^verbatim>\<open>-d\<close> the code
  also writes them to a numbered file on the volume the program was loaded from.  \<open>aml_env\<close>: what the
  services answer.  The file name is the format and the number printed with it.
\<close>

type_synonym aml_name = "string \<times> nat"

record aml_env =
  HandleProtocol_LoadedImage :: efi_status
  HandleProtocol_DevicePath :: efi_status
  LocateDevicePath_SimpleFileSystem :: efi_status
  HandleProtocol_SimpleFileSystem :: efi_status
  OpenVolume :: efi_status
  Root_Open :: "aml_name \<Rightarrow> efi_status"
  FileHandle_Write :: "aml_name \<Rightarrow> u8 list \<Rightarrow> efi_status"

text \<open>
  What is done with the volume, the file and the pool.  \<open>Name_FreePool\<close>: \<^verbatim>\<open>FreePool (FileName)\<close>, which
  the code calls on an array of its own stack frame.
\<close>

datatype aml_call = Volume_Open | File_Open aml_name | File_Write "u8 list" | File_Close | Volume_Close | Name_FreePool

definition aml_save :: "aml_env \<Rightarrow> aml_name \<Rightarrow> u8 list \<Rightarrow> aml_call list \<Rightarrow> out list \<times> aml_call list" where
  "aml_save E FileName Buffer cleanup =
     (let err = (\<lambda>what Status calls. ([Print what [Sts Status]], calls)) in
      if EFI_ERROR (HandleProtocol_LoadedImage E)
      then err ''Error: HandleProtocol LoadedImage ! - %r'' (HandleProtocol_LoadedImage E) [Name_FreePool]
      else if EFI_ERROR (HandleProtocol_DevicePath E)
      then err ''Error: HandleProtocol DevicePath ! - %r'' (HandleProtocol_DevicePath E) [Name_FreePool]
      else if EFI_ERROR (LocateDevicePath_SimpleFileSystem E)
      then err ''Error: LocateDevicePath SimpleFileSystem ! - %r'' (LocateDevicePath_SimpleFileSystem E) [Name_FreePool]
      else if EFI_ERROR (HandleProtocol_SimpleFileSystem E)
      then err ''Error: HandleProtocol SimpleFileSystem ! - %r'' (HandleProtocol_SimpleFileSystem E) [Name_FreePool]
      else if EFI_ERROR (OpenVolume E)
      then err ''Error: SimpleFileSystem->OpenVolume() ! - %r'' (OpenVolume E) [Name_FreePool]
      else if EFI_ERROR (Root_Open E FileName)
      then err ''Error: Root->Open() ! - %r'' (Root_Open E FileName) [Volume_Open, Name_FreePool]
      else if EFI_ERROR (FileHandle_Write E FileName Buffer)
      then err ''Error: FileHandle->Write() ! - %r'' (FileHandle_Write E FileName Buffer)
             ([Volume_Open, File_Open FileName, File_Write Buffer] @ cleanup)
      else ([], [Volume_Open, File_Open FileName, File_Write Buffer, File_Close, Volume_Close]))"

text \<open>
  The body the three functions share.  \<open>FileIndex\<close> is a static variable of each; \<open>cleanup\<close> are the calls
  after a failed write.
\<close>

definition aml_dump ::
  "acpi_tables \<Rightarrow> aml_env \<Rightarrow> string \<Rightarrow> string \<Rightarrow> string \<Rightarrow> aml_call list \<Rightarrow> addr \<Rightarrow> nat \<times> acpi_state
   \<Rightarrow> aml_call list \<times> nat \<times> acpi_state"
where
  "aml_dump T E title address name cleanup Table = (\<lambda>(FileIndex, s).
     if Table = NULL then ([], FileIndex, s)
     else
       (let s1 = display
              ([Print title []]
               @ (if mInternalIsAcpiDumpData s then DumpAcpiHex (tmem T) (unat (h_Length T Table)) Table else [])
               @ (if mInternalIsAcpiDumpVerb s then [Print address [hxn Table]] @ DumpAcpiTableHeader T Table else [])
               @ [Print ''***'' []]) s
        in if \<not> mIsDumpData s1 then ([], FileIndex, s1)
           else
             (let (os, calls) = aml_save E (name, FileIndex + 1) (bytes_at (tmem T) Table (unat (h_Length T Table))) cleanup
              in (calls, FileIndex + 1, display os s1))))"

definition DumpAcpiDSDT_dump ::
  "acpi_tables \<Rightarrow> aml_env \<Rightarrow> addr \<Rightarrow> nat \<times> acpi_state \<Rightarrow> aml_call list \<times> nat \<times> acpi_state" where
  "DumpAcpiDSDT_dump T E = aml_dump T E ''***Differentiated System Description Table***'' ''DSDT address 0x%016lx''
     ''Dsdt_%d.aml'' [File_Close, Volume_Close, Name_FreePool]"

definition DumpAcpiSSDT_dump ::
  "acpi_tables \<Rightarrow> aml_env \<Rightarrow> addr \<Rightarrow> nat \<times> acpi_state \<Rightarrow> aml_call list \<times> nat \<times> acpi_state" where
  "DumpAcpiSSDT_dump T E = aml_dump T E ''***Secondary System Description Table***'' ''SSDT address 0x%016lx''
     ''Ssdt_%d.aml'' [File_Close, Name_FreePool, Volume_Close]"

definition DumpAcpiPSDT_dump ::
  "acpi_tables \<Rightarrow> aml_env \<Rightarrow> addr \<Rightarrow> nat \<times> acpi_state \<Rightarrow> aml_call list \<times> nat \<times> acpi_state" where
  "DumpAcpiPSDT_dump T E = aml_dump T E ''***Persistent System Description Table***'' ''PSDT address 0x%016lx''
     ''Psdt_%d.aml'' [File_Close, Volume_Close, Name_FreePool]"

section \<open>Properties\<close>

definition aml_ok :: "aml_env \<Rightarrow> aml_name \<Rightarrow> u8 list \<Rightarrow> bool" where
  "aml_ok E name bs \<longleftrightarrow> \<not> EFI_ERROR (HandleProtocol_LoadedImage E) \<and> \<not> EFI_ERROR (HandleProtocol_DevicePath E)
     \<and> \<not> EFI_ERROR (LocateDevicePath_SimpleFileSystem E) \<and> \<not> EFI_ERROR (HandleProtocol_SimpleFileSystem E)
     \<and> \<not> EFI_ERROR (OpenVolume E) \<and> \<not> EFI_ERROR (Root_Open E name) \<and> \<not> EFI_ERROR (FileHandle_Write E name bs)"

text \<open>
  The services in the order of their calls, each with the message of its failure, and the line that
  reports the first one that fails.
\<close>

definition aml_services :: "aml_env \<Rightarrow> aml_name \<Rightarrow> u8 list \<Rightarrow> (string \<times> efi_status) list" where
  "aml_services E name bs =
     [(''Error: HandleProtocol LoadedImage ! - %r'', HandleProtocol_LoadedImage E),
      (''Error: HandleProtocol DevicePath ! - %r'', HandleProtocol_DevicePath E),
      (''Error: LocateDevicePath SimpleFileSystem ! - %r'', LocateDevicePath_SimpleFileSystem E),
      (''Error: HandleProtocol SimpleFileSystem ! - %r'', HandleProtocol_SimpleFileSystem E),
      (''Error: SimpleFileSystem->OpenVolume() ! - %r'', OpenVolume E),
      (''Error: Root->Open() ! - %r'', Root_Open E name),
      (''Error: FileHandle->Write() ! - %r'', FileHandle_Write E name bs)]"

definition aml_failure :: "aml_env \<Rightarrow> aml_name \<Rightarrow> u8 list \<Rightarrow> (string \<times> efi_status) option" where
  "aml_failure E name bs = find (\<lambda>(_, Status). EFI_ERROR Status) (aml_services E name bs)"

lemma aml_ok_iff: "aml_ok E name bs \<longleftrightarrow> aml_failure E name bs = None"
  by (simp add: aml_ok_def aml_failure_def aml_services_def)

text \<open>What the dumps print before they write: the title, the bytes and the header as the options ask.\<close>

definition aml_screen :: "acpi_tables \<Rightarrow> string \<Rightarrow> string \<Rightarrow> addr \<Rightarrow> acpi_state \<Rightarrow> out list" where
  "aml_screen T title address Table s =
     Print title [] # (if mInternalIsAcpiDumpData s then DumpAcpiHex (tmem T) (unat (h_Length T Table)) Table else [])
     @ (if mInternalIsAcpiDumpVerb s then Print address [hxn Table] # DumpAcpiTableHeader T Table else [])
     @ [Print ''***'' []]"

text \<open>The volume is left open.\<close>

definition leaves_volume :: "aml_call list \<Rightarrow> bool" where
  "leaves_volume cs \<longleftrightarrow> Volume_Open \<in> set cs \<and> Volume_Close \<notin> set cs"

definition leaves_file :: "aml_call list \<Rightarrow> bool" where
  "leaves_file cs \<longleftrightarrow> (\<exists>name. File_Open name \<in> set cs) \<and> File_Close \<notin> set cs"

lemma aml_save_calls:
  assumes "set cleanup = {File_Close, Volume_Close, Name_FreePool}" and "aml_save E name bs cleanup = (os, calls)"
  shows "(aml_ok E name bs \<longrightarrow> calls = [Volume_Open, File_Open name, File_Write bs, File_Close, Volume_Close])
    \<and> (\<not> aml_ok E name bs \<longrightarrow> Name_FreePool \<in> set calls)
    \<and> \<not> leaves_file calls
    \<and> (leaves_volume calls \<longrightarrow> EFI_ERROR (Root_Open E name))"
  using assms unfolding aml_save_def aml_ok_def Let_def leaves_file_def leaves_volume_def
  by (simp split: if_split_asm) (clarify, simp)+

lemma aml_save_lines:
  "fst (aml_save E name bs cleanup) =
     (case aml_failure E name bs of None \<Rightarrow> [] | Some (what, Status) \<Rightarrow> [Print what [Sts Status]])"
  by (simp add: aml_save_def aml_failure_def aml_services_def Let_def)

text \<open>
  C30: With \<^verbatim>\<open>-d\<close> the DSDT, SSDT and PSDT dumps count their files, and write exactly the bytes of the table to
  the next one when every service succeeds.  When one fails, one line with its message and status
  follows what the dump prints anyway, and no line does otherwise; after a failure, and only then, the
  array on the stack that holds the name is freed.  The file never stays open, and the volume does only
  when the file cannot be opened.
\<close>

theorem DumpAcpi_aml_files:
  assumes "Table \<noteq> NULL" and "mIsDumpData s"
    and "(dump, fmt, title, address) \<in>
      {(DumpAcpiDSDT_dump T E, ''Dsdt_%d.aml'', ''***Differentiated System Description Table***'', ''DSDT address 0x%016lx''),
       (DumpAcpiSSDT_dump T E, ''Ssdt_%d.aml'', ''***Secondary System Description Table***'', ''SSDT address 0x%016lx''),
       (DumpAcpiPSDT_dump T E, ''Psdt_%d.aml'', ''***Persistent System Description Table***'', ''PSDT address 0x%016lx'')}"
    and "dump Table (i, s) = (calls, i', s')" and "bs = bytes_at (tmem T) Table (unat (h_Length T Table))"
  shows "i' = i + 1
    \<and> s' = display (aml_screen T title address Table s
             @ (case aml_failure E (fmt, i') bs of None \<Rightarrow> [] | Some (what, Status) \<Rightarrow> [Print what [Sts Status]])) s
    \<and> (aml_ok E (fmt, i') bs \<longrightarrow>
         calls = [Volume_Open, File_Open (fmt, i'), File_Write bs, File_Close, Volume_Close])
    \<and> (Name_FreePool \<in> set calls \<longleftrightarrow> \<not> aml_ok E (fmt, i') bs)
    \<and> \<not> leaves_file calls
    \<and> (leaves_volume calls \<longrightarrow> EFI_ERROR (Root_Open E (fmt, i')))"
proof -
  obtain cleanup where dump: "dump = aml_dump T E title address fmt cleanup"
    and cleanup: "set cleanup = {File_Close, Volume_Close, Name_FreePool}"
    using assms(3)
    by (auto simp: DumpAcpiDSDT_dump_def DumpAcpiSSDT_dump_def DumpAcpiPSDT_dump_def insert_commute intro: that)
  obtain os where save: "aml_save E (fmt, i + 1) bs cleanup = (os, calls)" and i: "i' = i + 1"
    and s': "s' = display (aml_screen T title address Table s @ os) s"
    using assms(1,2,4,5) by (auto simp: dump aml_dump_def aml_screen_def Let_def display_def split: prod.splits)
  from aml_save_lines [of E "(fmt, i + 1)" bs cleanup] save
  have "os = (case aml_failure E (fmt, i + 1) bs of None \<Rightarrow> [] | Some (what, Status) \<Rightarrow> [Print what [Sts Status]])"
    by simp
  with aml_save_calls [OF cleanup save] i s' show ?thesis by auto
qed

definition sample_volume :: aml_env where
  "sample_volume = \<lparr>HandleProtocol_LoadedImage = EFI_SUCCESS, HandleProtocol_DevicePath = EFI_SUCCESS,
     LocateDevicePath_SimpleFileSystem = EFI_SUCCESS, HandleProtocol_SimpleFileSystem = EFI_SUCCESS,
     OpenVolume = EFI_SUCCESS, Root_Open = (\<lambda>(fmt, i). if i = 1 then EFI_SUCCESS else EFI_NOT_FOUND),
     FileHandle_Write = (\<lambda>_ _. EFI_SUCCESS)\<rparr>"

text \<open>The first DSDT is written; for the second the file cannot be opened, and the volume stays open.\<close>

theorem DumpAcpi_aml_files_witness:
  "fst (DumpAcpiDSDT_dump (sample_tables 0) sample_volume 0x1000 (0, empty_acpi\<lparr>mIsDumpData := True\<rparr>)) =
     [Volume_Open, File_Open (''Dsdt_%d.aml'', 1), File_Write (bytes_at (\<lambda>_. 0) 0x1000 44), File_Close, Volume_Close]
   \<and> Name_FreePool \<in> set (fst (DumpAcpiDSDT_dump (sample_tables 0) sample_volume 0x1000
       (1, empty_acpi\<lparr>mIsDumpData := True\<rparr>)))
   \<and> last (screen (snd (snd (DumpAcpiDSDT_dump (sample_tables 0) sample_volume 0x1000
       (1, empty_acpi\<lparr>mIsDumpData := True\<rparr>))))) = Print ''Error: Root->Open() ! - %r'' [Sts EFI_NOT_FOUND]"
proof -
  let ?s = "empty_acpi\<lparr>mIsDumpData := True\<rparr>" and ?bs = "bytes_at (\<lambda>_. 0) 0x1000 44"
  let ?dump = "DumpAcpiDSDT_dump (sample_tables 0) sample_volume"
  have bs: "?bs = bytes_at (tmem (sample_tables 0)) 0x1000 (unat (h_Length (sample_tables 0) 0x1000))"
    by (simp add: sample_tables_def)
  obtain calls1 i1 s1 where 1: "?dump 0x1000 (0, ?s) = (calls1, i1, s1)" by (metis prod_cases3)
  obtain calls2 i2 s2 where 2: "?dump 0x1000 (1, ?s) = (calls2, i2, s2)" by (metis prod_cases3)
  let ?title = "''***Differentiated System Description Table***''" and ?address = "''DSDT address 0x%016lx''"
  have fn: "(?dump, ''Dsdt_%d.aml'', ?title, ?address) \<in> {(?dump, ''Dsdt_%d.aml'', ?title, ?address),
      (DumpAcpiSSDT_dump (sample_tables 0) sample_volume, ''Ssdt_%d.aml'',
       ''***Secondary System Description Table***'', ''SSDT address 0x%016lx''),
      (DumpAcpiPSDT_dump (sample_tables 0) sample_volume, ''Psdt_%d.aml'',
       ''***Persistent System Description Table***'', ''PSDT address 0x%016lx'')}" by simp
  have s: "mIsDumpData ?s" and T: "0x1000 \<noteq> NULL" by simp_all
  have ok: "aml_ok sample_volume (fmt, 1) bs" "\<not> aml_ok sample_volume (fmt, Suc 1) bs"
    and lines: "aml_failure sample_volume (fmt, Suc 1) bs = Some (''Error: Root->Open() ! - %r'', EFI_NOT_FOUND)" for fmt bs
    by (simp_all add: aml_ok_def aml_failure_def aml_services_def sample_volume_def)
  note first = DumpAcpi_aml_files [OF T s fn 1 bs] and second = DumpAcpi_aml_files [OF T s fn 2 bs]
  have "calls1 = [Volume_Open, File_Open (''Dsdt_%d.aml'', 1), File_Write ?bs, File_Close, Volume_Close]"
    using first ok(1) by simp
  moreover have "Name_FreePool \<in> set calls2" using second ok(2) by simp
  moreover have "last (screen s2) = Print ''Error: Root->Open() ! - %r'' [Sts EFI_NOT_FOUND]"
    using second lines by (simp add: display_def)
  ultimately show ?thesis unfolding 1 2 fst_conv snd_conv by blast
qed

end
