(* ===== verification/Acpi_Tables_Props.thy ===== *)
theory Acpi_Tables_Props
  imports Acpi_Walked Acpi_Root
begin

text \<open>
  Properties of the table libraries whose structures are found by walking: what they print, exactly
  when they return, and the two libraries that read the next length before they count the present one.
\<close>

section \<open>The loops of the libraries\<close>

interpretation nfit: structure_loop "nfit_Length T L" "\<lambda>p. Some (nfit_dump T L p)" "nfit_dump T L" "\<lambda>_. True" for T L
  by unfold_locales simp

interpretation mcfg: structure_loop
  "\<lambda>_. extent L ''EFI_ACPI_MEMORY_MAPPED_ENHANCED_CONFIGURATION_SPACE_BASE_ADDRESS_ALLOCATION_STRUCTURE''"
  "\<lambda>p. Some (DumpAcpiMemoryMappedConfigurationBaseAddressAllocation T L p)"
  "DumpAcpiMemoryMappedConfigurationBaseAddressAllocation T L" "\<lambda>_. True" for T L
  by unfold_locales simp

interpretation lpit: structure_loop "lpi_Length T" "\<lambda>p. Some (lpi_dump T L p)" "lpi_dump T L" "\<lambda>_. True" for T L
  by unfold_locales simp

interpretation pmtt: structure_loop "aggregator_Length T L" "aggregator_dump T L" "\<lambda>p. the (aggregator_dump T L p)"
  "\<lambda>p. aggregator_dump T L p \<noteq> None" for T L
  by unfold_locales auto

interpretation fpdt: structure_loop "fpdt_Length T L" "fpdt_dump T L" "\<lambda>p. the (fpdt_dump T L p)"
  "\<lambda>p. fpdt_dump T L p \<noteq> None" for T L
  by unfold_locales auto

section \<open>The frame\<close>

text \<open>What a verbose dump prints around the contents.\<close>

definition framed :: "acpi_tables \<Rightarrow> string \<Rightarrow> string \<Rightarrow> acpi_state \<Rightarrow> addr \<Rightarrow> out list \<Rightarrow> out list" where
  "framed T title address s Table os =
     [Print title []]
     @ (if mInternalIsAcpiDumpData s then DumpAcpiHex (tmem T) (unat (h_Length T Table)) Table else [])
     @ [Print address [hxn Table]] @ DumpAcpiTableHeader T Table @ [Print ''  Table Contents:'' []]
     @ os @ [Print ''***'' []]"

lemma library_dump_verbose:
  "Table \<noteq> NULL \<Longrightarrow> mInternalIsAcpiDumpVerb s \<Longrightarrow>
   library_dump T title address contents Table s =
     map_option (\<lambda>os. display (framed T title address s Table os) s) (contents Table)"
  by (cases "contents Table") (simp_all add: library_dump_def framed_def)

lemma library_dump_quiet:
  "\<not> mInternalIsAcpiDumpVerb s \<Longrightarrow> library_dump T title address contents Table s \<noteq> None"
  by (simp add: library_dump_def Let_def)

section \<open>NFIT\<close>

definition nfit_first :: "acpi_layout \<Rightarrow> addr \<Rightarrow> addr" where
  "nfit_first L Nfit = Nfit + extent L ''EFI_ACPI_6_0_NVDIMM_FIRMWARE_INTERFACE_TABLE''"

definition nfit_end :: "acpi_tables \<Rightarrow> acpi_layout \<Rightarrow> addr \<Rightarrow> addr" where
  "nfit_end T L Nfit = nfit_first L Nfit
     + (unat (fld T L ''EFI_ACPI_6_0_NVDIMM_FIRMWARE_INTERFACE_TABLE'' Nfit ''Header.Length'')
        - extent L ''EFI_ACPI_6_0_NVDIMM_FIRMWARE_INTERFACE_TABLE'')"

lemma nfit_contents:
  "DumpAcpiNFIT_contents T L Nfit = structures (nfit_Length T L) (\<lambda>p. Some (nfit_dump T L p)) (nfit_first L Nfit)
     (int (unat (fld T L ''EFI_ACPI_6_0_NVDIMM_FIRMWARE_INTERFACE_TABLE'' Nfit ''Header.Length''))
      - int (extent L ''EFI_ACPI_6_0_NVDIMM_FIRMWARE_INTERFACE_TABLE'')) []"
  by (simp add: DumpAcpiNFIT_contents_def nfit_first_def Let_def)

lemma nat_int_diff: "nat (int a - int b) = a - b"
  by simp

text \<open>
  C27: A verbose dump of the NFIT returns exactly when the stated lengths lead from the first structure to
  the end of the table or beyond it, and then prints every structure on that way once, in order.
\<close>

theorem DumpAcpiNFIT_returns_iff:
  assumes "Nfit \<noteq> NULL" and "mInternalIsAcpiDumpVerb s"
  shows "(DumpAcpiNFIT T L Nfit s \<noteq> None \<longleftrightarrow>
       (\<exists>qs. chain (nfit_Length T L) (nfit_end T L Nfit) (nfit_first L Nfit) qs))
     \<and> (\<forall>qs. chain (nfit_Length T L) (nfit_end T L Nfit) (nfit_first L Nfit) qs \<longrightarrow>
          DumpAcpiNFIT T L Nfit s =
            Some (display (framed T ''***NFIT Table***'' ''NFIT address 0x%016lx'' s Nfit
              (concat (map (nfit_dump T L) qs))) s))"
proof -
  let ?n = "int (unat (fld T L ''EFI_ACPI_6_0_NVDIMM_FIRMWARE_INTERFACE_TABLE'' Nfit ''Header.Length''))
      - int (extent L ''EFI_ACPI_6_0_NVDIMM_FIRMWARE_INTERFACE_TABLE'')"
  have e: "nfit_first L Nfit + nat ?n = nfit_end T L Nfit"
    unfolding nfit_end_def nat_int_diff ..
  have "DumpAcpiNFIT_contents T L Nfit \<noteq> None \<longleftrightarrow>
      (\<exists>qs. chain (nfit_Length T L) (nfit_end T L Nfit) (nfit_first L Nfit) qs)"
    unfolding nfit_contents e [symmetric] by (rule nfit.returns_iff) simp
  moreover have "DumpAcpiNFIT_contents T L Nfit = Some (concat (map (nfit_dump T L) qs))"
    if "chain (nfit_Length T L) (nfit_end T L Nfit) (nfit_first L Nfit) qs" for qs
    using nfit.prints_all [of T L "nfit_first L Nfit" ?n qs "[]"] that unfolding nfit_contents e by simp
  ultimately show ?thesis
    using assms by (simp add: DumpAcpiNFIT_def library_dump_verbose del: not_None_eq)
qed

section \<open>LPIT and PMTT\<close>

lemma fills_positive: "fills len e p (q # qs) \<Longrightarrow> 0 < len q"
proof (rule ccontr)
  assume fills: "fills len e p (q # qs)" and "\<not> 0 < len q"
  then have zero: "len p = 0" by (simp add: fills_Cons)
  have "\<not> chain len e p rs" if "p < e" for rs
    using that zero by (induction rs) auto
  moreover from fills have "p < e" "chain len e p (q # qs)" by (simp_all add: fills_Cons fills_def)
  ultimately show False by blast
qed

text \<open>
  C28: The LPIT dump takes each structure off its count only after it has gone to the next.  On a table that
  its structures fill it prints them all and stops when the 32 bits read as the length of a structure
  behind the table are at least the length of the first; when they are zero it never returns.
\<close>

theorem DumpAcpiLPIT_runs_over:
  assumes "Lpit \<noteq> NULL" and "mInternalIsAcpiDumpVerb s"
    and "fills (lpi_Length T) (Lpit + unat (h_Length T Lpit)) (Lpit + sizeof_HEADER T) (q # qs)"
  shows "(lpi_Length T q \<le> lpi_Length T (Lpit + unat (h_Length T Lpit)) \<longrightarrow>
       DumpAcpiLPIT T L Lpit s =
         Some (display (framed T ''***Low Power Idle Table***'' ''LPIT address 0x%016lx'' s Lpit
           (Print '''' [] # concat (map (lpi_dump T L) (q # qs)))) s))
     \<and> (lpi_Length T (Lpit + unat (h_Length T Lpit)) = 0 \<longrightarrow> DumpAcpiLPIT T L Lpit s = None)"
proof -
  let ?e = "Lpit + unat (h_Length T Lpit)" and ?l = "int (lpi_Length T q)"
  have first: "q = Lpit + sizeof_HEADER T" and less: "Lpit + sizeof_HEADER T < ?e"
    using assms(3) by (auto simp: fills_Cons)
  have pos: "0 < ?l" using fills_positive [OF assms(3)] by simp
  have "int (unat (h_Length T Lpit)) - int (sizeof_HEADER T)
      = ?l + int (?e - (Lpit + sizeof_HEADER T)) - int (lpi_Length T (Lpit + sizeof_HEADER T))"
    using less first by simp
  from lpit.next_runs_over [OF assms(3) _ pos this]
  have "DumpAcpiLPIT_contents T L Lpit = structures_next (lpi_Length T) (\<lambda>p. Some (lpi_dump T L p)) ?e
      (?l - int (lpi_Length T ?e)) ([Print '''' []] @ concat (map (lpi_dump T L) (q # qs)))"
    by (simp add: DumpAcpiLPIT_contents_def)
  with pos assms(1,2) show ?thesis
    by (auto simp: DumpAcpiLPIT_def library_dump_verbose lpit.next_stuck)
qed

text \<open>
  The PMTT dump has the same order of updates.  Its structures nest: sockets hold memory controllers,
  controllers hold modules; these inner loops count in the right order.
\<close>

definition pmtt_first :: "acpi_layout \<Rightarrow> addr \<Rightarrow> addr" where
  "pmtt_first L Pmtt = Pmtt + extent L ''EFI_ACPI_5_0_MEMORY_TOPOLOGY_TABLE''"

definition pmtt_end :: "acpi_tables \<Rightarrow> acpi_layout \<Rightarrow> addr \<Rightarrow> addr" where
  "pmtt_end T L Pmtt = Pmtt + unat (fld T L ''EFI_ACPI_5_0_MEMORY_TOPOLOGY_TABLE'' Pmtt ''Header.Length'')"

text \<open>
  The PMTT dump, likewise: on a table that its aggregator devices fill, each of which is dumped by
  itself, it prints them all when the length read behind the table is at least that of the first device,
  and never returns when that length is zero.
\<close>

theorem DumpAcpiPMTT_runs_over:
  assumes "Pmtt \<noteq> NULL" and "mInternalIsAcpiDumpVerb s"
    and "fills (aggregator_Length T L) (pmtt_end T L Pmtt) (pmtt_first L Pmtt) (q # qs)"
    and "\<forall>q \<in> set (q # qs). aggregator_dump T L q \<noteq> None"
  shows "(aggregator_Length T L q \<le> aggregator_Length T L (pmtt_end T L Pmtt) \<longrightarrow>
       DumpAcpiPMTT T L Pmtt s =
         Some (display (framed T ''***Memory Topology Table***'' ''PMTT address 0x%016lx'' s Pmtt
           (concat (map (\<lambda>p. the (aggregator_dump T L p)) (q # qs)))) s))
     \<and> (aggregator_Length T L (pmtt_end T L Pmtt) = 0 \<longrightarrow> DumpAcpiPMTT T L Pmtt s = None)"
proof -
  let ?l = "int (aggregator_Length T L q)"
  have first: "q = pmtt_first L Pmtt" and less: "pmtt_first L Pmtt < pmtt_end T L Pmtt"
    using assms(3) by (auto simp: fills_Cons)
  have pos: "0 < ?l" using fills_positive [OF assms(3)] by simp
  have "int (unat (fld T L ''EFI_ACPI_5_0_MEMORY_TOPOLOGY_TABLE'' Pmtt ''Header.Length''))
        - int (extent L ''EFI_ACPI_5_0_MEMORY_TOPOLOGY_TABLE'')
      = ?l + int (pmtt_end T L Pmtt - pmtt_first L Pmtt) - int (aggregator_Length T L (pmtt_first L Pmtt))"
    using less first by (simp add: pmtt_end_def pmtt_first_def)
  from pmtt.next_runs_over [OF assms(3,4) pos this]
  have "DumpAcpiPMTT_contents T L Pmtt = structures_next (aggregator_Length T L) (aggregator_dump T L)
      (pmtt_end T L Pmtt) (?l - int (aggregator_Length T L (pmtt_end T L Pmtt)))
      (concat (map (\<lambda>p. the (aggregator_dump T L p)) (q # qs)))"
    by (simp add: DumpAcpiPMTT_contents_def Let_def pmtt_first_def)
  with pos assms(1,2) show ?thesis
    by (auto simp: DumpAcpiPMTT_def library_dump_verbose pmtt.next_stuck)
qed


section \<open>Witnesses\<close>

text \<open>
  A table at 0x1000 of a 36 byte header and two structures of 8 and 16 bytes, in a layout that has the
  table's length at 4 and a structure's type and length at 0 and 2.
\<close>

definition sample_layout :: acpi_layout where
  "sample_layout =
     \<lparr>place = (\<lambda>S F. if F = ''Header.Length'' then (4, 4, 0, 32) else if F = ''Length'' then (2, 2, 0, 16) else (0, 2, 0, 16)),
      extent = (\<lambda>_. 36), offset = (\<lambda>_ _. 0), code = (\<lambda>_. 0), guid_code = (\<lambda>_. []), cstr = (\<lambda>_. [])\<rparr>"

lemma sample_extent: "extent sample_layout S = 36" "code sample_layout S = 0"
  by (simp_all add: sample_layout_def)

definition acpi_image :: "mem \<Rightarrow> acpi_tables" where
  "acpi_image m = (sample_tables 0)\<lparr>tmem := m, h_Length := (\<lambda>_. 60), sizeof_HEADER := 36\<rparr>"

lemma acpi_image_simps [simp]:
  "tmem (acpi_image m) = m" "h_Length (acpi_image m) p = 60" "sizeof_HEADER (acpi_image m) = 36"
  by (simp_all add: acpi_image_def)

lemma verbose_acpi [simp]: "mInternalIsAcpiDumpVerb empty_acpi"
  by (simp add: empty_acpi_def)

definition nfit_image :: mem where
  "nfit_image = (\<lambda>_. 0)(0x1004 := 60, 0x1026 := 8, 0x102e := 16)"

lemma nfit_image_table:
  "unat (fld (acpi_image nfit_image) sample_layout S 0x1000 ''Header.Length'') = 60"
  "nfit_Length (acpi_image nfit_image) sample_layout 0x1024 = 8"
  "nfit_Length (acpi_image nfit_image) sample_layout 0x102c = 16"
  by (simp_all add: fld_def nfit_Length_def sample_layout_def rd_def bytes_at_def upt_rec nfit_image_def take_bit_eq_mod)

theorem DumpAcpiNFIT_returns_iff_witness:
  "DumpAcpiNFIT (acpi_image nfit_image) sample_layout 0x1000 empty_acpi =
     Some (display (framed (acpi_image nfit_image) ''***NFIT Table***'' ''NFIT address 0x%016lx'' empty_acpi 0x1000
       (nfit_dump (acpi_image nfit_image) sample_layout 0x1024
        @ nfit_dump (acpi_image nfit_image) sample_layout 0x102c)) empty_acpi)"
proof -
  have "nfit_first sample_layout 0x1000 = 0x1024"
    and "nfit_end (acpi_image nfit_image) sample_layout 0x1000 = 0x103c"
    by (simp_all add: nfit_first_def nfit_end_def nfit_image_table) (simp_all add: sample_layout_def)
  then have "chain (nfit_Length (acpi_image nfit_image) sample_layout)
      (nfit_end (acpi_image nfit_image) sample_layout 0x1000) (nfit_first sample_layout 0x1000) [0x1024, 0x102c]"
    by (simp add: nfit_image_table)
  with DumpAcpiNFIT_returns_iff [of "0x1000" empty_acpi "acpi_image nfit_image" sample_layout] show ?thesis
    by fastforce
qed

text \<open>The same two structures in an LPIT; \<open>b\<close> is the length found behind it.\<close>

definition lpit_image :: "u8 \<Rightarrow> mem" where
  "lpit_image b = (\<lambda>_. 0)(0x1028 := 8, 0x1030 := 16, 0x1040 := b)"

lemma lpit_image_table:
  "lpi_Length (acpi_image (lpit_image b)) 0x1024 = 8"
  "lpi_Length (acpi_image (lpit_image b)) 0x102c = 16"
  "lpi_Length (acpi_image (lpit_image b)) 0x103c = unat b"
  using unat_widths(1) [of b]
  by (simp_all add: lpi_Length_def get32_def rd32_def rd_def bytes_at_def upt_rec lpit_image_def unat_ucast unat_of_nat)

theorem DumpAcpiLPIT_runs_over_witness:
  "DumpAcpiLPIT (acpi_image (lpit_image 56)) sample_layout 0x1000 empty_acpi =
     Some (display (framed (acpi_image (lpit_image 56)) ''***Low Power Idle Table***'' ''LPIT address 0x%016lx''
       empty_acpi 0x1000 (Print '''' [] # lpi_dump (acpi_image (lpit_image 56)) sample_layout 0x1024
         @ lpi_dump (acpi_image (lpit_image 56)) sample_layout 0x102c)) empty_acpi)
   \<and> DumpAcpiLPIT (acpi_image (lpit_image 0)) sample_layout 0x1000 empty_acpi = None"
proof -
  have "fills (lpi_Length (acpi_image (lpit_image b))) (0x1000 + unat (h_Length (acpi_image (lpit_image b)) 0x1000))
      (0x1000 + sizeof_HEADER (acpi_image (lpit_image b))) [0x1024, 0x102c]" for b
    by (simp add: fills_Cons lpit_image_table)
  from DumpAcpiLPIT_runs_over [OF _ _ this [of 56], of empty_acpi sample_layout]
    DumpAcpiLPIT_runs_over [OF _ _ this [of 0], of empty_acpi sample_layout]
  show ?thesis by (simp add: lpit_image_table)
qed

definition pmtt_image :: "u8 \<Rightarrow> mem" where
  "pmtt_image b = (\<lambda>_. 0)(0x1004 := 60, 0x1026 := 8, 0x102e := 16, 0x103e := b)"

lemma pmtt_image_table:
  "aggregator_Length (acpi_image (pmtt_image b)) sample_layout 0x1024 = 8"
  "aggregator_Length (acpi_image (pmtt_image b)) sample_layout 0x102c = 16"
  "aggregator_Length (acpi_image (pmtt_image b)) sample_layout 0x103c = unat b"
  "unat (fld (acpi_image (pmtt_image b)) sample_layout S 0x1000 ''Header.Length'') = 60"
  "fld (acpi_image (pmtt_image b)) sample_layout S 0x1024 ''Header.Length'' = 0"
  "fld (acpi_image (pmtt_image b)) sample_layout S 0x102c ''Header.Length'' = 0"
  "fld (acpi_image (pmtt_image b)) sample_layout S 0x1024 ''Type'' = 0"
  "fld (acpi_image (pmtt_image b)) sample_layout S 0x102c ''Type'' = 0"
  using unat_widths(1) [of b]
  by (simp_all add: fld_def aggregator_Length_def sample_layout_def rd_def bytes_at_def upt_rec pmtt_image_def
      take_bit_eq_mod unat_mod unat_of_nat unat_ucast)

lemma pmtt_image_dumped:
  "q \<in> {0x1024, 0x102c} \<Longrightarrow> aggregator_dump (acpi_image (pmtt_image b)) sample_layout q \<noteq> None"
  by (auto simp: aggregator_dump_def DumpPmttSocket_def Let_def pmtt_image_table sample_extent)

theorem DumpAcpiPMTT_runs_over_witness:
  "DumpAcpiPMTT (acpi_image (pmtt_image 0)) sample_layout 0x1000 empty_acpi = None
   \<and> DumpAcpiPMTT (acpi_image (pmtt_image 8)) sample_layout 0x1000 empty_acpi \<noteq> None"
proof -
  have ends: "pmtt_first sample_layout 0x1000 = 0x1024"
    "pmtt_end (acpi_image (pmtt_image b)) sample_layout 0x1000 = 0x103c" for b
    by (simp_all add: pmtt_first_def pmtt_end_def pmtt_image_table) (simp_all add: sample_layout_def)
  have fills: "fills (aggregator_Length (acpi_image (pmtt_image b)) sample_layout)
      (pmtt_end (acpi_image (pmtt_image b)) sample_layout 0x1000) (pmtt_first sample_layout 0x1000) [0x1024, 0x102c]" for b
    by (simp add: fills_Cons pmtt_image_table ends)
  have good: "\<forall>q \<in> set [0x1024, 0x102c]. aggregator_dump (acpi_image (pmtt_image b)) sample_layout q \<noteq> None" for b
    using pmtt_image_dumped by simp
  from DumpAcpiPMTT_runs_over [OF _ _ fills good, of empty_acpi 0]
    DumpAcpiPMTT_runs_over [OF _ _ fills good, of empty_acpi 8]
  show ?thesis by (simp add: pmtt_image_table ends)
qed

end
