(* ===== verification/Acpi_Tcpa_Props.thy ===== *)
theory Acpi_Tcpa_Props
  imports Acpi_Tcpa Acpi_Tables_Props
begin

text \<open>
  The event log behind the TCPA table: what is printed of a log of version 2 is determined by the events
  that were written to it.
\<close>

section \<open>Hex dumps of bytes\<close>

text \<open>A hex dump shows offsets, not addresses, so it depends on the bytes only.\<close>

definition hex_bytes :: "u8 list \<Rightarrow> out list" where
  "hex_bytes bs = DumpAcpiHex (\<lambda>i. bs ! i) (length bs) 0"

lemma hex_row_bytes:
  "i * 16 + k \<le> n \<Longrightarrow> hex_row m p i k = hex_row (\<lambda>j. bytes_at m p n ! j) 0 i k"
  by (auto simp: hex_row_def bytes_at_def add.assoc)

lemma DumpAcpiHex_bytes: "DumpAcpiHex m n p = hex_bytes (bytes_at m p n)"
proof -
  have "hex_row m p i 16 = hex_row (\<lambda>j. bytes_at m p n ! j) 0 i 16" if "i < n div 16" for i
    by (rule hex_row_bytes) (use that in linarith)
  moreover have "hex_row m p (n div 16) (n mod 16) = hex_row (\<lambda>j. bytes_at m p n ! j) 0 (n div 16) (n mod 16)"
    by (rule hex_row_bytes) simp
  ultimately show ?thesis
    by (auto simp: hex_bytes_def DumpAcpiHex_def Let_def intro!: arg_cong [where f = concat])
qed

section \<open>Events\<close>

record tcpa_entry =
  tv_PCRIndex :: u32
  tv_EventType :: u32
  tv_Digest :: "u8 list"
  tv_Data :: "u8 list"

definition tcpa_bytes :: "tcpa_entry \<Rightarrow> u8 list" where
  "tcpa_bytes e = enc 4 (unat (tv_PCRIndex e)) @ enc 4 (unat (tv_EventType e)) @ tv_Digest e
     @ enc 4 (length (tv_Data e)) @ tv_Data e"

definition tcpa_ok :: "tcpa_entry \<Rightarrow> bool" where
  "tcpa_ok e \<longleftrightarrow> tv_PCRIndex e \<noteq> 0xFFFFFFFF \<and> length (tv_Digest e) = 20 \<and> length (tv_Data e) + 32 < 2 ^ 32"

definition tcpa_lines :: "acpi_layout \<Rightarrow> addr \<Rightarrow> tcpa_entry \<Rightarrow> out list" where
  "tcpa_lines L p e =
     [Print ''  ***'' []] @ tcpa_title L 2 (ucast (tv_EventType e))
     @ [Print ''  ***'' [], Print ''  PCR EVENT address 0x%016lx'' [hxn p],
        Print ''    PCR Index 0x%08x'' [Hex (ucast (tv_PCRIndex e))],
        Print ''    PCR Event Type 0x%08x'' [Hex (ucast (tv_EventType e))],
        Print ''    PCR Value Length 0x%08x'' [Hex 20], Print ''    PCR Value:'' []]
     @ hex_bytes (tv_Digest e)
     @ [Print '''' [], Print ''    Event Size 0x%08x'' [hxn (length (tv_Data e))], Print ''    Event Data:'' []]
     @ hex_bytes (tv_Data e)
     @ [Print '''' [], Print ''  ***'' []]"

fun tcpa_log_lines :: "acpi_layout \<Rightarrow> addr \<Rightarrow> tcpa_entry list \<Rightarrow> out list" where
  "tcpa_log_lines L p [] = []"
| "tcpa_log_lines L p (e # es) = tcpa_lines L p e @ tcpa_log_lines L (p + length (tcpa_bytes e)) es"

lemma length_tcpa_bytes: "tcpa_ok e \<Longrightarrow> length (tcpa_bytes e) = 32 + length (tv_Data e)"
  by (simp add: tcpa_bytes_def tcpa_ok_def)

lemma unat_small32: "n < 2 ^ 32 \<Longrightarrow> unat (of_nat n :: u32) = n"
  by (simp add: unat_of_nat)

lemma ucast_small32:
  "n < 2 ^ 32 \<Longrightarrow> ucast (of_nat n :: u32) = (of_nat n :: u64)" "n < 2 ^ 32 \<Longrightarrow> ucast (of_nat n :: u64) = (of_nat n :: u32)"
  by (simp_all add: word_unat_eq_iff unat_ucast unat_of_nat)

lemma get32_holds: "holds (tmem T) p (enc 4 (unat (v :: u32))) \<Longrightarrow> get32 T p = ucast v"
  unfolding get32_def by (drule rd32_holds) simp

lemma get32_length: "holds (tmem T) p (enc 4 n) \<Longrightarrow> n < 2 ^ 32 \<Longrightarrow> get32 T p = of_nat n"
proof -
  assume *: "holds (tmem T) p (enc 4 n)" and n: "n < 2 ^ 32"
  then have "holds (tmem T) p (enc 4 (unat (of_nat n :: u32)))" by (simp only: unat_small32)
  then show ?thesis using n by (simp add: get32_holds ucast_small32)
qed

lemma holds_split:
  "holds m p (tcpa_bytes e) \<Longrightarrow> tcpa_ok e \<Longrightarrow>
   holds m p (enc 4 (unat (tv_PCRIndex e))) \<and> holds m (p + 4) (enc 4 (unat (tv_EventType e)))
   \<and> bytes_at m (p + 8) 20 = tv_Digest e \<and> holds m (p + 28) (enc 4 (length (tv_Data e)))
   \<and> bytes_at m (p + 32) (length (tv_Data e)) = tv_Data e"
  by (simp add: tcpa_bytes_def tcpa_ok_def holds_def [of _ _ "tv_Digest e"] holds_def [of _ _ "tv_Data e"] add.assoc)

section \<open>The log\<close>

lemma DumpTcpaPcrEvent_shows:
  assumes "holds (tmem T) p (tcpa_bytes e)" and "tcpa_ok e"
  shows "DumpTcpaPcrEvent T L 2 p = (tcpa_lines L p e, of_nat (length (tcpa_bytes e)))"
proof -
  note at = holds_split [OF assms]
  have ne: "ucast (tv_PCRIndex e) \<noteq> (0xFFFFFFFF :: u64)"
  proof
    assume "ucast (tv_PCRIndex e) = (0xFFFFFFFF :: u64)"
    then have "unat (ucast (tv_PCRIndex e) :: u64) = 0xFFFFFFFF" by simp
    then have "unat (tv_PCRIndex e) = unat (0xFFFFFFFF :: u32)" by (simp add: unat_ucast_up)
    then have "tv_PCRIndex e = 0xFFFFFFFF" by (rule word_unat_eq_iff [THEN iffD2])
    with assms(2) show False by (simp add: tcpa_ok_def)
  qed
  have n: "length (tv_Data e) < 2 ^ 32" using assms(2) by (simp add: tcpa_ok_def)
  then have un: "unat (of_nat (length (tv_Data e)) :: u64) = length (tv_Data e)"
    by (simp add: unat_of_nat)
  have PCR: "get32 T p = ucast (tv_PCRIndex e)" and Type: "get32 T (p + 4) = ucast (tv_EventType e)"
    and Size: "get32 T (p + 28) = of_nat (length (tv_Data e))"
    using at n by (auto intro: get32_holds get32_length)
  have cast: "ucast (of_nat (length (tv_Data e)) :: u64) = (of_nat (length (tv_Data e)) :: u32)"
    using n by (rule ucast_small32)
  have v2: "tcpa_v2 T p = Some \<lparr>te_PCRIndex = ucast (tv_PCRIndex e), te_EventType = ucast (tv_EventType e),
      te_PcrValueLen = 20, te_PcrValue = p + 8, te_Event = p + 28, te_Size = of_nat (length (tcpa_bytes e))\<rparr>"
    using ne assms(2) by (simp add: tcpa_v2_def Let_def PCR Type Size cast length_tcpa_bytes)
  show ?thesis
    using at by (simp add: DumpTcpaPcrEvent_def v2 tcpa_lines_def DumpTcpaPcrEventStructPcrValue_def
        DumpTcpaPcrEventStructEventUnknown_def Size un DumpAcpiHex_bytes add.commute [of 32])
qed

declare tcpa_log.simps [simp del]

lemma tcpa_log_lines:
  assumes "holds (tmem T) p (concat (map tcpa_bytes es))" and "\<forall>e \<in> set es. tcpa_ok e"
    and "log_end = p + length (concat (map tcpa_bytes es))
       \<or> p + length (concat (map tcpa_bytes es)) < log_end
         \<and> rd32 (tmem T) (p + length (concat (map tcpa_bytes es))) = 0xFFFFFFFF"
  shows "tcpa_log T L 2 p log_end = tcpa_log_lines L p es"
  using assms
proof (induction es arbitrary: p)
  case Nil
  then show ?case
    by (subst tcpa_log.simps) (auto simp: DumpTcpaPcrEvent_def tcpa_v2_def Let_def get32_def)
next
  case (Cons e es)
  then have e: "holds (tmem T) p (tcpa_bytes e)" "tcpa_ok e" by simp_all
  have "unat (of_nat (length (tcpa_bytes e)) :: u32) = length (tcpa_bytes e)"
    using e(2) by (intro unat_small32) (simp add: length_tcpa_bytes tcpa_ok_def)
  moreover from this have "of_nat (length (tcpa_bytes e)) \<noteq> (0 :: u32)"
    using e(2) by (auto simp: length_tcpa_bytes)
  moreover have "p < log_end" using Cons.prems(3) e(2) by (auto simp: length_tcpa_bytes)
  moreover have "tcpa_log T L 2 (p + length (tcpa_bytes e)) log_end = tcpa_log_lines L (p + length (tcpa_bytes e)) es"
    using Cons.prems by (intro Cons.IH) (auto simp: add.assoc)
  ultimately show ?case
    by (subst tcpa_log.simps) (simp add: DumpTcpaPcrEvent_shows [OF e])
qed

text \<open>
  C29: Of a log of version 2, whether its events fill the area or end at the marker 0xFFFFFFFF, exactly the
  events written to it are printed, in order, each with its index, type, digest and data.
\<close>

theorem DumpTcpaLogArea_events:
  assumes "Laml \<noteq> NULL" and "holds (tmem T) Laml (concat (map tcpa_bytes es))" and "\<forall>e \<in> set es. tcpa_ok e"
    and "unat Lasa = length (concat (map tcpa_bytes es))
       \<or> length (concat (map tcpa_bytes es)) < unat Lasa
         \<and> rd32 (tmem T) (Laml + length (concat (map tcpa_bytes es))) = 0xFFFFFFFF"
  shows "DumpTcpaLogArea T L 2 Laml Lasa = tcpa_log_lines L Laml es"
  using assms tcpa_log_lines [OF assms(2,3), of "Laml + unat Lasa" L] by (auto simp: DumpTcpaLogArea_def)

definition sample_entries :: "tcpa_entry list" where
  "sample_entries =
     [\<lparr>tv_PCRIndex = 0, tv_EventType = 8, tv_Digest = replicate 20 0xAB, tv_Data = [1, 2]\<rparr>,
      \<lparr>tv_PCRIndex = 7, tv_EventType = 4, tv_Digest = replicate 20 0xCD, tv_Data = [0, 0, 0, 0]\<rparr>]"

definition sample_log :: "u8 list" where
  "sample_log = concat (map tcpa_bytes sample_entries) @ enc 4 0xFFFFFFFF"

theorem DumpTcpaLogArea_events_witness:
  "DumpTcpaLogArea (acpi_image (mem_of 0x2000 sample_log)) sample_layout 2 0x2000 0x1000
     = tcpa_log_lines sample_layout 0x2000 sample_entries"
proof -
  have "holds (mem_of 0x2000 sample_log) 0x2000 sample_log" by (rule holds_mem_of)
  then have *: "holds (mem_of 0x2000 sample_log) 0x2000 (concat (map tcpa_bytes sample_entries))"
    "holds (mem_of 0x2000 sample_log) (0x2000 + length (concat (map tcpa_bytes sample_entries))) (enc 4 0xFFFFFFFF)"
    unfolding sample_log_def holds_append by simp_all
  have "rd32 (mem_of 0x2000 sample_log) (0x2000 + length (concat (map tcpa_bytes sample_entries))) = 0xFFFFFFFF"
    by (rule rd32_holds) (use *(2) in simp)
  moreover have "length (concat (map tcpa_bytes sample_entries)) < unat (0x1000 :: u64)"
    by (simp add: sample_entries_def tcpa_bytes_def)
  moreover have "\<forall>e \<in> set sample_entries. tcpa_ok e" by (simp add: sample_entries_def tcpa_ok_def)
  ultimately show ?thesis
    using *(1) by (intro DumpTcpaLogArea_events) simp_all
qed

end
