(* ===== verification/Acpi_Libraries.thy ===== *)
theory Acpi_Libraries
  imports Acpi_Fixed Acpi_Counted Acpi_Walked Acpi_Tcpa Acpi_Fadt Acpi_Affinity_Props Acpi_Tcpa_Props "HOL-Library.Multiset"
begin

text \<open>
  The table libraries together: which of them \<^verbatim>\<open>AcpiToolPkg.dsc\<close> links into DumpACPI, and what the
  registry holds once their constructors have run.
\<close>

section \<open>The dump functions behind the registry\<close>

definition library_dumps ::
  "acpi_tables \<Rightarrow> madt_view \<Rightarrow> srat_view \<Rightarrow> acpi_layout \<Rightarrow> (addr \<Rightarrow> acpi_state \<Rightarrow> acpi_state option) list" where
  "library_dumps T V W L =
     [DumpAcpiMADT T V, DumpAcpiSRAT T W, DumpAcpiASFT T L, DumpAcpiBERT T L, DumpAcpiBGRT T L,
      DumpAcpiBOOT T L, DumpAcpiCPEP T L, DumpAcpiCSRT T L, DumpAcpiDBG2 T L, DumpAcpiDBGP T L,
      DumpAcpiDMAR_lib T L, DumpAcpiECDT T L, DumpAcpiEINJ T L, DumpAcpiERST T L, DumpAcpiETDT T L,
      DumpAcpiFPDT T L, DumpAcpiGTDT T L, DumpAcpiHEST T L, DumpAcpiHPET T L, DumpAcpiIBFT T L,
      DumpAcpiIVRS T L, DumpAcpiLPIT T L, DumpAcpiMCFG T L, DumpAcpiMCHI T L, DumpAcpiMPST T L,
      DumpAcpiMSCT T L, DumpAcpiMSDM T L, DumpAcpiNFIT T L, DumpAcpiPMTT T L, DumpAcpiRASF T L,
      DumpAcpiSBST T L, DumpAcpiSLIC T L, DumpAcpiSLIT T L, DumpAcpiSPCR T L, DumpAcpiSPMI T L,
      DumpAcpiTCPA T L, DumpAcpiTPM2 T L, DumpAcpiUEFI T L, DumpAcpiWAET T L, DumpAcpiWDAT T L,
      DumpAcpiWDDT T L, DumpAcpiWDRT T L, DumpAcpiWPBT T L, DumpAcpiWSMT T L, DumpAcpiWSPT T L]"

section \<open>The linked libraries\<close>

text \<open>
  With each library the signature its table has and the function that dumps it.  \<^verbatim>\<open>DumpAcpiWSMTLib\<close> is
  the one library that the description file does not link.
\<close>

definition linked_libraries ::
  "madt_view \<Rightarrow> srat_view \<Rightarrow> acpi_layout \<Rightarrow> (u32 \<times> dump_func \<times> (acpi_state \<Rightarrow> efi_status \<times> acpi_state)) list" where
  "linked_libraries V W L =
     [(ucast (code L ''EFI_ACPI_4_0_BOOT_ERROR_RECORD_TABLE_SIGNATURE''), LibraryDump 3,
        DumpAcpiBERTLibConstructor L),
      (ucast (code L ''EFI_ACPI_5_0_BOOT_GRAPHICS_RESOURCE_TABLE_SIGNATURE''), LibraryDump 4,
        DumpAcpiBGRTLibConstructor L),
      (ucast (code L ''EFI_ACPI_3_0_CORRECTED_PLATFORM_ERROR_POLLING_TABLE_SIGNATURE''), LibraryDump 6,
        DumpAcpiCPEPLibConstructor L),
      (ucast (code L ''EFI_ACPI_2_0_EMBEDDED_CONTROLLER_BOOT_RESOURCES_TABLE_SIGNATURE''), LibraryDump 11,
        DumpAcpiECDTLibConstructor L),
      (ucast (code L ''EFI_ACPI_4_0_ERROR_INJECTION_TABLE_SIGNATURE''), LibraryDump 12,
        DumpAcpiEINJLibConstructor L),
      (ucast (code L ''EFI_ACPI_4_0_ERROR_RECORD_SERIALIZATION_TABLE_SIGNATURE''), LibraryDump 13,
        DumpAcpiERSTLibConstructor L),
      (ucast (code L ''EFI_ACPI_5_0_FIRMWARE_PERFORMANCE_DATA_TABLE_SIGNATURE''), LibraryDump 15,
        DumpAcpiFPDTLibConstructor L),
      (ucast (code L ''EFI_ACPI_5_0_GENERIC_TIMER_DESCRIPTION_TABLE_SIGNATURE''), LibraryDump 16,
        DumpAcpiGTDTLibConstructor L),
      (ucast (code L ''EFI_ACPI_4_0_HARDWARE_ERROR_SOURCE_TABLE_SIGNATURE''), LibraryDump 17,
        DumpAcpiHESTLibConstructor L),
      (APIC_SIGNATURE V, LibraryDump 0,
        DumpAcpiMADTLibConstructor V),
      (ucast (code L ''EFI_ACPI_5_0_MEMORY_POWER_STATE_TABLE_SIGNATURE''), LibraryDump 24,
        DumpAcpiMPSTLibConstructor L),
      (ucast (code L ''EFI_ACPI_4_0_MAXIMUM_SYSTEM_CHARACTERISTICS_TABLE_SIGNATURE''), LibraryDump 25,
        DumpAcpiMSCTLibConstructor L),
      (ucast (code L ''EFI_ACPI_6_0_NVDIMM_FIRMWARE_INTERFACE_TABLE_STRUCTURE_SIGNATURE''), LibraryDump 27,
        DumpAcpiNFITLibConstructor L),
      (ucast (code L ''EFI_ACPI_5_0_PLATFORM_MEMORY_TOPOLOGY_TABLE_SIGNATURE''), LibraryDump 28,
        DumpAcpiPMTTLibConstructor L),
      (ucast (code L ''EFI_ACPI_5_0_ACPI_RAS_FEATURE_TABLE_SIGNATURE''), LibraryDump 29,
        DumpAcpiRASFLibConstructor L),
      (ucast (code L ''EFI_ACPI_1_0_SMART_BATTERY_SPECIFICATION_TABLE_SIGNATURE''), LibraryDump 30,
        DumpAcpiSBSTLibConstructor L),
      (SRAT_SIGNATURE W, LibraryDump 1,
        DumpAcpiSRATLibConstructor W),
      (ucast (code L ''EFI_ACPI_2_0_SYSTEM_LOCALITY_INFORMATION_TABLE_SIGNATURE''), LibraryDump 32,
        DumpAcpiSLITLibConstructor L),
      (ucast (code L ''EFI_ACPI_2_0_SIMPLE_BOOT_FLAG_TABLE_SIGNATURE''), LibraryDump 5,
        DumpAcpiBOOTLibConstructor L),
      (ucast (code L ''EFI_ACPI_5_0_CORE_SYSTEM_RESOURCE_TABLE_SIGNATURE''), LibraryDump 7,
        DumpAcpiCSRTLibConstructor L),
      (ucast (code L ''EFI_ACPI_2_0_DEBUG_PORT_TABLE_SIGNATURE''), LibraryDump 9,
        DumpAcpiDBGPLibConstructor L),
      (ucast (code L ''EFI_ACPI_5_0_DEBUG_PORT_2_TABLE_SIGNATURE''), LibraryDump 8,
        DumpAcpiDBG2LibConstructor L),
      (ucast (code L ''EFI_ACPI_4_0_DMA_REMAPPING_TABLE_SIGNATURE''), LibraryDump 10,
        DumpAcpiDMARLibConstructor L),
      (ucast (code L ''EFI_ACPI_2_0_EVENT_TIMER_DESCRIPTION_TABLE_SIGNATURE''), LibraryDump 14,
        DumpAcpiETDTLibConstructor L),
      (ucast (code L ''EFI_ACPI_3_0_HIGH_PRECISION_EVENT_TIMER_TABLE_SIGNATURE''), LibraryDump 18,
        DumpAcpiHPETLibConstructor L),
      (ucast (code L ''EFI_ACPI_3_0_ISCSI_BOOT_FIRMWARE_TABLE_SIGNATURE''), LibraryDump 19,
        DumpAcpiIBFTLibConstructor L),
      (ucast (code L ''EFI_ACPI_4_0_IO_VIRTUALIZATION_REPORTING_STRUCTURE_SIGNATURE''), LibraryDump 20,
        DumpAcpiIVRSLibConstructor L),
      (ucast (code L ''EFI_ACPI_5_1_IO_LOW_POWER_IDLE_TABLE_STRUCTURE_SIGNATURE''), LibraryDump 21,
        DumpAcpiLPITLibConstructor L),
      (ucast (code L ''EFI_ACPI_2_0_MEMORY_MAPPED_CONFIGURATION_BASE_ADDRESS_TABLE_SIGNATURE''), LibraryDump 22,
        DumpAcpiMCFGLibConstructor L),
      (ucast (code L ''EFI_ACPI_4_0_MANAGEMENT_CONTROLLER_HOST_INTERFACE_TABLE_SIGNATURE''), LibraryDump 23,
        DumpAcpiMCHILibConstructor L),
      (ucast (code L ''EFI_ACPI_5_0_DATA_MANAGEMENT_TABLE_SIGNATURE''), LibraryDump 26,
        DumpAcpiMSDMLibConstructor L),
      (ucast (code L ''EFI_ACPI_5_0_SOFTWARE_LICENSING_TABLE_SIGNATURE''), LibraryDump 31,
        DumpAcpiSLICLibConstructor L),
      (ucast (code L ''EFI_ACPI_2_0_SERIAL_PORT_CONSOLE_REDIRECTION_TABLE_SIGNATURE''), LibraryDump 33,
        DumpAcpiSPCRLibConstructor L),
      (ucast (code L ''EFI_ACPI_2_0_SERVER_PLATFORM_MANAGEMENT_INTERFACE_SIGNATURE''), LibraryDump 34,
        DumpAcpiSPMILibConstructor L),
      (ucast (code L ''EFI_ACPI_3_0_TRUSTED_COMPUTING_PLATFORM_ALLIANCE_CAPABILITIES_TABLE_SIGNATURE''), LibraryDump 35,
        DumpAcpiTCPALibConstructor L),
      (ucast (code L ''EFI_ACPI_5_0_TRUSTED_COMPUTING_PLATFORM_2_TABLE_SIGNATURE''), LibraryDump 36,
        DumpAcpiTPM2LibConstructor L),
      (ucast (code L ''EFI_ACPI_4_0_UEFI_ACPI_DATA_TABLE_SIGNATURE''), LibraryDump 37,
        DumpAcpiUEFILibConstructor L),
      (ucast (code L ''EFI_ACPI_4_0_WINDOWS_ACPI_ENLIGHTENMENT_TABLE_SIGNATURE''), LibraryDump 38,
        DumpAcpiWAETLibConstructor L),
      (ucast (code L ''EFI_ACPI_3_0_WATCHDOG_ACTION_TABLE_SIGNATURE''), LibraryDump 39,
        DumpAcpiWDATLibConstructor L),
      (ucast (code L ''EFI_ACPI_3_0_WATCHDOG_RESOURCE_TABLE_SIGNATURE''), LibraryDump 41,
        DumpAcpiWDRTLibConstructor L),
      (ucast (code L ''EFI_ACPI_5_0_PLATFORM_BINARY_TABLE_SIGNATURE''), LibraryDump 42,
        DumpAcpiWPBTLibConstructor L),
      (ucast (code L ''EFI_ACPI_3_0_WINDOWS_SPECIFIC_PROPERTIES_TABLE_SIGNATURE''), LibraryDump 44,
        DumpAcpiWSPTLibConstructor L),
      (ucast (code L ''EFI_ACPI_ASF_DESCRIPTION_TABLE_SIGNATURE''), LibraryDump 2,
        DumpAcpiASFLibConstructor L),
      (SIGNATURE_32 0x57 0x44 0x44 0x54, LibraryDump 40,
        DumpAcpiWDDTLibConstructor L)]"

lemma linked_register:
  "\<forall>(k, f, c) \<in> set (linked_libraries V W L). c = RegisterDumpAcpiTable k f"
  unfolding linked_libraries_def list.set ball_simps
  by (simp only: split_conv fun_eq_iff
      DumpAcpiBERTLibConstructor_def DumpAcpiBGRTLibConstructor_def DumpAcpiCPEPLibConstructor_def
      DumpAcpiECDTLibConstructor_def DumpAcpiEINJLibConstructor_def DumpAcpiERSTLibConstructor_def
      DumpAcpiFPDTLibConstructor_def DumpAcpiGTDTLibConstructor_def DumpAcpiHESTLibConstructor_def
      DumpAcpiMADTLibConstructor_def DumpAcpiMPSTLibConstructor_def DumpAcpiMSCTLibConstructor_def
      DumpAcpiNFITLibConstructor_def DumpAcpiPMTTLibConstructor_def DumpAcpiRASFLibConstructor_def
      DumpAcpiSBSTLibConstructor_def DumpAcpiSRATLibConstructor_def DumpAcpiSLITLibConstructor_def
      DumpAcpiBOOTLibConstructor_def DumpAcpiCSRTLibConstructor_def DumpAcpiDBGPLibConstructor_def
      DumpAcpiDBG2LibConstructor_def DumpAcpiDMARLibConstructor_def DumpAcpiETDTLibConstructor_def
      DumpAcpiHPETLibConstructor_def DumpAcpiIBFTLibConstructor_def DumpAcpiIVRSLibConstructor_def
      DumpAcpiLPITLibConstructor_def DumpAcpiMCFGLibConstructor_def DumpAcpiMCHILibConstructor_def
      DumpAcpiMSDMLibConstructor_def DumpAcpiSLICLibConstructor_def DumpAcpiSPCRLibConstructor_def
      DumpAcpiSPMILibConstructor_def DumpAcpiTCPALibConstructor_def DumpAcpiTPM2LibConstructor_def
      DumpAcpiUEFILibConstructor_def DumpAcpiWAETLibConstructor_def DumpAcpiWDATLibConstructor_def
      DumpAcpiWDRTLibConstructor_def DumpAcpiWPBTLibConstructor_def DumpAcpiWSPTLibConstructor_def
      DumpAcpiASFLibConstructor_def DumpAcpiWDDTLibConstructor_def
      simp_thms ball_simps all_simps)

text \<open>What the constructors are called on, in the order they are linked: each leaves its state to the next.\<close>

definition construct :: "(u32 \<times> dump_func \<times> (acpi_state \<Rightarrow> efi_status \<times> acpi_state)) list \<Rightarrow> acpi_state \<Rightarrow> acpi_state" where
  "construct = fold (\<lambda>(k, f, c) s. snd (c s))"

definition builtin_table :: "acpi_tables \<Rightarrow> (u32 \<times> dump_func) list" where
  "builtin_table T =
     [(SIG_FACP T, DumpAcpiFADT), (SIG_FACS T, DumpAcpiFACS), (SIG_DSDT T, DumpAcpiDSDT),
      (SIG_SSDT T, DumpAcpiSSDT), (SIG_PSDT T, DumpAcpiPSDT)]"

definition library_table :: "madt_view \<Rightarrow> srat_view \<Rightarrow> acpi_layout \<Rightarrow> (u32 \<times> dump_func) list" where
  "library_table V W L = map (\<lambda>(k, f, c). (k, f)) (linked_libraries V W L)"

lemma construct_registers:
  assumes "\<forall>(k, f, c) \<in> set xs. c = RegisterDumpAcpiTable k f"
  shows "construct xs s = fold (\<lambda>(k, f) s. snd (RegisterDumpAcpiTable k f s)) (map (\<lambda>(k, f, c). (k, f)) xs) s"
  using assms unfolding construct_def by (induction xs arbitrary: s) auto

lemma length_library_table: "length (library_table V W L) = 44"
  by (simp add: library_table_def linked_libraries_def)

lemma map_of_permuted:
  assumes "mset xs = mset ys" and "distinct (map fst xs)"
  shows "map_of xs = map_of ys"
proof -
  have "mset (map fst xs) = mset (map fst ys)" using assms(1) by simp
  then have "distinct (map fst ys)" using assms(2) mset_eq_imp_distinct_iff by blast
  moreover have "set xs = set ys" using assms(1) by (rule mset_eq_setD)
  ultimately show ?thesis using assms(2) by (simp add: map_of_inject_set)
qed

text \<open>
  C26: Whatever the order in which the constructors of the 44 linked libraries run before the entry point
  registers its own five functions, with distinct signatures every signature ends up with the function of
  its own library, and no other signature has one.
\<close>

theorem libraries_registered:
  assumes "mset xs = mset (linked_libraries V W L)" and "mDumpAcpiTableFuncStruct s = []"
    and "distinct (map fst (library_table V W L @ builtin_table T))"
  shows "GetDumpAcpiTableFunc (register_builtin T (construct xs s)) = map_of (library_table V W L @ builtin_table T)"
proof -
  let ?kvs = "map (\<lambda>(k, f, c). (k, f)) xs @ builtin_table T"
  have "set xs = set (linked_libraries V W L)" using assms(1) by (rule mset_eq_setD)
  then have "construct xs s = fold (\<lambda>(k, f) s. snd (RegisterDumpAcpiTable k f s)) (map (\<lambda>(k, f, c). (k, f)) xs) s"
    using linked_register [of V W L] by (intro construct_registers) simp
  then have fold: "register_builtin T (construct xs s) = fold (\<lambda>(k, f) s. snd (RegisterDumpAcpiTable k f s)) ?kvs s"
    by (simp add: register_builtin_def builtin_table_def)
  have perm: "mset ?kvs = mset (library_table V W L @ builtin_table T)"
    using assms(1) by (simp add: library_table_def)
  have "card (fst ` set ?kvs) \<le> length (map fst ?kvs)"
    using card_length [of "map fst ?kvs"] by (simp del: map_append set_append length_append)
  also have "\<dots> = 49"
    using mset_eq_length [OF perm] by (simp add: length_library_table builtin_table_def)
  finally have "card (fst ` set ?kvs) \<le> 256" by simp
  from RegisterDumpAcpiTable_first_wins [OF assms(2) this]
  have "GetDumpAcpiTableFunc (register_builtin T (construct xs s)) = map_of ?kvs"
    by (simp only: fold)
  also have "\<dots> = map_of (library_table V W L @ builtin_table T)"
    by (rule map_of_permuted [OF perm [symmetric] assms(3), symmetric])
  finally show ?thesis .
qed

section \<open>Witness\<close>

definition signature_names :: "string list" where
  "signature_names =
     [''EFI_ACPI_4_0_BOOT_ERROR_RECORD_TABLE_SIGNATURE'',
      ''EFI_ACPI_5_0_BOOT_GRAPHICS_RESOURCE_TABLE_SIGNATURE'',
      ''EFI_ACPI_3_0_CORRECTED_PLATFORM_ERROR_POLLING_TABLE_SIGNATURE'',
      ''EFI_ACPI_2_0_EMBEDDED_CONTROLLER_BOOT_RESOURCES_TABLE_SIGNATURE'',
      ''EFI_ACPI_4_0_ERROR_INJECTION_TABLE_SIGNATURE'',
      ''EFI_ACPI_4_0_ERROR_RECORD_SERIALIZATION_TABLE_SIGNATURE'',
      ''EFI_ACPI_5_0_FIRMWARE_PERFORMANCE_DATA_TABLE_SIGNATURE'',
      ''EFI_ACPI_5_0_GENERIC_TIMER_DESCRIPTION_TABLE_SIGNATURE'',
      ''EFI_ACPI_4_0_HARDWARE_ERROR_SOURCE_TABLE_SIGNATURE'',
      ''EFI_ACPI_5_0_MEMORY_POWER_STATE_TABLE_SIGNATURE'',
      ''EFI_ACPI_4_0_MAXIMUM_SYSTEM_CHARACTERISTICS_TABLE_SIGNATURE'',
      ''EFI_ACPI_6_0_NVDIMM_FIRMWARE_INTERFACE_TABLE_STRUCTURE_SIGNATURE'',
      ''EFI_ACPI_5_0_PLATFORM_MEMORY_TOPOLOGY_TABLE_SIGNATURE'',
      ''EFI_ACPI_5_0_ACPI_RAS_FEATURE_TABLE_SIGNATURE'',
      ''EFI_ACPI_1_0_SMART_BATTERY_SPECIFICATION_TABLE_SIGNATURE'',
      ''EFI_ACPI_2_0_SYSTEM_LOCALITY_INFORMATION_TABLE_SIGNATURE'',
      ''EFI_ACPI_2_0_SIMPLE_BOOT_FLAG_TABLE_SIGNATURE'',
      ''EFI_ACPI_5_0_CORE_SYSTEM_RESOURCE_TABLE_SIGNATURE'',
      ''EFI_ACPI_2_0_DEBUG_PORT_TABLE_SIGNATURE'',
      ''EFI_ACPI_5_0_DEBUG_PORT_2_TABLE_SIGNATURE'',
      ''EFI_ACPI_4_0_DMA_REMAPPING_TABLE_SIGNATURE'',
      ''EFI_ACPI_2_0_EVENT_TIMER_DESCRIPTION_TABLE_SIGNATURE'',
      ''EFI_ACPI_3_0_HIGH_PRECISION_EVENT_TIMER_TABLE_SIGNATURE'',
      ''EFI_ACPI_3_0_ISCSI_BOOT_FIRMWARE_TABLE_SIGNATURE'',
      ''EFI_ACPI_4_0_IO_VIRTUALIZATION_REPORTING_STRUCTURE_SIGNATURE'',
      ''EFI_ACPI_5_1_IO_LOW_POWER_IDLE_TABLE_STRUCTURE_SIGNATURE'',
      ''EFI_ACPI_2_0_MEMORY_MAPPED_CONFIGURATION_BASE_ADDRESS_TABLE_SIGNATURE'',
      ''EFI_ACPI_4_0_MANAGEMENT_CONTROLLER_HOST_INTERFACE_TABLE_SIGNATURE'',
      ''EFI_ACPI_5_0_DATA_MANAGEMENT_TABLE_SIGNATURE'',
      ''EFI_ACPI_5_0_SOFTWARE_LICENSING_TABLE_SIGNATURE'',
      ''EFI_ACPI_2_0_SERIAL_PORT_CONSOLE_REDIRECTION_TABLE_SIGNATURE'',
      ''EFI_ACPI_2_0_SERVER_PLATFORM_MANAGEMENT_INTERFACE_SIGNATURE'',
      ''EFI_ACPI_3_0_TRUSTED_COMPUTING_PLATFORM_ALLIANCE_CAPABILITIES_TABLE_SIGNATURE'',
      ''EFI_ACPI_5_0_TRUSTED_COMPUTING_PLATFORM_2_TABLE_SIGNATURE'',
      ''EFI_ACPI_4_0_UEFI_ACPI_DATA_TABLE_SIGNATURE'',
      ''EFI_ACPI_4_0_WINDOWS_ACPI_ENLIGHTENMENT_TABLE_SIGNATURE'',
      ''EFI_ACPI_3_0_WATCHDOG_ACTION_TABLE_SIGNATURE'',
      ''EFI_ACPI_3_0_WATCHDOG_RESOURCE_TABLE_SIGNATURE'',
      ''EFI_ACPI_5_0_PLATFORM_BINARY_TABLE_SIGNATURE'',
      ''EFI_ACPI_3_0_WINDOWS_SPECIFIC_PROPERTIES_TABLE_SIGNATURE'',
      ''EFI_ACPI_ASF_DESCRIPTION_TABLE_SIGNATURE'']"

definition signature_number :: "string \<Rightarrow> nat" where
  "signature_number n = length (takeWhile (\<lambda>m. m \<noteq> n) signature_names)"

lemma signature_numbers: "map signature_number signature_names = [0..<41]"
  by code_simp

text \<open>A layout in which the constants have the numbers of their names in that list.\<close>

definition numbered :: acpi_layout where
  "numbered = sample_layout\<lparr>code := (\<lambda>n. of_nat (signature_number n))\<rparr>"

lemma library_signatures:
  "map fst (library_table V W L) =
     [ucast (code L ''EFI_ACPI_4_0_BOOT_ERROR_RECORD_TABLE_SIGNATURE''),
      ucast (code L ''EFI_ACPI_5_0_BOOT_GRAPHICS_RESOURCE_TABLE_SIGNATURE''),
      ucast (code L ''EFI_ACPI_3_0_CORRECTED_PLATFORM_ERROR_POLLING_TABLE_SIGNATURE''),
      ucast (code L ''EFI_ACPI_2_0_EMBEDDED_CONTROLLER_BOOT_RESOURCES_TABLE_SIGNATURE''),
      ucast (code L ''EFI_ACPI_4_0_ERROR_INJECTION_TABLE_SIGNATURE''),
      ucast (code L ''EFI_ACPI_4_0_ERROR_RECORD_SERIALIZATION_TABLE_SIGNATURE''),
      ucast (code L ''EFI_ACPI_5_0_FIRMWARE_PERFORMANCE_DATA_TABLE_SIGNATURE''),
      ucast (code L ''EFI_ACPI_5_0_GENERIC_TIMER_DESCRIPTION_TABLE_SIGNATURE''),
      ucast (code L ''EFI_ACPI_4_0_HARDWARE_ERROR_SOURCE_TABLE_SIGNATURE''),
      APIC_SIGNATURE V,
      ucast (code L ''EFI_ACPI_5_0_MEMORY_POWER_STATE_TABLE_SIGNATURE''),
      ucast (code L ''EFI_ACPI_4_0_MAXIMUM_SYSTEM_CHARACTERISTICS_TABLE_SIGNATURE''),
      ucast (code L ''EFI_ACPI_6_0_NVDIMM_FIRMWARE_INTERFACE_TABLE_STRUCTURE_SIGNATURE''),
      ucast (code L ''EFI_ACPI_5_0_PLATFORM_MEMORY_TOPOLOGY_TABLE_SIGNATURE''),
      ucast (code L ''EFI_ACPI_5_0_ACPI_RAS_FEATURE_TABLE_SIGNATURE''),
      ucast (code L ''EFI_ACPI_1_0_SMART_BATTERY_SPECIFICATION_TABLE_SIGNATURE''),
      SRAT_SIGNATURE W,
      ucast (code L ''EFI_ACPI_2_0_SYSTEM_LOCALITY_INFORMATION_TABLE_SIGNATURE''),
      ucast (code L ''EFI_ACPI_2_0_SIMPLE_BOOT_FLAG_TABLE_SIGNATURE''),
      ucast (code L ''EFI_ACPI_5_0_CORE_SYSTEM_RESOURCE_TABLE_SIGNATURE''),
      ucast (code L ''EFI_ACPI_2_0_DEBUG_PORT_TABLE_SIGNATURE''),
      ucast (code L ''EFI_ACPI_5_0_DEBUG_PORT_2_TABLE_SIGNATURE''),
      ucast (code L ''EFI_ACPI_4_0_DMA_REMAPPING_TABLE_SIGNATURE''),
      ucast (code L ''EFI_ACPI_2_0_EVENT_TIMER_DESCRIPTION_TABLE_SIGNATURE''),
      ucast (code L ''EFI_ACPI_3_0_HIGH_PRECISION_EVENT_TIMER_TABLE_SIGNATURE''),
      ucast (code L ''EFI_ACPI_3_0_ISCSI_BOOT_FIRMWARE_TABLE_SIGNATURE''),
      ucast (code L ''EFI_ACPI_4_0_IO_VIRTUALIZATION_REPORTING_STRUCTURE_SIGNATURE''),
      ucast (code L ''EFI_ACPI_5_1_IO_LOW_POWER_IDLE_TABLE_STRUCTURE_SIGNATURE''),
      ucast (code L ''EFI_ACPI_2_0_MEMORY_MAPPED_CONFIGURATION_BASE_ADDRESS_TABLE_SIGNATURE''),
      ucast (code L ''EFI_ACPI_4_0_MANAGEMENT_CONTROLLER_HOST_INTERFACE_TABLE_SIGNATURE''),
      ucast (code L ''EFI_ACPI_5_0_DATA_MANAGEMENT_TABLE_SIGNATURE''),
      ucast (code L ''EFI_ACPI_5_0_SOFTWARE_LICENSING_TABLE_SIGNATURE''),
      ucast (code L ''EFI_ACPI_2_0_SERIAL_PORT_CONSOLE_REDIRECTION_TABLE_SIGNATURE''),
      ucast (code L ''EFI_ACPI_2_0_SERVER_PLATFORM_MANAGEMENT_INTERFACE_SIGNATURE''),
      ucast (code L ''EFI_ACPI_3_0_TRUSTED_COMPUTING_PLATFORM_ALLIANCE_CAPABILITIES_TABLE_SIGNATURE''),
      ucast (code L ''EFI_ACPI_5_0_TRUSTED_COMPUTING_PLATFORM_2_TABLE_SIGNATURE''),
      ucast (code L ''EFI_ACPI_4_0_UEFI_ACPI_DATA_TABLE_SIGNATURE''),
      ucast (code L ''EFI_ACPI_4_0_WINDOWS_ACPI_ENLIGHTENMENT_TABLE_SIGNATURE''),
      ucast (code L ''EFI_ACPI_3_0_WATCHDOG_ACTION_TABLE_SIGNATURE''),
      ucast (code L ''EFI_ACPI_3_0_WATCHDOG_RESOURCE_TABLE_SIGNATURE''),
      ucast (code L ''EFI_ACPI_5_0_PLATFORM_BINARY_TABLE_SIGNATURE''),
      ucast (code L ''EFI_ACPI_3_0_WINDOWS_SPECIFIC_PROPERTIES_TABLE_SIGNATURE''),
      ucast (code L ''EFI_ACPI_ASF_DESCRIPTION_TABLE_SIGNATURE''),
      0x54444457]"
  by (simp add: library_table_def linked_libraries_def SIGNATURE_32_def)

lemma numbered_codes:
  "map (\<lambda>n. ucast (code numbered n) :: u32) signature_names = map of_nat [0..<41]"
proof -
  have "ucast (code numbered n) = (of_nat (signature_number n) :: u32)" if "n \<in> set signature_names" for n
  proof -
    have "signature_number n \<in> set (map signature_number signature_names)" using that by simp
    then have "signature_number n < 41" unfolding signature_numbers by simp
    then show ?thesis by (simp add: numbered_def ucast_small32)
  qed
  then have "map (\<lambda>n. ucast (code numbered n) :: u32) signature_names = map of_nat (map signature_number signature_names)"
    by simp
  then show ?thesis by (simp only: signature_numbers)
qed

lemma sample_signatures:
  "distinct (map fst (library_table sample_madt sample_srat numbered @ builtin_table (sample_tables 0)))"
  using numbered_codes
  by (simp add: library_signatures signature_names_def upt_rec builtin_table_def sample_tables_def sample_madt_def sample_srat_def)

theorem libraries_registered_witness:
  "GetDumpAcpiTableFunc (register_builtin (sample_tables 0)
     (construct (rev (linked_libraries sample_madt sample_srat numbered)) empty_acpi)) 0x54444457 = Some (LibraryDump 40)"
proof -
  have "mset (rev (linked_libraries sample_madt sample_srat numbered)) = mset (linked_libraries sample_madt sample_srat numbered)"
    by simp
  moreover have "mDumpAcpiTableFuncStruct empty_acpi = []" by (simp add: empty_acpi_def)
  moreover have "(0x54444457, LibraryDump 40) \<in> set (library_table sample_madt sample_srat numbered @ builtin_table (sample_tables 0))"
    by (simp add: library_table_def linked_libraries_def SIGNATURE_32_def)
  ultimately show ?thesis
    using libraries_registered [OF _ _ sample_signatures] map_of_is_SomeI [OF sample_signatures] by metis
qed

end
