(* ===== verification/Pcd_Database.thy ===== *)
theory Pcd_Database
  imports Acpi_Layout
begin

text \<open>
  \<^verbatim>\<open>AppSrc/PcdDump/PcdDump.c\<close>: the binary PCD database (tokens, sizes, strings, variables) and the
  differences that other SKUs apply to it.
\<close>

section \<open>The environment\<close>

text \<open>
  \<open>layouts\<close>: the structures of \<^verbatim>\<open>PcdDataBaseSignatureGuid.h\<close> and of the firmware volume headers, as for
  the ACPI tables; a scalar type has the field with the empty name.  \<open>copy_pool n\<close>: a copy of \<open>n\<close> bytes can
  be allocated.  \<open>name16\<close>: the string of 16 bit characters at an address.
\<close>

record pcd_env =
  pmem :: mem
  layouts :: acpi_layout
  gPcdDataBaseSignatureGuid :: "u8 list"
  PcdVpdBaseAddress :: u32
  copy_pool :: "nat \<Rightarrow> bool"
  name16 :: "addr \<Rightarrow> u16 list"

definition pfld :: "pcd_env \<Rightarrow> string \<Rightarrow> addr \<Rightarrow> string \<Rightarrow> u64" where
  "pfld E S p F =
     (let (byte, size, bit, width) = place (layouts E) S F
      in take_bit width (drop_bit bit (of_nat (rd (pmem E) (p + byte) size))))"

abbreviation (input) psize :: "pcd_env \<Rightarrow> string \<Rightarrow> nat" where
  "psize E \<equiv> extent (layouts E)"

abbreviation (input) pconst :: "pcd_env \<Rightarrow> string \<Rightarrow> u64" where
  "pconst E \<equiv> code (layouts E)"

text \<open>Entry \<open>i\<close> of an array of scalars.\<close>

definition entry :: "pcd_env \<Rightarrow> string \<Rightarrow> addr \<Rightarrow> nat \<Rightarrow> u64" where
  "entry E S table i = pfld E S (table + psize E S * i) ''''"

definition ALIGN_VALUE :: "nat \<Rightarrow> nat \<Rightarrow> nat" where
  "ALIGN_VALUE v a = (v + a - 1) div a * a"

text \<open>A field of the database header, and the tables it places.\<close>

definition db :: "pcd_env \<Rightarrow> addr \<Rightarrow> string \<Rightarrow> nat" where
  "db E D F = unat (pfld E ''PCD_DATABASE_INIT'' D F)"

definition InternalDumpData_pcd :: "pcd_env \<Rightarrow> addr \<Rightarrow> nat \<Rightarrow> out list" where
  "InternalDumpData_pcd E Data Size = map (\<lambda>Index. Print ''%02x'' [hx (pmem E (Data + Index))]) [0..<Size]"

definition InternalDumpHex_pcd :: "pcd_env \<Rightarrow> addr \<Rightarrow> nat \<Rightarrow> out list" where
  "InternalDumpHex_pcd E Data Size =
     (let Count = Size div 32; Left = Size mod 32;
          row = (\<lambda>Index n. [Print ''%04x: '' [hxn (Index * 32)]] @ InternalDumpData_pcd E (Data + Index * 32) n @ [Print '''' []])
      in concat (map (\<lambda>Index. row Index 32) [0..<Count]) @ (if Left \<noteq> 0 then row Count Left else []))"

section \<open>Differences of SKUs\<close>

definition delta_Length :: "pcd_env \<Rightarrow> addr \<Rightarrow> nat" where
  "delta_Length E SkuDelta = unat (pfld E ''PCD_DATABASE_SKU_DELTA'' SkuDelta ''Length'')"

definition delta_SkuId :: "pcd_env \<Rightarrow> addr \<Rightarrow> u64" where
  "delta_SkuId E SkuDelta = pfld E ''PCD_DATABASE_SKU_DELTA'' SkuDelta ''SkuId''"

text \<open>The distance to the next block: the offset in the database is aligned to 8.\<close>

definition delta_step :: "pcd_env \<Rightarrow> addr \<Rightarrow> addr \<Rightarrow> nat" where
  "delta_step E D SkuDelta = D + ALIGN_VALUE (SkuDelta - D + delta_Length E SkuDelta) 8 - SkuDelta"

definition delta_first :: "pcd_env \<Rightarrow> addr \<Rightarrow> addr" where
  "delta_first E D = D + ALIGN_VALUE (db E D ''Length'') 8"

definition delta_end :: "pcd_env \<Rightarrow> addr \<Rightarrow> addr" where
  "delta_end E D = D + db E D ''LengthForAllSkus''"

text \<open>
  The loops over all blocks and over the bytes of one block.  \<open>body\<close> may end the function (\<open>Inl\<close>).
\<close>

definition for_blocks ::
  "pcd_env \<Rightarrow> addr \<Rightarrow> (addr \<Rightarrow> 's \<Rightarrow> ('e + 's) option) \<Rightarrow> 's \<Rightarrow> ('e + 's) option" where
  "for_blocks E D body s = walk (delta_step E D) body (delta_first E D) (delta_end E D) s"

definition for_deltas :: "pcd_env \<Rightarrow> addr \<Rightarrow> (addr \<Rightarrow> 's \<Rightarrow> 'e + 's) \<Rightarrow> 's \<Rightarrow> ('e + 's) option" where
  "for_deltas E SkuDelta body s =
     walk (\<lambda>_. psize E ''PCD_DATA_DELTA'') (\<lambda>d s. Some (body d s))
       (SkuDelta + psize E ''PCD_DATABASE_SKU_DELTA'') (SkuDelta + delta_Length E SkuDelta) s"

definition delta_target :: "pcd_env \<Rightarrow> addr \<Rightarrow> addr \<Rightarrow> addr" where
  "delta_target E D DeltaData = D + unat (pfld E ''PCD_DATA_DELTA'' DeltaData ''Offset'')"

definition delta_hits :: "pcd_env \<Rightarrow> addr \<Rightarrow> addr \<Rightarrow> nat \<Rightarrow> addr \<Rightarrow> bool" where
  "delta_hits E D DataPtr DataSize DeltaData \<longleftrightarrow>
     DataPtr \<le> delta_target E D DeltaData \<and> delta_target E D DeltaData < DataPtr + DataSize"

definition IsSkuPcd :: "pcd_env \<Rightarrow> addr \<Rightarrow> addr \<Rightarrow> nat \<Rightarrow> bool option" where
  "IsSkuPcd E D DataPtr DataSize =
     (if db E D ''LengthForAllSkus'' \<le> db E D ''Length'' then Some False
      else map_option (\<lambda>r. r = Inl ())
        (for_blocks E D
          (\<lambda>SkuDelta s. for_deltas E SkuDelta
             (\<lambda>DeltaData s. if delta_hits E D DataPtr DataSize DeltaData then Inl () else Inr s) s) ()))"

definition CopySkuPcdData :: "pcd_env \<Rightarrow> addr \<Rightarrow> u64 \<Rightarrow> addr \<Rightarrow> nat \<Rightarrow> u8 list \<Rightarrow> (u8 list \<times> bool) option" where
  "CopySkuPcdData E D SkuId DataPtr DataSize DataBuffer =
     (if db E D ''LengthForAllSkus'' \<le> db E D ''Length'' then Some (DataBuffer, False)
      else map_option (case_sum id id)
        (for_blocks E D
          (\<lambda>SkuDelta s.
             if delta_SkuId E SkuDelta = SkuId
             then for_deltas E SkuDelta
               (\<lambda>DeltaData (buf, Result).
                  if delta_hits E D DataPtr DataSize DeltaData
                  then Inr (buf[delta_target E D DeltaData - DataPtr := ucast (pfld E ''PCD_DATA_DELTA'' DeltaData ''Value'')], True)
                  else Inr (buf, Result)) s
             else Some (Inr s)) (DataBuffer, False)))"

section \<open>Tokens\<close>

definition token_is :: "pcd_env \<Rightarrow> u64 \<Rightarrow> string \<Rightarrow> bool" where
  "token_is E Token T \<longleftrightarrow> Token AND pconst E ''PCD_DATUM_TYPE_ALL_SET'' = pconst E T"

definition PCD_TYPE_ALL_SET_WITHOUT_SKU :: "pcd_env \<Rightarrow> u64" where
  "PCD_TYPE_ALL_SET_WITHOUT_SKU E =
     pconst E ''PCD_TYPE_DATA'' OR pconst E ''PCD_TYPE_HII'' OR pconst E ''PCD_TYPE_VPD'' OR pconst E ''PCD_TYPE_STRING''"

definition PcdTypeMaskToString :: "pcd_env \<Rightarrow> u64 \<Rightarrow> string" where
  "PcdTypeMaskToString E Token =
     (let v = Token AND PCD_TYPE_ALL_SET_WITHOUT_SKU E in
      if v = pconst E ''PCD_TYPE_DATA'' then ''DATA''
      else if v = pconst E ''PCD_TYPE_HII'' then ''HII''
      else if v = pconst E ''PCD_TYPE_VPD'' then ''VPD''
      else if v = pconst E ''PCD_TYPE_STRING'' then ''STRING''
      else if v = pconst E ''PCD_TYPE_HII'' OR pconst E ''PCD_TYPE_STRING'' then ''HII STRING''
      else ''<UnknownType>'')"

definition PcdDataTypeToString :: "pcd_env \<Rightarrow> u64 \<Rightarrow> string" where
  "PcdDataTypeToString E Token =
     (if token_is E Token ''PCD_DATUM_TYPE_POINTER'' then ''POINTER''
      else if token_is E Token ''PCD_DATUM_TYPE_UINT8'' then ''UINT8''
      else if token_is E Token ''PCD_DATUM_TYPE_UINT16'' then ''UINT16''
      else if token_is E Token ''PCD_DATUM_TYPE_UINT32'' then ''UINT32''
      else if token_is E Token ''PCD_DATUM_TYPE_UINT64'' then ''UINT64''
      else ''<UnknownDataType>'')"

definition LocalToken :: "pcd_env \<Rightarrow> addr \<Rightarrow> nat \<Rightarrow> u64" where
  "LocalToken E D Index = entry E ''UINT32'' (D + db E D ''LocalTokenNumberTableOffset'') Index"

text \<open>Both branches on \<^verbatim>\<open>PCD_TYPE_VPD\<close> add 2.\<close>

definition GetSizeTableIndex :: "pcd_env \<Rightarrow> nat \<Rightarrow> addr \<Rightarrow> nat" where
  "GetSizeTableIndex E LocalTokenNumberTableIdx D =
     fold (\<lambda>Index SizeTableIdx.
        if token_is E (LocalToken E D Index) ''PCD_DATUM_TYPE_POINTER''
        then (if LocalToken E D Index AND pconst E ''PCD_TYPE_VPD'' \<noteq> 0 then SizeTableIdx + 2 else SizeTableIdx + 2)
        else SizeTableIdx)
       [0..<LocalTokenNumberTableIdx] 0"

text \<open>The size and the maximum.\<close>

definition GetPtrTypeSize :: "pcd_env \<Rightarrow> nat \<Rightarrow> addr \<Rightarrow> nat \<times> nat" where
  "GetPtrTypeSize E LocalTokenNumberTableIdx D =
     (let SizeTableIdx = GetSizeTableIndex E LocalTokenNumberTableIdx D;
          SizeTable = entry E ''SIZE_INFO'' (D + db E D ''SizeTableOffset'');
          MaxSize = unat (SizeTable SizeTableIdx)
      in if LocalToken E D LocalTokenNumberTableIdx AND pconst E ''PCD_TYPE_VPD'' \<noteq> 0 then (MaxSize, MaxSize)
         else (unat (SizeTable (SizeTableIdx + 1)), MaxSize))"

section \<open>Values\<close>

text \<open>What is printed of a value, its address and its size; the address is null when the value lies outside the database.\<close>

definition DumpPcdRawData :: "pcd_env \<Rightarrow> addr \<Rightarrow> nat \<Rightarrow> u64 \<Rightarrow> addr \<Rightarrow> out list \<times> addr \<times> nat" where
  "DumpPcdRawData E D LocalTokenNumberTableIdx LocalTokenNumber Data =
     (let IsUninitialized = db E D ''Length'' \<le> unat (of_nat Data - of_nat D :: u64);
          DataPtr = (if IsUninitialized then NULL else Data);
          scalar = (\<lambda>fmt n.
            ([Print ''    Data        : '' []]
             @ (if IsUninitialized then [Print ''<Uninit>'' []] else [Print fmt [hxn (rd (pmem E) Data n)]])
             @ [Print '''' []], DataPtr, if IsUninitialized then 0 else n))
      in if token_is E LocalTokenNumber ''PCD_DATUM_TYPE_POINTER''
         then (let (Size, MaxSize) = GetPtrTypeSize E LocalTokenNumberTableIdx D
               in ([Print ''    DataSize    : %d'' [hxn Size], Print ''    DataMaxSize : %d'' [hxn MaxSize],
                    Print ''    Data        : '' []]
                   @ (if IsUninitialized then [Print ''<Uninit>'' []] else InternalDumpData_pcd E Data Size)
                   @ [Print '''' []], DataPtr, if IsUninitialized then 0 else Size))
         else if token_is E LocalTokenNumber ''PCD_DATUM_TYPE_UINT8'' then scalar ''0x%02x'' 1
         else if token_is E LocalTokenNumber ''PCD_DATUM_TYPE_UINT16'' then scalar ''0x%04x'' 2
         else if token_is E LocalTokenNumber ''PCD_DATUM_TYPE_UINT32'' then scalar ''0x%08x'' 4
         else if token_is E LocalTokenNumber ''PCD_DATUM_TYPE_UINT64'' then scalar ''0x%016lx'' 8
         else ([], DataPtr, 0))"

text \<open>
  The value a SKU has instead.  A scalar is changed in a variable of 64 bits that starts with its value.
\<close>

definition DumpSkuPcdData :: "pcd_env \<Rightarrow> addr \<Rightarrow> u64 \<Rightarrow> u64 \<Rightarrow> addr \<Rightarrow> nat \<Rightarrow> out list option" where
  "DumpSkuPcdData E D SkuId LocalTokenNumber DataPtr DataSize =
     (let sku = Print '' (SKU - 0x%016lx)'' [Hex SkuId];
          show = (\<lambda>n lines. map_option
            (\<lambda>(buf, Result). if Result then [Print ''    Data        : '' []] @ lines buf @ [sku] else [])
            (CopySkuPcdData E D SkuId DataPtr DataSize (bytes_at (pmem E) DataPtr n)));
          scalar = (\<lambda>fmt n. show n (\<lambda>buf. [Print fmt [hxn (le_nat buf)]]))
      in if token_is E LocalTokenNumber ''PCD_DATUM_TYPE_POINTER''
         then (if \<not> copy_pool E DataSize then Some [] else show DataSize (map (\<lambda>b. Print ''%02x'' [hx b])))
         else if token_is E LocalTokenNumber ''PCD_DATUM_TYPE_UINT8'' then scalar ''0x%02x'' 1
         else if token_is E LocalTokenNumber ''PCD_DATUM_TYPE_UINT16'' then scalar ''0x%04x'' 2
         else if token_is E LocalTokenNumber ''PCD_DATUM_TYPE_UINT32'' then scalar ''0x%08x'' 4
         else if token_is E LocalTokenNumber ''PCD_DATUM_TYPE_UINT64'' then scalar ''0x%016lx'' 8
         else Some [])"

fun print_each :: "('a \<Rightarrow> out list option) \<Rightarrow> 'a list \<Rightarrow> out list option" where
  "print_each f [] = Some []"
| "print_each f (x # xs) = Option.bind (f x) (\<lambda>o1. map_option ((@) o1) (print_each f xs))"

definition SkuIds :: "pcd_env \<Rightarrow> addr \<Rightarrow> u64 list" where
  "SkuIds E D =
     (let SkuIdTable = entry E ''SKU_ID'' (D + db E D ''SkuIdTableOffset'')
      in map SkuIdTable [1..<unat (SkuIdTable 0) + 1])"

definition DumpAllSkuPcdData :: "pcd_env \<Rightarrow> addr \<Rightarrow> u64 \<Rightarrow> addr \<Rightarrow> nat \<Rightarrow> out list option" where
  "DumpAllSkuPcdData E D LocalTokenNumber DataPtr DataSize =
     print_each (\<lambda>SkuId. DumpSkuPcdData E D SkuId LocalTokenNumber DataPtr DataSize) (SkuIds E D)"

definition DumpPcdData :: "pcd_env \<Rightarrow> addr \<Rightarrow> nat \<Rightarrow> u64 \<Rightarrow> out list \<times> addr \<times> nat" where
  "DumpPcdData E D LocalTokenNumberTableIdx LocalTokenNumber =
     (let Offset = unat (LocalTokenNumber AND pconst E ''PCD_DATABASE_OFFSET_MASK'');
          Type = LocalTokenNumber AND PCD_TYPE_ALL_SET_WITHOUT_SKU E;
          HII = pconst E ''PCD_TYPE_HII''; STRING = pconst E ''PCD_TYPE_STRING'';
          StringTable = D + db E D ''StringTableOffset'';
          (os, Data) =
            (if Type = pconst E ''PCD_TYPE_DATA'' then ([], D + Offset)
             else if Type = STRING then ([], StringTable + unat (pfld E ''STRING_HEAD'' (D + Offset) ''''))
             else if Type = HII OR STRING \<or> Type = HII
             then (let f = pfld E ''VARIABLE_HEAD'' (D + Offset);
                       Guid = D + db E D ''GuidTableOffset'' + 16 * unat (f ''GuidTableIndex'')
                   in ([Print ''    VarName     : %s'' [Uni (name16 E (StringTable + unat (f ''StringIndex'')))],
                        Print ''    VarGuid     : %g'' [Ascii (bytes_at (pmem E) Guid 16)],
                        Print ''    Attributes  : 0x%08x'' [Hex (f ''Attributes'')],
                        Print ''    Property    : 0x%04x'' [Hex (f ''Property'')],
                        Print ''    DefaultValueOffset : 0x%04x'' [Hex (f ''DefaultValueOffset'')]],
                       if Type = HII OR STRING
                       then StringTable + unat (pfld E ''STRING_HEAD'' (D + unat (f ''DefaultValueOffset'')) '''')
                       else D + unat (f ''DefaultValueOffset'')))
             else if Type = pconst E ''PCD_TYPE_VPD''
             then (let vpd = pfld E ''VPD_HEAD'' (D + Offset) ''Offset''
                   in ([Print ''    VpdBaseAddr : 0x%08x'' [hx (PcdVpdBaseAddress E)],
                        Print ''    Offset      : 0x%08x'' [Hex vpd]],
                       unat (PcdVpdBaseAddress E + ucast vpd)))
             else ([], NULL))
      in if Data \<noteq> NULL
         then (let (o1, r) = DumpPcdRawData E D LocalTokenNumberTableIdx LocalTokenNumber Data in (os @ o1, r))
         else (os, NULL, 0))"

section \<open>The database\<close>

definition print_token :: "pcd_env \<Rightarrow> addr \<Rightarrow> nat \<Rightarrow> nat \<Rightarrow> out list option" where
  "print_token E D PeiCount Index =
     (let LocalTokenNumber = LocalToken E D Index;
          PcdNameTable = D + db E D ''PcdNameTableOffset'';
          StringTable = D + db E D ''StringTableOffset'';
          name = (\<lambda>F. pfld E ''PCD_NAME_INDEX'' (PcdNameTable + psize E ''PCD_NAME_INDEX'' * Index) F);
          text = (\<lambda>F. Print '' (%a)'' [Ascii (cstr (layouts E) (StringTable + unat (name F)))]);
          head = [Print ''  LocalToken[%3d]'' [hxn Index],
                  Print ''    TokenNumber          - 0x%08x'' [hxn (Index + 1 + PeiCount)],
                  Print ''    TokenValue           - 0x%08x'' [Hex LocalTokenNumber],
                  Print '' (%a) (%a)'' [Txt (PcdTypeMaskToString E LocalTokenNumber), Txt (PcdDataTypeToString E LocalTokenNumber)]]
            @ (if db E D ''PcdNameTableOffset'' \<noteq> 0
               then [Print ''    TokenSpaceCNameIndex - 0x%08x'' [Hex (name ''TokenSpaceCNameIndex'')],
                     text ''TokenSpaceCNameIndex'',
                     Print ''    PcdCNameIndex        - 0x%08x'' [Hex (name ''PcdCNameIndex'')],
                     text ''PcdCNameIndex'']
               else []);
          (os, DataPtr, DataSize) = DumpPcdData E D Index LocalTokenNumber
      in Option.bind (IsSkuPcd E D DataPtr DataSize)
           (\<lambda>sku. if sku
              then map_option (\<lambda>o2. head @ os @ o2) (DumpAllSkuPcdData E D LocalTokenNumber DataPtr DataSize)
              else Some (head @ os)))"

definition print_ex_token :: "pcd_env \<Rightarrow> addr \<Rightarrow> nat \<Rightarrow> out list" where
  "print_ex_token E D Index =
     (let f = pfld E ''DYNAMICEX_MAPPING'' (D + db E D ''ExMapTableOffset'' + psize E ''DYNAMICEX_MAPPING'' * Index);
          Guid = D + db E D ''GuidTableOffset'' + 16 * unat (f ''ExGuidIndex'')
      in [Print ''  ExToken[%3d]'' [hxn Index],
          Print ''    ExTokenNumber        - 0x%08x'' [Hex (f ''ExTokenNumber'')],
          Print ''    TokenNumber          - 0x%04x'' [Hex (f ''TokenNumber'')],
          Print ''    ExGuidIndex          - 0x%04x (%g)'' [Hex (f ''ExGuidIndex''), Ascii (bytes_at (pmem E) Guid 16)]])"

definition print_deltas :: "pcd_env \<Rightarrow> addr \<Rightarrow> out list option" where
  "print_deltas E D =
     (if db E D ''Length'' < db E D ''LengthForAllSkus''
      then map_option (case_sum (\<lambda>_ :: unit. []) id)
        (for_blocks E D
          (\<lambda>SkuDelta os.
             for_deltas E SkuDelta
               (\<lambda>DeltaData os. Inr (os
                  @ [Print ''    Delta.Offset  - 0x%06x'' [Hex (pfld E ''PCD_DATA_DELTA'' DeltaData ''Offset'')],
                     Print ''    Delta.Value   - 0x%02x'' [Hex (pfld E ''PCD_DATA_DELTA'' DeltaData ''Value'')]]))
               (os @ [Print ''  SkuId           - 0x%016lx'' [Hex (delta_SkuId E SkuDelta)],
                      Print ''    SkuIdCompared - 0x%016lx'' [Hex (pfld E ''PCD_DATABASE_SKU_DELTA'' SkuDelta ''SkuIdCompared'')],
                      Print ''    Length        - 0x%08x'' [hxn (delta_Length E SkuDelta)]]))
          [Print ''PCD_DATABASE_SKU_DELTA:'' []])
      else Some [])"

definition print_header :: "pcd_env \<Rightarrow> addr \<Rightarrow> nat \<Rightarrow> out list" where
  "print_header E D PcdDatabaseSize =
     (let f = pfld E ''PCD_DATABASE_INIT'' D in
      [Print ''(PcdDatabaseSize            - 0x%08x)'' [hxn PcdDatabaseSize],
       Print ''Signature                   - %g'' [Ascii (bytes_at (pmem E) D 16)],
       Print ''BuildVersion                - 0x%08x'' [Hex (f ''BuildVersion'')],
       Print ''Length                      - 0x%08x'' [Hex (f ''Length'')],
       Print ''SystemSkuId                 - 0x%016lx'' [Hex (f ''SystemSkuId'')],
       Print ''LengthForAllSkus            - 0x%08x'' [Hex (f ''LengthForAllSkus'')],
       Print ''UninitDataBaseSize          - 0x%08x'' [Hex (f ''UninitDataBaseSize'')],
       Print ''LocalTokenNumberTableOffset - 0x%08x'' [Hex (f ''LocalTokenNumberTableOffset'')],
       Print ''ExMapTableOffset            - 0x%08x'' [Hex (f ''ExMapTableOffset'')],
       Print ''GuidTableOffset             - 0x%08x'' [Hex (f ''GuidTableOffset'')],
       Print ''StringTableOffset           - 0x%08x'' [Hex (f ''StringTableOffset'')],
       Print ''SizeTableOffset             - 0x%08x'' [Hex (f ''SizeTableOffset'')],
       Print ''SkuIdTableOffset            - 0x%08x'' [Hex (f ''SkuIdTableOffset'')],
       Print ''PcdNameTableOffset          - 0x%08x'' [Hex (f ''PcdNameTableOffset'')],
       Print ''LocalTokenCount             - 0x%04x'' [Hex (f ''LocalTokenCount'')],
       Print ''ExTokenCount                - 0x%04x'' [Hex (f ''ExTokenCount'')],
       Print ''GuidTableCount              - 0x%04x'' [Hex (f ''GuidTableCount'')],
       Print '''' []])"

text \<open>\<open>PeiTokens\<close>: \<open>mPcdPeiLocalTokenCount\<close>, added to the token numbers of a DXE database.\<close>

definition DumpPcdDatabase :: "pcd_env \<Rightarrow> nat \<Rightarrow> addr \<Rightarrow> nat \<Rightarrow> bool \<Rightarrow> out list option" where
  "DumpPcdDatabase E PeiTokens D PcdDatabaseSize IsPei =
     (if bytes_at (pmem E) D 16 \<noteq> gPcdDataBaseSignatureGuid E
      then Some [Print ''PCD database signature error - %g'' [Ascii (bytes_at (pmem E) D 16)]]
      else
        (let skus = SkuIds E D;
             os = print_header E D PcdDatabaseSize
               @ [Print ''SkuIdTable: (Count - %d)'' [Hex (entry E ''SKU_ID'' (D + db E D ''SkuIdTableOffset'') 0)]]
               @ map (\<lambda>(Index, SkuId). Print ''  SkuId[%3d] - 0x%016lx'' [hxn Index, Hex SkuId])
                   (zip [1..<length skus + 1] skus)
               @ [Print '''' [], Print ''LocalToken:'' []];
             ex = [Print '''' [], Print ''ExToken:'' []]
               @ concat (map (print_ex_token E D) [0..<db E D ''ExTokenCount'']) @ [Print '''' []]
         in Option.bind (print_each (print_token E D (if IsPei then 0 else PeiTokens)) [0..<db E D ''LocalTokenCount''])
              (\<lambda>tokens. map_option (\<lambda>deltas. os @ tokens @ ex @ deltas) (print_deltas E D))))"

end
