(* ===== verification/Pcd_Nv.thy ===== *)
theory Pcd_Nv
  imports Pcd_Database
begin

text \<open>
  \<^verbatim>\<open>AppSrc/PcdDump/PcdDump.c\<close>: the buffer of the default contents of the variable store: a variable store
  for the default SKU, followed by blocks of differences for the other SKUs and stores.  Addresses are
  kept as the code keeps them, as offsets from the start \<open>N\<close> of the buffer.
\<close>

section \<open>The parts of the buffer\<close>

definition nv_Length :: "pcd_env \<Rightarrow> addr \<Rightarrow> nat" where
  "nv_Length E N = unat (pfld E ''PCD_NV_STORE_DEFAULT_BUFFER_HEADER'' N ''Length'')"

definition nv_signed :: "pcd_env \<Rightarrow> addr \<Rightarrow> bool" where
  "nv_signed E N \<longleftrightarrow>
     pfld E ''PCD_NV_STORE_DEFAULT_BUFFER_HEADER'' N ''Signature'' = pconst E ''PCD_NV_STORE_DEFAULT_BUFFER_SIGNATURE''"

definition default_data :: "pcd_env \<Rightarrow> addr \<Rightarrow> addr" where
  "default_data E N = N + psize E ''PCD_NV_STORE_DEFAULT_BUFFER_HEADER''"

definition HeaderSize :: "pcd_env \<Rightarrow> addr \<Rightarrow> nat" where
  "HeaderSize E PcdDefaultData = unat (pfld E ''PCD_DEFAULT_DATA'' PcdDefaultData ''HeaderSize'')"

definition DataSize_of :: "pcd_env \<Rightarrow> addr \<Rightarrow> nat" where
  "DataSize_of E PcdDefaultData = unat (pfld E ''PCD_DEFAULT_DATA'' PcdDefaultData ''DataSize'')"

definition store_offset :: "pcd_env \<Rightarrow> addr \<Rightarrow> nat" where
  "store_offset E N =
     ALIGN_VALUE (psize E ''PCD_NV_STORE_DEFAULT_BUFFER_HEADER'' + HeaderSize E (default_data E N)) 8"

definition GetVariableStoreHeaderFromNvStore :: "pcd_env \<Rightarrow> addr \<Rightarrow> addr" where
  "GetVariableStoreHeaderFromNvStore E N = (if \<not> nv_signed E N then NULL else N + store_offset E N)"

text \<open>The structure before each variable, by the signature of the store; \<open>None\<close>: no variables are read.\<close>

definition variable_header :: "pcd_env \<Rightarrow> addr \<Rightarrow> string option" where
  "variable_header E VariableStoreHeader =
     (let g = bytes_at (pmem E) VariableStoreHeader 16 in
      if g = guid_code (layouts E) ''gEfiVariableGuid'' then Some ''VARIABLE_HEADER''
      else if g = guid_code (layouts E) ''gEfiAuthenticatedVariableGuid'' then Some ''AUTHENTICATED_VARIABLE_HEADER''
      else None)"

definition first_variable :: "pcd_env \<Rightarrow> addr \<Rightarrow> nat" where
  "first_variable E N = ALIGN_VALUE (store_offset E N + psize E ''VARIABLE_STORE_HEADER'') 4"

definition next_variable :: "pcd_env \<Rightarrow> addr \<Rightarrow> string \<Rightarrow> nat \<Rightarrow> nat" where
  "next_variable E N H Offset =
     ALIGN_VALUE (Offset + psize E H + unat (pfld E H (N + Offset) ''NameSize'') + unat (pfld E H (N + Offset) ''DataSize'')) 4"

text \<open>The loop over the variables, with the offset behind the last one.\<close>

definition for_variables ::
  "pcd_env \<Rightarrow> addr \<Rightarrow> (string \<Rightarrow> nat \<Rightarrow> 's \<Rightarrow> 's option) \<Rightarrow> 's \<Rightarrow> ('s \<times> nat) option" where
  "for_variables E N body s =
     (case variable_header E (N + store_offset E N) of
        None \<Rightarrow> Some (s, first_variable E N)
      | Some H \<Rightarrow> map_option (case_sum (\<lambda>_ :: unit. (s, 0)) id)
          (walk (\<lambda>Offset. next_variable E N H Offset - Offset)
            (\<lambda>Offset (s, _). map_option (\<lambda>s'. Inr (s', next_variable E N H Offset)) (body H Offset s))
            (first_variable E N) (DataSize_of E (default_data E N)) (s, first_variable E N)))"

text \<open>The blocks of differences behind the variables.\<close>

definition GetSkuDataFromNvStore :: "pcd_env \<Rightarrow> addr \<Rightarrow> addr option" where
  "GetSkuDataFromNvStore E N =
     (if \<not> nv_signed E N then Some NULL
      else map_option (\<lambda>(_, Offset).
             if ALIGN_VALUE Offset 8 < nv_Length E N then N + ALIGN_VALUE Offset 8 else NULL)
           (for_variables E N (\<lambda>_ _ s. Some s) ()))"

definition block_start :: "pcd_env \<Rightarrow> addr \<Rightarrow> nat \<Rightarrow> nat" where
  "block_start E N Offset =
     ALIGN_VALUE (Offset + psize E ''PCD_DEFAULT_DATA.DataSize'' + HeaderSize E (N + Offset)) 4"

text \<open>How many differences the loop of a block runs over, up to the first at or behind its end.\<close>

definition block_count :: "pcd_env \<Rightarrow> addr \<Rightarrow> nat \<Rightarrow> nat" where
  "block_count E N Offset =
     (Offset + DataSize_of E (N + Offset) - block_start E N Offset + psize E ''PCD_DATA_DELTA'' - 1)
       div psize E ''PCD_DATA_DELTA''"

definition block_deltas :: "pcd_env \<Rightarrow> addr \<Rightarrow> nat \<Rightarrow> addr list" where
  "block_deltas E N Offset =
     map (\<lambda>i. N + block_start E N Offset + psize E ''PCD_DATA_DELTA'' * i) [0..<block_count E N Offset]"

definition next_block :: "pcd_env \<Rightarrow> addr \<Rightarrow> nat \<Rightarrow> nat" where
  "next_block E N Offset =
     ALIGN_VALUE (block_start E N Offset + psize E ''PCD_DATA_DELTA'' * block_count E N Offset) 8"

definition for_nv_blocks :: "pcd_env \<Rightarrow> addr \<Rightarrow> (nat \<Rightarrow> 's \<Rightarrow> 'e + 's) \<Rightarrow> nat \<Rightarrow> 's \<Rightarrow> ('e + 's) option" where
  "for_nv_blocks E N body Offset s =
     walk (\<lambda>Offset. next_block E N Offset - Offset) (\<lambda>Offset s. Some (body Offset s)) Offset (nv_Length E N) s"

definition nv_target :: "pcd_env \<Rightarrow> addr \<Rightarrow> addr \<Rightarrow> addr" where
  "nv_target E N DeltaData =
     GetVariableStoreHeaderFromNvStore E N + unat (pfld E ''PCD_DATA_DELTA'' DeltaData ''Offset'')"

definition nv_hits :: "pcd_env \<Rightarrow> addr \<Rightarrow> addr \<Rightarrow> nat \<Rightarrow> addr \<Rightarrow> bool" where
  "nv_hits E N DataPtr DataSize DeltaData \<longleftrightarrow>
     DataPtr \<le> nv_target E N DeltaData \<and> nv_target E N DeltaData < DataPtr + DataSize"

definition HasSkuData :: "pcd_env \<Rightarrow> addr \<Rightarrow> addr \<Rightarrow> nat \<Rightarrow> bool option" where
  "HasSkuData E N DataPtr DataSize =
     Option.bind (GetSkuDataFromNvStore E N)
       (\<lambda>PcdDefaultData.
          if PcdDefaultData = NULL then Some False
          else map_option (case_sum (\<lambda>_ :: unit. False) id)
            (for_nv_blocks E N
              (\<lambda>Offset Result. Inr (Result \<or> list_ex (nv_hits E N DataPtr DataSize) (block_deltas E N Offset)))
              (PcdDefaultData - N) False))"

section \<open>Printing\<close>

text \<open>The value of a variable with the differences of one block, and whether there are any.\<close>

definition nv_patch :: "pcd_env \<Rightarrow> addr \<Rightarrow> addr \<Rightarrow> nat \<Rightarrow> addr list \<Rightarrow> u8 list \<times> bool" where
  "nv_patch E N DataPtr DataSize ds =
     fold (\<lambda>DeltaData (buf, Result).
        if nv_hits E N DataPtr DataSize DeltaData
        then (buf[nv_target E N DeltaData - DataPtr := ucast (pfld E ''PCD_DATA_DELTA'' DeltaData ''Value'')], True)
        else (buf, Result)) ds (bytes_at (pmem E) DataPtr DataSize, False)"

definition DefaultInfo :: "pcd_env \<Rightarrow> addr \<Rightarrow> addr" where
  "DefaultInfo E PcdDefaultData = PcdDefaultData + offset (layouts E) ''PCD_DEFAULT_DATA'' ''DefaultInfo''"

definition DumpAllSkuData :: "pcd_env \<Rightarrow> addr \<Rightarrow> addr \<Rightarrow> nat \<Rightarrow> out list option" where
  "DumpAllSkuData E N DataPtr DataSize =
     Option.bind (GetSkuDataFromNvStore E N)
       (\<lambda>PcdDefaultData.
          if PcdDefaultData = NULL then Some []
          else map_option (case_sum id id)
            (for_nv_blocks E N
              (\<lambda>Offset os.
                 if \<not> copy_pool E DataSize then Inl os
                 else (let (buf, Result) = nv_patch E N DataPtr DataSize (block_deltas E N Offset);
                           info = pfld E ''PCD_DEFAULT_INFO'' (DefaultInfo E (N + Offset))
                       in Inr (os @ (if Result
                            then [Print ''    Data       - '' []] @ map (\<lambda>b. Print ''%02x'' [hx b]) buf
                              @ [Print '' (SKU:0x%016lx) (StoreId:0x%04x)'' [Hex (info ''SkuId''), Hex (info ''DefaultId'')],
                                 Print '''' []]
                            else []))))
              (PcdDefaultData - N) []))"

text \<open>\<open>DefaultInfo\<close> is not advanced: the first entry is printed for all of them.\<close>

definition print_default_data :: "pcd_env \<Rightarrow> addr \<Rightarrow> out list" where
  "print_default_data E PcdDefaultData =
     (let Count = unat (of_nat (HeaderSize E PcdDefaultData) - of_nat (psize E ''PCD_DEFAULT_DATA.HeaderSize'') :: u64)
                    div psize E ''PCD_DEFAULT_INFO'';
          info = pfld E ''PCD_DEFAULT_INFO'' (DefaultInfo E PcdDefaultData)
      in [Print ''PcdDefaultData:'' [],
          Print ''  DataSize                  - 0x%08x'' [hxn (DataSize_of E PcdDefaultData)],
          Print ''  HeaderSize                - 0x%08x'' [hxn (HeaderSize E PcdDefaultData)]]
        @ concat (map (\<lambda>Index.
            [Print ''  DefaultInfo[%d]:'' [hxn Index],
             Print ''    SkuId                   - 0x%016lx'' [Hex (info ''SkuId'')],
             Print ''    DefaultId               - 0x%04x'' [Hex (info ''DefaultId'')]]) [0..<Count]))"

definition print_variable :: "pcd_env \<Rightarrow> addr \<Rightarrow> string \<Rightarrow> nat \<Rightarrow> out list option" where
  "print_variable E N H Offset =
     (let f = pfld E H (N + Offset); Name = N + Offset + psize E H;
          Data = Name + unat (f ''NameSize''); DataSize = unat (f ''DataSize'');
          auth = H = ''AUTHENTICATED_VARIABLE_HEADER'';
          lines = [if auth then Print ''  VariableHeader: %x'' [hxn Offset] else Print ''  VariableHeader:'' [],
             Print ''    StartId    - 0x%04x'' [Hex (f ''StartId'')],
             Print ''    State      - 0x%02x'' [Hex (f ''State'')],
             Print ''    Attributes - 0x%08x'' [Hex (f ''Attributes'')]]
            @ (if auth
               then [Print ''  * MonotonicCount - 0x%016lx'' [Hex (f ''MonotonicCount'')],
                     Print ''  * TimeStamp      - %t'' [Ascii (bytes_at (pmem E) (N + Offset + offset (layouts E) H ''TimeStamp'') 16)],
                     Print ''  * PubKeyIndex    - 0x%08x'' [Hex (f ''PubKeyIndex'')]]
               else [])
            @ [Print ''    NameSize   - 0x%08x'' [Hex (f ''NameSize'')],
               Print ''    DataSize   - 0x%08x'' [Hex (f ''DataSize'')],
               Print ''    VendorGuid - %g'' [Ascii (bytes_at (pmem E) (N + Offset + offset (layouts E) H ''VendorGuid'') 16)],
               Print ''    VendorName - %s'' [Uni (name16 E Name)],
               Print ''    Data       - '' []]
            @ InternalDumpData_pcd E Data DataSize
      in Option.bind (HasSkuData E N Data DataSize)
           (\<lambda>HasDelta.
              if HasDelta
              then map_option (\<lambda>os. lines @ [Print '' (SKU:Default) (StoreId:Default)'' [], Print '''' []] @ os)
                     (DumpAllSkuData E N Data DataSize)
              else Some (lines @ [Print '''' []])))"

definition DumpNvStore :: "pcd_env \<Rightarrow> addr \<Rightarrow> nat \<Rightarrow> out list option" where
  "DumpNvStore E N NvStoreDefaultBufferSize =
     (let head = pfld E ''PCD_NV_STORE_DEFAULT_BUFFER_HEADER'' N;
          store = N + store_offset E N; st = pfld E ''VARIABLE_STORE_HEADER'' store;
          banner = [Print ''###########################'' [], Print ''# NV_STORE_DEFAULT_BUFFER #'' [],
                    Print ''###########################'' []]
      in if \<not> nv_signed E N
         then Some (banner @ [Print ''NV_STORE_DEFAULT_BUFFER database signature error - 0x%08x'' [Hex (head ''Signature'')]])
         else Option.bind
           (for_variables E N (\<lambda>H Offset os. map_option ((@) os) (print_variable E N H Offset)) [])
           (\<lambda>(vars, Offset).
              map_option
                (\<lambda>r. banner
                   @ [Print ''(NvStoreDefaultBufferSize   - 0x%08x)'' [hxn NvStoreDefaultBufferSize],
                      Print ''Signature                   - 0x%08x'' [Hex (head ''Signature'')],
                      Print ''Length                      - 0x%08x'' [Hex (head ''Length'')],
                      Print ''MaxLength                   - 0x%08x'' [Hex (head ''MaxLength'')]]
                   @ print_default_data E (default_data E N)
                   @ [Print ''VariableStoreHeader:'' [],
                      Print ''  Signature    - %g'' [Ascii (bytes_at (pmem E) store 16)],
                      Print ''  Size         - 0x%08x'' [Hex (st ''Size'')],
                      Print ''  Format       - 0x%02x'' [Hex (st ''Format'')],
                      Print ''  State        - 0x%02x'' [Hex (st ''State'')]]
                   @ (case variable_header E store of
                        None \<Rightarrow> []
                      | Some H \<Rightarrow> [if H = ''VARIABLE_HEADER'' then Print ''(Normal Variable)'' [] else Print ''(Auth Variable)'' []])
                   @ vars @ case_sum (\<lambda>_ :: unit. []) id r)
                (for_nv_blocks E N
                  (\<lambda>Offset os. Inr (os @ print_default_data E (N + Offset)
                     @ [Print ''PCD_DATA_DELTA:'' []]
                     @ concat (map (\<lambda>DeltaData.
                         [Print ''    Delta.Offset  - 0x%06x'' [Hex (pfld E ''PCD_DATA_DELTA'' DeltaData ''Offset'')],
                          Print ''    Delta.Value   - 0x%02x'' [Hex (pfld E ''PCD_DATA_DELTA'' DeltaData ''Value'')]])
                         (block_deltas E N Offset))))
                  (ALIGN_VALUE Offset 8) [])))"

end
