(* ===== verification/Pcd_Main.thy ===== *)
theory Pcd_Main
  imports Pcd_Nv Guid_Names
begin

text \<open>
  \<^verbatim>\<open>AppSrc/PcdDump/PcdDump.c\<close>: the sources of a database (HOB, file, firmware volume, protocol) and the
  command line.  A volume is read through its protocol or by walking the image at an address.  Files are read by
  \<^verbatim>\<open>AppSupport.c\<close>, whose functions are those of \<open>Support_File\<close>.
\<close>

section \<open>Sections and files\<close>

text \<open>The macros of \<^verbatim>\<open>PiFirmwareFile.h\<close>: a size of all ones in 24 bits refers to a longer header.\<close>

definition IS_SECTION2 :: "pcd_env \<Rightarrow> addr \<Rightarrow> bool" where
  "IS_SECTION2 E p \<longleftrightarrow> pfld E ''EFI_COMMON_SECTION_HEADER'' p ''Size'' = 0xFFFFFF"

definition section_size :: "pcd_env \<Rightarrow> addr \<Rightarrow> nat" where
  "section_size E p =
     (if IS_SECTION2 E p then unat (pfld E ''EFI_COMMON_SECTION_HEADER2'' p ''ExtendedSize'')
      else unat (pfld E ''EFI_COMMON_SECTION_HEADER'' p ''Size''))"

definition IS_FFS_FILE2 :: "pcd_env \<Rightarrow> addr \<Rightarrow> bool" where
  "IS_FFS_FILE2 E p \<longleftrightarrow>
     pfld E ''EFI_FFS_FILE_HEADER'' p ''Attributes'' AND pconst E ''FFS_ATTRIB_LARGE_FILE'' = pconst E ''FFS_ATTRIB_LARGE_FILE''"

definition ffs_size :: "pcd_env \<Rightarrow> addr \<Rightarrow> u32" where
  "ffs_size E p =
     ucast (if IS_FFS_FILE2 E p then pfld E ''EFI_FFS_FILE_HEADER2'' p ''ExtendedSize''
            else pfld E ''EFI_FFS_FILE_HEADER'' p ''Size'')"

text \<open>\<open>ALIGN_VALUE\<close> of a 32 bit number is computed in 32 bits.\<close>

definition align_32 :: "u32 \<Rightarrow> u32 \<Rightarrow> u32" where
  "align_32 v a = v + ((a - v) AND (a - 1))"

definition IsBufferErased :: "pcd_env \<Rightarrow> u8 \<Rightarrow> addr \<Rightarrow> nat \<Rightarrow> bool" where
  "IsBufferErased E ErasePolarity InBuffer BufferSize \<longleftrightarrow>
     list_all (\<lambda>b. b = (if ErasePolarity = 1 then 0xFF else 0)) (bytes_at (pmem E) InBuffer BufferSize)"

text \<open>The inner \<open>None\<close> is the answer that there is no such section.\<close>

definition GetSectionByType :: "pcd_env \<Rightarrow> addr \<Rightarrow> nat \<Rightarrow> u64 \<Rightarrow> nat \<Rightarrow> (addr \<times> nat) option option" where
  "GetSectionByType E SectionBuffer SectionBufferSize SectionType SectionInstance =
     map_option (case_sum Some (\<lambda>_. None))
       (walk (\<lambda>p. ALIGN_VALUE (section_size E p) 4)
         (\<lambda>SectionHeader Instance.
            Some (if pfld E ''EFI_COMMON_SECTION_HEADER'' SectionHeader ''Type'' = SectionType
                  then (if Instance = SectionInstance then Inl (SectionHeader, section_size E SectionHeader)
                        else Inr (Instance + 1))
                  else Inr Instance))
         SectionBuffer (SectionBuffer + SectionBufferSize) 0)"

definition is_volume :: "pcd_env \<Rightarrow> addr \<Rightarrow> bool" where
  "is_volume E p \<longleftrightarrow> pfld E ''EFI_FIRMWARE_VOLUME_HEADER'' p ''Signature'' = pconst E ''EFI_FVH_SIGNATURE''"

definition FvLength :: "pcd_env \<Rightarrow> addr \<Rightarrow> nat" where
  "FvLength E p = unat (pfld E ''EFI_FIRMWARE_VOLUME_HEADER'' p ''FvLength'')"

definition first_file :: "pcd_env \<Rightarrow> addr \<Rightarrow> addr" where
  "first_file E FvHeader =
     (let f = pfld E ''EFI_FIRMWARE_VOLUME_HEADER'' FvHeader;
          ext = FvHeader + unat (f ''ExtHeaderOffset'');
          FfsHeader = (if f ''ExtHeaderOffset'' \<noteq> 0
                       then ext + unat (pfld E ''EFI_FIRMWARE_VOLUME_EXT_HEADER'' ext ''ExtHeaderSize'')
                       else FvHeader + unat (f ''HeaderLength''))
      in FvHeader + ALIGN_VALUE (FfsHeader - FvHeader) 8)"

definition file_matches :: "pcd_env \<Rightarrow> u8 list \<Rightarrow> u64 \<Rightarrow> addr \<Rightarrow> bool" where
  "file_matches E FileName Type p \<longleftrightarrow>
     bytes_at (pmem E) (p + offset (layouts E) ''EFI_FFS_FILE_HEADER'' ''Name'') 16 = FileName
     \<and> (Type = pconst E ''EFI_FV_FILETYPE_ALL'' \<or> pfld E ''EFI_FFS_FILE_HEADER'' p ''Type'' = Type)"

text \<open>The files of one volume: \<open>Inl None\<close> is the \<open>break\<close> at free space, \<open>Inl (Some p)\<close> a file found.\<close>

definition walk_files ::
  "pcd_env \<Rightarrow> u8 list \<Rightarrow> u64 \<Rightarrow> addr \<Rightarrow> nat \<Rightarrow> (addr option + unit) option" where
  "walk_files E FileName Type FvHeader FvSize =
     walk (\<lambda>p. unat (align_32 (ffs_size E p) 8))
       (\<lambda>FfsHeader s.
          (let TestLength = min (FvHeader + FvSize - FfsHeader) (psize E ''EFI_FFS_FILE_HEADER'')
           in Some (if IsBufferErased E 1 FfsHeader TestLength then Inl None
                    else if file_matches E FileName Type FfsHeader then Inl (Some FfsHeader) else Inr s)))
       (first_file E FvHeader) (FvHeader + FvSize - 1) ()"

definition GetFfsByName :: "pcd_env \<Rightarrow> addr \<Rightarrow> nat \<Rightarrow> u8 list \<Rightarrow> u64 \<Rightarrow> (addr \<times> u32) option option" where
  "GetFfsByName E FdStart FdSize FileName Type =
     map_option (case_sum (map_option (\<lambda>p. (p, ffs_size E p))) (\<lambda>_. None))
       (walk (\<lambda>p. if is_volume E p then FvLength E p else 0x1000)
         (\<lambda>FvHeader s.
            if \<not> is_volume E FvHeader then Some (Inr s)
            else if FdStart + FdSize - FvHeader < FvLength E FvHeader then Some (Inl None)
            else map_option (case_sum (\<lambda>r. case r of None \<Rightarrow> Inr s | Some p \<Rightarrow> Inl (Some p)) Inr)
                   (walk_files E FileName Type FvHeader (FvLength E FvHeader)))
         FdStart (FdStart + FdSize - 1) ())"

section \<open>The database of a driver\<close>

definition IsDataPcdDatabase :: "pcd_env \<Rightarrow> addr \<Rightarrow> nat \<Rightarrow> bool" where
  "IsDataPcdDatabase E Data DataSize \<longleftrightarrow>
     16 \<le> DataSize \<and> bytes_at (pmem E) Data 16 = gPcdDataBaseSignatureGuid E"

text \<open>The data of a raw section; the size is a difference of unsigned numbers.\<close>

definition raw_data :: "pcd_env \<Rightarrow> addr \<times> nat \<Rightarrow> addr \<times> nat" where
  "raw_data E = (\<lambda>(SectionData, SectionDataSize).
     (let SectionHeaderSize = psize E (if IS_SECTION2 E SectionData then ''EFI_RAW_SECTION2'' else ''EFI_RAW_SECTION'')
      in (SectionData + SectionHeaderSize, unat (of_nat SectionDataSize - of_nat SectionHeaderSize :: u64))))"

text \<open>The loop over the instances; every one is searched for from the start of the file.\<close>

partial_function (option) raw_instances :: "pcd_env \<Rightarrow> addr \<Rightarrow> nat \<Rightarrow> nat \<Rightarrow> (addr \<times> nat) option option" where
  "raw_instances E FfsData FfsDataSize Instance =
     Option.bind (GetSectionByType E FfsData FfsDataSize (pconst E ''EFI_SECTION_RAW'') Instance)
       (\<lambda>r. case r of None \<Rightarrow> Some None
          | Some sec \<Rightarrow>
              if IsDataPcdDatabase E (fst (raw_data E sec)) (snd (raw_data E sec)) then Some (Some (raw_data E sec))
              else raw_instances E FfsData FfsDataSize (Instance + 1))"

text \<open>The inner \<open>None\<close> is \<^verbatim>\<open>EFI_NOT_FOUND\<close>.\<close>

definition GetImagePcdDbFromAddress :: "pcd_env \<Rightarrow> u8 list \<Rightarrow> addr \<Rightarrow> (addr \<times> nat) option option" where
  "GetImagePcdDbFromAddress E ImageGuid FvAddress =
     (if \<not> is_volume E FvAddress then Some None
      else Option.bind (GetFfsByName E FvAddress (FvLength E FvAddress) ImageGuid (pconst E ''EFI_FV_FILETYPE_ALL''))
        (\<lambda>r. case r of None \<Rightarrow> Some None
           | Some (FfsData, FfsDataSize) \<Rightarrow>
               (let FileHeaderSize = psize E (if IS_FFS_FILE2 E FfsData then ''EFI_FFS_FILE_HEADER2'' else ''EFI_FFS_FILE_HEADER'')
                in raw_instances E (FfsData + FileHeaderSize) (unat (FfsDataSize - of_nat FileHeaderSize)) 0)))"

text \<open>The firmware volumes behind the protocol, and the handles that have it.\<close>

record fv_protocol =
  fv_ReadFile :: "u8 list \<Rightarrow> efi_status"
  fv_ReadSection :: "u8 list \<Rightarrow> nat \<Rightarrow> efi_status \<times> addr \<times> nat"

record fv_env =
  LocateHandleBuffer :: efi_status
  HandleBuffer :: "fv_protocol list"

fun first_readable :: "u8 list \<Rightarrow> fv_protocol list \<Rightarrow> efi_status \<Rightarrow> efi_status \<times> fv_protocol option" where
  "first_readable ImageGuid [] Status = (Status, None)"
| "first_readable ImageGuid (v # vs) Status =
     (if fv_ReadFile v ImageGuid = EFI_SUCCESS then (EFI_SUCCESS, Some v)
      else first_readable ImageGuid vs (fv_ReadFile v ImageGuid))"

definition LocateFvInstanceWithPcdImage :: "fv_env \<Rightarrow> u8 list \<Rightarrow> efi_status \<times> fv_protocol option" where
  "LocateFvInstanceWithPcdImage V ImageGuid =
     (if EFI_ERROR (LocateHandleBuffer V) then (LocateHandleBuffer V, None)
      else first_readable ImageGuid (HandleBuffer V) (LocateHandleBuffer V))"

text \<open>\<open>None\<close>: the loop does not end.\<close>

partial_function (option) read_sections ::
  "pcd_env \<Rightarrow> u8 list \<Rightarrow> fv_protocol \<Rightarrow> nat \<Rightarrow> (addr \<times> nat) option option" where
  "read_sections E ImageGuid FwVol Instance =
     (let (Status, Buffer, Size) = fv_ReadSection FwVol ImageGuid Instance in
      if EFI_ERROR Status then Some None
      else if IsDataPcdDatabase E Buffer Size then Some (Some (Buffer, Size))
      else if Status = EFI_SUCCESS then read_sections E ImageGuid FwVol (Instance + 1) else Some None)"

abbreviation (input) pcd_ABORTED :: efi_status where
  "pcd_ABORTED \<equiv> EFI_OTHER_ERROR 21"

text \<open>
  A status of success without a volume (no handle at all) leaves the pointer to the volume unset.
\<close>

definition GetImagePcdDb :: "pcd_env \<Rightarrow> fv_env \<Rightarrow> u8 list \<Rightarrow> (efi_status + addr \<times> nat) option" where
  "GetImagePcdDb E V ImageGuid =
     (case LocateFvInstanceWithPcdImage V ImageGuid of
        (Status, FwVol) \<Rightarrow>
          if EFI_ERROR Status then Some (Inl pcd_ABORTED)
          else if Status \<noteq> EFI_SUCCESS then Some (Inl EFI_NOT_FOUND)
          else case FwVol of None \<Rightarrow> None
             | Some v \<Rightarrow> map_option (\<lambda>r. case r of None \<Rightarrow> Inl EFI_NOT_FOUND | Some d \<Rightarrow> Inr d)
                  (read_sections E ImageGuid v 0))"


section \<open>The PCD protocols\<close>

text \<open>
  A token space is a GUID, none for the local tokens.  \<open>get_value\<close>: what the function for the type
  answers; \<open>get_info\<close>: what is written to the structure, \<open>None\<close> where the call fails and leaves it.
\<close>

datatype pcd_type = EFI_PCD_TYPE_8 | EFI_PCD_TYPE_16 | EFI_PCD_TYPE_32 | EFI_PCD_TYPE_64 | EFI_PCD_TYPE_BOOL
  | EFI_PCD_TYPE_PTR | PCD_TYPE_OTHER

record pcd_info =
  PcdType :: pcd_type
  PcdSize :: nat
  PcdName :: "u8 list option"

record pcd_protocols =
  LocatePiPcd :: efi_status
  LocatePiPcdInfo :: efi_status
  LocatePcd :: efi_status
  LocatePcdInfo :: efi_status
  get_value :: "pcd_type \<Rightarrow> u8 list option \<Rightarrow> u64 \<Rightarrow> u64"
  GetPtr :: "u8 list option \<Rightarrow> u64 \<Rightarrow> addr"
  GetNextToken :: "u8 list option \<Rightarrow> u64 \<Rightarrow> efi_status \<times> u64"
  GetNextTokenSpace :: "u8 list option \<Rightarrow> efi_status \<times> u8 list option"
  get_info :: "u8 list option \<Rightarrow> u64 \<Rightarrow> pcd_info option"

definition GetPcdTypeString :: "pcd_type \<Rightarrow> string" where
  "GetPcdTypeString t = (case t of
       EFI_PCD_TYPE_8 \<Rightarrow> ''UINT8'' | EFI_PCD_TYPE_16 \<Rightarrow> ''UINT16'' | EFI_PCD_TYPE_32 \<Rightarrow> ''UINT32''
     | EFI_PCD_TYPE_64 \<Rightarrow> ''UINT64'' | EFI_PCD_TYPE_BOOL \<Rightarrow> ''BOOLEAN'' | EFI_PCD_TYPE_PTR \<Rightarrow> ''POINTER''
     | PCD_TYPE_OTHER \<Rightarrow> ''<UNKNOWN>'')"

definition DumpPcdInfo ::
  "pcd_env \<Rightarrow> pcd_protocols \<Rightarrow> nat \<Rightarrow> u8 list option \<Rightarrow> u64 \<Rightarrow> pcd_info \<Rightarrow> out list" where
  "DumpPcdInfo E Q PcdInfoIndex TokenSpace TokenNumber PcdInfo =
     (let v = get_value Q (PcdType PcdInfo) TokenSpace TokenNumber in
      [Print (if TokenSpace = None then ''  LocalToken[%3d]'' else ''  ExToken[%3d]'') [hxn PcdInfoIndex],
       Print ''    TokenNumber          - 0x%08x'' [Hex TokenNumber],
       Print ''    TokenType            - %s'' [Txt (GetPcdTypeString (PcdType PcdInfo))]]
      @ (case TokenSpace of None \<Rightarrow> [] | Some g \<Rightarrow> [Print ''    TokenSpace           - %g'' [Ascii g]])
      @ (case PcdName PcdInfo of None \<Rightarrow> [] | Some n \<Rightarrow> [Print ''    PcdName              - %a'' [Ascii n]])
      @ (case PcdType PcdInfo of
           EFI_PCD_TYPE_8 \<Rightarrow> [Print ''    Data        : 0x%02x'' [hx (ucast v :: u8)]]
         | EFI_PCD_TYPE_16 \<Rightarrow> [Print ''    Data        : 0x%04x'' [hx (ucast v :: u16)]]
         | EFI_PCD_TYPE_32 \<Rightarrow> [Print ''    Data        : 0x%08x'' [hx (ucast v :: u32)]]
         | EFI_PCD_TYPE_64 \<Rightarrow> [Print ''    Data        : 0x%016lx'' [Hex v]]
         | EFI_PCD_TYPE_BOOL \<Rightarrow> [Print ''    Data        : %a'' [Txt (if v \<noteq> 0 then ''TRUE'' else ''FALSE'')]]
         | EFI_PCD_TYPE_PTR \<Rightarrow>
             [Print ''    DataSize    : %d'' [hxn (PcdSize PcdInfo)], Print ''    Data        : '' []]
             @ InternalDumpData_pcd E (GetPtr Q TokenSpace TokenNumber) (PcdSize PcdInfo) @ [Print '''' []]
         | PCD_TYPE_OTHER \<Rightarrow> []))"

text \<open>
  The loop over the tokens of one space.  The state is the index, the structure the calls write to, and the
  lines; \<open>None\<close>: the protocol never ends the enumeration.
\<close>

partial_function (option) tokens_loop ::
  "pcd_env \<Rightarrow> pcd_protocols \<Rightarrow> u8 list option \<Rightarrow> u64 \<Rightarrow> nat \<Rightarrow> pcd_info \<Rightarrow> out list \<Rightarrow> (nat \<times> pcd_info \<times> out list) option"
where
  "tokens_loop E Q TokenSpace TokenNumber PcdInfoIndex PcdInfo os =
     (let (Status, TokenNumber) = GetNextToken Q TokenSpace TokenNumber in
      if \<not> EFI_ERROR Status \<and> TokenNumber \<noteq> 0
      then (let PcdInfo = (case get_info Q TokenSpace TokenNumber of None \<Rightarrow> PcdInfo | Some i \<Rightarrow> i)
            in tokens_loop E Q TokenSpace TokenNumber (PcdInfoIndex + 1) PcdInfo
                 (os @ DumpPcdInfo E Q PcdInfoIndex TokenSpace TokenNumber PcdInfo))
      else Some (PcdInfoIndex, PcdInfo, os))"

partial_function (option) spaces_loop ::
  "pcd_env \<Rightarrow> pcd_protocols \<Rightarrow> u8 list option \<Rightarrow> nat \<Rightarrow> pcd_info \<Rightarrow> out list \<Rightarrow> out list option"
where
  "spaces_loop E Q TokenSpace PcdInfoIndex PcdInfo os =
     Option.bind
       (tokens_loop E Q TokenSpace 0 PcdInfoIndex PcdInfo
         (os @ (if TokenSpace = None then [Print ''LocalToken:'' []] else [])))
       (\<lambda>(PcdInfoIndex, PcdInfo, os).
          let PcdInfoIndex = (if TokenSpace = None then 0 else PcdInfoIndex);
              os = os @ (if TokenSpace = None then [Print ''ExToken:'' []] else []);
              (Status, TokenSpace) = GetNextTokenSpace Q TokenSpace
          in if \<not> EFI_ERROR Status \<and> TokenSpace \<noteq> None then spaces_loop E Q TokenSpace PcdInfoIndex PcdInfo os
             else Some os)"

definition DumpDxePcdProtocolInfo :: "pcd_env \<Rightarrow> pcd_protocols \<Rightarrow> out list option" where
  "DumpDxePcdProtocolInfo E Q =
     (if EFI_ERROR (LocatePiPcd Q) then Some [Print ''PI PCD protocol - %r'' [Sts (LocatePiPcd Q)]]
      else if EFI_ERROR (LocatePiPcdInfo Q) then Some [Print ''PI PCD info protocol - %r'' [Sts (LocatePiPcdInfo Q)]]
      else if EFI_ERROR (LocatePcd Q) then Some [Print ''PCD protocol - %r'' [Sts (LocatePcd Q)]]
      else if EFI_ERROR (LocatePcdInfo Q) then Some [Print ''PCD info protocol - %r'' [Sts (LocatePcdInfo Q)]]
      else spaces_loop E Q None 0 \<lparr>PcdType = PCD_TYPE_OTHER, PcdSize = 0, PcdName = None\<rparr>
        [Print ''####################'' [], Print ''# DXE PCD Protocol #'' [], Print ''####################'' []])"

section \<open>Databases\<close>

text \<open>
  \<open>hob\<close>: address and size of the data of the first HOB with the GUID of the PEI database, as
  \<^verbatim>\<open>GetFirstGuidHob\<close> finds it.
\<close>

record pcd_world =
  env :: pcd_env
  hob :: "(addr \<times> u16) option"
  volumes :: fv_env
  protocols :: pcd_protocols
  files :: file_system
  GetArg :: "efi_status \<times> char16 list list"
  StrHexToUintn :: "char16 list \<Rightarrow> nat"

definition mPcdDxeDriverGuid :: "u8 list" where
  "mPcdDxeDriverGuid = [0x57, 0x72, 0xCF, 0x80, 0xAB, 0x87, 0xF9, 0x47, 0xA3, 0xFE, 0xD5, 0x0B, 0x76, 0xD8, 0x95, 0x41]"

definition mPcdPeiDriverGuid :: "u8 list" where
  "mPcdPeiDriverGuid = [0x4F, 0xDA, 0x3A, 0x9B, 0x56, 0xAE, 0x24, 0x4C, 0x8D, 0xEA, 0xF0, 0x3B, 0x75, 0x58, 0xAE, 0x50]"

definition DumpPeiPcdHob :: "pcd_world \<Rightarrow> nat \<Rightarrow> out list option" where
  "DumpPeiPcdHob W PeiTokens =
     (let banner = [Print ''###############'' [], Print ''# PEI PCD HOB #'' [], Print ''###############'' []]
      in case hob W of
           None \<Rightarrow> Some (banner @ [Print ''PcdDataBaseHob - %r'' [Sts EFI_NOT_FOUND]])
         | Some (PeiPcdHob, Size) \<Rightarrow> map_option ((@) banner) (DumpPcdDatabase (env W) PeiTokens PeiPcdHob (unat Size) True))"

definition GetPcdPeiLocalTokenCount :: "pcd_world \<Rightarrow> nat" where
  "GetPcdPeiLocalTokenCount W = (case hob W of None \<Rightarrow> 0 | Some (PeiPcdHob, _) \<Rightarrow> db (env W) PeiPcdHob ''LocalTokenCount'')"

text \<open>The memory once a file has been read into its pool.\<close>

definition with_file :: "pcd_env \<Rightarrow> file_buffer \<Rightarrow> pcd_env" where
  "with_file E b = E\<lparr>pmem := store_at (pmem E) (fb_Buffer b) (fb_pool b)\<rparr>"

text \<open>\<open>None\<close> also stands for a read that reports success and leaves the pointer unset (no memory).\<close>

definition DumpPcdBinary ::
  "pcd_world \<Rightarrow> nat \<Rightarrow> char16 list \<Rightarrow> bool \<Rightarrow> (out list \<times> file_event list) option" where
  "DumpPcdBinary W PeiTokens FileName IsPei =
     (let banner = [Print ''#######################'' [], Print ''# PCD Database Binary #'' [],
                    Print ''#######################'' []]
      in Option.bind (ReadFileToBuffer_app (files W) (Some FileName) [])
        (\<lambda>(Status, f, os, ops).
           if EFI_ERROR Status then Some (banner @ os @ [Print ''File (%s) - %r'' [Uni FileName, Sts Status]], ops)
           else case f of None \<Rightarrow> None
             | Some (_, b) \<Rightarrow>
                 map_option (\<lambda>o1. (banner @ os @ o1, ops @ [EFree (fb_Buffer b)]))
                   (DumpPcdDatabase (with_file (env W) b) PeiTokens (fb_Buffer b) (fb_BufferSize b) IsPei)))"

definition DumpImagePcdDb :: "pcd_world \<Rightarrow> nat \<Rightarrow> bool \<Rightarrow> addr \<Rightarrow> out list option" where
  "DumpImagePcdDb W PeiTokens IsPei FvAddress =
     (let g = (if IsPei then mPcdPeiDriverGuid else mPcdDxeDriverGuid);
          banner = [Print ''########################'' [],
                    Print (if IsPei then ''# Image PCD PEI Binary #'' else ''# Image PCD DXE Binary #'') [],
                    Print ''########################'' []];
          missing = [Print (if IsPei then ''PcdPei section not found in FV.'' else ''PcdDxe section not found in FV.'') []]
      in Option.bind
        (if FvAddress \<noteq> 0 then GetImagePcdDbFromAddress (env W) g FvAddress
         else map_option (case_sum (\<lambda>_. None) Some) (GetImagePcdDb (env W) (volumes W) g))
        (\<lambda>r. case r of
             None \<Rightarrow> Some (banner @ missing)
           | Some (Data, DataSize) \<Rightarrow> map_option ((@) banner) (DumpPcdDatabase (env W) PeiTokens Data DataSize IsPei)))"

text \<open>Every byte position of the file may start a store.  A file of at most 4 bytes is not freed.\<close>

definition DumpNvStoreFromVpd :: "pcd_world \<Rightarrow> char16 list \<Rightarrow> (out list \<times> file_event list) option" where
  "DumpNvStoreFromVpd W FileName =
     Option.bind (ReadFileToBuffer_app (files W) (Some FileName) [])
       (\<lambda>(Status, f, os, ops).
          if EFI_ERROR Status then Some (os @ [Print ''File (%s) - %r'' [Uni FileName, Sts Status]], ops)
          else case f of None \<Rightarrow> None
            | Some (_, b) \<Rightarrow>
                if fb_BufferSize b \<le> 4 then Some (os @ [Print ''Invalid File'' [Uni FileName]], ops)
                else (let E = with_file (env W) b in
                  map_option (\<lambda>o1. (os @ o1, ops @ [EFree (fb_Buffer b)]))
                    (print_each (\<lambda>N. DumpNvStore E N (nv_Length E N))
                      (filter (nv_signed E) (map ((+) (fb_Buffer b)) [0..<fb_BufferSize b - 4])))))"

section \<open>The command line\<close>

definition PrintUsage_pcd :: "out list" where
  "PrintUsage_pcd =
     [Print ''PcdDump:  usage'' [],
      Print ''  PcdDump -DB(PEI) [FvAddress]'' [],
      Print ''  PcdDump -DB(DxE)'' [],
      Print ''  PcdDump -HOB'' [],
      Print ''  PcdDump -PROTOCOL'' [],
      Print ''  PcdDump -FD <FdFile>'' [],
      Print ''  PcdDump -BIN(PEI) <PeiPcdDatabaseFile>'' [],
      Print ''  PcdDump -BIN(DXE) <DxePcdDatabaseFile>'' [],
      Print ''  PcdDump -BIN(NvStore) <VpdDatabaseFile>'' [],
      Print ''Parameter:'' [],
      Print ''  -DB:       Dump PcdDatabase file in current image.'' [],
      Print ''  -HOB:      Dump PEI Hob based PcdDatabase'' [],
      Print ''  -PROTOCOL: Dump PCD information based upon protocol.'' [],
      Print ''  -FD:       Dump PDB in the input FD file.'' [],
      Print ''  -BIN:      Dump PDB in the input database binary file, such as:'' [],
      Print ''             PEI: IA32/MdeModulePkg/Universal/PCD/Pei/Pcd/OUTPUT/PEIPcdDataBase.raw'' [],
      Print ''             DXE: X64/MdeModulePkg/Universal/PCD/Dxe/Pcd/OUTPUT/DXEPcdDataBase.raw'' [],
      Print ''             VPD: FV/8C3D856A-9BE6-468E-850A-24F7A8D38E08.bin'' []]"

definition is_option :: "char16 list \<Rightarrow> string \<Rightarrow> bool" where
  "is_option arg s \<longleftrightarrow> arg = map of_char s"

text \<open>
  The lines, what happens to files and their buffers, and the status.  Options with a file are recognised only with
  exactly one argument.
\<close>

definition PcdDumpEntrypoint :: "pcd_world \<Rightarrow> (out list \<times> file_event list \<times> efi_status) option" where
  "PcdDumpEntrypoint W =
     (let (Status, Argv) = GetArg W; Argc = length Argv;
          Tokens = GetPcdPeiLocalTokenCount W;
          opt = (\<lambda>s. is_option (Argv ! 1) s); file = Argc = 3;
          printed = map_option (\<lambda>os. (os, [], EFI_SUCCESS));
          ran = map_option (\<lambda>(os, ops). (os, ops, EFI_SUCCESS))
      in if EFI_ERROR Status then Some ([Print ''Please use UEFI SHELL to run this application!'' []], [], Status)
         else if Argc < 2 then Some (PrintUsage_pcd, [], EFI_INVALID_PARAMETER)
         else if opt ''-HOB'' then printed (DumpPeiPcdHob W Tokens)
         else if opt ''-PROTOCOL'' then printed (DumpDxePcdProtocolInfo (env W) (protocols W))
         else if opt ''-BIN(PEI)'' \<and> file then ran (DumpPcdBinary W Tokens (Argv ! 2) True)
         else if opt ''-BIN(DXE)'' \<and> file then ran (DumpPcdBinary W Tokens (Argv ! 2) False)
         else if opt ''-DB(PEI)'' then printed (DumpImagePcdDb W Tokens True (if file then StrHexToUintn W (Argv ! 2) else 0))
         else if opt ''-DB(DXE)'' then printed (DumpImagePcdDb W Tokens False 0)
         else if opt ''-BIN(NvStore)'' \<and> file then ran (DumpNvStoreFromVpd W (Argv ! 2))
         else Some (Print ''Unknown Option - %S'' [Uni (Argv ! 1)] # PrintUsage_pcd, [], EFI_INVALID_PARAMETER))"

end
