(* ===== verification/Pcd_Props.thy ===== *)
theory Pcd_Props
  imports Pcd_Main
begin

text \<open>
  PcdDump: what the differences of a SKU do to a value, which sizes a pointer has, how the search for a database
  in a volume ends, and that the dump of a variable store ends.
\<close>

section \<open>Loops over arrays and chains\<close>

lemma chain_array:
  assumes "\<And>i. i < n \<Longrightarrow> p + sz * i < e" and "e \<le> p + sz * n"
  shows "chain (\<lambda>_. sz) e p (map (\<lambda>i. p + sz * i) [0..<n])"
  using assms
proof (induction n arbitrary: p)
  case 0
  then show ?case by simp
next
  case (Suc n)
  have "chain (\<lambda>_. sz) e (p + sz) (map (\<lambda>i. p + sz + sz * i) [0..<n])"
  proof (rule Suc.IH)
    fix i assume "i < n"
    then show "p + sz + sz * i < e" using Suc.prems(1) [of "Suc i"] by (simp add: algebra_simps)
  next
    show "e \<le> p + sz + sz * n" using Suc.prems(2) by (simp add: algebra_simps)
  qed
  moreover have "map (\<lambda>i. p + sz * i) [0..<Suc n] = p # map (\<lambda>i. p + sz + sz * i) [0..<n]"
    unfolding upt_conv_Cons [OF zero_less_Suc] map_Suc_upt [symmetric] by (simp add: algebra_simps)
  ultimately show ?case using Suc.prems(1) [of 0] by simp
qed

lemma walk_array:
  assumes "0 < sz"
  shows "walk (\<lambda>_. sz) body p e s = visit body (map (\<lambda>i. p + sz * i) [0..<(e - p + sz - 1) div sz]) s"
proof (rule walk_chain [OF chain_array])
  let ?n = "(e - p + sz - 1) div sz"
  fix i assume "i < ?n"
  then have "Suc i * sz \<le> e - p + sz - 1" using less_eq_div_iff_mult_less_eq [OF assms] by (metis Suc_leI)
  with assms show "p + sz * i < e" by (simp add: algebra_simps)
next
  let ?n = "(e - p + sz - 1) div sz"
  have "e - p + sz - 1 < Suc ?n * sz" using assms by (metis dividend_less_div_times mult_Suc add.commute)
  with assms show "e \<le> p + sz * ?n" by (simp add: algebra_simps)
qed

text \<open>
  A search steps from structure to structure until it reaches the end, a structure it looks for, or one of
  length zero.  \<open>seek\<close> is where it stands then, \<open>passed\<close> what it has passed if it looks for nothing.
\<close>

function seek :: "(addr \<Rightarrow> nat) \<Rightarrow> (addr \<Rightarrow> bool) \<Rightarrow> addr \<Rightarrow> addr \<Rightarrow> addr" where
  "seek len stop e p = (if p < e \<and> \<not> stop p \<and> 0 < len p then seek len stop e (p + len p) else p)"
  by pat_completeness auto
termination by (relation "measure (\<lambda>(len, stop, e, p). e - p)") auto

function passed :: "(addr \<Rightarrow> nat) \<Rightarrow> addr \<Rightarrow> addr \<Rightarrow> addr list" where
  "passed len e p = (if p < e \<and> 0 < len p then p # passed len e (p + len p) else [])"
  by pat_completeness auto
termination by (relation "measure (\<lambda>(len, e, p). e - p)") auto

declare seek.simps [simp del] passed.simps [simp del]

lemma seek_stands: "seek len stop e p < e \<Longrightarrow> stop (seek len stop e p) \<or> len (seek len stop e p) = 0"
proof (induction len stop e p rule: seek.induct)
  case (1 len stop e p)
  then show ?case by (subst (asm) (2) seek.simps, subst (1 2) seek.simps) (auto split: if_splits)
qed

lemma seek_find:
  "seek len stop e p = (case find stop (passed len e p) of Some q \<Rightarrow> q | None \<Rightarrow> seek len (\<lambda>_. False) e p)"
proof (induction len e p rule: passed.induct)
  case (1 len e p)
  then show ?case
    by (subst passed.simps, subst (1 2) seek.simps) (auto split: option.split)
qed

lemma seek_reaches: "p < e \<Longrightarrow> \<not> stop p \<Longrightarrow> 0 < len p \<Longrightarrow> seek len stop e p = seek len stop e (p + len p)"
  "\<not> (p < e \<and> \<not> stop p \<and> 0 < len p) \<Longrightarrow> seek len stop e p = p"
  using seek.simps [of len stop e p] by auto

text \<open>A loop that leaves at what it looks for and otherwise only goes on.\<close>

lemma walk_seek:
  assumes "\<And>q s. body q s = Some (if stop q then Inl (found q) else Inr s)"
  shows "walk len body p e s =
    (let q = seek len stop e p in
     if e \<le> q then Some (Inr s) else if stop q then Some (Inl (found q)) else None)"
  using assms
proof (induction len stop e p rule: seek.induct)
  case (1 len stop e p)
  show ?case
  proof (cases "p < e \<and> \<not> stop p \<and> 0 < len p")
    case True
    then have "p < e" "\<not> stop p" "0 < len p" by auto
    with 1 show ?thesis by (simp add: walk_step seek_reaches)
  next
    case False
    then have here: "seek len stop e p = p" by (rule seek_reaches)
    show ?thesis
    proof (cases "stop p \<and> p < e")
      case True
      with here 1(2) show ?thesis by (simp add: walk_step)
    next
      case zero: False
      have "walk len body p e s = None" if "p < e"
      proof (rule walk_stuck)
        show "len p = 0" "p < e" using False zero that by auto
        fix s r assume "body p s = Some r"
        then show "\<exists>s'. r = Inr s'" using 1(2) [of p s] zero that by auto
      qed
      with here zero show ?thesis by (cases "p < e") (auto simp: Let_def)
    qed
  qed
qed

text \<open>A walk goes on behind the structures it passes.\<close>

lemma passed_reaches: "p < e \<Longrightarrow> 0 < len p \<Longrightarrow> passed len e p = p # passed len e (p + len p)"
  "\<not> (p < e \<and> 0 < len p) \<Longrightarrow> passed len e p = []"
  using passed.simps [of len e p] by auto

lemma passed_below: "q \<in> set (passed len e p) \<Longrightarrow> q < e"
proof (induction len e p rule: passed.induct)
  case (1 len e p)
  then show ?case using passed.simps [of len e p] by (auto split: if_splits)
qed

lemma walk_passed:
  "walk len body p e s =
    Option.bind (visit body (passed len e p) s)
      (\<lambda>r. case r of Inl x \<Rightarrow> Some (Inl x) | Inr s' \<Rightarrow> walk len body (seek len (\<lambda>_. False) e p) e s')"
proof (induction len e p arbitrary: s rule: passed.induct)
  case (1 len e p)
  show ?case
  proof (cases "p < e \<and> 0 < len p")
    case False
    then show ?thesis by (auto simp: passed_reaches seek_reaches)
  next
    case True
    then have here: "p < e" "0 < len p" by auto
    show ?thesis
    proof (cases "body p s")
      case None
      with here show ?thesis by (simp add: passed_reaches walk_step)
    next
      case (Some r)
      with here 1 True show ?thesis by (cases r) (simp_all add: passed_reaches seek_reaches walk_step)
    qed
  qed
qed

text \<open>Loops that only look for something.\<close>

lemma visit_any:
  assumes "\<And>q s. q \<in> set qs \<Longrightarrow> body q s = Some (if P q then Inl () else Inr s)"
  shows "visit body qs s = Some (if \<exists>q \<in> set qs. P q then Inl () else Inr s)"
  using assms by (induction qs) auto

lemma walk_returns:
  assumes "\<And>q. p \<le> q \<Longrightarrow> q < e \<Longrightarrow> 0 < len q" and "\<And>q s. body q s \<noteq> None"
  shows "walk len body p e s \<noteq> None"
proof -
  from chain_exists [of p e len] assms(1) obtain qs where "chain len e p qs" by blast
  then have "walk len body p e s = visit body qs s" by (rule walk_chain)
  then show ?thesis using visit_returns [of qs body s] assms(2) by metis
qed

section \<open>Differences of SKUs\<close>

text \<open>The differences of one block.\<close>

definition deltas :: "pcd_env \<Rightarrow> addr \<Rightarrow> addr list" where
  "deltas E SkuDelta =
     map (\<lambda>i. SkuDelta + psize E ''PCD_DATABASE_SKU_DELTA'' + psize E ''PCD_DATA_DELTA'' * i)
       [0..<(delta_Length E SkuDelta - psize E ''PCD_DATABASE_SKU_DELTA'' + psize E ''PCD_DATA_DELTA'' - 1)
              div psize E ''PCD_DATA_DELTA'']"

lemma for_deltas_visit:
  assumes "0 < psize E ''PCD_DATA_DELTA''"
  shows "for_deltas E SkuDelta body s = visit (\<lambda>d s. Some (body d s)) (deltas E SkuDelta) s"
  unfolding for_deltas_def walk_array [OF assms] deltas_def by simp

definition delta_value :: "pcd_env \<Rightarrow> addr \<Rightarrow> u8" where
  "delta_value E DeltaData = ucast (pfld E ''PCD_DATA_DELTA'' DeltaData ''Value'')"

text \<open>Writing values at their targets, where these lie in the \<open>n\<close> bytes from \<open>p\<close> on.\<close>

definition put :: "(addr \<Rightarrow> addr) \<Rightarrow> (addr \<Rightarrow> u8) \<Rightarrow> addr \<Rightarrow> nat \<Rightarrow> addr \<Rightarrow> u8 list \<times> bool \<Rightarrow> u8 list \<times> bool" where
  "put target val p n d = (\<lambda>(buf, Result).
     if p \<le> target d \<and> target d < p + n then (buf[target d - p := val d], True) else (buf, Result))"

lemma put_apply:
  "put target val p n d (buf, Result) =
     (if p \<le> target d \<and> target d < p + n then (buf[target d - p := val d], True) else (buf, Result))"
  by (simp add: put_def)

lemma fold_put:
  assumes "n \<le> length buf"
  shows "\<exists>buf'. fold (put target val p n) ds (buf, R) = (buf', R \<or> (\<exists>d \<in> set ds. p \<le> target d \<and> target d < p + n))
    \<and> length buf' = length buf
    \<and> (\<forall>i < n. buf' ! i = (case find (\<lambda>d. target d = p + i) (rev ds) of None \<Rightarrow> buf ! i | Some d \<Rightarrow> val d))"
proof (induction ds rule: rev_induct)
  case Nil
  then show ?case by simp
next
  case (snoc d ds)
  then obtain b where b: "fold (put target val p n) ds (buf, R)
      = (b, R \<or> (\<exists>d \<in> set ds. p \<le> target d \<and> target d < p + n))" "length b = length buf"
    "\<And>i. i < n \<Longrightarrow> b ! i = (case find (\<lambda>d. target d = p + i) (rev ds) of None \<Rightarrow> buf ! i | Some d \<Rightarrow> val d)"
    by blast
  show ?case
  proof (cases "p \<le> target d \<and> target d < p + n")
    case True
    then have "(b[target d - p := val d]) ! i = (if target d = p + i then val d else b ! i)" if "i < n" for i
      using that assms b(2) by (auto simp: nth_list_update)
    with True b show ?thesis by (simp add: put_apply)
  next
    case False
    moreover from this have "target d \<noteq> p + i" if "i < n" for i using that by auto
    ultimately show ?thesis using b by (auto simp: put_apply)
  qed
qed

lemma delta_stuck:
  assumes "delta_Length E (delta_first E D) = 0"
  shows "delta_step E D (delta_first E D) = 0"
proof -
  have "ALIGN_VALUE (ALIGN_VALUE n 8) 8 = ALIGN_VALUE n 8" for n
    unfolding ALIGN_VALUE_def by simp
  with assms show ?thesis by (simp add: delta_step_def delta_first_def)
qed

definition sku_deltas :: "pcd_env \<Rightarrow> addr list \<Rightarrow> u64 \<Rightarrow> addr list" where
  "sku_deltas E blocks SkuId = concat (map (deltas E) (filter (\<lambda>b. delta_SkuId E b = SkuId) blocks))"

abbreviation blocks_at :: "pcd_env \<Rightarrow> addr \<Rightarrow> addr list \<Rightarrow> bool" where
  "blocks_at E D blocks \<equiv> chain (delta_step E D) (delta_end E D) (delta_first E D) blocks"

text \<open>
  C24: A value is reported as depending on the SKU exactly when some difference of some block behind the database lies in it.
\<close>

theorem IsSkuPcd_iff:
  assumes "0 < psize E ''PCD_DATA_DELTA''" and "db E D ''Length'' < db E D ''LengthForAllSkus''"
    and "blocks_at E D blocks"
  shows "IsSkuPcd E D DataPtr DataSize =
    Some (\<exists>SkuId. \<exists>d \<in> set (sku_deltas E blocks SkuId). delta_hits E D DataPtr DataSize d)"
proof -
  let ?hit = "\<lambda>b. \<exists>d \<in> set (deltas E b). delta_hits E D DataPtr DataSize d"
  have "for_deltas E b (\<lambda>d s. if delta_hits E D DataPtr DataSize d then Inl () else Inr s) s
      = Some (if ?hit b then Inl () else Inr s)" for b and s :: unit
    unfolding for_deltas_visit [OF assms(1)] by (rule visit_any) simp
  then have "visit (\<lambda>b. for_deltas E b (\<lambda>d s. if delta_hits E D DataPtr DataSize d then Inl () else Inr s)) blocks ()
      = Some (if \<exists>b \<in> set blocks. ?hit b then Inl () else Inr ())"
    by (rule visit_any)
  then have "IsSkuPcd E D DataPtr DataSize = Some (\<exists>b \<in> set blocks. ?hit b)"
    using assms(2) by (simp add: IsSkuPcd_def for_blocks_def walk_chain [OF assms(3)])
  then show ?thesis by (auto simp: sku_deltas_def)
qed

text \<open>
  C23: The copy of a value for a SKU has at each byte the value of the last difference of that SKU for its address,
  and the byte of the value where there is none; the result says whether any difference was applied.
\<close>

theorem CopySkuPcdData_overlay:
  assumes "0 < psize E ''PCD_DATA_DELTA''" and "db E D ''Length'' < db E D ''LengthForAllSkus''"
    and "blocks_at E D blocks" and "DataSize \<le> length DataBuffer"
  shows "\<exists>buf. CopySkuPcdData E D SkuId DataPtr DataSize DataBuffer =
      Some (buf, \<exists>d \<in> set (sku_deltas E blocks SkuId). delta_hits E D DataPtr DataSize d)
    \<and> length buf = length DataBuffer
    \<and> (\<forall>i < DataSize. buf ! i =
         (case find (\<lambda>d. delta_target E D d = DataPtr + i) (rev (sku_deltas E blocks SkuId)) of
            None \<Rightarrow> DataBuffer ! i | Some d \<Rightarrow> delta_value E d))"
proof -
  let ?put = "put (delta_target E D) (delta_value E) DataPtr DataSize"
  let ?body = "\<lambda>d (buf, Result). if delta_hits E D DataPtr DataSize d
      then Inr (buf[delta_target E D d - DataPtr := ucast (pfld E ''PCD_DATA_DELTA'' d ''Value'')], True)
      else Inr (buf, Result) :: (u8 list \<times> bool) + (u8 list \<times> bool)"
  have put: "?body d s = Inr (?put d s)" for d s
    by (cases s) (simp add: put_apply delta_hits_def delta_value_def)
  have inner: "for_deltas E b ?body s = Some (Inr (fold ?put (deltas E b) s))" for b s
    unfolding for_deltas_visit [OF assms(1)] by (rule visit_fold) (simp add: put)
  let ?f = "\<lambda>b. if delta_SkuId E b = SkuId then fold ?put (deltas E b) else id"
  let ?block = "\<lambda>b s. if delta_SkuId E b = SkuId then for_deltas E b ?body s else Some (Inr s)"
  have "visit ?block blocks s = Some (Inr (fold ?f blocks s))" for s
    by (rule visit_fold) (simp add: inner)
  moreover have "fold ?f bs s = fold ?put (sku_deltas E bs SkuId) s" for bs s
    by (induction bs arbitrary: s) (simp_all add: sku_deltas_def)
  ultimately have "CopySkuPcdData E D SkuId DataPtr DataSize DataBuffer =
      Some (fold ?put (sku_deltas E blocks SkuId) (DataBuffer, False))"
    using assms(2) by (simp add: CopySkuPcdData_def for_blocks_def walk_chain [OF assms(3)])
  with fold_put [OF assms(4), of "delta_target E D" "delta_value E" DataPtr "sku_deltas E blocks SkuId" False]
  show ?thesis by (auto simp: delta_hits_def)
qed

text \<open>
  A first block of length zero keeps the search for the differences of a value going for ever.
\<close>

theorem IsSkuPcd_zero_length:
  assumes "db E D ''Length'' < db E D ''LengthForAllSkus''" and "delta_first E D < delta_end E D"
    and "delta_Length E (delta_first E D) = 0"
  shows "IsSkuPcd E D DataPtr DataSize = None"
proof -
  have "for_blocks E D (\<lambda>b s. for_deltas E b
      (\<lambda>d s. if delta_hits E D DataPtr DataSize d then Inl () else Inr s) s) () = None"
    unfolding for_blocks_def
  proof (rule walk_stuck)
    show "delta_step E D (delta_first E D) = 0" by (rule delta_stuck) (rule assms(3))
  qed (auto simp: for_deltas_def assms)
  with assms(1) show ?thesis by (simp add: IsSkuPcd_def)
qed

section \<open>Sizes\<close>

lemma GetSizeTableIndex_length:
  "GetSizeTableIndex E n D =
     length (concat (map (\<lambda>i. if token_is E (LocalToken E D i) ''PCD_DATUM_TYPE_POINTER'' then [f i, g i] else [])
       [0..<n]))"
proof (induction n)
  case 0
  then show ?case by (simp add: GetSizeTableIndex_def)
next
  case (Suc n)
  then show ?case by (simp add: GetSizeTableIndex_def)
qed

text \<open>The size table of the pointers among the first \<open>Count\<close> tokens: the maximum and the current size of each.\<close>

definition size_entries :: "pcd_env \<Rightarrow> addr \<Rightarrow> (nat \<Rightarrow> nat) \<Rightarrow> (nat \<Rightarrow> nat) \<Rightarrow> nat \<Rightarrow> nat list" where
  "size_entries E D maximum current Count =
     concat (map (\<lambda>i. if token_is E (LocalToken E D i) ''PCD_DATUM_TYPE_POINTER''
       then [maximum i, current i] else []) [0..<Count])"

text \<open>
  C31: From a size table that has the maximum and the current size of every pointer, in the order of the tokens,
  each pointer gets back its own sizes; for a VPD the maximum is the size.
\<close>

theorem GetPtrTypeSize_entries:
  assumes "\<forall>k < length (size_entries E D maximum current Count).
      unat (entry E ''SIZE_INFO'' (D + db E D ''SizeTableOffset'') k) = size_entries E D maximum current Count ! k"
    and "Index < Count" and "token_is E (LocalToken E D Index) ''PCD_DATUM_TYPE_POINTER''"
  shows "GetPtrTypeSize E Index D =
    (if LocalToken E D Index AND pconst E ''PCD_TYPE_VPD'' \<noteq> 0 then maximum Index else current Index, maximum Index)"
proof -
  let ?f = "\<lambda>i. if token_is E (LocalToken E D i) ''PCD_DATUM_TYPE_POINTER'' then [maximum i, current i] else []"
  let ?t = "size_entries E D maximum current Count"
  have "[0..<Count] = [0..<Index] @ Index # [Suc Index..<Count]"
    using assms(2) upt_add_eq_append [of 0 Index "Count - Index"] by (simp add: upt_conv_Cons)
  then have table: "?t = concat (map ?f [0..<Index]) @ [maximum Index, current Index]
      @ concat (map ?f [Suc Index..<Count])"
    using assms(3) by (simp add: size_entries_def)
  have idx: "GetSizeTableIndex E Index D = length (concat (map ?f [0..<Index]))"
    by (rule GetSizeTableIndex_length)
  have "?t ! GetSizeTableIndex E Index D = maximum Index" "?t ! (GetSizeTableIndex E Index D + 1) = current Index"
    "GetSizeTableIndex E Index D + 1 < length ?t"
    unfolding table idx by (simp_all add: nth_append)
  with assms(1) show ?thesis by (simp add: GetPtrTypeSize_def Let_def)
qed

section \<open>The database in a volume\<close>

definition is_raw :: "pcd_env \<Rightarrow> addr \<Rightarrow> bool" where
  "is_raw E p \<longleftrightarrow> pfld E ''EFI_COMMON_SECTION_HEADER'' p ''Type'' = pconst E ''EFI_SECTION_RAW''"

definition section_step :: "pcd_env \<Rightarrow> addr \<Rightarrow> nat" where
  "section_step E p = ALIGN_VALUE (section_size E p) 4"

text \<open>The RAW sections that are passed.\<close>

definition raw_sections :: "pcd_env \<Rightarrow> addr \<Rightarrow> addr \<Rightarrow> addr list" where
  "raw_sections E e p = filter (is_raw E) (passed (section_step E) e p)"

abbreviation count_body :: "pcd_env \<Rightarrow> nat \<Rightarrow> addr \<Rightarrow> nat \<Rightarrow> ((addr \<times> nat) + nat) option" where
  "count_body E k \<equiv> \<lambda>SectionHeader Instance.
     Some (if is_raw E SectionHeader
           then (if Instance = k then Inl (SectionHeader, section_size E SectionHeader) else Inr (Instance + 1))
           else Inr Instance)"

lemma visit_count:
  "j \<le> k \<Longrightarrow> visit (count_body E k) qs j =
     Some (if k < j + length (filter (is_raw E) qs)
           then Inl (filter (is_raw E) qs ! (k - j), section_size E (filter (is_raw E) qs ! (k - j)))
           else Inr (j + length (filter (is_raw E) qs)))"
proof (induction qs arbitrary: j)
  case Nil
  then show ?case by simp
next
  case (Cons q qs)
  show ?case
  proof (cases "is_raw E q \<and> j < k")
    case True
    then have "k - j = Suc (k - Suc j)" by arith
    with True Cons.IH [of "Suc j"] show ?thesis by simp
  next
    case False
    with Cons.IH [of j] Cons.prems show ?thesis by auto
  qed
qed

text \<open>At a RAW section of length zero every instance is found.\<close>

lemma walk_count_stuck:
  assumes "p < e" "section_step E p = 0" "is_raw E p" "j \<le> k"
  shows "walk (section_step E) (count_body E k) p e j = Some (Inl (p, section_size E p))"
  using assms(4)
proof (induction "k - j" arbitrary: j)
  case 0
  with assms show ?case by (simp add: walk_step)
next
  case (Suc n)
  then have "j < k" "n = k - Suc j" by arith+
  with Suc.hyps(1) [of "Suc j"] assms show ?case by (subst walk_step) simp_all
qed

lemma GetSectionByType_instance:
  "GetSectionByType E p Size (pconst E ''EFI_SECTION_RAW'') k =
    (let raws = raw_sections E (p + Size) p; q = seek (section_step E) (\<lambda>_. False) (p + Size) p in
     if k < length raws then Some (Some (raws ! k, section_size E (raws ! k)))
     else if p + Size \<le> q then Some None
     else if is_raw E q then Some (Some (q, section_size E q)) else None)"
proof -
  let ?e = "p + Size"
  let ?q = "seek (section_step E) (\<lambda>_. False) ?e p"
  let ?raws = "raw_sections E ?e p"
  have "GetSectionByType E p Size (pconst E ''EFI_SECTION_RAW'') k
      = map_option (case_sum Some (\<lambda>_. None)) (walk (section_step E) (count_body E k) p ?e 0)"
    by (simp add: GetSectionByType_def is_raw_def section_step_def [abs_def])
  also have "walk (section_step E) (count_body E k) p ?e 0 =
      (if k < length ?raws then Some (Inl (?raws ! k, section_size E (?raws ! k)))
       else walk (section_step E) (count_body E k) ?q ?e (length ?raws))"
    by (subst walk_passed) (simp add: visit_count raw_sections_def)
  moreover have "walk (section_step E) (count_body E k) ?q ?e (length ?raws)
      = (if is_raw E ?q then Some (Inl (?q, section_size E ?q)) else None)" if "\<not> ?e \<le> ?q" "\<not> k < length ?raws"
  proof -
    have zero: "?q < ?e" "section_step E ?q = 0"
      using that seek_stands [of "section_step E" "\<lambda>_. False" ?e p] by auto
    show ?thesis
    proof (cases "is_raw E ?q")
      case True
      with zero that(2) show ?thesis by (simp add: walk_count_stuck)
    next
      case False
      with zero walk_stuck [of "section_step E" ?q ?e "count_body E k" "length ?raws"] show ?thesis by simp
    qed
  qed
  ultimately show ?thesis by (auto simp: Let_def)
qed

definition is_database :: "pcd_env \<Rightarrow> addr \<Rightarrow> bool" where
  "is_database E p \<longleftrightarrow> is_raw E p \<and>
     (let (Data, DataSize) = raw_data E (p, section_size E p) in IsDataPcdDatabase E Data DataSize)"

text \<open>A RAW section of length zero that is no database is looked at for ever.\<close>

lemma raw_instances_stuck:
  assumes "\<And>k. n \<le> k \<Longrightarrow> \<exists>sec. GetSectionByType E p Size (pconst E ''EFI_SECTION_RAW'') k = Some (Some sec)
      \<and> \<not> IsDataPcdDatabase E (fst (raw_data E sec)) (snd (raw_data E sec))"
  shows "raw_instances E p Size n = None"
proof -
  have "k < n" if ret: "raw_instances E p Size k = Some r" for k r
  proof -
    have "E = E \<longrightarrow> p = p \<longrightarrow> Size = Size \<longrightarrow> k < n"
    proof (rule raw_instances.raw_induct
        [where P = "\<lambda>E' p' Size' k r. E' = E \<longrightarrow> p' = p \<longrightarrow> Size' = Size \<longrightarrow> k < n", OF _ ret], intro impI)
      fix w E' p' Size' k r
      assume IH: "\<And>E' p' Size' k r. w E' p' Size' k = Some r \<Longrightarrow> E' = E \<longrightarrow> p' = p \<longrightarrow> Size' = Size \<longrightarrow> k < n"
        and eq: "Option.bind (GetSectionByType E' p' Size' (pconst E' ''EFI_SECTION_RAW'') k)
          (\<lambda>r. case r of None \<Rightarrow> Some None
            | Some sec \<Rightarrow>
              if IsDataPcdDatabase E' (fst (raw_data E' sec)) (snd (raw_data E' sec)) then Some (Some (raw_data E' sec))
              else w E' p' Size' (k + 1)) = Some r"
        and eqs: "E' = E" "p' = p" "Size' = Size"
      show "k < n"
      proof (rule ccontr)
        assume "\<not> k < n"
        with assms [of k] eq eqs have "w E p Size (k + 1) = Some r" by auto
        with IH \<open>\<not> k < n\<close> show False by fastforce
      qed
    qed
    then show ?thesis by simp
  qed
  then show ?thesis by (cases "raw_instances E p Size n") auto
qed

lemma raw_instances_passed:
  "raw_instances E p Size k =
    (case find (is_database E) (drop k (raw_sections E (p + Size) p)) of Some q \<Rightarrow> Some (Some (raw_data E (q, section_size E q)))
     | None \<Rightarrow>
        (let q = seek (section_step E) (\<lambda>_. False) (p + Size) p in
         if p + Size \<le> q then Some None else if is_database E q then Some (Some (raw_data E (q, section_size E q))) else None))"
proof (induction "length (raw_sections E (p + Size) p) - k" arbitrary: k rule: less_induct)
  case less
  let ?raws = "raw_sections E (p + Size) p"
  let ?q = "seek (section_step E) (\<lambda>_. False) (p + Size) p"
  note get = GetSectionByType_instance [of E p Size]
  show ?case
  proof (cases "k < length ?raws")
    case True
    then have "drop k ?raws = ?raws ! k # drop (k + 1) ?raws" by (simp add: Cons_nth_drop_Suc)
    moreover from True have "is_raw E (?raws ! k)"
      using nth_mem [OF True] by (simp add: raw_sections_def)
    ultimately show ?thesis using True less.hyps [of "k + 1"]
      by (subst raw_instances.simps) (simp add: get is_database_def Let_def split_beta)
  next
    case False
    show ?thesis
    proof (cases "?q < p + Size \<and> is_raw E ?q \<and> \<not> is_database E ?q")
      case True
      with False have "raw_instances E p Size k = None"
        by (intro raw_instances_stuck) (auto simp: get is_database_def Let_def split_beta)
      with True False show ?thesis by simp
    next
      case other: False
      with False show ?thesis
        by (subst raw_instances.simps) (auto simp: get is_database_def Let_def split_beta)
    qed
  qed
qed

lemma find_filter: "(\<And>x. Q x \<Longrightarrow> P x) \<Longrightarrow> find Q (filter P xs) = find Q xs"
  by (induction xs) auto

lemma raw_instances_seek:
  "raw_instances E p Size 0 =
    (let q = seek (section_step E) (is_database E) (p + Size) p in
     if p + Size \<le> q then Some None
     else if is_database E q then Some (Some (raw_data E (q, section_size E q))) else None)"
proof -
  let ?qs = "passed (section_step E) (p + Size) p"
  have found: "find (is_database E) (raw_sections E (p + Size) p) = find (is_database E) ?qs"
    unfolding raw_sections_def by (rule find_filter) (simp add: is_database_def)
  show ?thesis
  proof (cases "find (is_database E) ?qs")
    case None
    with found show ?thesis
      by (simp add: raw_instances_passed seek_find [where stop = "is_database E"])
  next
    case (Some q)
    then have "q \<in> set ?qs" "is_database E q" by (auto simp: find_Some_iff)
    with Some found show ?thesis
      using passed_below [of q "section_step E" "p + Size" p] by (simp add: raw_instances_passed seek_find [where stop = "is_database E"])
  qed
qed


definition free_space :: "pcd_env \<Rightarrow> addr \<Rightarrow> addr \<Rightarrow> bool" where
  "free_space E finish p \<longleftrightarrow> IsBufferErased E 1 p (min (finish - p) (psize E ''EFI_FFS_FILE_HEADER''))"

definition file_step :: "pcd_env \<Rightarrow> addr \<Rightarrow> nat" where
  "file_step E p = unat (align_32 (ffs_size E p) 8)"

text \<open>Where the search for a file stands at last.\<close>

definition file_sought :: "pcd_env \<Rightarrow> u8 list \<Rightarrow> u64 \<Rightarrow> addr \<Rightarrow> nat \<Rightarrow> addr" where
  "file_sought E g Type Fv Size =
     seek (file_step E) (\<lambda>p. free_space E (Fv + Size) p \<or> file_matches E g Type p) (Fv + Size - 1) (first_file E Fv)"

lemma walk_files_seek:
  "walk_files E g Type Fv Size =
    (let f = file_sought E g Type Fv Size in
     if Fv + Size - 1 \<le> f then Some (Inr ())
     else if free_space E (Fv + Size) f then Some (Inl None)
     else if file_matches E g Type f then Some (Inl (Some f)) else None)"
  unfolding walk_files_def file_sought_def file_step_def [abs_def]
  by (subst walk_seek [where stop = "\<lambda>p. free_space E (Fv + Size) p \<or> file_matches E g Type p"
        and found = "\<lambda>p. if free_space E (Fv + Size) p then None else Some p"])
    (auto simp: free_space_def Let_def)

lemma GetFfsByName_seek:
  assumes "is_volume E Fv"
  shows "GetFfsByName E Fv (FvLength E Fv) g Type =
    (let f = file_sought E g Type Fv (FvLength E Fv) in
     if Fv + FvLength E Fv - 1 \<le> f \<or> free_space E (Fv + FvLength E Fv) f then Some None
     else if file_matches E g Type f then Some (Some (f, ffs_size E f)) else None)"
proof (cases "Fv < Fv + FvLength E Fv - 1")
  case True
  with assms show ?thesis by (simp add: GetFfsByName_def walk_step walk_files_seek Let_def)
next
  case False
  have "Fv \<le> first_file E Fv" by (simp add: first_file_def Let_def)
  with False have "file_sought E g Type Fv (FvLength E Fv) = first_file E Fv"
    and "Fv + FvLength E Fv - 1 \<le> first_file E Fv"
    by (auto simp: file_sought_def seek_reaches)
  with False show ?thesis by (simp add: GetFfsByName_def)
qed

text \<open>
  C25: The search for a database in the image at an address is one pass over the files of the volume and
  one over the sections of the driver's file, although the code starts again for every RAW section.  The
  first pass ends at the end of the volume or at free space, and there is no database then, or at the
  driver's file.  The second ends at the end of the file, without a database, or at the first RAW section
  that has the signature, whose data it answers.  At any other file or section of size zero the code never
  returns (\<open>None\<close>), and nowhere else.
\<close>

theorem GetImagePcdDbFromAddress_finds:
  "GetImagePcdDbFromAddress E ImageGuid Fv =
    (let finish = Fv + FvLength E Fv;
         f = file_sought E ImageGuid (pconst E ''EFI_FV_FILETYPE_ALL'') Fv (FvLength E Fv);
         header = psize E (if IS_FFS_FILE2 E f then ''EFI_FFS_FILE_HEADER2'' else ''EFI_FFS_FILE_HEADER'');
         file_end = f + header + unat (ffs_size E f - of_nat header);
         q = seek (section_step E) (is_database E) file_end (f + header)
     in if \<not> is_volume E Fv \<or> finish - 1 \<le> f \<or> free_space E finish f then Some None
        else if \<not> file_matches E ImageGuid (pconst E ''EFI_FV_FILETYPE_ALL'') f then None
        else if file_end \<le> q then Some None
        else if is_database E q then Some (Some (raw_data E (q, section_size E q))) else None)"
  by (simp add: GetImagePcdDbFromAddress_def GetFfsByName_seek raw_instances_seek Let_def)

section \<open>The variable store\<close>

lemma ALIGN_VALUE_ge: "0 < a \<Longrightarrow> n \<le> ALIGN_VALUE n a"
proof -
  assume a: "0 < a"
  have "n + a - 1 < Suc ((n + a - 1) div a) * a" using a by (metis dividend_less_div_times mult_Suc add.commute)
  with a show ?thesis by (simp add: ALIGN_VALUE_def)
qed

lemma next_block_forward:
  assumes "0 < psize E ''PCD_DEFAULT_DATA.DataSize''"
  shows "Offset < next_block E N Offset"
proof -
  have "Offset < block_start E N Offset"
    using assms ALIGN_VALUE_ge [of 4 "Offset + psize E ''PCD_DEFAULT_DATA.DataSize'' + HeaderSize E (N + Offset)"]
    by (simp add: block_start_def)
  also have "\<dots> \<le> next_block E N Offset" unfolding next_block_def
    by (rule order_trans [OF _ ALIGN_VALUE_ge]) simp_all
  finally show ?thesis .
qed

lemma next_variable_forward:
  assumes "0 < psize E H"
  shows "Offset < next_variable E N H Offset"
  using assms ALIGN_VALUE_ge [of 4 "Offset + psize E H + unat (pfld E H (N + Offset) ''NameSize'')
    + unat (pfld E H (N + Offset) ''DataSize'')"]
  by (simp add: next_variable_def)

lemma for_nv_blocks_returns:
  assumes "0 < psize E ''PCD_DEFAULT_DATA.DataSize''"
  shows "for_nv_blocks E N body Offset s \<noteq> None"
  unfolding for_nv_blocks_def
  by (rule walk_returns) (use next_block_forward [OF assms] in auto)

text \<open>The structures before variables and blocks are not empty.\<close>

definition nv_sizes :: "pcd_env \<Rightarrow> bool" where
  "nv_sizes E \<longleftrightarrow> 0 < psize E ''PCD_DEFAULT_DATA.DataSize'' \<and> 0 < psize E ''VARIABLE_HEADER''
     \<and> 0 < psize E ''AUTHENTICATED_VARIABLE_HEADER''"

lemma for_variables_returns:
  assumes "nv_sizes E" and "\<And>H Offset s. body H Offset s \<noteq> None"
  shows "for_variables E N body s \<noteq> None"
proof (cases "variable_header E (N + store_offset E N)")
  case None
  then show ?thesis by (simp add: for_variables_def)
next
  case (Some H)
  with assms(1) have "0 < psize E H" by (auto simp: variable_header_def Let_def nv_sizes_def split: if_splits)
  then have "walk (\<lambda>Offset. next_variable E N H Offset - Offset)
      (\<lambda>Offset (s, _). map_option (\<lambda>s'. Inr (s', next_variable E N H Offset) :: unit + _) (body H Offset s)) a e t \<noteq> None"
    for a e t
    by (intro walk_returns) (use next_variable_forward assms(2) in \<open>auto split: prod.splits\<close>)
  with Some show ?thesis by (simp add: for_variables_def)
qed

lemma GetSkuDataFromNvStore_returns: "nv_sizes E \<Longrightarrow> GetSkuDataFromNvStore E N \<noteq> None"
  using for_variables_returns [of E "\<lambda>_ _ s. Some s" N "()"] by (auto simp: GetSkuDataFromNvStore_def)

lemma HasSkuData_returns:
  assumes "nv_sizes E"
  shows "HasSkuData E N DataPtr DataSize \<noteq> None"
proof -
  from assms have "0 < psize E ''PCD_DEFAULT_DATA.DataSize''" by (simp add: nv_sizes_def)
  note blocks = for_nv_blocks_returns [OF this]
  show ?thesis unfolding HasSkuData_def
    by (rule bind_returns [OF GetSkuDataFromNvStore_returns [OF assms]]) (simp add: blocks del: not_None_eq)
qed

lemma DumpAllSkuData_returns:
  assumes "nv_sizes E"
  shows "DumpAllSkuData E N DataPtr DataSize \<noteq> None"
proof -
  from assms have "0 < psize E ''PCD_DEFAULT_DATA.DataSize''" by (simp add: nv_sizes_def)
  note blocks = for_nv_blocks_returns [OF this]
  show ?thesis unfolding DumpAllSkuData_def
    by (rule bind_returns [OF GetSkuDataFromNvStore_returns [OF assms]]) (simp add: blocks del: not_None_eq)
qed

lemma print_variable_returns: "nv_sizes E \<Longrightarrow> print_variable E N H Offset \<noteq> None"
  unfolding print_variable_def Let_def
  by (rule bind_returns [OF HasSkuData_returns]) (simp_all add: DumpAllSkuData_returns del: not_None_eq)

text \<open>
  C32: The dump of a variable store ends whatever lengths the store states, those of its variables, of the blocks of
  differences and of their headers included.
\<close>

theorem DumpNvStore_returns:
  assumes "nv_sizes E"
  shows "\<exists>os. DumpNvStore E N NvStoreDefaultBufferSize = Some os"
proof -
  from assms have "0 < psize E ''PCD_DEFAULT_DATA.DataSize''" by (simp add: nv_sizes_def)
  note blocks = for_nv_blocks_returns [OF this]
  have vars: "for_variables E N (\<lambda>H Offset os. map_option ((@) os) (print_variable E N H Offset)) [] \<noteq> None"
    by (rule for_variables_returns [OF assms]) (simp add: print_variable_returns [OF assms] del: not_None_eq)
  have "DumpNvStore E N NvStoreDefaultBufferSize \<noteq> None"
  proof (cases "nv_signed E N")
    case False
    then show ?thesis by (simp add: DumpNvStore_def Let_def)
  next
    case True
    then show ?thesis unfolding DumpNvStore_def Let_def
      by (simp del: not_None_eq) (rule bind_returns [OF vars], simp add: blocks split: prod.splits del: not_None_eq)
  qed
  then show ?thesis by simp
qed

section \<open>The PCD protocols\<close>

text \<open>The tokens after \<open>t\<close>, as the protocol enumerates them.\<close>

fun enumerates :: "(u64 \<Rightarrow> efi_status \<times> u64) \<Rightarrow> u64 \<Rightarrow> u64 list \<Rightarrow> bool" where
  "enumerates next_token t [] \<longleftrightarrow> EFI_ERROR (fst (next_token t)) \<or> snd (next_token t) = 0"
| "enumerates next_token t (u # us) \<longleftrightarrow>
     \<not> EFI_ERROR (fst (next_token t)) \<and> snd (next_token t) = u \<and> u \<noteq> 0 \<and> enumerates next_token u us"

definition space_tokens :: "pcd_protocols \<Rightarrow> u8 list option \<Rightarrow> u64 list \<Rightarrow> bool" where
  "space_tokens Q S ts \<longleftrightarrow> enumerates (GetNextToken Q S) 0 ts \<and> (\<forall>t \<in> set ts. get_info Q S t \<noteq> None)"

fun spaces_after :: "pcd_protocols \<Rightarrow> u8 list option \<Rightarrow> (u8 list \<times> u64 list) list \<Rightarrow> bool" where
  "spaces_after Q S [] \<longleftrightarrow> EFI_ERROR (fst (GetNextTokenSpace Q S)) \<or> snd (GetNextTokenSpace Q S) = None"
| "spaces_after Q S ((g, ts) # rest) \<longleftrightarrow>
     \<not> EFI_ERROR (fst (GetNextTokenSpace Q S)) \<and> snd (GetNextTokenSpace Q S) = Some g
     \<and> space_tokens Q (Some g) ts \<and> spaces_after Q (Some g) rest"

text \<open>The lines of the tokens of a space, numbered from \<open>i\<close> on.\<close>

fun token_lines :: "pcd_env \<Rightarrow> pcd_protocols \<Rightarrow> u8 list option \<Rightarrow> nat \<Rightarrow> u64 list \<Rightarrow> out list" where
  "token_lines E Q S i [] = []"
| "token_lines E Q S i (t # ts) = DumpPcdInfo E Q i S t (the (get_info Q S t)) @ token_lines E Q S (i + 1) ts"

fun ex_token_lines :: "pcd_env \<Rightarrow> pcd_protocols \<Rightarrow> nat \<Rightarrow> (u8 list \<times> u64 list) list \<Rightarrow> out list" where
  "ex_token_lines E Q i [] = []"
| "ex_token_lines E Q i ((g, ts) # rest) =
     token_lines E Q (Some g) i ts @ ex_token_lines E Q (i + List.length ts) rest"

lemma tokens_loop_prints:
  assumes "enumerates (GetNextToken Q S) t ts" and "\<forall>t \<in> set ts. get_info Q S t \<noteq> None"
  shows "\<exists>info'. tokens_loop E Q S t i info os = Some (i + List.length ts, info', os @ token_lines E Q S i ts)"
  using assms
proof (induction ts arbitrary: t i info os)
  case Nil
  then show ?case by (subst tokens_loop.simps) (auto split: prod.splits)
next
  case (Cons u us)
  then obtain x where x: "get_info Q S u = Some x" by auto
  from Cons.prems x show ?case
    using Cons.IH [of u "i + 1" x "os @ DumpPcdInfo E Q i S u x"]
    by (subst tokens_loop.simps) (auto split: prod.splits)
qed

lemma spaces_loop_prints:
  assumes "space_tokens Q (Some g) ts" and "spaces_after Q (Some g) rest"
  shows "spaces_loop E Q (Some g) i info os = Some (os @ ex_token_lines E Q i ((g, ts) # rest))"
  using assms
proof (induction rest arbitrary: g ts i info os)
  case Nil
  then obtain info' where "tokens_loop E Q (Some g) 0 i info os
      = Some (i + List.length ts, info', os @ token_lines E Q (Some g) i ts)"
    using tokens_loop_prints by (force simp: space_tokens_def)
  with Nil show ?case by (subst spaces_loop.simps) (auto split: prod.splits)
next
  case (Cons r rest)
  obtain h us where r: "r = (h, us)" by (cases r)
  from Cons.prems obtain info' where "tokens_loop E Q (Some g) 0 i info os
      = Some (i + List.length ts, info', os @ token_lines E Q (Some g) i ts)"
    using tokens_loop_prints by (force simp: space_tokens_def)
  with Cons r show ?case by (subst spaces_loop.simps) (auto split: prod.splits)
qed

lemma local_loop_prints:
  assumes "space_tokens Q None locals" and "spaces_after Q None spaces"
  shows "spaces_loop E Q None 0 info os =
    Some (os @ [Print ''LocalToken:'' []] @ token_lines E Q None 0 locals @ [Print ''ExToken:'' []]
      @ ex_token_lines E Q 0 spaces)"
proof -
  from assms(1) obtain info' where tokens: "tokens_loop E Q None 0 0 info (os @ [Print ''LocalToken:'' []])
      = Some (List.length locals, info', (os @ [Print ''LocalToken:'' []]) @ token_lines E Q None 0 locals)"
    using tokens_loop_prints [of Q None 0 locals E 0 info "os @ [Print ''LocalToken:'' []]"]
    by (auto simp: space_tokens_def simp del: append_assoc)
  show ?thesis
  proof (cases spaces)
    case Nil
    with assms(2) tokens show ?thesis
      by (subst spaces_loop.simps) (auto simp: Let_def split: prod.splits)
  next
    case (Cons s rest)
    obtain g ts where s: "s = (g, ts)" by (cases s)
    obtain st where sp: "GetNextTokenSpace Q None = (st, Some g)" and st: "\<not> EFI_ERROR st"
      using assms(2) Cons s by (cases "GetNextTokenSpace Q None") auto
    have rest: "space_tokens Q (Some g) ts" "spaces_after Q (Some g) rest" using assms(2) Cons s by simp_all
    show ?thesis using Cons s tokens st spaces_loop_prints [OF rest, of E 0]
      by (subst spaces_loop.simps) (simp add: Let_def sp)
  qed
qed

text \<open>
  C33: With all four protocols, every local token and then every token of every token space is printed once with
  its own information, in the order of the enumeration; the numbers run on from space to space.
\<close>

theorem DumpDxePcdProtocolInfo_prints:
  assumes "\<not> EFI_ERROR (LocatePiPcd Q)" and "\<not> EFI_ERROR (LocatePiPcdInfo Q)" and "\<not> EFI_ERROR (LocatePcd Q)"
    and "\<not> EFI_ERROR (LocatePcdInfo Q)" and "space_tokens Q None locals" and "spaces_after Q None spaces"
  shows "DumpDxePcdProtocolInfo E Q =
    Some ([Print ''####################'' [], Print ''# DXE PCD Protocol #'' [], Print ''####################'' [],
           Print ''LocalToken:'' []]
      @ token_lines E Q None 0 locals @ [Print ''ExToken:'' []] @ ex_token_lines E Q 0 spaces)"
  using assms(1-4) by (simp add: DumpDxePcdProtocolInfo_def local_loop_prints [OF assms(5,6)])

section \<open>Samples\<close>

text \<open>The layouts of the headers, as far as the samples need them.\<close>

definition sample_place :: "string \<Rightarrow> string \<Rightarrow> nat \<times> nat \<times> nat \<times> nat" where
  "sample_place S F =
     (case map_of
        [((''PCD_DATABASE_INIT'', ''Length''), (20, 4, 0, 32)),
         ((''PCD_DATABASE_INIT'', ''LengthForAllSkus''), (32, 4, 0, 32)),
         ((''PCD_DATABASE_INIT'', ''LocalTokenNumberTableOffset''), (40, 4, 0, 32)),
         ((''PCD_DATABASE_INIT'', ''SizeTableOffset''), (56, 4, 0, 32)),
         ((''PCD_DATABASE_SKU_DELTA'', ''SkuId''), (0, 8, 0, 64)),
         ((''PCD_DATABASE_SKU_DELTA'', ''Length''), (16, 4, 0, 32)),
         ((''PCD_DATA_DELTA'', ''Offset''), (0, 3, 0, 24)),
         ((''PCD_DATA_DELTA'', ''Value''), (3, 1, 0, 8)),
         ((''UINT32'', ''''), (0, 4, 0, 32)),
         ((''SIZE_INFO'', ''''), (0, 4, 0, 32)),
         ((''EFI_FIRMWARE_VOLUME_HEADER'', ''FvLength''), (32, 8, 0, 64)),
         ((''EFI_FIRMWARE_VOLUME_HEADER'', ''Signature''), (40, 4, 0, 32)),
         ((''EFI_FIRMWARE_VOLUME_HEADER'', ''HeaderLength''), (48, 2, 0, 16)),
         ((''EFI_FIRMWARE_VOLUME_HEADER'', ''ExtHeaderOffset''), (52, 2, 0, 16)),
         ((''EFI_FFS_FILE_HEADER'', ''Type''), (18, 1, 0, 8)),
         ((''EFI_FFS_FILE_HEADER'', ''Attributes''), (19, 1, 0, 8)),
         ((''EFI_FFS_FILE_HEADER'', ''Size''), (20, 3, 0, 24)),
         ((''EFI_COMMON_SECTION_HEADER'', ''Size''), (0, 3, 0, 24)),
         ((''EFI_COMMON_SECTION_HEADER'', ''Type''), (3, 1, 0, 8))] (S, F)
      of None \<Rightarrow> (0, 0, 0, 0) | Some r \<Rightarrow> r)"

definition sample_layouts :: acpi_layout where
  "sample_layouts = \<lparr>
     place = sample_place,
     extent = (\<lambda>S. case map_of
        [(''PCD_DATABASE_SKU_DELTA'', 20), (''PCD_DATA_DELTA'', 4), (''UINT32'', 4), (''SIZE_INFO'', 4),
         (''EFI_FFS_FILE_HEADER'', 24), (''EFI_FFS_FILE_HEADER2'', 32), (''EFI_RAW_SECTION'', 4), (''EFI_RAW_SECTION2'', 8),
         (''PCD_DEFAULT_DATA.DataSize'', 4), (''VARIABLE_HEADER'', 32), (''AUTHENTICATED_VARIABLE_HEADER'', 60)] S
       of None \<Rightarrow> 0 | Some n \<Rightarrow> n),
     offset = (\<lambda>_ _. 0),
     code = (\<lambda>C. case map_of
        [(''PCD_DATUM_TYPE_ALL_SET'', 0xF000000), (''PCD_DATUM_TYPE_POINTER'', 0), (''PCD_TYPE_VPD'', 0x40000000),
         (''EFI_FVH_SIGNATURE'', 0x4856465F), (''FFS_ATTRIB_LARGE_FILE'', 1), (''EFI_FV_FILETYPE_ALL'', 0),
         (''EFI_SECTION_RAW'', 0x19)] C
       of None \<Rightarrow> 0 | Some v \<Rightarrow> v),
     guid_code = (\<lambda>_. []), cstr = (\<lambda>_. [])\<rparr>"

definition pcd_sample_env :: "u8 list \<Rightarrow> pcd_env" where
  "pcd_sample_env bs = \<lparr>pmem = mem_of 256 bs, layouts = sample_layouts, gPcdDataBaseSignatureGuid = replicate 16 5,
     PcdVpdBaseAddress = 0, copy_pool = (\<lambda>_. True), name16 = (\<lambda>_. [])\<rparr>"

text \<open>
  A database of 104 bytes with a VPD and another pointer, and behind it one block for SKU 2 that puts 7 at
  offset 81.
\<close>

definition pcd_sample_db :: "u32 \<Rightarrow> u8 list" where
  "pcd_sample_db BlockLength = replicate 20 0 @ [104, 0, 0, 0] @ replicate 8 0 @ [128, 0, 0, 0] @ replicate 4 0 @ [80, 0, 0, 0]
     @ replicate 12 0 @ [88, 0, 0, 0] @ replicate 20 0
     @ [0, 0, 0, 0x40, 1, 0, 0, 0] @ [9, 0, 0, 0, 9, 0, 0, 0, 8, 0, 0, 0, 4, 0, 0, 0]
     @ [2, 0, 0, 0, 0, 0, 0, 0] @ replicate 8 0 @ enc 4 (unat BlockLength) @ [81, 0, 0, 7]"

lemma sample_db_fields:
  "db (pcd_sample_env (pcd_sample_db n)) 256 ''Length'' = 104" "db (pcd_sample_env (pcd_sample_db n)) 256 ''LengthForAllSkus'' = 128"
  by code_simp+

abbreviation pcd_sample :: pcd_env where
  "pcd_sample \<equiv> pcd_sample_env (pcd_sample_db 24)"

lemma sample_blocks: "blocks_at pcd_sample 256 [360]"
  by code_simp

lemma sample_bytes:
  "bytes_at (mem_of 256 (pcd_sample_db 24)) 360 8 = [2, 0, 0, 0, 0, 0, 0, 0]"
  "bytes_at (mem_of 256 (pcd_sample_db 24)) 336 4 = [0, 0, 0, 0x40]"
  "db pcd_sample 256 ''LocalTokenNumberTableOffset'' = 80"
  by code_simp+

lemmas pcd_sample_read = pfld_def rd_def pcd_sample_env_def sample_layouts_def sample_place_def sample_bytes

lemma sample_sku: "delta_SkuId pcd_sample 360 = 2"
  unfolding delta_SkuId_def by (simp add: pcd_sample_read)

lemma sample_delta: "deltas pcd_sample 360 = [380]" "delta_target pcd_sample 256 380 = 337"
  "delta_value pcd_sample 380 = 7" "0 < psize pcd_sample ''PCD_DATA_DELTA''"
  by code_simp+

lemma sample_deltas: "sku_deltas pcd_sample [360] 2 = [380]"
  by (simp add: sku_deltas_def sample_sku sample_delta)

lemma sample_tokens: "LocalToken pcd_sample 256 0 = 0x40000000" "LocalToken pcd_sample 256 1 = 1"
proof -
  show "LocalToken pcd_sample 256 0 = 0x40000000"
    by (simp add: LocalToken_def entry_def sample_bytes(3)) (simp add: pcd_sample_read)
qed code_simp

lemma sample_pointers: "token_is pcd_sample (LocalToken pcd_sample 256 0) ''PCD_DATUM_TYPE_POINTER''"
  "token_is pcd_sample (LocalToken pcd_sample 256 1) ''PCD_DATUM_TYPE_POINTER''"
  unfolding sample_tokens by (simp_all add: token_is_def pcd_sample_env_def sample_layouts_def)

lemma sample_sizes: "map (entry pcd_sample ''SIZE_INFO'' (256 + db pcd_sample 256 ''SizeTableOffset'')) [0..<4]
    = [9, 9, 8, 4]"
  by code_simp

theorem IsSkuPcd_iff_witness: "IsSkuPcd pcd_sample 256 336 4 = Some True"
proof -
  have "380 \<in> set (sku_deltas pcd_sample [360] 2) \<and> delta_hits pcd_sample 256 336 4 380"
    by (simp add: sample_deltas sample_delta delta_hits_def)
  then show ?thesis
    using IsSkuPcd_iff [OF sample_delta(4) _ sample_blocks, of 336 4] by (auto simp: sample_db_fields)
qed

theorem CopySkuPcdData_overlay_witness:
  "CopySkuPcdData pcd_sample 256 2 336 4 [1, 2, 3, 4] = Some ([1, 7, 3, 4], True)"
proof -
  obtain buf where buf: "CopySkuPcdData pcd_sample 256 2 336 4 [1, 2, 3, 4] = Some (buf, True)" "length buf = 4"
    "\<forall>i < 4. buf ! i = (case find (\<lambda>d. delta_target pcd_sample 256 d = 336 + i) [380] of
       None \<Rightarrow> [1, 2, 3, 4] ! i | Some d \<Rightarrow> delta_value pcd_sample d)"
    using CopySkuPcdData_overlay [OF sample_delta(4) _ sample_blocks, of 4 "[1, 2, 3, 4]" 2 336]
    by (auto simp: sample_db_fields sample_deltas sample_delta delta_hits_def)
  have "buf = [buf ! 0, buf ! 1, buf ! 2, buf ! 3]"
    using buf(2) by (simp add: list_eq_iff_nth_eq less_Suc_eq numeral_eq_Suc)
  also have "\<dots> = [1, 7, 3, 4]" using buf(3) by (simp add: sample_delta)
  finally show ?thesis using buf(1) by simp
qed

theorem IsSkuPcd_zero_length_witness: "IsSkuPcd (pcd_sample_env (pcd_sample_db 0)) 256 336 4 = None"
proof (rule IsSkuPcd_zero_length)
  show "delta_first (pcd_sample_env (pcd_sample_db 0)) 256 < delta_end (pcd_sample_env (pcd_sample_db 0)) 256" by code_simp
  show "delta_Length (pcd_sample_env (pcd_sample_db 0)) (delta_first (pcd_sample_env (pcd_sample_db 0)) 256) = 0" by code_simp
qed (simp add: sample_db_fields)

theorem GetPtrTypeSize_entries_witness:
  "GetPtrTypeSize pcd_sample 0 256 = (9, 9) \<and> GetPtrTypeSize pcd_sample 1 256 = (4, 8)"
proof -
  let ?max = "\<lambda>i :: nat. if i = 0 then 9 else 8" and ?cur = "\<lambda>i :: nat. if i = 0 then 9 else 4"
  have "[0..<2] = [0, 1::nat]" by (simp add: upt_rec)
  then have table: "size_entries pcd_sample 256 ?max ?cur 2 = [9, 9, 8, 4]"
    using sample_pointers by (simp add: size_entries_def)
  have entries: "\<forall>k < length (size_entries pcd_sample 256 ?max ?cur 2).
      unat (entry pcd_sample ''SIZE_INFO'' (256 + db pcd_sample 256 ''SizeTableOffset'') k)
      = size_entries pcd_sample 256 ?max ?cur 2 ! k"
    unfolding table
  proof (intro allI impI)
    let ?e = "entry pcd_sample ''SIZE_INFO'' (256 + db pcd_sample 256 ''SizeTableOffset'')"
    fix k assume "k < length [9, 9, 8, 4 :: nat]"
    then have k: "k < 4" by simp
    then have "?e k = [9, 9, 8, 4] ! k" unfolding sample_sizes [symmetric] by simp
    moreover from k have "k = 0 \<or> k = 1 \<or> k = 2 \<or> k = 3" by auto
    ultimately show "unat (?e k) = [9, 9, 8, 4] ! k" by auto
  qed
  have vpd: "pconst pcd_sample ''PCD_TYPE_VPD'' = 0x40000000" by (simp add: pcd_sample_env_def sample_layouts_def)
  show ?thesis
    using GetPtrTypeSize_entries [OF entries, of 0] GetPtrTypeSize_entries [OF entries, of 1] sample_pointers
    by (simp add: sample_tokens vpd del: One_nat_def)
qed

text \<open>
  A volume with an empty file and one whose second section is a RAW section with a database; \<open>n\<close> is the
  size of the first section.
\<close>

definition sample_fv :: "u8 \<Rightarrow> u8 list" where
  "sample_fv n = replicate 32 0 @ [144, 0, 0, 0, 0, 0, 0, 0] @ [0x5F, 0x46, 0x56, 0x48] @ replicate 4 0 @ [56, 0] @ replicate 6 0
     @ replicate 18 0 @ [1, 0, 24, 0, 0, 0]
     @ replicate 16 3 @ [0, 0, 1, 0, 56, 0, 0, 0]
     @ [n, 0, 0, 0x10, 0, 0, 0, 0] @ [24, 0, 0, 0x19] @ replicate 16 5 @ [1, 2, 3, 4]
     @ replicate 8 0xFF"

abbreviation fv_sample :: "u8 \<Rightarrow> pcd_env" where
  "fv_sample n \<equiv> pcd_sample_env (sample_fv n)"

lemma fv_bytes: "bytes_at (mem_of 256 (sample_fv n)) 288 8 = [144, 0, 0, 0, 0, 0, 0, 0]"
  "bytes_at (mem_of 256 (sample_fv n)) 296 4 = [0x5F, 0x46, 0x56, 0x48]"
  by code_simp+

lemma fv_volume: "is_volume (fv_sample n) 256" "FvLength (fv_sample n) 256 = 144"
  unfolding is_volume_def FvLength_def by (simp_all add: pcd_sample_read fv_bytes)

lemma fv_files: "file_sought (fv_sample 6) (replicate 16 3) (pconst (fv_sample 6) ''EFI_FV_FILETYPE_ALL'') 256 144 = 336"
  "file_sought (fv_sample 6) (replicate 16 9) (pconst (fv_sample 6) ''EFI_FV_FILETYPE_ALL'') 256 144 = 392"
  "file_sought (fv_sample 0) (replicate 16 3) (pconst (fv_sample 0) ''EFI_FV_FILETYPE_ALL'') 256 144 = 336"
  by code_simp+

lemma fv_free: "\<not> free_space (fv_sample 6) 400 336" "free_space (fv_sample 6) 400 392" "\<not> free_space (fv_sample 0) 400 336"
  by code_simp+

lemma fv_matches: "file_matches (fv_sample 6) (replicate 16 3) (pconst (fv_sample 6) ''EFI_FV_FILETYPE_ALL'') 336"
  "file_matches (fv_sample 0) (replicate 16 3) (pconst (fv_sample 0) ''EFI_FV_FILETYPE_ALL'') 336"
  by code_simp+

lemma fv_sizes: "ffs_size (fv_sample 6) 336 = 56" "ffs_size (fv_sample 0) 336 = 56" "section_size (fv_sample 6) 368 = 24"
  "\<not> IS_FFS_FILE2 (fv_sample 6) 336" "\<not> IS_FFS_FILE2 (fv_sample 0) 336" "\<not> IS_SECTION2 (fv_sample 6) 368"
  "psize (fv_sample n) ''EFI_FFS_FILE_HEADER'' = 24"
  by code_simp+

lemma fv_data: "raw_data (fv_sample 6) (368, 24) = (372, 20)"
  by (simp add: raw_data_def fv_sizes) (simp add: pcd_sample_env_def sample_layouts_def)

lemma fv_raw: "\<not> is_raw (fv_sample 6) 360" "\<not> is_raw (fv_sample 0) 360" "is_raw (fv_sample 6) 368"
  "section_step (fv_sample 6) 360 = 8" "section_step (fv_sample 0) 360 = 0" "IsDataPcdDatabase (fv_sample 6) 372 20"
  by code_simp+

lemma fv_databases: "\<not> is_database (fv_sample 6) 360" "\<not> is_database (fv_sample 0) 360" "is_database (fv_sample 6) 368"
  by (simp_all add: is_database_def fv_raw fv_sizes fv_data)

lemma fv_sections: "seek (section_step (fv_sample 6)) (is_database (fv_sample 6)) 392 360 = 368"
  "seek (section_step (fv_sample 0)) (is_database (fv_sample 0)) 392 360 = 360"
  by (simp_all add: seek_reaches fv_raw fv_databases)

text \<open>A database that is found, a file that is missing, and a section of size zero.\<close>

theorem GetImagePcdDbFromAddress_finds_witness:
  "GetImagePcdDbFromAddress (fv_sample 6) (replicate 16 3) 256 = Some (Some (372, 20))
   \<and> GetImagePcdDbFromAddress (fv_sample 6) (replicate 16 9) 256 = Some None
   \<and> GetImagePcdDbFromAddress (fv_sample 0) (replicate 16 3) 256 = None"
  unfolding GetImagePcdDbFromAddress_finds
  by (simp add: fv_volume fv_files fv_free fv_matches fv_sizes fv_sections fv_databases fv_data)

theorem DumpNvStore_returns_witness: "\<exists>os. DumpNvStore pcd_sample 256 128 = Some os"
  by (rule DumpNvStore_returns) code_simp

definition sample_protocols :: pcd_protocols where
  "sample_protocols = \<lparr>LocatePiPcd = EFI_SUCCESS, LocatePiPcdInfo = EFI_SUCCESS, LocatePcd = EFI_SUCCESS,
     LocatePcdInfo = EFI_SUCCESS, get_value = (\<lambda>_ _ _. 1), GetPtr = (\<lambda>_ _. 0),
     GetNextToken = (\<lambda>S t. case S of None \<Rightarrow> (EFI_SUCCESS, if t = 0 then 3 else 0)
       | Some g \<Rightarrow> if g = [1] then (EFI_SUCCESS, if t = 0 then 7 else if t = 7 then 9 else 0) else (EFI_NOT_FOUND, t)),
     GetNextTokenSpace = (\<lambda>S. case S of None \<Rightarrow> (EFI_SUCCESS, Some [1]) | Some g \<Rightarrow> (EFI_SUCCESS, None)),
     get_info = (\<lambda>S t. Some \<lparr>PcdType = EFI_PCD_TYPE_8, PcdSize = 1, PcdName = None\<rparr>)\<rparr>"

theorem DumpDxePcdProtocolInfo_prints_witness:
  "DumpDxePcdProtocolInfo pcd_sample sample_protocols =
     Some ([Print ''####################'' [], Print ''# DXE PCD Protocol #'' [], Print ''####################'' [],
            Print ''LocalToken:'' []]
       @ token_lines pcd_sample sample_protocols None 0 [3] @ [Print ''ExToken:'' []]
       @ ex_token_lines pcd_sample sample_protocols 0 [([1], [7, 9])])"
  by (rule DumpDxePcdProtocolInfo_prints) (simp_all add: sample_protocols_def space_tokens_def)

end
