(* ===== verification/Spec2Isabelle.thy ===== *)
theory Spec2Isabelle
  imports Vtd_Check_Props Acpi_Affinity_Props Tcg_Witness Pei_Witness Mcu_Props App_Utils Reset_Count_Props
    Smm_Screen_Witness Dxe_Witness Acpi_Libraries Pcd_Props
begin

text \<open>
  Verification library for AppEfiPkg, a package of UEFI shell tools that inspect firmware and
  hardware.  The tools are independent programs.  Those with logic of their own are modelled; the
  others mostly format what a protocol returns.

  \<^bold>\<open>The program and its model.\<close>  One group of theories models one tool.  A definition has the name
  of the C function it translates; bodies of loops are definitions of their own, named after
  what they do.

  \<^item> \<^verbatim>\<open>src/AppSrc/VtdDump\<close> (theories \<open>Vtd_*\<close>).  \<open>Vtd_Env\<close>: structures and globals.  \<open>Vtd_Pci\<close>: the table
    of PCI devices of each remapping unit (\<open>RegisterPciDevice\<close>), the recursive bus scan
    (\<open>ScanPciBus\<close>) and the resolution of device scopes.  \<open>Vtd_Acpi\<close>: the search for the DMAR table.
    \<open>Vtd_Dmar\<close>: printing and parsing it into units and reserved regions.  \<open>Vtd_Check\<close>: the walk over
    the translation tables that looks for pages no driver has mapped, and the entry point.
  \<^item> \<^verbatim>\<open>src/AcpiToolPkg\<close> (\<open>Acpi_*\<close>).  \<open>Acpi_Func\<close>: the registry of dump functions and the shared
    printers; \<open>Acpi_Root\<close>: root tables, selection and command line; \<open>Acpi_Madt\<close>, \<open>Acpi_Srat\<close>: two
    tables made of variable-length structures; \<open>Acpi_Subtables\<close>: the loop they share.
    \<open>Acpi_Fadt\<close>: the five dump functions of the program itself.  The libraries for the other 43 tables:
    \<open>Acpi_Layout\<close>: fields, the frame of a dump and the loops; \<open>Acpi_Fixed\<close>: tables of fixed layout;
    \<open>Acpi_Counted\<close>: counted structures; \<open>Acpi_Walked\<close>: structures of stated lengths; \<open>Acpi_Tcpa\<close>: the
    TCPA table and its log; \<open>Acpi_Libraries\<close>: all together.
  \<^item> \<^verbatim>\<open>src/AppSrc/Tcg2DumpLog\<close> (\<open>Tcg_*\<close>).  \<open>Tcg_Events\<close>: one event; \<open>Tcg_Log\<close>: both log formats and the
    replay of the measurements into PCR values; \<open>Tcg_Acpi\<close>, \<open>Tcg_Main\<close>: the TPM2 table, files and
    the command line.
  \<^item> \<^verbatim>\<open>src/AppSrc/EdkiiCoreDatabaseDump/PeiCoreDump\<close>.  \<open>Str_Token\<close>, \<open>Support_File\<close>, \<open>Guid_Names\<close>: the
    support files; \<open>Pei_Dump\<close>, \<open>Pei_Hob\<close>: the PEI module that collects images and PPIs and writes
    them into a HOB; \<open>Pei_App\<close>: the application that reads the HOB and prints it.
  \<^item> \<^verbatim>\<open>src/AppSrc/EdkiiCoreDatabaseDump/SmmCoreDump\<close>.  \<open>Smm_Lists\<close>: the linked lists of the SMM core and the
    search for their heads; \<open>Smm_Images\<close>: the loaded images; \<open>Lay\<close>, \<open>Smm_Database\<close>: the module writes
    its database from the lists; \<open>Smm_Main\<close>: the module as a whole; \<open>Smm_Handler\<close>: the SMI handler and the
    application's end of the channel; \<open>Smm_App\<close>: the printers of the application.
  \<^item> \<^verbatim>\<open>src/AppSrc/EdkiiCoreDatabaseDump/DxeCoreDump\<close>.  \<open>Dxe_Lists\<close>: the lists of the DXE core, with
    the event queues, and the search for their heads; \<open>Dxe_Dump\<close>: the printers and the entry point.
  \<^item> \<^verbatim>\<open>src/AppSrc/PatchMicrocode\<close>.  \<open>Mcu_Cpu\<close>: what runs on the processors; \<open>Mcu\<close>: the file, its dump
    with the checksums, and the entry point.
  \<^item> \<^verbatim>\<open>src/AppSrc/ResetCountApp\<close>.  \<open>Reset_Count\<close>: the prompt, one run of the tool, and the machine that
    runs it at every boot as a step relation.
  \<^item> \<^verbatim>\<open>src/AppSrc/PcdDump\<close>.  \<open>Pcd_Database\<close>: the binary PCD database and the differences of SKUs;
    \<open>Pcd_Nv\<close>: the default variable store; \<open>Pcd_Main\<close>: HOB, files, firmware volumes, protocols and the
    command line.
  \<^item> \<^verbatim>\<open>src/Library/AppUtilsLib\<close>.  \<open>App_Utils\<close>: options and hexadecimal strings.

  \<^bold>\<open>Conventions.\<close>  Integers have the widths of the X64 build.  Addresses are natural numbers, values
  words.  Memory is a function from addresses to bytes.  What comes from EDK II or the platform
  (layouts, masks, protocols, files, registers, allocation) is a field of an environment record.
  \<open>Print\<close> calls are kept as formats with arguments, without padding, quotation marks and line
  feeds.  \<open>DEBUG\<close> output is left out and assertions are ignored, as in a release build.  \<open>None\<close> is a
  run that does not return or that reads through a null pointer or outside an array.  Loops over
  untrusted lengths are \<open>partial_function (option)\<close>, so their return is a theorem where it holds.
  The bus scan carries the depth of the recursion as fuel: 256 is enough, since the bus number has
  8 bits and only buses above the current one are entered.

  \<^bold>\<open>Interfaces.\<close>  \<open>keyed_registry\<close> (\<open>Registries\<close>): a table in which a new key is found after it was
  registered and nothing else changes, with instances \<open>table_funcs\<close> and \<open>pci\<close>.  \<open>subtable_loop\<close>
  (\<open>Acpi_Subtables\<close>): the loop of the ACPI tables, with instances \<open>madt_loop\<close> and \<open>srat_loop\<close>.
  \<open>event_log\<close> (\<open>Tcg_Props\<close>): a log as the encoding of a list of events, with instances \<open>log1\<close> and
  \<open>log2\<close>.  \<open>tokenizer\<close> (\<open>Str_Token_Props\<close>): what a tokenizer promises, with instances \<open>line_tok\<close> and
  \<open>field_tok\<close>.  \<open>dump_channel\<close> (\<open>Smm_Channel\<close>): a call that answers with the size and the pieces of a
  database, with the instance \<open>smi\<close>, the SMI handler.  \<open>structure_loop\<close> (\<open>Acpi_Layout\<close>): the loops of the
  ACPI table libraries over structures that can be dumped, with instances \<open>nfit\<close>, \<open>mcfg\<close>, \<open>lpit\<close>, \<open>pmtt\<close>
  and \<open>fpdt\<close>.

  \<^bold>\<open>What is shown.\<close>
  \<^item> \<open>Vtd_Pci_Props\<close>, \<open>Vtd_Dmar_Props\<close>, \<open>Vtd_Check_Props\<close>: device tables stay well formed; a scan
    registers every function that answers and returns on every topology whose bridges lead upwards;
    a parse makes one unit for each remapping structure and one record for each reserved region;
    the verdict of the tool is exact for the entries it looks at.
  \<^item> \<open>Acpi_Affinity_Props\<close>, \<open>Acpi_Func\<close>, \<open>Acpi_Root\<close>: which dump function is run on which table; what
    is printed of tables with known structures, and what unknown structures do to the loops.
    \<open>Acpi_Tables_Props\<close>: when the walks of the other libraries return and what they print, and the two
    that run over the end.  \<open>Acpi_Tcpa_Props\<close>: a log is printed event by event.  \<open>Acpi_Libraries\<close>: after
    the constructors every signature has the function of its library.  \<open>Acpi_Fadt\<close>: the files of the DSDT.
  \<^item> \<open>Tcg_Props\<close>, \<open>Tcg_Log_Props\<close>, \<open>Tcg_Main_Props\<close>, \<open>Tcg_Witness\<close>: an encoded log is printed event by
    event; the PCR values are the replay of the measurements; a dumped log can be parsed again.
  \<^item> \<open>Str_Token_Props\<close>, \<open>Guid_Names_Props\<close>, \<open>Pei_Props\<close>, \<open>Pei_Roundtrip\<close>, \<open>Pei_Report\<close>: tokens are the
    pieces between delimiters, the names of GUIDs refine a finite map, and the screen shows what the
    PEI core had.
  \<^item> \<open>Smm_Lists\<close>, \<open>Smm_Main\<close>: the heads of the lists are found behind the module's own nodes.
    \<open>Smm_Database_Props\<close>: the module writes exactly the structures the lists hold, of the size it
    counted.  \<open>Smm_Channel_Props\<close>: the SMI handler changes nothing in SMRAM and tells nothing of it but
    the database.  \<open>Smm_Transfer\<close>, \<open>Smm_Report\<close>, \<open>Smm_Screen\<close>: the application gets the database and
    prints it.  \<open>Smm_Images_Props\<close>: a reference is the index of the first image around an address.
  \<^item> \<open>Dxe_Report\<close>, \<open>Dxe_Screen\<close>: the tool finds the lists of the DXE core and prints exactly what they
    hold.
  \<^item> \<open>Mcu_Props\<close>: checksums of extended signatures are those of the substituted update; which
    processors are patched, and with what.
  \<^item> \<open>Reset_Count_Props\<close>: the number of boots of a run, and when the prompt ends.
  \<^item> \<open>Pcd_Props\<close>: the value of a PCD for a SKU is the default with that SKU's differences; sizes are found
    in the size table; the search for a database in a volume is one pass, which a size of zero
    stops for ever; the dump of a variable
    store ends, that of a database with an empty block of differences does not.
  \<^item> \<open>App_Utils\<close>: parsing gives back the options of a command line.

  \<^bold>\<open>Not modelled.\<close>  The tools that only format what one protocol or table returns (AtaInfo, ScsiInfo,
  UsbInfo and others), the samples of \<^verbatim>\<open>AppEfiFromOsPkg\<close>, and code that is
  compiled out of a release build.

  The theories \<open>Vtd_Sample\<close> and \<open>*_Witness\<close> hold concrete platforms at which the theorems apply.
\<close>

end
